(* ===== verification/Prelude.thy ===== *)
theory Prelude
  imports Main "HOL-Library.Word"
begin

text \<open>
  Shared vocabulary of the development: the machine integers of the C code, block
  memory addressed by opaque pointers, the arithmetic of ring indices, and small facts
  on options, lists and words that the component theories use.
\<close>

section \<open>Machine integers\<close>

type_synonym u8 = "8 word"
type_synonym u16 = "16 word"
type_synonym u32 = "32 word"
type_synonym u64 = "64 word"

text \<open>Rewrite rules that evaluate the model on concrete inputs.\<close>

named_theorems eval_simps

lemma unat_Suc_less:
  fixes a b :: "'a::len word"
  assumes "a < b"
  shows "unat (a + 1) = Suc (unat a)"
proof -
  have "unat a < unat b" using assms by (simp add: word_less_nat_alt)
  then have "Suc (unat a) < 2 ^ LENGTH('a)"
    using unsigned_less [of b] by (metis Suc_lessI less_trans_Suc order_less_trans)
  then show ?thesis by (simp add: unat_word_ariths)
qed

lemma unat_add_of_sum_less:
  fixes a b :: "'a::len word"
  assumes "unat a + unat b < 2 ^ LENGTH('a)"
  shows "unat (a + b) = unat a + unat b"
  using assms by (simp add: unat_word_ariths)

lemma unat_diff_of_le:
  fixes a b :: "'a::len word"
  assumes "b \<le> a"
  shows "unat (a - b) = unat a - unat b"
  using assms by (rule unat_sub)

lemma shift_mod_double:
  fixes x m :: int
  assumes "0 \<le> x" "x < 2 * m"
  shows "(x + m) mod (2 * m) = (if x < m then x + m else x - m)"
proof (cases "x < m")
  case False
  have "(x + m) mod (2 * m) = (x - m + 2 * m) mod (2 * m)" by (simp add: add.commute)
  also have "\<dots> = x - m" using assms False by (subst mod_add_self2) (simp add: mod_pos_pos_trivial)
  finally show ?thesis using False by simp
qed (use assms in simp)

lemma sint_cases:
  fixes w :: "'a::len word"
  shows "sint w = (if unat w < 2 ^ (LENGTH('a) - 1) then int (unat w) else int (unat w) - 2 ^ LENGTH('a))"
proof -
  have len: "Suc (LENGTH('a) - 1) = LENGTH('a)" by simp
  then have pow: "(2 :: int) ^ LENGTH('a) = 2 * 2 ^ (LENGTH('a) - 1)" by (metis power_Suc)
  have "unat w < 2 ^ LENGTH('a)" by (rule unsigned_less)
  then have u: "uint w = int (unat w)" "int (unat w) < 2 ^ LENGTH('a)" by simp_all
  have "sint w = (int (unat w) + 2 ^ (LENGTH('a) - 1)) mod 2 ^ LENGTH('a) - 2 ^ (LENGTH('a) - 1)"
    using u(1) len by (simp add: sint_uint signed_take_bit_eq_take_bit_shift take_bit_eq_mod)
  moreover have "unat w < 2 ^ (LENGTH('a) - 1) \<longleftrightarrow> int (unat w) < 2 ^ (LENGTH('a) - 1)"
    by (metis of_nat_less_iff of_nat_numeral of_nat_power)
  moreover have "(int (unat w) + 2 ^ (LENGTH('a) - 1)) mod 2 ^ LENGTH('a)
      = (if int (unat w) < 2 ^ (LENGTH('a) - 1) then int (unat w) + 2 ^ (LENGTH('a) - 1)
         else int (unat w) - 2 ^ (LENGTH('a) - 1))"
    unfolding pow by (rule shift_mod_double) (use u(2) pow in simp_all)
  ultimately show ?thesis using pow by auto
qed

section \<open>Options\<close>

lemma bind_Some_iff: "Option.bind x f = Some y \<longleftrightarrow> (\<exists>a. x = Some a \<and> f a = Some y)"
  by (cases x) auto

lemma bind_Some_simp [simp]: "Option.bind (Some a) f = f a"
  by simp

section \<open>Block memory\<close>

text \<open>A pointer to an array of the shared memory is an opaque value; an access outside of
  an array, or through a pointer that names no array, is the fault \<open>None\<close>.\<close>

type_synonym ('p, 'a) mem = "'p \<rightharpoonup> 'a list"

definition mem_load :: "('p, 'a) mem \<Rightarrow> 'p \<Rightarrow> nat \<Rightarrow> 'a option" where
  "mem_load m p i = (case m p of None \<Rightarrow> None
     | Some xs \<Rightarrow> if i < length xs then Some (xs ! i) else None)"

definition mem_store :: "('p, 'a) mem \<Rightarrow> 'p \<Rightarrow> nat \<Rightarrow> 'a \<Rightarrow> ('p, 'a) mem option" where
  "mem_store m p i v = (case m p of None \<Rightarrow> None
     | Some xs \<Rightarrow> if i < length xs then Some (m(p \<mapsto> xs[i := v])) else None)"

lemma mem_load_eq [simp]:
  "m p = Some xs \<Longrightarrow> i < length xs \<Longrightarrow> mem_load m p i = Some (xs ! i)"
  by (simp add: mem_load_def)

lemma mem_store_eq [simp]:
  "m p = Some xs \<Longrightarrow> i < length xs \<Longrightarrow> mem_store m p i v = Some (m(p \<mapsto> xs[i := v]))"
  by (simp add: mem_store_def)

section \<open>Ring indices\<close>

text \<open>The \<open>n\<close> live cells of a ring of \<open>s\<close> cells, from the reading index \<open>g\<close> on.\<close>

definition ring_list :: "nat \<Rightarrow> nat \<Rightarrow> nat \<Rightarrow> 'a list \<Rightarrow> 'a list" where
  "ring_list s g n xs = map (\<lambda>k. xs ! ((g + k) mod s)) [0..<n]"

definition ring_level :: "nat \<Rightarrow> nat \<Rightarrow> nat \<Rightarrow> nat" where
  "ring_level s g p = (if g \<le> p then p - g else s + p - g)"

lemma length_ring_list [simp]: "length (ring_list s g n xs) = n"
  by (simp add: ring_list_def)

lemma ring_list_0 [simp]: "ring_list s g 0 xs = []"
  by (simp add: ring_list_def)

lemma ring_index_inj:
  fixes g i j s :: nat
  assumes "i < s" "j < s" "(g + i) mod s = (g + j) mod s"
  shows "i = j"
proof -
  have "a = b" if "a \<le> b" "b < s" "(g + a) mod s = (g + b) mod s" for a b :: nat
  proof -
    have "s dvd (g + b) - (g + a)"
      using that(3) by (metis mod_eq_dvd_iff_nat add_le_cancel_left that(1))
    then have "b - a = 0"
      using that(2) by (metis diff_add_inverse diff_diff_left dvd_imp_mod_0 mod_less less_imp_diff_less)
    then show "a = b" using that(1) by simp
  qed
  then show ?thesis using assms by (metis nle_le)
qed

lemma ring_list_snoc:
  assumes "n < s" "s \<le> length xs"
  shows "ring_list s g (Suc n) (xs[(g + n) mod s := x]) = ring_list s g n xs @ [x]"
proof -
  have pos: "(g + n) mod s < length xs"
    using assms by (metis mod_less_divisor order_less_le_trans not_less_zero not_gr_zero)
  have other: "xs[(g + n) mod s := x] ! ((g + k) mod s) = xs ! ((g + k) mod s)" if "k < n" for k
  proof -
    have "(g + n) mod s \<noteq> (g + k) mod s"
      using ring_index_inj [of n s k g] that assms by auto
    then show ?thesis by simp
  qed
  then have "map (\<lambda>k. xs[(g + n) mod s := x] ! ((g + k) mod s)) [0..<n] = ring_list s g n xs"
    by (simp add: ring_list_def)
  then show ?thesis using pos by (simp add: ring_list_def)
qed

lemma ring_list_Cons:
  "ring_list s g (Suc n) xs = xs ! (g mod s) # ring_list s (Suc g mod s) n xs"
proof -
  have "map (\<lambda>k. xs ! ((g + k) mod s)) [0..<Suc n]
      = xs ! (g mod s) # map (\<lambda>k. xs ! ((g + Suc k) mod s)) [0..<n]"
    by (simp add: upt_conv_Cons map_Suc_upt [symmetric] comp_def del: upt_Suc)
  moreover have "(g + Suc k) mod s = (Suc g mod s + k) mod s" for k
    by (simp add: mod_add_left_eq)
  ultimately show ?thesis by (simp only: ring_list_def)
qed

lemma ring_level_less: "g < s \<Longrightarrow> p < s \<Longrightarrow> ring_level s g p < s"
  by (auto simp: ring_level_def)

lemma ring_level_put: "g < s \<Longrightarrow> p < s \<Longrightarrow> (g + ring_level s g p) mod s = p"
  by (auto simp: ring_level_def)

lemma ring_next_eq: "i < s \<Longrightarrow> (if s \<le> Suc i then 0 else Suc i) = Suc i mod s"
  by (auto simp: le_Suc_eq)

lemma ring_level_0_iff: "g < s \<Longrightarrow> p < s \<Longrightarrow> ring_level s g p = 0 \<longleftrightarrow> p = g"
  by (auto simp: ring_level_def)

lemma ring_full_iff:
  "g < s \<Longrightarrow> p < s \<Longrightarrow> Suc p mod s = g \<longleftrightarrow> Suc (ring_level s g p) = s"
  by (cases "Suc p = s") (auto simp: ring_level_def)

lemma ring_level_enq:
  "g < s \<Longrightarrow> p < s \<Longrightarrow> Suc p mod s \<noteq> g \<Longrightarrow> ring_level s g (Suc p mod s) = Suc (ring_level s g p)"
  by (cases "Suc p = s") (auto simp: ring_level_def)

lemma ring_level_deq:
  "g < s \<Longrightarrow> p < s \<Longrightarrow> p \<noteq> g \<Longrightarrow> Suc (ring_level s (Suc g mod s) p) = ring_level s g p"
  by (cases "Suc g = s") (auto simp: ring_level_def)

lemma unat_ring_next:
  fixes i s :: "'a::len word"
  assumes "i < s"
  shows "unat (if s \<le> i + 1 then 0 else i + 1) = Suc (unat i) mod unat s"
  using assms ring_next_eq [of "unat i" "unat s"]
  by (auto simp: word_le_nat_alt word_less_nat_alt unat_Suc_less [OF assms])

lemma unat_ring_next_eq:
  fixes i s :: "'a::len word"
  assumes "i < s"
  shows "unat (if i + 1 = s then 0 else i + 1) = Suc (unat i) mod unat s"
proof -
  have "i + 1 = s \<longleftrightarrow> s \<le> i + 1"
    using assms unat_Suc_less [OF assms]
    by (auto simp: word_le_nat_alt word_less_nat_alt word_unat_eq_iff)
  then show ?thesis using unat_ring_next [OF assms] by simp
qed

end
