(* ===== verification/Bounded_Fifo.thy ===== *)
theory Bounded_Fifo
  imports Prelude
begin

text \<open>
  The interface of a bounded first-in first-out queue: what the users of the ring buffers
  of \<open>wls_lib/syslib.c\<close> rely on.  An operation works on a state that holds the queue and
  the memory its storage lies in, and is \<open>None\<close> when it would touch memory outside of the
  storage.  The locale states the laws against a list; the theorems in it say what any
  sequence of operations returns.  \<open>Wls_Queue\<close> interprets it for both rings.
\<close>

section \<open>Sequences of queue operations\<close>

datatype 'a fifo_op = Enq 'a | Deq

datatype 'a fifo_out = Accepted bool | Taken "'a option"

fun run_fifo ::
  "('a \<Rightarrow> 's \<Rightarrow> (bool \<times> 's) option) \<Rightarrow> ('s \<Rightarrow> ('a option \<times> 's) option)
   \<Rightarrow> 'a fifo_op list \<Rightarrow> 's \<Rightarrow> ('a fifo_out list \<times> 's) option" where
  "run_fifo enq deq [] s = Some ([], s)"
| "run_fifo enq deq (Enq x # ops) s =
     (case enq x s of None \<Rightarrow> None
      | Some (b, s') \<Rightarrow> map_option (\<lambda>(os, t). (Accepted b # os, t)) (run_fifo enq deq ops s'))"
| "run_fifo enq deq (Deq # ops) s =
     (case deq s of None \<Rightarrow> None
      | Some (r, s') \<Rightarrow> map_option (\<lambda>(os, t). (Taken r # os, t)) (run_fifo enq deq ops s'))"

text \<open>The same on a list that holds at most \<open>c\<close> items.\<close>

fun list_fifo :: "nat \<Rightarrow> 'a fifo_op list \<Rightarrow> 'a list \<Rightarrow> 'a fifo_out list \<times> 'a list" where
  "list_fifo c [] xs = ([], xs)"
| "list_fifo c (Enq x # ops) xs =
     (let ok = length xs < c;
          (os, ys) = list_fifo c ops (if ok then xs @ [x] else xs)
      in (Accepted ok # os, ys))"
| "list_fifo c (Deq # ops) xs =
     (let (os, ys) = list_fifo c ops (tl xs)
      in (Taken (if xs = [] then None else Some (hd xs)) # os, ys))"

definition enqs :: "'a fifo_op list \<Rightarrow> 'a set" where
  "enqs ops = {x. Enq x \<in> set ops}"

lemma enqs_simps [simp]:
  "enqs [] = {}" "enqs (Enq x # ops) = insert x (enqs ops)" "enqs (Deq # ops) = enqs ops"
  by (auto simp: enqs_def)

text \<open>What a run accepted and what it handed out, in order.\<close>

fun accepted :: "'a fifo_op list \<Rightarrow> 'a fifo_out list \<Rightarrow> 'a list" where
  "accepted (Enq x # ops) (Accepted True # os) = x # accepted ops os"
| "accepted (op # ops) (out # os) = accepted ops os"
| "accepted ops os = []"

fun taken :: "'a fifo_out list \<Rightarrow> 'a list" where
  "taken (Taken (Some x) # os) = x # taken os"
| "taken (out # os) = taken os"
| "taken [] = []"

lemma list_fifo_order:
  "list_fifo c ops xs = (os, ys) \<Longrightarrow> xs @ accepted ops os = taken os @ ys"
proof (induction c ops xs arbitrary: os ys rule: list_fifo.induct)
  case (2 c x ops xs)
  then show ?case by (auto simp: Let_def split: prod.splits if_splits)
next
  case (3 c ops xs)
  then show ?case by (cases xs) (auto simp: Let_def split: prod.splits if_splits)
qed simp

lemma list_fifo_bound:
  "list_fifo c ops xs = (os, ys) \<Longrightarrow> length xs \<le> c \<Longrightarrow> length ys \<le> c"
proof (induction c ops xs arbitrary: os ys rule: list_fifo.induct)
  case (2 c x ops xs)
  then show ?case by (auto simp: Let_def split: prod.splits if_splits)
next
  case (3 c ops xs)
  then show ?case by (auto simp: Let_def split: prod.splits if_splits)
qed simp

section \<open>The interface\<close>

locale bounded_fifo =
  fixes inv :: "'s \<Rightarrow> bool"
    and items :: "'s \<Rightarrow> 'a list"
    and capacity :: "'s \<Rightarrow> nat"
    and level :: "'s \<Rightarrow> nat"
    and valid :: "'a \<Rightarrow> bool"
    and enq :: "'a \<Rightarrow> 's \<Rightarrow> (bool \<times> 's) option"
    and deq :: "'s \<Rightarrow> ('a option \<times> 's) option"
  assumes items_bound: "inv s \<Longrightarrow> length (items s) \<le> capacity s"
    and level_items: "inv s \<Longrightarrow> level s = length (items s)"
    and enq_room: "inv s \<Longrightarrow> valid x \<Longrightarrow> length (items s) < capacity s \<Longrightarrow>
          \<exists>s'. enq x s = Some (True, s') \<and> inv s' \<and> items s' = items s @ [x]
               \<and> capacity s' = capacity s"
    and enq_full: "inv s \<Longrightarrow> capacity s \<le> length (items s) \<Longrightarrow> enq x s = Some (False, s)"
    and deq_empty: "inv s \<Longrightarrow> items s = [] \<Longrightarrow> deq s = Some (None, s)"
    and deq_item: "inv s \<Longrightarrow> items s = x # xs \<Longrightarrow>
          \<exists>s'. deq s = Some (Some x, s') \<and> inv s' \<and> items s' = xs \<and> capacity s' = capacity s"
begin

text \<open>Any sequence of operations runs without a fault and answers as the bounded list.\<close>

lemma run_refines:
  assumes "inv s" "\<forall>x\<in>enqs ops. valid x"
  shows "\<exists>s'. run_fifo enq deq ops s = Some (fst (list_fifo (capacity s) ops (items s)), s')
      \<and> inv s' \<and> items s' = snd (list_fifo (capacity s) ops (items s)) \<and> capacity s' = capacity s"
  using assms
proof (induction ops arbitrary: s)
  case Nil
  then show ?case by simp
next
  case (Cons op ops)
  show ?case
  proof (cases op)
    case [simp]: (Enq x)
    show ?thesis
    proof (cases "length (items s) < capacity s")
      case True
      then obtain t where "enq x s = Some (True, t)" "inv t" "items t = items s @ [x]"
          "capacity t = capacity s"
        using enq_room Cons.prems by fastforce
      then show ?thesis using Cons.IH [of t] Cons.prems True by (auto split: prod.splits)
    next
      case False
      then have "enq x s = Some (False, s)" using enq_full Cons.prems by simp
      then show ?thesis using Cons.IH [of s] Cons.prems False by (auto split: prod.splits)
    qed
  next
    case [simp]: Deq
    show ?thesis
    proof (cases "items s")
      case Nil
      then have "deq s = Some (None, s)" using deq_empty Cons.prems by simp
      then show ?thesis using Cons.IH [of s] Cons.prems Nil by (auto split: prod.splits)
    next
      case (Cons x xs)
      then obtain t where "deq s = Some (Some x, t)" "inv t" "items t = xs"
          "capacity t = capacity s"
        using deq_item Cons.prems by blast
      then show ?thesis using Cons.IH [of t] \<open>\<forall>x\<in>enqs (op # ops). valid x\<close> Cons
        by (auto split: prod.splits)
    qed
  qed
qed

text \<open>Nothing is lost, duplicated or reordered: what was in the queue and what it
  accepted is what it handed out followed by what it still holds.\<close>

lemma run_in_order:
  assumes "inv s" "\<forall>x\<in>enqs ops. valid x" "run_fifo enq deq ops s = Some (os, s')"
  shows "items s @ accepted ops os = taken os @ items s'" "inv s'"
    "length (items s') \<le> capacity s"
proof -
  obtain t where t: "run_fifo enq deq ops s = Some (fst (list_fifo (capacity s) ops (items s)), t)"
      "inv t" "items t = snd (list_fifo (capacity s) ops (items s))" "capacity t = capacity s"
    using run_refines assms by blast
  then have eq: "t = s'" "list_fifo (capacity s) ops (items s) = (os, items s')"
    using assms(3) by (auto simp: prod_eq_iff)
  show "items s @ accepted ops os = taken os @ items s'"
    using list_fifo_order eq(2) by blast
  show "inv s'" using t(2) eq(1) by simp
  show "length (items s') \<le> capacity s" using items_bound [OF t(2)] t(4) eq(1) by simp
qed

end


section \<open>Moving items between two queues\<close>

text \<open>The loop that moves up to \<open>n\<close> items: an item the destination refuses goes back to the
  source, at its tail, and ends the loop.\<close>

fun transfer_loop ::
  "('s \<Rightarrow> ('a option \<times> 's) option) \<Rightarrow> ('a \<Rightarrow> 's \<Rightarrow> (bool \<times> 's) option)
   \<Rightarrow> ('a \<Rightarrow> 's \<Rightarrow> (bool \<times> 's) option) \<Rightarrow> nat \<Rightarrow> 's \<Rightarrow> (int \<times> 's) option" where
  "transfer_loop sd de se 0 s = Some (0, s)"
| "transfer_loop sd de se (Suc n) s =
     Option.bind (sd s) (\<lambda>(r, s).
     case r of
       None \<Rightarrow> Some (-1, s)
     | Some x \<Rightarrow>
         Option.bind (de x s) (\<lambda>(sent, s).
         if sent then transfer_loop sd de se n s
         else Option.bind (se x s) (\<lambda>(back, s). Some (if back then 0 else -1, s))))"

locale fifo_transfer =
  src: bounded_fifo inv src_items src_cap src_level "\<lambda>_. True" src_enq src_deq +
  dst: bounded_fifo inv dst_items dst_cap dst_level "\<lambda>_. True" dst_enq dst_deq
  for inv :: "'s \<Rightarrow> bool"
    and src_items :: "'s \<Rightarrow> 'a list" and src_cap src_level src_enq src_deq
    and dst_items :: "'s \<Rightarrow> 'a list" and dst_cap dst_level dst_enq dst_deq +
  assumes src_deq_frame: "inv s \<Longrightarrow> src_deq s = Some (r, s') \<Longrightarrow>
        dst_items s' = dst_items s \<and> dst_cap s' = dst_cap s"
    and src_enq_frame: "inv s \<Longrightarrow> src_enq x s = Some (b, s') \<Longrightarrow>
        dst_items s' = dst_items s \<and> dst_cap s' = dst_cap s"
    and dst_enq_frame: "inv s \<Longrightarrow> dst_enq x s = Some (b, s') \<Longrightarrow>
        src_items s' = src_items s \<and> src_cap s' = src_cap s"
begin

lemma deq_src:
  assumes "inv s" "src_items s = x # xs"
  obtains s' where "src_deq s = Some (Some x, s')" "inv s'" "src_items s' = xs"
    "src_cap s' = src_cap s" "dst_items s' = dst_items s" "dst_cap s' = dst_cap s"
  using src.deq_item [OF assms] src_deq_frame assms by blast

lemma enq_src:
  assumes "inv s" "length (src_items s) < src_cap s"
  obtains s' where "src_enq x s = Some (True, s')" "inv s'" "src_items s' = src_items s @ [x]"
    "src_cap s' = src_cap s" "dst_items s' = dst_items s" "dst_cap s' = dst_cap s"
  using src.enq_room [OF assms(1) TrueI assms(2)] src_enq_frame assms by blast

lemma enq_dst:
  assumes "inv s" "length (dst_items s) < dst_cap s"
  obtains s' where "dst_enq x s = Some (True, s')" "inv s'" "dst_items s' = dst_items s @ [x]"
    "dst_cap s' = dst_cap s" "src_items s' = src_items s" "src_cap s' = src_cap s"
  using dst.enq_room [OF assms(1) TrueI assms(2)] dst_enq_frame assms by blast

lemma transfer_fits:
  assumes "inv s" "n \<le> length (src_items s)" "length (dst_items s) + n \<le> dst_cap s"
  shows "\<exists>s'. transfer_loop src_deq dst_enq src_enq n s = Some (0, s') \<and> inv s'
      \<and> dst_items s' = dst_items s @ take n (src_items s) \<and> src_items s' = drop n (src_items s)
      \<and> src_cap s' = src_cap s \<and> dst_cap s' = dst_cap s"
  using assms
proof (induction n arbitrary: s)
  case (Suc n)
  then obtain x xs where items: "src_items s = x # xs" by (cases "src_items s") auto
  obtain t where t: "src_deq s = Some (Some x, t)" "inv t" "src_items t = xs"
      "src_cap t = src_cap s" "dst_items t = dst_items s" "dst_cap t = dst_cap s"
    using deq_src [OF Suc.prems(1) items] .
  then have "length (dst_items t) < dst_cap t" using Suc.prems by simp
  then obtain u where u: "dst_enq x t = Some (True, u)" "inv u" "dst_items u = dst_items t @ [x]"
      "dst_cap u = dst_cap t" "src_items u = src_items t" "src_cap u = src_cap t"
    using enq_dst [OF t(2)] by blast
  show ?case using Suc.IH [OF u(2)] Suc.prems t u items by simp
qed simp

lemma transfer_full:
  assumes "inv s" "src_items s = x # xs" "dst_cap s \<le> length (dst_items s)"
  shows "\<exists>s'. transfer_loop src_deq dst_enq src_enq (Suc n) s = Some (0, s') \<and> inv s'
      \<and> dst_items s' = dst_items s \<and> src_items s' = xs @ [x]
      \<and> src_cap s' = src_cap s \<and> dst_cap s' = dst_cap s"
proof -
  obtain t where t: "src_deq s = Some (Some x, t)" "inv t" "src_items t = xs"
      "src_cap t = src_cap s" "dst_items t = dst_items s" "dst_cap t = dst_cap s"
    using deq_src [OF assms(1,2)] .
  then have "dst_enq x t = Some (False, t)" using dst.enq_full assms by simp
  moreover have "length (src_items t) < src_cap t"
    using src.items_bound [OF assms(1)] assms(2) t by simp
  then obtain u where "src_enq x t = Some (True, u)" "inv u" "src_items u = src_items t @ [x]"
      "src_cap u = src_cap t" "dst_items u = dst_items t" "dst_cap u = dst_cap t"
    using enq_src [OF t(2)] by blast
  ultimately show ?thesis using t by simp
qed

lemma transfer_blocked:
  assumes "inv s" "r = dst_cap s - length (dst_items s)" "r < n" "n \<le> length (src_items s)"
  shows "\<exists>s'. transfer_loop src_deq dst_enq src_enq n s = Some (0, s') \<and> inv s'
      \<and> dst_items s' = dst_items s @ take r (src_items s)
      \<and> src_items s' = drop (Suc r) (src_items s) @ [src_items s ! r]
      \<and> src_cap s' = src_cap s \<and> dst_cap s' = dst_cap s"
  using assms
proof (induction r arbitrary: s n)
  case 0
  obtain x xs where items: "src_items s = x # xs" using 0 by (cases "src_items s") auto
  obtain k where n: "n = Suc k" using 0 by (cases n) auto
  show ?case using transfer_full [OF 0(1) items, of k] 0 items n by simp
next
  case (Suc r)
  obtain x xs where items: "src_items s = x # xs" using Suc by (cases "src_items s") auto
  obtain k where n: "n = Suc k" using Suc by (cases n) auto
  obtain t where t: "src_deq s = Some (Some x, t)" "inv t" "src_items t = xs"
      "src_cap t = src_cap s" "dst_items t = dst_items s" "dst_cap t = dst_cap s"
    using deq_src [OF Suc.prems(1) items] .
  then have "length (dst_items t) < dst_cap t" using Suc.prems by simp
  then obtain u where u: "dst_enq x t = Some (True, u)" "inv u" "dst_items u = dst_items t @ [x]"
      "dst_cap u = dst_cap t" "src_items u = src_items t" "src_cap u = src_cap t"
    using enq_dst [OF t(2)] by blast
  have r: "r = dst_cap u - length (dst_items u)" "r < k" "k \<le> length (src_items u)"
    using Suc.prems t u items n by simp_all
  show ?case using Suc.IH [OF u(2) r] t u items n by (simp flip: Suc.prems(2))
qed

end

end
