(* ===== verification/Wls_Queue.thy ===== *)
theory Wls_Queue
  imports Bounded_Fifo
begin

text \<open>
  The two ring buffers of \<open>wls_lib/syslib.c\<close>: \<open>FASTQUEUE\<close> (64-bit words) and
  \<open>WLS_MSG_QUEUE\<close> (message handles).  Both keep one cell free, so a ring of \<open>size\<close> cells
  holds \<open>size - 1\<close> items.  \<open>pStorage\<close> is an opaque pointer into block memory, which the
  caller may translate with \<open>change_addr\<close>.  Each ring implements the interface
  \<open>bounded_fifo\<close>.
\<close>

section \<open>Data\<close>

record WLS_MSG_HANDLE =
  pIaPaMsg :: u64
  pWlsPaMsg :: u32
  MsgSize :: u32
  TypeID :: u16
  flags :: u16
  res1 :: u32

record 'p FASTQUEUE =
  fq_pStorage :: 'p
  fq_BlockSize :: u32
  fq_sema :: u32
  fq_get :: u32
  fq_put :: u32
  fq_size :: u32
  fq_res :: u32

record 'p WLS_MSG_QUEUE =
  mq_pStorage :: 'p
  mq_sema :: u32
  mq_get :: u32
  mq_put :: u32
  mq_size :: u32

text \<open>\<open>wls_us_addr_conv\<close>: a function pointer, possibly NULL, applied to the handle \<open>hWls\<close>
  and the storage address.\<close>

definition local_storage :: "('h \<Rightarrow> 'p \<Rightarrow> 'p) option \<Rightarrow> 'h \<Rightarrow> 'p \<Rightarrow> 'p" where
  "local_storage change_addr hWls p = (case change_addr of None \<Rightarrow> p | Some f \<Rightarrow> f hWls p)"

lemma local_storage_None [simp]: "local_storage None h p = p"
  by (simp add: local_storage_def)

lemma local_storage_Some [simp]: "local_storage (Some f) h p = f h p"
  by (simp add: local_storage_def)

section \<open>The fast queue\<close>

definition SFL_DefQueue :: "'p \<Rightarrow> u32 \<Rightarrow> 'p FASTQUEUE" where
  "SFL_DefQueue pStorage StorageSize =
     \<lparr> fq_pStorage = pStorage, fq_BlockSize = 0, fq_sema = 0, fq_get = 0, fq_put = 0,
       fq_size = signed_drop_bit 3 StorageSize, fq_res = 0 \<rparr>"

definition SFL_WlsEnqueue ::
  "'p FASTQUEUE \<Rightarrow> u64 \<Rightarrow> ('h \<Rightarrow> 'p \<Rightarrow> 'p) option \<Rightarrow> 'h \<Rightarrow> ('p, u64) mem
   \<Rightarrow> (bool \<times> 'p FASTQUEUE \<times> ('p, u64) mem) option" where
  "SFL_WlsEnqueue pq pData change_addr hWls m =
     (let put = fq_put pq;
          new_put = put + 1;
          new_put = (if new_put \<ge> fq_size pq then 0 else new_put)
      in if new_put \<noteq> fq_get pq then
           Option.bind (mem_store m (local_storage change_addr hWls (fq_pStorage pq)) (unat put) pData)
             (\<lambda>m'. Some (True, pq\<lparr>fq_put := new_put\<rparr>, m'))
         else Some (False, pq, m))"

definition SFL_WlsDequeue ::
  "'p FASTQUEUE \<Rightarrow> ('h \<Rightarrow> 'p \<Rightarrow> 'p) option \<Rightarrow> 'h \<Rightarrow> ('p, u64) mem
   \<Rightarrow> (u64 \<times> 'p FASTQUEUE) option" where
  "SFL_WlsDequeue pq change_addr hWls m =
     (let get = fq_get pq
      in if fq_put pq - get \<noteq> 0 then
           Option.bind (mem_load m (local_storage change_addr hWls (fq_pStorage pq)) (unat get))
             (\<lambda>p. let get = get + 1;
                      get = (if get \<ge> fq_size pq then 0 else get)
                  in Some (p, pq\<lparr>fq_get := get\<rparr>))
         else Some (0, pq))"

definition SFL_Enqueue ::
  "'p FASTQUEUE \<Rightarrow> u64 \<Rightarrow> ('p, u64) mem \<Rightarrow> (bool \<times> 'p FASTQUEUE \<times> ('p, u64) mem) option" where
  "SFL_Enqueue pq pData m =
     (let put = fq_put pq;
          new_put = put + 1;
          new_put = (if new_put \<ge> fq_size pq then 0 else new_put)
      in if new_put \<noteq> fq_get pq then
           Option.bind (mem_store m (fq_pStorage pq) (unat put) pData)
             (\<lambda>m'. Some (True, pq\<lparr>fq_put := new_put\<rparr>, m'))
         else Some (False, pq, m))"

definition SFL_Dequeue :: "'p FASTQUEUE \<Rightarrow> ('p, u64) mem \<Rightarrow> (u64 \<times> 'p FASTQUEUE) option" where
  "SFL_Dequeue pq m =
     (let get = fq_get pq
      in if fq_put pq - get \<noteq> 0 then
           Option.bind (mem_load m (fq_pStorage pq) (unat get))
             (\<lambda>p. let get = get + 1;
                      get = (if get \<ge> fq_size pq then 0 else get)
                  in Some (p, pq\<lparr>fq_get := get\<rparr>))
         else Some (0, pq))"

definition sfl_SafeQueueLevel :: "u32 \<Rightarrow> u32 \<Rightarrow> u32 \<Rightarrow> u32" where
  "sfl_SafeQueueLevel put get size' =
     (if put \<ge> get then put - get else size' + put - get)"

definition SFL_GetNumItemsInTheQueue :: "'p FASTQUEUE \<Rightarrow> u32" where
  "SFL_GetNumItemsInTheQueue fpq = sfl_SafeQueueLevel (fq_put fpq) (fq_get fpq) (fq_size fpq)"

section \<open>The message queue\<close>

definition WLS_MsgDefineQueue :: "'p \<Rightarrow> u32 \<Rightarrow> u32 \<Rightarrow> 'p WLS_MSG_QUEUE" where
  "WLS_MsgDefineQueue pStorage size' sema' =
     \<lparr> mq_pStorage = pStorage, mq_sema = sema', mq_get = 0, mq_put = 0, mq_size = size' \<rparr>"

text \<open>The enqueue overwrites four fields of the cell and leaves the other two.\<close>

definition fill_item :: "u64 \<Rightarrow> u32 \<Rightarrow> u16 \<Rightarrow> u16 \<Rightarrow> WLS_MSG_HANDLE \<Rightarrow> WLS_MSG_HANDLE" where
  "fill_item p sz ty fl item =
     item\<lparr>pIaPaMsg := p, MsgSize := sz, TypeID := ty, flags := fl\<rparr>"

definition WLS_MsgEnqueue ::
  "'p WLS_MSG_QUEUE \<Rightarrow> u64 \<Rightarrow> u32 \<Rightarrow> u16 \<Rightarrow> u16 \<Rightarrow> ('h \<Rightarrow> 'p \<Rightarrow> 'p) option \<Rightarrow> 'h
   \<Rightarrow> ('p, WLS_MSG_HANDLE) mem \<Rightarrow> (bool \<times> 'p WLS_MSG_QUEUE \<times> ('p, WLS_MSG_HANDLE) mem) option" where
  "WLS_MsgEnqueue pq p sz ty fl change_addr hWls m =
     (let put = mq_put pq;
          put_new = put + 1;
          put_new = (if put_new \<ge> mq_size pq then 0 else put_new)
      in if put_new \<noteq> mq_get pq then
           (let st = local_storage change_addr hWls (mq_pStorage pq)
            in Option.bind (mem_load m st (unat put)) (\<lambda>pItem.
               Option.bind (mem_store m st (unat put) (fill_item p sz ty fl pItem)) (\<lambda>m'.
               Some (True, pq\<lparr>mq_put := put_new\<rparr>, m'))))
         else Some (False, pq, m))"

text \<open>\<open>pDestItem\<close> is \<open>None\<close> for a NULL pointer, otherwise the old content of the cell it
  points to; the new content is returned.\<close>

definition WLS_MsgDequeue ::
  "'p WLS_MSG_QUEUE \<Rightarrow> WLS_MSG_HANDLE option \<Rightarrow> ('h \<Rightarrow> 'p \<Rightarrow> 'p) option \<Rightarrow> 'h
   \<Rightarrow> ('p, WLS_MSG_HANDLE) mem \<Rightarrow> (bool \<times> 'p WLS_MSG_QUEUE \<times> WLS_MSG_HANDLE option) option" where
  "WLS_MsgDequeue pq pDestItem change_addr hWls m =
     (let get = mq_get pq
      in if pDestItem = None then Some (False, pq, pDestItem)
         else if get \<ge> mq_size pq then Some (False, pq, pDestItem)
         else if mq_put pq \<noteq> get then
           Option.bind (mem_load m (local_storage change_addr hWls (mq_pStorage pq)) (unat get))
             (\<lambda>item. let get = get + 1;
                         get = (if get = mq_size pq then 0 else get)
                     in Some (True, pq\<lparr>mq_get := get\<rparr>, Some item))
         else Some (False, pq, pDestItem))"

definition WLS_GetNumItemsInTheQueue :: "'p WLS_MSG_QUEUE \<Rightarrow> u32" where
  "WLS_GetNumItemsInTheQueue fpq = sfl_SafeQueueLevel (mq_put fpq) (mq_get fpq) (mq_size fpq)"

lemmas queue_op_defs =
  SFL_WlsEnqueue_def SFL_WlsDequeue_def SFL_Enqueue_def SFL_Dequeue_def
  WLS_MsgEnqueue_def WLS_MsgDequeue_def Let_def


section \<open>Contents of a ring\<close>

text \<open>\<open>ring_wf\<close>: the indices are inside the ring and the storage has a cell for each index.\<close>

definition ring_wf :: "u32 \<Rightarrow> u32 \<Rightarrow> u32 \<Rightarrow> 'a list option \<Rightarrow> bool" where
  "ring_wf sz get put st =
     (get < sz \<and> put < sz \<and> (case st of None \<Rightarrow> False | Some xs \<Rightarrow> unat sz \<le> length xs))"

definition ring_items :: "u32 \<Rightarrow> u32 \<Rightarrow> u32 \<Rightarrow> 'a list option \<Rightarrow> 'a list" where
  "ring_items sz get put st =
     ring_list (unat sz) (unat get) (ring_level (unat sz) (unat get) (unat put)) (the st)"

abbreviation ring_next :: "u32 \<Rightarrow> u32 \<Rightarrow> u32" where
  "ring_next sz i \<equiv> (if sz \<le> i + 1 then 0 else i + 1)"

lemma ring_wf_Some: "ring_wf sz get put st \<Longrightarrow> \<exists>xs. st = Some xs \<and> unat sz \<le> length xs"
  by (auto simp: ring_wf_def split: option.splits)

lemma ring_wf_less:
  "ring_wf sz get put st \<Longrightarrow> unat get < unat sz" "ring_wf sz get put st \<Longrightarrow> unat put < unat sz"
  by (auto simp: ring_wf_def word_less_nat_alt)

lemma safe_level:
  assumes "ring_wf sz get put st"
  shows "unat (sfl_SafeQueueLevel put get sz) = length (ring_items sz get put st)"
proof -
  note less = ring_wf_less [OF assms]
  show ?thesis
  proof (cases "get \<le> put")
    case True
    then show ?thesis
      by (simp add: sfl_SafeQueueLevel_def ring_items_def ring_level_def unat_diff_of_le
          word_le_nat_alt)
  next
    case False
    have eq: "sz + put - get = sz - (get - put)" by simp
    have "unat (get - put) = unat get - unat put" "get - put \<le> sz"
      using False less by (auto simp: unat_diff_of_le word_le_nat_alt)
    then have "unat (sz + put - get) = unat sz - (unat get - unat put)"
      unfolding eq by (simp only: unat_diff_of_le)
    then show ?thesis using False less
      by (simp add: sfl_SafeQueueLevel_def ring_items_def ring_level_def word_le_nat_alt)
  qed
qed

lemma ring_items_bound:
  "ring_wf sz get put st \<Longrightarrow> length (ring_items sz get put st) \<le> unat sz - Suc 0"
  using ring_wf_less [of sz get put st] ring_level_less [of "unat get" "unat sz" "unat put"]
  by (simp add: ring_items_def)

lemma ring_full:
  assumes "ring_wf sz get put st"
  shows "ring_next sz put = get \<longleftrightarrow> unat sz - 1 \<le> length (ring_items sz get put st)"
proof -
  note less = ring_wf_less [OF assms]
  have "put < sz" using assms by (simp add: ring_wf_def)
  then have "ring_next sz put = get \<longleftrightarrow> Suc (unat put) mod unat sz = unat get"
    by (simp only: word_unat_eq_iff unat_ring_next)
  also have "\<dots> \<longleftrightarrow> Suc (length (ring_items sz get put st)) = unat sz"
    using ring_full_iff [OF less] by (simp add: ring_items_def)
  finally show ?thesis using ring_items_bound [OF assms] less by linarith
qed

lemma ring_empty:
  assumes "ring_wf sz get put st"
  shows "put = get \<longleftrightarrow> ring_items sz get put st = []"
  using ring_level_0_iff [OF ring_wf_less [OF assms]]
  by (auto simp: ring_items_def ring_list_def word_unat_eq_iff)

lemma ring_put:
  assumes "ring_wf sz get put (Some xs)" "ring_next sz put \<noteq> get"
  shows "ring_wf sz get (ring_next sz put) (Some (xs[unat put := x]))"
    and "ring_items sz get (ring_next sz put) (Some (xs[unat put := x]))
         = ring_items sz get put (Some xs) @ [x]"
proof -
  note less = ring_wf_less [OF assms(1)]
  have put: "put < sz" using assms(1) by (simp add: ring_wf_def)
  note next_put = unat_ring_next [OF put]
  have "unat (ring_next sz put) < unat sz" using next_put less by simp
  then show "ring_wf sz get (ring_next sz put) (Some (xs[unat put := x]))"
    using assms(1) by (auto simp: ring_wf_def word_less_nat_alt)
  have ne: "Suc (unat put) mod unat sz \<noteq> unat get"
    using assms(2) by (simp only: word_unat_eq_iff next_put not_False_eq_True)
  have level: "ring_level (unat sz) (unat get) (unat put) < unat sz"
    using ring_level_less less by blast
  have "unat sz \<le> length xs" using assms(1) by (simp add: ring_wf_def)
  then have "ring_list (unat sz) (unat get) (Suc (ring_level (unat sz) (unat get) (unat put)))
        (xs[unat put := x])
      = ring_list (unat sz) (unat get) (ring_level (unat sz) (unat get) (unat put)) xs @ [x]"
    using ring_list_snoc [OF level, of xs "unat get" x] ring_level_put [OF less] by simp
  then show "ring_items sz get (ring_next sz put) (Some (xs[unat put := x]))
         = ring_items sz get put (Some xs) @ [x]"
    using ring_level_enq [OF less ne] next_put by (simp only: ring_items_def option.sel)
qed

lemma ring_get:
  assumes "ring_wf sz get put (Some xs)" "put \<noteq> get"
  shows "ring_wf sz (ring_next sz get) put (Some xs)"
    and "ring_items sz get put (Some xs)
         = xs ! unat get # ring_items sz (ring_next sz get) put (Some xs)"
proof -
  note less = ring_wf_less [OF assms(1)]
  have get: "get < sz" using assms(1) by (simp add: ring_wf_def)
  note next_get = unat_ring_next [OF get]
  have "unat (ring_next sz get) < unat sz" using next_get less by simp
  then show "ring_wf sz (ring_next sz get) put (Some xs)"
    using assms(1) by (auto simp: ring_wf_def word_less_nat_alt)
  have ne: "unat put \<noteq> unat get" using assms(2) by (simp add: word_unat_eq_iff)
  have lev: "ring_level (unat sz) (unat get) (unat put)
      = Suc (ring_level (unat sz) (Suc (unat get) mod unat sz) (unat put))"
    using ring_level_deq [OF less ne] by simp
  show "ring_items sz get put (Some xs)
         = xs ! unat get # ring_items sz (ring_next sz get) put (Some xs)"
    unfolding ring_items_def lev next_get option.sel
    by (simp add: ring_list_Cons less)
qed

lemma ring_next_eq_test: "i < sz \<Longrightarrow> (if i + 1 = sz then 0 else i + 1) = ring_next sz i"
  by (simp only: word_unat_eq_iff [of "if i + 1 = sz then 0 else i + 1"]
      unat_ring_next unat_ring_next_eq)


section \<open>The fast queue implements the interface\<close>

text \<open>\<open>ca\<close> and \<open>h\<close> are the address conversion and the handle passed by the caller.\<close>

definition fq_wf :: "('h \<Rightarrow> 'p \<Rightarrow> 'p) option \<Rightarrow> 'h \<Rightarrow> 'p FASTQUEUE \<Rightarrow> ('p, u64) mem \<Rightarrow> bool" where
  "fq_wf ca h q m = ring_wf (fq_size q) (fq_get q) (fq_put q) (m (local_storage ca h (fq_pStorage q)))"

definition fq_items :: "('h \<Rightarrow> 'p \<Rightarrow> 'p) option \<Rightarrow> 'h \<Rightarrow> 'p FASTQUEUE \<Rightarrow> ('p, u64) mem \<Rightarrow> u64 list" where
  "fq_items ca h q m =
     ring_items (fq_size q) (fq_get q) (fq_put q) (m (local_storage ca h (fq_pStorage q)))"

lemma SFL_WlsEnqueue_full:
  "fq_wf ca h q m \<Longrightarrow> unat (fq_size q) - 1 \<le> length (fq_items ca h q m)
   \<Longrightarrow> SFL_WlsEnqueue q x ca h m = Some (False, q, m)"
  using ring_full [of "fq_size q" "fq_get q" "fq_put q" "m (local_storage ca h (fq_pStorage q))"]
  by (simp add: SFL_WlsEnqueue_def Let_def fq_wf_def fq_items_def)

lemma SFL_WlsEnqueue_room:
  assumes "fq_wf ca h q m" "length (fq_items ca h q m) < unat (fq_size q) - 1"
  obtains q' m' where
    "SFL_WlsEnqueue q x ca h m = Some (True, q', m')"
    "q' = q\<lparr>fq_put := ring_next (fq_size q) (fq_put q)\<rparr>"
    "fq_wf ca h q' m'" "fq_items ca h q' m' = fq_items ca h q m @ [x]"
    "\<And>p. p \<noteq> local_storage ca h (fq_pStorage q) \<Longrightarrow> m' p = m p"
proof -
  let ?st = "local_storage ca h (fq_pStorage q)" and ?put = "ring_next (fq_size q) (fq_put q)"
  obtain xs where xs: "m ?st = Some xs" "unat (fq_size q) \<le> length xs"
    using ring_wf_Some assms(1) by (fastforce simp: fq_wf_def)
  have wf: "ring_wf (fq_size q) (fq_get q) (fq_put q) (Some xs)"
    using assms(1) xs by (simp add: fq_wf_def)
  have room: "?put \<noteq> fq_get q"
    using assms(2) ring_full [OF wf] xs by (simp add: fq_items_def)
  have idx: "unat (fq_put q) < length xs" using ring_wf_less(2) [OF wf] xs by simp
  note put = ring_put [OF wf room, of x]
  show ?thesis
  proof (rule that)
    show "SFL_WlsEnqueue q x ca h m
        = Some (True, q\<lparr>fq_put := ?put\<rparr>, m(?st \<mapsto> xs[unat (fq_put q) := x]))"
      using room idx xs unfolding SFL_WlsEnqueue_def Let_def by simp
  qed (use put xs in \<open>simp_all add: fq_wf_def fq_items_def\<close>)
qed

lemma SFL_WlsDequeue_empty:
  "fq_wf ca h q m \<Longrightarrow> fq_items ca h q m = [] \<Longrightarrow> SFL_WlsDequeue q ca h m = Some (0, q)"
  using ring_empty [of "fq_size q" "fq_get q" "fq_put q" "m (local_storage ca h (fq_pStorage q))"]
  by (simp add: SFL_WlsDequeue_def Let_def fq_wf_def fq_items_def)

lemma SFL_WlsDequeue_item:
  assumes "fq_wf ca h q m" "fq_items ca h q m = x # xs"
  obtains q' where "SFL_WlsDequeue q ca h m = Some (x, q')"
    "q' = q\<lparr>fq_get := ring_next (fq_size q) (fq_get q)\<rparr>"
    "fq_wf ca h q' m" "fq_items ca h q' m = xs"
proof -
  let ?st = "local_storage ca h (fq_pStorage q)" and ?get = "ring_next (fq_size q) (fq_get q)"
  obtain ys where ys: "m ?st = Some ys" "unat (fq_size q) \<le> length ys"
    using ring_wf_Some assms(1) by (fastforce simp: fq_wf_def)
  have wf: "ring_wf (fq_size q) (fq_get q) (fq_put q) (Some ys)"
    using assms(1) ys by (simp add: fq_wf_def)
  have ne: "fq_put q \<noteq> fq_get q"
    using assms ring_empty [OF wf] ys by (auto simp: fq_items_def)
  have idx: "unat (fq_get q) < length ys" using ring_wf_less(1) [OF wf] ys by simp
  note get = ring_get [OF wf ne]
  show ?thesis
  proof (rule that)
    show "SFL_WlsDequeue q ca h m = Some (x, q\<lparr>fq_get := ?get\<rparr>)"
      using ne idx ys assms(2) get(2) unfolding SFL_WlsDequeue_def Let_def
      by (simp add: fq_items_def)
  qed (use get ys assms(2) in \<open>simp_all add: fq_wf_def fq_items_def\<close>)
qed

text \<open>The queue and its memory as one state.  NULL marks an empty queue, so only non-NULL
  values are valid items.\<close>

definition sfl_inv :: "('h \<Rightarrow> 'p \<Rightarrow> 'p) option \<Rightarrow> 'h \<Rightarrow> 'p FASTQUEUE \<times> ('p, u64) mem \<Rightarrow> bool" where
  "sfl_inv ca h = (\<lambda>(q, m). fq_wf ca h q m \<and> 0 \<notin> set (fq_items ca h q m))"

definition sfl_enq ::
  "('h \<Rightarrow> 'p \<Rightarrow> 'p) option \<Rightarrow> 'h \<Rightarrow> u64 \<Rightarrow> 'p FASTQUEUE \<times> ('p, u64) mem
   \<Rightarrow> (bool \<times> 'p FASTQUEUE \<times> ('p, u64) mem) option" where
  "sfl_enq ca h x = (\<lambda>(q, m). SFL_WlsEnqueue q x ca h m)"

definition sfl_deq ::
  "('h \<Rightarrow> 'p \<Rightarrow> 'p) option \<Rightarrow> 'h \<Rightarrow> 'p FASTQUEUE \<times> ('p, u64) mem
   \<Rightarrow> (u64 option \<times> 'p FASTQUEUE \<times> ('p, u64) mem) option" where
  "sfl_deq ca h = (\<lambda>(q, m). Option.bind (SFL_WlsDequeue q ca h m)
     (\<lambda>(p, q'). Some (if p = 0 then None else Some p, q', m)))"

definition sfl_capacity :: "'p FASTQUEUE \<times> 'm \<Rightarrow> nat" where
  "sfl_capacity = (\<lambda>(q, m). unat (fq_size q) - 1)"

definition sfl_items :: "('h \<Rightarrow> 'p \<Rightarrow> 'p) option \<Rightarrow> 'h \<Rightarrow> 'p FASTQUEUE \<times> ('p, u64) mem \<Rightarrow> u64 list" where
  "sfl_items ca h = (\<lambda>(q, m). fq_items ca h q m)"

definition sfl_level :: "'p FASTQUEUE \<times> 'm \<Rightarrow> nat" where
  "sfl_level = (\<lambda>(q, m). unat (SFL_GetNumItemsInTheQueue q))"

lemmas sfl_defs = sfl_inv_def sfl_enq_def sfl_deq_def sfl_capacity_def sfl_items_def sfl_level_def

interpretation sfl: bounded_fifo
  "sfl_inv ca h" "sfl_items ca h" sfl_capacity sfl_level "\<lambda>x. x \<noteq> 0" "sfl_enq ca h" "sfl_deq ca h"
  for ca :: "('h \<Rightarrow> 'p \<Rightarrow> 'p) option" and h :: 'h
proof (unfold_locales, goal_cases)
  case (1 s)
  then show ?case by (auto simp: sfl_defs fq_wf_def fq_items_def ring_items_bound)
next
  case (2 s)
  then show ?case
    by (auto simp: sfl_defs fq_wf_def fq_items_def SFL_GetNumItemsInTheQueue_def safe_level)
next
  case (3 s x)
  obtain q m where [simp]: "s = (q, m)" by (cases s)
  have "fq_wf ca h q m" "length (fq_items ca h q m) < unat (fq_size q) - 1"
    using 3 by (simp_all add: sfl_defs)
  then obtain q' m' where "SFL_WlsEnqueue q x ca h m = Some (True, q', m')"
      "q' = q\<lparr>fq_put := ring_next (fq_size q) (fq_put q)\<rparr>"
      "fq_wf ca h q' m'" "fq_items ca h q' m' = fq_items ca h q m @ [x]"
    by (rule SFL_WlsEnqueue_room)
  then show ?case using 3 by (simp add: sfl_defs)
next
  case (4 s x)
  then show ?case by (auto simp: sfl_defs SFL_WlsEnqueue_full)
next
  case (5 s)
  then show ?case by (auto simp: sfl_defs SFL_WlsDequeue_empty)
next
  case (6 s x xs)
  obtain q m where [simp]: "s = (q, m)" by (cases s)
  have "fq_wf ca h q m" "fq_items ca h q m = x # xs" using 6 by (simp_all add: sfl_defs)
  then obtain q' where "SFL_WlsDequeue q ca h m = Some (x, q')"
      "q' = q\<lparr>fq_get := ring_next (fq_size q) (fq_get q)\<rparr>"
      "fq_wf ca h q' m" "fq_items ca h q' m = xs"
    by (rule SFL_WlsDequeue_item)
  then show ?case using 6 by (auto simp: sfl_defs)
qed

text \<open>The variants without an address conversion.\<close>

lemma SFL_Enqueue_eq: "SFL_Enqueue q x m = SFL_WlsEnqueue q x None () m"
  by (simp add: SFL_Enqueue_def SFL_WlsEnqueue_def Let_def)

lemma SFL_Dequeue_eq: "SFL_Dequeue q m = SFL_WlsDequeue q None () m"
  by (simp add: SFL_Dequeue_def SFL_WlsDequeue_def Let_def)


section \<open>The message queue implements the interface\<close>

text \<open>A message is what the four written fields of a cell say.\<close>

type_synonym wls_msg = "u64 \<times> u32 \<times> u16 \<times> u16"

definition msg_of :: "WLS_MSG_HANDLE \<Rightarrow> wls_msg" where
  "msg_of i = (pIaPaMsg i, MsgSize i, TypeID i, flags i)"

lemma msg_of_fill [simp]: "msg_of (fill_item p sz ty fl i) = (p, sz, ty, fl)"
  by (simp add: msg_of_def fill_item_def)

definition mq_wf ::
  "('h \<Rightarrow> 'p \<Rightarrow> 'p) option \<Rightarrow> 'h \<Rightarrow> 'p WLS_MSG_QUEUE \<Rightarrow> ('p, WLS_MSG_HANDLE) mem \<Rightarrow> bool" where
  "mq_wf ca h q m = ring_wf (mq_size q) (mq_get q) (mq_put q) (m (local_storage ca h (mq_pStorage q)))"

definition mq_items ::
  "('h \<Rightarrow> 'p \<Rightarrow> 'p) option \<Rightarrow> 'h \<Rightarrow> 'p WLS_MSG_QUEUE \<Rightarrow> ('p, WLS_MSG_HANDLE) mem \<Rightarrow> wls_msg list" where
  "mq_items ca h q m = map msg_of
     (ring_items (mq_size q) (mq_get q) (mq_put q) (m (local_storage ca h (mq_pStorage q))))"

lemma mq_level:
  "mq_wf ca h q m \<Longrightarrow> unat (WLS_GetNumItemsInTheQueue q) = length (mq_items ca h q m)"
  by (simp add: mq_wf_def mq_items_def WLS_GetNumItemsInTheQueue_def safe_level)

lemma mq_items_bound: "mq_wf ca h q m \<Longrightarrow> length (mq_items ca h q m) \<le> unat (mq_size q) - Suc 0"
  by (simp add: mq_wf_def mq_items_def ring_items_bound)

lemma WLS_MsgEnqueue_full:
  "mq_wf ca h q m \<Longrightarrow> unat (mq_size q) - 1 \<le> length (mq_items ca h q m)
   \<Longrightarrow> WLS_MsgEnqueue q p sz ty fl ca h m = Some (False, q, m)"
  using ring_full [of "mq_size q" "mq_get q" "mq_put q" "m (local_storage ca h (mq_pStorage q))"]
  by (simp add: WLS_MsgEnqueue_def Let_def mq_wf_def mq_items_def)

lemma WLS_MsgEnqueue_room:
  assumes "mq_wf ca h q m" "length (mq_items ca h q m) < unat (mq_size q) - 1"
  obtains q' m' where
    "WLS_MsgEnqueue q p sz ty fl ca h m = Some (True, q', m')"
    "q' = q\<lparr>mq_put := ring_next (mq_size q) (mq_put q)\<rparr>"
    "mq_wf ca h q' m'" "mq_items ca h q' m' = mq_items ca h q m @ [(p, sz, ty, fl)]"
    "\<And>a. a \<noteq> local_storage ca h (mq_pStorage q) \<Longrightarrow> m' a = m a"
proof -
  let ?st = "local_storage ca h (mq_pStorage q)" and ?put = "ring_next (mq_size q) (mq_put q)"
  obtain xs where xs: "m ?st = Some xs" "unat (mq_size q) \<le> length xs"
    using ring_wf_Some assms(1) by (fastforce simp: mq_wf_def)
  have wf: "ring_wf (mq_size q) (mq_get q) (mq_put q) (Some xs)"
    using assms(1) xs by (simp add: mq_wf_def)
  have room: "?put \<noteq> mq_get q"
    using assms(2) ring_full [OF wf] xs by (simp add: mq_items_def)
  have idx: "unat (mq_put q) < length xs" using ring_wf_less(2) [OF wf] xs by simp
  define x where "x = fill_item p sz ty fl (xs ! unat (mq_put q))"
  note put = ring_put [OF wf room, of x]
  show ?thesis
  proof (rule that)
    show "WLS_MsgEnqueue q p sz ty fl ca h m
        = Some (True, q\<lparr>mq_put := ?put\<rparr>, m(?st \<mapsto> xs[unat (mq_put q) := x]))"
      using room idx xs unfolding WLS_MsgEnqueue_def Let_def x_def by simp
  qed (use put xs in \<open>simp_all add: mq_wf_def mq_items_def, simp add: x_def\<close>)
qed

lemma WLS_MsgDequeue_empty:
  "mq_wf ca h q m \<Longrightarrow> mq_items ca h q m = [] \<Longrightarrow> WLS_MsgDequeue q d ca h m = Some (False, q, d)"
  using ring_empty [of "mq_size q" "mq_get q" "mq_put q" "m (local_storage ca h (mq_pStorage q))"]
  by (simp add: WLS_MsgDequeue_def Let_def mq_wf_def mq_items_def)

lemma WLS_MsgDequeue_item:
  assumes "mq_wf ca h q m" "mq_items ca h q m = x # xs" "d \<noteq> None"
  obtains q' i where "WLS_MsgDequeue q d ca h m = Some (True, q', Some i)" "msg_of i = x"
    "q' = q\<lparr>mq_get := ring_next (mq_size q) (mq_get q)\<rparr>"
    "mq_wf ca h q' m" "mq_items ca h q' m = xs"
proof -
  let ?st = "local_storage ca h (mq_pStorage q)" and ?get = "ring_next (mq_size q) (mq_get q)"
  obtain ys where ys: "m ?st = Some ys" "unat (mq_size q) \<le> length ys"
    using ring_wf_Some assms(1) by (fastforce simp: mq_wf_def)
  have wf: "ring_wf (mq_size q) (mq_get q) (mq_put q) (Some ys)"
    using assms(1) ys by (simp add: mq_wf_def)
  have ne: "mq_put q \<noteq> mq_get q"
    using assms ring_empty [OF wf] ys by (auto simp: mq_items_def)
  have lt: "mq_get q < mq_size q" using wf by (simp add: ring_wf_def)
  have idx: "unat (mq_get q) < length ys" using ring_wf_less(1) [OF wf] ys by simp
  note get = ring_get [OF wf ne]
  show ?thesis
  proof (rule that)
    show "WLS_MsgDequeue q d ca h m
        = Some (True, q\<lparr>mq_get := ?get\<rparr>, Some (ys ! unat (mq_get q)))"
      using ne idx ys assms(3) lt unfolding WLS_MsgDequeue_def Let_def ring_next_eq_test [OF lt]
      by simp
  qed (use get ys assms(2) in \<open>simp_all add: mq_wf_def mq_items_def\<close>)
qed

definition msg_inv ::
  "('h \<Rightarrow> 'p \<Rightarrow> 'p) option \<Rightarrow> 'h \<Rightarrow> 'p WLS_MSG_QUEUE \<times> ('p, WLS_MSG_HANDLE) mem \<Rightarrow> bool" where
  "msg_inv ca h = (\<lambda>(q, m). mq_wf ca h q m)"

definition msg_enq ::
  "('h \<Rightarrow> 'p \<Rightarrow> 'p) option \<Rightarrow> 'h \<Rightarrow> wls_msg \<Rightarrow> 'p WLS_MSG_QUEUE \<times> ('p, WLS_MSG_HANDLE) mem
   \<Rightarrow> (bool \<times> 'p WLS_MSG_QUEUE \<times> ('p, WLS_MSG_HANDLE) mem) option" where
  "msg_enq ca h = (\<lambda>(p, sz, ty, fl) (q, m). WLS_MsgEnqueue q p sz ty fl ca h m)"

text \<open>The destination of a dequeue is a local variable, so never NULL; \<open>zero_handle\<close> is
  its content before the call.\<close>

definition zero_handle :: WLS_MSG_HANDLE where
  "zero_handle = \<lparr>pIaPaMsg = 0, pWlsPaMsg = 0, MsgSize = 0, TypeID = 0, flags = 0, res1 = 0\<rparr>"

definition msg_deq ::
  "('h \<Rightarrow> 'p \<Rightarrow> 'p) option \<Rightarrow> 'h \<Rightarrow> 'p WLS_MSG_QUEUE \<times> ('p, WLS_MSG_HANDLE) mem
   \<Rightarrow> (wls_msg option \<times> 'p WLS_MSG_QUEUE \<times> ('p, WLS_MSG_HANDLE) mem) option" where
  "msg_deq ca h = (\<lambda>(q, m). Option.bind (WLS_MsgDequeue q (Some zero_handle) ca h m)
     (\<lambda>(ok, q', i). Some (if ok then map_option msg_of i else None, q', m)))"

definition msg_capacity :: "'p WLS_MSG_QUEUE \<times> 'm \<Rightarrow> nat" where
  "msg_capacity = (\<lambda>(q, m). unat (mq_size q) - 1)"

definition msg_items ::
  "('h \<Rightarrow> 'p \<Rightarrow> 'p) option \<Rightarrow> 'h \<Rightarrow> 'p WLS_MSG_QUEUE \<times> ('p, WLS_MSG_HANDLE) mem \<Rightarrow> wls_msg list" where
  "msg_items ca h = (\<lambda>(q, m). mq_items ca h q m)"

definition msg_level :: "'p WLS_MSG_QUEUE \<times> 'm \<Rightarrow> nat" where
  "msg_level = (\<lambda>(q, m). unat (WLS_GetNumItemsInTheQueue q))"

lemmas msg_defs =
  msg_inv_def msg_enq_def msg_deq_def msg_capacity_def msg_items_def msg_level_def

interpretation msg: bounded_fifo
  "msg_inv ca h" "msg_items ca h" msg_capacity msg_level "\<lambda>_. True" "msg_enq ca h" "msg_deq ca h"
  for ca :: "('h \<Rightarrow> 'p \<Rightarrow> 'p) option" and h :: 'h
proof (unfold_locales, goal_cases)
  case (1 s)
  then show ?case by (auto simp: msg_defs mq_items_bound)
next
  case (2 s)
  then show ?case by (auto simp: msg_defs mq_level)
next
  case (3 s x)
  obtain q m where [simp]: "s = (q, m)" by (cases s)
  obtain p sz ty fl where [simp]: "x = (p, sz, ty, fl)" by (cases x)
  have "mq_wf ca h q m" "length (mq_items ca h q m) < unat (mq_size q) - 1"
    using 3 by (simp_all add: msg_defs)
  then obtain q' m' where "WLS_MsgEnqueue q p sz ty fl ca h m = Some (True, q', m')"
      "q' = q\<lparr>mq_put := ring_next (mq_size q) (mq_put q)\<rparr>"
      "mq_wf ca h q' m'" "mq_items ca h q' m' = mq_items ca h q m @ [(p, sz, ty, fl)]"
    by (rule WLS_MsgEnqueue_room)
  then show ?case by (simp add: msg_defs)
next
  case (4 s x)
  then show ?case by (cases x) (auto simp: msg_defs WLS_MsgEnqueue_full)
next
  case (5 s)
  then show ?case by (auto simp: msg_defs WLS_MsgDequeue_empty)
next
  case (6 s x xs)
  obtain q m where [simp]: "s = (q, m)" by (cases s)
  have "mq_wf ca h q m" "mq_items ca h q m = x # xs" "Some zero_handle \<noteq> None"
    using 6 by (simp_all add: msg_defs)
  then obtain q' i where "WLS_MsgDequeue q (Some zero_handle) ca h m = Some (True, q', Some i)"
      "msg_of i = x" "q' = q\<lparr>mq_get := ring_next (mq_size q) (mq_get q)\<rparr>"
      "mq_wf ca h q' m" "mq_items ca h q' m = xs"
    by (rule WLS_MsgDequeue_item)
  then show ?case by (simp add: msg_defs)
qed

section \<open>Fresh queues\<close>

lemma WLS_MsgDefineQueue_fresh:
  assumes "m (local_storage ca h p) = Some xs" "unat sz \<le> length xs" "0 < sz"
  shows "mq_wf ca h (WLS_MsgDefineQueue p sz sm) m" "mq_items ca h (WLS_MsgDefineQueue p sz sm) m = []"
  using assms
  by (simp_all add: mq_wf_def mq_items_def WLS_MsgDefineQueue_def ring_wf_def ring_items_def
      ring_level_def)

lemma SFL_DefQueue_fresh:
  assumes "m (local_storage ca h p) = Some xs" "unat (signed_drop_bit 3 n :: u32) \<le> length xs"
    "0 < (signed_drop_bit 3 n :: u32)"
  shows "fq_wf ca h (SFL_DefQueue p n) m" "fq_items ca h (SFL_DefQueue p n) m = []"
  using assms
  by (simp_all add: fq_wf_def fq_items_def SFL_DefQueue_def ring_wf_def ring_items_def
      ring_level_def)


section \<open>Properties\<close>

text \<open>C1: any sequence of enqueues and dequeues on a well-formed message queue runs without
  touching memory outside of the storage and answers exactly as a list bounded by
  \<open>size - 1\<close>: an enqueue is refused exactly when the list is full, a dequeue returns the
  oldest message, and the queue stays well-formed.\<close>

theorem msg_queue_refines_bounded_list:
  fixes ca :: "('h \<Rightarrow> 'p \<Rightarrow> 'p) option"
  assumes "mq_wf ca h q m"
  shows "\<exists>q' m'. run_fifo (msg_enq ca h) (msg_deq ca h) ops (q, m)
            = Some (fst (list_fifo (unat (mq_size q) - 1) ops (mq_items ca h q m)), (q', m'))
      \<and> mq_wf ca h q' m'
      \<and> mq_items ca h q' m' = snd (list_fifo (unat (mq_size q) - 1) ops (mq_items ca h q m))"
  using msg.run_refines [of ca h "(q, m)" ops] assms
  by (auto simp: msg_inv_def msg_items_def msg_capacity_def)

definition demo_mem :: "(nat, WLS_MSG_HANDLE) mem" where
  "demo_mem = [7 \<mapsto> replicate 3 zero_handle]"

lemma demo_mem_wf: "mq_wf None () (WLS_MsgDefineQueue 7 3 0) demo_mem"
    "mq_items None () (WLS_MsgDefineQueue 7 3 0) demo_mem = []"
  by (rule WLS_MsgDefineQueue_fresh [where xs = "replicate 3 zero_handle"]; simp add: demo_mem_def)+

theorem msg_queue_refines_bounded_list_witness:
  "\<exists>q' m'. run_fifo (msg_enq None ()) (msg_deq None ())
        [Deq, Enq (11, 5, 1, 0), Enq (12, 6, 1, 0), Enq (13, 7, 1, 0), Deq, Enq (14, 8, 2, 0), Deq]
        (WLS_MsgDefineQueue 7 3 0, demo_mem)
      = Some ([Taken None, Accepted True, Accepted True, Accepted False,
               Taken (Some (11, 5, 1, 0)), Accepted True, Taken (Some (12, 6, 1, 0))], (q', m'))
    \<and> mq_wf None () q' m' \<and> mq_items None () q' m' = [(14, 8, 2, 0)]"
  using msg_queue_refines_bounded_list [OF demo_mem_wf(1), of "[Deq, Enq (11, 5, 1, 0),
      Enq (12, 6, 1, 0), Enq (13, 7, 1, 0), Deq, Enq (14, 8, 2, 0), Deq]"]
  by (simp add: demo_mem_wf(2), simp add: WLS_MsgDefineQueue_def)

text \<open>C2: whatever sequence of operations runs on a well-formed fast queue of non-NULL
  values, the values held before followed by those accepted are the values handed out
  followed by those still held: nothing is lost, duplicated or reordered, and the ring
  never holds more than \<open>size - 1\<close> values.\<close>

theorem fast_queue_lossless_in_order:
  fixes ca :: "('h \<Rightarrow> 'p \<Rightarrow> 'p) option"
  assumes "fq_wf ca h q m" "0 \<notin> set (fq_items ca h q m)" "0 \<notin> enqs ops"
  shows "\<exists>os q' m'. run_fifo (sfl_enq ca h) (sfl_deq ca h) ops (q, m) = Some (os, (q', m'))
      \<and> fq_items ca h q m @ accepted ops os = taken os @ fq_items ca h q' m'
      \<and> fq_wf ca h q' m' \<and> length (fq_items ca h q' m') \<le> unat (fq_size q) - 1"
proof -
  have inv: "sfl_inv ca h (q, m)" and valid: "\<forall>x\<in>enqs ops. x \<noteq> 0"
    using assms by (auto simp: sfl_inv_def)
  obtain os q' m' where run: "run_fifo (sfl_enq ca h) (sfl_deq ca h) ops (q, m) = Some (os, (q', m'))"
    using sfl.run_refines [OF inv valid] by (metis surj_pair)
  show ?thesis
    using run sfl.run_in_order [OF inv valid run]
    by (auto simp: sfl_inv_def sfl_items_def sfl_capacity_def)
qed

theorem fast_queue_lossless_in_order_witness:
  "\<exists>os q' m'. run_fifo (sfl_enq None ()) (sfl_deq None ()) [Enq 5, Enq 6, Deq, Enq 7]
        (SFL_DefQueue (7 :: nat) 24, [7 \<mapsto> replicate 3 0]) = Some (os, (q', m'))
    \<and> accepted [Enq 5, Enq 6, Deq, Enq 7] os = taken os @ fq_items None () q' m'
    \<and> fq_wf None () q' m' \<and> length (fq_items None () q' m') \<le> 2"
proof -
  let ?m = "[7 \<mapsto> replicate 3 0] :: (nat, u64) mem"
  have sz: "signed_drop_bit 3 (24 :: u32) = (3 :: u32)" by simp
  have "fq_wf None () (SFL_DefQueue 7 24) ?m" "fq_items None () (SFL_DefQueue 7 24) ?m = []"
    by (rule SFL_DefQueue_fresh [where xs = "replicate 3 0"]; simp add: sz)+
  then show ?thesis
    using fast_queue_lossless_in_order [of None "()" "SFL_DefQueue 7 24" ?m "[Enq 5, Enq 6, Deq, Enq 7]"]
    by (simp add: SFL_DefQueue_def sz del: run_fifo.simps)
qed

end
