(* ===== verification/Wls_State.thy ===== *)
theory Wls_State
  imports Wls_Queue
begin

text \<open>
  The shared state of the wireless subsystem interface (\<open>wls_lib/wls.h\<close>): the client
  contexts that live in a memory zone, their queues and wake-up rings, and the memory the
  queues are stored in.  A context pointer is NULL or the address of an entry of
  \<open>p_wls_us_ctx\<close> of the driver context of a zone; a storage pointer is the address of one of
  the arrays inside a context.  What the library takes from DPDK, POSIX and the CPU is the
  record \<open>wls_env\<close>.
\<close>

section \<open>Data\<close>

type_synonym zone = string

datatype ctx_ptr = NullCtx | Ctx zone nat

datatype storage = NullStorage | UlFreeStorage zone nat | GetStorage zone nat | PutStorage zone nat

record hugepage_tabl =
  pageVa :: u64
  pagePa :: u64

record wls_wait_req =
  wls_us_kernel_va :: u64
  start_time :: u64
  ctx :: u64
  action :: u64
  nMsg :: u64

record wls_sema_priv =
  sem :: nat
  is_irq :: "16 word"
  drv_block :: "wls_wait_req list"
  drv_block_put :: u32
  drv_block_get :: u32
  nWlsSemaWakeUp :: u32

record wls_us_priv =
  sema :: wls_sema_priv
  sema_shared :: ctx_ptr
  NeedToWakeUp :: u8
  isWait :: u8
  pid :: u32

record wls_us_ctx =
  wls_us_user_space_va :: ctx_ptr
  wls_us_ctx_size :: u32
  HugePageSize :: u32
  alloc_buffer :: u64
  hugepageTbl :: "hugepage_tabl list"
  ul_free_block_pq :: "storage FASTQUEUE"
  get_queue :: "storage WLS_MSG_QUEUE"
  put_queue :: "storage WLS_MSG_QUEUE"
  dst_user_va :: ctx_ptr
  nHugePage :: u32
  wls_us_private :: wls_us_priv
  mode :: u32
  wls_dev_name :: string

record wls_drv_ctx =
  p_wls_us_ctx :: "wls_us_ctx list"
  nWlsClients :: u32
  nMacBufferSize :: u32
  nPhyBufferSize :: u32
  nWlsULEnqueueSize :: u32
  drv_nWlsSemaWakeUp :: u32

text \<open>Everything the processes share: the driver context of each reserved zone, the arrays of
  the queues, and the 64-bit words of the buffer area by virtual address.\<close>

record wls_shm =
  zones :: "zone \<rightharpoonup> wls_drv_ctx"
  msgs :: "(storage, WLS_MSG_HANDLE) mem"
  blks :: "(storage, u64) mem"
  umem :: "u64 \<Rightarrow> u64"

record wls_env =
  e_getpid :: u32
  e_rdtsc :: u64
  e_primary :: bool
  e_reserve_ok :: "zone \<Rightarrow> u64 \<Rightarrow> u64 \<Rightarrow> bool"
  e_memzone_1gb :: u64
  e_mutex_init :: int
  e_sem_init :: int
  e_sem_wait :: int
  e_mz_addr :: "zone \<Rightarrow> u64"
  e_virt2iova :: "u64 \<Rightarrow> u64"
  e_bad_iova :: u64
  e_namesize :: nat
  e_sizeof_drv :: u64
  e_sizeof_ctx :: u32
  e_stack_req :: wls_wait_req

section \<open>Constants of wls.h and wls_lib.h\<close>

definition WLS_US_CLIENTS_MAX :: nat where "WLS_US_CLIENTS_MAX = 4"
definition WLS_US_CTX_MAX :: nat where "WLS_US_CTX_MAX = 20"
definition FIFO_LEN :: nat where "FIFO_LEN = 1024"
definition MAX_N_HUGE_PAGES :: nat where "MAX_N_HUGE_PAGES = 32"
definition UL_FREE_BLOCK_QUEUE_SIZE_MIN :: u32 where "UL_FREE_BLOCK_QUEUE_SIZE_MIN = 32"
definition UL_FREE_BLOCK_QUEUE_SIZE_MAX :: u32 where "UL_FREE_BLOCK_QUEUE_SIZE_MAX = 1200"
definition WLS_QUEUE_N_ELEMENTS :: nat where "WLS_QUEUE_N_ELEMENTS = 1024"
definition WLS_HUGE_DEF_PAGE_SIZE :: u64 where "WLS_HUGE_DEF_PAGE_SIZE = 0x40000000"
definition WLS_SLAVE_CLIENT :: u32 where "WLS_SLAVE_CLIENT = 0"
definition WLS_MASTER_CLIENT :: u32 where "WLS_MASTER_CLIENT = 1"
definition WLS_TF_SCATTER_GATHER :: u16 where "WLS_TF_SCATTER_GATHER = 0x8000"
definition WLS_TF_URLLC :: u16 where "WLS_TF_URLLC = 0x0800"
definition WLS_TF_LTE :: u16 where "WLS_TF_LTE = 0x0400"
definition WLS_TF_SYN :: u16 where "WLS_TF_SYN = 0x0200"
definition WLS_TF_FIN :: u16 where "WLS_TF_FIN = 0x0100"
definition WLS_FLAGS_MASK :: u16 where "WLS_FLAGS_MASK = 0xFF00"

lemmas wls_const_defs =
  WLS_US_CLIENTS_MAX_def WLS_US_CTX_MAX_def FIFO_LEN_def MAX_N_HUGE_PAGES_def
  UL_FREE_BLOCK_QUEUE_SIZE_MIN_def UL_FREE_BLOCK_QUEUE_SIZE_MAX_def WLS_QUEUE_N_ELEMENTS_def
  WLS_HUGE_DEF_PAGE_SIZE_def WLS_SLAVE_CLIENT_def WLS_MASTER_CLIENT_def
  WLS_TF_SCATTER_GATHER_def WLS_TF_URLLC_def WLS_TF_LTE_def WLS_TF_SYN_def WLS_TF_FIN_def
  WLS_FLAGS_MASK_def

section \<open>Zeroed memory\<close>

definition zero_req :: wls_wait_req where
  "zero_req = \<lparr>wls_us_kernel_va = 0, start_time = 0, ctx = 0, action = 0, nMsg = 0\<rparr>"

definition zero_sema :: wls_sema_priv where
  "zero_sema = \<lparr>sem = 0, is_irq = 0, drv_block = replicate FIFO_LEN zero_req,
     drv_block_put = 0, drv_block_get = 0, nWlsSemaWakeUp = 0\<rparr>"

definition zero_priv :: wls_us_priv where
  "zero_priv = \<lparr>sema = zero_sema, sema_shared = NullCtx, NeedToWakeUp = 0, isWait = 0, pid = 0\<rparr>"

definition zero_ctx :: wls_us_ctx where
  "zero_ctx = \<lparr>wls_us_user_space_va = NullCtx, wls_us_ctx_size = 0, HugePageSize = 0,
     alloc_buffer = 0, hugepageTbl = replicate MAX_N_HUGE_PAGES \<lparr>pageVa = 0, pagePa = 0\<rparr>,
     ul_free_block_pq = SFL_DefQueue NullStorage 0,
     get_queue = WLS_MsgDefineQueue NullStorage 0 0, put_queue = WLS_MsgDefineQueue NullStorage 0 0,
     dst_user_va = NullCtx, nHugePage = 0, wls_us_private = zero_priv, mode = 0,
     wls_dev_name = []\<rparr>"

definition zero_drv :: wls_drv_ctx where
  "zero_drv = \<lparr>p_wls_us_ctx = replicate WLS_US_CLIENTS_MAX zero_ctx, nWlsClients = 0,
     nMacBufferSize = 0, nPhyBufferSize = 0, nWlsULEnqueueSize = 0, drv_nWlsSemaWakeUp = 0\<rparr>"

text \<open>The arrays inside the context of slot \<open>i\<close> of zone \<open>z\<close>, zeroed with it.\<close>

definition zero_storage :: "zone \<Rightarrow> nat \<Rightarrow> wls_shm \<Rightarrow> wls_shm" where
  "zero_storage z i s =
     s\<lparr>msgs := (msgs s)(GetStorage z i \<mapsto> replicate WLS_QUEUE_N_ELEMENTS zero_handle,
                       PutStorage z i \<mapsto> replicate WLS_QUEUE_N_ELEMENTS zero_handle),
       blks := (blks s)(UlFreeStorage z i \<mapsto>
                       replicate (unat UL_FREE_BLOCK_QUEUE_SIZE_MAX * 8) 0)\<rparr>"

section \<open>Access through context pointers\<close>

fun get_ctx :: "wls_shm \<Rightarrow> ctx_ptr \<Rightarrow> wls_us_ctx option" where
  "get_ctx s NullCtx = None"
| "get_ctx s (Ctx z i) =
     (case zones s z of None \<Rightarrow> None
      | Some d \<Rightarrow> if i < length (p_wls_us_ctx d) then Some (p_wls_us_ctx d ! i) else None)"

fun set_ctx :: "ctx_ptr \<Rightarrow> wls_us_ctx \<Rightarrow> wls_shm \<Rightarrow> wls_shm" where
  "set_ctx NullCtx c s = s"
| "set_ctx (Ctx z i) c s =
     (case zones s z of None \<Rightarrow> s
      | Some d \<Rightarrow> s\<lparr>zones := (zones s)(z \<mapsto> d\<lparr>p_wls_us_ctx := (p_wls_us_ctx d)[i := c]\<rparr>)\<rparr>)"

lemma get_set_ctx_same [simp]:
  "get_ctx s p = Some c \<Longrightarrow> get_ctx (set_ctx p c' s) p = Some c'"
  by (cases p) (auto split: option.splits if_splits)

lemma get_set_ctx_other [simp]: "p \<noteq> q \<Longrightarrow> get_ctx (set_ctx p c s) q = get_ctx s q"
  by (cases p; cases q) (auto split: option.splits)

lemma set_ctx_frame [simp]:
  "msgs (set_ctx p c s) = msgs s" "blks (set_ctx p c s) = blks s" "umem (set_ctx p c s) = umem s"
  by (cases p; simp split: option.splits)+

lemma get_ctx_frame [simp]:
  "get_ctx (s\<lparr>msgs := m\<rparr>) p = get_ctx s p" "get_ctx (s\<lparr>blks := b\<rparr>) p = get_ctx s p"
  "get_ctx (s\<lparr>umem := u\<rparr>) p = get_ctx s p"
  by (cases p; simp)+

lemma get_ctx_None [simp]: "get_ctx s p = None \<Longrightarrow> set_ctx p c s = s"
  by (cases p) (auto split: option.splits if_splits simp: map_upd_triv list_update_beyond)

lemma set_ctx_id [simp]: "get_ctx s p = Some c \<Longrightarrow> set_ctx p c s = s"
  by (cases p) (auto split: option.splits if_splits simp: map_upd_triv)

lemma msgs_update_id [simp]: "s\<lparr>msgs := msgs s\<rparr> = s"
  by (cases s) auto

lemma msgs_update_set_ctx [simp]: "(set_ctx p c s)\<lparr>msgs := msgs s\<rparr> = set_ctx p c s"
  by (metis msgs_update_id set_ctx_frame(1))

text \<open>From here on contexts are reached through the lemmas above only.\<close>

declare get_ctx.simps(2) [simp del] set_ctx.simps(2) [simp del]

end
