(* ===== verification/Wls_Lib.thy ===== *)
theory Wls_Lib
  imports Wls_State
begin

text \<open>
  Message passing between the clients of \<open>wls_lib/wls_lib_dpdk.c\<close>: the wake-up ring, the
  transfer of a client's put queue into its peer's get queue, \<open>wls_put\<close>, \<open>wls_get\<close> and the
  calls of the library built on them.  \<open>None\<close> is a memory fault; results are the C return
  codes.
\<close>

section \<open>Handles\<close>

text \<open>\<open>tab\<close> is the table \<open>wls_us_ctx\<close> of the calling process.\<close>

definition wls_check_ctx :: "ctx_ptr list \<Rightarrow> ctx_ptr \<Rightarrow> int" where
  "wls_check_ctx tab h =
     (if list_ex (\<lambda>c. h = c \<and> h \<noteq> NullCtx) (take WLS_US_CTX_MAX tab) then 0 else 1)"

section \<open>The wake-up ring\<close>

definition wls_wake_up_user_thread :: "wls_wait_req \<Rightarrow> wls_sema_priv \<Rightarrow> wls_sema_priv" where
  "wls_wake_up_user_thread buf semap =
     (if sint (is_irq semap) \<ge> int FIFO_LEN then semap
      else
        let put = drv_block_put semap + 1;
            put = (if put \<ge> of_nat FIFO_LEN then 0 else put);
            semap = semap\<lparr>drv_block := (drv_block semap)[unat put := buf],
                          drv_block_put := put, is_irq := is_irq semap + 1\<rparr>
        in if nWlsSemaWakeUp semap \<noteq> 0 then semap\<lparr>sem := sem semap + 1\<rparr> else semap)"

text \<open>\<open>wls_wait\<close>: \<open>None\<close> when the caller stays blocked.\<close>

definition wls_wait :: "wls_env \<Rightarrow> wls_sema_priv \<Rightarrow> (int \<times> wls_sema_priv) option" where
  "wls_wait e priv =
     (let consume = (\<lambda>priv.
            let priv = priv\<lparr>is_irq := is_irq priv - 1\<rparr>
            in if drv_block_put priv \<noteq> drv_block_get priv then
                 (let get = drv_block_get priv + 1;
                      get = (if get \<ge> of_nat FIFO_LEN then 0 else get)
                  in (0, priv\<lparr>drv_block_get := get\<rparr>))
               else (0, priv))
      in if nWlsSemaWakeUp priv \<noteq> 0 then
           if is_irq priv = 0 then
             if e_sem_wait e \<noteq> 0 then Some (-1, priv)
             else if sem priv = 0 then None
             else let priv = priv\<lparr>sem := sem priv - 1\<rparr>
                  in if is_irq priv = 0 then Some (-1, priv) else Some (consume priv)
           else Some (consume priv)
         else if is_irq priv = 0 then None else Some (consume priv))"

definition get_sema :: "wls_shm \<Rightarrow> ctx_ptr \<Rightarrow> wls_sema_priv option" where
  "get_sema s p = map_option (\<lambda>c. sema (wls_us_private c)) (get_ctx s p)"

definition upd_ctx :: "ctx_ptr \<Rightarrow> (wls_us_ctx \<Rightarrow> wls_us_ctx) \<Rightarrow> wls_shm \<Rightarrow> wls_shm option" where
  "upd_ctx p f s = map_option (\<lambda>c. set_ctx p (f c) s) (get_ctx s p)"

definition upd_priv :: "(wls_us_priv \<Rightarrow> wls_us_priv) \<Rightarrow> wls_us_ctx \<Rightarrow> wls_us_ctx" where
  "upd_priv f c = c\<lparr>wls_us_private := f (wls_us_private c)\<rparr>"

definition upd_sema :: "(wls_sema_priv \<Rightarrow> wls_sema_priv) \<Rightarrow> wls_us_ctx \<Rightarrow> wls_us_ctx" where
  "upd_sema f c = upd_priv (\<lambda>p. p\<lparr>sema := f (sema p)\<rparr>) c"

text \<open>The semaphore a client is woken through: that of the first context of its process when
  the sender is a master and the client shares it, otherwise its own.\<close>

definition sema_target :: "wls_us_ctx \<Rightarrow> u32 \<Rightarrow> ctx_ptr \<Rightarrow> ctx_ptr" where
  "sema_target c md own =
     (if md = WLS_MASTER_CLIENT then
        if sema_shared (wls_us_private c) \<noteq> NullCtx then sema_shared (wls_us_private c) else own
      else own)"

section \<open>From the put queue to the peer's get queue\<close>

definition msg_enqueue_ctx ::
  "(wls_us_ctx \<Rightarrow> storage WLS_MSG_QUEUE) \<Rightarrow> (storage WLS_MSG_QUEUE \<Rightarrow> wls_us_ctx \<Rightarrow> wls_us_ctx)
   \<Rightarrow> ctx_ptr \<Rightarrow> wls_msg \<Rightarrow> wls_shm \<Rightarrow> (bool \<times> wls_shm) option" where
  "msg_enqueue_ctx rd wr p x s =
     (case x of (a, sz, ty, fl) \<Rightarrow>
      Option.bind (get_ctx s p) (\<lambda>c.
      Option.bind (WLS_MsgEnqueue (rd c) a sz ty fl None p (msgs s)) (\<lambda>(ok, q, m).
      Some (ok, (set_ctx p (wr q c) s)\<lparr>msgs := m\<rparr>))))"

definition msg_dequeue_ctx ::
  "(wls_us_ctx \<Rightarrow> storage WLS_MSG_QUEUE) \<Rightarrow> (storage WLS_MSG_QUEUE \<Rightarrow> wls_us_ctx \<Rightarrow> wls_us_ctx)
   \<Rightarrow> ctx_ptr \<Rightarrow> wls_shm \<Rightarrow> (wls_msg option \<times> wls_shm) option" where
  "msg_dequeue_ctx rd wr p s =
      Option.bind (get_ctx s p) (\<lambda>c.
      Option.bind (WLS_MsgDequeue (rd c) (Some zero_handle) None p (msgs s)) (\<lambda>(ok, q, i).
      Some (if ok then map_option msg_of i else None, set_ctx p (wr q c) s)))"

definition enq_put :: "ctx_ptr \<Rightarrow> wls_msg \<Rightarrow> wls_shm \<Rightarrow> (bool \<times> wls_shm) option" where
  "enq_put = msg_enqueue_ctx put_queue (\<lambda>q c. c\<lparr>put_queue := q\<rparr>)"

definition enq_get :: "ctx_ptr \<Rightarrow> wls_msg \<Rightarrow> wls_shm \<Rightarrow> (bool \<times> wls_shm) option" where
  "enq_get = msg_enqueue_ctx get_queue (\<lambda>q c. c\<lparr>get_queue := q\<rparr>)"

definition deq_put :: "ctx_ptr \<Rightarrow> wls_shm \<Rightarrow> (wls_msg option \<times> wls_shm) option" where
  "deq_put = msg_dequeue_ctx put_queue (\<lambda>q c. c\<lparr>put_queue := q\<rparr>)"

definition deq_get :: "ctx_ptr \<Rightarrow> wls_shm \<Rightarrow> (wls_msg option \<times> wls_shm) option" where
  "deq_get = msg_dequeue_ctx get_queue (\<lambda>q c. c\<lparr>get_queue := q\<rparr>)"

text \<open>\<open>while (n--)\<close> of \<open>wls_process_put\<close>.\<close>

fun process_put_loop :: "nat \<Rightarrow> ctx_ptr \<Rightarrow> ctx_ptr \<Rightarrow> wls_shm \<Rightarrow> (int \<times> wls_shm) option" where
  "process_put_loop 0 src dst s = Some (0, s)"
| "process_put_loop (Suc n) src dst s =
     Option.bind (deq_put src s) (\<lambda>(r, s).
     case r of
       None \<Rightarrow> Some (-1, s)
     | Some hMsg \<Rightarrow>
         Option.bind (enq_get dst hMsg s) (\<lambda>(sent, s).
         if sent then process_put_loop n src dst s
         else Option.bind (enq_put src hMsg s) (\<lambda>(back, s).
              Some (if back then 0 else -1, s))))"

definition wake_client :: "wls_env \<Rightarrow> u32 \<Rightarrow> ctx_ptr \<Rightarrow> wls_shm \<Rightarrow> wls_shm option" where
  "wake_client e md p s =
     Option.bind (get_ctx s p) (\<lambda>c.
     upd_ctx (sema_target c md p)
       (upd_sema (wls_wake_up_user_thread ((e_stack_req e)\<lparr>start_time := e_rdtsc e\<rparr>))) s)"

definition wls_process_put ::
  "wls_env \<Rightarrow> ctx_ptr \<Rightarrow> ctx_ptr \<Rightarrow> wls_shm \<Rightarrow> (int \<times> wls_shm) option" where
  "wls_process_put e src dst s =
     (if src = NullCtx \<or> dst = NullCtx then Some (-1, s)
      else
        Option.bind (get_ctx s src) (\<lambda>c.
        Option.bind (process_put_loop (unat (WLS_GetNumItemsInTheQueue (put_queue c))) src dst s)
          (\<lambda>(ret, s).
        Option.bind (get_ctx s dst) (\<lambda>d.
        if pid (wls_us_private d) \<noteq> 0 then
          Option.bind (upd_ctx dst (upd_priv (\<lambda>p. p\<lparr>NeedToWakeUp := 1\<rparr>)) s) (\<lambda>s.
          Option.bind (wake_client e (mode c) dst s) (\<lambda>s.
          Some (ret, s)))
        else Some (-1, s)))))"

section \<open>Put and get\<close>

definition wls_put ::
  "wls_env \<Rightarrow> ctx_ptr list \<Rightarrow> ctx_ptr \<Rightarrow> wls_msg \<Rightarrow> wls_shm \<Rightarrow> (int \<times> wls_shm) option" where
  "wls_put e tab h msg s =
     (if wls_check_ctx tab h \<noteq> 0 then Some (-1, s)
      else
        let Flags = snd (snd (snd msg));
            nFlags = and Flags (not (or WLS_TF_URLLC WLS_TF_LTE));
            process = (\<lambda>c s.
              Option.bind (wls_process_put e h (dst_user_va c) s) (\<lambda>(ret, s).
              Some (if ret < 0 then -1 else 0, s)))
        in if and WLS_FLAGS_MASK nFlags \<noteq> 0 then
             if and nFlags WLS_TF_SYN \<noteq> 0 then
               Option.bind (enq_put h msg s) (\<lambda>(_, s). Some (0, s))
             else if and nFlags WLS_TF_SCATTER_GATHER \<noteq> 0
                 \<and> \<not> and nFlags WLS_TF_SYN \<noteq> 0 \<and> \<not> and nFlags WLS_TF_FIN \<noteq> 0 then
               Option.bind (enq_put h msg s) (\<lambda>(_, s). Some (0, s))
             else if and nFlags WLS_TF_FIN \<noteq> 0 then
               Option.bind (enq_put h msg s) (\<lambda>(_, s).
               Option.bind (get_ctx s h) (\<lambda>c.
               if dst_user_va c \<noteq> NullCtx then process c s else Some (0, s)))
             else Some (0, s)
           else
             Option.bind (enq_put h msg s) (\<lambda>(_, s).
             Option.bind (get_ctx s h) (\<lambda>c.
             if dst_user_va c \<noteq> NullCtx then process c s else Some (-1, s))))"

text \<open>The message address with the three out parameters, which are written only when a
  message was there.\<close>

definition wls_get ::
  "ctx_ptr list \<Rightarrow> ctx_ptr \<Rightarrow> wls_shm \<Rightarrow> ((u64 \<times> (u32 \<times> u16 \<times> u16) option) \<times> wls_shm) option" where
  "wls_get tab h s =
     (if wls_check_ctx tab h \<noteq> 0 then Some ((0, None), s)
      else Option.bind (deq_get h s) (\<lambda>(r, s).
           case r of None \<Rightarrow> Some ((0, None), s)
           | Some (p, out) \<Rightarrow> Some ((p, Some out), s)))"

definition WLS_Check :: "ctx_ptr list \<Rightarrow> ctx_ptr \<Rightarrow> wls_shm \<Rightarrow> int option" where
  "WLS_Check tab h s =
     (if wls_check_ctx tab h \<noteq> 0 then Some 0
      else Option.bind (get_ctx s h)
        (\<lambda>c. Some (sint (WLS_GetNumItemsInTheQueue (get_queue c)))))"

definition WLS_Ready :: "ctx_ptr list \<Rightarrow> ctx_ptr \<Rightarrow> wls_shm \<Rightarrow> int option" where
  "WLS_Ready tab h s =
     Option.bind (get_ctx s h) (\<lambda>c.
     if wls_check_ctx tab h \<noteq> 0 then Some (-1)
     else Option.bind (get_ctx s (dst_user_va c)) (\<lambda>r.
          Some (if pid (wls_us_private r) \<noteq> 0 then 0 else -1)))"

section \<open>Wake-up and wait\<close>

definition wls_process_wakeup ::
  "wls_env \<Rightarrow> ctx_ptr list \<Rightarrow> ctx_ptr \<Rightarrow> wls_shm \<Rightarrow> (int \<times> wls_shm) option" where
  "wls_process_wakeup e tab h s =
     (if wls_check_ctx tab h \<noteq> 0 then Some (-1, s)
      else Option.bind (get_ctx s h) (\<lambda>c.
        if pid (wls_us_private c) = 0 then Some (-1, s)
        else Option.bind (wake_client e (mode c) h s) (\<lambda>s. Some (0, s))))"

definition WLS_WakeUp ::
  "wls_env \<Rightarrow> ctx_ptr list \<Rightarrow> ctx_ptr \<Rightarrow> wls_shm \<Rightarrow> (int \<times> wls_shm) option" where
  "WLS_WakeUp e tab h s =
     (if h = NullCtx then Some (-1, s)
      else if wls_check_ctx tab h \<noteq> 0 then Some (-1, s)
      else wls_process_wakeup e tab h s)"

datatype 'a blocking = Blocks | Returns 'a

definition wls_process_wait ::
  "wls_env \<Rightarrow> ctx_ptr list \<Rightarrow> ctx_ptr \<Rightarrow> wls_shm \<Rightarrow> (int blocking \<times> wls_shm) option" where
  "wls_process_wait e tab h s =
     (if wls_check_ctx tab h \<noteq> 0 then Some (Returns (-1), s)
      else if h = NullCtx then Some (Returns (-1), s)
      else Option.bind (get_ctx s h) (\<lambda>c.
        if pid (wls_us_private c) = 0 then Some (Returns (-1), s)
        else Option.bind (upd_ctx h (upd_priv (\<lambda>p. p\<lparr>isWait := 1\<rparr>)) s) (\<lambda>s.
          case wls_wait e (sema (wls_us_private c)) of
            None \<Rightarrow> Some (Blocks, s)
          | Some (_, sm) \<Rightarrow>
              Option.bind (upd_ctx h (upd_priv (\<lambda>p. p\<lparr>sema := sm, isWait := 0\<rparr>)) s) (\<lambda>s.
              Option.bind (get_ctx s h) (\<lambda>c.
              Some (Returns (sint (WLS_GetNumItemsInTheQueue (get_queue c))), s))))))"

definition WLS_Wait ::
  "wls_env \<Rightarrow> ctx_ptr list \<Rightarrow> ctx_ptr \<Rightarrow> wls_shm \<Rightarrow> (int blocking \<times> wls_shm) option" where
  "WLS_Wait e tab h s =
     (if wls_check_ctx tab h \<noteq> 0 then Some (Returns (-1), s) else wls_process_wait e tab h s)"

text \<open>\<open>WLS_Get\<close>, and \<open>WLS_WGet\<close>, which waits once when the queue is empty.  The mutexes
  around the calls serialise them, which the sequential model does anyway.\<close>

definition WLS_Get ::
  "ctx_ptr list \<Rightarrow> ctx_ptr \<Rightarrow> wls_shm \<Rightarrow> ((u64 \<times> (u32 \<times> u16 \<times> u16) option) \<times> wls_shm) option" where
  "WLS_Get tab h s = wls_get tab h s"

definition WLS_Put ::
  "wls_env \<Rightarrow> ctx_ptr list \<Rightarrow> ctx_ptr \<Rightarrow> wls_msg \<Rightarrow> wls_shm \<Rightarrow> (int \<times> wls_shm) option" where
  "WLS_Put e tab h msg s = wls_put e tab h msg s"

definition WLS_Get_Lockless ::
  "ctx_ptr list \<Rightarrow> ctx_ptr \<Rightarrow> wls_shm \<Rightarrow> ((u64 \<times> (u32 \<times> u16 \<times> u16) option) \<times> wls_shm) option" where
  "WLS_Get_Lockless tab h s = wls_get tab h s"

definition WLS_Put_Lockless ::
  "wls_env \<Rightarrow> ctx_ptr list \<Rightarrow> ctx_ptr \<Rightarrow> wls_msg \<Rightarrow> wls_shm \<Rightarrow> (int \<times> wls_shm) option" where
  "WLS_Put_Lockless e tab h msg s = wls_put e tab h msg s"

definition WLS_Get_Version :: u32 where "WLS_Get_Version = 101"

definition WLS_WGet ::
  "wls_env \<Rightarrow> ctx_ptr list \<Rightarrow> ctx_ptr \<Rightarrow> wls_shm
   \<Rightarrow> ((u64 \<times> (u32 \<times> u16 \<times> u16) option) blocking \<times> wls_shm) option" where
  "WLS_WGet e tab h s =
     Option.bind (WLS_Get tab h s) (\<lambda>(r, s).
     if fst r \<noteq> 0 then Some (Returns r, s)
     else Option.bind (WLS_Wait e tab h s) (\<lambda>(w, s).
       case w of Blocks \<Rightarrow> Some (Blocks, s)
       | Returns _ \<Rightarrow> Option.bind (WLS_Get tab h s) (\<lambda>(r', s).
           Some (Returns (fst r', if snd r' = None then snd r else snd r'), s))))"

end
