(* ===== verification/Wls_Link.thy ===== *)
theory Wls_Link
  imports Wls_Lib
begin

text \<open>
  What the message calls of \<open>Wls_Lib\<close> do to the queues of the clients: the abstract content
  of the put and get queue of a context, the pair of queues a transfer works on as an
  instance of \<open>fifo_transfer\<close>, and the delivery guarantees of a link of two clients.
\<close>

section \<open>The queues of a context\<close>

abbreviation wf_q :: "ctx_ptr \<Rightarrow> storage WLS_MSG_QUEUE \<Rightarrow> (storage, WLS_MSG_HANDLE) mem \<Rightarrow> bool" where
  "wf_q h \<equiv> mq_wf None h"

abbreviation items_q ::
  "ctx_ptr \<Rightarrow> storage WLS_MSG_QUEUE \<Rightarrow> (storage, WLS_MSG_HANDLE) mem \<Rightarrow> wls_msg list" where
  "items_q h \<equiv> mq_items None h"

definition put_items :: "ctx_ptr \<Rightarrow> wls_shm \<Rightarrow> wls_msg list" where
  "put_items p s = (case get_ctx s p of None \<Rightarrow> [] | Some c \<Rightarrow> items_q p (put_queue c) (msgs s))"

definition get_items :: "ctx_ptr \<Rightarrow> wls_shm \<Rightarrow> wls_msg list" where
  "get_items p s = (case get_ctx s p of None \<Rightarrow> [] | Some c \<Rightarrow> items_q p (get_queue c) (msgs s))"

definition put_cap :: "ctx_ptr \<Rightarrow> wls_shm \<Rightarrow> nat" where
  "put_cap p s = (case get_ctx s p of None \<Rightarrow> 0 | Some c \<Rightarrow> unat (mq_size (put_queue c)) - 1)"

definition get_cap :: "ctx_ptr \<Rightarrow> wls_shm \<Rightarrow> nat" where
  "get_cap p s = (case get_ctx s p of None \<Rightarrow> 0 | Some c \<Rightarrow> unat (mq_size (get_queue c)) - 1)"

definition put_level :: "ctx_ptr \<Rightarrow> wls_shm \<Rightarrow> nat" where
  "put_level p s = (case get_ctx s p of None \<Rightarrow> 0
     | Some c \<Rightarrow> unat (WLS_GetNumItemsInTheQueue (put_queue c)))"

definition get_level :: "ctx_ptr \<Rightarrow> wls_shm \<Rightarrow> nat" where
  "get_level p s = (case get_ctx s p of None \<Rightarrow> 0
     | Some c \<Rightarrow> unat (WLS_GetNumItemsInTheQueue (get_queue c)))"

lemmas view_defs =
  put_items_def get_items_def put_cap_def get_cap_def put_level_def get_level_def

text \<open>A client: its queues are well-formed and stored in the arrays of its own context.\<close>

definition client_ok :: "wls_shm \<Rightarrow> ctx_ptr \<Rightarrow> bool" where
  "client_ok s p = (case p of NullCtx \<Rightarrow> False | Ctx z i \<Rightarrow>
     (case get_ctx s p of None \<Rightarrow> False | Some c \<Rightarrow>
        mq_pStorage (get_queue c) = GetStorage z i \<and> wf_q p (get_queue c) (msgs s)
      \<and> mq_pStorage (put_queue c) = PutStorage z i \<and> wf_q p (put_queue c) (msgs s)))"

lemma client_okD:
  assumes "client_ok s p"
  obtains z i c where "p = Ctx z i" "get_ctx s p = Some c"
    "mq_pStorage (get_queue c) = GetStorage z i" "wf_q p (get_queue c) (msgs s)"
    "mq_pStorage (put_queue c) = PutStorage z i" "wf_q p (put_queue c) (msgs s)"
  using assms by (auto simp: client_ok_def split: ctx_ptr.splits option.splits)

lemma mq_same_storage:
  assumes "m (mq_pStorage q) = m' (mq_pStorage q)"
  shows "mq_wf None h q m = mq_wf None h q m'" "mq_items None h q m = mq_items None h q m'"
  using assms by (simp_all add: mq_wf_def mq_items_def)

text \<open>Two states whose contexts differ in more than the queues look the same to the views.\<close>

definition same_queues :: "wls_shm \<Rightarrow> wls_shm \<Rightarrow> bool" where
  "same_queues s s' = (msgs s' = msgs s \<and>
     (\<forall>p. map_option (\<lambda>c. (get_queue c, put_queue c)) (get_ctx s' p)
        = map_option (\<lambda>c. (get_queue c, put_queue c)) (get_ctx s p)))"

lemma same_queues_refl [simp]: "same_queues s s"
  by (simp add: same_queues_def)

lemma same_queues_trans: "same_queues s t \<Longrightarrow> same_queues t u \<Longrightarrow> same_queues s u"
  by (simp add: same_queues_def)

lemma same_queues_views:
  assumes "same_queues s s'"
  shows "client_ok s' p = client_ok s p" "put_items p s' = put_items p s"
    "get_items p s' = get_items p s" "put_cap p s' = put_cap p s" "get_cap p s' = get_cap p s"
  using assms
  by (auto simp: same_queues_def client_ok_def view_defs split: ctx_ptr.splits option.splits
      dest!: spec [where x = p])

definition keeps_queues :: "(wls_us_ctx \<Rightarrow> wls_us_ctx) \<Rightarrow> bool" where
  "keeps_queues f = (\<forall>c. get_queue (f c) = get_queue c \<and> put_queue (f c) = put_queue c)"

lemma upd_ctx_same_queues:
  assumes "upd_ctx p f s = Some s'" "keeps_queues f"
  shows "same_queues s s'"
proof -
  obtain c where c: "get_ctx s p = Some c" "s' = set_ctx p (f c) s"
    using assms(1) by (auto simp: upd_ctx_def)
  have "map_option (\<lambda>c. (get_queue c, put_queue c)) (get_ctx s' q)
      = map_option (\<lambda>c. (get_queue c, put_queue c)) (get_ctx s q)" for q
    using c assms(2) by (cases "q = p") (auto simp: keeps_queues_def)
  then show ?thesis using c by (simp add: same_queues_def)
qed

lemma keeps_queues_upd [simp]: "keeps_queues (upd_priv f)" "keeps_queues (upd_sema g)"
  by (simp_all add: keeps_queues_def upd_priv_def upd_sema_def)

lemma upd_ctx_Some: "get_ctx s p = Some c \<Longrightarrow> upd_ctx p f s = Some (set_ctx p (f c) s)"
  by (simp add: upd_ctx_def)

lemma upd_ctx_get:
  "upd_ctx p f s = Some s' \<Longrightarrow> get_ctx s' q = (if q = p then map_option f (get_ctx s p) else get_ctx s q)"
  by (auto simp: upd_ctx_def)

section \<open>Queue operations on a context\<close>

definition queue_sel ::
  "(wls_us_ctx \<Rightarrow> storage WLS_MSG_QUEUE) \<Rightarrow> (storage WLS_MSG_QUEUE \<Rightarrow> wls_us_ctx \<Rightarrow> wls_us_ctx) \<Rightarrow> bool" where
  "queue_sel rd wr = (\<forall>q c. rd (wr q c) = q)"

lemma msg_enqueue_ctx_full:
  assumes "get_ctx s p = Some c" "wf_q p (rd c) (msgs s)"
    "unat (mq_size (rd c)) - 1 \<le> length (items_q p (rd c) (msgs s))"
  shows "msg_enqueue_ctx rd wr p x s = Some (False, (set_ctx p (wr (rd c) c) s)\<lparr>msgs := msgs s\<rparr>)"
  using WLS_MsgEnqueue_full [OF assms(2,3)] assms(1)
  by (cases x) (simp add: msg_enqueue_ctx_def)

lemma msg_enqueue_ctx_room:
  assumes "get_ctx s p = Some c" "wf_q p (rd c) (msgs s)"
    "length (items_q p (rd c) (msgs s)) < unat (mq_size (rd c)) - 1"
  obtains q m where
    "msg_enqueue_ctx rd wr p x s = Some (True, (set_ctx p (wr q c) s)\<lparr>msgs := m\<rparr>)"
    "mq_size q = mq_size (rd c)" "mq_pStorage q = mq_pStorage (rd c)"
    "wf_q p q m" "items_q p q m = items_q p (rd c) (msgs s) @ [x]"
    "\<And>a. a \<noteq> mq_pStorage (rd c) \<Longrightarrow> m a = msgs s a"
proof -
  obtain a sz ty fl where x: "x = (a, sz, ty, fl)" by (cases x)
  obtain q m where q: "WLS_MsgEnqueue (rd c) a sz ty fl None p (msgs s) = Some (True, q, m)"
      "q = (rd c)\<lparr>mq_put := ring_next (mq_size (rd c)) (mq_put (rd c))\<rparr>"
      "wf_q p q m" "items_q p q m = items_q p (rd c) (msgs s) @ [(a, sz, ty, fl)]"
      "\<And>b. b \<noteq> local_storage None p (mq_pStorage (rd c)) \<Longrightarrow> m b = msgs s b"
    by (rule WLS_MsgEnqueue_room [OF assms(2,3), where p = a and sz = sz and ty = ty and fl = fl]) blast
  show ?thesis
    by (rule that [where q = q and m = m]) (use q assms(1) x in \<open>simp_all add: msg_enqueue_ctx_def\<close>)
qed

lemma msg_dequeue_ctx_empty:
  assumes "get_ctx s p = Some c" "wf_q p (rd c) (msgs s)" "items_q p (rd c) (msgs s) = []"
  shows "msg_dequeue_ctx rd wr p s = Some (None, set_ctx p (wr (rd c) c) s)"
  using WLS_MsgDequeue_empty [OF assms(2,3)] assms(1) by (simp add: msg_dequeue_ctx_def)

lemma msg_dequeue_ctx_item:
  assumes "get_ctx s p = Some c" "wf_q p (rd c) (msgs s)" "items_q p (rd c) (msgs s) = x # xs"
  obtains q where "msg_dequeue_ctx rd wr p s = Some (Some x, set_ctx p (wr q c) s)"
    "mq_size q = mq_size (rd c)" "mq_pStorage q = mq_pStorage (rd c)"
    "wf_q p q (msgs s)" "items_q p q (msgs s) = xs"
proof -
  obtain q i where q: "WLS_MsgDequeue (rd c) (Some zero_handle) None p (msgs s) = Some (True, q, Some i)"
      "msg_of i = x" "q = (rd c)\<lparr>mq_get := ring_next (mq_size (rd c)) (mq_get (rd c))\<rparr>"
      "wf_q p q (msgs s)" "items_q p q (msgs s) = xs"
    by (rule WLS_MsgDequeue_item [OF assms(2,3), where d = "Some zero_handle"]) simp_all
  show ?thesis
    by (rule that [of q]) (use q assms(1) in \<open>simp_all add: msg_dequeue_ctx_def\<close>)
qed


text \<open>A change of the put queue of \<open>p\<close> is invisible through every other queue; likewise for
  the get queue.\<close>

definition put_step :: "ctx_ptr \<Rightarrow> wls_shm \<Rightarrow> wls_shm \<Rightarrow> bool" where
  "put_step p s s' =
     ((\<forall>r. client_ok s r \<longrightarrow> client_ok s' r \<and> get_items r s' = get_items r s
         \<and> get_cap r s' = get_cap r s \<and> put_cap r s' = put_cap r s
         \<and> (r \<noteq> p \<longrightarrow> put_items r s' = put_items r s))
      \<and> (\<forall>r. map_option (\<lambda>c. c\<lparr>put_queue := WLS_MsgDefineQueue NullStorage 0 0\<rparr>) (get_ctx s' r)
           = map_option (\<lambda>c. c\<lparr>put_queue := WLS_MsgDefineQueue NullStorage 0 0\<rparr>) (get_ctx s r)))"

definition get_step :: "ctx_ptr \<Rightarrow> wls_shm \<Rightarrow> wls_shm \<Rightarrow> bool" where
  "get_step p s s' =
     ((\<forall>r. client_ok s r \<longrightarrow> client_ok s' r \<and> put_items r s' = put_items r s
         \<and> get_cap r s' = get_cap r s \<and> put_cap r s' = put_cap r s
         \<and> (r \<noteq> p \<longrightarrow> get_items r s' = get_items r s))
      \<and> (\<forall>r. map_option (\<lambda>c. c\<lparr>get_queue := WLS_MsgDefineQueue NullStorage 0 0\<rparr>) (get_ctx s' r)
           = map_option (\<lambda>c. c\<lparr>get_queue := WLS_MsgDefineQueue NullStorage 0 0\<rparr>) (get_ctx s r)))"

lemma put_stepI:
  assumes p: "p = Ctx z i" "get_ctx s p = Some c" "mq_pStorage (put_queue c) = PutStorage z i"
    and q: "mq_pStorage q = PutStorage z i" "mq_size q = mq_size (put_queue c)" "wf_q p q (msgs s')"
    and m: "\<And>a. a \<noteq> PutStorage z i \<Longrightarrow> msgs s' a = msgs s a"
    and s': "get_ctx s' p = Some (c\<lparr>put_queue := q\<rparr>)" "\<And>r. r \<noteq> p \<Longrightarrow> get_ctx s' r = get_ctx s r"
  shows "put_step p s s'"
proof -
  have "client_ok s' r \<and> get_items r s' = get_items r s \<and> get_cap r s' = get_cap r s
      \<and> put_cap r s' = put_cap r s \<and> (r \<noteq> p \<longrightarrow> put_items r s' = put_items r s)"
    if ok: "client_ok s r" for r
  proof -
    obtain y j d where d: "r = Ctx y j" "get_ctx s r = Some d"
        "mq_pStorage (get_queue d) = GetStorage y j" "wf_q r (get_queue d) (msgs s)"
        "mq_pStorage (put_queue d) = PutStorage y j" "wf_q r (put_queue d) (msgs s)"
      by (rule client_okD [OF ok])
    have "msgs s' (mq_pStorage (get_queue d)) = msgs s (mq_pStorage (get_queue d))"
      using m d by simp
    note get = mq_same_storage [of "msgs s'" "get_queue d" "msgs s" r, OF this]
    show ?thesis
    proof (cases "r = p")
      case True
      then have "d = c" "r = Ctx z i" using p d by auto
      then show ?thesis using True p(2,3) q s'(1) get d(3-6)
        by (simp add: client_ok_def view_defs)
    next
      case False
      then have "msgs s' (mq_pStorage (put_queue d)) = msgs s (mq_pStorage (put_queue d))"
        using p d by (auto intro!: m)
      note put = mq_same_storage [of "msgs s'" "put_queue d" "msgs s" r, OF this]
      show ?thesis using False d s'(2) [OF False] get put by (simp add: client_ok_def view_defs)
    qed
  qed
  moreover have "map_option (\<lambda>c. c\<lparr>put_queue := n\<rparr>) (get_ctx s' r)
      = map_option (\<lambda>c. c\<lparr>put_queue := n\<rparr>) (get_ctx s r)" for r n
    using s' p by (cases "r = p") auto
  ultimately show ?thesis unfolding put_step_def by blast
qed

lemma get_stepI:
  assumes p: "p = Ctx z i" "get_ctx s p = Some c" "mq_pStorage (get_queue c) = GetStorage z i"
    and q: "mq_pStorage q = GetStorage z i" "mq_size q = mq_size (get_queue c)" "wf_q p q (msgs s')"
    and m: "\<And>a. a \<noteq> GetStorage z i \<Longrightarrow> msgs s' a = msgs s a"
    and s': "get_ctx s' p = Some (c\<lparr>get_queue := q\<rparr>)" "\<And>r. r \<noteq> p \<Longrightarrow> get_ctx s' r = get_ctx s r"
  shows "get_step p s s'"
proof -
  have "client_ok s' r \<and> put_items r s' = put_items r s \<and> get_cap r s' = get_cap r s
      \<and> put_cap r s' = put_cap r s \<and> (r \<noteq> p \<longrightarrow> get_items r s' = get_items r s)"
    if ok: "client_ok s r" for r
  proof -
    obtain y j d where d: "r = Ctx y j" "get_ctx s r = Some d"
        "mq_pStorage (get_queue d) = GetStorage y j" "wf_q r (get_queue d) (msgs s)"
        "mq_pStorage (put_queue d) = PutStorage y j" "wf_q r (put_queue d) (msgs s)"
      by (rule client_okD [OF ok])
    have "msgs s' (mq_pStorage (put_queue d)) = msgs s (mq_pStorage (put_queue d))"
      using m d by simp
    note put = mq_same_storage [of "msgs s'" "put_queue d" "msgs s" r, OF this]
    show ?thesis
    proof (cases "r = p")
      case True
      then have "d = c" "r = Ctx z i" using p d by auto
      then show ?thesis using True p(2,3) q s'(1) put d(3-6)
        by (simp add: client_ok_def view_defs)
    next
      case False
      then have "msgs s' (mq_pStorage (get_queue d)) = msgs s (mq_pStorage (get_queue d))"
        using p d by (auto intro!: m)
      note get = mq_same_storage [of "msgs s'" "get_queue d" "msgs s" r, OF this]
      show ?thesis using False d s'(2) [OF False] get put by (simp add: client_ok_def view_defs)
    qed
  qed
  moreover have "map_option (\<lambda>c. c\<lparr>get_queue := n\<rparr>) (get_ctx s' r)
      = map_option (\<lambda>c. c\<lparr>get_queue := n\<rparr>) (get_ctx s r)" for r n
    using s' p by (cases "r = p") auto
  ultimately show ?thesis unfolding get_step_def by blast
qed

lemma put_step_refl [simp]: "put_step p s s" and get_step_refl [simp]: "get_step p s s"
  by (simp_all add: put_step_def get_step_def)

text \<open>The four queue operations on the views.\<close>

lemma enq_put_full:
  assumes "client_ok s p" "put_cap p s \<le> length (put_items p s)"
  shows "enq_put p x s = Some (False, s)"
  using assms by (auto simp: enq_put_def view_defs elim!: client_okD simp: msg_enqueue_ctx_full)

lemma enq_get_full:
  assumes "client_ok s p" "get_cap p s \<le> length (get_items p s)"
  shows "enq_get p x s = Some (False, s)"
  using assms by (auto simp: enq_get_def view_defs elim!: client_okD simp: msg_enqueue_ctx_full)

lemma enq_put_room:
  assumes "client_ok s p" "length (put_items p s) < put_cap p s"
  obtains s' where "enq_put p x s = Some (True, s')" "put_items p s' = put_items p s @ [x]"
    "put_step p s s'"
proof -
  obtain z i c where c: "p = Ctx z i" "get_ctx s p = Some c"
      "mq_pStorage (put_queue c) = PutStorage z i" "wf_q p (put_queue c) (msgs s)"
    using assms(1) by (rule client_okD)
  then have "length (items_q p (put_queue c) (msgs s)) < unat (mq_size (put_queue c)) - 1"
    using assms(2) by (simp add: view_defs)
  then obtain q m where q:
      "enq_put p x s = Some (True, (set_ctx p (c\<lparr>put_queue := q\<rparr>) s)\<lparr>msgs := m\<rparr>)"
      "mq_size q = mq_size (put_queue c)" "mq_pStorage q = mq_pStorage (put_queue c)"
      "wf_q p q m" "items_q p q m = items_q p (put_queue c) (msgs s) @ [x]"
      "\<And>a. a \<noteq> mq_pStorage (put_queue c) \<Longrightarrow> m a = msgs s a"
    unfolding enq_put_def by (rule msg_enqueue_ctx_room [where rd = put_queue and x = x
          and wr = "\<lambda>q c. c\<lparr>put_queue := q\<rparr>", OF c(2,4)]) blast+
  have "put_step p s ((set_ctx p (c\<lparr>put_queue := q\<rparr>) s)\<lparr>msgs := m\<rparr>)"
    by (rule put_stepI [OF c(1-3)]) (use c q in auto)
  then show ?thesis using that [OF q(1)] c q by (simp add: view_defs)
qed

lemma enq_get_room:
  assumes "client_ok s p" "length (get_items p s) < get_cap p s"
  obtains s' where "enq_get p x s = Some (True, s')" "get_items p s' = get_items p s @ [x]"
    "get_step p s s'"
proof -
  obtain z i c where c: "p = Ctx z i" "get_ctx s p = Some c"
      "mq_pStorage (get_queue c) = GetStorage z i" "wf_q p (get_queue c) (msgs s)"
    using assms(1) by (rule client_okD)
  then have "length (items_q p (get_queue c) (msgs s)) < unat (mq_size (get_queue c)) - 1"
    using assms(2) by (simp add: view_defs)
  then obtain q m where q:
      "enq_get p x s = Some (True, (set_ctx p (c\<lparr>get_queue := q\<rparr>) s)\<lparr>msgs := m\<rparr>)"
      "mq_size q = mq_size (get_queue c)" "mq_pStorage q = mq_pStorage (get_queue c)"
      "wf_q p q m" "items_q p q m = items_q p (get_queue c) (msgs s) @ [x]"
      "\<And>a. a \<noteq> mq_pStorage (get_queue c) \<Longrightarrow> m a = msgs s a"
    unfolding enq_get_def by (rule msg_enqueue_ctx_room [where rd = get_queue and x = x
          and wr = "\<lambda>q c. c\<lparr>get_queue := q\<rparr>", OF c(2,4)]) blast+
  have "get_step p s ((set_ctx p (c\<lparr>get_queue := q\<rparr>) s)\<lparr>msgs := m\<rparr>)"
    by (rule get_stepI [OF c(1-3)]) (use c q in auto)
  then show ?thesis using that [OF q(1)] c q by (simp add: view_defs)
qed

lemma deq_put_empty:
  assumes "client_ok s p" "put_items p s = []"
  shows "deq_put p s = Some (None, s)"
  using assms by (auto simp: deq_put_def view_defs elim!: client_okD simp: msg_dequeue_ctx_empty)

lemma deq_get_empty:
  assumes "client_ok s p" "get_items p s = []"
  shows "deq_get p s = Some (None, s)"
  using assms by (auto simp: deq_get_def view_defs elim!: client_okD simp: msg_dequeue_ctx_empty)

lemma deq_put_item:
  assumes "client_ok s p" "put_items p s = x # xs"
  obtains s' where "deq_put p s = Some (Some x, s')" "put_items p s' = xs" "put_step p s s'"
proof -
  obtain z i c where c: "p = Ctx z i" "get_ctx s p = Some c"
      "mq_pStorage (put_queue c) = PutStorage z i" "wf_q p (put_queue c) (msgs s)"
    using assms(1) by (rule client_okD)
  then have "items_q p (put_queue c) (msgs s) = x # xs" using assms(2) by (simp add: view_defs)
  then obtain q where q: "deq_put p s = Some (Some x, set_ctx p (c\<lparr>put_queue := q\<rparr>) s)"
      "mq_size q = mq_size (put_queue c)" "mq_pStorage q = mq_pStorage (put_queue c)"
      "wf_q p q (msgs s)" "items_q p q (msgs s) = xs"
    unfolding deq_put_def by (rule msg_dequeue_ctx_item [where rd = put_queue
          and wr = "\<lambda>q c. c\<lparr>put_queue := q\<rparr>", OF c(2,4)]) blast+
  have "put_step p s (set_ctx p (c\<lparr>put_queue := q\<rparr>) s)"
    by (rule put_stepI [OF c(1-3)]) (use c q in auto)
  then show ?thesis using that [OF q(1)] c q by (simp add: view_defs)
qed

lemma deq_get_item:
  assumes "client_ok s p" "get_items p s = x # xs"
  obtains s' where "deq_get p s = Some (Some x, s')" "get_items p s' = xs" "get_step p s s'"
proof -
  obtain z i c where c: "p = Ctx z i" "get_ctx s p = Some c"
      "mq_pStorage (get_queue c) = GetStorage z i" "wf_q p (get_queue c) (msgs s)"
    using assms(1) by (rule client_okD)
  then have "items_q p (get_queue c) (msgs s) = x # xs" using assms(2) by (simp add: view_defs)
  then obtain q where q: "deq_get p s = Some (Some x, set_ctx p (c\<lparr>get_queue := q\<rparr>) s)"
      "mq_size q = mq_size (get_queue c)" "mq_pStorage q = mq_pStorage (get_queue c)"
      "wf_q p q (msgs s)" "items_q p q (msgs s) = xs"
    unfolding deq_get_def by (rule msg_dequeue_ctx_item [where rd = get_queue
          and wr = "\<lambda>q c. c\<lparr>get_queue := q\<rparr>", OF c(2,4)]) blast+
  have "get_step p s (set_ctx p (c\<lparr>get_queue := q\<rparr>) s)"
    by (rule get_stepI [OF c(1-3)]) (use c q in auto)
  then show ?thesis using that [OF q(1)] c q by (simp add: view_defs)
qed


lemma enq_put_step: "client_ok s p \<Longrightarrow> enq_put p x s = Some (b, s') \<Longrightarrow> put_step p s s'"
  by (cases "length (put_items p s) < put_cap p s")
    (auto elim: enq_put_room [where x = x] simp: enq_put_full)

lemma enq_get_step: "client_ok s p \<Longrightarrow> enq_get p x s = Some (b, s') \<Longrightarrow> get_step p s s'"
  by (cases "length (get_items p s) < get_cap p s")
    (auto elim: enq_get_room [where x = x] simp: enq_get_full)

lemma deq_put_step: "client_ok s p \<Longrightarrow> deq_put p s = Some (r, s') \<Longrightarrow> put_step p s s'"
  by (cases "put_items p s") (auto elim: deq_put_item simp: deq_put_empty)

lemma deq_get_step: "client_ok s p \<Longrightarrow> deq_get p s = Some (r, s') \<Longrightarrow> get_step p s s'"
  by (cases "get_items p s") (auto elim: deq_get_item simp: deq_get_empty)

lemma put_stepD:
  assumes "put_step p s s'" "client_ok s r"
  shows "client_ok s' r" "get_items r s' = get_items r s" "get_cap r s' = get_cap r s"
    "put_cap r s' = put_cap r s" "r \<noteq> p \<Longrightarrow> put_items r s' = put_items r s"
  using assms by (simp_all add: put_step_def)

lemma get_stepD:
  assumes "get_step p s s'" "client_ok s r"
  shows "client_ok s' r" "put_items r s' = put_items r s" "get_cap r s' = get_cap r s"
    "put_cap r s' = put_cap r s" "r \<noteq> p \<Longrightarrow> get_items r s' = get_items r s"
  using assms by (simp_all add: get_step_def)

text \<open>Whom a client talks to: mode, peer, process and shared semaphore.\<close>

definition ctx_pages :: "wls_us_ctx \<Rightarrow> u64 \<times> u32 \<times> hugepage_tabl list \<times> u32" where
  "ctx_pages c = (alloc_buffer c, HugePageSize c, hugepageTbl c, nHugePage c)"

definition ctx_meta :: "wls_us_ctx \<Rightarrow> (u32 \<times> ctx_ptr \<times> u32 \<times> ctx_ptr) \<times> u64 \<times> u32 \<times> hugepage_tabl list \<times> u32" where
  "ctx_meta c = ((mode c, dst_user_va c, pid (wls_us_private c), sema_shared (wls_us_private c)), ctx_pages c)"

definition same_meta :: "wls_shm \<Rightarrow> wls_shm \<Rightarrow> bool" where
  "same_meta s s' = (\<forall>r. map_option ctx_meta (get_ctx s' r) = map_option ctx_meta (get_ctx s r))"

lemma same_meta_refl [simp]: "same_meta s s"
  by (simp add: same_meta_def)

lemma same_meta_trans: "same_meta s t \<Longrightarrow> same_meta t u \<Longrightarrow> same_meta s u"
  by (simp add: same_meta_def)

lemma same_metaD:
  assumes "same_meta s s'" "get_ctx s r = Some c"
  obtains c' where "get_ctx s' r = Some c'" "mode c' = mode c" "dst_user_va c' = dst_user_va c"
    "pid (wls_us_private c') = pid (wls_us_private c)"
    "sema_shared (wls_us_private c') = sema_shared (wls_us_private c)"
  using assms by (auto simp: same_meta_def ctx_meta_def ctx_pages_def dest!: spec [where x = r])

lemma put_step_meta: "put_step p s s' \<Longrightarrow> same_meta s s'"
  and get_step_meta: "get_step p s s' \<Longrightarrow> same_meta s s'"
proof -
  have *: "map_option ctx_meta x = map_option ctx_meta y"
    if "map_option (\<lambda>c. c\<lparr>put_queue := n\<rparr>) x = map_option (\<lambda>c. c\<lparr>put_queue := n\<rparr>) y
      \<or> map_option (\<lambda>c. c\<lparr>get_queue := n\<rparr>) x = map_option (\<lambda>c. c\<lparr>get_queue := n\<rparr>) y" for x y n
  proof (cases x; cases y)
    fix c d
    assume xy: "x = Some c" "y = Some d"
    then have "c\<lparr>put_queue := n\<rparr> = d\<lparr>put_queue := n\<rparr> \<or> c\<lparr>get_queue := n\<rparr> = d\<lparr>get_queue := n\<rparr>"
      using that by simp
    then show ?thesis using xy by (cases c; cases d) (auto simp: ctx_meta_def ctx_pages_def)
  qed (use that in auto)
  show "put_step p s s' \<Longrightarrow> same_meta s s'" "get_step p s s' \<Longrightarrow> same_meta s s'"
    unfolding put_step_def get_step_def same_meta_def by (blast intro: *)+
qed

section \<open>The two queues of a transfer\<close>

definition link_inv :: "ctx_ptr \<Rightarrow> ctx_ptr \<Rightarrow> wls_shm \<Rightarrow> bool" where
  "link_inv a b s = (client_ok s a \<and> client_ok s b)"

lemma views_level:
  assumes "client_ok s p"
  shows "put_level p s = length (put_items p s)" "get_level p s = length (get_items p s)"
    "length (put_items p s) \<le> put_cap p s" "length (get_items p s) \<le> get_cap p s"
proof -
  obtain c where c: "get_ctx s p = Some c" "wf_q p (get_queue c) (msgs s)"
      "wf_q p (put_queue c) (msgs s)"
    using assms by (rule client_okD)
  show "put_level p s = length (put_items p s)" "get_level p s = length (get_items p s)"
    "length (put_items p s) \<le> put_cap p s" "length (get_items p s) \<le> get_cap p s"
    using c mq_level [OF c(2)] mq_level [OF c(3)] mq_items_bound [OF c(2)] mq_items_bound [OF c(3)]
    by (simp_all add: view_defs)
qed

interpretation link: fifo_transfer "link_inv a b"
  "put_items a" "put_cap a" "put_level a" "enq_put a" "deq_put a"
  "get_items b" "get_cap b" "get_level b" "enq_get b" "deq_get b"
  for a b
proof (unfold_locales, goal_cases)
  case (3 s x)
  then obtain s' where "enq_put a x s = Some (True, s')" "put_items a s' = put_items a s @ [x]"
      "put_step a s s'"
    by (auto simp: link_inv_def elim: enq_put_room [where p = a and s = s and x = x])
  then show ?case using 3 put_stepD by (auto simp: link_inv_def)
next
  case (6 s x xs)
  then obtain s' where "deq_put a s = Some (Some x, s')" "put_items a s' = xs" "put_step a s s'"
    by (auto simp: link_inv_def elim: deq_put_item [where p = a and s = s and x = x and xs = xs])
  then show ?case using 6 put_stepD by (auto simp: link_inv_def)
next
  case (9 s x)
  then obtain s' where "enq_get b x s = Some (True, s')" "get_items b s' = get_items b s @ [x]"
      "get_step b s s'"
    by (auto simp: link_inv_def elim: enq_get_room [where p = b and s = s and x = x])
  then show ?case using 9 get_stepD by (auto simp: link_inv_def)
next
  case (12 s x xs)
  then obtain s' where "deq_get b s = Some (Some x, s')" "get_items b s' = xs" "get_step b s s'"
    by (auto simp: link_inv_def elim: deq_get_item [where p = b and s = s and x = x and xs = xs])
  then show ?case using 12 get_stepD by (auto simp: link_inv_def)
next
  case (13 s r s')
  then have "put_step a s s'" "client_ok s b" by (auto simp: link_inv_def intro: deq_put_step)
  then show ?case by (simp add: put_stepD)
next
  case (14 s x b' s')
  then have "put_step a s s'" "client_ok s b" by (auto simp: link_inv_def intro: enq_put_step)
  then show ?case by (simp add: put_stepD)
next
  case (15 s x b' s')
  then have "get_step b s s'" "client_ok s a" by (auto simp: link_inv_def intro: enq_get_step)
  then show ?case by (simp add: get_stepD)
qed (auto simp: link_inv_def views_level enq_put_full enq_get_full deq_put_empty deq_get_empty)


section \<open>Transfers\<close>

lemma process_put_loop_eq:
  "process_put_loop n a b s = transfer_loop (deq_put a) (enq_get b) (enq_put a) n s"
proof -
  have "process_put_loop n a b = transfer_loop (deq_put a) (enq_get b) (enq_put a) n"
  proof (induction n)
    case (Suc n)
    show ?case by (rule ext) (simp only: process_put_loop.simps transfer_loop.simps Suc)
  qed auto
  then show ?thesis by simp
qed

text \<open>What a transfer from \<open>a\<close> to \<open>b\<close> leaves alone.\<close>

definition link_frame :: "ctx_ptr \<Rightarrow> ctx_ptr \<Rightarrow> wls_shm \<Rightarrow> wls_shm \<Rightarrow> bool" where
  "link_frame a b s s' = (same_meta s s' \<and>
     (\<forall>r. client_ok s r \<longrightarrow> client_ok s' r \<and> get_cap r s' = get_cap r s \<and> put_cap r s' = put_cap r s
        \<and> (r \<noteq> a \<longrightarrow> put_items r s' = put_items r s) \<and> (r \<noteq> b \<longrightarrow> get_items r s' = get_items r s)))"

lemma link_frame_refl [simp]: "link_frame a b s s"
  by (simp add: link_frame_def)

lemma link_frame_trans: "link_frame a b s t \<Longrightarrow> link_frame a b t u \<Longrightarrow> link_frame a b s u"
  unfolding link_frame_def by (metis same_meta_trans)

lemma link_frame_steps:
  "put_step a s s' \<Longrightarrow> link_frame a b s s'" "get_step b s s' \<Longrightarrow> link_frame a b s s'"
  by (auto simp: link_frame_def put_step_meta get_step_meta put_stepD get_stepD)

lemma link_frame_same_queues: "same_queues s s' \<Longrightarrow> same_meta s s' \<Longrightarrow> link_frame a b s s'"
  by (simp add: link_frame_def same_queues_views)

lemma link_frame_inv: "link_frame a b s s' \<Longrightarrow> link_inv a b s \<Longrightarrow> link_inv a b s'"
  by (simp add: link_frame_def link_inv_def)

lemma transfer_loop_frame:
  "link_inv a b s \<Longrightarrow> transfer_loop (deq_put a) (enq_get b) (enq_put a) n s = Some (r, s')
   \<Longrightarrow> link_frame a b s s'"
proof (induction n arbitrary: s)
  case (Suc n)
  obtain m t where t: "deq_put a s = Some (m, t)"
    using Suc.prems(2) by (auto simp: bind_Some_iff)
  then have st: "link_frame a b s t" "link_inv a b t"
    using Suc.prems(1) deq_put_step link_frame_steps link_frame_inv by (meson link_inv_def)+
  show ?case
  proof (cases m)
    case None
    then show ?thesis using Suc.prems t st by simp
  next
    case (Some x)
    then obtain ok u where u: "enq_get b x t = Some (ok, u)"
      using Suc.prems(2) t by (auto simp: bind_Some_iff)
    then have tu: "link_frame a b t u" "link_inv a b u"
      using st(2) enq_get_step link_frame_steps link_frame_inv by (meson link_inv_def)+
    have "link_frame a b u s'"
    proof (cases ok)
      case True
      then show ?thesis using Suc.IH [OF tu(2)] Suc.prems(2) t u Some by simp
    next
      case False
      then obtain ret where "enq_put a x u = Some (ret, s')"
        using Suc.prems(2) t u Some by (auto simp: bind_Some_iff)
      then show ?thesis using tu(2) enq_put_step link_frame_steps by (meson link_inv_def)
    qed
    then show ?thesis using st(1) tu(1) link_frame_trans by blast
  qed
qed simp

lemma keeps_meta_priv:
  assumes "upd_ctx p f s = Some s'" "\<And>c. ctx_meta (f c) = ctx_meta c"
  shows "same_meta s s'"
proof -
  obtain c where c: "get_ctx s p = Some c" "s' = set_ctx p (f c) s"
    using assms(1) by (auto simp: upd_ctx_def)
  have "map_option ctx_meta (get_ctx s' r) = map_option ctx_meta (get_ctx s r)" for r
    using c assms(2) by (cases "r = p") simp_all
  then show ?thesis by (simp add: same_meta_def)
qed

text \<open>\<open>a\<close> is linked to \<open>b\<close>: \<open>b\<close> is \<open>a\<close>'s destination, is alive and can be woken.\<close>

definition linked :: "ctx_ptr \<Rightarrow> ctx_ptr \<Rightarrow> wls_shm \<Rightarrow> bool" where
  "linked a b s = (link_inv a b s \<and>
     (case (get_ctx s a, get_ctx s b) of
        (Some c, Some d) \<Rightarrow> dst_user_va c = b \<and> pid (wls_us_private d) \<noteq> 0
                          \<and> get_ctx s (sema_target d (mode c) b) \<noteq> None
      | _ \<Rightarrow> False))"

lemma linkedD:
  assumes "linked a b s"
  obtains c d where "link_inv a b s" "get_ctx s a = Some c" "get_ctx s b = Some d"
    "dst_user_va c = b" "pid (wls_us_private d) \<noteq> 0" "get_ctx s (sema_target d (mode c) b) \<noteq> None"
    "a \<noteq> NullCtx" "b \<noteq> NullCtx"
  using assms by (auto simp: linked_def split: option.splits) fastforce

lemma same_meta_None: "same_meta s s' \<Longrightarrow> get_ctx s' r = None \<longleftrightarrow> get_ctx s r = None"
  by (metis map_option_is_None same_meta_def)

lemma linked_frame:
  assumes "linked a b s" "link_frame a' b' s s'"
  shows "linked a b s'"
proof -
  obtain c d where s: "link_inv a b s" "get_ctx s a = Some c" "get_ctx s b = Some d"
    "dst_user_va c = b" "pid (wls_us_private d) \<noteq> 0" "get_ctx s (sema_target d (mode c) b) \<noteq> None"
    using assms(1) by (rule linkedD)
  have meta: "same_meta s s'" using assms(2) by (simp add: link_frame_def)
  obtain c' where c': "get_ctx s' a = Some c'" "mode c' = mode c" "dst_user_va c' = dst_user_va c"
    using same_metaD [OF meta s(2)] .
  obtain d' where d': "get_ctx s' b = Some d'" "pid (wls_us_private d') = pid (wls_us_private d)"
      "sema_shared (wls_us_private d') = sema_shared (wls_us_private d)"
    using same_metaD [OF meta s(3)] .
  have "sema_target d' (mode c') b = sema_target d (mode c) b"
    using c' d' by (simp add: sema_target_def)
  moreover have "link_inv a b s'" using s(1) assms(2) by (simp add: link_frame_def link_inv_def)
  ultimately show ?thesis
    using s c' d' same_meta_None [OF meta] by (simp add: linked_def)
qed

lemma wake_client_frame:
  assumes "get_ctx s p = Some c" "get_ctx s (sema_target c md p) \<noteq> None"
  obtains s' where "wake_client e md p s = Some s'" "same_queues s s'" "same_meta s s'"
proof -
  obtain s' where s': "upd_ctx (sema_target c md p)
      (upd_sema (wls_wake_up_user_thread ((e_stack_req e)\<lparr>start_time := e_rdtsc e\<rparr>))) s = Some s'"
    using assms(2) by (auto simp: upd_ctx_def)
  have "same_meta s s'"
    by (rule keeps_meta_priv [OF s']) (simp add: ctx_meta_def ctx_pages_def upd_sema_def upd_priv_def)
  then show ?thesis
    using that [of s'] s' upd_ctx_same_queues [OF s'] assms(1) by (simp add: wake_client_def)
qed

text \<open>The transfer itself and the wake-up after it.\<close>

lemma wls_process_put_linked:
  assumes "linked a b s"
    and loop: "process_put_loop (length (put_items a s)) a b s = Some (0, t)"
  obtains s' where "wls_process_put e a b s = Some (0, s')" "link_frame a b s s'"
    "put_items a s' = put_items a t" "get_items b s' = get_items b t"
proof -
  obtain c d where s: "link_inv a b s" "get_ctx s a = Some c" "get_ctx s b = Some d"
    "dst_user_va c = b" "pid (wls_us_private d) \<noteq> 0" "a \<noteq> NullCtx" "b \<noteq> NullCtx"
    using assms(1) by (rule linkedD)
  have n: "unat (WLS_GetNumItemsInTheQueue (put_queue c)) = length (put_items a s)"
    using views_level(1) [of s a] s(1,2) by (simp add: link_inv_def put_level_def)
  have frame: "link_frame a b s t"
    using transfer_loop_frame [OF s(1)] loop by (simp add: process_put_loop_eq)
  have "linked a b t" using linked_frame [OF assms(1) frame] .
  then obtain c' d' where t: "get_ctx t a = Some c'" "get_ctx t b = Some d'"
      "pid (wls_us_private d') \<noteq> 0" "get_ctx t (sema_target d' (mode c') b) \<noteq> None"
    by (rule linkedD)
  have md: "mode c' = mode c"
    using frame s(2) t(1) by (auto simp: link_frame_def elim: same_metaD)
  obtain u where u: "upd_ctx b (upd_priv (\<lambda>p. p\<lparr>NeedToWakeUp := 1\<rparr>)) t = Some u"
    using t(2) by (simp add: upd_ctx_def)
  have tu: "same_meta t u" "same_queues t u"
    using keeps_meta_priv [OF u] upd_ctx_same_queues [OF u]
    by (simp_all add: ctx_meta_def ctx_pages_def upd_priv_def)
  obtain d'' where d'': "get_ctx u b = Some d''"
      "sema_shared (wls_us_private d'') = sema_shared (wls_us_private d')"
    using same_metaD [OF tu(1) t(2)] .
  then have "sema_target d'' (mode c) b = sema_target d' (mode c') b"
    using md by (simp add: sema_target_def)
  then have "get_ctx u (sema_target d'' (mode c) b) \<noteq> None"
    using t(4) same_meta_None [OF tu(1)] by simp
  then obtain s' where s': "wake_client e (mode c) b u = Some s'" "same_queues u s'" "same_meta u s'"
    using wake_client_frame [OF d''(1)] by blast
  have ts': "same_queues t s'" "same_meta t s'"
    using tu s' same_queues_trans same_meta_trans by blast+
  show ?thesis
  proof (rule that)
    show "wls_process_put e a b s = Some (0, s')"
      using s n loop t u s' by (simp add: wls_process_put_def)
    show "link_frame a b s s'"
      using link_frame_trans [OF frame link_frame_same_queues [OF ts']] .
  qed (use ts'(1) in \<open>simp_all add: same_queues_views\<close>)
qed


section \<open>Messages by their flags\<close>

definition plain_flags :: "u16 \<Rightarrow> u16" where
  "plain_flags fl = and fl (not (or WLS_TF_URLLC WLS_TF_LTE))"

definition msg_flags :: "wls_msg \<Rightarrow> u16" where
  "msg_flags x = snd (snd (snd x))"

text \<open>A message that is held back (first or middle block of a list), and one that triggers
  the transfer (a single block or the last block of a list).\<close>

definition held_back :: "wls_msg \<Rightarrow> bool" where
  "held_back x = (let f = plain_flags (msg_flags x) in
     and WLS_FLAGS_MASK f \<noteq> 0 \<and> (and f WLS_TF_SYN \<noteq> 0
       \<or> and f WLS_TF_SCATTER_GATHER \<noteq> 0 \<and> and f WLS_TF_FIN = 0))"

definition triggers :: "wls_msg \<Rightarrow> bool" where
  "triggers x = (let f = plain_flags (msg_flags x) in
     and WLS_FLAGS_MASK f = 0 \<or> and f WLS_TF_SYN = 0 \<and> and f WLS_TF_FIN \<noteq> 0)"

lemma wls_put_held_back:
  assumes "wls_check_ctx tab a = 0" "held_back x"
  shows "wls_put e tab a x s = Option.bind (enq_put a x s) (\<lambda>(_, s). Some (0, s))"
  using assms by (auto simp: wls_put_def held_back_def Let_def plain_flags_def msg_flags_def)

lemma wls_put_triggers:
  assumes "wls_check_ctx tab a = 0" "triggers x" "enq_put a x s = Some (ok, t)"
    "get_ctx t a = Some c" "dst_user_va c \<noteq> NullCtx"
  shows "wls_put e tab a x s = Option.bind (wls_process_put e a (dst_user_va c) t)
           (\<lambda>(ret, s). Some (if ret < 0 then -1 else 0, s))"
  using assms
  by (cases "and WLS_FLAGS_MASK (plain_flags (msg_flags x)) = 0")
    (auto simp: wls_put_def triggers_def Let_def plain_flags_def msg_flags_def)

lemma linked_target:
  assumes "linked a b s" "get_ctx s a = Some c"
  shows "dst_user_va c = b" "b \<noteq> NullCtx"
  using assms by (auto elim!: linkedD)

lemma put_triggers_linked:
  assumes lk: "linked a b s" and tab: "wls_check_ctx tab a = 0" and x: "triggers x"
    and enq: "enq_put a x s = Some (ok, t)"
    and loop: "process_put_loop (length (put_items a t)) a b t = Some (0, u)"
  obtains s' where "wls_put e tab a x s = Some (0, s')" "link_frame a b s s'"
    "put_items a s' = put_items a u" "get_items b s' = get_items b u"
proof -
  have "client_ok s a" using lk by (auto simp: linked_def link_inv_def)
  then have st: "link_frame a b s t" using enq enq_put_step link_frame_steps by blast
  have lt: "linked a b t" using linked_frame [OF lk st] .
  then obtain c where c: "get_ctx t a = Some c" by (rule linkedD)
  obtain s' where s': "wls_process_put e a b t = Some (0, s')" "link_frame a b t s'"
      "put_items a s' = put_items a u" "get_items b s' = get_items b u"
    using wls_process_put_linked [OF lt loop] .
  show ?thesis
  proof (rule that)
    show "wls_put e tab a x s = Some (0, s')"
      using wls_put_triggers [OF tab x enq c] linked_target [OF lt c] s'(1) by simp
    show "link_frame a b s s'" using link_frame_trans [OF st s'(2)] .
  qed (use s' in simp_all)
qed

text \<open>A put that finds room on both sides.\<close>

lemma wls_put_delivers:
  assumes lk: "linked a b s" and tab: "wls_check_ctx tab a = 0" and x: "triggers x"
    and room: "length (put_items a s) < put_cap a s"
      "length (get_items b s) + length (put_items a s) < get_cap b s"
  obtains s' where "wls_put e tab a x s = Some (0, s')" "link_frame a b s s'"
    "put_items a s' = []" "get_items b s' = get_items b s @ put_items a s @ [x]"
proof -
  have ok: "client_ok s a" "client_ok s b" using lk by (auto simp: linked_def link_inv_def)
  obtain t where t: "enq_put a x s = Some (True, t)" "put_items a t = put_items a s @ [x]"
      "put_step a s t"
    using enq_put_room [OF ok(1) room(1)] .
  have inv: "link_inv a b t" and get: "get_items b t = get_items b s" "get_cap b t = get_cap b s"
    using t(3) ok by (simp_all add: link_inv_def put_stepD)
  have "\<exists>u. process_put_loop (length (put_items a t)) a b t = Some (0, u) \<and> link_inv a b u
      \<and> get_items b u = get_items b t @ take (length (put_items a t)) (put_items a t)
      \<and> put_items a u = drop (length (put_items a t)) (put_items a t)
      \<and> put_cap a u = put_cap a t \<and> get_cap b u = get_cap b t"
    unfolding process_put_loop_eq
    by (rule link.transfer_fits [OF inv]) (use get room t(2) in simp_all)
  then obtain u where u: "process_put_loop (length (put_items a t)) a b t = Some (0, u)"
      "get_items b u = get_items b s @ put_items a s @ [x]" "put_items a u = []"
    using get t(2) by auto
  show ?thesis using put_triggers_linked [OF lk tab x t(1) u(1)] that u by metis
qed

lemma wls_put_holds:
  assumes lk: "linked a b s" and tab: "wls_check_ctx tab a = 0" and x: "held_back x"
    and room: "length (put_items a s) < put_cap a s"
  obtains s' where "wls_put e tab a x s = Some (0, s')" "link_frame a b s s'"
    "put_items a s' = put_items a s @ [x]" "get_items b s' = get_items b s"
proof -
  have ok: "client_ok s a" "client_ok s b" using lk by (auto simp: linked_def link_inv_def)
  obtain t where t: "enq_put a x s = Some (True, t)" "put_items a t = put_items a s @ [x]"
      "put_step a s t"
    using enq_put_room [OF ok(1) room] .
  show ?thesis
    using that [of t] t ok link_frame_steps(1) put_stepD(2) wls_put_held_back [OF tab x]
    by simp
qed

text \<open>A put that finds the peer's queue full: the oldest message goes behind the new one.\<close>

lemma wls_put_blocked:
  assumes lk: "linked a b s" and tab: "wls_check_ctx tab a = 0" and x: "triggers x"
    and put: "put_items a s = y # ys" "Suc (length ys) < put_cap a s"
    and full: "get_cap b s \<le> length (get_items b s)"
  obtains s' where "wls_put e tab a x s = Some (0, s')" "link_frame a b s s'"
    "put_items a s' = ys @ [x, y]" "get_items b s' = get_items b s"
proof -
  have ok: "client_ok s a" "client_ok s b" using lk by (auto simp: linked_def link_inv_def)
  have room: "length (put_items a s) < put_cap a s" using put by simp
  obtain t where t: "enq_put a x s = Some (True, t)" "put_items a t = put_items a s @ [x]"
      "put_step a s t"
    using enq_put_room [OF ok(1) room] .
  have inv: "link_inv a b t" and get: "get_items b t = get_items b s" "get_cap b t = get_cap b s"
    using t(3) ok by (simp_all add: link_inv_def put_stepD)
  have items: "put_items a t = y # (ys @ [x])" using t(2) put by simp
  then obtain u where u: "process_put_loop (length (put_items a t)) a b t = Some (0, u)"
      "get_items b u = get_items b s" "put_items a u = ys @ [x, y]"
    using link.transfer_full [OF inv items, of "length (ys @ [x])"] get full
    by (auto simp: process_put_loop_eq)
  show ?thesis using put_triggers_linked [OF lk tab x t(1) u(1)] that u by metis
qed

text \<open>A put that finds its own queue full: the message is dropped.\<close>

lemma wls_put_dropped:
  assumes lk: "linked a b s" and tab: "wls_check_ctx tab a = 0" and x: "triggers x"
    and put: "put_items a s = y # ys" "put_cap a s \<le> Suc (length ys)"
    and full: "get_cap b s \<le> length (get_items b s)"
  obtains s' where "wls_put e tab a x s = Some (0, s')" "link_frame a b s s'"
    "put_items a s' = ys @ [y]" "get_items b s' = get_items b s"
proof -
  have ok: "client_ok s a" "client_ok s b" using lk by (auto simp: linked_def link_inv_def)
  have t: "enq_put a x s = Some (False, s)" using enq_put_full [OF ok(1)] put by simp
  have inv: "link_inv a b s" using ok by (simp add: link_inv_def)
  obtain u where u: "process_put_loop (length (put_items a s)) a b s = Some (0, u)"
      "get_items b u = get_items b s" "put_items a u = ys @ [y]"
    using link.transfer_full [OF inv put(1) full, of "length ys"] put(1)
    by (auto simp: process_put_loop_eq)
  show ?thesis using put_triggers_linked [OF lk tab x t u(1)] that u by metis
qed


section \<open>Every call keeps the other queues\<close>

lemma process_put_loop_returns:
  assumes "link_inv a b s"
  shows "\<exists>t. process_put_loop (length (put_items a s)) a b s = Some (0, t)"
proof (cases "length (get_items b s) + length (put_items a s) \<le> get_cap b s")
  case True
  then show ?thesis
    using link.transfer_fits [OF assms order_refl] by (auto simp: process_put_loop_eq)
next
  case False
  moreover have "length (get_items b s) \<le> get_cap b s"
    using assms views_level(4) by (simp add: link_inv_def)
  ultimately have "get_cap b s - length (get_items b s) < length (put_items a s)" by linarith
  then show ?thesis
    using link.transfer_blocked [OF assms refl] by (fastforce simp: process_put_loop_eq)
qed

lemma wls_process_put_frame:
  assumes "linked a b s"
  obtains s' where "wls_process_put e a b s = Some (0, s')" "link_frame a b s s'"
proof -
  have "link_inv a b s" using assms by (simp add: linked_def)
  then obtain t where "process_put_loop (length (put_items a s)) a b s = Some (0, t)"
    using process_put_loop_returns by blast
  then show ?thesis using wls_process_put_linked [OF assms] that by metis
qed

lemma enq_put_total:
  assumes "client_ok s a"
  obtains ok t where "enq_put a x s = Some (ok, t)" "put_step a s t"
  using assms enq_put_full [OF assms] enq_put_room [OF assms] put_step_refl
  by (metis linorder_not_less)

lemma wls_put_total:
  assumes lk: "linked a b s"
  obtains r s' where "wls_put e tab a x s = Some (r, s')" "link_frame a b s s'"
proof (cases "wls_check_ctx tab a = 0")
  case False
  then show ?thesis using that by (simp add: wls_put_def)
next
  case tab: True
  have "client_ok s a" using lk by (simp add: linked_def link_inv_def)
  then obtain ok t where t: "enq_put a x s = Some (ok, t)" "put_step a s t"
    by (rule enq_put_total)
  have st: "link_frame a b s t" using t link_frame_steps by blast
  have lt: "linked a b t" using linked_frame [OF lk st] .
  then obtain c where c: "get_ctx t a = Some c" by (rule linkedD)
  obtain u where u: "wls_process_put e a b t = Some (0, u)" "link_frame a b t u"
    using wls_process_put_frame [OF lt] .
  have su: "link_frame a b s u" using st u(2) link_frame_trans by blast
  consider "held_back x" | "triggers x" | "\<not> held_back x" "\<not> triggers x" by blast
  then show ?thesis
  proof cases
    case 1
    then show ?thesis using that [OF _ st] t(1) wls_put_held_back [OF tab] by simp
  next
    case 2
    then show ?thesis
      using that [OF _ su] wls_put_triggers [OF tab _ t(1) c] linked_target [OF lt c] u(1) by simp
  next
    case 3
    then have "wls_put e tab a x s = Some (0, s)"
      using tab by (auto simp: wls_put_def held_back_def triggers_def plain_flags_def msg_flags_def
          Let_def)
    then show ?thesis using that [of 0 s] by simp
  qed
qed

lemma wls_get_item:
  assumes "client_ok s b" "wls_check_ctx tab b = 0" "get_items b s = (p, out) # xs"
  obtains s' where "wls_get tab b s = Some ((p, Some out), s')" "get_items b s' = xs" "get_step b s s'"
proof -
  obtain s' where "deq_get b s = Some (Some (p, out), s')" "get_items b s' = xs" "get_step b s s'"
    using deq_get_item [OF assms(1,3)] .
  then show ?thesis using that assms(2) by (simp add: wls_get_def)
qed

lemma wls_get_none:
  assumes "client_ok s b" "get_items b s = [] \<or> wls_check_ctx tab b \<noteq> 0"
  shows "wls_get tab b s = Some ((0, None), s)"
  using assms deq_get_empty [OF assms(1)] by (auto simp: wls_get_def)

text \<open>Each call of \<open>wls_get\<close> takes the head of the get queue, if any.\<close>

lemma wls_get_cases:
  assumes ok: "client_ok s b" and g: "wls_get tab b s = Some ((p, r), s')"
  shows "get_step b s s'"
    and "get_items b s = (case r of None \<Rightarrow> get_items b s' | Some out \<Rightarrow> (p, out) # get_items b s')"
proof -
  have "get_step b s s' \<and>
    get_items b s = (case r of None \<Rightarrow> get_items b s' | Some out \<Rightarrow> (p, out) # get_items b s')"
  proof (cases "get_items b s = [] \<or> wls_check_ctx tab b \<noteq> 0")
    case True
    then show ?thesis using wls_get_none [OF ok] g by auto
  next
    case False
    then obtain q out xs where xs: "get_items b s = (q, out) # xs" by (metis list.exhaust surj_pair)
    obtain t where "wls_get tab b s = Some ((q, Some out), t)" "get_items b t = xs" "get_step b s t"
      using wls_get_item [OF ok _ xs] False by blast
    then show ?thesis using g xs by auto
  qed
  then show "get_step b s s'"
    "get_items b s = (case r of None \<Rightarrow> get_items b s' | Some out \<Rightarrow> (p, out) # get_items b s')"
    by blast+
qed

lemma upd_ctx_frame:
  assumes "upd_ctx p f s = Some s'" "keeps_queues f" "\<And>c. ctx_meta (f c) = ctx_meta c"
  shows "link_frame a b s s'"
  using link_frame_same_queues upd_ctx_same_queues [OF assms(1,2)] keeps_meta_priv [OF assms(1,3)]
  by blast

lemma wls_wakeup_frame:
  assumes "WLS_WakeUp e tab h s = Some (r, s')"
  shows "link_frame a b s s'"
proof -
  have "s' = s \<or> (\<exists>p f. upd_ctx p (upd_sema f) s = Some s')"
    using assms by (auto simp: WLS_WakeUp_def wls_process_wakeup_def wake_client_def bind_Some_iff
        split: if_splits)
  moreover have "link_frame a b s s'" if "upd_ctx p (upd_sema f) s = Some s'" for p f
    by (rule upd_ctx_frame [OF that]) (simp_all add: ctx_meta_def ctx_pages_def upd_sema_def upd_priv_def)
  ultimately show ?thesis by (elim disjE) (simp, blast)
qed

lemma wls_wait_frame:
  assumes "WLS_Wait e tab h s = Some (r, s')"
  shows "link_frame a b s s'"
proof -
  have "s' = s \<or> (\<exists>t. upd_ctx h (upd_priv (\<lambda>p. p\<lparr>isWait := 1\<rparr>)) s = Some t \<and>
      (s' = t \<or> (\<exists>sm. upd_ctx h (upd_priv (\<lambda>p. p\<lparr>sema := sm, isWait := 0\<rparr>)) t = Some s')))"
    using assms by (auto simp: WLS_Wait_def wls_process_wait_def bind_Some_iff
        split: if_splits option.splits)
  moreover have "link_frame a b u t" if "upd_ctx h (upd_priv (\<lambda>p. p\<lparr>isWait := 1\<rparr>)) u = Some t" for u t
    by (rule upd_ctx_frame [OF that]) (simp_all add: ctx_meta_def ctx_pages_def upd_priv_def)
  moreover have "link_frame a b u t"
    if "upd_ctx h (upd_priv (\<lambda>p. p\<lparr>sema := sm, isWait := 0\<rparr>)) u = Some t" for u t sm
    by (rule upd_ctx_frame [OF that]) (simp_all add: ctx_meta_def ctx_pages_def upd_priv_def)
  ultimately show ?thesis by (metis link_frame_refl link_frame_trans)
qed

end
