(* ===== verification/Wls_Delivery.thy ===== *)
theory Wls_Delivery
  imports Wls_Link
begin

text \<open>
  A link of two clients as a transition system: the calls of both processes in any order,
  with the history of what one side sent and the other received.  The properties state
  what the library guarantees for it and where the guarantee ends.
\<close>

section \<open>The system\<close>

text \<open>\<open>a\<close> sends to \<open>b\<close>; \<open>sent\<close> and \<open>rcvd\<close> record the messages of that direction.  \<open>b\<close> may
  send to \<open>a\<close> as well, and both may wake and wait.  A put of \<open>a\<close> is made only while its peer
  keeps up: there is room for the message on both sides.\<close>

definition sendable :: "wls_msg \<Rightarrow> bool" where
  "sendable x = (held_back x \<or> triggers x)"

definition room_for :: "ctx_ptr \<Rightarrow> ctx_ptr \<Rightarrow> wls_shm \<Rightarrow> bool" where
  "room_for a b s = (length (put_items a s) < put_cap a s
     \<and> length (get_items b s) + length (put_items a s) < get_cap b s)"

inductive link_step ::
  "ctx_ptr list \<Rightarrow> ctx_ptr list \<Rightarrow> ctx_ptr \<Rightarrow> ctx_ptr
   \<Rightarrow> wls_shm \<times> wls_msg list \<times> wls_msg list \<Rightarrow> wls_shm \<times> wls_msg list \<times> wls_msg list \<Rightarrow> bool"
  for tabA tabB a b where
  put: "sendable x \<Longrightarrow> room_for a b s \<Longrightarrow> WLS_Put e tabA a x s = Some (r, s')
        \<Longrightarrow> link_step tabA tabB a b (s, sent, rcvd) (s', sent @ [x], rcvd)"
| get: "WLS_Get tabB b s = Some ((p, Some out), s')
        \<Longrightarrow> link_step tabA tabB a b (s, sent, rcvd) (s', sent, rcvd @ [(p, out)])"
| get_none: "WLS_Get tabB b s = Some ((p, None), s')
        \<Longrightarrow> link_step tabA tabB a b (s, sent, rcvd) (s', sent, rcvd)"
| reply: "WLS_Put e tabB b x s = Some (r, s')
        \<Longrightarrow> link_step tabA tabB a b (s, sent, rcvd) (s', sent, rcvd)"
| get_reply: "WLS_Get tabA a s = Some (r, s')
        \<Longrightarrow> link_step tabA tabB a b (s, sent, rcvd) (s', sent, rcvd)"
| wakeup: "WLS_WakeUp e tab h s = Some (r, s')
        \<Longrightarrow> link_step tabA tabB a b (s, sent, rcvd) (s', sent, rcvd)"
| wait: "WLS_Wait e tab h s = Some (w, s')
        \<Longrightarrow> link_step tabA tabB a b (s, sent, rcvd) (s', sent, rcvd)"

inductive_cases link_stepE: "link_step tabA tabB a b (s, sent, rcvd) t"

definition linked_pair :: "ctx_ptr \<Rightarrow> ctx_ptr \<Rightarrow> wls_shm \<Rightarrow> bool" where
  "linked_pair a b s = (a \<noteq> b \<and> linked a b s \<and> linked b a s)"

lemma linked_pair_frame:
  "linked_pair a b s \<Longrightarrow> link_frame c d s s' \<Longrightarrow> linked_pair a b s'"
  by (auto simp: linked_pair_def intro: linked_frame)

lemma linked_clients: "linked a b s \<Longrightarrow> client_ok s a" "linked a b s \<Longrightarrow> client_ok s b"
  by (simp_all add: linked_def link_inv_def)

lemma link_frame_views:
  assumes "link_frame c d s s'" "client_ok s r"
  shows "r \<noteq> c \<Longrightarrow> put_items r s' = put_items r s" "r \<noteq> d \<Longrightarrow> get_items r s' = get_items r s"
  using assms by (simp_all add: link_frame_def)

definition in_order :: "ctx_ptr \<Rightarrow> ctx_ptr \<Rightarrow> wls_shm \<times> wls_msg list \<times> wls_msg list \<Rightarrow> bool" where
  "in_order a b = (\<lambda>(s, sent, rcvd). linked_pair a b s
     \<and> sent = rcvd @ get_items b s @ put_items a s)"

lemma in_order_frame:
  assumes "in_order a b (s, sent, rcvd)" "link_frame c d s s'" "a \<noteq> c" "b \<noteq> d"
  shows "in_order a b (s', sent, rcvd)"
proof -
  have "client_ok s a" "client_ok s b"
    using assms(1) by (auto simp: in_order_def linked_pair_def linked_clients)
  then show ?thesis
    using assms link_frame_views [OF assms(2)] linked_pair_frame [OF _ assms(2)]
    by (simp add: in_order_def)
qed

lemma in_order_put:
  assumes inv: "in_order a b (s, sent, rcvd)" and x: "sendable x" and room: "room_for a b s"
    and put: "WLS_Put e tab a x s = Some (r, s')" and tab: "wls_check_ctx tab a = 0"
  shows "in_order a b (s', sent @ [x], rcvd)"
proof -
  have lk: "linked a b s" using inv by (simp add: in_order_def linked_pair_def)
  note room' = room [unfolded room_for_def]
  show ?thesis
  proof (cases "held_back x")
    case True
    then obtain t where "wls_put e tab a x s = Some (0, t)" "link_frame a b s t"
        "put_items a t = put_items a s @ [x]" "get_items b t = get_items b s"
      using wls_put_holds [OF lk tab _ room' [THEN conjunct1]] by blast
    then show ?thesis using inv put by (auto simp: in_order_def WLS_Put_def linked_pair_frame)
  next
    case False
    then have "triggers x" using x by (simp add: sendable_def)
    then obtain t where "wls_put e tab a x s = Some (0, t)" "link_frame a b s t"
        "put_items a t = []" "get_items b t = get_items b s @ put_items a s @ [x]"
      using wls_put_delivers [OF lk tab _ room' [THEN conjunct1] room' [THEN conjunct2]] by blast
    then show ?thesis using inv put by (auto simp: in_order_def WLS_Put_def linked_pair_frame)
  qed
qed

lemma in_order_get:
  assumes inv: "in_order a b (s, sent, rcvd)" and get: "WLS_Get tab b s = Some ((p, r), s')"
  shows "in_order a b (s', sent, case r of None \<Rightarrow> rcvd | Some out \<Rightarrow> rcvd @ [(p, out)])"
proof -
  have ok: "client_ok s a" "client_ok s b"
    using inv by (auto simp: in_order_def linked_pair_def linked_clients)
  note g = wls_get_cases [OF ok(2) get [unfolded WLS_Get_def]]
  have "put_items a s' = put_items a s" using get_stepD(2) [OF g(1) ok(1)] .
  then show ?thesis
    using inv g(2) linked_pair_frame link_frame_steps(2) [OF g(1), of a]
    by (auto simp: in_order_def split: option.splits)
qed

lemma in_order_step:
  assumes "in_order a b st" "link_step tabA tabB a b st st'" "wls_check_ctx tabA a = 0"
  shows "in_order a b st'"
proof -
  obtain s sent rcvd where st: "st = (s, sent, rcvd)" by (cases st)
  have inv: "in_order a b (s, sent, rcvd)" using assms(1) st by simp
  then have ab: "a \<noteq> b" "linked b a s" "client_ok s a"
    by (auto simp: in_order_def linked_pair_def linked_clients)
  show ?thesis using assms(2) unfolding st
  proof (cases rule: link_step.cases)
    case (put x e r s')
    then show ?thesis using in_order_put [OF inv] assms(3) by blast
  next
    case (get p out s')
    then show ?thesis using in_order_get [OF inv] by fastforce
  next
    case (get_none p s')
    then show ?thesis using in_order_get [OF inv] by fastforce
  next
    case (reply e x r s')
    obtain r' t where "wls_put e tabB b x s = Some (r', t)" "link_frame b a s t"
      using wls_put_total [OF ab(2)] .
    then show ?thesis using reply in_order_frame [OF inv] ab(1) by (auto simp: WLS_Put_def)
  next
    case (get_reply r s')
    obtain p q where "r = (p, q)" by (cases r)
    then have "get_step a s s'"
      using get_reply(2) wls_get_cases(1) [OF ab(3)] by (simp add: WLS_Get_def)
    then have "link_frame b a s s'" by (rule link_frame_steps)
    then show ?thesis using get_reply in_order_frame [OF inv] ab(1) by auto
  next
    case (wakeup e tab h r s')
    then show ?thesis using in_order_frame [OF inv] wls_wakeup_frame ab(1) by metis
  next
    case (wait e tab h w s')
    then show ?thesis using in_order_frame [OF inv] wls_wait_frame ab(1) by metis
  qed
qed

lemma in_order_reachable:
  assumes "(link_step tabA tabB a b)\<^sup>*\<^sup>* st st'" "in_order a b st" "wls_check_ctx tabA a = 0"
  shows "in_order a b st'"
  using assms by (induction rule: rtranclp_induct) (blast intro: in_order_step)+


section \<open>A concrete link\<close>

text \<open>Two clients of the zone \<open>wls\<close> with queues of four cells.\<close>

definition demo_env :: wls_env where
  "demo_env = \<lparr>e_getpid = 7, e_rdtsc = 1000, e_primary = True, e_reserve_ok = (\<lambda>_ _ _. True), e_memzone_1gb = 2,
     e_mutex_init = 0, e_sem_init = 0, e_sem_wait = 0, e_mz_addr = (\<lambda>_. 0x100000000),
     e_virt2iova = (\<lambda>v. v), e_bad_iova = 0xFFFFFFFFFFFFFFFF, e_namesize = 32,
     e_sizeof_drv = 0x100000, e_sizeof_ctx = 0x20000, e_stack_req = zero_req\<rparr>"

definition demo_a :: ctx_ptr where "demo_a = Ctx ''wls'' 0"
definition demo_b :: ctx_ptr where "demo_b = Ctx ''wls'' 1"

text \<open>The first \<open>g\<close> cells of the get queues and the first \<open>p\<close> cells of the put queues hold a
  message.\<close>

definition demo_client :: "u32 \<Rightarrow> u32 \<Rightarrow> nat \<Rightarrow> ctx_ptr \<Rightarrow> wls_us_ctx" where
  "demo_client g p i dst = zero_ctx\<lparr>
     get_queue := (WLS_MsgDefineQueue (GetStorage ''wls'' i) 4 0)\<lparr>mq_put := g\<rparr>,
     put_queue := (WLS_MsgDefineQueue (PutStorage ''wls'' i) 4 0)\<lparr>mq_put := p\<rparr>,
     dst_user_va := dst, wls_us_private := zero_priv\<lparr>pid := 7\<rparr>, wls_dev_name := ''wls''\<rparr>"

definition demo_shm :: "u32 \<Rightarrow> u32 \<Rightarrow> wls_shm" where
  "demo_shm g p =
    \<lparr>zones = [''wls'' \<mapsto> zero_drv\<lparr>p_wls_us_ctx := [demo_client g p 0 demo_b, demo_client g p 1 demo_a,
                                                 zero_ctx, zero_ctx],
                                nWlsClients := 2\<rparr>],
     msgs = (\<lambda>_. Some (replicate 4 zero_handle)), blks = Map.empty, umem = (\<lambda>_. 0)\<rparr>"

definition zero_msg :: wls_msg where "zero_msg = (0, 0, 0, 0)"

lemma demo_ctx [simp]:
  "get_ctx (demo_shm g p) demo_a = Some (demo_client g p 0 demo_b)"
  "get_ctx (demo_shm g p) demo_b = Some (demo_client g p 1 demo_a)"
  by (simp_all add: demo_shm_def get_ctx.simps(2) demo_a_def demo_b_def)

lemma demo_client_sel [simp]:
  "dst_user_va (demo_client g p i d) = d" "mode (demo_client g p i d) = 0"
  "pid (wls_us_private (demo_client g p i d)) = 7"
  "get_queue (demo_client g p i d) = (WLS_MsgDefineQueue (GetStorage ''wls'' i) 4 0)\<lparr>mq_put := g\<rparr>"
  "put_queue (demo_client g p i d) = (WLS_MsgDefineQueue (PutStorage ''wls'' i) 4 0)\<lparr>mq_put := p\<rparr>"
  by (simp_all add: demo_client_def zero_priv_def zero_ctx_def)

lemma replicate_3: "replicate 3 x = [x, x, x]"
  by (simp add: numeral_3_eq_3)

lemma demo_queue:
  "n < 4 \<Longrightarrow> mq_wf None h ((WLS_MsgDefineQueue st 4 0)\<lparr>mq_put := n\<rparr>) (msgs (demo_shm g p))"
  "mq_items None h ((WLS_MsgDefineQueue st 4 0)\<lparr>mq_put := 0\<rparr>) (msgs (demo_shm g p)) = []"
  "mq_items None h ((WLS_MsgDefineQueue st 4 0)\<lparr>mq_put := 1\<rparr>) (msgs (demo_shm g p)) = [zero_msg]"
  "mq_items None h ((WLS_MsgDefineQueue st 4 0)\<lparr>mq_put := 3\<rparr>) (msgs (demo_shm g p))
     = [zero_msg, zero_msg, zero_msg]"
  by (simp_all add: mq_wf_def mq_items_def ring_wf_def ring_items_def ring_level_def ring_list_def
      WLS_MsgDefineQueue_def demo_shm_def comp_def map_replicate_const replicate_3 msg_of_def zero_handle_def zero_msg_def)

lemma demo_views:
  "put_items demo_a (demo_shm 0 0) = []" "get_items demo_b (demo_shm 0 0) = []"
  "put_cap demo_a (demo_shm g p) = 3" "get_cap demo_b (demo_shm g p) = 3"
  "put_items demo_a (demo_shm 3 1) = [zero_msg]"
  "get_items demo_b (demo_shm 3 1) = [zero_msg, zero_msg, zero_msg]"
  by (simp_all add: view_defs demo_queue, simp_all add: WLS_MsgDefineQueue_def)

lemma demo_linked: "g < 4 \<Longrightarrow> p < 4 \<Longrightarrow> linked_pair demo_a demo_b (demo_shm g p)"
proof -
  assume "g < 4" "p < 4"
  then have "client_ok (demo_shm g p) demo_a" "client_ok (demo_shm g p) demo_b"
    by (simp_all add: client_ok_def demo_queue demo_a_def [symmetric] demo_b_def [symmetric]
        split: ctx_ptr.split)
      (auto simp: demo_a_def demo_b_def WLS_MsgDefineQueue_def)
  then show ?thesis
    by (simp add: linked_pair_def linked_def link_inv_def sema_target_def WLS_MASTER_CLIENT_def)
      (simp add: demo_a_def demo_b_def)
qed

lemma demo_linked0: "linked_pair demo_a demo_b (demo_shm 0 0)"
  and demo_linked31: "linked_pair demo_a demo_b (demo_shm 3 1)"
  by (rule demo_linked; simp)+

lemma demo_check:
  "wls_check_ctx [demo_a] demo_a = 0" "wls_check_ctx [demo_b] demo_b = 0"
  by (simp_all add: wls_check_ctx_def WLS_US_CTX_MAX_def demo_a_def demo_b_def)

section \<open>Properties\<close>

text \<open>C3: on a link whose sender does not outrun its peer, whatever puts, gets, replies,
  wake-ups and waits the two processes interleave, the receiver has received exactly a
  prefix of the messages sent, in the order they were sent, and the rest is still queued:
  the messages in the peer's get queue followed by those in the sender's put queue.\<close>

theorem link_exactly_once_in_order:
  assumes "linked_pair a b s\<^sub>0" "put_items a s\<^sub>0 = []" "get_items b s\<^sub>0 = []"
    and "wls_check_ctx tabA a = 0"
    and "(link_step tabA tabB a b)\<^sup>*\<^sup>* (s\<^sub>0, [], []) (s, sent, rcvd)"
  shows "sent = rcvd @ get_items b s @ put_items a s \<and> linked_pair a b s"
  using in_order_reachable [OF assms(5)] assms(1-4) by (simp add: in_order_def)

definition msg1 :: wls_msg where "msg1 = (100, 8, 1, 0)"
definition msg2 :: wls_msg where "msg2 = (200, 8, 1, 0)"

lemma triggers_demo [simp]: "triggers msg1" "triggers msg2"
  by (simp_all add: triggers_def msg1_def msg2_def plain_flags_def msg_flags_def)

theorem link_exactly_once_in_order_witness:
  "\<exists>s. (link_step [demo_a] [demo_b] demo_a demo_b)\<^sup>*\<^sup>* (demo_shm 0 0, [], []) (s, [msg1], [])
     \<and> [msg1] = [] @ get_items demo_b s @ put_items demo_a s \<and> linked_pair demo_a demo_b s"
proof -
  have lk: "linked demo_a demo_b (demo_shm 0 0)" using demo_linked0 by (simp add: linked_pair_def)
  obtain s where s: "wls_put demo_env [demo_a] demo_a msg1 (demo_shm 0 0) = Some (0, s)"
    using wls_put_delivers [OF lk demo_check(1) triggers_demo(1)] by (auto simp: demo_views)
  have "link_step [demo_a] [demo_b] demo_a demo_b (demo_shm 0 0, [], []) (s, [] @ [msg1], [])"
    by (rule link_step.put [where e = demo_env])
      (simp_all add: sendable_def room_for_def WLS_Put_def s demo_views)
  then have "(link_step [demo_a] [demo_b] demo_a demo_b)\<^sup>*\<^sup>* (demo_shm 0 0, [], []) (s, [msg1], [])"
    by (simp add: r_into_rtranclp)
  then show ?thesis
    using link_exactly_once_in_order [OF demo_linked0 demo_views(1,2) demo_check(1)] by blast
qed

text \<open>C4: a single-block put, or the last block of a list, that finds room on both sides
  returns 0 and hands the peer everything that was waiting, oldest first, with the new
  message last; the put queue is left empty.\<close>

theorem wls_put_hands_over:
  assumes "linked_pair a b s" "wls_check_ctx tab a = 0" "triggers x" "room_for a b s"
  shows "\<exists>s'. wls_put e tab a x s = Some (0, s')
      \<and> get_items b s' = get_items b s @ put_items a s @ [x] \<and> put_items a s' = []
      \<and> linked_pair a b s'"
proof -
  have lk: "linked a b s" using assms(1) by (simp add: linked_pair_def)
  note room = assms(4) [unfolded room_for_def]
  obtain s' where s': "wls_put e tab a x s = Some (0, s')" "link_frame a b s s'"
      "put_items a s' = []" "get_items b s' = get_items b s @ put_items a s @ [x]"
    using wls_put_delivers [OF lk assms(2,3) conjunct1 [OF room] conjunct2 [OF room]] .
  then show ?thesis using linked_pair_frame [OF assms(1)] by blast
qed

theorem wls_put_hands_over_witness:
  "\<exists>s'. wls_put demo_env [demo_a] demo_a msg1 (demo_shm 0 0) = Some (0, s')
      \<and> get_items demo_b s' = [msg1] \<and> put_items demo_a s' = []
      \<and> linked_pair demo_a demo_b s'"
  using wls_put_hands_over [OF demo_linked0 demo_check(1) triggers_demo(1), of demo_env]
  by (simp add: room_for_def demo_views)

text \<open>C5: where the guarantee ends: a put that finds the peer's get queue full still returns
  0, and the oldest waiting message is queued again behind the new one, so the order is
  lost; when the own put queue is full as well, the new message is dropped, also with
  result 0.\<close>

theorem wls_put_full_peer_reorders:
  assumes "linked_pair a b s" "wls_check_ctx tab a = 0" "triggers x"
    and "put_items a s = y # ys" "get_cap b s = length (get_items b s)"
  shows "\<exists>s'. wls_put e tab a x s = Some (0, s') \<and> get_items b s' = get_items b s
      \<and> put_items a s' = (if Suc (length ys) < put_cap a s then ys @ [x, y] else ys @ [y])"
proof -
  have lk: "linked a b s" using assms(1) by (simp add: linked_pair_def)
  have full: "get_cap b s \<le> length (get_items b s)" using assms(5) by simp
  show ?thesis
  proof (cases "Suc (length ys) < put_cap a s")
    case True
    then show ?thesis using wls_put_blocked [OF lk assms(2-4) True full, of e] by metis
  next
    case False
    then have "put_cap a s \<le> Suc (length ys)" by simp
    then show ?thesis using wls_put_dropped [OF lk assms(2-4) _ full, of e] False by metis
  qed
qed

theorem wls_put_full_peer_reorders_witness:
  "\<exists>s'. wls_put demo_env [demo_a] demo_a msg1 (demo_shm 3 1) = Some (0, s')
      \<and> get_items demo_b s' = [zero_msg, zero_msg, zero_msg] \<and> put_items demo_a s' = [msg1, zero_msg]"
  using wls_put_full_peer_reorders [OF demo_linked31 demo_check(1) triggers_demo(1) demo_views(5), of demo_env]
  by (simp add: demo_views)

end
