(* ===== verification/Wls_Session.thy ===== *)
theory Wls_Session
  imports Wls_Delivery
begin

text \<open>
  Opening and closing of clients (\<open>wls_lib_dpdk.c\<close>): initialisation of the zone, creation and
  destruction of contexts, \<open>WLS_Open_Adv\<close> and \<open>WLS_Close_Adv\<close>.  The zone a name denotes is
  reserved exactly when \<open>zones\<close> maps it; \<open>rte_memzone_lookup\<close> finds the reserved zones.
  Opening both ends establishes the link that \<open>Wls_Delivery\<close> starts from; closing shows two
  defects of the slot management.
\<close>

section \<open>Initialisation of a zone\<close>

text \<open>The loop that doubles the alignment.  \<open>None\<close> when it does not stop within 64 rounds, after
  which the alignment has wrapped to 0.\<close>

fun align_loop :: "wls_env \<Rightarrow> u64 \<Rightarrow> nat \<Rightarrow> u64 \<Rightarrow> u64 option" where
  "align_loop e req 0 al = None"
| "align_loop e req (Suc n) al =
     (if al < req then
        (let al = al * 2
         in if al \<ge> e_memzone_1gb e then Some al else align_loop e req n al)
      else Some al)"

definition wls_rup512 :: "u64 \<Rightarrow> u64" where
  "wls_rup512 x = and (x + 511) (not 511)"

definition wls_initialize ::
  "wls_env \<Rightarrow> zone \<Rightarrow> u64 \<Rightarrow> u64 \<Rightarrow> u32 \<Rightarrow> wls_shm \<Rightarrow> (int \<times> wls_shm) option" where
  "wls_initialize e ifacename nWlsMemorySize nWlsHugePageAlign nInitProcess s =
     (let nSize = nWlsMemorySize + wls_rup512 (e_sizeof_drv e)
      in if nInitProcess = 0 \<and> \<not> e_primary e then Some (-1, s)
         else Option.bind
           (if nWlsHugePageAlign \<noteq> 0 then align_loop e nWlsHugePageAlign 64 1
            else Some WLS_HUGE_DEF_PAGE_SIZE) (\<lambda>al.
         if \<not> e_reserve_ok e ifacename nSize al then Some (-1, s)
         else
           let s = s\<lparr>zones := (zones s)(ifacename \<mapsto> zero_drv)\<rparr>;
               s = fold (zero_storage ifacename) [0..<WLS_US_CLIENTS_MAX] s
           in Some (if e_mutex_init e \<noteq> 0 then e_mutex_init e else 0, s)))"

section \<open>Contexts\<close>

definition fresh_ctx :: "wls_env \<Rightarrow> zone \<Rightarrow> nat \<Rightarrow> wls_drv_ctx \<Rightarrow> ctx_ptr \<Rightarrow> wls_us_ctx" where
  "fresh_ctx e z i d pUsCtx0 =
     zero_ctx\<lparr>
       ul_free_block_pq := SFL_DefQueue (UlFreeStorage z i) (nWlsULEnqueueSize d * 8),
       get_queue := WLS_MsgDefineQueue (GetStorage z i) (of_nat WLS_QUEUE_N_ELEMENTS) 0,
       put_queue := WLS_MsgDefineQueue (PutStorage z i) (of_nat WLS_QUEUE_N_ELEMENTS) 0,
       wls_us_private := zero_priv\<lparr>sema_shared := pUsCtx0,
         sema := zero_sema\<lparr>nWlsSemaWakeUp := drv_nWlsSemaWakeUp d\<rparr>\<rparr>\<rparr>"

definition wls_create_us_ctx ::
  "wls_env \<Rightarrow> zone \<Rightarrow> ctx_ptr \<Rightarrow> wls_shm \<Rightarrow> (ctx_ptr \<times> wls_shm) option" where
  "wls_create_us_ctx e z pUsCtx0 s =
     Option.bind (zones s z) (\<lambda>d.
     if nWlsClients d \<ge> of_nat WLS_US_CLIENTS_MAX then Some (NullCtx, s)
     else
       let i = unat (nWlsClients d);
           p = Ctx z i;
           s = zero_storage z i s;
           c = fresh_ctx e z i d pUsCtx0
       in if drv_nWlsSemaWakeUp d \<noteq> 0 \<and> e_sem_init e \<noteq> 0 then
            Some (NullCtx, set_ctx p zero_ctx s)
          else
            let c = upd_priv (\<lambda>q. q\<lparr>pid := e_getpid e\<rparr>) (c\<lparr>dst_user_va := Ctx z (xor i 1)\<rparr>);
                d' = d\<lparr>p_wls_us_ctx := (p_wls_us_ctx d)[i := c], nWlsClients := nWlsClients d + 1\<rparr>
            in Some (p, s\<lparr>zones := (zones s)(z \<mapsto> d')\<rparr>))"

definition unlink_pair :: "wls_drv_ctx \<Rightarrow> wls_drv_ctx" where
  "unlink_pair d =
     (if pid (wls_us_private (p_wls_us_ctx d ! 0)) \<noteq> 0
         \<and> pid (wls_us_private (p_wls_us_ctx d ! 1)) \<noteq> 0 then
        d\<lparr>p_wls_us_ctx := (p_wls_us_ctx d)
            [0 := (p_wls_us_ctx d ! 0)\<lparr>dst_user_va := NullCtx\<rparr>,
             1 := (p_wls_us_ctx d ! 1)\<lparr>dst_user_va := NullCtx\<rparr>]\<rparr>
      else d)"

definition zero_ctx_at :: "ctx_ptr \<Rightarrow> wls_shm \<Rightarrow> wls_shm" where
  "zero_ctx_at p s = (case p of NullCtx \<Rightarrow> s | Ctx z i \<Rightarrow> set_ctx p zero_ctx (zero_storage z i s))"

definition wls_destroy_us_ctx :: "ctx_ptr \<Rightarrow> zone \<Rightarrow> wls_shm \<Rightarrow> wls_shm option" where
  "wls_destroy_us_ctx pUsCtx z s =
     Option.bind (zones s z) (\<lambda>d.
     let s = s\<lparr>zones := (zones s)(z \<mapsto> unlink_pair d)\<rparr>
     in if pUsCtx \<noteq> NullCtx then
          let s = zero_ctx_at pUsCtx s
          in Option.bind (zones s z) (\<lambda>d.
             Some (s\<lparr>zones := (zones s)(z \<mapsto> d\<lparr>nWlsClients := nWlsClients d - 1\<rparr>)\<rparr>))
        else Some s)"

section \<open>WLS\_Open\<close>

text \<open>The scan of the process table: the context already open under this name and mode, or the
  first free entry.\<close>

fun open_scan ::
  "wls_shm \<Rightarrow> string \<Rightarrow> u32 \<Rightarrow> ctx_ptr list \<Rightarrow> nat \<Rightarrow> nat option \<Rightarrow> (ctx_ptr option \<times> nat option) option" where
  "open_scan s name md [] idx nFree = Some (None, nFree)"
| "open_scan s name md (c # cs) idx nFree =
     (if c \<noteq> NullCtx then
        Option.bind (get_ctx s c) (\<lambda>x.
        if name = wls_dev_name x \<and> md = mode x then Some (Some c, nFree)
        else open_scan s name md cs (Suc idx) nFree)
      else open_scan s name md cs (Suc idx) (case nFree of None \<Rightarrow> Some idx | Some i \<Rightarrow> Some i))"

record open_args =
  oa_ifacename :: string
  oa_mode :: u32
  oa_mac_size :: u64
  oa_phy_size :: u64
  oa_ul_size :: u32
  oa_hp_align :: u64
  oa_sema :: u32
  oa_init :: u32
  oa_cell :: u32

text \<open>The zone of the (truncated) name; a slave reserves it when it is not there.\<close>

definition open_zone ::
  "wls_env \<Rightarrow> open_args \<Rightarrow> zone \<Rightarrow> wls_shm \<Rightarrow> (bool \<times> wls_shm) option" where
  "open_zone e a temp s =
     (if zones s temp = None then
        if oa_mode a = WLS_SLAVE_CLIENT then
          Option.bind (wls_initialize e temp (oa_mac_size a + oa_phy_size a) (oa_hp_align a) (oa_init a) s)
            (\<lambda>(_, s). Some (zones s temp \<noteq> None, s))
        else Some (False, s)
      else Some (True, s))"

definition open_ul_size :: "u32 \<Rightarrow> u32" where
  "open_ul_size n =
     (if n = 0 then UL_FREE_BLOCK_QUEUE_SIZE_MAX
      else if n < UL_FREE_BLOCK_QUEUE_SIZE_MIN \<or> n > UL_FREE_BLOCK_QUEUE_SIZE_MAX
      then UL_FREE_BLOCK_QUEUE_SIZE_MAX else n)"

text \<open>The sizes: a slave writes them into the driver context, a master reads them.\<close>

definition open_sizes :: "open_args \<Rightarrow> wls_drv_ctx \<Rightarrow> wls_drv_ctx \<times> u64 \<times> u64" where
  "open_sizes a d =
     (if oa_mode a = WLS_SLAVE_CLIENT then
        (d\<lparr>nMacBufferSize := ucast (oa_mac_size a), nPhyBufferSize := ucast (oa_phy_size a),
           drv_nWlsSemaWakeUp := oa_sema a, nWlsULEnqueueSize := open_ul_size (oa_ul_size a)\<rparr>,
         oa_mac_size a, oa_phy_size a)
      else (d, ucast (nMacBufferSize d), ucast (nPhyBufferSize d)))"

definition open_client ::
  "wls_env \<Rightarrow> open_args \<Rightarrow> zone \<Rightarrow> nat option \<Rightarrow> ctx_ptr list \<Rightarrow> wls_shm
   \<Rightarrow> ((ctx_ptr \<times> u64 \<times> u64) \<times> ctx_ptr list \<times> wls_shm) option" where
  "open_client e a temp nFree tab s =
     Option.bind (zones s temp) (\<lambda>d.
     let (d, mac, phy) = open_sizes a d;
         s = s\<lparr>zones := (zones s)(temp \<mapsto> d)\<rparr>;
         us0 = (if oa_mode a = WLS_SLAVE_CLIENT then tab ! 0 else NullCtx)
     in Option.bind (wls_create_us_ctx e temp us0 s) (\<lambda>(p, s).
        if p = NullCtx then Some ((NullCtx, mac, phy), tab, s)
        else
          Option.bind (upd_ctx p (\<lambda>c. c\<lparr>wls_us_user_space_va := p, wls_us_ctx_size := e_sizeof_ctx e,
              mode := oa_mode a, wls_dev_name := take (e_namesize e - 1) temp\<rparr>) s) (\<lambda>s.
          Option.bind (zones s temp) (\<lambda>d.
          if nWlsClients d \<ge> 1 \<and> nWlsClients d \<le> of_nat WLS_US_CLIENTS_MAX then
            case nFree of
              Some i \<Rightarrow> Some ((p, mac, phy), tab[i := p], s)
            | None \<Rightarrow> Some ((NullCtx, mac, phy), tab, s)
          else Some ((NullCtx, mac, phy), tab, s)))))"

definition WLS_Open_Adv ::
  "wls_env \<Rightarrow> open_args \<Rightarrow> ctx_ptr list \<Rightarrow> wls_shm
   \<Rightarrow> ((ctx_ptr \<times> u64 \<times> u64) \<times> ctx_ptr list \<times> wls_shm) option" where
  "WLS_Open_Adv e a tab s =
     Option.bind (open_scan s (oa_ifacename a) (oa_mode a) (take WLS_US_CTX_MAX tab) 0 None)
       (\<lambda>(found, nFree).
     case found of
       Some c \<Rightarrow> Some ((c, oa_mac_size a, oa_phy_size a), tab, s)
     | None \<Rightarrow>
         let temp = take (e_namesize e - 1) (oa_ifacename a)
         in Option.bind (open_zone e a temp s) (\<lambda>(ok, s).
            if \<not> ok then Some ((NullCtx, oa_mac_size a, oa_phy_size a), tab, s)
            else if oa_cell a \<noteq> 0 then open_client e a temp nFree tab s
            else Some ((NullCtx, oa_mac_size a, oa_phy_size a), tab, s)))"

definition WLS_SetMode :: "ctx_ptr \<Rightarrow> u32 \<Rightarrow> wls_shm \<Rightarrow> (u32 \<times> wls_shm) option" where
  "WLS_SetMode h md s = Option.bind (upd_ctx h (\<lambda>c. c\<lparr>mode := md\<rparr>) s) (\<lambda>s. Some (0, s))"

section \<open>WLS\_Close\<close>

fun first_index :: "'a \<Rightarrow> 'a list \<Rightarrow> nat option" where
  "first_index x [] = None"
| "first_index x (y # ys) = (if y = x then Some 0 else map_option Suc (first_index x ys))"

definition WLS_Close_Adv ::
  "wls_env \<Rightarrow> ctx_ptr list \<Rightarrow> ctx_ptr \<Rightarrow> u32 \<Rightarrow> wls_shm \<Rightarrow> (int \<times> ctx_ptr list \<times> wls_shm) option" where
  "WLS_Close_Adv e tab h nReleaseProcess s =
     (if h = NullCtx then Some (-1, tab, s)
      else if wls_check_ctx tab h \<noteq> 0 then Some (-1, tab, s)
      else Option.bind (get_ctx s h) (\<lambda>c.
        let z = wls_dev_name c
        in if zones s z = None then Some (-1, tab, s)
           else Option.bind (wls_destroy_us_ctx h z s) (\<lambda>s.
             let tab = (case first_index h (take WLS_US_CTX_MAX tab) of
                          Some i \<Rightarrow> tab[i := NullCtx] | None \<Rightarrow> tab)
             in Option.bind (zones s z) (\<lambda>d.
                if nWlsClients d = 0 \<and> (nReleaseProcess \<noteq> 0 \<or> e_primary e)
                then Some (0, tab, s\<lparr>zones := (zones s)(z := None)\<rparr>)
                else Some (0, tab, s)))))"

text \<open>The calls with default arguments.\<close>

definition WLS_Open ::
  "wls_env \<Rightarrow> string \<Rightarrow> u32 \<Rightarrow> u64 \<Rightarrow> u64 \<Rightarrow> u32 \<Rightarrow> ctx_ptr list \<Rightarrow> wls_shm
   \<Rightarrow> ((ctx_ptr \<times> u64 \<times> u64) \<times> ctx_ptr list \<times> wls_shm) option" where
  "WLS_Open e ifacename md mac phy ul tab s =
     WLS_Open_Adv e \<lparr>oa_ifacename = ifacename, oa_mode = md, oa_mac_size = mac, oa_phy_size = phy,
       oa_ul_size = ul, oa_hp_align = 0, oa_sema = 1, oa_init = 0, oa_cell = 1\<rparr> tab s"

definition WLS_Close :: "wls_env \<Rightarrow> ctx_ptr list \<Rightarrow> ctx_ptr \<Rightarrow> wls_shm \<Rightarrow> (int \<times> ctx_ptr list \<times> wls_shm) option" where
  "WLS_Close e tab h s = WLS_Close_Adv e tab h 1 s"

section \<open>Opening both ends\<close>

lemma zero_storage_sel [simp]: "zones (zero_storage z i s) = zones s"
  by (simp add: zero_storage_def)

lemma zero_storage_zones [simp]:
  "zero_storage z i (s\<lparr>zones := m\<rparr>) = (zero_storage z i s)\<lparr>zones := m\<rparr>"
  by (simp add: zero_storage_def)

lemma fold_zero_storage_zones [simp]: "zones (fold (zero_storage z) is s) = zones s"
  by (induction "is" arbitrary: s) simp_all

lemma wls_initialize_slave:
  assumes "e_reserve_ok e z (n + wls_rup512 (e_sizeof_drv e)) WLS_HUGE_DEF_PAGE_SIZE" "init \<noteq> 0 \<or> e_primary e"
  shows "\<exists>r s'. wls_initialize e z n 0 init s = Some (r, s') \<and> zones s' = (zones s)(z \<mapsto> zero_drv)"
  using assms by (auto simp: wls_initialize_def Let_def)

lemma scan_empty: "open_scan s nm md (replicate n NullCtx) i (Some j) = Some (None, Some j)"
  by (induction n arbitrary: i) auto

lemma scan_empty0: "open_scan s nm md (replicate (Suc n) NullCtx) 0 None = Some (None, Some 0)"
  by (simp add: scan_empty)

lemma create_ok:
  assumes "zones s z = Some d" "nWlsClients d = of_nat i" "i < 4" "length (p_wls_us_ctx d) = 4"
    "drv_nWlsSemaWakeUp d = 0 \<or> e_sem_init e = 0"
    and "c = upd_priv (\<lambda>q. q\<lparr>pid := e_getpid e\<rparr>) ((fresh_ctx e z i d ps)\<lparr>dst_user_va := Ctx z (xor i 1)\<rparr>)"
  shows "wls_create_us_ctx e z ps s = Some (Ctx z i, (zero_storage z i s)\<lparr>zones := (zones s)(z \<mapsto>
      d\<lparr>p_wls_us_ctx := (p_wls_us_ctx d)[i := c], nWlsClients := nWlsClients d + 1\<rparr>)\<rparr>)"
proof -
  have "unat (of_nat i :: u32) = i" using assms(3) by (simp add: unat_of_nat)
  then have i: "unat (nWlsClients d) = i" "\<not> (of_nat 4 :: u32) \<le> nWlsClients d"
    using assms(2,3) by (simp_all add: word_le_nat_alt)
  then show ?thesis using assms(1,4-)
    by (auto simp: wls_create_us_ctx_def Let_def WLS_US_CLIENTS_MAX_def)
qed

definition opened :: "wls_env \<Rightarrow> open_args \<Rightarrow> zone \<Rightarrow> nat \<Rightarrow> wls_drv_ctx \<Rightarrow> ctx_ptr \<Rightarrow> wls_us_ctx" where
  "opened e a z i d ps =
     (upd_priv (\<lambda>q. q\<lparr>pid := e_getpid e\<rparr>) ((fresh_ctx e z i d ps)\<lparr>dst_user_va := Ctx z (xor i 1)\<rparr>))
       \<lparr>wls_us_user_space_va := Ctx z i, wls_us_ctx_size := e_sizeof_ctx e,
        mode := oa_mode a, wls_dev_name := take (e_namesize e - 1) z\<rparr>"

lemma open_client_ok:
  assumes "zones s z = Some d0" "open_sizes a d0 = (d, mac, phy)"
    "nWlsClients d = of_nat i" "i < 4" "length (p_wls_us_ctx d) = 4"
    "drv_nWlsSemaWakeUp d = 0 \<or> e_sem_init e = 0"
    "ps = (if oa_mode a = WLS_SLAVE_CLIENT then tab ! 0 else NullCtx)"
  shows "open_client e a z (Some k) tab s = Some ((Ctx z i, mac, phy), tab[k := Ctx z i],
      (zero_storage z i s)\<lparr>zones := (zones s)(z \<mapsto>
        d\<lparr>p_wls_us_ctx := (p_wls_us_ctx d)[i := opened e a z i d ps], nWlsClients := nWlsClients d + 1\<rparr>)\<rparr>)"
proof -
  have range: "1 \<le> nWlsClients d + 1" "nWlsClients d + 1 \<le> (4 :: u32)"
    unfolding assms(3) of_nat_Suc [symmetric, unfolded add.commute [of 1]]
    using assms(4) by (simp_all add: word_le_nat_alt unat_of_nat del: of_nat_Suc)
  note create = create_ok [OF _ assms(3-6) refl, where ps = ps and z = z]
  show ?thesis
    using assms(1-5) assms(7) [symmetric] range
    by (simp add: open_client_def create Let_def WLS_US_CLIENTS_MAX_def upd_ctx_def get_ctx.simps(2)
        set_ctx.simps(2) opened_def, cases d, simp)
qed

lemma zero_storage_msgs:
  "msgs (zero_storage z i s) (GetStorage z i) = Some (replicate WLS_QUEUE_N_ELEMENTS zero_handle)"
  "msgs (zero_storage z i s) (PutStorage z i) = Some (replicate WLS_QUEUE_N_ELEMENTS zero_handle)"
  "j \<noteq> i \<Longrightarrow> msgs (zero_storage z i s) (GetStorage z j) = msgs s (GetStorage z j)"
  "j \<noteq> i \<Longrightarrow> msgs (zero_storage z i s) (PutStorage z j) = msgs s (PutStorage z j)"
  by (simp_all add: zero_storage_def)

lemma opened_sel [simp]:
  "get_queue (opened e a z i d ps) = WLS_MsgDefineQueue (GetStorage z i) (of_nat WLS_QUEUE_N_ELEMENTS) 0"
  "put_queue (opened e a z i d ps) = WLS_MsgDefineQueue (PutStorage z i) (of_nat WLS_QUEUE_N_ELEMENTS) 0"
  "mode (opened e a z i d ps) = oa_mode a" "dst_user_va (opened e a z i d ps) = Ctx z (xor i 1)"
  "pid (wls_us_private (opened e a z i d ps)) = e_getpid e"
  "sema_shared (wls_us_private (opened e a z i d ps)) = ps"
  by (simp_all add: opened_def fresh_ctx_def upd_priv_def)

text \<open>A state in which the context of slot \<open>i\<close> has just been opened.\<close>

lemma opened_queues:
  assumes "get_ctx s (Ctx z i) = Some (opened e a z i d ps)"
    "msgs s (GetStorage z i) = Some (replicate WLS_QUEUE_N_ELEMENTS zero_handle)"
    "msgs s (PutStorage z i) = Some (replicate WLS_QUEUE_N_ELEMENTS zero_handle)"
  shows "client_ok s (Ctx z i)" "put_items (Ctx z i) s = []" "get_items (Ctx z i) s = []"
    "put_cap (Ctx z i) s = 1023" "get_cap (Ctx z i) s = 1023"
proof -
  have n: "0 < (of_nat WLS_QUEUE_N_ELEMENTS :: u32)"
    "unat (of_nat WLS_QUEUE_N_ELEMENTS :: u32) = WLS_QUEUE_N_ELEMENTS"
    by (simp_all add: WLS_QUEUE_N_ELEMENTS_def)
  have fresh: "mq_wf None h (WLS_MsgDefineQueue p (of_nat WLS_QUEUE_N_ELEMENTS) 0) (msgs s)"
    "mq_items None h (WLS_MsgDefineQueue p (of_nat WLS_QUEUE_N_ELEMENTS) 0) (msgs s) = []"
    if "p = GetStorage z i \<or> p = PutStorage z i" for p and h :: ctx_ptr
    by (rule WLS_MsgDefineQueue_fresh [where xs = "replicate WLS_QUEUE_N_ELEMENTS zero_handle"];
        use that assms n in auto)+
  have sel: "mq_pStorage (WLS_MsgDefineQueue p m k) = p" "mq_size (WLS_MsgDefineQueue p m k) = m"
    for p :: storage and m k by (simp_all add: WLS_MsgDefineQueue_def)
  show "client_ok s (Ctx z i)" "put_items (Ctx z i) s = []" "get_items (Ctx z i) s = []"
    using assms(1) by (simp_all add: client_ok_def view_defs fresh sel)
  show "put_cap (Ctx z i) s = 1023" "get_cap (Ctx z i) s = 1023"
    using assms(1) by (simp_all add: view_defs sel n) (simp_all add: WLS_QUEUE_N_ELEMENTS_def)
qed

lemma initialize_full:
  assumes "e_reserve_ok e z (n + wls_rup512 (e_sizeof_drv e)) WLS_HUGE_DEF_PAGE_SIZE" "init \<noteq> 0 \<or> e_primary e"
  obtains r s' where "wls_initialize e z n 0 init s = Some (r, s')" "zones s' = (zones s)(z \<mapsto> zero_drv)"
  using wls_initialize_slave [OF assms] by blast

lemma open_new:
  assumes scan: "tab = replicate WLS_US_CTX_MAX NullCtx"
    and z: "oa_ifacename a = z" "length z < e_namesize e"
    and zone: "open_zone e a z s = Some (True, t)" "zones t z = Some d0" "length (p_wls_us_ctx d0) = 4"
    and d0: "open_sizes a d0 = (d, mac, phy)" "nWlsClients d = of_nat i" "i < 4"
    and sem: "e_sem_init e = 0" and cell: "oa_cell a \<noteq> 0"
  shows "WLS_Open_Adv e a tab s = Some ((Ctx z i, mac, phy), tab[0 := Ctx z i],
      (zero_storage z i t)\<lparr>zones := (zones t)(z \<mapsto>
        d\<lparr>p_wls_us_ctx := (p_wls_us_ctx d)[i := opened e a z i d NullCtx], nWlsClients := nWlsClients d + 1\<rparr>)\<rparr>)"
proof -
  have "take WLS_US_CTX_MAX tab = replicate (Suc 19) NullCtx" using scan by (simp add: WLS_US_CTX_MAX_def)
  then have found: "open_scan s z md (take WLS_US_CTX_MAX tab) 0 None = Some (None, Some 0)" for md
    using scan_empty0 [of s z md 19] by simp
  have name: "take (e_namesize e - 1) z = z" using z(2) by simp
  have len: "length (p_wls_us_ctx d) = 4" using d0(1) zone(3) by (auto simp: open_sizes_def split: if_splits)
  have "tab ! 0 = NullCtx" using scan by (simp add: WLS_US_CTX_MAX_def)
  then have ps: "NullCtx = (if oa_mode a = WLS_SLAVE_CLIENT then tab ! 0 else NullCtx)" by simp
  show ?thesis
    using open_client_ok [OF zone(2) d0 len _ ps, of e 0] sem z(1) name found zone(1) cell
    by (simp add: WLS_Open_Adv_def Let_def)
qed


text \<open>The driver context after the slave and after the master have opened.\<close>

definition drv_slave :: "wls_env \<Rightarrow> open_args \<Rightarrow> zone \<Rightarrow> wls_drv_ctx" where
  "drv_slave e a z = (let d = fst (open_sizes a zero_drv) in
     d\<lparr>p_wls_us_ctx := (p_wls_us_ctx d)[0 := opened e a z 0 d NullCtx], nWlsClients := 1\<rparr>)"

definition drv_master :: "wls_env \<Rightarrow> open_args \<Rightarrow> zone \<Rightarrow> wls_drv_ctx \<Rightarrow> wls_drv_ctx" where
  "drv_master e a z d =
     d\<lparr>p_wls_us_ctx := (p_wls_us_ctx d)[1 := opened e a z 1 d NullCtx], nWlsClients := 2\<rparr>"

lemma zero_drv_sel [simp]: "length (p_wls_us_ctx zero_drv) = 4" "nWlsClients zero_drv = 0"
  by (simp_all add: zero_drv_def WLS_US_CLIENTS_MAX_def)

lemma open_slave:
  assumes "zones s z = None" "length z < e_namesize e" "oa_ifacename a = z"
    "oa_mode a = WLS_SLAVE_CLIENT" "oa_cell a \<noteq> 0" "oa_hp_align a = 0" "oa_init a \<noteq> 0 \<or> e_primary e"
    "e_reserve_ok e z (oa_mac_size a + oa_phy_size a + wls_rup512 (e_sizeof_drv e)) WLS_HUGE_DEF_PAGE_SIZE"
    "e_sem_init e = 0"
  obtains t where "WLS_Open_Adv e a (replicate WLS_US_CTX_MAX NullCtx) s
    = Some ((Ctx z 0, oa_mac_size a, oa_phy_size a), (replicate WLS_US_CTX_MAX NullCtx)[0 := Ctx z 0],
        (zero_storage z 0 t)\<lparr>zones := (zones t)(z \<mapsto> drv_slave e a z)\<rparr>)"
proof -
  obtain r t where t: "wls_initialize e z (oa_mac_size a + oa_phy_size a) 0 (oa_init a) s = Some (r, t)"
      "zones t = (zones s)(z \<mapsto> zero_drv)"
    using initialize_full [OF assms(8,7)] by blast
  have zone: "open_zone e a z s = Some (True, t)" using assms t by (simp add: open_zone_def)
  have sizes: "open_sizes a zero_drv = (fst (open_sizes a zero_drv), oa_mac_size a, oa_phy_size a)"
    "nWlsClients (fst (open_sizes a zero_drv)) = of_nat 0"
    using assms(4) by (simp_all add: open_sizes_def)
  show ?thesis
    by (rule that [of t])
      (use open_new [OF refl assms(3,2) zone _ _ sizes] t(2) assms sizes(2) in
        \<open>simp add: drv_slave_def Let_def\<close>)
qed

lemma open_master:
  assumes "zones s z = Some d" "length (p_wls_us_ctx d) = 4" "nWlsClients d = 1"
    "length z < e_namesize e" "oa_ifacename a = z" "oa_mode a = WLS_MASTER_CLIENT" "oa_cell a \<noteq> 0"
    "e_sem_init e = 0"
  shows "WLS_Open_Adv e a (replicate WLS_US_CTX_MAX NullCtx) s
    = Some ((Ctx z 1, ucast (nMacBufferSize d), ucast (nPhyBufferSize d)),
        (replicate WLS_US_CTX_MAX NullCtx)[0 := Ctx z 1],
        (zero_storage z 1 s)\<lparr>zones := (zones s)(z \<mapsto> drv_master e a z d)\<rparr>)"
proof -
  have zone: "open_zone e a z s = Some (True, s)" using assms by (simp add: open_zone_def)
  have sizes: "open_sizes a d = (d, ucast (nMacBufferSize d), ucast (nPhyBufferSize d))"
    using assms(6) by (simp add: open_sizes_def WLS_SLAVE_CLIENT_def WLS_MASTER_CLIENT_def)
  show ?thesis
    using open_new [OF refl assms(5,4) zone assms(1,2) sizes, of 1] assms
    by (simp add: drv_master_def)
qed

lemma check_ctx_opened: "wls_check_ctx ((replicate WLS_US_CTX_MAX NullCtx)[0 := Ctx z i]) (Ctx z i) = 0"
proof -
  have "Ctx z i \<in> set ((replicate WLS_US_CTX_MAX NullCtx)[0 := Ctx z i])"
    by (rule set_update_memI) (simp add: WLS_US_CTX_MAX_def)
  then show ?thesis by (auto simp: wls_check_ctx_def list_ex_iff)
qed

lemma both_opened:
  assumes "zones s z = Some (drv_master e2 a2 z (drv_slave e1 a1 z))"
    "\<And>i. i = 0 \<or> i = 1 \<Longrightarrow> msgs s (GetStorage z i) = Some (replicate WLS_QUEUE_N_ELEMENTS zero_handle)"
    "\<And>i. i = 0 \<or> i = 1 \<Longrightarrow> msgs s (PutStorage z i) = Some (replicate WLS_QUEUE_N_ELEMENTS zero_handle)"
    "e_getpid e1 \<noteq> 0" "e_getpid e2 \<noteq> 0"
  shows "linked_pair (Ctx z 1) (Ctx z 0) s"
    "i = 0 \<or> i = 1 \<Longrightarrow> put_items (Ctx z i) s = [] \<and> get_items (Ctx z i) s = []
       \<and> put_cap (Ctx z i) s = 1023 \<and> get_cap (Ctx z i) s = 1023"
proof -
  have len: "length (p_wls_us_ctx (fst (open_sizes a1 zero_drv))) = 4" by (simp add: open_sizes_def)
  have ctx: "get_ctx s (Ctx z 0) = Some (opened e1 a1 z 0 (fst (open_sizes a1 zero_drv)) NullCtx)"
      "get_ctx s (Ctx z 1) = Some (opened e2 a2 z 1 (drv_slave e1 a1 z) NullCtx)"
    using assms(1) len by (simp_all add: get_ctx.simps(2) drv_master_def drv_slave_def Let_def)
  note q0 = opened_queues [OF ctx(1) assms(2,3)] and q1 = opened_queues [OF ctx(2) assms(2,3)]
  show "linked_pair (Ctx z 1) (Ctx z 0) s"
    using q0(1) q1(1) ctx assms(4,5)
    by (simp add: linked_pair_def linked_def link_inv_def sema_target_def)
  show "i = 0 \<or> i = 1 \<Longrightarrow> put_items (Ctx z i) s = [] \<and> get_items (Ctx z i) s = []
       \<and> put_cap (Ctx z i) s = 1023 \<and> get_cap (Ctx z i) s = 1023"
    using q0 q1 by auto
qed

text \<open>C6: when a slave opens a name that is not reserved yet and a master then opens the same
  name from another process, both calls succeed, the master is told the buffer sizes the
  slave gave (modulo \<open>2 ^ 32\<close>), both handles are accepted by the library, and the two contexts
  form a link in both directions with empty queues that hold 1023 messages each.\<close>

theorem open_establishes_link:
  assumes fresh: "zones s z = None" "length z < e_namesize e1" "length z < e_namesize e2"
    and a1: "oa_ifacename a1 = z" "oa_mode a1 = WLS_SLAVE_CLIENT" "oa_cell a1 \<noteq> 0" "oa_hp_align a1 = 0"
    and a2: "oa_ifacename a2 = z" "oa_mode a2 = WLS_MASTER_CLIENT" "oa_cell a2 \<noteq> 0"
    and dpdk: "oa_init a1 \<noteq> 0 \<or> e_primary e1"
      "e_reserve_ok e1 z (oa_mac_size a1 + oa_phy_size a1 + wls_rup512 (e_sizeof_drv e1)) WLS_HUGE_DEF_PAGE_SIZE"
    and os: "e_sem_init e1 = 0" "e_sem_init e2 = 0" "e_getpid e1 \<noteq> 0" "e_getpid e2 \<noteq> 0"
  shows "\<exists>tab1 tab2 s1 s2.
      WLS_Open_Adv e1 a1 (replicate WLS_US_CTX_MAX NullCtx) s
        = Some ((Ctx z 0, oa_mac_size a1, oa_phy_size a1), tab1, s1)
    \<and> WLS_Open_Adv e2 a2 (replicate WLS_US_CTX_MAX NullCtx) s1
        = Some ((Ctx z 1, ucast (ucast (oa_mac_size a1) :: u32), ucast (ucast (oa_phy_size a1) :: u32)), tab2, s2)
    \<and> wls_check_ctx tab1 (Ctx z 0) = 0 \<and> wls_check_ctx tab2 (Ctx z 1) = 0
    \<and> linked_pair (Ctx z 1) (Ctx z 0) s2
    \<and> (\<forall>i\<in>{0, 1}. put_items (Ctx z i) s2 = [] \<and> get_items (Ctx z i) s2 = []
         \<and> put_cap (Ctx z i) s2 = 1023 \<and> get_cap (Ctx z i) s2 = 1023)"
proof -
  let ?tab = "replicate WLS_US_CTX_MAX NullCtx"
  obtain t where open1: "WLS_Open_Adv e1 a1 ?tab s
      = Some ((Ctx z 0, oa_mac_size a1, oa_phy_size a1), ?tab[0 := Ctx z 0],
          (zero_storage z 0 t)\<lparr>zones := (zones t)(z \<mapsto> drv_slave e1 a1 z)\<rparr>)" (is "_ = Some (_, _, ?s1)")
    using open_slave [OF fresh(1,2) a1 dpdk os(1)] by blast
  have d: "length (p_wls_us_ctx (drv_slave e1 a1 z)) = 4" "nWlsClients (drv_slave e1 a1 z) = 1"
    "nMacBufferSize (drv_slave e1 a1 z) = ucast (oa_mac_size a1)"
    "nPhyBufferSize (drv_slave e1 a1 z) = ucast (oa_phy_size a1)"
    using a1(2) by (simp_all add: drv_slave_def Let_def open_sizes_def)
  define s2 where "s2 = (zero_storage z 1 ?s1)\<lparr>zones := (zones ?s1)(z \<mapsto> drv_master e2 a2 z (drv_slave e1 a1 z))\<rparr>"
  have open2: "WLS_Open_Adv e2 a2 ?tab ?s1
      = Some ((Ctx z 1, ucast (ucast (oa_mac_size a1) :: u32), ucast (ucast (oa_phy_size a1) :: u32)),
          ?tab[0 := Ctx z 1], s2)"
    using open_master [of ?s1 z "drv_slave e1 a1 z", OF _ d(1,2) fresh(3) a2 os(2)] d(3,4)
    by (simp add: s2_def)
  have st: "msgs s2 (GetStorage z i) = Some (replicate WLS_QUEUE_N_ELEMENTS zero_handle)"
      "msgs s2 (PutStorage z i) = Some (replicate WLS_QUEUE_N_ELEMENTS zero_handle)" if "i = 0 \<or> i = 1" for i
    using that by (auto simp: s2_def zero_storage_def)
  have z2: "zones s2 z = Some (drv_master e2 a2 z (drv_slave e1 a1 z))" by (simp add: s2_def)
  show ?thesis
    using open1 open2 check_ctx_opened both_opened [OF z2 st os(3,4)] by (intro exI conjI) auto
qed


definition demo_args :: "u32 \<Rightarrow> open_args" where
  "demo_args md = \<lparr>oa_ifacename = ''wls0'', oa_mode = md, oa_mac_size = 0x100001000, oa_phy_size = 0x2000,
     oa_ul_size = 0, oa_hp_align = 0, oa_sema = 1, oa_init = 0, oa_cell = 1\<rparr>"

definition empty_shm :: wls_shm where
  "empty_shm = \<lparr>zones = Map.empty, msgs = Map.empty, blks = Map.empty, umem = (\<lambda>_. 0)\<rparr>"

theorem open_establishes_link_witness:
  "\<exists>tab1 tab2 s1 s2.
      WLS_Open_Adv demo_env (demo_args 0) (replicate WLS_US_CTX_MAX NullCtx) empty_shm
        = Some ((Ctx ''wls0'' 0, 0x100001000, 0x2000), tab1, s1)
    \<and> WLS_Open_Adv demo_env (demo_args 1) (replicate WLS_US_CTX_MAX NullCtx) s1
        = Some ((Ctx ''wls0'' 1, 0x1000, 0x2000), tab2, s2)
    \<and> linked_pair (Ctx ''wls0'' 1) (Ctx ''wls0'' 0) s2"
  using open_establishes_link [of empty_shm "''wls0''" demo_env demo_env "demo_args 0" "demo_args 1"]
  by (simp add: empty_shm_def demo_env_def demo_args_def WLS_SLAVE_CLIENT_def WLS_MASTER_CLIENT_def) blast

section \<open>Slot management\<close>

lemma xor_1_slot: "xor 0 (1 :: nat) = 1" "xor 1 (1 :: nat) = 0"
  by simp_all

lemma destroy_ctx:
  assumes "zones s z = Some d" "i < length (p_wls_us_ctx d)"
  shows "wls_destroy_us_ctx (Ctx z i) z s = Some ((zero_storage z i s)\<lparr>zones := (zones s)(z \<mapsto>
      (unlink_pair d)\<lparr>p_wls_us_ctx := (p_wls_us_ctx (unlink_pair d))[i := zero_ctx],
         nWlsClients := nWlsClients d - 1\<rparr>)\<rparr>)"
proof -
  obtain u where u: "unlink_pair d = u" "nWlsClients u = nWlsClients d"
    by (simp add: unlink_pair_def)
  have swap: "u\<lparr>nWlsClients := n, p_wls_us_ctx := x\<rparr> = u\<lparr>p_wls_us_ctx := x, nWlsClients := n\<rparr>" for n x
    by (cases u) simp
  show ?thesis
    using assms(1) u by (simp add: wls_destroy_us_ctx_def Let_def zero_ctx_at_def set_ctx.simps(2) swap)
qed

text \<open>C7: closing a client of another pair breaks the link of slots 0 and 1: whichever context
  is destroyed, as long as the first two clients are alive both lose their destination, and
  from then on a single-block put of slot 0 returns -1.\<close>

theorem destroying_any_client_unlinks_first_pair:
  assumes "zones s z = Some d" "length (p_wls_us_ctx d) = WLS_US_CLIENTS_MAX" "2 \<le> i" "i < WLS_US_CLIENTS_MAX"
    and "pid (wls_us_private (p_wls_us_ctx d ! 0)) \<noteq> 0" "pid (wls_us_private (p_wls_us_ctx d ! 1)) \<noteq> 0"
    and "client_ok s (Ctx z 0)" "wls_check_ctx tab (Ctx z 0) = 0"
    and "and WLS_FLAGS_MASK (plain_flags (msg_flags x)) = 0"
  shows "\<exists>s' s''. wls_destroy_us_ctx (Ctx z i) z s = Some s'
    \<and> map_option dst_user_va (get_ctx s' (Ctx z 0)) = Some NullCtx
    \<and> map_option dst_user_va (get_ctx s' (Ctx z 1)) = Some NullCtx
    \<and> wls_put e tab (Ctx z 0) x s' = Some (-1, s'')"
proof -
  define s' where "s' = (zero_storage z i s)\<lparr>zones := (zones s)(z \<mapsto>
      (unlink_pair d)\<lparr>p_wls_us_ctx := (p_wls_us_ctx (unlink_pair d))[i := zero_ctx],
         nWlsClients := nWlsClients d - 1\<rparr>)\<rparr>"
  have len: "length (p_wls_us_ctx d) = 4" using assms(2) by (simp add: WLS_US_CLIENTS_MAX_def)
  have destroy: "wls_destroy_us_ctx (Ctx z i) z s = Some s'"
    using destroy_ctx [OF assms(1), of i] assms(2,4) by (simp add: s'_def)
  have ctx: "get_ctx s' (Ctx z 0) = Some ((p_wls_us_ctx d ! 0)\<lparr>dst_user_va := NullCtx\<rparr>)"
      "get_ctx s' (Ctx z 1) = Some ((p_wls_us_ctx d ! 1)\<lparr>dst_user_va := NullCtx\<rparr>)"
    using assms(3-6) len by (auto simp: get_ctx.simps(2) s'_def unlink_pair_def nth_list_update)
  have "get_ctx s (Ctx z 0) = Some (p_wls_us_ctx d ! 0)"
    using assms(1) len by (simp add: get_ctx.simps(2))
  moreover have "msgs s' (GetStorage z 0) = msgs s (GetStorage z 0)"
      "msgs s' (PutStorage z 0) = msgs s (PutStorage z 0)"
    using assms(3) by (simp_all add: s'_def zero_storage_def)
  ultimately have ok: "client_ok s' (Ctx z 0)"
    using assms(7) ctx(1) by (auto simp: client_ok_def mq_wf_def)
  obtain ok' t where t: "enq_put (Ctx z 0) x s' = Some (ok', t)" "put_step (Ctx z 0) s' t"
    using enq_put_total [OF ok] .
  obtain c where c: "get_ctx t (Ctx z 0) = Some c" "dst_user_va c = NullCtx"
    using same_metaD [OF put_step_meta [OF t(2)] ctx(1)] by auto
  have "wls_put e tab (Ctx z 0) x s' = Some (-1, t)"
    using assms(8,9) t(1) c by (simp add: wls_put_def Let_def plain_flags_def msg_flags_def)
  then show ?thesis using destroy ctx by auto
qed

text \<open>C8: a slot index is the number of clients, not a free slot: with clients in slots 0 and 1,
  after slot 0 is closed the next open creates its context in slot 1, over the client that is
  still alive, and everything queued for that client is gone.\<close>

theorem reopen_overwrites_live_client:
  assumes "zones s z = Some d" "length (p_wls_us_ctx d) = WLS_US_CLIENTS_MAX" "nWlsClients d = 2"
    and "get_ctx s (Ctx z 1) = Some c" "pid (wls_us_private c) \<noteq> 0"
    and "drv_nWlsSemaWakeUp d = 0 \<or> e_sem_init e = 0"
  shows "\<exists>s' s''. wls_destroy_us_ctx (Ctx z 0) z s = Some s'
    \<and> map_option (\<lambda>c. pid (wls_us_private c)) (get_ctx s' (Ctx z 1)) = Some (pid (wls_us_private c))
    \<and> wls_create_us_ctx e z ps s' = Some (Ctx z 1, s'')
    \<and> map_option (\<lambda>c. pid (wls_us_private c)) (get_ctx s'' (Ctx z 1)) = Some (e_getpid e)
    \<and> get_items (Ctx z 1) s'' = []"
proof -
  define d' where "d' = (unlink_pair d)\<lparr>p_wls_us_ctx := (p_wls_us_ctx (unlink_pair d))[0 := zero_ctx],
         nWlsClients := nWlsClients d - 1\<rparr>"
  define s' where "s' = (zero_storage z 0 s)\<lparr>zones := (zones s)(z \<mapsto> d')\<rparr>"
  have len: "length (p_wls_us_ctx d) = 4" using assms(2) by (simp add: WLS_US_CLIENTS_MAX_def)
  have destroy: "wls_destroy_us_ctx (Ctx z 0) z s = Some s'"
    using destroy_ctx [OF assms(1), of 0] len by (simp add: s'_def d'_def)
  have "c = p_wls_us_ctx d ! 1" using assms(1,4) len by (simp add: get_ctx.simps(2))
  then have live: "map_option (\<lambda>c. pid (wls_us_private c)) (get_ctx s' (Ctx z 1)) = Some (pid (wls_us_private c))"
    using len by (simp add: get_ctx.simps(2) s'_def d'_def unlink_pair_def)
  have d': "nWlsClients d' = of_nat 1" "length (p_wls_us_ctx d') = 4" "drv_nWlsSemaWakeUp d' = 0 \<or> e_sem_init e = 0"
    using assms(3,6) len by (simp_all add: d'_def unlink_pair_def)
  define n where "n = upd_priv (\<lambda>q. q\<lparr>pid := e_getpid e\<rparr>) ((fresh_ctx e z 1 d' ps)\<lparr>dst_user_va := Ctx z (xor 1 1)\<rparr>)"
  define s'' where "s'' = (zero_storage z 1 s')\<lparr>zones := (zones s')(z \<mapsto>
      d'\<lparr>p_wls_us_ctx := (p_wls_us_ctx d')[1 := n], nWlsClients := nWlsClients d' + 1\<rparr>)\<rparr>"
  have create: "wls_create_us_ctx e z ps s' = Some (Ctx z 1, s'')"
    using create_ok [OF _ d'(1) _ d'(2,3) n_def] by (simp add: s''_def s'_def)
  have ctx: "get_ctx s'' (Ctx z 1) = Some n" using d'(2) by (simp add: get_ctx.simps(2) s''_def)
  have n: "pid (wls_us_private n) = e_getpid e"
    "get_queue n = WLS_MsgDefineQueue (GetStorage z 1) (of_nat WLS_QUEUE_N_ELEMENTS) 0"
    by (simp_all add: n_def upd_priv_def fresh_ctx_def)
  have "mq_items None (Ctx z 1) (get_queue n) (msgs s'') = []"
    unfolding n(2)
    by (rule WLS_MsgDefineQueue_fresh [where xs = "replicate WLS_QUEUE_N_ELEMENTS zero_handle"])
      (simp_all add: s''_def zero_storage_def WLS_QUEUE_N_ELEMENTS_def)
  then show ?thesis using destroy live create ctx n(1) by (auto simp: get_items_def)
qed

definition demo_drv :: wls_drv_ctx where
  "demo_drv = the (zones (demo_shm 0 0) ''wls'')"

lemma demo_drv:
  "zones (demo_shm 0 0) ''wls'' = Some demo_drv" "length (p_wls_us_ctx demo_drv) = WLS_US_CLIENTS_MAX"
  "p_wls_us_ctx demo_drv ! 0 = demo_client 0 0 0 demo_b" "p_wls_us_ctx demo_drv ! 1 = demo_client 0 0 1 demo_a"
  "nWlsClients demo_drv = 2" "drv_nWlsSemaWakeUp demo_drv = 0"
  by (simp_all add: demo_drv_def demo_shm_def WLS_US_CLIENTS_MAX_def zero_drv_def)

theorem destroying_any_client_unlinks_first_pair_witness:
  "\<exists>s' s''. wls_destroy_us_ctx (Ctx ''wls'' 2) ''wls'' (demo_shm 0 0) = Some s'
    \<and> map_option dst_user_va (get_ctx s' (Ctx ''wls'' 0)) = Some NullCtx
    \<and> map_option dst_user_va (get_ctx s' (Ctx ''wls'' 1)) = Some NullCtx
    \<and> wls_put demo_env [demo_a] (Ctx ''wls'' 0) msg1 s' = Some (-1, s'')"
proof -
  have "client_ok (demo_shm 0 0) (Ctx ''wls'' 0)"
    using demo_linked0 by (auto simp: linked_pair_def linked_clients demo_a_def)
  moreover have "and WLS_FLAGS_MASK (plain_flags (msg_flags msg1)) = 0"
    by (simp add: msg1_def plain_flags_def msg_flags_def)
  moreover have "wls_check_ctx [demo_a] (Ctx ''wls'' 0) = 0" using demo_check(1) by (simp add: demo_a_def)
  ultimately show ?thesis
    using destroying_any_client_unlinks_first_pair [OF demo_drv(1,2), of 2 "[demo_a]" msg1 demo_env]
    by (simp add: demo_drv(3,4) [simplified] WLS_US_CLIENTS_MAX_def)
qed

theorem reopen_overwrites_live_client_witness:
  "\<exists>s' s''. wls_destroy_us_ctx (Ctx ''wls'' 0) ''wls'' (demo_shm 0 0) = Some s'
    \<and> map_option (\<lambda>c. pid (wls_us_private c)) (get_ctx s' (Ctx ''wls'' 1)) = Some 7
    \<and> wls_create_us_ctx demo_env ''wls'' NullCtx s' = Some (Ctx ''wls'' 1, s'')
    \<and> map_option (\<lambda>c. pid (wls_us_private c)) (get_ctx s'' (Ctx ''wls'' 1)) = Some (e_getpid demo_env)
    \<and> get_items (Ctx ''wls'' 1) s'' = []"
proof -
  have ctx: "get_ctx (demo_shm 0 0) (Ctx ''wls'' 1) = Some (demo_client 0 0 1 demo_a)"
    using demo_ctx(2) by (simp add: demo_b_def)
  show ?thesis
    using reopen_overwrites_live_client [OF demo_drv(1,2,5) ctx, of demo_env NullCtx]
    by (simp add: demo_drv(6))
qed

end
