(* ===== verification/Wls_Addr.thy ===== *)
theory Wls_Addr
  imports Wls_Session
begin

text \<open>
  The buffer area of the library (\<open>wls_lib_dpdk.c\<close>): the huge-page table that \<open>WLS_Alloc\<close>
  fills, the translation of addresses in both directions, and the queue of free blocks a
  master hands to its slave.  The conversion \<open>rte_mem_virt2iova\<close> is a function of the
  environment.
\<close>

section \<open>Allocation\<close>

text \<open>\<open>*(unsigned char* ) va = 1\<close> on a little-endian word.\<close>

definition touch_byte :: "u64 \<Rightarrow> (u64 \<Rightarrow> u64) \<Rightarrow> (u64 \<Rightarrow> u64)" where
  "touch_byte va um = um(va := or (and (um va) (not 0xFF)) 1)"

text \<open>The loop over the pages.  The table has a fixed number of entries; the next one is
  written before the end of the area is tested, and an index past the table is a fault.
  \<open>Inl\<close>: a page could not be converted.\<close>

function alloc_loop ::
  "wls_env \<Rightarrow> u64 \<Rightarrow> u64 \<Rightarrow> nat \<Rightarrow> hugepage_tabl list \<Rightarrow> (u64 \<Rightarrow> u64)
   \<Rightarrow> ((unit + nat) \<times> hugepage_tabl list \<times> (u64 \<Rightarrow> u64)) option" where
  "alloc_loop e base end' n tbl um =
     (if n \<ge> length tbl then None
      else
        let va = base + of_nat n * WLS_HUGE_DEF_PAGE_SIZE;
            tbl = tbl[n := (tbl ! n)\<lparr>pageVa := va\<rparr>]
        in if va > end' then Some (Inr n, tbl, um)
           else
             let um = touch_byte va um;
                 pa = e_virt2iova e va;
                 tbl = tbl[n := (tbl ! n)\<lparr>pagePa := pa\<rparr>]
             in if pa = e_bad_iova e then Some (Inl (), tbl, um)
                else alloc_loop e base end' (Suc n) tbl um)"
  by pat_completeness auto

termination alloc_loop
  by (relation "measure (\<lambda>(e, b, t, n, tbl, um). length tbl - n)") auto

declare alloc_loop.simps [simp del]

definition alloc_start :: "wls_env \<Rightarrow> zone \<Rightarrow> u64" where
  "alloc_start e z = e_mz_addr e z + wls_rup512 (e_sizeof_drv e)"

definition WLS_Alloc ::
  "wls_env \<Rightarrow> ctx_ptr \<Rightarrow> u64 \<Rightarrow> wls_shm \<Rightarrow> (u64 blocking \<times> wls_shm) option" where
  "WLS_Alloc e h size' s =
     Option.bind (get_ctx s h) (\<lambda>c.
     let z = wls_dev_name c
     in if zones s z = None then Some (Returns 0, s)
        else
          let pvirtAddr = alloc_start e z;
              HugePageMask = WLS_HUGE_DEF_PAGE_SIZE - 1;
              alloc_base = and pvirtAddr (not HugePageMask);
              alloc_end = pvirtAddr + (size' - wls_rup512 (e_sizeof_drv e))
          in Option.bind (alloc_loop e alloc_base alloc_end 0 (hugepageTbl c) (umem s))
               (\<lambda>(r, tbl, um).
             let s = (set_ctx h (c\<lparr>hugepageTbl := tbl\<rparr>) s)\<lparr>umem := um\<rparr>
             in case r of
                  Inl _ \<Rightarrow> Some (Returns 0, s)
                | Inr n \<Rightarrow>
                    let c' = c\<lparr>hugepageTbl := tbl, HugePageSize := ucast WLS_HUGE_DEF_PAGE_SIZE,
                               alloc_buffer := pvirtAddr, nHugePage := of_nat n\<rparr>;
                        s = set_ctx h c' s
                    in if mode c' = WLS_MASTER_CLIENT then
                         Option.bind (get_ctx s (dst_user_va c')) (\<lambda>r.
                         if pid (wls_us_private r) = 0 then Some (Blocks, s)
                         else Some (Returns pvirtAddr, s))
                       else Some (Returns pvirtAddr, s)))"

definition WLS_Free :: "ctx_ptr \<Rightarrow> u64 \<Rightarrow> wls_shm \<Rightarrow> (int \<times> wls_shm) option" where
  "WLS_Free h pMsg s =
     Option.bind (get_ctx s h) (\<lambda>c.
     if zones s (wls_dev_name c) = None then Some (-1, s)
     else if pMsg \<noteq> alloc_buffer c then Some (-1, s)
     else if mode c = WLS_MASTER_CLIENT then
       Some (0, if dst_user_va c \<noteq> NullCtx then set_ctx h (c\<lparr>dst_user_va := NullCtx\<rparr>) s else s)
     else Some (0, s))"

section \<open>Address translation\<close>

definition page_mask :: "wls_us_ctx \<Rightarrow> u64" where
  "page_mask c = ucast (HugePageSize c) - 1"

definition WLS_VA2PA :: "wls_us_ctx \<Rightarrow> u64 \<Rightarrow> u64" where
  "WLS_VA2PA c pMsg =
     (let HugePageMask = page_mask c
      in if alloc_buffer c = 0 then 0
         else
           let alloc_base = and (alloc_buffer c) (not HugePageMask);
               hugePageBase = and pMsg (not HugePageMask);
               hugePageOffet = and pMsg HugePageMask;
               count = (ucast ((hugePageBase - alloc_base) div ucast (HugePageSize c)) :: u32)
           in if count < of_nat MAX_N_HUGE_PAGES
              then pagePa (hugepageTbl c ! unat count) + hugePageOffet
              else 0)"

fun pa2va_scan :: "u64 \<Rightarrow> u64 \<Rightarrow> hugepage_tabl list \<Rightarrow> u64" where
  "pa2va_scan base off [] = 0"
| "pa2va_scan base off (t # ts) = (if pagePa t = base then pageVa t + off else pa2va_scan base off ts)"

definition WLS_PA2VA :: "wls_us_ctx \<Rightarrow> u64 \<Rightarrow> u64" where
  "WLS_PA2VA c pMsg =
     (let HugePageMask = page_mask c
      in if alloc_buffer c = 0 then 0
         else pa2va_scan (and pMsg (not HugePageMask)) (and pMsg HugePageMask)
                (take (unat (nHugePage c)) (hugepageTbl c)))"

lemma same_meta_translation:
  assumes "same_meta s s'" "get_ctx s r = Some c" "get_ctx s' r = Some c'"
  shows "WLS_VA2PA c' = WLS_VA2PA c" "WLS_PA2VA c' = WLS_PA2VA c"
proof -
  have "ctx_pages c' = ctx_pages c"
    using assms by (auto simp: same_meta_def ctx_meta_def dest!: spec [where x = r])
  then have eqs: "alloc_buffer c' = alloc_buffer c" "HugePageSize c' = HugePageSize c"
      "hugepageTbl c' = hugepageTbl c" "nHugePage c' = nHugePage c"
    by (simp_all add: ctx_pages_def)
  show "WLS_VA2PA c' = WLS_VA2PA c" by (rule ext) (unfold WLS_VA2PA_def page_mask_def eqs, rule refl)
  show "WLS_PA2VA c' = WLS_PA2VA c" by (rule ext) (unfold WLS_PA2VA_def page_mask_def eqs, rule refl)
qed

section \<open>Free blocks\<close>

definition block_marker :: u64 where "block_marker = 0xFFFFFFFFFFFFFFFF"

definition upd_block_queue :: "storage FASTQUEUE \<Rightarrow> wls_us_ctx \<Rightarrow> wls_us_ctx" where
  "upd_block_queue q c = c\<lparr>ul_free_block_pq := q\<rparr>"

definition WLS_EnqueueBlock :: "ctx_ptr \<Rightarrow> u64 \<Rightarrow> wls_shm \<Rightarrow> (int \<times> wls_shm) option" where
  "WLS_EnqueueBlock h pMsg s =
     (if h = NullCtx then Some (-1, s)
      else Option.bind (get_ctx s h) (\<lambda>c.
        if mode c = WLS_SLAVE_CLIENT then Some (-1, s)
        else if pMsg = 0 then Some (-1, s)
        else if dst_user_va c \<noteq> NullCtx then
          Option.bind (get_ctx s (dst_user_va c)) (\<lambda>d.
          Option.bind (SFL_WlsEnqueue (ul_free_block_pq d) pMsg None h (blks s)) (\<lambda>(ok, q, m).
          let s = (set_ctx (dst_user_va c) (upd_block_queue q d) s)\<lparr>blks := m\<rparr>
          in if ok then
               let ptr = WLS_PA2VA c pMsg
               in Some (1, if ptr \<noteq> 0 then s\<lparr>umem := (umem s)(ptr := block_marker)\<rparr> else s)
             else Some (0, s)))
        else Some (-1, s)))"

definition WLS_DequeueBlock :: "ctx_ptr \<Rightarrow> wls_shm \<Rightarrow> (u64 \<times> wls_shm) option" where
  "WLS_DequeueBlock h s =
     Option.bind (get_ctx s h) (\<lambda>c.
     if mode c = WLS_SLAVE_CLIENT then
       Option.bind (SFL_WlsDequeue (ul_free_block_pq c) None h (blks s)) (\<lambda>(p, q).
       Some (p, set_ctx h (upd_block_queue q c) s))
     else if dst_user_va c = NullCtx then Some (0, s)
     else Option.bind (get_ctx s (dst_user_va c)) (\<lambda>d.
       Option.bind (SFL_WlsDequeue (ul_free_block_pq d) None (dst_user_va c) (blks s)) (\<lambda>(p, q).
       Some (p, set_ctx (dst_user_va c) (upd_block_queue q d) s))))"

definition WLS_NumBlocks :: "ctx_ptr \<Rightarrow> wls_shm \<Rightarrow> int option" where
  "WLS_NumBlocks h s =
     Option.bind (get_ctx s h) (\<lambda>c.
     if mode c = WLS_SLAVE_CLIENT then Some (sint (SFL_GetNumItemsInTheQueue (ul_free_block_pq c)))
     else if dst_user_va c \<noteq> NullCtx then
       Option.bind (get_ctx s (dst_user_va c)) (\<lambda>d.
       Some (sint (SFL_GetNumItemsInTheQueue (ul_free_block_pq d))))
     else Some 0)"

section \<open>Pages\<close>

lemma and_not_mask_eq: "and x (not (mask n)) = x - and x (mask n)" for x :: "'a::len word"
proof -
  have "x - take_bit n x = and x (not (take_bit n x))"
    by (rule disjunctive_diff) (simp add: bit_simps)
  also have "\<dots> = and x (not (mask n))"
    by (rule bit_word_eqI) (auto simp: bit_simps)
  finally show ?thesis by (simp add: take_bit_eq_mask)
qed

lemma unat_and_mask: "unat (and x (mask n)) = unat x mod 2 ^ n" for x :: "'a::len word"
proof -
  have "unat (and x (mask n)) = take_bit n (unat x)"
    by (simp only: take_bit_eq_mask [symmetric] unsigned_take_bit_eq)
  then show ?thesis by (simp only: take_bit_eq_mod)
qed

lemma unat_and_not_mask: "unat (and x (not (mask n))) = unat x - unat x mod 2 ^ n" for x :: "'a::len word"
proof -
  have "and x (mask n) \<le> x" by (simp add: word_le_nat_alt unat_and_mask)
  then show ?thesis by (simp add: and_not_mask_eq unat_diff_of_le unat_and_mask)
qed

abbreviation page :: nat where "page \<equiv> 2 ^ 30"

lemma page_size: "WLS_HUGE_DEF_PAGE_SIZE - 1 = mask 30" "unat WLS_HUGE_DEF_PAGE_SIZE = page"
  by (simp_all add: WLS_HUGE_DEF_PAGE_SIZE_def mask_eq_exp_minus_1)

text \<open>A page table: consecutive virtual pages, page-aligned and distinct physical pages.\<close>

definition table_ok :: "wls_us_ctx \<Rightarrow> bool" where
  "table_ok c =
     (HugePageSize c = 0x40000000 \<and> alloc_buffer c \<noteq> 0
      \<and> nHugePage c < of_nat MAX_N_HUGE_PAGES \<and> length (hugepageTbl c) = MAX_N_HUGE_PAGES
      \<and> (\<forall>i < unat (nHugePage c). pageVa (hugepageTbl c ! i)
            = and (alloc_buffer c) (not (mask 30)) + of_nat i * WLS_HUGE_DEF_PAGE_SIZE
          \<and> and (pagePa (hugepageTbl c ! i)) (mask 30) = 0)
      \<and> distinct (map pagePa (take (unat (nHugePage c)) (hugepageTbl c))))"

text \<open>The virtual addresses the table maps.\<close>

definition mapped :: "wls_us_ctx \<Rightarrow> u64 \<Rightarrow> bool" where
  "mapped c va =
     (let base = unat (and (alloc_buffer c) (not (mask 30)))
      in base \<le> unat va \<and> unat va < base + unat (nHugePage c) * page)"

lemma page_mask_ok: "table_ok c \<Longrightarrow> page_mask c = mask 30"
  by (simp add: table_ok_def page_mask_def mask_eq_exp_minus_1)

lemma pa2va_scan_nth:
  "i < length ts \<Longrightarrow> distinct (map pagePa ts) \<Longrightarrow> pagePa (ts ! i) = base
   \<Longrightarrow> pa2va_scan base off ts = pageVa (ts ! i) + off"
proof (induction ts arbitrary: i)
  case (Cons t ts)
  then show ?case by (cases i) auto
qed simp

lemma aligned_plus_offset:
  fixes p x :: u64
  assumes "and p (mask 30) = 0"
  shows "and (p + and x (mask 30)) (not (mask 30)) = p" "and (p + and x (mask 30)) (mask 30) = and x (mask 30)"
proof -
  have low: "\<not> bit p n" if "n < 30" for n
  proof -
    have "\<not> bit (and p (mask 30)) n" using assms by simp
    then show ?thesis using that by (simp add: bit_simps)
  qed
  have plus: "p + and x (mask 30) = or p (and x (mask 30))"
    by (rule disjunctive_add) (use low in \<open>auto simp: bit_simps\<close>)
  show "and (p + and x (mask 30)) (mask 30) = and x (mask 30)"
    unfolding plus by (rule bit_word_eqI) (use low in \<open>auto simp: bit_simps\<close>)
  then show "and (p + and x (mask 30)) (not (mask 30)) = p" by (simp add: and_not_mask_eq)
qed

text \<open>The index of the page of a mapped address.\<close>

lemma mapped_index:
  assumes ok: "table_ok c" and va: "mapped c va"
  defines "b \<equiv> and (alloc_buffer c) (not (mask 30))"
  obtains i where "i < unat (nHugePage c)" "(and va (not (mask 30)) - b) div 0x40000000 = of_nat i"
    "i < 32" "va = b + of_nat i * WLS_HUGE_DEF_PAGE_SIZE + and va (mask 30)"
proof -
  define i where "i = (unat va - unat b) div page"
  have b: "unat b mod page = 0" by (simp add: b_def unat_and_not_mask mod_simps flip: minus_mod_eq_mult_div)
  have le: "unat b \<le> unat va" "unat va - unat b < unat (nHugePage c) * page"
    using va by (auto simp: mapped_def Let_def b_def)
  have i: "i < unat (nHugePage c)" using le(2) by (simp add: i_def less_mult_imp_div_less)
  have "unat (nHugePage c) < 32"
    using ok by (simp add: table_ok_def MAX_N_HUGE_PAGES_def word_less_nat_alt)
  then have i32: "i < 32" using i by simp
  have va_page: "unat (and va (not (mask 30))) = unat b + i * page"
  proof -
    have "unat va mod page = (unat va - unat b) mod page"
    proof -
      obtain k where "unat b = page * k" using b by (auto simp: mod_eq_0_iff_dvd)
      moreover have "unat va = unat b + (unat va - unat b)" using le(1) by simp
      ultimately show ?thesis by (metis mod_mult_self4)
    qed
    then show ?thesis
      using le(1) by (simp add: unat_and_not_mask i_def minus_mod_eq_div_mult [symmetric])
  qed
  show ?thesis
  proof (rule that [OF i])
    have "b \<le> and va (not (mask 30))" using va_page by (simp add: word_le_nat_alt)
    then have "unat ((and va (not (mask 30)) - b) div 0x40000000) = i"
      using va_page by (simp add: unat_div unat_diff_of_le)
    then show "(and va (not (mask 30)) - b) div 0x40000000 = of_nat i"
      using i32 by (simp only: word_unat_eq_iff unat_of_nat) simp
    show "i < 32" by (rule i32)
    have "unat (b + of_nat i * WLS_HUGE_DEF_PAGE_SIZE) = unat b + i * page"
    proof -
      have "unat (of_nat i * WLS_HUGE_DEF_PAGE_SIZE :: u64) = i * page"
        using i32 by (simp add: unat_word_ariths unat_of_nat page_size)
      moreover have "unat b + i * page < 2 ^ 64"
      proof -
        have "unat (and va (not (mask 30))) < 2 ^ LENGTH(64)" by (rule unsigned_less)
        then show ?thesis using va_page by simp
      qed
      ultimately show ?thesis by (simp add: unat_add_of_sum_less)
    qed
    then have "b + of_nat i * WLS_HUGE_DEF_PAGE_SIZE = and va (not (mask 30))"
      using va_page by (simp add: word_unat_eq_iff)
    then show "va = b + of_nat i * WLS_HUGE_DEF_PAGE_SIZE + and va (mask 30)"
      by (simp add: and_not_mask_eq)
  qed
qed


section \<open>What the allocation builds\<close>

lemma alloc_loop_table:
  assumes "alloc_loop e b t n tbl um = Some (Inr k, tbl', um')" "n \<le> length tbl"
    "\<And>i. i < n \<Longrightarrow> pageVa (tbl ! i) = b + of_nat i * WLS_HUGE_DEF_PAGE_SIZE
             \<and> pagePa (tbl ! i) = e_virt2iova e (pageVa (tbl ! i))
             \<and> e_virt2iova e (b + of_nat i * WLS_HUGE_DEF_PAGE_SIZE) \<noteq> e_bad_iova e \<and> b + of_nat i * WLS_HUGE_DEF_PAGE_SIZE \<le> t"
  shows "length tbl' = length tbl \<and> n \<le> k \<and> k < length tbl \<and> t < b + of_nat k * WLS_HUGE_DEF_PAGE_SIZE
    \<and> (\<forall>i<k. pageVa (tbl' ! i) = b + of_nat i * WLS_HUGE_DEF_PAGE_SIZE
            \<and> pagePa (tbl' ! i) = e_virt2iova e (pageVa (tbl' ! i))
            \<and> e_virt2iova e (b + of_nat i * WLS_HUGE_DEF_PAGE_SIZE) \<noteq> e_bad_iova e \<and> b + of_nat i * WLS_HUGE_DEF_PAGE_SIZE \<le> t)"
  using assms
proof (induction e b t n tbl um rule: alloc_loop.induct)
  case (1 e b t n tbl um)
  let ?va = "b + of_nat n * WLS_HUGE_DEF_PAGE_SIZE"
  have n: "n < length tbl" using 1(2) by (auto simp: alloc_loop.simps [of e b t n] split: if_splits)
  show ?case
  proof (cases "t < ?va")
    case True
    then have "k = n" "tbl' = tbl[n := (tbl ! n)\<lparr>pageVa := ?va\<rparr>]"
      using 1(2) n by (auto simp: alloc_loop.simps [of e b t n] Let_def)
    moreover have "e_virt2iova e (b + of_nat i * WLS_HUGE_DEF_PAGE_SIZE) \<noteq> e_bad_iova e \<and> b + of_nat i * WLS_HUGE_DEF_PAGE_SIZE \<le> t" if "i < n" for i
      using 1(4) [OF that] by blast
    ultimately show ?thesis using True n 1(4) by simp
  next
    case False
    let ?tbl = "(tbl[n := (tbl ! n)\<lparr>pageVa := ?va\<rparr>])
      [n := (tbl[n := (tbl ! n)\<lparr>pageVa := ?va\<rparr>] ! n)\<lparr>pagePa := e_virt2iova e ?va\<rparr>]"
    have pa: "e_virt2iova e ?va \<noteq> e_bad_iova e"
      and nxt: "alloc_loop e b t (Suc n) ?tbl (touch_byte ?va um) = Some (Inr k, tbl', um')"
      using 1(2) n False by (auto simp: alloc_loop.simps [of e b t n] Let_def split: if_splits)
    have tbl: "pageVa (?tbl ! i) = b + of_nat i * WLS_HUGE_DEF_PAGE_SIZE
             \<and> pagePa (?tbl ! i) = e_virt2iova e (pageVa (?tbl ! i))
             \<and> e_virt2iova e (b + of_nat i * WLS_HUGE_DEF_PAGE_SIZE) \<noteq> e_bad_iova e \<and> b + of_nat i * WLS_HUGE_DEF_PAGE_SIZE \<le> t" if "i < Suc n" for i
    proof (cases "i = n")
      case True
      then show ?thesis using n pa False by (simp add: not_less)
    next
      case i: False
      then show ?thesis using 1(4) [of i] that n by simp
    qed
    have len: "Suc n \<le> length ?tbl" using n by simp
    show ?thesis
      using 1(1) [of ?va "tbl[n := (tbl ! n)\<lparr>pageVa := ?va\<rparr>]" "touch_byte ?va um" "e_virt2iova e ?va" ?tbl,
          OF _ refl refl _ refl refl refl _ nxt len tbl] n False pa
      by simp
  qed
qed


section \<open>Round trip of the translation\<close>

lemma PA2VA_VA2PA:
  assumes ok: "table_ok c" and va: "mapped c va"
  shows "WLS_PA2VA c (WLS_VA2PA c va) = va"
proof -
  obtain i where i: "i < unat (nHugePage c)" "i < 32"
    "(and va (not (mask 30)) - and (alloc_buffer c) (not (mask 30))) div 0x40000000 = of_nat i"
    "va = and (alloc_buffer c) (not (mask 30)) + of_nat i * WLS_HUGE_DEF_PAGE_SIZE + and va (mask 30)"
    using mapped_index [OF ok va] by metis
  let ?ts = "take (unat (nHugePage c)) (hugepageTbl c)"
  let ?pa = "pagePa (hugepageTbl c ! i)"
  have c: "alloc_buffer c \<noteq> 0" "HugePageSize c = 0x40000000" "and ?pa (mask 30) = 0"
    "pageVa (hugepageTbl c ! i) = and (alloc_buffer c) (not (mask 30)) + of_nat i * WLS_HUGE_DEF_PAGE_SIZE"
    "distinct (map pagePa ?ts)" "length (hugepageTbl c) = 32" "unat (nHugePage c) < 32"
    using ok i(1) by (auto simp: table_ok_def MAX_N_HUGE_PAGES_def word_less_nat_alt)
  have count: "(ucast (of_nat i :: u64) :: u32) < 32" "unat (ucast (of_nat i :: u64) :: u32) = i"
    using i(2) by (simp_all add: word_less_nat_alt unsigned_ucast_eq take_bit_eq_mod unat_of_nat)
  have pa: "WLS_VA2PA c va = ?pa + and va (mask 30)"
    using c(1,2) i(3) count by (simp add: WLS_VA2PA_def Let_def page_mask_ok [OF ok] MAX_N_HUGE_PAGES_def)
  have "pa2va_scan ?pa off ?ts = pageVa (?ts ! i) + off" for off
    by (rule pa2va_scan_nth) (use i(1) c(5-7) in simp_all)
  then show ?thesis
    using c(1,3,4) i(1,4) aligned_plus_offset [OF c(3), of va]
    by (simp add: pa WLS_PA2VA_def Let_def page_mask_ok [OF ok])
qed

text \<open>What \<open>rte_mem_virt2iova\<close> promises for an area of huge pages: where it converts a page of
  the area at all (it returns \<open>RTE_BAD_IOVA\<close> otherwise), the result is the start of a page, and
  distinct pages have distinct results.  Nothing is said of addresses outside of the area.\<close>

definition page_aligned :: "u64 \<Rightarrow> bool" where
  "page_aligned va = (and va (mask 30) = 0)"

definition converted_page :: "wls_env \<Rightarrow> u64 \<Rightarrow> u64 \<Rightarrow> u64 \<Rightarrow> bool" where
  "converted_page e lo hi va = (page_aligned va \<and> lo \<le> va \<and> va \<le> hi \<and> e_virt2iova e va \<noteq> e_bad_iova e)"

definition iova_ok :: "wls_env \<Rightarrow> u64 \<Rightarrow> u64 \<Rightarrow> bool" where
  "iova_ok e lo hi = ((\<forall>va. converted_page e lo hi va \<longrightarrow> page_aligned (e_virt2iova e va))
     \<and> (\<forall>va va'. converted_page e lo hi va \<and> converted_page e lo hi va'
          \<and> e_virt2iova e va = e_virt2iova e va' \<longrightarrow> va = va'))"

lemma page_aligned_dvd: "page_aligned x \<longleftrightarrow> page dvd unat x"
proof -
  have "page_aligned x \<longleftrightarrow> unat (and x (mask 30)) = 0" by (simp add: page_aligned_def unsigned_eq_0_iff)
  also have "\<dots> \<longleftrightarrow> page dvd unat x" by (simp only: unat_and_mask dvd_eq_mod_eq_0)
  finally show ?thesis .
qed

lemma page_aligned_plus:
  fixes b :: u64
  assumes "page_aligned b"
  shows "page_aligned (b + of_nat i * WLS_HUGE_DEF_PAGE_SIZE)"
proof -
  have wrap: "page dvd x \<Longrightarrow> page dvd x mod 2 ^ LENGTH(64)" for x :: nat
    by (rule dvd_mod) (simp_all add: dvd_def)
  have "page dvd unat (of_nat i * WLS_HUGE_DEF_PAGE_SIZE :: u64)"
    unfolding unat_word_ariths page_size by (simp only: wrap dvd_triv_right)
  then have "page dvd unat (b + of_nat i * WLS_HUGE_DEF_PAGE_SIZE)"
    using assms unfolding page_aligned_dvd unat_word_ariths(1) by (simp only: wrap dvd_add)
  then show ?thesis by (simp add: page_aligned_dvd)
qed

lemma unat_page_add:
  fixes b :: u64
  assumes "unat b + 32 * page < 2 ^ 64" "i \<le> 32"
  shows "unat (b + of_nat i * WLS_HUGE_DEF_PAGE_SIZE) = unat b + i * page"
proof -
  have "unat (of_nat i * WLS_HUGE_DEF_PAGE_SIZE :: u64) = i * page"
    using assms(2) by (simp add: unat_word_ariths unat_of_nat page_size)
  then show ?thesis using assms by (simp add: unat_add_of_sum_less)
qed

lemma alloc_table_ok:
  assumes loop: "alloc_loop e b t 0 (hugepageTbl c) um = Some (Inr k, tbl, um')"
    and e: "iova_ok e b t" and len: "length (hugepageTbl c) = MAX_N_HUGE_PAGES"
    and v: "b = and v (not (mask 30))" "unat v + 33 * page < 2 ^ 64" "v \<noteq> 0"
    and c': "HugePageSize c' = 0x40000000" "alloc_buffer c' = v" "nHugePage c' = of_nat k" "hugepageTbl c' = tbl"
  shows "table_ok c'" "v \<le> va \<Longrightarrow> va \<le> t \<Longrightarrow> mapped c' va"
proof -
  have tab: "length tbl = length (hugepageTbl c)" "k < length (hugepageTbl c)"
    "t < b + of_nat k * WLS_HUGE_DEF_PAGE_SIZE"
    "\<And>i. i < k \<Longrightarrow> pageVa (tbl ! i) = b + of_nat i * WLS_HUGE_DEF_PAGE_SIZE"
    "\<And>i. i < k \<Longrightarrow> pagePa (tbl ! i) = e_virt2iova e (pageVa (tbl ! i))"
    "\<And>i. i < k \<Longrightarrow> pagePa (tbl ! i) \<noteq> e_bad_iova e \<and> pageVa (tbl ! i) \<le> t"
    using alloc_loop_table [OF loop] by auto
  have k: "k < 32" "unat (of_nat k :: u32) = k"
    using tab(2) len by (simp_all add: MAX_N_HUGE_PAGES_def unat_of_nat)
  have le: "unat b \<le> unat v" using v(1) by (simp add: unat_and_not_mask)
  then have room: "unat b + 32 * page < 2 ^ 64" using v(2) by simp
  have al: "page_aligned b" unfolding page_aligned_def v(1) by (rule bit_word_eqI) (auto simp: bit_simps)
  have e1: "converted_page e b t va \<Longrightarrow> page_aligned (e_virt2iova e va)"
    and e2: "converted_page e b t va \<Longrightarrow> converted_page e b t va' \<Longrightarrow> e_virt2iova e va = e_virt2iova e va' \<Longrightarrow> va = va'"
    for va va' using e unfolding iova_ok_def by blast+
  have pages: "converted_page e b t (pageVa (tbl ! i))" if "i < k" for i
  proof -
    have "b \<le> pageVa (tbl ! i)"
      using that k(1) tab(4) [OF that] unat_page_add [OF room, of i] by (simp add: word_le_nat_alt)
    then show ?thesis
      using tab(4-6) [OF that] page_aligned_plus [OF al, of i] by (simp add: converted_page_def)
  qed
  have "pagePa (tbl ! i) \<noteq> pagePa (tbl ! j)" if "i < k" "j < k" "i \<noteq> j" for i j
  proof
    assume "pagePa (tbl ! i) = pagePa (tbl ! j)"
    then have "pageVa (tbl ! i) = pageVa (tbl ! j)"
      using e2 pages that tab(5) by metis
    then have "unat b + i * page = unat b + j * page"
      using tab(4) that k unat_page_add [OF room, of i] unat_page_add [OF room, of j] by simp
    then show False using that by simp
  qed
  then have "distinct (map pagePa (take k tbl))"
    using tab(1,2) by (auto simp: distinct_conv_nth)
  moreover have "and (pagePa (tbl ! i)) (mask 30) = 0" if "i < k" for i
    using e1 pages that tab(5) by (metis page_aligned_def)
  ultimately show "table_ok c'"
    using c' tab k len v(1,3) by (simp add: table_ok_def MAX_N_HUGE_PAGES_def word_less_nat_alt)
  show "mapped c' va" if "v \<le> va" "va \<le> t"
  proof -
    have "unat va < unat b + k * page"
      using that(2) tab(3) unat_page_add [OF room, of k] k by (simp add: word_less_nat_alt word_le_nat_alt)
    then show ?thesis
      using that(1) le c' k v(1) by (simp add: mapped_def Let_def word_le_nat_alt)
  qed
qed

text \<open>C9: after a successful \<open>WLS_Alloc\<close>, every address of the buffer survives the translation
  to its physical address and back, whatever the platform does outside of the area (or with the
  pages of it that it refuses to convert).\<close>

theorem alloc_translation_round_trip:
  assumes "iova_ok e (and (alloc_start e (wls_dev_name c)) (not (mask 30)))
        (alloc_start e (wls_dev_name c) + (sz - wls_rup512 (e_sizeof_drv e)))"
    and "get_ctx s h = Some c" "length (hugepageTbl c) = MAX_N_HUGE_PAGES"
    and "v \<noteq> 0" "unat v + 33 * page < 2 ^ 64"
    and "WLS_Alloc e h sz s = Some (Returns v, s')"
  shows "\<exists>c'. get_ctx s' h = Some c' \<and> alloc_buffer c' = v
      \<and> (\<forall>va. v \<le> va \<and> va \<le> v + (sz - wls_rup512 (e_sizeof_drv e)) \<longrightarrow>
            WLS_PA2VA c' (WLS_VA2PA c' va) = va)"
proof -
  define b where "b = and (alloc_start e (wls_dev_name c)) (not (mask 30))"
  define t where "t = alloc_start e (wls_dev_name c) + (sz - wls_rup512 (e_sizeof_drv e))"
  obtain r tbl um where loop: "alloc_loop e b t 0 (hugepageTbl c) (umem s) = Some (r, tbl, um)"
    using assms(2,4,6)
    by (auto simp: WLS_Alloc_def Let_def bind_Some_iff page_size b_def t_def split: if_splits)
  then obtain k where k: "r = Inr k" "v = alloc_start e (wls_dev_name c)"
    using assms(2,4,6)
    by (auto simp: WLS_Alloc_def Let_def bind_Some_iff page_size b_def t_def
        split: if_splits sum.splits)
  define c' where "c' = c\<lparr>hugepageTbl := tbl, HugePageSize := ucast WLS_HUGE_DEF_PAGE_SIZE,
                               alloc_buffer := v, nHugePage := of_nat k\<rparr>"
  have "get_ctx s' h = Some c'"
    using assms(2,4,6) loop k
    by (auto simp: WLS_Alloc_def Let_def bind_Some_iff page_size b_def t_def c'_def
        split: if_splits sum.splits)
  moreover have "WLS_PA2VA c' (WLS_VA2PA c' va) = va" if "v \<le> va" "va \<le> t" for va
  proof -
    note tab = alloc_table_ok [OF loop [unfolded k(1)] assms(1) [folded b_def t_def] assms(3) b_def [folded k(2)] assms(5,4), of c']
    have "HugePageSize c' = 0x40000000" by (simp add: c'_def WLS_HUGE_DEF_PAGE_SIZE_def)
    then show ?thesis using tab that by (intro PA2VA_VA2PA) (simp_all add: c'_def)
  qed
  ultimately show ?thesis using k(2) by (auto simp: t_def c'_def)
qed


text \<open>One round of the loop, for evaluation.\<close>

lemma alloc_loop_round:
  assumes "n < length tbl"
  shows "t < b + of_nat n * WLS_HUGE_DEF_PAGE_SIZE \<Longrightarrow> alloc_loop e b t n tbl um
      = Some (Inr n, tbl[n := (tbl ! n)\<lparr>pageVa := b + of_nat n * WLS_HUGE_DEF_PAGE_SIZE\<rparr>], um)"
    and "\<not> t < b + of_nat n * WLS_HUGE_DEF_PAGE_SIZE \<Longrightarrow>
      e_virt2iova e (b + of_nat n * WLS_HUGE_DEF_PAGE_SIZE) \<noteq> e_bad_iova e \<Longrightarrow>
      \<exists>tbl' um'. length tbl' = length tbl \<and> alloc_loop e b t n tbl um = alloc_loop e b t (Suc n) tbl' um'"
  using assms by (auto simp: alloc_loop.simps [of e b t n] Let_def intro!: exI [of _ "_ [_ := _]"])

text \<open>A platform that converts the memory of the zone only, to other addresses.\<close>

definition demo_iova :: "nat \<Rightarrow> u64 \<Rightarrow> u64" where
  "demo_iova pages va = (if 0x100000000 \<le> va \<and> unat va < 0x100000000 + pages * 0x40000000
     then va + 0x300000000 else 0xFFFFFFFFFFFFFFFF)"

definition demo_env_iova :: "nat \<Rightarrow> wls_env" where
  "demo_env_iova pages = demo_env\<lparr>e_virt2iova := demo_iova pages\<rparr>"

lemma demo_iova_page: "page_aligned va \<Longrightarrow> demo_iova pages va \<noteq> 0xFFFFFFFFFFFFFFFF \<Longrightarrow> page_aligned (demo_iova pages va)"
  using page_aligned_plus [of va 12] by (simp add: demo_iova_def WLS_HUGE_DEF_PAGE_SIZE_def split: if_splits)

theorem alloc_translation_round_trip_witness:
  "\<exists>s' c'. WLS_Alloc (demo_env_iova 2) demo_a 0x200000 (demo_shm 0 0) = Some (Returns 0x100100000, s')
     \<and> get_ctx s' demo_a = Some c' \<and> WLS_PA2VA c' (WLS_VA2PA c' 0x100150000) = 0x100150000"
proof -
  have env: "iova_ok (demo_env_iova 2) lo hi" for lo hi
    unfolding iova_ok_def converted_page_def
    using demo_iova_page by (auto simp: demo_env_iova_def demo_env_def) (auto simp: demo_iova_def split: if_splits)
  have c: "length (hugepageTbl (demo_client 0 0 0 demo_b)) = MAX_N_HUGE_PAGES"
    "hugepageTbl (demo_client 0 0 0 demo_b) = replicate 32 \<lparr>pageVa = 0, pagePa = 0\<rparr>"
    "wls_dev_name (demo_client 0 0 0 demo_b) = ''wls''"
    by (simp_all add: demo_client_def zero_ctx_def MAX_N_HUGE_PAGES_def)
  have start: "alloc_start (demo_env_iova 2) ''wls'' = 0x100100000" "wls_rup512 (e_sizeof_drv (demo_env_iova 2)) = 0x100000"
    by (simp_all add: alloc_start_def demo_env_iova_def demo_env_def wls_rup512_def)
  have iova: "e_virt2iova (demo_env_iova 2) 0x100000000 = 0x400000000" "e_bad_iova (demo_env_iova 2) = 0xFFFFFFFFFFFFFFFF"
    by (simp_all add: demo_env_iova_def demo_env_def demo_iova_def)
  let ?tbl = "replicate 32 \<lparr>pageVa = 0, pagePa = 0\<rparr>"
  obtain tbl um where "length tbl = 32" "alloc_loop (demo_env_iova 2) 0x100000000 0x100200000 0 ?tbl (umem (demo_shm 0 0))
      = alloc_loop (demo_env_iova 2) 0x100000000 0x100200000 (Suc 0) tbl um"
    using alloc_loop_round(2) [of 0 ?tbl "0x100200000" "0x100000000" "demo_env_iova 2" "umem (demo_shm 0 0)"]
    by (auto simp: iova)
  then obtain tbl' um' where "alloc_loop (demo_env_iova 2) 0x100000000 0x100200000 0 ?tbl (umem (demo_shm 0 0))
      = Some (Inr 1, tbl', um')"
    by (simp add: alloc_loop_round(1) WLS_HUGE_DEF_PAGE_SIZE_def)
  then obtain s' where s': "WLS_Alloc (demo_env_iova 2) demo_a 0x200000 (demo_shm 0 0) = Some (Returns 0x100100000, s')"
    using demo_drv(1)
    by (simp add: WLS_Alloc_def Let_def c start WLS_HUGE_DEF_PAGE_SIZE_def WLS_MASTER_CLIENT_def)
  then show ?thesis
    using alloc_translation_round_trip [OF env demo_ctx(1) c(1) _ _ s'] by (auto simp: start)
qed

lemma alloc_loop_overrun:
  assumes "length tbl = 32" "n \<le> 32" "\<And>i. n \<le> i \<Longrightarrow> i < 32 \<Longrightarrow> b + of_nat i * WLS_HUGE_DEF_PAGE_SIZE \<le> t"
    "\<And>i. i < 32 \<Longrightarrow> e_virt2iova e (b + of_nat i * WLS_HUGE_DEF_PAGE_SIZE) \<noteq> e_bad_iova e"
  shows "alloc_loop e b t n tbl um = None"
  using assms(1-3)
proof (induction "32 - n" arbitrary: n tbl um)
  case 0
  then show ?case by (simp add: alloc_loop.simps)
next
  case (Suc k)
  then have n: "n < 32" by simp
  then have "\<not> t < b + of_nat n * WLS_HUGE_DEF_PAGE_SIZE" using Suc.prems(3) [of n] by (simp add: not_less)
  moreover have "alloc_loop e b t (Suc n) tbl' um' = None" if "length tbl' = 32" for tbl' um'
    by (rule Suc.hyps(1)) (use Suc that n in auto)
  ultimately show ?case using n Suc.prems(1) assms(4) [OF n]
    by (simp add: alloc_loop.simps [of e b t n] Let_def)
qed

text \<open>C10: the page table has 32 entries and the loop does not test for its end: an area that
  reaches into a 32nd page (counted from the page of the buffer's start), all of whose pages the
  platform converts, makes \<open>WLS_Alloc\<close>
  write past the table, here the fault \<open>None\<close>.\<close>

theorem alloc_overruns_page_table:
  assumes "get_ctx s h = Some c" "zones s (wls_dev_name c) \<noteq> None" "length (hugepageTbl c) = MAX_N_HUGE_PAGES"
    and "\<And>va. page_aligned va \<Longrightarrow> and (alloc_start e (wls_dev_name c)) (not (mask 30)) \<le> va
           \<Longrightarrow> va \<le> alloc_start e (wls_dev_name c) + (sz - wls_rup512 (e_sizeof_drv e))
           \<Longrightarrow> e_virt2iova e va \<noteq> e_bad_iova e"
    and "unat (alloc_start e (wls_dev_name c)) + 33 * page < 2 ^ 64"
    and "unat (alloc_start e (wls_dev_name c)) + 31 * page
           \<le> unat (alloc_start e (wls_dev_name c) + (sz - wls_rup512 (e_sizeof_drv e)))"
  shows "WLS_Alloc e h sz s = None"
proof -
  define v where "v = alloc_start e (wls_dev_name c)"
  define b where "b = and v (not (mask 30))"
  have le: "unat b \<le> unat v" by (simp add: b_def unat_and_not_mask)
  have "unat b + 32 * page < 2 ^ 64" using assms(5) le by (simp add: v_def)
  note add = unat_page_add [OF this]
  have al: "page_aligned b" unfolding page_aligned_def b_def by (rule bit_word_eqI) (auto simp: bit_simps)
  have le_t: "b + of_nat i * WLS_HUGE_DEF_PAGE_SIZE \<le> v + (sz - wls_rup512 (e_sizeof_drv e))" if "i < 32" for i
  proof -
    have "unat b + i * page \<le> unat v + 31 * page" using le that by (intro add_mono) simp_all
    then show ?thesis using assms(6) that by (simp add: word_le_nat_alt add v_def)
  qed
  have "e_virt2iova e (b + of_nat i * WLS_HUGE_DEF_PAGE_SIZE) \<noteq> e_bad_iova e" if "i < 32" for i
  proof (rule assms(4) [folded v_def, folded b_def])
    show "b \<le> b + of_nat i * WLS_HUGE_DEF_PAGE_SIZE" using that add [of i] by (simp add: word_le_nat_alt)
  qed (use page_aligned_plus [OF al] le_t [OF that] in simp_all)
  then have "alloc_loop e b (v + (sz - wls_rup512 (e_sizeof_drv e))) 0 (hugepageTbl c) (umem s) = None"
    using assms(3) le_t by (intro alloc_loop_overrun) (simp_all add: MAX_N_HUGE_PAGES_def)
  then show ?thesis
    using assms(1,2) by (auto simp: WLS_Alloc_def Let_def page_size v_def b_def)
qed

theorem alloc_overruns_page_table_witness:
  "WLS_Alloc (demo_env_iova 32) demo_a 0x7C0100000 (demo_shm 0 0) = None"
proof (rule alloc_overruns_page_table [OF demo_ctx(1)])
  have c: "hugepageTbl (demo_client 0 0 0 demo_b) = replicate 32 \<lparr>pageVa = 0, pagePa = 0\<rparr>"
    "wls_dev_name (demo_client 0 0 0 demo_b) = ''wls''"
    by (simp_all add: demo_client_def zero_ctx_def MAX_N_HUGE_PAGES_def)
  note d = demo_env_iova_def demo_env_def alloc_start_def wls_rup512_def
  show "zones (demo_shm 0 0) (wls_dev_name (demo_client 0 0 0 demo_b)) \<noteq> None"
    "length (hugepageTbl (demo_client 0 0 0 demo_b)) = MAX_N_HUGE_PAGES"
    using demo_drv(1) by (simp_all add: c MAX_N_HUGE_PAGES_def)
  have nm: "not (mask 30) = (0xFFFFFFFFC0000000 :: u64)" by (simp add: mask_eq_exp_minus_1)
  let ?v = "alloc_start (demo_env_iova 32) (wls_dev_name (demo_client 0 0 0 demo_b))"
  show "unat ?v + 33 * page < 2 ^ 64"
    "unat ?v + 31 * page \<le> unat (?v + (0x7C0100000 - wls_rup512 (e_sizeof_drv (demo_env_iova 32))))"
    by (simp_all add: d)
  have v: "and ?v (not (mask 30)) = 0x100000000"
    "?v + (0x7C0100000 - wls_rup512 (e_sizeof_drv (demo_env_iova 32))) = 0x8C0100000"
    by (simp_all add: d nm)
  show "e_virt2iova (demo_env_iova 32) va \<noteq> e_bad_iova (demo_env_iova 32)"
    if "page_aligned va" "and ?v (not (mask 30)) \<le> va"
      "va \<le> ?v + (0x7C0100000 - wls_rup512 (e_sizeof_drv (demo_env_iova 32)))" for va
  proof -
    have "0x100000000 \<le> va" "va \<le> 0x8C0100000" using that(2,3) unfolding v by simp_all
    then have "unat va < 0x900000000" "unat (va + 0x300000000) = unat va + 0x300000000"
      by (simp_all add: word_le_nat_alt unat_add_of_sum_less)
    then have "demo_iova 32 va = va + 0x300000000" "va + 0x300000000 \<noteq> 0xFFFFFFFFFFFFFFFF"
      using \<open>0x100000000 \<le> va\<close> by (auto simp: demo_iova_def)
    then show ?thesis by (simp add: d)
  qed
qed

section \<open>The pool of free blocks\<close>

definition blk_ok :: "ctx_ptr \<Rightarrow> wls_shm \<Rightarrow> bool" where
  "blk_ok p s = (case get_ctx s p of None \<Rightarrow> False
     | Some c \<Rightarrow> fq_wf None p (ul_free_block_pq c) (blks s))"

definition blk_items :: "ctx_ptr \<Rightarrow> wls_shm \<Rightarrow> u64 list" where
  "blk_items p s = (case get_ctx s p of None \<Rightarrow> []
     | Some c \<Rightarrow> fq_items None p (ul_free_block_pq c) (blks s))"

definition blk_cap :: "ctx_ptr \<Rightarrow> wls_shm \<Rightarrow> nat" where
  "blk_cap p s = (case get_ctx s p of None \<Rightarrow> 0 | Some c \<Rightarrow> unat (fq_size (ul_free_block_pq c)) - 1)"

lemma fq_any_handle: "fq_wf None h q m = fq_wf None h' q m" "fq_items None h q m = fq_items None h' q m"
  by (simp_all add: fq_wf_def fq_items_def)

lemma WLS_EnqueueBlock_room:
  assumes "get_ctx s a = Some c" "mode c = WLS_MASTER_CLIENT" "dst_user_va c = b" "b \<noteq> NullCtx"
    and "get_ctx s b = Some d" "blk_ok b s" "p \<noteq> 0" "length (blk_items b s) < blk_cap b s"
  obtains s' q where "WLS_EnqueueBlock a p s = Some (1, s')" "get_ctx s' b = Some (upd_block_queue q d)"
    "blk_ok b s'" "blk_items b s' = blk_items b s @ [p]"
proof -
  have an: "a \<noteq> NullCtx" "mode c \<noteq> WLS_SLAVE_CLIENT"
    using assms(1,2) by (auto simp: WLS_SLAVE_CLIENT_def WLS_MASTER_CLIENT_def)
  have wf: "fq_wf None a (ul_free_block_pq d) (blks s)"
    using assms(5,6) by (auto simp: blk_ok_def intro: fq_any_handle(1) [THEN iffD1])
  have items: "blk_items b s = fq_items None a (ul_free_block_pq d) (blks s)"
    using assms(5) by (simp add: blk_items_def fq_any_handle(2) [of b "ul_free_block_pq d" _ a])
  have room: "length (fq_items None a (ul_free_block_pq d) (blks s)) < unat (fq_size (ul_free_block_pq d)) - 1"
    using assms(5,8) items by (simp add: blk_cap_def)
  obtain q m where q: "SFL_WlsEnqueue (ul_free_block_pq d) p None a (blks s) = Some (True, q, m)"
      "fq_wf None a q m" "fq_items None a q m = fq_items None a (ul_free_block_pq d) (blks s) @ [p]"
    by (rule SFL_WlsEnqueue_room [OF wf room, where x = p]) blast
  define t where "t = (set_ctx b (upd_block_queue q d) s)\<lparr>blks := m\<rparr>"
  define s' where "s' = (if WLS_PA2VA c p \<noteq> 0 then t\<lparr>umem := (umem t)(WLS_PA2VA c p := block_marker)\<rparr> else t)"
  have s': "get_ctx s' b = Some (upd_block_queue q d)" "blks s' = m"
    using assms(5) by (simp_all add: s'_def t_def)
  have "WLS_EnqueueBlock a p s = Some (1, s')"
    using assms an q(1) by (simp add: WLS_EnqueueBlock_def Let_def s'_def t_def)
  moreover have "blk_ok b s'"
    using s' q(2) by (auto simp: blk_ok_def upd_block_queue_def intro: fq_any_handle(1) [THEN iffD1])
  moreover have "blk_items b s' = blk_items b s @ [p]"
    using s' q(3) items by (simp add: blk_items_def upd_block_queue_def fq_any_handle(2) [of b q _ a])
  ultimately show ?thesis using that s'(1) by blast
qed

lemma WLS_DequeueBlock_item:
  assumes "get_ctx s b = Some d" "mode d = WLS_SLAVE_CLIENT" "blk_ok b s" "blk_items b s = x # xs"
  obtains s' where "WLS_DequeueBlock b s = Some (x, s')" "blk_ok b s'" "blk_items b s' = xs"
proof -
  have wf: "fq_wf None b (ul_free_block_pq d) (blks s)" "fq_items None b (ul_free_block_pq d) (blks s) = x # xs"
    using assms by (simp_all add: blk_ok_def blk_items_def)
  obtain q where q: "SFL_WlsDequeue (ul_free_block_pq d) None b (blks s) = Some (x, q)"
      "fq_wf None b q (blks s)" "fq_items None b q (blks s) = xs"
    by (rule SFL_WlsDequeue_item [OF wf]) blast
  show ?thesis
    by (rule that [of "set_ctx b (upd_block_queue q d) s"])
      (use assms(1,2) q in \<open>simp_all add: WLS_DequeueBlock_def blk_ok_def blk_items_def upd_block_queue_def\<close>)
qed

lemma WLS_EnqueueBlock_full:
  assumes "get_ctx s a = Some c" "mode c = WLS_MASTER_CLIENT" "dst_user_va c = b" "b \<noteq> NullCtx"
    and "get_ctx s b = Some d" "blk_ok b s" "p \<noteq> 0" "blk_cap b s \<le> length (blk_items b s)"
  shows "WLS_EnqueueBlock a p s = Some (0, s)"
proof -
  have an: "a \<noteq> NullCtx" "mode c \<noteq> WLS_SLAVE_CLIENT"
    using assms(1,2) by (auto simp: WLS_SLAVE_CLIENT_def WLS_MASTER_CLIENT_def)
  have wf: "fq_wf None a (ul_free_block_pq d) (blks s)"
    using assms(5,6) by (auto simp: blk_ok_def intro: fq_any_handle(1) [THEN iffD1])
  have "unat (fq_size (ul_free_block_pq d)) - 1 \<le> length (fq_items None a (ul_free_block_pq d) (blks s))"
    using assms(5,8) by (simp add: blk_cap_def blk_items_def fq_any_handle(2) [of b "ul_free_block_pq d" _ a])
  from SFL_WlsEnqueue_full [OF wf this] show ?thesis
    using assms an by (simp add: WLS_EnqueueBlock_def Let_def upd_block_queue_def)
qed

text \<open>C11: a master's \<open>WLS_EnqueueBlock\<close> appends the block to its slave's pool and returns 1
  exactly when the pool has room, and returns 0 and changes nothing when it is full; the
  slave's next \<open>WLS_DequeueBlock\<close> returns the oldest block of the pool.\<close>

theorem block_pool_fifo:
  assumes "get_ctx s a = Some c" "mode c = WLS_MASTER_CLIENT" "dst_user_va c = b" "b \<noteq> NullCtx"
    and "get_ctx s b = Some d" "mode d = WLS_SLAVE_CLIENT" "blk_ok b s" "p \<noteq> 0"
  shows "if length (blk_items b s) < blk_cap b s
    then \<exists>s' s''. WLS_EnqueueBlock a p s = Some (1, s') \<and> blk_ok b s'
        \<and> blk_items b s' = blk_items b s @ [p]
        \<and> WLS_DequeueBlock b s' = Some (hd (blk_items b s @ [p]), s'') \<and> blk_ok b s''
        \<and> blk_items b s'' = tl (blk_items b s @ [p])
    else WLS_EnqueueBlock a p s = Some (0, s)"
proof (cases "length (blk_items b s) < blk_cap b s")
  case True
  obtain s' q where s': "WLS_EnqueueBlock a p s = Some (1, s')" "get_ctx s' b = Some (upd_block_queue q d)"
      "blk_ok b s'" "blk_items b s' = blk_items b s @ [p]"
    using WLS_EnqueueBlock_room [OF assms(1-5,7,8) True] by blast
  have "blk_items b s' \<noteq> []" using s'(4) by simp
  then obtain x xs where x: "blk_items b s' = x # xs" by (cases "blk_items b s'") auto
  have "mode (upd_block_queue q d) = WLS_SLAVE_CLIENT" using assms(6) by (simp add: upd_block_queue_def)
  then obtain s'' where "WLS_DequeueBlock b s' = Some (x, s'')" "blk_ok b s''" "blk_items b s'' = xs"
    using WLS_DequeueBlock_item [OF s'(2) _ s'(3) x] by blast
  moreover have "hd (blk_items b s @ [p]) = x" "tl (blk_items b s @ [p]) = xs"
    using x unfolding s'(4) by simp_all
  ultimately show ?thesis using True s'(1,3,4) by simp
next
  case False
  then show ?thesis using WLS_EnqueueBlock_full [OF assms(1-5,7,8)] by simp
qed

definition demo_pool :: wls_shm where
  "demo_pool = (set_ctx demo_a ((demo_client 0 0 0 demo_b)\<lparr>mode := 1\<rparr>)
     (set_ctx demo_b ((demo_client 0 0 1 demo_a)\<lparr>ul_free_block_pq := SFL_DefQueue (UlFreeStorage ''wls'' 1) 24\<rparr>)
       (demo_shm 0 0)))\<lparr>blks := [UlFreeStorage ''wls'' 1 \<mapsto> replicate 3 0]\<rparr>"

theorem block_pool_fifo_witness:
  "\<exists>s' s''. WLS_EnqueueBlock demo_a 0x5000 demo_pool = Some (1, s') \<and> blk_items demo_b s' = [0x5000]
     \<and> WLS_DequeueBlock demo_b s' = Some (0x5000, s'') \<and> blk_items demo_b s'' = []"
proof -
  have ab: "demo_a \<noteq> demo_b" by (simp add: demo_a_def demo_b_def)
  have ctx: "get_ctx demo_pool demo_a = Some ((demo_client 0 0 0 demo_b)\<lparr>mode := 1\<rparr>)"
    "get_ctx demo_pool demo_b = Some ((demo_client 0 0 1 demo_a)\<lparr>ul_free_block_pq := SFL_DefQueue (UlFreeStorage ''wls'' 1) 24\<rparr>)"
    using ab by (simp_all add: demo_pool_def)
  have sz: "signed_drop_bit 3 (24 :: u32) = (3 :: u32)" by simp
  have "fq_wf None demo_b (SFL_DefQueue (UlFreeStorage ''wls'' 1) 24) (blks demo_pool)"
    "fq_items None demo_b (SFL_DefQueue (UlFreeStorage ''wls'' 1) 24) (blks demo_pool) = []"
    by (rule SFL_DefQueue_fresh [where xs = "replicate 3 0"]; simp add: sz demo_pool_def)+
  then have "blk_ok demo_b demo_pool" "blk_items demo_b demo_pool = []" "blk_cap demo_b demo_pool = 2"
    using ctx(2) by (simp_all add: blk_ok_def blk_items_def blk_cap_def, simp add: SFL_DefQueue_def sz)
  then show ?thesis
    using block_pool_fifo [OF ctx(1) _ _ _ ctx(2), of "0x5000"]
    by (auto simp: WLS_MASTER_CLIENT_def WLS_SLAVE_CLIENT_def demo_b_def)
qed

end
