(* ===== verification/Wls_Sema.thy ===== *)
theory Wls_Sema
  imports Wls_Delivery
begin

text \<open>
  The wake-up ring of a client (\<open>wls_wake_up_user_thread\<close>, \<open>wls_wait\<close>): \<open>is_irq\<close> counts the
  pending wake-ups, \<open>drv_block_put\<close> and \<open>drv_block_get\<close> delimit their requests.
\<close>

section \<open>The ring agrees with the count\<close>

definition pending :: "wls_sema_priv \<Rightarrow> nat" where
  "pending sm = unat (is_irq sm)"

definition sema_ok :: "wls_sema_priv \<Rightarrow> bool" where
  "sema_ok sm = (length (drv_block sm) = FIFO_LEN \<and> drv_block_put sm < of_nat FIFO_LEN
     \<and> drv_block_get sm < of_nat FIFO_LEN \<and> pending sm < FIFO_LEN
     \<and> ring_level FIFO_LEN (unat (drv_block_get sm)) (unat (drv_block_put sm)) = pending sm)"

lemma sint_is_irq:
  assumes "unat (w :: 16 word) < 2 ^ 15"
  shows "sint w = int (unat w)"
proof -
  have "uint w < 2 ^ 15" using assms by (metis of_nat_less_numeral_power_cancel_iff uint_nat)
  then have "signed_take_bit 15 (uint w) = uint w"
    by (intro signed_take_bit_int_eq_self) (simp_all add: order_trans [OF _ uint_ge_0])
  then show ?thesis by (simp add: sint_uint)
qed

lemma fifo_next:
  assumes "i < (of_nat FIFO_LEN :: u32)"
  shows "unat (if of_nat FIFO_LEN \<le> i + 1 then 0 else i + 1) = Suc (unat i) mod FIFO_LEN"
  using unat_ring_next [OF assms] by (simp add: FIFO_LEN_def)

lemma fifo_less: "unat (i :: u32) < FIFO_LEN \<longleftrightarrow> i < of_nat FIFO_LEN"
  by (simp add: word_less_nat_alt FIFO_LEN_def)

lemma wake_up_counts:
  assumes "sema_ok sm" "Suc (pending sm) < FIFO_LEN"
  shows "sema_ok (wls_wake_up_user_thread buf sm)"
    "pending (wls_wake_up_user_thread buf sm) = Suc (pending sm)"
    "nWlsSemaWakeUp (wls_wake_up_user_thread buf sm) = nWlsSemaWakeUp sm"
proof -
  let ?put = "if of_nat FIFO_LEN \<le> drv_block_put sm + 1 then 0 else drv_block_put sm + 1"
  let ?sm = "wls_wake_up_user_thread buf sm"
  have idx: "drv_block_put sm < of_nat FIFO_LEN" "drv_block_get sm < of_nat FIFO_LEN"
    using assms(1) by (simp_all add: sema_ok_def)
  have less: "unat (drv_block_get sm) < FIFO_LEN" "unat (drv_block_put sm) < FIFO_LEN"
    using idx by (simp_all add: fifo_less)
  have lev: "ring_level FIFO_LEN (unat (drv_block_get sm)) (unat (drv_block_put sm)) = pending sm"
    using assms(1) by (simp add: sema_ok_def)
  have cnt: "pending sm < 2 ^ 15" using assms(2) by (simp add: FIFO_LEN_def)
  then have "\<not> int FIFO_LEN \<le> sint (is_irq sm)"
    using assms(2) by (simp only: pending_def sint_is_irq)
  then have sm: "drv_block_put ?sm = ?put" "drv_block_get ?sm = drv_block_get sm"
    "is_irq ?sm = is_irq sm + 1" "length (drv_block ?sm) = length (drv_block sm)"
    "nWlsSemaWakeUp ?sm = nWlsSemaWakeUp sm"
    by (simp_all add: wls_wake_up_user_thread_def Let_def)
  have "unat (is_irq sm + 1) = Suc (unat (is_irq sm))"
    using cnt by (simp add: unat_word_ariths pending_def)
  then show p: "pending ?sm = Suc (pending sm)" using sm(3) by (simp add: pending_def)
  have ne: "Suc (unat (drv_block_put sm)) mod FIFO_LEN \<noteq> unat (drv_block_get sm)"
    using ring_full_iff [OF less] lev assms(2) by simp
  have put: "unat (drv_block_put ?sm) = Suc (unat (drv_block_put sm)) mod FIFO_LEN"
    unfolding sm(1) by (rule fifo_next [OF idx(1)])
  then have "unat (drv_block_put ?sm) < FIFO_LEN" by (simp add: FIFO_LEN_def)
  moreover have "ring_level FIFO_LEN (unat (drv_block_get ?sm)) (unat (drv_block_put ?sm)) = Suc (pending sm)"
    using ring_level_enq [OF less ne] lev put sm(2) by simp
  ultimately show "sema_ok ?sm"
    using assms sm(2,4) p idx by (simp add: sema_ok_def fifo_less)
  show "nWlsSemaWakeUp ?sm = nWlsSemaWakeUp sm" by (rule sm(5))
qed

lemma wait_counts:
  assumes "sema_ok sm" "0 < pending sm"
  obtains sm' where "wls_wait e sm = Some (0, sm')" "sema_ok sm'" "Suc (pending sm') = pending sm"
proof -
  let ?get = "if of_nat FIFO_LEN \<le> drv_block_get sm + 1 then 0 else drv_block_get sm + 1"
  have idx: "drv_block_put sm < of_nat FIFO_LEN" "drv_block_get sm < of_nat FIFO_LEN"
    using assms(1) by (simp_all add: sema_ok_def)
  have less: "unat (drv_block_get sm) < FIFO_LEN" "unat (drv_block_put sm) < FIFO_LEN"
    using idx by (simp_all add: fifo_less)
  have lev: "ring_level FIFO_LEN (unat (drv_block_get sm)) (unat (drv_block_put sm)) = pending sm"
    using assms(1) by (simp add: sema_ok_def)
  have ne: "drv_block_put sm \<noteq> drv_block_get sm" "is_irq sm \<noteq> 0"
    using lev assms(2) ring_level_0_iff [OF less] by (auto simp: pending_def)
  define sm' where "sm' = sm\<lparr>is_irq := is_irq sm - 1, drv_block_get := ?get\<rparr>"
  have w: "wls_wait e sm = Some (0, sm')"
    using ne by (simp add: wls_wait_def Let_def sm'_def)
  have "unat (is_irq sm - 1) = unat (is_irq sm) - 1"
    using assms(2) unat_diff_of_le [of 1 "is_irq sm"] by (simp add: pending_def word_le_nat_alt)
  then have p: "Suc (pending sm') = pending sm" using assms(2) by (simp add: pending_def sm'_def)
  have get: "unat ?get = Suc (unat (drv_block_get sm)) mod FIFO_LEN" by (rule fifo_next [OF idx(2)])
  then have "unat ?get < FIFO_LEN" by (simp add: FIFO_LEN_def)
  moreover have "unat (drv_block_put sm) \<noteq> unat (drv_block_get sm)"
    using ne(1) by (simp add: word_unat_eq_iff)
  then have "Suc (ring_level FIFO_LEN (unat ?get) (unat (drv_block_put sm))) = pending sm"
    using ring_level_deq [OF less] lev get by simp
  ultimately have "sema_ok sm'"
    using assms(1) p idx by (simp only: sema_ok_def fifo_less sm'_def) simp
  then show ?thesis using that [OF w] p by simp
qed

text \<open>\<open>n\<close> waits in a row that all return 0.\<close>

fun waits :: "wls_env \<Rightarrow> nat \<Rightarrow> wls_sema_priv \<Rightarrow> wls_sema_priv option" where
  "waits e 0 sm = Some sm"
| "waits e (Suc n) sm =
     (case wls_wait e sm of Some (r, sm') \<Rightarrow> if r = 0 then waits e n sm' else None | None \<Rightarrow> None)"

lemma waits_all:
  "sema_ok sm \<Longrightarrow> n \<le> pending sm
   \<Longrightarrow> \<exists>sm'. waits e n sm = Some sm' \<and> sema_ok sm' \<and> pending sm' = pending sm - n"
proof (induction n arbitrary: sm)
  case (Suc n)
  obtain t where t: "wls_wait e sm = Some (0, t)" "sema_ok t" "Suc (pending t) = pending sm"
    using wait_counts [OF Suc.prems(1)] Suc.prems(2) by (metis Suc_le_lessD less_nat_zero_code not_gr_zero)
  then show ?case using Suc.IH [OF t(2)] Suc.prems(2) by fastforce
qed simp

lemma wakes_all:
  "sema_ok sm \<Longrightarrow> pending sm + k < FIFO_LEN
   \<Longrightarrow> sema_ok ((wls_wake_up_user_thread buf ^^ k) sm)
     \<and> pending ((wls_wake_up_user_thread buf ^^ k) sm) = pending sm + k"
  by (induction k) (simp_all add: wake_up_counts)

section \<open>Properties\<close>

text \<open>C12: while fewer than 1024 wake-ups are pending, every wake-up is counted: after \<open>k\<close>
  more of them exactly as many waits as are pending return at once with result 0, and the
  request ring stays in step with the count.\<close>

theorem wakeups_are_counted:
  assumes "sema_ok sm" "pending sm + k < FIFO_LEN"
  shows "\<exists>sm'. waits e (pending sm + k) ((wls_wake_up_user_thread buf ^^ k) sm) = Some sm'
      \<and> sema_ok sm' \<and> pending sm' = 0"
proof -
  have w: "sema_ok ((wls_wake_up_user_thread buf ^^ k) sm)"
      "pending ((wls_wake_up_user_thread buf ^^ k) sm) = pending sm + k"
    using wakes_all [OF assms] by blast+
  show ?thesis using waits_all [OF w(1), of "pending sm + k" e] w(2) by simp
qed

lemma zero_sema_ok: "sema_ok zero_sema" "pending zero_sema = 0"
  by (simp_all add: sema_ok_def zero_sema_def pending_def ring_level_def FIFO_LEN_def)

theorem wakeups_are_counted_witness:
  "\<exists>sm'. waits demo_env 3 ((wls_wake_up_user_thread zero_req ^^ 3) zero_sema) = Some sm'
      \<and> sema_ok sm' \<and> pending sm' = 0"
  using wakeups_are_counted [OF zero_sema_ok(1), of 3 demo_env] by (simp add: zero_sema_ok(2) FIFO_LEN_def del: waits.simps)

text \<open>C13: in semaphore mode a wake-up that is consumed without blocking leaves the semaphore
  posted, so the next wait does not block although nothing is pending: it takes the stale
  post and returns -1.\<close>

theorem stale_post_ends_next_wait:
  assumes "sema_ok sm" "pending sm = 0" "nWlsSemaWakeUp sm \<noteq> 0" "e_sem_wait e = 0"
  shows "\<exists>sm1 sm2. wls_wait e (wls_wake_up_user_thread buf sm) = Some (0, sm1)
      \<and> pending sm1 = 0 \<and> wls_wait e sm1 = Some (-1, sm2)"
proof -
  let ?w = "wls_wake_up_user_thread buf sm"
  have "Suc (pending sm) < FIFO_LEN" using assms(2) by (simp add: FIFO_LEN_def)
  note w = wake_up_counts [OF assms(1) this, of buf]
  obtain sm1 where sm1: "wls_wait e ?w = Some (0, sm1)" "Suc (pending sm1) = pending ?w"
    using wait_counts [OF w(1)] w(2) by (metis zero_less_Suc)
  have "sint (is_irq sm) = 0" using assms(2) by (simp add: pending_def unat_eq_0)
  then have "sem ?w = Suc (sem sm)"
    using assms(3) by (simp add: wls_wake_up_user_thread_def Let_def FIFO_LEN_def)
  moreover have "is_irq ?w \<noteq> 0" using w(2) by (auto simp: pending_def)
  ultimately have "sem sm1 = Suc (sem sm)" "nWlsSemaWakeUp sm1 \<noteq> 0"
    using sm1(1) w(3) assms(3) by (auto simp: wls_wait_def Let_def split: if_splits)
  moreover have p: "pending sm1 = 0" using sm1(2) w(2) assms(2) by simp
  then have "is_irq sm1 = 0" by (simp add: pending_def unat_eq_0)
  ultimately have "wls_wait e sm1 = Some (-1, sm1\<lparr>sem := sem sm\<rparr>)"
    using assms(4) by (simp add: wls_wait_def Let_def)
  then show ?thesis using sm1(1) p by blast
qed

theorem stale_post_ends_next_wait_witness:
  "\<exists>sm1 sm2. wls_wait demo_env (wls_wake_up_user_thread zero_req (zero_sema\<lparr>nWlsSemaWakeUp := 1\<rparr>))
      = Some (0, sm1) \<and> pending sm1 = 0 \<and> wls_wait demo_env sm1 = Some (-1, sm2)"
proof -
  have "sema_ok (zero_sema\<lparr>nWlsSemaWakeUp := 1\<rparr>)" "pending (zero_sema\<lparr>nWlsSemaWakeUp := 1\<rparr>) = 0"
    using zero_sema_ok by (simp_all add: sema_ok_def pending_def)
  then show ?thesis
    using stale_post_ends_next_wait [of "zero_sema\<lparr>nWlsSemaWakeUp := 1\<rparr>" demo_env zero_req]
    by (simp add: demo_env_def)
qed

end
