(* ===== verification/Frame_Struct.thy ===== *)
theory Frame_Struct
  imports Prelude
begin

text \<open>
  The radio frame structure of \<open>fhi_lib/lib/src/xran_frame_struct.c\<close>: numerology tables,
  the number of resource blocks, the NR-ARFCN of a frequency, the reduction of slot indices
  and the TDD pattern of a carrier.  The static arrays are the record \<open>fs_state\<close>, with a
  \<open>fs_cell\<close> for each port and carrier; an access outside of an array is \<open>None\<close>.  Rates are
  the numerator and denominator of the float the code computes.
\<close>

section \<open>Constants and tables\<close>

definition XRAN_PORTS_NUM :: nat where "XRAN_PORTS_NUM = 8"
definition XRAN_MAX_SECTOR_NR :: nat where "XRAN_MAX_SECTOR_NR = 40"
definition XRAN_MAX_NUM_MU :: nat where "XRAN_MAX_NUM_MU = 6"
definition XRAN_NUM_OF_SLOT_IN_TDD_LOOP :: nat where "XRAN_NUM_OF_SLOT_IN_TDD_LOOP = 80"
definition XRAN_NUM_OF_SYMBOL_PER_SLOT :: nat where "XRAN_NUM_OF_SYMBOL_PER_SLOT = 14"

definition XRAN_SLOT_TYPE_INVALID :: u8 where "XRAN_SLOT_TYPE_INVALID = 0"
definition XRAN_SLOT_TYPE_DL :: u8 where "XRAN_SLOT_TYPE_DL = 1"
definition XRAN_SLOT_TYPE_UL :: u8 where "XRAN_SLOT_TYPE_UL = 2"
definition XRAN_SLOT_TYPE_SP :: u8 where "XRAN_SLOT_TYPE_SP = 3"
definition XRAN_SLOT_TYPE_FDD :: u8 where "XRAN_SLOT_TYPE_FDD = 4"
definition XRAN_SYMBOL_TYPE_DL :: u8 where "XRAN_SYMBOL_TYPE_DL = 0"
definition XRAN_SYMBOL_TYPE_UL :: u8 where "XRAN_SYMBOL_TYPE_UL = 1"
definition XRAN_SYMBOL_TYPE_GUARD :: u8 where "XRAN_SYMBOL_TYPE_GUARD = 2"
definition XRAN_SYMBOL_TYPE_FDD :: u8 where "XRAN_SYMBOL_TYPE_FDD = 3"
definition XRAN_FDD :: u32 where "XRAN_FDD = 0"

lemmas fs_size_defs = XRAN_PORTS_NUM_def XRAN_MAX_SECTOR_NR_def XRAN_MAX_NUM_MU_def
  XRAN_NUM_OF_SLOT_IN_TDD_LOOP_def XRAN_NUM_OF_SYMBOL_PER_SLOT_def

lemmas slot_type_defs = XRAN_SLOT_TYPE_INVALID_def XRAN_SLOT_TYPE_DL_def XRAN_SLOT_TYPE_UL_def
  XRAN_SLOT_TYPE_SP_def XRAN_SLOT_TYPE_FDD_def

lemmas symbol_type_defs = XRAN_SYMBOL_TYPE_DL_def XRAN_SYMBOL_TYPE_UL_def
  XRAN_SYMBOL_TYPE_GUARD_def XRAN_SYMBOL_TYPE_FDD_def

definition nNumRbsPerSymF1 :: "u16 list list" where
  "nNumRbsPerSymF1 =
    [[25, 52, 79, 106, 133, 160, 216, 270, 0, 0, 0, 0, 0],
     [11, 24, 38, 51, 65, 78, 106, 133, 162, 189, 217, 245, 273],
     [0, 11, 18, 24, 31, 38, 51, 65, 79, 93, 107, 121, 135]]"

definition nNumRbsPerSymF2 :: "u16 list list" where
  "nNumRbsPerSymF2 = [[66, 132, 264, 0], [32, 66, 132, 264]]"

definition nTtiInterval :: "u16 list" where
  "nTtiInterval = [1000, 500, 250, 125, 0, 1000]"

definition xran_fs_get_tti_interval :: "u8 \<Rightarrow> u32" where
  "xran_fs_get_tti_interval nMu =
     (if nMu < of_nat XRAN_MAX_NUM_MU then ucast (nTtiInterval ! unat nMu) else ucast (nTtiInterval ! 0))"

section \<open>Resource blocks and channel numbers\<close>

text \<open>The column of a bandwidth in MHz.\<close>

definition bw_F1 :: "u32 list" where
  "bw_F1 = [5, 10, 15, 20, 25, 30, 40, 50, 60, 70, 80, 90, 100]"

definition bw_F2 :: "u32 list" where
  "bw_F2 = [50, 100, 200, 400]"

fun bw_column :: "u32 \<Rightarrow> u32 list \<Rightarrow> u16 list \<Rightarrow> u16 option" where
  "bw_column b (x # xs) (r # rs) = (if b = x then Some r else bw_column b xs rs)"
| "bw_column b xs rs = None"

text \<open>The result and whether the error message is printed.\<close>

definition xran_fs_get_num_rbs :: "u32 \<Rightarrow> u32 \<Rightarrow> u32 \<Rightarrow> u16 \<times> bool" where
  "xran_fs_get_num_rbs nNumerology nBandwidth nAbsFrePointA =
     (let r = (if nAbsFrePointA \<le> 6000000 then
                 (if nNumerology < 3 then bw_column nBandwidth bw_F1 (nNumRbsPerSymF1 ! unat nNumerology) else None)
               else
                 (if nNumerology \<ge> 2 \<and> nNumerology \<le> 3
                  then bw_column nBandwidth bw_F2 (nNumRbsPerSymF2 ! unat (nNumerology - 2)) else None))
      in case r of Some numRBs \<Rightarrow> (numRBs, False) | None \<Rightarrow> (0, True))"

definition xran_fs_cal_nrarfcn :: "u32 \<Rightarrow> u32" where
  "xran_fs_cal_nrarfcn nCenterFreq =
     (let arfcn = (\<lambda>nDeltaFglobal nFoffs nNoffs. ((nCenterFreq - nFoffs) div nDeltaFglobal) + nNoffs)
      in if nCenterFreq > 0 \<and> nCenterFreq < 3000 * 1000 then arfcn 5 0 0
         else if nCenterFreq \<ge> 3000 * 1000 \<and> nCenterFreq < 24250 * 1000 then arfcn 15 (3000 * 1000) 600000
         else if nCenterFreq \<ge> 24250 * 1000 \<and> nCenterFreq \<le> 100000 * 1000 then arfcn 60 24250080 2016667
         else 0)"

section \<open>State\<close>

record fs_cell =
  num_slot_tdd_loop :: u16
  num_dl_sym_sp :: "u16 list"
  num_ul_sym_sp :: "u16 list"
  slot_type :: "u8 list"
  slot_symb_type :: "u8 list list"
  ul_rate :: "nat \<times> nat"
  dl_rate :: "nat \<times> nat"

record fs_state =
  fs_cells :: "fs_cell list list"
  max_slot_num_mu :: "u32 list"

definition init_cell :: fs_cell where
  "init_cell = \<lparr>num_slot_tdd_loop = 0,
     num_dl_sym_sp = replicate XRAN_NUM_OF_SLOT_IN_TDD_LOOP 0,
     num_ul_sym_sp = replicate XRAN_NUM_OF_SLOT_IN_TDD_LOOP 0,
     slot_type = replicate XRAN_NUM_OF_SLOT_IN_TDD_LOOP XRAN_SLOT_TYPE_INVALID,
     slot_symb_type = replicate XRAN_NUM_OF_SLOT_IN_TDD_LOOP (replicate XRAN_NUM_OF_SYMBOL_PER_SLOT XRAN_SLOT_TYPE_INVALID),
     ul_rate = (0, 1), dl_rate = (0, 1)\<rparr>"

text \<open>The initialisers: only the first carrier of the first port starts with 80 slots, and the
  list of slot limits has five values for six entries.\<close>

definition init_fs :: fs_state where
  "init_fs = \<lparr>fs_cells = (replicate XRAN_PORTS_NUM (replicate XRAN_MAX_SECTOR_NR init_cell))
       [0 := (replicate XRAN_MAX_SECTOR_NR init_cell)
          [0 := init_cell\<lparr>num_slot_tdd_loop := of_nat XRAN_NUM_OF_SLOT_IN_TDD_LOOP\<rparr>]],
     max_slot_num_mu = [20480, 20480, 20480, 20480, 20480, 0]\<rparr>"

definition fs_get :: "fs_state \<Rightarrow> nat \<Rightarrow> nat \<Rightarrow> fs_cell option" where
  "fs_get s p c =
     (if p < length (fs_cells s) \<and> c < length (fs_cells s ! p) then Some (fs_cells s ! p ! c) else None)"

definition fs_set :: "nat \<Rightarrow> nat \<Rightarrow> fs_cell \<Rightarrow> fs_state \<Rightarrow> fs_state" where
  "fs_set p c x s = s\<lparr>fs_cells := (fs_cells s)[p := (fs_cells s ! p)[c := x]]\<rparr>"

section \<open>Slot indices\<close>

definition xran_fs_slot_limit_init :: "u16 \<Rightarrow> u8 \<Rightarrow> fs_state \<Rightarrow> (u32 \<times> fs_state) option" where
  "xran_fs_slot_limit_init xran_max_frame mu s =
     (if unat mu < length (max_slot_num_mu s) then
        let v = (ucast xran_max_frame + 1) * 10 * push_bit (unat mu) 1
        in Some (v, s\<lparr>max_slot_num_mu := (max_slot_num_mu s)[unat mu := v]\<rparr>)
      else None)"

definition xran_fs_get_max_slot :: "u8 \<Rightarrow> fs_state \<Rightarrow> u32 option" where
  "xran_fs_get_max_slot mu s =
     (if unat mu < length (max_slot_num_mu s) then Some (max_slot_num_mu s ! unat mu) else None)"

text \<open>The two loops of \<open>xran_fs_slot_limit\<close>; \<open>None\<close> when a loop does not end.  The first
  comparison is signed, the second unsigned.\<close>

partial_function (option) limit_up :: "u32 \<Rightarrow> u32 \<Rightarrow> u32 option" where
  "limit_up mx nSfIdx = (if sint nSfIdx < 0 then limit_up mx (nSfIdx + mx) else Some nSfIdx)"

partial_function (option) limit_down :: "u32 \<Rightarrow> u32 \<Rightarrow> u32 option" where
  "limit_down mx nSfIdx = (if nSfIdx \<ge> mx then limit_down mx (nSfIdx - mx) else Some nSfIdx)"

definition xran_fs_slot_limit :: "u32 \<Rightarrow> u8 \<Rightarrow> fs_state \<Rightarrow> u32 option" where
  "xran_fs_slot_limit nSfIdx mu s =
     Option.bind (xran_fs_get_max_slot mu s) (\<lambda>mx.
     Option.bind (limit_up mx nSfIdx) (limit_down mx))"

section \<open>The TDD pattern\<close>

definition xran_fs_clear_slot_type :: "nat \<Rightarrow> nat \<Rightarrow> fs_state \<Rightarrow> fs_state option" where
  "xran_fs_clear_slot_type PortId c s =
     Option.bind (fs_get s PortId c) (\<lambda>x.
     Some (fs_set PortId c (x\<lparr>ul_rate := (0, 1), dl_rate := (0, 1), num_slot_tdd_loop := 1\<rparr>) s))"

text \<open>The classification of one symbol of the configuration.\<close>

definition symbol_class :: "u8 \<Rightarrow> u8" where
  "symbol_class t =
     (if t = XRAN_SYMBOL_TYPE_DL then XRAN_SYMBOL_TYPE_DL
      else if t = XRAN_SYMBOL_TYPE_GUARD then XRAN_SYMBOL_TYPE_GUARD
      else XRAN_SYMBOL_TYPE_UL)"

definition count_class :: "u8 \<Rightarrow> u8 list \<Rightarrow> nat" where
  "count_class k cfg = length (filter (\<lambda>t. symbol_class t = k) (take XRAN_NUM_OF_SYMBOL_PER_SLOT cfg))"

text \<open>One slot of the configuration: the new entries of the cell and of the counters of downlink
  and uplink slots (full, then special).\<close>

definition set_slot :: "nat \<Rightarrow> u8 list \<Rightarrow> fs_cell \<times> nat \<times> nat \<Rightarrow> fs_cell \<times> nat \<times> nat" where
  "set_slot n cfg = (\<lambda>(x, dl, ul).
     let numDlSym = count_class XRAN_SYMBOL_TYPE_DL cfg;
         numUlSym = count_class XRAN_SYMBOL_TYPE_UL cfg;
         numGuardSym = count_class XRAN_SYMBOL_TYPE_GUARD cfg;
         x = x\<lparr>slot_symb_type := (slot_symb_type x)
                 [n := map symbol_class (take XRAN_NUM_OF_SYMBOL_PER_SLOT cfg)]\<rparr>
     in if numUlSym = 0 \<and> numGuardSym = 0 then
          (x\<lparr>slot_type := (slot_type x)[n := XRAN_SLOT_TYPE_DL]\<rparr>, dl + 1, ul)
        else if numDlSym = 0 \<and> numGuardSym = 0 then
          (x\<lparr>slot_type := (slot_type x)[n := XRAN_SLOT_TYPE_UL]\<rparr>, dl, ul + 1)
        else
          (x\<lparr>slot_type := (slot_type x)[n := XRAN_SLOT_TYPE_SP],
             num_dl_sym_sp := (if numDlSym \<noteq> 0 then (num_dl_sym_sp x)[n := of_nat numDlSym] else num_dl_sym_sp x),
             num_ul_sym_sp := (if numUlSym \<noteq> 0 then (num_ul_sym_sp x)[n := of_nat numUlSym] else num_ul_sym_sp x)\<rparr>,
           (if numDlSym \<noteq> 0 then dl + 1 else dl), (if numUlSym \<noteq> 0 then ul + 1 else ul)))"

text \<open>The loop over the slots of the period; a slot outside of the arrays or of the configuration
  is a fault.\<close>

fun set_slots :: "nat \<Rightarrow> nat \<Rightarrow> u8 list list \<Rightarrow> fs_cell \<times> nat \<times> nat \<Rightarrow> (fs_cell \<times> nat \<times> nat) option" where
  "set_slots 0 n cfg st = Some st"
| "set_slots (Suc k) n cfg st =
     (if n < XRAN_NUM_OF_SLOT_IN_TDD_LOOP \<and> n < length cfg
      then set_slots k (Suc n) cfg (set_slot n (cfg ! n) st) else None)"

definition reset_cell :: "u32 \<Rightarrow> fs_cell \<Rightarrow> fs_cell" where
  "reset_cell nTddPeriod x =
     x\<lparr>ul_rate := (0, 1), dl_rate := (0, 1), num_slot_tdd_loop := ucast nTddPeriod,
       slot_type := replicate XRAN_NUM_OF_SLOT_IN_TDD_LOOP XRAN_SLOT_TYPE_INVALID,
       num_dl_sym_sp := replicate XRAN_NUM_OF_SLOT_IN_TDD_LOOP 0,
       num_ul_sym_sp := replicate XRAN_NUM_OF_SLOT_IN_TDD_LOOP 0\<rparr>"

definition fdd_cell :: "fs_cell \<Rightarrow> fs_cell" where
  "fdd_cell x =
     x\<lparr>slot_type := replicate XRAN_NUM_OF_SLOT_IN_TDD_LOOP XRAN_SLOT_TYPE_FDD,
       slot_symb_type := replicate XRAN_NUM_OF_SLOT_IN_TDD_LOOP
         (replicate XRAN_NUM_OF_SYMBOL_PER_SLOT XRAN_SYMBOL_TYPE_FDD),
       num_slot_tdd_loop := 1, dl_rate := (1, 1), ul_rate := (1, 1)\<rparr>"

definition xran_fs_set_slot_type ::
  "nat \<Rightarrow> nat \<Rightarrow> u32 \<Rightarrow> u32 \<Rightarrow> u8 list list \<Rightarrow> fs_state \<Rightarrow> (int \<times> fs_state) option" where
  "xran_fs_set_slot_type PortId c nFrameDuplexType nTddPeriod psSlotConfig s =
     Option.bind (fs_get s PortId c) (\<lambda>x.
     let x = reset_cell nTddPeriod x
     in if nFrameDuplexType = XRAN_FDD then Some (0, fs_set PortId c (fdd_cell x) s)
        else Option.bind (set_slots (unat nTddPeriod) 0 psSlotConfig (x, 0, 0)) (\<lambda>(x, dl, ul).
          Some (0, fs_set PortId c (x\<lparr>dl_rate := (dl, unat nTddPeriod), ul_rate := (ul, unat nTddPeriod)\<rparr>) s)))"

definition tdd_index :: "fs_cell \<Rightarrow> u32 \<Rightarrow> nat" where
  "tdd_index x sf = unat sf mod (if num_slot_tdd_loop x > 0 then unat (num_slot_tdd_loop x) else 1)"

definition xran_fs_get_slot_type ::
  "nat \<Rightarrow> nat \<Rightarrow> u32 \<Rightarrow> int \<Rightarrow> u8 \<Rightarrow> fs_state \<Rightarrow> int option" where
  "xran_fs_get_slot_type PortId nCellIdx nSlotdx nType mu s =
     Option.bind (xran_fs_slot_limit nSlotdx mu s) (\<lambda>sf.
     Option.bind (fs_get s PortId nCellIdx) (\<lambda>x.
     let i = tdd_index x sf
     in if i < length (slot_type x) then
          let nSfType = slot_type x ! i
          in if int (unat nSfType) = nType then Some 1
             else if nSfType = XRAN_SLOT_TYPE_SP then
               Some (if nType = int (unat XRAN_SLOT_TYPE_DL) \<and> num_dl_sym_sp x ! i \<noteq> 0
                     \<or> nType = int (unat XRAN_SLOT_TYPE_UL) \<and> num_ul_sym_sp x ! i \<noteq> 0 then 1 else 0)
             else if nSfType = XRAN_SLOT_TYPE_FDD then Some 1
             else Some 0
        else None))"

definition xran_fs_get_symbol_type ::
  "nat \<Rightarrow> nat \<Rightarrow> u32 \<Rightarrow> nat \<Rightarrow> u8 \<Rightarrow> fs_state \<Rightarrow> int option" where
  "xran_fs_get_symbol_type PortId nCellIdx nSlotdx nSymbIdx mu s =
     Option.bind (xran_fs_slot_limit nSlotdx mu s) (\<lambda>sf.
     Option.bind (fs_get s PortId nCellIdx) (\<lambda>x.
     let i = tdd_index x sf
     in if i < length (slot_symb_type x) \<and> nSymbIdx < length (slot_symb_type x ! i)
        then Some (int (unat (slot_symb_type x ! i ! nSymbIdx))) else None))"


section \<open>The loops of the slot limit\<close>

lemma sint_add_no_overflow:
  fixes a b :: u32
  assumes "- (2 ^ 31) \<le> sint a + sint b" "sint a + sint b < 2 ^ 31"
  shows "sint (a + b) = sint a + sint b"
  using assms by (simp add: sint_word_ariths signed_take_bit_int_eq_self)

lemma sint_small: "unat (w :: u32) < 2 ^ 31 \<Longrightarrow> sint w = int (unat w)"
  by (simp add: sint_cases)

lemma sint_range: "- (2 ^ 31) \<le> sint (w :: u32)" "sint (w :: u32) < 2 ^ 31"
  using sint_ge [of w] sint_lt [of w] by simp_all

lemma limit_up_ends:
  assumes "0 < mx" "unat mx \<le> 2 ^ 30"
  shows "\<exists>r. limit_up mx n = Some r \<and> 0 \<le> sint r \<and> sint r mod int (unat mx) = sint n mod int (unat mx)"
proof (induction "nat (- sint n)" arbitrary: n rule: less_induct)
  case less
  show ?case
  proof (cases "sint n < 0")
    case True
    have mx: "sint mx = int (unat mx)" using sint_small [of mx] assms(2) by simp
    have pos: "0 < int (unat mx)" using assms(1) by (simp only: word_less_nat_alt of_nat_0_less_iff unsigned_0)
    have "int (unat mx) \<le> 2 ^ 30"
      using assms(2) by (metis of_nat_le_iff of_nat_numeral of_nat_power)
    then have "- (2 ^ 31) \<le> sint n + int (unat mx)" "sint n + int (unat mx) < 2 ^ 31"
      using True pos sint_range [of n] by simp_all
    then have add: "sint (n + mx) = sint n + int (unat mx)"
      using sint_add_no_overflow [of n mx] by (simp only: mx)
    then have "nat (- sint (n + mx)) < nat (- sint n)" using True pos by simp
    from less [OF this] obtain r where "limit_up mx (n + mx) = Some r" "0 \<le> sint r"
        "sint r mod int (unat mx) = sint (n + mx) mod int (unat mx)"
      by blast
    then show ?thesis using True add by (simp add: limit_up.simps [of mx n])
  next
    case False
    then show ?thesis by (simp add: limit_up.simps [of mx n])
  qed
qed

lemma limit_down_ends:
  assumes "0 < mx"
  shows "\<exists>r. limit_down mx n = Some r \<and> unat r = unat n mod unat mx"
proof (induction "unat n" arbitrary: n rule: less_induct)
  case less
  have mx: "0 < unat mx" using assms by (simp add: word_less_nat_alt)
  show ?case
  proof (cases "mx \<le> n")
    case True
    then have sub: "unat (n - mx) = unat n - unat mx" "unat mx \<le> unat n"
      by (simp_all add: unat_diff_of_le word_le_nat_alt)
    then have "unat (n - mx) < unat n" using mx by simp
    from less [OF this] show ?thesis
      using True sub by (simp add: limit_down.simps [of mx n] le_mod_geq)
  next
    case False
    then have "unat n < unat mx" by (simp add: word_le_nat_alt)
    then show ?thesis using False by (simp add: limit_down.simps [of mx n])
  qed
qed

lemma slot_limit_mod:
  assumes "xran_fs_get_max_slot mu s = Some mx" "0 < mx" "unat mx \<le> 2 ^ 30"
  obtains r where "xran_fs_slot_limit n mu s = Some r" "int (unat r) = sint n mod int (unat mx)"
proof -
  obtain u where u: "limit_up mx n = Some u" "0 \<le> sint u" "sint u mod int (unat mx) = sint n mod int (unat mx)"
    using limit_up_ends [OF assms(2,3)] by blast
  obtain r where r: "limit_down mx u = Some r" "unat r = unat u mod unat mx"
    using limit_down_ends [OF assms(2)] by blast
  have "uint u < 2 ^ LENGTH(32)" by (rule unsigned_less)
  then have "sint u = int (unat u)" using u(2) by (auto simp: sint_cases split: if_splits)
  then have "int (unat r) = sint n mod int (unat mx)" using r(2) u(3) by (simp add: zmod_int)
  then show ?thesis using that [of r] assms(1) u(1) r(1) by (simp add: xran_fs_slot_limit_def)
qed

text \<open>With a limit of 0 the second loop never ends.\<close>

lemma limit_down_0: "limit_down 0 n = None"
proof (cases "limit_down 0 n")
  case (Some r)
  then have "(0 :: u32) \<noteq> 0"
    by (rule limit_down.raw_induct [where P = "\<lambda>mx n r. mx \<noteq> 0", rotated]) (auto split: if_splits)
  then show ?thesis by simp
qed

lemma slot_limit_0:
  assumes "xran_fs_get_max_slot mu s = Some 0"
  shows "xran_fs_slot_limit n mu s = None"
  using assms by (cases "limit_up 0 n") (simp_all add: xran_fs_slot_limit_def limit_down_0)


section \<open>What a TDD configuration leaves in the tables\<close>

lemma classes_disjoint: "symbol_class t = XRAN_SYMBOL_TYPE_DL \<or> symbol_class t = XRAN_SYMBOL_TYPE_UL
    \<or> symbol_class t = XRAN_SYMBOL_TYPE_GUARD"
  by (simp add: symbol_class_def)

lemma class_values [simp]:
  "XRAN_SYMBOL_TYPE_DL \<noteq> XRAN_SYMBOL_TYPE_UL" "XRAN_SYMBOL_TYPE_DL \<noteq> XRAN_SYMBOL_TYPE_GUARD"
  "XRAN_SYMBOL_TYPE_UL \<noteq> XRAN_SYMBOL_TYPE_DL" "XRAN_SYMBOL_TYPE_UL \<noteq> XRAN_SYMBOL_TYPE_GUARD"
  "XRAN_SYMBOL_TYPE_GUARD \<noteq> XRAN_SYMBOL_TYPE_DL" "XRAN_SYMBOL_TYPE_GUARD \<noteq> XRAN_SYMBOL_TYPE_UL"
  by (simp_all add: symbol_type_defs)

lemma count_class_0: "count_class k cfg = 0 \<longleftrightarrow> (\<forall>t\<in>set (take XRAN_NUM_OF_SYMBOL_PER_SLOT cfg). symbol_class t \<noteq> k)"
  by (auto simp: count_class_def filter_empty_conv)

lemma count_class_bound: "count_class k cfg \<le> 14"
  unfolding count_class_def
  by (rule order_trans [OF length_filter_le]) (simp add: XRAN_NUM_OF_SYMBOL_PER_SLOT_def)

lemma count_class_word: "(of_nat (count_class k cfg) :: u16) = 0 \<longleftrightarrow> count_class k cfg = 0"
proof -
  have "unat (of_nat (count_class k cfg) :: u16) = count_class k cfg"
    using count_class_bound [of k cfg] by (simp add: unat_of_nat)
  then show ?thesis by (metis unat_eq_zero unsigned_0)
qed

text \<open>The entries of slot \<open>i\<close> after the configuration of a whole period.\<close>

definition slot_entries :: "fs_cell \<Rightarrow> nat \<Rightarrow> u8 \<times> bool \<times> bool \<times> u8 list" where
  "slot_entries x i = (slot_type x ! i, num_dl_sym_sp x ! i \<noteq> 0, num_ul_sym_sp x ! i \<noteq> 0, slot_symb_type x ! i)"

definition pattern_entries :: "u8 list \<Rightarrow> u8 \<times> bool \<times> bool \<times> u8 list" where
  "pattern_entries cfg =
     (let dl = count_class XRAN_SYMBOL_TYPE_DL cfg; ul = count_class XRAN_SYMBOL_TYPE_UL cfg;
          g = count_class XRAN_SYMBOL_TYPE_GUARD cfg
      in (if ul = 0 \<and> g = 0 then XRAN_SLOT_TYPE_DL else if dl = 0 \<and> g = 0 then XRAN_SLOT_TYPE_UL else XRAN_SLOT_TYPE_SP,
          \<not> (ul = 0 \<and> g = 0) \<and> \<not> (dl = 0 \<and> g = 0) \<and> dl \<noteq> 0,
          \<not> (ul = 0 \<and> g = 0) \<and> \<not> (dl = 0 \<and> g = 0) \<and> ul \<noteq> 0,
          map symbol_class (take XRAN_NUM_OF_SYMBOL_PER_SLOT cfg)))"

definition cell_ok :: "fs_cell \<Rightarrow> bool" where
  "cell_ok x = (length (slot_type x) = 80 \<and> length (num_dl_sym_sp x) = 80 \<and> length (num_ul_sym_sp x) = 80
     \<and> length (slot_symb_type x) = 80)"

lemma set_slot_entries:
  assumes "cell_ok x" "n < 80" "num_dl_sym_sp x ! n = 0" "num_ul_sym_sp x ! n = 0"
  shows "cell_ok (fst (set_slot n cfg (x, c)))"
    "slot_entries (fst (set_slot n cfg (x, c))) n = pattern_entries cfg"
    "i \<noteq> n \<Longrightarrow> slot_entries (fst (set_slot n cfg (x, c))) i = slot_entries x i"
    "i \<noteq> n \<Longrightarrow> num_dl_sym_sp (fst (set_slot n cfg (x, c))) ! i = num_dl_sym_sp x ! i"
    "i \<noteq> n \<Longrightarrow> num_ul_sym_sp (fst (set_slot n cfg (x, c))) ! i = num_ul_sym_sp x ! i"
    "num_slot_tdd_loop (fst (set_slot n cfg (x, c))) = num_slot_tdd_loop x"
  using assms
  by (cases c; simp add: set_slot_def Let_def cell_ok_def slot_entries_def pattern_entries_def count_class_word; fail)+

lemma set_slots_entries:
  assumes "cell_ok x" "n + k \<le> 80" "n + k \<le> length cfg"
    "\<And>i. n \<le> i \<Longrightarrow> i < 80 \<Longrightarrow> num_dl_sym_sp x ! i = 0 \<and> num_ul_sym_sp x ! i = 0"
  shows "\<exists>y d. set_slots k n cfg (x, c) = Some (y, d) \<and> cell_ok y \<and> num_slot_tdd_loop y = num_slot_tdd_loop x
      \<and> (\<forall>i. slot_entries y i = (if n \<le> i \<and> i < n + k then pattern_entries (cfg ! i) else slot_entries x i))"
  using assms
proof (induction k arbitrary: n x c)
  case (Suc k)
  obtain y d where y: "set_slot n (cfg ! n) (x, c) = (y, d)" by (cases "set_slot n (cfg ! n) (x, c)")
  have n: "n < 80" "num_dl_sym_sp x ! n = 0" "num_ul_sym_sp x ! n = 0" using Suc.prems by auto
  note e = set_slot_entries [OF Suc.prems(1) n, where cfg = "cfg ! n" and c = c, unfolded y fst_conv]
  have "\<exists>z d'. set_slots k (Suc n) cfg (y, d) = Some (z, d') \<and> cell_ok z \<and> num_slot_tdd_loop z = num_slot_tdd_loop y
      \<and> (\<forall>i. slot_entries z i = (if Suc n \<le> i \<and> i < Suc n + k then pattern_entries (cfg ! i) else slot_entries y i))"
    by (rule Suc.IH) (use Suc.prems e(1,4,5) in auto)
  then show ?case
    using y e(2,3,6) Suc.prems(2,3) by (auto simp: XRAN_NUM_OF_SLOT_IN_TDD_LOOP_def) (metis le_antisym not_less_eq_eq)+
qed auto


lemma fs_get_set [simp]: "fs_get s p c = Some x \<Longrightarrow> fs_get (fs_set p c y s) p c = Some y"
  by (auto simp: fs_get_def fs_set_def split: if_splits)

lemma max_slot_set [simp]: "xran_fs_get_max_slot mu (fs_set p c y s) = xran_fs_get_max_slot mu s"
  by (simp add: xran_fs_get_max_slot_def fs_set_def)

lemma slot_limit_set [simp]: "xran_fs_slot_limit n mu (fs_set p c y s) = xran_fs_slot_limit n mu s"
  by (simp add: xran_fs_slot_limit_def)

lemma set_slot_type_tdd:
  assumes "fs_get s p c = Some x" "length (slot_symb_type x) = 80" "dup \<noteq> XRAN_FDD"
    "0 < per" "unat per \<le> 80" "unat per \<le> length cfg"
  obtains y where "xran_fs_set_slot_type p c dup per cfg s = Some (0, fs_set p c y s)" "cell_ok y"
    "num_slot_tdd_loop y = ucast per" "\<And>i. i < unat per \<Longrightarrow> slot_entries y i = pattern_entries (cfg ! i)"
proof -
  have "cell_ok (reset_cell per x)"
    using assms(2) by (simp add: cell_ok_def reset_cell_def XRAN_NUM_OF_SLOT_IN_TDD_LOOP_def)
  then have "\<exists>y d. set_slots (unat per) 0 cfg (reset_cell per x, (0, 0)) = Some (y, d) \<and> cell_ok y
      \<and> num_slot_tdd_loop y = num_slot_tdd_loop (reset_cell per x)
      \<and> (\<forall>i. slot_entries y i = (if 0 \<le> i \<and> i < 0 + unat per then pattern_entries (cfg ! i)
            else slot_entries (reset_cell per x) i))"
    by (rule set_slots_entries) (use assms in \<open>simp_all add: reset_cell_def XRAN_NUM_OF_SLOT_IN_TDD_LOOP_def\<close>)
  then obtain y dl ul where y: "set_slots (unat per) 0 cfg (reset_cell per x, 0, 0) = Some (y, dl, ul)" "cell_ok y"
      "num_slot_tdd_loop y = ucast per" "\<And>i. i < unat per \<Longrightarrow> slot_entries y i = pattern_entries (cfg ! i)"
    by (force simp: reset_cell_def)
  show ?thesis
    by (rule that [of "y\<lparr>dl_rate := (dl, unat per), ul_rate := (ul, unat per)\<rparr>"])
      (use y assms in \<open>simp_all add: xran_fs_set_slot_type_def Let_def cell_ok_def slot_entries_def\<close>)
qed

text \<open>Reading a slot type back from its entries.\<close>

lemma get_slot_type_entries:
  assumes "fs_get s p c = Some y" "xran_fs_slot_limit n mu s = Some sf" "cell_ok y"
    "tdd_index y sf = i" "i < 80" "slot_entries y i = pattern_entries cfg" "length cfg = 14"
  shows "xran_fs_get_slot_type p c n 1 mu s = Some (if \<exists>t\<in>set cfg. symbol_class t = XRAN_SYMBOL_TYPE_DL then 1 else 0)"
    "xran_fs_get_slot_type p c n 2 mu s = Some (if \<exists>t\<in>set cfg. symbol_class t = XRAN_SYMBOL_TYPE_UL then 1 else 0)"
    "k < 14 \<Longrightarrow> xran_fs_get_symbol_type p c n k mu s = Some (int (unat (symbol_class (cfg ! k))))"
proof -
  define dl where "dl = count_class XRAN_SYMBOL_TYPE_DL cfg"
  define ul where "ul = count_class XRAN_SYMBOL_TYPE_UL cfg"
  define g where "g = count_class XRAN_SYMBOL_TYPE_GUARD cfg"
  have cnt: "dl = 0 \<longleftrightarrow> (\<forall>t\<in>set cfg. symbol_class t \<noteq> XRAN_SYMBOL_TYPE_DL)"
    "ul = 0 \<longleftrightarrow> (\<forall>t\<in>set cfg. symbol_class t \<noteq> XRAN_SYMBOL_TYPE_UL)"
    "g = 0 \<longleftrightarrow> (\<forall>t\<in>set cfg. symbol_class t \<noteq> XRAN_SYMBOL_TYPE_GUARD)"
    using assms(7) by (simp_all add: dl_def ul_def g_def count_class_0 XRAN_NUM_OF_SYMBOL_PER_SLOT_def)
  have "cfg \<noteq> []" using assms(7) by auto
  then have some: "dl \<noteq> 0 \<or> ul \<noteq> 0 \<or> g \<noteq> 0" using cnt classes_disjoint by (metis last_in_set)
  have y: "slot_type y ! i = (if ul = 0 \<and> g = 0 then XRAN_SLOT_TYPE_DL else if dl = 0 \<and> g = 0 then XRAN_SLOT_TYPE_UL else XRAN_SLOT_TYPE_SP)"
    "num_dl_sym_sp y ! i \<noteq> 0 \<longleftrightarrow> \<not> (ul = 0 \<and> g = 0) \<and> \<not> (dl = 0 \<and> g = 0) \<and> dl \<noteq> 0"
    "num_ul_sym_sp y ! i \<noteq> 0 \<longleftrightarrow> \<not> (ul = 0 \<and> g = 0) \<and> \<not> (dl = 0 \<and> g = 0) \<and> ul \<noteq> 0"
    "slot_symb_type y ! i = map symbol_class cfg"
    using assms(6,7)
    by (simp_all add: slot_entries_def pattern_entries_def Let_def dl_def ul_def g_def XRAN_NUM_OF_SYMBOL_PER_SLOT_def)
  have len: "i < length (slot_type y)" "i < length (slot_symb_type y)" using assms(3,5) by (simp_all add: cell_ok_def)
  have "xran_fs_get_slot_type p c n 1 mu s = Some (if dl = 0 then 0 else 1)"
    using assms(1,2,4) len y some
    by (auto simp: xran_fs_get_slot_type_def Let_def slot_type_defs split: if_splits)
  then show "xran_fs_get_slot_type p c n 1 mu s = Some (if \<exists>t\<in>set cfg. symbol_class t = XRAN_SYMBOL_TYPE_DL then 1 else 0)"
    using cnt(1) by auto
  have "xran_fs_get_slot_type p c n 2 mu s = Some (if ul = 0 then 0 else 1)"
    using assms(1,2,4) len y some
    by (auto simp: xran_fs_get_slot_type_def Let_def slot_type_defs split: if_splits)
  then show "xran_fs_get_slot_type p c n 2 mu s = Some (if \<exists>t\<in>set cfg. symbol_class t = XRAN_SYMBOL_TYPE_UL then 1 else 0)"
    using cnt(2) by auto
  show "k < 14 \<Longrightarrow> xran_fs_get_symbol_type p c n k mu s = Some (int (unat (symbol_class (cfg ! k))))"
    using assms(1,2,4,7) len(2) y(4) by (simp add: xran_fs_get_symbol_type_def Let_def)
qed


section \<open>Properties\<close>

text \<open>C14: for every limit up to \<open>2 ^ 30\<close> the two loops of \<open>xran_fs_slot_limit\<close> end, and the
  result is the slot index modulo the limit, negative indices counted back from the end.\<close>

theorem slot_limit_is_mod:
  assumes "xran_fs_get_max_slot mu s = Some mx" "0 < mx" "unat mx \<le> 2 ^ 30"
  shows "\<exists>r. xran_fs_slot_limit n mu s = Some r \<and> int (unat r) = sint n mod int (unat mx)"
  using slot_limit_mod [OF assms] by blast

theorem slot_limit_is_mod_witness:
  "\<exists>r. xran_fs_slot_limit (-1) 1 init_fs = Some r \<and> int (unat r) = 20479"
  using slot_limit_is_mod [of 1 init_fs 20480 "-1"] by (simp add: xran_fs_get_max_slot_def init_fs_def)

text \<open>The table of limits has six entries but five initial values, so before
  \<open>xran_fs_slot_limit_init\<close> is called for numerology index 5 (NB-IoT) the loop for it never
  ends, whatever the slot index.\<close>

theorem slot_limit_diverges_for_uninitialised_mu:
  "xran_fs_slot_limit n 5 init_fs = None"
  by (rule slot_limit_0) (simp add: xran_fs_get_max_slot_def init_fs_def)

text \<open>C16: after a TDD configuration of up to 80 slots, a slot counts as downlink exactly when
  the pattern's slot at its index (modulo the frame limit, then the period) has a downlink
  symbol, as uplink exactly when it has an uplink symbol, and the type of each symbol is
  the configured one, every value that is neither DL nor guard counting as uplink.\<close>

theorem tdd_pattern_is_read_back:
  assumes "fs_get s p c = Some x" "length (slot_symb_type x) = 80" "dup \<noteq> XRAN_FDD"
    and "0 < per" "unat per \<le> 80" "length cfg = unat per" "\<forall>slot\<in>set cfg. length slot = 14"
    and "xran_fs_get_max_slot mu s = Some mx" "0 < mx" "unat mx \<le> 2 ^ 30"
  defines "slot \<equiv> \<lambda>n. cfg ! nat ((sint n mod int (unat mx)) mod int (unat per))"
  shows "\<exists>s'. xran_fs_set_slot_type p c dup per cfg s = Some (0, s')
    \<and> (\<forall>n. xran_fs_get_slot_type p c n 1 mu s'
            = Some (if \<exists>t\<in>set (slot n). symbol_class t = XRAN_SYMBOL_TYPE_DL then 1 else 0)
         \<and> xran_fs_get_slot_type p c n 2 mu s'
            = Some (if \<exists>t\<in>set (slot n). symbol_class t = XRAN_SYMBOL_TYPE_UL then 1 else 0)
         \<and> (\<forall>k<14. xran_fs_get_symbol_type p c n k mu s' = Some (int (unat (symbol_class (slot n ! k))))))"
proof -
  obtain y where y: "xran_fs_set_slot_type p c dup per cfg s = Some (0, fs_set p c y s)" "cell_ok y"
      "num_slot_tdd_loop y = ucast per" "\<And>i. i < unat per \<Longrightarrow> slot_entries y i = pattern_entries (cfg ! i)"
    by (rule set_slot_type_tdd [OF assms(1-5)]) (use assms(6) in auto)
  let ?s' = "fs_set p c y s"
  have per: "unat (ucast per :: u16) = unat per" "(0 :: u16) < ucast per" "0 < unat per"
    using assms(4,5) by (simp_all add: unsigned_ucast_eq take_bit_nat_eq_self word_less_nat_alt)
  have "xran_fs_get_slot_type p c n 1 mu ?s' = Some (if \<exists>t\<in>set (slot n). symbol_class t = XRAN_SYMBOL_TYPE_DL then 1 else 0)
     \<and> xran_fs_get_slot_type p c n 2 mu ?s' = Some (if \<exists>t\<in>set (slot n). symbol_class t = XRAN_SYMBOL_TYPE_UL then 1 else 0)
     \<and> (\<forall>k<14. xran_fs_get_symbol_type p c n k mu ?s' = Some (int (unat (symbol_class (slot n ! k)))))" for n
  proof -
    obtain r where r: "xran_fs_slot_limit n mu s = Some r" "int (unat r) = sint n mod int (unat mx)"
      using slot_limit_mod [OF assms(8-10)] .
    define i where "i = unat r mod unat per"
    have idx: "tdd_index y r = i" using y(3) per by (simp add: tdd_index_def i_def)
    have i: "i < unat per" "i < 80" using per(3) assms(5) by (simp_all add: i_def order_less_le_trans [OF mod_less_divisor])
    have "nat ((sint n mod int (unat mx)) mod int (unat per)) = i"
      by (simp only: r(2) [symmetric] zmod_int [symmetric] nat_int i_def)
    then have "slot n = cfg ! i" by (simp only: slot_def)
    moreover have "length (cfg ! i) = 14" using i(1) assms(6,7) by simp
    moreover have get: "fs_get ?s' p c = Some y" "xran_fs_slot_limit n mu ?s' = Some r" using assms(1) r(1) by simp_all
    ultimately show ?thesis
      using get_slot_type_entries [OF get y(2) idx i(2) y(4) [OF i(1)]] by simp
  qed
  then show ?thesis using y(1) by blast
qed

text \<open>A pattern of two slots: one all downlink, one special.\<close>

definition demo_pattern :: "u8 list list" where
  "demo_pattern = [replicate 14 0, [0, 0, 2, 2, 2, 2, 1, 1, 1, 1, 1, 1, 1, 1]]"

theorem tdd_pattern_is_read_back_witness:
  "\<exists>s'. xran_fs_set_slot_type 0 0 1 2 demo_pattern init_fs = Some (0, s')
    \<and> xran_fs_get_slot_type 0 0 0 2 1 s' = Some 0 \<and> xran_fs_get_slot_type 0 0 1 2 1 s' = Some 1
    \<and> xran_fs_get_symbol_type 0 0 1 2 1 s' = Some 2"
proof -
  have "fs_get init_fs 0 0 = Some (init_cell\<lparr>num_slot_tdd_loop := of_nat XRAN_NUM_OF_SLOT_IN_TDD_LOOP\<rparr>)"
    by (simp add: fs_get_def init_fs_def fs_size_defs)
  moreover have "length (slot_symb_type (init_cell\<lparr>num_slot_tdd_loop := of_nat XRAN_NUM_OF_SLOT_IN_TDD_LOOP\<rparr>)) = 80"
    by (simp add: init_cell_def fs_size_defs)
  moreover have "xran_fs_get_max_slot 1 init_fs = Some 20480"
    by (simp add: xran_fs_get_max_slot_def init_fs_def)
  ultimately obtain s' where s': "xran_fs_set_slot_type 0 0 1 2 demo_pattern init_fs = Some (0, s')"
    "\<And>n. xran_fs_get_slot_type 0 0 n 2 1 s' = Some (if \<exists>t\<in>set (demo_pattern ! nat (sint n mod 20480 mod 2)).
        symbol_class t = XRAN_SYMBOL_TYPE_UL then 1 else 0)"
    "\<And>n. xran_fs_get_symbol_type 0 0 n 2 1 s' = Some (int (unat (symbol_class (demo_pattern ! nat (sint n mod 20480 mod 2) ! 2))))"
    using tdd_pattern_is_read_back [of init_fs 0 0 _ 1 2 demo_pattern 1 20480]
    by (fastforce simp: demo_pattern_def XRAN_FDD_def)
  show ?thesis
    using s'(1) s'(2) [of 0] s'(2) [of 1] s'(3) [of 1]
    by (simp add: demo_pattern_def symbol_class_def symbol_type_defs)
qed

text \<open>In FDD every slot counts as every type and every symbol is an FDD symbol.\<close>

lemma fdd_slots_have_every_type:
  assumes "fs_get s p c = Some x" "xran_fs_get_max_slot mu s = Some mx" "0 < mx" "unat mx \<le> 2 ^ 30" "k < 14"
  shows "\<exists>s'. xran_fs_set_slot_type p c XRAN_FDD per cfg s = Some (0, s')
    \<and> xran_fs_get_slot_type p c n ty mu s' = Some 1 \<and> xran_fs_get_symbol_type p c n k mu s' = Some 3"
proof -
  let ?s' = "fs_set p c (fdd_cell (reset_cell per x)) s"
  obtain r where "xran_fs_slot_limit n mu s = Some r"
    using slot_limit_mod [OF assms(2-4)] by blast
  moreover have "fs_get ?s' p c = Some (fdd_cell (reset_cell per x))" using assms(1) by simp
  moreover have "tdd_index (fdd_cell (reset_cell per x)) r = 0" by (simp add: tdd_index_def fdd_cell_def)
  ultimately have "xran_fs_get_slot_type p c n ty mu ?s' = Some 1" "xran_fs_get_symbol_type p c n k mu ?s' = Some 3"
    using assms(5)
    by (simp_all add: xran_fs_get_slot_type_def xran_fs_get_symbol_type_def Let_def fdd_cell_def
        fs_size_defs slot_type_defs symbol_type_defs)
  then show ?thesis using assms(1) by (simp add: xran_fs_set_slot_type_def Let_def)
qed

lemma bw_column_all:
  "bw_column b xs rs = Some r \<Longrightarrow> list_all2 (\<lambda>x y. P x y) xs rs \<Longrightarrow> P b r"
  by (induction b xs rs rule: bw_column.induct) (auto split: if_splits)

text \<open>\<open>r\<close> blocks of twelve subcarriers of \<open>15 * 2 ^ mu\<close> kHz fit into \<open>b\<close> MHz.\<close>

definition rbs_fit :: "nat \<Rightarrow> u32 \<Rightarrow> u16 \<Rightarrow> bool" where
  "rbs_fit mu b r = (unat r * 12 * (15 * 2 ^ mu) \<le> unat b * 1000)"

lemma tables_fit:
  "list_all2 (rbs_fit 0) bw_F1 (nNumRbsPerSymF1 ! 0)" "list_all2 (rbs_fit (Suc 0)) bw_F1 (nNumRbsPerSymF1 ! Suc 0)"
  "list_all2 (rbs_fit 2) bw_F1 (nNumRbsPerSymF1 ! 2)" "list_all2 (rbs_fit 2) bw_F2 (nNumRbsPerSymF2 ! 0)"
  "list_all2 (rbs_fit 3) bw_F2 (nNumRbsPerSymF2 ! Suc 0)"
  by (simp_all add: rbs_fit_def bw_F1_def bw_F2_def nNumRbsPerSymF1_def nNumRbsPerSymF2_def)

lemma small_mu: "(mu :: u32) < 3 \<longleftrightarrow> mu = 0 \<or> mu = 1 \<or> mu = 2" "2 \<le> mu \<and> mu \<le> 3 \<longleftrightarrow> mu = 2 \<or> mu = 3"
  by (auto simp: word_less_nat_alt word_le_nat_alt word_unat_eq_iff)

text \<open>The number of resource blocks never exceeds what the channel bandwidth holds at the
  subcarrier spacing of the numerology, in both frequency ranges; unsupported combinations
  give no block at all.\<close>

theorem num_rbs_fit_the_bandwidth:
  "unat (fst (xran_fs_get_num_rbs mu bw f)) * 12 * (15 * 2 ^ unat mu) \<le> unat bw * 1000"
proof (cases "snd (xran_fs_get_num_rbs mu bw f)")
  case True
  then have "fst (xran_fs_get_num_rbs mu bw f) = 0"
    by (auto simp: xran_fs_get_num_rbs_def Let_def split: option.splits)
  then show ?thesis by simp
next
  case False
  consider "mu = 0" "f \<le> 6000000" | "mu = 1" "f \<le> 6000000" | "mu = 2" "f \<le> 6000000"
    | "mu = 2" "\<not> f \<le> 6000000" | "mu = 3" "\<not> f \<le> 6000000"
    using False small_mu [of mu] by (auto simp: xran_fs_get_num_rbs_def Let_def split: if_splits)
  then have "rbs_fit (unat mu) bw (fst (xran_fs_get_num_rbs mu bw f))"
    using False
    by cases (auto simp: xran_fs_get_num_rbs_def Let_def split: option.splits
        dest: bw_column_all [OF _ tables_fit(1)] bw_column_all [OF _ tables_fit(2)]
          bw_column_all [OF _ tables_fit(3)] bw_column_all [OF _ tables_fit(4)] bw_column_all [OF _ tables_fit(5)])
  then show ?thesis by (simp add: rbs_fit_def)
qed

text \<open>The reference frequency of a channel number (kHz) and the raster of a frequency.\<close>

definition f_ref :: "nat \<Rightarrow> nat" where
  "f_ref n = (if n < 600000 then 5 * n else if n < 2016667 then 3000000 + 15 * (n - 600000)
     else 24250080 + 60 * (n - 2016667))"

definition raster :: "nat \<Rightarrow> nat" where
  "raster f = (if f < 3000000 then 5 else if f < 24250000 then 15 else 60)"

lemma nrarfcn_nat:
  "unat (xran_fs_cal_nrarfcn f) =
     (let n = unat f in
      if n = 0 then 0 else if n < 3000000 then n div 5
      else if n < 24250000 then 600000 + (n - 3000000) div 15
      else if n < 24250080 then 2016667 + (2 ^ 32 + n - 24250080) div 60
      else if n \<le> 100000000 then 2016667 + (n - 24250080) div 60 else 0)"
proof -
  have sub: "unat (f - 24250080) = 2 ^ 32 + unat f - 24250080" if "unat f < 24250080"
    using that by (simp add: unat_sub_if')
  have add: "unat (a div d + c) = unat a div unat d + unat c" if "unat a div unat d + unat c < 2 ^ 32" for a d c :: u32
    using that by (simp add: unat_add_of_sum_less unat_div)
  show ?thesis
    using unsigned_less [of f]
    by (auto simp: xran_fs_cal_nrarfcn_def Let_def word_less_nat_alt word_le_nat_alt unat_div unat_diff_of_le sub
        add unat_eq_0)
qed

lemma nrarfcn_of_a_raster_frequency:
  assumes "0 < f" "f \<le> 100000000" "f < 24250000 \<or> 24250080 \<le> f"
  shows "f_ref (unat (xran_fs_cal_nrarfcn f)) \<le> unat f
    \<and> unat f < f_ref (unat (xran_fs_cal_nrarfcn f)) + raster (unat f)
    \<and> unat (xran_fs_cal_nrarfcn f) \<le> 3279165"
proof -
  have n: "0 < unat f" "unat f \<le> 100000000" "unat f < 24250000 \<or> 24250080 \<le> unat f"
    using assms by (simp_all add: word_less_nat_alt word_le_nat_alt)
  consider "unat f < 3000000" | "3000000 \<le> unat f" "unat f < 24250000" | "24250080 \<le> unat f" using n by linarith
  then show ?thesis
  proof cases
    case 1
    then show ?thesis using n(1) unfolding nrarfcn_nat Let_def f_ref_def raster_def by auto
  next
    case 2
    then show ?thesis using n unfolding nrarfcn_nat Let_def f_ref_def raster_def by auto
  next
    case 3
    then show ?thesis using n unfolding nrarfcn_nat Let_def f_ref_def raster_def by auto
  qed
qed

lemma nrarfcn_wraps_in_the_gap:
  assumes "24250000 \<le> f" "f < 24250080"
  shows "73000000 < unat (xran_fs_cal_nrarfcn f)"
proof -
  have "24250000 \<le> unat f" "unat f < 24250080"
    using assms by (simp_all add: word_less_nat_alt word_le_nat_alt)
  then show ?thesis by (simp add: nrarfcn_nat Let_def)
qed

text \<open>C19: what the channel number is for every 32-bit frequency (in kHz).  For 0 and above
  100 GHz it is 0.  In the gap from 24250000 to 24250079 kHz, which the range test accepts, the
  subtraction of the offset wraps, and the number is above 73000000 and so far outside of the
  3279166 numbers of the raster.  Everywhere else the number denotes the frequency: its
  reference frequency is the given one rounded down to the channel raster, and the number is at
  most 3279165.\<close>

theorem nrarfcn_denotes_frequency:
  "if f = 0 \<or> 100000000 < f then xran_fs_cal_nrarfcn f = 0
   else if 24250000 \<le> f \<and> f < 24250080 then 73000000 < unat (xran_fs_cal_nrarfcn f)
   else f_ref (unat (xran_fs_cal_nrarfcn f)) \<le> unat f
     \<and> unat f < f_ref (unat (xran_fs_cal_nrarfcn f)) + raster (unat f)
     \<and> unat (xran_fs_cal_nrarfcn f) \<le> 3279165"
proof -
  consider "f = 0 \<or> 100000000 < f" | "24250000 \<le> f" "f < 24250080"
    | "0 < f" "f \<le> 100000000" "f < 24250000 \<or> 24250080 \<le> f"
    by (meson not_less word_neq_0_conv)
  then show ?thesis
  proof cases
    case 1
    then show ?thesis by (auto simp: xran_fs_cal_nrarfcn_def Let_def word_less_nat_alt word_le_nat_alt)
  next
    case 2
    then show ?thesis using nrarfcn_wraps_in_the_gap by (auto simp: word_less_nat_alt word_le_nat_alt)
  next
    case 3
    then show ?thesis
      using nrarfcn_of_a_raster_frequency [OF 3] by (auto simp: word_less_nat_alt word_le_nat_alt)
  qed
qed

theorem nrarfcn_denotes_frequency_witness:
  "f_ref (unat (xran_fs_cal_nrarfcn 3500000)) \<le> 3500000 \<and> 3500000 < f_ref (unat (xran_fs_cal_nrarfcn 3500000)) + 15
    \<and> unat (xran_fs_cal_nrarfcn 3500000) \<le> 3279165
    \<and> 73000000 < unat (xran_fs_cal_nrarfcn 24250079) \<and> xran_fs_cal_nrarfcn 100000001 = 0"
  using nrarfcn_denotes_frequency [of 3500000] nrarfcn_denotes_frequency [of 24250079]
    nrarfcn_denotes_frequency [of 100000001]
  by (simp add: raster_def)

end
