(* ===== verification/Fapi_Config.thy ===== *)
theory Fapi_Config
  imports Frame_Struct "HOL-Library.Sublist"
begin

text \<open>
  The translation of a FAPI CONFIG.request into the configuration of the PHY
  (\<open>fapi_5g/source/api/fapi2phy/p5/nr5g_fapi_proc_config_req.c\<close>): the loop over the TLVs, the
  TDD period in slots and the FFT size.

  The structure \<open>CONFIGREQUESTStruct\<close> and its array sizes belong to the header of the PHY, which
  is not part of the repository.  The record \<open>phy_api\<close> is the parameter for it: \<open>conv f v\<close> is
  the value that reading the field \<open>f\<close> gives after \<open>v\<close> was assigned to it, the other components
  are its constants.  The C code is undefined for a TLV length of 0 or above 4 (a shift by more
  than 31 bits), and for accesses outside of an array: the result is then \<open>None\<close>.  The loop of
  the translation may run forever; its result has an outer option whose \<open>None\<close> says so.
\<close>

section \<open>TLVs\<close>

record fapi_tlv =
  tlv_tag :: u16
  tlv_length :: u16
  tlv_value :: u32

definition FAPI_DL_BANDWIDTH_TAG :: u16 where "FAPI_DL_BANDWIDTH_TAG = 0x1001"
definition FAPI_DL_FREQUENCY_TAG :: u16 where "FAPI_DL_FREQUENCY_TAG = 0x1002"
definition FAPI_NUM_TX_ANT_TAG :: u16 where "FAPI_NUM_TX_ANT_TAG = 0x1005"
definition FAPI_UPLINK_BANDWIDTH_TAG :: u16 where "FAPI_UPLINK_BANDWIDTH_TAG = 0x1006"
definition FAPI_UPLINK_FREQUENCY_TAG :: u16 where "FAPI_UPLINK_FREQUENCY_TAG = 0x1007"
definition FAPI_NUM_RX_ANT_TAG :: u16 where "FAPI_NUM_RX_ANT_TAG = 0x100a"
definition FAPI_PHY_CELL_ID_TAG :: u16 where "FAPI_PHY_CELL_ID_TAG = 0x100c"
definition FAPI_FRAME_DUPLEX_TYPE_TAG :: u16 where "FAPI_FRAME_DUPLEX_TYPE_TAG = 0x100d"
definition FAPI_SS_PBCH_POWER_TAG :: u16 where "FAPI_SS_PBCH_POWER_TAG = 0x100e"
definition FAPI_SCS_COMMON_TAG :: u16 where "FAPI_SCS_COMMON_TAG = 0x1010"
definition FAPI_PRACH_SUBC_SPACING_TAG :: u16 where "FAPI_PRACH_SUBC_SPACING_TAG = 0x1012"
definition FAPI_RESTRICTED_SET_CONFIG_TAG :: u16 where "FAPI_RESTRICTED_SET_CONFIG_TAG = 0x1013"
definition FAPI_NUM_PRACH_FD_OCCASIONS_TAG :: u16 where "FAPI_NUM_PRACH_FD_OCCASIONS_TAG = 0x1014"
definition FAPI_PRACH_ROOT_SEQUENCE_INDEX_TAG :: u16 where "FAPI_PRACH_ROOT_SEQUENCE_INDEX_TAG = 0x1015"
definition FAPI_K1_TAG :: u16 where "FAPI_K1_TAG = 0x1017"
definition FAPI_PRACH_ZERO_CORR_CONF_TAG :: u16 where "FAPI_PRACH_ZERO_CORR_CONF_TAG = 0x1018"
definition FAPI_SSB_PER_RACH_TAG :: u16 where "FAPI_SSB_PER_RACH_TAG = 0x101b"
definition FAPI_SSB_OFFSET_POINT_A_TAG :: u16 where "FAPI_SSB_OFFSET_POINT_A_TAG = 0x101d"
definition FAPI_SSB_PERIOD_TAG :: u16 where "FAPI_SSB_PERIOD_TAG = 0x101f"
definition FAPI_SSB_SUBCARRIER_OFFSET_TAG :: u16 where "FAPI_SSB_SUBCARRIER_OFFSET_TAG = 0x1020"
definition FAPI_MIB_TAG :: u16 where "FAPI_MIB_TAG = 0x1021"
definition FAPI_SSB_MASK_TAG :: u16 where "FAPI_SSB_MASK_TAG = 0x1022"
definition FAPI_BEAM_ID_TAG :: u16 where "FAPI_BEAM_ID_TAG = 0x1023"
definition FAPI_TDD_PERIOD_TAG :: u16 where "FAPI_TDD_PERIOD_TAG = 0x1026"
definition FAPI_SLOT_CONFIG_TAG :: u16 where "FAPI_SLOT_CONFIG_TAG = 0x1027"
definition FAPI_PRACH_CONFIG_INDEX_TAG :: u16 where "FAPI_PRACH_CONFIG_INDEX_TAG = 0x1029"
definition FAPI_DMRS_TYPE_A_POS_TAG :: u16 where "FAPI_DMRS_TYPE_A_POS_TAG = 0x102A"

lemmas fapi_tags = FAPI_DL_BANDWIDTH_TAG_def FAPI_DL_FREQUENCY_TAG_def FAPI_NUM_TX_ANT_TAG_def
  FAPI_UPLINK_BANDWIDTH_TAG_def FAPI_UPLINK_FREQUENCY_TAG_def FAPI_NUM_RX_ANT_TAG_def
  FAPI_PHY_CELL_ID_TAG_def FAPI_FRAME_DUPLEX_TYPE_TAG_def FAPI_SS_PBCH_POWER_TAG_def
  FAPI_SCS_COMMON_TAG_def FAPI_PRACH_SUBC_SPACING_TAG_def FAPI_RESTRICTED_SET_CONFIG_TAG_def
  FAPI_NUM_PRACH_FD_OCCASIONS_TAG_def FAPI_PRACH_ROOT_SEQUENCE_INDEX_TAG_def FAPI_K1_TAG_def
  FAPI_PRACH_ZERO_CORR_CONF_TAG_def FAPI_SSB_PER_RACH_TAG_def FAPI_SSB_OFFSET_POINT_A_TAG_def
  FAPI_SSB_PERIOD_TAG_def FAPI_SSB_SUBCARRIER_OFFSET_TAG_def FAPI_MIB_TAG_def FAPI_SSB_MASK_TAG_def
  FAPI_BEAM_ID_TAG_def FAPI_TDD_PERIOD_TAG_def FAPI_SLOT_CONFIG_TAG_def
  FAPI_PRACH_CONFIG_INDEX_TAG_def FAPI_DMRS_TYPE_A_POS_TAG_def

text \<open>The shift count \<open>32 - (y << 3)\<close> is an int; C defines the shift for 0 to 31 only.\<close>

definition GETVLFRM32B :: "u32 \<Rightarrow> u16 \<Rightarrow> u32 option" where
  "GETVLFRM32B x y =
     (let n = 32 - push_bit 3 (uint y)
      in if 0 \<le> n \<and> n < 32 then Some (and x (drop_bit (nat n) 0xFFFFFFFF)) else None)"

section \<open>TDD period and FFT size\<close>

definition nr5g_fapi_calc_phy_tdd_period_for_n_subc_common_0 :: "u8 \<Rightarrow> u8" where
  "nr5g_fapi_calc_phy_tdd_period_for_n_subc_common_0 p =
     (if p = 2 then 1 else if p = 4 then 2 else if p = 6 then 5 else if p = 7 then 10 else 0)"

definition nr5g_fapi_calc_phy_tdd_period_for_n_subc_common_1 :: "u8 \<Rightarrow> u8" where
  "nr5g_fapi_calc_phy_tdd_period_for_n_subc_common_1 p =
     (if p = 0 then 1 else if p = 2 then 2 else if p = 4 then 4 else if p = 5 then 5
      else if p = 6 then 10 else if p = 7 then 20 else 0)"

definition nr5g_fapi_calc_phy_tdd_period_for_n_subc_common_2 :: "u8 \<Rightarrow> u8" where
  "nr5g_fapi_calc_phy_tdd_period_for_n_subc_common_2 p =
     (if p = 0 then 2 else if p = 2 then 4 else if p = 3 then 5 else if p = 4 then 8
      else if p = 5 then 10 else if p = 6 then 20 else if p = 7 then 40 else 0)"

definition nr5g_fapi_calc_phy_tdd_period_for_n_subc_common_3 :: "u8 \<Rightarrow> u8" where
  "nr5g_fapi_calc_phy_tdd_period_for_n_subc_common_3 p =
     (if p = 0 then 4 else if p = 1 then 5 else if p = 2 then 8 else if p = 3 then 10
      else if p = 4 then 16 else if p = 5 then 20 else if p = 6 then 40 else if p = 7 then 80 else 0)"

definition nr5g_fapi_calc_phy_tdd_period :: "u8 \<Rightarrow> u8 \<Rightarrow> u8" where
  "nr5g_fapi_calc_phy_tdd_period p n_subc_common =
     (if n_subc_common = 0 then nr5g_fapi_calc_phy_tdd_period_for_n_subc_common_0 p
      else if n_subc_common = 1 then nr5g_fapi_calc_phy_tdd_period_for_n_subc_common_1 p
      else if n_subc_common = 2 then nr5g_fapi_calc_phy_tdd_period_for_n_subc_common_2 p
      else if n_subc_common = 3 then nr5g_fapi_calc_phy_tdd_period_for_n_subc_common_3 p
      else 0)"

definition nr5g_fapi_calc_fft_size :: "u8 \<Rightarrow> u16 \<Rightarrow> u16" where
  "nr5g_fapi_calc_fft_size scs bw =
     (if scs = 0 then
        (if bw = 5 then 512 else if bw = 10 then 1024 else if bw = 15 \<or> bw = 20 then 2048
         else if bw = 25 \<or> bw = 30 \<or> bw = 40 \<or> bw = 50 then 4096 else 0)
      else if scs = 1 then
        (if bw = 5 \<or> bw = 10 then 512 else if bw = 15 \<or> bw = 20 then 1024
         else if bw = 25 \<or> bw = 30 \<or> bw = 40 \<or> bw = 50 then 2048
         else if bw = 60 \<or> bw = 70 \<or> bw = 80 \<or> bw = 90 \<or> bw = 100 then 4096 else 0)
      else if scs = 2 then
        (if bw = 10 \<or> bw = 15 \<or> bw = 20 \<or> bw = 25 then 512
         else if bw = 30 \<or> bw = 40 \<or> bw = 50 then 1024
         else if bw = 60 \<or> bw = 70 \<or> bw = 80 \<or> bw = 90 \<or> bw = 100 then 2048
         else if bw = 200 then 4096 else 0)
      else if scs = 3 then
        (if bw = 50 then 512 else if bw = 100 then 1024 else if bw = 200 then 2048
         else if bw = 400 then 4096 else 0)
      else 0)"

section \<open>The configuration and the state of the loop\<close>

datatype cfg_field = nDLBandwidth | nDLAbsFrePointA | nNrOfTxAnt | nULBandwidth | nULAbsFrePointA
  | nNrOfRxAnt | nPhyCellId | nFrameDuplexType | nSSBPwr | nSubcCommon | nSSBSubcSpacing
  | nPrachSubcSpacing | nPrachRestrictSet | nPrachFdm | nPrachConfIdx | nPrachRootSeqIdx
  | nPrachFreqStart | nPrachZeroCorrConf | nPrachSsbRach | nSSBPrbOffset | nSSBPeriod
  | nSSBSubcOffset | nMIB | nDMRSTypeAPos | nSSBMask | nBeamId | nTddPeriod | nSymbolType
  | nCarrierIdx | nCarrierAggregationLevel | nGroupHopFlag | nSequenceHopFlag | nHoppingId
  | nUrllcCapable | nUrllcMiniSlotMask | nPrachNrofRxRU | nNrOfDLPorts | nNrOfULPorts
  | nDLFftSize | nULFftSize

record phy_api =
  conv :: "cfg_field \<Rightarrow> u32 \<Rightarrow> u32"
  MAX_NUM_ANT_NR5G :: nat
  MAX_NUM_SLOT_CONFIG :: nat
  MAX_NUM_OF_SYMBOL_PER_SLOT :: nat

record ia_config =
  fld :: "cfg_field \<Rightarrow> u32"
  arr_mib :: "u32 list"
  arr_ssb_mask :: "u32 list"
  arr_beam_id :: "u32 list"
  arr_slot_config :: "u32 list list"

record nr5g_fapi_phy_config =
  phy_cell_id :: u16
  n_nr_of_rx_ant :: u8
  use_vendor_EpreXSSB :: u8
  sub_c_common :: u8

record cfg_state =
  idx_i :: nat
  n_ssb_mask_idx :: nat
  n_beamid_idx :: nat
  phy_config :: nr5g_fapi_phy_config
  ia :: ia_config

text \<open>The structure after it is cleared.\<close>

definition cleared_ia :: "phy_api \<Rightarrow> ia_config" where
  "cleared_ia p = \<lparr>fld = (\<lambda>_. 0), arr_mib = replicate 3 0, arr_ssb_mask = replicate 2 0,
     arr_beam_id = replicate (MAX_NUM_ANT_NR5G p) 0,
     arr_slot_config = replicate (MAX_NUM_SLOT_CONFIG p) (replicate (MAX_NUM_OF_SYMBOL_PER_SLOT p) 0)\<rparr>"

definition assign :: "phy_api \<Rightarrow> cfg_field \<Rightarrow> u32 \<Rightarrow> cfg_state \<Rightarrow> cfg_state" where
  "assign p f v s = s\<lparr>ia := (ia s)\<lparr>fld := (fld (ia s))(f := conv p f v)\<rparr>\<rparr>"

definition advance :: "cfg_state \<Rightarrow> cfg_state" where
  "advance s = s\<lparr>idx_i := Suc (idx_i s)\<rparr>"

text \<open>The cases that assign the value of the TLV, read with its length, to one field.\<close>

definition masked_field :: "u16 \<Rightarrow> cfg_field option" where
  "masked_field tag =
     (if tag = FAPI_DL_BANDWIDTH_TAG then Some nDLBandwidth
      else if tag = FAPI_NUM_TX_ANT_TAG then Some nNrOfTxAnt
      else if tag = FAPI_UPLINK_BANDWIDTH_TAG then Some nULBandwidth
      else if tag = FAPI_NUM_RX_ANT_TAG then Some nNrOfRxAnt
      else if tag = FAPI_PHY_CELL_ID_TAG then Some nPhyCellId
      else if tag = FAPI_FRAME_DUPLEX_TYPE_TAG then Some nFrameDuplexType
      else if tag = FAPI_PRACH_SUBC_SPACING_TAG then Some nPrachSubcSpacing
      else if tag = FAPI_RESTRICTED_SET_CONFIG_TAG then Some nPrachRestrictSet
      else if tag = FAPI_NUM_PRACH_FD_OCCASIONS_TAG then Some nPrachFdm
      else if tag = FAPI_PRACH_CONFIG_INDEX_TAG then Some nPrachConfIdx
      else if tag = FAPI_PRACH_ROOT_SEQUENCE_INDEX_TAG then Some nPrachRootSeqIdx
      else if tag = FAPI_K1_TAG then Some nPrachFreqStart
      else if tag = FAPI_PRACH_ZERO_CORR_CONF_TAG then Some nPrachZeroCorrConf
      else if tag = FAPI_SSB_PER_RACH_TAG then Some nPrachSsbRach
      else if tag = FAPI_SSB_PERIOD_TAG then Some nSSBPeriod
      else if tag = FAPI_DMRS_TYPE_A_POS_TAG then Some nDMRSTypeAPos
      else None)"

text \<open>The number of receive antennas and the cell id are also kept in the PHY instance.\<close>

definition copy_to_phy :: "u16 \<Rightarrow> cfg_state \<Rightarrow> cfg_state" where
  "copy_to_phy tag s =
     (if tag = FAPI_NUM_RX_ANT_TAG
      then s\<lparr>phy_config := (phy_config s)\<lparr>n_nr_of_rx_ant := ucast (fld (ia s) nNrOfRxAnt)\<rparr>\<rparr>
      else if tag = FAPI_PHY_CELL_ID_TAG
      then s\<lparr>phy_config := (phy_config s)\<lparr>phy_cell_id := ucast (fld (ia s) nPhyCellId)\<rparr>\<rparr>
      else s)"

definition ssb_pwr :: "u32 \<Rightarrow> u32" where
  "ssb_pwr v = (if v = 0 then 1 else if v = 54002 then 20000 else v - 54000)"

definition config_scs :: "phy_api \<Rightarrow> u32 \<Rightarrow> cfg_state \<Rightarrow> cfg_state" where
  "config_scs p v s =
     (let s1 = s\<lparr>phy_config := (phy_config s)\<lparr>sub_c_common := ucast v\<rparr>\<rparr>;
          s2 = assign p nSSBSubcSpacing (ucast (sub_c_common (phy_config s1))) s1
      in assign p nSubcCommon (fld (ia s2) nSSBSubcSpacing) s2)"

definition config_mib :: "phy_api \<Rightarrow> u32 \<Rightarrow> cfg_state \<Rightarrow> cfg_state" where
  "config_mib p mib s =
     s\<lparr>ia := (ia s)\<lparr>arr_mib := (arr_mib (ia s))
        [0 := conv p nMIB (ucast (ucast (drop_bit 24 mib) :: u8)),
         1 := conv p nMIB (ucast (ucast (drop_bit 16 mib) :: u8)),
         2 := conv p nMIB (ucast (ucast (drop_bit 8 mib) :: u8))]\<rparr>\<rparr>"

section \<open>One TLV\<close>

text \<open>The cases other than \<open>FAPI_SLOT_CONFIG_TAG\<close>.  A tag that no case handles, a third SSB mask
  and a beam id too many leave the index as it is.\<close>

definition config_tlv :: "phy_api \<Rightarrow> fapi_tlv \<Rightarrow> cfg_state \<Rightarrow> cfg_state option" where
  "config_tlv p t s =
     (let tag = tlv_tag t; v = tlv_value t; read = GETVLFRM32B v (tlv_length t)
      in case masked_field tag of
           Some f \<Rightarrow> Option.bind read (\<lambda>x. Some (advance (copy_to_phy tag (assign p f x s))))
         | None \<Rightarrow>
        if tag = FAPI_DL_FREQUENCY_TAG then Some (advance (assign p nDLAbsFrePointA v s))
        else if tag = FAPI_UPLINK_FREQUENCY_TAG then Some (advance (assign p nULAbsFrePointA v s))
        else if tag = FAPI_SS_PBCH_POWER_TAG then Some (advance (assign p nSSBPwr (ssb_pwr v) s))
        else if tag = FAPI_SCS_COMMON_TAG then Option.bind read (\<lambda>x. Some (advance (config_scs p x s)))
        else if tag = FAPI_SSB_OFFSET_POINT_A_TAG then
          Option.bind read (\<lambda>x. Some (advance
            (assign p nSSBPrbOffset (of_nat (unat x div 2 ^ unat (fld (ia s) nSubcCommon))) s)))
        else if tag = FAPI_SSB_SUBCARRIER_OFFSET_TAG then
          (if unat (tlv_length t) < 32
           then Some (advance (assign p nSSBSubcOffset (drop_bit (unat (tlv_length t)) v) s)) else None)
        else if tag = FAPI_MIB_TAG then Some (advance (config_mib p v s))
        else if tag = FAPI_SSB_MASK_TAG then
          (if n_ssb_mask_idx s < 2
           then Some (advance (s\<lparr>ia := (ia s)\<lparr>arr_ssb_mask := (arr_ssb_mask (ia s))[n_ssb_mask_idx s := conv p nSSBMask v]\<rparr>,
                                n_ssb_mask_idx := Suc (n_ssb_mask_idx s)\<rparr>))
           else Some s)
        else if tag = FAPI_BEAM_ID_TAG then
          (if n_beamid_idx s < MAX_NUM_ANT_NR5G p
           then Option.bind read (\<lambda>x. Some (advance (s\<lparr>ia := (ia s)\<lparr>arr_beam_id := (arr_beam_id (ia s))[n_beamid_idx s := conv p nBeamId x]\<rparr>,
                                n_beamid_idx := Suc (n_beamid_idx s)\<rparr>)))
           else Some s)
        else if tag = FAPI_TDD_PERIOD_TAG then
          Option.bind read (\<lambda>x. Some (advance (assign p nTddPeriod
            (ucast (nr5g_fapi_calc_phy_tdd_period (ucast x) (ucast (fld (ia s) nSubcCommon)))) s)))
        else Some s)"

text \<open>The slot table takes a TLV for each symbol of each slot of the period.  The third argument
  counts the iterations that are left.\<close>

fun slot_symbols :: "phy_api \<Rightarrow> fapi_tlv list \<Rightarrow> nat \<Rightarrow> nat \<Rightarrow> nat \<Rightarrow> u32 list \<Rightarrow> (u32 list \<times> nat) option" where
  "slot_symbols p tlvs 0 k i row = Some (row, i)"
| "slot_symbols p tlvs (Suc n) k i row =
     (if i < length tlvs \<and> k < length row then
        Option.bind (GETVLFRM32B (tlv_value (tlvs ! i)) (tlv_length (tlvs ! i)))
          (\<lambda>x. slot_symbols p tlvs n (Suc k) (Suc i) (row[k := conv p nSymbolType x]))
      else None)"

fun slot_table :: "phy_api \<Rightarrow> fapi_tlv list \<Rightarrow> nat \<Rightarrow> nat \<Rightarrow> nat \<Rightarrow> u32 list list \<Rightarrow> (u32 list list \<times> nat) option" where
  "slot_table p tlvs 0 j i rows = Some (rows, i)"
| "slot_table p tlvs (Suc n) j i rows =
     (if j < length rows then
        Option.bind (slot_symbols p tlvs (MAX_NUM_OF_SYMBOL_PER_SLOT p) 0 i (rows ! j))
          (\<lambda>(row, i'). slot_table p tlvs n (Suc j) i' (rows[j := row]))
      else None)"

definition config_slots :: "phy_api \<Rightarrow> fapi_tlv list \<Rightarrow> cfg_state \<Rightarrow> cfg_state option" where
  "config_slots p tlvs s =
     Option.bind (slot_table p tlvs (unat (fld (ia s) nTddPeriod)) 0 (idx_i s) (arr_slot_config (ia s)))
       (\<lambda>(rows, i). Some (s\<lparr>ia := (ia s)\<lparr>arr_slot_config := rows\<rparr>, idx_i := i\<rparr>))"

definition config_step :: "phy_api \<Rightarrow> fapi_tlv list \<Rightarrow> cfg_state \<Rightarrow> cfg_state option" where
  "config_step p tlvs s =
     (if idx_i s < length tlvs then
        let t = tlvs ! idx_i s
        in if tlv_tag t = FAPI_SLOT_CONFIG_TAG then config_slots p tlvs s else config_tlv p t s
      else None)"

section \<open>The loop\<close>

partial_function (option) config_loop ::
    "phy_api \<Rightarrow> nat \<Rightarrow> fapi_tlv list \<Rightarrow> cfg_state \<Rightarrow> cfg_state option option" where
  "config_loop p n tlvs s =
     (if idx_i s < n then
        (case config_step p tlvs s of
           None \<Rightarrow> Some None
         | Some s' \<Rightarrow> config_loop p n tlvs s')
      else Some (Some s))"

definition nr5g_fapi_config_req_fill_dependent_fields :: "phy_api \<Rightarrow> cfg_state \<Rightarrow> cfg_state" where
  "nr5g_fapi_config_req_fill_dependent_fields p s =
     (if fld (ia s) nFrameDuplexType = 0 then assign p nTddPeriod 0 s else s)"

definition nr5g_fapi_config_req_to_phy_translation ::
    "phy_api \<Rightarrow> u8 \<Rightarrow> fapi_tlv list \<Rightarrow> nr5g_fapi_phy_config \<Rightarrow> ia_config \<Rightarrow> cfg_state option option" where
  "nr5g_fapi_config_req_to_phy_translation p number_of_tlvs tlvs pc c =
     (case config_loop p (unat number_of_tlvs) tlvs
             \<lparr>idx_i = 0, n_ssb_mask_idx = 0, n_beamid_idx = 0, phy_config = pc, ia = c\<rparr> of
        None \<Rightarrow> None
      | Some None \<Rightarrow> Some None
      | Some (Some s) \<Rightarrow> Some (Some (nr5g_fapi_config_req_fill_dependent_fields p s)))"

lemmas tdd_calc_defs = nr5g_fapi_calc_phy_tdd_period_def
  nr5g_fapi_calc_phy_tdd_period_for_n_subc_common_0_def nr5g_fapi_calc_phy_tdd_period_for_n_subc_common_1_def
  nr5g_fapi_calc_phy_tdd_period_for_n_subc_common_2_def nr5g_fapi_calc_phy_tdd_period_for_n_subc_common_3_def

section \<open>Single TLVs\<close>

definition readable :: "fapi_tlv \<Rightarrow> bool" where
  "readable t \<longleftrightarrow> tlv_length t \<in> {1, 2, 3, 4}"

definition tlv_bytes :: "fapi_tlv \<Rightarrow> u32" where
  "tlv_bytes t = take_bit (8 * unat (tlv_length t)) (tlv_value t)"

definition single_tag :: "u16 \<Rightarrow> bool" where
  "single_tag tag \<longleftrightarrow> masked_field tag \<noteq> None \<or>
     tag \<in> {FAPI_DL_FREQUENCY_TAG, FAPI_UPLINK_FREQUENCY_TAG, FAPI_SS_PBCH_POWER_TAG, FAPI_SCS_COMMON_TAG,
       FAPI_SSB_OFFSET_POINT_A_TAG, FAPI_SSB_SUBCARRIER_OFFSET_TAG, FAPI_MIB_TAG, FAPI_SSB_MASK_TAG,
       FAPI_BEAM_ID_TAG, FAPI_TDD_PERIOD_TAG}"

definition tag_count :: "u16 \<Rightarrow> fapi_tlv list \<Rightarrow> nat" where
  "tag_count tag ts = length (filter (\<lambda>t. tlv_tag t = tag) ts)"

lemma and_drop_mask:
  fixes x :: u32
  assumes that: "n \<le> 32"
  shows "and x (drop_bit (32 - n) 0xFFFFFFFF) = take_bit n x"
proof -
  have "(0xFFFFFFFF :: u32) = mask 32" by (simp add: mask_eq_exp_minus_1)
  then have "drop_bit (32 - n) (0xFFFFFFFF :: u32) = mask n"
    using that unfolding \<open>0xFFFFFFFF = mask 32\<close> by (intro bit_word_eqI) (auto simp add: bit_simps)
  then show ?thesis by (simp add: take_bit_eq_mask)
qed

lemma GETVLFRM32B_readable:
  assumes "readable t"
  shows "GETVLFRM32B (tlv_value t) (tlv_length t) = Some (tlv_bytes t)"
proof -
  have "unat (tlv_length t) \<in> {1, 2, 3, 4}" using assms by (auto simp: readable_def)
  then obtain k where k: "k \<in> {1, 2, 3, 4}" "unat (tlv_length t) = k" by blast
  then have "uint (tlv_length t) = int k" by (metis uint_nat)
  then show ?thesis using k and_drop_mask [of "8 * k" "tlv_value t"]
    by (auto simp: GETVLFRM32B_def tlv_bytes_def push_bit_eq_mult Let_def)
qed

lemma masked_field_None [simp]:
  "masked_field FAPI_DL_FREQUENCY_TAG = None" "masked_field FAPI_UPLINK_FREQUENCY_TAG = None"
  "masked_field FAPI_SS_PBCH_POWER_TAG = None" "masked_field FAPI_SCS_COMMON_TAG = None"
  "masked_field FAPI_SSB_OFFSET_POINT_A_TAG = None" "masked_field FAPI_SSB_SUBCARRIER_OFFSET_TAG = None"
  "masked_field FAPI_MIB_TAG = None" "masked_field FAPI_SSB_MASK_TAG = None"
  "masked_field FAPI_BEAM_ID_TAG = None" "masked_field FAPI_TDD_PERIOD_TAG = None"
  "masked_field FAPI_SLOT_CONFIG_TAG = None"
  by (simp_all add: masked_field_def fapi_tags)

lemma single_tag_slot_config [simp]: "\<not> single_tag FAPI_SLOT_CONFIG_TAG"
  by (simp add: single_tag_def) (simp add: fapi_tags)

lemma masked_field_range:
  assumes "masked_field tag = Some f"
  shows "f \<notin> {nDLAbsFrePointA, nULAbsFrePointA, nSSBPwr, nSubcCommon, nSSBSubcSpacing, nSSBPrbOffset,
           nSSBSubcOffset, nTddPeriod}"
  using assms by (auto simp: masked_field_def split: if_splits)

lemma assign_simps [simp]:
  "fld (ia (assign p f v s)) = (fld (ia s))(f := conv p f v)"
  "idx_i (assign p f v s) = idx_i s"
  "n_ssb_mask_idx (assign p f v s) = n_ssb_mask_idx s"
  "n_beamid_idx (assign p f v s) = n_beamid_idx s"
  "arr_slot_config (ia (assign p f v s)) = arr_slot_config (ia s)"
  "arr_mib (ia (assign p f v s)) = arr_mib (ia s)" "arr_ssb_mask (ia (assign p f v s)) = arr_ssb_mask (ia s)"
  "arr_beam_id (ia (assign p f v s)) = arr_beam_id (ia s)"
  "phy_config (assign p f v s) = phy_config s"
  by (simp_all add: assign_def)

lemma advance_simps [simp]:
  "ia (advance s) = ia s" "idx_i (advance s) = Suc (idx_i s)" "phy_config (advance s) = phy_config s"
  "n_ssb_mask_idx (advance s) = n_ssb_mask_idx s" "n_beamid_idx (advance s) = n_beamid_idx s"
  by (simp_all add: advance_def)

lemma copy_to_phy_simps [simp]:
  "ia (copy_to_phy tag s) = ia s" "idx_i (copy_to_phy tag s) = idx_i s"
  "n_ssb_mask_idx (copy_to_phy tag s) = n_ssb_mask_idx s" "n_beamid_idx (copy_to_phy tag s) = n_beamid_idx s"
  by (simp_all add: copy_to_phy_def)

text \<open>The subcarrier spacing and the TDD period, and what a TLV makes of them: the period is
  computed with the spacing that is known when its TLV is read.\<close>

definition tdd_of :: "cfg_state \<Rightarrow> u32 \<times> u32" where
  "tdd_of s = (fld (ia s) nSubcCommon, fld (ia s) nTddPeriod)"

definition tdd_tlv :: "phy_api \<Rightarrow> u32 \<times> u32 \<Rightarrow> fapi_tlv \<Rightarrow> u32 \<times> u32" where
  "tdd_tlv p a t =
     (if tlv_tag t = FAPI_SCS_COMMON_TAG
      then (conv p nSubcCommon (conv p nSSBSubcSpacing (ucast (ucast (tlv_bytes t) :: u8))), snd a)
      else if tlv_tag t = FAPI_TDD_PERIOD_TAG
      then (fst a, conv p nTddPeriod (ucast (nr5g_fapi_calc_phy_tdd_period (ucast (tlv_bytes t)) (ucast (fst a)))))
      else a)"

text \<open>What a TLV does to the parts of the state that the properties speak of.\<close>

definition tlv_effect :: "phy_api \<Rightarrow> fapi_tlv \<Rightarrow> cfg_state \<Rightarrow> cfg_state \<Rightarrow> bool" where
  "tlv_effect p t s s' \<longleftrightarrow>
     idx_i s' = Suc (idx_i s)
     \<and> n_ssb_mask_idx s' = n_ssb_mask_idx s + (if tlv_tag t = FAPI_SSB_MASK_TAG then 1 else 0)
     \<and> n_beamid_idx s' = n_beamid_idx s + (if tlv_tag t = FAPI_BEAM_ID_TAG then 1 else 0)
     \<and> arr_slot_config (ia s') = arr_slot_config (ia s)
     \<and> tdd_of s' = tdd_tlv p (tdd_of s) t"

lemma config_tlv_masked:
  assumes "readable t" "masked_field (tlv_tag t) = Some f"
  shows "\<exists>s'. config_tlv p t s = Some s' \<and> tlv_effect p t s s'"
proof -
  let ?s = "advance (copy_to_phy (tlv_tag t) (assign p f (tlv_bytes t) s))"
  have step: "config_tlv p t s = Some ?s"
    using assms by (simp add: config_tlv_def Let_def GETVLFRM32B_readable)
  have ne: "tlv_tag t \<noteq> FAPI_SSB_MASK_TAG" "tlv_tag t \<noteq> FAPI_BEAM_ID_TAG" using assms(2) by auto
  have "tdd_of ?s = tdd_tlv p (tdd_of s) t"
    using masked_field_range [OF assms(2)] assms(2) by (auto simp: tdd_of_def tdd_tlv_def)
  then have "tlv_effect p t s ?s" using ne by (simp add: tlv_effect_def)
  then show ?thesis using step by blast
qed

lemma config_tlv_special:
  assumes "readable t" "single_tag (tlv_tag t)" "masked_field (tlv_tag t) = None"
    and "tlv_tag t = FAPI_SSB_MASK_TAG \<Longrightarrow> n_ssb_mask_idx s < 2"
    and "tlv_tag t = FAPI_BEAM_ID_TAG \<Longrightarrow> n_beamid_idx s < MAX_NUM_ANT_NR5G p"
  shows "\<exists>s'. config_tlv p t s = Some s' \<and> tlv_effect p t s s'"
proof -
  have len: "unat (tlv_length t) < 32" using assms(1) by (auto simp: readable_def)
  have split: "tlv_tag t = FAPI_DL_FREQUENCY_TAG \<or> tlv_tag t = FAPI_UPLINK_FREQUENCY_TAG \<or>
      tlv_tag t = FAPI_SS_PBCH_POWER_TAG \<or> tlv_tag t = FAPI_SCS_COMMON_TAG \<or>
      tlv_tag t = FAPI_SSB_OFFSET_POINT_A_TAG \<or> tlv_tag t = FAPI_SSB_SUBCARRIER_OFFSET_TAG \<or>
      tlv_tag t = FAPI_MIB_TAG \<or> tlv_tag t = FAPI_SSB_MASK_TAG \<or> tlv_tag t = FAPI_BEAM_ID_TAG \<or>
      tlv_tag t = FAPI_TDD_PERIOD_TAG"
    using assms(2,3) by (simp add: single_tag_def)
  show ?thesis
    using split assms(1,3,4,5) len
    by (elim disjE) (simp_all add: config_tlv_def Let_def GETVLFRM32B_readable tlv_effect_def config_scs_def
        config_mib_def tdd_of_def tdd_tlv_def fapi_tags)
qed

lemma config_tlv_single:
  assumes "readable t" "single_tag (tlv_tag t)"
    and "tlv_tag t = FAPI_SSB_MASK_TAG \<Longrightarrow> n_ssb_mask_idx s < 2"
    and "tlv_tag t = FAPI_BEAM_ID_TAG \<Longrightarrow> n_beamid_idx s < MAX_NUM_ANT_NR5G p"
  shows "\<exists>s'. config_tlv p t s = Some s' \<and> tlv_effect p t s s'"
proof (cases "masked_field (tlv_tag t)")
  case None then show ?thesis using assms config_tlv_special by blast
next
  case (Some f) then show ?thesis using assms(1) config_tlv_masked by blast
qed

section \<open>Runs of the loop\<close>

lemma config_loop_done [simp]: "\<not> idx_i s < n \<Longrightarrow> config_loop p n tlvs s = Some (Some s)"
  by (subst config_loop.simps) simp

lemma config_loop_next:
  "idx_i s < n \<Longrightarrow> config_step p tlvs s = Some s' \<Longrightarrow> config_loop p n tlvs s = config_loop p n tlvs s'"
  by (subst config_loop.simps) simp

text \<open>A step that changes nothing is repeated forever.\<close>

lemma config_loop_stuck:
  assumes "idx_i s < n" "config_step p tlvs s = Some s"
  shows "config_loop p n tlvs s = None"
proof -
  have "\<not> (idx_i s < n \<and> config_step p tlvs s = Some s)" if "config_loop p n tlvs s = Some y" for y
    using that
  proof (rule config_loop.raw_induct [rotated])
    fix f :: "phy_api \<Rightarrow> nat \<Rightarrow> fapi_tlv list \<Rightarrow> cfg_state \<Rightarrow> cfg_state option option"
    fix p n tlvs s y
    assume IH: "\<And>p n tlvs s y. f p n tlvs s = Some y \<Longrightarrow> \<not> (idx_i s < n \<and> config_step p tlvs s = Some s)"
      and eq: "(if idx_i s < n then case config_step p tlvs s of None \<Rightarrow> Some None | Some s' \<Rightarrow> f p n tlvs s'
                else Some (Some s)) = Some y"
    show "\<not> (idx_i s < n \<and> config_step p tlvs s = Some s)"
      using IH eq by fastforce
  qed
  then show ?thesis using assms by (cases "config_loop p n tlvs s") blast+
qed

definition single_tlvs :: "phy_api \<Rightarrow> fapi_tlv list \<Rightarrow> bool" where
  "single_tlvs p ts \<longleftrightarrow> (\<forall>t \<in> set ts. readable t \<and> single_tag (tlv_tag t))
     \<and> tag_count FAPI_SSB_MASK_TAG ts \<le> 2 \<and> tag_count FAPI_BEAM_ID_TAG ts \<le> MAX_NUM_ANT_NR5G p"

lemma tag_count_simps [simp]:
  "tag_count tag [] = 0"
  "tag_count tag (ts @ [t]) = tag_count tag ts + (if tlv_tag t = tag then 1 else 0)"
  by (simp_all add: tag_count_def)

text \<open>What the configuration has to be, from the numbers of the tags in the FAPI tables and
  independently of the dispatch of the code.  First the period of the TDD pattern in slots: the
  periods of the FAPI table, in microseconds, times the slots per millisecond when that is a
  whole number, and 0 otherwise.\<close>

definition tdd_period_us :: "nat list" where
  "tdd_period_us = [500, 625, 1000, 1250, 2000, 2500, 5000, 10000]"

definition slots_of_period :: "u8 \<Rightarrow> u8 \<Rightarrow> nat" where
  "slots_of_period i mu =
    (if unat mu < 4 \<and> unat i < 8 \<and> 1000 dvd tdd_period_us ! unat i * 2 ^ unat mu
     then tdd_period_us ! unat i * 2 ^ unat mu div 1000 else 0)"

text \<open>The TLV that each field is read from.\<close>

definition tag_of_field :: "cfg_field \<Rightarrow> u16 option" where
  "tag_of_field f = (case f of
       nDLBandwidth \<Rightarrow> Some 0x1001 | nDLAbsFrePointA \<Rightarrow> Some 0x1002 | nNrOfTxAnt \<Rightarrow> Some 0x1005
     | nULBandwidth \<Rightarrow> Some 0x1006 | nULAbsFrePointA \<Rightarrow> Some 0x1007 | nNrOfRxAnt \<Rightarrow> Some 0x100A
     | nPhyCellId \<Rightarrow> Some 0x100C | nFrameDuplexType \<Rightarrow> Some 0x100D | nSSBPwr \<Rightarrow> Some 0x100E
     | nSubcCommon \<Rightarrow> Some 0x1010 | nSSBSubcSpacing \<Rightarrow> Some 0x1010
     | nPrachSubcSpacing \<Rightarrow> Some 0x1012 | nPrachRestrictSet \<Rightarrow> Some 0x1013 | nPrachFdm \<Rightarrow> Some 0x1014
     | nPrachRootSeqIdx \<Rightarrow> Some 0x1015 | nPrachFreqStart \<Rightarrow> Some 0x1017
     | nPrachZeroCorrConf \<Rightarrow> Some 0x1018 | nPrachSsbRach \<Rightarrow> Some 0x101B
     | nSSBPrbOffset \<Rightarrow> Some 0x101D | nSSBPeriod \<Rightarrow> Some 0x101F | nSSBSubcOffset \<Rightarrow> Some 0x1020
     | nTddPeriod \<Rightarrow> Some 0x1026 | nPrachConfIdx \<Rightarrow> Some 0x1029 | nDMRSTypeAPos \<Rightarrow> Some 0x102A
     | _ \<Rightarrow> None)"

text \<open>The tags that are read, the two masks, the beams and the MIB among them.\<close>

definition config_tags :: "u16 list" where
  "config_tags = [0x1001, 0x1002, 0x1005, 0x1006, 0x1007, 0x100A, 0x100C, 0x100D, 0x100E, 0x1010, 0x1012,
     0x1013, 0x1014, 0x1015, 0x1017, 0x1018, 0x101B, 0x101D, 0x101F, 0x1020, 0x1021, 0x1022, 0x1023,
     0x1026, 0x1029, 0x102A]"

text \<open>What is assigned to a field, given the subcarrier spacing known at the TLV: the value of as
  many bytes as the length says, except that the frequencies are taken whole, the power is
  translated, the spacing is stored in one byte and in the field of the SSB first, the offset of
  the SSB is divided by the slots per millisecond, the subcarrier offset is shifted by the length,
  and the TDD period is given in slots.\<close>

definition field_value :: "phy_api \<Rightarrow> u32 \<Rightarrow> cfg_field \<Rightarrow> fapi_tlv \<Rightarrow> u32" where
  "field_value p spacing f t =
     (let v = tlv_value t; bytes = tlv_bytes t
      in case f of
           nDLAbsFrePointA \<Rightarrow> v
         | nULAbsFrePointA \<Rightarrow> v
         | nSSBPwr \<Rightarrow> (if v = 0 then 1 else if v = 54002 then 20000 else v - 54000)
         | nSSBSubcSpacing \<Rightarrow> take_bit 8 bytes
         | nSubcCommon \<Rightarrow> conv p nSSBSubcSpacing (take_bit 8 bytes)
         | nSSBPrbOffset \<Rightarrow> of_nat (unat bytes div 2 ^ unat spacing)
         | nSSBSubcOffset \<Rightarrow> of_nat (unat v div 2 ^ unat (tlv_length t))
         | nTddPeriod \<Rightarrow> of_nat (slots_of_period (ucast bytes) (ucast spacing))
         | _ \<Rightarrow> bytes)"

text \<open>The last TLV with a tag, and those before it.\<close>

definition split_last :: "u16 \<Rightarrow> fapi_tlv list \<Rightarrow> (fapi_tlv list \<times> fapi_tlv) option" where
  "split_last tag ts = (case dropWhile (\<lambda>t. tlv_tag t \<noteq> tag) (rev ts) of [] \<Rightarrow> None | t # r \<Rightarrow> Some (rev r, t))"

definition spacing_after :: "phy_api \<Rightarrow> ia_config \<Rightarrow> fapi_tlv list \<Rightarrow> u32" where
  "spacing_after p c ts = (case split_last 0x1010 ts of None \<Rightarrow> fld c nSubcCommon
     | Some (_, t) \<Rightarrow> conv p nSubcCommon (conv p nSSBSubcSpacing (take_bit 8 (tlv_bytes t))))"

definition expected_field :: "phy_api \<Rightarrow> ia_config \<Rightarrow> fapi_tlv list \<Rightarrow> cfg_field \<Rightarrow> u32" where
  "expected_field p c ts f =
     (case Option.bind (tag_of_field f) (\<lambda>tag. split_last tag ts) of
        None \<Rightarrow> fld c f
      | Some (before, t) \<Rightarrow> conv p f (field_value p (spacing_after p c before) f t))"

text \<open>The arrays: three bytes of the last MIB, and the masks and beams in the order of their TLVs.\<close>

definition with_tag :: "u16 \<Rightarrow> fapi_tlv list \<Rightarrow> fapi_tlv list" where
  "with_tag tag ts = filter (\<lambda>t. tlv_tag t = tag) ts"

definition expected_arrays :: "phy_api \<Rightarrow> ia_config \<Rightarrow> fapi_tlv list \<Rightarrow> ia_config \<Rightarrow> bool" where
  "expected_arrays p c ts c' \<longleftrightarrow>
     arr_mib c' = (case split_last 0x1021 ts of None \<Rightarrow> arr_mib c
       | Some (_, t) \<Rightarrow> map (\<lambda>sh. conv p nMIB (take_bit 8 (drop_bit sh (tlv_value t)))) [24, 16, 8])
     \<and> arr_ssb_mask c' = map (\<lambda>t. conv p nSSBMask (tlv_value t)) (with_tag 0x1022 ts)
         @ drop (length (with_tag 0x1022 ts)) (arr_ssb_mask c)
     \<and> arr_beam_id c' = map (\<lambda>t. conv p nBeamId (tlv_bytes t)) (with_tag 0x1023 ts)
         @ drop (length (with_tag 0x1023 ts)) (arr_beam_id c)
     \<and> arr_slot_config c' = arr_slot_config c"

text \<open>What the instance keeps of it.\<close>

definition expected_phy :: "phy_api \<Rightarrow> nr5g_fapi_phy_config \<Rightarrow> fapi_tlv list \<Rightarrow> nr5g_fapi_phy_config" where
  "expected_phy p pc ts =
     \<lparr>phy_cell_id = (case split_last 0x100C ts of None \<Rightarrow> phy_cell_id pc
         | Some (_, t) \<Rightarrow> ucast (conv p nPhyCellId (tlv_bytes t))),
      n_nr_of_rx_ant = (case split_last 0x100A ts of None \<Rightarrow> n_nr_of_rx_ant pc
         | Some (_, t) \<Rightarrow> ucast (conv p nNrOfRxAnt (tlv_bytes t))),
      use_vendor_EpreXSSB = use_vendor_EpreXSSB pc,
      sub_c_common = (case split_last 0x1010 ts of None \<Rightarrow> sub_c_common pc
         | Some (_, t) \<Rightarrow> ucast (tlv_bytes t))\<rparr>"

text \<open>The sizes of the arrays, and the requests the translation takes.\<close>

definition ia_shaped :: "phy_api \<Rightarrow> ia_config \<Rightarrow> bool" where
  "ia_shaped p c \<longleftrightarrow> length (arr_mib c) = 3 \<and> length (arr_ssb_mask c) = 2
     \<and> length (arr_beam_id c) = MAX_NUM_ANT_NR5G p"

definition well_formed_tlvs :: "phy_api \<Rightarrow> fapi_tlv list \<Rightarrow> bool" where
  "well_formed_tlvs p ts \<longleftrightarrow> (\<forall>t \<in> set ts. readable t \<and> tlv_tag t \<in> set config_tags)
     \<and> length (with_tag 0x1022 ts) \<le> 2 \<and> length (with_tag 0x1023 ts) \<le> MAX_NUM_ANT_NR5G p"

lemma single_tag_numbers: "single_tag a \<longleftrightarrow> a \<in> set config_tags"
  by (auto simp: single_tag_def masked_field_def fapi_tags config_tags_def)

lemma well_formed_single: "well_formed_tlvs p ts \<longleftrightarrow> single_tlvs p ts"
  by (simp add: well_formed_tlvs_def single_tlvs_def single_tag_numbers tag_count_def with_tag_def fapi_tags)

lemma split_last_simps [simp]:
  "split_last tag [] = None"
  "split_last tag (ts @ [t]) = (if tlv_tag t = tag then Some (ts, t) else split_last tag ts)"
  by (simp_all add: split_last_def)

lemma with_tag_simps [simp]:
  "with_tag tag [] = []"
  "with_tag tag (ts @ [t]) = with_tag tag ts @ (if tlv_tag t = tag then [t] else [])"
  by (simp_all add: with_tag_def)

lemma expected_field_snoc:
  "expected_field p c (ts @ [t]) f = (if tag_of_field f = Some (tlv_tag t)
     then conv p f (field_value p (spacing_after p c ts) f t) else expected_field p c ts f)"
  by (cases "tag_of_field f") (simp_all add: expected_field_def)

lemma expected_spacing: "expected_field p c ts nSubcCommon = spacing_after p c ts"
  by (auto simp: expected_field_def spacing_after_def tag_of_field_def field_value_def split: option.splits)

lemma tdd_period_is_the_number_of_slots: "unat (nr5g_fapi_calc_phy_tdd_period i mu) = slots_of_period i mu"
proof (cases "unat mu < 4 \<and> unat i < 8")
  case True
  then have "unat mu = 0 \<or> unat mu = 1 \<or> unat mu = 2 \<or> unat mu = 3" by linarith
  then have mu: "mu = 0 \<or> mu = 1 \<or> mu = 2 \<or> mu = 3" by (simp add: word_unat_eq_iff)
  have "unat i = 0 \<or> unat i = 1 \<or> unat i = 2 \<or> unat i = 3 \<or> unat i = 4 \<or> unat i = 5 \<or> unat i = 6 \<or> unat i = 7"
    using True by linarith
  then have "i = 0 \<or> i = 1 \<or> i = 2 \<or> i = 3 \<or> i = 4 \<or> i = 5 \<or> i = 6 \<or> i = 7"
    by (simp add: word_unat_eq_iff)
  then show ?thesis using mu
    by (elim disjE) (simp_all add: tdd_calc_defs tdd_period_us_def slots_of_period_def)
next
  case False
  have "nr5g_fapi_calc_phy_tdd_period i mu = 0"
  proof (rule ccontr)
    assume "nr5g_fapi_calc_phy_tdd_period i mu \<noteq> 0"
    then have "mu \<in> {0, 1, 2, 3}" "i \<in> {0, 1, 2, 3, 4, 5, 6, 7}"
      by (auto simp: tdd_calc_defs split: if_splits)
    then show False using False by auto
  qed
  then show ?thesis using False by (auto simp: slots_of_period_def)
qed

text \<open>The state of the loop after some TLVs.\<close>

definition cfg_matches :: "phy_api \<Rightarrow> nr5g_fapi_phy_config \<Rightarrow> ia_config \<Rightarrow> fapi_tlv list \<Rightarrow> cfg_state \<Rightarrow> bool" where
  "cfg_matches p pc c ts s \<longleftrightarrow> fld (ia s) = expected_field p c ts \<and> expected_arrays p c ts (ia s)
     \<and> phy_config s = expected_phy p pc ts"

lemma cfg_matches_Nil: "cfg_matches p (phy_config s) (ia s) [] s"
  by (simp add: cfg_matches_def expected_arrays_def expected_phy_def expected_field_def fun_eq_iff
      split: option.splits)

text \<open>A TLV of each tag, by the number of the tag.\<close>

lemma tags_of_fields:
  "(tag_of_field f = Some 0x1001) = (f = nDLBandwidth)"
  "(tag_of_field f = Some 0x1002) = (f = nDLAbsFrePointA)"
  "(tag_of_field f = Some 0x1005) = (f = nNrOfTxAnt)"
  "(tag_of_field f = Some 0x1006) = (f = nULBandwidth)"
  "(tag_of_field f = Some 0x1007) = (f = nULAbsFrePointA)"
  "(tag_of_field f = Some 0x100A) = (f = nNrOfRxAnt)"
  "(tag_of_field f = Some 0x100C) = (f = nPhyCellId)"
  "(tag_of_field f = Some 0x100D) = (f = nFrameDuplexType)"
  "(tag_of_field f = Some 0x100E) = (f = nSSBPwr)"
  "(tag_of_field f = Some 0x1010) = (f = nSubcCommon \<or> f = nSSBSubcSpacing)"
  "(tag_of_field f = Some 0x1012) = (f = nPrachSubcSpacing)"
  "(tag_of_field f = Some 0x1013) = (f = nPrachRestrictSet)"
  "(tag_of_field f = Some 0x1014) = (f = nPrachFdm)"
  "(tag_of_field f = Some 0x1015) = (f = nPrachRootSeqIdx)"
  "(tag_of_field f = Some 0x1017) = (f = nPrachFreqStart)"
  "(tag_of_field f = Some 0x1018) = (f = nPrachZeroCorrConf)"
  "(tag_of_field f = Some 0x101B) = (f = nPrachSsbRach)"
  "(tag_of_field f = Some 0x101D) = (f = nSSBPrbOffset)"
  "(tag_of_field f = Some 0x101F) = (f = nSSBPeriod)"
  "(tag_of_field f = Some 0x1020) = (f = nSSBSubcOffset)"
  "(tag_of_field f = Some 0x1021) = False"
  "(tag_of_field f = Some 0x1022) = False"
  "(tag_of_field f = Some 0x1023) = False"
  "(tag_of_field f = Some 0x1026) = (f = nTddPeriod)"
  "(tag_of_field f = Some 0x1029) = (f = nPrachConfIdx)"
  "(tag_of_field f = Some 0x102A) = (f = nDMRSTypeAPos)"
  by (cases f; simp add: tag_of_field_def)+

lemma fields_step:
  assumes "config_tlv p t s = Some s'" "readable t" "tlv_tag t \<in> set config_tags"
  shows "fld (ia s') f = (if tag_of_field f = Some (tlv_tag t)
     then conv p f (field_value p (fld (ia s) nSubcCommon) f t) else fld (ia s) f)"
proof -
  have len: "unat (tlv_length t) < 32" using assms(2) by (auto simp: readable_def)
  have off: "of_nat (unat x div 2 ^ k) = drop_bit k x" for k and x :: u32
  proof -
    have "unat (drop_bit k x) = unat x div 2 ^ k" unfolding unat_drop_bit_eq by (rule drop_bit_eq_div)
    then show ?thesis by (metis word_unat_eq_iff of_nat_unat ucast_id)
  qed
  have tdd: "of_nat (slots_of_period i mu) = (ucast (nr5g_fapi_calc_phy_tdd_period i mu) :: u32)" for i mu
    by (simp flip: tdd_period_is_the_number_of_slots)
  have low: "(ucast (ucast x :: u8) :: u32) = take_bit 8 x" for x :: u32
    by (rule bit_word_eqI) (auto simp: bit_simps)
  show ?thesis
    using assms(1,3) len
    unfolding config_tags_def list.set insert_iff empty_iff simp_thms
    by (elim disjE; clarsimp simp: config_tlv_def masked_field_def fapi_tags Let_def GETVLFRM32B_readable [OF assms(2)]
        config_scs_def config_mib_def low tags_of_fields split: if_splits; simp add: field_value_def off tdd ssb_pwr_def Let_def)
qed

lemma list_put:
  fixes xs :: "u32 list"
  shows "length xs < length ys \<Longrightarrow> (xs @ drop (length xs) ys)[length xs := v] = xs @ v # drop (Suc (length xs)) ys"
    and "length xs = 3 \<Longrightarrow> xs[0 := x, Suc 0 := y, 2 := z] = [x, y, z]"
  by (metis Cons_nth_drop_Suc list_update_length) (auto simp: numeral_3_eq_3 numeral_2_eq_2 length_Suc_conv)

text \<open>The MIB, the masks and the beams.\<close>

lemma arrays_step:
  assumes "config_tlv p t s = Some s'" "readable t" "tlv_tag t \<in> set config_tags"
  shows "arr_slot_config (ia s') = arr_slot_config (ia s)"
    and "tlv_tag t \<noteq> 0x1021 \<Longrightarrow> arr_mib (ia s') = arr_mib (ia s)"
    and "tlv_tag t \<noteq> 0x1022 \<Longrightarrow> arr_ssb_mask (ia s') = arr_ssb_mask (ia s)"
    and "tlv_tag t \<noteq> 0x1023 \<Longrightarrow> arr_beam_id (ia s') = arr_beam_id (ia s)"
    and "tlv_tag t \<noteq> 0x100A \<Longrightarrow> tlv_tag t \<noteq> 0x100C \<Longrightarrow> tlv_tag t \<noteq> 0x1010 \<Longrightarrow> phy_config s' = phy_config s"
  using assms(1,3)
  unfolding config_tags_def list.set insert_iff empty_iff simp_thms
  by (elim disjE; clarsimp simp: config_tlv_def masked_field_def fapi_tags Let_def GETVLFRM32B_readable [OF assms(2)]
      config_scs_def config_mib_def copy_to_phy_def split: if_splits)+

lemma mib_step:
  assumes "config_tlv p t s = Some s'" "tlv_tag t = 0x1021" "length (arr_mib (ia s)) = 3"
  shows "arr_mib (ia s') = map (\<lambda>sh. conv p nMIB (take_bit 8 (drop_bit sh (tlv_value t)))) [24, 16, 8]"
proof -
  have "(ucast (ucast x :: u8) :: u32) = take_bit 8 x" for x :: u32
    by (rule bit_word_eqI) (auto simp: bit_simps)
  then show ?thesis
    using assms by (auto simp: config_tlv_def masked_field_def fapi_tags Let_def config_mib_def list_put(2))
qed

lemma mask_step:
  assumes "config_tlv p t s = Some s'" "tlv_tag t = 0x1022" "n_ssb_mask_idx s < 2"
  shows "arr_ssb_mask (ia s') = (arr_ssb_mask (ia s))[n_ssb_mask_idx s := conv p nSSBMask (tlv_value t)]"
  using assms by (auto simp: config_tlv_def masked_field_def fapi_tags Let_def)

lemma beam_step:
  assumes "config_tlv p t s = Some s'" "readable t" "tlv_tag t = 0x1023" "n_beamid_idx s < MAX_NUM_ANT_NR5G p"
  shows "arr_beam_id (ia s') = (arr_beam_id (ia s))[n_beamid_idx s := conv p nBeamId (tlv_bytes t)]"
  using assms by (auto simp: config_tlv_def masked_field_def fapi_tags Let_def GETVLFRM32B_readable)

lemma phy_step:
  assumes "config_tlv p t s = Some s'" "readable t"
  shows "tlv_tag t = 0x100A \<Longrightarrow> phy_config s' = (phy_config s)\<lparr>n_nr_of_rx_ant := ucast (conv p nNrOfRxAnt (tlv_bytes t))\<rparr>"
    and "tlv_tag t = 0x100C \<Longrightarrow> phy_config s' = (phy_config s)\<lparr>phy_cell_id := ucast (conv p nPhyCellId (tlv_bytes t))\<rparr>"
    and "tlv_tag t = 0x1010 \<Longrightarrow> phy_config s' = (phy_config s)\<lparr>sub_c_common := ucast (tlv_bytes t)\<rparr>"
  using assms(1)
  by (clarsimp simp: config_tlv_def masked_field_def fapi_tags Let_def GETVLFRM32B_readable [OF assms(2)]
      config_scs_def copy_to_phy_def)+

lemma expected_phy_snoc:
  "expected_phy p pc (ts @ [t]) =
     (if tlv_tag t = 0x100A then (expected_phy p pc ts)\<lparr>n_nr_of_rx_ant := ucast (conv p nNrOfRxAnt (tlv_bytes t))\<rparr>
      else if tlv_tag t = 0x100C then (expected_phy p pc ts)\<lparr>phy_cell_id := ucast (conv p nPhyCellId (tlv_bytes t))\<rparr>
      else if tlv_tag t = 0x1010 then (expected_phy p pc ts)\<lparr>sub_c_common := ucast (tlv_bytes t)\<rparr>
      else expected_phy p pc ts)"
  by (simp add: expected_phy_def)

lemma cfg_matches_snoc:
  assumes m: "cfg_matches p pc c ts s" and sh: "ia_shaped p c"
    and n: "n_ssb_mask_idx s = tag_count FAPI_SSB_MASK_TAG ts" "n_beamid_idx s = tag_count FAPI_BEAM_ID_TAG ts"
    and t: "config_tlv p t s = Some s'" "single_tlvs p (ts @ [t])"
  shows "cfg_matches p pc c (ts @ [t]) s'"
proof -
  have wf: "well_formed_tlvs p (ts @ [t])" using t(2) by (simp add: well_formed_single)
  then have rd: "readable t" and tag: "tlv_tag t \<in> set config_tags" by (simp_all add: well_formed_tlvs_def)
  have n': "n_ssb_mask_idx s = length (with_tag 0x1022 ts)" "n_beamid_idx s = length (with_tag 0x1023 ts)"
    using n by (simp_all add: tag_count_def with_tag_def fapi_tags)
  have room: "tlv_tag t = 0x1022 \<Longrightarrow> length (with_tag 0x1022 ts) < 2"
    "tlv_tag t = 0x1023 \<Longrightarrow> length (with_tag 0x1023 ts) < MAX_NUM_ANT_NR5G p"
    using wf by (auto simp: well_formed_tlvs_def)
  have a: "expected_arrays p c ts (ia s)" and f: "fld (ia s) = expected_field p c ts"
    and ph: "phy_config s = expected_phy p pc ts"
    using m by (simp_all add: cfg_matches_def)
  note keep = arrays_step [OF t(1) rd tag]
  have "arr_mib (ia s') = (case split_last 0x1021 (ts @ [t]) of None \<Rightarrow> arr_mib c
       | Some (_, t) \<Rightarrow> map (\<lambda>sh. conv p nMIB (take_bit 8 (drop_bit sh (tlv_value t)))) [24, 16, 8])"
  proof (cases "tlv_tag t = 0x1021")
    case True
    have "length (arr_mib (ia s)) = 3"
      using a sh by (auto simp: expected_arrays_def ia_shaped_def split: option.splits)
    then show ?thesis using True mib_step [OF t(1) True] by simp
  next
    case False
    then show ?thesis using keep(2) a by (simp add: expected_arrays_def)
  qed
  moreover have "arr_ssb_mask (ia s') = map (\<lambda>t. conv p nSSBMask (tlv_value t)) (with_tag 0x1022 (ts @ [t]))
         @ drop (length (with_tag 0x1022 (ts @ [t]))) (arr_ssb_mask c)"
  proof (cases "tlv_tag t = 0x1022")
    case True
    then show ?thesis
      using mask_step [OF t(1) True] room(1) a sh n'(1)
        list_put(1) [of "map (\<lambda>t. conv p nSSBMask (tlv_value t)) (with_tag 0x1022 ts)" "arr_ssb_mask c"]
      by (simp add: expected_arrays_def ia_shaped_def)
  next
    case False
    then show ?thesis using keep(3) a by (simp add: expected_arrays_def)
  qed
  moreover have "arr_beam_id (ia s') = map (\<lambda>t. conv p nBeamId (tlv_bytes t)) (with_tag 0x1023 (ts @ [t]))
         @ drop (length (with_tag 0x1023 (ts @ [t]))) (arr_beam_id c)"
  proof (cases "tlv_tag t = 0x1023")
    case True
    then show ?thesis
      using beam_step [OF t(1) rd True] room(2) a sh n'(2)
        list_put(1) [of "map (\<lambda>t. conv p nBeamId (tlv_bytes t)) (with_tag 0x1023 ts)" "arr_beam_id c"]
      by (simp add: expected_arrays_def ia_shaped_def)
  next
    case False
    then show ?thesis using keep(4) a by (simp add: expected_arrays_def)
  qed
  ultimately have "expected_arrays p c (ts @ [t]) (ia s')"
    using keep(1) a by (simp add: expected_arrays_def)
  moreover have "fld (ia s') = expected_field p c (ts @ [t])"
    using fields_step [OF t(1) rd tag] by (simp add: fun_eq_iff f expected_field_snoc expected_spacing)
  moreover have "phy_config s' = expected_phy p pc (ts @ [t])"
    using keep(5) phy_step [OF t(1) rd] ph by (auto simp: expected_phy_snoc)
  ultimately show ?thesis by (simp add: cfg_matches_def)
qed

definition start_state :: "nr5g_fapi_phy_config \<Rightarrow> ia_config \<Rightarrow> cfg_state" where
  "start_state pc c = \<lparr>idx_i = 0, n_ssb_mask_idx = 0, n_beamid_idx = 0, phy_config = pc, ia = c\<rparr>"

definition run_reaches :: "phy_api \<Rightarrow> nat \<Rightarrow> fapi_tlv list \<Rightarrow> fapi_tlv list \<Rightarrow> cfg_state \<Rightarrow> cfg_state \<Rightarrow> bool" where
  "run_reaches p n tlvs ts s s' \<longleftrightarrow>
     config_loop p n tlvs s = config_loop p n tlvs s' \<and> idx_i s' = length ts
     \<and> n_ssb_mask_idx s' = tag_count FAPI_SSB_MASK_TAG ts \<and> n_beamid_idx s' = tag_count FAPI_BEAM_ID_TAG ts
     \<and> arr_slot_config (ia s') = arr_slot_config (ia s)
     \<and> tdd_of s' = foldl (tdd_tlv p) (tdd_of s) ts
     \<and> (ia_shaped p (ia s) \<longrightarrow> cfg_matches p (phy_config s) (ia s) ts s')"

lemma run_reaches_start: "run_reaches p n tlvs [] s s" if "idx_i s = 0" "n_ssb_mask_idx s = 0" "n_beamid_idx s = 0"
  using that by (simp add: run_reaches_def cfg_matches_Nil)

lemma run_reaches_snoc:
  assumes r: "run_reaches p n tlvs ts s s1" and e: "tlv_effect p t s1 s2"
    and step: "config_loop p n tlvs s1 = config_loop p n tlvs s2"
    and t: "config_tlv p t s1 = Some s2" "single_tlvs p (ts @ [t])"
  shows "run_reaches p n tlvs (ts @ [t]) s s2"
proof -
  have "cfg_matches p (phy_config s) (ia s) (ts @ [t]) s2" if "ia_shaped p (ia s)"
    using r that t by (intro cfg_matches_snoc [where s = s1]) (simp_all add: run_reaches_def)
  then show ?thesis using r e step by (simp add: run_reaches_def tlv_effect_def)
qed

lemma run_single:
  assumes "single_tlvs p ts" "length ts \<le> n" "prefix ts tlvs"
  shows "\<exists>s'. run_reaches p n tlvs ts (start_state pc c) s'"
  using assms
proof (induction ts rule: rev_induct)
  case Nil
  have "run_reaches p n tlvs [] (start_state pc c) (start_state pc c)"
    by (rule run_reaches_start) (simp_all add: start_state_def)
  then show ?case by blast
next
  case (snoc t ts)
  have "single_tlvs p ts" "prefix ts tlvs" using snoc.prems
    by (auto simp: single_tlvs_def prefix_def)
  then obtain s1 where r: "run_reaches p n tlvs ts (start_state pc c) s1"
    using snoc.IH snoc.prems(2) by auto
  then have i: "idx_i s1 = length ts" by (simp add: run_reaches_def)
  have at: "length ts < length tlvs" "tlvs ! length ts = t"
    using snoc.prems(3) by (auto simp: prefix_def nth_append)
  have single: "readable t" "single_tag (tlv_tag t)" using snoc.prems(1) by (auto simp: single_tlvs_def)
  have "tlv_tag t = FAPI_SSB_MASK_TAG \<Longrightarrow> n_ssb_mask_idx s1 < 2"
    "tlv_tag t = FAPI_BEAM_ID_TAG \<Longrightarrow> n_beamid_idx s1 < MAX_NUM_ANT_NR5G p"
    using snoc.prems(1) r by (auto simp: single_tlvs_def run_reaches_def)
  then obtain s2 where s2: "config_tlv p t s1 = Some s2" "tlv_effect p t s1 s2"
    using config_tlv_single [OF single] by blast
  have "tlv_tag t \<noteq> FAPI_SLOT_CONFIG_TAG" using single(2) by auto
  then have "config_step p tlvs s1 = Some s2" using s2(1) i at by (simp add: config_step_def)
  then have "config_loop p n tlvs s1 = config_loop p n tlvs s2"
    using config_loop_next i snoc.prems(2) by auto
  then show ?case using run_reaches_snoc [OF r s2(2) _ s2(1) snoc.prems(1)] by blast
qed

section \<open>The slot table\<close>

definition symbol_value :: "phy_api \<Rightarrow> fapi_tlv \<Rightarrow> u32" where
  "symbol_value p t = conv p nSymbolType (tlv_bytes t)"

lemma slot_symbols_reads:
  assumes "k + n = length row" "i + n \<le> length tlvs" "\<forall>m<n. readable (tlvs ! (i + m))"
  shows "slot_symbols p tlvs n k i row =
    Some (take k row @ map (\<lambda>m. symbol_value p (tlvs ! (i + m))) [0..<n], i + n)"
  using assms
proof (induction n arbitrary: k i row)
  case (Suc n)
  let ?v = "symbol_value p (tlvs ! i)"
  have rd: "\<forall>m<n. readable (tlvs ! (Suc i + m))"
    using Suc.prems(3) by (metis add_Suc_shift Suc_less_eq)
  have "readable (tlvs ! i)" using Suc.prems(3) by (metis add_0_right zero_less_Suc)
  then have "slot_symbols p tlvs (Suc n) k i row = slot_symbols p tlvs n (Suc k) (Suc i) (row[k := ?v])"
    using Suc.prems by (simp add: GETVLFRM32B_readable symbol_value_def)
  also have "\<dots> = Some (take (Suc k) (row[k := ?v]) @ map (\<lambda>m. symbol_value p (tlvs ! (Suc i + m))) [0..<n], Suc i + n)"
    by (rule Suc.IH) (use Suc.prems rd in auto)
  also have "take (Suc k) (row[k := ?v]) = take k row @ [?v]"
    using Suc.prems by (simp add: take_Suc_conv_app_nth)
  finally have "slot_symbols p tlvs (Suc n) k i row
      = Some (take k row @ ?v # map (\<lambda>m. symbol_value p (tlvs ! (Suc i + m))) [0..<n], Suc i + n)"
    by simp
  moreover have "?v # map (\<lambda>m. symbol_value p (tlvs ! (Suc i + m))) [0..<n]
      = map (\<lambda>m. symbol_value p (tlvs ! (i + m))) [0..<Suc n]"
  proof -
    have "[0..<Suc n] = 0 # map Suc [0..<n]" by (simp add: upt_conv_Cons map_Suc_upt del: upt_Suc)
    then show ?thesis by (simp del: upt_Suc)
  qed
  ultimately show ?case by simp
qed simp

lemma slot_table_reads:
  assumes "j + n \<le> length rows" "\<forall>r \<in> set rows. length r = MAX_NUM_OF_SYMBOL_PER_SLOT p"
    and "i + n * MAX_NUM_OF_SYMBOL_PER_SLOT p \<le> length tlvs"
    and "\<forall>m < n * MAX_NUM_OF_SYMBOL_PER_SLOT p. readable (tlvs ! (i + m))"
  shows "\<exists>rows'. slot_table p tlvs n j i rows = Some (rows', i + n * MAX_NUM_OF_SYMBOL_PER_SLOT p)
    \<and> length rows' = length rows \<and> take j rows' = take j rows
    \<and> (\<forall>a<n. rows' ! (j + a) = map (\<lambda>m. symbol_value p (tlvs ! (i + a * MAX_NUM_OF_SYMBOL_PER_SLOT p + m)))
                                 [0..<MAX_NUM_OF_SYMBOL_PER_SLOT p])"
  using assms
proof (induction n arbitrary: j i rows)
  case (Suc n)
  let ?S = "MAX_NUM_OF_SYMBOL_PER_SLOT p"
  let ?row = "map (\<lambda>m. symbol_value p (tlvs ! (i + m))) [0..<?S]"
  have row: "slot_symbols p tlvs ?S 0 i (rows ! j) = Some (?row, i + ?S)"
    using slot_symbols_reads [of 0 ?S "rows ! j" i tlvs p] Suc.prems by auto
  have "\<exists>rows'. slot_table p tlvs n (Suc j) (i + ?S) (rows[j := ?row]) = Some (rows', i + ?S + n * ?S)
    \<and> length rows' = length (rows[j := ?row]) \<and> take (Suc j) rows' = take (Suc j) (rows[j := ?row])
    \<and> (\<forall>a<n. rows' ! (Suc j + a) = map (\<lambda>m. symbol_value p (tlvs ! (i + ?S + a * ?S + m))) [0..<?S])"
    by (rule Suc.IH) (use Suc.prems in \<open>auto simp: set_update_subset_insert [THEN subsetD] add.assoc
         dest!: subsetD [OF set_update_subset_insert]\<close>)
  then obtain rows' where r: "slot_table p tlvs n (Suc j) (i + ?S) (rows[j := ?row]) = Some (rows', i + ?S + n * ?S)"
    "length rows' = length rows" "take (Suc j) rows' = take (Suc j) (rows[j := ?row])"
    "\<And>a. a < n \<Longrightarrow> rows' ! (Suc j + a) = map (\<lambda>m. symbol_value p (tlvs ! (i + ?S + a * ?S + m))) [0..<?S]"
    by auto
  have j: "j < length rows" using Suc.prems(1) by simp
  have "rows' ! j = ?row" using nth_take [of j "Suc j" rows'] r(3) j by simp
  then have at: "rows' ! (j + a) = map (\<lambda>m. symbol_value p (tlvs ! (i + a * ?S + m))) [0..<?S]" if "a < Suc n" for a
    using that r(4) [of "a - 1"] by (cases a) (auto simp: add.assoc)
  have "take j rows' = take j rows" using arg_cong [OF r(3), of "take j"] by simp
  then show ?case using r(1,2) row j at by (simp add: add.assoc)
qed simp

section \<open>Properties\<close>

lemma start_state_simps [simp]:
  "ia (start_state pc c) = c" "tdd_of (start_state pc c) = (fld c nSubcCommon, fld c nTddPeriod)"
  by (simp_all add: start_state_def tdd_of_def)

lemma translation_of_loop:
  "nr5g_fapi_config_req_to_phy_translation p n tlvs pc c =
    (case config_loop p (unat n) tlvs (start_state pc c) of None \<Rightarrow> None | Some None \<Rightarrow> Some None
      | Some (Some s) \<Rightarrow> Some (Some (nr5g_fapi_config_req_fill_dependent_fields p s)))"
  by (simp add: nr5g_fapi_config_req_to_phy_translation_def start_state_def)

lemma fill_keeps_slots:
  "arr_slot_config (ia (nr5g_fapi_config_req_fill_dependent_fields p s)) = arr_slot_config (ia s)"
  by (simp add: nr5g_fapi_config_req_fill_dependent_fields_def)

text \<open>C21: a request of well-formed TLVs (each of 1 to 4 bytes and with one of the 26 tags that the
  PHY reads, without the slot table, at most two SSB masks and as many beams as antennas) is
  translated, and the whole configuration is the one that the FAPI tables prescribe.  Every
  field has the value of the last TLV with its tag number, or is as it was without one; the
  offset of the SSB and the TDD period use the subcarrier spacing in force at their TLV, and the
  TDD period is 0 in FDD; the MIB, the masks and the beams are as sent, the slot table is not touched,
  and the instance keeps the cell id, the number of receive antennas and the spacing.\<close>

theorem config_of_single_tlvs:
  assumes "well_formed_tlvs p ts" "length ts = unat n" "prefix ts tlvs" "ia_shaped p c"
  shows "\<exists>s'. nr5g_fapi_config_req_to_phy_translation p n tlvs pc c = Some (Some s')
    \<and> (\<forall>f. fld (ia s') f =
         (if f = nTddPeriod \<and> expected_field p c ts nFrameDuplexType = 0 then conv p nTddPeriod 0
          else expected_field p c ts f))
    \<and> expected_arrays p c ts (ia s')
    \<and> phy_config s' = expected_phy p pc ts"
proof -
  have "single_tlvs p ts" using assms(1) by (simp add: well_formed_single)
  then obtain s where r: "run_reaches p (unat n) tlvs ts (start_state pc c) s"
    using run_single [OF _ _ assms(3), of p "unat n" pc c] assms(2) by auto
  let ?s = "nr5g_fapi_config_req_fill_dependent_fields p s"
  have "nr5g_fapi_config_req_to_phy_translation p n tlvs pc c = Some (Some ?s)"
    using r assms(2) by (simp add: translation_of_loop run_reaches_def)
  moreover have "cfg_matches p pc c ts s" using r assms(4) by (simp add: run_reaches_def start_state_def)
  then have "(\<forall>f. fld (ia ?s) f =
         (if f = nTddPeriod \<and> expected_field p c ts nFrameDuplexType = 0 then conv p nTddPeriod 0
          else expected_field p c ts f))
    \<and> expected_arrays p c ts (ia ?s) \<and> phy_config ?s = expected_phy p pc ts"
    by (simp add: cfg_matches_def nr5g_fapi_config_req_fill_dependent_fields_def expected_arrays_def)
  ultimately show ?thesis by blast
qed

definition demo_api :: phy_api where
  "demo_api = \<lparr>conv = (\<lambda>_ v. v), MAX_NUM_ANT_NR5G = 4, MAX_NUM_SLOT_CONFIG = 80, MAX_NUM_OF_SYMBOL_PER_SLOT = 14\<rparr>"

definition tlv :: "u16 \<Rightarrow> u16 \<Rightarrow> u32 \<Rightarrow> fapi_tlv" where
  "tlv a l v = \<lparr>tlv_tag = a, tlv_length = l, tlv_value = v\<rparr>"

definition demo_pc :: nr5g_fapi_phy_config where
  "demo_pc = \<lparr>phy_cell_id = 0, n_nr_of_rx_ant = 0, use_vendor_EpreXSSB = 0, sub_c_common = 0\<rparr>"

text \<open>A duplex type, then the TDD period of 5 ms twice: before and after the spacing of 30 kHz.\<close>

definition demo_tlvs :: "fapi_tlv list" where
  "demo_tlvs = [tlv FAPI_FRAME_DUPLEX_TYPE_TAG 1 1, tlv FAPI_TDD_PERIOD_TAG 1 6,
     tlv FAPI_SCS_COMMON_TAG 1 1, tlv FAPI_TDD_PERIOD_TAG 1 6]"

lemma demo_single: "single_tlvs demo_api (take k demo_tlvs)"
proof -
  have "\<forall>t \<in> set demo_tlvs. readable t \<and> single_tag (tlv_tag t)
     \<and> tlv_tag t \<noteq> FAPI_SSB_MASK_TAG \<and> tlv_tag t \<noteq> FAPI_BEAM_ID_TAG"
    by (simp add: demo_tlvs_def tlv_def readable_def single_tag_def masked_field_def fapi_tags)
  then have *: "\<forall>t \<in> set (take k demo_tlvs). readable t \<and> single_tag (tlv_tag t)
     \<and> tlv_tag t \<noteq> FAPI_SSB_MASK_TAG \<and> tlv_tag t \<noteq> FAPI_BEAM_ID_TAG"
    by (blast dest: in_set_takeD)
  then have "filter (\<lambda>t. tlv_tag t = a) (take k demo_tlvs) = []"
    if "a = FAPI_SSB_MASK_TAG \<or> a = FAPI_BEAM_ID_TAG" for a
    using that by (auto simp: filter_empty_conv)
  then show ?thesis using * by (simp add: single_tlvs_def tag_count_def)
qed

theorem config_of_single_tlvs_witness:
  "\<exists>s'. nr5g_fapi_config_req_to_phy_translation demo_api 4 demo_tlvs demo_pc (cleared_ia demo_api) = Some (Some s')
     \<and> fld (ia s') nTddPeriod = 10 \<and> fld (ia s') nSSBSubcSpacing = 1 \<and> sub_c_common (phy_config s') = 1"
proof -
  have b: "tlv_bytes (tlv a 1 v) = take_bit 8 v" "tlv_tag (tlv a l v) = a" for a l v by (simp_all add: tlv_bytes_def tlv_def)
  have wf: "well_formed_tlvs demo_api demo_tlvs"
    using demo_single [of 4] by (simp add: well_formed_single demo_tlvs_def)
  have sh: "ia_shaped demo_api (cleared_ia demo_api)" by (simp add: ia_shaped_def cleared_ia_def)
  have per: "slots_of_period 6 1 = 10" by (simp add: slots_of_period_def tdd_period_us_def)
  have e: "expected_field demo_api (cleared_ia demo_api) demo_tlvs nTddPeriod = 10"
    "expected_field demo_api (cleared_ia demo_api) demo_tlvs nFrameDuplexType = 1"
    "expected_field demo_api (cleared_ia demo_api) demo_tlvs nSSBSubcSpacing = 1"
    "sub_c_common (expected_phy demo_api demo_pc demo_tlvs) = 1"
    by (simp_all add: expected_field_def expected_phy_def tag_of_field_def split_last_def spacing_after_def
        field_value_def demo_tlvs_def b fapi_tags demo_api_def per take_bit_eq_mod)
  show ?thesis
    using config_of_single_tlvs [OF wf _ _ sh, of 4 demo_tlvs demo_pc] e by (auto simp: demo_tlvs_def)
qed

lemma config_tlv_full:
  "tlv_tag t = FAPI_SSB_MASK_TAG \<Longrightarrow> \<not> n_ssb_mask_idx s < 2 \<Longrightarrow> config_tlv p t s = Some s"
  "tlv_tag t = FAPI_BEAM_ID_TAG \<Longrightarrow> \<not> n_beamid_idx s < MAX_NUM_ANT_NR5G p \<Longrightarrow> config_tlv p t s = Some s"
  by (simp_all add: config_tlv_def Let_def masked_field_def fapi_tags)

text \<open>C22: after well-formed TLVs, a tag without a case, a third SSB mask, a beam id too many, or a
  slot table before any TDD period is never consumed: the translation does not return.\<close>

theorem translation_never_returns:
  assumes "single_tlvs p ts" "length ts < unat n" "tlvs = ts @ t # rest"
    and "fld c nTddPeriod = 0"
    and "\<not> single_tag (tlv_tag t) \<and> tlv_tag t \<noteq> FAPI_SLOT_CONFIG_TAG
       \<or> tlv_tag t = FAPI_SSB_MASK_TAG \<and> tag_count FAPI_SSB_MASK_TAG ts = 2
       \<or> tlv_tag t = FAPI_BEAM_ID_TAG \<and> tag_count FAPI_BEAM_ID_TAG ts = MAX_NUM_ANT_NR5G p
       \<or> tlv_tag t = FAPI_SLOT_CONFIG_TAG \<and> tag_count FAPI_TDD_PERIOD_TAG ts = 0"
  shows "nr5g_fapi_config_req_to_phy_translation p n tlvs pc c = None"
proof -
  have "prefix ts tlvs" using assms(3) by simp
  then obtain s where r: "run_reaches p (unat n) tlvs ts (start_state pc c) s"
    using run_single [OF assms(1), of "unat n" tlvs pc c] assms(2) by auto
  then have i: "idx_i s = length ts" "n_ssb_mask_idx s = tag_count FAPI_SSB_MASK_TAG ts"
      "n_beamid_idx s = tag_count FAPI_BEAM_ID_TAG ts"
      "tdd_of s = foldl (tdd_tlv p) (fld c nSubcCommon, fld c nTddPeriod) ts"
    by (simp_all add: run_reaches_def)
  have at: "tlvs ! idx_i s = t" "idx_i s < length tlvs" using assms(3) i(1) by simp_all
  have "config_step p tlvs s = Some s"
    using assms(5)
  proof (elim disjE conjE)
    assume "\<not> single_tag (tlv_tag t)" "tlv_tag t \<noteq> FAPI_SLOT_CONFIG_TAG"
    then show ?thesis using at by (simp add: config_step_def config_tlv_def single_tag_def Let_def)
  next
    assume "tlv_tag t = FAPI_SSB_MASK_TAG" "tag_count FAPI_SSB_MASK_TAG ts = 2"
    then show ?thesis using at(1,2) i(2) by (simp add: config_step_def config_tlv_full) (simp add: fapi_tags)
  next
    assume "tlv_tag t = FAPI_BEAM_ID_TAG" "tag_count FAPI_BEAM_ID_TAG ts = MAX_NUM_ANT_NR5G p"
    then show ?thesis using at(1,2) i(3) by (simp add: config_step_def config_tlv_full) (simp add: fapi_tags)
  next
    assume t: "tlv_tag t = FAPI_SLOT_CONFIG_TAG" and none: "tag_count FAPI_TDD_PERIOD_TAG ts = 0"
    have "snd (foldl (tdd_tlv p) a ts) = snd a" for a
      using none by (induction ts arbitrary: a) (auto simp: tdd_tlv_def tag_count_def)
    then have "fld (ia s) nTddPeriod = 0" using i(4) assms(4) by (metis snd_conv tdd_of_def)
    then show ?thesis using at t by (simp add: config_step_def config_slots_def)
  qed
  then have "config_loop p (unat n) tlvs s = None" using i(1) assms(2) by (intro config_loop_stuck) simp_all
  then show ?thesis using r by (simp add: translation_of_loop run_reaches_def)
qed

text \<open>A tag of the FAPI standard that the PHY does not use: the K0 of the downlink.\<close>

theorem translation_never_returns_witness:
  "nr5g_fapi_config_req_to_phy_translation demo_api 5 (demo_tlvs @ [tlv 0x1003 2 0]) demo_pc (cleared_ia demo_api) = None"
proof (rule translation_never_returns [where ts = demo_tlvs and t = "tlv 0x1003 2 0" and rest = "[]"])
  show "single_tlvs demo_api demo_tlvs" using demo_single [of 4] by (simp add: demo_tlvs_def)
qed (simp_all add: demo_tlvs_def cleared_ia_def tlv_def single_tag_def masked_field_def fapi_tags)

text \<open>C23: when the slot table comes last and has a TLV for each symbol of the period, symbol \<open>m\<close>
  of slot \<open>a\<close> is the value of TLV number \<open>a * 14 + m\<close> of the table.\<close>

theorem slot_table_is_read:
  assumes "single_tlvs p ts" "tlvs = ts @ slots" "length ts < unat n" "unat n \<le> length tlvs"
    and "\<forall>t \<in> set slots. readable t" "tlv_tag (hd slots) = FAPI_SLOT_CONFIG_TAG"
    and "length slots = unat per * MAX_NUM_OF_SYMBOL_PER_SLOT p" "unat per \<le> MAX_NUM_SLOT_CONFIG p"
    and "per = snd (foldl (tdd_tlv p) (0, 0) ts)"
  shows "\<exists>s'. nr5g_fapi_config_req_to_phy_translation p n tlvs pc (cleared_ia p) = Some (Some s')
    \<and> (\<forall>a < unat per. arr_slot_config (ia s') ! a =
         map (\<lambda>m. symbol_value p (slots ! (a * MAX_NUM_OF_SYMBOL_PER_SLOT p + m))) [0..<MAX_NUM_OF_SYMBOL_PER_SLOT p])"
proof -
  let ?S = "MAX_NUM_OF_SYMBOL_PER_SLOT p" and ?rows = "arr_slot_config (cleared_ia p)"
  have "prefix ts tlvs" using assms(2) by simp
  then obtain s where r: "run_reaches p (unat n) tlvs ts (start_state pc (cleared_ia p)) s"
    using run_single [OF assms(1), of "unat n" tlvs pc "cleared_ia p"] assms(3) by auto
  then have i: "idx_i s = length ts" "arr_slot_config (ia s) = ?rows" "fld (ia s) nTddPeriod = per"
    using assms(9) by (auto simp: run_reaches_def cleared_ia_def tdd_of_def dest: arg_cong [where f = snd])
  have ne: "slots \<noteq> []" using assms(2-4) by auto
  have sl: "tlvs ! (length ts + m) = slots ! m" for m using assms(2) by (simp add: nth_append)
  obtain rows' where rows': "slot_table p tlvs (unat per) 0 (length ts) ?rows = Some (rows', length ts + unat per * ?S)"
    and at: "\<And>a. a < unat per \<Longrightarrow> rows' ! a = map (\<lambda>m. symbol_value p (tlvs ! (length ts + a * ?S + m))) [0..<?S]"
    using slot_table_reads [of 0 "unat per" ?rows p "length ts" tlvs] assms(2,5,7,8) sl
    by (auto simp: cleared_ia_def)
  let ?s = "s\<lparr>ia := (ia s)\<lparr>arr_slot_config := rows'\<rparr>, idx_i := length ts + unat per * ?S\<rparr>"
  have "tlv_tag (tlvs ! length ts) = FAPI_SLOT_CONFIG_TAG"
    using sl [of 0] assms(6) ne by (simp add: hd_conv_nth)
  then have "config_step p tlvs s = Some ?s"
    using i rows' ne assms(2) by (simp add: config_step_def config_slots_def)
  then have "config_loop p (unat n) tlvs s = config_loop p (unat n) tlvs ?s"
    by (rule config_loop_next [rotated]) (use i assms(3) in simp)
  also have "\<dots> = Some (Some ?s)" using assms(2,4,7) by simp
  finally have "nr5g_fapi_config_req_to_phy_translation p n tlvs pc (cleared_ia p)
      = Some (Some (nr5g_fapi_config_req_fill_dependent_fields p ?s))"
    using r by (simp add: translation_of_loop run_reaches_def)
  moreover have "rows' ! a = map (\<lambda>m. symbol_value p (slots ! (a * ?S + m))) [0..<?S]" if "a < unat per" for a
    using at [OF that] sl by (simp add: add.assoc)
  ultimately show ?thesis using fill_keeps_slots [of p ?s] by simp
qed

text \<open>A period of one slot: 1 ms at 15 kHz, with seven downlink and seven uplink symbols.\<close>

definition demo_period :: "fapi_tlv list" where
  "demo_period = [tlv FAPI_FRAME_DUPLEX_TYPE_TAG 1 1, tlv FAPI_TDD_PERIOD_TAG 1 2]"

definition demo_slots :: "fapi_tlv list" where
  "demo_slots = replicate 7 (tlv FAPI_SLOT_CONFIG_TAG 1 0) @ replicate 7 (tlv FAPI_SLOT_CONFIG_TAG 1 1)"

lemma demo_period_single: "single_tlvs demo_api demo_period"
  by (simp add: demo_period_def single_tlvs_def tlv_def readable_def single_tag_def masked_field_def
      fapi_tags tag_count_def)

theorem slot_table_is_read_witness:
  "\<exists>s'. nr5g_fapi_config_req_to_phy_translation demo_api 16 (demo_period @ demo_slots) demo_pc (cleared_ia demo_api)
      = Some (Some s') \<and> arr_slot_config (ia s') ! 0 ! 9 = 1"
proof -
  have per: "1 = snd (foldl (tdd_tlv demo_api) (0, 0) demo_period)"
    by (simp add: demo_period_def tlv_def tdd_tlv_def demo_api_def fapi_tags tdd_calc_defs
        tlv_bytes_def take_bit_eq_mod)
  have rd: "\<forall>t \<in> set demo_slots. readable t" by (auto simp: demo_slots_def tlv_def readable_def)
  have v: "symbol_value demo_api (demo_slots ! 9) = 1"
    by (simp add: symbol_value_def demo_slots_def nth_append tlv_bytes_def tlv_def demo_api_def take_bit_eq_mod)
  have S: "MAX_NUM_OF_SYMBOL_PER_SLOT demo_api = 14" "MAX_NUM_SLOT_CONFIG demo_api = 80" by (simp_all add: demo_api_def)
  obtain s' where s': "nr5g_fapi_config_req_to_phy_translation demo_api 16 (demo_period @ demo_slots) demo_pc
        (cleared_ia demo_api) = Some (Some s')"
    and row: "\<forall>a < unat (1 :: u32). arr_slot_config (ia s') ! a =
         map (\<lambda>m. symbol_value demo_api (demo_slots ! (a * 14 + m))) [0..<14]"
    using slot_table_is_read [OF demo_period_single refl _ _ rd _ _ _ per, of 16 demo_pc, unfolded S]
    by (auto simp: demo_period_def demo_slots_def tlv_def)
  have "arr_slot_config (ia s') ! 0 = map (\<lambda>m. symbol_value demo_api (demo_slots ! m)) [0..<14]"
    using row by simp
  then have "arr_slot_config (ia s') ! 0 ! 9 = 1" using v by simp
  then show ?thesis using s' by blast
qed

text \<open>The resource blocks of each numerology for the bandwidths with an FFT size.\<close>

lemma bw_column_le:
  "length xs \<le> length rs \<Longrightarrow> bw_column b xs rs = Some r \<Longrightarrow> (b, r) \<in> set (zip xs rs)"
  by (induction b xs rs rule: bw_column.induct) (auto split: if_splits)

definition fft_ok :: "u8 \<Rightarrow> u32 \<times> u16 \<Rightarrow> bool" where
  "fft_ok scs = (\<lambda>(bw, r). 12 * unat r \<le> unat (nr5g_fapi_calc_fft_size scs (ucast bw))
     \<or> nr5g_fapi_calc_fft_size scs (ucast bw) = 0)"

lemma fft_ok_F1:
  "\<forall>x \<in> set (zip bw_F1 (nNumRbsPerSymF1 ! 0)). fft_ok 0 x"
  "\<forall>x \<in> set (zip bw_F1 (nNumRbsPerSymF1 ! 1)). fft_ok 1 x"
  "\<forall>x \<in> set (zip bw_F1 (nNumRbsPerSymF1 ! 2)). fft_ok 2 x"
  by (simp_all add: bw_F1_def nNumRbsPerSymF1_def fft_ok_def nr5g_fapi_calc_fft_size_def)

lemma fft_ok_F2:
  "\<forall>x \<in> set (zip bw_F2 (nNumRbsPerSymF2 ! 0)). fft_ok 2 x"
  "\<forall>x \<in> set (zip bw_F2 (nNumRbsPerSymF2 ! 1)). fft_ok 3 x"
  by (simp_all add: bw_F2_def nNumRbsPerSymF2_def fft_ok_def nr5g_fapi_calc_fft_size_def)

text \<open>The FFT that the configuration selects is large enough for all subcarriers of the
  resource blocks that the frame structure gives the same numerology and bandwidth.\<close>

theorem fft_covers_the_resource_blocks:
  assumes "nr5g_fapi_calc_fft_size scs bw \<noteq> 0"
  shows "12 * unat (fst (xran_fs_get_num_rbs (ucast scs) (ucast bw) f)) \<le> unat (nr5g_fapi_calc_fft_size scs bw)"
proof -
  have scs: "scs = 0 \<or> scs = 1 \<or> scs = 2 \<or> scs = 3"
    using assms by (auto simp: nr5g_fapi_calc_fft_size_def split: if_splits)
  have bw: "ucast (ucast bw :: u32) = bw" by (intro bit_word_eqI) (auto simp: bit_simps)
  have ok: "12 * unat r \<le> unat (nr5g_fapi_calc_fft_size scs bw)"
    if "bw_column (ucast bw) xs rs = Some r" "length xs \<le> length rs" "\<forall>x \<in> set (zip xs rs). fft_ok scs x" for xs rs r
    using bw_column_le [OF that(2,1)] that(3) assms bw by (auto simp: fft_ok_def)
  have len: "length bw_F1 \<le> length (nNumRbsPerSymF1 ! 0)" "length bw_F1 \<le> length (nNumRbsPerSymF1 ! 1)"
    "length bw_F1 \<le> length (nNumRbsPerSymF1 ! 2)" "length bw_F2 \<le> length (nNumRbsPerSymF2 ! 0)"
    "length bw_F2 \<le> length (nNumRbsPerSymF2 ! 1)"
    by (simp_all add: bw_F1_def bw_F2_def nNumRbsPerSymF1_def nNumRbsPerSymF2_def)
  have ne: "\<not> (2 :: u32) \<le> 1" by (simp add: word_le_nat_alt)
  show ?thesis
    using ne scs ok len fft_ok_F1 fft_ok_F2
    by (elim disjE; cases "f \<le> 6000000") (auto simp: xran_fs_get_num_rbs_def split: option.splits)
qed

theorem fft_covers_the_resource_blocks_witness:
  "12 * unat (fst (xran_fs_get_num_rbs 1 100 3500000)) \<le> (4096 :: nat)"
  using fft_covers_the_resource_blocks [of 1 100 3500000] by (simp add: nr5g_fapi_calc_fft_size_def)
end
