(* ===== verification/Block_Pool.thy ===== *)
theory Block_Pool
  imports Prelude
begin

text \<open>
  The contract of an allocator of fixed-size blocks, as the FAPI layer uses it: blocks are taken
  from the pool, written by the client and given back, by any address that \<open>blk_of\<close> takes to a block.
  Nothing keeps a client from giving back a block twice, or an address that belongs to no block: a
  provider states which blocks are available in a state, how \<open>take\<close> and \<open>give\<close> change that set for
  every address on which \<open>give\<close> returns, and which writes of the client it tolerates.  The clients of
  the contract learn that no block is handed out twice and that the pool is exhausted only when all
  blocks are out.
\<close>

text \<open>The states that a client reaches, with the blocks it holds.\<close>

inductive pool_run ::
  "('s \<Rightarrow> ('a \<times> 's) option) \<Rightarrow> ('p \<Rightarrow> 's \<Rightarrow> 's option) \<Rightarrow> ('p \<Rightarrow> 'a) \<Rightarrow> ('s \<Rightarrow> 's \<Rightarrow> bool) \<Rightarrow> 's \<Rightarrow> 's \<Rightarrow> 'a set \<Rightarrow> bool"
  for take_blk give_blk blk_of user s0 where
  start: "pool_run take_blk give_blk blk_of user s0 s0 {}"
| taken: "pool_run take_blk give_blk blk_of user s0 s out \<Longrightarrow> take_blk s = Some (a, s')
    \<Longrightarrow> pool_run take_blk give_blk blk_of user s0 s' (insert a out)"
| given: "pool_run take_blk give_blk blk_of user s0 s out \<Longrightarrow> give_blk p s = Some s'
    \<Longrightarrow> pool_run take_blk give_blk blk_of user s0 s' (out - {blk_of p})"
| written: "pool_run take_blk give_blk blk_of user s0 s out \<Longrightarrow> user s s'
    \<Longrightarrow> pool_run take_blk give_blk blk_of user s0 s' out"

locale block_pool =
  fixes ok :: "'s \<Rightarrow> bool" and blocks :: "'a set" and avail :: "'s \<Rightarrow> 'a set"
    and take_blk :: "'s \<Rightarrow> ('a \<times> 's) option" and give_blk :: "'p \<Rightarrow> 's \<Rightarrow> 's option"
    and blk_of :: "'p \<Rightarrow> 'a" and user :: "'s \<Rightarrow> 's \<Rightarrow> bool"
  assumes avail_blocks: "ok s \<Longrightarrow> avail s \<subseteq> blocks"
    and take_none: "ok s \<Longrightarrow> take_blk s = None \<longleftrightarrow> avail s = {}"
    and take_some: "ok s \<Longrightarrow> take_blk s = Some (a, s') \<Longrightarrow> ok s' \<and> a \<in> avail s \<and> avail s' = avail s - {a}"
    and give_some: "ok s \<Longrightarrow> give_blk p s = Some s' \<Longrightarrow> ok s' \<and> avail s' = avail s \<union> ({blk_of p} \<inter> blocks)"
    and user_ok: "ok s \<Longrightarrow> user s s' \<Longrightarrow> ok s' \<and> avail s' = avail s"
begin

lemma run_partitions:
  assumes "pool_run take_blk give_blk blk_of user s0 s out" "ok s0" "avail s0 = blocks"
  shows "ok s \<and> out \<union> avail s = blocks \<and> out \<inter> avail s = {}"
  using assms(1)
proof (induction rule: pool_run.induct)
  case start
  then show ?case using assms by simp
next
  case (taken s out a s')
  then show ?case using take_some [of s a s'] by blast
next
  case (given s out p s')
  then show ?case using give_some [of s p s'] by blast
next
  case (written s out s')
  then show ?case using user_ok by blast
qed

lemma taken_is_fresh:
  assumes "pool_run take_blk give_blk blk_of user s0 s out" "ok s0" "avail s0 = blocks" "take_blk s = Some (a, s')"
  shows "a \<in> blocks - out"
  using run_partitions [OF assms(1-3)] take_some [OF _ assms(4)] by blast

lemma exhausted_iff:
  assumes "pool_run take_blk give_blk blk_of user s0 s out" "ok s0" "avail s0 = blocks"
  shows "take_blk s = None \<longleftrightarrow> out = blocks"
  using run_partitions [OF assms] take_none [of s] by blast

end

end
