(* ===== verification/Fapi_Mem.thy ===== *)
theory Fapi_Mem
  imports Block_Pool
begin

text \<open>
  The buffers of the FAPI layer in the shared memory
  (\<open>fapi_5g/source/framework/wls/lib/nr5g_fapi_wls.c\<close>): the partition of the memory, the array of
  fixed-size blocks with its linked list of free blocks, and the counters around it.

  A free block holds the address of the next free block in its first word; \<open>links\<close> is the word
  at an address, \<open>guards\<close> the byte at an address of the last 16 bytes of a block, which the code
  fills with a pattern and checks (\<open>MEMORY_CORRUPTION_DETECT\<close> is defined).  Blocks are large
  enough that the two do not overlap.  An access outside of \<open>alloc_track\<close> and a division by zero
  are \<open>None\<close>; the call of \<open>exit\<close> is the result \<open>Exit\<close>.  The mutexes and messages are left out.
\<close>

section \<open>The block array\<close>

definition SUCCESS :: u32 where "SUCCESS = 0"
definition FAILURE :: u32 where "FAILURE = 1"
definition MEMORY_CORRUPTION_DETECT_FLAG :: u8 where "MEMORY_CORRUPTION_DETECT_FLAG = 0xAB"
definition ALLOC_TRACK_SIZE :: nat where "ALLOC_TRACK_SIZE = 16384"
definition MSG_MAXSIZE :: u64 where "MSG_MAXSIZE = 16 * 16384"
definition WLS_HUGE_DEF_PAGE_SIZEA :: u64 where "WLS_HUGE_DEF_PAGE_SIZEA = 0x40000000"
definition MAX_NUM_LOCATIONS :: u32 where "MAX_NUM_LOCATIONS = 16"
definition MIN_DL_BUF_LOCATIONS :: u32 where "MIN_DL_BUF_LOCATIONS = 0"
definition MAX_DL_BUF_LOCATIONS :: u32 where "MAX_DL_BUF_LOCATIONS = MIN_DL_BUF_LOCATIONS + MAX_NUM_LOCATIONS"
definition MIN_UL_BUF_LOCATIONS :: u32 where "MIN_UL_BUF_LOCATIONS = MAX_DL_BUF_LOCATIONS"
definition MAX_UL_BUF_LOCATIONS :: u32 where "MAX_UL_BUF_LOCATIONS = MIN_UL_BUF_LOCATIONS + MAX_NUM_LOCATIONS"

datatype ret = Ret u32 | Exit

record mem_array =
  ppFreeBlock :: u64
  pStorage :: u64
  pEndOfStorage :: u64
  nBlockSize :: u32
  nBlockCount :: u32

record fapi_mem =
  arr :: mem_array
  links :: "u64 \<Rightarrow> u64"
  guards :: "u64 \<Rightarrow> u8"
  alloc_track :: "u8 list"

text \<open>The 16 bytes at the end of the block at \<open>p\<close>.\<close>

definition fill_guard :: "u64 \<Rightarrow> u32 \<Rightarrow> (u64 \<Rightarrow> u8) \<Rightarrow> u64 \<Rightarrow> u8" where
  "fill_guard p bsz g = (\<lambda>a. if a - (p + ucast (bsz - 16)) < 16 then MEMORY_CORRUPTION_DETECT_FLAG else g a)"

definition guard_intact :: "u64 \<Rightarrow> u32 \<Rightarrow> (u64 \<Rightarrow> u8) \<Rightarrow> bool" where
  "guard_intact p bsz g \<longleftrightarrow>
     (\<forall>i \<in> set [0..<16]. g (p + ucast (bsz - 16) + of_nat i) = MEMORY_CORRUPTION_DETECT_FLAG)"

text \<open>The initialisation of the blocks; the first argument counts the blocks that are left.\<close>

fun init_blocks :: "nat \<Rightarrow> u32 \<Rightarrow> u64 \<Rightarrow> (u64 \<Rightarrow> u64) \<times> (u64 \<Rightarrow> u8) \<Rightarrow> (u64 \<Rightarrow> u64) \<times> (u64 \<Rightarrow> u8)" where
  "init_blocks 0 bsz ptr m = m"
| "init_blocks (Suc n) bsz ptr m =
     (let g = fill_guard ptr bsz (snd m)
      in if n = 0 then ((fst m)(ptr := 0), g)
         else init_blocks n bsz (ptr + 8 * ucast (bsz div 8)) ((fst m)(ptr := ptr + ucast bsz), g))"

definition wls_fapi_create_mem_array :: "u64 \<Rightarrow> u32 \<Rightarrow> u32 \<Rightarrow> fapi_mem \<Rightarrow> (u32 \<times> fapi_mem) option" where
  "wls_fapi_create_mem_array pMemArrayMemory totalSize blockSize m =
     (if blockSize = 0 then None else
      let numBlocks = totalSize div blockSize
      in if blockSize < 8 then Some (FAILURE, m)
         else if totalSize < 8 then Some (FAILURE, m)
         else
           let (l, g) = init_blocks (unat numBlocks) blockSize pMemArrayMemory (links m, guards m)
           in Some (SUCCESS,
                m\<lparr>arr := \<lparr>ppFreeBlock = pMemArrayMemory, pStorage = pMemArrayMemory,
                     pEndOfStorage = pMemArrayMemory + 8 * (ucast (numBlocks * blockSize) div 8),
                     nBlockSize = blockSize, nBlockCount = numBlocks\<rparr>,
                  links := l, guards := g, alloc_track := replicate ALLOC_TRACK_SIZE 0\<rparr>))"

text \<open>The result has the returned status and the block that was stored through \<open>ppBlock\<close>.\<close>

definition wls_fapi_alloc_mem_array :: "fapi_mem \<Rightarrow> (u32 \<times> u64 option \<times> fapi_mem) option" where
  "wls_fapi_alloc_mem_array m =
     (let a = arr m in
      if ppFreeBlock a = 0 then Some (FAILURE, None, m)
      else if ppFreeBlock a < pStorage a \<or> ppFreeBlock a \<ge> pEndOfStorage a then Some (FAILURE, None, m)
      else
        let f = and (ppFreeBlock a) 0xFFFFFFFFFFFFFFF0;
            nx = and (links m f) 0xFFFFFFFFFFFFFFF0;
            m1 = m\<lparr>arr := a\<lparr>ppFreeBlock := f\<rparr>, links := (links m)(f := nx)\<rparr>
        in if nx \<noteq> 0 \<and> (nx < pStorage a \<or> nx \<ge> pEndOfStorage a) then Some (FAILURE, None, m1)
           else
             let m2 = m1\<lparr>arr := a\<lparr>ppFreeBlock := nx\<rparr>\<rparr>;
                 idx = unat ((f - pStorage a) div ucast (nBlockSize a))
             in if idx \<ge> length (alloc_track m) then None
                else if alloc_track m ! idx \<noteq> 0 then Some (FAILURE, Some f, m2)
                else Some (SUCCESS, Some f,
                       m2\<lparr>guards := fill_guard f (nBlockSize a) (guards m), alloc_track := (alloc_track m)[idx := 1]\<rparr>))"

definition wls_fapi_free_mem_array :: "u64 \<Rightarrow> fapi_mem \<Rightarrow> (ret \<times> fapi_mem) option" where
  "wls_fapi_free_mem_array p m =
     (let a = arr m;
          b = and p (not (ucast (nBlockSize a) - 1))
      in if b < pStorage a \<or> b \<ge> pEndOfStorage a then Some (Ret FAILURE, m)
         else
           let idx = unat (ucast (b - pStorage a) div nBlockSize a)
           in if idx \<ge> length (alloc_track m) then None
              else if alloc_track m ! idx = 0 then Some (Ret SUCCESS, m)
              else if \<not> guard_intact b (nBlockSize a) (guards m) then Some (Exit, m)
              else
                let m1 = m\<lparr>alloc_track := (alloc_track m)[idx := 0]\<rparr>
                in if ppFreeBlock a = b then Some (Ret SUCCESS, m1)
                   else if ppFreeBlock a \<noteq> 0 \<and> (ppFreeBlock a < pStorage a \<or> ppFreeBlock a \<ge> pEndOfStorage a)
                   then Some (Ret FAILURE, m1)
                   else Some (Ret SUCCESS,
                     m1\<lparr>links := (links m)(b := and (ppFreeBlock a) 0xFFFFFFFFFFFFFFF0),
                        arr := a\<lparr>ppFreeBlock := and b 0xFFFFFFFFFFFFFFF0\<rparr>\<rparr>))"

section \<open>Counters and partition\<close>

record fapi_wls_ctx =
  mem :: fapi_mem
  pWlsMemBase :: u64
  nTotalMemorySize :: u32
  pPartitionMemBase :: u64
  nPartitionMemSize :: u32
  nTotalBlocks :: u32
  nAllocBlocks :: u32
  nTotalAllocCnt :: u32
  nTotalFreeCnt :: u32
  nTotalUlBufAllocCnt :: u32
  nTotalUlBufFreeCnt :: u32
  nTotalDlBufAllocCnt :: "u32 list"
  nTotalDlBufFreeCnt :: "u32 list"

text \<open>A buffer, or \<open>None\<close> when the process exits.\<close>

definition wls_fapi_alloc_buffer :: "u32 \<Rightarrow> fapi_wls_ctx \<Rightarrow> (u64 option \<times> fapi_wls_ctx) option" where
  "wls_fapi_alloc_buffer loc w =
     Option.bind (wls_fapi_alloc_mem_array (mem w)) (\<lambda>(r, blk, m).
     let w1 = w\<lparr>mem := m\<rparr> in
     if r \<noteq> SUCCESS then Some (None, w1)
     else
       let w2 = w1\<lparr>nAllocBlocks := nAllocBlocks w + 1, nTotalAllocCnt := nTotalAllocCnt w + 1\<rparr>
       in Some (blk,
            if loc < MAX_DL_BUF_LOCATIONS
            then w2\<lparr>nTotalDlBufAllocCnt := (nTotalDlBufAllocCnt w)[unat loc := nTotalDlBufAllocCnt w ! unat loc + 1]\<rparr>
            else if loc < MAX_UL_BUF_LOCATIONS then w2\<lparr>nTotalUlBufAllocCnt := nTotalUlBufAllocCnt w + 1\<rparr>
            else w2))"

text \<open>The flag is false when the process exits.\<close>

definition wls_fapi_free_buffer :: "u64 \<Rightarrow> u32 \<Rightarrow> fapi_wls_ctx \<Rightarrow> (bool \<times> fapi_wls_ctx) option" where
  "wls_fapi_free_buffer pMsg loc w =
     Option.bind (wls_fapi_free_mem_array pMsg (mem w)) (\<lambda>(r, m).
     let w1 = w\<lparr>mem := m\<rparr> in
     if r \<noteq> Ret SUCCESS then Some (False, w1)
     else
       let w2 = w1\<lparr>nAllocBlocks := nAllocBlocks w - 1, nTotalFreeCnt := nTotalFreeCnt w + 1\<rparr>
       in Some (True,
            if loc < MAX_DL_BUF_LOCATIONS
            then w2\<lparr>nTotalDlBufFreeCnt := (nTotalDlBufFreeCnt w)[unat loc := nTotalDlBufFreeCnt w ! unat loc + 1]\<rparr>
            else if loc < MAX_UL_BUF_LOCATIONS then w2\<lparr>nTotalUlBufFreeCnt := nTotalUlBufFreeCnt w + 1\<rparr>
            else w2))"

definition wls_fapi_create_partition :: "fapi_wls_ctx \<Rightarrow> (u32 \<times> fapi_wls_ctx) option" where
  "wls_fapi_create_partition w =
     (let blockSize = MSG_MAXSIZE;
          blockSizeMask = blockSize - 1;
          usable = ucast (nTotalMemorySize w) - WLS_HUGE_DEF_PAGE_SIZEA;
          base = and (pWlsMemBase w + blockSizeMask) (not blockSizeMask);
          usable = usable - (base - pWlsMemBase w);
          usable = usable - usable mod blockSize;
          hugeMask = WLS_HUGE_DEF_PAGE_SIZEA - 1;
          base = and (base + WLS_HUGE_DEF_PAGE_SIZEA) (not hugeMask);
          w1 = w\<lparr>pPartitionMemBase := base, nPartitionMemSize := ucast usable,
                 nTotalBlocks := ucast (ucast (ucast usable :: u32) div blockSize)\<rparr>
      in Option.bind (wls_fapi_create_mem_array base (nPartitionMemSize w1) (ucast blockSize) (mem w1))
           (\<lambda>(r, m). Some (r, w1\<lparr>mem := m\<rparr>)))"

section \<open>Geometry of the array\<close>

definition blk_addr :: "mem_array \<Rightarrow> nat \<Rightarrow> u64" where
  "blk_addr a i = pStorage a + of_nat (i * unat (nBlockSize a))"

definition blk_count :: "mem_array \<Rightarrow> nat" where
  "blk_count a = unat (nBlockCount a)"

definition geometry :: "mem_array \<Rightarrow> bool" where
  "geometry a \<longleftrightarrow> (\<exists>k. 5 \<le> k \<and> k < 32 \<and> unat (nBlockSize a) = 2 ^ k \<and> 2 ^ k dvd unat (pStorage a))
     \<and> pStorage a \<noteq> 0 \<and> blk_count a \<le> ALLOC_TRACK_SIZE
     \<and> blk_count a * unat (nBlockSize a) < 2 ^ 32
     \<and> unat (pStorage a) + blk_count a * unat (nBlockSize a) < 2 ^ 64
     \<and> unat (pEndOfStorage a) = unat (pStorage a) + blk_count a * unat (nBlockSize a)"

lemma and_not_mask_aligned:
  fixes w :: "'a::len word"
  assumes "2 ^ k dvd unat w"
  shows "and w (not (mask k)) = w"
proof -
  have "take_bit k (unat w) = 0" using assms by (simp add: take_bit_eq_mod)
  then have "take_bit k w = 0" by (metis unsigned_take_bit_eq unsigned_0 word_unat_eq_iff)
  then have "\<not> bit w n" if "n < k" for n
    using that by (metis bit_0_eq bit_take_bit_iff bot_apply bot_bool_def)
  then show ?thesis by (intro bit_word_eqI) (auto simp: bit_simps)
qed

lemma unat_ucast_small:
  "unat w < 2 ^ LENGTH('b) \<Longrightarrow> unat (ucast w :: 'b::len word) = unat w"
  by (simp add: unsigned_ucast_eq take_bit_eq_mod)

lemma unat_clear_low:
  fixes w :: "'a::len word"
  shows "unat (and w (not (mask k))) = unat w - unat w mod 2 ^ k"
proof -
  have "and w (not (mask k)) + take_bit k w = w"
  proof -
    have "and w (not (mask k)) = push_bit k (drop_bit k w)"
      by (intro bit_word_eqI) (auto simp: bit_simps)
    then show ?thesis by (simp add: bits_ident)
  qed
  then have "and w (not (mask k)) = w - take_bit k w" by (metis add_diff_cancel_right')
  moreover have "unat (take_bit k w) = unat w mod 2 ^ k"
    by (metis take_bit_eq_mod unsigned_take_bit_eq)
  moreover have "take_bit k w \<le> w" using \<open>unat (take_bit k w) = unat w mod 2 ^ k\<close>
    by (simp add: word_le_nat_alt)
  ultimately show ?thesis by (simp add: unat_diff_of_le)
qed

lemma nibble_mask: "(0xFFFFFFFFFFFFFFF0 :: u64) = not (mask 4)"
  by (simp add: mask_eq_exp_minus_1)

lemma blk_unat:
  assumes geo: "geometry a" and i: "i \<le> blk_count a"
  shows "unat (blk_addr a i) = unat (pStorage a) + i * unat (nBlockSize a)"
proof -
  have "i * unat (nBlockSize a) \<le> blk_count a * unat (nBlockSize a)" using i by (rule mult_right_mono) simp
  moreover have "unat (pStorage a) + blk_count a * unat (nBlockSize a) < 2 ^ 64" using geo unfolding geometry_def by blast
  ultimately have b: "unat (pStorage a) + i * unat (nBlockSize a) < 2 ^ 64" by linarith
  then have "unat (of_nat (i * unat (nBlockSize a)) :: u64) = i * unat (nBlockSize a)"
    using b by (subst unat_of_nat) simp
  then show ?thesis using b by (simp add: blk_addr_def unat_add_of_sum_less)
qed

lemma blk_size_pos: "geometry a \<Longrightarrow> 0 < unat (nBlockSize a)"
  by (auto simp: geometry_def)

lemma blk_bounds:
  assumes geo: "geometry a" and i: "i < blk_count a"
  shows "pStorage a \<le> blk_addr a i" "blk_addr a i < pEndOfStorage a" "blk_addr a i \<noteq> 0"
    "\<not> blk_addr a i < pStorage a" "\<not> pEndOfStorage a \<le> blk_addr a i"
proof -
  have u: "unat (blk_addr a i) = unat (pStorage a) + i * unat (nBlockSize a)" using i blk_unat [OF geo] by simp
  show le: "pStorage a \<le> blk_addr a i" using u by (simp add: word_le_nat_alt)
  show lt: "blk_addr a i < pEndOfStorage a"
    using u assms geo blk_size_pos [OF geo] by (simp add: word_less_nat_alt geometry_def)
  have "unat (pStorage a) \<noteq> 0" using geo by (simp add: geometry_def unat_eq_0)
  then show "blk_addr a i \<noteq> 0" using u by (metis add_is_0 unsigned_0)
  show "\<not> blk_addr a i < pStorage a" "\<not> pEndOfStorage a \<le> blk_addr a i" using le lt by simp_all
qed

lemma blk_inj:
  assumes geo: "geometry a" and i: "i < blk_count a" and j: "j < blk_count a" "blk_addr a i = blk_addr a j"
  shows "i = j"
proof -
  have "unat (pStorage a) + i * unat (nBlockSize a) = unat (pStorage a) + j * unat (nBlockSize a)"
    using blk_unat [OF geo less_imp_le [OF i]] blk_unat [OF geo less_imp_le [OF j(1)]] j(2) by metis
  then show ?thesis using blk_size_pos [OF geo] by simp
qed

lemma blk_aligned:
  assumes geo: "geometry a" and i: "i < blk_count a"
  shows "and (blk_addr a i) 0xFFFFFFFFFFFFFFF0 = blk_addr a i"
    "and (blk_addr a i) (not (ucast (nBlockSize a) - 1)) = blk_addr a i"
proof -
  obtain k where k: "5 \<le> k" "k < 32" "unat (nBlockSize a) = 2 ^ k" "2 ^ k dvd unat (pStorage a)"
    using geo by (auto simp: geometry_def)
  have d: "2 ^ k dvd unat (blk_addr a i)" using i k by (simp add: blk_unat [OF geo])
  have "(2 :: nat) ^ 4 dvd 2 ^ k" by (rule le_imp_power_dvd) (use k(1) in simp)
  then have "2 ^ 4 dvd unat (blk_addr a i)" using d dvd_trans by blast
  then show "and (blk_addr a i) 0xFFFFFFFFFFFFFFF0 = blk_addr a i"
    using and_not_mask_aligned [of 4 "blk_addr a i"] nibble_mask by simp
  have "(ucast (nBlockSize a) :: u64) = of_nat (unat (nBlockSize a))" by simp
  also have "\<dots> = 2 ^ k" using k(3) by simp
  finally have "(ucast (nBlockSize a) :: u64) = 2 ^ k" .
  then show "and (blk_addr a i) (not (ucast (nBlockSize a) - 1)) = blk_addr a i"
    using and_not_mask_aligned [OF d] by (simp add: mask_eq_exp_minus_1)
qed

lemma blk_index:
  assumes geo: "geometry a" and i: "i < blk_count a"
  shows "unat ((blk_addr a i - pStorage a) div ucast (nBlockSize a)) = i"
    "unat (ucast (blk_addr a i - pStorage a) div nBlockSize a) = i"
proof -
  have d: "unat (blk_addr a i - pStorage a) = i * unat (nBlockSize a)"
    using blk_unat [OF geo, of i] blk_bounds(1) [OF geo i] assms by (simp add: unat_diff_of_le)
  have "blk_count a * unat (nBlockSize a) < 2 ^ 32" using geo unfolding geometry_def by blast
  moreover have "i * unat (nBlockSize a) \<le> blk_count a * unat (nBlockSize a)"
    by (rule mult_right_mono) (use assms in simp_all)
  ultimately have "i * unat (nBlockSize a) < 2 ^ 32" by linarith
  then have u: "unat (ucast (blk_addr a i - pStorage a) :: u32) = i * unat (nBlockSize a)"
    using d by (simp add: unsigned_ucast_eq take_bit_eq_mod)
  have "unat (nBlockSize a) < 2 ^ LENGTH(32)" by (rule unsigned_less)
  then have "unat (ucast (nBlockSize a) :: u64) = unat (nBlockSize a)"
    by (simp add: unsigned_ucast_eq take_bit_eq_mod)
  then show "unat ((blk_addr a i - pStorage a) div ucast (nBlockSize a)) = i"
    using d blk_size_pos [OF geo] by (simp add: unat_div_distrib)
  show "unat (ucast (blk_addr a i - pStorage a) div nBlockSize a) = i"
    using u blk_size_pos [OF geo] by (simp add: unat_div_distrib)
qed

section \<open>The list of free blocks\<close>

fun chain :: "(u64 \<Rightarrow> u64) \<Rightarrow> u64 \<Rightarrow> u64 list \<Rightarrow> bool" where
  "chain l x [] \<longleftrightarrow> x = 0"
| "chain l x (y # ys) \<longleftrightarrow> x = y \<and> chain l (l y) ys"

lemma chain_cong: "\<forall>x \<in> set xs. l x = l' x \<Longrightarrow> chain l a xs = chain l' a xs"
  by (induction xs arbitrary: a) auto

lemma chain_upd [simp]: "y \<notin> set xs \<Longrightarrow> chain (l(y := v)) a xs = chain l a xs"
  by (rule chain_cong) auto

lemma fill_guard_keeps: "guard_intact p bsz g \<Longrightarrow> guard_intact p bsz (fill_guard q bsz' g)"
  by (simp add: guard_intact_def fill_guard_def)

lemma fill_guard_self [simp]: "guard_intact p bsz (fill_guard p bsz g)"
proof -
  have "of_nat i < (16 :: u64)" if "i < 16" for i
    using that by (simp add: word_less_nat_alt unat_of_nat take_bit_eq_mod)
  then show ?thesis by (simp add: guard_intact_def fill_guard_def)
qed

definition mem_blocks :: "mem_array \<Rightarrow> u64 set" where
  "mem_blocks a = blk_addr a ` {..<blk_count a}"

definition mem_avail :: "fapi_mem \<Rightarrow> u64 set" where
  "mem_avail m = {blk_addr (arr m) i | i. i < blk_count (arr m) \<and> alloc_track m ! i = 0}"

text \<open>The free list goes through the available blocks; nothing is said of what a client may overwrite in
  a block it holds.  In a good array the patterns of all blocks are there as well.\<close>

definition pool_ok :: "mem_array \<Rightarrow> fapi_mem \<Rightarrow> bool" where
  "pool_ok a0 m \<longleftrightarrow> arr m = a0\<lparr>ppFreeBlock := ppFreeBlock (arr m)\<rparr> \<and> geometry (arr m)
     \<and> length (alloc_track m) = ALLOC_TRACK_SIZE
     \<and> (\<exists>xs. chain (links m) (ppFreeBlock (arr m)) xs \<and> distinct xs \<and> set xs = mem_avail m)"

definition mem_ok :: "mem_array \<Rightarrow> fapi_mem \<Rightarrow> bool" where
  "mem_ok a0 m \<longleftrightarrow> pool_ok a0 m \<and> (\<forall>x \<in> mem_blocks a0. guard_intact x (nBlockSize a0) (guards m))"

text \<open>Taking and giving back a block; giving back returns, with either status, or ends the process.  The
  address is first rounded down to a multiple of the block size.\<close>

definition mem_take :: "fapi_mem \<Rightarrow> (u64 \<times> fapi_mem) option" where
  "mem_take m = (case wls_fapi_alloc_mem_array m of
     Some (r, Some b, m') \<Rightarrow> if r = SUCCESS then Some (b, m') else None
   | _ \<Rightarrow> None)"

definition mem_give :: "u64 \<Rightarrow> fapi_mem \<Rightarrow> fapi_mem option" where
  "mem_give b m = (case wls_fapi_free_mem_array b m of
     Some (Ret r, m') \<Rightarrow> Some m'
   | _ \<Rightarrow> None)"

definition block_of :: "u32 \<Rightarrow> u64 \<Rightarrow> u64" where
  "block_of bsz p = and p (not (ucast bsz - 1))"

text \<open>What a client writes: any word and any byte that lies in no available block.  This includes the
  pattern at the end of a block it holds.\<close>

definition in_block :: "fapi_mem \<Rightarrow> u64 \<Rightarrow> u64 \<Rightarrow> bool" where
  "in_block m x p \<longleftrightarrow> p - x < ucast (nBlockSize (arr m))"

definition mem_user :: "fapi_mem \<Rightarrow> fapi_mem \<Rightarrow> bool" where
  "mem_user m m' \<longleftrightarrow> (\<exists>l g. m' = m\<lparr>links := l, guards := g\<rparr>
     \<and> (\<forall>x \<in> mem_avail m. \<forall>p. in_block m x p \<longrightarrow> l p = links m p \<and> g p = guards m p))"

lemma blk_addr_update [simp]: "blk_addr (a\<lparr>ppFreeBlock := f\<rparr>) = blk_addr a"
  "blk_count (a\<lparr>ppFreeBlock := f\<rparr>) = blk_count a" "geometry (a\<lparr>ppFreeBlock := f\<rparr>) = geometry a"
  by (simp_all add: blk_addr_def blk_count_def geometry_def fun_eq_iff)

lemma mem_avail_simps [simp]:
  "mem_avail (m\<lparr>links := l\<rparr>) = mem_avail m" "mem_avail (m\<lparr>guards := g\<rparr>) = mem_avail m"
  "mem_avail (m\<lparr>arr := (arr m)\<lparr>ppFreeBlock := f\<rparr>\<rparr>) = mem_avail m"
  by (simp_all add: mem_avail_def)

lemma pool_ok_arr:
  assumes "pool_ok a0 m"
  shows "geometry (arr m)" "length (alloc_track m) = ALLOC_TRACK_SIZE"
    "mem_blocks a0 = mem_blocks (arr m)" "nBlockSize a0 = nBlockSize (arr m)"
proof -
  have "mem_blocks a0 = mem_blocks (a0\<lparr>ppFreeBlock := ppFreeBlock (arr m)\<rparr>)"
    "nBlockSize a0 = nBlockSize (a0\<lparr>ppFreeBlock := ppFreeBlock (arr m)\<rparr>)"
    by (simp_all add: mem_blocks_def)
  then show "mem_blocks a0 = mem_blocks (arr m)" and "nBlockSize a0 = nBlockSize (arr m)"
    using assms by (metis pool_ok_def)+
qed (use assms in \<open>simp_all add: pool_ok_def\<close>)

lemma mem_ok_arr:
  assumes "mem_ok a0 m"
  shows "pool_ok a0 m" "geometry (arr m)"
    "x \<in> mem_blocks a0 \<Longrightarrow> guard_intact x (nBlockSize (arr m)) (guards m)"
  using assms pool_ok_arr [of a0 m] by (simp_all add: mem_ok_def)

lemma pool_ok_chain:
  assumes "pool_ok a0 m"
  obtains xs where "chain (links m) (ppFreeBlock (arr m)) xs" "distinct xs" "set xs = mem_avail m"
  using assms unfolding pool_ok_def by blast

lemma pool_ok_intro:
  assumes "pool_ok a0 m" "arr m' = (arr m)\<lparr>ppFreeBlock := f\<rparr>" "length (alloc_track m') = ALLOC_TRACK_SIZE"
    and "chain (links m') f xs" "distinct xs" "set xs = mem_avail m'"
  shows "pool_ok a0 m'"
proof -
  have "arr m = a0\<lparr>ppFreeBlock := ppFreeBlock (arr m)\<rparr>" "geometry (arr m)"
    using assms(1) by (simp_all add: pool_ok_def)
  then have "arr m' = a0\<lparr>ppFreeBlock := ppFreeBlock (arr m')\<rparr>" "geometry (arr m')" "ppFreeBlock (arr m') = f"
    using assms(2) by (auto, metis mem_array.update_convs(1) mem_array.surjective)
  then show ?thesis using assms by (auto simp: pool_ok_def)
qed

section \<open>Allocating and freeing\<close>

lemma alloc_empty:
  assumes "pool_ok a0 m" "mem_avail m = {}"
  shows "wls_fapi_alloc_mem_array m = Some (FAILURE, None, m)"
proof -
  obtain xs where "chain (links m) (ppFreeBlock (arr m)) xs" "distinct xs" "set xs = mem_avail m"
    by (rule pool_ok_chain [OF assms(1)])
  then have "ppFreeBlock (arr m) = 0" using assms(2) by simp
  then show ?thesis by (simp add: wls_fapi_alloc_mem_array_def)
qed

lemma mem_avail_index:
  assumes "x \<in> mem_avail m"
  obtains i where "i < blk_count (arr m)" "alloc_track m ! i = 0" "x = blk_addr (arr m) i"
  using assms by (auto simp: mem_avail_def)

lemma mem_avail_track:
  assumes "geometry (arr m)" "i < blk_count (arr m)" "length (alloc_track m) = ALLOC_TRACK_SIZE"
    and "arr m' = (arr m)\<lparr>ppFreeBlock := f\<rparr>" "alloc_track m' = (alloc_track m)[i := v]"
  shows "mem_avail m' = (if v = 0 then insert (blk_addr (arr m) i) (mem_avail m)
                          else mem_avail m - {blk_addr (arr m) i})"
proof -
  have "i < length (alloc_track m)" using assms(1-3) by (simp add: geometry_def)
  then have tr: "alloc_track m' ! j = (if j = i then v else alloc_track m ! j)" for j
    using assms(5) by (simp add: nth_list_update)
  have "x \<in> mem_avail m' \<longleftrightarrow> x \<in> (if v = 0 then insert (blk_addr (arr m) i) (mem_avail m)
                          else mem_avail m - {blk_addr (arr m) i})" for x
    unfolding mem_avail_def assms(4) blk_addr_update mem_Collect_eq tr
    using assms(2) blk_inj [OF assms(1)] by (cases "v = 0") (simp_all, metis+)
  then show ?thesis by blast
qed

lemma pool_alloc:
  assumes ok: "pool_ok a0 m" and ne: "mem_avail m \<noteq> {}"
  shows "\<exists>b m'. wls_fapi_alloc_mem_array m = Some (SUCCESS, Some b, m') \<and> pool_ok a0 m'
    \<and> b \<in> mem_avail m \<and> mem_avail m' = mem_avail m - {b}
    \<and> guards m' = fill_guard b (nBlockSize (arr m)) (guards m)"
proof -
  obtain xs where xs: "chain (links m) (ppFreeBlock (arr m)) xs" "distinct xs" "set xs = mem_avail m"
    by (rule pool_ok_chain [OF ok])
  note geo = pool_ok_arr(1) [OF ok] and len = pool_ok_arr(2) [OF ok]
  from xs(3) ne obtain x ys where x: "xs = x # ys" by (cases xs) auto
  then have xa: "x \<in> mem_avail m" and head: "ppFreeBlock (arr m) = x" and rest: "chain (links m) (links m x) ys"
    using xs by auto
  obtain i where i: "i < blk_count (arr m)" "alloc_track m ! i = 0" "x = blk_addr (arr m) i"
    using xa by (rule mem_avail_index)
  have next_ok: "and (links m x) 0xFFFFFFFFFFFFFFF0 = links m x"
    "\<not> (links m x \<noteq> 0 \<and> (links m x < pStorage (arr m) \<or> links m x \<ge> pEndOfStorage (arr m)))"
  proof (atomize (full), cases ys)
    case Nil then show "and (links m x) 0xFFFFFFFFFFFFFFF0 = links m x \<and>
      \<not> (links m x \<noteq> 0 \<and> (links m x < pStorage (arr m) \<or> links m x \<ge> pEndOfStorage (arr m)))"
      using rest by simp
  next
    case (Cons y zs)
    then have "y \<in> mem_avail m" "links m x = y" using xs(3) x rest by auto
    then obtain j where "j < blk_count (arr m)" "links m x = blk_addr (arr m) j"
      by (auto elim: mem_avail_index)
    then show "and (links m x) 0xFFFFFFFFFFFFFFF0 = links m x \<and>
      \<not> (links m x \<noteq> 0 \<and> (links m x < pStorage (arr m) \<or> links m x \<ge> pEndOfStorage (arr m)))"
      using blk_aligned(1) [OF geo] blk_bounds(4,5) [OF geo] by metis
  qed
  let ?m = "m\<lparr>arr := (arr m)\<lparr>ppFreeBlock := links m x\<rparr>,
      guards := fill_guard x (nBlockSize (arr m)) (guards m), alloc_track := (alloc_track m)[i := 1]\<rparr>"
  have track: "i < length (alloc_track m)" using i(1) geo len by (simp add: geometry_def)
  have self: "(links m)(x := links m x) = links m" by simp
  have al: "and x 0xFFFFFFFFFFFFFFF0 = x" and b: "x \<noteq> 0" "\<not> x < pStorage (arr m)" "\<not> pEndOfStorage (arr m) \<le> x"
    and ix: "unat ((x - pStorage (arr m)) div ucast (nBlockSize (arr m))) = i"
    using blk_aligned(1) [OF geo i(1)] blk_bounds [OF geo i(1)] blk_index(1) [OF geo i(1)] i(3) by simp_all
  have "wls_fapi_alloc_mem_array m = Some (SUCCESS, Some x, ?m)"
    using head al b next_ok ix i(2) track by (simp add: wls_fapi_alloc_mem_array_def Let_def)
  moreover have avail: "mem_avail ?m = mem_avail m - {x}"
    using mem_avail_track [OF geo i(1) len, of ?m "links m x" 1] i(3) by simp
  moreover have "pool_ok a0 ?m"
    by (rule pool_ok_intro [OF ok, where f = "links m x" and xs = ys])
      (use xs x rest len avail in auto)
  ultimately show ?thesis using xa by fastforce
qed

lemma pool_free:
  assumes ok: "pool_ok a0 m" and b: "b \<in> mem_blocks a0" "b \<notin> mem_avail m" and guard: "guard_intact b (nBlockSize (arr m)) (guards m)"
  shows "\<exists>m'. wls_fapi_free_mem_array b m = Some (Ret SUCCESS, m') \<and> pool_ok a0 m'
    \<and> mem_avail m' = insert b (mem_avail m) \<and> guards m' = guards m"
proof -
  obtain xs where xs: "chain (links m) (ppFreeBlock (arr m)) xs" "distinct xs" "set xs = mem_avail m"
    by (rule pool_ok_chain [OF ok])
  note geo = pool_ok_arr(1) [OF ok] and len = pool_ok_arr(2) [OF ok] and blocks = pool_ok_arr(3) [OF ok]
  obtain i where i: "i < blk_count (arr m)" "b = blk_addr (arr m) i" using b(1) blocks by (auto simp: mem_blocks_def)
  have used: "alloc_track m ! i \<noteq> 0" using b(2) i by (auto simp: mem_avail_def)
  have track: "i < length (alloc_track m)" using i(1) geo len by (simp add: geometry_def)
  let ?f = "ppFreeBlock (arr m)"
  have f_ok: "and ?f 0xFFFFFFFFFFFFFFF0 = ?f \<and> ?f \<noteq> b \<and> \<not> (?f \<noteq> 0 \<and> (?f < pStorage (arr m) \<or> ?f \<ge> pEndOfStorage (arr m)))"
  proof (cases xs)
    case Nil then show ?thesis using xs(1) blk_bounds(3) [OF geo i(1)] i(2) by simp
  next
    case (Cons y ys)
    then have "?f \<in> mem_avail m" using xs(1,3) by auto
    then obtain j where "j < blk_count (arr m)" "?f = blk_addr (arr m) j" "?f \<noteq> b"
      using b(2) by (metis mem_avail_index)
    then show ?thesis using blk_aligned(1) [OF geo] blk_bounds(4,5) [OF geo] by metis
  qed
  have al: "and b 0xFFFFFFFFFFFFFFF0 = b" "and b (not (ucast (nBlockSize (arr m)) - 1)) = b"
    and bd: "\<not> b < pStorage (arr m)" "\<not> pEndOfStorage (arr m) \<le> b"
    and ix: "unat (ucast (b - pStorage (arr m)) div nBlockSize (arr m)) = i"
    using blk_aligned [OF geo i(1)] blk_bounds [OF geo i(1)] blk_index(2) [OF geo i(1)] i(2) by simp_all
  let ?m = "m\<lparr>alloc_track := (alloc_track m)[i := 0], links := (links m)(b := ?f), arr := (arr m)\<lparr>ppFreeBlock := b\<rparr>\<rparr>"
  have "wls_fapi_free_mem_array b m = Some (Ret SUCCESS, ?m)"
    using al bd ix used track guard f_ok by (auto simp: wls_fapi_free_mem_array_def Let_def)
  moreover have avail: "mem_avail ?m = insert b (mem_avail m)"
    using mem_avail_track [OF geo i(1) len, of ?m b 0] i(2) by simp
  moreover have "pool_ok a0 ?m"
    by (rule pool_ok_intro [OF ok, where f = b and xs = "b # xs"])
      (use xs b(2) len avail in auto)
  ultimately show ?thesis by fastforce
qed

lemma alloc_takes_head:
  assumes "mem_ok a0 m" "mem_avail m \<noteq> {}"
  shows "\<exists>b m'. wls_fapi_alloc_mem_array m = Some (SUCCESS, Some b, m') \<and> mem_ok a0 m'
    \<and> b \<in> mem_avail m \<and> mem_avail m' = mem_avail m - {b}"
  using pool_alloc [OF mem_ok_arr(1) [OF assms(1)] assms(2)] assms(1) fill_guard_keeps unfolding mem_ok_def by metis

lemma free_adds_head:
  assumes "mem_ok a0 m" "b \<in> mem_blocks a0" "b \<notin> mem_avail m"
  shows "\<exists>m'. wls_fapi_free_mem_array b m = Some (Ret SUCCESS, m') \<and> mem_ok a0 m'
    \<and> mem_avail m' = insert b (mem_avail m)"
  using pool_free [OF mem_ok_arr(1) [OF assms(1)] assms(2,3) mem_ok_arr(3) [OF assms(1,2)]] assms(1) unfolding mem_ok_def by metis

lemma free_block_of: "wls_fapi_free_mem_array (block_of (nBlockSize (arr m)) p) m = wls_fapi_free_mem_array p m"
  by (simp add: wls_fapi_free_mem_array_def block_of_def Let_def and.assoc)

lemma block_of_in_array:
  assumes geo: "geometry a" and b: "b = block_of (nBlockSize a) p" "pStorage a \<le> b" "b < pEndOfStorage a"
  shows "b \<in> mem_blocks a"
proof -
  obtain k where k: "unat (nBlockSize a) = 2 ^ k" "2 ^ k dvd unat (pStorage a)"
    using geo by (auto simp: geometry_def)
  have "(ucast (nBlockSize a) :: u64) = of_nat (unat (nBlockSize a))" by simp
  then have "b = and p (not (mask k))" using b(1) k(1) by (simp add: block_of_def mask_eq_exp_minus_1)
  then have "unat b = unat p - unat p mod 2 ^ k" by (simp add: unat_clear_low)
  then have "2 ^ k dvd unat b" by (simp add: minus_mod_eq_div_mult)
  then obtain i where i: "unat b - unat (pStorage a) = i * 2 ^ k" using k(2) by (metis dvd_diff_nat dvdE mult.commute)
  have le: "unat (pStorage a) \<le> unat b" using b(2) by (simp add: word_le_nat_alt)
  have "unat b < unat (pStorage a) + blk_count a * 2 ^ k" using b(3) geo k(1) by (simp add: word_less_nat_alt geometry_def)
  then have "i * 2 ^ k < blk_count a * 2 ^ k" using i le by linarith
  then have n: "i < blk_count a" by simp
  then have "unat (blk_addr a i) = unat b" using blk_unat [OF geo, of i] i le k(1) by simp
  then have "b = blk_addr a i" by (simp add: word_unat_eq_iff)
  then show ?thesis using n by (auto simp: mem_blocks_def)
qed

text \<open>Freeing any address: one of no block is refused, one of an available block has no effect, and one of a
  held block makes it available, or ends the process when its last 16 bytes are not the pattern.\<close>

lemma free_foreign:
  assumes ok: "pool_ok a0 m" and b: "block_of (nBlockSize a0) p \<notin> mem_blocks a0"
  shows "wls_fapi_free_mem_array p m = Some (Ret FAILURE, m)"
proof -
  note n = pool_ok_arr(3,4) [OF ok]
  have "block_of (nBlockSize (arr m)) p < pStorage (arr m) \<or> pEndOfStorage (arr m) \<le> block_of (nBlockSize (arr m)) p"
    using block_of_in_array [OF pool_ok_arr(1) [OF ok] refl, of p] b n by force
  then show ?thesis by (auto simp: wls_fapi_free_mem_array_def block_of_def Let_def)
qed

lemma free_available:
  assumes ok: "pool_ok a0 m" and b: "block_of (nBlockSize a0) p \<in> mem_avail m"
  shows "wls_fapi_free_mem_array p m = Some (Ret SUCCESS, m)"
proof -
  note geo = pool_ok_arr(1) [OF ok] and len = pool_ok_arr(2) [OF ok] and n = pool_ok_arr(4) [OF ok]
  obtain i where i: "i < blk_count (arr m)" "alloc_track m ! i = 0" "block_of (nBlockSize (arr m)) p = blk_addr (arr m) i"
    using b unfolding n by (rule mem_avail_index)
  have "i < length (alloc_track m)" using i(1) geo len by (simp add: geometry_def)
  then have "wls_fapi_free_mem_array (blk_addr (arr m) i) m = Some (Ret SUCCESS, m)"
    using i blk_aligned(2) [OF geo i(1)] blk_bounds [OF geo i(1)] blk_index(2) [OF geo i(1)]
    by (simp add: wls_fapi_free_mem_array_def Let_def)
  then show ?thesis using free_block_of [of m p] i(3) by simp
qed

lemma free_overwritten:
  assumes ok: "pool_ok a0 m" and b: "block_of (nBlockSize a0) p \<in> mem_blocks a0 - mem_avail m"
    and g: "\<not> guard_intact (block_of (nBlockSize a0) p) (nBlockSize a0) (guards m)"
  shows "wls_fapi_free_mem_array p m = Some (Exit, m)"
proof -
  note geo = pool_ok_arr(1) [OF ok] and len = pool_ok_arr(2) [OF ok] and n = pool_ok_arr(3,4) [OF ok]
  obtain i where i: "i < blk_count (arr m)" "block_of (nBlockSize (arr m)) p = blk_addr (arr m) i"
    using b unfolding n by (auto simp: mem_blocks_def)
  have "alloc_track m ! i \<noteq> 0" using b i unfolding n by (auto simp: mem_avail_def)
  moreover have "i < length (alloc_track m)" using i(1) geo len by (simp add: geometry_def)
  ultimately have "wls_fapi_free_mem_array (blk_addr (arr m) i) m = Some (Exit, m)"
    using i blk_aligned(2) [OF geo i(1)] blk_bounds [OF geo i(1)] blk_index(2) [OF geo i(1)] g [unfolded n]
    by (simp add: wls_fapi_free_mem_array_def Let_def)
  then show ?thesis using free_block_of [of m p] i(2) by simp
qed

lemma free_held:
  assumes ok: "pool_ok a0 m" and b: "block_of (nBlockSize a0) p \<in> mem_blocks a0 - mem_avail m"
    and g: "guard_intact (block_of (nBlockSize a0) p) (nBlockSize a0) (guards m)"
  shows "\<exists>m'. wls_fapi_free_mem_array p m = Some (Ret SUCCESS, m') \<and> pool_ok a0 m'
    \<and> mem_avail m' = insert (block_of (nBlockSize a0) p) (mem_avail m)"
proof -
  note n = pool_ok_arr(4) [OF ok]
  have "block_of (nBlockSize a0) p \<in> mem_blocks a0" "block_of (nBlockSize a0) p \<notin> mem_avail m" using b by blast+
  from pool_free [OF ok this] g n free_block_of [of m p] show ?thesis by fastforce
qed

interpretation fm: block_pool "pool_ok a0" "mem_blocks a0" mem_avail mem_take mem_give "block_of (nBlockSize a0)" mem_user for a0
proof
  fix m assume ok: "pool_ok a0 m"
  show "mem_avail m \<subseteq> mem_blocks a0"
    unfolding pool_ok_arr(3) [OF ok] by (auto simp: mem_avail_def mem_blocks_def)
  show "mem_take m = None \<longleftrightarrow> mem_avail m = {}"
  proof (cases "mem_avail m = {}")
    case True then show ?thesis using alloc_empty [OF ok] by (simp add: mem_take_def)
  next
    case False
    from pool_alloc [OF ok this] obtain c n where
      "wls_fapi_alloc_mem_array m = Some (SUCCESS, Some c, n)" by blast
    then show ?thesis using False by (simp add: mem_take_def)
  qed
next
  fix m b m' assume ok: "pool_ok a0 m" and t: "mem_take m = Some (b, m')"
  then have "mem_avail m \<noteq> {}" using alloc_empty [OF ok] by (auto simp: mem_take_def)
  from pool_alloc [OF ok this] obtain c n where
    c: "wls_fapi_alloc_mem_array m = Some (SUCCESS, Some c, n)" "pool_ok a0 n" "c \<in> mem_avail m"
      "mem_avail n = mem_avail m - {c}" by blast
  then have "c = b" "n = m'" using t by (simp_all add: mem_take_def)
  then show "pool_ok a0 m' \<and> b \<in> mem_avail m \<and> mem_avail m' = mem_avail m - {b}"
    using c by simp
next
  fix m p m' assume ok: "pool_ok a0 m" and g: "mem_give p m = Some m'"
  let ?b = "block_of (nBlockSize a0) p"
  have sub: "mem_avail m \<subseteq> mem_blocks a0"
    unfolding pool_ok_arr(3) [OF ok] by (auto simp: mem_avail_def mem_blocks_def)
  consider "?b \<notin> mem_blocks a0" | "?b \<in> mem_avail m"
    | "?b \<in> mem_blocks a0 - mem_avail m" "guard_intact ?b (nBlockSize a0) (guards m)"
    | "?b \<in> mem_blocks a0 - mem_avail m" "\<not> guard_intact ?b (nBlockSize a0) (guards m)"
    by blast
  then show "pool_ok a0 m' \<and> mem_avail m' = mem_avail m \<union> ({?b} \<inter> mem_blocks a0)"
  proof cases
    case 1 then show ?thesis using free_foreign [OF ok] ok g by (simp add: mem_give_def)
  next
    case 2 then show ?thesis using free_available [OF ok] ok g sub by (auto simp: mem_give_def)
  next
    case 3
    from free_held [OF ok 3] obtain n where
      n: "wls_fapi_free_mem_array p m = Some (Ret SUCCESS, n)" "pool_ok a0 n" "mem_avail n = insert ?b (mem_avail m)" by blast
    then have "m' = n" using g by (simp add: mem_give_def)
    then show ?thesis using n 3 by auto
  next
    case 4 then show ?thesis using free_overwritten [OF ok] g by (simp add: mem_give_def)
  qed
next
  fix m m' assume ok: "pool_ok a0 m" and u: "mem_user m m'"
  obtain xs where xs: "chain (links m) (ppFreeBlock (arr m)) xs" "distinct xs" "set xs = mem_avail m"
    by (rule pool_ok_chain [OF ok])
  note len = pool_ok_arr(2) [OF ok]
  from u obtain l g where l: "m' = m\<lparr>links := l, guards := g\<rparr>"
    "\<forall>x \<in> mem_avail m. \<forall>p. in_block m x p \<longrightarrow> l p = links m p" by (auto simp: mem_user_def)
  have "0 < nBlockSize (arr m)" using blk_size_pos [OF pool_ok_arr(1) [OF ok]] by (simp add: word_less_nat_alt)
  then have "in_block m x x" for x by (simp add: in_block_def word_less_nat_alt unat_ucast_small [OF order_less_trans [OF unsigned_less]])
  then have "chain l (ppFreeBlock (arr m)) xs" using xs(1,3) l(2) chain_cong [of xs l "links m"] by auto
  then have "pool_ok a0 m'"
    by (intro pool_ok_intro [OF ok, where f = "ppFreeBlock (arr m)" and xs = xs]) (use xs len l in auto)
  then show "pool_ok a0 m' \<and> mem_avail m' = mem_avail m" using l(1) by simp
qed

section \<open>Creating the array\<close>

lemma chain_step_addr:
  assumes "(8 :: nat) dvd unat (bsz :: u32)"
  shows "8 * (ucast (bsz div 8) :: u64) = ucast bsz"
proof -
  obtain q where q: "unat bsz = 8 * q" using assms by (rule dvdE)
  have small: "unat bsz < 2 ^ LENGTH(32)" by (rule unsigned_less)
  have "unat (bsz div 8) = q" using q by (simp add: unat_div_distrib)
  then have u: "unat (ucast (bsz div 8) :: u64) = q" using small q by (simp add: unsigned_ucast_eq take_bit_eq_mod)
  have "unat (8 * (ucast (bsz div 8) :: u64)) = 8 * q"
    using u small q by (simp add: unat_word_ariths)
  also have "\<dots> = unat (ucast bsz :: u64)" using q small by (simp add: unsigned_ucast_eq take_bit_eq_mod)
  finally show ?thesis by (simp add: word_unat_eq_iff)
qed

lemma unat_offset:
  assumes "unat (p :: u64) + n < 2 ^ 64"
  shows "unat (p + of_nat n) = unat p + n"
proof -
  have "unat (of_nat n :: u64) = n" using assms by (subst unat_of_nat) simp
  then show ?thesis using assms by (simp add: unat_add_of_sum_less)
qed

lemma init_blocks_chain:
  assumes "8 dvd unat bsz" "0 < unat bsz" "unat ptr + n * unat bsz < 2 ^ 64" "0 < n"
  shows "chain (fst (init_blocks n bsz ptr m)) ptr (map (\<lambda>i. ptr + of_nat (i * unat bsz)) [0..<n])
    \<and> (\<forall>a. unat a < unat ptr \<longrightarrow> fst (init_blocks n bsz ptr m) a = fst m a)
    \<and> (\<forall>p. guard_intact p bsz (snd m) \<longrightarrow> guard_intact p bsz (snd (init_blocks n bsz ptr m)))
    \<and> (\<forall>i<n. guard_intact (ptr + of_nat (i * unat bsz)) bsz (snd (init_blocks n bsz ptr m)))"
  using assms(3,4)
proof (induction n arbitrary: ptr m)
  case (Suc n)
  let ?g = "fill_guard ptr bsz (snd m)"
  show ?case
  proof (cases "n = 0")
    case True
    then show ?thesis by (auto simp: Let_def fill_guard_keeps)
  next
    case False
    let ?p = "ptr + ucast bsz"
    let ?m = "((fst m)(ptr := ?p), ?g)"
    have p: "?p = ptr + of_nat (unat bsz)" by simp
    have b: "unat ptr + unat bsz + n * unat bsz < 2 ^ 64" using Suc.prems(1) by (simp add: algebra_simps)
    then have up: "unat ?p = unat ptr + unat bsz" unfolding p by (intro unat_offset) simp
    have init: "init_blocks (Suc n) bsz ptr m = init_blocks n bsz ?p ?m"
      using False chain_step_addr [OF assms(1)] by (simp add: Let_def)
    have shift: "?p + of_nat (i * unat bsz) = ptr + of_nat (Suc i * unat bsz)" for i
      unfolding p by (simp add: algebra_simps)
    note IH = Suc.IH [of ?p ?m, unfolded up shift, OF b]
    have "map (\<lambda>i. ptr + of_nat (i * unat bsz)) [0..<Suc n]
        = ptr # map (\<lambda>i. ptr + of_nat (Suc i * unat bsz)) [0..<n]"
    proof -
      have "[0..<Suc n] = 0 # map Suc [0..<n]" by (simp add: upt_conv_Cons map_Suc_upt del: upt_Suc)
      then show ?thesis by (simp del: upt_Suc mult_Suc of_nat_mult of_nat_Suc)
    qed
    moreover have "fst (init_blocks n bsz ?p ?m) ptr = ?p"
      using IH False assms(2) by simp
    moreover have "guard_intact (ptr + of_nat (i * unat bsz)) bsz (snd (init_blocks n bsz ?p ?m))" if "i < Suc n" for i
      using IH that False fill_guard_self by (cases i) auto
    moreover have "\<forall>a. unat a < unat ptr \<longrightarrow> fst (init_blocks n bsz ?p ?m) a = fst m a"
      using IH False by fastforce
    ultimately show ?thesis unfolding init using IH False fill_guard_keeps by auto
  qed
qed simp

text \<open>The size of the array in bytes, at the widths of the code.\<close>

lemma array_bytes:
  fixes tsz bsz :: u32
  assumes "8 dvd unat bsz"
  shows "unat (8 * (ucast ((tsz div bsz) * bsz) div 8 :: u64)) = unat (tsz div bsz) * unat bsz"
proof -
  have "unat (tsz div bsz) * unat bsz \<le> unat tsz" by (simp add: unat_div_distrib)
  moreover have "unat tsz < 2 ^ LENGTH(32)" by (rule unsigned_less)
  ultimately have lt: "unat (tsz div bsz) * unat bsz < 2 ^ 32" by simp
  then have prod: "unat ((tsz div bsz) * bsz) = unat (tsz div bsz) * unat bsz"
    by (simp add: unat_word_ariths)
  then have u: "unat (ucast ((tsz div bsz) * bsz) :: u64) = unat (tsz div bsz) * unat bsz"
    using lt by (simp add: unsigned_ucast_eq take_bit_eq_mod)
  obtain q where q: "unat (tsz div bsz) * unat bsz = 8 * q" using assms by (meson dvdE dvd_mult)
  have "unat (ucast ((tsz div bsz) * bsz) div 8 :: u64) = q"
    using u q by (simp add: unat_div_distrib)
  then show ?thesis using q lt by (simp add: unat_word_ariths)
qed

lemma create_mem_array_ok:
  assumes k: "5 \<le> k" "k < 32" "unat bsz = 2 ^ k" "2 ^ k dvd unat st"
    and "st \<noteq> 0" "bsz \<le> tsz" "unat (tsz div bsz) \<le> ALLOC_TRACK_SIZE" "unat st + unat tsz < 2 ^ 64"
  shows "\<exists>m'. wls_fapi_create_mem_array st tsz bsz m = Some (SUCCESS, m')
    \<and> mem_ok (arr m') m' \<and> mem_avail m' = mem_blocks (arr m')
    \<and> pStorage (arr m') = st \<and> nBlockSize (arr m') = bsz \<and> nBlockCount (arr m') = tsz div bsz"
proof -
  let ?n = "unat (tsz div bsz)"
  have n: "?n = unat tsz div 2 ^ k" using k(3) by (simp add: unat_div_distrib)
  have le: "?n * unat bsz \<le> unat tsz" using n k(3) by simp
  have tot: "unat tsz < 2 ^ LENGTH(32)" by (rule unsigned_less)
  have pos: "0 < ?n" using assms(6) k(3) n by (simp add: word_le_nat_alt div_greater_zero_iff)
  have b32: "2 ^ 5 \<le> (2 :: nat) ^ k" by (rule power_increasing) (use k in simp_all)
  then have big: "32 \<le> unat bsz" using k(3) by simp
  have d8: "8 dvd unat bsz" using k(1,3) le_imp_power_dvd [of 3 k 2] by simp
  have nz: "bsz \<noteq> 0" "\<not> bsz < 8" using big by (auto simp: word_less_nat_alt)
  have "\<not> tsz < 8" using assms(6) big by (simp add: word_less_nat_alt word_le_nat_alt)
  obtain l g where lg: "init_blocks ?n bsz st (links m, guards m) = (l, g)" by (cases "init_blocks ?n bsz st (links m, guards m)")
  let ?m = "m\<lparr>arr := \<lparr>ppFreeBlock = st, pStorage = st,
       pEndOfStorage = st + 8 * (ucast ((tsz div bsz) * bsz) div 8), nBlockSize = bsz, nBlockCount = tsz div bsz\<rparr>,
     links := l, guards := g, alloc_track := replicate ALLOC_TRACK_SIZE 0\<rparr>"
  have cr: "wls_fapi_create_mem_array st tsz bsz m = Some (SUCCESS, ?m)"
    using nz \<open>\<not> tsz < 8\<close> lg by (simp add: wls_fapi_create_mem_array_def Let_def)
  have end_: "unat (st + 8 * (ucast ((tsz div bsz) * bsz) div 8)) = unat st + ?n * unat bsz"
    using array_bytes [OF d8, of tsz] le assms(8) by (simp add: unat_add_of_sum_less)
  have sum: "unat st + ?n * unat bsz < 2 ^ 64" using le assms(8) by linarith
  have geo: "geometry (arr ?m)"
    using k assms(5,7) sum end_ le tot by (auto simp: geometry_def blk_count_def)
  note init = init_blocks_chain [OF d8 _ sum pos, of "(links m, guards m)", unfolded lg fst_conv snd_conv]
  have avail: "mem_avail ?m = mem_blocks (arr ?m)"
  proof -
    have "replicate ALLOC_TRACK_SIZE (0 :: u8) ! i = 0" if "i < blk_count (arr ?m)" for i
      using that assms(7) by (simp add: blk_count_def)
    then show ?thesis by (auto simp: mem_avail_def mem_blocks_def)
  qed
  let ?xs = "map (blk_addr (arr ?m)) [0..<?n]"
  have blocks: "mem_blocks (arr ?m) = set ?xs"
    unfolding mem_blocks_def blk_count_def by (simp add: lessThan_atLeast0)
  have addr: "blk_addr (arr ?m) i = st + of_nat (i * unat bsz)" for i by (simp add: blk_addr_def)
  have "inj_on (blk_addr (arr ?m)) (set [0..<?n])"
    by (rule inj_onI, rule blk_inj [OF geo]) (simp_all add: blk_count_def)
  then have "distinct ?xs" by (simp add: distinct_map)
  moreover have "chain l st ?xs" using init nz unfolding addr by (simp add: word_unat_eq_iff)
  moreover have "\<forall>x \<in> mem_blocks (arr ?m). guard_intact x bsz g"
    using init nz unfolding blocks addr by (auto simp: word_unat_eq_iff)
  ultimately have "mem_ok (arr ?m) ?m"
    using geo avail blocks unfolding mem_ok_def pool_ok_def by auto
  then show ?thesis using cr avail by auto
qed

section \<open>The partition\<close>

lemma round_up:
  fixes w :: u64
  assumes "unat w + 2 ^ k \<le> 2 ^ 64" "unat (mask k :: u64) = 2 ^ k - 1"
  shows "\<exists>q. unat (and (w + mask k) (not (mask k))) = q * 2 ^ k \<and> unat w \<le> q * 2 ^ k \<and> q * 2 ^ k < unat w + 2 ^ k"
proof -
  have pos: "0 < (2 :: nat) ^ k" by simp
  have "unat w + unat (mask k :: u64) < 2 ^ 64" using assms pos by linarith
  then have u: "unat (w + mask k) = unat w + (2 ^ k - 1)" using assms(2) by (simp add: unat_add_of_sum_less)
  let ?n = "unat w + (2 ^ k - 1)"
  have "?n - ?n mod 2 ^ k = ?n div 2 ^ k * 2 ^ k" by (metis minus_mod_eq_div_mult)
  then have e: "unat (and (w + mask k) (not (mask k))) = ?n div 2 ^ k * 2 ^ k"
    using u by (simp add: unat_clear_low)
  have "?n mod 2 ^ k < 2 ^ k" using pos by (rule mod_less_divisor)
  then have "unat w \<le> ?n div 2 ^ k * 2 ^ k" "?n div 2 ^ k * 2 ^ k < unat w + 2 ^ k"
    using pos div_mult_mod_eq [of ?n "2 ^ k"] by linarith+
  then show ?thesis using e by blast
qed

text \<open>The values that the code computes, as natural numbers.\<close>

lemma partition_values:
  assumes "unat (pWlsMemBase w) + 2 ^ 31 \<le> 2 ^ 64"
  obtains d base where
    "d < 2 ^ 18" "unat (and (pWlsMemBase w + (MSG_MAXSIZE - 1)) (not (MSG_MAXSIZE - 1))) = unat (pWlsMemBase w) + d"
    "base = and (and (pWlsMemBase w + (MSG_MAXSIZE - 1)) (not (MSG_MAXSIZE - 1)) + WLS_HUGE_DEF_PAGE_SIZEA)
              (not (WLS_HUGE_DEF_PAGE_SIZEA - 1))"
    "2 ^ 30 dvd unat base" "unat (pWlsMemBase w) + d < unat base" "unat base \<le> unat (pWlsMemBase w) + d + 2 ^ 30"
proof -
  have m18: "(MSG_MAXSIZE - 1 :: u64) = mask 18" "unat (mask 18 :: u64) = 2 ^ 18 - 1"
    by (simp_all add: MSG_MAXSIZE_def mask_eq_exp_minus_1)
  have m30: "(WLS_HUGE_DEF_PAGE_SIZEA - 1 :: u64) = mask 30" "unat WLS_HUGE_DEF_PAGE_SIZEA = 2 ^ 30"
    by (simp_all add: WLS_HUGE_DEF_PAGE_SIZEA_def mask_eq_exp_minus_1)
  let ?B = "unat (pWlsMemBase w)" and ?a = "and (pWlsMemBase w + mask 18) (not (mask 18))"
  obtain q where q: "unat ?a = q * 2 ^ 18" "?B \<le> q * 2 ^ 18" "q * 2 ^ 18 < ?B + 2 ^ 18"
    using round_up [of "pWlsMemBase w" 18, OF _ m18(2)] assms by auto
  have s: "unat (?a + WLS_HUGE_DEF_PAGE_SIZEA) = unat ?a + 2 ^ 30"
    using q assms m30(2) by (simp add: unat_add_of_sum_less)
  let ?base = "and (?a + WLS_HUGE_DEF_PAGE_SIZEA) (not (mask 30))"
  have b: "unat ?base = unat ?a + 2 ^ 30 - (unat ?a + 2 ^ 30) mod 2 ^ 30"
    using s by (simp only: unat_clear_low)
  then have "2 ^ 30 dvd unat ?base" by (metis dvd_minus_mod)
  moreover have "(unat ?a + 2 ^ 30) mod 2 ^ 30 < 2 ^ 30" by simp
  ultimately show ?thesis
    using that [of "unat ?a - ?B" ?base] q b unfolding m18(1) m30(1) by simp
qed

text \<open>The number of blocks, when the memory has room for the huge page and the alignment.\<close>

lemma partition_size:
  assumes T: "2 ^ 30 + 2 ^ 20 \<le> unat (T :: u32)" and d: "d < 2 ^ 18" "unat (off :: u64) = d"
  defines "u \<equiv> ucast T - WLS_HUGE_DEF_PAGE_SIZEA - off - (ucast T - WLS_HUGE_DEF_PAGE_SIZEA - off) mod MSG_MAXSIZE"
  obtains n where "unat (ucast u :: u32) = n * 2 ^ 18" "1 \<le> n" "n * 2 ^ 18 + 2 ^ 30 + d \<le> unat T"
    "unat T < n * 2 ^ 18 + 2 ^ 18 + 2 ^ 30 + d" "n \<le> ALLOC_TRACK_SIZE"
proof -
  let ?T = "unat T"
  have T32: "?T < 2 ^ LENGTH(32)" by (rule unsigned_less)
  have T64: "unat (ucast T :: u64) = ?T" using T32 by (simp add: unat_ucast_small)
  let ?u0 = "ucast T - WLS_HUGE_DEF_PAGE_SIZEA :: u64"
  have "unat WLS_HUGE_DEF_PAGE_SIZEA = 2 ^ 30" by (simp add: WLS_HUGE_DEF_PAGE_SIZEA_def)
  then have u0: "unat ?u0 = ?T - 2 ^ 30"
    using T T64 by (subst unat_diff_of_le) (simp_all add: word_le_nat_alt)
  have u1: "unat (?u0 - off) = ?T - 2 ^ 30 - d"
    using u0 d T by (subst unat_diff_of_le) (simp_all add: word_le_nat_alt)
  have M: "unat MSG_MAXSIZE = 2 ^ 18" by (simp add: MSG_MAXSIZE_def)
  define n where "n = (?T - 2 ^ 30 - d) div 2 ^ 18"
  have m: "unat ((?u0 - off) mod MSG_MAXSIZE) = (?T - 2 ^ 30 - d) mod 2 ^ 18" using u1 M by (simp add: unat_mod_distrib)
  have "unat u = unat (?u0 - off) - unat ((?u0 - off) mod MSG_MAXSIZE)"
    unfolding u_def by (rule unat_diff_of_le) (simp add: word_le_nat_alt m u1)
  then have u: "unat u = n * 2 ^ 18" using u1 m by (simp add: n_def minus_mod_eq_div_mult)
  have n: "1 \<le> n" "n * 2 ^ 18 \<le> ?T - 2 ^ 30 - d" "?T - 2 ^ 30 - d < n * 2 ^ 18 + 2 ^ 18" "n \<le> ALLOC_TRACK_SIZE"
    using T d(1) T32 by (simp_all add: n_def ALLOC_TRACK_SIZE_def)
  have "unat (ucast u :: u32) = n * 2 ^ 18" using u n(2) T32 by (simp add: unat_ucast_small)
  moreover have "n * 2 ^ 18 + 2 ^ 30 + d \<le> ?T" "?T < n * 2 ^ 18 + 2 ^ 18 + 2 ^ 30 + d"
    using n(2,3) T d(1) by simp_all
  ultimately show ?thesis using that n(1,4) by blast
qed

text \<open>C27: when the memory has room for the huge page and the alignment, the partition lies inside
  of it, starts at a huge page, and is an array of free blocks.\<close>

theorem partition_lies_in_the_memory:
  assumes "2 ^ 30 + 2 ^ 20 \<le> unat (nTotalMemorySize w)"
    and "unat (pWlsMemBase w) + unat (nTotalMemorySize w) + 2 ^ 31 \<le> 2 ^ 64"
  shows "\<exists>w'. wls_fapi_create_partition w = Some (SUCCESS, w')
    \<and> 2 ^ 30 dvd unat (pPartitionMemBase w')
    \<and> pWlsMemBase w \<le> pPartitionMemBase w'
    \<and> unat (pPartitionMemBase w') + unat (nPartitionMemSize w') \<le> unat (pWlsMemBase w) + unat (nTotalMemorySize w)
    \<and> unat (nTotalMemorySize w) < unat (nPartitionMemSize w') + 2 ^ 30 + 2 ^ 19
    \<and> mem_ok (arr (mem w')) (mem w') \<and> mem_avail (mem w') = mem_blocks (arr (mem w'))
    \<and> unat (nTotalBlocks w') = blk_count (arr (mem w'))"
proof -
  let ?B = "unat (pWlsMemBase w)" and ?T = "unat (nTotalMemorySize w)"
  let ?a = "and (pWlsMemBase w + (MSG_MAXSIZE - 1)) (not (MSG_MAXSIZE - 1))"
  obtain d base where d: "d < 2 ^ 18" "unat ?a = ?B + d"
    and base: "base = and (?a + WLS_HUGE_DEF_PAGE_SIZEA) (not (WLS_HUGE_DEF_PAGE_SIZEA - 1))"
      "2 ^ 30 dvd unat base" "?B + d < unat base" "unat base \<le> ?B + d + 2 ^ 30"
    by (rule partition_values [of w]) (use assms in auto)
  have off: "unat (?a - pWlsMemBase w) = d"
    using d(2) by (subst unat_diff_of_le) (simp_all add: word_le_nat_alt)
  let ?u1 = "ucast (nTotalMemorySize w) - WLS_HUGE_DEF_PAGE_SIZEA - (?a - pWlsMemBase w)"
  define s where "s = (ucast (?u1 - ?u1 mod MSG_MAXSIZE) :: u32)"
  obtain n where s: "unat s = n * 2 ^ 18" and n: "1 \<le> n" "n * 2 ^ 18 + 2 ^ 30 + d \<le> ?T"
      "?T < n * 2 ^ 18 + 2 ^ 18 + 2 ^ 30 + d" "n \<le> ALLOC_TRACK_SIZE"
    unfolding s_def by (rule partition_size [OF assms(1) d(1) off])
  have c: "(ucast MSG_MAXSIZE :: u32) = 262144" by (simp add: MSG_MAXSIZE_def)
  have cnt: "unat (s div ucast MSG_MAXSIZE) = n" using s by (simp add: unat_div_distrib c)
  have "unat (ucast s :: u64) = n * 2 ^ 18" using s n(4) by (subst unat_ucast_small) (simp_all add: ALLOC_TRACK_SIZE_def)
  then have blocks: "unat (ucast (ucast s div MSG_MAXSIZE) :: u32) = n"
    using n(4) by (simp add: unat_ucast_small unat_div_distrib ALLOC_TRACK_SIZE_def MSG_MAXSIZE_def)
  have inside: "unat base + n * 2 ^ 18 \<le> ?B + ?T" using base(4) n(2) by linarith
  have "2 ^ 18 dvd unat base" by (rule dvd_trans [OF le_imp_power_dvd base(2)]) simp
  moreover have "base \<noteq> 0" "pWlsMemBase w \<le> base" using base(3) by (auto simp: word_le_nat_alt)
  ultimately obtain m' where m': "wls_fapi_create_mem_array base s (ucast MSG_MAXSIZE) (mem w) = Some (SUCCESS, m')"
      "mem_ok (arr m') m'" "mem_avail m' = mem_blocks (arr m')" "nBlockCount (arr m') = s div ucast MSG_MAXSIZE"
    using create_mem_array_ok [of 18 "ucast MSG_MAXSIZE" base s "mem w"] c s n(1,4) cnt assms(2) inside
    by (auto simp: word_le_nat_alt)
  let ?w = "w\<lparr>pPartitionMemBase := base, nPartitionMemSize := s,
      nTotalBlocks := ucast (ucast s div MSG_MAXSIZE), mem := m'\<rparr>"
  have "wls_fapi_create_partition w = Some (SUCCESS, ?w)"
    using m'(1) base(1) by (simp add: wls_fapi_create_partition_def Let_def s_def)
  moreover have "unat (nTotalBlocks ?w) = blk_count (arr (mem ?w))"
    using blocks m'(4) cnt by (simp add: blk_count_def)
  ultimately show ?thesis
    using base(2) \<open>pWlsMemBase w \<le> base\<close> inside s n(3) d(1) m'(2,3) by auto
qed

text \<open>A memory smaller than the huge page makes the size wrap: the partition claims at least 2 GB
  more than there is, and the array is initialised over them.\<close>

lemma wrapped_size:
  fixes u0 d r :: nat
  assumes "T < 2 ^ 30" "d < 2 ^ 18" "r < 2 ^ 18"
  shows "(2 ^ 64 - 2 ^ 30 + T - d - r) mod 2 ^ 32 = 2 ^ 32 - 2 ^ 30 + T - d - r"
proof -
  have "2 ^ 64 - 2 ^ 30 + T - d - r = (2 ^ 32 - 2 ^ 30 + T - d - r) + (2 ^ 32 - 1) * 2 ^ 32"
    using assms by simp
  moreover have "2 ^ 32 - 2 ^ 30 + T - d - r < 2 ^ 32" using assms by simp
  ultimately show ?thesis by (metis mod_less mod_mult_self1)
qed

text \<open>C28: with less than 1 GB the partition is not refused: its size wraps to more than 2 GB above
  the size of the memory.\<close>

theorem partition_overruns_small_memory:
  assumes "unat (nTotalMemorySize w) < 2 ^ 30" "unat (pWlsMemBase w) + 2 ^ 31 \<le> 2 ^ 64"
  shows "\<exists>w'. wls_fapi_create_partition w = Some (SUCCESS, w')
    \<and> unat (nTotalMemorySize w) + 2 ^ 31 < unat (nPartitionMemSize w')"
proof -
  let ?B = "unat (pWlsMemBase w)" and ?T = "unat (nTotalMemorySize w)"
  let ?a = "and (pWlsMemBase w + (MSG_MAXSIZE - 1)) (not (MSG_MAXSIZE - 1))"
  obtain d where d: "d < 2 ^ 18" "unat ?a = ?B + d"
    by (rule partition_values [of w]) (use assms in auto)
  have T64: "unat (ucast (nTotalMemorySize w) :: u64) = ?T" using assms(1) by (simp add: unat_ucast_small)
  let ?u0 = "ucast (nTotalMemorySize w) - WLS_HUGE_DEF_PAGE_SIZEA :: u64"
  have H: "unat WLS_HUGE_DEF_PAGE_SIZEA = 2 ^ 30" by (simp add: WLS_HUGE_DEF_PAGE_SIZEA_def)
  have u0: "unat ?u0 = 2 ^ 64 - 2 ^ 30 + ?T"
    using T64 H assms(1) by (simp add: unat_sub_if' word_le_nat_alt)
  have off: "unat (?a - pWlsMemBase w) = d"
    using d(2) by (subst unat_diff_of_le) (simp_all add: word_le_nat_alt)
  let ?u1 = "?u0 - (?a - pWlsMemBase w)"
  have u1: "unat ?u1 = 2 ^ 64 - 2 ^ 30 + ?T - d"
    using u0 off d(1) by (subst unat_diff_of_le) (simp_all add: word_le_nat_alt)
  define r where "r = unat (?u1 mod MSG_MAXSIZE)"
  have r: "r < 2 ^ 18" by (simp add: r_def unat_mod_distrib MSG_MAXSIZE_def)
  let ?u = "?u1 - ?u1 mod MSG_MAXSIZE"
  have u: "unat ?u = 2 ^ 64 - 2 ^ 30 + ?T - d - r"
  proof -
    have "r \<le> unat ?u1" unfolding u1 using r d(1) by simp
    then show ?thesis using u1 by (subst unat_diff_of_le) (simp_all add: word_le_nat_alt r_def)
  qed
  define s where "s = (ucast ?u :: u32)"
  have "unat s = unat ?u mod 2 ^ 32" by (simp add: s_def unsigned_ucast_eq take_bit_eq_mod)
  then have s: "unat s = 2 ^ 32 - 2 ^ 30 + ?T - d - r"
    unfolding u using wrapped_size [OF assms(1) d(1) r] by simp
  have c: "(ucast MSG_MAXSIZE :: u32) = 262144" by (simp add: MSG_MAXSIZE_def)
  have "\<not> s < 8" using s d(1) r by (simp add: word_less_nat_alt)
  then have create: "\<exists>m'. wls_fapi_create_mem_array b s (ucast MSG_MAXSIZE) (mem w) = Some (SUCCESS, m')" for b
    by (simp add: wls_fapi_create_mem_array_def c Let_def split_beta)
  have "\<exists>w'. wls_fapi_create_partition w = Some (SUCCESS, w') \<and> nPartitionMemSize w' = s"
    using create [of "and (?a + WLS_HUGE_DEF_PAGE_SIZEA) (not (WLS_HUGE_DEF_PAGE_SIZEA - 1))"]
    by (auto simp: wls_fapi_create_partition_def Let_def s_def)
  moreover have "?T + 2 ^ 31 < unat s" using s d(1) r by simp
  ultimately show ?thesis by metis
qed

section \<open>Exclusive blocks\<close>

text \<open>C26: from a fresh array on, a client allocates, frees any addresses any number of times, and writes any
  words and bytes outside of the available blocks.  Whatever it does: a block that the allocator returns is one
  of the array, not already held, and ends in the pattern; the allocator fails only when all blocks are
  held.  A free of any address returns failure when it lies in no block, has no effect when its
  block is not held, and makes a held block available again, unless the client has overwritten the
  pattern at its end, which ends the process.\<close>

theorem fapi_blocks_are_exclusive:
  assumes "5 \<le> k" "k < 32" "unat bsz = 2 ^ k" "2 ^ k dvd unat st" "st \<noteq> 0" "bsz \<le> tsz"
    and "unat (tsz div bsz) \<le> ALLOC_TRACK_SIZE" "unat st + unat tsz < 2 ^ 64"
    and "wls_fapi_create_mem_array st tsz bsz m = Some (SUCCESS, s0)"
    and "pool_run mem_take mem_give (block_of bsz) mem_user s0 s out"
  shows "out \<subseteq> mem_blocks (arr s0)
    \<and> (\<forall>b s'. wls_fapi_alloc_mem_array s = Some (SUCCESS, Some b, s')
          \<longrightarrow> b \<in> mem_blocks (arr s0) - out \<and> guard_intact b bsz (guards s'))
    \<and> ((\<exists>b s'. wls_fapi_alloc_mem_array s = Some (SUCCESS, Some b, s')) \<longleftrightarrow> out \<noteq> mem_blocks (arr s0))
    \<and> (\<forall>p. let b = block_of bsz p in
         if b \<notin> mem_blocks (arr s0) then wls_fapi_free_mem_array p s = Some (Ret FAILURE, s)
         else if b \<notin> out then wls_fapi_free_mem_array p s = Some (Ret SUCCESS, s)
         else if guard_intact b bsz (guards s)
           then \<exists>s'. wls_fapi_free_mem_array p s = Some (Ret SUCCESS, s') \<and> mem_avail s' = insert b (mem_avail s)
         else wls_fapi_free_mem_array p s = Some (Exit, s))"
proof -
  obtain m' where "wls_fapi_create_mem_array st tsz bsz m = Some (SUCCESS, m')" "mem_ok (arr m') m'"
      "mem_avail m' = mem_blocks (arr m')" "nBlockSize (arr m') = bsz"
    using create_mem_array_ok [OF assms(1-8)] by blast
  then have ok: "pool_ok (arr s0) s0" "mem_avail s0 = mem_blocks (arr s0)" and n: "nBlockSize (arr s0) = bsz"
    using assms(9) mem_ok_arr(1) by auto
  note run = assms(10) [folded n] ok
  have s: "pool_ok (arr s0) s" "out \<union> mem_avail s = mem_blocks (arr s0)" "out \<inter> mem_avail s = {}"
    using fm.run_partitions [OF run] by blast+
  have sz: "nBlockSize (arr s) = bsz" using pool_ok_arr(4) [OF s(1)] n by simp
  have "b \<in> mem_blocks (arr s0) - out \<and> guard_intact b bsz (guards s')"
    if "wls_fapi_alloc_mem_array s = Some (SUCCESS, Some b, s')" for b s'
  proof -
    have "mem_take s = Some (b, s')" using that by (simp add: mem_take_def)
    then have "b \<in> mem_blocks (arr s0) - out" by (rule fm.taken_is_fresh [OF run])
    moreover have "mem_avail s \<noteq> {}" using alloc_empty [OF s(1)] that by auto
    ultimately show ?thesis using pool_alloc [OF s(1)] that sz fill_guard_self by fastforce
  qed
  moreover have "(\<exists>b s'. wls_fapi_alloc_mem_array s = Some (SUCCESS, Some b, s')) \<longleftrightarrow> out \<noteq> mem_blocks (arr s0)"
  proof -
    have "mem_take s \<noteq> None \<longleftrightarrow> (\<exists>b s'. wls_fapi_alloc_mem_array s = Some (SUCCESS, Some b, s'))"
      by (auto simp: mem_take_def split: option.splits prod.splits if_splits)
    then show ?thesis using fm.exhausted_iff [OF run] by blast
  qed
  moreover have "let b = block_of bsz p in
         if b \<notin> mem_blocks (arr s0) then wls_fapi_free_mem_array p s = Some (Ret FAILURE, s)
         else if b \<notin> out then wls_fapi_free_mem_array p s = Some (Ret SUCCESS, s)
         else if guard_intact b bsz (guards s)
           then \<exists>s'. wls_fapi_free_mem_array p s = Some (Ret SUCCESS, s') \<and> mem_avail s' = insert b (mem_avail s)
         else wls_fapi_free_mem_array p s = Some (Exit, s)" for p
  proof -
    have "block_of bsz p \<in> out \<Longrightarrow> block_of bsz p \<in> mem_blocks (arr s0) - mem_avail s"
      "block_of bsz p \<in> mem_blocks (arr s0) \<Longrightarrow> block_of bsz p \<notin> out \<Longrightarrow> block_of bsz p \<in> mem_avail s"
      using s(2,3) by blast+
    then show ?thesis
      using free_foreign [OF s(1), of p, unfolded n] free_available [OF s(1), of p, unfolded n]
        free_held [OF s(1), of p, unfolded n] free_overwritten [OF s(1), of p, unfolded n]
      unfolding Let_def by (simp split: if_split) blast
  qed
  ultimately show ?thesis using s(2) by blast
qed

text \<open>A second free of a block is only reported: the counter of allocated blocks is decremented again.\<close>

lemma double_free_breaks_the_counter:
  assumes "mem_ok a0 (mem w)" "b \<in> mem_blocks a0" "b \<notin> mem_avail (mem w)" "MAX_UL_BUF_LOCATIONS \<le> loc"
  shows "\<exists>w1 w2. wls_fapi_free_buffer b loc w = Some (True, w1) \<and> wls_fapi_free_buffer b loc w1 = Some (True, w2)
    \<and> mem w2 = mem w1 \<and> nAllocBlocks w2 = nAllocBlocks w - 2"
proof -
  obtain m1 where m1: "wls_fapi_free_mem_array b (mem w) = Some (Ret SUCCESS, m1)" "mem_ok a0 m1" "b \<in> mem_avail m1"
    using free_adds_head [OF assms(1-3)] by blast
  have bl: "block_of (nBlockSize a0) b = b"
    using assms(2) pool_ok_arr [OF mem_ok_arr(1) [OF m1(2)]] blk_aligned(2) by (auto simp: block_of_def mem_blocks_def)
  have loc: "\<not> loc < MAX_DL_BUF_LOCATIONS" "\<not> loc < MAX_UL_BUF_LOCATIONS"
    using assms(4) by (auto simp: MAX_DL_BUF_LOCATIONS_def MAX_UL_BUF_LOCATIONS_def MIN_UL_BUF_LOCATIONS_def
        MIN_DL_BUF_LOCATIONS_def MAX_NUM_LOCATIONS_def word_le_nat_alt word_less_nat_alt)
  let ?w1 = "w\<lparr>mem := m1, nAllocBlocks := nAllocBlocks w - 1, nTotalFreeCnt := nTotalFreeCnt w + 1\<rparr>"
  have "wls_fapi_free_buffer b loc w = Some (True, ?w1)"
    using m1(1) loc by (simp add: wls_fapi_free_buffer_def Let_def)
  moreover have "\<exists>w2. wls_fapi_free_buffer b loc ?w1 = Some (True, w2) \<and> mem w2 = m1 \<and> nAllocBlocks w2 = nAllocBlocks w - 2"
    using free_available [OF mem_ok_arr(1) [OF m1(2)], of b, unfolded bl, OF m1(3)] loc by (simp add: wls_fapi_free_buffer_def Let_def)
  ultimately show ?thesis by force
qed

section \<open>Concrete memories\<close>

definition demo_mem :: fapi_mem where
  "demo_mem = \<lparr>arr = \<lparr>ppFreeBlock = 0, pStorage = 0, pEndOfStorage = 0, nBlockSize = 0, nBlockCount = 0\<rparr>,
     links = (\<lambda>_. 0), guards = (\<lambda>_. 0), alloc_track = []\<rparr>"

definition demo_wls :: "u64 \<Rightarrow> u32 \<Rightarrow> fapi_wls_ctx" where
  "demo_wls base n = \<lparr>mem = demo_mem, pWlsMemBase = base, nTotalMemorySize = n, pPartitionMemBase = 0,
     nPartitionMemSize = 0, nTotalBlocks = 0, nAllocBlocks = 0, nTotalAllocCnt = 0, nTotalFreeCnt = 0,
     nTotalUlBufAllocCnt = 0, nTotalUlBufFreeCnt = 0, nTotalDlBufAllocCnt = replicate 16 0, nTotalDlBufFreeCnt = replicate 16 0\<rparr>"

text \<open>An array of two blocks: one is allocated and freed twice, by an address inside of it; an address above
  the array is refused.\<close>

theorem fapi_blocks_are_exclusive_witness:
  "\<exists>s0 b s1 s2. wls_fapi_create_mem_array 0x40 64 32 demo_mem = Some (SUCCESS, s0)
     \<and> wls_fapi_alloc_mem_array s0 = Some (SUCCESS, Some b, s1)
     \<and> wls_fapi_free_mem_array (b + 5) s1 = Some (Ret SUCCESS, s2) \<and> wls_fapi_free_mem_array (b + 5) s2 = Some (Ret SUCCESS, s2)
     \<and> wls_fapi_free_mem_array 0x80 s2 = Some (Ret FAILURE, s2)"
proof -
  have d: "(64 :: u32) div 32 = 2" by simp
  obtain s0 where s0: "wls_fapi_create_mem_array 0x40 64 32 demo_mem = Some (SUCCESS, s0)"
      "pStorage (arr s0) = 0x40" "nBlockSize (arr s0) = 32" "nBlockCount (arr s0) = 2"
    using create_mem_array_ok [of 5 32 "0x40" 64 demo_mem] by (auto simp: ALLOC_TRACK_SIZE_def d)
  have bl: "mem_blocks (arr s0) = {0x40, 0x60}"
  proof -
    have "{..<2 :: nat} = {0, 1}" by auto
    then show ?thesis using s0 by (simp add: mem_blocks_def blk_count_def blk_addr_def)
  qed
  note excl = fapi_blocks_are_exclusive [of 5 32 "0x40" 64 demo_mem s0, OF _ _ _ _ _ _ _ _ s0(1), unfolded bl]
  have nums: "5 \<le> (5 :: nat)" "5 < (32 :: nat)" "unat (32 :: u32) = 2 ^ 5" "2 ^ 5 dvd unat (0x40 :: u64)" "(0x40 :: u64) \<noteq> 0"
    "(32 :: u32) \<le> 64" "unat (64 div 32 :: u32) \<le> ALLOC_TRACK_SIZE" "unat (0x40 :: u64) + unat (64 :: u32) < 2 ^ 64"
    by (simp_all add: ALLOC_TRACK_SIZE_def d)
  note excl = excl [OF nums]
  note freed = excl [THEN conjunct2, THEN conjunct2, THEN conjunct2, THEN spec]
  have r0: "pool_run mem_take mem_give (block_of 32) mem_user s0 s0 {}" by (rule pool_run.start)
  obtain b s1 where a: "wls_fapi_alloc_mem_array s0 = Some (SUCCESS, Some b, s1)" "b = 0x40 \<or> b = 0x60" "guard_intact b 32 (guards s1)"
    using excl [OF r0] by blast
  have r1: "pool_run mem_take mem_give (block_of 32) mem_user s0 s1 {b}"
    by (rule pool_run.taken [OF r0]) (simp add: mem_take_def a(1))
  have bo: "block_of 32 (b + 5) = b" using a(2) by (auto simp: block_of_def)
  obtain s2 where f: "wls_fapi_free_mem_array (b + 5) s1 = Some (Ret SUCCESS, s2)"
    using freed [OF r1, of "b + 5"] a(2,3) bo by (auto simp: Let_def)
  have r2: "pool_run mem_take mem_give (block_of 32) mem_user s0 s2 ({b} - {block_of 32 (b + 5)})"
    by (rule pool_run.given [OF r1]) (simp add: mem_give_def f)
  have "block_of 32 0x80 = 0x80" by (simp add: block_of_def)
  then have "wls_fapi_free_mem_array 0x80 s2 = Some (Ret FAILURE, s2)" using freed [OF r2, of "0x80"] by (simp add: Let_def)
  moreover have "wls_fapi_free_mem_array (b + 5) s2 = Some (Ret SUCCESS, s2)"
    using freed [OF r2, of "b + 5"] a(2) unfolding bo Let_def by auto
  ultimately show ?thesis using s0(1) a(1) f by blast
qed

theorem partition_lies_in_the_memory_witness:
  "\<exists>w'. wls_fapi_create_partition (demo_wls 0x100000000 0x80000000) = Some (SUCCESS, w')
     \<and> unat (pPartitionMemBase w') + unat (nPartitionMemSize w') \<le> 0x180000000"
  using partition_lies_in_the_memory [of "demo_wls 0x100000000 0x80000000"] by (auto simp: demo_wls_def)

theorem partition_overruns_small_memory_witness:
  "\<exists>w'. wls_fapi_create_partition (demo_wls 0x100000000 0x20000000) = Some (SUCCESS, w')
     \<and> 0xA0000000 < unat (nPartitionMemSize w')"
  using partition_overruns_small_memory [of "demo_wls 0x100000000 0x20000000"] by (auto simp: demo_wls_def)

end
