(* ===== verification/Outcomes.thy ===== *)
theory Outcomes
  imports Prelude
begin

text \<open>
  A call of the C code has one of four outcomes: undefined behaviour, the end of the process by
  \<open>exit\<close>, no return (an infinite loop, or a wait that nobody ends), or a result.
\<close>

section \<open>Outcomes\<close>

datatype 'a outcome = Undefined | Exited | Diverges | Done 'a

primrec obind :: "'a outcome \<Rightarrow> ('a \<Rightarrow> 'b outcome) \<Rightarrow> 'b outcome" where
  "obind Undefined f = Undefined"
| "obind Exited f = Exited"
| "obind Diverges f = Diverges"
| "obind (Done x) f = f x"

primrec of_option :: "'a option \<Rightarrow> 'a outcome" where
  "of_option None = Undefined"
| "of_option (Some x) = Done x"

lemma obind_Done_iff: "obind x f = Done y \<longleftrightarrow> (\<exists>a. x = Done a \<and> f a = Done y)"
  by (cases x) auto

lemma of_option_Done_iff [simp]: "of_option x = Done y \<longleftrightarrow> x = Some y"
  by (cases x) auto

lemma obind_assoc [simp]: "obind (obind x f) g = obind x (\<lambda>a. obind (f a) g)"
  by (cases x) auto

text \<open>A loop whose body says whether to go on; it diverges when it never stops.\<close>

partial_function (option) outcome_loop :: "('s \<Rightarrow> ('s \<times> bool) outcome) \<Rightarrow> 's \<Rightarrow> 's outcome option" where
  "outcome_loop f s =
     (case f s of
        Done r \<Rightarrow> if snd r then outcome_loop f (fst r) else Some (Done (fst r))
      | Undefined \<Rightarrow> Some Undefined | Exited \<Rightarrow> Some Exited | Diverges \<Rightarrow> Some Diverges)"

definition run_loop :: "('s \<Rightarrow> ('s \<times> bool) outcome) \<Rightarrow> 's \<Rightarrow> 's outcome" where
  "run_loop f s = (case outcome_loop f s of None \<Rightarrow> Diverges | Some r \<Rightarrow> r)"

lemma run_loop_unfold:
  "run_loop f s = obind (f s) (\<lambda>r. if snd r then run_loop f (fst r) else Done (fst r))"
  by (cases "f s") (simp_all add: run_loop_def outcome_loop.simps [of f s])

lemma outcome_loop_invariant:
  assumes "outcome_loop f s = Some r"
  shows "(\<And>s s' go. J s \<Longrightarrow> f s = Done (s', go) \<Longrightarrow> if go then J s' else Q s') \<Longrightarrow> J s \<Longrightarrow> (\<forall>s'. r = Done s' \<longrightarrow> Q s')"
proof (induction rule: outcome_loop.raw_induct [OF _ assms])
  case (1 loop f s r)
  show ?case
  proof (cases "f s")
    case (Done p)
    obtain x go where p: "p = (x, go)" by (cases p)
    have x: "if go then J x else Q x" using "1"(3) [OF "1"(4)] Done p by blast
    show ?thesis
    proof (cases go)
      case True
      then have "loop f x = Some r" "J x" using "1"(2) x Done p by simp_all
      then show ?thesis using "1"(1) "1"(3) by blast
    next
      case False
      then show ?thesis using "1"(2) x Done p by auto
    qed
  qed (use "1"(2) in auto)
qed

text \<open>What a loop keeps, and that it ends when its body makes something smaller.\<close>

lemma run_loop_invariant:
  assumes "run_loop f s = Done s'" "J s" "\<And>s s' go. J s \<Longrightarrow> f s = Done (s', go) \<Longrightarrow> if go then J s' else Q s'"
  shows "Q s'"
proof -
  have "outcome_loop f s = Some (Done s')" using assms(1) by (simp add: run_loop_def split: option.splits)
  from outcome_loop_invariant [where J = J and Q = Q, OF this] assms(2,3) show ?thesis by auto
qed

lemma run_loop_ends:
  assumes "\<And>s. f s \<noteq> Diverges" "\<And>s s'. f s = Done (s', True) \<Longrightarrow> (size_of s' :: nat) < size_of s"
  shows "run_loop f s \<noteq> Diverges"
proof (induction "size_of s" arbitrary: s rule: less_induct)
  case less
  have "run_loop f x \<noteq> Diverges" if "f s = Done (x, True)" for x using less [OF assms(2) [OF that]] .
  then show ?case using assms(1) [of s] by (subst run_loop_unfold) (cases "f s", auto)
qed

lemma obind_Diverges_iff: "obind x f = Diverges \<longleftrightarrow> x = Diverges \<or> (\<exists>a. x = Done a \<and> f a = Diverges)"
  by (cases x) auto

text \<open>What holds of a result, if there is one.\<close>

definition holds :: "('a \<Rightarrow> bool) \<Rightarrow> 'a outcome \<Rightarrow> bool" where
  "holds Q x \<longleftrightarrow> (\<forall>y. x = Done y \<longrightarrow> Q y)"

lemma holds_simps [simp]: "holds Q (Done y) \<longleftrightarrow> Q y" "holds Q Undefined" "holds Q Exited" "holds Q Diverges"
  by (simp_all add: holds_def)

lemma holds_obind: "(\<And>a. x = Done a \<Longrightarrow> holds Q (f a)) \<Longrightarrow> holds Q (obind x f)"
  by (cases x) simp_all

lemma holds_if: "(c \<Longrightarrow> holds Q a) \<Longrightarrow> (\<not> c \<Longrightarrow> holds Q b) \<Longrightarrow> holds Q (if c then a else b)"
  by simp

lemma holdsD: "holds Q x \<Longrightarrow> x = Done y \<Longrightarrow> Q y"
  by (simp add: holds_def)

end
