(* ===== verification/Fapi_P7_Types.thy ===== *)
theory Fapi_P7_Types
  imports Prelude
begin

text \<open>
  The data of the slot messages: the structures of the FAPI (\<open>fapi_5g/include/fapi_interface.h\<close>,
  \<open>fapi_vendor_extension.h\<close>), with the members that the code reads or writes, and the structures
  of the PHY.

  The structures of the PHY that a request fills belong to a header that is not in the repository.
  One of them is a map from the names of its members, and the indices of those that are arrays, to
  values; a \<open>layout\<close> is the parameter that says what assignments to its members make of them.  A
  list is an array: an access behind its end is undefined.
\<close>

section \<open>Structures of the PHY\<close>

type_synonym struct = "string \<Rightarrow> nat \<Rightarrow> int"

text \<open>\<open>lconv f v\<close> is the value that reading \<open>f\<close> gives after the integer \<open>v\<close> was assigned to it, and
  \<open>lconv_double f v\<close> the one after the floating-point number \<open>v\<close>.  \<open>lext f\<close> is the number of elements of
  the array \<open>f\<close> and \<open>lbytes f\<close> its size; \<open>lcopy f bs a\<close> is the array \<open>a\<close> after the bytes \<open>bs\<close> were copied to it.\<close>

record layout =
  lconv :: "string \<Rightarrow> int \<Rightarrow> int"
  lconv_double :: "string \<Rightarrow> int \<Rightarrow> int"
  lext :: "string \<Rightarrow> nat"
  lbytes :: "string \<Rightarrow> nat"
  lcopy :: "string \<Rightarrow> u8 list \<Rightarrow> (nat \<Rightarrow> int) \<Rightarrow> nat \<Rightarrow> int"
  lsize :: nat

definition zero_struct :: struct where "zero_struct = (\<lambda>f i. 0)"

record sfn_slot =
  nSFN :: u16
  nSlot :: u16
  nCarrier :: u16
  nSym :: u16

record zbc_pdu =
  nPduIdx :: u16
  nPduLen1 :: u32
  pPayload1 :: u64
  nPduLen2 :: u32
  pPayload2 :: u64

text \<open>A configuration holds its groups and its PDUs.  The constructor of a PDU is its type.\<close>

datatype ul_pdu = Ulsch_pdu struct | Ulcch_pdu struct | Srs_pdu struct
datatype dl_pdu = Dci_pdu struct | Dlsch_pdu struct | Bch_pdu struct | Csirs_pdu struct

record ul_config =
  uc_slot :: sfn_slot
  uc_fields :: struct
  uc_groups :: "nat \<Rightarrow> struct"
  uc_pdus :: "ul_pdu list"

record dl_config =
  dc_slot :: sfn_slot
  dc_fields :: struct
  dc_groups :: "nat \<Rightarrow> struct"
  dc_pdus :: "dl_pdu list"

record ul_dci_config =
  ud_slot :: sfn_slot
  ud_nDCI :: int
  ud_pdus :: "struct list"

text \<open>Indications.\<close>

record ulsch_data =
  ux_nUEId :: u16
  ux_nRNTI :: u16
  ux_nPduLen :: u32
  ux_pPayload :: u64

record ul_crc =
  uq_nUEId :: u16
  uq_nRNTI :: u16
  uq_nCrcFlag :: u8
  uq_nSNR :: "16 word"

record ul_uci_data =
  ui_nUEId :: u16
  ui_nRNTI :: u16
  ui_nSNR :: "16 word"
  ui_nSRPresent :: u8
  ui_pucchDetected :: u8
  ui_nPduBitLen :: u16
  ui_nUciBits :: "u8 list"

record ulsch_uci_data =
  uu_nUEId :: u16
  uu_nRNTI :: u16
  uu_nUciDetected :: u8
  uu_nUciCrc :: u8
  uu_nPduUciAckLen :: u16
  uu_nUciAckBits :: "u8 list"
  uu_nUciCsiP1Detected :: u8
  uu_nUciCsiP1Crc :: u8
  uu_nPduUciCsiP1Len :: u16
  uu_nUciCsiP1Bits :: "u8 list"
  uu_nUciCsiP2Detected :: u8
  uu_nUciCsiP2Crc :: u8
  uu_nPduUciCsiP2Len :: u16
  uu_nUciCsiP2Bits :: "u8 list"

record preamble =
  pr_nStartSlotdx :: u8
  pr_nFreqIdx :: u8
  pr_nStartSymbIdx :: u8
  pr_nPreambIdx :: u8
  pr_nTa :: u16
  pr_nPreambPwr :: u32

record ul_srs_est =
  ue_nUEId :: u16
  ue_nRNTI :: u16
  ue_nNrOfSymbols :: u8
  ue_nWideBandSNR :: "int list"
  ue_nNrOfBlocks :: u16
  ue_nBlockSNR :: "8 word list list"
  ue_nNrOfPort :: u8
  ue_nNrOfRxAnt :: u8
  ue_nNrOfRbs :: u16
  ue_nIsChanEstPres :: u8
  ue_pSrsChanEst :: "u64 list"

section \<open>Requests of the MAC\<close>

definition FAPI_MAX_NUMBER_OF_UES_PER_TTI :: nat where "FAPI_MAX_NUMBER_OF_UES_PER_TTI = 16"
definition FAPI_MAX_NUMBER_OF_GROUPS_PER_TTI :: nat where "FAPI_MAX_NUMBER_OF_GROUPS_PER_TTI = 16"
definition FAPI_MAX_NUMBER_UL_PDUS_PER_TTI :: nat where "FAPI_MAX_NUMBER_UL_PDUS_PER_TTI = 328"
definition FAPI_MAX_PDUS_PER_SLOT :: nat where "FAPI_MAX_PDUS_PER_SLOT = 64"
definition FAPI_MAX_NUMBER_DL_PDUS_PER_TTI :: nat where "FAPI_MAX_NUMBER_DL_PDUS_PER_TTI = 129"
definition FAPI_RB_BITMAP_SIZE :: nat where "FAPI_RB_BITMAP_SIZE = 36"
definition FAPI_VENDOR_MAX_RXRU_NUM :: nat where "FAPI_VENDOR_MAX_RXRU_NUM = 16"
definition FAPI_VENDOR_MAX_TXRU_NUM :: nat where "FAPI_VENDOR_MAX_TXRU_NUM = 4"

record fapi_ue_info =
  ue_nUe :: u8
  ue_pduIdx :: "u8 list"

record fapi_pusch_data =
  pd_rvIndex :: u8
  pd_harqProcessId :: u8
  pd_newDataIndicator :: u8
  pd_tbSize :: u32

record fapi_pusch_uci =
  pi_harqAckBitLength :: u16
  pi_csiPart1BitLength :: u16
  pi_csiPart2BitLength :: u16
  pi_alphaScaling :: u8
  pi_betaOffsetHarqAck :: u8
  pi_betaOffsetCsi1 :: u8
  pi_betaOffsetCsi2 :: u8

record fapi_ptrs_info =
  pt_ptrsPortIndex :: u16
  pt_ptrsReOffset :: u8

record fapi_pusch_ptrs =
  pp_numPtrsPorts :: u8
  pp_ptrsTimeDensity :: u8
  pp_ptrsFreqDensity :: u8
  pp_ptrsInfo :: "fapi_ptrs_info list"

record fapi_ul_pusch_pdu =
  pu_pduBitMap :: u16
  pu_rnti :: u16
  pu_handle :: u32
  pu_bwpSize :: u16
  pu_bwpStart :: u16
  pu_subCarrierSpacing :: u8
  pu_cyclicPrefix :: u8
  pu_mcsIndex :: u8
  pu_mcsTable :: u8
  pu_transformPrecoding :: u8
  pu_dataScramblingId :: u16
  pu_nrOfLayers :: u8
  pu_dmrsConfigType :: u8
  pu_ulDmrsScramblingId :: u16
  pu_scid :: u8
  pu_numDmrsCdmGrpsNoData :: u8
  pu_dmrsPorts :: u16
  pu_nTpPuschId :: u16
  pu_tpPi2Bpsk :: u16
  pu_rbBitmap :: "u8 list"
  pu_rbStart :: u16
  pu_rbSize :: u16
  pu_vrbToPrbMapping :: u8
  pu_resourceAlloc :: u8
  pu_startSymbIndex :: u8
  pu_nrOfSymbols :: u8
  pu_mappingType :: u8
  pu_nrOfDmrsSymbols :: u8
  pu_dmrsAddPos :: u8
  pu_puschData :: fapi_pusch_data
  pu_puschUci :: fapi_pusch_uci
  pu_puschPtrs :: fapi_pusch_ptrs

record fapi_ul_pucch_pdu =
  pc_rnti :: u16
  pc_handle :: u32
  pc_bwpSize :: u16
  pc_bwpStart :: u16
  pc_subCarrierSpacing :: u8
  pc_cyclicPrefix :: u8
  pc_formatType :: u8
  pc_pi2Bpsk :: u8
  pc_prbStart :: u16
  pc_prbSize :: u16
  pc_startSymbolIndex :: u8
  pc_nrOfSymbols :: u8
  pc_freqHopFlag :: u8
  pc_secondHopPrb :: u16
  pc_initialCyclicShift :: u16
  pc_dataScramblingId :: u16
  pc_timeDomainOccIdx :: u8
  pc_preDftOccIdx :: u8
  pc_preDftOccLen :: u8
  pc_addDmrsFlag :: u8
  pc_dmrsScramblingId :: u16
  pc_srFlag :: u8
  pc_bitLenHarq :: u16

record fapi_ul_srs_pdu =
  sr_rnti :: u16
  sr_handle :: u32
  sr_subCarrierSpacing :: u8
  sr_cyclicPrefix :: u8
  sr_numAntPorts :: u8
  sr_numSymbols :: u8
  sr_numRepetitions :: u8
  sr_timeStartPosition :: u8
  sr_configIndex :: u8
  sr_bandwidthIndex :: u8
  sr_sequenceId :: u16
  sr_combSize :: u8
  sr_combOffset :: u8
  sr_cyclicShift :: u8
  sr_frequencyPosition :: u8
  sr_frequencyShift :: u16
  sr_frequencyHopping :: u8
  sr_groupOrSequenceHopping :: u8
  sr_resourceType :: u8
  sr_tSrs :: u16
  sr_tOffset :: u16

datatype fapi_ul_tti_req_pdu = Prach_pdu | Pusch_pdu fapi_ul_pusch_pdu | Pucch_pdu fapi_ul_pucch_pdu
  | Srs_req_pdu fapi_ul_srs_pdu | Unknown_ul_pdu u16

record fapi_ul_tti_req =
  ut_sfn :: u16
  ut_slot :: u16
  ut_nPdus :: u8
  ut_rachPresent :: u8
  ut_nUlsch :: u8
  ut_nUlcch :: u8
  ut_nGroup :: u8
  ut_pdus :: "fapi_ul_tti_req_pdu list"
  ut_ueGrpInfo :: "fapi_ue_info list"

record fapi_dl_dci =
  dd_rnti :: u16
  dd_scramblingId :: u16
  dd_scramblingRnti :: u16
  dd_cceIndex :: u8
  dd_aggregationLevel :: u8
  dd_beta_pdcch_1_0 :: u8
  dd_powerControlOffsetSS :: u8
  dd_payloadSizeBits :: u16
  dd_payload :: "u8 list"

record fapi_dl_pdcch_pdu =
  cc_bwpSize :: u16
  cc_bwpStart :: u16
  cc_subCarrierSpacing :: u8
  cc_cyclicPrefix :: u8
  cc_startSymbolIndex :: u8
  cc_durationSymbols :: u8
  cc_freqDomainResource :: "u8 list"
  cc_cceRegMappingType :: u8
  cc_regBundleSize :: u8
  cc_interleaverSize :: u8
  cc_coreSetType :: u8
  cc_shiftIndex :: u16
  cc_dlDci0 :: fapi_dl_dci

record fapi_codeword_pdu =
  cw_mcsIndex :: u8
  cw_mcsTable :: u8
  cw_rvIndex :: u8
  cw_tbSize :: u32

record fapi_dl_pdsch_pdu =
  ds_pduBitMap :: u16
  ds_rnti :: u16
  ds_pdu_index :: u16
  ds_bwpSize :: u16
  ds_bwpStart :: u16
  ds_subCarrierSpacing :: u8
  ds_cyclicPrefix :: u8
  ds_nrOfCodeWords :: u8
  ds_cwInfo0 :: fapi_codeword_pdu
  ds_cwInfo1 :: fapi_codeword_pdu
  ds_dataScramblingId :: u16
  ds_nrOfLayers :: u8
  ds_transmissionScheme :: u8
  ds_dmrsConfigType :: u8
  ds_scid :: u8
  ds_numDmrsCdmGrpsNoData :: u8
  ds_resourceAlloc :: u8
  ds_dlDmrsScramblingId :: u16
  ds_dmrsPorts :: u16
  ds_rbStart :: u16
  ds_rbSize :: u16
  ds_rbBitmap :: "u8 list"
  ds_vrbToPrbMapping :: u8
  ds_startSymbIndex :: u8
  ds_nrOfSymbols :: u8
  ds_ptrsPortIndex :: u8
  ds_ptrsTimeDensity :: u8
  ds_ptrsFreqDensity :: u8
  ds_ptrsReOffset :: u8
  ds_nEpreRatioOfPdschToPtrs :: u8
  ds_numPrgs :: u16
  ds_pmIdx0 :: u16
  ds_powerControlOffset :: u8
  ds_powerControlOffsetSS :: u8
  ds_mappingType :: u8
  ds_nrOfDmrsSymbols :: u8
  ds_dmrsAddPos :: u8

record fapi_dl_csi_rs_pdu =
  cs_bwpSize :: u16
  cs_bwpStart :: u16
  cs_subCarrierSpacing :: u8
  cs_cyclicPrefix :: u8
  cs_startRb :: u16
  cs_nrOfRbs :: u16
  cs_csiType :: u8
  cs_row :: u8
  cs_freqDomain :: u16
  cs_symbL0 :: u8
  cs_symbL1 :: u8
  cs_cdmType :: u8
  cs_freqDensity :: u8
  cs_scramId :: u16
  cs_powerControlOffsetSs :: u8

record fapi_dl_ssb_pdu =
  sb_ssbSubCarrierOffset :: u8
  sb_ssbOffsetPointA :: u16
  sb_bchPayload :: u32

datatype fapi_dl_tti_req_pdu = Pdcch_pdu fapi_dl_pdcch_pdu | Pdsch_pdu fapi_dl_pdsch_pdu
  | Csi_rs_pdu fapi_dl_csi_rs_pdu | Ssb_pdu fapi_dl_ssb_pdu | Unknown_dl_pdu u16

record fapi_dl_tti_req =
  dt_sfn :: u16
  dt_slot :: u16
  dt_nPdus :: u8
  dt_nGroup :: u8
  dt_pdus :: "fapi_dl_tti_req_pdu list"
  dt_ue_grp_info :: "fapi_ue_info list"

record fapi_ul_dci_req =
  ur_sfn :: u16
  ur_slot :: u16
  ur_numPdus :: u8
  ur_pdus :: "fapi_dl_pdcch_pdu list"

text \<open>The tag and the length of the first TLV, and its pointer.\<close>

record fapi_tx_pdu_desc =
  tx_pdu_index :: u16
  tx_tag :: u16
  tx_length :: u16
  tx_value :: u64

record fapi_tx_data_req =
  td_sfn :: u16
  td_slot :: u16
  td_num_pdus :: u16
  td_pdu_desc :: "fapi_tx_pdu_desc list"

text \<open>The vendor PDUs are unions that are read by the type of the PDU of the PHY: they are given by
  their bytes.  Those for the uplink are two bytes, a 16-bit number and the indices; those for the
  downlink four 16-bit numbers and the indices.\<close>

record fapi_vendor_ul_pdu =
  vu_byte0 :: u8
  vu_byte1 :: u8
  vu_half1 :: u16
  vu_ru_idx :: "u8 list"

record fapi_vendor_dl_pdu =
  vd_half0 :: u16
  vd_half1 :: u16
  vd_half2 :: u16
  vd_half3 :: u16
  vd_tx_ru_idx :: "u8 list"

record fapi_vendor_dl_tti_req =
  vt_sym :: u32
  vt_lte_crs_carrier_freq_dl :: u16
  vt_lte_crs_present :: u8
  vt_lte_crs_carrier_bandwidth_dl :: u8
  vt_lte_crs_nr_of_crs_ports :: u8
  vt_lte_crs_v_shift :: u8
  vt_pdcch_precoder_en :: u8
  vt_ssb_precoder_en :: u8
  vt_pdus :: "fapi_vendor_dl_pdu list"

record fapi_vendor_p7_msg =
  v7_dl_tti :: fapi_vendor_dl_tti_req
  v7_ul_sym :: u32
  v7_ul_pdus :: "fapi_vendor_ul_pdu list"
  v7_dci_sym :: u32
  v7_dci_pdus :: "fapi_vendor_dl_pdu list"
  v7_tx_sym :: u32

section \<open>Indications for the MAC\<close>

definition FAPI_MAX_NUMBER_OF_CRCS_PER_SLOT :: nat where "FAPI_MAX_NUMBER_OF_CRCS_PER_SLOT = 32"
definition FAPI_MAX_NUMBER_RACH_PDUS_PER_SLOT :: nat where "FAPI_MAX_NUMBER_RACH_PDUS_PER_SLOT = 64"
definition FAPI_MAX_NUM_PREAMBLES_PER_SLOT :: nat where "FAPI_MAX_NUM_PREAMBLES_PER_SLOT = 64"
definition FAPI_MAX_NUMBER_OF_HARQS_PER_IND :: nat where "FAPI_MAX_NUMBER_OF_HARQS_PER_IND = 2"
definition FAPI_MAX_UCI_BIT_BYTE_LEN :: nat where "FAPI_MAX_UCI_BIT_BYTE_LEN = 256"
definition FAPI_MAX_HARQ_INFO_LEN_BYTES :: nat where "FAPI_MAX_HARQ_INFO_LEN_BYTES = 214"
definition FAPI_MAX_CSI_PART1_DATA_BYTES :: nat where "FAPI_MAX_CSI_PART1_DATA_BYTES = 214"
definition FAPI_MAX_CSI_PART2_DATA_BYTES :: nat where "FAPI_MAX_CSI_PART2_DATA_BYTES = 214"
definition FAPI_MAX_NUMBER_RBS :: nat where "FAPI_MAX_NUMBER_RBS = 273"
definition MAX_SNR_COUNT :: nat where "MAX_SNR_COUNT = 255"

record fapi_crc_ind_info =
  ci_handle :: u32
  ci_rnti :: u16
  ci_harqId :: u8
  ci_tbCrcStatus :: u8
  ci_ul_cqi :: u8
  ci_numCb :: u16
  ci_timingAdvance :: u16
  ci_rssi :: u16

record fapi_pdu_ind_info =
  rx_handle :: u32
  rx_rnti :: u16
  rx_harqId :: u8
  rx_ul_cqi :: u8
  rx_timingAdvance :: u16
  rx_rssi :: u16
  rx_pdu_length :: u16
  rx_pduData :: u64

record fapi_uci_part =
  up_crc :: u8
  up_bitLen :: u16
  up_payload :: "u8 list"

record fapi_uci_o_pusch =
  uo_handle :: u32
  uo_pduBitmap :: u8
  uo_ul_cqi :: u8
  uo_rnti :: u16
  uo_timingAdvance :: u16
  uo_rssi :: u16
  uo_harqInfo :: fapi_uci_part
  uo_csiPart1info :: fapi_uci_part
  uo_csiPart2info :: fapi_uci_part

record fapi_uci_o_pucch_f0f1 =
  uf_handle :: u32
  uf_pduBitmap :: u8
  uf_pucchFormat :: u8
  uf_ul_cqi :: u8
  uf_rnti :: u16
  uf_timingAdvance :: u16
  uf_rssi :: u16
  uf_srIndication :: u8
  uf_srConfidenceLevel :: u8
  uf_numHarq :: u8
  uf_harqConfidenceLevel :: u8
  uf_harqValue :: "u8 list"

text \<open>\<open>None\<close>: the bits are left as they were.\<close>

record fapi_uci_o_pucch_f2f3f4 =
  ug_handle :: u32
  ug_pduBitmap :: u8
  ug_pucchFormat :: u8
  ug_ul_cqi :: u8
  ug_rnti :: u16
  ug_timingAdvance :: u16
  ug_rssi :: u16
  ug_num_uci_bits :: u16
  ug_uciBits :: "u8 list option"

datatype fapi_uci_pdu_info = Uci_pusch fapi_uci_o_pusch | Uci_pucch_f0f1 fapi_uci_o_pucch_f0f1
  | Uci_pucch_f2f3f4 fapi_uci_o_pucch_f2f3f4

record fapi_preamble_info =
  ra_preambleIndex :: u8
  ra_timingAdvance :: u16
  ra_preamblePwr :: u32

record fapi_rach_pdu =
  ra_phyCellId :: u16
  ra_symbolIndex :: u8
  ra_slotIndex :: u8
  ra_freqIndex :: u8
  ra_avgRssi :: u8
  ra_avgSnr :: u8
  ra_numPreamble :: u8
  ra_preambleInfo :: "fapi_preamble_info list"

text \<open>The code reports one symbol, with the number of resource blocks and their SNR.\<close>

record fapi_srs_pdu =
  sp_handle :: u32
  sp_rnti :: u16
  sp_timingAdvance :: u16
  sp_numSymbols :: u8
  sp_wideBandSnr :: u8
  sp_numReportedSymbols :: u8
  sp_numRbs :: u16
  sp_rbSNR :: "u8 list"

record fapi_vendor_ext_srs_pdu =
  vs_nr_of_port :: u8
  vs_nr_of_rx_ant :: u8
  vs_nr_of_rbs :: u16
  vs_is_chan_est_pres :: u8
  vs_srs_chan_est :: "u64 list option"

text \<open>The vendor message of an instance: for each indication the carrier and the symbol, once they are
  filled in, and the SNRs and estimates by their index.\<close>

record fapi_vendor_p7_ind =
  vi_slot_ind :: "(u32 \<times> u32) option"
  vi_rx_data_ind :: "(u32 \<times> u32) option"
  vi_crc_ind :: "(u32 \<times> u32) option"
  vi_uci_ind :: "(u32 \<times> u32) option"
  vi_crc_snr :: "nat \<Rightarrow> (16 word) option"
  vi_uci_snr :: "nat \<Rightarrow> (16 word) option"
  vi_srs_num_pdus :: "u8 option"
  vi_srs_pdus :: "nat \<Rightarrow> fapi_vendor_ext_srs_pdu option"

definition empty_vendor_p7_ind :: fapi_vendor_p7_ind where
  "empty_vendor_p7_ind = \<lparr>vi_slot_ind = None, vi_rx_data_ind = None, vi_crc_ind = None, vi_uci_ind = None,
     vi_crc_snr = (\<lambda>_. None), vi_uci_snr = (\<lambda>_. None), vi_srs_num_pdus = None, vi_srs_pdus = (\<lambda>_. None)\<rparr>"

end
