(* ===== verification/Fapi_Msg.thy ===== *)
theory Fapi_Msg
  imports Outcomes Wls_Addr Fapi_Mem Fapi_Config Fapi_P7_Types
begin

text \<open>
  What the FAPI layer exchanges with the PHY: the messages, the elements of the lists in which
  they travel, and the constants of the header of the PHY, which is not part of the repository and
  is the parameter \<open>fapi_api\<close>.  A list of elements linked by their \<open>pNext\<close> is a HOL list; each
  element carries the address of its block.
\<close>

section \<open>Messages of the PHY\<close>

text \<open>The requests carry the frame, the slot and the carrier, then the mode or the test type.\<close>

datatype phy_content =
    Config_request_body ia_config
  | Start_request_body u16 u16 u16 u32
  | Stop_request_body u16 u16 u16
  | Shutdown_request_body u16 u16 u16 u32
  | Dl_config_body dl_config
  | Ul_config_body ul_config
  | Ul_dci_body ul_dci_config
  | Tx_request_body sfn_slot "zbc_pdu list"
  | Config_response_body u16 u32
  | Status_body sfn_slot u32
  | Slot_indication_body sfn_slot
  | Ulsch_indication_body sfn_slot "ulsch_data list"
  | Ulsch_uci_indication_body sfn_slot "ulsch_uci_data list"
  | Crc_indication_body sfn_slot "ul_crc list"
  | Uci_indication_body sfn_slot "ul_uci_data list"
  | Rach_indication_body sfn_slot "preamble list"
  | Srs_indication_body sfn_slot "ul_srs_est list"
  | Other_body

record phy_msg =
  msg_type :: u16
  msg_len :: u16
  content :: phy_content

text \<open>A list element, the queue header in front of its message.\<close>

record phy_el =
  el_addr :: u64
  nMessageType :: u8
  nNumMessageInBlock :: u16
  nAlignOffset :: u16
  nMessageLen :: u32
  el_msg :: phy_msg

section \<open>The header of the PHY\<close>

text \<open>\<open>el_as_msg\<close> is what the bytes of a list element say when they are read as a message.\<close>

record fapi_api = phy_api +
  MSG_TYPE_PHY_CONFIG_REQ :: u16
  MSG_TYPE_PHY_CONFIG_RESP :: u16
  MSG_TYPE_PHY_START_REQ :: u16
  MSG_TYPE_PHY_START_RESP :: u16
  MSG_TYPE_PHY_STOP_REQ :: u16
  MSG_TYPE_PHY_STOP_RESP :: u16
  MSG_TYPE_PHY_SHUTDOWN_REQ :: u16
  MSG_TYPE_PHY_SHUTDOWN_RESP :: u16
  MSG_TYPE_PHY_DL_CONFIG_REQ :: u16
  MSG_TYPE_PHY_UL_CONFIG_REQ :: u16
  MSG_TYPE_PHY_UL_DCI_REQ :: u16
  MSG_TYPE_PHY_TX_REQ :: u16
  MSG_TYPE_PHY_DL_IQ_SAMPLES :: u16
  MSG_TYPE_PHY_UL_IQ_SAMPLES :: u16
  MSG_TYPE_PHY_SLOT_IND :: u16
  MSG_TYPE_PHY_ERR_IND :: u16
  MSG_TYPE_PHY_RX_ULSCH_IND :: u16
  MSG_TYPE_PHY_RX_ULSCH_UCI_IND :: u16
  MSG_TYPE_PHY_CRC_IND :: u16
  MSG_TYPE_PHY_UCI_IND :: u16
  MSG_TYPE_PHY_RX_RACH_IND :: u16
  MSG_TYPE_PHY_RX_SRS_IND :: u16
  MSG_PHY_ZBC_BLOCK0_REQ :: u16
  MSG_PHY_ZBC_BLOCK1_REQ :: u16
  MSG_OK :: u8
  MSG_INVALID_STATE :: u8
  MAX_DL_PER_UE_CODEWORD_NUM :: nat
  sizeof_MAC2PHY_QUEUE_EL :: u32
  sizeof_msg :: "u16 \<Rightarrow> u32"
  el_as_msg :: "phy_el \<Rightarrow> phy_msg"

section \<open>Statistics locations\<close>

definition MEM_STAT_CONFIG_REQ :: u8 where "MEM_STAT_CONFIG_REQ = 0"
definition MEM_STAT_START_REQ :: u8 where "MEM_STAT_START_REQ = 1"
definition MEM_STAT_STOP_REQ :: u8 where "MEM_STAT_STOP_REQ = 2"
definition MEM_STAT_SHUTDOWN_REQ :: u8 where "MEM_STAT_SHUTDOWN_REQ = 3"
definition MEM_STAT_DL_CONFIG_REQ :: u8 where "MEM_STAT_DL_CONFIG_REQ = 4"
definition MEM_STAT_UL_CONFIG_REQ :: u8 where "MEM_STAT_UL_CONFIG_REQ = 5"
definition MEM_STAT_UL_DCI_REQ :: u8 where "MEM_STAT_UL_DCI_REQ = 6"
definition MEM_STAT_TX_REQ :: u8 where "MEM_STAT_TX_REQ = 7"
definition MEM_STAT_DL_IQ_SAMPLES :: u8 where "MEM_STAT_DL_IQ_SAMPLES = 8"
definition MEM_STAT_UL_IQ_SAMPLES :: u8 where "MEM_STAT_UL_IQ_SAMPLES = 9"
definition MEM_STAT_DEFAULT :: u8 where "MEM_STAT_DEFAULT = 10"

lemmas mem_stat_defs = MEM_STAT_CONFIG_REQ_def MEM_STAT_START_REQ_def MEM_STAT_STOP_REQ_def
  MEM_STAT_SHUTDOWN_REQ_def MEM_STAT_DL_CONFIG_REQ_def MEM_STAT_UL_CONFIG_REQ_def
  MEM_STAT_UL_DCI_REQ_def MEM_STAT_TX_REQ_def MEM_STAT_DL_IQ_SAMPLES_def
  MEM_STAT_UL_IQ_SAMPLES_def MEM_STAT_DEFAULT_def

text \<open>The table exists twice, in the files of the list elements and of the sending.\<close>

definition nr5g_fapi_get_stats_location :: "fapi_api \<Rightarrow> u8 \<Rightarrow> u8" where
  "nr5g_fapi_get_stats_location a mt =
     (let t = (ucast mt :: u16)
      in if t = MSG_TYPE_PHY_CONFIG_REQ a then MEM_STAT_CONFIG_REQ
         else if t = MSG_TYPE_PHY_START_REQ a then MEM_STAT_START_REQ
         else if t = MSG_TYPE_PHY_STOP_REQ a then MEM_STAT_STOP_REQ
         else if t = MSG_TYPE_PHY_SHUTDOWN_REQ a then MEM_STAT_SHUTDOWN_REQ
         else if t = MSG_TYPE_PHY_DL_CONFIG_REQ a then MEM_STAT_DL_CONFIG_REQ
         else if t = MSG_TYPE_PHY_UL_CONFIG_REQ a then MEM_STAT_UL_CONFIG_REQ
         else if t = MSG_TYPE_PHY_UL_DCI_REQ a then MEM_STAT_UL_DCI_REQ
         else if t = MSG_TYPE_PHY_TX_REQ a then MEM_STAT_TX_REQ
         else if t = MSG_TYPE_PHY_DL_IQ_SAMPLES a then MEM_STAT_DL_IQ_SAMPLES
         else if t = MSG_TYPE_PHY_UL_IQ_SAMPLES a then MEM_STAT_UL_IQ_SAMPLES
         else MEM_STAT_DEFAULT)"

definition get_stats_location :: "fapi_api \<Rightarrow> u8 \<Rightarrow> u8" where
  "get_stats_location a mt =
     (let t = (ucast mt :: u16)
      in if t = MSG_TYPE_PHY_CONFIG_REQ a then MEM_STAT_CONFIG_REQ
         else if t = MSG_TYPE_PHY_START_REQ a then MEM_STAT_START_REQ
         else if t = MSG_TYPE_PHY_STOP_REQ a then MEM_STAT_STOP_REQ
         else if t = MSG_TYPE_PHY_SHUTDOWN_REQ a then MEM_STAT_SHUTDOWN_REQ
         else if t = MSG_TYPE_PHY_DL_CONFIG_REQ a then MEM_STAT_DL_CONFIG_REQ
         else if t = MSG_TYPE_PHY_UL_CONFIG_REQ a then MEM_STAT_UL_CONFIG_REQ
         else if t = MSG_TYPE_PHY_UL_DCI_REQ a then MEM_STAT_UL_DCI_REQ
         else if t = MSG_TYPE_PHY_TX_REQ a then MEM_STAT_TX_REQ
         else if t = MSG_TYPE_PHY_DL_IQ_SAMPLES a then MEM_STAT_DL_IQ_SAMPLES
         else if t = MSG_TYPE_PHY_UL_IQ_SAMPLES a then MEM_STAT_UL_IQ_SAMPLES
         else MEM_STAT_DEFAULT)"

section \<open>Environment and state\<close>

text \<open>Lists of blocks that wait to be freed: \<open>row_cnt\<close> counts the entries of each row.\<close>

record free_ring =
  row_cnt :: "u32 list"
  row_list :: "u64 list list"
  ring_idx :: u32

record fapi_env =
  api :: fapi_api
  wls_e :: wls_env
  wls_tab :: "ctx_ptr list"
  h_phy :: ctx_ptr

text \<open>\<open>heap\<close> is the list element that stands in the block at an address.\<close>

record fapi_io =
  shm :: wls_shm
  wls :: fapi_wls_ctx
  heap :: "u64 \<Rightarrow> phy_el"
  send_ring :: free_ring
  send_ring_urllc :: free_ring
  recv_ring :: free_ring

definition FAPI_MAX_PHY_INSTANCES :: nat where "FAPI_MAX_PHY_INSTANCES = 24"
definition TO_FREE_SIZE :: nat where "TO_FREE_SIZE = 5"
definition TOTAL_FREE_BLOCKS :: nat where "TOTAL_FREE_BLOCKS = 100 * FAPI_MAX_PHY_INSTANCES"
definition TO_FREE_SIZE_URLLC :: "'a phy_api_scheme \<Rightarrow> nat" where
  "TO_FREE_SIZE_URLLC a = MAX_NUM_OF_SYMBOL_PER_SLOT a * TO_FREE_SIZE"
definition WLS_SG_FIRST :: u16 where "WLS_SG_FIRST = or WLS_TF_SCATTER_GATHER WLS_TF_SYN"
definition WLS_SG_NEXT :: u16 where "WLS_SG_NEXT = WLS_TF_SCATTER_GATHER"
definition WLS_SG_LAST :: u16 where "WLS_SG_LAST = or WLS_TF_SCATTER_GATHER WLS_TF_FIN"

end
