(* ===== verification/Fapi_Send.thy ===== *)
theory Fapi_Send
  imports Fapi_Msg
begin

text \<open>
  The exchange of message lists with the PHY over the shared memory
  (\<open>fapi_5g/source/framework/wls/fapi2phy/nr5g_fapi_fapi2phy_wls.c\<close>): sending a list with the
  payload blocks of its TX requests, receiving a list, and the rings of blocks that are freed
  some slots after they were sent or received.

  A row of a ring is an array that ends at its first 0.  The C code is undefined for an access
  outside of a row, which the result \<open>Undefined\<close> shows.  The mutexes, messages and cycle counters
  are left out.
\<close>

section \<open>Freeing later\<close>

definition io_free_buffer :: "u64 \<Rightarrow> u32 \<Rightarrow> fapi_io \<Rightarrow> fapi_io outcome" where
  "io_free_buffer p loc s =
     obind (of_option (wls_fapi_free_buffer p loc (wls s))) (\<lambda>(ok, w).
     if ok then Done (s\<lparr>wls := w\<rparr>) else Exited)"

text \<open>The loop that enters blocks; the flag is false when the row was full.\<close>

fun add_blocks :: "u64 list \<Rightarrow> nat \<Rightarrow> u64 list \<Rightarrow> bool \<times> nat \<times> u64 list" where
  "add_blocks [] n row = (True, n, row)"
| "add_blocks (p # ps) n row =
     (if n \<ge> TOTAL_FREE_BLOCKS then (False, n, row) else add_blocks ps (Suc n) (row[n := p]))"

text \<open>The terminator and the count are written behind the loop only.\<close>

definition finish_row :: "nat \<Rightarrow> bool \<times> nat \<times> u64 list \<Rightarrow> free_ring \<Rightarrow> free_ring option" where
  "finish_row i r ring =
     (case r of (ok, n, row) \<Rightarrow>
       if \<not> ok then Some (ring\<lparr>row_list := (row_list ring)[i := row]\<rparr>)
       else if n < length row then
         Some (ring\<lparr>row_list := (row_list ring)[i := row[n := 0]], row_cnt := (row_cnt ring)[i := of_nat n]\<rparr>)
       else None)"

definition add_apis_to_free :: "u64 list \<Rightarrow> free_ring \<Rightarrow> free_ring option" where
  "add_apis_to_free ps ring =
     (let i = unat (ring_idx ring)
      in if i < length (row_list ring)
         then finish_row i (add_blocks ps (unat (row_cnt ring ! i)) (row_list ring ! i)) ring else None)"

definition wls_fapi_add_send_apis_to_free :: "phy_el list \<Rightarrow> fapi_io \<Rightarrow> fapi_io outcome" where
  "wls_fapi_add_send_apis_to_free els s =
     obind (of_option (add_apis_to_free (map el_addr els) (send_ring s))) (\<lambda>r. Done (s\<lparr>send_ring := r\<rparr>))"

definition wls_fapi_add_send_apis_to_free_urllc :: "phy_el list \<Rightarrow> fapi_io \<Rightarrow> fapi_io outcome" where
  "wls_fapi_add_send_apis_to_free_urllc els s =
     obind (of_option (add_apis_to_free (map el_addr els) (send_ring_urllc s))) (\<lambda>r. Done (s\<lparr>send_ring_urllc := r\<rparr>))"

text \<open>The loop that frees the entries of a row and clears them; the result is what is left of the row.\<close>

fun free_blocks :: "(u64 \<Rightarrow> fapi_io \<Rightarrow> u32) \<Rightarrow> u64 list \<Rightarrow> fapi_io \<Rightarrow> (u64 list \<times> fapi_io) outcome" where
  "free_blocks loc [] s = Undefined"
| "free_blocks loc (p # ps) s =
     (if p = 0 then Done (p # ps, s)
      else obind (io_free_buffer p (loc p s) s) (\<lambda>s.
           obind (free_blocks loc ps s) (\<lambda>(ps, s). Done (0 # ps, s))))"

definition clear_row :: "u64 list \<Rightarrow> nat \<Rightarrow> free_ring \<Rightarrow> free_ring" where
  "clear_row row i ring = ring\<lparr>row_list := (row_list ring)[i := row], row_cnt := (row_cnt ring)[i := 0]\<rparr>"

definition send_location :: "fapi_api \<Rightarrow> u64 \<Rightarrow> fapi_io \<Rightarrow> u32" where
  "send_location a p s = ucast (get_stats_location a (ucast (msg_type (el_msg (heap s p)))))"

definition wls_fapi_free_send_free_list :: "fapi_api \<Rightarrow> fapi_io \<Rightarrow> fapi_io outcome" where
  "wls_fapi_free_send_free_list a s =
     (let i = unat (ring_idx (send_ring s))
      in if i \<ge> TO_FREE_SIZE then Done s
         else obind (free_blocks (send_location a) (row_list (send_ring s) ! i) s) (\<lambda>(row, s).
              Done (s\<lparr>send_ring := clear_row row i (send_ring s)\<rparr>)))"

definition wls_fapi_free_send_free_list_urllc :: "fapi_api \<Rightarrow> fapi_io \<Rightarrow> fapi_io outcome" where
  "wls_fapi_free_send_free_list_urllc a s =
     (let i = unat (ring_idx (send_ring_urllc s))
      in if i \<ge> TO_FREE_SIZE_URLLC a then Done s
         else obind (free_blocks (send_location a) (row_list (send_ring_urllc s) ! i) s) (\<lambda>(row, s).
              Done (s\<lparr>send_ring_urllc := clear_row row i (send_ring_urllc s)\<rparr>)))"

definition wls_fapi_free_recv_free_list :: "u32 \<Rightarrow> fapi_io \<Rightarrow> fapi_io outcome" where
  "wls_fapi_free_recv_free_list idx s =
     (let i = unat idx
      in if i \<ge> TO_FREE_SIZE then Done s
         else obind (free_blocks (\<lambda>_ _. MIN_UL_BUF_LOCATIONS) (row_list (recv_ring s) ! i) s) (\<lambda>(row, s).
              Done (s\<lparr>recv_ring := clear_row row i (recv_ring s)\<rparr>)))"

section \<open>Sending a list\<close>

definition nr5g_fapi_fapi2phy_wls_put ::
    "fapi_env \<Rightarrow> u64 \<Rightarrow> u32 \<Rightarrow> u16 \<Rightarrow> u16 \<Rightarrow> fapi_io \<Rightarrow> (u8 \<times> fapi_io) outcome" where
  "nr5g_fapi_fapi2phy_wls_put e p sz mt fl s =
     obind (of_option (get_ctx (shm s) (h_phy e))) (\<lambda>c.
     obind (of_option (WLS_Put (wls_e e) (wls_tab e) (h_phy e) (WLS_VA2PA c p, sz, mt, fl) (shm s))) (\<lambda>(r, m).
     Done (word_of_int r, s\<lparr>shm := m\<rparr>)))"

text \<open>The number of payload blocks, counted by their lengths.\<close>

fun count_zbc :: "zbc_pdu list \<Rightarrow> int" where
  "count_zbc [] = 0"
| "count_zbc (p # ps) = (if nPduLen1 p \<noteq> 0 then 1 else 0) + (if nPduLen2 p \<noteq> 0 then 1 else 0) + count_zbc ps"

definition nr5g_fapi_fapi2phy_is_sdu_zbc_block :: "fapi_api \<Rightarrow> phy_msg \<Rightarrow> bool outcome" where
  "nr5g_fapi_fapi2phy_is_sdu_zbc_block a m =
     (if msg_type m = MSG_TYPE_PHY_TX_REQ a then
        case content m of Tx_request_body _ pdus \<Rightarrow> Done (count_zbc pdus \<noteq> 0) | _ \<Rightarrow> Undefined
      else Done False)"

definition urllc_flag :: "u16 \<Rightarrow> u16" where
  "urllc_flag fl = (if and fl WLS_TF_URLLC \<noteq> 0 then WLS_TF_URLLC else 0)"

text \<open>One PDU: the code word \<open>j\<close> and those after it.\<close>

fun send_codewords :: "fapi_env \<Rightarrow> u16 \<Rightarrow> bool \<Rightarrow> zbc_pdu \<Rightarrow> nat \<Rightarrow> nat \<Rightarrow> fapi_io \<Rightarrow> (bool \<times> fapi_io) outcome" where
  "send_codewords e list_flags is_last p 0 j s = Done (True, s)"
| "send_codewords e list_flags is_last p (Suc n) j s =
     (let pdu_len = (if j = 0 then nPduLen1 p else nPduLen2 p);
          payload = (if j = 0 then pPayload1 p else pPayload2 p);
          mt = (if j = 0 then MSG_PHY_ZBC_BLOCK0_REQ (api e) else MSG_PHY_ZBC_BLOCK1_REQ (api e));
          is_last1 = (j = 0 \<and> pPayload2 p = 0 \<or> j = MAX_DL_PER_UE_CODEWORD_NUM (api e) - 1);
          fl = or (if and list_flags WLS_TF_FIN \<noteq> 0 \<and> is_last \<and> is_last1 then WLS_SG_LAST else WLS_SG_NEXT)
                 (urllc_flag list_flags)
      in if payload \<noteq> 0 then
           obind (of_option (WLS_Put (wls_e e) (wls_tab e) (h_phy e) (payload, pdu_len, mt, fl) (shm s))) (\<lambda>(r, m).
           if r \<noteq> 0 then Done (False, s\<lparr>shm := m\<rparr>)
           else send_codewords e list_flags is_last p n (Suc j) (s\<lparr>shm := m\<rparr>))
         else send_codewords e list_flags is_last p n (Suc j) s)"

fun send_pdus :: "fapi_env \<Rightarrow> u16 \<Rightarrow> zbc_pdu list \<Rightarrow> fapi_io \<Rightarrow> (u32 \<times> fapi_io) outcome" where
  "send_pdus e list_flags [] s = Done (SUCCESS, s)"
| "send_pdus e list_flags (p # ps) s =
     obind (send_codewords e list_flags (ps = []) p (MAX_DL_PER_UE_CODEWORD_NUM (api e)) 0 s) (\<lambda>(ok, s).
     if ok then send_pdus e list_flags ps s else Done (FAILURE, s))"

definition nr5g_fapi_fapi2phy_send_zbc_blocks ::
    "fapi_env \<Rightarrow> phy_msg \<Rightarrow> u16 \<Rightarrow> fapi_io \<Rightarrow> (u32 \<times> fapi_io) outcome" where
  "nr5g_fapi_fapi2phy_send_zbc_blocks e m fl s =
     (case content m of Tx_request_body _ pdus \<Rightarrow> send_pdus e fl pdus s | _ \<Rightarrow> Undefined)"

definition put_element :: "fapi_env \<Rightarrow> phy_el \<Rightarrow> u16 \<Rightarrow> u16 \<Rightarrow> fapi_io \<Rightarrow> (u8 \<times> fapi_io) outcome" where
  "put_element e el mt fl s =
     nr5g_fapi_fapi2phy_wls_put e (el_addr el) (nMessageLen el + sizeof_MAC2PHY_QUEUE_EL (api e)) mt fl s"

text \<open>The loop over a list of two elements or more.  The flag is false when the function returns
  \<open>FAILURE\<close> from inside the loop.\<close>

fun send_elements :: "fapi_env \<Rightarrow> u16 \<Rightarrow> u16 \<Rightarrow> phy_el list \<Rightarrow> fapi_io \<Rightarrow> (bool \<times> fapi_io) outcome" where
  "send_elements e uf fl [] s = Done (True, s)"
| "send_elements e uf fl [el] s =
     obind (nr5g_fapi_fapi2phy_is_sdu_zbc_block (api e) (el_msg el)) (\<lambda>zbc.
     obind (put_element e el (msg_type (el_msg el)) (or (if zbc then WLS_SG_NEXT else WLS_SG_LAST) uf) s) (\<lambda>(r, s).
     if r \<noteq> 0 then Done (False, s)
     else if zbc then
       obind (nr5g_fapi_fapi2phy_send_zbc_blocks e (el_msg el) (or WLS_SG_LAST uf) s) (\<lambda>(r, s).
       Done (r = SUCCESS, s))
     else Done (True, s)))"
| "send_elements e uf fl (el # x # els) s =
     obind (put_element e el (msg_type (el_msg el)) fl s) (\<lambda>(r, s).
     if r \<noteq> 0 then Done (False, s)
     else
       obind (nr5g_fapi_fapi2phy_is_sdu_zbc_block (api e) (el_msg el)) (\<lambda>zbc.
       if zbc then
         obind (nr5g_fapi_fapi2phy_send_zbc_blocks e (el_msg el) fl s) (\<lambda>(r, s).
         if r \<noteq> SUCCESS then Done (False, s) else send_elements e uf (or WLS_SG_NEXT uf) (x # els) s)
       else send_elements e uf (or WLS_SG_NEXT uf) (x # els) s))"

definition advance_ring :: "nat \<Rightarrow> free_ring \<Rightarrow> free_ring" where
  "advance_ring n r =
     (let i = ring_idx r + 1 in r\<lparr>ring_idx := (if i \<ge> of_nat n then 0 else i)\<rparr>)"

definition free_after_send :: "fapi_env \<Rightarrow> bool \<Rightarrow> fapi_io \<Rightarrow> fapi_io outcome" where
  "free_after_send e urllc s =
     (if urllc
      then wls_fapi_free_send_free_list_urllc (api e)
             (s\<lparr>send_ring_urllc := advance_ring (TO_FREE_SIZE_URLLC (api e)) (send_ring_urllc s)\<rparr>)
      else wls_fapi_free_send_free_list (api e)
             (s\<lparr>send_ring := advance_ring TO_FREE_SIZE (send_ring s)\<rparr>))"

text \<open>The element of a list of one is itself read as the message.\<close>

definition nr5g_fapi_fapi2phy_wls_send :: "fapi_env \<Rightarrow> phy_el list \<Rightarrow> bool \<Rightarrow> fapi_io \<Rightarrow> (u8 \<times> fapi_io) outcome" where
  "nr5g_fapi_fapi2phy_wls_send e els urllc s =
     (let uf = (if urllc then WLS_TF_URLLC else 0)
      in obind (if urllc then wls_fapi_add_send_apis_to_free_urllc els s
                else wls_fapi_add_send_apis_to_free els s) (\<lambda>s.
         case els of
           [] \<Rightarrow> Undefined
         | [el] \<Rightarrow>
             obind (nr5g_fapi_fapi2phy_is_sdu_zbc_block (api e) (el_as_msg (api e) el)) (\<lambda>zbc.
             if zbc then Done (1, s)
             else obind (put_element e el (ucast (nMessageType el)) 0 s) (\<lambda>(r, s).
                  Done (if r \<noteq> 0 then 1 else 0, s)))
         | _ \<Rightarrow>
             obind (send_elements e uf (or WLS_SG_FIRST uf) els s) (\<lambda>(ok, s).
             if \<not> ok then Done (1, s)
             else obind (free_after_send e urllc s) (\<lambda>s. Done (0, s)))))"

section \<open>Receiving a list\<close>

definition nr5g_fapi_fapi2phy_is_valid_wls_ptr :: "u64 \<Rightarrow> fapi_io \<Rightarrow> bool" where
  "nr5g_fapi_fapi2phy_is_valid_wls_ptr p s \<longleftrightarrow>
     pPartitionMemBase (wls s) \<le> p \<and> p < pPartitionMemBase (wls s) + ucast (nPartitionMemSize (wls s))"

definition is_msg_present :: "u16 \<Rightarrow> bool" where
  "is_msg_present fl \<longleftrightarrow> \<not> (and fl WLS_TF_FIN \<noteq> 0 \<or> fl = 0)"

text \<open>The address, the size, the type and the flags of the next message; all 0 without a message.\<close>

definition nr5g_fapi_fapi2phy_wls_get :: "fapi_env \<Rightarrow> fapi_io \<Rightarrow> (wls_msg \<times> fapi_io) outcome" where
  "nr5g_fapi_fapi2phy_wls_get e s =
     obind (of_option (WLS_Get (wls_tab e) (h_phy e) (shm s))) (\<lambda>((p, out), m).
     Done ((p, case out of None \<Rightarrow> (0, 0, 0) | Some x \<Rightarrow> x), s\<lparr>shm := m\<rparr>))"

definition nr5g_fapi_fapi2phy_wls_wait :: "fapi_env \<Rightarrow> fapi_io \<Rightarrow> (u32 \<times> fapi_io) outcome" where
  "nr5g_fapi_fapi2phy_wls_wait e s =
     obind (of_option (WLS_Wait (wls_e e) (wls_tab e) (h_phy e) (shm s))) (\<lambda>(r, m).
     case r of Blocks \<Rightarrow> Diverges | Returns n \<Rightarrow> Done (word_of_int n, s\<lparr>shm := m\<rparr>))"

text \<open>The entries of the payloads of an uplink indication; a row that is full is overrun.\<close>

fun add_payloads :: "wls_us_ctx \<Rightarrow> (u32 \<times> u64) list \<Rightarrow> nat \<Rightarrow> u64 list \<Rightarrow> (nat \<times> u64 list) option" where
  "add_payloads c [] n row = Some (n, row)"
| "add_payloads c ((l, p) # ps) n row =
     (if l > 0 \<and> WLS_PA2VA c p \<noteq> 0 then
        if n < length row then add_payloads c ps (Suc n) (row[n := WLS_PA2VA c p]) else None
      else add_payloads c ps n row)"

fun add_received :: "fapi_api \<Rightarrow> wls_us_ctx \<Rightarrow> phy_el list \<Rightarrow> nat \<Rightarrow> u64 list \<Rightarrow> (bool \<times> nat \<times> u64 list) option" where
  "add_received a c [] n row = Some (True, n, row)"
| "add_received a c (el # els) n row =
     (if n \<ge> TOTAL_FREE_BLOCKS then Some (False, n, row)
      else if msg_type (el_msg el) = MSG_TYPE_PHY_RX_ULSCH_IND a then
        (case content (el_msg el) of
           Ulsch_indication_body _ pdus \<Rightarrow>
             Option.bind (add_payloads c (map (\<lambda>d. (ux_nPduLen d, ux_pPayload d)) pdus) (Suc n) (row[n := el_addr el])) (\<lambda>(n, row). add_received a c els n row)
         | _ \<Rightarrow> None)
      else add_received a c els (Suc n) (row[n := el_addr el]))"

definition wls_fapi_add_recv_apis_to_free :: "fapi_env \<Rightarrow> phy_el list \<Rightarrow> u32 \<Rightarrow> fapi_io \<Rightarrow> fapi_io outcome" where
  "wls_fapi_add_recv_apis_to_free e els idx s =
     (let ring = recv_ring s; i = unat idx
      in if i < length (row_list ring) then
           obind (of_option (get_ctx (shm s) (h_phy e))) (\<lambda>c.
           obind (of_option (add_received (api e) c els (unat (row_cnt ring ! i)) (row_list ring ! i))) (\<lambda>r.
           obind (of_option (finish_row i r ring)) (\<lambda>ring.
           Done (s\<lparr>recv_ring := ring\<rparr>))))
         else Undefined)"

text \<open>Blocks for the PHY: the loop ends when the queue of the PHY is full.\<close>

definition io_alloc_buffer :: "u32 \<Rightarrow> fapi_io \<Rightarrow> (u64 \<times> fapi_io) outcome" where
  "io_alloc_buffer loc s =
     obind (of_option (wls_fapi_alloc_buffer loc (wls s))) (\<lambda>(b, w).
     case b of None \<Rightarrow> Exited | Some p \<Rightarrow> Done (p, s\<lparr>wls := w\<rparr>))"

definition offer_block :: "fapi_env \<Rightarrow> u64 \<Rightarrow> fapi_io \<Rightarrow> (bool \<times> fapi_io) outcome" where
  "offer_block e p s =
     obind (of_option (get_ctx (shm s) (h_phy e))) (\<lambda>c.
     obind (of_option (WLS_EnqueueBlock (h_phy e) (WLS_VA2PA c p) (shm s))) (\<lambda>(r, m).
     Done (r > 0, s\<lparr>shm := m\<rparr>)))"

text \<open>One round: the count of the blocks that were taken, and the block at hand.\<close>

definition offer_round :: "fapi_env \<Rightarrow> u32 \<times> u64 \<times> fapi_io \<Rightarrow> ((u32 \<times> u64 \<times> fapi_io) \<times> bool) outcome" where
  "offer_round e st =
     (case st of (n, p, s) \<Rightarrow>
       obind (offer_block e p s) (\<lambda>(ok, s).
       if ok then obind (io_alloc_buffer MIN_UL_BUF_LOCATIONS s) (\<lambda>(p, s). Done ((n + 1, p, s), p \<noteq> 0))
       else Done ((n, p, s), False)))"

definition wls_fapi_add_blocks_to_ul :: "fapi_env \<Rightarrow> fapi_io \<Rightarrow> (u32 \<times> fapi_io) outcome" where
  "wls_fapi_add_blocks_to_ul e s =
     obind (io_alloc_buffer MIN_UL_BUF_LOCATIONS s) (\<lambda>(p, s).
     if p = 0 then Done (0, s)
     else obind (run_loop (offer_round e) (0, p, s)) (\<lambda>(n, p, s).
     if p \<noteq> 0 then obind (io_free_buffer p MIN_UL_BUF_LOCATIONS s) (\<lambda>s. Done (n, s)) else Done (n, s)))"

definition nr5g_fapi_transfer_to_free_recv_list :: "fapi_env \<Rightarrow> phy_el list \<Rightarrow> fapi_io \<Rightarrow> fapi_io outcome" where
  "nr5g_fapi_transfer_to_free_recv_list e els s =
     obind (wls_fapi_add_recv_apis_to_free e els (ring_idx (recv_ring s)) s) (\<lambda>s.
     let s = s\<lparr>recv_ring := advance_ring TO_FREE_SIZE (recv_ring s)\<rparr>
     in obind (wls_fapi_free_recv_free_list (ring_idx (recv_ring s)) s) (\<lambda>s.
        obind (wls_fapi_add_blocks_to_ul e s) (\<lambda>(_, s). Done s)))"

text \<open>One round of the loop: the state behind it, the lists and the flags that were read.  A pointer
  outside of the partition skips the count of the elements.  The blocks of a list are taken to be
  distinct, as the PHY hands a block over once.\<close>

type_synonym recv_state = "u32 \<times> phy_el list \<times> phy_el list \<times> u16 \<times> fapi_io"

definition recv_round :: "fapi_env \<Rightarrow> recv_state \<Rightarrow> (recv_state \<times> bool) outcome" where
  "recv_round e st =
     (let again = (\<lambda>n els uels fl s. Done ((n, els, uels, fl, s), n \<noteq> 0 \<and> is_msg_present fl))
      in case st of (n, els, uels, _, s) \<Rightarrow>
       obind (nr5g_fapi_fapi2phy_wls_get e s) (\<lambda>((p, _, _, fl), s).
       if p \<noteq> 0 then
         obind (of_option (get_ctx (shm s) (h_phy e))) (\<lambda>c.
         let va = WLS_PA2VA c p; el = (heap s va)\<lparr>el_addr := va\<rparr>
         in if \<not> nr5g_fapi_fapi2phy_is_valid_wls_ptr va s then again n els uels fl s
            else if and fl WLS_TF_URLLC \<noteq> 0 then again (n - 1) els (uels @ [el]) fl s
            else again (n - 1) (els @ [el]) uels fl s)
       else again (n - 1) els uels fl s))"

text \<open>The list for the caller, and the one for the URLLC thread.\<close>

definition nr5g_fapi_fapi2phy_wls_recv :: "fapi_env \<Rightarrow> fapi_io \<Rightarrow> (phy_el list \<times> phy_el list \<times> fapi_io) outcome" where
  "nr5g_fapi_fapi2phy_wls_recv e s =
     obind (nr5g_fapi_fapi2phy_wls_wait e s) (\<lambda>(n, s).
     if n = 0 then Done ([], [], s)
     else obind (run_loop (recv_round e) (n, [], [], 0, s)) (\<lambda>(_, els, uels, _, s).
       obind (if uels \<noteq> [] then nr5g_fapi_transfer_to_free_recv_list e uels s else Done s) (\<lambda>s.
       obind (if els \<noteq> [] then nr5g_fapi_transfer_to_free_recv_list e els s else Done s) (\<lambda>s.
       Done (els, uels, s)))))"

end
