(* ===== verification/Fapi_Delivery.thy ===== *)
theory Fapi_Delivery
  imports Fapi_Send Wls_Delivery
begin

text \<open>
  What sending a list of messages to the PHY does: the messages and their payload blocks arrive
  at the PHY in order, marked as one list, and the ring of sent blocks is a delay line that gives
  the blocks of a list back to the pool four lists later.
\<close>

section \<open>Messages on the link\<close>

definition phy_link :: "fapi_env \<Rightarrow> ctx_ptr \<Rightarrow> fapi_io \<Rightarrow> bool" where
  "phy_link e b s \<longleftrightarrow> linked (h_phy e) b (shm s) \<and> wls_check_ctx (wls_tab e) (h_phy e) = 0
     \<and> MAX_DL_PER_UE_CODEWORD_NUM (api e) = 2"

text \<open>Room for \<open>n\<close> more messages on both sides.\<close>

definition fits :: "fapi_env \<Rightarrow> ctx_ptr \<Rightarrow> nat \<Rightarrow> fapi_io \<Rightarrow> bool" where
  "fits e b n s \<longleftrightarrow> length (put_items (h_phy e) (shm s)) + n \<le> put_cap (h_phy e) (shm s)
     \<and> length (get_items b (shm s)) + length (put_items (h_phy e) (shm s)) + n \<le> get_cap b (shm s)"

text \<open>The messages \<open>xs\<close> wait at the sender, or were handed over behind those that waited.\<close>

definition held :: "fapi_env \<Rightarrow> ctx_ptr \<Rightarrow> wls_msg list \<Rightarrow> fapi_io \<Rightarrow> fapi_io \<Rightarrow> bool" where
  "held e b xs s s' \<longleftrightarrow> (\<exists>m. s' = s\<lparr>shm := m\<rparr> \<and> link_frame (h_phy e) b (shm s) m
     \<and> put_items (h_phy e) m = put_items (h_phy e) (shm s) @ xs \<and> get_items b m = get_items b (shm s))"

definition handed :: "fapi_env \<Rightarrow> ctx_ptr \<Rightarrow> wls_msg list \<Rightarrow> fapi_io \<Rightarrow> fapi_io \<Rightarrow> bool" where
  "handed e b xs s s' \<longleftrightarrow> (\<exists>m. s' = s\<lparr>shm := m\<rparr> \<and> link_frame (h_phy e) b (shm s) m
     \<and> put_items (h_phy e) m = [] \<and> get_items b m = get_items b (shm s) @ put_items (h_phy e) (shm s) @ xs)"

lemma held_refl [simp]: "held e b [] s s"
  unfolding held_def by (rule exI [where x = "shm s"]) simp

lemma held_trans:
  assumes "held e b xs s t" "held e b ys t u"
  shows "held e b (xs @ ys) s u"
proof -
  obtain m n where m: "t = s\<lparr>shm := m\<rparr>" "link_frame (h_phy e) b (shm s) m"
      "put_items (h_phy e) m = put_items (h_phy e) (shm s) @ xs" "get_items b m = get_items b (shm s)"
    and n: "u = t\<lparr>shm := n\<rparr>" "link_frame (h_phy e) b (shm t) n"
      "put_items (h_phy e) n = put_items (h_phy e) (shm t) @ ys" "get_items b n = get_items b (shm t)"
    using assms unfolding held_def by blast
  then have "u = s\<lparr>shm := n\<rparr>" "link_frame (h_phy e) b (shm s) n"
    using link_frame_trans [of "h_phy e" b "shm s" m n] by simp_all
  then show ?thesis unfolding held_def using m n by (intro exI [where x = n]) simp
qed

lemma held_handed_trans:
  assumes "held e b xs s t" "handed e b ys t u"
  shows "handed e b (xs @ ys) s u"
proof -
  obtain m n where m: "t = s\<lparr>shm := m\<rparr>" "link_frame (h_phy e) b (shm s) m"
      "put_items (h_phy e) m = put_items (h_phy e) (shm s) @ xs" "get_items b m = get_items b (shm s)"
    and n: "u = t\<lparr>shm := n\<rparr>" "link_frame (h_phy e) b (shm t) n"
      "put_items (h_phy e) n = []" "get_items b n = get_items b (shm t) @ put_items (h_phy e) (shm t) @ ys"
    using assms unfolding held_def handed_def by blast
  then have "u = s\<lparr>shm := n\<rparr>" "link_frame (h_phy e) b (shm s) n"
    using link_frame_trans [of "h_phy e" b "shm s" m n] by simp_all
  then show ?thesis unfolding handed_def using m n by (intro exI [where x = n]) simp
qed

lemma held_link:
  assumes "held e b xs s s'" "phy_link e b s"
  shows "phy_link e b s'"
  using assms linked_frame unfolding held_def phy_link_def by fastforce

lemma held_fits:
  assumes "held e b xs s s'" "phy_link e b s" "fits e b (length xs + n) s"
  shows "fits e b n s'"
proof -
  obtain m where m: "s' = s\<lparr>shm := m\<rparr>" "link_frame (h_phy e) b (shm s) m"
      "put_items (h_phy e) m = put_items (h_phy e) (shm s) @ xs" "get_items b m = get_items b (shm s)"
    using assms(1) unfolding held_def by blast
  have "client_ok (shm s) (h_phy e)" "client_ok (shm s) b"
    using assms(2) linked_clients unfolding phy_link_def by blast+
  then have "put_cap (h_phy e) m = put_cap (h_phy e) (shm s)" "get_cap b m = get_cap b (shm s)"
    using m(2) by (simp_all add: link_frame_def)
  then show ?thesis using assms(3) m by (simp add: fits_def)
qed

lemma put_is_held:
  assumes "phy_link e b s" "held_back x" "fits e b (Suc n) s"
  obtains m where "WLS_Put (wls_e e) (wls_tab e) (h_phy e) x (shm s) = Some (0, m)"
    "held e b [x] s (s\<lparr>shm := m\<rparr>)"
proof -
  have "linked (h_phy e) b (shm s)" "wls_check_ctx (wls_tab e) (h_phy e) = 0"
    "length (put_items (h_phy e) (shm s)) < put_cap (h_phy e) (shm s)"
    using assms unfolding phy_link_def fits_def by simp_all
  then obtain m where "wls_put (wls_e e) (wls_tab e) (h_phy e) x (shm s) = Some (0, m)"
      "link_frame (h_phy e) b (shm s) m" "put_items (h_phy e) m = put_items (h_phy e) (shm s) @ [x]"
      "get_items b m = get_items b (shm s)"
    using wls_put_holds [of "h_phy e" b "shm s" "wls_tab e" x "wls_e e"] assms(2) by blast
  then show ?thesis by (intro that [of m]) (auto simp: WLS_Put_def held_def)
qed

lemma put_is_handed:
  assumes "phy_link e b s" "triggers x" "fits e b (Suc n) s"
  obtains m where "WLS_Put (wls_e e) (wls_tab e) (h_phy e) x (shm s) = Some (0, m)"
    "handed e b [x] s (s\<lparr>shm := m\<rparr>)"
proof -
  have "linked (h_phy e) b (shm s)" "wls_check_ctx (wls_tab e) (h_phy e) = 0"
    "length (put_items (h_phy e) (shm s)) < put_cap (h_phy e) (shm s)"
    "length (get_items b (shm s)) + length (put_items (h_phy e) (shm s)) < get_cap b (shm s)"
    using assms unfolding phy_link_def fits_def by simp_all
  then obtain m where "wls_put (wls_e e) (wls_tab e) (h_phy e) x (shm s) = Some (0, m)"
      "link_frame (h_phy e) b (shm s) m" "put_items (h_phy e) m = []"
      "get_items b m = get_items b (shm s) @ put_items (h_phy e) (shm s) @ [x]"
    using wls_put_delivers [of "h_phy e" b "shm s" "wls_tab e" x "wls_e e"] assms(2) by blast
  then show ?thesis by (intro that [of m]) (auto simp: WLS_Put_def handed_def)
qed

section \<open>Flags\<close>

lemmas flag_defs = WLS_SG_FIRST_def WLS_SG_NEXT_def WLS_SG_LAST_def WLS_TF_SCATTER_GATHER_def
  WLS_TF_SYN_def WLS_TF_FIN_def WLS_TF_URLLC_def WLS_TF_LTE_def WLS_FLAGS_MASK_def

definition urllc_flags :: "u16 set" where "urllc_flags = {0, WLS_TF_URLLC}"

lemma flags_hold:
  assumes "uf \<in> urllc_flags"
  shows "held_back (p, l, t, or WLS_SG_NEXT uf)" "held_back (p, l, t, or WLS_SG_FIRST uf)"
    "triggers (p, l, t, or WLS_SG_LAST uf)"
    "urllc_flag (or WLS_SG_NEXT uf) = uf" "urllc_flag (or WLS_SG_FIRST uf) = uf" "urllc_flag (or WLS_SG_LAST uf) = uf"
    "and (or WLS_SG_NEXT uf) WLS_TF_FIN = 0" "and (or WLS_SG_FIRST uf) WLS_TF_FIN = 0"
    "and (or WLS_SG_LAST uf) WLS_TF_FIN \<noteq> 0"
  using assms
  by (auto simp: urllc_flags_def urllc_flag_def held_back_def triggers_def plain_flags_def msg_flags_def flag_defs)

text \<open>Blocks with their flags: all with the same, or as the tail of a list that ends here.\<close>

definition stamp :: "u16 \<Rightarrow> (u64 \<times> u32 \<times> u16) list \<Rightarrow> wls_msg list" where
  "stamp fl xs = map (\<lambda>(p, l, t). (p, l, t, fl)) xs"

fun stamped :: "u16 \<Rightarrow> u16 \<Rightarrow> (u64 \<times> u32 \<times> u16) list \<Rightarrow> wls_msg list" where
  "stamped fl uf [] = []"
| "stamped fl uf [x] = stamp (or WLS_SG_LAST uf) [x]"
| "stamped fl uf (x # y # xs) = stamp fl [x] @ stamped (or WLS_SG_NEXT uf) uf (y # xs)"

lemma stamp_simps [simp]:
  "stamp fl [] = []" "stamp fl (x # xs) = (fst x, fst (snd x), snd (snd x), fl) # stamp fl xs"
  "stamp fl (xs @ ys) = stamp fl xs @ stamp fl ys" "length (stamp fl xs) = length xs"
  by (auto simp: stamp_def split: prod.split)

lemma stamped_Cons:
  "xs \<noteq> [] \<Longrightarrow> stamped fl uf (x # xs) = stamp fl [x] @ stamped (or WLS_SG_NEXT uf) uf xs"
  by (auto simp: neq_Nil_conv)

lemma stamped_append:
  "ys \<noteq> [] \<Longrightarrow> stamped (or WLS_SG_NEXT uf) uf (xs @ ys) = stamp (or WLS_SG_NEXT uf) xs @ stamped (or WLS_SG_NEXT uf) uf ys"
  by (induction xs) (simp_all add: stamped_Cons)

lemma length_stamped [simp]: "length (stamped fl uf xs) = length xs"
  by (induction fl uf xs rule: stamped.induct) auto

section \<open>The payload blocks of a TX request\<close>

definition pdu_blocks :: "fapi_api \<Rightarrow> zbc_pdu \<Rightarrow> (u64 \<times> u32 \<times> u16) list" where
  "pdu_blocks a p =
     (if pPayload1 p \<noteq> 0 then [(pPayload1 p, nPduLen1 p, MSG_PHY_ZBC_BLOCK0_REQ a)] else [])
     @ (if pPayload2 p \<noteq> 0 then [(pPayload2 p, nPduLen2 p, MSG_PHY_ZBC_BLOCK1_REQ a)] else [])"

lemma codewords_held:
  assumes "phy_link e b s" "uf \<in> urllc_flags" "urllc_flag lf = uf" "\<not> (and lf WLS_TF_FIN \<noteq> 0 \<and> is_last)"
    and "fits e b (length (pdu_blocks (api e) p)) s"
  shows "\<exists>s'. send_codewords e lf is_last p 2 0 s = Done (True, s')
    \<and> held e b (stamp (or WLS_SG_NEXT uf) (pdu_blocks (api e) p)) s s'"
proof -
  note flags = flags_hold(1) [OF assms(2)] and mx = assms(1) [unfolded phy_link_def]
  let ?x1 = "(pPayload1 p, nPduLen1 p, MSG_PHY_ZBC_BLOCK0_REQ (api e), or WLS_SG_NEXT uf)"
  let ?x2 = "(pPayload2 p, nPduLen2 p, MSG_PHY_ZBC_BLOCK1_REQ (api e), or WLS_SG_NEXT uf)"
  have one: "\<exists>t. send_codewords e lf is_last p 2 0 s = send_codewords e lf is_last p 1 1 t
      \<and> held e b (if pPayload1 p \<noteq> 0 then [?x1] else []) s t"
  proof (cases "pPayload1 p = 0")
    case True then show ?thesis by (intro exI [where x = s]) (simp add: numeral_2_eq_2)
  next
    case False
    then have f: "fits e b (Suc (if pPayload2 p \<noteq> 0 then 1 else 0)) s" using assms(5) by (simp add: pdu_blocks_def split: if_splits)
    obtain m where m: "WLS_Put (wls_e e) (wls_tab e) (h_phy e) ?x1 (shm s) = Some (0, m)"
        "held e b [?x1] s (s\<lparr>shm := m\<rparr>)" using put_is_held [OF assms(1) flags f] .
    then show ?thesis using False assms(3,4)
      by (intro exI [where x = "s\<lparr>shm := m\<rparr>"]) (auto simp: numeral_2_eq_2 Let_def)
  qed
  then obtain t where t: "send_codewords e lf is_last p 2 0 s = send_codewords e lf is_last p 1 1 t"
      "held e b (if pPayload1 p \<noteq> 0 then [?x1] else []) s t" by blast
  have "\<exists>s'. send_codewords e lf is_last p 1 1 t = Done (True, s')
      \<and> held e b (if pPayload2 p \<noteq> 0 then [?x2] else []) t s'"
  proof (cases "pPayload2 p = 0")
    case True then show ?thesis by simp
  next
    case False
    then have "fits e b (Suc 0) t"
      using assms(5) by (intro held_fits [OF t(2) assms(1)]) (simp add: pdu_blocks_def split: if_splits)
    from put_is_held [OF held_link [OF t(2) assms(1)] flags this]
    obtain m where m: "WLS_Put (wls_e e) (wls_tab e) (h_phy e) ?x2 (shm t) = Some (0, m)"
        "held e b [?x2] t (t\<lparr>shm := m\<rparr>)" .
    then show ?thesis using False assms(3,4) by (auto simp: Let_def)
  qed
  then obtain s' where s': "send_codewords e lf is_last p 1 1 t = Done (True, s')"
      "held e b (if pPayload2 p \<noteq> 0 then [?x2] else []) t s'" by blast
  have "(if pPayload1 p \<noteq> 0 then [?x1] else []) @ (if pPayload2 p \<noteq> 0 then [?x2] else [])
      = stamp (or WLS_SG_NEXT uf) (pdu_blocks (api e) p)" by (simp add: pdu_blocks_def)
  then show ?thesis using held_trans [OF t(2) s'(2)] t(1) s'(1) by metis
qed

lemma codewords_handed:
  assumes "phy_link e b s" "uf \<in> urllc_flags" "pdu_blocks (api e) p \<noteq> []"
    and "fits e b (length (pdu_blocks (api e) p)) s"
  shows "\<exists>s'. send_codewords e (or WLS_SG_LAST uf) True p 2 0 s = Done (True, s')
    \<and> handed e b (stamped (or WLS_SG_NEXT uf) uf (pdu_blocks (api e) p)) s s'"
proof -
  note hold = flags_hold(1) [OF assms(2)] and trig = flags_hold(3) [OF assms(2)]
    and fin = flags_hold(6,9) [OF assms(2)] and cw = assms(1) [unfolded phy_link_def]
  let ?x1 = "\<lambda>fl. (pPayload1 p, nPduLen1 p, MSG_PHY_ZBC_BLOCK0_REQ (api e), fl)"
  let ?x2 = "\<lambda>fl. (pPayload2 p, nPduLen2 p, MSG_PHY_ZBC_BLOCK1_REQ (api e), fl)"
  show ?thesis
  proof (cases "pPayload2 p = 0")
    case True
    then have b1: "pPayload1 p \<noteq> 0" using assms(3) by (auto simp: pdu_blocks_def)
    then have "fits e b (Suc 0) s" using assms(4) True by (simp add: pdu_blocks_def)
    from put_is_handed [OF assms(1) trig this]
    obtain m where m: "WLS_Put (wls_e e) (wls_tab e) (h_phy e) (?x1 (or WLS_SG_LAST uf)) (shm s) = Some (0, m)"
        "handed e b [?x1 (or WLS_SG_LAST uf)] s (s\<lparr>shm := m\<rparr>)" .
    then show ?thesis using True b1 fin
      by (intro exI [where x = "s\<lparr>shm := m\<rparr>"]) (simp add: numeral_2_eq_2 Let_def pdu_blocks_def)
  next
    case False
    have "\<exists>t. send_codewords e (or WLS_SG_LAST uf) True p 2 0 s = send_codewords e (or WLS_SG_LAST uf) True p 1 1 t
        \<and> held e b (if pPayload1 p \<noteq> 0 then [?x1 (or WLS_SG_NEXT uf)] else []) s t"
    proof (cases "pPayload1 p = 0")
      case True then show ?thesis by (intro exI [where x = s]) (simp add: numeral_2_eq_2)
    next
      case b1: False
      then have "fits e b (Suc 1) s" using assms(4) False by (simp add: pdu_blocks_def numeral_2_eq_2)
      from put_is_held [OF assms(1) hold this]
      obtain m where m: "WLS_Put (wls_e e) (wls_tab e) (h_phy e) (?x1 (or WLS_SG_NEXT uf)) (shm s) = Some (0, m)"
          "held e b [?x1 (or WLS_SG_NEXT uf)] s (s\<lparr>shm := m\<rparr>)" .
      then show ?thesis using b1 False fin cw
        by (intro exI [where x = "s\<lparr>shm := m\<rparr>"]) (simp add: numeral_2_eq_2 Let_def)
    qed
    then obtain t where t: "send_codewords e (or WLS_SG_LAST uf) True p 2 0 s = send_codewords e (or WLS_SG_LAST uf) True p 1 1 t"
        "held e b (if pPayload1 p \<noteq> 0 then [?x1 (or WLS_SG_NEXT uf)] else []) s t" by blast
    have "fits e b (Suc 0) t"
      using assms(4) False by (intro held_fits [OF t(2) assms(1)]) (simp add: pdu_blocks_def split: if_splits)
    from put_is_handed [OF held_link [OF t(2) assms(1)] trig this]
    obtain m where m: "WLS_Put (wls_e e) (wls_tab e) (h_phy e) (?x2 (or WLS_SG_LAST uf)) (shm t) = Some (0, m)"
        "handed e b [?x2 (or WLS_SG_LAST uf)] t (t\<lparr>shm := m\<rparr>)" .
    then have "send_codewords e (or WLS_SG_LAST uf) True p 1 1 t = Done (True, t\<lparr>shm := m\<rparr>)"
      using False fin cw by (simp add: Let_def)
    moreover have "stamped (or WLS_SG_NEXT uf) uf (pdu_blocks (api e) p)
        = (if pPayload1 p \<noteq> 0 then [?x1 (or WLS_SG_NEXT uf)] else []) @ [?x2 (or WLS_SG_LAST uf)]"
      using False by (simp add: pdu_blocks_def)
    ultimately show ?thesis using held_handed_trans [OF t(2) m(2)] t(1) by simp
  qed
qed

definition pdus_blocks :: "fapi_api \<Rightarrow> zbc_pdu list \<Rightarrow> (u64 \<times> u32 \<times> u16) list" where
  "pdus_blocks a ps = concat (map (pdu_blocks a) ps)"

lemma pdus_held:
  assumes "phy_link e b s" "uf \<in> urllc_flags" "urllc_flag lf = uf" "and lf WLS_TF_FIN = 0"
    and "fits e b (length (pdus_blocks (api e) ps)) s"
  shows "\<exists>s'. send_pdus e lf ps s = Done (SUCCESS, s')
    \<and> held e b (stamp (or WLS_SG_NEXT uf) (pdus_blocks (api e) ps)) s s'"
  using assms(1,5)
proof (induction ps arbitrary: s)
  case Nil
  then show ?case by (simp add: pdus_blocks_def)
next
  case (Cons p ps)
  let ?n = "length (pdus_blocks (api e) ps)"
  have f: "fits e b (length (pdu_blocks (api e) p) + ?n) s" using Cons.prems(2) by (simp add: pdus_blocks_def)
  then have "fits e b (length (pdu_blocks (api e) p)) s" by (simp add: fits_def)
  from codewords_held [OF Cons.prems(1) assms(2,3) _ this, of "ps = []"] assms(4)
  obtain t where t: "send_codewords e lf (ps = []) p 2 0 s = Done (True, t)"
      "held e b (stamp (or WLS_SG_NEXT uf) (pdu_blocks (api e) p)) s t" by auto
  have "fits e b ?n t" using held_fits [OF t(2) Cons.prems(1)] f by simp
  then obtain s' where "send_pdus e lf ps t = Done (SUCCESS, s')"
      "held e b (stamp (or WLS_SG_NEXT uf) (pdus_blocks (api e) ps)) t s'"
    using Cons.IH [OF held_link [OF t(2) Cons.prems(1)]] by blast
  then show ?case using t held_trans [OF t(2)] Cons.prems(1) by (simp add: phy_link_def pdus_blocks_def)
qed

lemma pdus_handed:
  assumes "phy_link e b s" "uf \<in> urllc_flags" "ps \<noteq> []" "pdu_blocks (api e) (last ps) \<noteq> []"
    and "fits e b (length (pdus_blocks (api e) ps)) s"
  shows "\<exists>s'. send_pdus e (or WLS_SG_LAST uf) ps s = Done (SUCCESS, s')
    \<and> handed e b (stamped (or WLS_SG_NEXT uf) uf (pdus_blocks (api e) ps)) s s'"
  using assms(1,3-5)
proof (induction ps arbitrary: s)
  case (Cons p ps)
  have cw: "MAX_DL_PER_UE_CODEWORD_NUM (api e) = 2" using Cons.prems(1) by (simp add: phy_link_def)
  show ?case
  proof (cases "ps = []")
    case True
    then show ?thesis using codewords_handed [OF Cons.prems(1) assms(2), of p] Cons.prems(3,4) cw
      by (auto simp: pdus_blocks_def)
  next
    case False
    let ?n = "length (pdus_blocks (api e) ps)"
    have f: "fits e b (length (pdu_blocks (api e) p) + ?n) s" using Cons.prems(4) by (simp add: pdus_blocks_def)
    then have "fits e b (length (pdu_blocks (api e) p)) s" by (simp add: fits_def)
    from codewords_held [OF Cons.prems(1) assms(2) flags_hold(6) [OF assms(2)] _ this, of "ps = []"] False
    obtain t where t: "send_codewords e (or WLS_SG_LAST uf) (ps = []) p 2 0 s = Done (True, t)"
        "held e b (stamp (or WLS_SG_NEXT uf) (pdu_blocks (api e) p)) s t" by auto
    have "fits e b ?n t" using held_fits [OF t(2) Cons.prems(1)] f by simp
    then obtain s' where s': "send_pdus e (or WLS_SG_LAST uf) ps t = Done (SUCCESS, s')"
        "handed e b (stamped (or WLS_SG_NEXT uf) uf (pdus_blocks (api e) ps)) t s'"
      using Cons.IH [OF held_link [OF t(2) Cons.prems(1)] False] Cons.prems(3) False by auto
    have "pdus_blocks (api e) ps \<noteq> []"
      using Cons.prems(3) False by (auto simp: pdus_blocks_def)
    then show ?thesis using t s' held_handed_trans [OF t(2) s'(2)] cw
      by (simp add: pdus_blocks_def stamped_append)
  qed
qed simp

section \<open>The elements of a list\<close>

text \<open>The PDUs whose payloads travel with a message, and the blocks of an element: itself, by its
  physical address, and its payloads.\<close>

definition zbc_list :: "fapi_api \<Rightarrow> phy_msg \<Rightarrow> zbc_pdu list" where
  "zbc_list a m = (case content m of
     Tx_request_body _ ps \<Rightarrow> if msg_type m = MSG_TYPE_PHY_TX_REQ a \<and> count_zbc ps \<noteq> 0 then ps else []
   | _ \<Rightarrow> [])"

definition well_typed :: "fapi_api \<Rightarrow> phy_msg \<Rightarrow> bool" where
  "well_typed a m \<longleftrightarrow> (msg_type m = MSG_TYPE_PHY_TX_REQ a \<longrightarrow> (\<exists>ss ps. content m = Tx_request_body ss ps))"

definition el_blocks :: "fapi_api \<Rightarrow> (u64 \<Rightarrow> u64) \<Rightarrow> phy_el \<Rightarrow> (u64 \<times> u32 \<times> u16) list" where
  "el_blocks a tr el = (tr (el_addr el), nMessageLen el + sizeof_MAC2PHY_QUEUE_EL a, msg_type (el_msg el))
     # pdus_blocks a (zbc_list a (el_msg el))"

definition list_blocks :: "fapi_api \<Rightarrow> (u64 \<Rightarrow> u64) \<Rightarrow> phy_el list \<Rightarrow> (u64 \<times> u32 \<times> u16) list" where
  "list_blocks a tr els = concat (map (el_blocks a tr) els)"

text \<open>A list can be sent when its messages are well typed and the last one, if it has payloads, has
  one in its last PDU.\<close>

definition closed_list :: "fapi_api \<Rightarrow> phy_el list \<Rightarrow> bool" where
  "closed_list a els \<longleftrightarrow> (\<forall>el \<in> set els. well_typed a (el_msg el))
     \<and> (let ps = zbc_list a (el_msg (last els)) in ps \<noteq> [] \<longrightarrow> pdu_blocks a (last ps) \<noteq> [])"

lemma is_sdu_zbc_iff:
  "well_typed a m \<Longrightarrow> nr5g_fapi_fapi2phy_is_sdu_zbc_block a m = Done (zbc_list a m \<noteq> [])"
  by (cases "content m")
    (auto simp: nr5g_fapi_fapi2phy_is_sdu_zbc_block_def zbc_list_def well_typed_def)

lemma send_zbc_list:
  "zbc_list (api e) m \<noteq> [] \<Longrightarrow> nr5g_fapi_fapi2phy_send_zbc_blocks e m fl s = send_pdus e fl (zbc_list (api e) m) s"
  by (cases "content m") (auto simp: nr5g_fapi_fapi2phy_send_zbc_blocks_def zbc_list_def split: if_splits)

definition translates :: "fapi_env \<Rightarrow> fapi_io \<Rightarrow> (u64 \<Rightarrow> u64) \<Rightarrow> bool" where
  "translates e s tr \<longleftrightarrow> (\<exists>c. get_ctx (shm s) (h_phy e) = Some c \<and> tr = WLS_VA2PA c)"

lemma held_translates:
  assumes "held e b xs s s'" "translates e s tr"
  shows "translates e s' tr"
proof -
  obtain m where m: "s' = s\<lparr>shm := m\<rparr>" "same_meta (shm s) m"
    using assms(1) unfolding held_def link_frame_def by blast
  obtain c where c: "get_ctx (shm s) (h_phy e) = Some c" "tr = WLS_VA2PA c"
    using assms(2) unfolding translates_def by blast
  obtain c' where "get_ctx m (h_phy e) = Some c'" using same_metaD [OF m(2) c(1)] .
  then show ?thesis using same_meta_translation(1) [OF m(2) c(1)] c(2) m(1) unfolding translates_def by auto
qed

lemma put_element_eq:
  assumes "translates e s tr"
    and "WLS_Put (wls_e e) (wls_tab e) (h_phy e)
       (tr (el_addr el), nMessageLen el + sizeof_MAC2PHY_QUEUE_EL (api e), mt, fl) (shm s) = Some (0, m)"
  shows "put_element e el mt fl s = Done (0, s\<lparr>shm := m\<rparr>)"
  using assms by (auto simp: translates_def put_element_def nr5g_fapi_fapi2phy_wls_put_def)

lemma element_held:
  assumes "phy_link e b s" "translates e s tr" "uf \<in> urllc_flags" "fl \<in> {or WLS_SG_FIRST uf, or WLS_SG_NEXT uf}"
    and wt: "well_typed (api e) (el_msg el)" and f: "fits e b (length (el_blocks (api e) tr el)) s"
  shows "\<exists>s'. send_elements e uf fl (el # x # els) s = send_elements e uf (or WLS_SG_NEXT uf) (x # els) s'
    \<and> held e b (stamp fl [hd (el_blocks (api e) tr el)] @ stamp (or WLS_SG_NEXT uf) (tl (el_blocks (api e) tr el))) s s'"
proof -
  let ?ps = "zbc_list (api e) (el_msg el)"
  let ?x = "(tr (el_addr el), nMessageLen el + sizeof_MAC2PHY_QUEUE_EL (api e), msg_type (el_msg el), fl)"
  have hold: "held_back ?x" and fl: "urllc_flag fl = uf" "and fl WLS_TF_FIN = 0"
    using assms(4) flags_hold [OF assms(3)] by auto
  have fs: "fits e b (Suc (length (pdus_blocks (api e) ?ps))) s" using f by (simp add: el_blocks_def)
  from put_is_held [OF assms(1) hold this]
  obtain m where m: "WLS_Put (wls_e e) (wls_tab e) (h_phy e) ?x (shm s) = Some (0, m)"
      "held e b [?x] s (s\<lparr>shm := m\<rparr>)" .
  let ?t = "s\<lparr>shm := m\<rparr>"
  have put: "put_element e el (msg_type (el_msg el)) fl s = Done (0, ?t)" using put_element_eq [OF assms(2) m(1)] .
  have ft: "fits e b (length (pdus_blocks (api e) ?ps)) ?t" using held_fits [OF m(2) assms(1)] fs by simp
  obtain s' where s': "send_pdus e fl ?ps ?t = Done (SUCCESS, s')"
      "held e b (stamp (or WLS_SG_NEXT uf) (pdus_blocks (api e) ?ps)) ?t s'"
    using pdus_held [OF held_link [OF m(2) assms(1)] assms(3) fl ft] by blast
  have "send_elements e uf fl (el # x # els) s = send_elements e uf (or WLS_SG_NEXT uf) (x # els) s'"
  proof (cases "?ps = []")
    case True
    then have "s' = ?t" using s'(1) by simp
    then show ?thesis using put True is_sdu_zbc_iff [OF wt] by simp
  next
    case False
    then show ?thesis using put s'(1) is_sdu_zbc_iff [OF wt] send_zbc_list [OF False] by simp
  qed
  then show ?thesis using held_trans [OF m(2) s'(2)] by (auto simp: el_blocks_def)
qed

lemma element_handed:
  assumes "phy_link e b s" "translates e s tr" "uf \<in> urllc_flags" "closed_list (api e) [el]"
    and f: "fits e b (length (el_blocks (api e) tr el)) s"
  shows "\<exists>s'. send_elements e uf fl [el] s = Done (True, s') \<and> handed e b (stamped (or WLS_SG_NEXT uf) uf (el_blocks (api e) tr el)) s s'"
proof -
  let ?ps = "zbc_list (api e) (el_msg el)"
  let ?x = "\<lambda>fl. (tr (el_addr el), nMessageLen el + sizeof_MAC2PHY_QUEUE_EL (api e), msg_type (el_msg el), fl)"
  have wt: "well_typed (api e) (el_msg el)" using assms(4) by (simp add: closed_list_def)
  have fs: "fits e b (Suc (length (pdus_blocks (api e) ?ps))) s" using f by (simp add: el_blocks_def)
  show ?thesis
  proof (cases "?ps = []")
    case True
    from put_is_handed [OF assms(1) flags_hold(3) [OF assms(3)] fs]
    obtain m where m: "WLS_Put (wls_e e) (wls_tab e) (h_phy e) (?x (or WLS_SG_LAST uf)) (shm s) = Some (0, m)"
        "handed e b [?x (or WLS_SG_LAST uf)] s (s\<lparr>shm := m\<rparr>)" .
    then show ?thesis using True put_element_eq [OF assms(2) m(1)] is_sdu_zbc_iff [OF wt]
      by (simp add: el_blocks_def pdus_blocks_def)
  next
    case False
    from put_is_held [OF assms(1) flags_hold(1) [OF assms(3)] fs]
    obtain m where m: "WLS_Put (wls_e e) (wls_tab e) (h_phy e) (?x (or WLS_SG_NEXT uf)) (shm s) = Some (0, m)"
        "held e b [?x (or WLS_SG_NEXT uf)] s (s\<lparr>shm := m\<rparr>)" .
    let ?t = "s\<lparr>shm := m\<rparr>"
    have ft: "fits e b (length (pdus_blocks (api e) ?ps)) ?t" using held_fits [OF m(2) assms(1)] fs by simp
    have last: "pdu_blocks (api e) (last ?ps) \<noteq> []" using assms(4) False by (simp add: closed_list_def)
    obtain s' where s': "send_pdus e (or WLS_SG_LAST uf) ?ps ?t = Done (SUCCESS, s')"
        "handed e b (stamped (or WLS_SG_NEXT uf) uf (pdus_blocks (api e) ?ps)) ?t s'"
      using pdus_handed [OF held_link [OF m(2) assms(1)] assms(3) False last ft] by blast
    have "pdus_blocks (api e) ?ps \<noteq> []"
      using last False by (auto simp: pdus_blocks_def)
    then have "stamped (or WLS_SG_NEXT uf) uf (el_blocks (api e) tr el)
        = [?x (or WLS_SG_NEXT uf)] @ stamped (or WLS_SG_NEXT uf) uf (pdus_blocks (api e) ?ps)"
      by (simp add: el_blocks_def stamped_Cons)
    then show ?thesis
      using put_element_eq [OF assms(2) m(1)] s'(1) False held_handed_trans [OF m(2) s'(2)]
        is_sdu_zbc_iff [OF wt] send_zbc_list [OF False] by simp
  qed
qed

lemma elements_handed:
  assumes "phy_link e b s" "translates e s tr" "uf \<in> urllc_flags" "closed_list (api e) els" "els \<noteq> []"
    and "fl \<in> {or WLS_SG_FIRST uf, or WLS_SG_NEXT uf}" "length els = 1 \<longrightarrow> fl = or WLS_SG_NEXT uf"
    and "fits e b (length (list_blocks (api e) tr els)) s"
  shows "\<exists>s'. send_elements e uf fl els s = Done (True, s')
    \<and> handed e b (stamped fl uf (list_blocks (api e) tr els)) s s'"
  using assms(1,2,4-8)
proof (induction els arbitrary: fl s)
  case (Cons el els)
  show ?case
  proof (cases els)
    case Nil
    then show ?thesis using element_handed [OF Cons.prems(1,2) assms(3), of el fl] Cons.prems
      by (simp add: list_blocks_def)
  next
    case (Cons x ys)
    have wt: "well_typed (api e) (el_msg el)" and cl: "closed_list (api e) els"
      using Cons.prems(3) Cons by (simp_all add: closed_list_def)
    let ?n = "length (list_blocks (api e) tr els)"
    have f: "fits e b (length (el_blocks (api e) tr el) + ?n) s" using Cons.prems(7) by (simp add: list_blocks_def)
    then have "fits e b (length (el_blocks (api e) tr el)) s" by (simp add: fits_def)
    from element_held [OF Cons.prems(1,2) assms(3) Cons.prems(5) wt this, of x ys] Cons
    obtain t where t: "send_elements e uf fl (el # els) s = send_elements e uf (or WLS_SG_NEXT uf) els t"
        "held e b (stamp fl [hd (el_blocks (api e) tr el)] @ stamp (or WLS_SG_NEXT uf) (tl (el_blocks (api e) tr el))) s t"
      by auto
    have "fits e b ?n t" using held_fits [OF t(2) Cons.prems(1)] f by (simp add: el_blocks_def)
    with Cons.IH [OF held_link [OF t(2) Cons.prems(1)] held_translates [OF t(2) Cons.prems(2)] cl] Cons
    obtain s' where s': "send_elements e uf (or WLS_SG_NEXT uf) els t = Done (True, s')"
        "handed e b (stamped (or WLS_SG_NEXT uf) uf (list_blocks (api e) tr els)) t s'" by auto
    have ne: "list_blocks (api e) tr els \<noteq> []" using Cons by (simp add: list_blocks_def el_blocks_def)
    have "stamped fl uf (list_blocks (api e) tr (el # els))
        = (stamp fl [hd (el_blocks (api e) tr el)] @ stamp (or WLS_SG_NEXT uf) (tl (el_blocks (api e) tr el)))
          @ stamped (or WLS_SG_NEXT uf) uf (list_blocks (api e) tr els)"
      using ne by (simp add: list_blocks_def el_blocks_def stamped_Cons stamped_append)
    then show ?thesis using t(1) s'(1) held_handed_trans [OF t(2) s'(2)] by auto
  qed
qed simp

section \<open>The ring of sent blocks\<close>

text \<open>The blocks of a row, and the rows of a ring in the order in which they are freed; the last one
  is being filled.\<close>

definition row_blocks :: "u64 list \<Rightarrow> u64 list" where
  "row_blocks row = takeWhile (\<lambda>p. p \<noteq> 0) row"

definition row_ok :: "u32 \<Rightarrow> u64 list \<Rightarrow> bool" where
  "row_ok c row \<longleftrightarrow> length row = TOTAL_FREE_BLOCKS \<and> unat c = length (row_blocks row)
     \<and> length (row_blocks row) < TOTAL_FREE_BLOCKS"

definition ring_ok :: "nat \<Rightarrow> free_ring \<Rightarrow> bool" where
  "ring_ok n r \<longleftrightarrow> length (row_list r) = n \<and> unat (ring_idx r) < n \<and> list_all2 row_ok (row_cnt r) (row_list r)"

definition pending :: "free_ring \<Rightarrow> u64 list list" where
  "pending r = map row_blocks
     (ring_list (length (row_list r)) (Suc (unat (ring_idx r))) (length (row_list r)) (row_list r))"

lemma add_blocks_room:
  assumes "n + length ps \<le> TOTAL_FREE_BLOCKS" "length row = TOTAL_FREE_BLOCKS"
  shows "add_blocks ps n row = (True, n + length ps, take n row @ ps @ drop (n + length ps) row)"
  using assms
proof (induction ps arbitrary: n row)
  case (Cons p ps)
  have n: "n < length row" using Cons.prems by simp
  have "take (Suc n) (row[n := p]) = take n row @ [p]" using n by (simp add: take_Suc_conv_app_nth)
  then show ?case using Cons n by simp
qed simp

lemma row_split:
  assumes "row_ok c row"
  shows "take (unat c) row = row_blocks row" "unat c < TOTAL_FREE_BLOCKS" "row ! unat c = 0"
proof -
  have c: "unat c = length (row_blocks row)" "length (row_blocks row) < length row" using assms by (simp_all add: row_ok_def)
  then show "take (unat c) row = row_blocks row" by (metis row_blocks_def takeWhile_eq_take)
  show "unat c < TOTAL_FREE_BLOCKS" using assms by (simp add: row_ok_def)
  show "row ! unat c = 0" using c nth_length_takeWhile [of "\<lambda>p. p \<noteq> 0" row] by (simp add: row_blocks_def)
qed

lemma finish_row_room:
  assumes "row_ok c row" "0 \<notin> set ps" "length (row_blocks row) + length ps < TOTAL_FREE_BLOCKS"
  shows "\<exists>row' n. finish_row i (add_blocks ps (unat c) row) r
      = Some (r\<lparr>row_list := (row_list r)[i := row'], row_cnt := (row_cnt r)[i := n]\<rparr>)
    \<and> row_ok n row' \<and> row_blocks row' = row_blocks row @ ps"
proof -
  have c: "unat c = length (row_blocks row)" "length row = TOTAL_FREE_BLOCKS" using assms(1) by (simp_all add: row_ok_def)
  let ?n = "unat c + length ps"
  let ?row = "row_blocks row @ ps @ 0 # drop (Suc ?n) row"
  have n: "?n < TOTAL_FREE_BLOCKS" using assms(3) c by simp
  have "add_blocks ps (unat c) row = (True, ?n, row_blocks row @ ps @ drop ?n row)"
    using add_blocks_room [of "unat c" ps row] n c row_split(1) [OF assms(1)] by simp
  moreover have "drop ?n row = row ! ?n # drop (Suc ?n) row" using n c by (simp add: Cons_nth_drop_Suc)
  then have "(row_blocks row @ ps @ drop ?n row)[?n := 0] = ?row" using c by (simp add: list_update_append)
  ultimately have fin: "finish_row i (add_blocks ps (unat c) row) r
      = Some (r\<lparr>row_list := (row_list r)[i := ?row], row_cnt := (row_cnt r)[i := of_nat ?n]\<rparr>)"
    using n c by (simp add: finish_row_def)
  have "\<forall>p \<in> set (row_blocks row). p \<noteq> 0" unfolding row_blocks_def by (blast dest: set_takeWhileD)
  then have blocks: "row_blocks ?row = row_blocks row @ ps"
    using assms(2) unfolding row_blocks_def [of ?row] by (subst takeWhile_append2; auto)+
  have "unat (of_nat ?n :: u32) = ?n"
    using n by (subst unat_of_nat) (simp add: TOTAL_FREE_BLOCKS_def FAPI_MAX_PHY_INSTANCES_def)
  then have "row_ok (of_nat ?n) ?row" using n c blocks by (simp add: row_ok_def)
  then show ?thesis using fin blocks by blast
qed

lemma ring_list_start: "ring_list n (g mod n) k xs = ring_list n g k xs"
  by (simp add: ring_list_def mod_add_left_eq)

lemma ring_list_rotate:
  assumes "2 \<le> n" "i < n" "length xs = n"
  shows "ring_list n (Suc i) n xs = xs ! (Suc i mod n) # ring_list n (Suc (Suc i)) (n - 2) xs @ [xs ! i]"
    "ring_list n (Suc (Suc i mod n)) n (xs[i := y, Suc i mod n := z]) = ring_list n (Suc (Suc i)) (n - 2) xs @ [y, z]"
proof -
  obtain k where k: "n = Suc (Suc k)" using assms(1) by (metis Suc_le_D numeral_2_eq_2 Suc_le_mono)
  have pos: "(Suc (Suc i) + k) mod n = i" "(Suc (Suc i) + Suc k) mod n = Suc i mod n"
    using assms(2) k mod_add_self2 [of i n] mod_add_self2 [of "Suc i" n] by (simp_all add: add.commute)
  have xi: "xs[(Suc (Suc i) + k) mod n := xs ! i] = xs" using pos(1) by simp
  have "ring_list n (Suc (Suc i)) (Suc k) xs = ring_list n (Suc (Suc i)) k xs @ [xs ! i]"
    using ring_list_snoc [of k n xs "Suc (Suc i)" "xs ! i"] k assms(3) xi by simp
  moreover have "ring_list n (Suc i) n xs = xs ! (Suc i mod n) # ring_list n (Suc (Suc i)) (Suc k) xs"
    using ring_list_Cons [of n "Suc i" "Suc k" xs] k ring_list_start [of n "Suc (Suc i)"] by simp
  ultimately show "ring_list n (Suc i) n xs = xs ! (Suc i mod n) # ring_list n (Suc (Suc i)) (n - 2) xs @ [xs ! i]"
    using k by simp
  have st: "ring_list n (Suc (Suc i mod n)) m ys = ring_list n (Suc (Suc i)) m ys" for m :: nat and ys :: "'a list"
    by (metis ring_list_start mod_Suc_eq)
  have "ring_list n (Suc (Suc i)) (Suc (Suc k)) (xs[i := y, Suc i mod n := z])
      = ring_list n (Suc (Suc i)) (Suc k) (xs[i := y]) @ [z]"
    using ring_list_snoc [of "Suc k" n "xs[i := y]" "Suc (Suc i)" z] pos(2) k assms(3) by simp
  moreover have "ring_list n (Suc (Suc i)) (Suc k) (xs[i := y]) = ring_list n (Suc (Suc i)) k xs @ [y]"
    using ring_list_snoc [of k n xs "Suc (Suc i)" y] pos(1) k assms(3) by simp
  ultimately show "ring_list n (Suc (Suc i mod n)) n (xs[i := y, Suc i mod n := z])
      = ring_list n (Suc (Suc i)) (n - 2) xs @ [y, z]"
    unfolding st using k by simp
qed

section \<open>Giving blocks back\<close>

lemma io_free_ok:
  assumes "mem_ok a0 (mem (wls s))" "p \<in> mem_blocks a0" "p \<notin> mem_avail (mem (wls s))"
  shows "\<exists>w. io_free_buffer p loc s = Done (s\<lparr>wls := w\<rparr>) \<and> mem_ok a0 (mem w)
    \<and> mem_avail (mem w) = insert p (mem_avail (mem (wls s)))"
proof -
  obtain m where "wls_fapi_free_mem_array p (mem (wls s)) = Some (Ret SUCCESS, m)" "mem_ok a0 m"
      "mem_avail m = insert p (mem_avail (mem (wls s)))" using free_adds_head [OF assms] by blast
  then show ?thesis by (auto simp: io_free_buffer_def wls_fapi_free_buffer_def Let_def)
qed

lemma free_blocks_ok:
  assumes "mem_ok a0 (mem (wls s))" "distinct live" "0 \<notin> set live"
    and "set live \<subseteq> mem_blocks a0 - mem_avail (mem (wls s))"
  shows "\<exists>w. free_blocks loc (live @ 0 # rest) s = Done (replicate (length live) 0 @ 0 # rest, s\<lparr>wls := w\<rparr>)
    \<and> mem_ok a0 (mem w) \<and> mem_avail (mem w) = mem_avail (mem (wls s)) \<union> set live"
  using assms
proof (induction live arbitrary: s)
  case Nil
  show ?case by (rule exI [where x = "wls s"]) (use Nil in simp)
next
  case (Cons p live)
  obtain w where w: "io_free_buffer p (loc p s) s = Done (s\<lparr>wls := w\<rparr>)" "mem_ok a0 (mem w)"
      "mem_avail (mem w) = insert p (mem_avail (mem (wls s)))"
    using io_free_ok [OF Cons.prems(1), of p "loc p s"] Cons.prems(4) by auto
  have "set live \<subseteq> mem_blocks a0 - mem_avail (mem (wls (s\<lparr>wls := w\<rparr>)))"
    using Cons.prems(2,4) w(3) by auto
  then obtain v where "free_blocks loc (live @ 0 # rest) (s\<lparr>wls := w\<rparr>)
        = Done (replicate (length live) 0 @ 0 # rest, s\<lparr>wls := v\<rparr>)"
      "mem_ok a0 (mem v)" "mem_avail (mem v) = mem_avail (mem w) \<union> set live"
    using Cons.IH [of "s\<lparr>wls := w\<rparr>"] Cons.prems(2,3) w(2) by auto
  then show ?case using w Cons.prems(3) by (intro exI [where x = v]) auto
qed

text \<open>Both kinds of lists, plain and URLLC, use a ring of their own.\<close>

definition ring_of :: "bool \<Rightarrow> fapi_io \<Rightarrow> free_ring" where
  "ring_of u s = (if u then send_ring_urllc s else send_ring s)"

definition set_ring :: "bool \<Rightarrow> free_ring \<Rightarrow> fapi_io \<Rightarrow> fapi_io" where
  "set_ring u r s = (if u then s\<lparr>send_ring_urllc := r\<rparr> else s\<lparr>send_ring := r\<rparr>)"

definition ring_size :: "fapi_env \<Rightarrow> bool \<Rightarrow> nat" where
  "ring_size e u = (if u then TO_FREE_SIZE_URLLC (api e) else TO_FREE_SIZE)"

lemma set_ring_simps [simp]:
  "ring_of u (set_ring u r s) = r" "shm (set_ring u r s) = shm s" "wls (set_ring u r s) = wls s"
  "set_ring u r (set_ring u r' s) = set_ring u r s" "ring_of u (s\<lparr>shm := m\<rparr>) = ring_of u s" "ring_of u (s\<lparr>wls := w\<rparr>) = ring_of u s"
  "(set_ring u r s)\<lparr>shm := m\<rparr> = set_ring u r (s\<lparr>shm := m\<rparr>)" "(set_ring u r s)\<lparr>wls := w\<rparr> = set_ring u r (s\<lparr>wls := w\<rparr>)"
  by (simp_all add: ring_of_def set_ring_def)

definition urllc_bits :: "bool \<Rightarrow> u16" where
  "urllc_bits u = (if u then WLS_TF_URLLC else 0)"

lemma free_after_send_eq:
  "free_after_send e u s = (let r = advance_ring (ring_size e u) (ring_of u s); i = unat (ring_idx r)
     in if i \<ge> ring_size e u then Done (set_ring u r s)
        else obind (free_blocks (send_location (api e)) (row_list r ! i) (set_ring u r s)) (\<lambda>(row, s).
             Done (set_ring u (clear_row row i (ring_of u s)) s)))"
  by (simp add: free_after_send_def wls_fapi_free_send_free_list_def wls_fapi_free_send_free_list_urllc_def
      ring_of_def set_ring_def ring_size_def Let_def)

lemma wls_send_eq:
  assumes "2 \<le> length els"
  shows "nr5g_fapi_fapi2phy_wls_send e els u s =
    obind (of_option (add_apis_to_free (map el_addr els) (ring_of u s))) (\<lambda>r.
    obind (send_elements e (urllc_bits u) (or WLS_SG_FIRST (urllc_bits u)) els (set_ring u r s)) (\<lambda>(ok, s).
    if \<not> ok then Done (1, s) else obind (free_after_send e u s) (\<lambda>s. Done (0, s))))"
proof -
  obtain x y zs where "els = x # y # zs" using assms by (metis Suc_le_length_iff numeral_2_eq_2)
  then show ?thesis
    by (simp add: nr5g_fapi_fapi2phy_wls_send_def wls_fapi_add_send_apis_to_free_def
        wls_fapi_add_send_apis_to_free_urllc_def ring_of_def set_ring_def urllc_bits_def Let_def)
qed

lemma advance_ring_idx:
  assumes "ring_ok n r" "n < 2 ^ 32" "0 < n"
  shows "unat (ring_idx (advance_ring n r)) = Suc (unat (ring_idx r)) mod n"
    "row_list (advance_ring n r) = row_list r" "row_cnt (advance_ring n r) = row_cnt r"
proof -
  have n: "unat (of_nat n :: u32) = n" using assms(2) by (subst unat_of_nat) simp
  have "ring_idx r < of_nat n" using assms(1) n by (simp add: ring_ok_def word_less_nat_alt)
  then show "unat (ring_idx (advance_ring n r)) = Suc (unat (ring_idx r)) mod n"
    using unat_ring_next [of "ring_idx r" "of_nat n"] n by (simp add: advance_ring_def Let_def)
  show "row_list (advance_ring n r) = row_list r" "row_cnt (advance_ring n r) = row_cnt r"
    by (simp_all add: advance_ring_def Let_def)
qed

lemma row_blocks_cleared [simp]: "row_blocks (replicate n 0 @ 0 # rest) = []"
  by (cases n) (simp_all add: row_blocks_def)

lemma pending_eq:
  assumes "ring_ok n r" "2 \<le> n"
  shows "pending r = row_blocks (row_list r ! (Suc (unat (ring_idx r)) mod n))
      # map row_blocks (ring_list n (Suc (Suc (unat (ring_idx r)))) (n - 2) (row_list r))
      @ [row_blocks (row_list r ! unat (ring_idx r))]"
  using assms ring_list_rotate(1) [of n "unat (ring_idx r)" "row_list r"]
  by (simp add: pending_def ring_ok_def)

lemma ring_add:
  assumes ok: "ring_ok n r" and n: "2 \<le> n" and ps: "0 \<notin> set ps"
    and room: "length (last (pending r)) + length ps < TOTAL_FREE_BLOCKS"
  obtains row c where
    "add_apis_to_free ps r = Some (r\<lparr>row_list := (row_list r)[unat (ring_idx r) := row], row_cnt := (row_cnt r)[unat (ring_idx r) := c]\<rparr>)"
    "row_ok c row" "row_blocks row = row_blocks (row_list r ! unat (ring_idx r)) @ ps"
proof -
  let ?i = "unat (ring_idx r)"
  have i: "?i < length (row_list r)" "row_ok (row_cnt r ! ?i) (row_list r ! ?i)"
    using ok by (auto simp: ring_ok_def list_all2_conv_all_nth)
  have "length (row_blocks (row_list r ! ?i)) + length ps < TOTAL_FREE_BLOCKS"
    using room pending_eq [OF ok n] by simp
  from finish_row_room [OF i(2) ps this, of ?i r] that i(1) show ?thesis
    by (auto simp: add_apis_to_free_def Let_def)
qed

lemma ring_ok_update:
  assumes "ring_ok n r" "row_ok c row"
  shows "ring_ok n (r\<lparr>row_list := (row_list r)[i := row], row_cnt := (row_cnt r)[i := c]\<rparr>)"
  using assms by (auto simp: ring_ok_def list_all2_update_cong)

lemma pending_add:
  assumes ok: "ring_ok n r" and n: "2 \<le> n"
    and row: "row_blocks row = row_blocks (row_list r ! unat (ring_idx r)) @ ps"
  shows "pending (r\<lparr>row_list := (row_list r)[unat (ring_idx r) := row], row_cnt := c\<rparr>)
    = butlast (pending r) @ [last (pending r) @ ps]"
proof -
  let ?i = "unat (ring_idx r)"
  have i: "?i < n" "length (row_list r) = n" using ok by (simp_all add: ring_ok_def)
  obtain k where k: "n = Suc k" using n by (cases n) auto
  have at: "(Suc ?i + k) mod n = ?i" using i(1) k mod_add_self2 [of ?i n] by (simp add: add.commute)
  have "ring_list n (Suc ?i) n ((row_list r)[?i := x]) = ring_list n (Suc ?i) k (row_list r) @ [x]" for x
    using ring_list_snoc [of k n "row_list r" "Suc ?i" x] at i(2) k by simp
  note snoc = this [of row] this [of "row_list r ! ?i"]
  show ?thesis using snoc i(2) row by (simp add: pending_def)
qed

text \<open>Behind the messages: the ring moves on and frees the row it comes to.\<close>

lemma free_after_send_ok:
  assumes ok: "ring_ok n (ring_of u s)" and n: "n = ring_size e u" "2 \<le> n" "n < 2 ^ 32"
    and pool: "mem_ok a0 (mem (wls s))" and old: "distinct (hd (pending (ring_of u s)))"
      "set (hd (pending (ring_of u s))) \<subseteq> mem_blocks a0 - mem_avail (mem (wls s))"
  shows "\<exists>r w. free_after_send e u s = Done (set_ring u r (s\<lparr>wls := w\<rparr>)) \<and> ring_ok n r
    \<and> pending r = tl (pending (ring_of u s)) @ [[]]
    \<and> mem_ok a0 (mem w) \<and> mem_avail (mem w) = mem_avail (mem (wls s)) \<union> set (hd (pending (ring_of u s)))"
proof -
  define r0 where "r0 = ring_of u s"
  define r1 where "r1 = advance_ring n r0"
  let ?i = "unat (ring_idx r0)" and ?j = "Suc (unat (ring_idx r0)) mod n"
  note ok0 = ok [folded r0_def] and p0 = pending_eq [OF ok [folded r0_def] n(2)]
  have r1: "unat (ring_idx r1) = ?j" "row_list r1 = row_list r0" "row_cnt r1 = row_cnt r0"
    using advance_ring_idx [OF ok0 n(3)] n(2) by (simp_all add: r1_def)
  have j: "?j < n" "length (row_list r0) = n" "length (row_cnt r0) = n"
    using ok0 n(2) by (auto simp: ring_ok_def list_all2_lengthD)
  define row where "row = row_list r0 ! ?j"
  have rok: "row_ok (row_cnt r0 ! ?j) row" using ok0 j by (simp add: ring_ok_def list_all2_conv_all_nth row_def)
  let ?live = "row_blocks row" and ?c = "unat (row_cnt r0 ! ?j)"
  have c: "?c < length row" using rok by (simp add: row_ok_def)
  have split: "row = ?live @ 0 # drop (Suc ?c) row"
    using id_take_nth_drop [OF c] row_split [OF rok] by metis
  have old': "distinct ?live" "set ?live \<subseteq> mem_blocks a0 - mem_avail (mem (wls (set_ring u r1 s)))" "0 \<notin> set ?live"
    using old p0 by (auto simp: r0_def [symmetric] row_def row_blocks_def dest: set_takeWhileD)
  obtain w where w: "free_blocks (send_location (api e)) row (set_ring u r1 s)
        = Done (replicate (length ?live) 0 @ 0 # drop (Suc ?c) row, (set_ring u r1 s)\<lparr>wls := w\<rparr>)"
      "mem_ok a0 (mem w)" "mem_avail (mem w) = mem_avail (mem (wls s)) \<union> set ?live"
    using free_blocks_ok [of a0 "set_ring u r1 s" ?live "send_location (api e)" "drop (Suc ?c) row"] pool old' split by auto
  let ?row = "replicate (length ?live) 0 @ 0 # drop (Suc ?c) row"
  define r2 where "r2 = clear_row ?row ?j r1"
  have adv: "advance_ring (ring_size e u) (ring_of u s) = r1" using n(1) by (simp add: r1_def r0_def)
  have "free_after_send e u s = Done (set_ring u r2 (s\<lparr>wls := w\<rparr>))"
    unfolding free_after_send_eq Let_def adv using w(1) [unfolded row_def] j(1) r1 n(1) [symmetric]
    by (simp add: row_def r2_def)
  moreover have "row_ok 0 ?row"
    using rok c by (simp add: row_ok_def)
  then have "ring_ok n r2"
    using ring_ok_update [of n r1 0 ?row ?j] ok0 r1 j(1) by (simp add: r2_def clear_row_def ring_ok_def)
  moreover have "pending r2 = tl (pending r0) @ [[]]"
  proof -
    have "row_list r2 = (row_list r0)[?i := row_list r0 ! ?i, ?j := ?row]" "unat (ring_idx r2) = ?j"
      using r1 by (simp_all add: r2_def clear_row_def)
    moreover have "?i < n" using ok0 by (simp add: ring_ok_def)
    ultimately show ?thesis
      using ring_list_rotate(2) [OF n(2), of ?i "row_list r0" "row_list r0 ! ?i" ?row] p0 j
      by (simp add: pending_def)
  qed
  ultimately show ?thesis using w(2,3) p0 by (auto simp: r0_def [symmetric] row_def)
qed

section \<open>Sending a list\<close>

text \<open>What a list needs: a link with room for its blocks, blocks that are not null and fit into the row
  that is being filled, and a pool that the oldest row can be given back to.\<close>

definition can_send :: "fapi_env \<Rightarrow> ctx_ptr \<Rightarrow> (u64 \<Rightarrow> u64) \<Rightarrow> mem_array \<Rightarrow> phy_el list \<Rightarrow> bool \<Rightarrow> fapi_io \<Rightarrow> bool" where
  "can_send e b tr a0 els u s \<longleftrightarrow>
     phy_link e b s \<and> translates e s tr \<and> fits e b (length (list_blocks (api e) tr els)) s
     \<and> closed_list (api e) els \<and> 2 \<le> length els \<and> 0 \<notin> el_addr ` set els
     \<and> ring_ok (ring_size e u) (ring_of u s) \<and> 2 \<le> ring_size e u \<and> ring_size e u < 2 ^ 32
     \<and> length (last (pending (ring_of u s))) + length els < TOTAL_FREE_BLOCKS
     \<and> mem_ok a0 (mem (wls s)) \<and> distinct (hd (pending (ring_of u s)))
     \<and> set (hd (pending (ring_of u s))) \<subseteq> mem_blocks a0 - mem_avail (mem (wls s))"

lemma send_list:
  assumes "can_send e b tr a0 els u s"
  shows "\<exists>m r w. nr5g_fapi_fapi2phy_wls_send e els u s = Done (0, set_ring u r (s\<lparr>shm := m, wls := w\<rparr>))
    \<and> link_frame (h_phy e) b (shm s) m \<and> put_items (h_phy e) m = []
    \<and> get_items b m = get_items b (shm s) @ put_items (h_phy e) (shm s)
        @ stamped (or WLS_SG_FIRST (urllc_bits u)) (urllc_bits u) (list_blocks (api e) tr els)
    \<and> ring_ok (ring_size e u) r
    \<and> pending r = tl (butlast (pending (ring_of u s))) @ [last (pending (ring_of u s)) @ map el_addr els, []]
    \<and> mem_ok a0 (mem w) \<and> mem_avail (mem w) = mem_avail (mem (wls s)) \<union> set (hd (pending (ring_of u s)))"
proof -
  let ?n = "ring_size e u" and ?uf = "urllc_bits u" and ?r0 = "ring_of u s"
  note a = assms [unfolded can_send_def]
  have n: "2 \<le> ?n" "?n < 2 ^ 32" and ok: "ring_ok ?n ?r0" using a by blast+
  have uf: "?uf \<in> urllc_flags" by (simp add: urllc_bits_def urllc_flags_def)
  have ps: "0 \<notin> set (map el_addr els)" "length (last (pending ?r0)) + length (map el_addr els) < TOTAL_FREE_BLOCKS"
    using a by simp_all
  obtain c row where add: "add_apis_to_free (map el_addr els) ?r0
        = Some (?r0\<lparr>row_list := (row_list ?r0)[unat (ring_idx ?r0) := row], row_cnt := (row_cnt ?r0)[unat (ring_idx ?r0) := c]\<rparr>)"
      "row_ok c row" "row_blocks row = row_blocks (row_list ?r0 ! unat (ring_idx ?r0)) @ map el_addr els"
    by (rule ring_add [OF ok n(1) ps])
  define r1 where "r1 = ?r0\<lparr>row_list := (row_list ?r0)[unat (ring_idx ?r0) := row], row_cnt := (row_cnt ?r0)[unat (ring_idx ?r0) := c]\<rparr>"
  have ok1: "ring_ok ?n r1" unfolding r1_def by (rule ring_ok_update [OF ok add(2)])
  have p1: "pending r1 = butlast (pending ?r0) @ [last (pending ?r0) @ map el_addr els]"
    unfolding r1_def by (rule pending_add [OF ok n(1) add(3)])
  let ?s1 = "set_ring u r1 s"
  have link: "phy_link e b ?s1" "translates e ?s1 tr" "fits e b (length (list_blocks (api e) tr els)) ?s1"
    using a by (simp_all add: phy_link_def translates_def fits_def)
  have els: "closed_list (api e) els" "els \<noteq> []" "2 \<le> length els" using a by auto
  obtain t where t: "send_elements e ?uf (or WLS_SG_FIRST ?uf) els ?s1 = Done (True, t)"
      "handed e b (stamped (or WLS_SG_FIRST ?uf) ?uf (list_blocks (api e) tr els)) ?s1 t"
    using elements_handed [OF link(1,2) uf els(1,2) _ _ link(3), of "or WLS_SG_FIRST ?uf"] els(3) by auto
  obtain m where m: "t = ?s1\<lparr>shm := m\<rparr>" "link_frame (h_phy e) b (shm s) m" "put_items (h_phy e) m = []"
      "get_items b m = get_items b (shm s) @ put_items (h_phy e) (shm s)
        @ stamped (or WLS_SG_FIRST ?uf) ?uf (list_blocks (api e) tr els)"
    using t(2) unfolding handed_def by auto
  have hd: "hd (pending r1) = hd (pending ?r0)" "tl (pending r1) = tl (butlast (pending ?r0)) @ [last (pending ?r0) @ map el_addr els]"
    using p1 pending_eq [OF ok n(1)] by (simp_all add: butlast_append)
  have "mem_ok a0 (mem (wls t))" "distinct (hd (pending (ring_of u t)))"
    "set (hd (pending (ring_of u t))) \<subseteq> mem_blocks a0 - mem_avail (mem (wls t))" "ring_ok ?n (ring_of u t)"
    using a m(1) hd(1) ok1 by simp_all
  from free_after_send_ok [OF this(4) refl n this(1-3)]
  obtain r w where w: "free_after_send e u t = Done (set_ring u r (t\<lparr>wls := w\<rparr>))" "ring_ok ?n r"
      "pending r = tl (pending (ring_of u t)) @ [[]]" "mem_ok a0 (mem w)"
      "mem_avail (mem w) = mem_avail (mem (wls t)) \<union> set (hd (pending (ring_of u t)))" by blast
  have "nr5g_fapi_fapi2phy_wls_send e els u s = Done (0, set_ring u r (s\<lparr>shm := m, wls := w\<rparr>))"
    using wls_send_eq [OF els(3)] add(1) t(1) w(1) m(1) by (simp add: r1_def [symmetric])
  then show ?thesis using m w hd by auto
qed

section \<open>Concrete lists\<close>

definition demo_fapi :: fapi_api where
  "demo_fapi = \<lparr>conv = (\<lambda>_ v. v), MAX_NUM_ANT_NR5G = 4, MAX_NUM_SLOT_CONFIG = 80, MAX_NUM_OF_SYMBOL_PER_SLOT = 14,
     MSG_TYPE_PHY_CONFIG_REQ = 0, MSG_TYPE_PHY_CONFIG_RESP = 1, MSG_TYPE_PHY_START_REQ = 2, MSG_TYPE_PHY_START_RESP = 3,
     MSG_TYPE_PHY_STOP_REQ = 4, MSG_TYPE_PHY_STOP_RESP = 5, MSG_TYPE_PHY_SHUTDOWN_REQ = 6, MSG_TYPE_PHY_SHUTDOWN_RESP = 7,
     MSG_TYPE_PHY_DL_CONFIG_REQ = 8, MSG_TYPE_PHY_UL_CONFIG_REQ = 9, MSG_TYPE_PHY_UL_DCI_REQ = 10, MSG_TYPE_PHY_TX_REQ = 11,
     MSG_TYPE_PHY_DL_IQ_SAMPLES = 12, MSG_TYPE_PHY_UL_IQ_SAMPLES = 13, MSG_TYPE_PHY_SLOT_IND = 14, MSG_TYPE_PHY_ERR_IND = 15,
     MSG_TYPE_PHY_RX_ULSCH_IND = 16, MSG_TYPE_PHY_RX_ULSCH_UCI_IND = 19, MSG_TYPE_PHY_CRC_IND = 20,
     MSG_TYPE_PHY_UCI_IND = 21, MSG_TYPE_PHY_RX_RACH_IND = 22, MSG_TYPE_PHY_RX_SRS_IND = 23,
     MSG_PHY_ZBC_BLOCK0_REQ = 17, MSG_PHY_ZBC_BLOCK1_REQ = 18, MSG_OK = 0, MSG_INVALID_STATE = 1,
     MAX_DL_PER_UE_CODEWORD_NUM = 2, sizeof_MAC2PHY_QUEUE_EL = 64, sizeof_msg = (\<lambda>_. 32), el_as_msg = el_msg\<rparr>"

definition demo_fapi_env :: fapi_env where
  "demo_fapi_env = \<lparr>api = demo_fapi, wls_e = demo_env, wls_tab = [demo_a], h_phy = demo_a\<rparr>"

definition demo_el :: "u64 \<Rightarrow> u16 \<Rightarrow> phy_content \<Rightarrow> phy_el" where
  "demo_el p mt c = \<lparr>el_addr = p, nMessageType = ucast mt, nNumMessageInBlock = 1, nAlignOffset = 32, nMessageLen = 32,
     el_msg = \<lparr>msg_type = mt, msg_len = 32, content = c\<rparr>\<rparr>"

text \<open>A DL configuration and a TX request with one payload.\<close>

definition demo_els :: "phy_el list" where
  "demo_els = [demo_el 0x40000 8 Other_body,
     demo_el 0x80000 11 (Tx_request_body \<lparr>nSFN = 0, nSlot = 0, nCarrier = 0, nSym = 0\<rparr> [\<lparr>nPduIdx = 0, nPduLen1 = 100, pPayload1 = 0xC0000, nPduLen2 = 0, pPayload2 = 0\<rparr>])]"

definition demo_ring :: "u64 list \<Rightarrow> u64 list \<Rightarrow> free_ring" where
  "demo_ring cur old =
     (let row = (\<lambda>ps. ps @ replicate (TOTAL_FREE_BLOCKS - length ps) 0); xs = [cur, old, [], [], []]
      in \<lparr>row_cnt = map (\<lambda>ps. of_nat (length ps)) xs, row_list = map row xs, ring_idx = 0\<rparr>)"

definition demo_io :: "fapi_wls_ctx \<Rightarrow> u64 list \<Rightarrow> u64 list \<Rightarrow> fapi_io" where
  "demo_io w cur old = \<lparr>shm = demo_shm 0 0, wls = w, heap = (\<lambda>_. hd demo_els), send_ring = demo_ring cur old,
     send_ring_urllc = demo_ring [] [], recv_ring = demo_ring [] []\<rparr>"

lemma row_blocks_padded:
  "0 \<notin> set ps \<Longrightarrow> 0 < n \<Longrightarrow> row_blocks (ps @ replicate n 0) = ps"
  unfolding row_blocks_def by (subst takeWhile_append2; cases n) auto

lemma row_ok_padded:
  assumes "0 \<notin> set ps" "length ps < TOTAL_FREE_BLOCKS"
  shows "row_ok (of_nat (length ps)) (ps @ replicate (TOTAL_FREE_BLOCKS - length ps) 0)"
proof -
  have "unat (of_nat (length ps) :: u32) = length ps"
    using assms(2) by (subst unat_of_nat) (simp add: TOTAL_FREE_BLOCKS_def FAPI_MAX_PHY_INSTANCES_def)
  then show ?thesis using assms row_blocks_padded [OF assms(1)] by (simp add: row_ok_def)
qed

lemma demo_ring_ok:
  assumes "0 \<notin> set cur" "length cur < TOTAL_FREE_BLOCKS" "0 \<notin> set old" "length old < TOTAL_FREE_BLOCKS"
  shows "ring_ok 5 (demo_ring cur old)" "pending (demo_ring cur old) = [old, [], [], [], cur]"
proof -
  have z: "0 < TOTAL_FREE_BLOCKS" by (simp add: TOTAL_FREE_BLOCKS_def FAPI_MAX_PHY_INSTANCES_def)
  show ok: "ring_ok 5 (demo_ring cur old)"
    using row_ok_padded [OF assms(1,2)] row_ok_padded [OF assms(3,4)] row_ok_padded [of "[]"] z
    by (simp add: ring_ok_def demo_ring_def Let_def)
  have b: "row_blocks (cur @ replicate (TOTAL_FREE_BLOCKS - length cur) 0) = cur"
    "row_blocks (old @ replicate (TOTAL_FREE_BLOCKS - length old) 0) = old"
    "row_blocks (replicate TOTAL_FREE_BLOCKS 0) = []"
    using assms z row_blocks_padded [of cur] row_blocks_padded [of old] row_blocks_padded [of "[]"] by simp_all
  have "[0..<3] = [0, 1, 2 :: nat]" by (simp add: upt_rec)
  then show "pending (demo_ring cur old) = [old, [], [], [], cur]"
    using pending_eq [OF ok] b by (simp add: demo_ring_def Let_def ring_list_def)
qed

lemma demo_memory:
  obtains w :: fapi_wls_ctx and x a0
  where "mem_ok a0 (mem w)" "x \<in> mem_blocks a0" "x \<notin> mem_avail (mem w)" "x \<noteq> 0"
proof -
  obtain m where m: "mem_ok (arr m) m" "mem_avail m = mem_blocks (arr m)" "nBlockCount (arr m) = 2"
    using create_mem_array_ok [of 5 32 "0x40" 64 demo_mem] by (auto simp: ALLOC_TRACK_SIZE_def)
  have "mem_avail m \<noteq> {}" using m(2,3) by (simp add: mem_blocks_def blk_count_def lessThan_empty_iff)
  from alloc_takes_head [OF m(1) this] obtain x n where
    n: "mem_ok (arr m) n" "x \<in> mem_avail m" "mem_avail n = mem_avail m - {x}" by blast
  have "x \<noteq> 0" using m(1,2) n(2) mem_ok_arr(2) [OF m(1)] blk_bounds(3) by (auto simp: mem_blocks_def)
  then show ?thesis using that [of "arr m" "(demo_wls 0 0)\<lparr>mem := n\<rparr>" x] n m(2) by simp
qed

lemma demo_can_send:
  assumes "mem_ok a0 (mem w)" "x \<in> mem_blocks a0" "x \<notin> mem_avail (mem w)" "x \<noteq> 0"
  shows "can_send demo_fapi_env demo_b (WLS_VA2PA (demo_client 0 0 0 demo_b)) a0 demo_els False (demo_io w [] [x])"
proof -
  have z: "1 < TOTAL_FREE_BLOCKS" "2 < TOTAL_FREE_BLOCKS" by (simp_all add: TOTAL_FREE_BLOCKS_def FAPI_MAX_PHY_INSTANCES_def)
  have r: "ring_ok 5 (demo_ring [] [x])" "pending (demo_ring [] [x]) = [[x], [], [], [], []]"
    using demo_ring_ok [of "[]" "[x]"] z assms(4) by auto
  have lk: "linked demo_a demo_b (demo_shm 0 0)" using demo_linked0 by (simp add: linked_pair_def)
  have l: "length (list_blocks demo_fapi tr demo_els) = 3" for tr
    by (simp add: list_blocks_def demo_els_def demo_el_def el_blocks_def pdus_blocks_def pdu_blocks_def zbc_list_def demo_fapi_def)
  have "closed_list demo_fapi demo_els"
    by (simp add: closed_list_def demo_els_def demo_el_def well_typed_def zbc_list_def demo_fapi_def pdu_blocks_def Let_def)
  then show ?thesis using assms r z lk l
    by (simp add: can_send_def phy_link_def translates_def fits_def demo_fapi_env_def demo_io_def demo_views demo_check
        ring_size_def ring_of_def TO_FREE_SIZE_def)
      (simp add: demo_els_def demo_el_def demo_fapi_def)
qed

section \<open>Properties\<close>

text \<open>C29: a list of two elements or more that finds room reaches the PHY as one list and in order:
  behind the messages that waited, each element by its physical address, its size and its type,
  followed by its payload blocks; the first block is marked as the first, the last one as the last
  of the list, and nothing stays at the sender.\<close>

theorem phy_list_in_order:
  assumes "can_send e b tr a0 els u s"
  shows "\<exists>s'. nr5g_fapi_fapi2phy_wls_send e els u s = Done (0, s')
    \<and> get_items b (shm s') = get_items b (shm s) @ put_items (h_phy e) (shm s)
        @ stamped (or WLS_SG_FIRST (urllc_bits u)) (urllc_bits u) (list_blocks (api e) tr els)
    \<and> put_items (h_phy e) (shm s') = [] \<and> linked (h_phy e) b (shm s')"
proof -
  have "linked (h_phy e) b (shm s)" using assms by (simp add: can_send_def phy_link_def)
  then show ?thesis using send_list [OF assms] linked_frame by fastforce
qed

theorem phy_list_in_order_witness:
  "\<exists>w x s'. nr5g_fapi_fapi2phy_wls_send demo_fapi_env demo_els False (demo_io w [] [x]) = Done (0, s')
     \<and> map (\<lambda>m. snd (snd m)) (get_items demo_b (shm s')) = [(8, WLS_SG_FIRST), (11, WLS_SG_NEXT), (17, WLS_SG_LAST)]"
proof -
  obtain w x a0 where "mem_ok a0 (mem (w :: fapi_wls_ctx))" "x \<in> mem_blocks a0" "x \<notin> mem_avail (mem w)" "x \<noteq> 0"
    by (rule demo_memory)
  from phy_list_in_order [OF demo_can_send [OF this]] obtain s' where
    s': "nr5g_fapi_fapi2phy_wls_send demo_fapi_env demo_els False (demo_io w [] [x]) = Done (0, s')"
      "get_items demo_b (shm s') = stamped (or WLS_SG_FIRST 0) 0
         (list_blocks demo_fapi (WLS_VA2PA (demo_client 0 0 0 demo_b)) demo_els)"
    by (auto simp: demo_fapi_env_def demo_io_def demo_views urllc_bits_def)
  have "map (\<lambda>m. snd (snd m)) (get_items demo_b (shm s')) = [(8, WLS_SG_FIRST), (11, WLS_SG_NEXT), (17, WLS_SG_LAST)]"
    using s'(2) by (simp add: list_blocks_def demo_els_def demo_el_def el_blocks_def pdus_blocks_def pdu_blocks_def
        zbc_list_def demo_fapi_def)
  with s'(1) show ?thesis by (intro exI conjI)
qed

text \<open>C30: the ring of sent blocks refines a delay line: sending a list gives the blocks of the oldest
  entry back to the pool, no other block, and enters the addresses of the new elements in the entry
  that was being filled, so that the elements of a list are freed with the fourth list after it (the
  ring for URLLC has an entry per symbol of five slots).\<close>

theorem sent_blocks_are_freed_later:
  assumes "can_send e b tr a0 els u s"
  shows "\<exists>s'. nr5g_fapi_fapi2phy_wls_send e els u s = Done (0, s')
    \<and> ring_ok (ring_size e u) (ring_of u s') \<and> mem_ok a0 (mem (wls s'))
    \<and> mem_avail (mem (wls s')) = mem_avail (mem (wls s)) \<union> set (hd (pending (ring_of u s)))
    \<and> pending (ring_of u s') = tl (butlast (pending (ring_of u s))) @ [last (pending (ring_of u s)) @ map el_addr els, []]"
  using send_list [OF assms] by fastforce

theorem sent_blocks_are_freed_later_witness:
  "\<exists>w x s'. x \<notin> mem_avail (mem w) \<and> nr5g_fapi_fapi2phy_wls_send demo_fapi_env demo_els False (demo_io w [] [x]) = Done (0, s')
     \<and> x \<in> mem_avail (mem (wls s')) \<and> pending (send_ring s') = [[], [], [], [0x40000, 0x80000], []]"
proof -
  obtain w x a0 where wx: "mem_ok a0 (mem (w :: fapi_wls_ctx))" "x \<in> mem_blocks a0" "x \<notin> mem_avail (mem w)" "x \<noteq> 0"
    by (rule demo_memory)
  have "1 < TOTAL_FREE_BLOCKS" by (simp add: TOTAL_FREE_BLOCKS_def FAPI_MAX_PHY_INSTANCES_def)
  then have "pending (demo_ring [] [x]) = [[x], [], [], [], []]" using demo_ring_ok(2) [of "[]" "[x]"] wx(4) by simp
  with sent_blocks_are_freed_later [OF demo_can_send [OF wx]] obtain s' where
    s': "nr5g_fapi_fapi2phy_wls_send demo_fapi_env demo_els False (demo_io w [] [x]) = Done (0, s')"
      "mem_avail (mem (wls s')) = insert x (mem_avail (mem w))"
      "pending (send_ring s') = [[], [], [], map el_addr demo_els, []]"
    by (auto simp: demo_io_def ring_of_def)
  have "map el_addr demo_els = [0x40000, 0x80000]" by (simp add: demo_els_def demo_el_def)
  then show ?thesis using s' wx(3) by (metis insertI1)
qed

text \<open>C31: an entry that becomes exactly full is overrun: the terminator is written behind the end of
  the row.  Lists of one element never move the ring on, so 2400 of them in a row get there.\<close>

theorem exactly_full_row_is_overrun:
  assumes "ring_ok n (ring_of u s)" "2 \<le> n" "els \<noteq> []"
    and "length (last (pending (ring_of u s))) + length els = TOTAL_FREE_BLOCKS"
  shows "nr5g_fapi_fapi2phy_wls_send e els u s = Undefined"
proof -
  let ?r = "ring_of u s" and ?i = "unat (ring_idx (ring_of u s))"
  have i: "?i < length (row_list ?r)" "row_ok (row_cnt ?r ! ?i) (row_list ?r ! ?i)"
    using assms(1) by (auto simp: ring_ok_def list_all2_conv_all_nth)
  have c: "unat (row_cnt ?r ! ?i) + length els = TOTAL_FREE_BLOCKS" "length (row_list ?r ! ?i) = TOTAL_FREE_BLOCKS"
    using assms(4) pending_eq [OF assms(1,2)] i(2) by (simp_all add: row_ok_def)
  have "add_apis_to_free (map el_addr els) ?r = None"
    using add_blocks_room [of "unat (row_cnt ?r ! ?i)" "map el_addr els" "row_list ?r ! ?i"] c i(1)
      row_split(1) [OF i(2)] i(2) by (simp add: add_apis_to_free_def finish_row_def Let_def row_ok_def)
  then show ?thesis
    by (simp add: nr5g_fapi_fapi2phy_wls_send_def wls_fapi_add_send_apis_to_free_def
        wls_fapi_add_send_apis_to_free_urllc_def ring_of_def Let_def split: if_splits)
qed

theorem exactly_full_row_is_overrun_witness:
  "nr5g_fapi_fapi2phy_wls_send demo_fapi_env [hd demo_els] False (demo_io (demo_wls 0 0) (replicate 2399 1) []) = Undefined"
  using exactly_full_row_is_overrun [of 5 False "demo_io (demo_wls 0 0) (replicate 2399 1) []" "[hd demo_els]"]
    demo_ring_ok [of "replicate 2399 1" "[]"]
  by (simp add: demo_io_def ring_of_def TOTAL_FREE_BLOCKS_def FAPI_MAX_PHY_INSTANCES_def)

end
