(* ===== verification/Fapi_P7_Rbg.thy ===== *)
theory Fapi_P7_Rbg
  imports Fapi_P7_Types Outcomes
begin

unbundle bit_operations_syntax

text \<open>
  Resource block groups
  (\<open>fapi_5g/source/api/fapi2phy/p7/nr5g_fapi_proc_tti_req_common.c\<close>): the FAPI allocates by a bit
  for each resource block, the PHY by a bit for each group of them.
\<close>

section \<open>The code\<close>

definition nr5g_fapi_calc_n_rbg_size :: "u16 \<Rightarrow> u8" where
  "nr5g_fapi_calc_n_rbg_size bwp_size =
     (if 1 \<le> bwp_size \<and> bwp_size \<le> 36 then 2 else if 37 \<le> bwp_size \<and> bwp_size \<le> 72 then 4
      else if 73 \<le> bwp_size \<and> bwp_size \<le> 144 then 8 else if 145 \<le> bwp_size \<and> bwp_size \<le> 275 then 16 else 0)"

definition nr5g_fapi_rb_bitmap_mask :: "u8 \<Rightarrow> u16" where
  "nr5g_fapi_rb_bitmap_mask rbg_size =
     (if rbg_size = 2 then 0x3 else if rbg_size = 4 then 0xF else if rbg_size = 8 then 0xFF
      else if rbg_size = 16 then 0xFFFF else 0)"

definition nr5g_fapi_get_rb_bits_for_rbg :: "u8 list \<Rightarrow> u32 \<Rightarrow> u8 \<Rightarrow> u16 \<Rightarrow> u16" where
  "nr5g_fapi_get_rb_bits_for_rbg rb_bitmap nth_rbg_bit rbg_size rb_bitmap_mask =
     (let nth_rb_bit = unat (ucast (nth_rbg_bit * ucast rbg_size) :: u16);
          rb_byte_1 = (nth_rb_bit div 16) * 2;
          rb_byte_2 = rb_byte_1 + 1;
          lo = (if rb_byte_1 < FAPI_RB_BITMAP_SIZE then ucast (rb_bitmap ! rb_byte_1) else 0);
          hi = (if rb_byte_2 < FAPI_RB_BITMAP_SIZE then push_bit 8 (ucast (rb_bitmap ! rb_byte_2)) else 0)
      in drop_bit (nth_rb_bit mod 16) (lo OR hi) AND rb_bitmap_mask)"

definition nr5g_fapi_has_rbg_bits_in_rb_bitmap :: "u8 list \<Rightarrow> nat \<Rightarrow> u8 \<Rightarrow> u16 \<Rightarrow> bool" where
  "nr5g_fapi_has_rbg_bits_in_rb_bitmap rb_bitmap rbg_bit rbg_size rb_bitmap_mask \<longleftrightarrow>
     rb_bitmap_mask = nr5g_fapi_get_rb_bits_for_rbg rb_bitmap (of_nat rbg_bit) rbg_size rb_bitmap_mask"

text \<open>The two orders of the bits; a shift by 32 or more is undefined.\<close>

definition get_rbg_index_mask_from_LSB :: "nat \<Rightarrow> u32 outcome" where
  "get_rbg_index_mask_from_LSB n = (if n < 32 then Done (push_bit n 1) else Undefined)"

definition get_rbg_index_mask_from_MSB :: "nat \<Rightarrow> u32 outcome" where
  "get_rbg_index_mask_from_MSB n = (if n < 32 then Done (drop_bit n 0x80000000) else Undefined)"

text \<open>The groups are entered one by one, each with the mask of the blocks it must have.\<close>

fun fill_rbgs :: "(nat \<Rightarrow> u32 outcome) \<Rightarrow> u8 list \<Rightarrow> u8 \<Rightarrow> (nat \<times> u16) list \<Rightarrow> u32 \<Rightarrow> u32 outcome" where
  "fill_rbgs index_mask rb_bitmap rbg_size [] result = Done result"
| "fill_rbgs index_mask rb_bitmap rbg_size ((rbg_bit, rbs) # rest) result =
     (if nr5g_fapi_has_rbg_bits_in_rb_bitmap rb_bitmap rbg_bit rbg_size rbs
      then obind (index_mask rbg_bit) (\<lambda>b. fill_rbgs index_mask rb_bitmap rbg_size rest (result OR b))
      else fill_rbgs index_mask rb_bitmap rbg_size rest result)"

definition FAPI_MAX_RB_BIT_NUM :: nat where "FAPI_MAX_RB_BIT_NUM = 273"

definition nr5g_fapi_calc_rbg_index :: "u8 list \<Rightarrow> u16 \<Rightarrow> u16 \<Rightarrow> (nat \<Rightarrow> u32 outcome) \<Rightarrow> u32 outcome" where
  "nr5g_fapi_calc_rbg_index rb_bitmap bwp_start bwp_size get_rbg_index_mask =
     (let rbg_size = nr5g_fapi_calc_n_rbg_size bwp_size;
          rb_bitmap_mask = nr5g_fapi_rb_bitmap_mask rbg_size;
          n = unat rbg_size
      in if rb_bitmap_mask = 0 then Done 0
         else if FAPI_MAX_RB_BIT_NUM \<le> unat bwp_start then Done 0
         else
           let rbg_bit_begin = unat bwp_start div n;
               rb_bit_end = min FAPI_MAX_RB_BIT_NUM (unat bwp_start + unat bwp_size);
               rbg_bit_last = (rb_bit_end + n - 1) div n - 1;
               mask_first = rb_bitmap_mask AND push_bit (unat bwp_start mod n) rb_bitmap_mask;
               last_rbg_size = (if rb_bit_end mod n = 0 then n else rb_bit_end mod n);
               mask_last = drop_bit (n - last_rbg_size) rb_bitmap_mask;
               both = mask_first AND mask_last;
               (mask_first, mask_last) = (if rbg_bit_begin = rbg_bit_last then (both, both) else (mask_first, mask_last))
           in fill_rbgs get_rbg_index_mask rb_bitmap rbg_size
                ((rbg_bit_begin, mask_first) # (rbg_bit_last, mask_last)
                 # map (\<lambda>k. (k, rb_bitmap_mask)) [rbg_bit_begin + 1..<rbg_bit_last]) 0)"

definition nr5g_fapi_calc_pusch_rbg_index :: "u8 list \<Rightarrow> u16 \<Rightarrow> u16 \<Rightarrow> u32 outcome" where
  "nr5g_fapi_calc_pusch_rbg_index rb_bitmap bwp_start bwp_size =
     nr5g_fapi_calc_rbg_index rb_bitmap bwp_start bwp_size get_rbg_index_mask_from_LSB"

definition nr5g_fapi_calc_pdsch_rbg_index :: "u8 list \<Rightarrow> u16 \<Rightarrow> u16 \<Rightarrow> u32 outcome" where
  "nr5g_fapi_calc_pdsch_rbg_index rb_bitmap bwp_start bwp_size =
     nr5g_fapi_calc_rbg_index rb_bitmap bwp_start bwp_size get_rbg_index_mask_from_MSB"

section \<open>Which groups are set\<close>

text \<open>A resource block is allocated by its bit, counted from the least bit of the first byte.  The
  bandwidth part ends at block 273 at the latest; a group counts with its blocks inside of the part.\<close>

definition rb_allocated :: "u8 list \<Rightarrow> nat \<Rightarrow> bool" where
  "rb_allocated bm rb \<longleftrightarrow> rb div 8 < length bm \<and> bit (bm ! (rb div 8)) (rb mod 8)"

definition bwp_end :: "u16 \<Rightarrow> u16 \<Rightarrow> nat" where
  "bwp_end bwp_start bwp_size = min FAPI_MAX_RB_BIT_NUM (unat bwp_start + unat bwp_size)"

definition rbg_blocks :: "nat \<Rightarrow> nat \<Rightarrow> nat \<Rightarrow> nat \<Rightarrow> nat set" where
  "rbg_blocks n first e k = {rb. first \<le> rb \<and> rb < e \<and> rb div n = k}"

definition rbg_allocated :: "u8 list \<Rightarrow> u16 \<Rightarrow> u16 \<Rightarrow> nat \<Rightarrow> bool" where
  "rbg_allocated bm bwp_start bwp_size k \<longleftrightarrow>
     (let B = rbg_blocks (unat (nr5g_fapi_calc_n_rbg_size bwp_size)) (unat bwp_start) (bwp_end bwp_start bwp_size) k
      in B \<noteq> {} \<and> (\<forall>rb\<in>B. rb_allocated bm rb))"

lemma rb_bits:
  assumes "length bm = 36" "j < 16" "q < 18"
  shows "bit ((ucast (bm ! (q * 2)) :: u16) OR push_bit 8 (ucast (bm ! (q * 2 + 1)))) j \<longleftrightarrow> rb_allocated bm (q * 16 + j)"
proof (cases "j < 8")
  case True
  then have "(q * 16 + j) div 8 = q * 2" "(q * 16 + j) mod 8 = j" by presburger+
  then show ?thesis using assms True by (simp add: rb_allocated_def bit_simps)
next
  case False
  then have "(q * 16 + j) div 8 = q * 2 + 1" "(q * 16 + j) mod 8 = j - 8" using assms(2) by presburger+
  then show ?thesis using assms False by (auto simp: rb_allocated_def bit_simps dest: bit_imp_le_length)
qed

lemma get_rb_bits:
  assumes "length bm = 36" "n = unat s" "n \<in> {2, 4, 8, 16}" "k * n < 288" "i < n"
  shows "bit (nr5g_fapi_get_rb_bits_for_rbg bm (of_nat k) s m) i \<longleftrightarrow> bit m i \<and> rb_allocated bm (k * n + i)"
proof -
  have k: "k < 288" using assms(3,4) by auto
  have "of_nat k * ucast s = (of_nat (k * n) :: u32)" using assms(2) by simp
  then have "unat (of_nat k * ucast s :: u32) = k * n" using assms(4) by (simp only: unat_of_nat take_bit_eq_mod) simp
  then have u: "unat (ucast (of_nat k * ucast s :: u32) :: u16) = k * n"
    using assms(4) by (simp add: unsigned_ucast_eq take_bit_eq_mod)
  have q: "k * n div 16 < 18" using assms(4) by simp
  have j: "k * n mod 16 + i < 16" and e: "k * n div 16 * 16 + (k * n mod 16 + i) = k * n + i"
    using assms(3,5) by (auto, presburger+)
  have b: "k * n div 16 * 2 < 36" "k * n div 16 * 2 + 1 < 36" using q by auto
  show ?thesis
    unfolding nr5g_fapi_get_rb_bits_for_rbg_def Let_def u FAPI_RB_BITMAP_SIZE_def if_P [OF b(1)] if_P [OF b(2)] bit_and_iff bit_drop_bit_eq
      o_def rb_bits [OF assms(1) j q] e by blast
qed

lemma has_rbg_bits:
  assumes "length bm = 36" "n = unat s" "n \<in> {2, 4, 8, 16}" "k * n < 288" "\<And>i. bit m i \<Longrightarrow> i < n"
  shows "nr5g_fapi_has_rbg_bits_in_rb_bitmap bm k s m \<longleftrightarrow> (\<forall>i. bit m i \<longrightarrow> rb_allocated bm (k * n + i))"
proof -
  have b: "bit (nr5g_fapi_get_rb_bits_for_rbg bm (of_nat k) s m) i \<longleftrightarrow> bit m i \<and> rb_allocated bm (k * n + i)" for i
  proof (cases "i < n")
    case True
    then show ?thesis using get_rb_bits [OF assms(1-4)] by blast
  next
    case False
    then have "\<not> bit m i" using assms(5) by blast
    then show ?thesis by (simp add: nr5g_fapi_get_rb_bits_for_rbg_def Let_def bit_simps)
  qed
  have e: "m = w \<longleftrightarrow> (\<forall>i. bit m i \<longleftrightarrow> bit w i)" for w by (auto intro: bit_word_eqI)
  show ?thesis unfolding nr5g_fapi_has_rbg_bits_in_rb_bitmap_def e b by blast
qed

definition mask_of :: "nat \<Rightarrow> u16 \<Rightarrow> nat \<Rightarrow> nat \<Rightarrow> nat \<Rightarrow> bool" where
  "mask_of n m first e k \<longleftrightarrow> (\<forall>i. bit m i \<longleftrightarrow> i < n \<and> first \<le> k * n + i \<and> k * n + i < e)"

lemma mask_blocks:
  assumes "mask_of n m first e k" "0 < n"
  shows "(\<forall>i. bit m i \<longrightarrow> P (k * n + i)) \<longleftrightarrow> (\<forall>rb\<in>rbg_blocks n first e k. P rb)"
proof safe
  fix rb assume *: "\<forall>i. bit m i \<longrightarrow> P (k * n + i)" and rb: "rb \<in> rbg_blocks n first e k"
  have e: "k * n + rb mod n = rb" and r: "first \<le> rb" "rb < e" using rb by (auto simp: rbg_blocks_def)
  have "bit m (rb mod n)" using assms by (auto simp: mask_of_def e r)
  then show "P rb" using * e by metis
next
  fix i assume *: "\<forall>rb\<in>rbg_blocks n first e k. P rb" and i: "bit m i"
  then have "k * n + i \<in> rbg_blocks n first e k" using assms by (auto simp: mask_of_def rbg_blocks_def)
  then show "P (k * n + i)" using * by blast
qed

lemma fill_rbgs_undefined:
  "(\<exists>(k, m)\<in>set xs. nr5g_fapi_has_rbg_bits_in_rb_bitmap bm k s m \<and> im k = Undefined) \<Longrightarrow>
   (\<And>k. im k = Undefined \<or> (\<exists>b. im k = Done b)) \<Longrightarrow> fill_rbgs im bm s xs r = Undefined"
proof (induction im bm s xs r rule: fill_rbgs.induct)
  case (2 im bm s k m rest r)
  show ?case using "2.prems"(2) [of k] "2.IH" "2.prems"(1) "2.prems"(2) by (elim disjE exE) auto
qed simp

lemma fill_rbgs_bits:
  assumes "\<And>k m. (k, m) \<in> set xs \<Longrightarrow> nr5g_fapi_has_rbg_bits_in_rb_bitmap bm k s m \<Longrightarrow> im k = Done (b k)"
  shows "\<exists>w. fill_rbgs im bm s xs r = Done w \<and>
    (\<forall>j. bit w j \<longleftrightarrow> bit r j \<or> (\<exists>(k, m)\<in>set xs. nr5g_fapi_has_rbg_bits_in_rb_bitmap bm k s m \<and> bit (b k) j))"
  using assms
proof (induction im bm s xs r rule: fill_rbgs.induct)
  case (2 im bm s k m rest r)
  show ?case
  proof (cases "nr5g_fapi_has_rbg_bits_in_rb_bitmap bm k s m")
    case True
    then have k: "im k = Done (b k)" using "2.prems" [of k m] by simp
    have i: "im ka = Done (b ka)" if "(ka, ma) \<in> set rest" "nr5g_fapi_has_rbg_bits_in_rb_bitmap bm ka s ma" for ka ma
      using "2.prems" [of ka ma] that by simp
    have "\<exists>w. fill_rbgs im bm s rest (r OR b k) = Done w \<and> (\<forall>j. bit w j \<longleftrightarrow> bit (r OR b k) j \<or>
        (\<exists>(k, m)\<in>set rest. nr5g_fapi_has_rbg_bits_in_rb_bitmap bm k s m \<and> bit (b k) j))"
      by (rule "2.IH"(1) [OF True]) (erule (1) i)
    then show ?thesis using True k by (auto simp: bit_or_iff)
  next
    case False
    then show ?thesis using "2.IH"(2) "2.prems" by auto
  qed
qed simp


lemma rbg_sizes:
  assumes "1 \<le> bwp_size" "bwp_size \<le> 275"
  defines "s \<equiv> nr5g_fapi_calc_n_rbg_size bwp_size"
  shows "unat s \<in> {2, 4, 8, 16}" "\<And>i. bit (nr5g_fapi_rb_bitmap_mask s) i \<longleftrightarrow> i < unat s" "nr5g_fapi_rb_bitmap_mask s \<noteq> 0"
proof -
  have s: "s \<in> {2, 4, 8, 16}" using assms(1,2) unfolding s_def nr5g_fapi_calc_n_rbg_size_def
    by (simp add: word_le_nat_alt)
  then show "unat s \<in> {2, 4, 8, 16}" "nr5g_fapi_rb_bitmap_mask s \<noteq> 0" by (auto simp: nr5g_fapi_rb_bitmap_mask_def)
  have m: "nr5g_fapi_rb_bitmap_mask s = mask (unat s)" using s by (auto simp: nr5g_fapi_rb_bitmap_mask_def mask_eq_exp_minus_1)
  show "\<And>i. bit (nr5g_fapi_rb_bitmap_mask s) i \<longleftrightarrow> i < unat s"
    unfolding m using s by (auto simp: bit_mask_iff)
qed

text \<open>The groups that are entered, with the blocks they must have.\<close>

definition good_entries :: "nat \<Rightarrow> nat \<Rightarrow> nat \<Rightarrow> (nat \<times> u16) list \<Rightarrow> bool" where
  "good_entries n first e xs \<longleftrightarrow> (\<forall>(k, m)\<in>set xs. mask_of n m first e k) \<and>
     (\<forall>k. (\<exists>m. (k, m) \<in> set xs) \<longleftrightarrow> rbg_blocks n first e k \<noteq> {})"

lemma blocks_nonempty:
  assumes "0 < (n :: nat)" "first < e"
  shows "rbg_blocks n first e k \<noteq> {} \<longleftrightarrow> first div n \<le> k \<and> k * n < e"
proof
  assume "rbg_blocks n first e k \<noteq> {}"
  then obtain rb where "first \<le> rb" "rb < e" "rb div n = k" by (auto simp: rbg_blocks_def)
  then show "first div n \<le> k \<and> k * n < e" using div_le_mono [of first rb n] div_times_less_eq_dividend [of rb n] by auto
next
  assume k: "first div n \<le> k \<and> k * n < e"
  show "rbg_blocks n first e k \<noteq> {}"
  proof (cases "first div n = k")
    case True
    then have "first \<in> rbg_blocks n first e k" using assms by (simp add: rbg_blocks_def)
    then show ?thesis by blast
  next
    case False
    then have "first div n < k" using k by simp
    then have "first < k * n" using assms(1) by (simp add: div_less_iff_less_mult)
    then have "k * n \<in> rbg_blocks n first e k" using k assms by (simp add: rbg_blocks_def)
    then show ?thesis by blast
  qed
qed

lemma last_group:
  assumes "0 < (n :: nat)" "0 < e"
  defines "l \<equiv> (e + n - 1) div n - 1"
  shows "k * n < e \<longleftrightarrow> k \<le> l" "e \<le> l * n + n" "e - l * n = (if e mod n = 0 then n else e mod n)"
proof -
  obtain q r where e: "e - 1 = q * n + r" "r < n" using assms(1) by (metis mod_less_divisor div_mult_mod_eq)
  have el: "e = q * n + r + 1" using e(1) assms(2) by simp
  have "e + n - 1 = (q + 1) * n + r" using el by simp
  then have "(e + n - 1) div n = q + 1" using e(2) by (metis div_mult_self3 div_less add.commute add_0 less_not_refl2 assms(1))
  then have l: "l = q" by (simp add: l_def)
  show "e \<le> l * n + n" using el e(2) l by simp
  show "k * n < e \<longleftrightarrow> k \<le> l"
  proof
    assume "k * n < e"
    then have "k * n \<le> q * n + r" using el by simp
    then have "k < q + 1" using e(2) assms(1) by (metis add_less_cancel_left le_less_trans mult_less_cancel2 distrib_right mult_1)
    then show "k \<le> l" using l by simp
  next
    assume "k \<le> l"
    then have "k * n \<le> q * n" using l mult_le_mono1 by blast
    then show "k * n < e" using el by linarith
  qed
  show "e - l * n = (if e mod n = 0 then n else e mod n)"
  proof (cases "r + 1 = n")
    case True
    then have "e = (q + 1) * n" using el by simp
    then show ?thesis using True el l by simp
  next
    case False
    then have "r + 1 < n" using e(2) by simp
    then have "e mod n = r + 1" using el by (metis add.assoc mod_less mod_mult_self3)
    then show ?thesis using el l by simp
  qed
qed

lemma entries_good:
  assumes "unat s = n" "n \<in> {2, 4, 8, 16}" "\<And>i. bit (M :: u16) i \<longleftrightarrow> i < n" "first < e" "l = (e + n - 1) div n - 1"
    "m1 = M AND push_bit (first mod n) M" "m2 = drop_bit (n - (if e mod n = 0 then n else e mod n)) M"
    "(m1', m2') = (if first div n = l then (m1 AND m2, m1 AND m2) else (m1, m2))"
  shows "good_entries n first e ((first div n, m1') # (l, m2') # map (\<lambda>k. (k, M)) [first div n + 1..<l])"
proof -
  have n: "0 < n" "n \<le> 16" using assms(2) by auto
  note lg = last_group [OF n(1), of e, folded assms(5)]
  have e: "0 < e" using assms(4) by simp
  let ?f = "first div n"
  have fl: "?f \<le> l" using lg(1) [OF e, of ?f] assms(4) by (meson div_times_less_eq_dividend le_less_trans)
  have ll: "l * n < e" using lg(1) [OF e] by blast
  have f: "?f * n + first mod n = first" by simp
  have f1: "first \<le> ?f * n + i \<longleftrightarrow> first mod n \<le> i" for i using f by linarith
  have b1: "bit m1 i \<longleftrightarrow> i < n \<and> first \<le> ?f * n + i" for i
    unfolding assms(6) f1 using n by (auto simp: bit_and_iff bit_push_bit_iff assms(3))
  have b2: "bit m2 i \<longleftrightarrow> i < n \<and> l * n + i < e" for i
    unfolding assms(7) lg(3) [OF e, symmetric] using n ll lg(2) [OF e] by (auto simp: bit_simps assms(3))
  have inner: "i < n \<Longrightarrow> k < l \<Longrightarrow> k * n + i < e" for i k
  proof -
    assume i: "i < n" "k < l"
    then have "(k + 1) * n \<le> l * n" by (intro mult_le_mono1) simp
    then show ?thesis using i ll by simp
  qed
  have outer: "?f < k \<Longrightarrow> first \<le> k * n + i" for i k
    using n(1) by (metis div_less_iff_less_mult less_imp_le_nat trans_le_add1)
  have g1: "mask_of n m1' first e ?f" using assms(8) b1 b2 inner [of _ ?f] fl unfolding mask_of_def
    by (cases "?f = l") (auto simp: bit_and_iff)
  have g2: "mask_of n m2' first e l" using assms(8) b1 b2 outer [of l] fl unfolding mask_of_def
    by (cases "?f = l") (auto simp: bit_and_iff)
  have g3: "mask_of n M first e k" if "k \<in> {?f + 1..<l}" for k
    using that inner [of _ k] outer [of k] assms(3) by (auto simp: mask_of_def)
  have "(\<exists>m. (k, m) \<in> set ((?f, m1') # (l, m2') # map (\<lambda>k. (k, M)) [?f + 1..<l])) \<longleftrightarrow> ?f \<le> k \<and> k \<le> l" for k
    using fl by (cases "k = ?f \<or> k = l") (auto simp: image_iff Suc_le_eq)
  then show ?thesis unfolding good_entries_def blocks_nonempty [OF n(1) assms(4)] lg(1) [OF e] using g1 g2 g3 by auto
qed

text \<open>The mask of a bandwidth part that the code refuses has no groups.\<close>

lemma calc_rbg_index_entries:
  assumes "length bm = 36" "bwp_size \<le> 275"
  obtains xs where "nr5g_fapi_calc_rbg_index bm bwp_start bwp_size im = fill_rbgs im bm (nr5g_fapi_calc_n_rbg_size bwp_size) xs 0"
    "\<And>k. rbg_allocated bm bwp_start bwp_size k \<longleftrightarrow>
       (\<exists>m. (k, m) \<in> set xs \<and> nr5g_fapi_has_rbg_bits_in_rb_bitmap bm k (nr5g_fapi_calc_n_rbg_size bwp_size) m)"
    "\<And>k m m'. (k, m) \<in> set xs \<Longrightarrow> (k, m') \<in> set xs \<Longrightarrow>
       nr5g_fapi_has_rbg_bits_in_rb_bitmap bm k (nr5g_fapi_calc_n_rbg_size bwp_size) m =
       nr5g_fapi_has_rbg_bits_in_rb_bitmap bm k (nr5g_fapi_calc_n_rbg_size bwp_size) m'"
proof -
  let ?s = "nr5g_fapi_calc_n_rbg_size bwp_size"
  let ?M = "nr5g_fapi_rb_bitmap_mask ?s"
  let ?n = "unat ?s"
  let ?e = "bwp_end bwp_start bwp_size"
  show thesis
  proof (cases "bwp_size = 0 \<or> 273 \<le> unat bwp_start")
    case True
    then have "?M = 0 \<or> 273 \<le> unat bwp_start"
      by (elim disjE) (simp_all add: nr5g_fapi_calc_n_rbg_size_def nr5g_fapi_rb_bitmap_mask_def)
    then have c: "nr5g_fapi_calc_rbg_index bm bwp_start bwp_size im = Done 0"
      by (elim disjE) (simp_all only: nr5g_fapi_calc_rbg_index_def Let_def FAPI_MAX_RB_BIT_NUM_def if_True if_cancel simp_thms)
    have "\<not> rbg_allocated bm bwp_start bwp_size k" for k
      using True by (auto simp: rbg_allocated_def rbg_blocks_def bwp_end_def FAPI_MAX_RB_BIT_NUM_def Let_def)
    then show ?thesis using c by (intro that [of "[]"]) auto
  next
    case False
    then have sz: "1 \<le> bwp_size" "bwp_size \<le> 275" and st: "unat bwp_start < 273" using assms(2)
      by (auto simp: word_le_nat_alt unat_gt_0 Suc_le_eq)
    have st': "(FAPI_MAX_RB_BIT_NUM \<le> unat bwp_start) = False" using st by (simp add: FAPI_MAX_RB_BIT_NUM_def)
    note s = rbg_sizes [OF sz]
    have e: "unat bwp_start < ?e" "?e \<le> 273" using st sz(1) by (auto simp: bwp_end_def FAPI_MAX_RB_BIT_NUM_def word_le_nat_alt)
    define l where "l = (?e + ?n - 1) div ?n - 1"
    define m1 where "m1 = ?M AND push_bit (unat bwp_start mod ?n) ?M"
    define m2 where "m2 = drop_bit (?n - (if ?e mod ?n = 0 then ?n else ?e mod ?n)) ?M"
    obtain m1' m2' where m': "(m1', m2') = (if unat bwp_start div ?n = l then (m1 AND m2, m1 AND m2) else (m1, m2))"
      by (metis surj_pair)
    let ?xs = "(unat bwp_start div ?n, m1') # (l, m2') # map (\<lambda>k. (k, ?M)) [unat bwp_start div ?n + 1..<l]"
    define xs where "xs = ?xs"
    have g: "good_entries ?n (unat bwp_start) ?e xs"
      unfolding xs_def by (rule entries_good [OF refl s(1,2) e(1) l_def m1_def m2_def m'])
    have c: "nr5g_fapi_calc_rbg_index bm bwp_start bwp_size im = fill_rbgs im bm ?s xs 0"
      by (simp only: xs_def nr5g_fapi_calc_rbg_index_def Let_def bwp_end_def [symmetric] l_def [symmetric] m1_def [symmetric]
          m2_def [symmetric] s(3) st' if_False m' [symmetric] prod.case)
    have n: "0 < ?n" using s(1) by auto
    have h: "nr5g_fapi_has_rbg_bits_in_rb_bitmap bm k ?s m \<longleftrightarrow> (\<forall>rb\<in>rbg_blocks ?n (unat bwp_start) ?e k. rb_allocated bm rb)"
      and ne: "rbg_blocks ?n (unat bwp_start) ?e k \<noteq> {}" if "(k, m) \<in> set xs" for k m
    proof -
      have mo: "mask_of ?n m (unat bwp_start) ?e k" using g that unfolding good_entries_def by blast
      show ne: "rbg_blocks ?n (unat bwp_start) ?e k \<noteq> {}" using g that unfolding good_entries_def by blast
      have "k * ?n < ?e" using ne blocks_nonempty [OF n e(1), of k] by (rule rev_iffD1 [THEN conjunct2])
      then have "k * ?n < 288" using e(2) by linarith
      then show "nr5g_fapi_has_rbg_bits_in_rb_bitmap bm k ?s m \<longleftrightarrow> (\<forall>rb\<in>rbg_blocks ?n (unat bwp_start) ?e k. rb_allocated bm rb)"
        unfolding mask_blocks [OF mo n, symmetric]
        by (rule has_rbg_bits [OF assms(1) refl s(1)]) (use mo in \<open>simp_all add: mask_of_def\<close>)
    qed
    have a: "rbg_allocated bm bwp_start bwp_size k \<longleftrightarrow>
        (\<exists>m. (k, m) \<in> set xs) \<and> (\<forall>rb\<in>rbg_blocks ?n (unat bwp_start) ?e k. rb_allocated bm rb)" for k
      using g unfolding good_entries_def rbg_allocated_def Let_def by blast
    show ?thesis by (rule that [of xs, OF c]) (auto simp: a h)
  qed
qed

lemma index_masks:
  "k < 32 \<Longrightarrow> get_rbg_index_mask_from_LSB k = Done (push_bit k 1)"
  "k < 32 \<Longrightarrow> get_rbg_index_mask_from_MSB k = Done (drop_bit k 0x80000000)"
  "\<not> k < 32 \<Longrightarrow> get_rbg_index_mask_from_LSB k = Undefined"
  "\<not> k < 32 \<Longrightarrow> get_rbg_index_mask_from_MSB k = Undefined"
  by (simp_all add: get_rbg_index_mask_from_LSB_def get_rbg_index_mask_from_MSB_def)

lemma msb_bit: "bit (0x80000000 :: u32) j \<longleftrightarrow> j = 31"
proof -
  have "(0x80000000 :: u32) = push_bit 31 1" by simp
  then show ?thesis by (simp only: bit_push_bit_iff bit_1_iff) (auto simp: bit_simps)
qed

lemma rbg_index_undefined:
  assumes "length bm = 36" "bwp_size \<le> 275" "rbg_allocated bm bwp_start bwp_size k" "32 \<le> k"
  shows "nr5g_fapi_calc_pusch_rbg_index bm bwp_start bwp_size = Undefined"
    "nr5g_fapi_calc_pdsch_rbg_index bm bwp_start bwp_size = Undefined"
proof -
  have u: "nr5g_fapi_calc_rbg_index bm bwp_start bwp_size im = Undefined"
    if im: "im k = Undefined" "\<And>k. im k = Undefined \<or> (\<exists>b. im k = Done b)" for im
  proof -
    obtain xs where xs: "nr5g_fapi_calc_rbg_index bm bwp_start bwp_size im = fill_rbgs im bm (nr5g_fapi_calc_n_rbg_size bwp_size) xs 0"
      "\<And>k. rbg_allocated bm bwp_start bwp_size k \<longleftrightarrow>
       (\<exists>m. (k, m) \<in> set xs \<and> nr5g_fapi_has_rbg_bits_in_rb_bitmap bm k (nr5g_fapi_calc_n_rbg_size bwp_size) m)"
      using calc_rbg_index_entries [OF assms(1,2)] by metis
    show ?thesis unfolding xs(1) using xs(2) [of k] assms(3) im by (intro fill_rbgs_undefined) auto
  qed
  show "nr5g_fapi_calc_pusch_rbg_index bm bwp_start bwp_size = Undefined"
    unfolding nr5g_fapi_calc_pusch_rbg_index_def
    by (rule u) (use assms(4) in \<open>auto simp: get_rbg_index_mask_from_LSB_def\<close>)
  show "nr5g_fapi_calc_pdsch_rbg_index bm bwp_start bwp_size = Undefined"
    unfolding nr5g_fapi_calc_pdsch_rbg_index_def
    by (rule u) (use assms(4) in \<open>auto simp: get_rbg_index_mask_from_MSB_def\<close>)
qed

lemma rbg_index_bits:
  assumes "length bm = 36" "bwp_size \<le> 275" "\<And>k. rbg_allocated bm bwp_start bwp_size k \<Longrightarrow> im k = Done (b k)"
  obtains w where "nr5g_fapi_calc_rbg_index bm bwp_start bwp_size im = Done w"
    "\<And>j. bit w j \<longleftrightarrow> (\<exists>k. rbg_allocated bm bwp_start bwp_size k \<and> bit (b k) j)"
proof -
  obtain xs where xs: "nr5g_fapi_calc_rbg_index bm bwp_start bwp_size im = fill_rbgs im bm (nr5g_fapi_calc_n_rbg_size bwp_size) xs 0"
    "\<And>k. rbg_allocated bm bwp_start bwp_size k \<longleftrightarrow>
     (\<exists>m. (k, m) \<in> set xs \<and> nr5g_fapi_has_rbg_bits_in_rb_bitmap bm k (nr5g_fapi_calc_n_rbg_size bwp_size) m)"
    using calc_rbg_index_entries [OF assms(1,2)] by metis
  have "im k = Done (b k)" if "(k, m) \<in> set xs" "nr5g_fapi_has_rbg_bits_in_rb_bitmap bm k (nr5g_fapi_calc_n_rbg_size bwp_size) m" for k m
    using that xs(2) assms(3) by blast
  then have "\<exists>w. fill_rbgs im bm (nr5g_fapi_calc_n_rbg_size bwp_size) xs 0 = Done w \<and> (\<forall>j. bit w j \<longleftrightarrow> bit (0 :: u32) j \<or>
      (\<exists>(k, m)\<in>set xs. nr5g_fapi_has_rbg_bits_in_rb_bitmap bm k (nr5g_fapi_calc_n_rbg_size bwp_size) m \<and> bit (b k) j))"
    by (intro fill_rbgs_bits) blast
  then obtain w where
    "fill_rbgs im bm (nr5g_fapi_calc_n_rbg_size bwp_size) xs 0 = Done w"
    "\<And>j. bit w j \<longleftrightarrow> (\<exists>(k, m)\<in>set xs. nr5g_fapi_has_rbg_bits_in_rb_bitmap bm k (nr5g_fapi_calc_n_rbg_size bwp_size) m \<and> bit (b k) j)"
    by auto
  then show ?thesis using xs(2) by (intro that [of w]) (auto simp: xs(1))
qed

text \<open>C15: the index of the resource block groups that the PHY gets is the one the standard defines: for a
  bandwidth part of at most 275 blocks, group \<open>k\<close> is set exactly if it has blocks in the part and all of them are
  allocated, as bit \<open>k\<close> for PUSCH and as bit \<open>31 - k\<close> for PDSCH.  This needs that no group from the
  33rd on is allocated; otherwise both computations shift by 32 or more, which is undefined.\<close>

theorem rbg_index_is_reference:
  assumes "length rb_bitmap = FAPI_RB_BITMAP_SIZE" "bwp_size \<le> 275"
  shows "if \<exists>k\<ge>32. rbg_allocated rb_bitmap bwp_start bwp_size k
    then nr5g_fapi_calc_pusch_rbg_index rb_bitmap bwp_start bwp_size = Undefined \<and>
         nr5g_fapi_calc_pdsch_rbg_index rb_bitmap bwp_start bwp_size = Undefined
    else \<exists>u d. nr5g_fapi_calc_pusch_rbg_index rb_bitmap bwp_start bwp_size = Done u \<and>
           nr5g_fapi_calc_pdsch_rbg_index rb_bitmap bwp_start bwp_size = Done d \<and>
           (\<forall>k<32. (bit u k \<longleftrightarrow> rbg_allocated rb_bitmap bwp_start bwp_size k) \<and>
                   (bit d (31 - k) \<longleftrightarrow> rbg_allocated rb_bitmap bwp_start bwp_size k))"
proof (cases "\<exists>k\<ge>32. rbg_allocated rb_bitmap bwp_start bwp_size k")
  case True
  then show ?thesis using rbg_index_undefined [OF assms(1) [unfolded FAPI_RB_BITMAP_SIZE_def] assms(2)] by auto
next
  case False
  then have k: "k < 32" if "rbg_allocated rb_bitmap bwp_start bwp_size k" for k using that not_less by blast
  note bits = rbg_index_bits [OF assms(1) [unfolded FAPI_RB_BITMAP_SIZE_def] assms(2)]
  obtain u where u: "nr5g_fapi_calc_pusch_rbg_index rb_bitmap bwp_start bwp_size = Done u"
    "\<And>j. bit u j \<longleftrightarrow> (\<exists>k. rbg_allocated rb_bitmap bwp_start bwp_size k \<and> bit (push_bit k 1 :: u32) j)"
    using bits [of bwp_start get_rbg_index_mask_from_LSB "\<lambda>k. push_bit k 1"] index_masks(1) k
    unfolding nr5g_fapi_calc_pusch_rbg_index_def by blast
  obtain d where d: "nr5g_fapi_calc_pdsch_rbg_index rb_bitmap bwp_start bwp_size = Done d"
    "\<And>j. bit d j \<longleftrightarrow> (\<exists>k. rbg_allocated rb_bitmap bwp_start bwp_size k \<and> bit (drop_bit k 0x80000000 :: u32) j)"
    using bits [of bwp_start get_rbg_index_mask_from_MSB "\<lambda>k. drop_bit k 0x80000000"] index_masks(2) k
    unfolding nr5g_fapi_calc_pdsch_rbg_index_def by blast
  have "bit u j \<longleftrightarrow> rbg_allocated rb_bitmap bwp_start bwp_size j" if "j < 32" for j
  proof -
    have "bit (push_bit k 1 :: u32) j \<longleftrightarrow> k = j" for k
      using that by (simp only: bit_push_bit_iff bit_1_iff) auto
    then show ?thesis unfolding u(2) by simp
  qed
  moreover have "bit d (31 - j) \<longleftrightarrow> rbg_allocated rb_bitmap bwp_start bwp_size j" if "j < 32" for j
  proof -
    have "k + (31 - j) = 31 \<longleftrightarrow> k = j" for k using that by auto
    then show ?thesis unfolding d(2) bit_drop_bit_eq o_def msb_bit by simp
  qed
  ultimately show ?thesis using u(1) d(1) False by auto
qed

definition demo_bitmap :: "u8 list" where
  "demo_bitmap = [0, 0xF0, 0x0F] @ replicate 33 0"

theorem rbg_index_is_reference_witness:
  "length demo_bitmap = FAPI_RB_BITMAP_SIZE \<and>
   (if \<exists>k\<ge>32. rbg_allocated demo_bitmap 10 20 k
    then nr5g_fapi_calc_pusch_rbg_index demo_bitmap 10 20 = Undefined \<and> nr5g_fapi_calc_pdsch_rbg_index demo_bitmap 10 20 = Undefined
    else \<exists>u d. nr5g_fapi_calc_pusch_rbg_index demo_bitmap 10 20 = Done u \<and> nr5g_fapi_calc_pdsch_rbg_index demo_bitmap 10 20 = Done d \<and>
           (\<forall>k<32. (bit u k \<longleftrightarrow> rbg_allocated demo_bitmap 10 20 k) \<and> (bit d (31 - k) \<longleftrightarrow> rbg_allocated demo_bitmap 10 20 k)))"
proof -
  have l: "length demo_bitmap = FAPI_RB_BITMAP_SIZE" by (simp add: demo_bitmap_def FAPI_RB_BITMAP_SIZE_def)
  show ?thesis using l rbg_index_is_reference [OF l, of 20 10] by simp
qed
end
