(* ===== verification/Fapi_P7_Struct.thy ===== *)
theory Fapi_P7_Struct
  imports Fapi_P7_Types Outcomes
begin

text \<open>
  Assignments to the structures of the PHY, and the parameter \<open>p7_api\<close> for its header: the layouts
  of the structures, the lengths of arrays, and constants.

  PDUs stand one after the other behind the structure of their request, at the distance of their
  size, which is the value that their header holds; a structure that the code reads from its first
  PDU on (\<open>sULPDU\<close>, \<open>sDLPDU\<close>, \<open>sULDCIPDU\<close>) has no other members behind these.  \<open>ul_room\<close> and the like is
  what is left for them in a block: a PDU behind the end of its block is undefined.  Copies between
  two blocks never overlap.

  The C standard leaves it undefined what an unsigned byte gets from a floating-point number that it
  cannot hold; \<open>double_to_u8\<close> is what the compiler makes of it, for numbers without a fraction.
\<close>

record p7_api =
  ulsch_l :: layout
  ulcch_l :: layout
  srs_l :: layout
  ulcfg_l :: layout
  ulgrp_l :: layout
  dlsch_l :: layout
  dci_l :: layout
  bch_l :: layout
  csirs_l :: layout
  dlcfg_l :: layout
  dlgrp_l :: layout
  RUP32B :: "nat \<Rightarrow> nat"
  max_pusch_groups :: nat
  max_pdsch_groups :: nat
  MAX_DL_PER_UE_DMRS_PORT_NUM :: nat
  MAX_DL_PER_UE_PTRS_PORT_NUM :: nat
  MAX_DCI_BIT_BYTE_LEN :: nat
  MAX_TXRU_NUM :: nat
  SINR_STEP_SIZE :: int
  double_to_u8 :: "int \<Rightarrow> u8"
  ul_room :: nat
  dl_room :: nat
  dci_room :: nat

definition put_field :: "layout \<Rightarrow> string \<Rightarrow> int \<Rightarrow> struct \<Rightarrow> struct" where
  "put_field L f v s = s(f := (s f)(0 := lconv L f v))"

definition put_double :: "layout \<Rightarrow> string \<Rightarrow> int \<Rightarrow> struct \<Rightarrow> struct" where
  "put_double L f v s = s(f := (s f)(0 := lconv_double L f v))"

definition put_elem :: "layout \<Rightarrow> string \<Rightarrow> nat \<Rightarrow> int \<Rightarrow> struct \<Rightarrow> struct outcome" where
  "put_elem L f i v s = (if i < lext L f then Done (s(f := (s f)(i := lconv L f v))) else Undefined)"

fun put_fields :: "layout \<Rightarrow> (string \<times> int) list \<Rightarrow> struct \<Rightarrow> struct" where
  "put_fields L [] s = s"
| "put_fields L ((f, v) # fs) s = put_fields L fs (put_field L f v s)"

fun put_elems :: "layout \<Rightarrow> (string \<times> nat \<times> int) list \<Rightarrow> struct \<Rightarrow> struct outcome" where
  "put_elems L [] s = Done s"
| "put_elems L ((f, i, v) # fs) s = obind (put_elem L f i v s) (put_elems L fs)"

text \<open>The bounded copy does nothing when the source is larger than the destination.\<close>

definition copy_bytes :: "layout \<Rightarrow> string \<Rightarrow> u8 list \<Rightarrow> struct \<Rightarrow> struct" where
  "copy_bytes L f bs s = (if length bs \<le> lbytes L f then s(f := lcopy L f bs (s f)) else s)"

definition field_u8 :: "struct \<Rightarrow> string \<Rightarrow> u8" where "field_u8 s f = word_of_int (s f 0)"
definition field_u16 :: "struct \<Rightarrow> string \<Rightarrow> u16" where "field_u16 s f = word_of_int (s f 0)"

text \<open>Reading after assignments.\<close>

lemma put_field_other [simp]: "f \<noteq> g \<Longrightarrow> put_field L f v s g = s g"
  by (simp add: put_field_def)

lemma put_field_same [simp]: "put_field L f v s f 0 = lconv L f v"
  by (simp add: put_field_def)

lemma put_double_other [simp]: "f \<noteq> g \<Longrightarrow> put_double L f v s g = s g"
  by (simp add: put_double_def)

lemma put_double_same [simp]: "put_double L f v s f 0 = lconv_double L f v"
  by (simp add: put_double_def)

lemma copy_bytes_other [simp]: "f \<noteq> g \<Longrightarrow> copy_bytes L f bs s g = s g"
  by (simp add: copy_bytes_def)

lemma put_elem_other: "put_elem L f i v s = Done s' \<Longrightarrow> f \<noteq> g \<Longrightarrow> s' g = s g"
  by (auto simp: put_elem_def split: if_splits)

lemma put_fields_append: "put_fields L (xs @ ys) s = put_fields L ys (put_fields L xs s)"
  by (induction L xs s rule: put_fields.induct) auto

lemma put_fields_read: "put_fields L fs s f 0 = (case map_of (rev fs) f of None \<Rightarrow> s f 0 | Some v \<Rightarrow> lconv L f v)"
  by (induction L fs s rule: put_fields.induct)
    (auto simp: map_add_def split: option.splits)

end
