(* ===== verification/Fapi_Instance.thy ===== *)
theory Fapi_Instance
  imports Fapi_Send
begin

text \<open>
  The state of the FAPI layer (\<open>fapi_5g/source/include/nr5g_fapi_framework.h\<close>): the PHY instances
  with their state, configuration, counters and uplink slot records, and the queues in which
  messages for the MAC and for the PHY wait
  (\<open>api/fapi2mac/nr5g_fapi_fapi2mac_api.c\<close>, \<open>api/fapi2phy/nr5g_fapi_fapi2phy_api.c\<close>), with the
  blocks for the MAC (\<open>framework/wls/fapi2mac/nr5g_fapi_fapi2mac_wls.c\<close>).

  \<open>DEBUG_MODE\<close> is not defined, as in the default build.  An access outside of an array is
  \<open>Undefined\<close>.  The second set of functions of the shared-memory library that the MAC side calls
  (\<open>WLS_Put1\<close> and others) is not in the repository; \<open>wls_put1\<close> is its parameter.
\<close>

section \<open>Messages of the MAC\<close>

definition FAPI_PARAM_REQUEST :: u16 where "FAPI_PARAM_REQUEST = 0x00"
definition FAPI_PARAM_RESPONSE :: u16 where "FAPI_PARAM_RESPONSE = 0x01"
definition FAPI_CONFIG_REQUEST :: u16 where "FAPI_CONFIG_REQUEST = 0x02"
definition FAPI_CONFIG_RESPONSE :: u16 where "FAPI_CONFIG_RESPONSE = 0x03"
definition FAPI_START_REQUEST :: u16 where "FAPI_START_REQUEST = 0x04"
definition FAPI_STOP_REQUEST :: u16 where "FAPI_STOP_REQUEST = 0x05"
definition FAPI_STOP_INDICATION :: u16 where "FAPI_STOP_INDICATION = 0x06"
definition FAPI_ERROR_INDICATION :: u16 where "FAPI_ERROR_INDICATION = 0x07"
definition FAPI_DL_TTI_REQUEST :: u16 where "FAPI_DL_TTI_REQUEST = 0x80"
definition FAPI_UL_TTI_REQUEST :: u16 where "FAPI_UL_TTI_REQUEST = 0x81"
definition FAPI_SLOT_INDICATION :: u16 where "FAPI_SLOT_INDICATION = 0x82"
definition FAPI_RX_DATA_INDICATION :: u16 where "FAPI_RX_DATA_INDICATION = 0x85"
definition FAPI_CRC_INDICATION :: u16 where "FAPI_CRC_INDICATION = 0x86"
definition FAPI_UCI_INDICATION :: u16 where "FAPI_UCI_INDICATION = 0x87"
definition FAPI_SRS_INDICATION :: u16 where "FAPI_SRS_INDICATION = 0x88"
definition FAPI_RACH_INDICATION :: u16 where "FAPI_RACH_INDICATION = 0x89"
definition FAPI_UL_DCI_REQUEST :: u16 where "FAPI_UL_DCI_REQUEST = 0x83"
definition FAPI_TX_DATA_REQUEST :: u16 where "FAPI_TX_DATA_REQUEST = 0x84"
definition FAPI_VENDOR_MESSAGE :: u16 where "FAPI_VENDOR_MESSAGE = 0x10"
definition FAPI_VENDOR_EXT_SHUTDOWN_REQUEST :: u16 where "FAPI_VENDOR_EXT_SHUTDOWN_REQUEST = 0x11"
definition FAPI_VENDOR_EXT_P7_IND :: u16 where "FAPI_VENDOR_EXT_P7_IND = 0x17"
definition FAPI_VENDOR_MSG_HEADER_IND :: u16 where "FAPI_VENDOR_MSG_HEADER_IND = 0x1A"
definition FAPI_VENDOR_MSG_PHY_ZBC_BLOCK_REQ :: u16 where "FAPI_VENDOR_MSG_PHY_ZBC_BLOCK_REQ = 0x1B"

lemmas fapi_ids = FAPI_PARAM_REQUEST_def FAPI_PARAM_RESPONSE_def FAPI_CONFIG_REQUEST_def FAPI_CONFIG_RESPONSE_def
  FAPI_START_REQUEST_def FAPI_STOP_REQUEST_def FAPI_STOP_INDICATION_def FAPI_ERROR_INDICATION_def
  FAPI_DL_TTI_REQUEST_def FAPI_UL_TTI_REQUEST_def FAPI_SLOT_INDICATION_def FAPI_UL_DCI_REQUEST_def
  FAPI_TX_DATA_REQUEST_def FAPI_VENDOR_MESSAGE_def FAPI_VENDOR_EXT_SHUTDOWN_REQUEST_def
  FAPI_VENDOR_EXT_P7_IND_def FAPI_VENDOR_MSG_HEADER_IND_def FAPI_VENDOR_MSG_PHY_ZBC_BLOCK_REQ_def

record config_req_vendor_msg =
  hopping_id :: u16
  carrier_aggregation_level :: u8
  group_hop_flag :: u8
  sequence_hop_flag :: u8
  prach_nr_of_rx_ru :: u8
  nr_of_dl_ports :: u8
  nr_of_ul_ports :: u8
  urllc_capable :: u16
  urllc_mini_slot_mask :: u16
  ssb_subc_spacing :: u8
  vendor_EpreXSSB :: u8

record start_req_vendor_msg =
  start_sfn :: u16
  start_slot :: u16
  start_mode :: u32

record stop_req_vendor_msg =
  stop_sfn :: u16
  stop_slot :: u16

record fapi_vendor_msg =
  config_req_vendor :: config_req_vendor_msg
  start_req_vendor :: start_req_vendor_msg
  stop_req_vendor :: stop_req_vendor_msg
  p7_req_vendor :: fapi_vendor_p7_msg

record fapi_vendor_ext_shutdown_req =
  shutdown_sfn :: u16
  shutdown_slot :: u16
  test_type :: u32

record fapi_error_ind =
  err_sfn :: u16
  err_slot :: u16
  err_message_id :: u8
  err_error_code :: u8

datatype fapi_content =
    Config_req u8 "fapi_tlv list"
  | Vendor_message fapi_vendor_msg
  | Shutdown_req fapi_vendor_ext_shutdown_req
  | Param_resp u8
  | Config_resp u8
  | Stop_ind
  | Error_ind fapi_error_ind
  | Slot_ind u16 u16
  | Vendor_p7_ind fapi_vendor_p7_ind
  | Dl_tti_req fapi_dl_tti_req
  | Ul_tti_req fapi_ul_tti_req
  | Ul_dci_req fapi_ul_dci_req
  | Tx_data_req fapi_tx_data_req
  | Rx_data_ind u16 u16 u16 "fapi_pdu_ind_info list"
  | Crc_ind u16 u16 u16 "fapi_crc_ind_info list"
  | Uci_ind u16 u16 u16 "fapi_uci_pdu_info list"
  | Srs_ind u16 u16 u8 "fapi_srs_pdu list"
  | Rach_ind u16 u16 u8 "fapi_rach_pdu list"
  | Other_message

text \<open>A message header that counts the messages behind it, or a message.  Reading one as the other
  gives the bytes of the little-endian machine.\<close>

datatype fapi_body = Msg_header u8 u8 | Fapi_message u16 u32 fapi_content

primrec num_msg :: "fapi_body \<Rightarrow> u8" where
  "num_msg (Msg_header n h) = n"
| "num_msg (Fapi_message i l c) = ucast i"

primrec handle :: "fapi_body \<Rightarrow> u8" where
  "handle (Msg_header n h) = h"
| "handle (Fapi_message i l c) = ucast (drop_bit 8 i)"

primrec msg_id :: "fapi_body \<Rightarrow> u16" where
  "msg_id (Msg_header n h) = or (ucast n) (push_bit 8 (ucast h))"
| "msg_id (Fapi_message i l c) = i"

primrec count_message :: "fapi_body \<Rightarrow> fapi_body" where
  "count_message (Msg_header n h) = Msg_header (n + 1) h"
| "count_message (Fapi_message i l c) = Fapi_message (or (and i 0xFF00) (ucast (ucast i + 1 :: u8))) l c"

record fapi_el =
  fel_addr :: u64
  fel_type :: u8
  num_message_in_block :: u8
  fel_len :: u32
  align_offset :: u32
  fel_tx :: "u64 list"
  body :: fapi_body

section \<open>PHY instances\<close>

datatype fapi_states = FAPI_STATE_IDLE | FAPI_STATE_CONFIGURED | FAPI_STATE_RUNNING

datatype p5_counter = Param_req_cnt | Param_res_cnt | Config_req_cnt | Config_res_cnt | Start_req_cnt
  | Start_res_cnt | Stop_req_cnt | Stop_ind_cnt | Vendor_msg_cnt | Shutdown_req_cnt | Shutdown_res_cnt

datatype p7_counter = Dl_tti_cnt | Ul_tti_cnt | Ul_dci_cnt | Tx_data_cnt | Slot_ind_cnt | Error_ind_cnt
  | Crc_ind_cnt | Rx_data_ind_cnt | Uci_ind_cnt | Srs_ind_cnt | Rach_ind_cnt | Dl_pdus_cnt | Dl_pdcch_pdus_cnt
  | Dl_pdsch_pdus_cnt | Dl_csi_rs_pdus_cnt | Dl_ssb_pdus_cnt | Ul_dci_pdus_cnt | Ul_pdus_cnt | Ul_prach_pdus_cnt
  | Ul_pusch_pdus_cnt | Ul_pucch_pdus_cnt | Ul_srs_pdus_cnt | Crc_pdus_cnt | Rx_data_pdus_cnt | Uci_pdus_cnt
  | Srs_pdus_cnt | Rach_pdus_cnt

text \<open>The counters of the control messages have 8 bits, those of the slot messages 64.\<close>

record nr5g_fapi_stats =
  fapi_p5 :: "p5_counter \<Rightarrow> u8"
  fapi_p7 :: "p7_counter \<Rightarrow> u64"
  iapi_p5 :: "p5_counter \<Rightarrow> u8"
  iapi_p7 :: "p7_counter \<Rightarrow> u64"

definition zero_stats :: nr5g_fapi_stats where
  "zero_stats = \<lparr>fapi_p5 = (\<lambda>_. 0), fapi_p7 = (\<lambda>_. 0), iapi_p5 = (\<lambda>_. 0), iapi_p7 = (\<lambda>_. 0)\<rparr>"

definition MAX_UL_SLOT_INFO_COUNT :: nat where "MAX_UL_SLOT_INFO_COUNT = 20"
definition MAX_UL_SYMBOL_INFO_COUNT :: nat where "MAX_UL_SYMBOL_INFO_COUNT = 14"
definition FAPI_MAX_SLOT_INFO_URLLC :: nat where "FAPI_MAX_SLOT_INFO_URLLC = 2"

record pusch_info =
  pusch_handle :: u32
  harq_process_id :: u8
  ul_cqi :: u8
  timing_advance :: u16

record nr5g_fapi_ul_slot_info =
  cookie :: u16
  slot_no :: u8
  symbol_no :: u8
  num_ulsch :: u8
  num_ulcch :: u8
  num_srs :: u8
  rach_presence :: u8
  rach_phy_cell_id :: u16
  srs_handles :: "u32 list"
  pucch_infos :: "(u32 \<times> u8) list"
  pusch_infos :: "pusch_info list"

record nr5g_fapi_phy_instance =
  phy_id :: u8
  shutdown_retries :: u8
  shutdown_test_type :: u32
  state :: fapi_states
  inst_config :: nr5g_fapi_phy_config
  stats :: nr5g_fapi_stats
  ul_slot_info :: "nr5g_fapi_ul_slot_info list list list"

definition FAPI_MAX_NUMBER_OF_ULSCH_PDUS_PER_SLOT :: nat where "FAPI_MAX_NUMBER_OF_ULSCH_PDUS_PER_SLOT = 64"
definition FAPI_MAX_NUMBER_UCI_PDUS_PER_SLOT :: nat where "FAPI_MAX_NUMBER_UCI_PDUS_PER_SLOT = 200"
definition FAPI_MAX_NUMBER_SRS_PDUS_PER_SLOT :: nat where "FAPI_MAX_NUMBER_SRS_PDUS_PER_SLOT = 32"

definition zero_ul_slot_info :: nr5g_fapi_ul_slot_info where
  "zero_ul_slot_info = \<lparr>cookie = 0, slot_no = 0, symbol_no = 0, num_ulsch = 0, num_ulcch = 0, num_srs = 0,
     rach_presence = 0, rach_phy_cell_id = 0, srs_handles = replicate FAPI_MAX_NUMBER_SRS_PDUS_PER_SLOT 0,
     pucch_infos = replicate FAPI_MAX_NUMBER_UCI_PDUS_PER_SLOT (0, 0),
     pusch_infos = replicate FAPI_MAX_NUMBER_OF_ULSCH_PDUS_PER_SLOT
       \<lparr>pusch_handle = 0, harq_process_id = 0, ul_cqi = 0, timing_advance = 0\<rparr>\<rparr>"

text \<open>The uplink slot record of a request, and the search for it when the indication comes; the result
  is the position of the record.\<close>

definition nr5g_fapi_set_ul_slot_info :: "u16 \<Rightarrow> u16 \<Rightarrow> u8 \<Rightarrow> nr5g_fapi_ul_slot_info" where
  "nr5g_fapi_set_ul_slot_info frame slot symb = zero_ul_slot_info\<lparr>cookie := frame, slot_no := ucast slot, symbol_no := symb\<rparr>"

definition slot_info_matches :: "u16 \<Rightarrow> u16 \<Rightarrow> u8 \<Rightarrow> nr5g_fapi_ul_slot_info \<Rightarrow> bool" where
  "slot_info_matches frame slot symb r \<longleftrightarrow> slot = ucast (slot_no r) \<and> frame = cookie r \<and> symb = symbol_no r"

definition nr5g_fapi_get_ul_slot_info ::
    "bool \<Rightarrow> u16 \<Rightarrow> u16 \<Rightarrow> u8 \<Rightarrow> nr5g_fapi_phy_instance \<Rightarrow> (nat \<times> nat) option" where
  "nr5g_fapi_get_ul_slot_info u frame slot symb p =
     (let tbl = ul_slot_info p ! (if u then 1 else 0)
      in List.find (\<lambda>(i, j). slot_info_matches frame slot symb (tbl ! i ! j))
           (List.product [0..<MAX_UL_SLOT_INFO_COUNT] [0..<MAX_UL_SYMBOL_INFO_COUNT]))"

text \<open>Leaving an instance: only the first record of the uplink slots is cleared.\<close>

definition clean_instance :: "nr5g_fapi_phy_instance \<Rightarrow> nr5g_fapi_phy_instance" where
  "clean_instance p = p\<lparr>inst_config := (inst_config p)\<lparr>n_nr_of_rx_ant := 0, phy_cell_id := 0, sub_c_common := 0, use_vendor_EpreXSSB := 0\<rparr>,
     shutdown_test_type := 0, phy_id := 0, state := FAPI_STATE_IDLE,
     ul_slot_info := (ul_slot_info p)[0 := (ul_slot_info p ! 0)[0 := (ul_slot_info p ! 0 ! 0)[0 := zero_ul_slot_info]]]\<rparr>"

end
