(* ===== verification/Fapi_Queues.thy ===== *)
theory Fapi_Queues
  imports Fapi_Instance
begin

text \<open>
  The queues of the FAPI layer: the elements for the PHY and, per PHY instance, the elements for the
  MAC, from their creation to their sending.  An operation works on the whole state, \<open>fapi_state\<close>;
  a list that was handed to the shared-memory library leaves the state.  \<open>mac_heap\<close> is what the MAC
  wrote into the block at an address.
\<close>

section \<open>State\<close>

record fapi_cfg = fapi_env +
  h_mac :: ctx_ptr
  wls_put1 :: "wls_msg \<Rightarrow> wls_shm \<Rightarrow> (int \<times> wls_shm) option"
  wls_wait1 :: "wls_shm \<Rightarrow> (int blocking \<times> wls_shm) option"
  wls_get1 :: "wls_shm \<Rightarrow> (wls_msg \<times> wls_shm) option"
  sizeof_fapi :: "u16 \<Rightarrow> u32"
  sizeof_fapi_el :: u32
  shmem :: u64

record fapi_state =
  io :: fapi_io
  fapi2mac_buffers :: "u64 list"
  fapi2mac_q :: "fapi_el list list"
  fapi2mac_urllc_q :: "fapi_el list list"
  fapi2phy_q :: "phy_el list"
  fapi2phy_q_urllc :: "phy_el list"
  phy_instance :: "nr5g_fapi_phy_instance list"
  num_phy_instance :: u8
  mac_heap :: "u64 \<Rightarrow> fapi_el"

definition upd_inst :: "nat \<Rightarrow> (nr5g_fapi_phy_instance \<Rightarrow> nr5g_fapi_phy_instance) \<Rightarrow> fapi_state \<Rightarrow> fapi_state" where
  "upd_inst i f s = s\<lparr>phy_instance := (phy_instance s)[i := f (phy_instance s ! i)]\<rparr>"

definition count_fapi :: "p5_counter \<Rightarrow> nr5g_fapi_phy_instance \<Rightarrow> nr5g_fapi_phy_instance" where
  "count_fapi k p = p\<lparr>stats := (stats p)\<lparr>fapi_p5 := (fapi_p5 (stats p))(k := fapi_p5 (stats p) k + 1)\<rparr>\<rparr>"

definition count_iapi :: "p5_counter \<Rightarrow> nr5g_fapi_phy_instance \<Rightarrow> nr5g_fapi_phy_instance" where
  "count_iapi k p = p\<lparr>stats := (stats p)\<lparr>iapi_p5 := (iapi_p5 (stats p))(k := iapi_p5 (stats p) k + 1)\<rparr>\<rparr>"

definition count_fapi_p7 :: "p7_counter \<Rightarrow> nr5g_fapi_phy_instance \<Rightarrow> nr5g_fapi_phy_instance" where
  "count_fapi_p7 k p = p\<lparr>stats := (stats p)\<lparr>fapi_p7 := (fapi_p7 (stats p))(k := fapi_p7 (stats p) k + 1)\<rparr>\<rparr>"

definition count_iapi_p7 :: "p7_counter \<Rightarrow> nr5g_fapi_phy_instance \<Rightarrow> nr5g_fapi_phy_instance" where
  "count_iapi_p7 k p = p\<lparr>stats := (stats p)\<lparr>iapi_p7 := (iapi_p7 (stats p))(k := iapi_p7 (stats p) k + 1)\<rparr>\<rparr>"

section \<open>To the PHY\<close>

text \<open>A new element holds what was in its block; the caller writes the message.\<close>

definition nr5g_fapi_fapi2phy_create_api_list_elem ::
    "fapi_cfg \<Rightarrow> u8 \<Rightarrow> u16 \<Rightarrow> u32 \<Rightarrow> fapi_state \<Rightarrow> (phy_el option \<times> fapi_state) outcome" where
  "nr5g_fapi_fapi2phy_create_api_list_elem e mt num_msgs align s =
     obind (io_alloc_buffer (ucast (nr5g_fapi_get_stats_location (api e) mt)) (io s)) (\<lambda>(p, i).
     if p = 0 then Done (None, s\<lparr>io := i\<rparr>)
     else let el = \<lparr>el_addr = p, nMessageType = mt, nNumMessageInBlock = num_msgs, nAlignOffset = ucast align,
                    nMessageLen = ucast num_msgs * align, el_msg = el_msg (heap i p)\<rparr>
          in Done (Some el, s\<lparr>io := i\<lparr>heap := (heap i)(p := el)\<rparr>\<rparr>))"

definition write_message :: "phy_msg \<Rightarrow> phy_el \<Rightarrow> fapi_state \<Rightarrow> phy_el \<times> fapi_state" where
  "write_message m el s =
     (let x = el\<lparr>el_msg := m\<rparr> in (x, s\<lparr>io := (io s)\<lparr>heap := (heap (io s))(el_addr el := x)\<rparr>\<rparr>))"

definition nr5g_fapi_fapi2phy_queue :: "bool \<Rightarrow> fapi_state \<Rightarrow> phy_el list" where
  "nr5g_fapi_fapi2phy_queue u s = (if u then fapi2phy_q_urllc s else fapi2phy_q s)"

definition set_fapi2phy_queue :: "bool \<Rightarrow> phy_el list \<Rightarrow> fapi_state \<Rightarrow> fapi_state" where
  "set_fapi2phy_queue u q s = (if u then s\<lparr>fapi2phy_q_urllc := q\<rparr> else s\<lparr>fapi2phy_q := q\<rparr>)"

definition nr5g_fapi_fapi2phy_add_to_api_list :: "bool \<Rightarrow> phy_el option \<Rightarrow> fapi_state \<Rightarrow> fapi_state" where
  "nr5g_fapi_fapi2phy_add_to_api_list u el s =
     (case el of None \<Rightarrow> s | Some x \<Rightarrow> set_fapi2phy_queue u (nr5g_fapi_fapi2phy_queue u s @ [x]) s)"

text \<open>The queue is emptied whatever the sending returns.\<close>

definition nr5g_fapi_fapi2phy_send_api_list :: "fapi_cfg \<Rightarrow> bool \<Rightarrow> fapi_state \<Rightarrow> fapi_state outcome" where
  "nr5g_fapi_fapi2phy_send_api_list e u s =
     (if nr5g_fapi_fapi2phy_queue u s = [] then Done s
      else obind (nr5g_fapi_fapi2phy_wls_send (fapi_env.truncate e) (nr5g_fapi_fapi2phy_queue u s) u (io s)) (\<lambda>(r, i).
           Done (set_fapi2phy_queue u [] (s\<lparr>io := i\<rparr>))))"

definition nr5g_fapi_fapi2phy_destroy_api_list_elem :: "fapi_cfg \<Rightarrow> phy_el option \<Rightarrow> fapi_state \<Rightarrow> fapi_state outcome" where
  "nr5g_fapi_fapi2phy_destroy_api_list_elem e el s =
     (case el of None \<Rightarrow> Done s
      | Some x \<Rightarrow>
          obind (io_free_buffer (el_addr x) (ucast (nr5g_fapi_get_stats_location (api e) (nMessageType x))) (io s))
            (\<lambda>i. Done (s\<lparr>io := i\<rparr>)))"

section \<open>Blocks for the MAC\<close>

definition nr5g_fapi_fapi2mac_wls_alloc_buffer :: "fapi_cfg \<Rightarrow> fapi_state \<Rightarrow> (u64 \<times> fapi_state) outcome" where
  "nr5g_fapi_fapi2mac_wls_alloc_buffer e s =
     (case fapi2mac_buffers s of
        p # ps \<Rightarrow> Done (p, s\<lparr>fapi2mac_buffers := ps\<rparr>)
      | [] \<Rightarrow>
          obind (of_option (WLS_DequeueBlock (h_mac e) (shm (io s)))) (\<lambda>(pa, m).
          let s = s\<lparr>io := (io s)\<lparr>shm := m\<rparr>\<rparr>
          in if pa = 0 then Done (0, s)
             else obind (of_option (get_ctx m (h_mac e))) (\<lambda>c. Done (WLS_PA2VA c pa, s))))"

definition nr5g_fapi_fapi2mac_wls_free_buffer :: "u64 \<Rightarrow> fapi_state \<Rightarrow> fapi_state" where
  "nr5g_fapi_fapi2mac_wls_free_buffer p s = s\<lparr>fapi2mac_buffers := p # fapi2mac_buffers s\<rparr>"

definition nr5g_fapi_fapi2mac_create_api_list_elem ::
    "fapi_cfg \<Rightarrow> u16 \<Rightarrow> u16 \<Rightarrow> u32 \<Rightarrow> fapi_body \<Rightarrow> fapi_state \<Rightarrow> (fapi_el option \<times> fapi_state) outcome" where
  "nr5g_fapi_fapi2mac_create_api_list_elem e mt num_msgs align b s =
     obind (nr5g_fapi_fapi2mac_wls_alloc_buffer e s) (\<lambda>(p, s).
     if p = 0 then Done (None, s)
     else Done (Some \<lparr>fel_addr = p, fel_type = ucast mt, num_message_in_block = ucast num_msgs,
                      fel_len = ucast num_msgs * align, align_offset = ucast (ucast align :: u16), fel_tx = [], body = b\<rparr>, s))"

section \<open>To the MAC\<close>

definition nr5g_fapi_fapi2mac_queue :: "bool \<Rightarrow> fapi_state \<Rightarrow> fapi_el list list" where
  "nr5g_fapi_fapi2mac_queue u s = (if u then fapi2mac_urllc_q s else fapi2mac_q s)"

definition set_fapi2mac_queue :: "bool \<Rightarrow> fapi_el list list \<Rightarrow> fapi_state \<Rightarrow> fapi_state" where
  "set_fapi2mac_queue u q s = (if u then s\<lparr>fapi2mac_urllc_q := q\<rparr> else s\<lparr>fapi2mac_q := q\<rparr>)"

text \<open>The head of the list counts the elements behind it.\<close>

definition append_message :: "fapi_el \<Rightarrow> fapi_el list \<Rightarrow> fapi_el list" where
  "append_message x q = (case q of [] \<Rightarrow> [x] | h # t \<Rightarrow> h\<lparr>body := count_message (body h)\<rparr> # t @ [x])"

definition nr5g_fapi_fapi2mac_add_api_to_list :: "u8 \<Rightarrow> fapi_el option \<Rightarrow> bool \<Rightarrow> fapi_state \<Rightarrow> fapi_state outcome" where
  "nr5g_fapi_fapi2mac_add_api_to_list i el u s =
     (case el of None \<Rightarrow> Done s
      | Some x \<Rightarrow>
          let q = nr5g_fapi_fapi2mac_queue u s
          in if unat i < length q then Done (set_fapi2mac_queue u (q[unat i := append_message x (q ! unat i)]) s)
             else Undefined)"

definition nr5g_fapi_fapi2mac_wls_put :: "fapi_cfg \<Rightarrow> fapi_el \<Rightarrow> u32 \<Rightarrow> u16 \<Rightarrow> u16 \<Rightarrow> fapi_io \<Rightarrow> (u8 \<times> fapi_io) outcome" where
  "nr5g_fapi_fapi2mac_wls_put e x sz mt fl i =
     obind (of_option (get_ctx (shm i) (h_mac e))) (\<lambda>c.
     obind (of_option (wls_put1 e (WLS_VA2PA c (fel_addr x), sz, mt, fl) (shm i))) (\<lambda>(r, m).
     Done (word_of_int r, i\<lparr>shm := m\<rparr>)))"

text \<open>The loop; the flag is false when the function returns \<open>FAILURE\<close> from inside.\<close>

fun fapi2mac_send_loop :: "fapi_cfg \<Rightarrow> u16 \<Rightarrow> u16 \<Rightarrow> fapi_el list \<Rightarrow> fapi_io \<Rightarrow> (bool \<times> fapi_io) outcome" where
  "fapi2mac_send_loop e uf fl [] i = Done (True, i)"
| "fapi2mac_send_loop e uf fl (x # xs) i =
     obind (nr5g_fapi_fapi2mac_wls_put e x (fel_len x + sizeof_fapi_el e) (msg_id (body x))
              (if xs \<noteq> [] then fl else or WLS_SG_LAST uf) i) (\<lambda>(r, i).
     if r \<noteq> 0 then Done (False, i) else fapi2mac_send_loop e uf (or WLS_SG_NEXT uf) xs i)"

definition nr5g_fapi_fapi2mac_wls_send :: "fapi_cfg \<Rightarrow> fapi_el list \<Rightarrow> bool \<Rightarrow> fapi_io \<Rightarrow> (u8 \<times> fapi_io) outcome" where
  "nr5g_fapi_fapi2mac_wls_send e xs u i =
     (let uf = (if u then WLS_TF_URLLC else 0); fl = or WLS_SG_FIRST uf;
          result = (\<lambda>(ok, i). Done (if ok then 0 else 1, i))
      in case xs of
        x # y # ys \<Rightarrow>
          if ucast (fel_type x) = FAPI_VENDOR_MSG_HEADER_IND then
            obind (nr5g_fapi_fapi2mac_wls_put e x (fel_len x + sizeof_fapi_el e) FAPI_VENDOR_MSG_HEADER_IND fl i) (\<lambda>(r, i).
            if r \<noteq> 0 then Done (1, i) else obind (fapi2mac_send_loop e uf (or WLS_SG_NEXT uf) (y # ys) i) result)
          else obind (fapi2mac_send_loop e uf fl xs i) result
      | _ \<Rightarrow> Done (0, i))"

text \<open>The lists that are committed, in the order of the instances.  A list whose head counts no message
  is dropped; only the block of its head is given back.\<close>

fun commit_lists :: "fapi_el list list \<Rightarrow> fapi_el list \<Rightarrow> u64 list \<Rightarrow> fapi_el list \<times> u64 list" where
  "commit_lists [] c b = (c, b)"
| "commit_lists (q # qs) c b =
     (case q of [] \<Rightarrow> commit_lists qs c b
      | h # t \<Rightarrow> if num_msg (body h) \<noteq> 0 then commit_lists qs (c @ q) b else commit_lists qs c (fel_addr h # b))"

definition nr5g_fapi_fapi2mac_send_api_list :: "fapi_cfg \<Rightarrow> bool \<Rightarrow> fapi_state \<Rightarrow> fapi_state outcome" where
  "nr5g_fapi_fapi2mac_send_api_list e u s =
     (case commit_lists (nr5g_fapi_fapi2mac_queue u s) [] (fapi2mac_buffers s) of (c, b) \<Rightarrow>
       let s = set_fapi2mac_queue u (map (\<lambda>_. []) (nr5g_fapi_fapi2mac_queue u s)) (s\<lparr>fapi2mac_buffers := b\<rparr>)
       in if c = [] then Done s
          else obind (nr5g_fapi_fapi2mac_wls_send e c u (io s)) (\<lambda>(_, i). Done (s\<lparr>io := i\<rparr>)))"

section \<open>From the MAC\<close>

text \<open>\<open>shmem\<close> is the address of the shared memory, which does not change after the start.\<close>

definition nr5g_fapi_fapi2mac_is_valid_wls_ptr :: "fapi_cfg \<Rightarrow> u64 \<Rightarrow> fapi_io \<Rightarrow> bool" where
  "nr5g_fapi_fapi2mac_is_valid_wls_ptr e p i \<longleftrightarrow> shmem e \<le> p \<and> p < shmem e + ucast (nPartitionMemSize (wls i))"

definition nr5g_fapi_fapi2mac_wls_wait :: "fapi_cfg \<Rightarrow> fapi_state \<Rightarrow> (u32 \<times> fapi_state) outcome" where
  "nr5g_fapi_fapi2mac_wls_wait e s =
     obind (of_option (wls_wait1 e (shm (io s)))) (\<lambda>(r, m).
     case r of Blocks \<Rightarrow> Diverges | Returns n \<Rightarrow> Done (word_of_int n, s\<lparr>io := (io s)\<lparr>shm := m\<rparr>\<rparr>))"

definition nr5g_fapi_fapi2mac_wls_get :: "fapi_cfg \<Rightarrow> fapi_state \<Rightarrow> (wls_msg \<times> fapi_state) outcome" where
  "nr5g_fapi_fapi2mac_wls_get e s =
     obind (of_option (wls_get1 e (shm (io s)))) (\<lambda>(msg, m). Done (msg, s\<lparr>io := (io s)\<lparr>shm := m\<rparr>\<rparr>))"

type_synonym mac_recv_state = "u32 \<times> fapi_el list \<times> fapi_el list \<times> u16 \<times> fapi_state"

definition mac_recv_round :: "fapi_cfg \<Rightarrow> mac_recv_state \<Rightarrow> (mac_recv_state \<times> bool) outcome" where
  "mac_recv_round e st =
     (let again = (\<lambda>n els uels fl s. Done ((n, els, uels, fl, s), n \<noteq> 0 \<and> is_msg_present fl))
      in case st of (n, els, uels, _, s) \<Rightarrow>
       obind (nr5g_fapi_fapi2mac_wls_get e s) (\<lambda>((p, _, _, fl), s).
       if p \<noteq> 0 then
         obind (of_option (get_ctx (shm (io s)) (h_mac e))) (\<lambda>c.
         let va = WLS_PA2VA c p; el = (mac_heap s va)\<lparr>fel_addr := va\<rparr>
         in if \<not> nr5g_fapi_fapi2mac_is_valid_wls_ptr e va (io s) then again n els uels fl s
            else if and fl WLS_TF_URLLC \<noteq> 0 then again (n - 1) els (uels @ [el]) fl s
            else again (n - 1) (els @ [el]) uels fl s)
       else again (n - 1) els uels fl s))"

text \<open>The list for the caller, and the one for the URLLC thread.\<close>

definition nr5g_fapi_fapi2mac_wls_recv :: "fapi_cfg \<Rightarrow> fapi_state \<Rightarrow> (fapi_el list \<times> fapi_el list \<times> fapi_state) outcome" where
  "nr5g_fapi_fapi2mac_wls_recv e s =
     obind (nr5g_fapi_fapi2mac_wls_wait e s) (\<lambda>(n, s).
     if n = 0 then Done ([], [], s)
     else obind (run_loop (mac_recv_round e) (n, [], [], 0, s)) (\<lambda>(_, els, uels, _, s). Done (els, uels, s)))"

end
