(* ===== verification/Fapi_P7_Ul.thy ===== *)
theory Fapi_P7_Ul
  imports Fapi_P7_Rbg Fapi_P7_Struct Fapi_Queues
begin

text \<open>
  The translation of UL_TTI.request
  (\<open>fapi_5g/source/api/fapi2phy/p7/nr5g_fapi_proc_ul_tti_req.c\<close>): the PDUs for the PHY, and the record
  of the slot that the instance keeps for the indications that answer them.
\<close>

section \<open>PUSCH\<close>

definition nr5g_fapi_pusch_data_to_phy_ulsch_translation ::
    "p7_api \<Rightarrow> fapi_pusch_data \<Rightarrow> pusch_info \<times> struct \<Rightarrow> pusch_info \<times> struct" where
  "nr5g_fapi_pusch_data_to_phy_ulsch_translation a d = (\<lambda>(info, s).
     let L = ulsch_l a;
         s = put_fields L [(''nRV'', uint (pd_rvIndex d)), (''nHARQID'', uint (pd_harqProcessId d))] s;
         info = info\<lparr>harq_process_id := field_u8 s ''nHARQID''\<rparr>
     in (info, put_fields L [(''nNDI'', uint (pd_newDataIndicator d)), (''nTBSize'', uint (pd_tbSize d))] s))"

definition nr5g_fapi_pusch_uci_to_phy_ulsch_translation :: "p7_api \<Rightarrow> fapi_pusch_uci \<Rightarrow> struct \<Rightarrow> struct" where
  "nr5g_fapi_pusch_uci_to_phy_ulsch_translation a u = put_fields (ulsch_l a)
     [(''nAck'', uint (pi_harqAckBitLength u)), (''nAlphaScaling'', uint (pi_alphaScaling u)),
      (''nBetaOffsetACKIndex'', uint (pi_betaOffsetHarqAck u)), (''nBetaOffsetCSIP1Index'', uint (pi_betaOffsetCsi1 u)),
      (''nBetaOffsetCSIP2Index'', uint (pi_betaOffsetCsi2 u)), (''nCSIPart1'', uint (pi_csiPart1BitLength u)),
      (''nCSIPart2'', uint (pi_csiPart2BitLength u))]"

definition NUM_UL_PTRS_PORT_INDEX :: nat where "NUM_UL_PTRS_PORT_INDEX = 12"

text \<open>The last bit that is set is the one that stays.\<close>

fun ptrs_port_loop :: "p7_api \<Rightarrow> u16 \<Rightarrow> nat \<Rightarrow> nat list \<Rightarrow> struct \<Rightarrow> struct outcome" where
  "ptrs_port_loop a ports i [] s = Done s"
| "ptrs_port_loop a ports i (j # js) s =
     (if bit ports j then obind (put_elem (ulsch_l a) ''nPTRSPortIndex'' i (int j) s) (ptrs_port_loop a ports i js)
      else ptrs_port_loop a ports i js s)"

fun ptrs_info_loop :: "p7_api \<Rightarrow> fapi_ptrs_info list \<Rightarrow> nat list \<Rightarrow> struct \<Rightarrow> struct outcome" where
  "ptrs_info_loop a infos [] s = Done s"
| "ptrs_info_loop a infos (i # is) s =
     (if i < length infos then
        obind (ptrs_port_loop a (pt_ptrsPortIndex (infos ! i)) i [0..<NUM_UL_PTRS_PORT_INDEX] s) (\<lambda>s.
        ptrs_info_loop a infos is (put_field (ulsch_l a) ''nPTRSReOffset'' (uint (pt_ptrsReOffset (infos ! i))) s))
      else Undefined)"

definition nr5g_fapi_pusch_ptrs_to_phy_ulsch_translation :: "p7_api \<Rightarrow> fapi_pusch_ptrs \<Rightarrow> struct \<Rightarrow> struct outcome" where
  "nr5g_fapi_pusch_ptrs_to_phy_ulsch_translation a p s =
     (let L = ulsch_l a;
          s = (if pp_ptrsTimeDensity p \<le> 2 then put_double L ''nPTRSTimeDensity'' (2 ^ unat (pp_ptrsTimeDensity p)) s else s);
          s = (if pp_ptrsFreqDensity p = 0 \<or> pp_ptrsFreqDensity p = 1
               then put_double L ''nPTRSFreqDensity'' (2 ^ (unat (pp_ptrsFreqDensity p) + 1)) s else s);
          s = (if 0 < pp_numPtrsPorts p then put_field L ''nNrOfPTRSPorts'' 1 s else s);
          num_ptrs_ports = (if 0 < pp_numPtrsPorts p then unat (field_u8 s ''nNrOfPTRSPorts'') else 0)
      in ptrs_info_loop a (pp_ptrsInfo p) [0..<min num_ptrs_ports (MAX_DL_PER_UE_PTRS_PORT_NUM a)] s)"

definition FAPI_MAX_UL_LAYERS :: nat where "FAPI_MAX_UL_LAYERS = 4"

text \<open>The ports of the layers are the bits that are set, from the least on.\<close>

fun dmrs_port_loop :: "p7_api \<Rightarrow> u16 \<Rightarrow> nat \<Rightarrow> nat list \<Rightarrow> nat \<Rightarrow> struct \<Rightarrow> struct outcome" where
  "dmrs_port_loop a ports nr_of_layers [] port_index s = Done s"
| "dmrs_port_loop a ports nr_of_layers (i # is) port_index s =
     (if port_index < nr_of_layers \<and> port_index < FAPI_MAX_UL_LAYERS then
        if bit ports i
        then obind (put_elem (ulsch_l a) ''nPortIndex'' port_index (int i) s) (dmrs_port_loop a ports nr_of_layers is (port_index + 1))
        else dmrs_port_loop a ports nr_of_layers is port_index s
      else Done s)"

text \<open>The quotient of two integers is rounded down before \<open>ceil\<close> sees it.\<close>

definition pusch_resource_type_0 :: "p7_api \<Rightarrow> fapi_ul_pusch_pdu \<Rightarrow> u16 \<Rightarrow> u16 \<Rightarrow> struct \<Rightarrow> struct outcome" where
  "pusch_resource_type_0 a p bwp_start bwp_size s =
     (let L = ulsch_l a;
          s = put_field L ''nRBGSize'' (uint (nr5g_fapi_calc_n_rbg_size bwp_size)) s;
          n_rbg_size = unat (field_u8 s ''nRBGSize'');
          s = (if 0 < n_rbg_size
               then put_double L ''nNrOfRBGs'' (int ((unat bwp_size + unat bwp_start mod n_rbg_size) div n_rbg_size)) s else s)
      in obind (nr5g_fapi_calc_pusch_rbg_index (pu_rbBitmap p) bwp_start bwp_size) (\<lambda>r.
         Done (put_field L ''nRBGIndex'' (uint r) s)))"

definition pusch_mcs_fields :: "u8 \<Rightarrow> (string \<times> int) list" where
  "pusch_mcs_fields mcs_table =
     (if mcs_table \<le> 2 then [(''nMcsTable'', uint mcs_table)] else []) @
     (if 2 < mcs_table \<and> mcs_table \<le> 4
      then [(''nTransPrecode'', 1), (''nMcsTable'', if mcs_table = 3 then 0 else 2)] else [])"

definition nr5g_fapi_pusch_to_phy_ulsch_translation ::
    "p7_api \<Rightarrow> fapi_ul_pusch_pdu \<Rightarrow> pusch_info \<Rightarrow> nr5g_fapi_phy_instance \<Rightarrow> (struct \<times> pusch_info \<times> nr5g_fapi_phy_instance) outcome" where
  "nr5g_fapi_pusch_to_phy_ulsch_translation a p info inst =
     (let L = ulsch_l a; inst = count_fapi_p7 Ul_pusch_pdus_cnt inst;
          s = put_fields L [(''nRNTI'', uint (pu_rnti p)), (''nUEId'', uint (ucast (pu_handle p) :: u16))] zero_struct;
          info = info\<lparr>pusch_handle := word_of_int (s ''nUEId'' 0)\<rparr>;
          s = put_fields L [(''nBWPSize'', uint (pu_bwpSize p)), (''nBWPStart'', uint (pu_bwpStart p))] s;
          bwp_size = field_u16 s ''nBWPSize''; bwp_start = field_u16 s ''nBWPStart'';
          s = put_fields L ([(''nSubcSpacing'', uint (pu_subCarrierSpacing p)), (''nCpType'', uint (pu_cyclicPrefix p)),
                (''nMCS'', uint (pu_mcsIndex p)), (''nTransPrecode'', of_bool (pu_transformPrecoding p = 0))]
              @ pusch_mcs_fields (pu_mcsTable p) @
               [(''nNid'', uint (pu_dataScramblingId p)), (''nDMRSConfigType'', uint (pu_dmrsConfigType p)),
                (''nMappingType'', uint (pu_mappingType p)), (''nNrOfDMRSSymbols'', uint (pu_nrOfDmrsSymbols p)),
                (''nDMRSAddPos'', uint (pu_dmrsAddPos p)), (''nNIDnSCID'', uint (pu_ulDmrsScramblingId p)),
                (''nSCID'', uint (pu_scid p)), (''nNrOfCDMs'', uint (pu_numDmrsCdmGrpsNoData p)),
                (''nNrOfLayers'', uint (pu_nrOfLayers p))]) s
      in obind (dmrs_port_loop a (pu_dmrsPorts p) (unat (field_u8 s ''nNrOfLayers'')) [0..<MAX_DL_PER_UE_DMRS_PORT_NUM a] 0 s) (\<lambda>s.
         let s = put_fields L [(''nTPPuschID'', uint (pu_nTpPuschId p)), (''nTpPi2BPSK'', uint (pu_tpPi2Bpsk p)),
                   (''nResourceAllocType'', uint (pu_resourceAlloc p))] s
         in obind (if pu_resourceAlloc p = 0 then pusch_resource_type_0 a p bwp_start bwp_size s else Done s) (\<lambda>s.
         let s = put_fields L [(''nRBStart'', uint (pu_rbStart p)), (''nRBSize'', uint (pu_rbSize p)),
                   (''nVRBtoPRB'', uint (pu_vrbToPrbMapping p)), (''nStartSymbolIndex'', uint (pu_startSymbIndex p)),
                   (''nNrOfSymbols'', uint (pu_nrOfSymbols p)), (''nPTRSPresent'', 0)] s;
             (info, s) = (if bit (pu_pduBitMap p) 0 then nr5g_fapi_pusch_data_to_phy_ulsch_translation a (pu_puschData p) (info, s)
                          else (info, s));
             s = (if bit (pu_pduBitMap p) 1 then nr5g_fapi_pusch_uci_to_phy_ulsch_translation a (pu_puschUci p) s else s)
         in obind (if bit (pu_pduBitMap p) 2 then nr5g_fapi_pusch_ptrs_to_phy_ulsch_translation a (pu_puschPtrs p) s else Done s) (\<lambda>s.
         let s = (if bit (pu_pduBitMap p) 15 then put_field L ''nPTRSPresent'' 1 s else s);
             s = put_fields L [(''nULType'', 0), (''nRBBundleSize'', 0), (''nPMI'', 0), (''nTransmissionScheme'', 0), (''rsv1'', 0),
                   (''nNrOfAntennaPorts'', 1), (''nNrofRxRU'', 1)] s
         in Done (s, info, count_iapi_p7 Ul_pusch_pdus_cnt inst)))))"

section \<open>PUCCH and SRS\<close>

definition nr5g_fapi_pucch_to_phy_ulcch_uci_translation ::
    "p7_api \<Rightarrow> fapi_ul_pucch_pdu \<Rightarrow> nr5g_fapi_phy_instance \<Rightarrow> struct \<times> (u32 \<times> u8) \<times> nr5g_fapi_phy_instance" where
  "nr5g_fapi_pucch_to_phy_ulcch_uci_translation a p inst =
     (let L = ulcch_l a; inst = count_fapi_p7 Ul_pucch_pdus_cnt inst;
          s = put_fields L [(''nRNTI'', uint (pc_rnti p)), (''nUEId'', uint (ucast (pc_handle p) :: u16)),
                (''nBWPSize'', uint (pc_bwpSize p)), (''nBWPStart'', uint (pc_bwpStart p)),
                (''nSubcSpacing'', uint (pc_subCarrierSpacing p)), (''nCpType'', uint (pc_cyclicPrefix p)),
                (''nFormat'', uint (pc_formatType p)), (''modType'', if pc_pi2Bpsk p \<noteq> 0 then 1 else 2),
                (''nStartPRB'', uint (pc_prbStart p)), (''nPRBs'', uint (pc_prbSize p)),
                (''nStartSymbolx'', uint (pc_startSymbolIndex p)), (''nSymbols'', uint (pc_nrOfSymbols p)),
                (''nFreqHopFlag'', uint (pc_freqHopFlag p)), (''n2ndHopPRB'', uint (pc_secondHopPrb p)),
                (''nM0'', uint (pc_initialCyclicShift p)), (''nID'', uint (pc_dataScramblingId p)),
                (''nFmt1OrthCCodeIdx'', uint (pc_timeDomainOccIdx p)), (''nFmt4OrthCCodeIdx'', uint (pc_preDftOccIdx p)),
                (''nFmt4OrthCCodeLength'', uint (pc_preDftOccLen p)), (''nAddDmrsFlag'', uint (pc_addDmrsFlag p)),
                (''nScramID'', uint (pc_dmrsScramblingId p)), (''nSRPriodAriv'', uint (pc_srFlag p)),
                (''nBitLenUci'', uint (pc_bitLenHarq p)), (''nNrofRxRU'', 1)] zero_struct
      in (s, (word_of_int (s ''nUEId'' 0), field_u8 s ''nFormat''), count_iapi_p7 Ul_pucch_pdus_cnt inst))"

definition nr5g_fapi_srs_to_phy_srs_translation ::
    "p7_api \<Rightarrow> fapi_ul_srs_pdu \<Rightarrow> nr5g_fapi_phy_instance \<Rightarrow> struct \<times> u32 \<times> nr5g_fapi_phy_instance" where
  "nr5g_fapi_srs_to_phy_srs_translation a p inst =
     (let L = srs_l a; inst = count_fapi_p7 Ul_srs_pdus_cnt inst;
          s = put_fields L [(''nRNTI'', uint (sr_rnti p)), (''nUEId'', uint (ucast (sr_handle p) :: u16)),
                (''nSubcSpacing'', uint (sr_subCarrierSpacing p)), (''nCpType'', uint (sr_cyclicPrefix p))] zero_struct;
          hnd = word_of_int (s ''nUEId'' 0);
          s = put_double L ''nRepetition'' (2 ^ unat (sr_numRepetitions p))
             (put_double L ''nNrOfSymbols'' (2 ^ unat (sr_numSymbols p))
             (put_double L ''nNrOfSrsPorts'' (2 ^ unat (sr_numAntPorts p)) s));
          s = put_fields L [(''nStartPos'', (if s ''nCpType'' 0 \<noteq> 0 then 11 else 13) - uint (sr_timeStartPosition p)),
                (''nCsrs'', uint (sr_configIndex p)), (''nBsrs'', uint (sr_bandwidthIndex p)), (''nSrsId'', uint (sr_sequenceId p)),
                (''nComb'', if sr_combSize p \<noteq> 0 then 4 else 2), (''nCombOffset'', uint (sr_combOffset p)),
                (''nCyclicShift'', uint (sr_cyclicShift p)), (''nFreqPos'', uint (sr_frequencyPosition p)),
                (''nFreqShift'', uint (sr_frequencyShift p)), (''nBHop'', uint (sr_frequencyHopping p)),
                (''nHopping'', uint (sr_groupOrSequenceHopping p)), (''nResourceType'', uint (sr_resourceType p)),
                (''nTsrs'', uint (sr_tSrs p)), (''nToffset'', uint (sr_tOffset p)), (''nNrofRxRU'', 1)] s
      in (s, hnd, count_iapi_p7 Ul_srs_pdus_cnt inst))"

section \<open>The request\<close>

definition ul_table :: "bool \<Rightarrow> nat" where "ul_table is_urllc = (if is_urllc then 1 else 0)"

definition get_slot :: "bool \<Rightarrow> nat \<times> nat \<Rightarrow> nr5g_fapi_phy_instance \<Rightarrow> nr5g_fapi_ul_slot_info" where
  "get_slot u ij p = ul_slot_info p ! ul_table u ! fst ij ! snd ij"

definition upd_slot :: "bool \<Rightarrow> nat \<times> nat \<Rightarrow> (nr5g_fapi_ul_slot_info \<Rightarrow> nr5g_fapi_ul_slot_info) \<Rightarrow> nr5g_fapi_phy_instance \<Rightarrow> nr5g_fapi_phy_instance" where
  "upd_slot u ij f p = p\<lparr>ul_slot_info := (ul_slot_info p)[ul_table u := (ul_slot_info p ! ul_table u)
     [fst ij := (ul_slot_info p ! ul_table u ! fst ij)[snd ij := f (get_slot u ij p)]]]\<rparr>"

definition ul_pdu_size :: "p7_api \<Rightarrow> ul_pdu \<Rightarrow> nat" where
  "ul_pdu_size a x = RUP32B a (lsize (case x of Ulsch_pdu _ \<Rightarrow> ulsch_l a | Ulcch_pdu _ \<Rightarrow> ulcch_l a | Srs_pdu _ \<Rightarrow> srs_l a))"

definition add_ul_pdu :: "p7_api \<Rightarrow> ul_pdu \<Rightarrow> ul_config \<Rightarrow> ul_config outcome" where
  "add_ul_pdu a x c = (if sum_list (map (ul_pdu_size a) (uc_pdus c @ [x])) \<le> ul_room a
     then Done (c\<lparr>uc_pdus := uc_pdus c @ [x]\<rparr>) else Undefined)"

definition put_ul_field :: "p7_api \<Rightarrow> string \<Rightarrow> int \<Rightarrow> ul_config \<Rightarrow> ul_config" where
  "put_ul_field a f v c = c\<lparr>uc_fields := put_field (ulcfg_l a) f v (uc_fields c)\<rparr>"

definition symbol_of_request :: "bool \<Rightarrow> fapi_vendor_p7_msg option \<Rightarrow> ul_config \<Rightarrow> (u8 \<times> ul_config) option" where
  "symbol_of_request is_urllc vm c =
     (if is_urllc then
        case vm of None \<Rightarrow> None
        | Some v \<Rightarrow> let c = c\<lparr>uc_slot := (uc_slot c)\<lparr>nSym := ucast (v7_ul_sym v)\<rparr>\<rparr> in Some (ucast (nSym (uc_slot c)), c)
      else Some (0, c))"

fun group_ue_loop :: "layout \<Rightarrow> u8 list \<Rightarrow> nat list \<Rightarrow> struct \<Rightarrow> struct outcome" where
  "group_ue_loop L idx [] g = Done g"
| "group_ue_loop L idx (j # js) g =
     (if j < length idx then obind (put_elem L ''nPduIdx'' j (uint (idx ! j)) g) (group_ue_loop L idx js) else Undefined)"

fun ul_group_loop :: "p7_api \<Rightarrow> fapi_ue_info list \<Rightarrow> nat list \<Rightarrow> ul_config \<Rightarrow> ul_config outcome" where
  "ul_group_loop a grps [] c = Done c"
| "ul_group_loop a grps (i # is) c =
     (if i < max_pusch_groups a \<and> i < length grps then
        let g = put_field (ulgrp_l a) ''nUE'' (uint (ue_nUe (grps ! i))) (uc_groups c i);
            num_ue = unat (field_u8 g ''nUE'')
        in obind (group_ue_loop (ulgrp_l a) (ue_pduIdx (grps ! i)) [0..<num_ue] g) (\<lambda>g.
           ul_group_loop a grps is (c\<lparr>uc_groups := (uc_groups c)(i := g)\<rparr>))
      else Undefined)"

text \<open>One PDU; the flag is false when its type is unknown.\<close>

definition ul_pusch :: "p7_api \<Rightarrow> bool \<Rightarrow> nat \<times> nat \<Rightarrow> fapi_ul_pusch_pdu \<Rightarrow> ul_config \<Rightarrow> nr5g_fapi_phy_instance \<Rightarrow> (ul_config \<times> nr5g_fapi_phy_instance) outcome" where
  "ul_pusch a u ij x c p =
     (let r = get_slot u ij p; k = unat (num_ulsch r)
      in if k < length (pusch_infos r) then
           obind (nr5g_fapi_pusch_to_phy_ulsch_translation a x (pusch_infos r ! k) p) (\<lambda>(s, info, p).
           obind (add_ul_pdu a (Ulsch_pdu s) c) (\<lambda>c.
           Done (c, upd_slot u ij (\<lambda>r. r\<lparr>pusch_infos := (pusch_infos r)[k := info], num_ulsch := num_ulsch r + 1\<rparr>) p)))
         else Undefined)"

definition ul_pucch :: "p7_api \<Rightarrow> bool \<Rightarrow> nat \<times> nat \<Rightarrow> fapi_ul_pucch_pdu \<Rightarrow> ul_config \<Rightarrow> nr5g_fapi_phy_instance \<Rightarrow> (ul_config \<times> nr5g_fapi_phy_instance) outcome" where
  "ul_pucch a u ij x c p =
     (let r = get_slot u ij p; k = unat (num_ulcch r)
      in if k < length (pucch_infos r) then
           (case nr5g_fapi_pucch_to_phy_ulcch_uci_translation a x p of (s, info, p) \<Rightarrow>
           obind (add_ul_pdu a (Ulcch_pdu s) c) (\<lambda>c.
           Done (c, upd_slot u ij (\<lambda>r. r\<lparr>pucch_infos := (pucch_infos r)[k := info], num_ulcch := num_ulcch r + 1\<rparr>) p)))
         else Undefined)"

definition ul_srs :: "p7_api \<Rightarrow> bool \<Rightarrow> nat \<times> nat \<Rightarrow> fapi_ul_srs_pdu \<Rightarrow> ul_config \<Rightarrow> nr5g_fapi_phy_instance \<Rightarrow> (ul_config \<times> nr5g_fapi_phy_instance) outcome" where
  "ul_srs a u ij x c p =
     (let r = get_slot u ij p; k = unat (num_srs r); c = put_ul_field a ''nUlsrs'' (uc_fields c ''nUlsrs'' 0 + 1) c
      in if k < length (srs_handles r) then
           (case nr5g_fapi_srs_to_phy_srs_translation a x p of (s, hnd, p) \<Rightarrow>
           obind (add_ul_pdu a (Srs_pdu s) c) (\<lambda>c.
           Done (c, upd_slot u ij (\<lambda>r. r\<lparr>srs_handles := (srs_handles r)[k := hnd], num_srs := num_srs r + 1\<rparr>) p)))
         else Undefined)"

fun ul_pdu_loop :: "p7_api \<Rightarrow> bool \<Rightarrow> nat \<times> nat \<Rightarrow> fapi_ul_tti_req_pdu list \<Rightarrow> nat list \<Rightarrow> ul_config \<Rightarrow> nr5g_fapi_phy_instance
    \<Rightarrow> (bool \<times> ul_config \<times> nr5g_fapi_phy_instance) outcome" where
  "ul_pdu_loop a u ij pdus [] c p = Done (True, c, p)"
| "ul_pdu_loop a u ij pdus (i # is) c p =
     (if i < length pdus then
        let p = count_fapi_p7 Ul_pdus_cnt p; next_pdu = (\<lambda>(c, p). ul_pdu_loop a u ij pdus is c (count_iapi_p7 Ul_pdus_cnt p))
        in case pdus ! i of
             Prach_pdu \<Rightarrow> next_pdu (put_ul_field a ''nPDU'' (uc_fields c ''nPDU'' 0 - 1) c, count_fapi_p7 Ul_prach_pdus_cnt p)
           | Pusch_pdu x \<Rightarrow> obind (ul_pusch a u ij x c p) next_pdu
           | Pucch_pdu x \<Rightarrow> obind (ul_pucch a u ij x c p) next_pdu
           | Srs_req_pdu x \<Rightarrow> obind (ul_srs a u ij x c p) next_pdu
           | Unknown_ul_pdu _ \<Rightarrow> Done (False, c, p)
      else Undefined)"

text \<open>The vendor message has its PDUs at the index of the PDU for the PHY.\<close>

definition vendor_ul_pdu :: "p7_api \<Rightarrow> fapi_vendor_ul_pdu \<Rightarrow> ul_pdu \<Rightarrow> ul_pdu" where
  "vendor_ul_pdu a v x =
     (case x of
        Ulsch_pdu s \<Rightarrow> Ulsch_pdu (copy_bytes (ulsch_l a) ''nRxRUIdx'' (vu_ru_idx v)
          (put_fields (ulsch_l a) [(''nNrOfAntennaPorts'', uint (vu_byte0 v)), (''nNrofRxRU'', uint (vu_byte1 v))] s))
      | Ulcch_pdu s \<Rightarrow> Ulcch_pdu (copy_bytes (ulcch_l a) ''nRxRUIdx'' (vu_ru_idx v)
          (put_fields (ulcch_l a) [(''nNrofRxRU'', uint (vu_byte0 v)), (''nGroupId'', uint (vu_half1 v))] s))
      | Srs_pdu s \<Rightarrow> Srs_pdu (copy_bytes (srs_l a) ''nRxRUIdx'' (vu_ru_idx v)
          (put_field (srs_l a) ''nNrofRxRU'' (uint (vu_byte0 v)) s)))"

fun vendor_ul_loop :: "p7_api \<Rightarrow> fapi_vendor_ul_pdu list \<Rightarrow> nat list \<Rightarrow> ul_pdu list \<Rightarrow> ul_pdu list outcome" where
  "vendor_ul_loop a vs [] xs = Done xs"
| "vendor_ul_loop a vs (i # is) xs =
     (if i < length vs \<and> i < length xs then vendor_ul_loop a vs is (xs[i := vendor_ul_pdu a (vs ! i) (xs ! i)]) else Undefined)"

definition nr5g_fapi_ul_tti_req_to_phy_translation_vendor_ext :: "p7_api \<Rightarrow> fapi_vendor_p7_msg \<Rightarrow> ul_config \<Rightarrow> ul_config outcome" where
  "nr5g_fapi_ul_tti_req_to_phy_translation_vendor_ext a v c =
     obind (vendor_ul_loop a (v7_ul_pdus v) [0..<nat (uc_fields c ''nPDU'' 0)] (uc_pdus c)) (\<lambda>xs. Done (c\<lparr>uc_pdus := xs\<rparr>))"

text \<open>The structure for the PHY is the argument \<open>c\<close>; the flag is false for \<open>FAILURE\<close>.\<close>

definition nr5g_fapi_ul_tti_req_to_phy_translation ::
    "p7_api \<Rightarrow> bool \<Rightarrow> fapi_ul_tti_req \<Rightarrow> fapi_vendor_p7_msg option \<Rightarrow> ul_config \<Rightarrow> nr5g_fapi_phy_instance
     \<Rightarrow> (bool \<times> ul_config \<times> nr5g_fapi_phy_instance) outcome" where
  "nr5g_fapi_ul_tti_req_to_phy_translation a is_urllc req vm c p =
     (let c = c\<lparr>uc_slot := (uc_slot c)\<lparr>nSFN := ut_sfn req, nSlot := ut_slot req, nCarrier := ucast (phy_id p)\<rparr>\<rparr>;
          frame_no = nSFN (uc_slot c); slot = ucast (nSlot (uc_slot c)) :: u8
      in case symbol_of_request is_urllc vm c of None \<Rightarrow> Done (False, c, p) | Some (symb, c) \<Rightarrow>
         let ij = (unat slot mod MAX_UL_SLOT_INFO_COUNT, unat symb mod MAX_UL_SYMBOL_INFO_COUNT);
             p = upd_slot is_urllc ij (\<lambda>_. nr5g_fapi_set_ul_slot_info frame_no (ucast slot) symb) p;
             c = put_ul_field a ''nPDU'' (uint (ut_nPdus req)) c; num_fapi_pdus = unat (field_u8 (uc_fields c) ''nPDU'');
             c = put_ul_field a ''nGroup'' (uint (ut_nGroup req)) c; num_groups = unat (field_u8 (uc_fields c) ''nGroup'');
             c = put_ul_field a ''nUlsch'' (uint (ut_nUlsch req)) c;
             c = put_ul_field a ''nUlcch'' (uint (ut_nUlcch req)) c;
             c = put_ul_field a ''nRachPresent'' (uint (ut_rachPresent req)) c;
             p = (if ut_rachPresent req \<noteq> 0
                  then upd_slot is_urllc ij (\<lambda>r. r\<lparr>rach_presence := 1, rach_phy_cell_id := phy_cell_id (inst_config p)\<rparr>) p else p);
             c = put_ul_field a ''nUlsrs'' 0 c
         in obind (ul_group_loop a (ut_ueGrpInfo req) [0..<num_groups] c) (\<lambda>c.
            obind (ul_pdu_loop a is_urllc ij (ut_pdus req) [0..<num_fapi_pdus] c p) (\<lambda>(ok, c, p).
            if \<not> ok then Done (False, c, p)
            else case vm of None \<Rightarrow> Done (True, c, p)
              | Some v \<Rightarrow> obind (nr5g_fapi_ul_tti_req_to_phy_translation_vendor_ext a v c) (\<lambda>c. Done (True, c, p)))))"

end
