(* ===== verification/Fapi_P7_Ind.thy ===== *)
theory Fapi_P7_Ind
  imports Fapi_P7_Ul
begin

unbundle bit_operations_syntax

text \<open>
  The translation of the indications of a slot (\<open>fapi_5g/source/api/fapi2mac/p7\<close>,
  \<open>utils/nr5g_fapi_snr_conversion.c\<close>): the PHY names a UE by 16 bits, the MAC gets the handle and the HARQ
  process that the record of the slot has for it.

  A translation goes through the entries of the message of the PHY.  Its flag is false for
  \<open>FAILURE\<close>; then the record, the counters and the vendor message keep what was done so far.  The
  number of entries is read with 8 bits.  \<open>DEBUG_MODE\<close> is not defined.
\<close>

section \<open>SNR\<close>

definition nr5g_fapi_convert_snr_iapi_to_fapi :: "p7_api \<Rightarrow> 16 word \<Rightarrow> u8" where
  "nr5g_fapi_convert_snr_iapi_to_fapi a snr =
     (let step = SINR_STEP_SIZE a
      in if sint snr < 0 then 2 * (double_to_u8 a (sint snr div step) AND 0x3F)
         else 2 * (double_to_u8 a (- ((- sint snr) div step)) AND 0x3F) + 128)"

section \<open>UEs of a slot\<close>

definition nr5g_fapi_get_pusch_info :: "u16 \<Rightarrow> nr5g_fapi_ul_slot_info \<Rightarrow> nat option" where
  "nr5g_fapi_get_pusch_info ue r = List.find (\<lambda>i. pusch_handle (pusch_infos r ! i) = ucast ue) [0..<unat (num_ulsch r)]"

definition nr5g_fapi_get_pucch_info :: "u16 \<Rightarrow> nr5g_fapi_ul_slot_info \<Rightarrow> nat option" where
  "nr5g_fapi_get_pucch_info ue r = List.find (\<lambda>i. fst (pucch_infos r ! i) = ucast ue) [0..<unat (num_ulcch r)]"

definition nr5g_fapi_get_srs_info :: "u16 \<Rightarrow> nr5g_fapi_ul_slot_info \<Rightarrow> nat option" where
  "nr5g_fapi_get_srs_info ue r = List.find (\<lambda>i. srs_handles r ! i = ucast ue) [0..<unat (num_srs r)]"

definition num_entries :: "'a list \<Rightarrow> nat" where "num_entries xs = unat (of_nat (length xs) :: u8)"

text \<open>The loop over the entries: an entry gives the one for the MAC, or \<open>None\<close> to return \<open>FAILURE\<close>.\<close>

fun entry_loop :: "nat \<Rightarrow> (nat \<Rightarrow> 's \<Rightarrow> ('e option \<times> 's) outcome) \<Rightarrow> nat list \<Rightarrow> 's \<Rightarrow> (bool \<times> 'e list \<times> 's) outcome" where
  "entry_loop room f [] s = Done (True, [], s)"
| "entry_loop room f (i # is) s =
     (if i < room then
        obind (f i s) (\<lambda>(e, s).
        case e of None \<Rightarrow> Done (False, [], s)
        | Some e \<Rightarrow> obind (entry_loop room f is s) (\<lambda>(ok, es, s). Done (ok, e # es, s)))
      else Undefined)"

type_synonym ind_state = "fapi_vendor_p7_ind option \<times> nr5g_fapi_phy_instance"

section \<open>CRC.indication\<close>

definition crc_entry :: "p7_api \<Rightarrow> bool \<Rightarrow> nat \<times> nat \<Rightarrow> ul_crc list \<Rightarrow> nat \<Rightarrow> ind_state \<Rightarrow> (fapi_crc_ind_info option \<times> ind_state) outcome" where
  "crc_entry a u ij crcs i = (\<lambda>(v, p).
     let p = count_iapi_p7 Crc_pdus_cnt p; x = crcs ! i
     in case nr5g_fapi_get_pusch_info (uq_nUEId x) (get_slot u ij p) of
          None \<Rightarrow> Done (None, v, p)
        | Some k \<Rightarrow>
            let info = pusch_infos (get_slot u ij p) ! k;
                e = \<lparr>ci_handle = pusch_handle info, ci_rnti = uq_nRNTI x, ci_harqId = harq_process_id info,
                     ci_tbCrcStatus = (if uq_nCrcFlag x = 0 then 1 else 0),
                     ci_ul_cqi = nr5g_fapi_convert_snr_iapi_to_fapi a (uq_nSNR x), ci_numCb = 0,
                     ci_timingAdvance = 31, ci_rssi = 880\<rparr>;
                v = map_option (\<lambda>v. v\<lparr>vi_crc_snr := (vi_crc_snr v)(i := Some (uq_nSNR x))\<rparr>) v;
                p = upd_slot u ij (\<lambda>r. r\<lparr>pusch_infos := (pusch_infos r)[k := info\<lparr>ul_cqi := ci_ul_cqi e, timing_advance := 31\<rparr>]\<rparr>) p
            in Done (Some e, v, count_fapi_p7 Crc_pdus_cnt p))"

definition nr5g_fapi_crc_indication_to_fapi_translation ::
    "p7_api \<Rightarrow> bool \<Rightarrow> sfn_slot \<Rightarrow> ul_crc list \<Rightarrow> ind_state \<Rightarrow> (bool \<times> fapi_crc_ind_info list \<times> ind_state) outcome" where
  "nr5g_fapi_crc_indication_to_fapi_translation a u ss crcs = (\<lambda>(v, p).
     case nr5g_fapi_get_ul_slot_info u (nSFN ss) (nSlot ss) (ucast (nSym ss)) p of
       None \<Rightarrow> Done (False, [], v, p)
     | Some ij \<Rightarrow> entry_loop FAPI_MAX_NUMBER_OF_CRCS_PER_SLOT (crc_entry a u ij crcs) [0..<num_entries crcs] (v, p))"

section \<open>RX_DATA.indication\<close>

text \<open>The length has 20 bits; the upper 4 travel in the upper half of the HARQ process.\<close>

definition rx_entry :: "bool \<Rightarrow> nat \<times> nat \<Rightarrow> ulsch_data list \<Rightarrow> nat \<Rightarrow> ind_state \<Rightarrow> (fapi_pdu_ind_info option \<times> ind_state) outcome" where
  "rx_entry u ij pdus i = (\<lambda>(v, p).
     let p = count_iapi_p7 Rx_data_pdus_cnt p; x = pdus ! i
     in case nr5g_fapi_get_pusch_info (ux_nUEId x) (get_slot u ij p) of
          None \<Rightarrow> Done (None, v, p)
        | Some k \<Rightarrow>
            let info = pusch_infos (get_slot u ij p) ! k;
                e = \<lparr>rx_handle = pusch_handle info, rx_rnti = ux_nRNTI x,
                     rx_harqId = ucast (drop_bit 12 (ux_nPduLen x AND 0x000F0000)) OR (harq_process_id info AND 0x0F),
                     rx_ul_cqi = ul_cqi info, rx_timingAdvance = timing_advance info, rx_rssi = 880,
                     rx_pdu_length = ucast (0xFFFF AND ux_nPduLen x), rx_pduData = ux_pPayload x\<rparr>
            in Done (Some e, v, count_fapi_p7 Rx_data_pdus_cnt p))"

definition nr5g_fapi_rx_data_indication_to_fapi_translation ::
    "bool \<Rightarrow> sfn_slot \<Rightarrow> ulsch_data list \<Rightarrow> ind_state \<Rightarrow> (bool \<times> fapi_pdu_ind_info list \<times> ind_state) outcome" where
  "nr5g_fapi_rx_data_indication_to_fapi_translation u ss pdus = (\<lambda>(v, p).
     case nr5g_fapi_get_ul_slot_info u (nSFN ss) (nSlot ss) (ucast (nSym ss)) p of
       None \<Rightarrow> Done (False, [], v, p)
     | Some ij \<Rightarrow> entry_loop FAPI_MAX_NUMBER_OF_ULSCH_PDUS_PER_SLOT (rx_entry u ij pdus) [0..<num_entries pdus] (v, p))"

section \<open>UCI.indication\<close>

text \<open>The values are copied without a look at the two that the array has.\<close>

definition nr5g_fapi_fill_uci_format_0_1 :: "p7_api \<Rightarrow> u32 \<times> u8 \<Rightarrow> ul_uci_data \<Rightarrow> fapi_uci_o_pucch_f0f1 outcome" where
  "nr5g_fapi_fill_uci_format_0_1 a info x =
     (let sr = (ui_nSRPresent x \<noteq> 0); detected = (ui_pucchDetected x = 1);
          num_harq = (if detected then unat (ucast (ui_nPduBitLen x) :: u8) else 0)
      in if num_harq \<le> FAPI_MAX_NUMBER_OF_HARQS_PER_IND \<and> num_harq \<le> length (ui_nUciBits x) then
           Done \<lparr>uf_handle = fst info, uf_pduBitmap = (if sr then 1 else 0) OR (if detected then 2 else 0),
             uf_pucchFormat = snd info, uf_ul_cqi = nr5g_fapi_convert_snr_iapi_to_fapi a (ui_nSNR x), uf_rnti = ui_nRNTI x,
             uf_timingAdvance = 31, uf_rssi = (if detected then 880 else 0),
             uf_srIndication = (if sr then 1 else 0), uf_srConfidenceLevel = (if sr then 0xFF else 0),
             uf_numHarq = of_nat num_harq, uf_harqConfidenceLevel = (if detected then 0xFF else 0),
             uf_harqValue = take num_harq (ui_nUciBits x) @ replicate (FAPI_MAX_NUMBER_OF_HARQS_PER_IND - num_harq) 0\<rparr>
         else Undefined)"

definition nr5g_fapi_fill_uci_format_2_3_4 :: "p7_api \<Rightarrow> u32 \<times> u8 \<Rightarrow> ul_uci_data \<Rightarrow> fapi_uci_o_pucch_f2f3f4 outcome" where
  "nr5g_fapi_fill_uci_format_2_3_4 a info x =
     (let detected = (ui_pucchDetected x = 1); bits = 0 < ui_nPduBitLen x
      in if bits \<and> length (ui_nUciBits x) < FAPI_MAX_UCI_BIT_BYTE_LEN then Undefined
         else Done \<lparr>ug_handle = fst info,
           ug_pduBitmap = (if ui_nSRPresent x \<noteq> 0 then 1 else 0) OR (if detected then 2 else 0),
           ug_pucchFormat = snd info, ug_ul_cqi = nr5g_fapi_convert_snr_iapi_to_fapi a (ui_nSNR x), ug_rnti = ui_nRNTI x,
           ug_timingAdvance = 31, ug_rssi = (if detected then 880 else 0), ug_num_uci_bits = ui_nPduBitLen x,
           ug_uciBits = (if bits then Some (take FAPI_MAX_UCI_BIT_BYTE_LEN (ui_nUciBits x)) else None)\<rparr>)"

definition uci_entry :: "p7_api \<Rightarrow> bool \<Rightarrow> nat \<times> nat \<Rightarrow> ul_uci_data list \<Rightarrow> nat \<Rightarrow> ind_state \<Rightarrow> (fapi_uci_pdu_info option \<times> ind_state) outcome" where
  "uci_entry a u ij ucis i = (\<lambda>(v, p).
     let p = count_iapi_p7 Uci_pdus_cnt p; x = ucis ! i
     in case nr5g_fapi_get_pucch_info (ui_nUEId x) (get_slot u ij p) of
          None \<Rightarrow> Done (None, v, p)
        | Some k \<Rightarrow>
            let info = pucch_infos (get_slot u ij p) ! k;
                v' = map_option (\<lambda>v. v\<lparr>vi_uci_snr := (vi_uci_snr v)(i := Some (ui_nSNR x))\<rparr>) v;
                p' = count_fapi_p7 Uci_pdus_cnt p
            in if snd info \<le> 1 then
                 obind (nr5g_fapi_fill_uci_format_0_1 a info x) (\<lambda>e. Done (Some (Uci_pucch_f0f1 e), v', p'))
               else if snd info \<le> 4 then
                 obind (nr5g_fapi_fill_uci_format_2_3_4 a info x) (\<lambda>e. Done (Some (Uci_pucch_f2f3f4 e), v', p'))
               else Done (None, v, p))"

definition nr5g_fapi_uci_indication_to_fapi_translation ::
    "p7_api \<Rightarrow> bool \<Rightarrow> sfn_slot \<Rightarrow> ul_uci_data list \<Rightarrow> ind_state \<Rightarrow> (bool \<times> fapi_uci_pdu_info list \<times> ind_state) outcome" where
  "nr5g_fapi_uci_indication_to_fapi_translation a u ss ucis = (\<lambda>(v, p).
     case nr5g_fapi_get_ul_slot_info u (nSFN ss) (nSlot ss) (ucast (nSym ss)) p of
       None \<Rightarrow> Done (False, [], v, p)
     | Some ij \<Rightarrow> entry_loop FAPI_MAX_NUMBER_UCI_PDUS_PER_SLOT (uci_entry a u ij ucis) [0..<num_entries ucis] (v, p))"

text \<open>UCI on PUSCH: the record of the slot is not asked.\<close>

definition uci_part :: "u8 \<Rightarrow> nat \<Rightarrow> u8 \<Rightarrow> u16 \<Rightarrow> u8 list \<Rightarrow> fapi_uci_part outcome" where
  "uci_part detected n crc len bs =
     (if detected = 0 then Done \<lparr>up_crc = 0, up_bitLen = 0, up_payload = replicate n 0\<rparr>
      else if n \<le> length bs then Done \<lparr>up_crc = crc, up_bitLen = len, up_payload = take n bs\<rparr> else Undefined)"

definition uci_pusch_entry :: "ulsch_uci_data list \<Rightarrow> nat \<Rightarrow> ind_state \<Rightarrow> (fapi_uci_pdu_info option \<times> ind_state) outcome" where
  "uci_pusch_entry ucis i = (\<lambda>(v, p).
     let p = count_iapi_p7 Uci_pdus_cnt p; x = ucis ! i
     in obind (uci_part (uu_nUciDetected x) FAPI_MAX_HARQ_INFO_LEN_BYTES (uu_nUciCrc x) (uu_nPduUciAckLen x) (uu_nUciAckBits x)) (\<lambda>harq.
        obind (uci_part (uu_nUciCsiP1Detected x) FAPI_MAX_CSI_PART1_DATA_BYTES (uu_nUciCsiP1Crc x) (uu_nPduUciCsiP1Len x) (uu_nUciCsiP1Bits x)) (\<lambda>p1.
        obind (uci_part (uu_nUciCsiP2Detected x) FAPI_MAX_CSI_PART2_DATA_BYTES (uu_nUciCsiP2Crc x) (uu_nPduUciCsiP2Len x) (uu_nUciCsiP2Bits x)) (\<lambda>p2.
        Done (Some (Uci_pusch \<lparr>uo_handle = ucast (uu_nUEId x),
            uo_pduBitmap = (if uu_nUciDetected x \<noteq> 0 then 2 else 0) OR (if uu_nUciCsiP1Detected x \<noteq> 0 then 4 else 0)
              OR (if uu_nUciCsiP2Detected x \<noteq> 0 then 8 else 0),
            uo_ul_cqi = 0xFF, uo_rnti = uu_nRNTI x, uo_timingAdvance = 0xFFFF, uo_rssi = 0xFFFF,
            uo_harqInfo = harq, uo_csiPart1info = p1, uo_csiPart2info = p2\<rparr>), v, count_fapi_p7 Uci_pdus_cnt p)))))"

definition nr5g_fapi_rx_data_uci_indication_to_fapi_translation ::
    "ulsch_uci_data list \<Rightarrow> ind_state \<Rightarrow> (bool \<times> fapi_uci_pdu_info list \<times> ind_state) outcome" where
  "nr5g_fapi_rx_data_uci_indication_to_fapi_translation ucis =
     entry_loop FAPI_MAX_NUMBER_UCI_PDUS_PER_SLOT (uci_pusch_entry ucis) [0..<num_entries ucis]"

section \<open>RACH.indication\<close>

text \<open>The PDUs are an array, which starts as what stood in the block.  The search goes over its first
  \<open>num_pdus\<close> entries, but a new entry is made at the index of its preamble.\<close>

definition nr5g_fapi_start_slot_freq_idx_occ :: "u8 \<Rightarrow> u8 \<Rightarrow> u8 \<Rightarrow> nat \<Rightarrow> fapi_rach_pdu list \<Rightarrow> nat option" where
  "nr5g_fapi_start_slot_freq_idx_occ slot_index freq_index symbol_index num_pdus rach =
     List.find (\<lambda>i. slot_index = ra_slotIndex (rach ! i) \<and> freq_index = ra_freqIndex (rach ! i) \<and> symbol_index = ra_symbolIndex (rach ! i))
       [0..<num_pdus]"

definition add_preamble :: "preamble \<Rightarrow> fapi_rach_pdu \<Rightarrow> fapi_rach_pdu outcome" where
  "add_preamble x r =
     (if unat (ra_numPreamble r) < length (ra_preambleInfo r) then
        Done (r\<lparr>ra_numPreamble := ra_numPreamble r + 1, ra_preambleInfo := (ra_preambleInfo r)[unat (ra_numPreamble r) :=
          \<lparr>ra_preambleIndex = pr_nPreambIdx x, ra_timingAdvance = pr_nTa x, ra_preamblePwr = pr_nPreambPwr x\<rparr>]\<rparr>)
      else Undefined)"

definition new_rach_pdu :: "u16 \<Rightarrow> preamble \<Rightarrow> fapi_rach_pdu \<Rightarrow> fapi_rach_pdu" where
  "new_rach_pdu cell x r = r\<lparr>ra_phyCellId := cell, ra_numPreamble := 0, ra_symbolIndex := pr_nStartSymbIdx x,
     ra_slotIndex := pr_nStartSlotdx x, ra_freqIndex := pr_nFreqIdx x, ra_avgRssi := 0xFF, ra_avgSnr := 0xFF\<rparr>"

type_synonym rach_state = "nat \<times> fapi_rach_pdu list \<times> nr5g_fapi_phy_instance"

definition rach_step :: "u16 \<Rightarrow> nat \<Rightarrow> preamble \<Rightarrow> rach_state \<Rightarrow> rach_state outcome" where
  "rach_step cell i x = (\<lambda>(num_pdus, rach, p).
     let p = count_iapi_p7 Rach_pdus_cnt p
     in if num_pdus \<le> length rach then
          (case nr5g_fapi_start_slot_freq_idx_occ (pr_nStartSlotdx x) (pr_nFreqIdx x) (pr_nStartSymbIdx x) num_pdus rach of
             None \<Rightarrow>
               if i < length rach then
                 obind (add_preamble x (new_rach_pdu cell x (rach ! i))) (\<lambda>r.
                 Done (num_pdus + 1, rach[i := r], count_fapi_p7 Rach_pdus_cnt p))
               else Undefined
           | Some k \<Rightarrow> obind (add_preamble x (rach ! k)) (\<lambda>r. Done (num_pdus, rach[k := r], p)))
        else Undefined)"

fun rach_loop :: "u16 \<Rightarrow> nat \<Rightarrow> preamble list \<Rightarrow> rach_state \<Rightarrow> rach_state outcome" where
  "rach_loop cell i [] st = Done st"
| "rach_loop cell i (x # xs) st = obind (rach_step cell i x st) (rach_loop cell (i + 1) xs)"

definition nr5g_fapi_rach_indication_to_fapi_translation ::
    "bool \<Rightarrow> sfn_slot \<Rightarrow> preamble list \<Rightarrow> fapi_rach_pdu list \<Rightarrow> nr5g_fapi_phy_instance
     \<Rightarrow> (bool \<times> u8 \<times> fapi_rach_pdu list \<times> nr5g_fapi_phy_instance) outcome" where
  "nr5g_fapi_rach_indication_to_fapi_translation u ss xs rach p =
     (case nr5g_fapi_get_ul_slot_info u (nSFN ss) (nSlot ss) (ucast (nSym ss)) p of
        None \<Rightarrow> Done (False, 0, rach, p)
      | Some ij \<Rightarrow>
          if rach_presence (get_slot u ij p) = 0 then Done (False, 0, rach, p)
          else obind (rach_loop (rach_phy_cell_id (get_slot u ij p)) 0 (take (num_entries xs) xs) (0, rach, p)) (\<lambda>(n, rach, p).
               Done (True, of_nat n, rach, p)))"

section \<open>SRS.indication\<close>

definition c_div :: "int \<Rightarrow> int \<Rightarrow> int" where "c_div x y = (if x < 0 then - ((- x) div y) else x div y)"

definition snr_to_byte :: "8 word \<Rightarrow> u8" where "snr_to_byte x = word_of_int ((sint x + 64) * 2)"

fun sum_snr :: "int list \<Rightarrow> nat list \<Rightarrow> 16 word \<Rightarrow> 16 word outcome" where
  "sum_snr xs [] t = Done t"
| "sum_snr xs (j # js) t = (if j < length xs then sum_snr xs js (word_of_int (sint t + xs ! j)) else Undefined)"

fun rb_snrs :: "8 word list list \<Rightarrow> nat list \<Rightarrow> u8 list outcome" where
  "rb_snrs b [] = Done []"
| "rb_snrs b (k # ks) =
     (if k < FAPI_MAX_NUMBER_RBS \<and> k div 68 < length b \<and> k mod 68 < length (b ! (k div 68))
      then obind (rb_snrs b ks) (\<lambda>r. Done (snr_to_byte (b ! (k div 68) ! (k mod 68)) # r)) else Undefined)"

definition vendor_srs_pdu :: "ul_srs_est \<Rightarrow> fapi_vendor_ext_srs_pdu" where
  "vendor_srs_pdu x = \<lparr>vs_nr_of_port = ue_nNrOfPort x, vs_nr_of_rx_ant = ue_nNrOfRxAnt x, vs_nr_of_rbs = ue_nNrOfRbs x,
     vs_is_chan_est_pres = ue_nIsChanEstPres x,
     vs_srs_chan_est = (if length (ue_pSrsChanEst x) \<le> 128 then Some (ue_pSrsChanEst x) else None)\<rparr>"

definition srs_est_entry :: "bool \<Rightarrow> nat \<times> nat \<Rightarrow> ul_srs_est list \<Rightarrow> nat \<Rightarrow> ind_state \<Rightarrow> (fapi_srs_pdu option \<times> ind_state) outcome" where
  "srs_est_entry u ij srss i = (\<lambda>(v, p).
     let p = count_iapi_p7 Srs_pdus_cnt p; x = srss ! i
     in case nr5g_fapi_get_srs_info (ue_nUEId x) (get_slot u ij p) of
          None \<Rightarrow> Done (None, v, p)
        | Some k \<Rightarrow>
            obind (sum_snr (ue_nWideBandSNR x) [0..<unat (ue_nNrOfSymbols x)] 0) (\<lambda>t.
            if ue_nNrOfSymbols x = 0 then Undefined
            else let wideband_snr = word_of_int (c_div (sint t) (uint (ue_nNrOfSymbols x))) :: 8 word;
                     num_rbs = ue_nNrOfBlocks x * 4
                 in obind (rb_snrs (ue_nBlockSNR x) [0..<unat num_rbs]) (\<lambda>rbs.
                    let e = \<lparr>sp_handle = srs_handles (get_slot u ij p) ! k, sp_rnti = ue_nRNTI x, sp_timingAdvance = 0xFFFF,
                          sp_numSymbols = ue_nNrOfSymbols x, sp_wideBandSnr = snr_to_byte wideband_snr, sp_numReportedSymbols = 1,
                          sp_numRbs = num_rbs, sp_rbSNR = rbs\<rparr>;
                        v = map_option (\<lambda>v. v\<lparr>vi_srs_num_pdus := Some (of_nat (length srss)),
                              vi_srs_pdus := (vi_srs_pdus v)(i := Some (vendor_srs_pdu x))\<rparr>) v
                    in Done (Some e, v, count_fapi_p7 Srs_pdus_cnt p))))"

definition nr5g_fapi_srs_indication_to_fapi_translation ::
    "bool \<Rightarrow> sfn_slot \<Rightarrow> ul_srs_est list \<Rightarrow> ind_state \<Rightarrow> (bool \<times> fapi_srs_pdu list \<times> ind_state) outcome" where
  "nr5g_fapi_srs_indication_to_fapi_translation u ss srss = (\<lambda>(v, p).
     case nr5g_fapi_get_ul_slot_info u (nSFN ss) (nSlot ss) (ucast (nSym ss)) p of
       None \<Rightarrow> Done (False, [], v, p)
     | Some ij \<Rightarrow> entry_loop FAPI_MAX_NUMBER_SRS_PDUS_PER_SLOT (srs_est_entry u ij srss) [0..<num_entries srss] (v, p))"

end
