(* ===== verification/Fapi_P7_Dl.thy ===== *)
theory Fapi_P7_Dl
  imports Fapi_P7_Rbg Fapi_P7_Struct Fapi_Queues
begin

unbundle bit_operations_syntax

text \<open>
  The translation of DL_TTI.request, UL_DCI.request and TX_DATA.request
  (\<open>fapi_5g/source/api/fapi2phy/p7/nr5g_fapi_proc_dl_tti_req.c\<close>, \<open>nr5g_fapi_proc_ul_dci_req.c\<close>,
  \<open>nr5g_fapi_proc_tx_data_req.c\<close>).
\<close>

section \<open>Powers\<close>

definition nr5g_fapi_calculate_nEpreRatioOfPDCCHToSSB :: "u8 \<Rightarrow> u16" where
  "nr5g_fapi_calculate_nEpreRatioOfPDCCHToSSB beta =
     (if 0 < beta \<and> beta \<le> 2 then 1 else if 1 < beta \<and> beta < 17 then (ucast beta - 2) * 1000
      else if beta = 17 then (ucast beta - 3) * 1000 else 0)"

definition nr5g_fapi_calculate_nEpreRatioOfDmrsToSSB :: "u8 \<Rightarrow> u16" where
  "nr5g_fapi_calculate_nEpreRatioOfDmrsToSSB off =
     (if off = 0 then 3000 else if off = 1 then 6000 else if off = 2 then 9000 else if off = 3 then 12000 else 0)"

definition power_control_offset_to_epre_ratio :: "u16 list" where
  "power_control_offset_to_epre_ratio =
     [1, 1, 1, 1000, 2000, 3000, 4000, 5000, 6000, 7000, 8000, 9000, 10000, 11000, 12000, 13000,
      14000, 15000, 16000, 17000, 18000, 19000, 20000, 20000]"

definition nr5g_fapi_calculate_nEpreRatioOfPDSCHToSSB :: "u8 \<Rightarrow> u16" where
  "nr5g_fapi_calculate_nEpreRatioOfPDSCHToSSB off =
     (if unat off < 24 then power_control_offset_to_epre_ratio ! unat off else 0)"

text \<open>The quotient is truncated when it becomes a byte.\<close>

definition nr5g_fapi_calculate_nSSBPrbOffset :: "p7_api \<Rightarrow> u16 \<Rightarrow> u8 \<Rightarrow> u8" where
  "nr5g_fapi_calculate_nSSBPrbOffset a off sub_c =
     (let q = unat off div 2 ^ unat sub_c in if q < 256 then of_nat q else double_to_u8 a (int q))"

definition USE_VENDOR_EPREXSSB :: u8 where "USE_VENDOR_EPREXSSB = 1"

definition vendor_epre :: "nr5g_fapi_phy_instance \<Rightarrow> bool" where
  "vendor_epre p \<longleftrightarrow> use_vendor_EpreXSSB (inst_config p) = USE_VENDOR_EPREXSSB"

section \<open>PDUs of DL_TTI.request\<close>

text \<open>The frequency domain has six bytes; the DCI bits are copied with the length that the PHY has for
  them, which may read beyond the 32 bytes of the FAPI.\<close>

definition freq_word :: "u8 list \<Rightarrow> nat \<Rightarrow> u32" where
  "freq_word bs i = (if i = 0
     then ucast (bs ! 0) OR push_bit 8 (ucast (bs ! 1)) OR push_bit 16 (ucast (bs ! 2)) OR push_bit 24 (ucast (bs ! 3))
     else ucast (bs ! 4) OR push_bit 8 (ucast (bs ! 5)))"

definition copy_dci_bits :: "p7_api \<Rightarrow> u8 list \<Rightarrow> struct \<Rightarrow> struct outcome" where
  "copy_dci_bits a payload s =
     (if MAX_DCI_BIT_BYTE_LEN a \<le> length payload
      then Done (s(''nDciBits'' := lcopy (dci_l a) ''nDciBits'' (take (MAX_DCI_BIT_BYTE_LEN a) payload) (s ''nDciBits'')))
      else Undefined)"

definition put_dci_epre :: "p7_api \<Rightarrow> fapi_dl_dci \<Rightarrow> nr5g_fapi_phy_instance \<Rightarrow> struct \<Rightarrow> struct" where
  "put_dci_epre a d p s =
     (if vendor_epre p then s
      else put_fields (dci_l a)
        [(''nEpreRatioOfPDCCHToSSB'', uint (nr5g_fapi_calculate_nEpreRatioOfPDCCHToSSB (dd_beta_pdcch_1_0 d))),
         (''nEpreRatioOfDmrsToSSB'', uint (nr5g_fapi_calculate_nEpreRatioOfDmrsToSSB (dd_powerControlOffsetSS d)))] s)"

definition nr5g_fapi_fill_dci_pdu ::
    "p7_api \<Rightarrow> fapi_dl_pdcch_pdu \<Rightarrow> nr5g_fapi_phy_instance \<Rightarrow> (struct \<times> nr5g_fapi_phy_instance) outcome" where
  "nr5g_fapi_fill_dci_pdu a x p =
     (let L = dci_l a; d = cc_dlDci0 x; p = count_fapi_p7 Dl_pdcch_pdus_cnt p;
          s = put_fields L [(''nBWPSize'', uint (cc_bwpSize x)), (''nBWPStart'', uint (cc_bwpStart x)),
                (''nSubcSpacing'', uint (cc_subCarrierSpacing x)), (''nCpType'', uint (cc_cyclicPrefix x)),
                (''nCCEStartIndex'', uint (cc_startSymbolIndex x)), (''nNrOfSymbols'', uint (cc_durationSymbols x)),
                (''nStartSymbolIndex'', uint (cc_startSymbolIndex x))] zero_struct
      in obind (put_elems L [(''nFreqDomain'', 0, uint (freq_word (cc_freqDomainResource x) 0)),
                (''nFreqDomain'', 1, uint (freq_word (cc_freqDomainResource x) 1))] s) (\<lambda>s.
         let s = put_fields L [(''nCCEToREGType'', uint (cc_cceRegMappingType x)), (''nREGBundleSize'', uint (cc_regBundleSize x)),
                (''nInterleaveSize'', uint (cc_interleaverSize x)), (''nShift'', uint (cc_shiftIndex x)),
                (''nCoreSetType'', uint (cc_coreSetType x)), (''nCCEStartIndex'', uint (dd_cceIndex d)),
                (''nAggrLvl'', uint (dd_aggregationLevel d)), (''nScid'', uint (dd_scramblingId d)),
                (''nID'', uint (dd_scramblingId d)), (''nRNTIScramb'', uint (dd_scramblingRnti d)),
                (''nRNTI'', uint (dd_rnti d)), (''nTotalBits'', uint (dd_payloadSizeBits d))] s
         in obind (copy_dci_bits a (dd_payload d) (put_dci_epre a d p s)) (\<lambda>s.
            Done (s, count_iapi_p7 Dl_pdcch_pdus_cnt p))))"

text \<open>The condition is \<open>(dmrsPorts >> idx) && 1\<close>: it asks for a bit at \<open>idx\<close> or above.\<close>

fun dlsch_port_loop :: "p7_api \<Rightarrow> u16 \<Rightarrow> int \<Rightarrow> nat list \<Rightarrow> nat \<Rightarrow> struct \<Rightarrow> (nat \<times> struct) outcome" where
  "dlsch_port_loop a ports nr_of_layers [] port_index s = Done (port_index, s)"
| "dlsch_port_loop a ports nr_of_layers (i # is) port_index s =
     (if int port_index < nr_of_layers then
        if drop_bit i ports \<noteq> 0
        then obind (put_elem (dlsch_l a) ''nPortIndex'' port_index (int i) s) (dlsch_port_loop a ports nr_of_layers is (port_index + 1))
        else dlsch_port_loop a ports nr_of_layers is port_index s
      else Done (port_index, s))"

fun ptrs_ports :: "p7_api \<Rightarrow> nat list \<Rightarrow> struct \<Rightarrow> struct outcome" where
  "ptrs_ports a [] s = Done s"
| "ptrs_ports a (i # is) s = obind (put_elem (dlsch_l a) ''nPTRSPortIndex'' i (int i) s) (ptrs_ports a is)"

definition popcount :: "u8 \<Rightarrow> nat" where "popcount w = length (filter (bit w) [0..<8])"

definition nr5g_fapi_fill_pdsch_pdu ::
    "p7_api \<Rightarrow> fapi_dl_pdsch_pdu \<Rightarrow> nr5g_fapi_phy_instance \<Rightarrow> (struct \<times> nr5g_fapi_phy_instance) outcome" where
  "nr5g_fapi_fill_pdsch_pdu a x p =
     (let L = dlsch_l a; w0 = ds_cwInfo0 x; w1 = ds_cwInfo1 x; p = count_fapi_p7 Dl_pdsch_pdus_cnt p;
          s = put_fields L [(''nBWPSize'', uint (ds_bwpSize x)), (''nBWPStart'', uint (ds_bwpStart x)),
                (''nSubcSpacing'', uint (ds_subCarrierSpacing x)), (''nCpType'', uint (ds_cyclicPrefix x)),
                (''nRNTI'', uint (ds_rnti x)), (''nUEId'', uint (ds_pdu_index x)),
                (''nNrOfCodeWords'', uint (ds_nrOfCodeWords x)), (''nMcsTable'', uint (cw_mcsTable w0))] zero_struct;
          bwp_size = field_u16 s ''nBWPSize''; bwp_start = field_u16 s ''nBWPStart''
      in obind (put_elems L ([(''nMCS'', 0, uint (cw_mcsIndex w0)), (''nRV'', 0, uint (cw_rvIndex w0)), (''nTBSize'', 0, uint (cw_tbSize w0))] @
             (if ds_nrOfCodeWords x = 2
              then [(''nMCS'', 1, uint (cw_mcsIndex w1)), (''nRV'', 1, uint (cw_rvIndex w1)), (''nTBSize'', 1, uint (cw_tbSize w1))]
              else [])) s) (\<lambda>s.
         let s = put_field L ''nNrOfLayers'' (uint (ds_nrOfLayers x)) s;
             s = put_fields L [(''nNrOfAntennaPorts'', s ''nNrOfLayers'' 0), (''nTransmissionScheme'', uint (ds_transmissionScheme x)),
                (''nDMRSConfigType'', uint (ds_dmrsConfigType x)), (''nNIDnSCID'', uint (ds_dlDmrsScramblingId x)),
                (''nNid'', uint (ds_dataScramblingId x)), (''nSCID'', uint (ds_scid x))] s
         in obind (dlsch_port_loop a (ds_dmrsPorts x) (s ''nNrOfLayers'' 0) [0..<MAX_DL_PER_UE_DMRS_PORT_NUM a] 0 s) (\<lambda>(port_index, s).
         let s = put_field L ''nResourceAllocType'' (uint (ds_resourceAlloc x)) s
         in obind (if field_u8 s ''nResourceAllocType'' = 0 then
                let s = put_field L ''nRBGSize'' (uint (nr5g_fapi_calc_n_rbg_size bwp_size)) s
                in obind (nr5g_fapi_calc_pdsch_rbg_index (ds_rbBitmap x) bwp_start bwp_size) (\<lambda>r.
                   Done (put_field L ''nRBGIndex'' (uint r) s))
              else Done s) (\<lambda>s.
         let s = put_fields L [(''nRBStart'', uint (ds_rbStart x)), (''nRBSize'', uint (ds_rbSize x)),
                (''nPMI'', if 0 < ds_numPrgs x then uint (ds_pmIdx0 x) else 0), (''nVRBtoPRB'', uint (ds_vrbToPrbMapping x)),
                (''nStartSymbolIndex'', uint (ds_startSymbIndex x)), (''nNrOfSymbols'', uint (ds_nrOfSymbols x)),
                (''nNrOfCDMs'', uint (ds_numDmrsCdmGrpsNoData x)), (''nMappingType'', uint (ds_mappingType x)),
                (''nNrOfDMRSSymbols'', uint (ds_nrOfDmrsSymbols x)), (''nDMRSAddPos'', uint (ds_dmrsAddPos x)),
                (''nPTRSTimeDensity'', uint (ds_ptrsTimeDensity x)), (''nPTRSFreqDensity'', uint (ds_ptrsFreqDensity x)),
                (''nPTRSReOffset'', uint (ds_ptrsReOffset x)), (''nEpreRatioOfPDSCHToPTRS'', uint (ds_nEpreRatioOfPdschToPtrs x))] s;
             s = (if vendor_epre p then s
                  else put_fields L [(''nEpreRatioOfDmrsToSSB'', uint (nr5g_fapi_calculate_nEpreRatioOfDmrsToSSB (ds_powerControlOffsetSS x))),
                    (''nEpreRatioOfPDSCHToSSB'', uint (nr5g_fapi_calculate_nEpreRatioOfPDSCHToSSB (ds_powerControlOffset x)))] s);
             s = put_fields L [(''nPTRSPresent'', uint (ds_pduBitMap x AND 1)), (''nNrOfPTRSPorts'', int (popcount (ds_ptrsPortIndex x)))] s
         in obind (ptrs_ports a [0..<min (nat (s ''nNrOfPTRSPorts'' 0)) (MAX_DL_PER_UE_PTRS_PORT_NUM a)] s) (\<lambda>s.
            obind (put_elems L [(''nNrOfDMRSAssPTRS'', 0, 1), (''nNrOfDMRSAssPTRS'', 1, 1)] s) (\<lambda>s.
            Done (put_fields L [(''n1n2'', 0x201), (''nNrofTxRU'', int port_index)] s, count_iapi_p7 Dl_pdsch_pdus_cnt p)))))))"

definition nr5g_fapi_fill_ssb_pdu ::
    "p7_api \<Rightarrow> fapi_dl_ssb_pdu \<Rightarrow> nr5g_fapi_phy_instance \<Rightarrow> (struct \<times> nr5g_fapi_phy_instance) outcome" where
  "nr5g_fapi_fill_ssb_pdu a x p =
     (let b = (\<lambda>i. uint (ucast (drop_bit (8 * i) (sb_bchPayload x)) :: u8))
      in obind (put_elems (bch_l a) [(''nMIB'', 0, b 0), (''nMIB'', 1, b 1), (''nMIB'', 2, b 2)] zero_struct) (\<lambda>s.
         let p = count_fapi_p7 Dl_ssb_pdus_cnt p;
             s = put_fields (bch_l a) [(''nSSBSubcOffset'', uint (sb_ssbSubCarrierOffset x)),
               (''nSSBPrbOffset'', uint (nr5g_fapi_calculate_nSSBPrbOffset a (sb_ssbOffsetPointA x) (sub_c_common (inst_config p))))] s
         in Done (s, count_iapi_p7 Dl_ssb_pdus_cnt p)))"

definition nr5g_fapi_fill_csi_rs_pdu :: "p7_api \<Rightarrow> fapi_dl_csi_rs_pdu \<Rightarrow> nr5g_fapi_phy_instance \<Rightarrow> struct \<times> nr5g_fapi_phy_instance" where
  "nr5g_fapi_fill_csi_rs_pdu a x p =
     (let L = csirs_l a; p = count_fapi_p7 Dl_csi_rs_pdus_cnt p;
          s = put_fields L [(''nBWPSize'', uint (cs_bwpSize x)), (''nBWPStart'', uint (cs_bwpStart x)), (''nCDMType'', uint (cs_cdmType x)),
            (''nCSIType'', uint (cs_csiType x)), (''nCpType'', uint (cs_cyclicPrefix x)), (''nFreqDensity'', uint (cs_freqDensity x)),
            (''nFreqDomain'', uint (cs_freqDomain x)), (''nNrOfRBs'', uint (cs_nrOfRbs x)), (''nScrambId'', uint (cs_scramId x)),
            (''nStartRB'', uint (cs_startRb x)), (''nSubcSpacing'', uint (cs_subCarrierSpacing x)), (''nSymbL0'', uint (cs_symbL0 x)),
            (''nSymbL1'', uint (cs_symbL1 x)), (''nRow'', uint (cs_row x))] zero_struct;
          s = (if vendor_epre p then s
               else put_field L ''nEpreRatioToSSB'' (uint (nr5g_fapi_calculate_nEpreRatioOfDmrsToSSB (cs_powerControlOffsetSs x))) s)
      in (s, count_iapi_p7 Dl_csi_rs_pdus_cnt p))"

section \<open>DL_TTI.request\<close>

definition put_dl_field :: "p7_api \<Rightarrow> string \<Rightarrow> int \<Rightarrow> dl_config \<Rightarrow> dl_config" where
  "put_dl_field a f v c = c\<lparr>dc_fields := put_field (dlcfg_l a) f v (dc_fields c)\<rparr>"

definition dl_pdu_size :: "p7_api \<Rightarrow> dl_pdu \<Rightarrow> nat" where
  "dl_pdu_size a x = RUP32B a (lsize (case x of Dci_pdu _ \<Rightarrow> dci_l a | Dlsch_pdu _ \<Rightarrow> dlsch_l a | Bch_pdu _ \<Rightarrow> bch_l a | Csirs_pdu _ \<Rightarrow> csirs_l a))"

definition add_dl_pdu :: "p7_api \<Rightarrow> dl_pdu \<Rightarrow> dl_config \<Rightarrow> dl_config outcome" where
  "add_dl_pdu a x c = (if sum_list (map (dl_pdu_size a) (dc_pdus c @ [x])) \<le> dl_room a
     then Done (c\<lparr>dc_pdus := dc_pdus c @ [x]\<rparr>) else Undefined)"

fun dl_group_ue_loop :: "layout \<Rightarrow> u8 list \<Rightarrow> nat list \<Rightarrow> struct \<Rightarrow> struct outcome" where
  "dl_group_ue_loop L idx [] g = Done g"
| "dl_group_ue_loop L idx (j # js) g =
     (if j < length idx then obind (put_elem L ''nPduIdx'' j (uint (idx ! j)) g) (dl_group_ue_loop L idx js) else Undefined)"

fun dl_group_loop :: "p7_api \<Rightarrow> fapi_ue_info list \<Rightarrow> nat list \<Rightarrow> dl_config \<Rightarrow> dl_config outcome" where
  "dl_group_loop a grps [] c = Done c"
| "dl_group_loop a grps (i # is) c =
     (if i < max_pdsch_groups a \<and> i < length grps then
        obind (dl_group_ue_loop (dlgrp_l a) (ue_pduIdx (grps ! i)) [0..<unat (ue_nUe (grps ! i))]
                 (put_field (dlgrp_l a) ''nUE'' (uint (ue_nUe (grps ! i))) (dc_groups c i))) (\<lambda>g.
        dl_group_loop a grps is (c\<lparr>dc_groups := (dc_groups c)(i := g)\<rparr>))
      else Undefined)"

definition dl_pdu_of ::
    "p7_api \<Rightarrow> fapi_dl_tti_req_pdu \<Rightarrow> nr5g_fapi_phy_instance \<Rightarrow> (dl_pdu \<times> nr5g_fapi_phy_instance) option outcome" where
  "dl_pdu_of a x p =
     (case x of
        Pdcch_pdu y \<Rightarrow> obind (nr5g_fapi_fill_dci_pdu a y p) (\<lambda>(s, p). Done (Some (Dci_pdu s, p)))
      | Pdsch_pdu y \<Rightarrow> obind (nr5g_fapi_fill_pdsch_pdu a y p) (\<lambda>(s, p). Done (Some (Dlsch_pdu s, p)))
      | Ssb_pdu y \<Rightarrow> obind (nr5g_fapi_fill_ssb_pdu a y p) (\<lambda>(s, p). Done (Some (Bch_pdu s, p)))
      | Csi_rs_pdu y \<Rightarrow> (case nr5g_fapi_fill_csi_rs_pdu a y p of (s, p) \<Rightarrow> Done (Some (Csirs_pdu s, p)))
      | Unknown_dl_pdu _ \<Rightarrow> Done None)"

fun dl_pdu_loop :: "p7_api \<Rightarrow> fapi_dl_tti_req_pdu list \<Rightarrow> nat list \<Rightarrow> dl_config \<Rightarrow> nr5g_fapi_phy_instance
    \<Rightarrow> (bool \<times> dl_config \<times> nr5g_fapi_phy_instance) outcome" where
  "dl_pdu_loop a pdus [] c p = Done (True, c, p)"
| "dl_pdu_loop a pdus (i # is) c p =
     (if i < length pdus then
        let p = count_fapi_p7 Dl_pdus_cnt p
        in obind (dl_pdu_of a (pdus ! i) p) (\<lambda>r.
           case r of None \<Rightarrow> Done (False, c, p)
           | Some (x, p) \<Rightarrow> obind (add_dl_pdu a x c) (\<lambda>c. dl_pdu_loop a pdus is c (count_iapi_p7 Dl_pdus_cnt p)))
      else Undefined)"

fun is_dci :: "dl_pdu \<Rightarrow> bool" where "is_dci (Dci_pdu s) = True" | "is_dci x = False"

definition low_byte :: "u16 \<Rightarrow> u8" where "low_byte w = ucast w"

definition vendor_dl_pdu :: "p7_api \<Rightarrow> nr5g_fapi_phy_instance \<Rightarrow> fapi_vendor_dl_pdu \<Rightarrow> dl_pdu \<Rightarrow> dl_pdu" where
  "vendor_dl_pdu a p v x =
     (case x of
        Dci_pdu s \<Rightarrow> Dci_pdu (if vendor_epre p
          then put_fields (dci_l a) [(''nEpreRatioOfPDCCHToSSB'', uint (vd_half2 v)), (''nEpreRatioOfDmrsToSSB'', uint (vd_half3 v))] s else s)
      | Dlsch_pdu s \<Rightarrow>
          let s = put_field (dlsch_l a) ''nNrOfAntennaPorts'' (uint (low_byte (vd_half2 v))) s;
              s = (if vendor_epre p
                then put_fields (dlsch_l a) [(''nEpreRatioOfDmrsToSSB'', uint (vd_half1 v)), (''nEpreRatioOfPDSCHToSSB'', uint (vd_half0 v))] s else s)
          in Dlsch_pdu (copy_bytes (dlsch_l a) ''nTxRUIdx'' (vd_tx_ru_idx v) s)
      | Bch_pdu s \<Rightarrow> Bch_pdu s
      | Csirs_pdu s \<Rightarrow> Csirs_pdu (if vendor_epre p then put_field (csirs_l a) ''nEpreRatioToSSB'' (uint (vd_half0 v)) s else s))"

fun vendor_dl_loop :: "p7_api \<Rightarrow> nr5g_fapi_phy_instance \<Rightarrow> fapi_vendor_dl_pdu list \<Rightarrow> nat list \<Rightarrow> dl_pdu list \<Rightarrow> dl_pdu list outcome" where
  "vendor_dl_loop a p vs [] xs = Done xs"
| "vendor_dl_loop a p vs (i # is) xs =
     (if i < length vs \<and> i < length xs then vendor_dl_loop a p vs is (xs[i := vendor_dl_pdu a p (vs ! i) (xs ! i)]) else Undefined)"

definition nr5g_fapi_dl_tti_req_to_phy_translation_vendor_ext ::
    "p7_api \<Rightarrow> fapi_vendor_p7_msg \<Rightarrow> nr5g_fapi_phy_instance \<Rightarrow> dl_config \<Rightarrow> dl_config outcome" where
  "nr5g_fapi_dl_tti_req_to_phy_translation_vendor_ext a v p c =
     (let d = v7_dl_tti v;
          c = c\<lparr>dc_slot := (dc_slot c)\<lparr>nSym := ucast (vt_sym d)\<rparr>,
                dc_fields := put_fields (dlcfg_l a) [(''nLte_CRS_Present'', uint (vt_lte_crs_present d)),
                  (''nLte_CRS_carrierFreqDL'', uint (vt_lte_crs_carrier_freq_dl d)),
                  (''nLte_CRS_carrierBandwidthDL'', uint (vt_lte_crs_carrier_bandwidth_dl d)),
                  (''nLte_CRS_nrofCRS_Ports'', uint (vt_lte_crs_nr_of_crs_ports d)),
                  (''nLte_CRS_v_shift'', uint (vt_lte_crs_v_shift d)), (''nPdcchPrecoderEn'', uint (vt_pdcch_precoder_en d)),
                  (''nSSBPrecoderEn'', uint (vt_ssb_precoder_en d))] (dc_fields c)\<rparr>
      in obind (vendor_dl_loop a p (vt_pdus d) [0..<nat (dc_fields c ''nPDU'' 0)] (dc_pdus c)) (\<lambda>xs. Done (c\<lparr>dc_pdus := xs\<rparr>)))"

text \<open>The structure for the PHY was cleared.  The second component of the result is the length of the
  message, the size of the structure with that of its PDUs.\<close>

definition cleared_dl_config :: dl_config where
  "cleared_dl_config = \<lparr>dc_slot = \<lparr>nSFN = 0, nSlot = 0, nCarrier = 0, nSym = 0\<rparr>, dc_fields = zero_struct, dc_groups = (\<lambda>_. zero_struct), dc_pdus = []\<rparr>"

definition nr5g_fapi_dl_tti_req_to_phy_translation ::
    "p7_api \<Rightarrow> fapi_dl_tti_req \<Rightarrow> fapi_vendor_p7_msg option \<Rightarrow> nr5g_fapi_phy_instance
     \<Rightarrow> (bool \<times> nat \<times> dl_config \<times> nr5g_fapi_phy_instance) outcome" where
  "nr5g_fapi_dl_tti_req_to_phy_translation a req vm p =
     (let c = put_dl_field a ''nPDU'' (uint (dt_nPdus req)) (put_dl_field a ''nGroup'' (uint (dt_nGroup req)) cleared_dl_config);
          c = c\<lparr>dc_slot := \<lparr>nSFN = dt_sfn req, nSlot = dt_slot req, nCarrier = ucast (phy_id p), nSym = 0\<rparr>\<rparr>
      in obind (dl_group_loop a (dt_ue_grp_info req) [0..<nat (dc_fields c ''nGroup'' 0)] c) (\<lambda>c.
         obind (dl_pdu_loop a (dt_pdus req) [0..<nat (dc_fields c ''nPDU'' 0)] c p) (\<lambda>(ok, c, p).
         if \<not> ok then Done (False, 0, c, p)
         else
           let c = put_dl_field a ''nDCI'' (int (length (filter is_dci (dc_pdus c)))) c;
               total_size = lsize (dlcfg_l a) + sum_list (map (dl_pdu_size a) (dc_pdus c))
           in case vm of None \<Rightarrow> Done (True, total_size, c, p)
              | Some v \<Rightarrow> obind (nr5g_fapi_dl_tti_req_to_phy_translation_vendor_ext a v p c) (\<lambda>c. Done (True, total_size, c, p)))))"

section \<open>UL_DCI.request\<close>

text \<open>The PDUs are written over those that stood in the block, of which the members that are not
  assigned stay.  The member for their number holds the 8 bits of the FAPI.\<close>

definition dci_pdu_of_ul :: "p7_api \<Rightarrow> nr5g_fapi_phy_instance \<Rightarrow> fapi_dl_pdcch_pdu \<Rightarrow> struct \<Rightarrow> struct outcome" where
  "dci_pdu_of_ul a p x s =
     (let L = dci_l a; d = cc_dlDci0 x;
          s = put_fields L [(''nRNTI'', uint (dd_rnti d)), (''nBWPSize'', uint (cc_bwpSize x)), (''nBWPStart'', uint (cc_bwpStart x)),
                (''nSubcSpacing'', uint (cc_subCarrierSpacing x)), (''nCpType'', uint (cc_cyclicPrefix x))] s
      in obind (put_elems L [(''nFreqDomain'', 0, uint (freq_word (cc_freqDomainResource x) 0)),
                (''nFreqDomain'', 1, uint (freq_word (cc_freqDomainResource x) 1))] s) (\<lambda>s.
         let s = put_fields L [(''nStartSymbolIndex'', uint (cc_startSymbolIndex x)), (''nNrOfSymbols'', uint (cc_durationSymbols x)),
                (''nCCEToREGType'', uint (cc_cceRegMappingType x)), (''nREGBundleSize'', uint (cc_regBundleSize x)),
                (''nShift'', uint (cc_shiftIndex x)), (''nScid'', uint (dd_scramblingId d)), (''nCCEStartIndex'', uint (dd_cceIndex d)),
                (''nAggrLvl'', uint (dd_aggregationLevel d)), (''nInterleaveSize'', uint (cc_interleaverSize x)),
                (''nCoreSetType'', uint (cc_coreSetType x)), (''nRNTIScramb'', uint (dd_scramblingRnti d)),
                (''nTotalBits'', uint (dd_payloadSizeBits d))] s
         in obind (copy_dci_bits a (dd_payload d) (put_field L ''nTotalBits'' (uint (dd_payloadSizeBits d)) (put_dci_epre a d p s))) (\<lambda>s.
         put_elems L (map (\<lambda>i. (''nTxRUIdx'', i, 0)) [0..<MAX_TXRU_NUM a])
           (put_fields L [(''nID'', s ''nScid'' 0), (''nNrofTxRU'', 0), (''nBeamId'', 0)] s))))"

fun ul_dci_loop :: "p7_api \<Rightarrow> nr5g_fapi_phy_instance \<Rightarrow> fapi_dl_pdcch_pdu list \<Rightarrow> (nat \<Rightarrow> struct) \<Rightarrow> nat list \<Rightarrow> struct list outcome" where
  "ul_dci_loop a p pdus old [] = Done []"
| "ul_dci_loop a p pdus old (i # is) =
     (if i < length pdus \<and> (i + 1) * RUP32B a (lsize (dci_l a)) \<le> dci_room a then
        obind (dci_pdu_of_ul a p (pdus ! i) (old i)) (\<lambda>s. obind (ul_dci_loop a p pdus old is) (\<lambda>ss. Done (s # ss)))
      else Undefined)"

text \<open>The counter of the PHY counts the messages, not their PDUs.\<close>

definition nr5g_fapi_ul_dci_req_to_phy_translation ::
    "p7_api \<Rightarrow> fapi_ul_dci_req \<Rightarrow> (nat \<Rightarrow> struct) \<Rightarrow> ul_dci_config \<Rightarrow> nr5g_fapi_phy_instance
     \<Rightarrow> (ul_dci_config \<times> nr5g_fapi_phy_instance) outcome" where
  "nr5g_fapi_ul_dci_req_to_phy_translation a req old c p =
     (let n = unat (ur_numPdus req)
      in obind (ul_dci_loop a p (ur_pdus req) old [0..<n]) (\<lambda>ss.
         Done (c\<lparr>ud_nDCI := int n, ud_pdus := ss\<rparr>, count_iapi_p7 Ul_dci_pdus_cnt ((count_fapi_p7 Ul_dci_pdus_cnt ^^ n) p))))"

definition nr5g_fapi_ul_dci_req_to_phy_translation_vendor_ext ::
    "p7_api \<Rightarrow> fapi_vendor_p7_msg \<Rightarrow> nr5g_fapi_phy_instance \<Rightarrow> ul_dci_config \<Rightarrow> ul_dci_config outcome" where
  "nr5g_fapi_ul_dci_req_to_phy_translation_vendor_ext a v p c =
     (let c = c\<lparr>ud_slot := (ud_slot c)\<lparr>nSym := ucast (v7_dci_sym v)\<rparr>\<rparr>
      in if vendor_epre p then
           if length (ud_pdus c) \<le> length (v7_dci_pdus v) then
             Done (c\<lparr>ud_pdus := map (\<lambda>(s, x). put_fields (dci_l a)
               [(''nEpreRatioOfPDCCHToSSB'', uint (vd_half2 x)), (''nEpreRatioOfDmrsToSSB'', uint (vd_half3 x))] s)
               (zip (ud_pdus c) (v7_dci_pdus v))\<rparr>)
           else Undefined
         else Done c)"

section \<open>TX_DATA.request\<close>

text \<open>The descriptors of a PDU are gathered by its index: the first is the first code word, the last
  of the others the second.  The array for them is as long as that of the descriptors.  The number of
  bytes that the block has for the PDUs of the PHY is not modelled.\<close>

type_synonym gathered = "u16 \<times> nat \<times> nat option"

fun gather_one :: "u16 \<Rightarrow> nat \<Rightarrow> gathered list \<Rightarrow> gathered list" where
  "gather_one k i [] = [(k, i, None)]"
| "gather_one k i ((k', c1, c2) # g) = (if k' = k then (k', c1, Some i) # g else (k', c1, c2) # gather_one k i g)"

fun gather_loop :: "fapi_tx_pdu_desc list \<Rightarrow> nat list \<Rightarrow> gathered list \<Rightarrow> gathered list outcome" where
  "gather_loop ds [] g = Done g"
| "gather_loop ds (i # is) g =
     (if i < length ds then
        let k = tx_pdu_index (ds ! i)
        in gather_loop ds is (if k \<in> fst ` set g \<or> length g < FAPI_MAX_NUMBER_DL_PDUS_PER_TTI then gather_one k i g else g)
      else Undefined)"

definition FAPI_TX_DATA_PTR_TO_PAYLOAD_64 :: u8 where "FAPI_TX_DATA_PTR_TO_PAYLOAD_64 = 3"

text \<open>The lower byte of the tag says what the value is, the upper byte extends the length.\<close>

definition tx_payload :: "fapi_tx_pdu_desc \<Rightarrow> u32 \<times> u64" where
  "tx_payload d =
     (if ucast (tx_tag d) = FAPI_TX_DATA_PTR_TO_PAYLOAD_64
      then (push_bit 16 (ucast (ucast (drop_bit 8 (tx_tag d)) :: u8)) OR ucast (tx_length d), tx_value d) else (0, 0))"

definition tx_pdu :: "fapi_tx_pdu_desc list \<Rightarrow> gathered \<Rightarrow> zbc_pdu" where
  "tx_pdu ds g =
     (case g of (k, c1, c2) \<Rightarrow>
       let (l1, p1) = tx_payload (ds ! c1); (l2, p2) = (case c2 of None \<Rightarrow> (0, 0) | Some c \<Rightarrow> tx_payload (ds ! c))
       in \<lparr>nPduIdx = tx_pdu_index (ds ! c1), nPduLen1 = l1, pPayload1 = p1, nPduLen2 = l2, pPayload2 = p2\<rparr>)"

text \<open>The message says that it has all descriptors as PDUs; behind the gathered ones the PHY finds what
  stood in the block, \<open>old\<close>.\<close>

definition nr5g_fapi_tx_data_req_to_phy_translation ::
    "fapi_tx_data_req \<Rightarrow> fapi_vendor_p7_msg option \<Rightarrow> (nat \<Rightarrow> zbc_pdu) \<Rightarrow> nr5g_fapi_phy_instance \<Rightarrow> (sfn_slot \<times> zbc_pdu list) outcome" where
  "nr5g_fapi_tx_data_req_to_phy_translation req vm old p =
     (let ss = \<lparr>nSFN = td_sfn req, nSlot = td_slot req, nCarrier = ucast (phy_id p),
                nSym = (case vm of None \<Rightarrow> 0 | Some v \<Rightarrow> ucast (v7_tx_sym v))\<rparr>;
          n = unat (td_num_pdus req)
      in obind (gather_loop (td_pdu_desc req) [0..<n] []) (\<lambda>g.
         Done (ss, map (tx_pdu (td_pdu_desc req)) g @ map old [length g..<n])))"

end
