(* ===== verification/Fapi_P5.thy ===== *)
theory Fapi_P5
  imports Fapi_Queues
begin

text \<open>
  The control messages of a PHY instance: the requests of the MAC that are translated for the PHY
  (\<open>api/fapi2phy/p5\<close>), and the answers of the PHY that are translated for the MAC
  (\<open>api/fapi2mac/p5\<close>, \<open>api/fapi2mac/nr5g_fapi_proc_error_ind.c\<close>, the slot indication).

  A pointer that may be NULL is an option.  A function returns 0 for \<open>SUCCESS\<close> and 1 for
  \<open>FAILURE\<close>.  The PHY names an instance by its carrier index, which the C code uses as an index
  before it is checked: beyond the last instance the result is \<open>Undefined\<close>.
\<close>

section \<open>Requests\<close>

definition set_fld :: "'a phy_api_scheme \<Rightarrow> cfg_field \<Rightarrow> u32 \<Rightarrow> ia_config \<Rightarrow> ia_config" where
  "set_fld a f v c = c\<lparr>fld := (fld c)(f := conv a f v)\<rparr>"

definition set_vendor_fields :: "'a phy_api_scheme \<Rightarrow> config_req_vendor_msg \<Rightarrow> ia_config \<Rightarrow> ia_config" where
  "set_vendor_fields a v c =
     set_fld a nSSBSubcSpacing (ucast (ssb_subc_spacing v))
    (set_fld a nNrOfULPorts (ucast (nr_of_ul_ports v))
    (set_fld a nNrOfDLPorts (ucast (nr_of_dl_ports v))
    (set_fld a nPrachNrofRxRU (ucast (prach_nr_of_rx_ru v))
    (set_fld a nUrllcMiniSlotMask (ucast (urllc_mini_slot_mask v))
    (set_fld a nUrllcCapable (ucast (urllc_capable v))
    (set_fld a nHoppingId (ucast (hopping_id v))
    (set_fld a nSequenceHopFlag (ucast (sequence_hop_flag v))
    (set_fld a nGroupHopFlag (ucast (group_hop_flag v))
    (set_fld a nCarrierAggregationLevel (ucast (carrier_aggregation_level v)) c)))))))))"

definition set_fft_sizes :: "'a phy_api_scheme \<Rightarrow> ia_config \<Rightarrow> ia_config" where
  "set_fft_sizes a c =
     (let c = set_fld a nDLFftSize (ucast (nr5g_fapi_calc_fft_size (ucast (fld c nSubcCommon)) (ucast (fld c nDLBandwidth)))) c
      in set_fld a nULFftSize (ucast (nr5g_fapi_calc_fft_size (ucast (fld c nSubcCommon)) (ucast (fld c nULBandwidth)))) c)"

definition phy_message :: "fapi_cfg \<Rightarrow> u16 \<Rightarrow> phy_content \<Rightarrow> phy_msg" where
  "phy_message e t c = \<lparr>msg_type = t, msg_len = ucast (sizeof_msg (api e) t), content = c\<rparr>"

text \<open>The translation of the TLVs works on the structure in the new block; the outcome of its loop is
  the outcome of the request.\<close>

definition translate_config :: "fapi_cfg \<Rightarrow> u8 \<Rightarrow> u8 \<Rightarrow> fapi_tlv list \<Rightarrow> nr5g_fapi_phy_config \<Rightarrow> cfg_state outcome" where
  "translate_config e carrier n tlvs pc =
     (let a = phy_api.truncate (api e)
      in case nr5g_fapi_config_req_to_phy_translation a n tlvs pc (set_fld a nCarrierIdx (ucast carrier) (cleared_ia a)) of
           None \<Rightarrow> Diverges | Some None \<Rightarrow> Undefined | Some (Some t) \<Rightarrow> Done t)"

definition nr5g_fapi_config_request ::
    "fapi_cfg \<Rightarrow> bool \<Rightarrow> nat option \<Rightarrow> (u8 \<times> fapi_tlv list) option \<Rightarrow> fapi_vendor_msg option
     \<Rightarrow> fapi_state \<Rightarrow> (u8 \<times> fapi_state) outcome" where
  "nr5g_fapi_config_request e u inst req vm s =
     (case inst of None \<Rightarrow> Done (1, s) | Some i \<Rightarrow>
       let s = upd_inst i (count_fapi Config_req_cnt) s
       in case req of None \<Rightarrow> Done (1, s) | Some (n, tlvs) \<Rightarrow>
          case vm of None \<Rightarrow> Done (1, s) | Some v \<Rightarrow>
          if state (phy_instance s ! i) = FAPI_STATE_RUNNING then Done (1, s)
          else
            let t = MSG_TYPE_PHY_CONFIG_REQ (api e)
            in obind (nr5g_fapi_fapi2phy_create_api_list_elem e (ucast t) 1 (sizeof_msg (api e) t) s) (\<lambda>(el, s).
               case el of None \<Rightarrow> Done (1, s) | Some el \<Rightarrow>
               let p = phy_instance s ! i
               in obind (translate_config e (phy_id p) n tlvs (inst_config p)) (\<lambda>c.
                  let s = upd_inst i (\<lambda>p. p\<lparr>inst_config := (phy_config c)\<lparr>use_vendor_EpreXSSB := vendor_EpreXSSB (config_req_vendor v)\<rparr>\<rparr>) s;
                      m = set_fft_sizes (api e) (set_vendor_fields (api e) (config_req_vendor v) (ia c));
                      (el, s) = write_message (phy_message e t (Config_request_body m)) el s
                  in Done (0, upd_inst i (count_iapi Config_req_cnt) (nr5g_fapi_fapi2phy_add_to_api_list u (Some el) s)))))"

definition nr5g_fapi_start_request ::
    "fapi_cfg \<Rightarrow> bool \<Rightarrow> nat option \<Rightarrow> unit option \<Rightarrow> fapi_vendor_msg option \<Rightarrow> fapi_state \<Rightarrow> (u8 \<times> fapi_state) outcome" where
  "nr5g_fapi_start_request e u inst req vm s =
     (case inst of None \<Rightarrow> Done (1, s) | Some i \<Rightarrow>
       let s = upd_inst i (count_fapi Start_req_cnt) s
       in if state (phy_instance s ! i) \<noteq> FAPI_STATE_CONFIGURED then Done (1, s)
          else case req of None \<Rightarrow> Done (1, s) | Some _ \<Rightarrow>
          case vm of None \<Rightarrow> Done (1, s) | Some v \<Rightarrow>
          if start_mode (start_req_vendor v) > 4 then Done (1, s)
          else
            let t = MSG_TYPE_PHY_START_REQ (api e)
            in obind (nr5g_fapi_fapi2phy_create_api_list_elem e (ucast t) 1 (sizeof_msg (api e) t) s) (\<lambda>(el, s).
               case el of None \<Rightarrow> Done (1, s) | Some el \<Rightarrow>
               let sv = start_req_vendor v;
                   (el, s) = write_message (phy_message e t (Start_request_body (start_sfn sv) (start_slot sv)
                     (ucast (phy_id (phy_instance s ! i))) (start_mode sv))) el s
               in Done (0, upd_inst i (count_iapi Start_req_cnt) (nr5g_fapi_fapi2phy_add_to_api_list u (Some el) s))))"

definition nr5g_fapi_stop_request ::
    "fapi_cfg \<Rightarrow> bool \<Rightarrow> nat option \<Rightarrow> unit option \<Rightarrow> fapi_vendor_msg option \<Rightarrow> fapi_state \<Rightarrow> (u8 \<times> fapi_state) outcome" where
  "nr5g_fapi_stop_request e u inst req vm s =
     (case inst of None \<Rightarrow> Done (1, s) | Some i \<Rightarrow>
       let s = upd_inst i (count_fapi Stop_req_cnt) s
       in case req of None \<Rightarrow> Done (1, s) | Some _ \<Rightarrow>
          case vm of None \<Rightarrow> Done (1, s) | Some v \<Rightarrow>
          let t = MSG_TYPE_PHY_STOP_REQ (api e)
          in obind (nr5g_fapi_fapi2phy_create_api_list_elem e (ucast t) 1 (sizeof_msg (api e) t) s) (\<lambda>(el, s).
             case el of None \<Rightarrow> Done (1, s) | Some el \<Rightarrow>
             let sv = stop_req_vendor v;
                 (el, s) = write_message (phy_message e t (Stop_request_body (stop_sfn sv) (stop_slot sv)
                   (ucast (phy_id (phy_instance s ! i))))) el s
             in Done (0, upd_inst i (count_iapi Stop_req_cnt) (nr5g_fapi_fapi2phy_add_to_api_list u (Some el) s))))"

definition nr5g_fapi_shutdown_request ::
    "fapi_cfg \<Rightarrow> bool \<Rightarrow> nat option \<Rightarrow> fapi_vendor_ext_shutdown_req option \<Rightarrow> fapi_state \<Rightarrow> (u8 \<times> fapi_state) outcome" where
  "nr5g_fapi_shutdown_request e u inst req s =
     (case inst of None \<Rightarrow> Done (1, s) | Some i \<Rightarrow>
       let s = upd_inst i (count_fapi Shutdown_req_cnt) s
       in case req of None \<Rightarrow> Done (1, s) | Some r \<Rightarrow>
          let t = MSG_TYPE_PHY_SHUTDOWN_REQ (api e)
          in obind (nr5g_fapi_fapi2phy_create_api_list_elem e (ucast t) 1 (sizeof_msg (api e) t) s) (\<lambda>(el, s).
             case el of None \<Rightarrow> Done (1, s) | Some el \<Rightarrow>
             let (el, s) = write_message (phy_message e t (Shutdown_request_body (shutdown_sfn r) (shutdown_slot r)
                   (ucast (phy_id (phy_instance s ! i))) (test_type r))) el s;
                 s = upd_inst i (\<lambda>p. p\<lparr>shutdown_test_type := test_type r\<rparr>) s
             in Done (0, upd_inst i (count_iapi Shutdown_req_cnt) (nr5g_fapi_fapi2phy_add_to_api_list u (Some el) s))))"

section \<open>Messages for the MAC\<close>

text \<open>A message of the FAPI with its header, put into the list of an instance; \<open>None\<close> when no block is
  left.\<close>

definition fapi2mac_message :: "fapi_cfg \<Rightarrow> u8 \<Rightarrow> u16 \<Rightarrow> u32 \<Rightarrow> fapi_content \<Rightarrow> bool \<Rightarrow> fapi_state \<Rightarrow> (bool \<times> fapi_state) outcome" where
  "fapi2mac_message e i mt len c u s =
     obind (nr5g_fapi_fapi2mac_create_api_list_elem e mt 1 (sizeof_fapi e mt) (Fapi_message mt len c) s) (\<lambda>(el, s).
     case el of None \<Rightarrow> Done (False, s)
     | Some x \<Rightarrow> obind (nr5g_fapi_fapi2mac_add_api_to_list i (Some x) u s) (\<lambda>s. Done (True, s)))"

definition own_length :: "fapi_cfg \<Rightarrow> u16 \<Rightarrow> u32" where
  "own_length e mt = ucast (ucast (sizeof_fapi e mt) :: u16)"

definition nr5g_fapi_message_header_per_phy :: "fapi_cfg \<Rightarrow> u8 \<Rightarrow> bool \<Rightarrow> fapi_state \<Rightarrow> (u8 \<times> fapi_state) outcome" where
  "nr5g_fapi_message_header_per_phy e i u s =
     obind (nr5g_fapi_fapi2mac_create_api_list_elem e FAPI_VENDOR_MSG_HEADER_IND 1
              (sizeof_fapi e FAPI_VENDOR_MSG_HEADER_IND) (Msg_header 0 i) s) (\<lambda>(el, s).
     case el of None \<Rightarrow> Done (1, s)
     | Some x \<Rightarrow> obind (nr5g_fapi_fapi2mac_add_api_to_list i (Some x) u s) (\<lambda>s. Done (0, s)))"

fun header_loop :: "fapi_cfg \<Rightarrow> bool \<Rightarrow> nat list \<Rightarrow> fapi_state \<Rightarrow> fapi_state outcome" where
  "header_loop e u [] s = Done s"
| "header_loop e u (i # is) s =
     (if state (phy_instance s ! i) = FAPI_STATE_CONFIGURED \<or> state (phy_instance s ! i) = FAPI_STATE_RUNNING
      then obind (nr5g_fapi_message_header_per_phy e (of_nat i) u s) (\<lambda>(_, s). header_loop e u is s)
      else header_loop e u is s)"

definition nr5g_fapi_message_header :: "fapi_cfg \<Rightarrow> bool \<Rightarrow> fapi_state \<Rightarrow> (u8 \<times> fapi_state) outcome" where
  "nr5g_fapi_message_header e u s =
     obind (header_loop e u [0..<FAPI_MAX_PHY_INSTANCES] s) (\<lambda>s. Done (0, s))"

definition nr5g_fapi_param_response :: "fapi_cfg \<Rightarrow> nat \<Rightarrow> fapi_state \<Rightarrow> (u8 \<times> fapi_state) outcome" where
  "nr5g_fapi_param_response e i s =
     (let pid = phy_id (phy_instance s ! i)
      in obind (nr5g_fapi_message_header_per_phy e pid False s) (\<lambda>(_, s).
         let s = upd_inst i (count_iapi Param_res_cnt) s;
             code = (if state (phy_instance s ! i) = FAPI_STATE_RUNNING then MSG_INVALID_STATE (api e) else MSG_OK (api e))
         in obind (fapi2mac_message e pid FAPI_PARAM_RESPONSE (own_length e FAPI_PARAM_RESPONSE) (Param_resp code) False s)
              (\<lambda>(ok, s).
            if \<not> ok then Done (1, s)
            else obind (nr5g_fapi_fapi2mac_send_api_list e False (upd_inst i (count_fapi Param_res_cnt) s)) (\<lambda>s. Done (0, s)))))"

section \<open>Answers of the PHY\<close>

definition error_content :: "u16 \<Rightarrow> u16 \<Rightarrow> u16 \<Rightarrow> u32 \<Rightarrow> fapi_content" where
  "error_content sfn slot mid code =
     Error_ind \<lparr>err_sfn = sfn, err_slot = slot, err_message_id = ucast mid, err_error_code = ucast code\<rparr>"

text \<open>The instance that a message names, if its index is the one it was given.\<close>

definition with_instance :: "u16 \<Rightarrow> fapi_state \<Rightarrow> (u8 \<Rightarrow> nat \<Rightarrow> (u8 \<times> fapi_state) outcome) \<Rightarrow> (u8 \<times> fapi_state) outcome" where
  "with_instance carrier s f =
     (let pid = ucast carrier :: u8; i = unat pid
      in if i \<ge> length (phy_instance s) then Undefined
         else if phy_id (phy_instance s ! i) \<noteq> pid then Done (1, s) else f pid i)"

definition nr5g_fapi_config_response :: "fapi_cfg \<Rightarrow> (u16 \<times> u32) option \<Rightarrow> fapi_state \<Rightarrow> (u8 \<times> fapi_state) outcome" where
  "nr5g_fapi_config_response e resp s =
     (case resp of None \<Rightarrow> Done (1, s) | Some (carrier, status) \<Rightarrow>
       with_instance carrier s (\<lambda>pid i.
       obind (if state (phy_instance s ! i) = FAPI_STATE_IDLE
              then obind (nr5g_fapi_message_header_per_phy e pid False s) (\<lambda>(_, s). Done s) else Done s) (\<lambda>s.
       let s = upd_inst i (count_iapi Config_res_cnt) s
       in obind (nr5g_fapi_fapi2mac_create_api_list_elem e FAPI_CONFIG_RESPONSE 1 (sizeof_fapi e FAPI_CONFIG_RESPONSE)
                   (Fapi_message FAPI_CONFIG_RESPONSE (own_length e FAPI_CONFIG_RESPONSE) (Config_resp (ucast status))) s) (\<lambda>(el, s).
          case el of None \<Rightarrow> Done (1, s) | Some x \<Rightarrow>
          let s = (if state (phy_instance s ! i) = FAPI_STATE_IDLE \<and> status = 0
                   then upd_inst i (\<lambda>p. p\<lparr>state := FAPI_STATE_CONFIGURED\<rparr>) (s\<lparr>num_phy_instance := num_phy_instance s + 1\<rparr>)
                   else s)
          in obind (nr5g_fapi_fapi2mac_add_api_to_list pid (Some x) False s) (\<lambda>s.
             Done (0, upd_inst i (count_fapi Config_res_cnt) s))))))"

definition nr5g_fapi_start_resp :: "fapi_cfg \<Rightarrow> (sfn_slot \<times> u32) option \<Rightarrow> fapi_state \<Rightarrow> (u8 \<times> fapi_state) outcome" where
  "nr5g_fapi_start_resp e resp s =
     (case resp of None \<Rightarrow> Done (1, s) | Some (ss, status) \<Rightarrow>
       with_instance (nCarrier ss) s (\<lambda>pid i.
       let s = upd_inst i (count_iapi Start_res_cnt) s
       in if status = 0 then
            Done (0, if state (phy_instance s ! i) = FAPI_STATE_CONFIGURED
                     then upd_inst i (\<lambda>p. p\<lparr>state := FAPI_STATE_RUNNING\<rparr>) s else s)
          else if status = 1 then
            obind (fapi2mac_message e pid FAPI_ERROR_INDICATION (own_length e FAPI_ERROR_INDICATION)
                     (error_content (nSFN ss) (nSlot ss) FAPI_START_REQUEST status) False s) (\<lambda>(ok, s).
            if \<not> ok then Done (1, s) else Done (0, upd_inst i (count_fapi_p7 Error_ind_cnt) s))
          else Done (1, s)))"

definition nr5g_fapi_stop_indication :: "fapi_cfg \<Rightarrow> (sfn_slot \<times> u32) option \<Rightarrow> fapi_state \<Rightarrow> (u8 \<times> fapi_state) outcome" where
  "nr5g_fapi_stop_indication e resp s =
     (case resp of None \<Rightarrow> Done (1, s) | Some (ss, status) \<Rightarrow>
       with_instance (nCarrier ss) s (\<lambda>pid i.
       let s = upd_inst i (count_iapi Stop_ind_cnt) s
       in if status = 0 then
            let s = (if state (phy_instance s ! i) = FAPI_STATE_RUNNING
                     then upd_inst i (\<lambda>p. p\<lparr>state := FAPI_STATE_CONFIGURED\<rparr>) s else s)
            in obind (nr5g_fapi_shutdown_request e False (Some i) (Some \<lparr>shutdown_sfn = 0, shutdown_slot = 0, test_type = 0\<rparr>) s) (\<lambda>(_, s).
               obind (nr5g_fapi_fapi2phy_send_api_list e False s) (\<lambda>s. Done (0, s)))
          else if status = 1 then
            obind (fapi2mac_message e pid FAPI_ERROR_INDICATION (own_length e FAPI_ERROR_INDICATION)
                     (error_content (nSFN ss) (nSlot ss) FAPI_STOP_REQUEST status) False s) (\<lambda>(ok, s).
            if \<not> ok then Done (1, s) else Done (0, upd_inst i (count_fapi_p7 Error_ind_cnt) s))
          else Done (1, s)))"

definition nr5g_fapi_clean :: "fapi_cfg \<Rightarrow> nat \<Rightarrow> fapi_state \<Rightarrow> fapi_state outcome" where
  "nr5g_fapi_clean e i s =
     obind (wls_fapi_free_send_free_list_urllc (api e) (io s)) (\<lambda>x. Done (upd_inst i clean_instance (s\<lparr>io := x\<rparr>)))"

text \<open>A failed shutdown is requested again three times; then the MAC gets an error.  At the end the
  counters are cleared.\<close>

definition nr5g_fapi_shutdown_response :: "fapi_cfg \<Rightarrow> (sfn_slot \<times> u32) option \<Rightarrow> fapi_state \<Rightarrow> (u8 \<times> fapi_state) outcome" where
  "nr5g_fapi_shutdown_response e resp s =
     (let finish = (\<lambda>i s. Done (0, upd_inst i (\<lambda>p. p\<lparr>stats := zero_stats\<rparr>) s))
      in case resp of None \<Rightarrow> Done (1, s) | Some (ss, status) \<Rightarrow>
       with_instance (nCarrier ss) s (\<lambda>pid i.
       let s = upd_inst i (count_iapi Shutdown_res_cnt) s
       in if status = 0 then
            obind (fapi2mac_message e pid FAPI_STOP_INDICATION (sizeof_fapi e FAPI_STOP_INDICATION) Stop_ind False s) (\<lambda>(ok, s).
            if \<not> ok then Done (1, s)
            else obind (nr5g_fapi_clean e i
                   (upd_inst i (\<lambda>p. (count_fapi Stop_ind_cnt p)\<lparr>shutdown_retries := 0\<rparr>) s)) (finish i))
          else
            let s = upd_inst i (\<lambda>p. p\<lparr>shutdown_retries := shutdown_retries p + 1\<rparr>) s
            in if shutdown_retries (phy_instance s ! i) \<le> 3 then
                 obind (nr5g_fapi_shutdown_request e False (Some i)
                   (Some \<lparr>shutdown_sfn = 0, shutdown_slot = 0, test_type = shutdown_test_type (phy_instance s ! i)\<rparr>) s) (\<lambda>(_, s).
                 obind (nr5g_fapi_fapi2phy_send_api_list e False s) (finish i))
               else
                 obind (fapi2mac_message e pid FAPI_ERROR_INDICATION (own_length e FAPI_ERROR_INDICATION)
                     (error_content (nSFN ss) (nSlot ss) FAPI_VENDOR_EXT_SHUTDOWN_REQUEST status) False s) (\<lambda>(ok, s).
                 if \<not> ok then Done (1, s)
                 else finish i (upd_inst i (\<lambda>p. (count_fapi_p7 Error_ind_cnt p)\<lparr>shutdown_retries := 0\<rparr>) s))))"

text \<open>The identifier of the message in error is not filled in; it is what stood in the block, the
  argument \<open>old\<close>.\<close>

definition nr5g_fapi_error_indication ::
    "fapi_cfg \<Rightarrow> u8 \<Rightarrow> (u16 \<times> sfn_slot \<times> u32) option \<Rightarrow> fapi_state \<Rightarrow> (u8 \<times> fapi_state) outcome" where
  "nr5g_fapi_error_indication e old resp s =
     (case resp of None \<Rightarrow> Done (1, s) | Some (len, ss, status) \<Rightarrow>
       let pid = ucast (nCarrier ss) :: u8; i = unat pid
       in if i \<ge> length (phy_instance s) then Undefined
          else if ucast (phy_id (phy_instance s ! i)) \<noteq> nCarrier ss then Done (1, s)
          else obind (fapi2mac_message e pid FAPI_ERROR_INDICATION (ucast len)
                 (error_content (nSFN ss) (nSlot ss) (ucast old) status) False s) (\<lambda>(ok, s).
               Done (if ok then 0 else 1, s)))"

section \<open>Slot indication\<close>

text \<open>The vendor element of an instance is made when it is first needed.\<close>

definition alloc_vendor_p7_msg :: "fapi_cfg \<Rightarrow> fapi_state \<Rightarrow> (fapi_el option \<times> fapi_state) outcome" where
  "alloc_vendor_p7_msg e s =
     nr5g_fapi_fapi2mac_create_api_list_elem e FAPI_VENDOR_EXT_P7_IND 1 (sizeof_fapi e FAPI_VENDOR_EXT_P7_IND)
       (Fapi_message FAPI_VENDOR_EXT_P7_IND (own_length e FAPI_VENDOR_EXT_P7_IND) (Vendor_p7_ind empty_vendor_p7_ind)) s"

definition nr5g_fapi_proc_vendor_p7_msg_get ::
    "fapi_cfg \<Rightarrow> nat \<Rightarrow> fapi_el option list \<Rightarrow> fapi_state \<Rightarrow> (fapi_el option list \<times> fapi_state) outcome" where
  "nr5g_fapi_proc_vendor_p7_msg_get e i v s =
     (if i \<ge> FAPI_MAX_PHY_INSTANCES then Done (v, s)
      else case v ! i of
        None \<Rightarrow> obind (alloc_vendor_p7_msg e s) (\<lambda>(el, s). Done (v[i := el], s))
      | Some _ \<Rightarrow> Done (v, s))"

definition update_vendor_ind :: "(fapi_vendor_p7_ind \<Rightarrow> fapi_vendor_p7_ind) \<Rightarrow> fapi_el \<Rightarrow> fapi_el" where
  "update_vendor_ind f x =
     (case body x of
        Fapi_message mt len (Vendor_p7_ind i) \<Rightarrow> x\<lparr>body := Fapi_message mt len (Vendor_p7_ind (f i))\<rparr>
      | _ \<Rightarrow> x)"

definition set_slot_ind :: "u32 \<Rightarrow> u32 \<Rightarrow> fapi_el \<Rightarrow> fapi_el" where
  "set_slot_ind carrier symb = update_vendor_ind (\<lambda>i. i\<lparr>vi_slot_ind := Some (carrier, symb)\<rparr>)"

fun slot_ind_loop ::
    "fapi_cfg \<Rightarrow> bool \<Rightarrow> sfn_slot \<Rightarrow> nat list \<Rightarrow> fapi_el option list \<Rightarrow> fapi_state \<Rightarrow> (u8 \<times> fapi_el option list \<times> fapi_state) outcome" where
  "slot_ind_loop e u ss [] v s = Done (0, v, s)"
| "slot_ind_loop e u ss (i # is) v s =
     (if state (phy_instance s ! i) \<noteq> FAPI_STATE_RUNNING then slot_ind_loop e u ss is v s
      else if phy_id (phy_instance s ! i) \<noteq> of_nat i then Done (1, v, s)
      else
        let s = upd_inst i (count_iapi_p7 Slot_ind_cnt) s
        in obind (nr5g_fapi_fapi2mac_create_api_list_elem e FAPI_SLOT_INDICATION 1 (sizeof_fapi e FAPI_SLOT_INDICATION)
              (Fapi_message FAPI_SLOT_INDICATION (own_length e FAPI_SLOT_INDICATION) (Slot_ind (nSFN ss) (nSlot ss))) s) (\<lambda>(el, s).
           if el = None then Done (1, v, s)
           else
             obind (nr5g_fapi_proc_vendor_p7_msg_get e i v s) (\<lambda>(v, s).
             let v = v[i := map_option (set_slot_ind (ucast (nCarrier ss)) (ucast (nSym ss))) (v ! i)]
             in obind (nr5g_fapi_fapi2mac_add_api_to_list (of_nat i) el u s) (\<lambda>s.
                slot_ind_loop e u ss is v (upd_inst i (count_fapi_p7 Slot_ind_cnt) s)))))"

definition nr5g_fapi_slot_indication ::
    "fapi_cfg \<Rightarrow> bool \<Rightarrow> sfn_slot option \<Rightarrow> fapi_el option list \<Rightarrow> fapi_state \<Rightarrow> (u8 \<times> fapi_el option list \<times> fapi_state) outcome" where
  "nr5g_fapi_slot_indication e u resp v s =
     (case resp of None \<Rightarrow> Done (1, v, s)
      | Some ss \<Rightarrow> slot_ind_loop e u ss [0..<FAPI_MAX_PHY_INSTANCES] v s)"

fun move_vendor_loop :: "bool \<Rightarrow> nat list \<Rightarrow> fapi_el option list \<Rightarrow> fapi_state \<Rightarrow> fapi_state outcome" where
  "move_vendor_loop u [] v s = Done s"
| "move_vendor_loop u (i # is) v s =
     obind (nr5g_fapi_fapi2mac_add_api_to_list (of_nat i) (v ! i) u s) (move_vendor_loop u is v)"

definition nr5g_fapi_proc_vendor_p7_msgs_move_to_api_list ::
    "bool \<Rightarrow> fapi_el option list \<Rightarrow> fapi_state \<Rightarrow> (fapi_el option list \<times> fapi_state) outcome" where
  "nr5g_fapi_proc_vendor_p7_msgs_move_to_api_list u v s =
     obind (move_vendor_loop u [0..<FAPI_MAX_PHY_INSTANCES] v s) (\<lambda>s. Done (map (\<lambda>_. None) v, s))"

end
