(* ===== verification/Fapi_Dispatch.thy ===== *)
theory Fapi_Dispatch
  imports Fapi_P5
begin

text \<open>
  The handlers of the two threads of the FAPI layer
  (\<open>framework/workers/nr5g_fapi_mac2phy_thread.c\<close>, \<open>nr5g_fapi_phy2mac_thread.c\<close>): a list from the
  MAC is split by carrier, checked and handed message by message to the request functions; the
  messages of the PHY go to the functions that answer the MAC.

  The functions for the slot messages (\<open>api/fapi2phy/p7\<close>, \<open>api/fapi2mac/p7\<close> but for the slot
  indication) are the parameter \<open>fapi_p7\<close>, whose value is \<open>slot_messages\<close> in \<open>Fapi_P7\<close>.  The cycle counters and the printing of statistics are
  left out.
\<close>

section \<open>Slot messages\<close>

record fapi_p7 =
  p7_request :: "bool \<Rightarrow> nat \<Rightarrow> fapi_el \<Rightarrow> fapi_vendor_msg option \<Rightarrow> fapi_state \<Rightarrow> fapi_state outcome"
  p7_indication :: "bool \<Rightarrow> phy_msg \<Rightarrow> fapi_el option list \<Rightarrow> fapi_state \<Rightarrow> (fapi_el option list \<times> fapi_state) outcome"

section \<open>The list of one carrier\<close>

definition el_msg_id :: "fapi_el \<Rightarrow> u16" where "el_msg_id x = msg_id (body x)"
definition el_type :: "fapi_el \<Rightarrow> u16" where "el_type x = ucast (fel_type x)"

text \<open>The messages in front of the vendor message, and that message; \<open>None\<close> when it comes first.\<close>

definition split_vendor :: "fapi_el list \<Rightarrow> (fapi_el list \<times> fapi_el option) option" where
  "split_vendor xs =
     (case dropWhile (\<lambda>x. el_msg_id x \<noteq> FAPI_VENDOR_MESSAGE) xs of
        [] \<Rightarrow> Some (xs, None)
      | v # _ \<Rightarrow> if el_msg_id (hd xs) = FAPI_VENDOR_MESSAGE then None
                 else Some (takeWhile (\<lambda>x. el_msg_id x \<noteq> FAPI_VENDOR_MESSAGE) xs, Some v))"

text \<open>The payload elements are chained behind each other, which takes what stood between them out of
  the list; the last TX_DATA.request, where it is still in the list, gets the chain and ends the list.\<close>

definition is_zbc :: "fapi_el \<Rightarrow> bool" where "is_zbc x \<longleftrightarrow> el_type x = FAPI_VENDOR_MSG_PHY_ZBC_BLOCK_REQ"
definition is_tx_data :: "fapi_el \<Rightarrow> bool" where "is_tx_data x \<longleftrightarrow> el_type x = FAPI_TX_DATA_REQUEST"

definition upto_last :: "('a \<Rightarrow> bool) \<Rightarrow> 'a list \<Rightarrow> 'a list" where
  "upto_last P xs = rev (dropWhile (\<lambda>x. \<not> P x) (rev xs))"

definition attach_tx :: "fapi_el list \<Rightarrow> fapi_el list \<Rightarrow> fapi_el list" where
  "attach_tx xs ch = butlast xs @ [(last xs)\<lparr>fel_tx := map fel_addr ch\<rparr>]"

definition split_tx_data :: "fapi_el list \<Rightarrow> fapi_el list" where
  "split_tx_data xs =
     (let zs = filter is_zbc xs;
          pre = takeWhile (\<lambda>x. \<not> is_zbc x) xs;
          post = rev (takeWhile (\<lambda>x. \<not> is_zbc x) (rev xs))
      in if zs = [] then xs
         else if \<exists>x \<in> set post. is_tx_data x then pre @ zs @ attach_tx (upto_last is_tx_data post) (zs @ upto_last is_tx_data post)
         else if \<exists>x \<in> set (drop (length pre) xs). is_tx_data x then pre @ zs @ post
         else if \<exists>x \<in> set pre. is_tx_data x then attach_tx (upto_last is_tx_data pre) (zs @ post)
         else pre @ zs @ post)"

text \<open>In the running state a list starts with DL_TTI.request and UL_TTI.request, perhaps behind a
  CONFIG.request.  The first argument is the message that is expected next.\<close>

fun order_loop :: "u16 \<Rightarrow> fapi_el list \<Rightarrow> u16" where
  "order_loop ex [] = ex"
| "order_loop ex (x # xs) =
     (if el_msg_id x = FAPI_DL_TTI_REQUEST \<and> el_msg_id x = ex then order_loop FAPI_UL_TTI_REQUEST xs
      else if el_msg_id x = FAPI_UL_TTI_REQUEST \<and> el_msg_id x = ex then order_loop FAPI_UL_DCI_REQUEST xs
      else ex)"

definition nr5g_fapi_check_api_ordering :: "nr5g_fapi_phy_instance \<Rightarrow> fapi_el list \<Rightarrow> u8" where
  "nr5g_fapi_check_api_ordering p xs =
     (if state p = FAPI_STATE_RUNNING then
        let ys = (if el_msg_id (hd xs) = FAPI_CONFIG_REQUEST then tl xs else xs)
        in if order_loop FAPI_DL_TTI_REQUEST ys \<noteq> FAPI_UL_DCI_REQUEST then 1 else 0
      else 0)"

definition vendor_of :: "fapi_el option \<Rightarrow> fapi_vendor_msg option outcome" where
  "vendor_of v =
     (case v of None \<Rightarrow> Done None
      | Some x \<Rightarrow> (case body x of Fapi_message _ _ (Vendor_message m) \<Rightarrow> Done (Some m) | _ \<Rightarrow> Undefined))"

text \<open>One message; a message whose content is not that of its identifier is undefined.\<close>

definition ignore_result :: "('a \<times> 's) outcome \<Rightarrow> 's outcome" where
  "ignore_result r = obind r (\<lambda>(_, s). Done s)"

definition handle_request ::
    "fapi_cfg \<Rightarrow> fapi_p7 \<Rightarrow> bool \<Rightarrow> nat \<Rightarrow> fapi_vendor_msg option \<Rightarrow> fapi_el \<Rightarrow> fapi_state \<Rightarrow> fapi_state outcome" where
  "handle_request e p7 u i vm x s =
     (let mid = el_msg_id x; c = (case body x of Fapi_message _ _ c \<Rightarrow> c | Msg_header _ _ \<Rightarrow> Other_message)
      in if mid = FAPI_VENDOR_EXT_SHUTDOWN_REQUEST then
           (case c of Shutdown_req r \<Rightarrow> ignore_result (nr5g_fapi_shutdown_request e u (Some i) (Some r) s) | _ \<Rightarrow> Undefined)
         else if mid = FAPI_PARAM_REQUEST then ignore_result (nr5g_fapi_param_response e i s)
         else if mid = FAPI_CONFIG_REQUEST then
           (case c of Config_req n tlvs \<Rightarrow> ignore_result (nr5g_fapi_config_request e u (Some i) (Some (n, tlvs)) vm s)
            | _ \<Rightarrow> Undefined)
         else if mid = FAPI_START_REQUEST then ignore_result (nr5g_fapi_start_request e u (Some i) (Some ()) vm s)
         else if mid = FAPI_STOP_REQUEST then ignore_result (nr5g_fapi_stop_request e u (Some i) (Some ()) vm s)
         else if mid \<in> {FAPI_DL_TTI_REQUEST, FAPI_UL_TTI_REQUEST, FAPI_UL_DCI_REQUEST, FAPI_TX_DATA_REQUEST}
         then p7_request p7 u i x vm s
         else Done s)"

fun handle_requests ::
    "fapi_cfg \<Rightarrow> fapi_p7 \<Rightarrow> bool \<Rightarrow> nat \<Rightarrow> fapi_vendor_msg option \<Rightarrow> fapi_el list \<Rightarrow> fapi_state \<Rightarrow> fapi_state outcome" where
  "handle_requests e p7 u i vm [] s = Done s"
| "handle_requests e p7 u i vm (x # xs) s =
     obind (handle_request e p7 u i vm x s) (handle_requests e p7 u i vm xs)"

definition nr5g_fapi_mac2phy_api_processing_handler ::
    "fapi_cfg \<Rightarrow> fapi_p7 \<Rightarrow> bool \<Rightarrow> nat \<Rightarrow> fapi_el list \<Rightarrow> fapi_state \<Rightarrow> fapi_state outcome" where
  "nr5g_fapi_mac2phy_api_processing_handler e p7 u i xs s =
     (case split_vendor xs of None \<Rightarrow> Done s
      | Some (xs, v) \<Rightarrow>
          obind (vendor_of v) (\<lambda>vm.
          let xs = split_tx_data xs
          in if nr5g_fapi_check_api_ordering (phy_instance s ! i) xs \<noteq> 0 then Done s
             else handle_requests e p7 u i vm xs s))"

section \<open>The list of all carriers\<close>

text \<open>The messages behind a header up to the next one, and the list from there.  When the next one
  follows at once, the list is cut behind it.\<close>

definition is_header :: "fapi_el \<Rightarrow> bool" where "is_header x \<longleftrightarrow> el_type x = FAPI_VENDOR_MSG_HEADER_IND"

definition split_carrier :: "fapi_el list \<Rightarrow> fapi_el list \<times> fapi_el list" where
  "split_carrier t =
     (if length t = 1 then (t, [])
      else if is_header (hd t) then ([hd t], [hd t])
      else (takeWhile (\<lambda>x. \<not> is_header x) t, dropWhile (\<lambda>x. \<not> is_header x) t))"

lemma split_carrier_shorter: "t \<noteq> [] \<Longrightarrow> (xs, ys) = split_carrier t \<Longrightarrow> length ys < Suc (length t)"
  by (cases t) (auto simp: split_carrier_def length_dropWhile_le Suc_le_eq less_Suc_eq_le
      intro: order_trans [OF length_dropWhile_le] split: if_splits)

function nr5g_fapi_mac2phy_api_recv_handler ::
    "fapi_cfg \<Rightarrow> fapi_p7 \<Rightarrow> bool \<Rightarrow> fapi_el list \<Rightarrow> fapi_state \<Rightarrow> fapi_state outcome" where
  "nr5g_fapi_mac2phy_api_recv_handler e p7 u [] s = Done s"
| "nr5g_fapi_mac2phy_api_recv_handler e p7 u (h # t) s =
     (if t = [] then Done s
      else if num_msg (body h) = 0 then nr5g_fapi_mac2phy_api_recv_handler e p7 u t s
      else
        let pid = handle (body h); i = unat pid; (xs, rest) = split_carrier t
        in if i > FAPI_MAX_PHY_INSTANCES then nr5g_fapi_mac2phy_api_recv_handler e p7 u rest s
           else if i \<ge> length (phy_instance s) then Undefined
           else if state (phy_instance s ! i) = FAPI_STATE_IDLE \<and> el_msg_id (hd xs) \<noteq> FAPI_CONFIG_REQUEST
           then nr5g_fapi_mac2phy_api_recv_handler e p7 u rest s
           else
             let s = (if state (phy_instance s ! i) = FAPI_STATE_IDLE then upd_inst i (\<lambda>p. p\<lparr>phy_id := pid\<rparr>) s else s)
             in obind (nr5g_fapi_mac2phy_api_processing_handler e p7 u i xs s)
                  (nr5g_fapi_mac2phy_api_recv_handler e p7 u rest))"
  by pat_completeness auto
termination
  by (relation "measure (\<lambda>(e, p7, u, xs, s). length xs)")
    (auto dest: split_carrier_shorter)

text \<open>One round of the thread, whose result is the list for the URLLC thread, and one round of that
  thread.\<close>

definition mac2phy_round :: "fapi_cfg \<Rightarrow> fapi_p7 \<Rightarrow> fapi_state \<Rightarrow> (fapi_el list \<times> fapi_state) outcome" where
  "mac2phy_round e p7 s =
     obind (nr5g_fapi_fapi2mac_wls_recv e s) (\<lambda>(xs, uxs, s).
     obind (nr5g_fapi_mac2phy_api_recv_handler e p7 False xs s) (\<lambda>s.
     obind (nr5g_fapi_fapi2phy_send_api_list e False s) (\<lambda>s. Done (uxs, s))))"

definition urllc_mac2phy_round :: "fapi_cfg \<Rightarrow> fapi_p7 \<Rightarrow> fapi_el list \<Rightarrow> fapi_state \<Rightarrow> fapi_state outcome" where
  "urllc_mac2phy_round e p7 xs s =
     obind (nr5g_fapi_mac2phy_api_recv_handler e p7 True xs s) (nr5g_fapi_fapi2phy_send_api_list e True)"

section \<open>Messages of the PHY\<close>

definition handle_indication ::
    "fapi_cfg \<Rightarrow> fapi_p7 \<Rightarrow> bool \<Rightarrow> phy_msg \<Rightarrow> fapi_el option list \<Rightarrow> fapi_state \<Rightarrow> (fapi_el option list \<times> fapi_state) outcome" where
  "handle_indication e p7 u m v s =
     (let t = msg_type m; c = content m; a = api e;
          keep = (\<lambda>r. obind (ignore_result r) (\<lambda>s. Done (v, s)));
          status = (\<lambda>f. case c of Status_body ss st \<Rightarrow> keep (f (Some (ss, st)) s) | _ \<Rightarrow> Undefined)
      in if t = MSG_TYPE_PHY_SHUTDOWN_RESP a then status (nr5g_fapi_shutdown_response e)
         else if t = MSG_TYPE_PHY_CONFIG_RESP a then
           (case c of Config_response_body ca st \<Rightarrow> keep (nr5g_fapi_config_response e (Some (ca, st)) s) | _ \<Rightarrow> Undefined)
         else if t = MSG_TYPE_PHY_START_RESP a then status (nr5g_fapi_start_resp e)
         else if t = MSG_TYPE_PHY_STOP_RESP a then status (nr5g_fapi_stop_indication e)
         else if t \<in> {MSG_TYPE_PHY_RX_ULSCH_IND a, MSG_TYPE_PHY_RX_ULSCH_UCI_IND a, MSG_TYPE_PHY_CRC_IND a,
                      MSG_TYPE_PHY_UCI_IND a, MSG_TYPE_PHY_RX_RACH_IND a, MSG_TYPE_PHY_RX_SRS_IND a}
         then p7_indication p7 u m v s
         else if t = MSG_TYPE_PHY_SLOT_IND a then
           (case c of Slot_indication_body ss \<Rightarrow>
              obind (nr5g_fapi_slot_indication e u (Some ss) v s) (\<lambda>(_, v, s). Done (v, s))
            | _ \<Rightarrow> Undefined)
         else Done (v, s))"

fun handle_indications ::
    "fapi_cfg \<Rightarrow> fapi_p7 \<Rightarrow> bool \<Rightarrow> phy_el list \<Rightarrow> fapi_el option list \<Rightarrow> fapi_state \<Rightarrow> (fapi_el option list \<times> fapi_state) outcome" where
  "handle_indications e p7 u [] v s = Done (v, s)"
| "handle_indications e p7 u (x # xs) v s =
     obind (handle_indication e p7 u (el_msg x) v s) (\<lambda>(v, s). handle_indications e p7 u xs v s)"

definition nr5g_fapi_phy2mac_api_recv_handler ::
    "fapi_cfg \<Rightarrow> fapi_p7 \<Rightarrow> bool \<Rightarrow> phy_el list \<Rightarrow> fapi_state \<Rightarrow> fapi_state outcome" where
  "nr5g_fapi_phy2mac_api_recv_handler e p7 u xs s =
     obind (nr5g_fapi_message_header e u s) (\<lambda>(_, s).
     obind (handle_indications e p7 u xs (replicate FAPI_MAX_PHY_INSTANCES None) s) (\<lambda>(v, s).
     obind (nr5g_fapi_proc_vendor_p7_msgs_move_to_api_list u v s) (\<lambda>(_, s). Done s)))"

text \<open>One round of the thread; the list for the URLLC thread is handled there.\<close>

definition phy2mac_round :: "fapi_cfg \<Rightarrow> fapi_p7 \<Rightarrow> fapi_state \<Rightarrow> (phy_el list \<times> fapi_state) outcome" where
  "phy2mac_round e p7 s =
     obind (nr5g_fapi_fapi2phy_wls_recv (fapi_env.truncate e) (io s)) (\<lambda>(xs, uxs, i).
     let s = s\<lparr>io := i\<rparr>
     in obind (if xs \<noteq> [] then nr5g_fapi_phy2mac_api_recv_handler e p7 False xs s else Done s) (\<lambda>s.
        obind (nr5g_fapi_fapi2mac_send_api_list e False s) (\<lambda>s. Done (uxs, s))))"

definition urllc_phy2mac_round :: "fapi_cfg \<Rightarrow> fapi_p7 \<Rightarrow> phy_el list \<Rightarrow> fapi_state \<Rightarrow> fapi_state outcome" where
  "urllc_phy2mac_round e p7 xs s =
     obind (nr5g_fapi_phy2mac_api_recv_handler e p7 True xs s) (nr5g_fapi_fapi2mac_send_api_list e True)"

end
