(* ===== verification/Fapi_P7.thy ===== *)
theory Fapi_P7
  imports Fapi_P7_Ind Fapi_P7_Dl Fapi_Dispatch
begin

text \<open>
  The functions for slot messages that the threads of the FAPI layer call: the requests
  (\<open>api/fapi2phy/p7\<close>), which put a message for the PHY into the queue, and the indications
  (\<open>api/fapi2mac/p7\<close>), which put a message for the MAC into the list of its instance.  \<open>slot_messages\<close> is
  the value for the parameter \<open>fapi_p7\<close> of \<open>Fapi_Dispatch\<close>.

  \<open>p7_env\<close> adds to the header of the PHY what the bytes of a block say when they are read as
  another message; some messages are written over such bytes without clearing them.
\<close>

record p7_env = p7_api +
  old_dci_slot :: "phy_msg \<Rightarrow> sfn_slot"
  old_dci_pdus :: "phy_msg \<Rightarrow> nat \<Rightarrow> struct"
  old_tx_pdus :: "phy_msg \<Rightarrow> nat \<Rightarrow> zbc_pdu"
  old_rach_pdus :: "fapi_el \<Rightarrow> fapi_rach_pdu list"

section \<open>Requests\<close>

definition zero_slot :: sfn_slot where "zero_slot = \<lparr>nSFN = 0, nSlot = 0, nCarrier = 0, nSym = 0\<rparr>"

definition p7_vendor :: "fapi_vendor_msg option \<Rightarrow> fapi_vendor_p7_msg option" where
  "p7_vendor vm = map_option p7_req_vendor vm"

definition cleared_ul_config :: ul_config where
  "cleared_ul_config = \<lparr>uc_slot = zero_slot, uc_fields = zero_struct, uc_groups = (\<lambda>_. zero_struct), uc_pdus = []\<rparr>"

text \<open>A request that cannot be translated gives its element back.\<close>

definition finish_request ::
    "fapi_cfg \<Rightarrow> bool \<Rightarrow> nat \<Rightarrow> p7_counter \<Rightarrow> phy_el \<Rightarrow> bool \<times> phy_msg \<times> nr5g_fapi_phy_instance \<Rightarrow> fapi_state \<Rightarrow> (u8 \<times> fapi_state) outcome" where
  "finish_request e u i cnt el r s =
     (case r of (ok, m, p) \<Rightarrow>
       let (el, s) = write_message m el (upd_inst i (\<lambda>_. p) s)
       in if ok then Done (0, upd_inst i (count_iapi_p7 cnt) (nr5g_fapi_fapi2phy_add_to_api_list u (Some el) s))
          else obind (nr5g_fapi_fapi2phy_destroy_api_list_elem e (Some el) s) (\<lambda>s. Done (1, s)))"

definition nr5g_fapi_ul_tti_request ::
    "fapi_cfg \<Rightarrow> p7_env \<Rightarrow> bool \<Rightarrow> nat option \<Rightarrow> fapi_ul_tti_req option \<Rightarrow> fapi_vendor_msg option \<Rightarrow> fapi_state \<Rightarrow> (u8 \<times> fapi_state) outcome" where
  "nr5g_fapi_ul_tti_request e b u inst req vm s =
     (case inst of None \<Rightarrow> Done (1, s) | Some i \<Rightarrow>
       let s = upd_inst i (count_fapi_p7 Ul_tti_cnt) s; t = MSG_TYPE_PHY_UL_CONFIG_REQ (api e)
       in case req of None \<Rightarrow> Done (1, s) | Some r \<Rightarrow>
          obind (nr5g_fapi_fapi2phy_create_api_list_elem e (ucast t) 1 (sizeof_msg (api e) t) s) (\<lambda>(el, s).
          case el of None \<Rightarrow> Done (1, s) | Some el \<Rightarrow>
          obind (nr5g_fapi_ul_tti_req_to_phy_translation (p7_api.truncate b) u r (p7_vendor vm) cleared_ul_config (phy_instance s ! i)) (\<lambda>(ok, c, p).
          finish_request e u i Ul_tti_cnt el (ok, phy_message e t (Ul_config_body c), p) s)))"

definition nr5g_fapi_dl_tti_request ::
    "fapi_cfg \<Rightarrow> p7_env \<Rightarrow> bool \<Rightarrow> nat option \<Rightarrow> fapi_dl_tti_req option \<Rightarrow> fapi_vendor_msg option \<Rightarrow> fapi_state \<Rightarrow> (u8 \<times> fapi_state) outcome" where
  "nr5g_fapi_dl_tti_request e b u inst req vm s =
     (case inst of None \<Rightarrow> Done (1, s) | Some i \<Rightarrow>
       let s = upd_inst i (count_fapi_p7 Dl_tti_cnt) s; t = MSG_TYPE_PHY_DL_CONFIG_REQ (api e)
       in case req of None \<Rightarrow> Done (1, s) | Some r \<Rightarrow>
          obind (nr5g_fapi_fapi2phy_create_api_list_elem e (ucast t) 1 (sizeof_msg (api e) t) s) (\<lambda>(el, s).
          case el of None \<Rightarrow> Done (1, s) | Some el \<Rightarrow>
          obind (nr5g_fapi_dl_tti_req_to_phy_translation (p7_api.truncate b) r (p7_vendor vm) (phy_instance s ! i)) (\<lambda>(ok, len, c, p).
          finish_request e u i Dl_tti_cnt el (ok, \<lparr>msg_type = t, msg_len = of_nat len, content = Dl_config_body c\<rparr>, p) s)))"

text \<open>Of the structure only the first eight bytes are cleared, and the symbol comes from the vendor
  message alone.\<close>

definition nr5g_fapi_ul_dci_request ::
    "fapi_cfg \<Rightarrow> p7_env \<Rightarrow> bool \<Rightarrow> nat option \<Rightarrow> fapi_ul_dci_req option \<Rightarrow> fapi_vendor_msg option \<Rightarrow> fapi_state \<Rightarrow> (u8 \<times> fapi_state) outcome" where
  "nr5g_fapi_ul_dci_request e b u inst req vm s =
     (case inst of None \<Rightarrow> Done (1, s) | Some i \<Rightarrow>
       let s = upd_inst i (count_fapi_p7 Ul_dci_cnt) s; t = MSG_TYPE_PHY_UL_DCI_REQ (api e)
       in case req of None \<Rightarrow> Done (1, s) | Some r \<Rightarrow>
          obind (nr5g_fapi_fapi2phy_create_api_list_elem e (ucast t) 1 (sizeof_msg (api e) t) s) (\<lambda>(el, s).
          case el of None \<Rightarrow> Done (1, s) | Some el \<Rightarrow>
          let p = phy_instance s ! i; a = p7_api.truncate b;
              c = \<lparr>ud_slot = (old_dci_slot b (el_msg el))\<lparr>nSFN := ur_sfn r, nSlot := ur_slot r, nCarrier := ucast (phy_id p)\<rparr>,
                   ud_nDCI = 0, ud_pdus = []\<rparr>
          in obind (nr5g_fapi_ul_dci_req_to_phy_translation a r (old_dci_pdus b (el_msg el)) c p) (\<lambda>(c, p).
             obind (case p7_vendor vm of None \<Rightarrow> Done c
                    | Some v \<Rightarrow> nr5g_fapi_ul_dci_req_to_phy_translation_vendor_ext a v p c) (\<lambda>c.
             finish_request e u i Ul_dci_cnt el (True, phy_message e t (Ul_dci_body c), p) s))))"

definition nr5g_fapi_tx_data_request ::
    "fapi_cfg \<Rightarrow> p7_env \<Rightarrow> bool \<Rightarrow> nat option \<Rightarrow> fapi_tx_data_req option \<Rightarrow> fapi_vendor_msg option \<Rightarrow> fapi_state \<Rightarrow> (u8 \<times> fapi_state) outcome" where
  "nr5g_fapi_tx_data_request e b u inst req vm s =
     (case inst of None \<Rightarrow> Done (1, s) | Some i \<Rightarrow>
      case req of None \<Rightarrow> Done (1, s) | Some r \<Rightarrow>
       let s = upd_inst i (count_fapi_p7 Tx_data_cnt) s; t = MSG_TYPE_PHY_TX_REQ (api e)
       in obind (nr5g_fapi_fapi2phy_create_api_list_elem e (ucast t) 1 (sizeof_msg (api e) t) s) (\<lambda>(el, s).
          case el of None \<Rightarrow> Done (1, s) | Some el \<Rightarrow>
          let p = phy_instance s ! i
          in obind (nr5g_fapi_tx_data_req_to_phy_translation r (p7_vendor vm) (old_tx_pdus b (el_msg el)) p) (\<lambda>(ss, pdus).
             finish_request e u i Tx_data_cnt el (True, phy_message e t (Tx_request_body ss pdus), p) s)))"

section \<open>Indications\<close>

text \<open>An indication that cannot be translated is not given back: its block is lost.  The vendor
  message of the instance is made first when it does not exist yet.\<close>

definition vendor_ind :: "fapi_el option list \<Rightarrow> nat \<Rightarrow> fapi_vendor_p7_ind option" where
  "vendor_ind v i = Option.bind (v ! i) (\<lambda>x. case body x of Fapi_message _ _ (Vendor_p7_ind r) \<Rightarrow> Some r | _ \<Rightarrow> None)"

definition set_vendor_ind :: "nat \<Rightarrow> fapi_vendor_p7_ind option \<Rightarrow> fapi_el option list \<Rightarrow> fapi_el option list" where
  "set_vendor_ind i r v = (case r of None \<Rightarrow> v | Some r \<Rightarrow> v[i := map_option (update_vendor_ind (\<lambda>_. r)) (v ! i)])"

definition indication ::
    "fapi_cfg \<Rightarrow> u16 \<Rightarrow> u32 \<Rightarrow> p7_counter \<Rightarrow> (u32 \<Rightarrow> u32 \<Rightarrow> fapi_vendor_p7_ind \<Rightarrow> fapi_vendor_p7_ind)
     \<Rightarrow> (ind_state \<Rightarrow> (bool \<times> fapi_content \<times> ind_state) outcome)
     \<Rightarrow> bool \<Rightarrow> sfn_slot \<Rightarrow> fapi_el option list \<Rightarrow> fapi_state \<Rightarrow> (u8 \<times> fapi_el option list \<times> fapi_state) outcome" where
  "indication e mt len cnt mark translate u ss v s =
     (let pid = ucast (nCarrier ss) :: u8; i = unat pid
      in if i \<ge> length (phy_instance s) then Undefined
         else if phy_id (phy_instance s ! i) \<noteq> pid then Done (1, v, s)
         else
           let s = upd_inst i (count_iapi_p7 cnt) s
           in obind (nr5g_fapi_fapi2mac_create_api_list_elem e mt 1 (sizeof_fapi e mt) (Fapi_message mt len Other_message) s) (\<lambda>(el, s).
              case el of None \<Rightarrow> Done (1, v, s) | Some x \<Rightarrow>
              obind (nr5g_fapi_proc_vendor_p7_msg_get e i v s) (\<lambda>(v, s).
              obind (translate (map_option (mark (ucast pid) (ucast (nSym ss))) (vendor_ind v i), phy_instance s ! i)) (\<lambda>(ok, c, r, p).
              let s = upd_inst i (\<lambda>_. p) s; v = set_vendor_ind i r v
              in if \<not> ok then Done (1, v, s)
                 else obind (nr5g_fapi_fapi2mac_add_api_to_list pid (Some (x\<lparr>body := Fapi_message mt len c\<rparr>)) u s) (\<lambda>s.
                      Done (0, v, upd_inst i (count_fapi_p7 cnt) s))))))"

definition nr5g_fapi_crc_indication ::
    "fapi_cfg \<Rightarrow> p7_env \<Rightarrow> bool \<Rightarrow> (sfn_slot \<times> ul_crc list) option \<Rightarrow> fapi_el option list \<Rightarrow> fapi_state
     \<Rightarrow> (u8 \<times> fapi_el option list \<times> fapi_state) outcome" where
  "nr5g_fapi_crc_indication e b u ind v s =
     (case ind of None \<Rightarrow> Done (1, v, s) | Some (ss, crcs) \<Rightarrow>
       indication e FAPI_CRC_INDICATION (own_length e FAPI_CRC_INDICATION) Crc_ind_cnt
         (\<lambda>c y r. r\<lparr>vi_crc_ind := Some (c, y)\<rparr>)
         (\<lambda>st. obind (nr5g_fapi_crc_indication_to_fapi_translation (p7_api.truncate b) u ss crcs st) (\<lambda>(ok, xs, st).
                 Done (ok, Crc_ind (nSFN ss) (nSlot ss) (of_nat (length crcs)) xs, st))) u ss v s)"

definition nr5g_fapi_rx_data_indication ::
    "fapi_cfg \<Rightarrow> bool \<Rightarrow> (sfn_slot \<times> ulsch_data list) option \<Rightarrow> fapi_el option list \<Rightarrow> fapi_state
     \<Rightarrow> (u8 \<times> fapi_el option list \<times> fapi_state) outcome" where
  "nr5g_fapi_rx_data_indication e u ind v s =
     (case ind of None \<Rightarrow> Done (1, v, s) | Some (ss, pdus) \<Rightarrow>
       indication e FAPI_RX_DATA_INDICATION (own_length e FAPI_RX_DATA_INDICATION) Rx_data_ind_cnt
         (\<lambda>c y r. r\<lparr>vi_rx_data_ind := Some (c, y)\<rparr>)
         (\<lambda>st. obind (nr5g_fapi_rx_data_indication_to_fapi_translation u ss pdus st) (\<lambda>(ok, xs, st).
                 Done (ok, Rx_data_ind (nSFN ss) (nSlot ss) (of_nat (length pdus)) xs, st))) u ss v s)"

definition nr5g_fapi_uci_indication ::
    "fapi_cfg \<Rightarrow> p7_env \<Rightarrow> bool \<Rightarrow> (sfn_slot \<times> ul_uci_data list) option \<Rightarrow> fapi_el option list \<Rightarrow> fapi_state
     \<Rightarrow> (u8 \<times> fapi_el option list \<times> fapi_state) outcome" where
  "nr5g_fapi_uci_indication e b u ind v s =
     (case ind of None \<Rightarrow> Done (1, v, s) | Some (ss, ucis) \<Rightarrow>
       indication e FAPI_UCI_INDICATION (own_length e FAPI_UCI_INDICATION) Uci_ind_cnt
         (\<lambda>c y r. r\<lparr>vi_uci_ind := Some (c, y)\<rparr>)
         (\<lambda>st. obind (nr5g_fapi_uci_indication_to_fapi_translation (p7_api.truncate b) u ss ucis st) (\<lambda>(ok, xs, st).
                 Done (ok, Uci_ind (nSFN ss) (nSlot ss) (of_nat (length ucis)) xs, st))) u ss v s)"

definition nr5g_fapi_srs_indication ::
    "fapi_cfg \<Rightarrow> bool \<Rightarrow> (sfn_slot \<times> ul_srs_est list) option \<Rightarrow> fapi_el option list \<Rightarrow> fapi_state
     \<Rightarrow> (u8 \<times> fapi_el option list \<times> fapi_state) outcome" where
  "nr5g_fapi_srs_indication e u ind v s =
     (case ind of None \<Rightarrow> Done (1, v, s) | Some (ss, srss) \<Rightarrow>
       indication e FAPI_SRS_INDICATION (own_length e FAPI_SRS_INDICATION) Srs_ind_cnt (\<lambda>_ _ r. r)
         (\<lambda>st. obind (nr5g_fapi_srs_indication_to_fapi_translation u ss srss st) (\<lambda>(ok, xs, st).
                 Done (ok, Srs_ind (nSFN ss) (nSlot ss) (of_nat (length srss)) xs, st))) u ss v s)"

text \<open>The two indications without a vendor message.\<close>

definition plain_indication ::
    "fapi_cfg \<Rightarrow> u16 \<Rightarrow> u32 \<Rightarrow> p7_counter \<Rightarrow> (fapi_el \<Rightarrow> nr5g_fapi_phy_instance \<Rightarrow> (bool \<times> fapi_content \<times> nr5g_fapi_phy_instance) outcome)
     \<Rightarrow> bool \<Rightarrow> sfn_slot \<Rightarrow> fapi_state \<Rightarrow> (u8 \<times> fapi_state) outcome" where
  "plain_indication e mt len cnt translate u ss s =
     (let pid = ucast (nCarrier ss) :: u8; i = unat pid
      in if i \<ge> length (phy_instance s) then Undefined
         else if phy_id (phy_instance s ! i) \<noteq> pid then Done (1, s)
         else
           let s = upd_inst i (count_iapi_p7 cnt) s
           in obind (nr5g_fapi_fapi2mac_create_api_list_elem e mt 1 (sizeof_fapi e mt) (Fapi_message mt len Other_message) s) (\<lambda>(el, s).
              case el of None \<Rightarrow> Done (1, s) | Some x \<Rightarrow>
              obind (translate (mac_heap s (fel_addr x)) (phy_instance s ! i)) (\<lambda>(ok, c, p).
              let s = upd_inst i (\<lambda>_. p) s
              in if \<not> ok then Done (1, s)
                 else obind (nr5g_fapi_fapi2mac_add_api_to_list pid (Some (x\<lparr>body := Fapi_message mt len c\<rparr>)) u s) (\<lambda>s.
                      Done (0, upd_inst i (count_fapi_p7 cnt) s)))))"

definition nr5g_fapi_rx_data_uci_indication ::
    "fapi_cfg \<Rightarrow> bool \<Rightarrow> (sfn_slot \<times> ulsch_uci_data list) option \<Rightarrow> fapi_state \<Rightarrow> (u8 \<times> fapi_state) outcome" where
  "nr5g_fapi_rx_data_uci_indication e u ind s =
     (case ind of None \<Rightarrow> Done (1, s) | Some (ss, ucis) \<Rightarrow>
       plain_indication e FAPI_UCI_INDICATION (sizeof_fapi e FAPI_UCI_INDICATION) Uci_ind_cnt
         (\<lambda>_ p. obind (nr5g_fapi_rx_data_uci_indication_to_fapi_translation ucis (None, p)) (\<lambda>(ok, xs, _, p).
                  Done (ok, Uci_ind (nSFN ss) (nSlot ss) (of_nat (length ucis)) xs, p))) u ss s)"

text \<open>A RACH indication goes into the list of the other messages, also for URLLC.\<close>

definition nr5g_fapi_rach_indication ::
    "fapi_cfg \<Rightarrow> p7_env \<Rightarrow> bool \<Rightarrow> (sfn_slot \<times> preamble list) option \<Rightarrow> fapi_state \<Rightarrow> (u8 \<times> fapi_state) outcome" where
  "nr5g_fapi_rach_indication e b u ind s =
     (case ind of None \<Rightarrow> Done (1, s) | Some (ss, xs) \<Rightarrow>
       plain_indication e FAPI_RACH_INDICATION (own_length e FAPI_RACH_INDICATION) Rach_ind_cnt
         (\<lambda>old p. obind (nr5g_fapi_rach_indication_to_fapi_translation u ss xs (old_rach_pdus b old) p) (\<lambda>(ok, n, rach, p).
                    Done (ok, Rach_ind (nSFN ss) (nSlot ss) n rach, p))) False ss s)"

section \<open>The slot messages of the threads\<close>

definition slot_request ::
    "fapi_cfg \<Rightarrow> p7_env \<Rightarrow> bool \<Rightarrow> nat \<Rightarrow> fapi_el \<Rightarrow> fapi_vendor_msg option \<Rightarrow> fapi_state \<Rightarrow> fapi_state outcome" where
  "slot_request e b u i x vm s =
     (let mid = el_msg_id x; c = (case body x of Fapi_message _ _ c \<Rightarrow> c | Msg_header _ _ \<Rightarrow> Other_message)
      in if mid = FAPI_DL_TTI_REQUEST then
           (case c of Dl_tti_req r \<Rightarrow> ignore_result (nr5g_fapi_dl_tti_request e b u (Some i) (Some r) vm s) | _ \<Rightarrow> Undefined)
         else if mid = FAPI_UL_TTI_REQUEST then
           (case c of Ul_tti_req r \<Rightarrow> ignore_result (nr5g_fapi_ul_tti_request e b u (Some i) (Some r) vm s) | _ \<Rightarrow> Undefined)
         else if mid = FAPI_UL_DCI_REQUEST then
           (case c of Ul_dci_req r \<Rightarrow> ignore_result (nr5g_fapi_ul_dci_request e b u (Some i) (Some r) vm s) | _ \<Rightarrow> Undefined)
         else if mid = FAPI_TX_DATA_REQUEST then
           (case c of Tx_data_req r \<Rightarrow> ignore_result (nr5g_fapi_tx_data_request e b u (Some i) (Some r) vm s) | _ \<Rightarrow> Undefined)
         else Done s)"

definition slot_indication ::
    "fapi_cfg \<Rightarrow> p7_env \<Rightarrow> bool \<Rightarrow> phy_msg \<Rightarrow> fapi_el option list \<Rightarrow> fapi_state \<Rightarrow> (fapi_el option list \<times> fapi_state) outcome" where
  "slot_indication e b u m v s =
     (let t = msg_type m; c = content m; a = api e; keep = (\<lambda>r. obind (ignore_result r) (\<lambda>s. Done (v, s)))
      in if t = MSG_TYPE_PHY_RX_ULSCH_IND a then
           (case c of Ulsch_indication_body ss xs \<Rightarrow> obind (nr5g_fapi_rx_data_indication e u (Some (ss, xs)) v s) (\<lambda>(_, v, s). Done (v, s))
            | _ \<Rightarrow> Undefined)
         else if t = MSG_TYPE_PHY_RX_ULSCH_UCI_IND a then
           (case c of Ulsch_uci_indication_body ss xs \<Rightarrow> keep (nr5g_fapi_rx_data_uci_indication e u (Some (ss, xs)) s) | _ \<Rightarrow> Undefined)
         else if t = MSG_TYPE_PHY_CRC_IND a then
           (case c of Crc_indication_body ss xs \<Rightarrow> obind (nr5g_fapi_crc_indication e b u (Some (ss, xs)) v s) (\<lambda>(_, v, s). Done (v, s))
            | _ \<Rightarrow> Undefined)
         else if t = MSG_TYPE_PHY_UCI_IND a then
           (case c of Uci_indication_body ss xs \<Rightarrow> obind (nr5g_fapi_uci_indication e b u (Some (ss, xs)) v s) (\<lambda>(_, v, s). Done (v, s))
            | _ \<Rightarrow> Undefined)
         else if t = MSG_TYPE_PHY_RX_RACH_IND a then
           (case c of Rach_indication_body ss xs \<Rightarrow> keep (nr5g_fapi_rach_indication e b u (Some (ss, xs)) s) | _ \<Rightarrow> Undefined)
         else if t = MSG_TYPE_PHY_RX_SRS_IND a then
           (case c of Srs_indication_body ss xs \<Rightarrow> obind (nr5g_fapi_srs_indication e u (Some (ss, xs)) v s) (\<lambda>(_, v, s). Done (v, s))
            | _ \<Rightarrow> Undefined)
         else Done (v, s))"

definition slot_messages :: "fapi_cfg \<Rightarrow> p7_env \<Rightarrow> fapi_p7" where
  "slot_messages e b = \<lparr>p7_request = slot_request e b, p7_indication = slot_indication e b\<rparr>"

end
