(* ===== verification/Fapi_P7_States.thy ===== *)
theory Fapi_P7_States
  imports Fapi_P7
begin

text \<open>
  The slot messages and the state of an instance: no translation of a request or an indication changes
  the state of the FAPI, the count of shutdown retries or the identifier of the instance.
\<close>

section \<open>Counters and records\<close>

definition keeps_state :: "nr5g_fapi_phy_instance \<Rightarrow> nr5g_fapi_phy_instance \<Rightarrow> bool" where
  "keeps_state p q \<longleftrightarrow> state q = state p \<and> phy_id q = phy_id p \<and> shutdown_retries q = shutdown_retries p
     \<and> shutdown_test_type q = shutdown_test_type p"

lemma keeps_state_refl [simp]: "keeps_state p p"
  by (simp add: keeps_state_def)

lemma keeps_state_trans [trans]: "keeps_state p q \<Longrightarrow> keeps_state q r \<Longrightarrow> keeps_state p r"
  by (simp add: keeps_state_def)

lemma state_counts [simp]:
  "state (count_fapi k p) = state p" "state (count_iapi k p) = state p"
  "state (count_fapi_p7 k2 p) = state p" "state (count_iapi_p7 k2 p) = state p"
  "shutdown_retries (count_fapi k p) = shutdown_retries p" "shutdown_retries (count_iapi k p) = shutdown_retries p"
  "phy_id (count_fapi k p) = phy_id p" "phy_id (count_iapi k p) = phy_id p"
  "shutdown_test_type (count_fapi k p) = shutdown_test_type p" "shutdown_test_type (count_iapi k p) = shutdown_test_type p"
  by (simp_all add: count_fapi_def count_iapi_def count_fapi_p7_def count_iapi_p7_def)

lemma keeps_state_simps [simp]:
  "keeps_state p (count_fapi_p7 k q) \<longleftrightarrow> keeps_state p q" "keeps_state p (count_iapi_p7 k q) \<longleftrightarrow> keeps_state p q"
  "keeps_state (count_fapi_p7 k p) q \<longleftrightarrow> keeps_state p q" "keeps_state (count_iapi_p7 k p) q \<longleftrightarrow> keeps_state p q"
  "keeps_state p (upd_slot u ij f q) \<longleftrightarrow> keeps_state p q" "keeps_state (upd_slot u ij f p) q \<longleftrightarrow> keeps_state p q"
  by (simp_all add: keeps_state_def count_fapi_p7_def count_iapi_p7_def upd_slot_def)

section \<open>Requests\<close>

lemma pusch_state: "nr5g_fapi_pusch_to_phy_ulsch_translation a x i p = Done (s, info, q) \<Longrightarrow> keeps_state p q"
proof -
  assume "nr5g_fapi_pusch_to_phy_ulsch_translation a x i p = Done (s, info, q)"
  then have "q = count_iapi_p7 Ul_pusch_pdus_cnt (count_fapi_p7 Ul_pusch_pdus_cnt p)"
    unfolding nr5g_fapi_pusch_to_phy_ulsch_translation_def Let_def obind_Done_iff case_prod_beta
    by (elim exE conjE) (simp only: outcome.inject prod.inject)
  then show ?thesis by simp
qed

lemma pucch_state: "nr5g_fapi_pucch_to_phy_ulcch_uci_translation a x p = (s, info, q) \<Longrightarrow> keeps_state p q"
  unfolding nr5g_fapi_pucch_to_phy_ulcch_uci_translation_def Let_def
  by (elim Pair_inject, hypsubst, simp only: keeps_state_simps keeps_state_refl)

lemma srs_state: "nr5g_fapi_srs_to_phy_srs_translation a x p = (s, h, q) \<Longrightarrow> keeps_state p q"
  unfolding nr5g_fapi_srs_to_phy_srs_translation_def Let_def
  by (elim Pair_inject, hypsubst, simp only: keeps_state_simps keeps_state_refl)

lemma ul_pdu_states:
  "ul_pusch a u ij x1 c p = Done (c', q) \<Longrightarrow> keeps_state p q"
  "ul_pucch a u ij x2 c p = Done (c', q) \<Longrightarrow> keeps_state p q"
  "ul_srs a u ij x3 c p = Done (c', q) \<Longrightarrow> keeps_state p q"
  by (auto simp: ul_pusch_def ul_pucch_def ul_srs_def Let_def obind_Done_iff split: if_split_asm prod.splits
      dest: pusch_state pucch_state srs_state)

lemma ul_pdu_loop_state: "ul_pdu_loop a u ij pdus is c p = Done (ok, c', q) \<Longrightarrow> keeps_state p q"
proof (induction "is" arbitrary: c p)
  case (Cons i "is")
  let ?p = "count_fapi_p7 Ul_pdus_cnt p"
  have i: "i < length pdus" using Cons.prems by (auto simp: Let_def split: if_split_asm)
  have later: "keeps_state p q" if "keeps_state ?p t" "ul_pdu_loop a u ij pdus is d (count_iapi_p7 Ul_pdus_cnt t) = Done (ok, c', q)" for t d
    using keeps_state_trans [OF that(1) _] Cons.IH [OF that(2)] by simp
  have dropped: "keeps_state p q" if "ul_pdu_loop a u ij pdus is d t = Done (ok, c', q)" "keeps_state ?p t" for d t
    using keeps_state_trans [OF that(2) _] Cons.IH [OF that(1)] by simp
  show ?case using Cons.prems i
    by (cases "pdus ! i") (auto simp: Let_def obind_Done_iff split: if_split_asm dest: ul_pdu_states intro: later dropped)
qed simp

lemma ul_tti_state:
  assumes "nr5g_fapi_ul_tti_req_to_phy_translation a u req vm c p = Done (ok, c', q)"
  shows "keeps_state p q"
  using assms unfolding nr5g_fapi_ul_tti_req_to_phy_translation_def Let_def
  by (auto simp: obind_Done_iff split: if_split_asm option.splits dest!: ul_pdu_loop_state)

lemma dl_fill_states:
  "nr5g_fapi_fill_dci_pdu a x1 p = Done (s, q) \<Longrightarrow> keeps_state p q"
  "nr5g_fapi_fill_pdsch_pdu a x2 p = Done (s, q) \<Longrightarrow> keeps_state p q"
  "nr5g_fapi_fill_ssb_pdu a x3 p = Done (s, q) \<Longrightarrow> keeps_state p q"
  "nr5g_fapi_fill_csi_rs_pdu a x4 p = (s, q) \<Longrightarrow> keeps_state p q"
proof -
  show "keeps_state p q" if "nr5g_fapi_fill_dci_pdu a x1 p = Done (s, q)"
  proof -
    have "q = count_iapi_p7 Dl_pdcch_pdus_cnt (count_fapi_p7 Dl_pdcch_pdus_cnt p)"
      using that unfolding nr5g_fapi_fill_dci_pdu_def Let_def obind_Done_iff
      by (elim exE conjE) (simp only: outcome.inject prod.inject)
    then show ?thesis by simp
  qed
  show "keeps_state p q" if "nr5g_fapi_fill_pdsch_pdu a x2 p = Done (s, q)"
  proof -
    have "q = count_iapi_p7 Dl_pdsch_pdus_cnt (count_fapi_p7 Dl_pdsch_pdus_cnt p)"
      using that unfolding nr5g_fapi_fill_pdsch_pdu_def Let_def obind_Done_iff case_prod_beta
      by (elim exE conjE) (simp only: outcome.inject prod.inject)
    then show ?thesis by simp
  qed
  show "keeps_state p q" if "nr5g_fapi_fill_ssb_pdu a x3 p = Done (s, q)"
  proof -
    have "q = count_iapi_p7 Dl_ssb_pdus_cnt (count_fapi_p7 Dl_ssb_pdus_cnt p)"
      using that unfolding nr5g_fapi_fill_ssb_pdu_def Let_def obind_Done_iff
      by (elim exE conjE) (simp only: outcome.inject prod.inject)
    then show ?thesis by simp
  qed
  show "nr5g_fapi_fill_csi_rs_pdu a x4 p = (s, q) \<Longrightarrow> keeps_state p q"
    unfolding nr5g_fapi_fill_csi_rs_pdu_def Let_def
    by (elim Pair_inject, hypsubst, simp only: keeps_state_simps keeps_state_refl)
qed

lemma dl_pdu_state: "dl_pdu_of a x p = Done (Some (y, q)) \<Longrightarrow> keeps_state p q"
  by (cases x) (auto simp: dl_pdu_of_def obind_Done_iff split: prod.splits dest: dl_fill_states)

lemma dl_pdu_loop_state: "dl_pdu_loop a pdus is c p = Done (ok, c', q) \<Longrightarrow> keeps_state p q"
proof (induction "is" arbitrary: c p)
  case (Cons i "is")
  have i: "i < length pdus" using Cons.prems(1) by (auto split: if_split_asm)
  obtain r where r: "dl_pdu_of a (pdus ! i) (count_fapi_p7 Dl_pdus_cnt p) = Done r"
    using Cons.prems i by (auto simp: Let_def obind_Done_iff)
  show ?case
  proof (cases r)
    case None
    then show ?thesis using Cons.prems i r by (auto simp: Let_def)
  next
    case (Some y)
    then obtain x t where y: "r = Some (x, t)" by (cases y) auto
    obtain c2 where "dl_pdu_loop a pdus is c2 (count_iapi_p7 Dl_pdus_cnt t) = Done (ok, c', q)"
      using Cons.prems i r y by (auto simp: Let_def obind_Done_iff)
    from Cons.IH [OF this] show ?thesis using dl_pdu_state [OF r [unfolded y]] keeps_state_trans [of p t q] by simp
  qed
qed simp

lemma dl_tti_state: "nr5g_fapi_dl_tti_req_to_phy_translation a req vm p = Done (ok, n, c, q) \<Longrightarrow> keeps_state p q"
  unfolding nr5g_fapi_dl_tti_req_to_phy_translation_def Let_def
  by (auto simp: obind_Done_iff split: if_split_asm option.splits dest: dl_pdu_loop_state)

lemma state_counted [simp]: "keeps_state p ((count_fapi_p7 k ^^ n) q) = keeps_state p q"
  by (induction n) simp_all

lemma ul_dci_state: "nr5g_fapi_ul_dci_req_to_phy_translation a req old c p = Done (c', q) \<Longrightarrow> keeps_state p q"
  by (auto simp: nr5g_fapi_ul_dci_req_to_phy_translation_def Let_def obind_Done_iff)

section \<open>Indications\<close>

text \<open>What every entry of an indication keeps, the loop keeps.\<close>

lemma entry_loop_keeps:
  assumes "entry_loop room f is s = Done (ok, es, t)" "Q s" "\<And>i s e t. Q s \<Longrightarrow> f i s = Done (e, t) \<Longrightarrow> Q t"
  shows "Q t"
  using assms(1,2)
proof (induction "is" arbitrary: s ok es)
  case (Cons i "is")
  obtain e s' where s': "f i s = Done (e, s')" using Cons.prems(1) by (auto simp: obind_Done_iff split: if_split_asm)
  have q: "Q s'" by (rule assms(3) [OF Cons.prems(2) s'])
  show ?case
  proof (cases e)
    case None
    then show ?thesis using Cons.prems(1) s' q by (auto split: if_split_asm)
  next
    case (Some x)
    then obtain ok' es' where "entry_loop room f is s' = Done (ok', es', t)"
      using Cons.prems(1) s' by (auto simp: obind_Done_iff split: if_split_asm)
    then show ?thesis using Cons.IH q by blast
  qed
qed simp

lemma entry_loop_state:
  assumes "entry_loop room f is (v, p) = Done (ok, es, v', q)" "\<And>i s e t. f i s = Done (e, t) \<Longrightarrow> keeps_state (snd s) (snd t)"
  shows "keeps_state p q"
proof -
  have "keeps_state p (snd (v', q))"
    by (rule entry_loop_keeps [where Q = "\<lambda>s. keeps_state p (snd s)", OF assms(1)]) (auto dest: assms(2) intro: keeps_state_trans)
  then show ?thesis by simp
qed

lemma entry_states:
  "crc_entry a u ij crcs i s = Done (e, t) \<Longrightarrow> keeps_state (snd s) (snd t)"
  "rx_entry u ij pdus i s = Done (e2, t) \<Longrightarrow> keeps_state (snd s) (snd t)"
  "uci_entry a u ij ucis i s = Done (e3, t) \<Longrightarrow> keeps_state (snd s) (snd t)"
  "uci_pusch_entry uciu i s = Done (e4, t) \<Longrightarrow> keeps_state (snd s) (snd t)"
  "srs_est_entry u ij ests i s = Done (e5, t) \<Longrightarrow> keeps_state (snd s) (snd t)"
  by (cases s; auto simp: crc_entry_def rx_entry_def uci_entry_def uci_pusch_entry_def srs_est_entry_def Let_def
      obind_Done_iff split: option.splits if_split_asm)+

lemma indication_states:
  "nr5g_fapi_crc_indication_to_fapi_translation a u ss crcs (v, p) = Done (ok, es1, v', q) \<Longrightarrow> keeps_state p q"
  "nr5g_fapi_rx_data_indication_to_fapi_translation u ss pdus (v, p) = Done (ok, es2, v', q) \<Longrightarrow> keeps_state p q"
  "nr5g_fapi_uci_indication_to_fapi_translation a u ss ucis (v, p) = Done (ok, es3, v', q) \<Longrightarrow> keeps_state p q"
  "nr5g_fapi_rx_data_uci_indication_to_fapi_translation uciu (v, p) = Done (ok, es4, v', q) \<Longrightarrow> keeps_state p q"
  "nr5g_fapi_srs_indication_to_fapi_translation u ss ests (v, p) = Done (ok, es5, v', q) \<Longrightarrow> keeps_state p q"
  by (auto simp: nr5g_fapi_crc_indication_to_fapi_translation_def nr5g_fapi_rx_data_indication_to_fapi_translation_def
      nr5g_fapi_uci_indication_to_fapi_translation_def nr5g_fapi_rx_data_uci_indication_to_fapi_translation_def
      nr5g_fapi_srs_indication_to_fapi_translation_def split: option.splits elim!: entry_loop_state intro: entry_states)

lemma rach_loop_state: "rach_loop cell i xs (n, r, p) = Done (m, r', q) \<Longrightarrow> keeps_state p q"
proof (induction xs arbitrary: i n r p)
  case (Cons x xs)
  then obtain n' t p' where s: "rach_step cell i x (n, r, p) = Done (n', t, p')" "rach_loop cell (i + 1) xs (n', t, p') = Done (m, r', q)"
    by (auto simp: obind_Done_iff)
  have "keeps_state p p'"
    using s(1) by (auto simp: rach_step_def Let_def obind_Done_iff split: if_split_asm option.splits)
  then show ?case using Cons.IH [OF s(2)] keeps_state_trans by blast
qed simp

lemma rach_keeps_state: "nr5g_fapi_rach_indication_to_fapi_translation u ss xs rach p = Done (ok, n, r, q) \<Longrightarrow> keeps_state p q"
  by (auto simp: nr5g_fapi_rach_indication_to_fapi_translation_def obind_Done_iff split: option.splits if_split_asm dest!: rach_loop_state)

section \<open>A concrete header of the PHY\<close>

definition demo_layout :: layout where
  "demo_layout = \<lparr>lconv = (\<lambda>f v. v), lconv_double = (\<lambda>f v. v), lext = (\<lambda>f. 16), lbytes = (\<lambda>f. 32),
     lcopy = (\<lambda>f bs s i. if i < length bs then uint (bs ! i) else s i), lsize = 64\<rparr>"

definition demo_p7_api :: p7_api where
  "demo_p7_api = \<lparr>ulsch_l = demo_layout, ulcch_l = demo_layout, srs_l = demo_layout, ulcfg_l = demo_layout, ulgrp_l = demo_layout,
     dlsch_l = demo_layout, dci_l = demo_layout, bch_l = demo_layout, csirs_l = demo_layout, dlcfg_l = demo_layout,
     dlgrp_l = demo_layout, RUP32B = (\<lambda>n. n), max_pusch_groups = 16, max_pdsch_groups = 16, MAX_DL_PER_UE_DMRS_PORT_NUM = 12,
     MAX_DL_PER_UE_PTRS_PORT_NUM = 2, MAX_DCI_BIT_BYTE_LEN = 32, MAX_TXRU_NUM = 4, SINR_STEP_SIZE = 128, double_to_u8 = word_of_int,
     ul_room = 4096, dl_room = 4096, dci_room = 4096\<rparr>"

definition demo_p7_env :: p7_env where
  "demo_p7_env = p7_api.extend demo_p7_api
     \<lparr>old_dci_slot = (\<lambda>_. zero_slot), old_dci_pdus = (\<lambda>_ _. zero_struct),
      old_tx_pdus = (\<lambda>_ _. \<lparr>nPduIdx = 0, nPduLen1 = 0, pPayload1 = 0, nPduLen2 = 0, pPayload2 = 0\<rparr>), old_rach_pdus = (\<lambda>_. [])\<rparr>"

end
