(* ===== verification/Fapi_Lifecycle.thy ===== *)
theory Fapi_Lifecycle
  imports Fapi_P7_States Fapi_Delivery
begin

text \<open>
  The states of the PHY instances.  Every call that a round of the threads makes is an action (the
  control messages, the slot messages in both directions, the lists and the headers); the states follow
  a small automaton, in which a call that returns \<open>FAILURE\<close> leaves every state as it is.
\<close>

section \<open>What the operations on lists and blocks leave alone\<close>

definition frame :: "fapi_state \<Rightarrow> fapi_state \<Rightarrow> bool" where
  "frame s s' \<longleftrightarrow> phy_instance s' = phy_instance s \<and> num_phy_instance s' = num_phy_instance s
     \<and> length (fapi2mac_q s') = length (fapi2mac_q s) \<and> length (fapi2mac_urllc_q s') = length (fapi2mac_urllc_q s)"

lemma frame_refl [simp]: "frame s s"
  by (simp add: frame_def)

lemma frame_trans: "frame s t \<Longrightarrow> frame t u \<Longrightarrow> frame s u"
  by (simp add: frame_def)

lemma frame_simps [simp]:
  "frame s (t\<lparr>io := i\<rparr>) \<longleftrightarrow> frame s t"
  "frame s (t\<lparr>fapi2mac_buffers := b\<rparr>) \<longleftrightarrow> frame s t"
  "frame s (t\<lparr>fapi2phy_q := q\<rparr>) \<longleftrightarrow> frame s t"
  "frame s (t\<lparr>fapi2phy_q_urllc := q2\<rparr>) \<longleftrightarrow> frame s t"
  by (auto simp: frame_def)

lemma set_queue_frame [simp]:
  "frame s (set_fapi2phy_queue u q t) \<longleftrightarrow> frame s t"
  "length qs = length (nr5g_fapi_fapi2mac_queue u t) \<Longrightarrow> frame s (set_fapi2mac_queue u qs t) \<longleftrightarrow> frame s t"
  by (auto simp: frame_def set_fapi2phy_queue_def set_fapi2mac_queue_def nr5g_fapi_fapi2mac_queue_def split: if_splits)

lemma queue_updates [simp]:
  "nr5g_fapi_fapi2mac_queue u (s\<lparr>io := i\<rparr>) = nr5g_fapi_fapi2mac_queue u s"
  "nr5g_fapi_fapi2mac_queue u (s\<lparr>fapi2mac_buffers := b\<rparr>) = nr5g_fapi_fapi2mac_queue u s"
  by (simp_all add: nr5g_fapi_fapi2mac_queue_def)

lemma phy_create_frame:
  "nr5g_fapi_fapi2phy_create_api_list_elem e mt n al s = Done (el, s') \<Longrightarrow> frame s s'"
  by (auto simp: nr5g_fapi_fapi2phy_create_api_list_elem_def obind_Done_iff Let_def split: if_splits)

lemma write_frame: "write_message m el s = (el', s') \<Longrightarrow> frame s s'"
  by (auto simp: write_message_def Let_def)

lemma phy_add_frame [simp]: "frame s (nr5g_fapi_fapi2phy_add_to_api_list u el t) \<longleftrightarrow> frame s t"
  by (simp add: nr5g_fapi_fapi2phy_add_to_api_list_def split: option.split)

lemma phy_send_frame: "nr5g_fapi_fapi2phy_send_api_list e u s = Done s' \<Longrightarrow> frame s s'"
  by (auto simp: nr5g_fapi_fapi2phy_send_api_list_def obind_Done_iff split: if_splits)

lemma mac_alloc_frame: "nr5g_fapi_fapi2mac_wls_alloc_buffer e s = Done (p, s') \<Longrightarrow> frame s s'"
  by (auto simp: nr5g_fapi_fapi2mac_wls_alloc_buffer_def obind_Done_iff Let_def split: list.splits if_splits)

lemma mac_create_frame:
  "nr5g_fapi_fapi2mac_create_api_list_elem e mt n al b s = Done (el, s') \<Longrightarrow> frame s s'"
  by (auto simp: nr5g_fapi_fapi2mac_create_api_list_elem_def obind_Done_iff dest: mac_alloc_frame split: if_splits)

lemma mac_add_frame: "nr5g_fapi_fapi2mac_add_api_to_list i el u s = Done s' \<Longrightarrow> frame s s'"
  by (auto simp: nr5g_fapi_fapi2mac_add_api_to_list_def Let_def split: option.splits if_splits)

lemma mac_send_frame: "nr5g_fapi_fapi2mac_send_api_list e u s = Done s' \<Longrightarrow> frame s s'"
  by (auto simp: nr5g_fapi_fapi2mac_send_api_list_def obind_Done_iff Let_def split: prod.splits if_splits)

lemma message_frame: "fapi2mac_message e i mt len c u s = Done (ok, s') \<Longrightarrow> frame s s'"
  by (auto simp: fapi2mac_message_def obind_Done_iff split: option.splits
      dest!: mac_create_frame mac_add_frame intro: frame_trans)

lemma header_frame: "nr5g_fapi_message_header_per_phy e i u s = Done (r, s') \<Longrightarrow> frame s s'"
  by (auto simp: nr5g_fapi_message_header_per_phy_def obind_Done_iff split: option.splits
      dest!: mac_create_frame mac_add_frame intro: frame_trans)

lemma header_loop_frame: "header_loop e u is s = Done s' \<Longrightarrow> frame s s'"
  by (induction "is" arbitrary: s) (auto simp: obind_Done_iff split: if_splits dest!: header_frame intro: frame_trans)

lemma headers_frame: "nr5g_fapi_message_header e u s = Done (r, s') \<Longrightarrow> frame s s'"
  by (auto simp: nr5g_fapi_message_header_def obind_Done_iff dest: header_loop_frame)

lemma vendor_get_frame: "nr5g_fapi_proc_vendor_p7_msg_get e i v s = Done (v', s') \<Longrightarrow> frame s s'"
  by (auto simp: nr5g_fapi_proc_vendor_p7_msg_get_def alloc_vendor_p7_msg_def obind_Done_iff
      split: if_splits option.splits dest: mac_create_frame)

lemma move_vendor_frame: "move_vendor_loop u is v s = Done s' \<Longrightarrow> frame s s'"
  by (induction "is" arbitrary: s) (auto simp: obind_Done_iff dest!: mac_add_frame intro: frame_trans)

lemma vendor_move_frame: "nr5g_fapi_proc_vendor_p7_msgs_move_to_api_list u v s = Done (v', s') \<Longrightarrow> frame s s'"
  by (auto simp: nr5g_fapi_proc_vendor_p7_msgs_move_to_api_list_def obind_Done_iff dest: move_vendor_frame)

lemma destroy_frame: "nr5g_fapi_fapi2phy_destroy_api_list_elem e el s = Done s' \<Longrightarrow> frame s s'"
  by (auto simp: nr5g_fapi_fapi2phy_destroy_api_list_elem_def obind_Done_iff split: option.splits)

lemma recv_round_frame:
  "mac_recv_round e (n, els, uels, fl, t) = Done ((n', els', uels', fl', t'), go) \<Longrightarrow> frame s t \<Longrightarrow> frame s t'"
  by (auto simp: mac_recv_round_def nr5g_fapi_fapi2mac_wls_get_def Let_def obind_Done_iff split: if_split_asm)

lemma recv_frame:
  assumes "nr5g_fapi_fapi2mac_wls_recv e s = Done (xs, uxs, s')"
  shows "frame s s'"
proof -
  let ?F = "\<lambda>(n :: u32, els :: fapi_el list, uels :: fapi_el list, fl :: u16, t). frame s t"
  have loop: "?F st" if "run_loop (mac_recv_round e) (n, [], [], 0, t) = Done st" "frame s t" for n t st
    by (rule run_loop_invariant [where J = ?F, OF that(1)]) (use that(2) in \<open>auto dest: recv_round_frame\<close>)
  show ?thesis using assms
    by (auto simp: nr5g_fapi_fapi2mac_wls_recv_def nr5g_fapi_fapi2mac_wls_wait_def obind_Done_iff
        split: if_split_asm blocking.splits dest!: loop)
qed

lemmas list_frames = phy_create_frame write_frame phy_send_frame mac_create_frame mac_add_frame mac_send_frame
  message_frame header_frame headers_frame vendor_get_frame vendor_move_frame

section \<open>The states of the instances\<close>

definition inst_states :: "fapi_state \<Rightarrow> fapi_states list" where
  "inst_states s = map state (phy_instance s)"

lemma frame_states: "frame s s' \<Longrightarrow> inst_states s' = inst_states s"
  by (simp add: frame_def inst_states_def)

lemma frame_instances: "frame s s' \<Longrightarrow> phy_instance s' = phy_instance s"
  by (simp add: frame_def)

lemma inst_states_updates [simp]:
  "inst_states (s\<lparr>io := i\<rparr>) = inst_states s"
  "inst_states (s\<lparr>num_phy_instance := n\<rparr>) = inst_states s"
  "inst_states (s\<lparr>mac_heap := h\<rparr>) = inst_states s"
  "inst_states (nr5g_fapi_fapi2phy_add_to_api_list u el s) = inst_states s"
  by (simp_all add: inst_states_def nr5g_fapi_fapi2phy_add_to_api_list_def set_fapi2phy_queue_def split: option.split)

lemma length_inst_states [simp]: "length (inst_states s) = length (phy_instance s)"
  by (simp add: inst_states_def)

lemma inst_states_upd: "inst_states (upd_inst i f s) = (inst_states s)[i := state (f (phy_instance s ! i))]"
  by (simp add: inst_states_def upd_inst_def map_update)

lemma inst_states_set [simp]: "inst_states (upd_inst i (\<lambda>p. p\<lparr>state := x\<rparr>) s) = (inst_states s)[i := x]"
  by (simp add: inst_states_upd)

lemma inst_states_clean [simp]: "inst_states (upd_inst i clean_instance s) = (inst_states s)[i := FAPI_STATE_IDLE]"
  by (simp add: inst_states_upd clean_instance_def)

lemma inst_states_same [simp]: "state (f (phy_instance s ! i)) = state (phy_instance s ! i) \<Longrightarrow> inst_states (upd_inst i f s) = inst_states s"
  unfolding inst_states_upd
  by (cases "i < length (phy_instance s)") (simp_all add: list_update_beyond list_update_same_conv inst_states_def)

lemma upd_inst_nth [simp]:
  "i < length (phy_instance s) \<Longrightarrow> phy_instance (upd_inst i f s) ! j = (if i = j then f (phy_instance s ! i) else phy_instance s ! j)"
  "length (phy_instance (upd_inst i f s)) = length (phy_instance s)"
  by (simp_all add: upd_inst_def)

lemmas list_states = list_frames [THEN frame_states]
lemma upd_inst_other [simp]:
  "fapi2mac_q (upd_inst i f s) = fapi2mac_q s" "fapi2mac_urllc_q (upd_inst i f s) = fapi2mac_urllc_q s"
  "fapi2phy_q (upd_inst i f s) = fapi2phy_q s" "fapi2mac_buffers (upd_inst i f s) = fapi2mac_buffers s"
  "io (upd_inst i f s) = io s" "num_phy_instance (upd_inst i f s) = num_phy_instance s"
  by (simp_all add: upd_inst_def)

lemmas request_splits = option.splits if_splits

lemma request_states:
  "nr5g_fapi_config_request e u inst req vm s = Done (r, s') \<Longrightarrow> inst_states s' = inst_states s"
  "nr5g_fapi_start_request e u inst sr vm s = Done (r, s') \<Longrightarrow> inst_states s' = inst_states s"
  "nr5g_fapi_stop_request e u inst sr vm s = Done (r, s') \<Longrightarrow> inst_states s' = inst_states s"
  "nr5g_fapi_shutdown_request e u inst dr s = Done (r, s') \<Longrightarrow> inst_states s' = inst_states s"
  subgoal
    by (auto simp: nr5g_fapi_config_request_def write_message_def obind_Done_iff Let_def split: request_splits
        dest!: list_states)
  subgoal
    by (auto simp: nr5g_fapi_start_request_def write_message_def obind_Done_iff Let_def split: request_splits
        dest!: list_states)
  subgoal
    by (auto simp: nr5g_fapi_stop_request_def write_message_def obind_Done_iff Let_def split: request_splits
        dest!: list_states)
  subgoal
    by (auto simp: nr5g_fapi_shutdown_request_def write_message_def obind_Done_iff Let_def split: request_splits
        dest!: list_states)
  done

text \<open>The slot messages change no state.\<close>

lemma inst_states_put:
  "keeps_state (phy_instance s ! i) q \<Longrightarrow> inst_states (upd_inst i (\<lambda>_. q) s) = inst_states s"
  by (rule inst_states_same) (simp add: keeps_state_def)

lemma finish_states:
  "finish_request e u i cnt el (ok, m, q) s = Done (r, s') \<Longrightarrow> keeps_state (phy_instance s ! i) q \<Longrightarrow>
     inst_states s' = inst_states s"
  by (auto simp: finish_request_def obind_Done_iff inst_states_put split: if_split_asm prod.splits
      dest!: write_frame [THEN frame_states] destroy_frame [THEN frame_states])

lemma slot_request_states:
  "nr5g_fapi_ul_tti_request e b u inst ur vm s = Done (r, s') \<Longrightarrow> inst_states s' = inst_states s"
  "nr5g_fapi_dl_tti_request e b u inst dr vm s = Done (r, s') \<Longrightarrow> inst_states s' = inst_states s"
  "nr5g_fapi_ul_dci_request e b u inst cr vm s = Done (r, s') \<Longrightarrow> inst_states s' = inst_states s"
  "nr5g_fapi_tx_data_request e b u inst tr vm s = Done (r, s') \<Longrightarrow> inst_states s' = inst_states s"
  by (auto simp: nr5g_fapi_ul_tti_request_def nr5g_fapi_dl_tti_request_def nr5g_fapi_ul_dci_request_def
      nr5g_fapi_tx_data_request_def Let_def obind_Done_iff split: option.split_asm
      dest!: list_states finish_states dest: ul_tti_state dl_tti_state)
    (erule ul_dci_state)+

lemma slot_request_keeps_states: "slot_request e b u i x vm s = Done s' \<Longrightarrow> inst_states s' = inst_states s"
  by (auto simp: slot_request_def Let_def ignore_result_def obind_Done_iff
      split: if_split_asm fapi_body.split_asm fapi_content.split_asm dest: slot_request_states)

lemma indication_keeps_states:
  assumes "indication e mt len cnt mk translate u ss v s = Done (r, v', s')"
    "\<And>w p ok c w' q. translate (w, p) = Done (ok, c, w', q) \<Longrightarrow> keeps_state p q"
  shows "inst_states s' = inst_states s"
  using assms(1) unfolding indication_def Let_def
  by (auto simp: obind_Done_iff dest!: list_states assms(2) [THEN inst_states_put] split: if_split_asm option.split_asm)

lemma plain_indication_keeps_states:
  assumes "plain_indication e mt len cnt translate u ss s = Done (r, s')"
    "\<And>old p ok c q. translate old p = Done (ok, c, q) \<Longrightarrow> keeps_state p q"
  shows "inst_states s' = inst_states s"
  using assms(1) unfolding plain_indication_def Let_def
  by (auto simp: obind_Done_iff dest!: list_states assms(2) [THEN inst_states_put] split: if_split_asm option.split_asm)

lemma slot_message_states:
  "nr5g_fapi_crc_indication e b u i1 v s = Done (r, v', s') \<Longrightarrow> inst_states s' = inst_states s"
  "nr5g_fapi_rx_data_indication e u i2 v s = Done (r, v', s') \<Longrightarrow> inst_states s' = inst_states s"
  "nr5g_fapi_uci_indication e b u i3 v s = Done (r, v', s') \<Longrightarrow> inst_states s' = inst_states s"
  "nr5g_fapi_srs_indication e u i4 v s = Done (r, v', s') \<Longrightarrow> inst_states s' = inst_states s"
  "nr5g_fapi_rx_data_uci_indication e u i5 s = Done (r, s') \<Longrightarrow> inst_states s' = inst_states s"
  "nr5g_fapi_rach_indication e b u i6 s = Done (r, s') \<Longrightarrow> inst_states s' = inst_states s"
  by (auto simp: nr5g_fapi_crc_indication_def nr5g_fapi_rx_data_indication_def nr5g_fapi_uci_indication_def
      nr5g_fapi_srs_indication_def nr5g_fapi_rx_data_uci_indication_def nr5g_fapi_rach_indication_def
      obind_Done_iff split: option.split_asm prod.split_asm
      elim!: indication_keeps_states plain_indication_keeps_states indication_states rach_keeps_state)

lemma slot_indication_keeps_states: "slot_indication e b u m v s = Done (v', s') \<Longrightarrow> inst_states s' = inst_states s"
  by (auto simp: slot_indication_def Let_def ignore_result_def obind_Done_iff
      split: if_split_asm phy_content.split_asm dest: slot_message_states)

section \<open>The automaton\<close>

text \<open>What the threads do: the requests of the MAC and the messages of the PHY, of the control and of the
  slots, and around them the receiving and sending of the lists, the headers, the vendor messages and the
  identifier that a list gives to an idle instance.  Between two calls the MAC and the PHY may write the
  shared memory.\<close>

datatype fapi_action =
    Config_request bool "nat option" "(u8 \<times> fapi_tlv list) option" "fapi_vendor_msg option"
  | Start_request bool "nat option" "unit option" "fapi_vendor_msg option"
  | Stop_request bool "nat option" "unit option" "fapi_vendor_msg option"
  | Shutdown_request bool "nat option" "fapi_vendor_ext_shutdown_req option"
  | Param_request nat
  | Config_response "(u16 \<times> u32) option"
  | Start_response "(sfn_slot \<times> u32) option"
  | Stop_response "(sfn_slot \<times> u32) option"
  | Shutdown_response "(sfn_slot \<times> u32) option"
  | Error_message u8 "(u16 \<times> sfn_slot \<times> u32) option"
  | Headers bool
  | Slot_message bool "sfn_slot option" "fapi_el option list"
  | Slot_request bool nat fapi_el "fapi_vendor_msg option"
  | Slot_indication bool phy_msg "fapi_el option list"
  | Vendor_messages bool "fapi_el option list"
  | Name_instance u8
  | Receive_from_mac
  | Receive_from_phy
  | Send_to_mac bool
  | Send_to_phy bool
  | Memory_written fapi_io "u64 \<Rightarrow> fapi_el"

fun perform :: "fapi_cfg \<Rightarrow> p7_env \<Rightarrow> fapi_action \<Rightarrow> fapi_state \<Rightarrow> (u8 \<times> fapi_state) outcome" where
  "perform e b (Config_request u i req vm) s = nr5g_fapi_config_request e u i req vm s"
| "perform e b (Start_request u i req vm) s = nr5g_fapi_start_request e u i req vm s"
| "perform e b (Stop_request u i req vm) s = nr5g_fapi_stop_request e u i req vm s"
| "perform e b (Shutdown_request u i req) s = nr5g_fapi_shutdown_request e u i req s"
| "perform e b (Param_request i) s = nr5g_fapi_param_response e i s"
| "perform e b (Config_response r) s = nr5g_fapi_config_response e r s"
| "perform e b (Start_response r) s = nr5g_fapi_start_resp e r s"
| "perform e b (Stop_response r) s = nr5g_fapi_stop_indication e r s"
| "perform e b (Shutdown_response r) s = nr5g_fapi_shutdown_response e r s"
| "perform e b (Error_message old r) s = nr5g_fapi_error_indication e old r s"
| "perform e b (Headers u) s = nr5g_fapi_message_header e u s"
| "perform e b (Slot_message u r v) s = obind (nr5g_fapi_slot_indication e u r v s) (\<lambda>(c, v, s). Done (c, s))"
| "perform e b (Slot_request u i x vm) s = obind (slot_request e b u i x vm s) (\<lambda>s. Done (0, s))"
| "perform e b (Slot_indication u m v) s = obind (slot_indication e b u m v s) (\<lambda>(v, s). Done (0, s))"
| "perform e b (Vendor_messages u v) s = obind (nr5g_fapi_proc_vendor_p7_msgs_move_to_api_list u v s) (\<lambda>(v, s). Done (0, s))"
| "perform e b (Name_instance n) s =
     (if unat n < length (phy_instance s)
      then Done (0, if state (phy_instance s ! unat n) = FAPI_STATE_IDLE then upd_inst (unat n) (\<lambda>p. p\<lparr>phy_id := n\<rparr>) s else s)
      else Undefined)"
| "perform e b Receive_from_mac s = obind (nr5g_fapi_fapi2mac_wls_recv e s) (\<lambda>(xs, uxs, s). Done (0, s))"
| "perform e b Receive_from_phy s =
     obind (nr5g_fapi_fapi2phy_wls_recv (fapi_env.truncate e) (io s)) (\<lambda>(xs, uxs, i). Done (0, s\<lparr>io := i\<rparr>))"
| "perform e b (Memory_written i h) s = Done (0, s\<lparr>io := i, mac_heap := h\<rparr>)"
| "perform e b (Send_to_mac u) s = obind (nr5g_fapi_fapi2mac_send_api_list e u s) (\<lambda>s. Done (0, s))"
| "perform e b (Send_to_phy u) s = obind (nr5g_fapi_fapi2phy_send_api_list e u s) (\<lambda>s. Done (0, s))"

fun perform_all :: "fapi_cfg \<Rightarrow> p7_env \<Rightarrow> fapi_action list \<Rightarrow> fapi_state \<Rightarrow> (u8 list \<times> fapi_state) outcome" where
  "perform_all e b [] s = Done ([], s)"
| "perform_all e b (a # as) s =
     obind (perform e b a s) (\<lambda>(r, s). obind (perform_all e b as s) (\<lambda>(rs, s). Done (r # rs, s)))"

text \<open>The automaton: what a successful action does to the states.\<close>

definition move :: "u16 \<Rightarrow> fapi_states \<Rightarrow> fapi_states \<Rightarrow> fapi_states list \<Rightarrow> fapi_states list" where
  "move carrier a b st = (let i = unat (ucast carrier :: u8) in if st ! i = a then st[i := b] else st)"

fun life_step :: "fapi_action \<Rightarrow> fapi_states list \<Rightarrow> fapi_states list" where
  "life_step (Config_response (Some (carrier, status))) st =
     (if status = 0 then move carrier FAPI_STATE_IDLE FAPI_STATE_CONFIGURED st else st)"
| "life_step (Start_response (Some (ss, status))) st =
     (if status = 0 then move (nCarrier ss) FAPI_STATE_CONFIGURED FAPI_STATE_RUNNING st else st)"
| "life_step (Stop_response (Some (ss, status))) st =
     (if status = 0 then move (nCarrier ss) FAPI_STATE_RUNNING FAPI_STATE_CONFIGURED st else st)"
| "life_step (Shutdown_response (Some (ss, status))) st =
     (if status = 0 then st[unat (ucast (nCarrier ss) :: u8) := FAPI_STATE_IDLE] else st)"
| "life_step _ st = st"

lemma same_state:
  "inst_states t = inst_states s \<Longrightarrow> i < length (phy_instance s) \<Longrightarrow> state (phy_instance t ! i) = state (phy_instance s ! i)"
  by (metis inst_states_def length_inst_states nth_map)

lemma move_simps:
  assumes "inst_states t = inst_states s" and "unat (ucast c :: u8) < length (phy_instance s)"
  shows "state (phy_instance t ! unat (ucast c :: u8)) = a \<Longrightarrow>
      move c a b (inst_states s) = (inst_states s)[unat (ucast c :: u8) := b]"
    and "state (phy_instance t ! unat (ucast c :: u8)) \<noteq> a \<Longrightarrow> move c a b (inst_states s) = inst_states s"
  using same_state [OF assms] assms(2) by (simp_all add: move_def inst_states_def)

lemma response_states:
  "nr5g_fapi_config_response e cr s = Done (r, s') \<Longrightarrow>
     inst_states s' = (if r = 0 then life_step (Config_response cr) (inst_states s) else inst_states s)"
  "nr5g_fapi_start_resp e rp s = Done (r, s') \<Longrightarrow>
     inst_states s' = (if r = 0 then life_step (Start_response rp) (inst_states s) else inst_states s)"
  "nr5g_fapi_stop_indication e rp s = Done (r, s') \<Longrightarrow>
     inst_states s' = (if r = 0 then life_step (Stop_response rp) (inst_states s) else inst_states s)"
  subgoal
    by (auto simp: nr5g_fapi_config_response_def with_instance_def obind_Done_iff Let_def split: request_splits
        simp: move_simps dest!: list_states) (metis same_state not_le)+
  subgoal
    by (auto simp: nr5g_fapi_start_resp_def with_instance_def obind_Done_iff Let_def split: request_splits
        simp: move_simps dest!: list_states)
  subgoal
    by (auto simp: nr5g_fapi_stop_indication_def with_instance_def obind_Done_iff Let_def split: request_splits
        simp: move_simps dest!: list_states request_states)
  done

lemma shutdown_states:
  "nr5g_fapi_shutdown_response e rp s = Done (r, s') \<Longrightarrow>
     inst_states s' = (if r = 0 then life_step (Shutdown_response rp) (inst_states s) else inst_states s)"
  by (auto simp: nr5g_fapi_shutdown_response_def with_instance_def nr5g_fapi_clean_def obind_Done_iff Let_def
      split: request_splits dest!: list_states request_states)

lemma other_states:
  "nr5g_fapi_param_response e i s = Done (r, s') \<Longrightarrow> inst_states s' = inst_states s"
  "nr5g_fapi_error_indication e old er s = Done (r, s') \<Longrightarrow> inst_states s' = inst_states s"
  subgoal
    apply (clarsimp simp: nr5g_fapi_param_response_def obind_Done_iff Let_def)
    apply (drule list_states)+
    by (auto simp: obind_Done_iff dest!: list_states split: if_split_asm)
  subgoal
    by (auto simp: nr5g_fapi_error_indication_def obind_Done_iff Let_def split: option.split_asm if_split_asm
        dest!: list_states)
  done

lemma slot_ind_loop_states: "slot_ind_loop e u ss is v s = Done (r, v', s') \<Longrightarrow> inst_states s' = inst_states s"
proof (induction "is" arbitrary: v s)
  case (Cons i js)
  from Cons.prems show ?case
    by (auto simp: obind_Done_iff Let_def split: if_split_asm dest!: list_states Cons.IH)
qed simp

lemma slot_ind_states: "nr5g_fapi_slot_indication e u resp v s = Done (r, v', s') \<Longrightarrow> inst_states s' = inst_states s"
  by (auto simp: nr5g_fapi_slot_indication_def split: option.splits dest: slot_ind_loop_states)

lemma life_step_other: "inst_states s' = inst_states s \<Longrightarrow> a \<notin> range Config_response \<union> range Start_response
    \<union> range Stop_response \<union> range Shutdown_response \<Longrightarrow>
    inst_states s' = (if r = 0 then life_step a (inst_states s) else inst_states s)"
  by (cases a) auto

lemma perform_states:
  "perform e b a s = Done (r, s') \<Longrightarrow>
     inst_states s' = (if r = 0 then life_step a (inst_states s) else inst_states s)"
  by (cases a) (auto simp: obind_Done_iff dest!: request_states other_states response_states shutdown_states
      list_states slot_ind_states slot_request_keeps_states slot_indication_keeps_states recv_frame [THEN frame_states]
      split: if_split_asm)

fun life_run :: "fapi_action list \<Rightarrow> u8 list \<Rightarrow> fapi_states list \<Rightarrow> fapi_states list" where
  "life_run (a # as) (r # rs) st = life_run as rs (if r = 0 then life_step a st else st)"
| "life_run _ _ st = st"

section \<open>Failed shutdowns\<close>

text \<open>What the operations on the lists for the PHY leave alone as well.\<close>

definition phy_frame :: "fapi_state \<Rightarrow> fapi_state \<Rightarrow> bool" where
  "phy_frame s s' \<longleftrightarrow> phy_instance s' = phy_instance s \<and> fapi2mac_q s' = fapi2mac_q s"

lemma phy_frame_simps [simp]:
  "phy_frame s s" "phy_frame s (t\<lparr>io := i\<rparr>) \<longleftrightarrow> phy_frame s t"
  "phy_frame s (set_fapi2phy_queue u q t) \<longleftrightarrow> phy_frame s t"
  "phy_frame s (nr5g_fapi_fapi2phy_add_to_api_list u el t) \<longleftrightarrow> phy_frame s t"
  by (auto simp: phy_frame_def set_fapi2phy_queue_def nr5g_fapi_fapi2phy_add_to_api_list_def split: option.split)

lemma phy_frames:
  "nr5g_fapi_fapi2phy_create_api_list_elem e mt n al s = Done (el, s') \<Longrightarrow> phy_frame s s'"
  "nr5g_fapi_fapi2phy_send_api_list e u s = Done s' \<Longrightarrow> phy_frame s s'"
  by (auto simp: nr5g_fapi_fapi2phy_create_api_list_elem_def nr5g_fapi_fapi2phy_send_api_list_def
      obind_Done_iff Let_def split: if_split_asm)

lemma shutdown_request_effect:
  assumes "nr5g_fapi_shutdown_request e u (Some i) (Some r) s = Done (c, s')" and "i < length (phy_instance s)"
  shows "fapi2mac_q s' = fapi2mac_q s \<and> length (phy_instance s') = length (phy_instance s)
    \<and> shutdown_retries (phy_instance s' ! i) = shutdown_retries (phy_instance s ! i)"
  using assms
  by (auto simp: nr5g_fapi_shutdown_request_def write_message_def obind_Done_iff Let_def phy_frame_def upd_inst_def
      nr5g_fapi_fapi2phy_add_to_api_list_def set_fapi2phy_queue_def
      split: if_split_asm option.split_asm dest!: phy_frames)

text \<open>The request that is sent again, and what the PHY is handed: the waiting messages and behind them the
  request, for frame and slot 0 and with the test type of the first request, in a new block.  Without a
  block only the waiting messages are sent.\<close>

definition shutdown_el :: "fapi_cfg \<Rightarrow> nr5g_fapi_phy_instance \<Rightarrow> u64 \<Rightarrow> phy_el" where
  "shutdown_el e p a =
     (let t = MSG_TYPE_PHY_SHUTDOWN_REQ (api e); n = sizeof_msg (api e) t
      in \<lparr>el_addr = a, nMessageType = ucast t, nNumMessageInBlock = 1, nAlignOffset = ucast n, nMessageLen = n,
          el_msg = phy_message e t (Shutdown_request_body 0 0 (ucast (phy_id p)) (shutdown_test_type p))\<rparr>)"

definition repeats_request :: "fapi_cfg \<Rightarrow> nat \<Rightarrow> fapi_state \<Rightarrow> fapi_state \<Rightarrow> bool" where
  "repeats_request e i s s' \<longleftrightarrow>
     (\<exists>a j. io_alloc_buffer (ucast (nr5g_fapi_get_stats_location (api e) (ucast (MSG_TYPE_PHY_SHUTDOWN_REQ (api e))))) (io s)
          = Done (a, j)
        \<and> (let x = shutdown_el e (phy_instance s ! i) a;
               msgs = fapi2phy_q s @ (if a = 0 then [] else [x]);
               j = (if a = 0 then j else j\<lparr>heap := (heap j)(a := x)\<rparr>)
           in if msgs = [] then io s' = j
              else \<exists>r. nr5g_fapi_fapi2phy_wls_send (fapi_env.truncate e) msgs False j = Done (r, io s'))
        \<and> fapi2phy_q s' = [])"

lemma shutdown_request_repeats:
  assumes "nr5g_fapi_shutdown_request e False (Some i)
      (Some \<lparr>shutdown_sfn = 0, shutdown_slot = 0, test_type = shutdown_test_type (phy_instance s ! i)\<rparr>) s = Done (c, t)"
    and "nr5g_fapi_fapi2phy_send_api_list e False t = Done s'" "i < length (phy_instance s)"
  shows "repeats_request e i s s'"
proof -
  let ?loc = "ucast (nr5g_fapi_get_stats_location (api e) (ucast (MSG_TYPE_PHY_SHUTDOWN_REQ (api e))))"
  obtain a j where a: "io_alloc_buffer ?loc (io s) = Done (a, j)"
    using assms(1) by (auto simp: nr5g_fapi_shutdown_request_def nr5g_fapi_fapi2phy_create_api_list_elem_def Let_def obind_Done_iff)
  show ?thesis
  proof (cases "a = 0")
    case True
    then have "io t = j" "fapi2phy_q t = fapi2phy_q s"
      using assms(1) a by (auto simp: nr5g_fapi_shutdown_request_def nr5g_fapi_fapi2phy_create_api_list_elem_def Let_def)
    then show ?thesis using assms(2) a True
      by (auto simp: repeats_request_def nr5g_fapi_fapi2phy_send_api_list_def nr5g_fapi_fapi2phy_queue_def
          set_fapi2phy_queue_def obind_Done_iff split: if_split_asm)
  next
    case False
    let ?x = "shutdown_el e (phy_instance s ! i) a"
    have "io t = j\<lparr>heap := (heap j)(a := ?x)\<rparr>" "fapi2phy_q t = fapi2phy_q s @ [?x]"
      using assms(1,3) a False
      by (auto simp: nr5g_fapi_shutdown_request_def nr5g_fapi_fapi2phy_create_api_list_elem_def Let_def write_message_def
          shutdown_el_def nr5g_fapi_fapi2phy_add_to_api_list_def set_fapi2phy_queue_def nr5g_fapi_fapi2phy_queue_def)
    then show ?thesis using assms(2) a False
      by (auto simp: repeats_request_def nr5g_fapi_fapi2phy_send_api_list_def nr5g_fapi_fapi2phy_queue_def
          set_fapi2phy_queue_def obind_Done_iff Let_def)
  qed
qed

definition is_error_ind :: "fapi_el \<Rightarrow> bool" where
  "is_error_ind x \<longleftrightarrow> (case body x of Fapi_message mt len (Error_ind c) \<Rightarrow> mt = FAPI_ERROR_INDICATION | _ \<Rightarrow> False)"

lemma message_appends:
  assumes "fapi2mac_message e i mt len c False s = Done (True, s')"
  shows "\<exists>x. body x = Fapi_message mt len c \<and> unat i < length (fapi2mac_q s) \<and> phy_instance s' = phy_instance s
    \<and> fapi2mac_q s' = (fapi2mac_q s)[unat i := append_message x (fapi2mac_q s ! unat i)]"
  using assms
  by (auto simp: fapi2mac_message_def nr5g_fapi_fapi2mac_create_api_list_elem_def obind_Done_iff Let_def
      nr5g_fapi_fapi2mac_add_api_to_list_def nr5g_fapi_fapi2mac_queue_def set_fapi2mac_queue_def
      nr5g_fapi_fapi2mac_wls_alloc_buffer_def
      split: if_split_asm option.split_asm list.split_asm)
    (rule exI, rule conjI [OF _ refl], simp)+

lemma append_message_facts [simp]:
  "length (append_message x q) = Suc (length q)" "append_message x q \<noteq> []" "last (append_message x q) = x"
  by (auto simp: append_message_def split: list.split)

lemma failed_shutdown:
  assumes r: "nr5g_fapi_shutdown_response e (Some (ss, st)) s = Done (0, s')" and st: "st \<noteq> 0"
    and i: "i = unat (ucast (nCarrier ss) :: u8)"
  shows "i < length (phy_instance s)" "length (phy_instance s') = length (phy_instance s)"
    "shutdown_retries (phy_instance s ! i) + 1 \<le> 3 \<Longrightarrow>
      shutdown_retries (phy_instance s' ! i) = shutdown_retries (phy_instance s ! i) + 1 \<and> fapi2mac_q s' = fapi2mac_q s"
    "shutdown_retries (phy_instance s ! i) + 1 \<le> 3 \<Longrightarrow> repeats_request e i s s'"
    "\<not> shutdown_retries (phy_instance s ! i) + 1 \<le> 3 \<Longrightarrow>
      shutdown_retries (phy_instance s' ! i) = 0
      \<and> (\<exists>x. is_error_ind x \<and> i < length (fapi2mac_q s) \<and> fapi2mac_q s' = (fapi2mac_q s)[i := append_message x (fapi2mac_q s ! i)])"
proof -
  show "i < length (phy_instance s)"
    using r i by (auto simp: nr5g_fapi_shutdown_response_def with_instance_def Let_def split: if_split_asm)
  then have i': "i < length (phy_instance s)" "phy_id (phy_instance s ! i) = ucast (nCarrier ss)"
    using r i by (auto simp: nr5g_fapi_shutdown_response_def with_instance_def Let_def split: if_split_asm)
  show "length (phy_instance s') = length (phy_instance s)"
    using shutdown_states [OF r] st by (metis life_step.simps(4) length_inst_states)
  let ?s = "upd_inst i (\<lambda>p. p\<lparr>shutdown_retries := shutdown_retries p + 1\<rparr>) (upd_inst i (count_iapi Shutdown_res_cnt) s)"
  have s: "shutdown_retries (phy_instance ?s ! i) = shutdown_retries (phy_instance s ! i) + 1"
    "fapi2mac_q ?s = fapi2mac_q s" "length (phy_instance ?s) = length (phy_instance s)"
    using i'(1) by (simp_all add: upd_inst_def)
  show "shutdown_retries (phy_instance s' ! i) = shutdown_retries (phy_instance s ! i) + 1 \<and> fapi2mac_q s' = fapi2mac_q s"
    if "shutdown_retries (phy_instance s ! i) + 1 \<le> 3"
    using r st i' i that s
    by (auto simp: nr5g_fapi_shutdown_response_def with_instance_def Let_def obind_Done_iff
        phy_frame_def upd_inst_def dest!: shutdown_request_effect phy_frames)
  show "repeats_request e i s s'" if small: "shutdown_retries (phy_instance s ! i) + 1 \<le> 3"
  proof -
    obtain c t u where t: "nr5g_fapi_shutdown_request e False (Some i)
        (Some \<lparr>shutdown_sfn = 0, shutdown_slot = 0, test_type = shutdown_test_type (phy_instance ?s ! i)\<rparr>) ?s = Done (c, t)"
      "nr5g_fapi_fapi2phy_send_api_list e False t = Done u" "s' = upd_inst i (\<lambda>p. p\<lparr>stats := zero_stats\<rparr>) u"
      using r st i' i small s
      by (auto simp: nr5g_fapi_shutdown_response_def with_instance_def Let_def obind_Done_iff)
    have "repeats_request e i ?s u" by (rule shutdown_request_repeats [OF t(1,2)]) (simp add: s(3) i'(1))
    moreover have "shutdown_el e (phy_instance ?s ! i) = shutdown_el e (phy_instance s ! i)"
      using i'(1) by (simp add: shutdown_el_def fun_eq_iff)
    moreover have "io ?s = io s" "fapi2phy_q ?s = fapi2phy_q s" "io s' = io u" "fapi2phy_q s' = fapi2phy_q u"
      using t(3) by simp_all
    ultimately show ?thesis by (simp only: repeats_request_def)
  qed
  show "shutdown_retries (phy_instance s' ! i) = 0
      \<and> (\<exists>x. is_error_ind x \<and> i < length (fapi2mac_q s) \<and> fapi2mac_q s' = (fapi2mac_q s)[i := append_message x (fapi2mac_q s ! i)])"
    if "\<not> shutdown_retries (phy_instance s ! i) + 1 \<le> 3"
    using r st i' i that s
    by (auto simp: nr5g_fapi_shutdown_response_def with_instance_def Let_def obind_Done_iff error_content_def is_error_ind_def
        split: if_split_asm dest!: message_appends)
      (rule exI, rule conjI [OF _ refl], simp)
qed

lemma retries_small: "unat (w :: u8) \<le> 3 \<Longrightarrow> (w + 1 \<le> 3 \<longleftrightarrow> unat w < 3) \<and> (unat w < 3 \<longrightarrow> unat (w + 1) = Suc (unat w))"
  by (auto simp: word_le_nat_alt unat_plus_if')

text \<open>Answer number \<open>n\<close> of a run, with \<open>k\<close> failed answers before the run.\<close>

definition answer_effect :: "fapi_cfg \<Rightarrow> nat \<Rightarrow> nat \<Rightarrow> fapi_state \<Rightarrow> fapi_state \<Rightarrow> bool" where
  "answer_effect e i n t t' \<longleftrightarrow>
     (if n mod 4 = 3
      then \<exists>x. is_error_ind x \<and> i < length (fapi2mac_q t) \<and> fapi2mac_q t' = (fapi2mac_q t)[i := append_message x (fapi2mac_q t ! i)]
      else repeats_request e i t t' \<and> fapi2mac_q t' = fapi2mac_q t)"

lemma failed_shutdown_answer:
  assumes "nr5g_fapi_shutdown_response e (Some (ss, st)) s = Done (0, t)" "st \<noteq> 0" "i = unat (ucast (nCarrier ss) :: u8)"
    and k: "unat (shutdown_retries (phy_instance s ! i)) = k" "k \<le> 3"
  shows "answer_effect e i k s t" "unat (shutdown_retries (phy_instance t ! i)) = (k + 1) mod 4"
proof -
  note f = failed_shutdown [OF assms(1-3)]
  note w = retries_small [of "shutdown_retries (phy_instance s ! i)", unfolded k(1), OF k(2)]
  show "answer_effect e i k s t" "unat (shutdown_retries (phy_instance t ! i)) = (k + 1) mod 4"
    using f(3-5) w k by (cases "k < 3"; auto simp: answer_effect_def)+
qed

lemma failed_shutdowns:
  assumes "perform_all e b (map (\<lambda>r. Shutdown_response (Some r)) rs) s = Done (replicate (length rs) 0, s')"
    and "\<forall>(ss, st) \<in> set rs. nCarrier ss = c \<and> st \<noteq> 0"
    and "unat (shutdown_retries (phy_instance s ! unat (ucast c :: u8))) = k" "k \<le> 3"
  shows "unat (shutdown_retries (phy_instance s' ! unat (ucast c :: u8))) = (k + length rs) mod 4
    \<and> (\<forall>n < length rs. \<exists>t t'. perform_all e b (map (\<lambda>r. Shutdown_response (Some r)) (take n rs)) s = Done (replicate n 0, t)
         \<and> nr5g_fapi_shutdown_response e (Some (rs ! n)) t = Done (0, t') \<and> answer_effect e (unat (ucast c :: u8)) (k + n) t t')"
  using assms
proof (induction rs arbitrary: s k)
  case Nil
  then show ?case by simp
next
  case (Cons r rs)
  obtain ss st where r: "r = (ss, st)" by (cases r)
  let ?i = "unat (ucast c :: u8)"
  from Cons.prems(1) obtain t where
    t: "nr5g_fapi_shutdown_response e (Some (ss, st)) s = Done (0, t)"
      "perform_all e b (map (\<lambda>r. Shutdown_response (Some r)) rs) t = Done (replicate (length rs) 0, s')"
    by (auto simp: obind_Done_iff r)
  have c: "nCarrier ss = c" "st \<noteq> 0" "\<forall>(ss, st) \<in> set rs. nCarrier ss = c \<and> st \<noteq> 0"
    using Cons.prems(2) r by auto
  note f = failed_shutdown_answer [OF t(1) c(2) arg_cong [OF c(1) [symmetric]] Cons.prems(3,4)]
  have "(k + 1) mod 4 \<le> 3" by presburger
  note IH = Cons.IH [OF t(2) c(3) f(2) this]
  have eff: "answer_effect e i ((k + 1) mod 4 + n) = answer_effect e i (k + Suc n)" for i n
    by (intro ext) (simp add: answer_effect_def mod_simps)
  have first: "answer_effect e ?i (k + 0) s t" using f(1) by simp
  have "\<exists>u u'. perform_all e b (map (\<lambda>r. Shutdown_response (Some r)) (take n (r # rs))) s = Done (replicate n 0, u)
         \<and> nr5g_fapi_shutdown_response e (Some ((r # rs) ! n)) u = Done (0, u') \<and> answer_effect e ?i (k + n) u u'"
    if n: "n < length (r # rs)" for n
  proof (cases n)
    case 0
    then show ?thesis using t(1) first r by auto
  next
    case (Suc m)
    then obtain u u' where "perform_all e b (map (\<lambda>r. Shutdown_response (Some r)) (take m rs)) t = Done (replicate m 0, u)"
      "nr5g_fapi_shutdown_response e (Some (rs ! m)) u = Done (0, u')" "answer_effect e ?i ((k + 1) mod 4 + m) u u'"
      using IH n by auto
    then show ?thesis using Suc t(1) r eff by (auto simp: obind_Done_iff)
  qed
  moreover have "unat (shutdown_retries (phy_instance s' ! ?i)) = (k + length (r # rs)) mod 4"
    using IH by (simp add: mod_simps)
  ultimately show ?case by blast
qed

section \<open>What holds for every instance\<close>

text \<open>What an instance keeps while its table of slot records is the same, and through the cleaning of the
  instance, every control message keeps of all instances.\<close>

definition all_instances :: "(nr5g_fapi_phy_instance \<Rightarrow> bool) \<Rightarrow> fapi_state \<Rightarrow> bool" where
  "all_instances J s \<longleftrightarrow> length (phy_instance s) = FAPI_MAX_PHY_INSTANCES \<and> length (fapi2mac_q s) = FAPI_MAX_PHY_INSTANCES
     \<and> length (fapi2mac_urllc_q s) = FAPI_MAX_PHY_INSTANCES \<and> (\<forall>p \<in> set (phy_instance s). J p)"

lemma frame_all: "frame s s' \<Longrightarrow> all_instances J s \<Longrightarrow> all_instances J s'"
  by (simp add: frame_def all_instances_def)

lemma all_updates [simp]:
  "all_instances J (s\<lparr>io := i\<rparr>) \<longleftrightarrow> all_instances J s"
  "all_instances J (s\<lparr>num_phy_instance := n\<rparr>) \<longleftrightarrow> all_instances J s"
  "all_instances J (nr5g_fapi_fapi2phy_add_to_api_list u el s) \<longleftrightarrow> all_instances J s"
  by (simp_all add: all_instances_def nr5g_fapi_fapi2phy_add_to_api_list_def set_fapi2phy_queue_def split: option.split)

lemma all_upd: "all_instances J s \<Longrightarrow> (\<And>p. J p \<Longrightarrow> J (f p)) \<Longrightarrow> all_instances J (upd_inst i f s)"
  by (cases "i < length (phy_instance s)")
    (auto simp: all_instances_def upd_inst_def list_update_beyond dest!: set_update_subset_insert [THEN subsetD])

locale instance_invariant =
  fixes J :: "nr5g_fapi_phy_instance \<Rightarrow> bool"
  assumes same_slots: "ul_slot_info p = ul_slot_info q \<Longrightarrow> J p \<Longrightarrow> J q"
    and cleaned: "J p \<Longrightarrow> J (clean_instance p)"
begin

lemma same [simp]:
  "J (count_fapi k p) = J p" "J (count_iapi k p) = J p" "J (count_fapi_p7 k2 p) = J p" "J (count_iapi_p7 k2 p) = J p"
  "J (p\<lparr>state := x\<rparr>) = J p" "J (p\<lparr>shutdown_retries := y\<rparr>) = J p" "J (p\<lparr>inst_config := c\<rparr>) = J p"
  "J (p\<lparr>stats := z\<rparr>) = J p" "J (p\<lparr>shutdown_test_type := w\<rparr>) = J p" "J (p\<lparr>phy_id := v\<rparr>) = J p"
  by (auto simp: count_fapi_def count_iapi_def count_fapi_p7_def count_iapi_p7_def elim!: same_slots [rotated])

lemmas list_keeps = list_frames [THEN frame_all [where J = J]]

lemma request_keeps:
  "nr5g_fapi_config_request e u inst req vm s = Done (r, s') \<Longrightarrow> all_instances J s \<Longrightarrow> all_instances J s'"
  "nr5g_fapi_start_request e u inst sr vm s = Done (r, s') \<Longrightarrow> all_instances J s \<Longrightarrow> all_instances J s'"
  "nr5g_fapi_stop_request e u inst sr vm s = Done (r, s') \<Longrightarrow> all_instances J s \<Longrightarrow> all_instances J s'"
  "nr5g_fapi_shutdown_request e u inst dr s = Done (r, s') \<Longrightarrow> all_instances J s \<Longrightarrow> all_instances J s'"
  subgoal
    by (auto simp: nr5g_fapi_config_request_def write_message_def obind_Done_iff Let_def all_upd
        split: if_split_asm option.split_asm dest!: list_keeps)
  subgoal
    by (auto simp: nr5g_fapi_start_request_def write_message_def obind_Done_iff Let_def all_upd
        split: if_split_asm option.split_asm dest!: list_keeps)
  subgoal
    by (auto simp: nr5g_fapi_stop_request_def write_message_def obind_Done_iff Let_def all_upd
        split: if_split_asm option.split_asm dest!: list_keeps)
  subgoal
    by (auto simp: nr5g_fapi_shutdown_request_def write_message_def obind_Done_iff Let_def all_upd
        split: if_split_asm option.split_asm dest!: list_keeps)
  done

lemma clean_keeps: "nr5g_fapi_clean e i s = Done s' \<Longrightarrow> all_instances J s \<Longrightarrow> all_instances J s'"
  by (auto simp: nr5g_fapi_clean_def obind_Done_iff all_upd cleaned)

lemma response_keeps:
  "nr5g_fapi_config_response e cr s = Done (r, s') \<Longrightarrow> all_instances J s \<Longrightarrow> all_instances J s'"
  "nr5g_fapi_start_resp e rp s = Done (r, s') \<Longrightarrow> all_instances J s \<Longrightarrow> all_instances J s'"
  "nr5g_fapi_stop_indication e rp s = Done (r, s') \<Longrightarrow> all_instances J s \<Longrightarrow> all_instances J s'"
  "nr5g_fapi_shutdown_response e rp s = Done (r, s') \<Longrightarrow> all_instances J s \<Longrightarrow> all_instances J s'"
  "nr5g_fapi_param_response e i s = Done (r, s') \<Longrightarrow> all_instances J s \<Longrightarrow> all_instances J s'"
  "nr5g_fapi_error_indication e old er s = Done (r, s') \<Longrightarrow> all_instances J s \<Longrightarrow> all_instances J s'"
  subgoal
    by (auto simp: nr5g_fapi_config_response_def with_instance_def obind_Done_iff Let_def all_upd
        split: if_split_asm option.split_asm dest!: list_keeps)
  subgoal
    by (auto simp: nr5g_fapi_start_resp_def with_instance_def obind_Done_iff Let_def all_upd
        split: if_split_asm option.split_asm dest!: list_keeps)
  subgoal
    by (auto simp: nr5g_fapi_stop_indication_def with_instance_def obind_Done_iff Let_def all_upd
        split: if_split_asm option.split_asm dest!: list_keeps request_keeps)
  subgoal
    by (auto simp: nr5g_fapi_shutdown_response_def with_instance_def obind_Done_iff Let_def all_upd
        split: if_split_asm option.split_asm dest!: list_keeps request_keeps clean_keeps)
  subgoal
    by (auto simp: nr5g_fapi_param_response_def obind_Done_iff Let_def all_upd split: if_split_asm dest!: list_keeps)
  subgoal
    by (auto simp: nr5g_fapi_error_indication_def obind_Done_iff Let_def
        split: option.split_asm if_split_asm dest!: list_keeps)
  done

lemma slot_ind_keeps: "slot_ind_loop e u ss is v s = Done (r, v', s') \<Longrightarrow> all_instances J s \<Longrightarrow> all_instances J s'"
proof (induction "is" arbitrary: v s)
  case (Cons i js)
  from Cons.prems show ?case
    by (auto simp: obind_Done_iff Let_def all_upd split: if_split_asm dest!: list_keeps Cons.IH)
qed simp

lemma slot_indication_keeps:
  "nr5g_fapi_slot_indication e u req v s = Done (r, v', s') \<Longrightarrow> all_instances J s \<Longrightarrow> all_instances J s'"
  by (auto simp: nr5g_fapi_slot_indication_def split: option.split_asm dest: slot_ind_keeps)

end

section \<open>The check of the order\<close>

text \<open>What a list must start with while the instance is running.\<close>

fun slot_start :: "u16 list \<Rightarrow> bool" where
  "slot_start (x # y # ms) \<longleftrightarrow> x = FAPI_DL_TTI_REQUEST \<and> y = FAPI_UL_TTI_REQUEST"
| "slot_start _ \<longleftrightarrow> False"

definition slot_list :: "u16 list \<Rightarrow> bool" where
  "slot_list ms \<longleftrightarrow> slot_start (if ms \<noteq> [] \<and> hd ms = FAPI_CONFIG_REQUEST then tl ms else ms)"

lemma order_loop_iff: "order_loop FAPI_DL_TTI_REQUEST ys = FAPI_UL_DCI_REQUEST \<longleftrightarrow> slot_start (map el_msg_id ys)"
proof -
  have third: "order_loop FAPI_UL_DCI_REQUEST zs = FAPI_UL_DCI_REQUEST" for zs by (cases zs) (auto simp: fapi_ids)
  show ?thesis
    using third [unfolded fapi_ids]
    by (induction ys rule: induct_list012) (auto simp: fapi_ids)
qed

lemma check_order_iff:
  "xs \<noteq> [] \<Longrightarrow> nr5g_fapi_check_api_ordering p xs = 0 \<longleftrightarrow> state p \<noteq> FAPI_STATE_RUNNING \<or> slot_list (map el_msg_id xs)"
  by (cases xs) (auto simp: nr5g_fapi_check_api_ordering_def slot_list_def order_loop_iff Let_def)

section \<open>Concrete states\<close>

definition demo_cfg :: fapi_cfg where
  "demo_cfg = fapi_env.extend demo_fapi_env
     \<lparr>h_mac = demo_b, wls_put1 = (\<lambda>m s. Some (0, s)), wls_wait1 = (\<lambda>s. Some (Blocks, s)),
       wls_get1 = (\<lambda>s. Some ((0, 0, 0, 0), s)), sizeof_fapi = (\<lambda>_. 64), sizeof_fapi_el = 48, shmem = 0\<rparr>"

definition demo_p7 :: fapi_p7 where
  "demo_p7 = \<lparr>p7_request = (\<lambda>_ _ _ _. Done), p7_indication = (\<lambda>_ _ v s. Done (v, s))\<rparr>"

definition demo_inst :: "fapi_states \<Rightarrow> u8 \<Rightarrow> u8 \<Rightarrow> nr5g_fapi_phy_instance" where
  "demo_inst st i n = \<lparr>phy_id = i, shutdown_retries = n, shutdown_test_type = 0, state = st,
     inst_config = demo_pc, stats = zero_stats,
     ul_slot_info = replicate 2 (replicate 20 (replicate 14 zero_ul_slot_info))\<rparr>"

definition demo_mac_el :: "u8 \<Rightarrow> fapi_body \<Rightarrow> fapi_el" where
  "demo_mac_el t b = \<lparr>fel_addr = 0x100, fel_type = t, num_message_in_block = 1, fel_len = 64, align_offset = 64, fel_tx = [], body = b\<rparr>"

definition demo_state :: "fapi_states \<Rightarrow> u8 \<Rightarrow> fapi_state" where
  "demo_state st n = \<lparr>io = demo_io (demo_wls 0 0) [] [], fapi2mac_buffers = [0x1000, 0x2000, 0x3000],
     fapi2mac_q = replicate 24 [], fapi2mac_urllc_q = replicate 24 [], fapi2phy_q = [], fapi2phy_q_urllc = [],
     phy_instance = replicate 24 (demo_inst st 0 n), num_phy_instance = 0,
     mac_heap = (\<lambda>_. demo_mac_el 0 (Msg_header 0 0))\<rparr>"

lemma demo_state_simps [simp]:
  "i < 24 \<Longrightarrow> phy_instance (demo_state st n) ! i = demo_inst st 0 n" "length (phy_instance (demo_state st n)) = 24"
  "i < 24 \<Longrightarrow> fapi2mac_q (demo_state st n) ! i = []" "length (fapi2mac_q (demo_state st n)) = 24"
  "fapi2mac_buffers (demo_state st n) = [0x1000, 0x2000, 0x3000]"
  by (simp_all add: demo_state_def)

lemma demo_inst_simps [simp]:
  "state (demo_inst st i n) = st" "phy_id (demo_inst st i n) = i" "shutdown_retries (demo_inst st i n) = n"
  by (simp_all add: demo_inst_def)

definition demo_slot :: sfn_slot where "demo_slot = \<lparr>nSFN = 5, nSlot = 3, nCarrier = 0, nSym = 0\<rparr>"

lemma demo_start: "\<exists>s'. perform demo_cfg demo_p7_env (Start_response (Some (demo_slot, 0))) (demo_state FAPI_STATE_CONFIGURED 0) = Done (0, s')"
  by (simp add: nr5g_fapi_start_resp_def with_instance_def demo_slot_def Let_def)

lemma demo_shutdown: "\<exists>s'. perform demo_cfg demo_p7_env (Shutdown_response (Some (demo_slot, 1))) (demo_state FAPI_STATE_CONFIGURED 3) = Done (0, s')"
  by (simp add: nr5g_fapi_shutdown_response_def with_instance_def demo_slot_def Let_def fapi2mac_message_def
      nr5g_fapi_fapi2mac_create_api_list_elem_def nr5g_fapi_fapi2mac_wls_alloc_buffer_def
      nr5g_fapi_fapi2mac_add_api_to_list_def nr5g_fapi_fapi2mac_queue_def length_greater_0_conv [symmetric]
      del: length_greater_0_conv)

section \<open>Properties\<close>

text \<open>C32: the states of the instances follow the automaton of the FAPI: for any sequence of calls that
  the threads make, a call that returns \<open>SUCCESS\<close> makes the move of the automaton for its message on the
  instance the message names (a configuration response takes it from idle to configured, a start response to
  running, a stop response back to configured, a shutdown response to idle), and a call that returns
  \<open>FAILURE\<close>, a request of the MAC, a message of a slot in either direction, an error, the handling of the
  lists and a writing of the shared memory leave every state as it is.\<close>

theorem states_follow_the_lifecycle:
  assumes "perform_all e b as s = Done (rs, s')"
  shows "inst_states s' = life_run as rs (inst_states s)"
  using assms
proof (induction "as" arbitrary: s rs)
  case (Cons a as)
  then show ?case by (auto simp: obind_Done_iff dest!: perform_states)
qed simp

theorem states_follow_the_lifecycle_witness:
  "\<exists>s'. perform_all demo_cfg demo_p7_env [Start_response (Some (demo_slot, 0))] (demo_state FAPI_STATE_CONFIGURED 0) = Done ([0], s')
     \<and> inst_states s' = (replicate 24 FAPI_STATE_CONFIGURED)[0 := FAPI_STATE_RUNNING]"
proof -
  obtain s' where s': "perform_all demo_cfg demo_p7_env [Start_response (Some (demo_slot, 0))] (demo_state FAPI_STATE_CONFIGURED 0) = Done ([0], s')"
    using demo_start by auto
  have "inst_states (demo_state FAPI_STATE_CONFIGURED 0) = replicate 24 FAPI_STATE_CONFIGURED"
    by (simp add: inst_states_def demo_state_def)
  with s' states_follow_the_lifecycle [OF s'] show ?thesis by (simp add: move_def demo_slot_def)
qed

text \<open>C33: a PHY that keeps failing to shut down is not asked for ever.  In a run of failed answers for a
  carrier, each fourth one (counting the \<open>k\<close> failed answers before the run) appends one ERROR.indication to
  the list of the instance for the MAC and starts the count again; each answer in between hands the PHY the
  request again, behind the messages that wait for it, and leaves the lists for the MAC alone.\<close>

theorem failed_shutdowns_reach_the_mac:
  assumes "perform_all e b (map (\<lambda>r. Shutdown_response (Some r)) rs) s = Done (replicate (length rs) 0, s')"
    and "\<forall>(ss, st) \<in> set rs. nCarrier ss = c \<and> st \<noteq> 0"
    and "i = unat (ucast c :: u8)" "k = unat (shutdown_retries (phy_instance s ! i))" "k \<le> 3"
  shows "unat (shutdown_retries (phy_instance s' ! i)) = (k + length rs) mod 4
    \<and> (\<forall>n < length rs. \<exists>t t'.
         perform_all e b (map (\<lambda>r. Shutdown_response (Some r)) (take n rs)) s = Done (replicate n 0, t)
         \<and> nr5g_fapi_shutdown_response e (Some (rs ! n)) t = Done (0, t')
         \<and> (if (k + n) mod 4 = 3
            then \<exists>x. is_error_ind x \<and> i < length (fapi2mac_q t)
                   \<and> fapi2mac_q t' = (fapi2mac_q t)[i := append_message x (fapi2mac_q t ! i)]
            else repeats_request e i t t' \<and> fapi2mac_q t' = fapi2mac_q t))"
  using failed_shutdowns [OF assms(1,2) assms(4) [unfolded assms(3), symmetric] assms(5)]
  unfolding answer_effect_def assms(3) .

theorem failed_shutdowns_reach_the_mac_witness:
  "\<exists>s' t. perform_all demo_cfg demo_p7_env [Shutdown_response (Some (demo_slot, 1))] (demo_state FAPI_STATE_CONFIGURED 3) = Done ([0], s')
     \<and> shutdown_retries (phy_instance s' ! 0) = 0
     \<and> nr5g_fapi_shutdown_response demo_cfg (Some (demo_slot, 1)) (demo_state FAPI_STATE_CONFIGURED 3) = Done (0, t)
     \<and> (\<exists>x. is_error_ind x \<and> fapi2mac_q t ! 0 = append_message x [])"
proof -
  obtain s' where s': "perform_all demo_cfg demo_p7_env [Shutdown_response (Some (demo_slot, 1))] (demo_state FAPI_STATE_CONFIGURED 3) = Done ([0], s')"
    using demo_shutdown by auto
  with failed_shutdowns_reach_the_mac [of demo_cfg demo_p7_env "[(demo_slot, 1)]" "demo_state FAPI_STATE_CONFIGURED 3" s' 0 0 3]
  show ?thesis by (auto simp: demo_slot_def unat_eq_0)
qed

text \<open>C35: in the running state a list is processed only when it starts with DL_TTI.request and
  UL_TTI.request, perhaps behind a CONFIG.request; any other list has no effect at all, so a
  STOP.request or a shutdown that comes alone is dropped.\<close>

theorem running_instance_wants_slot_requests:
  assumes "state (phy_instance s ! i) = FAPI_STATE_RUNNING"
    and "split_vendor xs = Some (ys, v)" "vendor_of v = Done vm" "split_tx_data ys \<noteq> []"
    and "\<not> slot_list (map el_msg_id (split_tx_data ys))"
  shows "nr5g_fapi_mac2phy_api_processing_handler e p7 u i xs s = Done s"
  using assms check_order_iff [of "split_tx_data ys" "phy_instance s ! i"]
  by (simp add: nr5g_fapi_mac2phy_api_processing_handler_def Let_def)

theorem running_instance_wants_slot_requests_witness:
  "nr5g_fapi_mac2phy_api_processing_handler demo_cfg demo_p7 False 0
     [demo_mac_el 5 (Fapi_message FAPI_STOP_REQUEST 8 Other_message)] (demo_state FAPI_STATE_RUNNING 0) = Done (demo_state FAPI_STATE_RUNNING 0)"
proof -
  let ?x = "demo_mac_el 5 (Fapi_message FAPI_STOP_REQUEST 8 Other_message)"
  have "split_vendor [?x] = Some ([?x], None)" "split_tx_data [?x] = [?x]" "\<not> slot_list (map el_msg_id [?x])"
    by (simp_all add: split_vendor_def split_tx_data_def is_zbc_def demo_mac_el_def el_msg_id_def el_type_def fapi_ids
        slot_list_def)
  moreover have "vendor_of None = Done None" "state (phy_instance (demo_state FAPI_STATE_RUNNING 0) ! 0) = FAPI_STATE_RUNNING"
    by (simp_all add: vendor_of_def)
  ultimately show ?thesis by (metis running_instance_wants_slot_requests not_Cons_self2)
qed

text \<open>A list for the carrier 24, one behind the last instance, passes the check of the carrier and
  makes the handler access the table of instances out of bounds.\<close>

theorem carrier_behind_the_last_instance:
  assumes "length (phy_instance s) = FAPI_MAX_PHY_INSTANCES" "t \<noteq> []"
    and "num_msg (body h) \<noteq> 0" "unat (handle (body h)) = FAPI_MAX_PHY_INSTANCES"
  shows "nr5g_fapi_mac2phy_api_recv_handler e p7 u (h # t) s = Undefined"
  using assms by (simp add: Let_def split: prod.split)

theorem carrier_behind_the_last_instance_witness:
  "nr5g_fapi_mac2phy_api_recv_handler demo_cfg demo_p7 False
     [demo_mac_el 0x1A (Msg_header 1 24), demo_mac_el 2 (Fapi_message FAPI_CONFIG_REQUEST 8 Other_message)]
     (demo_state FAPI_STATE_IDLE 0) = Undefined"
  by (rule carrier_behind_the_last_instance) (simp_all add: demo_mac_el_def FAPI_MAX_PHY_INSTANCES_def)

end
