(* ===== verification/Fapi_Split.thy ===== *)
theory Fapi_Split
  imports Fapi_Lifecycle
begin

text \<open>
  The splitting of the payload elements from the list of the MAC, on the links of the elements as
  the C code does it (\<open>nr5g_fapi_mac2phy_api_processing_handler\<close>), and its equivalence with
  \<open>split_tx_data\<close>, which says what becomes of the list.  A link of 0 is \<open>NULL\<close>.
\<close>

section \<open>The walk\<close>

record tx_links =
  p_next :: "u64 \<Rightarrow> u64"
  p_tx_data_elm :: u64
  p_tx_data_pdu_list :: u64
  p_tx_data_pdu_list_tail :: u64

definition tx_visit :: "fapi_el \<Rightarrow> tx_links \<Rightarrow> tx_links" where
  "tx_visit x t =
     (if el_type x = FAPI_TX_DATA_REQUEST then t\<lparr>p_tx_data_elm := fel_addr x\<rparr>
      else if el_type x = FAPI_VENDOR_MSG_PHY_ZBC_BLOCK_REQ then
        (if p_tx_data_pdu_list t \<noteq> 0
         then let n = (p_next t)(p_tx_data_pdu_list_tail t := fel_addr x)
              in t\<lparr>p_next := n, p_tx_data_pdu_list_tail := n (p_tx_data_pdu_list_tail t)\<rparr>
         else t\<lparr>p_tx_data_pdu_list := fel_addr x, p_tx_data_pdu_list_tail := fel_addr x\<rparr>)
      else t)"

text \<open>\<open>h\<close> is the element at an address; the first argument is the fuel.\<close>

fun tx_walk :: "nat \<Rightarrow> (u64 \<Rightarrow> fapi_el) \<Rightarrow> u64 \<Rightarrow> tx_links \<Rightarrow> tx_links option" where
  "tx_walk 0 h p t = (if p = 0 then Some t else None)"
| "tx_walk (Suc n) h p t =
     (if p = 0 then Some t else let t = tx_visit (h p) t in tx_walk n h (p_next t p) t)"

definition tx_attach :: "tx_links \<Rightarrow> tx_links" where
  "tx_attach t =
     (if p_tx_data_pdu_list t \<noteq> 0 \<and> p_tx_data_elm t \<noteq> 0
      then t\<lparr>p_next := (p_next t)(p_tx_data_elm t := 0)\<rparr> else t)"

definition split_links :: "nat \<Rightarrow> (u64 \<Rightarrow> fapi_el) \<Rightarrow> u64 \<Rightarrow> (u64 \<Rightarrow> u64) \<Rightarrow> tx_links option" where
  "split_links n h p l =
     map_option tx_attach (tx_walk n h p \<lparr>p_next = l, p_tx_data_elm = 0, p_tx_data_pdu_list = 0, p_tx_data_pdu_list_tail = 0\<rparr>)"

section \<open>Paths\<close>

fun path :: "(u64 \<Rightarrow> u64) \<Rightarrow> u64 \<Rightarrow> u64 list \<Rightarrow> u64 \<Rightarrow> bool" where
  "path l a [] b \<longleftrightarrow> a = b"
| "path l a (x # xs) b \<longleftrightarrow> a = x \<and> path l (l x) xs b"

lemma path_append: "path l a (xs @ ys) b \<longleftrightarrow> (\<exists>c. path l a xs c \<and> path l c ys b)"
  by (induction xs arbitrary: a) auto

lemma path_cong: "\<forall>x \<in> set xs. l x = l' x \<Longrightarrow> path l a xs b = path l' a xs b"
  by (induction xs arbitrary: a) auto

lemma path_upd: "x \<notin> set xs \<Longrightarrow> path (l(x := v)) a xs b \<longleftrightarrow> path l a xs b"
  by (rule path_cong) auto

lemma path_hd: "path l a xs b \<Longrightarrow> xs \<noteq> [] \<Longrightarrow> a = hd xs"
  by (cases xs) auto

lemma path_end: "path l a xs b \<Longrightarrow> xs \<noteq> [] \<Longrightarrow> b = l (last xs)"
  by (induction xs arbitrary: a) auto

lemma path_cut:
  assumes "path l a xs b" "xs \<noteq> []" "distinct xs"
  shows "path (l(last xs := 0)) a xs 0"
proof -
  obtain ys x where xs: "xs = ys @ [x]" using assms(2) by (cases xs rule: rev_cases) auto
  with assms have "path l a ys x" "\<forall>y \<in> set ys. l y = (l(x := 0)) y" by (auto simp: path_append)
  then have "path (l(x := 0)) a ys x" using path_cong by blast
  then show ?thesis by (simp add: xs path_append)
qed

text \<open>The links after the payload elements were chained.\<close>

fun relink :: "(u64 \<Rightarrow> u64) \<Rightarrow> u64 list \<Rightarrow> u64 \<Rightarrow> u64" where
  "relink l (a # b # r) = (relink l (b # r))(a := b)"
| "relink l _ = l"

lemma relink_other: "a \<notin> set (butlast as) \<Longrightarrow> relink l as a = l a"
  by (induction l "as" rule: relink.induct) auto

lemma relink_snoc: "as \<noteq> [] \<Longrightarrow> distinct as \<Longrightarrow> relink l (as @ [b]) = (relink l as)(last as := b)"
proof (induction l "as" rule: relink.induct)
  case (1 l a c r)
  then have "a \<noteq> last (c # r)" by auto
  with 1 show ?case by (auto simp: fun_eq_iff)
qed auto

lemma relink_path: "as \<noteq> [] \<Longrightarrow> distinct as \<Longrightarrow> path (relink l as) (hd as) as (l (last as))"
proof (induction l "as" rule: relink.induct)
  case (1 l a b r)
  then have "path (relink l (b # r)) b (b # r) (l (last (b # r)))" by simp
  moreover have "\<forall>x \<in> set (b # r). relink l (b # r) x = ((relink l (b # r))(a := b)) x" using 1 by auto
  ultimately have "path ((relink l (b # r))(a := b)) b (b # r) (l (last (b # r)))" using path_cong by blast
  moreover have "a \<noteq> b" using 1(3) by auto
  ultimately show ?case by (simp add: fun_upd_def)
qed auto

section \<open>The result of the walk\<close>

definition addr_or_null :: "u64 list \<Rightarrow> (u64 list \<Rightarrow> u64) \<Rightarrow> u64" where
  "addr_or_null as f = (if as = [] then 0 else f as)"

definition walked :: "(u64 \<Rightarrow> u64) \<Rightarrow> fapi_el list \<Rightarrow> tx_links" where
  "walked l us =
     (let Z = map fel_addr (filter is_zbc us); T = map fel_addr (filter is_tx_data us)
      in \<lparr>p_next = relink l Z, p_tx_data_elm = addr_or_null T last,
          p_tx_data_pdu_list = addr_or_null Z hd, p_tx_data_pdu_list_tail = addr_or_null Z last\<rparr>)"

lemma visit_walked:
  assumes "0 \<notin> fel_addr ` set us" "distinct (map fel_addr (us @ [x]))"
  shows "tx_visit x (walked l us) = walked l (us @ [x])"
proof -
  have d: "distinct (map fel_addr (filter is_zbc us))" using assms(2) by (simp add: distinct_map inj_on_def)
  have z: "map fel_addr (filter is_zbc us) \<noteq> [] \<Longrightarrow> hd (map fel_addr (filter is_zbc us)) \<noteq> 0"
    using assms(1) hd_in_set [of "map fel_addr (filter is_zbc us)"] by auto
  have ex: "\<not> (is_tx_data x \<and> is_zbc x)" by (simp add: is_tx_data_def is_zbc_def fapi_ids)
  show ?thesis
    using z relink_snoc [OF _ d] ex
    by (cases "map fel_addr (filter is_zbc us) = []")
      (auto simp: tx_visit_def walked_def addr_or_null_def Let_def is_tx_data_def is_zbc_def)
qed

lemma walk_walked:
  assumes "path l p (map fel_addr vs) 0" "0 \<notin> fel_addr ` set (us @ vs)" "distinct (map fel_addr (us @ vs))"
    "\<forall>x \<in> set vs. h (fel_addr x) = x" "length vs \<le> n"
  shows "tx_walk n h p (walked l us) = Some (walked l (us @ vs))"
  using assms
proof (induction vs arbitrary: us p n)
  case Nil
  then show ?case by (cases n) auto
next
  case (Cons x vs)
  then obtain k where n: "n = Suc k" by (cases n) auto
  have p: "p = fel_addr x" "p \<noteq> 0" "h p = x" using Cons.prems by auto
  have v: "tx_visit x (walked l us) = walked l (us @ [x])"
    using visit_walked [of us x l] Cons.prems(2,3) by auto
  have "fel_addr x \<notin> set (butlast (map fel_addr (filter is_zbc (us @ [x]))))"
    using Cons.prems(3) by (auto simp: butlast_append dest!: in_set_butlastD)
  then have "p_next (walked l (us @ [x])) p = l p" by (simp add: walked_def Let_def relink_other p)
  moreover have "tx_walk k h (l p) (walked l (us @ [x])) = Some (walked l ((us @ [x]) @ vs))"
    using Cons.prems n p by (intro Cons.IH) auto
  ultimately show ?case using p v n by (simp add: Let_def)
qed

text \<open>The list in three parts: before the payload elements, from the first to the last of them, and
  behind them.\<close>

definition before_zbc :: "fapi_el list \<Rightarrow> fapi_el list" where
  "before_zbc xs = takeWhile (\<lambda>x. \<not> is_zbc x) xs"

definition behind_zbc :: "fapi_el list \<Rightarrow> fapi_el list" where
  "behind_zbc xs = rev (takeWhile (\<lambda>x. \<not> is_zbc x) (rev xs))"

lemma zbc_parts:
  assumes "filter is_zbc xs \<noteq> []"
  obtains mid where "xs = before_zbc xs @ mid @ behind_zbc xs" "mid \<noteq> []" "hd mid = hd (filter is_zbc xs)"
    "last mid = last (filter is_zbc xs)" "filter is_zbc mid = filter is_zbc xs"
    "filter is_zbc (before_zbc xs) = []" "filter is_zbc (behind_zbc xs) = []"
proof -
  let ?P = "\<lambda>x. \<not> is_zbc x"
  define q where "q = dropWhile ?P xs"
  have q: "q \<noteq> []" "is_zbc (hd q)" "xs = before_zbc xs @ q"
    using assms hd_dropWhile [of ?P xs] by (auto simp: q_def before_zbc_def filter_empty_conv dropWhile_eq_Nil_conv)
  define mid where "mid = rev (dropWhile ?P (rev q))"
  have "\<exists>x \<in> set q. is_zbc x" using q(1,2) by (meson list.set_sel(1))
  then have m: "mid \<noteq> []" "is_zbc (last mid)"
    using hd_dropWhile [of ?P "rev q"] by (auto simp: mid_def last_rev)
  have "takeWhile ?P (rev xs) = takeWhile ?P (rev q)"
    using q \<open>\<exists>x \<in> set q. is_zbc x\<close> by (metis rev_append set_rev takeWhile_append1)
  then have b: "q = mid @ behind_zbc xs" unfolding mid_def behind_zbc_def by (metis rev_append rev_rev_ident takeWhile_dropWhile_id)
  have n: "filter is_zbc (before_zbc xs) = []" "filter is_zbc (behind_zbc xs) = []"
    by (auto simp: before_zbc_def behind_zbc_def filter_empty_conv dest: set_takeWhileD)
  have e: "xs = before_zbc xs @ mid @ behind_zbc xs" using q(3) b by simp
  then have f: "filter is_zbc mid = filter is_zbc xs" using n by (metis append_Nil append_Nil2 filter_append)
  have "hd mid = hd q" using b m(1) by simp
  then have h: "hd mid = hd (filter is_zbc mid)" using q(2) m(1) by (cases mid) auto
  have l: "last mid = last (filter is_zbc mid)" using m by (cases mid rule: rev_cases) auto
  show ?thesis using that [OF e m(1) _ _ f n] h l f by simp
qed

lemma relinked_path:
  assumes "path l p (map fel_addr xs) 0" "distinct (map fel_addr xs)" "filter is_zbc xs \<noteq> []"
  shows "path (relink l (map fel_addr (filter is_zbc xs))) p
      (map fel_addr (before_zbc xs @ filter is_zbc xs @ behind_zbc xs)) 0"
    and "path (relink l (map fel_addr (filter is_zbc xs))) (fel_addr (hd (filter is_zbc xs)))
      (map fel_addr (filter is_zbc xs @ behind_zbc xs)) 0"
proof -
  obtain mid where m: "xs = before_zbc xs @ mid @ behind_zbc xs" "mid \<noteq> []" "hd mid = hd (filter is_zbc xs)"
    "last mid = last (filter is_zbc xs)" "filter is_zbc mid = filter is_zbc xs"
    "filter is_zbc (before_zbc xs) = []" "filter is_zbc (behind_zbc xs) = []"
    by (rule zbc_parts [OF assms(3)])
  let ?Z = "map fel_addr (filter is_zbc xs)" and ?R = "relink l (map fel_addr (filter is_zbc xs))"
  let ?A = "map fel_addr (before_zbc xs)" and ?C = "map fel_addr (behind_zbc xs)"
  have "path l p (?A @ map fel_addr mid @ ?C) 0" using assms(1) m(1) by (metis map_append)
  then obtain c1 c2 where c: "path l p ?A c1" "path l c1 (map fel_addr mid) c2" "path l c2 ?C 0"
    by (auto simp: path_append)
  have c12: "c1 = hd ?Z" "c2 = l (last ?Z)"
    using path_hd [OF c(2)] path_end [OF c(2)] m(2-4) assms(3) by (simp_all add: hd_map last_map)
  have d: "distinct (map fel_addr (before_zbc xs @ mid @ behind_zbc xs))" using assms(2) m(1) by metis
  have dz: "distinct ?Z" using assms(2) by (simp add: distinct_map inj_on_def)
  have "set (filter is_zbc xs) \<subseteq> set mid" using m(5) by (metis filter_is_subset)
  then have "set ?Z \<subseteq> fel_addr ` set mid" by auto
  moreover have "fel_addr ` set mid \<inter> set ?A = {}" "fel_addr ` set mid \<inter> set ?C = {}" using d by auto
  ultimately have "set ?Z \<inter> set ?A = {}" "set ?Z \<inter> set ?C = {}" by blast+
  then have "\<forall>x \<in> set ?A. l x = ?R x" "\<forall>x \<in> set ?C. l x = ?R x"
    by (auto dest!: in_set_butlastD simp: relink_other intro!: relink_other [symmetric])
  then have "path ?R p ?A c1" "path ?R c2 ?C 0" using c(1,3) path_cong by blast+
  moreover have "path ?R c1 ?Z c2" using relink_path [OF _ dz, of l] assms(3) c12 by simp
  ultimately show "path ?R p (map fel_addr (before_zbc xs @ filter is_zbc xs @ behind_zbc xs)) 0"
    "path ?R (fel_addr (hd (filter is_zbc xs))) (map fel_addr (filter is_zbc xs @ behind_zbc xs)) 0"
    using c12(1) assms(3) by (auto simp: path_append hd_map)
qed

lemma upto_last_split:
  assumes "\<exists>x \<in> set xs. P x"
  obtains rest where "xs = upto_last P xs @ rest" "upto_last P xs \<noteq> []" "last (upto_last P xs) = last (filter P xs)"
    "last (upto_last P xs) \<in> set xs"
proof -
  let ?d = "dropWhile (\<lambda>x. \<not> P x) (rev xs)"
  have d: "?d \<noteq> []" "P (hd ?d)" using assms hd_dropWhile [of "\<lambda>x. \<not> P x" "rev xs"] by (auto simp: dropWhile_eq_Nil_conv)
  let ?r = "rev (takeWhile (\<lambda>x. \<not> P x) (rev xs))"
  have e: "xs = upto_last P xs @ ?r" unfolding upto_last_def by (metis rev_append rev_rev_ident takeWhile_dropWhile_id)
  have "filter P ?r = []" by (auto simp: filter_empty_conv dest: set_takeWhileD)
  then have "filter P xs = filter P (upto_last P xs)" using e by (metis append_Nil2 filter_append)
  moreover have "last (upto_last P xs) = hd ?d" using d(1) by (simp add: upto_last_def last_rev)
  moreover have "last (filter P (upto_last P xs)) = hd ?d"
    using d by (cases ?d) (simp_all add: upto_last_def)
  moreover have "hd ?d \<in> set xs" using d(1) by (metis hd_in_set set_dropWhileD set_rev)
  ultimately show ?thesis using that [OF e] d(1) by (simp add: upto_last_def)
qed

text \<open>What the links must be for a list: its elements in order, and behind the element at \<open>a\<close> (when it
  is in the list) the payload elements from \<open>b\<close>.\<close>

definition represents :: "(u64 \<Rightarrow> u64) \<Rightarrow> u64 \<Rightarrow> u64 \<Rightarrow> u64 \<Rightarrow> fapi_el list \<Rightarrow> fapi_el list \<Rightarrow> bool" where
  "represents l p a b xs ys \<longleftrightarrow> path l p (map fel_addr ys) 0
     \<and> (\<forall>y \<in> set ys. if fel_addr y = a \<and> b \<noteq> 0
          then path l b (fel_tx y) 0 \<and> (\<exists>x \<in> set xs. y = x\<lparr>fel_tx := fel_tx y\<rparr>)
          else y \<in> set xs)"

lemma represents_attach:
  assumes "path l p (map fel_addr (us @ vs)) 0" "path l b (map fel_addr ch) 0" "distinct (map fel_addr (us @ vs))" "vs \<noteq> []"
    and "set (us @ vs) \<subseteq> set xs" "b \<noteq> 0"
  shows "represents l p (fel_addr (last vs)) b xs (us @ attach_tx vs ch)"
proof -
  obtain ws v where vs: "vs = ws @ [v]" using assms(4) by (cases vs rule: rev_cases) auto
  have "\<forall>y \<in> set us \<union> set ws. fel_addr y \<noteq> fel_addr v" using assms(3) vs by (auto simp: image_iff)
  then show ?thesis
    using assms vs by (auto simp: represents_def attach_tx_def)
qed

lemma represents_plain:
  assumes "path l p (map fel_addr ys) 0" "set ys \<subseteq> set xs" "b \<noteq> 0 \<Longrightarrow> a \<notin> fel_addr ` set ys"
  shows "represents l p a b xs ys"
  using assms by (auto simp: represents_def)

lemma path_cut_append:
  assumes "path l a (xs @ ys) b" "xs \<noteq> []" "distinct xs"
  shows "path (l(last xs := 0)) a xs 0"
  using path_cut [OF _ assms(2,3)] assms(1) by (auto simp: path_append)

lemma represents_behind:
  assumes "path l p (map fel_addr (ws @ u @ rest)) 0" "path l b (map fel_addr (zs @ u @ rest)) 0"
    and "distinct (map fel_addr (ws @ u))" "distinct (map fel_addr (zs @ u))" "u \<noteq> []" "set (ws @ u) \<subseteq> set xs" "b \<noteq> 0"
  shows "represents (l(fel_addr (last u) := 0)) p (fel_addr (last u)) b xs (ws @ attach_tx u (zs @ u))"
proof -
  have "path (l(last (map fel_addr (ws @ u)) := 0)) p (map fel_addr (ws @ u)) 0"
    using assms(1,3,5) by (intro path_cut_append [of _ _ _ "map fel_addr rest" 0]) simp_all
  moreover have "path (l(last (map fel_addr (zs @ u)) := 0)) b (map fel_addr (zs @ u)) 0"
    using assms(2,4,5) by (intro path_cut_append [of _ _ _ "map fel_addr rest" 0]) simp_all
  ultimately show ?thesis using assms(3,5-7) by (intro represents_attach) (simp_all add: last_map)
qed

lemma represents_before:
  assumes "path l p (map fel_addr (u @ rest)) 0" "path l b (map fel_addr ch) 0" "distinct (map fel_addr u)" "u \<noteq> []"
    and "fel_addr (last u) \<notin> fel_addr ` set ch" "set u \<subseteq> set xs" "b \<noteq> 0"
  shows "represents (l(fel_addr (last u) := 0)) p (fel_addr (last u)) b xs (attach_tx u ch)"
proof -
  have "path (l(last (map fel_addr u) := 0)) p (map fel_addr u) 0"
    using assms(1,3,4) by (intro path_cut_append [of _ _ _ "map fel_addr rest" 0]) simp_all
  moreover have "path (l(fel_addr (last u) := 0)) b (map fel_addr ch) 0"
    using assms(2,5) by (simp add: path_upd)
  ultimately show ?thesis using assms(3-7) represents_attach [of _ p "[]" u b ch xs] by (simp add: last_map)
qed

lemma split_cases:
  "split_tx_data xs =
     (let zs = filter is_zbc xs; us = before_zbc xs; vs = behind_zbc xs
      in if zs = [] then xs
         else if \<exists>x \<in> set vs. is_tx_data x then us @ zs @ attach_tx (upto_last is_tx_data vs) (zs @ upto_last is_tx_data vs)
         else if \<exists>x \<in> set (drop (length us) xs). is_tx_data x then us @ zs @ vs
         else if \<exists>x \<in> set us. is_tx_data x then attach_tx (upto_last is_tx_data us) (zs @ vs)
         else us @ zs @ vs)"
  by (simp add: split_tx_data_def before_zbc_def behind_zbc_def Let_def)

lemma split_represents:
  assumes "path l p (map fel_addr xs) 0" "distinct (map fel_addr xs)" "0 \<notin> fel_addr ` set xs"
    and "t = tx_attach (walked l xs)"
  shows "represents (p_next t) p (p_tx_data_elm t) (p_tx_data_pdu_list t) xs (split_tx_data xs)"
proof (cases "filter is_zbc xs = []")
  case True
  then show ?thesis using assms(1,4)
    by (auto simp: split_tx_data_def walked_def tx_attach_def addr_or_null_def Let_def intro!: represents_plain)
next
  case False
  let ?zs = "filter is_zbc xs" and ?us = "before_zbc xs" and ?vs = "behind_zbc xs" and ?ts = "filter is_tx_data xs"
  define R where "R = relink l (map fel_addr ?zs)"
  define b where "b = fel_addr (hd ?zs)"
  obtain mid where m: "xs = ?us @ mid @ ?vs" "filter is_zbc mid = ?zs" by (rule zbc_parts [OF False])
  have sub: "set ?zs \<subseteq> set mid" using m(2) by (metis filter_is_subset)
  have b: "b \<noteq> 0" using assms(3) hd_in_set [OF False] by (auto simp: b_def)
  have P: "path R p (map fel_addr (?us @ ?zs @ ?vs)) 0" "path R b (map fel_addr (?zs @ ?vs)) 0"
    unfolding R_def b_def by (rule relinked_path [OF assms(1,2) False])+
  have dx: "distinct (map fel_addr (?us @ mid @ ?vs))" using assms(2) m(1) by metis
  have dz: "distinct (map fel_addr ?zs)" using assms(2) by (simp add: distinct_map inj_on_def)
  have zm: "fel_addr ` set ?zs \<subseteq> fel_addr ` set mid" using sub by auto
  have disj: "fel_addr ` set mid \<inter> fel_addr ` (set ?us \<union> set ?vs) = {}" using dx by auto
  then have zd: "fel_addr ` set ?zs \<inter> fel_addr ` (set ?us \<union> set ?vs) = {}" using zm by blast
  then have d: "distinct (map fel_addr (?us @ ?zs @ ?vs))" using dx dz by (auto simp: image_Un Int_Un_distrib)
  have sx: "set ?us \<union> set ?zs \<union> set ?vs \<subseteq> set xs" using m(1) by (metis Un_subset_iff filter_is_subset set_append sup_ge1 sup_ge2 sup.coboundedI2)
  define T where "T = fel_addr (last ?ts)"
  have t0: "p_tx_data_pdu_list t = b"
    using assms(4) False by (simp add: tx_attach_def walked_def addr_or_null_def Let_def b_def hd_map)
  have t1: "p_next t = R(T := 0)" "p_tx_data_elm t = T" if "?ts \<noteq> []"
  proof -
    have "T \<noteq> 0" unfolding T_def using that assms(3) last_in_set [OF that] by auto
    then show "p_next t = R(T := 0)" "p_tx_data_elm t = T"
      using assms(4) False that b
      by (simp_all add: tx_attach_def walked_def addr_or_null_def Let_def b_def hd_map last_map R_def T_def)
  qed
  have ts: "?ts = filter is_tx_data ?us @ filter is_tx_data mid @ filter is_tx_data ?vs"
    using m(1) by (metis filter_append)
  have dr: "drop (length ?us) xs = mid @ ?vs" using m(1) by (metis append_eq_conv_conj)
  consider (behind) "\<exists>x \<in> set ?vs. is_tx_data x"
    | (between) "\<not> (\<exists>x \<in> set ?vs. is_tx_data x)" "\<exists>x \<in> set mid. is_tx_data x"
    | (before) "\<not> (\<exists>x \<in> set ?vs. is_tx_data x)" "\<not> (\<exists>x \<in> set mid. is_tx_data x)" "\<exists>x \<in> set ?us. is_tx_data x"
    | (none) "\<not> (\<exists>x \<in> set ?vs. is_tx_data x)" "\<not> (\<exists>x \<in> set mid. is_tx_data x)" "\<not> (\<exists>x \<in> set ?us. is_tx_data x)"
    by blast
  then show ?thesis
  proof cases
    case behind
    obtain rest where u: "?vs = upto_last is_tx_data ?vs @ rest" "upto_last is_tx_data ?vs \<noteq> []"
      "last (upto_last is_tx_data ?vs) = last (filter is_tx_data ?vs)" by (rule upto_last_split [OF behind])
    let ?u = "upto_last is_tx_data ?vs"
    have f: "filter is_tx_data ?vs \<noteq> []" using behind by (simp add: filter_empty_conv)
    then have T: "T = fel_addr (last ?u)" "?ts \<noteq> []" using ts u(3) by (simp_all add: T_def)
    have "split_tx_data xs = (?us @ ?zs) @ attach_tx ?u (?zs @ ?u)" using behind False by (simp add: split_cases Let_def)
    moreover have du: "distinct (map fel_addr ((?us @ ?zs) @ ?u @ rest))" using d u(1) by (metis append_assoc)
    have "path R p (map fel_addr ((?us @ ?zs) @ ?u @ rest)) 0" "path R b (map fel_addr (?zs @ ?u @ rest)) 0"
      using P u(1) by (metis append_assoc)+
    moreover have "set ((?us @ ?zs) @ ?u) \<subseteq> set xs" using sx u(1) by (metis Un_subset_iff set_append)
    ultimately have "represents (R(T := 0)) p T b xs (split_tx_data xs)"
      using represents_behind [of R p "?us @ ?zs" ?u rest b ?zs xs] du u(2) b T(1) by (simp add: Int_Un_distrib Int_Un_distrib2)
    then show ?thesis using t0 t1 T(2) by simp
  next
    case between
    then have "filter is_tx_data mid \<noteq> []" "filter is_tx_data ?vs = []" by (auto simp: filter_empty_conv)
    then have T: "?ts \<noteq> []" "last ?ts \<in> set mid" "is_tx_data (last ?ts)"
      using ts last_in_set [of "filter is_tx_data mid"] by auto
    have "last ?ts \<notin> set ?zs" using T(3) by (auto simp: is_tx_data_def is_zbc_def fapi_ids)
    moreover have "inj_on fel_addr (set xs)" using assms(2) by (simp add: distinct_map)
    moreover have "set ?zs \<subseteq> set xs" "last ?ts \<in> set xs" using last_in_set [OF T(1)] by auto
    ultimately have "T \<notin> fel_addr ` set ?zs" unfolding T_def by (meson inj_on_image_mem_iff)
    moreover have "T \<notin> fel_addr ` (set ?us \<union> set ?vs)" using T(2) disj by (auto simp: T_def)
    ultimately have n: "T \<notin> fel_addr ` set (?us @ ?zs @ ?vs)" by (auto simp: image_Un)
    then have "path (R(T := 0)) p (map fel_addr (?us @ ?zs @ ?vs)) 0"
      using P(1) path_upd [of T "map fel_addr (?us @ ?zs @ ?vs)"] by (metis set_map)
    moreover have "split_tx_data xs = ?us @ ?zs @ ?vs" using between False dr by (auto simp: split_cases Let_def)
    ultimately show ?thesis using t0 t1 T(1) n sx by (auto intro!: represents_plain)
  next
    case before
    obtain rest where u: "?us = upto_last is_tx_data ?us @ rest" "upto_last is_tx_data ?us \<noteq> []"
      "last (upto_last is_tx_data ?us) = last (filter is_tx_data ?us)" by (rule upto_last_split [OF before(3)])
    let ?u = "upto_last is_tx_data ?us"
    have "filter is_tx_data ?us \<noteq> []" "filter is_tx_data mid = []" "filter is_tx_data ?vs = []"
      using before by (auto simp: filter_empty_conv)
    then have T: "T = fel_addr (last ?u)" "?ts \<noteq> []" using ts u(3) by (simp_all add: T_def)
    have "path R p (map fel_addr (?u @ rest @ ?zs @ ?vs)) 0" using P(1) u(1) by (metis append_assoc)
    moreover have du: "distinct (map fel_addr ((?u @ rest) @ ?zs @ ?vs))" using d u(1) by metis
    then have "distinct (map fel_addr ?u)" by simp
    moreover have "last ?u \<in> set ?us" using u(1,2) by (metis Un_iff last_in_set set_append)
    then have "T \<notin> fel_addr ` set (?zs @ ?vs)" using d T(1) by (auto simp: image_Un)
    moreover have "set ?u \<subseteq> set xs" using sx u(1) by (metis Un_subset_iff set_append)
    moreover have "split_tx_data xs = attach_tx ?u (?zs @ ?vs)" using before False dr by (auto simp: split_cases Let_def)
    ultimately have "represents (R(T := 0)) p T b xs (split_tx_data xs)"
      using represents_before [of R p ?u "rest @ ?zs @ ?vs" b "?zs @ ?vs" xs] P(2) u(2) b T(1) by simp
    then show ?thesis using t0 t1 T(2) by simp
  next
    case none
    then have "?ts = []" using ts by (simp add: filter_empty_conv)
    moreover have "split_tx_data xs = ?us @ ?zs @ ?vs" using none False dr by (auto simp: split_cases Let_def)
    moreover have "p_next t = R" "p_tx_data_elm t = 0"
      using assms(4) \<open>?ts = []\<close> by (simp_all add: tx_attach_def walked_def addr_or_null_def Let_def R_def)
    moreover have "0 \<notin> fel_addr ` set (?us @ ?zs @ ?vs)" using assms(3) sx by (auto simp: image_iff subset_iff)
    ultimately show ?thesis using P(1) sx t0 by (auto intro!: represents_plain)
  qed
qed

section \<open>Property\<close>

text \<open>C37: the splitting on the links does what \<open>split_tx_data\<close> says: the walk ends, the links from the
  head of the list are its elements in order, and behind the last TX_DATA.request, where it is still
  in the list, hangs the chain that is recorded for it.\<close>

theorem split_links_is_split_tx_data:
  assumes "path l p (map fel_addr xs) 0" "distinct (map fel_addr xs)" "0 \<notin> fel_addr ` set xs"
    and "\<forall>x \<in> set xs. h (fel_addr x) = x" "length xs \<le> n"
  shows "\<exists>t. split_links n h p l = Some t
    \<and> represents (p_next t) p (p_tx_data_elm t) (p_tx_data_pdu_list t) xs (split_tx_data xs)"
proof -
  have "walked l [] = \<lparr>p_next = l, p_tx_data_elm = 0, p_tx_data_pdu_list = 0, p_tx_data_pdu_list_tail = 0\<rparr>"
    by (simp add: walked_def addr_or_null_def Let_def)
  then have "split_links n h p l = Some (tx_attach (walked l xs))"
    using walk_walked [of l p xs "[]" h n] assms by (simp add: split_links_def)
  then show ?thesis using split_represents [OF assms(1-3) refl] by simp
qed

definition demo_split :: "fapi_el list" where
  "demo_split = map (\<lambda>(p, t). (demo_mac_el t (Msg_header 0 0))\<lparr>fel_addr := p\<rparr>)
     [(0x10, 0x80), (0x20, 0x1B), (0x30, 0x84), (0x40, 0x1B), (0x50, 0x84), (0x60, 0x81)]"

theorem split_links_is_split_tx_data_witness:
  "\<exists>t. split_links 6 (\<lambda>p. demo_split ! (unat p div 16 - 1)) 0x10 (\<lambda>p. if p = 0x60 then 0 else p + 0x10) = Some t
     \<and> path (p_next t) 0x10 [0x10, 0x20, 0x40, 0x50] 0
     \<and> map fel_tx (split_tx_data demo_split) = [[], [], [], [0x20, 0x40, 0x50]]"
proof -
  have "\<exists>t. split_links 6 (\<lambda>p. demo_split ! (unat p div 16 - 1)) 0x10 (\<lambda>p. if p = 0x60 then 0 else p + 0x10) = Some t
    \<and> represents (p_next t) 0x10 (p_tx_data_elm t) (p_tx_data_pdu_list t) demo_split (split_tx_data demo_split)"
    by (rule split_links_is_split_tx_data) (simp_all add: demo_split_def demo_mac_el_def)
  moreover have "map fel_addr (split_tx_data demo_split) = [0x10, 0x20, 0x40, 0x50]"
    "map fel_tx (split_tx_data demo_split) = [[], [], [], [0x20, 0x40, 0x50]]"
    by (simp_all add: split_tx_data_def demo_split_def demo_mac_el_def is_zbc_def is_tx_data_def el_type_def fapi_ids
        attach_tx_def upto_last_def Let_def)
  ultimately show ?thesis by (auto simp: represents_def)
qed

end
