(* ===== verification/Fapi_Slots.thy ===== *)
theory Fapi_Slots
  imports Fapi_P7_States
begin

text \<open>
  The records of the uplink slots between a UL_TTI.request and the indications that answer it.  A
  record is found by its frame, slot and symbol, since every record is kept at its place in the
  table; for the UEs of a slot it is a map from the 16-bit id, which the PHY knows, to the handle, the
  HARQ process and what CRC.indication reported.
\<close>

section \<open>The table\<close>

definition wf_record :: "nr5g_fapi_ul_slot_info \<Rightarrow> bool" where
  "wf_record r \<longleftrightarrow> length (srs_handles r) = FAPI_MAX_NUMBER_SRS_PDUS_PER_SLOT
     \<and> length (pucch_infos r) = FAPI_MAX_NUMBER_UCI_PDUS_PER_SLOT
     \<and> length (pusch_infos r) = FAPI_MAX_NUMBER_OF_ULSCH_PDUS_PER_SLOT
     \<and> unat (num_srs r) \<le> length (srs_handles r) \<and> unat (num_ulcch r) \<le> length (pucch_infos r)
     \<and> unat (num_ulsch r) \<le> length (pusch_infos r)"

definition slot_place :: "u8 \<Rightarrow> u8 \<Rightarrow> nat \<times> nat" where
  "slot_place slot symb = (unat slot mod MAX_UL_SLOT_INFO_COUNT, unat symb mod MAX_UL_SYMBOL_INFO_COUNT)"

definition at_place :: "nat \<times> nat \<Rightarrow> nr5g_fapi_ul_slot_info \<Rightarrow> bool" where
  "at_place ij r \<longleftrightarrow> slot_place (slot_no r) (symbol_no r) = ij \<or> (cookie r = 0 \<and> slot_no r = 0 \<and> symbol_no r = 0)"

definition has_tables :: "nr5g_fapi_phy_instance \<Rightarrow> bool" where
  "has_tables p \<longleftrightarrow> length (ul_slot_info p) = FAPI_MAX_SLOT_INFO_URLLC \<and>
     (\<forall>t\<in>set (ul_slot_info p). length t = MAX_UL_SLOT_INFO_COUNT \<and> (\<forall>r\<in>set t. length r = MAX_UL_SYMBOL_INFO_COUNT))"

definition in_table :: "nat \<times> nat \<Rightarrow> bool" where
  "in_table ij \<longleftrightarrow> fst ij < MAX_UL_SLOT_INFO_COUNT \<and> snd ij < MAX_UL_SYMBOL_INFO_COUNT"

definition wf_slots :: "nr5g_fapi_phy_instance \<Rightarrow> bool" where
  "wf_slots p \<longleftrightarrow> has_tables p \<and> (\<forall>u ij. in_table ij \<longrightarrow> wf_record (get_slot u ij p) \<and> at_place ij (get_slot u ij p))"

lemma in_table_place [simp]: "in_table (slot_place slot symb)"
  by (simp add: in_table_def slot_place_def MAX_UL_SLOT_INFO_COUNT_def MAX_UL_SYMBOL_INFO_COUNT_def)

lemma ul_table_less [simp]: "ul_table u < FAPI_MAX_SLOT_INFO_URLLC"
  by (simp add: ul_table_def FAPI_MAX_SLOT_INFO_URLLC_def)

lemma ul_table_inj [simp]: "ul_table u = ul_table v \<longleftrightarrow> u = v"
  by (simp add: ul_table_def)

lemma has_tables_lengths:
  assumes "has_tables p" "in_table ij"
  shows "ul_table u < length (ul_slot_info p)" "fst ij < length (ul_slot_info p ! ul_table u)"
    "snd ij < length (ul_slot_info p ! ul_table u ! fst ij)" "length (ul_slot_info p ! ul_table u) = MAX_UL_SLOT_INFO_COUNT"
    "length (ul_slot_info p ! ul_table u ! fst ij) = MAX_UL_SYMBOL_INFO_COUNT"
proof -
  have t: "ul_slot_info p ! ul_table u \<in> set (ul_slot_info p)" using assms(1) by (simp add: has_tables_def)
  then have r: "ul_slot_info p ! ul_table u ! fst ij \<in> set (ul_slot_info p ! ul_table u)"
    using assms by (auto simp: has_tables_def in_table_def)
  have l: "length (ul_slot_info p ! ul_table u) = MAX_UL_SLOT_INFO_COUNT"
    "\<forall>r\<in>set (ul_slot_info p ! ul_table u). length r = MAX_UL_SYMBOL_INFO_COUNT"
    using assms(1) t unfolding has_tables_def by blast+
  show "ul_table u < length (ul_slot_info p)" "fst ij < length (ul_slot_info p ! ul_table u)"
    "snd ij < length (ul_slot_info p ! ul_table u ! fst ij)" "length (ul_slot_info p ! ul_table u) = MAX_UL_SLOT_INFO_COUNT"
    "length (ul_slot_info p ! ul_table u ! fst ij) = MAX_UL_SYMBOL_INFO_COUNT"
    using assms l(1) bspec [OF l(2) r] by (simp_all add: has_tables_def in_table_def)
qed

lemma get_upd_slot:
  assumes "has_tables p" "in_table ij" "in_table kl"
  shows "get_slot v kl (upd_slot u ij f p) = (if v = u \<and> kl = ij then f (get_slot u ij p) else get_slot v kl p)"
  using has_tables_lengths [OF assms(1,2), of u] has_tables_lengths [OF assms(1,3), of v]
  by (auto simp: get_slot_def upd_slot_def nth_list_update prod_eq_iff)

lemma has_tables_upd [simp]: "has_tables p \<Longrightarrow> in_table ij \<Longrightarrow> has_tables (upd_slot u ij f p)"
  using has_tables_lengths [of p ij u]
  by (auto simp: has_tables_def upd_slot_def dest!: set_update_subset_insert [THEN subsetD])

lemma upd_slot_upd:
  "has_tables p \<Longrightarrow> in_table ij \<Longrightarrow> upd_slot u ij f (upd_slot u ij g p) = upd_slot u ij (f \<circ> g) p"
  using has_tables_lengths [of p ij u] by (simp add: upd_slot_def get_slot_def)

lemma upd_slot_cong: "f (get_slot u ij p) = g (get_slot u ij p) \<Longrightarrow> upd_slot u ij f p = upd_slot u ij g p"
  by (simp add: upd_slot_def)

lemma get_slot_cong: "ul_slot_info p = ul_slot_info q \<Longrightarrow> get_slot u ij p = get_slot u ij q"
  by (simp add: get_slot_def)

lemma has_tables_cong: "ul_slot_info p = ul_slot_info q \<Longrightarrow> has_tables p = has_tables q"
  by (simp add: has_tables_def)

lemma slots_count [simp]:
  "ul_slot_info (count_fapi_p7 k p) = ul_slot_info p" "ul_slot_info (count_iapi_p7 k p) = ul_slot_info p"
  "inst_config (count_fapi_p7 k p) = inst_config p" "inst_config (count_iapi_p7 k p) = inst_config p"
  "get_slot u ij (count_fapi_p7 k p) = get_slot u ij p" "get_slot u ij (count_iapi_p7 k p) = get_slot u ij p"
  "has_tables (count_fapi_p7 k p) = has_tables p" "has_tables (count_iapi_p7 k p) = has_tables p"
  by (simp_all add: count_fapi_p7_def count_iapi_p7_def get_slot_def has_tables_def)

lemma wf_slots_update:
  assumes "wf_slots p" "in_table ij" "wf_record r" "at_place ij r" "ul_slot_info q = ul_slot_info (upd_slot u ij (\<lambda>_. r) p)"
  shows "wf_slots q"
proof -
  have t: "has_tables p" using assms(1) by (simp add: wf_slots_def)
  have "get_slot v kl q = (if v = u \<and> kl = ij then r else get_slot v kl p)" if "in_table kl" for v kl
    using get_upd_slot [OF t assms(2) that, of v u "\<lambda>_. r"] get_slot_cong [OF assms(5)] by simp
  then show ?thesis using assms t has_tables_cong [OF assms(5)] unfolding wf_slots_def by auto
qed

text \<open>A record is found at its place.\<close>

lemma ucast_byte_id [simp]: "ucast (ucast (x :: u8) :: u16) = x"
  by (rule ucast_up_ucast_id) (simp add: is_up)

lemma ucast_id_id [simp]: "ucast (ucast (x :: u16) :: u32) = x"
  by (rule ucast_up_ucast_id) (simp add: is_up)

lemma find_product:
  assumes "\<And>i j. i < m \<Longrightarrow> j < n \<Longrightarrow> P (i, j) \<Longrightarrow> (i, j) = k" "fst k < m" "snd k < n" "P k"
  shows "List.find P (List.product [0..<m] [0..<n]) = Some k"
proof -
  have k: "k \<in> set (List.product [0..<m] [0..<n])" using assms(2,3) by (cases k) auto
  have f: "List.find P (List.product [0..<m] [0..<n]) \<noteq> None" using k assms(4) unfolding find_None_iff by blast
  then obtain x where x: "List.find P (List.product [0..<m] [0..<n]) = Some x" by blast
  then have "x \<in> set (List.product [0..<m] [0..<n])" and P: "P x" unfolding find_Some_iff using nth_mem by blast+
  then have "fst x < m" "snd x < n" unfolding set_product by auto
  then have "x = k" using assms(1) [of "fst x" "snd x"] P by simp
  then show ?thesis using x by simp
qed

lemma record_is_found:
  assumes "wf_slots p" "cookie r = frame" "slot_no r = slot" "symbol_no r = symb" "r = get_slot u (slot_place slot symb) p"
  shows "nr5g_fapi_get_ul_slot_info u frame (ucast slot) symb p = Some (slot_place slot symb)"
proof -
  let ?P = "\<lambda>(i, j). slot_info_matches frame (ucast slot) symb (ul_slot_info p ! (if u then 1 else 0) ! i ! j)"
  let ?k = "slot_place slot symb"
  have g: "ul_slot_info p ! (if u then 1 else 0) ! i ! j = get_slot u (i, j) p" for i j
    by (simp add: get_slot_def ul_table_def)
  have m: "?P ij \<longleftrightarrow> cookie (get_slot u ij p) = frame \<and> slot_no (get_slot u ij p) = slot \<and> symbol_no (get_slot u ij p) = symb" for ij
  proof -
    have "(ucast slot :: u16) = ucast x \<longleftrightarrow> x = slot" for x :: u8
      by (metis ucast_byte_id)
    then show ?thesis by (cases ij) (auto simp: slot_info_matches_def g)
  qed
  have k: "in_table ?k" by simp
  have place: "slot_place slot symb = ij \<or> (frame = 0 \<and> slot = 0 \<and> symb = 0)" if "?P ij" "in_table ij" for ij
  proof -
    have "at_place ij (get_slot u ij p)" using assms(1) that(2) unfolding wf_slots_def by blast
    then show ?thesis using that(1) unfolding m by (auto simp: at_place_def)
  qed
  show ?thesis
  proof (cases "frame = 0 \<and> slot = 0 \<and> symb = 0")
    case True
    then have "?k = (0, 0)" by (simp add: slot_place_def)
    then show ?thesis using m [of ?k] assms(2-5) unfolding nr5g_fapi_get_ul_slot_info_def Let_def
      by (simp add: MAX_UL_SLOT_INFO_COUNT_def MAX_UL_SYMBOL_INFO_COUNT_def upt_rec)
  next
    case False
    have "List.find ?P (List.product [0..<MAX_UL_SLOT_INFO_COUNT] [0..<MAX_UL_SYMBOL_INFO_COUNT]) = Some ?k"
    proof (rule find_product)
      fix i j assume "i < MAX_UL_SLOT_INFO_COUNT" "j < MAX_UL_SYMBOL_INFO_COUNT" "?P (i, j)"
      then show "(i, j) = ?k" using place [of "(i, j)"] False by (auto simp: in_table_def)
    qed (use k m [of ?k] assms(2-5) in \<open>simp_all add: in_table_def\<close>)
    then show ?thesis unfolding nr5g_fapi_get_ul_slot_info_def Let_def .
  qed
qed

section \<open>What a request registers\<close>

text \<open>A member of a structure that holds \<open>n\<close> bits.\<close>

definition holds_bits :: "nat \<Rightarrow> string \<Rightarrow> layout \<Rightarrow> bool" where
  "holds_bits n f L \<longleftrightarrow> (\<forall>v. 0 \<le> v \<and> v < 2 ^ n \<longrightarrow> lconv L f v = v)"

lemma holds_bits_word: "holds_bits LENGTH('a) f L \<Longrightarrow> lconv L f (uint (w :: 'a::len word)) = uint w"
  using uint_bounded [of w] by (simp add: holds_bits_def)

definition zero_pusch_info :: pusch_info where
  "zero_pusch_info = \<lparr>pusch_handle = 0, harq_process_id = 0, ul_cqi = 0, timing_advance = 0\<rparr>"

definition requested_info :: "fapi_ul_pusch_pdu \<Rightarrow> pusch_info" where
  "requested_info x = \<lparr>pusch_handle = ucast (ucast (pu_handle x) :: u16),
     harq_process_id = (if bit (pu_pduBitMap x) 0 then pd_harqProcessId (pu_puschData x) else 0), ul_cqi = 0, timing_advance = 0\<rparr>"

lemma pusch_registers:
  assumes "nr5g_fapi_pusch_to_phy_ulsch_translation a x zero_pusch_info p = Done (s, info, q)"
    "holds_bits 16 ''nUEId'' (ulsch_l a)" "holds_bits 8 ''nHARQID'' (ulsch_l a)"
  shows "info = requested_info x \<and> ul_slot_info q = ul_slot_info p"
proof -
  have u: "lconv (ulsch_l a) ''nUEId'' (uint (w :: u16)) = uint w" for w using holds_bits_word [of "''nUEId''" "ulsch_l a" w] assms(2) by simp
  have h: "lconv (ulsch_l a) ''nHARQID'' (uint (w :: u8)) = uint w" for w using holds_bits_word [of "''nHARQID''" "ulsch_l a" w] assms(3) by simp
  obtain s0 where q: "q = count_iapi_p7 Ul_pusch_pdus_cnt (count_fapi_p7 Ul_pusch_pdus_cnt p)"
    "info = fst (if bit (pu_pduBitMap x) 0
       then nr5g_fapi_pusch_data_to_phy_ulsch_translation a (pu_puschData x)
         (zero_pusch_info\<lparr>pusch_handle := word_of_int (put_fields (ulsch_l a)
            [(''nRNTI'', uint (pu_rnti x)), (''nUEId'', uint (ucast (pu_handle x) :: u16))] zero_struct ''nUEId'' 0)\<rparr>, s0)
       else (zero_pusch_info\<lparr>pusch_handle := word_of_int (put_fields (ulsch_l a)
            [(''nRNTI'', uint (pu_rnti x)), (''nUEId'', uint (ucast (pu_handle x) :: u16))] zero_struct ''nUEId'' 0)\<rparr>, s0))"
    using assms(1) unfolding nr5g_fapi_pusch_to_phy_ulsch_translation_def Let_def obind_Done_iff case_prod_beta
    by (elim exE conjE) (simp only: outcome.inject prod.inject, metis)
  show ?thesis unfolding q
    by (simp add: requested_info_def zero_pusch_info_def nr5g_fapi_pusch_data_to_phy_ulsch_translation_def Let_def
      field_u8_def put_fields_read u h)
qed

definition requested_uci :: "fapi_ul_pucch_pdu \<Rightarrow> u32 \<times> u8" where
  "requested_uci x = (ucast (ucast (pc_handle x) :: u16), pc_formatType x)"

definition requested_srs :: "fapi_ul_srs_pdu \<Rightarrow> u32" where
  "requested_srs x = ucast (ucast (sr_handle x) :: u16)"

lemma pucch_registers:
  assumes "nr5g_fapi_pucch_to_phy_ulcch_uci_translation a x p = (s, info, q)"
    "holds_bits 16 ''nUEId'' (ulcch_l a)" "holds_bits 8 ''nFormat'' (ulcch_l a)"
  shows "info = requested_uci x \<and> ul_slot_info q = ul_slot_info p"
proof -
  have u: "lconv (ulcch_l a) ''nUEId'' (uint (w :: u16)) = uint w" for w using holds_bits_word [of "''nUEId''" "ulcch_l a" w] assms(2) by simp
  have h: "lconv (ulcch_l a) ''nFormat'' (uint (w :: u8)) = uint w" for w using holds_bits_word [of "''nFormat''" "ulcch_l a" w] assms(3) by simp
  show ?thesis using assms(1) unfolding nr5g_fapi_pucch_to_phy_ulcch_uci_translation_def Let_def
    by (simp add: put_fields_read field_u8_def u h requested_uci_def del: put_fields.simps) auto
qed

lemma srs_registers:
  assumes "nr5g_fapi_srs_to_phy_srs_translation a x p = (s, hnd, q)" "holds_bits 16 ''nUEId'' (srs_l a)"
  shows "hnd = requested_srs x \<and> ul_slot_info q = ul_slot_info p"
proof -
  have u: "lconv (srs_l a) ''nUEId'' (uint (w :: u16)) = uint w" for w using holds_bits_word [of "''nUEId''" "srs_l a" w] assms(2) by simp
  show ?thesis using assms(1) unfolding nr5g_fapi_srs_to_phy_srs_translation_def Let_def
    by (simp add: put_fields_read u requested_srs_def del: put_fields.simps) auto
qed

text \<open>The UEs of a record, in the order of their PDUs.\<close>

definition pusch_list :: "nr5g_fapi_ul_slot_info \<Rightarrow> pusch_info list" where
  "pusch_list r = take (unat (num_ulsch r)) (pusch_infos r)"

definition pucch_list :: "nr5g_fapi_ul_slot_info \<Rightarrow> (u32 \<times> u8) list" where
  "pucch_list r = take (unat (num_ulcch r)) (pucch_infos r)"

definition srs_list :: "nr5g_fapi_ul_slot_info \<Rightarrow> u32 list" where
  "srs_list r = take (unat (num_srs r)) (srs_handles r)"

fun puschs :: "fapi_ul_tti_req_pdu list \<Rightarrow> fapi_ul_pusch_pdu list" where
  "puschs [] = []"
| "puschs (Pusch_pdu x # xs) = x # puschs xs"
| "puschs (y # xs) = puschs xs"

fun pucchs :: "fapi_ul_tti_req_pdu list \<Rightarrow> fapi_ul_pucch_pdu list" where
  "pucchs [] = []"
| "pucchs (Pucch_pdu x # xs) = x # pucchs xs"
| "pucchs (y # xs) = pucchs xs"

fun srss :: "fapi_ul_tti_req_pdu list \<Rightarrow> fapi_ul_srs_pdu list" where
  "srss [] = []"
| "srss (Srs_req_pdu x # xs) = x # srss xs"
| "srss (y # xs) = srss xs"

text \<open>A record on its way: the entries behind the counted ones are clear, and it keeps its key.\<close>

definition same_key :: "nr5g_fapi_ul_slot_info \<Rightarrow> nr5g_fapi_ul_slot_info \<Rightarrow> bool" where
  "same_key r q \<longleftrightarrow> cookie q = cookie r \<and> slot_no q = slot_no r \<and> symbol_no q = symbol_no r
     \<and> rach_presence q = rach_presence r \<and> rach_phy_cell_id q = rach_phy_cell_id r"

definition clear_behind :: "nr5g_fapi_ul_slot_info \<Rightarrow> bool" where
  "clear_behind r \<longleftrightarrow> (\<forall>k. unat (num_ulsch r) \<le> k \<and> k < length (pusch_infos r) \<longrightarrow> pusch_infos r ! k = zero_pusch_info)"

definition registered :: "nr5g_fapi_ul_slot_info \<Rightarrow> fapi_ul_tti_req_pdu list \<Rightarrow> nr5g_fapi_ul_slot_info \<Rightarrow> bool" where
  "registered r xs q \<longleftrightarrow> wf_record q \<and> clear_behind q \<and> same_key r q
     \<and> pusch_list q = pusch_list r @ map requested_info (puschs xs)
     \<and> pucch_list q = pucch_list r @ map requested_uci (pucchs xs)
     \<and> srs_list q = srs_list r @ map requested_srs (srss xs)"

lemma unat_Suc_small: "unat (x :: u8) < 255 \<Longrightarrow> unat (x + 1) = Suc (unat x)"
  by (simp add: unat_plus_simple [THEN iffD1] word_less_nat_alt unat_word_ariths)

lemma take_update: "k < length xs \<Longrightarrow> take (Suc k) (xs[k := y]) = take k xs @ [y]"
  by (simp add: take_Suc_conv_app_nth)

lemma register_pusch:
  assumes "wf_record r" "clear_behind r" "unat (num_ulsch r) < length (pusch_infos r)"
  shows "registered r [Pusch_pdu x]
    (r\<lparr>pusch_infos := (pusch_infos r)[unat (num_ulsch r) := requested_info x], num_ulsch := num_ulsch r + 1\<rparr>)"
proof -
  have n: "unat (num_ulsch r + 1) = Suc (unat (num_ulsch r))"
    using assms by (intro unat_Suc_small) (simp add: wf_record_def FAPI_MAX_NUMBER_OF_ULSCH_PDUS_PER_SLOT_def)
  show ?thesis using assms
    by (auto simp: registered_def wf_record_def clear_behind_def same_key_def pusch_list_def pucch_list_def srs_list_def n take_update)
qed

lemma register_pucch:
  assumes "wf_record r" "clear_behind r" "unat (num_ulcch r) < length (pucch_infos r)"
  shows "registered r [Pucch_pdu x]
    (r\<lparr>pucch_infos := (pucch_infos r)[unat (num_ulcch r) := requested_uci x], num_ulcch := num_ulcch r + 1\<rparr>)"
proof -
  have n: "unat (num_ulcch r + 1) = Suc (unat (num_ulcch r))"
    using assms by (intro unat_Suc_small) (simp add: wf_record_def FAPI_MAX_NUMBER_UCI_PDUS_PER_SLOT_def)
  show ?thesis using assms
    by (auto simp: registered_def wf_record_def clear_behind_def same_key_def pusch_list_def pucch_list_def srs_list_def n take_update)
qed

lemma register_srs:
  assumes "wf_record r" "clear_behind r" "unat (num_srs r) < length (srs_handles r)"
  shows "registered r [Srs_req_pdu x]
    (r\<lparr>srs_handles := (srs_handles r)[unat (num_srs r) := requested_srs x], num_srs := num_srs r + 1\<rparr>)"
proof -
  have n: "unat (num_srs r + 1) = Suc (unat (num_srs r))"
    using assms by (intro unat_Suc_small) (simp add: wf_record_def FAPI_MAX_NUMBER_SRS_PDUS_PER_SLOT_def)
  show ?thesis using assms
    by (auto simp: registered_def wf_record_def clear_behind_def same_key_def pusch_list_def pucch_list_def srs_list_def n take_update)
qed

lemma puschs_append: "puschs (xs @ ys) = puschs xs @ puschs ys" by (induction xs rule: puschs.induct) auto
lemma pucchs_append: "pucchs (xs @ ys) = pucchs xs @ pucchs ys" by (induction xs rule: pucchs.induct) auto
lemma srss_append: "srss (xs @ ys) = srss xs @ srss ys" by (induction xs rule: srss.induct) auto

lemma registered_trans: "registered r xs q \<Longrightarrow> registered q ys t \<Longrightarrow> registered r (xs @ ys) t"
  by (simp add: registered_def same_key_def puschs_append pucchs_append srss_append)

lemma registered_refl: "wf_record r \<Longrightarrow> clear_behind r \<Longrightarrow> registered r [] r"
  by (simp add: registered_def same_key_def)

text \<open>The loop over the PDUs writes one record.\<close>

definition slot_layouts :: "p7_api \<Rightarrow> bool" where
  "slot_layouts a \<longleftrightarrow> holds_bits 16 ''nUEId'' (ulsch_l a) \<and> holds_bits 8 ''nHARQID'' (ulsch_l a) \<and> holds_bits 16 ''nUEId'' (ulcch_l a)
     \<and> holds_bits 8 ''nFormat'' (ulcch_l a) \<and> holds_bits 16 ''nUEId'' (srs_l a) \<and> holds_bits 8 ''nPDU'' (ulcfg_l a)"

definition registers :: "bool \<Rightarrow> nat \<times> nat \<Rightarrow> fapi_ul_tti_req_pdu list \<Rightarrow> nr5g_fapi_phy_instance \<Rightarrow> nr5g_fapi_phy_instance \<Rightarrow> bool" where
  "registers u ij xs p q \<longleftrightarrow> (\<exists>r. ul_slot_info q = ul_slot_info (upd_slot u ij (\<lambda>_. r) p) \<and> registered (get_slot u ij p) xs r)"

lemma upd_slot_tables:
  "ul_slot_info p = ul_slot_info q \<Longrightarrow> f (get_slot u ij q) = g (get_slot u ij q) \<Longrightarrow>
     ul_slot_info (upd_slot u ij f p) = ul_slot_info (upd_slot u ij g q)"
  by (simp add: upd_slot_def get_slot_def)

lemma upd_slot_id: "has_tables p \<Longrightarrow> in_table ij \<Longrightarrow> ul_slot_info (upd_slot u ij (\<lambda>_. get_slot u ij p) p) = ul_slot_info p"
  by (simp add: upd_slot_def get_slot_def)

lemma registers_refl:
  "has_tables p \<Longrightarrow> in_table ij \<Longrightarrow> wf_record (get_slot u ij p) \<Longrightarrow> clear_behind (get_slot u ij p) \<Longrightarrow>
     ul_slot_info q = ul_slot_info p \<Longrightarrow> registers u ij [] p q"
  unfolding registers_def using registered_refl upd_slot_id by metis

lemma registers_at:
  assumes "registers u ij xs p q" "has_tables p" "in_table ij"
  shows "has_tables q" "registered (get_slot u ij p) xs (get_slot u ij q)"
    "ul_slot_info q = ul_slot_info (upd_slot u ij (\<lambda>_. get_slot u ij q) p)"
proof -
  obtain r where r: "ul_slot_info q = ul_slot_info (upd_slot u ij (\<lambda>_. r) p)" "registered (get_slot u ij p) xs r"
    using assms(1) unfolding registers_def by blast
  have "get_slot u ij q = r" using get_slot_cong [OF r(1)] get_upd_slot [OF assms(2,3,3)] by simp
  then show "has_tables q" "registered (get_slot u ij p) xs (get_slot u ij q)"
    "ul_slot_info q = ul_slot_info (upd_slot u ij (\<lambda>_. get_slot u ij q) p)"
    using r has_tables_cong [OF r(1)] has_tables_upd [OF assms(2,3)] by auto
qed

lemma registers_trans:
  assumes "registers u ij xs p q" "registers u ij ys q t" "has_tables p" "in_table ij"
  shows "registers u ij (xs @ ys) p t"
proof -
  note q = registers_at [OF assms(1,3,4)] and t = registers_at [OF assms(2) registers_at(1) [OF assms(1,3,4)] assms(4)]
  have "ul_slot_info t = ul_slot_info (upd_slot u ij (\<lambda>_. get_slot u ij t) (upd_slot u ij (\<lambda>_. get_slot u ij q) p))"
    unfolding t(3) by (rule upd_slot_tables [OF q(3)]) simp
  then have "ul_slot_info t = ul_slot_info (upd_slot u ij (\<lambda>_. get_slot u ij t) p)"
    by (simp add: upd_slot_upd [OF assms(3,4)] comp_def)
  then show ?thesis using registered_trans [OF q(2) t(2)] unfolding registers_def by blast
qed

lemma registers_step:
  assumes "ul_slot_info q = ul_slot_info (upd_slot u ij (\<lambda>r. f r) t)" "ul_slot_info t = ul_slot_info p"
    "registered (get_slot u ij p) xs (f (get_slot u ij p))"
  shows "registers u ij xs p q"
  using assms(1,3) upd_slot_tables [OF assms(2), of f u ij "\<lambda>_. f (get_slot u ij p)"] unfolding registers_def by auto

lemma ul_pusch_registers:
  assumes "ul_pusch a u ij x c p = Done (c', q)" "slot_layouts a" "wf_record (get_slot u ij p)" "clear_behind (get_slot u ij p)"
  shows "registers u ij [Pusch_pdu x] p q"
proof -
  let ?r = "get_slot u ij p" and ?k = "unat (num_ulsch (get_slot u ij p))"
  obtain s info t where k: "?k < length (pusch_infos ?r)"
    and t: "nr5g_fapi_pusch_to_phy_ulsch_translation a x (pusch_infos ?r ! ?k) p = Done (s, info, t)"
    and q: "q = upd_slot u ij (\<lambda>r. r\<lparr>pusch_infos := (pusch_infos r)[?k := info], num_ulsch := num_ulsch r + 1\<rparr>) t"
    using assms(1) by (auto simp: ul_pusch_def Let_def obind_Done_iff split: if_split_asm)
  have z: "pusch_infos ?r ! ?k = zero_pusch_info" using assms(4) k by (simp add: clear_behind_def)
  have i: "info = requested_info x" "ul_slot_info t = ul_slot_info p"
    using pusch_registers [OF t [unfolded z]] assms(2) by (simp_all add: slot_layouts_def)
  show ?thesis by (rule registers_step [OF _ i(2)]) (auto simp: q i(1) intro!: register_pusch assms(3,4) k)
qed

lemma ul_pucch_registers:
  assumes "ul_pucch a u ij x c p = Done (c', q)" "slot_layouts a" "wf_record (get_slot u ij p)" "clear_behind (get_slot u ij p)"
  shows "registers u ij [Pucch_pdu x] p q"
proof -
  let ?r = "get_slot u ij p" and ?k = "unat (num_ulcch (get_slot u ij p))"
  obtain s info t where k: "?k < length (pucch_infos ?r)"
    and t: "nr5g_fapi_pucch_to_phy_ulcch_uci_translation a x p = (s, info, t)"
    and q: "q = upd_slot u ij (\<lambda>r. r\<lparr>pucch_infos := (pucch_infos r)[?k := info], num_ulcch := num_ulcch r + 1\<rparr>) t"
    using assms(1) by (auto simp: ul_pucch_def Let_def obind_Done_iff split: if_split_asm prod.splits)
  have i: "info = requested_uci x" "ul_slot_info t = ul_slot_info p"
    using pucch_registers [OF t] assms(2) by (simp_all add: slot_layouts_def)
  show ?thesis by (rule registers_step [OF _ i(2)]) (auto simp: q i(1) intro!: register_pucch assms(3,4) k)
qed

lemma ul_srs_registers:
  assumes "ul_srs a u ij x c p = Done (c', q)" "slot_layouts a" "wf_record (get_slot u ij p)" "clear_behind (get_slot u ij p)"
  shows "registers u ij [Srs_req_pdu x] p q"
proof -
  let ?r = "get_slot u ij p" and ?k = "unat (num_srs (get_slot u ij p))"
  obtain s hnd t where k: "?k < length (srs_handles ?r)"
    and t: "nr5g_fapi_srs_to_phy_srs_translation a x p = (s, hnd, t)"
    and q: "q = upd_slot u ij (\<lambda>r. r\<lparr>srs_handles := (srs_handles r)[?k := hnd], num_srs := num_srs r + 1\<rparr>) t"
    using assms(1) by (auto simp: ul_srs_def Let_def obind_Done_iff split: if_split_asm prod.splits)
  have i: "hnd = requested_srs x" "ul_slot_info t = ul_slot_info p"
    using srs_registers [OF t] assms(2) by (simp_all add: slot_layouts_def)
  show ?thesis by (rule registers_step [OF _ i(2)]) (auto simp: q i(1) intro!: register_srs assms(3,4) k)
qed

lemma registered_wf: "registered r xs q \<Longrightarrow> wf_record q \<and> clear_behind q"
  by (simp add: registered_def)

lemma registers_count:
  "registers u ij xs (count_fapi_p7 k p) q \<longleftrightarrow> registers u ij xs p q" "registers u ij xs p (count_iapi_p7 k q) \<longleftrightarrow> registers u ij xs p q"
  using upd_slot_tables [of "count_fapi_p7 k p" p] unfolding registers_def by auto

lemma registers_prach: "registers u ij [] p q \<Longrightarrow> registers u ij [Prach_pdu] p q"
  by (auto simp: registers_def registered_def)

lemma ul_pdu_loop_registers:
  assumes "ul_pdu_loop a u ij pdus is c p = Done (ok, c', q)" "slot_layouts a" "has_tables p" "in_table ij"
    "wf_record (get_slot u ij p)" "clear_behind (get_slot u ij p)"
  shows "\<exists>xs. registers u ij xs p q \<and> (ok \<longrightarrow> xs = map ((!) pdus) is)"
  using assms
proof (induction "is" arbitrary: c p)
  case Nil
  then show ?case using registers_refl [of p ij u q] by auto
next
  case (Cons i "is")
  let ?p = "count_fapi_p7 Ul_pdus_cnt p"
  have i: "i < length pdus" using Cons.prems(1) by (auto simp: Let_def split: if_split_asm)
  have step: ?case if l: "ul_pdu_loop a u ij pdus is c2 (count_iapi_p7 Ul_pdus_cnt t) = Done (ok, c', q)"
    and t: "registers u ij [pdus ! i] ?p t" for c2 t
  proof -
    have r: "registers u ij [pdus ! i] p (count_iapi_p7 Ul_pdus_cnt t)" using t by (simp add: registers_count)
    note at = registers_at [OF r Cons.prems(3,4)]
    obtain xs where "registers u ij xs (count_iapi_p7 Ul_pdus_cnt t) q" "ok \<longrightarrow> xs = map ((!) pdus) is"
      using Cons.IH [OF l Cons.prems(2) at(1) Cons.prems(4)] registered_wf [OF at(2)] by blast
    then show ?thesis using registers_trans [OF r _ Cons.prems(3,4), of xs q] by auto
  qed
  show ?case
  proof (cases "pdus ! i")
    case Prach_pdu
    have "registers u ij [] ?p (count_fapi_p7 Ul_prach_pdus_cnt ?p)"
      by (rule registers_refl) (use Cons.prems in simp_all)
    then have "registers u ij [pdus ! i] ?p (count_fapi_p7 Ul_prach_pdus_cnt ?p)" unfolding Prach_pdu by (rule registers_prach)
    moreover have "ul_pdu_loop a u ij pdus is (put_ul_field a ''nPDU'' (uc_fields c ''nPDU'' 0 - 1) c)
        (count_iapi_p7 Ul_pdus_cnt (count_fapi_p7 Ul_prach_pdus_cnt ?p)) = Done (ok, c', q)"
      using Cons.prems(1) i Prach_pdu by (simp add: Let_def)
    ultimately show ?thesis by (rule step [rotated])
  next
    case (Pusch_pdu x)
    then obtain c2 t where t: "ul_pusch a u ij x c ?p = Done (c2, t)" "ul_pdu_loop a u ij pdus is c2 (count_iapi_p7 Ul_pdus_cnt t) = Done (ok, c', q)"
      using Cons.prems(1) i by (auto simp: Let_def obind_Done_iff)
    show ?thesis by (rule step [OF t(2)]) (use ul_pusch_registers [OF t(1)] Cons.prems Pusch_pdu in simp)
  next
    case (Pucch_pdu x)
    then obtain c2 t where t: "ul_pucch a u ij x c ?p = Done (c2, t)" "ul_pdu_loop a u ij pdus is c2 (count_iapi_p7 Ul_pdus_cnt t) = Done (ok, c', q)"
      using Cons.prems(1) i by (auto simp: Let_def obind_Done_iff)
    show ?thesis by (rule step [OF t(2)]) (use ul_pucch_registers [OF t(1)] Cons.prems Pucch_pdu in simp)
  next
    case (Srs_req_pdu x)
    then obtain c2 t where t: "ul_srs a u ij x c ?p = Done (c2, t)" "ul_pdu_loop a u ij pdus is c2 (count_iapi_p7 Ul_pdus_cnt t) = Done (ok, c', q)"
      using Cons.prems(1) i by (auto simp: Let_def obind_Done_iff)
    show ?thesis by (rule step [OF t(2)]) (use ul_srs_registers [OF t(1)] Cons.prems Srs_req_pdu in simp)
  next
    case (Unknown_ul_pdu t)
    then have "\<not> ok" "q = ?p" using Cons.prems(1) i by (auto simp: Let_def)
    then show ?thesis using registers_refl [of p ij u q] Cons.prems(3-6) by auto
  qed
qed

text \<open>The request as a whole: its record is the one of its frame, slot and symbol.\<close>

definition requested_record :: "fapi_ul_tti_req \<Rightarrow> u8 \<Rightarrow> u16 \<Rightarrow> nr5g_fapi_ul_slot_info" where
  "requested_record req symb cell =
     (nr5g_fapi_set_ul_slot_info (ut_sfn req) (ucast (ucast (ut_slot req) :: u8)) symb)
       \<lparr>rach_presence := of_bool (ut_rachPresent req \<noteq> 0), rach_phy_cell_id := (if ut_rachPresent req \<noteq> 0 then cell else 0)\<rparr>"

definition request_symbol :: "bool \<Rightarrow> fapi_vendor_p7_msg option \<Rightarrow> u8" where
  "request_symbol u vm = (if u then case vm of None \<Rightarrow> 0 | Some v \<Rightarrow> ucast (ucast (v7_ul_sym v) :: u16) else 0)"

definition request_place :: "bool \<Rightarrow> fapi_ul_tti_req \<Rightarrow> fapi_vendor_p7_msg option \<Rightarrow> nat \<times> nat" where
  "request_place u req vm = slot_place (ucast (ut_slot req)) (request_symbol u vm)"

definition request_pdus :: "fapi_ul_tti_req \<Rightarrow> fapi_ul_tti_req_pdu list" where
  "request_pdus req = take (unat (ut_nPdus req)) (ut_pdus req)"

lemma requested_record_wf: "wf_record (requested_record req symb cell)" "clear_behind (requested_record req symb cell)"
  "at_place (slot_place (ucast (ut_slot req)) symb) (requested_record req symb cell)"
  "pusch_list (requested_record req symb cell) = []" "pucch_list (requested_record req symb cell) = []"
  "srs_list (requested_record req symb cell) = []"
  by (simp_all add: requested_record_def nr5g_fapi_set_ul_slot_info_def zero_ul_slot_info_def wf_record_def clear_behind_def
    at_place_def pusch_list_def pucch_list_def srs_list_def zero_pusch_info_def)

lemma ul_pdu_loop_bounds: "ul_pdu_loop a u ij pdus is c p = Done (True, c', q) \<Longrightarrow> \<forall>i\<in>set is. i < length pdus"
proof (induction "is" arbitrary: c p)
  case (Cons i "is")
  then show ?case by (cases "pdus ! i") (auto simp: Let_def obind_Done_iff split: if_split_asm)
qed simp

definition opened_record :: "bool \<Rightarrow> fapi_ul_tti_req \<Rightarrow> fapi_vendor_p7_msg option \<Rightarrow> nr5g_fapi_phy_instance \<Rightarrow> nr5g_fapi_phy_instance" where
  "opened_record u req vm p =
     upd_slot u (request_place u req vm) (\<lambda>_. requested_record req (request_symbol u vm) (phy_cell_id (inst_config p))) p"

lemma record_is_opened:
  assumes "has_tables p" "ij = slot_place (ucast (ut_slot req)) symb"
  shows "(if ut_rachPresent req \<noteq> 0
     then upd_slot u ij (\<lambda>r. r\<lparr>rach_presence := 1, rach_phy_cell_id := phy_cell_id (inst_config p)\<rparr>)
       (upd_slot u ij (\<lambda>_. nr5g_fapi_set_ul_slot_info (ut_sfn req) (ucast (ucast (ut_slot req) :: u8)) symb) p)
     else upd_slot u ij (\<lambda>_. nr5g_fapi_set_ul_slot_info (ut_sfn req) (ucast (ucast (ut_slot req) :: u8)) symb) p)
   = upd_slot u ij (\<lambda>_. requested_record req symb (phy_cell_id (inst_config p))) p"
proof -
  have "in_table ij" by (simp add: assms(2))
  then show ?thesis by (auto simp: upd_slot_upd [OF assms(1)] requested_record_def comp_def nr5g_fapi_set_ul_slot_info_def
      zero_ul_slot_info_def intro!: upd_slot_cong)
qed

lemma request_runs_the_loop:
  assumes "nr5g_fapi_ul_tti_req_to_phy_translation a u req vm c p = Done (ok, c', q)" "slot_layouts a" "has_tables p"
    "u \<longrightarrow> vm \<noteq> None"
  obtains c2 c3 where "ul_pdu_loop a u (request_place u req vm) (ut_pdus req) [0..<unat (ut_nPdus req)] c2 (opened_record u req vm p) = Done (ok, c3, q)"
proof -
  have n: "lconv (ulcfg_l a) ''nPDU'' (uint (w :: u8)) = uint w" for w
    using holds_bits_word [of "''nPDU''" "ulcfg_l a" w] assms(2) by (simp add: slot_layouts_def)
  have s: "\<exists>c2. symbol_of_request u vm x = Some (request_symbol u vm, c2)" for x
    using assms(4) by (cases vm) (auto simp: symbol_of_request_def request_symbol_def Let_def)
  obtain c2 where c2: "symbol_of_request u vm (c\<lparr>uc_slot := (uc_slot c)\<lparr>nSFN := ut_sfn req, nSlot := ut_slot req, nCarrier := ucast (phy_id p)\<rparr>\<rparr>)
      = Some (request_symbol u vm, c2)" using s by blast
  have pl: "(unat (ucast (ut_slot req) :: u8) mod MAX_UL_SLOT_INFO_COUNT, unat (request_symbol u vm) mod MAX_UL_SYMBOL_INFO_COUNT)
      = request_place u req vm" by (simp add: request_place_def slot_place_def)
  note rec = record_is_opened [OF assms(3) request_place_def [of u req vm]]
  have cfg: "inst_config (upd_slot u ij f p) = inst_config p" for ij f by (simp add: upd_slot_def)
  have fields: "uc_fields (put_ul_field a f w x) = put_field (ulcfg_l a) f w (uc_fields x)"
    "uc_slot (x\<lparr>uc_slot := y\<rparr>) = y" "nSFN (y\<lparr>nSFN := f1, nSlot := f2, nCarrier := f3\<rparr>) = f1"
    "nSlot (y\<lparr>nSFN := f1, nSlot := f2, nCarrier := f3\<rparr>) = f2" for f w x y f1 f2 f3 by (simp_all add: put_ul_field_def)
  show ?thesis
    using assms(1)
    unfolding nr5g_fapi_ul_tti_req_to_phy_translation_def Let_def fields c2 option.case case_prod_conv obind_Done_iff case_prod_beta
      fst_conv snd_conv pl cfg rec put_field_same field_u8_def n word_of_int_uint
    by (elim exE conjE) (auto intro!: that [unfolded opened_record_def] split: if_split_asm option.splits simp: obind_Done_iff)
qed

lemma opened_at: "has_tables p \<Longrightarrow> get_slot u (request_place u req vm) (opened_record u req vm p)
    = requested_record req (request_symbol u vm) (phy_cell_id (inst_config p))"
  by (simp add: opened_record_def get_upd_slot request_place_def)

lemma registered_key: "registered r xs q \<Longrightarrow> at_place ij r \<Longrightarrow> at_place ij q"
  by (simp add: registered_def same_key_def at_place_def)

lemma request_registers:
  assumes "nr5g_fapi_ul_tti_req_to_phy_translation a u req vm c p = Done (ok, c', q)" "slot_layouts a" "wf_slots p" "u \<longrightarrow> vm \<noteq> None"
  shows "wf_slots q" "ok \<Longrightarrow> registered (requested_record req (request_symbol u vm) (phy_cell_id (inst_config p)))
     (request_pdus req) (get_slot u (request_place u req vm) q)"
proof -
  let ?ij = "request_place u req vm" and ?r = "requested_record req (request_symbol u vm) (phy_cell_id (inst_config p))"
  have ij: "in_table ?ij" by (simp add: request_place_def)
  have t: "has_tables p" using assms(3) by (simp add: wf_slots_def)
  have o: "has_tables (opened_record u req vm p)" using t ij by (simp add: opened_record_def)
  obtain c2 c3 where loop: "ul_pdu_loop a u ?ij (ut_pdus req) [0..<unat (ut_nPdus req)] c2 (opened_record u req vm p) = Done (ok, c3, q)"
    using request_runs_the_loop [OF assms(1,2) t assms(4)] .
  obtain xs where xs: "registers u ?ij xs (opened_record u req vm p) q" "ok \<longrightarrow> xs = map ((!) (ut_pdus req)) [0..<unat (ut_nPdus req)]"
    using ul_pdu_loop_registers [OF loop assms(2) o ij] by (auto simp: opened_at [OF t] requested_record_wf)
  note at = registers_at [OF xs(1) o ij]
  have reg: "registered ?r xs (get_slot u ?ij q)" using at(2) by (simp add: opened_at [OF t])
  have s: "ul_slot_info q = ul_slot_info (upd_slot u ?ij (\<lambda>_. get_slot u ?ij q) p)"
    using at(3) by (simp add: opened_record_def upd_slot_upd [OF t ij] comp_def)
  show "wf_slots q"
  proof (rule wf_slots_update [OF assms(3) ij _ _ s])
    show "wf_record (get_slot u ?ij q)" using registered_wf [OF reg] by simp
    show "at_place ?ij (get_slot u ?ij q)" using registered_key [OF reg] requested_record_wf(3) by (simp add: request_place_def)
  qed
  show "registered ?r (request_pdus req) (get_slot u ?ij q)" if ok
  proof -
    have "\<forall>i\<in>set [0..<unat (ut_nPdus req)]. i < length (ut_pdus req)"
      by (rule ul_pdu_loop_bounds) (use loop \<open>ok\<close> in simp)
    then have "unat (ut_nPdus req) \<le> length (ut_pdus req)" by (intro leI notI) (auto dest: bspec [of _ _ "length (ut_pdus req)"])
    then have "map ((!) (ut_pdus req)) [0..<unat (ut_nPdus req)] = request_pdus req"
      by (simp add: request_pdus_def map_nth take_map [symmetric] list_eq_iff_nth_eq)
    then show ?thesis using reg xs(2) \<open>ok\<close> by simp
  qed
qed

section \<open>The UEs of a record\<close>

lemma find_map_option: "List.find P (map f xs) = map_option f (List.find (\<lambda>x. P (f x)) xs)"
  by (induction xs) auto

lemma take_as_map: "n \<le> length xs \<Longrightarrow> take n xs = map ((!) xs) [0..<n]"
  by (simp add: list_eq_iff_nth_eq)

lemma find_index_Some: "List.find P [0..<n] = Some k \<Longrightarrow> k < n \<and> P k"
  by (auto simp: find_Some_iff)

definition lookup_pusch :: "nr5g_fapi_ul_slot_info \<Rightarrow> u16 \<Rightarrow> pusch_info option" where
  "lookup_pusch r ue = map_option ((!) (pusch_infos r)) (nr5g_fapi_get_pusch_info ue r)"

lemma lookup_pusch_list:
  "wf_record r \<Longrightarrow> lookup_pusch r ue = List.find (\<lambda>i. pusch_handle i = ucast ue) (pusch_list r)"
  by (simp add: lookup_pusch_def nr5g_fapi_get_pusch_info_def pusch_list_def take_as_map wf_record_def find_map_option)

definition pusch_of_request :: "fapi_ul_tti_req \<Rightarrow> u16 \<Rightarrow> fapi_ul_pusch_pdu option" where
  "pusch_of_request req ue = List.find (\<lambda>x. ucast (pu_handle x) = ue) (puschs (request_pdus req))"

lemma ucast_id_eq: "(ucast (x :: u16) :: u32) = ucast y \<longleftrightarrow> x = y"
  by (metis ucast_id_id)

lemma registered_lookup:
  assumes "registered (requested_record req symb cell) (request_pdus req) r"
  shows "lookup_pusch r ue = map_option requested_info (pusch_of_request req ue)"
proof -
  have "pusch_list r = map requested_info (puschs (request_pdus req))" "wf_record r"
    using assms by (simp_all add: registered_def requested_record_wf)
  then show ?thesis
    by (simp add: lookup_pusch_list pusch_of_request_def find_map_option requested_info_def ucast_id_eq)
qed

text \<open>A record that answers for the PUSCH PDUs \<open>H\<close>, with what was measured.\<close>

definition measured_info :: "u8 \<times> u16 \<Rightarrow> fapi_ul_pusch_pdu \<Rightarrow> pusch_info" where
  "measured_info m x = (requested_info x)\<lparr>ul_cqi := fst m, timing_advance := snd m\<rparr>"

definition answers_for :: "(u16 \<Rightarrow> fapi_ul_pusch_pdu option) \<Rightarrow> (u16 \<Rightarrow> u8 \<times> u16) \<Rightarrow> nr5g_fapi_ul_slot_info \<Rightarrow> bool" where
  "answers_for H M r \<longleftrightarrow> wf_record r \<and> (\<forall>ue. lookup_pusch r ue = map_option (measured_info (M ue)) (H ue))"

definition set_measured :: "nat \<Rightarrow> u8 \<Rightarrow> u16 \<Rightarrow> nr5g_fapi_ul_slot_info \<Rightarrow> nr5g_fapi_ul_slot_info" where
  "set_measured k c t r = r\<lparr>pusch_infos := (pusch_infos r)[k := (pusch_infos r ! k)\<lparr>ul_cqi := c, timing_advance := t\<rparr>]\<rparr>"

lemma set_measured_index: "nr5g_fapi_get_pusch_info ue (set_measured k c t r) = nr5g_fapi_get_pusch_info ue r"
proof -
  have "pusch_handle (pusch_infos (set_measured k c t r) ! i) = pusch_handle (pusch_infos r ! i)" for i
    by (cases "k < length (pusch_infos r)") (auto simp: set_measured_def nth_list_update list_update_beyond)
  then show ?thesis by (simp add: nr5g_fapi_get_pusch_info_def) (simp add: set_measured_def)
qed

lemma answers_measured:
  assumes "answers_for H M r" "nr5g_fapi_get_pusch_info ue r = Some k"
  shows "answers_for H (M(ue := (c, t))) (set_measured k c t r)" "wf_record (set_measured k c t r)"
proof -
  have wf: "wf_record r" using assms(1) by (simp add: answers_for_def)
  then show w: "wf_record (set_measured k c t r)" by (simp add: wf_record_def set_measured_def)
  have k: "k < length (pusch_infos r)" "pusch_handle (pusch_infos r ! k) = ucast ue"
    using find_index_Some [OF assms(2) [unfolded nr5g_fapi_get_pusch_info_def]] wf by (auto simp: wf_record_def)
  have "lookup_pusch (set_measured k c t r) ue' = map_option (measured_info ((M(ue := (c, t))) ue')) (H ue')" for ue'
  proof (cases "nr5g_fapi_get_pusch_info ue' r")
    case None
    then have "lookup_pusch r ue' = None" by (simp add: lookup_pusch_def)
    then have "H ue' = None" using assms(1) by (auto simp: answers_for_def dest: spec [of _ ue'])
    then show ?thesis using None by (simp add: lookup_pusch_def set_measured_index)
  next
    case (Some j)
    have h: "pusch_handle (pusch_infos r ! j) = ucast ue'"
      using find_index_Some [OF Some [unfolded nr5g_fapi_get_pusch_info_def]] by simp
    have j: "j = k \<longleftrightarrow> ue' = ue" using h k(2) Some assms(2) by (auto simp: ucast_id_eq)
    have "Some (pusch_infos r ! j) = map_option (measured_info (M ue')) (H ue')"
      using assms(1) Some by (auto simp: answers_for_def lookup_pusch_def dest: spec [of _ ue'])
    then obtain x where x: "H ue' = Some x" "pusch_infos r ! j = measured_info (M ue') x" by (metis map_option_eq_Some)
    have "lookup_pusch (set_measured k c t r) ue' = Some (pusch_infos (set_measured k c t r) ! j)"
      by (simp add: lookup_pusch_def set_measured_index Some)
    then show ?thesis using x j k(1) by (auto simp: set_measured_def measured_info_def)
  qed
  then show "answers_for H (M(ue := (c, t))) (set_measured k c t r)" using w by (simp add: answers_for_def)
qed

section \<open>The answers\<close>

definition answered :: "('a \<Rightarrow> 'b option) \<Rightarrow> 'a list \<Rightarrow> 'a list" where
  "answered f xs = takeWhile (\<lambda>x. f x \<noteq> None) xs"

definition answers :: "('a \<Rightarrow> 'b option) \<Rightarrow> 'a list \<Rightarrow> 'b list" where
  "answers f xs = map (\<lambda>x. the (f x)) (answered f xs)"

lemma entry_loop_answers:
  assumes "\<And>i s. i < length xs \<Longrightarrow> J i s \<Longrightarrow> \<exists>s'. f i s = Done (g (xs ! i), s') \<and> J (if g (xs ! i) = None then i else Suc i) s'"
    "J m s" "length xs \<le> room" "m \<le> length xs"
  shows "\<exists>s'. entry_loop room f [m..<length xs] s = Done (answered g (drop m xs) = drop m xs, answers g (drop m xs), s')
    \<and> J (m + length (answered g (drop m xs))) s'"
  using assms(2,4)
proof (induction "length xs - m" arbitrary: m s)
  case 0
  then show ?case by (simp add: answered_def answers_def)
next
  case (Suc n)
  then have m: "m < length xs" by simp
  then have d: "drop m xs = xs ! m # drop (Suc m) xs" "[m..<length xs] = m # [Suc m..<length xs]"
    by (simp_all add: Cons_nth_drop_Suc upt_conv_Cons)
  have n: "n = length xs - Suc m" using Suc.hyps(2) by arith
  obtain s' where s': "f m s = Done (g (xs ! m), s')" "J (if g (xs ! m) = None then m else Suc m) s'"
    using assms(1) [OF m Suc.prems(1)] by blast
  show ?case
  proof (cases "g (xs ! m)")
    case None
    then show ?thesis using s' m assms(3) by (simp add: d answered_def answers_def)
  next
    case (Some e)
    obtain t where "entry_loop room f [Suc m..<length xs] s' = Done (answered g (drop (Suc m) xs) = drop (Suc m) xs, answers g (drop (Suc m) xs), t)"
      "J (Suc m + length (answered g (drop (Suc m) xs))) t"
      using Suc.hyps(1) [OF n _ Suc_leI [OF m], of s'] s'(2) Some by auto
    then show ?thesis using s' Some m assms(3) by (simp add: d answered_def answers_def)
  qed
qed

definition crc_answer :: "p7_api \<Rightarrow> (u16 \<Rightarrow> fapi_ul_pusch_pdu option) \<Rightarrow> ul_crc \<Rightarrow> fapi_crc_ind_info option" where
  "crc_answer a H x = map_option (\<lambda>y. \<lparr>ci_handle = pusch_handle (requested_info y), ci_rnti = uq_nRNTI x,
     ci_harqId = harq_process_id (requested_info y), ci_tbCrcStatus = of_bool (uq_nCrcFlag x = 0),
     ci_ul_cqi = nr5g_fapi_convert_snr_iapi_to_fapi a (uq_nSNR x), ci_numCb = 0, ci_timingAdvance = 31, ci_rssi = 880\<rparr>)
     (H (uq_nUEId x))"

definition measured :: "p7_api \<Rightarrow> ul_crc list \<Rightarrow> u16 \<Rightarrow> u8 \<times> u16" where
  "measured a crcs = fold (\<lambda>x M. M(uq_nUEId x := (nr5g_fapi_convert_snr_iapi_to_fapi a (uq_nSNR x), 31))) crcs (\<lambda>_. (0, 0))"

definition data_answer :: "(u16 \<Rightarrow> fapi_ul_pusch_pdu option) \<Rightarrow> (u16 \<Rightarrow> u8 \<times> u16) \<Rightarrow> ulsch_data \<Rightarrow> fapi_pdu_ind_info option" where
  "data_answer H M x = map_option (\<lambda>y. \<lparr>rx_handle = pusch_handle (requested_info y), rx_rnti = ux_nRNTI x,
     rx_harqId = or (push_bit 4 (ucast (drop_bit 16 (ux_nPduLen x)))) (and (harq_process_id (requested_info y)) 0x0F),
     rx_ul_cqi = fst (M (ux_nUEId x)), rx_timingAdvance = snd (M (ux_nUEId x)), rx_rssi = 880,
     rx_pdu_length = ucast (ux_nPduLen x), rx_pduData = ux_pPayload x\<rparr>) (H (ux_nUEId x))"

text \<open>The state while a slot is answered.\<close>

definition answering :: "bool \<Rightarrow> nat \<times> nat \<Rightarrow> u16 \<times> u8 \<times> u8 \<Rightarrow> (u16 \<Rightarrow> fapi_ul_pusch_pdu option) \<Rightarrow> (u16 \<Rightarrow> u8 \<times> u16)
    \<Rightarrow> nr5g_fapi_phy_instance \<Rightarrow> bool" where
  "answering u ij key H M p \<longleftrightarrow> wf_slots p \<and> in_table ij \<and> answers_for H M (get_slot u ij p)
     \<and> (cookie (get_slot u ij p), slot_no (get_slot u ij p), symbol_no (get_slot u ij p)) = key"

lemma wf_slots_count [simp]: "wf_slots (count_fapi_p7 k p) = wf_slots p" "wf_slots (count_iapi_p7 k p) = wf_slots p"
  by (simp_all add: wf_slots_def)

lemma answering_count [simp]:
  "answering u ij key H M (count_fapi_p7 k p) = answering u ij key H M p"
  "answering u ij key H M (count_iapi_p7 k p) = answering u ij key H M p"
  by (simp_all add: answering_def)

lemma answering_measured:
  assumes "answering u ij key H M p" "nr5g_fapi_get_pusch_info ue (get_slot u ij p) = Some k"
  shows "answering u ij key H (M(ue := (c, t))) (upd_slot u ij (set_measured k c t) p)"
proof -
  let ?r = "get_slot u ij p"
  have p: "wf_slots p" "in_table ij" "answers_for H M ?r" "(cookie ?r, slot_no ?r, symbol_no ?r) = key"
    using assms(1) by (auto simp: answering_def)
  have t: "has_tables p" using p(1) by (simp add: wf_slots_def)
  have key: "cookie (set_measured k c t ?r) = cookie ?r" "slot_no (set_measured k c t ?r) = slot_no ?r"
    "symbol_no (set_measured k c t ?r) = symbol_no ?r" by (simp_all add: set_measured_def)
  have "at_place ij ?r" using p(1,2) unfolding wf_slots_def by blast
  then have at: "at_place ij (set_measured k c t ?r)" by (simp add: at_place_def key)
  have "wf_slots (upd_slot u ij (set_measured k c t) p)"
    by (rule wf_slots_update [OF p(1,2) answers_measured(2) [OF p(3) assms(2)] at]) (simp add: upd_slot_def)
  then show ?thesis using answers_measured(1) [OF p(3) assms(2)] p(2,4)
    by (simp add: answering_def get_upd_slot [OF t p(2) p(2)] key)
qed

lemma answering_lookup:
  assumes "answering u ij key H M p"
  shows "nr5g_fapi_get_pusch_info ue (get_slot u ij p) = None \<longleftrightarrow> H ue = None"
    "nr5g_fapi_get_pusch_info ue (get_slot u ij p) = Some k \<Longrightarrow>
       \<exists>y. H ue = Some y \<and> pusch_infos (get_slot u ij p) ! k = measured_info (M ue) y"
proof -
  have l: "map_option ((!) (pusch_infos (get_slot u ij p))) (nr5g_fapi_get_pusch_info ue (get_slot u ij p))
      = map_option (measured_info (M ue)) (H ue)"
    using assms by (simp add: answering_def answers_for_def lookup_pusch_def)
  show "nr5g_fapi_get_pusch_info ue (get_slot u ij p) = None \<longleftrightarrow> H ue = None" using l by (metis map_option_is_None)
  show "\<exists>y. H ue = Some y \<and> pusch_infos (get_slot u ij p) ! k = measured_info (M ue) y"
    if "nr5g_fapi_get_pusch_info ue (get_slot u ij p) = Some k" using l that by (cases "H ue") auto
qed

lemma measured_handle: "pusch_handle (measured_info m y) = pusch_handle (requested_info y)"
  "harq_process_id (measured_info m y) = harq_process_id (requested_info y)"
  "ul_cqi (measured_info m y) = fst m" "timing_advance (measured_info m y) = snd m"
  by (simp_all add: measured_info_def)

lemma crc_entry_answers:
  assumes "answering u ij key H M p"
  shows "\<exists>v' p'. crc_entry a u ij crcs i (v, p) = Done (crc_answer a H (crcs ! i), v', p') \<and>
    answering u ij key H (if crc_answer a H (crcs ! i) = None then M
      else M(uq_nUEId (crcs ! i) := (nr5g_fapi_convert_snr_iapi_to_fapi a (uq_nSNR (crcs ! i)), 31))) p'"
proof (cases "nr5g_fapi_get_pusch_info (uq_nUEId (crcs ! i)) (get_slot u ij p)")
  case None
  then have "H (uq_nUEId (crcs ! i)) = None" using answering_lookup(1) [OF assms] by simp
  then show ?thesis using assms None by (simp add: crc_entry_def crc_answer_def Let_def)
next
  case (Some k)
  let ?p = "count_iapi_p7 Crc_pdus_cnt p" and ?c = "nr5g_fapi_convert_snr_iapi_to_fapi a (uq_nSNR (crcs ! i))"
  obtain y where y: "H (uq_nUEId (crcs ! i)) = Some y"
    "pusch_infos (get_slot u ij p) ! k = measured_info (M (uq_nUEId (crcs ! i))) y"
    using answering_lookup(2) [OF assms Some] by blast
  have u: "upd_slot u ij (\<lambda>r. r\<lparr>pusch_infos := (pusch_infos r)[k := (pusch_infos (get_slot u ij p) ! k)\<lparr>ul_cqi := ?c, timing_advance := 31\<rparr>]\<rparr>) ?p
      = upd_slot u ij (set_measured k ?c 31) ?p" by (rule upd_slot_cong) (simp add: set_measured_def)
  have "answering u ij key H (M(uq_nUEId (crcs ! i) := (?c, 31))) (upd_slot u ij (set_measured k ?c 31) ?p)"
    by (rule answering_measured) (use assms Some in simp_all)
  then show ?thesis using Some y by (simp add: crc_entry_def crc_answer_def Let_def u [unfolded y(2)] measured_handle)
qed

lemma length_nibble:
  "or (ucast (drop_bit 12 (and len 0x000F0000))) (and h 0x0F) = or (push_bit 4 (ucast (drop_bit 16 len))) (and h (0x0F :: u8))"
  for len :: u32
proof (rule bit_word_eqI)
  fix n assume "n < LENGTH(8)"
  then have "n \<in> {0, 1, 2, 3, 4, 5, 6, 7}" by auto
  then show "bit (or (ucast (drop_bit 12 (and len 0x000F0000))) (and h 0x0F)) n \<longleftrightarrow>
      bit (or (push_bit 4 (ucast (drop_bit 16 len))) (and h (0x0F :: u8))) n"
    by (auto simp: bit_simps)
qed

lemma low_half: "ucast (and 0xFFFF len :: u32) = (ucast len :: u16)"
proof (rule bit_word_eqI)
  fix n assume "n < LENGTH(16)"
  then have "bit (0xFFFF :: u32) n" using bit_mask_iff [of 16 n, where ?'a = u32] by (simp add: mask_eq_exp_minus_1)
  then show "bit (ucast (and 0xFFFF len :: u32) :: u16) n \<longleftrightarrow> bit (ucast len :: u16) n" by (auto simp: bit_simps)
qed

lemma rx_entry_answers:
  assumes "answering u ij key H M p"
  shows "\<exists>v' p'. rx_entry u ij pdus i (v, p) = Done (data_answer H M (pdus ! i), v', p') \<and> answering u ij key H M p'"
proof (cases "nr5g_fapi_get_pusch_info (ux_nUEId (pdus ! i)) (get_slot u ij p)")
  case None
  then have "H (ux_nUEId (pdus ! i)) = None" using answering_lookup(1) [OF assms] by simp
  then show ?thesis using assms None by (simp add: rx_entry_def data_answer_def Let_def)
next
  case (Some k)
  obtain y where y: "H (ux_nUEId (pdus ! i)) = Some y"
    "pusch_infos (get_slot u ij p) ! k = measured_info (M (ux_nUEId (pdus ! i))) y"
    using answering_lookup(2) [OF assms Some] by blast
  then show ?thesis using Some assms unfolding rx_entry_def Let_def length_nibble low_half
    by (simp add: data_answer_def measured_handle)
qed

lemma num_entries_small: "length xs < 256 \<Longrightarrow> num_entries xs = length xs"
  by (simp add: num_entries_def unat_of_nat)

lemma answering_record_is_found:
  assumes "answering u ij (nSFN ss, ucast (nSlot ss), ucast (nSym ss)) H M p" "nSlot ss < 256"
    "ij = slot_place (ucast (nSlot ss)) (ucast (nSym ss))"
  shows "nr5g_fapi_get_ul_slot_info u (nSFN ss) (nSlot ss) (ucast (nSym ss)) p = Some ij"
proof -
  have s: "(ucast (ucast (nSlot ss) :: u8) :: u16) = nSlot ss"
    by (rule word_uint_eqI) (use assms(2) in \<open>simp add: uint_up_ucast is_up unsigned_ucast_eq unsigned_take_bit_eq take_bit_int_eq_self word_less_alt\<close>)
  show ?thesis
    using record_is_found [of p "get_slot u ij p" "nSFN ss" "ucast (nSlot ss)" "ucast (nSym ss)" u] assms(1,3) s
    by (simp add: answering_def)
qed

lemma crc_translation_answers:
  assumes "answering u ij (nSFN ss, ucast (nSlot ss), ucast (nSym ss)) H (\<lambda>_. (0, 0)) p" "nSlot ss < 256"
    "ij = slot_place (ucast (nSlot ss)) (ucast (nSym ss))" "length crcs \<le> FAPI_MAX_NUMBER_OF_CRCS_PER_SLOT"
  shows "\<exists>v' q. nr5g_fapi_crc_indication_to_fapi_translation a u ss crcs (v, p)
      = Done (answered (crc_answer a H) crcs = crcs, answers (crc_answer a H) crcs, v', q)
    \<and> answering u ij (nSFN ss, ucast (nSlot ss), ucast (nSym ss)) H (measured a (answered (crc_answer a H) crcs)) q"
proof -
  let ?key = "(nSFN ss, ucast (nSlot ss), ucast (nSym ss))"
  let ?J = "\<lambda>i (v, q). answering u ij ?key H (measured a (take i crcs)) q"
  have step: "\<exists>s'. crc_entry a u ij crcs i s = Done (crc_answer a H (crcs ! i), s') \<and>
      ?J (if crc_answer a H (crcs ! i) = None then i else Suc i) s'" if "i < length crcs" "?J i s" for i s
  proof -
    have "measured a (take (Suc i) crcs) = (measured a (take i crcs))(uq_nUEId (crcs ! i) :=
        (nr5g_fapi_convert_snr_iapi_to_fapi a (uq_nSNR (crcs ! i)), 31))"
      by (simp add: measured_def take_Suc_conv_app_nth that(1))
    then show ?thesis using crc_entry_answers [of u ij ?key H "measured a (take i crcs)" "snd s" a crcs i "fst s"] that(2)
      by (auto simp: case_prod_beta split: if_split_asm)
  qed
  have n: "num_entries crcs = length crcs" using assms(4) by (intro num_entries_small) (simp add: FAPI_MAX_NUMBER_OF_CRCS_PER_SLOT_def)
  have "?J 0 (v, p)" using assms(1) by (simp add: measured_def)
  from entry_loop_answers [where J = ?J and g = "crc_answer a H" and f = "crc_entry a u ij crcs" and m = 0, OF step this assms(4)]
  obtain v' q where loop: "entry_loop FAPI_MAX_NUMBER_OF_CRCS_PER_SLOT (crc_entry a u ij crcs) [0..<length crcs] (v, p)
      = Done (answered (crc_answer a H) crcs = crcs, answers (crc_answer a H) crcs, v', q)"
    "answering u ij ?key H (measured a (take (length (answered (crc_answer a H) crcs)) crcs)) q" by auto
  have "take (length (answered (crc_answer a H) crcs)) crcs = answered (crc_answer a H) crcs"
    unfolding answered_def by (rule takeWhile_eq_take [symmetric])
  then have "answering u ij ?key H (measured a (answered (crc_answer a H) crcs)) q" using loop(2) by (simp only:)
  moreover have "nr5g_fapi_crc_indication_to_fapi_translation a u ss crcs (v, p)
      = Done (answered (crc_answer a H) crcs = crcs, answers (crc_answer a H) crcs, v', q)"
    unfolding nr5g_fapi_crc_indication_to_fapi_translation_def case_prod_conv answering_record_is_found [OF assms(1-3)] option.case n
    by (rule loop(1))
  ultimately show ?thesis by blast
qed

lemma rx_translation_answers:
  assumes "answering u ij (nSFN ss, ucast (nSlot ss), ucast (nSym ss)) H M p" "nSlot ss < 256"
    "ij = slot_place (ucast (nSlot ss)) (ucast (nSym ss))" "length pdus \<le> FAPI_MAX_NUMBER_OF_ULSCH_PDUS_PER_SLOT"
  shows "\<exists>v' q. nr5g_fapi_rx_data_indication_to_fapi_translation u ss pdus (v, p)
      = Done (answered (data_answer H M) pdus = pdus, answers (data_answer H M) pdus, v', q)
    \<and> answering u ij (nSFN ss, ucast (nSlot ss), ucast (nSym ss)) H M q"
proof -
  let ?J = "\<lambda>(i :: nat) (v :: fapi_vendor_p7_ind option, q). answering u ij (nSFN ss, ucast (nSlot ss), ucast (nSym ss)) H M q"
  have step: "\<exists>s'. rx_entry u ij pdus i s = Done (data_answer H M (pdus ! i), s') \<and>
      ?J (if data_answer H M (pdus ! i) = None then i else Suc i) s'" if "?J i s" for i s
    using rx_entry_answers [of u ij _ H M "snd s" pdus i "fst s"] that by (auto simp: case_prod_beta)
  have n: "num_entries pdus = length pdus"
    using assms(4) by (intro num_entries_small) (simp add: FAPI_MAX_NUMBER_OF_ULSCH_PDUS_PER_SLOT_def)
  have "?J 0 (v, p)" using assms(1) by simp
  from entry_loop_answers [where J = ?J and g = "data_answer H M" and f = "rx_entry u ij pdus" and m = 0, OF step this assms(4)] show ?thesis
    unfolding nr5g_fapi_rx_data_indication_to_fapi_translation_def case_prod_conv answering_record_is_found [OF assms(1-3)] option.case n
    by simp
qed

lemma request_is_answered:
  assumes "nr5g_fapi_ul_tti_req_to_phy_translation a u req vm c p = Done (True, c', q)" "slot_layouts a" "wf_slots p" "u \<longrightarrow> vm \<noteq> None"
  shows "answering u (request_place u req vm) (ut_sfn req, ucast (ut_slot req), request_symbol u vm) (pusch_of_request req) (\<lambda>_. (0, 0)) q"
proof -
  let ?r = "get_slot u (request_place u req vm) q"
  note reg = request_registers [OF assms(1-4)]
  have r: "registered (requested_record req (request_symbol u vm) (phy_cell_id (inst_config p))) (request_pdus req) ?r" using reg(2) by simp
  have "measured_info (0, 0) x = requested_info x" for x by (simp add: measured_info_def requested_info_def)
  then have m: "measured_info (0, 0) = requested_info" by blast
  have "answers_for (pusch_of_request req) (\<lambda>_. (0, 0)) ?r"
    using registered_lookup [OF r] registered_wf [OF r] by (simp add: answers_for_def m)
  moreover have "cookie ?r = ut_sfn req" "slot_no ?r = ucast (ut_slot req)" "symbol_no ?r = request_symbol u vm"
    using r by (simp_all add: registered_def same_key_def requested_record_def nr5g_fapi_set_ul_slot_info_def)
  ultimately show ?thesis using reg(1) by (simp add: answering_def request_place_def)
qed

text \<open>C18: the indications of a slot give the MAC what its UL_TTI.request said.  After the request was
  translated, CRC.indication and then RX_DATA.indication for its frame, slot and symbol give, for each
  entry up to the first whose id no PUSCH PDU has, the handle (its lower 16 bits) and the HARQ
  process of the first PUSCH PDU with the id; RX_DATA.indication also gives what the last CRC entry
  of the UE reported, and the length in 20 bits, the upper 4 beside the HARQ process.  Each succeeds
  exactly when all ids are known.\<close>

theorem indications_answer_the_request:
  assumes "nr5g_fapi_ul_tti_req_to_phy_translation a u req vm c p = Done (True, c', q)" "slot_layouts a" "wf_slots p"
    "u \<longrightarrow> vm \<noteq> None" "nSFN ss = ut_sfn req" "nSlot ss = ut_slot req" "ucast (nSym ss) = request_symbol u vm" "ut_slot req < 256"
    "length crcs \<le> FAPI_MAX_NUMBER_OF_CRCS_PER_SLOT" "length pdus \<le> FAPI_MAX_NUMBER_OF_ULSCH_PDUS_PER_SLOT"
  shows "let H = pusch_of_request req; C = crc_answer a H; D = data_answer H (measured a (answered C crcs))
    in \<exists>v1 q1 v2 q2. nr5g_fapi_crc_indication_to_fapi_translation a u ss crcs (v, q) = Done (answered C crcs = crcs, answers C crcs, v1, q1)
       \<and> nr5g_fapi_rx_data_indication_to_fapi_translation u ss pdus (v1, q1) = Done (answered D pdus = pdus, answers D pdus, v2, q2)"
proof -
  have a: "answering u (request_place u req vm) (nSFN ss, ucast (nSlot ss), ucast (nSym ss)) (pusch_of_request req) (\<lambda>_. (0, 0)) q"
    using request_is_answered [OF assms(1-4)] assms(5-7) by simp
  have s: "nSlot ss < 256" "request_place u req vm = slot_place (ucast (nSlot ss)) (ucast (nSym ss))"
    using assms(6-8) by (simp_all add: request_place_def)
  from crc_translation_answers [OF a s assms(9)] show ?thesis
    using rx_translation_answers [OF _ s assms(10)] unfolding Let_def by meson
qed

definition demo_pusch :: "u32 \<Rightarrow> u8 \<Rightarrow> fapi_ul_pusch_pdu" where
  "demo_pusch hnd harq = \<lparr>pu_pduBitMap = 1, pu_rnti = 17, pu_handle = hnd, pu_bwpSize = 106, pu_bwpStart = 0, pu_subCarrierSpacing = 1,
     pu_cyclicPrefix = 0, pu_mcsIndex = 9, pu_mcsTable = 0, pu_transformPrecoding = 1, pu_dataScramblingId = 3, pu_nrOfLayers = 1,
     pu_dmrsConfigType = 0, pu_ulDmrsScramblingId = 3, pu_scid = 0, pu_numDmrsCdmGrpsNoData = 1, pu_dmrsPorts = 1, pu_nTpPuschId = 0,
     pu_tpPi2Bpsk = 0, pu_rbBitmap = replicate 36 0, pu_rbStart = 0, pu_rbSize = 20, pu_vrbToPrbMapping = 0, pu_resourceAlloc = 1,
     pu_startSymbIndex = 0, pu_nrOfSymbols = 14, pu_mappingType = 0, pu_nrOfDmrsSymbols = 1, pu_dmrsAddPos = 0,
     pu_puschData = \<lparr>pd_rvIndex = 0, pd_harqProcessId = harq, pd_newDataIndicator = 1, pd_tbSize = 1000\<rparr>,
     pu_puschUci = \<lparr>pi_harqAckBitLength = 0, pi_csiPart1BitLength = 0, pi_csiPart2BitLength = 0, pi_alphaScaling = 0,
       pi_betaOffsetHarqAck = 0, pi_betaOffsetCsi1 = 0, pi_betaOffsetCsi2 = 0\<rparr>,
     pu_puschPtrs = \<lparr>pp_numPtrsPorts = 0, pp_ptrsTimeDensity = 0, pp_ptrsFreqDensity = 0, pp_ptrsInfo = []\<rparr>\<rparr>"

definition demo_request :: fapi_ul_tti_req where
  "demo_request = \<lparr>ut_sfn = 7, ut_slot = 3, ut_nPdus = 2, ut_rachPresent = 0, ut_nUlsch = 1, ut_nUlcch = 0, ut_nGroup = 0,
     ut_pdus = [Prach_pdu, Pusch_pdu (demo_pusch 0x12345 5)], ut_ueGrpInfo = []\<rparr>"

definition demo_config :: ul_config where
  "demo_config = \<lparr>uc_slot = \<lparr>nSFN = 0, nSlot = 0, nCarrier = 0, nSym = 0\<rparr>, uc_fields = zero_struct, uc_groups = (\<lambda>_. zero_struct), uc_pdus = []\<rparr>"

definition demo_phy :: nr5g_fapi_phy_instance where
  "demo_phy = \<lparr>phy_id = 0, shutdown_retries = 0, shutdown_test_type = 0, state = FAPI_STATE_RUNNING,
     inst_config = \<lparr>phy_cell_id = 2, n_nr_of_rx_ant = 1, use_vendor_EpreXSSB = 0, sub_c_common = 1\<rparr>, stats = zero_stats,
     ul_slot_info = replicate FAPI_MAX_SLOT_INFO_URLLC (replicate MAX_UL_SLOT_INFO_COUNT (replicate MAX_UL_SYMBOL_INFO_COUNT zero_ul_slot_info))\<rparr>"

lemma demo_phy_wf: "wf_slots demo_phy"
proof -
  have "get_slot u ij demo_phy = zero_ul_slot_info" if "in_table ij" for u ij
    using that by (simp add: get_slot_def demo_phy_def ul_table_def FAPI_MAX_SLOT_INFO_URLLC_def in_table_def)
  then show ?thesis
    by (simp add: wf_slots_def has_tables_def demo_phy_def wf_record_def at_place_def zero_ul_slot_info_def)
qed


lemma demo_p7_layouts [simp]:
  "ulsch_l demo_p7_api = demo_layout" "ulcch_l demo_p7_api = demo_layout" "srs_l demo_p7_api = demo_layout" "ulcfg_l demo_p7_api = demo_layout"
  "lconv demo_layout f v = v" "lext demo_layout f = 16" "lsize demo_layout = 64" "RUP32B demo_p7_api n = n" "ul_room demo_p7_api = 4096"
  "MAX_DL_PER_UE_DMRS_PORT_NUM demo_p7_api = 12"
  by (simp_all add: demo_p7_api_def demo_layout_def)

lemma demo_slot_layouts [simp]: "slot_layouts demo_p7_api"
  by (simp add: slot_layouts_def holds_bits_def)

lemma demo_pusch_translates:
  "\<exists>s info q. nr5g_fapi_pusch_to_phy_ulsch_translation demo_p7_api (demo_pusch h n) i p = Done (s, info, q)"
  unfolding nr5g_fapi_pusch_to_phy_ulsch_translation_def Let_def
  by (simp add: put_fields_read field_u8_def demo_pusch_def case_prod_beta put_elem_def upt_rec del: put_fields.simps)

lemma demo_ul_pusch:
  assumes "unat (num_ulsch (get_slot u ij p)) < length (pusch_infos (get_slot u ij p))" "uc_pdus c = []"
    "\<And>c' q. \<exists>x y. f (c', q) = Done (True, x, y)"
  shows "\<exists>x y. obind (ul_pusch demo_p7_api u ij (demo_pusch h n) c p) f = Done (True, x, y)"
proof -
  obtain s info q where "nr5g_fapi_pusch_to_phy_ulsch_translation demo_p7_api (demo_pusch h n)
      (pusch_infos (get_slot u ij p) ! unat (num_ulsch (get_slot u ij p))) p = Done (s, info, q)"
    using demo_pusch_translates by blast
  then show ?thesis using assms by (simp add: ul_pusch_def Let_def add_ul_pdu_def ul_pdu_size_def)
qed

lemma demo_request_translates:
  "\<exists>c' q. nr5g_fapi_ul_tti_req_to_phy_translation demo_p7_api False demo_request None demo_config demo_phy = Done (True, c', q)"
proof -
  have t: "has_tables demo_phy" using demo_phy_wf by (simp add: wf_slots_def)
  have ij: "in_table (3 mod MAX_UL_SLOT_INFO_COUNT, 0)"
    by (simp add: in_table_def MAX_UL_SLOT_INFO_COUNT_def MAX_UL_SYMBOL_INFO_COUNT_def)
  show ?thesis
    unfolding nr5g_fapi_ul_tti_req_to_phy_translation_def
    by (simp add: demo_request_def symbol_of_request_def Let_def demo_config_def field_u8_def put_ul_field_def upt_rec)
      (rule demo_ul_pusch; simp add: get_upd_slot [OF t ij ij] nr5g_fapi_set_ul_slot_info_def zero_ul_slot_info_def
        FAPI_MAX_NUMBER_OF_ULSCH_PDUS_PER_SLOT_def)
qed

theorem indications_answer_the_request_witness:
  "\<exists>c' q v1 q1 v2 q2. nr5g_fapi_ul_tti_req_to_phy_translation demo_p7_api False demo_request None demo_config demo_phy = Done (True, c', q)
    \<and> nr5g_fapi_crc_indication_to_fapi_translation demo_p7_api False \<lparr>nSFN = 7, nSlot = 3, nCarrier = 0, nSym = 0\<rparr>
        [\<lparr>uq_nUEId = 0x2345, uq_nRNTI = 17, uq_nCrcFlag = 1, uq_nSNR = 256\<rparr>] (None, q)
      = Done (True, [\<lparr>ci_handle = 0x2345, ci_rnti = 17, ci_harqId = 5, ci_tbCrcStatus = 0, ci_ul_cqi = 132, ci_numCb = 0,
          ci_timingAdvance = 31, ci_rssi = 880\<rparr>], v1, q1)
    \<and> nr5g_fapi_rx_data_indication_to_fapi_translation False \<lparr>nSFN = 7, nSlot = 3, nCarrier = 0, nSym = 0\<rparr>
        [\<lparr>ux_nUEId = 0x2345, ux_nRNTI = 17, ux_nPduLen = 0x21234, ux_pPayload = 0x7000\<rparr>] (v1, q1)
      = Done (True, [\<lparr>rx_handle = 0x2345, rx_rnti = 17, rx_harqId = 0x25, rx_ul_cqi = 132, rx_timingAdvance = 31, rx_rssi = 880,
          rx_pdu_length = 0x1234, rx_pduData = 0x7000\<rparr>], v2, q2)"
proof -
  obtain c' q where q: "nr5g_fapi_ul_tti_req_to_phy_translation demo_p7_api False demo_request None demo_config demo_phy = Done (True, c', q)"
    using demo_request_translates by blast
  have h: "pusch_of_request demo_request 0x2345 = Some (demo_pusch 0x12345 5)"
    by (simp add: pusch_of_request_def request_pdus_def demo_request_def demo_pusch_def)
  have r: "requested_info (demo_pusch 0x12345 5) = \<lparr>pusch_handle = 0x2345, harq_process_id = 5, ul_cqi = 0, timing_advance = 0\<rparr>"
    "ut_sfn demo_request = 7" "ut_slot demo_request = 3"
    by (simp_all add: requested_info_def demo_pusch_def demo_request_def)
  have s: "nr5g_fapi_convert_snr_iapi_to_fapi demo_p7_api 256 = 132"
    by (simp add: nr5g_fapi_convert_snr_iapi_to_fapi_def demo_p7_api_def)
  show ?thesis
    using q indications_answer_the_request [OF q demo_slot_layouts demo_phy_wf, of "\<lparr>nSFN = 7, nSlot = 3, nCarrier = 0, nSym = 0\<rparr>"
      "[\<lparr>uq_nUEId = 0x2345, uq_nRNTI = 17, uq_nCrcFlag = 1, uq_nSNR = 256\<rparr>]"
      "[\<lparr>ux_nUEId = 0x2345, ux_nRNTI = 17, ux_nPduLen = 0x21234, ux_pPayload = 0x7000\<rparr>]" None]
    by (auto simp: Let_def answers_def answered_def crc_answer_def data_answer_def measured_def h s r request_symbol_def
      FAPI_MAX_NUMBER_OF_CRCS_PER_SLOT_def FAPI_MAX_NUMBER_OF_ULSCH_PDUS_PER_SLOT_def)
qed

end
