(* ===== verification/Fapi_Slot_Safety.thy ===== *)
theory Fapi_Slot_Safety
  imports Fapi_Slots Fapi_Lifecycle
begin

text \<open>
  What the uplink slot records of an instance keep through the translation of any request or
  indication: their shape and their place.  Only UL_TTI.request and CRC.indication write records; the
  other translations leave the table as it is.
\<close>

section \<open>Steps of an instance\<close>

text \<open>The reports of a CRC change entries, not the shape.\<close>

lemma wf_record_measured [simp]: "wf_record (set_measured k c t r) = wf_record r"
  by (simp add: wf_record_def set_measured_def)

lemma at_place_measured [simp]: "at_place ij (set_measured k c t r) = at_place ij r"
  by (simp add: at_place_def set_measured_def)

lemma wf_slots_measured:
  assumes "wf_slots p" "in_table ij"
  shows "wf_slots (upd_slot u ij (set_measured k c t) p)"
proof -
  have r: "wf_record (get_slot u ij p)" "at_place ij (get_slot u ij p)" using assms unfolding wf_slots_def by blast+
  show ?thesis
    by (rule wf_slots_update [OF assms, of "set_measured k c t (get_slot u ij p)"]) (simp_all add: r upd_slot_def)
qed

lemma crc_entry_keeps:
  assumes "wf_slots p" "in_table ij" "crc_entry a u ij crcs i (v, p) = Done (e, v', q)"
  shows "wf_slots q"
proof (cases "nr5g_fapi_get_pusch_info (uq_nUEId (crcs ! i)) (get_slot u ij p)")
  case None
  then show ?thesis using assms by (auto simp: crc_entry_def Let_def)
next
  case (Some k)
  let ?c = "nr5g_fapi_convert_snr_iapi_to_fapi a (uq_nSNR (crcs ! i))" and ?p = "count_iapi_p7 Crc_pdus_cnt p"
  have u: "upd_slot u ij (\<lambda>r. r\<lparr>pusch_infos := (pusch_infos r)[k := (pusch_infos (get_slot u ij p) ! k)\<lparr>ul_cqi := ?c, timing_advance := 31\<rparr>]\<rparr>) ?p
      = upd_slot u ij (set_measured k ?c 31) ?p" by (rule upd_slot_cong) (simp add: set_measured_def)
  have "q = count_fapi_p7 Crc_pdus_cnt (upd_slot u ij (set_measured k ?c 31) ?p)"
    using assms(3) Some by (simp add: crc_entry_def Let_def u)
  then show ?thesis using wf_slots_measured [of ?p ij u k ?c 31] assms(1,2) by simp
qed

lemma found_in_table: "nr5g_fapi_get_ul_slot_info u fr slot symb p = Some ij \<Longrightarrow> in_table ij"
proof -
  assume "nr5g_fapi_get_ul_slot_info u fr slot symb p = Some ij"
  then have "ij \<in> set (List.product [0..<MAX_UL_SLOT_INFO_COUNT] [0..<MAX_UL_SYMBOL_INFO_COUNT])"
    unfolding nr5g_fapi_get_ul_slot_info_def Let_def find_Some_iff using nth_mem by blast
  then show ?thesis by (auto simp: in_table_def)
qed

lemma crc_translation_keeps:
  assumes "nr5g_fapi_crc_indication_to_fapi_translation a u ss crcs (v, p) = Done (ok, es, v', q)" "wf_slots p"
  shows "wf_slots q"
proof (cases "nr5g_fapi_get_ul_slot_info u (nSFN ss) (nSlot ss) (ucast (nSym ss)) p")
  case None
  then show ?thesis using assms by (simp add: nr5g_fapi_crc_indication_to_fapi_translation_def)
next
  case (Some ij)
  then have "entry_loop FAPI_MAX_NUMBER_OF_CRCS_PER_SLOT (crc_entry a u ij crcs) [0..<num_entries crcs] (v, p) = Done (ok, es, v', q)"
    using assms(1) by (simp add: nr5g_fapi_crc_indication_to_fapi_translation_def)
  then have "wf_slots (snd (v', q))"
    by (rule entry_loop_keeps) (use assms(2) crc_entry_keeps [OF _ found_in_table [OF Some]] in auto)
  then show ?thesis by simp
qed

lemma rx_translation_keeps:
  assumes "nr5g_fapi_rx_data_indication_to_fapi_translation u ss pdus (v, p) = Done (ok, es, v', q)"
  shows "ul_slot_info q = ul_slot_info p"
proof (cases "nr5g_fapi_get_ul_slot_info u (nSFN ss) (nSlot ss) (ucast (nSym ss)) p")
  case (Some ij)
  then have "entry_loop FAPI_MAX_NUMBER_OF_ULSCH_PDUS_PER_SLOT (rx_entry u ij pdus) [0..<num_entries pdus] (v, p) = Done (ok, es, v', q)"
    using assms(1) by (simp add: nr5g_fapi_rx_data_indication_to_fapi_translation_def)
  then have "ul_slot_info (snd (v', q)) = ul_slot_info p"
    by (rule entry_loop_keeps) (auto simp: rx_entry_def Let_def split: option.splits)
  then show ?thesis by simp
qed (use assms in \<open>simp add: nr5g_fapi_rx_data_indication_to_fapi_translation_def\<close>)

lemma uci_translation_keeps:
  assumes "nr5g_fapi_uci_indication_to_fapi_translation a u ss ucis (v, p) = Done (ok, es, v', q)"
  shows "ul_slot_info q = ul_slot_info p"
proof (cases "nr5g_fapi_get_ul_slot_info u (nSFN ss) (nSlot ss) (ucast (nSym ss)) p")
  case (Some ij)
  then have "entry_loop FAPI_MAX_NUMBER_UCI_PDUS_PER_SLOT (uci_entry a u ij ucis) [0..<num_entries ucis] (v, p) = Done (ok, es, v', q)"
    using assms(1) by (simp add: nr5g_fapi_uci_indication_to_fapi_translation_def)
  then have "ul_slot_info (snd (v', q)) = ul_slot_info p"
    by (rule entry_loop_keeps)
      (auto simp: uci_entry_def Let_def obind_Done_iff split: option.splits if_split_asm)
  then show ?thesis by simp
qed (use assms in \<open>simp add: nr5g_fapi_uci_indication_to_fapi_translation_def\<close>)

lemma uci_pusch_translation_keeps:
  assumes "nr5g_fapi_rx_data_uci_indication_to_fapi_translation ucis (v, p) = Done (ok, es, v', q)"
  shows "ul_slot_info q = ul_slot_info p"
proof -
  have "ul_slot_info (snd (v', q)) = ul_slot_info p"
    by (rule entry_loop_keeps [OF assms [unfolded nr5g_fapi_rx_data_uci_indication_to_fapi_translation_def]])
      (auto simp: uci_pusch_entry_def Let_def obind_Done_iff)
  then show ?thesis by simp
qed

lemma srs_translation_keeps:
  assumes "nr5g_fapi_srs_indication_to_fapi_translation u ss ests (v, p) = Done (ok, es, v', q)"
  shows "ul_slot_info q = ul_slot_info p"
proof (cases "nr5g_fapi_get_ul_slot_info u (nSFN ss) (nSlot ss) (ucast (nSym ss)) p")
  case (Some ij)
  then have "entry_loop FAPI_MAX_NUMBER_SRS_PDUS_PER_SLOT (srs_est_entry u ij ests) [0..<num_entries ests] (v, p) = Done (ok, es, v', q)"
    using assms(1) by (simp add: nr5g_fapi_srs_indication_to_fapi_translation_def)
  then have "ul_slot_info (snd (v', q)) = ul_slot_info p"
    by (rule entry_loop_keeps)
      (auto simp: srs_est_entry_def Let_def obind_Done_iff split: option.splits if_split_asm)
  then show ?thesis by simp
qed (use assms in \<open>simp add: nr5g_fapi_srs_indication_to_fapi_translation_def\<close>)

lemma rach_loop_keeps: "rach_loop cell i xs (n, r, p) = Done (m, r', q) \<Longrightarrow> ul_slot_info q = ul_slot_info p"
proof (induction xs arbitrary: i n r p)
  case (Cons x xs)
  then obtain n' t p' where s: "rach_step cell i x (n, r, p) = Done (n', t, p')" "rach_loop cell (i + 1) xs (n', t, p') = Done (m, r', q)"
    by (auto simp: obind_Done_iff)
  have "ul_slot_info p' = ul_slot_info p"
    using s(1) by (auto simp: rach_step_def Let_def obind_Done_iff split: if_split_asm option.splits)
  then show ?case using Cons.IH [OF s(2)] by simp
qed simp

lemma rach_translation_keeps:
  "nr5g_fapi_rach_indication_to_fapi_translation u ss xs rach p = Done (ok, n, r, q) \<Longrightarrow> ul_slot_info q = ul_slot_info p"
  by (auto simp: nr5g_fapi_rach_indication_to_fapi_translation_def obind_Done_iff split: option.splits if_split_asm dest!: rach_loop_keeps)


section \<open>Requests\<close>

lemma wf_slots_upd:
  assumes "wf_slots p" "in_table ij" "wf_record (f (get_slot u ij p))" "at_place ij (f (get_slot u ij p))" "ul_slot_info t = ul_slot_info p"
  shows "wf_slots (upd_slot u ij f t)"
  by (rule wf_slots_update [OF assms(1-4)], rule upd_slot_tables [OF assms(5)]) simp

lemma pusch_keeps:
  assumes "nr5g_fapi_pusch_to_phy_ulsch_translation a x i p = Done (s, info, q)"
  shows "ul_slot_info q = ul_slot_info p"
proof -
  have "q = count_iapi_p7 Ul_pusch_pdus_cnt (count_fapi_p7 Ul_pusch_pdus_cnt p)"
    using assms unfolding nr5g_fapi_pusch_to_phy_ulsch_translation_def Let_def obind_Done_iff case_prod_beta
    by (elim exE conjE) (simp only: outcome.inject prod.inject)
  then show ?thesis by simp
qed

lemma pucch_keeps: "nr5g_fapi_pucch_to_phy_ulcch_uci_translation a x p = (s, info, q) \<Longrightarrow> ul_slot_info q = ul_slot_info p"
  unfolding nr5g_fapi_pucch_to_phy_ulcch_uci_translation_def Let_def by (elim Pair_inject, hypsubst, simp only: slots_count)

lemma srs_keeps: "nr5g_fapi_srs_to_phy_srs_translation a x p = (s, h, q) \<Longrightarrow> ul_slot_info q = ul_slot_info p"
  unfolding nr5g_fapi_srs_to_phy_srs_translation_def Let_def by (elim Pair_inject, hypsubst, simp only: slots_count)

lemma record_grows:
  assumes "wf_record r" "at_place ij r"
  shows "unat (num_ulsch r) < length (pusch_infos r) \<Longrightarrow>
      wf_record (r\<lparr>pusch_infos := (pusch_infos r)[k := i], num_ulsch := num_ulsch r + 1\<rparr>)"
    "unat (num_ulcch r) < length (pucch_infos r) \<Longrightarrow>
      wf_record (r\<lparr>pucch_infos := (pucch_infos r)[k := j], num_ulcch := num_ulcch r + 1\<rparr>)"
    "unat (num_srs r) < length (srs_handles r) \<Longrightarrow>
      wf_record (r\<lparr>srs_handles := (srs_handles r)[k := h], num_srs := num_srs r + 1\<rparr>)"
    "at_place ij (r\<lparr>pusch_infos := is, num_ulsch := n\<rparr>)" "at_place ij (r\<lparr>pucch_infos := js, num_ulcch := n\<rparr>)"
    "at_place ij (r\<lparr>srs_handles := hs, num_srs := n\<rparr>)"
proof -
  have n: "unat (x + 1) = Suc (unat x)" if "unat x < m" "m < 256" for x :: u8 and m
    using that by (intro unat_Suc_small) linarith
  show "unat (num_ulsch r) < length (pusch_infos r) \<Longrightarrow> wf_record (r\<lparr>pusch_infos := (pusch_infos r)[k := i], num_ulsch := num_ulsch r + 1\<rparr>)"
    "unat (num_ulcch r) < length (pucch_infos r) \<Longrightarrow> wf_record (r\<lparr>pucch_infos := (pucch_infos r)[k := j], num_ulcch := num_ulcch r + 1\<rparr>)"
    "unat (num_srs r) < length (srs_handles r) \<Longrightarrow> wf_record (r\<lparr>srs_handles := (srs_handles r)[k := h], num_srs := num_srs r + 1\<rparr>)"
    using assms(1) n by (auto simp: wf_record_def FAPI_MAX_NUMBER_OF_ULSCH_PDUS_PER_SLOT_def FAPI_MAX_NUMBER_UCI_PDUS_PER_SLOT_def
        FAPI_MAX_NUMBER_SRS_PDUS_PER_SLOT_def)
qed (use assms in \<open>simp_all add: at_place_def\<close>)

lemma ul_pusch_keeps:
  assumes "ul_pusch a u ij x c p = Done (c', q)" "wf_slots p" "in_table ij"
  shows "wf_slots q"
proof -
  let ?r = "get_slot u ij p" and ?k = "unat (num_ulsch (get_slot u ij p))"
  have r: "wf_record ?r" "at_place ij ?r" using assms(2,3) unfolding wf_slots_def by blast+
  obtain s info t where k: "?k < length (pusch_infos ?r)"
    and t: "nr5g_fapi_pusch_to_phy_ulsch_translation a x (pusch_infos ?r ! ?k) p = Done (s, info, t)"
    and q: "q = upd_slot u ij (\<lambda>r. r\<lparr>pusch_infos := (pusch_infos r)[?k := info], num_ulsch := num_ulsch r + 1\<rparr>) t"
    using assms(1) by (auto simp: ul_pusch_def Let_def obind_Done_iff split: if_split_asm)
  show ?thesis unfolding q by (rule wf_slots_upd [OF assms(2,3)]) (rule record_grows(1,4) [OF r] k pusch_keeps [OF t])+
qed

lemma ul_pucch_keeps:
  assumes "ul_pucch a u ij x c p = Done (c', q)" "wf_slots p" "in_table ij"
  shows "wf_slots q"
proof -
  let ?r = "get_slot u ij p" and ?k = "unat (num_ulcch (get_slot u ij p))"
  have r: "wf_record ?r" "at_place ij ?r" using assms(2,3) unfolding wf_slots_def by blast+
  obtain s info t where k: "?k < length (pucch_infos ?r)"
    and t: "nr5g_fapi_pucch_to_phy_ulcch_uci_translation a x p = (s, info, t)"
    and q: "q = upd_slot u ij (\<lambda>r. r\<lparr>pucch_infos := (pucch_infos r)[?k := info], num_ulcch := num_ulcch r + 1\<rparr>) t"
    using assms(1) by (auto simp: ul_pucch_def Let_def obind_Done_iff split: if_split_asm prod.splits)
  show ?thesis unfolding q by (rule wf_slots_upd [OF assms(2,3)]) (rule record_grows(2,5) [OF r] k pucch_keeps [OF t])+
qed

lemma ul_srs_keeps:
  assumes "ul_srs a u ij x c p = Done (c', q)" "wf_slots p" "in_table ij"
  shows "wf_slots q"
proof -
  let ?r = "get_slot u ij p" and ?k = "unat (num_srs (get_slot u ij p))"
  have r: "wf_record ?r" "at_place ij ?r" using assms(2,3) unfolding wf_slots_def by blast+
  obtain s hnd t where k: "?k < length (srs_handles ?r)"
    and t: "nr5g_fapi_srs_to_phy_srs_translation a x p = (s, hnd, t)"
    and q: "q = upd_slot u ij (\<lambda>r. r\<lparr>srs_handles := (srs_handles r)[?k := hnd], num_srs := num_srs r + 1\<rparr>) t"
    using assms(1) by (auto simp: ul_srs_def Let_def obind_Done_iff split: if_split_asm prod.splits)
  show ?thesis unfolding q by (rule wf_slots_upd [OF assms(2,3)]) (rule record_grows(3,6) [OF r] k srs_keeps [OF t])+
qed

lemma wf_slots_cong: "ul_slot_info p = ul_slot_info q \<Longrightarrow> wf_slots p = wf_slots q"
  using get_slot_cong [of p q] has_tables_cong [of p q] by (simp add: wf_slots_def)

lemma wf_slots_counts [simp]: "wf_slots (count_fapi_p7 k p) = wf_slots p" "wf_slots (count_iapi_p7 k p) = wf_slots p"
  by (rule wf_slots_cong, simp)+

lemmas ul_pdu_keeps = ul_pusch_keeps ul_pucch_keeps ul_srs_keeps

lemma ul_pdu_loop_keeps:
  "ul_pdu_loop a u ij pdus is c p = Done (ok, c', q) \<Longrightarrow> wf_slots p \<Longrightarrow> in_table ij \<Longrightarrow> wf_slots q"
proof (induction "is" arbitrary: c p)
  case (Cons i "is")
  let ?p = "count_fapi_p7 Ul_pdus_cnt p"
  have i: "i < length pdus" using Cons.prems(1) by (auto simp: Let_def split: if_split_asm)
  have p: "wf_slots ?p" using Cons.prems(2) by simp
  note next_ = Cons.IH [OF _ _ Cons.prems(3)]
  show ?case using Cons.prems(1) i p
    by (cases "pdus ! i")
      (auto simp: Let_def obind_Done_iff split: if_split_asm intro: next_ elim!: next_ dest: ul_pdu_keeps [OF _ p Cons.prems(3)])
qed simp

lemma opened_keeps:
  assumes "wf_slots p" "ij = slot_place slot symb"
  shows "wf_slots (upd_slot u ij (\<lambda>_. nr5g_fapi_set_ul_slot_info fr (ucast slot) symb) p)"
proof (rule wf_slots_upd [OF assms(1)])
  show "wf_record (nr5g_fapi_set_ul_slot_info fr (ucast slot) symb)"
    by (simp add: wf_record_def nr5g_fapi_set_ul_slot_info_def zero_ul_slot_info_def)
  show "at_place ij (nr5g_fapi_set_ul_slot_info fr (ucast slot) symb)"
    by (simp add: at_place_def nr5g_fapi_set_ul_slot_info_def assms(2))
qed (simp_all add: assms(2))

lemma rach_keeps:
  assumes "wf_slots p" "in_table ij"
  shows "wf_slots (upd_slot u ij (\<lambda>r. r\<lparr>rach_presence := x, rach_phy_cell_id := y\<rparr>) p)"
proof -
  have r: "wf_record (get_slot u ij p)" "at_place ij (get_slot u ij p)" using assms unfolding wf_slots_def by blast+
  show ?thesis by (rule wf_slots_upd [OF assms]) (use r in \<open>simp_all add: wf_record_def at_place_def\<close>)
qed

lemma ul_translation_keeps:
  assumes "nr5g_fapi_ul_tti_req_to_phy_translation a u req vm c p = Done (ok, c', q)" "wf_slots p"
  shows "wf_slots q"
proof -
  let ?c = "c\<lparr>uc_slot := (uc_slot c)\<lparr>nSFN := ut_sfn req, nSlot := ut_slot req, nCarrier := ucast (phy_id p)\<rparr>\<rparr>"
  show ?thesis
  proof (cases "symbol_of_request u vm ?c")
    case None
    then show ?thesis using assms by (simp add: nr5g_fapi_ul_tti_req_to_phy_translation_def Let_def)
  next
    case (Some y)
    obtain symb c2 where y: "y = (symb, c2)" by (cases y)
    let ?slot = "ucast (nSlot (uc_slot ?c)) :: u8"
    let ?ij = "slot_place ?slot symb"
    let ?p1 = "upd_slot u ?ij (\<lambda>_. nr5g_fapi_set_ul_slot_info (nSFN (uc_slot ?c)) (ucast ?slot) symb) p"
    have p1: "wf_slots ?p1" by (rule opened_keeps [OF assms(2) refl])
    have p2: "wf_slots (upd_slot u ?ij (\<lambda>r. r\<lparr>rach_presence := 1, rach_phy_cell_id := phy_cell_id (inst_config ?p1)\<rparr>) ?p1)"
      by (rule rach_keeps [OF p1]) simp
    show ?thesis
      using assms(1) p1 p2 unfolding nr5g_fapi_ul_tti_req_to_phy_translation_def Let_def Some y option.case case_prod_conv
        slot_place_def [symmetric] obind_Done_iff case_prod_beta
      by (elim exE conjE) (cases "ut_rachPresent req = 0"; auto split: if_split_asm option.splits simp: obind_Done_iff
          elim: ul_pdu_loop_keeps [OF _ _ in_table_place])
  qed
qed

text \<open>The other requests only count.\<close>

lemma dci_keeps:
  assumes "nr5g_fapi_fill_dci_pdu a x p = Done (s, q)"
  shows "ul_slot_info q = ul_slot_info p"
proof -
  have "q = count_iapi_p7 Dl_pdcch_pdus_cnt (count_fapi_p7 Dl_pdcch_pdus_cnt p)"
    using assms unfolding nr5g_fapi_fill_dci_pdu_def Let_def obind_Done_iff
    by (elim exE conjE) (simp only: outcome.inject prod.inject)
  then show ?thesis by simp
qed

lemma pdsch_keeps:
  assumes "nr5g_fapi_fill_pdsch_pdu a x p = Done (s, q)"
  shows "ul_slot_info q = ul_slot_info p"
proof -
  have "q = count_iapi_p7 Dl_pdsch_pdus_cnt (count_fapi_p7 Dl_pdsch_pdus_cnt p)"
    using assms unfolding nr5g_fapi_fill_pdsch_pdu_def Let_def obind_Done_iff case_prod_beta
    by (elim exE conjE) (simp only: outcome.inject prod.inject)
  then show ?thesis by simp
qed

lemma ssb_keeps:
  assumes "nr5g_fapi_fill_ssb_pdu a x p = Done (s, q)"
  shows "ul_slot_info q = ul_slot_info p"
proof -
  have "q = count_iapi_p7 Dl_ssb_pdus_cnt (count_fapi_p7 Dl_ssb_pdus_cnt p)"
    using assms unfolding nr5g_fapi_fill_ssb_pdu_def Let_def obind_Done_iff
    by (elim exE conjE) (simp only: outcome.inject prod.inject)
  then show ?thesis by simp
qed

lemma csi_rs_keeps: "nr5g_fapi_fill_csi_rs_pdu a x p = (s, q) \<Longrightarrow> ul_slot_info q = ul_slot_info p"
  unfolding nr5g_fapi_fill_csi_rs_pdu_def Let_def by (elim Pair_inject, hypsubst, simp only: slots_count)

lemma dl_pdu_keeps: "dl_pdu_of a x p = Done (Some (y, q)) \<Longrightarrow> ul_slot_info q = ul_slot_info p"
  by (cases x) (auto simp: dl_pdu_of_def obind_Done_iff split: prod.splits
      dest: dci_keeps pdsch_keeps ssb_keeps csi_rs_keeps)

lemma dl_pdu_loop_keeps: "dl_pdu_loop a pdus is c p = Done (ok, c', q) \<Longrightarrow> ul_slot_info q = ul_slot_info p"
proof (induction "is" arbitrary: c p)
  case (Cons i "is")
  have i: "i < length pdus" using Cons.prems(1) by (auto split: if_split_asm)
  obtain r where r: "dl_pdu_of a (pdus ! i) (count_fapi_p7 Dl_pdus_cnt p) = Done r"
    using Cons.prems i by (auto simp: Let_def obind_Done_iff)
  show ?case
  proof (cases r)
    case None
    then show ?thesis using Cons.prems i r by (auto simp: Let_def)
  next
    case (Some y)
    then obtain x t where y: "r = Some (x, t)" by (cases y) auto
    obtain c2 where "dl_pdu_loop a pdus is c2 (count_iapi_p7 Dl_pdus_cnt t) = Done (ok, c', q)"
      using Cons.prems i r y by (auto simp: Let_def obind_Done_iff)
    then show ?thesis using Cons.IH dl_pdu_keeps [OF r [unfolded y]] by simp
  qed
qed simp

lemma dl_translation_keeps:
  assumes "nr5g_fapi_dl_tti_req_to_phy_translation a req vm p = Done (ok, n, c, q)"
  shows "ul_slot_info q = ul_slot_info p"
  using assms unfolding nr5g_fapi_dl_tti_req_to_phy_translation_def Let_def
  by (auto simp: obind_Done_iff split: if_split_asm option.splits dest: dl_pdu_loop_keeps)

lemma slots_counted [simp]: "ul_slot_info ((count_fapi_p7 k ^^ n) p) = ul_slot_info p"
  by (induction n) simp_all

lemma ul_dci_translation_keeps:
  "nr5g_fapi_ul_dci_req_to_phy_translation a req old c p = Done (c', q) \<Longrightarrow> ul_slot_info q = ul_slot_info p"
  by (auto simp: nr5g_fapi_ul_dci_req_to_phy_translation_def Let_def obind_Done_iff)

text \<open>The cleaning of an instance clears one record.\<close>

lemma cleaned_slots: "ul_slot_info (clean_instance p) = ul_slot_info (upd_slot False (0, 0) (\<lambda>_. zero_ul_slot_info) p)"
  by (simp add: clean_instance_def upd_slot_def ul_table_def)

lemma wf_slots_clean: "wf_slots p \<Longrightarrow> wf_slots (clean_instance p)"
proof (rule wf_slots_update [OF _ _ _ _ cleaned_slots])
  show "in_table (0, 0)" by (simp add: in_table_def MAX_UL_SLOT_INFO_COUNT_def MAX_UL_SYMBOL_INFO_COUNT_def)
qed (simp_all add: wf_record_def at_place_def zero_ul_slot_info_def)

end
