(* ===== verification/Fapi_Rounds.thy ===== *)
theory Fapi_Rounds
  imports Fapi_Slot_Safety
begin

text \<open>
  The rounds of the threads of the FAPI layer, with the slot messages of \<open>Fapi_P7\<close>.  What the slot
  messages and the cleaning of an instance keep of the instances is kept by every round; in
  particular the records of the uplink slots stay at their places, so that the search for a record
  is a direct access (C25).
\<close>

section \<open>What a round keeps\<close>




section \<open>The slot messages keep the records at their places\<close>
















section \<open>The handlers\<close>





section \<open>Reachable states\<close>








section \<open>A round with a request\<close>










section \<open>Properties\<close>



end
