(* ===== verification/Fapi_Tx_Data.thy ===== *)
theory Fapi_Tx_Data
  imports Fapi_P7
begin

text \<open>
  TX_DATA.request: the code words of a PDU, which may stand anywhere in the request, are put together
  by the index of the PDU (C36).  The invariant of the loop says what has been gathered after each
  descriptor.
\<close>

section \<open>What is gathered\<close>

text \<open>The elements of a list in the order of their first occurrence.\<close>

definition firsts :: "'a list \<Rightarrow> 'a list" where
  "firsts xs = rev (remdups (rev xs))"

lemma firsts_snoc [simp]: "firsts [] = []" "firsts (xs @ [x]) = (if x \<in> set xs then firsts xs else firsts xs @ [x])"
  by (simp_all add: firsts_def)

lemma firsts_facts [simp]: "set (firsts xs) = set xs" "distinct (firsts xs)"
  by (simp_all add: firsts_def)

definition tx_keys :: "fapi_tx_pdu_desc list \<Rightarrow> nat \<Rightarrow> u16 list" where
  "tx_keys ds m = map (\<lambda>i. tx_pdu_index (ds ! i)) [0..<m]"

definition tx_indices :: "fapi_tx_pdu_desc list \<Rightarrow> nat \<Rightarrow> u16 \<Rightarrow> nat list" where
  "tx_indices ds m k = filter (\<lambda>i. tx_pdu_index (ds ! i) = k) [0..<m]"

definition tx_entry :: "fapi_tx_pdu_desc list \<Rightarrow> nat \<Rightarrow> u16 \<Rightarrow> gathered" where
  "tx_entry ds m k = (let is = tx_indices ds m k in (k, hd is, if length is = 1 then None else Some (last is)))"

lemma tx_keys_Suc [simp]: "tx_keys ds 0 = []" "tx_keys ds (Suc m) = tx_keys ds m @ [tx_pdu_index (ds ! m)]"
  by (simp_all add: tx_keys_def)

lemma tx_indices_Suc [simp]:
  "tx_indices ds (Suc m) k = (if tx_pdu_index (ds ! m) = k then tx_indices ds m k @ [m] else tx_indices ds m k)"
  by (simp add: tx_indices_def)

lemma tx_indices_empty: "tx_indices ds m k = [] \<longleftrightarrow> k \<notin> set (tx_keys ds m)"
  by (auto simp: tx_indices_def tx_keys_def filter_empty_conv)

lemma tx_entry_other: "tx_pdu_index (ds ! m) \<noteq> k \<Longrightarrow> tx_entry ds (Suc m) k = tx_entry ds m k"
  by (simp add: tx_entry_def)

lemma tx_entry_new: "k \<notin> set (tx_keys ds m) \<Longrightarrow> tx_pdu_index (ds ! m) = k \<Longrightarrow> tx_entry ds (Suc m) k = (k, m, None)"
  using tx_indices_empty [of ds m k] by (simp add: tx_entry_def)

lemma tx_entry_again:
  "k \<in> set (tx_keys ds m) \<Longrightarrow> tx_pdu_index (ds ! m) = k \<Longrightarrow>
     tx_entry ds (Suc m) k = (k, fst (snd (tx_entry ds m k)), Some m)"
  using tx_indices_empty [of ds m k] by (simp add: tx_entry_def Let_def)

lemma fst_tx_entry [simp]: "fst (tx_entry ds m k) = k"
  by (simp add: tx_entry_def Let_def)

lemma gather_one_new: "k \<notin> fst ` set g \<Longrightarrow> gather_one k i g = g @ [(k, i, None)]"
  by (induction k i g rule: gather_one.induct) auto

lemma gather_one_again:
  "distinct ks \<Longrightarrow> k \<in> set ks \<Longrightarrow> \<forall>x\<in>set ks. fst (f x) = x \<Longrightarrow>
     gather_one k i (map f ks) = map (\<lambda>x. if x = k then (k, fst (snd (f k)), Some i) else f x) ks"
proof (induction ks)
  case (Cons x ks)
  obtain c1 c2 where f: "f x = (x, c1, c2)" using Cons.prems(3) by (cases "f x") auto
  have "map f ks = map (\<lambda>y. if y = x then (x, fst (snd (f x)), Some i) else f y) ks"
    using Cons.prems(1) by auto
  then show ?case using Cons f by (cases "x = k") auto
qed simp

definition gather_step :: "fapi_tx_pdu_desc list \<Rightarrow> nat \<Rightarrow> gathered list \<Rightarrow> gathered list" where
  "gather_step ds i g = (let k = tx_pdu_index (ds ! i)
     in if k \<in> fst ` set g \<or> length g < FAPI_MAX_NUMBER_DL_PDUS_PER_TTI then gather_one k i g else g)"

lemma gather_loop_fold:
  "\<forall>i\<in>set is. i < length ds \<Longrightarrow> gather_loop ds is g = Done (fold (gather_step ds) is g)"
  by (induction "is" arbitrary: g) (simp_all add: gather_step_def Let_def)

text \<open>The invariant.\<close>

definition gathered_upto :: "fapi_tx_pdu_desc list \<Rightarrow> nat \<Rightarrow> gathered list" where
  "gathered_upto ds m = map (tx_entry ds m) (take FAPI_MAX_NUMBER_DL_PDUS_PER_TTI (firsts (tx_keys ds m)))"

lemma gather_step_upto: "gather_step ds m (gathered_upto ds m) = gathered_upto ds (Suc m)"
proof -
  let ?k = "tx_pdu_index (ds ! m)" and ?M = FAPI_MAX_NUMBER_DL_PDUS_PER_TTI
  let ?F = "firsts (tx_keys ds m)"
  have fst_set: "fst ` set (gathered_upto ds m) = set (take ?M ?F)"
    by (auto simp: gathered_upto_def image_iff)
  have len: "length (gathered_upto ds m) = min (length ?F) ?M" by (simp add: gathered_upto_def min.commute)
  have other: "map (tx_entry ds (Suc m)) ks = map (tx_entry ds m) ks" if "?k \<notin> set ks" for ks
    using that by (auto intro!: tx_entry_other)
  show ?thesis
  proof (cases "?k \<in> set (tx_keys ds m)")
    case True
    then have next_: "gathered_upto ds (Suc m) = map (tx_entry ds (Suc m)) (take ?M ?F)" by (simp add: gathered_upto_def)
    show ?thesis
    proof (cases "?k \<in> set (take ?M ?F)")
      case in_: True
      have "gather_one ?k m (gathered_upto ds m)
          = map (\<lambda>x. if x = ?k then (?k, fst (snd (tx_entry ds m ?k)), Some m) else tx_entry ds m x) (take ?M ?F)"
        unfolding gathered_upto_def by (rule gather_one_again [OF _ in_]) simp_all
      also have "\<dots> = gathered_upto ds (Suc m)"
        unfolding next_ using tx_entry_again [OF True refl] tx_entry_other by auto
      finally show ?thesis using in_ by (simp add: gather_step_def Let_def fst_set)
    next
      case out: False
      have "\<not> length (gathered_upto ds m) < ?M"
        using True out by (auto simp: len)
      then show ?thesis using out other [OF out] by (simp add: gather_step_def Let_def fst_set next_) (simp add: gathered_upto_def)
    qed
  next
    case new: False
    then have k: "?k \<notin> set (take ?M ?F)" by (metis firsts_facts(1) in_set_takeD)
    show ?thesis
    proof (cases "length ?F < ?M")
      case True
      then show ?thesis using new k gather_one_new [of ?k "gathered_upto ds m" m] other [of ?F] tx_entry_new [OF new refl]
        by (simp add: gather_step_def Let_def fst_set len) (simp add: gathered_upto_def)
    next
      case False
      then show ?thesis using new k other [OF k] by (simp add: gather_step_def Let_def fst_set len) (simp add: gathered_upto_def)
    qed
  qed
qed

lemma gather_fold: "fold (gather_step ds) [0..<m] [] = gathered_upto ds m"
  by (induction m) (simp_all add: gather_step_upto, simp add: gathered_upto_def)

lemma gather_loop_out: "\<exists>i\<in>set is. \<not> i < length ds \<Longrightarrow> gather_loop ds is g = Undefined"
  by (induction "is" arbitrary: g) (auto simp: Let_def)

section \<open>The code words of a PDU\<close>

definition tx_code_words :: "fapi_tx_pdu_desc list \<Rightarrow> u16 \<Rightarrow> zbc_pdu" where
  "tx_code_words ds k =
     (let xs = filter (\<lambda>d. tx_pdu_index d = k) ds; (l1, p1) = tx_payload (hd xs);
          (l2, p2) = (if length xs = 1 then (0, 0) else tx_payload (last xs))
      in \<lparr>nPduIdx = k, nPduLen1 = l1, pPayload1 = p1, nPduLen2 = l2, pPayload2 = p2\<rparr>)"

lemma tx_indices_filter:
  assumes "m \<le> length ds"
  shows "filter (\<lambda>d. tx_pdu_index d = k) (take m ds) = map ((!) ds) (tx_indices ds m k)"
proof -
  have "take m ds = map ((!) ds) [0..<m]" using assms by (intro nth_equalityI) simp_all
  then show ?thesis by (simp add: tx_indices_def filter_map comp_def)
qed

lemma tx_pdu_entry:
  assumes "m \<le> length ds" "k \<in> set (tx_keys ds m)"
  shows "tx_pdu ds (tx_entry ds m k) = tx_code_words (take m ds) k"
proof -
  have ne: "tx_indices ds m k \<noteq> []" using assms(2) by (simp add: tx_indices_empty)
  then have "hd (tx_indices ds m k) \<in> set (tx_indices ds m k)" by simp
  then have "tx_pdu_index (ds ! hd (tx_indices ds m k)) = k" by (simp add: tx_indices_def)
  then show ?thesis using ne
    by (simp add: tx_pdu_def tx_entry_def tx_code_words_def tx_indices_filter [OF assms(1)] hd_map last_map Let_def)
qed

section \<open>Property\<close>

text \<open>C36: TX_DATA.request gives the PHY one PDU for each index that occurs in its descriptors, in the
  order of the first occurrences and at most 129.  Its first code word is the payload of the first
  descriptor with the index, its second that of the last one if there are several.  Behind these PDUs
  stands what was in the block, up to the number of descriptors, which the message announces.  A
  request with fewer descriptors than it says is read out of bounds.\<close>

theorem tx_data_puts_code_words_together:
  "nr5g_fapi_tx_data_req_to_phy_translation req vm old p =
     (let n = unat (td_num_pdus req); ds = take n (td_pdu_desc req);
          ks = take FAPI_MAX_NUMBER_DL_PDUS_PER_TTI (firsts (map tx_pdu_index ds))
      in if length (td_pdu_desc req) < n then Undefined
         else Done (\<lparr>nSFN = td_sfn req, nSlot = td_slot req, nCarrier = ucast (phy_id p),
                     nSym = (case vm of None \<Rightarrow> 0 | Some v \<Rightarrow> ucast (v7_tx_sym v))\<rparr>,
                map (tx_code_words ds) ks @ map old [length ks..<n]))"
proof -
  let ?n = "unat (td_num_pdus req)" and ?ds = "td_pdu_desc req"
  show ?thesis
  proof (cases "length ?ds < ?n")
    case True
    then have "gather_loop ?ds [0..<?n] [] = Undefined" by (intro gather_loop_out) auto
    then show ?thesis using True by (simp add: nr5g_fapi_tx_data_req_to_phy_translation_def Let_def)
  next
    case False
    then have n: "?n \<le> length ?ds" by simp
    have keys: "map tx_pdu_index (take ?n ?ds) = tx_keys ?ds ?n"
      using n by (intro nth_equalityI) (simp_all add: tx_keys_def)
    have "gather_loop ?ds [0..<?n] [] = Done (gathered_upto ?ds ?n)"
      using gather_loop_fold [of "[0..<?n]" ?ds "[]"] n gather_fold by simp
    moreover have "map (tx_pdu ?ds) (gathered_upto ?ds ?n)
        = map (tx_code_words (take ?n ?ds)) (take FAPI_MAX_NUMBER_DL_PDUS_PER_TTI (firsts (tx_keys ?ds ?n)))"
      by (auto simp: gathered_upto_def dest!: in_set_takeD intro!: tx_pdu_entry [OF n])
    moreover have "length (gathered_upto ?ds ?n) = length (take FAPI_MAX_NUMBER_DL_PDUS_PER_TTI (firsts (tx_keys ?ds ?n)))"
      by (simp add: gathered_upto_def)
    ultimately show ?thesis
      using False by (simp add: nr5g_fapi_tx_data_req_to_phy_translation_def Let_def keys del: length_take)
  qed
qed

theorem tx_data_puts_code_words_together_witness:
  "\<forall>old p. nr5g_fapi_tx_data_req_to_phy_translation
     \<lparr>td_sfn = 7, td_slot = 3, td_num_pdus = 3,
      td_pdu_desc = [\<lparr>tx_pdu_index = 4, tx_tag = 0x103, tx_length = 2, tx_value = 0x1000\<rparr>,
        \<lparr>tx_pdu_index = 5, tx_tag = 3, tx_length = 8, tx_value = 0x2000\<rparr>,
        \<lparr>tx_pdu_index = 4, tx_tag = 3, tx_length = 9, tx_value = 0x3000\<rparr>]\<rparr> None old p
   = Done (\<lparr>nSFN = 7, nSlot = 3, nCarrier = ucast (phy_id p), nSym = 0\<rparr>,
       [\<lparr>nPduIdx = 4, nPduLen1 = 0x10002, pPayload1 = 0x1000, nPduLen2 = 9, pPayload2 = 0x3000\<rparr>,
        \<lparr>nPduIdx = 5, nPduLen1 = 8, pPayload1 = 0x2000, nPduLen2 = 0, pPayload2 = 0\<rparr>, old 2])" (is "\<forall>old p. ?P old p")
proof (intro allI)
  fix old p
  have "[Suc (Suc 0)..<3] = [2]" by (simp add: upt_rec)
  then show "?P old p"
    by (simp add: tx_data_puts_code_words_together Let_def firsts_def tx_code_words_def tx_payload_def
        FAPI_TX_DATA_PTR_TO_PAYLOAD_64_def FAPI_MAX_NUMBER_DL_PDUS_PER_TTI_def)
qed

end
