(* ===== verification/Fapi_Reports.thy ===== *)
theory Fapi_Reports
  imports Fapi_Slots
begin

text \<open>
  The reports of a slot: UCI.indication (on PUCCH) and SRS.indication against the PUCCH and SRS PDUs
  of the UL_TTI.request that asked for them.
\<close>

section \<open>What the record says\<close>

definition first_pucch :: "fapi_ul_tti_req \<Rightarrow> u16 \<Rightarrow> fapi_ul_pucch_pdu option" where
  "first_pucch req ue = List.find (\<lambda>x. ucast (pc_handle x) = ue) (pucchs (request_pdus req))"

definition first_srs :: "fapi_ul_tti_req \<Rightarrow> u16 \<Rightarrow> fapi_ul_srs_pdu option" where
  "first_srs req ue = List.find (\<lambda>x. ucast (sr_handle x) = ue) (srss (request_pdus req))"

definition reports_for :: "fapi_ul_tti_req \<Rightarrow> nr5g_fapi_ul_slot_info \<Rightarrow> bool" where
  "reports_for req r \<longleftrightarrow>
     (\<forall>ue. map_option ((!) (pucch_infos r)) (nr5g_fapi_get_pucch_info ue r) = map_option requested_uci (first_pucch req ue))
     \<and> (\<forall>ue. map_option ((!) (srs_handles r)) (nr5g_fapi_get_srs_info ue r) = map_option requested_srs (first_srs req ue))"

lemma registered_reports:
  assumes "registered (requested_record req symb cell) (request_pdus req) r"
  shows "reports_for req r"
proof -
  have l: "pucch_list r = map requested_uci (pucchs (request_pdus req))" "srs_list r = map requested_srs (srss (request_pdus req))"
    "wf_record r"
    using assms by (simp_all add: registered_def requested_record_wf)
  have "map_option ((!) (pucch_infos r)) (nr5g_fapi_get_pucch_info ue r) = List.find (\<lambda>i. fst i = ucast ue) (pucch_list r)"
    "map_option ((!) (srs_handles r)) (nr5g_fapi_get_srs_info ue r) = List.find (\<lambda>i. i = ucast ue) (srs_list r)" for ue
    using l(3) by (simp_all add: nr5g_fapi_get_pucch_info_def nr5g_fapi_get_srs_info_def pucch_list_def srs_list_def
        take_as_map wf_record_def find_map_option)
  then show ?thesis
    by (simp add: reports_for_def l(1,2) find_map_option first_pucch_def first_srs_def requested_uci_def requested_srs_def ucast_id_eq)
qed

lemma reports_at:
  assumes "reports_for req r"
  shows "nr5g_fapi_get_pucch_info ue r = None \<longleftrightarrow> first_pucch req ue = None"
    "nr5g_fapi_get_pucch_info ue r = Some k \<Longrightarrow> \<exists>y. first_pucch req ue = Some y \<and> pucch_infos r ! k = requested_uci y"
    "nr5g_fapi_get_srs_info ue r = None \<longleftrightarrow> first_srs req ue = None"
    "nr5g_fapi_get_srs_info ue r = Some k \<Longrightarrow> \<exists>y. first_srs req ue = Some y \<and> srs_handles r ! k = requested_srs y"
proof -
  have p: "map_option ((!) (pucch_infos r)) (nr5g_fapi_get_pucch_info ue r) = map_option requested_uci (first_pucch req ue)"
    and s: "map_option ((!) (srs_handles r)) (nr5g_fapi_get_srs_info ue r) = map_option requested_srs (first_srs req ue)"
    using assms by (simp_all add: reports_for_def)
  show "nr5g_fapi_get_pucch_info ue r = None \<longleftrightarrow> first_pucch req ue = None" using p by (metis map_option_is_None)
  show "nr5g_fapi_get_srs_info ue r = None \<longleftrightarrow> first_srs req ue = None" using s by (metis map_option_is_None)
  show "nr5g_fapi_get_pucch_info ue r = Some k \<Longrightarrow> \<exists>y. first_pucch req ue = Some y \<and> pucch_infos r ! k = requested_uci y"
    using p by (cases "first_pucch req ue") auto
  show "nr5g_fapi_get_srs_info ue r = Some k \<Longrightarrow> \<exists>y. first_srs req ue = Some y \<and> srs_handles r ! k = requested_srs y"
    using s by (cases "first_srs req ue") auto
qed

section \<open>The reports that are asked for\<close>

text \<open>A report on PUCCH: the handle (its lower 16 bits) and the format of the request; bit 0 of the bit map
  and the scheduling request when one is present, bit 1, the signal strength and the HARQ values
  when the PUCCH was detected.  The formats above 4 are refused.\<close>

definition uci_answer :: "p7_api \<Rightarrow> (u16 \<Rightarrow> fapi_ul_pucch_pdu option) \<Rightarrow> ul_uci_data \<Rightarrow> fapi_uci_pdu_info option" where
  "uci_answer a H x =
     (case H (ui_nUEId x) of None \<Rightarrow> None
      | Some y \<Rightarrow>
          let hnd = ucast (ucast (pc_handle y) :: u16); sr = (ui_nSRPresent x \<noteq> 0); det = (ui_pucchDetected x = 1);
              bitmap = (if sr then 1 else 0) + (if det then 2 else 0); cqi = nr5g_fapi_convert_snr_iapi_to_fapi a (ui_nSNR x);
              rssi = (if det then 880 else 0); n = unat (ui_nPduBitLen x)
          in if pc_formatType y \<le> 1 then
               Some (Uci_pucch_f0f1 \<lparr>uf_handle = hnd, uf_pduBitmap = bitmap, uf_pucchFormat = pc_formatType y, uf_ul_cqi = cqi,
                 uf_rnti = ui_nRNTI x, uf_timingAdvance = 31, uf_rssi = rssi,
                 uf_srIndication = of_bool sr, uf_srConfidenceLevel = (if sr then 0xFF else 0),
                 uf_numHarq = (if det then of_nat n else 0), uf_harqConfidenceLevel = (if det then 0xFF else 0),
                 uf_harqValue = (if det then take n (ui_nUciBits x) @ replicate (2 - n) 0 else [0, 0])\<rparr>)
             else if pc_formatType y \<le> 4 then
               Some (Uci_pucch_f2f3f4 \<lparr>ug_handle = hnd, ug_pduBitmap = bitmap, ug_pucchFormat = pc_formatType y, ug_ul_cqi = cqi,
                 ug_rnti = ui_nRNTI x, ug_timingAdvance = 31, ug_rssi = rssi, ug_num_uci_bits = ui_nPduBitLen x,
                 ug_uciBits = (if n = 0 then None else Some (take 256 (ui_nUciBits x)))\<rparr>)
             else None)"

text \<open>The bits the PHY announces: no more HARQ values than the report has places for, and the whole array
  for the longer formats.\<close>

definition uci_readable :: "(u16 \<Rightarrow> fapi_ul_pucch_pdu option) \<Rightarrow> ul_uci_data \<Rightarrow> bool" where
  "uci_readable H x \<longleftrightarrow> (case H (ui_nUEId x) of None \<Rightarrow> True
     | Some y \<Rightarrow> (if pc_formatType y \<le> 1 then ui_pucchDetected x = 1 \<longrightarrow>
           unat (ui_nPduBitLen x) \<le> 2 \<and> unat (ui_nPduBitLen x) \<le> length (ui_nUciBits x)
         else 0 < ui_nPduBitLen x \<longrightarrow> 256 \<le> length (ui_nUciBits x)))"

text \<open>A sounding report: the SNR of the band is the mean over the symbols, rounded towards 0, and it and
  those of the resource blocks, which the PHY reports in rows of 68, are given as steps of half a dB
  from -64 dB.\<close>

definition band_sum :: "ul_srs_est \<Rightarrow> int" where
  "band_sum x = sum_list (take (unat (ue_nNrOfSymbols x)) (ue_nWideBandSNR x))"

definition srs_answer :: "(u16 \<Rightarrow> fapi_ul_srs_pdu option) \<Rightarrow> ul_srs_est \<Rightarrow> fapi_srs_pdu option" where
  "srs_answer H x = map_option (\<lambda>y.
     let n = uint (ue_nNrOfSymbols x); mean = sgn (band_sum x) * (\<bar>band_sum x\<bar> div n); rbs = 4 * unat (ue_nNrOfBlocks x)
     in \<lparr>sp_handle = ucast (ucast (sr_handle y) :: u16), sp_rnti = ue_nRNTI x, sp_timingAdvance = 0xFFFF,
         sp_numSymbols = ue_nNrOfSymbols x, sp_wideBandSnr = word_of_int (2 * (mean + 64)), sp_numReportedSymbols = 1,
         sp_numRbs = of_nat rbs, sp_rbSNR = map (\<lambda>k. 2 * (ue_nBlockSNR x ! (k div 68) ! (k mod 68) + 64)) [0..<rbs]\<rparr>)
     (H (ue_nUEId x))"

definition srs_readable :: "ul_srs_est \<Rightarrow> bool" where
  "srs_readable x \<longleftrightarrow> ue_nNrOfSymbols x \<noteq> 0 \<and> unat (ue_nNrOfSymbols x) \<le> length (ue_nWideBandSNR x)
     \<and> - (2 ^ 15) \<le> band_sum x \<and> band_sum x < 2 ^ 15 \<and> 4 * unat (ue_nNrOfBlocks x) \<le> FAPI_MAX_NUMBER_RBS
     \<and> (\<forall>k < 4 * unat (ue_nNrOfBlocks x). k div 68 < length (ue_nBlockSNR x) \<and> k mod 68 < length (ue_nBlockSNR x ! (k div 68)))"

section \<open>One entry\<close>

lemma bitmap_sum: "or (if a then 1 else 0) (if b then 2 else 0) = ((if a then 1 else 0) + (if b then 2 else 0) :: u8)"
  by simp

lemma low_bits: "unat (n :: u16) \<le> 2 \<Longrightarrow> unat (ucast n :: u8) = unat n"
  by (simp add: unsigned_ucast_eq take_bit_eq_mod)

lemma uci_entry_answers:
  assumes "reports_for req (get_slot u ij p)" "uci_readable (first_pucch req) (ucis ! i)"
  shows "\<exists>v' p'. uci_entry a u ij ucis i (v, p) = Done (uci_answer a (first_pucch req) (ucis ! i), v', p')
    \<and> ul_slot_info p' = ul_slot_info p"
proof (cases "nr5g_fapi_get_pucch_info (ui_nUEId (ucis ! i)) (get_slot u ij p)")
  case None
  have "first_pucch req (ui_nUEId (ucis ! i)) = None" using reports_at(1) [OF assms(1)] None by blast
  then show ?thesis using None by (simp add: uci_entry_def uci_answer_def Let_def)
next
  case (Some k)
  let ?x = "ucis ! i"
  obtain y where y: "first_pucch req (ui_nUEId ?x) = Some y" "pucch_infos (get_slot u ij p) ! k = requested_uci y"
    using reports_at(2) [OF assms(1) Some] by blast
  note defs = uci_entry_def uci_answer_def requested_uci_def Let_def Some y
  consider "pc_formatType y \<le> 1" | "\<not> pc_formatType y \<le> 1" "pc_formatType y \<le> 4" | "\<not> pc_formatType y \<le> 1" "\<not> pc_formatType y \<le> 4"
    by blast
  then show ?thesis
  proof cases
    case 1
    then have "ui_pucchDetected ?x = 1 \<Longrightarrow> unat (ui_nPduBitLen ?x) \<le> 2 \<and> unat (ui_nPduBitLen ?x) \<le> length (ui_nUciBits ?x)"
      using assms(2) y(1) by (simp add: uci_readable_def)
    then show ?thesis using 1 low_bits [of "ui_nPduBitLen ?x"]
      by (cases "ui_pucchDetected ?x = 1")
        (auto simp: defs nr5g_fapi_fill_uci_format_0_1_def FAPI_MAX_NUMBER_OF_HARQS_PER_IND_def bitmap_sum numeral_2_eq_2)
  next
    case 2
    then have "0 < ui_nPduBitLen ?x \<Longrightarrow> 256 \<le> length (ui_nUciBits ?x)"
      using assms(2) y(1) by (simp add: uci_readable_def)
    then show ?thesis using 2
      by (auto simp: defs nr5g_fapi_fill_uci_format_2_3_4_def FAPI_MAX_UCI_BIT_BYTE_LEN_def bitmap_sum unat_eq_0 word_gt_0)
  next
    case 3
    then show ?thesis by (simp add: defs)
  qed
qed

lemma sum_snr_total:
  "j + n \<le> length xs \<Longrightarrow> sum_snr xs [j..<j + n] t = Done (t + word_of_int (sum_list (take n (drop j xs))))"
proof (induction n arbitrary: j t)
  case (Suc n)
  have "[j..<j + Suc n] = j # [Suc j..<Suc j + n]" by (simp add: upt_conv_Cons del: upt_Suc)
  moreover have "take (Suc n) (drop j xs) = xs ! j # take n (drop (Suc j) xs)"
    using Suc.prems by (simp add: Cons_nth_drop_Suc [symmetric])
  moreover have "word_of_int (sint t + xs ! j) = t + word_of_int (xs ! j)" by (simp add: wi_hom_add [symmetric])
  ultimately show ?case using Suc.IH [of "Suc j"] Suc.prems by (simp add: wi_hom_add [symmetric] del: upt_Suc)
qed simp

lemma snr_byte: "snr_to_byte x = 2 * (x + 64)"
  by (simp add: snr_to_byte_def wi_hom_mult [symmetric] wi_hom_add [symmetric])

lemma rb_snrs_map:
  "\<forall>k \<in> set ks. k < FAPI_MAX_NUMBER_RBS \<and> k div 68 < length b \<and> k mod 68 < length (b ! (k div 68)) \<Longrightarrow>
     rb_snrs b ks = Done (map (\<lambda>k. 2 * (b ! (k div 68) ! (k mod 68) + 64)) ks)"
  by (induction ks) (simp_all add: snr_byte)

lemma c_div_trunc: "0 < y \<Longrightarrow> c_div x y = sgn x * (\<bar>x\<bar> div y)"
  by (cases "x = 0") (auto simp: c_div_def sgn_if)

lemma srs_entry_answers:
  assumes "reports_for req (get_slot u ij p)" "srs_readable (ests ! i)"
  shows "\<exists>v' p'. srs_est_entry u ij ests i (v, p) = Done (srs_answer (first_srs req) (ests ! i), v', p')
    \<and> ul_slot_info p' = ul_slot_info p"
proof (cases "nr5g_fapi_get_srs_info (ue_nUEId (ests ! i)) (get_slot u ij p)")
  case None
  have "first_srs req (ue_nUEId (ests ! i)) = None" using reports_at(3) [OF assms(1)] None by blast
  then show ?thesis using None by (simp add: srs_est_entry_def srs_answer_def Let_def)
next
  case (Some k)
  let ?x = "ests ! i"
  let ?n = "4 * unat (ue_nNrOfBlocks ?x)"
  obtain y where y: "first_srs req (ue_nUEId ?x) = Some y" "srs_handles (get_slot u ij p) ! k = requested_srs y"
    using reports_at(4) [OF assms(1) Some] by blast
  note rd = assms(2) [unfolded srs_readable_def]
  have t: "sum_snr (ue_nWideBandSNR ?x) [0..<unat (ue_nNrOfSymbols ?x)] 0 = Done (word_of_int (band_sum ?x))"
    using sum_snr_total [of 0 "unat (ue_nNrOfSymbols ?x)" "ue_nWideBandSNR ?x" 0] rd by (simp add: band_sum_def)
  have s: "sint (word_of_int (band_sum ?x) :: 16 word) = band_sum ?x"
    using rd by (simp add: sint_sbintrunc' signed_take_bit_int_eq_self)
  have n: "unat (4 * ue_nNrOfBlocks ?x) = ?n"
    using rd by (simp add: unat_word_ariths FAPI_MAX_NUMBER_RBS_def)
  have pos: "0 < uint (ue_nNrOfSymbols ?x)" using rd by (simp add: word_neq_0_conv word_less_def)
  have "rb_snrs (ue_nBlockSNR ?x) [0..<?n] = Done (map (\<lambda>k. 2 * (ue_nBlockSNR ?x ! (k div 68) ! (k mod 68) + 64)) [0..<?n])"
    by (rule rb_snrs_map) (use rd in auto)
  then show ?thesis
    using rd by (simp add: srs_est_entry_def srs_answer_def Let_def Some y t s n snr_byte mult.commute [of _ "4 :: u16"] requested_srs_def c_div_trunc [OF pos])
qed

section \<open>Properties\<close>

lemma request_reports:
  assumes "nr5g_fapi_ul_tti_req_to_phy_translation a u req vm c p = Done (True, c', q)" "slot_layouts a" "wf_slots p" "u \<longrightarrow> vm \<noteq> None"
  shows "reports_for req (get_slot u (request_place u req vm) q)"
  using request_registers(2) [OF assms] registered_reports by blast

lemma lookup_same_slots:
  "ul_slot_info q = ul_slot_info p \<Longrightarrow> nr5g_fapi_get_ul_slot_info u fr slot symb q = nr5g_fapi_get_ul_slot_info u fr slot symb p"
  by (simp add: nr5g_fapi_get_ul_slot_info_def)

text \<open>C34: the reports of a slot answer its UL_TTI.request.  After the request was translated, the
  UCI.indication and then the SRS.indication for its frame, slot and symbol give, for each entry up to the
  first whose id no PUCCH (or SRS) PDU of the request has, or whose PUCCH has a format above 4, the
  report \<open>uci_answer\<close> (or \<open>srs_answer\<close>) with the handle (its lower 16 bits) and format of the first PDU
  with the id.  Each succeeds exactly when all entries are answered.  The PHY has to announce what its
  arrays hold: at most two HARQ values for the formats 0 and 1, and in a sounding report at least one
  symbol, a sum of the SNRs within 16 bits and at most 273 blocks.\<close>

theorem reports_answer_the_request:
  assumes "nr5g_fapi_ul_tti_req_to_phy_translation a u req vm c p = Done (True, c', q)" "slot_layouts a" "wf_slots p"
    "u \<longrightarrow> vm \<noteq> None" "nSFN ss = ut_sfn req" "nSlot ss = ut_slot req" "ucast (nSym ss) = request_symbol u vm" "ut_slot req < 256"
    "length ucis \<le> FAPI_MAX_NUMBER_UCI_PDUS_PER_SLOT" "length ests \<le> FAPI_MAX_NUMBER_SRS_PDUS_PER_SLOT"
    "\<forall>x \<in> set ucis. uci_readable (first_pucch req) x" "\<forall>x \<in> set ests. srs_readable x"
  shows "let U = uci_answer a (first_pucch req); S = srs_answer (first_srs req)
    in \<exists>v1 q1 v2 q2. nr5g_fapi_uci_indication_to_fapi_translation a u ss ucis (v, q) = Done (answered U ucis = ucis, answers U ucis, v1, q1)
       \<and> nr5g_fapi_srs_indication_to_fapi_translation u ss ests (v1, q1) = Done (answered S ests = ests, answers S ests, v2, q2)"
proof -
  let ?ij = "request_place u req vm" and ?U = "uci_answer a (first_pucch req)" and ?S = "srs_answer (first_srs req)"
  let ?J = "\<lambda>(i :: nat) (v :: fapi_vendor_p7_ind option, q'). ul_slot_info q' = ul_slot_info q"
  have found: "nr5g_fapi_get_ul_slot_info u (nSFN ss) (nSlot ss) (ucast (nSym ss)) q' = Some ?ij" if "ul_slot_info q' = ul_slot_info q" for q'
    using answering_record_is_found [of u ?ij ss "pusch_of_request req" "\<lambda>_. (0, 0)" q] request_is_answered [OF assms(1-4)]
      assms(5-8) lookup_same_slots [OF that] by (simp add: request_place_def)
  have rep: "reports_for req (get_slot u ?ij q')" if "ul_slot_info q' = ul_slot_info q" for q'
    using request_reports [OF assms(1-4)] get_slot_cong [OF that] by simp
  have n: "num_entries ucis = length ucis" "num_entries ests = length ests"
    using assms(9,10) by (auto intro!: num_entries_small simp: FAPI_MAX_NUMBER_UCI_PDUS_PER_SLOT_def FAPI_MAX_NUMBER_SRS_PDUS_PER_SLOT_def)
  have ustep: "\<exists>s'. uci_entry a u ?ij ucis i s = Done (?U (ucis ! i), s') \<and> ?J (if ?U (ucis ! i) = None then i else Suc i) s'"
    if "i < length ucis" "?J i s" for i s
    using uci_entry_answers [OF rep [of "snd s"], of ucis i a "fst s"] that assms(11) by (auto simp: case_prod_beta)
  have sstep: "\<exists>s'. srs_est_entry u ?ij ests i s = Done (?S (ests ! i), s') \<and> ?J (if ?S (ests ! i) = None then i else Suc i) s'"
    if "i < length ests" "?J i s" for i s
    using srs_entry_answers [OF rep [of "snd s"], of ests i "fst s"] that assms(12) by (auto simp: case_prod_beta)
  obtain v1 q1 where u: "nr5g_fapi_uci_indication_to_fapi_translation a u ss ucis (v, q) = Done (answered ?U ucis = ucis, answers ?U ucis, v1, q1)"
    "ul_slot_info q1 = ul_slot_info q"
    using entry_loop_answers [where J = ?J and g = ?U and f = "uci_entry a u ?ij ucis" and m = 0, OF ustep _ assms(9), of "(v, q)"] found [of q]
    unfolding nr5g_fapi_uci_indication_to_fapi_translation_def by (auto simp: n)
  obtain v2 q2 where "nr5g_fapi_srs_indication_to_fapi_translation u ss ests (v1, q1) = Done (answered ?S ests = ests, answers ?S ests, v2, q2)"
    using entry_loop_answers [where J = ?J and g = ?S and f = "srs_est_entry u ?ij ests" and m = 0, OF sstep _ assms(10), of "(v1, q1)"]
      found [OF u(2)] u(2)
    unfolding nr5g_fapi_srs_indication_to_fapi_translation_def by (auto simp: n)
  then show ?thesis using u(1) unfolding Let_def by blast
qed


definition demo_pucch :: "u32 \<Rightarrow> u8 \<Rightarrow> fapi_ul_pucch_pdu" where
  "demo_pucch hnd fmt = \<lparr>pc_rnti = 17, pc_handle = hnd, pc_bwpSize = 106, pc_bwpStart = 0, pc_subCarrierSpacing = 1, pc_cyclicPrefix = 0,
     pc_formatType = fmt, pc_pi2Bpsk = 0, pc_prbStart = 0, pc_prbSize = 1, pc_startSymbolIndex = 0, pc_nrOfSymbols = 14, pc_freqHopFlag = 0,
     pc_secondHopPrb = 0, pc_initialCyclicShift = 0, pc_dataScramblingId = 3, pc_timeDomainOccIdx = 0, pc_preDftOccIdx = 0,
     pc_preDftOccLen = 0, pc_addDmrsFlag = 0, pc_dmrsScramblingId = 3, pc_srFlag = 0, pc_bitLenHarq = 2\<rparr>"

definition demo_srs :: "u32 \<Rightarrow> fapi_ul_srs_pdu" where
  "demo_srs hnd = \<lparr>sr_rnti = 18, sr_handle = hnd, sr_subCarrierSpacing = 1, sr_cyclicPrefix = 0, sr_numAntPorts = 0, sr_numSymbols = 1,
     sr_numRepetitions = 0, sr_timeStartPosition = 0, sr_configIndex = 0, sr_bandwidthIndex = 0, sr_sequenceId = 3, sr_combSize = 0,
     sr_combOffset = 0, sr_cyclicShift = 0, sr_frequencyPosition = 0, sr_frequencyShift = 0, sr_frequencyHopping = 0,
     sr_groupOrSequenceHopping = 0, sr_resourceType = 0, sr_tSrs = 1, sr_tOffset = 0\<rparr>"

definition demo_report_request :: fapi_ul_tti_req where
  "demo_report_request = \<lparr>ut_sfn = 7, ut_slot = 3, ut_nPdus = 2, ut_rachPresent = 0, ut_nUlsch = 0, ut_nUlcch = 1, ut_nGroup = 0,
     ut_pdus = [Pucch_pdu (demo_pucch 0x12345 1), Srs_req_pdu (demo_srs 0x678)], ut_ueGrpInfo = []\<rparr>"

lemma demo_report_request_translates:
  "\<exists>c' q. nr5g_fapi_ul_tti_req_to_phy_translation demo_p7_api False demo_report_request None demo_config demo_phy = Done (True, c', q)"
proof -
  have t: "has_tables demo_phy" using demo_phy_wf by (simp add: wf_slots_def)
  have ij: "in_table (3 mod MAX_UL_SLOT_INFO_COUNT, 0)"
    by (simp add: in_table_def MAX_UL_SLOT_INFO_COUNT_def MAX_UL_SYMBOL_INFO_COUNT_def)
  show ?thesis
    unfolding nr5g_fapi_ul_tti_req_to_phy_translation_def
    by (simp add: demo_report_request_def symbol_of_request_def Let_def demo_config_def field_u8_def put_ul_field_def upt_rec
      ul_pucch_def ul_srs_def case_prod_beta add_ul_pdu_def ul_pdu_size_def
      nr5g_fapi_pucch_to_phy_ulcch_uci_translation_def t ij get_upd_slot nr5g_fapi_set_ul_slot_info_def zero_ul_slot_info_def
      FAPI_MAX_NUMBER_UCI_PDUS_PER_SLOT_def FAPI_MAX_NUMBER_SRS_PDUS_PER_SLOT_def)
qed

definition demo_uci :: ul_uci_data where
  "demo_uci = \<lparr>ui_nUEId = 0x2345, ui_nRNTI = 17, ui_nSNR = 256, ui_nSRPresent = 1, ui_pucchDetected = 1, ui_nPduBitLen = 2,
     ui_nUciBits = [1, 0]\<rparr>"

definition demo_est :: ul_srs_est where
  "demo_est = \<lparr>ue_nUEId = 0x678, ue_nRNTI = 18, ue_nNrOfSymbols = 2, ue_nWideBandSNR = [- 3, - 4], ue_nNrOfBlocks = 1,
     ue_nBlockSNR = [[0, 1, - 1, 20]], ue_nNrOfPort = 1, ue_nNrOfRxAnt = 1, ue_nNrOfRbs = 4, ue_nIsChanEstPres = 0, ue_pSrsChanEst = []\<rparr>"

theorem reports_answer_the_request_witness:
  "\<exists>c' q v1 q1 v2 q2. nr5g_fapi_ul_tti_req_to_phy_translation demo_p7_api False demo_report_request None demo_config demo_phy = Done (True, c', q)
    \<and> nr5g_fapi_uci_indication_to_fapi_translation demo_p7_api False \<lparr>nSFN = 7, nSlot = 3, nCarrier = 0, nSym = 0\<rparr> [demo_uci] (None, q)
      = Done (True, [Uci_pucch_f0f1 \<lparr>uf_handle = 0x2345, uf_pduBitmap = 3, uf_pucchFormat = 1, uf_ul_cqi = 132, uf_rnti = 17,
          uf_timingAdvance = 31, uf_rssi = 880, uf_srIndication = 1, uf_srConfidenceLevel = 0xFF, uf_numHarq = 2,
          uf_harqConfidenceLevel = 0xFF, uf_harqValue = [1, 0]\<rparr>], v1, q1)
    \<and> nr5g_fapi_srs_indication_to_fapi_translation False \<lparr>nSFN = 7, nSlot = 3, nCarrier = 0, nSym = 0\<rparr> [demo_est] (v1, q1)
      = Done (True, [\<lparr>sp_handle = 0x678, sp_rnti = 18, sp_timingAdvance = 0xFFFF, sp_numSymbols = 2, sp_wideBandSnr = 122,
          sp_numReportedSymbols = 1, sp_numRbs = 4, sp_rbSNR = [128, 130, 126, 168]\<rparr>], v2, q2)"
proof -
  obtain c' q where q: "nr5g_fapi_ul_tti_req_to_phy_translation demo_p7_api False demo_report_request None demo_config demo_phy
      = Done (True, c', q)"
    using demo_report_request_translates by blast
  have h: "first_pucch demo_report_request 0x2345 = Some (demo_pucch 0x12345 1)" "first_srs demo_report_request 0x678 = Some (demo_srs 0x678)"
    "ut_sfn demo_report_request = 7" "ut_slot demo_report_request = 3"
    by (simp_all add: first_pucch_def first_srs_def request_pdus_def demo_report_request_def demo_pucch_def demo_srs_def)
  have s: "nr5g_fapi_convert_snr_iapi_to_fapi demo_p7_api 256 = 132"
    by (simp add: nr5g_fapi_convert_snr_iapi_to_fapi_def demo_p7_api_def)
  have r: "uci_readable (first_pucch demo_report_request) demo_uci" "srs_readable demo_est"
    using h(1) by (simp_all add: uci_readable_def srs_readable_def band_sum_def demo_uci_def demo_est_def demo_pucch_def
      FAPI_MAX_NUMBER_RBS_def)
  have a: "uci_answer demo_p7_api (first_pucch demo_report_request) demo_uci = Some (Uci_pucch_f0f1 \<lparr>uf_handle = 0x2345, uf_pduBitmap = 3,
      uf_pucchFormat = 1, uf_ul_cqi = 132, uf_rnti = 17, uf_timingAdvance = 31, uf_rssi = 880, uf_srIndication = 1,
      uf_srConfidenceLevel = 0xFF, uf_numHarq = 2, uf_harqConfidenceLevel = 0xFF, uf_harqValue = [1, 0]\<rparr>)"
    "srs_answer (first_srs demo_report_request) demo_est = Some \<lparr>sp_handle = 0x678, sp_rnti = 18, sp_timingAdvance = 0xFFFF,
      sp_numSymbols = 2, sp_wideBandSnr = 122, sp_numReportedSymbols = 1, sp_numRbs = 4, sp_rbSNR = [128, 130, 126, 168]\<rparr>"
    using h(1,2) s by (simp_all add: uci_answer_def srs_answer_def band_sum_def demo_uci_def demo_est_def demo_pucch_def demo_srs_def
      upt_rec)
  show ?thesis
    using q reports_answer_the_request [OF q demo_slot_layouts demo_phy_wf, of "\<lparr>nSFN = 7, nSlot = 3, nCarrier = 0, nSym = 0\<rparr>"
      "[demo_uci]" "[demo_est]" None] r
    by (auto simp: Let_def answers_def answered_def h a request_symbol_def FAPI_MAX_NUMBER_UCI_PDUS_PER_SLOT_def
      FAPI_MAX_NUMBER_SRS_PDUS_PER_SLOT_def)
qed

end
