(* ===== verification/Xran_Packet.thy ===== *)
theory Xran_Packet
  imports Outcomes
begin

text \<open>
  What the packets of the fronthaul library consist of: bytes in a packet buffer, the bit fields of
  their headers, and the eCPRI transport header (\<open>lib/src/xran_transport.c\<close>,
  \<open>lib/api/xran_pkt.h\<close>).

  The compiler lays bit fields out from the least significant bit, and words are stored with the
  least significant byte first.  The functions of DPDK on packet buffers and on byte orders are the
  parameter \<open>dpdk_pkt\<close>; \<open>dpdk_pkt_ok\<close> is their documented behaviour.
\<close>

section \<open>Bit fields\<close>

definition get_bits :: "nat \<Rightarrow> nat \<Rightarrow> 'a::len word \<Rightarrow> 'a word" where
  "get_bits p w x = take_bit w (drop_bit p x)"

definition set_bits :: "nat \<Rightarrow> nat \<Rightarrow> 'a::len word \<Rightarrow> 'a word \<Rightarrow> 'a word" where
  "set_bits p w v x = or (and x (not (push_bit p (mask w)))) (push_bit p (take_bit w v))"

lemma get_set_bits [simp]:
  fixes x :: "'a::len word"
  assumes "p + w \<le> LENGTH('a)"
  shows "get_bits p w (set_bits p w v x) = take_bit w v"
  using assms by (intro bit_word_eqI)
    (auto simp: get_bits_def set_bits_def bit_take_bit_iff bit_drop_bit_eq bit_or_iff bit_and_iff bit_not_iff bit_push_bit_iff bit_mask_iff)

lemma get_set_bits_other [simp]:
  fixes x :: "'a::len word"
  assumes "p + w \<le> q \<or> q + u \<le> p"
  shows "get_bits p w (set_bits q u v x) = get_bits p w x"
  using assms by (intro bit_word_eqI)
    (auto dest: bit_imp_le_length simp: get_bits_def set_bits_def bit_take_bit_iff bit_drop_bit_eq bit_or_iff bit_and_iff bit_not_iff bit_push_bit_iff bit_mask_iff)

lemma get_bits_0 [simp]: "get_bits p w 0 = 0"
  by (simp add: get_bits_def)

lemma take_bit_ucast_small:
  fixes x :: "'a::len word"
  assumes "unat x < 2 ^ w"
  shows "take_bit w (ucast x :: 'b::len word) = ucast x"
proof (rule bit_word_eqI)
  fix n
  assume "n < LENGTH('b)"
  have "\<not> bit x n" if "w \<le> n"
  proof -
    have "take_bit w x = x" using assms by (simp add: word_unat_eq_iff unsigned_take_bit_eq take_bit_nat_eq_self)
    then show ?thesis using that by (metis bit_take_bit_iff not_le)
  qed
  then show "bit (take_bit w (ucast x :: 'b word)) n = bit (ucast x :: 'b word) n"
    by (cases "n < w") (auto simp: bit_take_bit_iff bit_ucast_iff)
qed

lemma ucast_ucast_id [simp]:
  fixes x :: "'a::len word"
  assumes "LENGTH('a) \<le> LENGTH('b::len)"
  shows "ucast (ucast x :: 'b word) = x"
  using assms by (intro bit_word_eqI) (auto simp: bit_ucast_iff)

section \<open>Bytes\<close>

definition le16 :: "u16 \<Rightarrow> u8 list" where
  "le16 x = [ucast x, ucast (drop_bit 8 x)]"

definition of_le16 :: "u8 list \<Rightarrow> u16" where
  "of_le16 bs = or (ucast (bs ! 0)) (push_bit 8 (ucast (bs ! 1)))"

definition le32 :: "u32 \<Rightarrow> u8 list" where
  "le32 x = [ucast x, ucast (drop_bit 8 x), ucast (drop_bit 16 x), ucast (drop_bit 24 x)]"

definition of_le32 :: "u8 list \<Rightarrow> u32" where
  "of_le32 bs = or (ucast (bs ! 0)) (or (push_bit 8 (ucast (bs ! 1)))
     (or (push_bit 16 (ucast (bs ! 2))) (push_bit 24 (ucast (bs ! 3)))))"

lemma of_le16_le16 [simp]: "of_le16 (le16 x) = x"
  by (rule bit_word_eqI) (auto simp: of_le16_def le16_def bit_or_iff bit_push_bit_iff bit_ucast_iff bit_drop_bit_eq)

lemma of_le32_le32 [simp]: "of_le32 (le32 x) = x"
proof (rule bit_word_eqI)
  fix n
  assume "n < LENGTH(32)"
  then consider "n < 8" | "8 \<le> n" "n < 16" | "16 \<le> n" "n < 24" | "24 \<le> n" "n < 32" by fastforce
  then show "bit (of_le32 (le32 x)) n = bit x n"
    by cases (auto simp: of_le32_def le32_def bit_or_iff bit_push_bit_iff bit_ucast_iff bit_drop_bit_eq)
qed

lemma length_le [simp]: "length (le16 x) = 2" "length (le32 y) = 4"
  by (simp_all add: le16_def le32_def)

definition le64 :: "u64 \<Rightarrow> u8 list" where
  "le64 x = le32 (ucast x) @ le32 (ucast (drop_bit 32 x))"

definition of_le64 :: "u8 list \<Rightarrow> u64" where
  "of_le64 bs = or (ucast (of_le32 (take 4 bs))) (push_bit 32 (ucast (of_le32 (drop 4 bs))))"

lemma of_le64_le64 [simp]: "of_le64 (le64 x) = x"
  by (rule bit_word_eqI) (auto simp: of_le64_def le64_def bit_or_iff bit_push_bit_iff bit_ucast_iff bit_drop_bit_eq)

lemma length_le64 [simp]: "length (le64 x) = 8"
  by (simp add: le64_def)

lemma le32_of_le32: "length bs = 4 \<Longrightarrow> le32 (of_le32 bs) = bs"
proof -
  assume "length bs = 4"
  then obtain a b c e where bs: "bs = [a, b, c, e]" by (auto simp: length_Suc_conv numeral_eq_Suc)
  show "le32 (of_le32 bs) = bs"
    by (simp add: bs le32_def of_le32_def)
      (intro conjI; rule bit_word_eqI; auto dest: bit_imp_le_length simp: bit_or_iff bit_push_bit_iff bit_ucast_iff bit_drop_bit_eq)
qed

lemma le64_of_le64: "length bs = 8 \<Longrightarrow> le64 (of_le64 bs) = bs"
proof -
  assume l: "length bs = 8"
  have w: "(ucast (of_le64 bs) :: u32) = of_le32 (take 4 bs)" "(ucast (drop_bit 32 (of_le64 bs)) :: u32) = of_le32 (drop 4 bs)"
    by (rule bit_word_eqI; auto simp: of_le64_def bit_or_iff bit_push_bit_iff bit_ucast_iff bit_drop_bit_eq dest: bit_imp_le_length)+
  show ?thesis using l by (simp add: le64_def w le32_of_le32)
qed

section \<open>Packet buffers\<close>

text \<open>The fields of \<open>struct rte_mbuf\<close> that the library uses.\<close>

record rte_mbuf =
  buf_addr :: "u8 list"
  data_off :: nat
  data_len :: nat

record dpdk_pkt =
  rte_cpu_to_be_16 :: "u16 \<Rightarrow> u16"
  rte_cpu_to_be_32 :: "u32 \<Rightarrow> u32"
  rte_cpu_to_be_64 :: "u64 \<Rightarrow> u64"
  rte_pktmbuf_append :: "nat \<Rightarrow> rte_mbuf \<Rightarrow> rte_mbuf option"
  rte_pktmbuf_adj :: "nat \<Rightarrow> rte_mbuf \<Rightarrow> rte_mbuf option"
  rte_pktmbuf_trim :: "nat \<Rightarrow> rte_mbuf \<Rightarrow> rte_mbuf option"
  sizeof_rte_ether_hdr :: nat

definition swap16 :: "u16 \<Rightarrow> u16" where
  "swap16 x = or (push_bit 8 x) (drop_bit 8 x)"

definition swap32 :: "u32 \<Rightarrow> u32" where
  "swap32 x = of_le32 (rev (le32 x))"

definition swap64 :: "u64 \<Rightarrow> u64" where
  "swap64 x = of_le64 (rev (le64 x))"

text \<open>Byte orders are exchanged; \<open>append\<close>, \<open>adj\<close> and \<open>trim\<close> move the ends of the data, and fail when
  there is no room or not enough data.\<close>

definition dpdk_pkt_ok :: "dpdk_pkt \<Rightarrow> bool" where
  "dpdk_pkt_ok d \<longleftrightarrow> rte_cpu_to_be_16 d = swap16 \<and> rte_cpu_to_be_32 d = swap32 \<and> rte_cpu_to_be_64 d = swap64
     \<and> (\<forall>n m. rte_pktmbuf_append d n m =
          (if data_off m + data_len m + n \<le> length (buf_addr m) then Some (m\<lparr>data_len := data_len m + n\<rparr>) else None))
     \<and> (\<forall>n m. rte_pktmbuf_adj d n m =
          (if n \<le> data_len m then Some (m\<lparr>data_off := data_off m + n, data_len := data_len m - n\<rparr>) else None))
     \<and> (\<forall>n m. rte_pktmbuf_trim d n m = (if n \<le> data_len m then Some (m\<lparr>data_len := data_len m - n\<rparr>) else None))"

lemma swap16_swap16 [simp]: "swap16 (swap16 x) = x"
  by (rule bit_word_eqI) (auto simp: swap16_def bit_or_iff bit_push_bit_iff bit_drop_bit_eq)

lemma le32_swap32: "le32 (swap32 x) = rev (le32 x)"
  by (simp add: swap32_def le32_of_le32)

lemma swap32_swap32 [simp]: "swap32 (swap32 x) = x"
  by (simp add: swap32_def [of "swap32 x"] le32_swap32)

lemma le64_swap64: "le64 (swap64 x) = rev (le64 x)"
  by (simp add: swap64_def le64_of_le64)

lemma swap64_swap64 [simp]: "swap64 (swap64 x) = x"
  by (simp add: swap64_def [of "swap64 x"] le64_swap64)

text \<open>Memory from the start of the data, as \<open>rte_pktmbuf_mtod\<close> gives it.\<close>

definition peek :: "rte_mbuf \<Rightarrow> nat \<Rightarrow> nat \<Rightarrow> u8 list outcome" where
  "peek m off n =
     (if data_off m + off + n \<le> length (buf_addr m) then Done (take n (drop (data_off m + off) (buf_addr m))) else Undefined)"

definition overwrite :: "nat \<Rightarrow> 'a list \<Rightarrow> 'a list \<Rightarrow> 'a list" where
  "overwrite k bs xs = take k xs @ bs @ drop (k + length bs) xs"

definition poke :: "nat \<Rightarrow> u8 list \<Rightarrow> rte_mbuf \<Rightarrow> rte_mbuf outcome" where
  "poke off bs m =
     (if data_off m + off + length bs \<le> length (buf_addr m)
      then Done (m\<lparr>buf_addr := overwrite (data_off m + off) bs (buf_addr m)\<rparr>) else Undefined)"

lemma length_overwrite [simp]: "k + length bs \<le> length xs \<Longrightarrow> length (overwrite k bs xs) = length xs"
  by (simp add: overwrite_def)

lemma peek_overwrite:
  assumes "k + length bs \<le> length xs"
  shows "take (length bs) (drop k (overwrite k bs xs)) = bs"
  using assms by (simp add: overwrite_def)

lemma peek_overwrite_other:
  assumes "k + length bs \<le> length xs" "j + n \<le> k \<or> k + length bs \<le> j"
  shows "take n (drop j (overwrite k bs xs)) = take n (drop j xs)"
  using assms(2)
proof
  assume "j + n \<le> k"
  then have "take (n + j) (overwrite k bs xs) = take (n + j) xs"
    using assms(1) by (auto simp: overwrite_def min_def)
  then show ?thesis by (simp add: take_drop)
next
  assume "k + length bs \<le> j"
  then have "drop j (overwrite k bs xs) = drop j xs" using assms(1) by (simp add: overwrite_def drop_append)
  then show ?thesis by simp
qed

lemma poke_facts:
  assumes "poke off bs m = Done m'"
  shows "data_off m' = data_off m" "data_len m' = data_len m" "length (buf_addr m') = length (buf_addr m)"
    "peek m' off (length bs) = Done bs"
    "j + n \<le> off \<or> off + length bs \<le> j \<Longrightarrow> peek m' j n = peek m j n"
proof -
  have m: "data_off m + off + length bs \<le> length (buf_addr m)"
    "m' = m\<lparr>buf_addr := overwrite (data_off m + off) bs (buf_addr m)\<rparr>"
    using assms by (auto simp: poke_def split: if_splits)
  show "data_off m' = data_off m" "data_len m' = data_len m" "length (buf_addr m') = length (buf_addr m)"
    using m by simp_all
  show "peek m' off (length bs) = Done bs" using m peek_overwrite [OF m(1)] by (simp add: peek_def)
  show "peek m' j n = peek m j n" if "j + n \<le> off \<or> off + length bs \<le> j"
    using m that peek_overwrite_other [OF m(1), of "data_off m + j" n] by (auto simp: peek_def)
qed

section \<open>eCPRI transport header\<close>

definition XRAN_ECPRI_VER :: u8 where "XRAN_ECPRI_VER = 1"
definition ECPRI_IQ_DATA :: u8 where "ECPRI_IQ_DATA = 0"
definition ECPRI_RT_CONTROL_DATA :: u8 where "ECPRI_RT_CONTROL_DATA = 2"

definition XRAN_STATUS_SUCCESS :: int where "XRAN_STATUS_SUCCESS = 0"
definition XRAN_STATUS_RESOURCE :: int where "XRAN_STATUS_RESOURCE = -3"
definition XRAN_STATUS_INVALID_PARAM :: int where "XRAN_STATUS_INVALID_PARAM = -4"
definition XRAN_STATUS_INVALID_PACKET :: int where "XRAN_STATUS_INVALID_PACKET = -7"

text \<open>The sizes of the packed structures.\<close>

definition sizeof_ecpri_hdr :: nat where "sizeof_ecpri_hdr = 8"
definition sizeof_ecpri_cmn_hdr :: nat where "sizeof_ecpri_cmn_hdr = 4"
definition XRAN_ECPRI_HDR_SZ :: nat where "XRAN_ECPRI_HDR_SZ = sizeof_ecpri_hdr - sizeof_ecpri_cmn_hdr"

definition xran_get_ecpri_hdr_size :: nat where
  "xran_get_ecpri_hdr_size = sizeof_ecpri_hdr - sizeof_ecpri_cmn_hdr"

record xran_eaxcid_config =
  mask_cuPortId :: u16
  mask_bandSectorId :: u16
  mask_ccId :: u16
  mask_ruPortId :: u16
  bit_cuPortId :: u8
  bit_bandSectorId :: u8
  bit_ccId :: u8
  bit_ruPortId :: u8

record xran_eaxc_info =
  cuPortId :: u8
  bandSectorId :: u8
  ccId :: u8
  ruPortId :: u8

text \<open>A shift works on the promoted \<open>int\<close>; a port without a context ends the process.\<close>

definition cid_part :: "u8 \<Rightarrow> u8 \<Rightarrow> u16 \<Rightarrow> u32" where
  "cid_part x b m = and (push_bit (unat b) (ucast x)) (ucast m)"

definition xran_compose_cid :: "dpdk_pkt \<Rightarrow> xran_eaxcid_config option \<Rightarrow> u8 \<Rightarrow> u8 \<Rightarrow> u8 \<Rightarrow> u8 \<Rightarrow> u16 outcome" where
  "xran_compose_cid d conf cu band cc ant =
     (case conf of None \<Rightarrow> Exited
      | Some c \<Rightarrow>
          let cid = or (or (or (cid_part cu (bit_cuPortId c) (mask_cuPortId c)) (cid_part band (bit_bandSectorId c) (mask_bandSectorId c)))
                       (cid_part cc (bit_ccId c) (mask_ccId c))) (cid_part ant (bit_ruPortId c) (mask_ruPortId c))
          in Done (rte_cpu_to_be_16 d (ucast cid)))"

definition part_of_cid :: "u16 \<Rightarrow> u8 \<Rightarrow> u16 \<Rightarrow> u8" where
  "part_of_cid cid b m = ucast (drop_bit (unat b) (and cid m))"

definition xran_decompose_cid :: "dpdk_pkt \<Rightarrow> xran_eaxcid_config option \<Rightarrow> u16 \<Rightarrow> xran_eaxc_info outcome" where
  "xran_decompose_cid d conf cid =
     (let cid = rte_cpu_to_be_16 d cid
      in case conf of None \<Rightarrow> Exited
         | Some c \<Rightarrow> Done \<lparr>cuPortId = part_of_cid cid (bit_cuPortId c) (mask_cuPortId c),
             bandSectorId = part_of_cid cid (bit_bandSectorId c) (mask_bandSectorId c),
             ccId = part_of_cid cid (bit_ccId c) (mask_ccId c), ruPortId = part_of_cid cid (bit_ruPortId c) (mask_ruPortId c)\<rparr>)"

definition xran_update_ecpri_payload_size :: "dpdk_pkt \<Rightarrow> int \<Rightarrow> rte_mbuf \<Rightarrow> rte_mbuf outcome" where
  "xran_update_ecpri_payload_size d n m = poke 2 (le16 (rte_cpu_to_be_16 d (word_of_int n))) m"

text \<open>The result is the added payload size and the place of the header, counted from the start of the
  data.\<close>

definition xran_build_ecpri_hdr ::
    "dpdk_pkt \<Rightarrow> xran_eaxcid_config option \<Rightarrow> u8 \<Rightarrow> u8 \<Rightarrow> u8 \<Rightarrow> rte_mbuf \<Rightarrow> (int \<times> nat \<times> rte_mbuf) outcome" where
  "xran_build_ecpri_hdr d conf cc ant seq m =
     (case rte_pktmbuf_append d sizeof_ecpri_hdr m of
        None \<Rightarrow> Done (XRAN_STATUS_RESOURCE, 0, m)
      | Some m' \<Rightarrow>
          let at = data_len m;
              cmn = or (push_bit 4 (ucast XRAN_ECPRI_VER)) (push_bit 8 (ucast ECPRI_RT_CONTROL_DATA));
              sid = or (ucast seq) (push_bit 15 1)
          in obind (xran_compose_cid d conf 0 0 cc ant) (\<lambda>cid.
             obind (poke at (le32 cmn @ le16 cid @ le16 sid) m') (\<lambda>m'. Done (int XRAN_ECPRI_HDR_SZ, at, m'))))"

record xran_recv_packet_info =
  ecpri_version :: u8
  ecpri_mesg_type :: u8
  payload_len :: u16
  eaxc :: xran_eaxc_info
  pkt_seq_id :: u8
  subseq_id :: u8
  ebit :: u8

definition xran_parse_ecpri_hdr ::
    "dpdk_pkt \<Rightarrow> xran_eaxcid_config option \<Rightarrow> rte_mbuf \<Rightarrow> (int \<times> xran_recv_packet_info option) outcome" where
  "xran_parse_ecpri_hdr d conf m =
     obind (peek m 0 sizeof_ecpri_hdr) (\<lambda>b.
     let ver = get_bits 4 4 (b ! 0); resv = get_bits 1 3 (b ! 0)
     in if ver \<noteq> XRAN_ECPRI_VER \<or> resv \<noteq> 0 then Done (XRAN_STATUS_INVALID_PACKET, None)
        else obind (xran_decompose_cid d conf (of_le16 (take 2 (drop 4 b)))) (\<lambda>e.
             Done (XRAN_STATUS_SUCCESS, Some \<lparr>ecpri_version = ver, ecpri_mesg_type = b ! 1,
               payload_len = rte_cpu_to_be_16 d (of_le16 (take 2 (drop 2 b))), eaxc = e,
               pkt_seq_id = b ! 6, subseq_id = get_bits 0 7 (b ! 7), ebit = get_bits 7 1 (b ! 7)\<rparr>)))"

end
