(* ===== verification/Xran_Uplane.thy ===== *)
theory Xran_Uplane
  imports Xran_Packet "HOL-Library.Signed_Division"
begin

text \<open>
  Packets of the user plane: \<open>lib/src/xran_up_api.c\<close> and the functions of \<open>lib/src/xran_common.c\<close>
  that fill in their headers.  The packet starts with the Ethernet header when it is built, and with
  the eCPRI header when it is read.  The samples are put into the buffer by the caller.
\<close>

section \<open>Headers\<close>

definition sizeof_app_hdr :: nat where "sizeof_app_hdr = 4"
definition sizeof_section_hdr :: nat where "sizeof_section_hdr = 4"
definition sizeof_compression_hdr :: nat where "sizeof_compression_hdr = 2"

definition XRAN_COMPMETHOD_NONE :: u8 where "XRAN_COMPMETHOD_NONE = 0"
definition XRAN_COMPMETHOD_BLKFLOAT :: u8 where "XRAN_COMPMETHOD_BLKFLOAT = 1"
definition XRAN_COMPMETHOD_MODULATION :: u8 where "XRAN_COMPMETHOD_MODULATION = 4"
definition XRAN_MAX_SECTIONS_PER_SLOT :: nat where "XRAN_MAX_SECTIONS_PER_SLOT = 32"

datatype xran_comp_hdr_type = XRAN_COMP_HDR_TYPE_DYNAMIC | XRAN_COMP_HDR_TYPE_STATIC

record radio_app_common_hdr =
  data_feature :: u8
  app_frame_id :: u8
  sf_slot_sym :: u16

record data_section_compression_hdr =
  ud_comp_hdr :: u8
  rsrvd :: u8

record xran_up_pkt_gen_params =
  app_params :: radio_app_common_hdr
  sec_hdr :: u32
  compr_hdr_param :: data_section_compression_hdr

definition app_bytes :: "radio_app_common_hdr \<Rightarrow> u8 list" where
  "app_bytes h = [data_feature h, app_frame_id h] @ le16 (sf_slot_sym h)"

definition compr_bytes :: "data_section_compression_hdr \<Rightarrow> u8 list" where
  "compr_bytes h = [ud_comp_hdr h, rsrvd h]"

definition ud_comp_meth :: "data_section_compression_hdr \<Rightarrow> u8" where
  "ud_comp_meth h = get_bits 0 4 (ud_comp_hdr h)"

section \<open>Building\<close>

definition xran_build_ecpri_hdr_ex ::
    "dpdk_pkt \<Rightarrow> xran_eaxcid_config option \<Rightarrow> u8 \<Rightarrow> u32 \<Rightarrow> u8 \<Rightarrow> u8 \<Rightarrow> u8 \<Rightarrow> rte_mbuf \<Rightarrow> rte_mbuf outcome" where
  "xran_build_ecpri_hdr_ex d conf mesg_type payl_size cc ant seq m =
     (let payl = ucast (payl_size + of_nat sizeof_app_hdr + of_nat XRAN_ECPRI_HDR_SZ) :: u16
      in obind (xran_compose_cid d conf 0 0 cc ant) (\<lambda>cid.
         poke (sizeof_rte_ether_hdr d)
           ([set_bits 4 4 XRAN_ECPRI_VER 0, mesg_type] @ le16 (rte_cpu_to_be_16 d payl) @ le16 cid
             @ le16 (set_bits 0 8 (ucast seq) 0x8000)) m))"

definition build_application_layer :: "dpdk_pkt \<Rightarrow> radio_app_common_hdr \<Rightarrow> rte_mbuf \<Rightarrow> rte_mbuf outcome" where
  "build_application_layer d h m = poke (sizeof_rte_ether_hdr d + sizeof_ecpri_hdr) (app_bytes h) m"

definition build_section_hdr :: "u32 \<Rightarrow> nat \<Rightarrow> rte_mbuf \<Rightarrow> rte_mbuf outcome" where
  "build_section_hdr h off m = poke off (le32 h) m"

definition build_compression_hdr :: "data_section_compression_hdr \<Rightarrow> nat \<Rightarrow> rte_mbuf \<Rightarrow> rte_mbuf outcome" where
  "build_compression_hdr h off m = poke off (compr_bytes h) m"

definition has_compr_hdr :: "xran_comp_hdr_type \<Rightarrow> xran_up_pkt_gen_params \<Rightarrow> bool" where
  "has_compr_hdr st p \<longleftrightarrow> ud_comp_meth (compr_hdr_param p) \<noteq> XRAN_COMPMETHOD_NONE \<and> st = XRAN_COMP_HDR_TYPE_DYNAMIC"

text \<open>The sections; \<open>n\<close> is the number of bytes of samples of each.  The result is the number of bytes of
  samples, a 16-bit value, or 0 when a section has none.\<close>

fun build_sections ::
    "xran_comp_hdr_type \<Rightarrow> u32 \<Rightarrow> xran_up_pkt_gen_params list \<Rightarrow> nat \<Rightarrow> u16 \<Rightarrow> rte_mbuf \<Rightarrow> (int \<times> rte_mbuf) outcome" where
  "build_sections st n [] off len m = Done (uint len, m)"
| "build_sections st n (p # ps) off len m =
     obind (build_section_hdr (sec_hdr p) off m) (\<lambda>m.
     let off = off + sizeof_section_hdr
     in obind (if has_compr_hdr st p then build_compression_hdr (compr_hdr_param p) off m else Done m) (\<lambda>m.
        let off = (if has_compr_hdr st p then off + sizeof_compression_hdr else off)
        in if n = 0 then Done (0, m) else build_sections st n ps (off + unat n) (len + ucast n) m))"

text \<open>\<open>xps\<close> are the parameters of the sections, \<open>params[0 .. num_sections - 1]\<close>.\<close>

definition section_bytes :: "xran_comp_hdr_type \<Rightarrow> u32 \<Rightarrow> xran_up_pkt_gen_params list \<Rightarrow> u16" where
  "section_bytes st num_bytes xps =
     (let sz = ucast (num_bytes + of_nat (length xps) * of_nat sizeof_section_hdr) :: u16
      in if has_compr_hdr st (hd xps) then sz + of_nat (length xps) * of_nat sizeof_compression_hdr else sz)"

definition xran_prepare_iq_symbol_portion ::
    "dpdk_pkt \<Rightarrow> xran_eaxcid_config option \<Rightarrow> u32 \<Rightarrow> xran_up_pkt_gen_params list \<Rightarrow> u8 \<Rightarrow> u8 \<Rightarrow> u8 \<Rightarrow> xran_comp_hdr_type
     \<Rightarrow> rte_mbuf \<Rightarrow> (int \<times> rte_mbuf) outcome" where
  "xran_prepare_iq_symbol_portion d conf num_bytes xps cc ant seq st m =
     obind (xran_build_ecpri_hdr_ex d conf ECPRI_IQ_DATA (ucast (section_bytes st num_bytes xps)) cc ant seq m) (\<lambda>m.
     obind (build_application_layer d (app_params (hd xps)) m) (\<lambda>m.
     build_sections st (num_bytes div of_nat (length xps)) xps
       (sizeof_rte_ether_hdr d + sizeof_ecpri_hdr + sizeof_app_hdr) 0 m))"

definition xran_prepare_iq_symbol_portion_appand ::
    "dpdk_pkt \<Rightarrow> u32 \<Rightarrow> xran_up_pkt_gen_params list \<Rightarrow> xran_comp_hdr_type \<Rightarrow> rte_mbuf \<Rightarrow> (int \<times> rte_mbuf) outcome" where
  "xran_prepare_iq_symbol_portion_appand d num_bytes xps st m =
     (let at = sizeof_rte_ether_hdr d + 2
      in obind (peek m at 2) (\<lambda>b.
         let payl = rte_cpu_to_be_16 d (of_le16 b) + section_bytes st num_bytes xps
         in obind (poke at (le16 (rte_cpu_to_be_16 d payl)) m) (\<lambda>m.
            build_sections st (num_bytes div of_nat (length xps)) xps (data_len m) 0 m)))"

section \<open>Filling in the headers\<close>

definition XRAN_CONVERT_NUMPRBC :: "int \<Rightarrow> int" where "XRAN_CONVERT_NUMPRBC x = (if x > 255 then 0 else x)"
definition XRAN_CONVERT_IQWIDTH :: "u8 \<Rightarrow> u8" where "XRAN_CONVERT_IQWIDTH x = (if x > 15 then 0 else x)"
definition XRAN_BASE_SECT_ID_TO_MU_SECT_ID :: "u32 \<Rightarrow> u8 \<Rightarrow> u32" where
  "XRAN_BASE_SECT_ID_TO_MU_SECT_ID base mu = base + of_nat XRAN_MAX_SECTIONS_PER_SLOT * ucast mu"

definition xran_slotid_convert :: "u16 \<Rightarrow> u16 \<Rightarrow> u32" where
  "xran_slotid_convert slot dir = ucast slot"

text \<open>The common header of the application layer, for a direction, a frame, a subframe, a slot and a
  symbol.\<close>

definition prepare_sf_slot_sym :: "dpdk_pkt \<Rightarrow> u8 \<Rightarrow> u8 \<Rightarrow> u8 \<Rightarrow> u8 \<Rightarrow> u8 \<Rightarrow> radio_app_common_hdr" where
  "prepare_sf_slot_sym d dir frame subframe slot symb =
     \<lparr>data_feature = set_bits 7 1 dir 0x10, app_frame_id = frame,
      sf_slot_sym = rte_cpu_to_be_16 d (set_bits 0 6 (ucast symb) (set_bits 6 6 (ucast (xran_slotid_convert (ucast slot) 0))
        (set_bits 12 4 (ucast subframe) 0)))\<rparr>"

definition section_word :: "u32 \<Rightarrow> u32 \<Rightarrow> u32 \<Rightarrow> u32" where
  "section_word sect_id num_prbu start_prbu =
     set_bits 19 1 0 (set_bits 18 1 0 (set_bits 8 10 start_prbu (set_bits 0 8 num_prbu (set_bits 20 12 sect_id 0))))"

definition compr_params :: "u8 \<Rightarrow> u8 \<Rightarrow> data_section_compression_hdr" where
  "compr_params meth width = \<lparr>ud_comp_hdr = set_bits 4 4 (XRAN_CONVERT_IQWIDTH width) (set_bits 0 4 meth 0), rsrvd = 0\<rparr>"

definition comp_parm_size :: "u8 \<Rightarrow> nat" where
  "comp_parm_size meth = (if meth = XRAN_COMPMETHOD_BLKFLOAT then 1 else 0)"

record up_symbol =
  up_direction :: u8
  section_id_start :: u16
  compMeth :: u8
  iqWidth :: u8
  up_frame_id :: u8
  up_subframe_id :: u8
  up_slot_id :: u8
  symbol_no :: u8
  prb_start :: int
  prb_num :: int
  CC_ID :: u8
  RU_Port_ID :: u8
  up_seq_id :: u8
  staticEn :: xran_comp_hdr_type
  num_sections :: u16
  up_mu :: u8
  isNb375 :: bool

text \<open>16-bit and 32-bit signed values.\<close>

definition int16 :: "int \<Rightarrow> int" where "int16 x = sint (word_of_int x :: u16)"
definition int32 :: "int \<Rightarrow> int" where "int32 x = sint (word_of_int x :: u32)"

definition nprb_per_section :: "up_symbol \<Rightarrow> int" where
  "nprb_per_section q =
     (let k = uint (num_sections q); n = int16 (prb_num q sdiv k)
      in if prb_num q smod k \<noteq> 0 then int16 (n + 1) else n)"

definition up_iq_bytes :: "up_symbol \<Rightarrow> int" where
  "up_iq_bytes q =
     (let w = (if iqWidth q = 0 then 16 else iqWidth q)
      in if isNb375 q then 192 else (3 * uint w + int (comp_parm_size (compMeth q))) * nprb_per_section q)"

definition up_hdr_bytes :: "up_symbol \<Rightarrow> nat" where
  "up_hdr_bytes q = (if compMeth q \<noteq> XRAN_COMPMETHOD_NONE \<and> staticEn q = XRAN_COMP_HDR_TYPE_DYNAMIC
     then sizeof_section_hdr + sizeof_compression_hdr else sizeof_section_hdr)"

text \<open>The last section gets the resource blocks that are left; the number of bytes stays that of a full
  section.\<close>

fun up_sections :: "dpdk_pkt \<Rightarrow> up_symbol \<Rightarrow> nat \<Rightarrow> nat \<Rightarrow> int \<Rightarrow> xran_up_pkt_gen_params list" where
  "up_sections d q 0 idx start = []"
| "up_sections d q (Suc k) idx start =
     (let n0 = nprb_per_section q;
          n = (if k = 0 \<and> (int idx + 1) * n0 > prb_num q then int16 (prb_num q - int idx * n0) else n0)
      in \<lparr>app_params = prepare_sf_slot_sym d (up_direction q) (up_frame_id q) (up_subframe_id q) (up_slot_id q) (symbol_no q),
          sec_hdr = rte_cpu_to_be_32 d (section_word (XRAN_BASE_SECT_ID_TO_MU_SECT_ID (ucast (section_id_start q) + of_nat idx) (up_mu q))
            (word_of_int (XRAN_CONVERT_NUMPRBC n)) (word_of_int start)),
          compr_hdr_param = compr_params (compMeth q) (if iqWidth q = 0 then 16 else iqWidth q)\<rparr>
         # up_sections d q k (Suc idx) (start + n))"

text \<open>More sections than the array of parameters holds, or none, are undefined.\<close>

definition sections_ok :: "up_symbol \<Rightarrow> bool" where
  "sections_ok q \<longleftrightarrow> 0 < num_sections q \<and> unat (num_sections q) \<le> XRAN_MAX_SECTIONS_PER_SLOT"

definition up_num_bytes :: "up_symbol \<Rightarrow> u32" where
  "up_num_bytes q = of_nat (unat (num_sections q)) * word_of_int (up_iq_bytes q)"

definition up_pkt_size :: "nat \<Rightarrow> up_symbol \<Rightarrow> nat" where
  "up_pkt_size start q =
     unat (word_of_int (int16 (int start + int (unat (num_sections q)) * (int (up_hdr_bytes q) + up_iq_bytes q))) :: u16)"

definition prepare_symbol_ex :: "dpdk_pkt \<Rightarrow> xran_eaxcid_config option \<Rightarrow> up_symbol \<Rightarrow> rte_mbuf \<Rightarrow> (int \<times> rte_mbuf) outcome" where
  "prepare_symbol_ex d conf q m =
     (if \<not> sections_ok q then Undefined
      else obind (xran_prepare_iq_symbol_portion d conf (up_num_bytes q) (up_sections d q (unat (num_sections q)) 0 (prb_start q))
             (CC_ID q) (RU_Port_ID q) (up_seq_id q) (staticEn q) m) (\<lambda>(r, m).
           if r \<le> 0 then Exited
           else Done (r, m\<lparr>data_len := up_pkt_size (sizeof_rte_ether_hdr d + sizeof_ecpri_hdr + sizeof_app_hdr) q\<rparr>)))"

definition prepare_symbol_ex_appand :: "dpdk_pkt \<Rightarrow> up_symbol \<Rightarrow> rte_mbuf \<Rightarrow> (int \<times> rte_mbuf) outcome" where
  "prepare_symbol_ex_appand d q m =
     (if \<not> sections_ok q then Undefined
      else obind (xran_prepare_iq_symbol_portion_appand d (up_num_bytes q)
             (up_sections d q (unat (num_sections q)) 0 (prb_start q)) (staticEn q) m) (\<lambda>(r, m).
           if r \<le> 0 then Exited
           else Done (r, m\<lparr>data_len := unat (of_nat (data_len m) + of_nat (up_pkt_size 0 q) :: u16)\<rparr>)))"

definition xran_get_iqdata_len :: "u16 \<Rightarrow> u8 \<Rightarrow> u8 \<Rightarrow> int" where
  "xran_get_iqdata_len rbs w meth = uint rbs * (3 * uint w + int (comp_parm_size meth))"

section \<open>Reading\<close>

record section_info =
  num_prbu :: u16
  start_prbu :: u16
  sym_inc :: u16
  rb :: u16
  sect_id :: u16

definition read_section :: "u32 \<Rightarrow> section_info" where
  "read_section w = \<lparr>num_prbu = ucast (get_bits 0 8 w), start_prbu = ucast (get_bits 8 10 w), sym_inc = ucast (get_bits 18 1 w),
     rb = ucast (get_bits 19 1 w), sect_id = ucast (get_bits 20 12 w)\<rparr>"

text \<open>The data section header, the compression header if one is expected, and the samples behind them.
  \<open>None\<close> stands for the result 0 of a packet that is too short.\<close>

definition extract_section ::
    "dpdk_pkt \<Rightarrow> bool \<Rightarrow> xran_comp_hdr_type \<Rightarrow> rte_mbuf \<Rightarrow> (section_info \<times> (u8 \<times> u8) option \<times> rte_mbuf) option outcome" where
  "extract_section d expect st m =
     obind (peek m 0 sizeof_section_hdr) (\<lambda>b.
     let w = rte_cpu_to_be_32 d (of_le32 b); i = read_section w
     in obind (poke 0 (le32 w) m) (\<lambda>m.
        case rte_pktmbuf_adj d sizeof_section_hdr m of None \<Rightarrow> Done None
        | Some m' \<Rightarrow>
            if expect \<and> st \<noteq> XRAN_COMP_HDR_TYPE_STATIC then
              obind (peek m' 0 sizeof_compression_hdr) (\<lambda>c.
              case rte_pktmbuf_adj d sizeof_compression_hdr m' of None \<Rightarrow> Done None
              | Some m'' \<Rightarrow> Done (Some (i, Some (get_bits 0 4 (c ! 0), get_bits 4 4 (c ! 0)), m'')))
            else Done (Some (i, None, m'))))"

definition xran_extract_iq_samples_dataheader ::
    "dpdk_pkt \<Rightarrow> bool \<Rightarrow> xran_comp_hdr_type \<Rightarrow> rte_mbuf \<Rightarrow> (section_info \<times> (u8 \<times> u8) option \<times> rte_mbuf) option outcome" where
  "xran_extract_iq_samples_dataheader d expect st m = extract_section d expect st m"

record up_header =
  rx_cc :: u8
  rx_ant :: u8
  rx_frame :: u8
  rx_subframe :: u8
  rx_slot :: u8
  rx_symb :: u8
  rx_seq :: u16

text \<open>The words of the headers are turned into the byte order of the machine in place.\<close>

definition xran_extract_iq_samples ::
    "dpdk_pkt \<Rightarrow> xran_eaxcid_config option \<Rightarrow> bool \<Rightarrow> xran_comp_hdr_type \<Rightarrow> rte_mbuf
     \<Rightarrow> (up_header \<times> section_info \<times> (u8 \<times> u8) option \<times> rte_mbuf) option outcome" where
  "xran_extract_iq_samples d conf expect st m =
     obind (peek m 0 sizeof_ecpri_hdr) (\<lambda>b.
     obind (xran_decompose_cid d conf (of_le16 (take 2 (drop 4 b)))) (\<lambda>e.
     case rte_pktmbuf_adj d sizeof_ecpri_hdr m of None \<Rightarrow> Done None
     | Some m \<Rightarrow>
         obind (peek m 0 sizeof_app_hdr) (\<lambda>a.
         let v = rte_cpu_to_be_16 d (of_le16 (drop 2 a));
             h = \<lparr>rx_cc = ccId e, rx_ant = ruPortId e, rx_frame = a ! 1, rx_subframe = ucast (get_bits 12 4 v),
                  rx_slot = ucast (xran_slotid_convert (get_bits 6 6 v) 1), rx_symb = ucast (get_bits 0 6 v),
                  rx_seq = of_le16 (drop 6 b)\<rparr>
         in obind (poke 2 (le16 v) m) (\<lambda>m.
            case rte_pktmbuf_adj d sizeof_app_hdr m of None \<Rightarrow> Done None
            | Some m \<Rightarrow>
                obind (extract_section d expect st m) (\<lambda>r.
                Done (map_option (\<lambda>(i, c, m). (h, i, c, m)) r))))))"

end
