(* ===== verification/Xran_Roundtrip.thy ===== *)
theory Xran_Roundtrip
  imports Xran_Uplane
begin

text \<open>
  What a receiver reads from a packet is what the sender put into it: the identifier of the carrier
  and the antenna, the common header, and every data section.
\<close>

section \<open>Carrier and antenna\<close>

definition cid_field :: "u8 \<Rightarrow> u16 \<Rightarrow> nat \<Rightarrow> bool" where
  "cid_field b m w \<longleftrightarrow> m = push_bit (unat b) (mask w) \<and> unat b + w \<le> 16 \<and> w \<le> 8"

text \<open>Four fields that do not overlap.\<close>

definition eaxc_ok :: "xran_eaxcid_config \<Rightarrow> nat \<Rightarrow> nat \<Rightarrow> nat \<Rightarrow> nat \<Rightarrow> bool" where
  "eaxc_ok c w1 w2 w3 w4 \<longleftrightarrow> cid_field (bit_cuPortId c) (mask_cuPortId c) w1
     \<and> cid_field (bit_bandSectorId c) (mask_bandSectorId c) w2
     \<and> cid_field (bit_ccId c) (mask_ccId c) w3 \<and> cid_field (bit_ruPortId c) (mask_ruPortId c) w4
     \<and> and (mask_cuPortId c) (mask_bandSectorId c) = 0 \<and> and (mask_cuPortId c) (mask_ccId c) = 0
     \<and> and (mask_cuPortId c) (mask_ruPortId c) = 0 \<and> and (mask_bandSectorId c) (mask_ccId c) = 0
     \<and> and (mask_bandSectorId c) (mask_ruPortId c) = 0 \<and> and (mask_ccId c) (mask_ruPortId c) = 0"

lemma ucast_cid_part:
  "ucast (cid_part x b m) = and (push_bit (unat b) (ucast x)) m"
  by (rule bit_word_eqI) (auto simp: cid_part_def bit_and_iff bit_push_bit_iff bit_ucast_iff dest: bit_imp_le_length)

lemma part_of_own:
  assumes "cid_field b m w" "unat x < 2 ^ w"
  shows "part_of_cid (and (push_bit (unat b) (ucast x)) m) b m = x"
proof (rule bit_word_eqI)
  fix n
  assume n: "n < LENGTH(8)"
  have "\<not> bit x n" if "w \<le> n"
  proof -
    have "take_bit w x = x" using assms(2) by (simp add: word_unat_eq_iff unsigned_take_bit_eq take_bit_nat_eq_self)
    then show ?thesis using that by (metis bit_take_bit_iff not_le)
  qed
  then show "bit (part_of_cid (and (push_bit (unat b) (ucast x)) m) b m) n = bit x n"
    using assms(1) n
    by (cases "n < w") (auto simp: part_of_cid_def cid_field_def bit_ucast_iff bit_drop_bit_eq bit_and_iff bit_push_bit_iff bit_mask_iff)
qed

lemma part_of_or:
  "part_of_cid (or x y) b m = or (part_of_cid x b m) (part_of_cid y b m)"
  by (rule bit_word_eqI) (auto simp: part_of_cid_def bit_ucast_iff bit_drop_bit_eq bit_and_iff bit_or_iff dest: bit_imp_le_length)

lemma part_of_foreign:
  assumes "and k m = (0 :: u16)"
  shows "part_of_cid (and y k) b m = 0"
  using assms by (simp add: part_of_cid_def and.assoc)

lemma ucast_or: "ucast (or x y :: 'a::len word) = or (ucast x) (ucast y :: 'b::len word)"
  by (rule bit_word_eqI) (auto simp: bit_ucast_iff bit_or_iff)

lemma cid_round_trip:
  assumes "dpdk_pkt_ok d" "eaxc_ok c w1 w2 w3 w4"
    and "unat cu < 2 ^ w1" "unat band < 2 ^ w2" "unat cc < 2 ^ w3" "unat ant < 2 ^ w4"
  shows "\<exists>cid. xran_compose_cid d (Some c) cu band cc ant = Done cid
    \<and> xran_decompose_cid d (Some c) cid = Done \<lparr>cuPortId = cu, bandSectorId = band, ccId = cc, ruPortId = ant\<rparr>"
proof -
  have f: "cid_field (bit_cuPortId c) (mask_cuPortId c) w1" "cid_field (bit_bandSectorId c) (mask_bandSectorId c) w2"
    "cid_field (bit_ccId c) (mask_ccId c) w3" "cid_field (bit_ruPortId c) (mask_ruPortId c) w4"
    using assms(2) by (simp_all add: eaxc_ok_def)
  have z: "and (mask_cuPortId c) (mask_bandSectorId c) = 0" "and (mask_cuPortId c) (mask_ccId c) = 0"
    "and (mask_cuPortId c) (mask_ruPortId c) = 0" "and (mask_bandSectorId c) (mask_ccId c) = 0"
    "and (mask_bandSectorId c) (mask_ruPortId c) = 0" "and (mask_ccId c) (mask_ruPortId c) = 0"
    using assms(2) by (simp_all add: eaxc_ok_def)
  have z': "and (mask_bandSectorId c) (mask_cuPortId c) = 0" "and (mask_ccId c) (mask_cuPortId c) = 0"
    "and (mask_ruPortId c) (mask_cuPortId c) = 0" "and (mask_ccId c) (mask_bandSectorId c) = 0"
    "and (mask_ruPortId c) (mask_bandSectorId c) = 0" "and (mask_ruPortId c) (mask_ccId c) = 0"
    using z by (simp_all add: and.commute)
  show ?thesis
    using assms(1,3-6) part_of_own [OF f(1)] part_of_own [OF f(2)] part_of_own [OF f(3)] part_of_own [OF f(4)]
    by (simp add: xran_compose_cid_def xran_decompose_cid_def Let_def dpdk_pkt_ok_def ucast_or ucast_cid_part part_of_or
      part_of_foreign [OF z(1)] part_of_foreign [OF z(2)] part_of_foreign [OF z(3)] part_of_foreign [OF z(4)]
      part_of_foreign [OF z(5)] part_of_foreign [OF z(6)] part_of_foreign [OF z'(1)] part_of_foreign [OF z'(2)] 
      part_of_foreign [OF z'(3)] part_of_foreign [OF z'(4)] part_of_foreign [OF z'(5)] part_of_foreign [OF z'(6)])
qed

section \<open>The layout of a packet\<close>

text \<open>Packets that differ in their bytes only.\<close>

definition same_frame :: "rte_mbuf \<Rightarrow> rte_mbuf \<Rightarrow> bool" where
  "same_frame m m' \<longleftrightarrow> data_off m' = data_off m \<and> data_len m' = data_len m \<and> length (buf_addr m') = length (buf_addr m)"

lemma same_frame_trans: "same_frame a b \<Longrightarrow> same_frame b c \<Longrightarrow> same_frame a c"
  by (simp add: same_frame_def)

lemma poke_Done:
  assumes "data_off m + off + length bs \<le> length (buf_addr m)"
  obtains m' where "poke off bs m = Done m'" "same_frame m m'" "peek m' off (length bs) = Done bs"
    "\<And>j n. j + n \<le> off \<or> off + length bs \<le> j \<Longrightarrow> peek m' j n = peek m j n"
proof -
  obtain m' where "poke off bs m = Done m'" using assms by (simp add: poke_def)
  with poke_facts [OF this] show ?thesis by (intro that [of m']) (auto simp: same_frame_def)
qed

lemma length_compr_bytes [simp]: "length (compr_bytes h) = 2"
  by (simp add: compr_bytes_def)

lemma length_app_bytes [simp]: "length (app_bytes h) = 4"
  by (simp add: app_bytes_def)

definition section_hdr_bytes :: "bool \<Rightarrow> nat" where
  "section_hdr_bytes c = (if c then sizeof_section_hdr + sizeof_compression_hdr else sizeof_section_hdr)"

text \<open>The header of one section.\<close>

definition put_header :: "xran_comp_hdr_type \<Rightarrow> xran_up_pkt_gen_params \<Rightarrow> nat \<Rightarrow> rte_mbuf \<Rightarrow> rte_mbuf outcome" where
  "put_header st p off m =
     obind (build_section_hdr (sec_hdr p) off m) (\<lambda>m.
       if has_compr_hdr st p then build_compression_hdr (compr_hdr_param p) (off + sizeof_section_hdr) m else Done m)"

lemma build_sections_Cons:
  "build_sections st n (p # ps) off len m =
     obind (put_header st p off m) (\<lambda>m. if n = 0 then Done (0, m)
       else build_sections st n ps (off + section_hdr_bytes (has_compr_hdr st p) + unat n) (len + ucast n) m)"
  by (cases "has_compr_hdr st p") (simp_all add: put_header_def section_hdr_bytes_def Let_def add.assoc cong: if_cong)

lemma build_header:
  assumes "data_off m + off + section_hdr_bytes (has_compr_hdr st p) \<le> length (buf_addr m)"
  obtains m' where "put_header st p off m = Done m'"
    "same_frame m m'" "peek m' off 4 = Done (le32 (sec_hdr p))"
    "has_compr_hdr st p \<Longrightarrow> peek m' (off + 4) 2 = Done (compr_bytes (compr_hdr_param p))"
    "\<And>j n. j + n \<le> off \<or> off + section_hdr_bytes (has_compr_hdr st p) \<le> j \<Longrightarrow> peek m' j n = peek m j n"
proof -
  have r: "data_off m + off + length (le32 (sec_hdr p)) \<le> length (buf_addr m)"
    using assms by (auto simp: section_hdr_bytes_def sizeof_section_hdr_def split: if_split_asm)
  from poke_Done [OF this] obtain m1 where m1: "poke off (le32 (sec_hdr p)) m = Done m1" "same_frame m m1"
    "peek m1 off 4 = Done (le32 (sec_hdr p))" "\<And>j n. j + n \<le> off \<or> off + 4 \<le> j \<Longrightarrow> peek m1 j n = peek m j n"
    by auto
  show ?thesis
  proof (cases "has_compr_hdr st p")
    case False
    then show ?thesis using m1 by (intro that [of m1]) (auto simp: put_header_def build_section_hdr_def section_hdr_bytes_def sizeof_section_hdr_def)
  next
    case True
    have "data_off m1 + (off + 4) + length (compr_bytes (compr_hdr_param p)) \<le> length (buf_addr m1)"
      using assms True m1(2) by (simp add: section_hdr_bytes_def sizeof_section_hdr_def sizeof_compression_hdr_def same_frame_def)
    from poke_Done [OF this] obtain m2 where m2: "poke (off + 4) (compr_bytes (compr_hdr_param p)) m1 = Done m2" "same_frame m1 m2"
      "peek m2 (off + 4) 2 = Done (compr_bytes (compr_hdr_param p))"
      "\<And>j n. j + n \<le> off + 4 \<or> 6 + off \<le> j \<Longrightarrow> peek m2 j n = peek m1 j n"
      by auto
    show ?thesis
    proof (rule that [of m2])
      show "put_header st p off m = Done m2"
        using True m1(1) m2(1) by (simp add: put_header_def build_section_hdr_def build_compression_hdr_def sizeof_section_hdr_def)
      show "same_frame m m2" using m1(2) m2(2) by (rule same_frame_trans)
      show "peek m2 off 4 = Done (le32 (sec_hdr p))" using m2(4) [of off 4] m1(3) by simp
      show "peek m2 (off + 4) 2 = Done (compr_bytes (compr_hdr_param p))" by (rule m2(3))
      show "peek m2 j n = peek m j n" if "j + n \<le> off \<or> off + section_hdr_bytes (has_compr_hdr st p) \<le> j" for j n
        using that True m1(4) [of j n] m2(4) [of j n]
        by (auto simp: section_hdr_bytes_def sizeof_section_hdr_def sizeof_compression_hdr_def)
    qed
  qed
qed

text \<open>All headers of a packet whose sections have the same size: \<open>h\<close> bytes of header and \<open>n\<close> bytes of
  samples.  The bytes of the samples, and those before the first section, stay as they are.\<close>

lemma build_sections_layout:
  assumes "n \<noteq> 0" "\<forall>p \<in> set ps. has_compr_hdr st p = c"
    and "data_off m + off + length ps * (section_hdr_bytes c + unat n) \<le> length (buf_addr m)"
  shows "\<exists>m'. build_sections st n ps off len m = Done (uint (len + of_nat (length ps) * ucast n), m') \<and> same_frame m m'
    \<and> (\<forall>j k. j + k \<le> off \<longrightarrow> peek m' j k = peek m j k)
    \<and> (\<forall>i < length ps. peek m' (off + i * (section_hdr_bytes c + unat n)) 4 = Done (le32 (sec_hdr (ps ! i)))
        \<and> (c \<longrightarrow> peek m' (off + i * (section_hdr_bytes c + unat n) + 4) 2 = Done (compr_bytes (compr_hdr_param (ps ! i))))
        \<and> (\<forall>j k. j + k \<le> unat n \<longrightarrow> peek m' (off + i * (section_hdr_bytes c + unat n) + section_hdr_bytes c + j) k
              = peek m (off + i * (section_hdr_bytes c + unat n) + section_hdr_bytes c + j) k))"
  using assms(2,3)
proof (induction ps arbitrary: off len m)
  case Nil
  then show ?case by (simp add: same_frame_def)
next
  case (Cons p ps)
  let ?h = "section_hdr_bytes c" let ?s = "section_hdr_bytes c + unat n"
  have c: "has_compr_hdr st p = c" "\<forall>p \<in> set ps. has_compr_hdr st p = c" using Cons.prems(1) by auto
  have "data_off m + off + section_hdr_bytes (has_compr_hdr st p) \<le> length (buf_addr m)" using Cons.prems(2) c(1) by simp
  from build_header [OF this] obtain m1 where m1: "put_header st p off m = Done m1" "same_frame m m1"
    "peek m1 off 4 = Done (le32 (sec_hdr p))" "c \<Longrightarrow> peek m1 (off + 4) 2 = Done (compr_bytes (compr_hdr_param p))"
    "\<And>j k. j + k \<le> off \<or> off + ?h \<le> j \<Longrightarrow> peek m1 j k = peek m j k"
    unfolding c(1) by metis
  have "data_off m1 + (off + ?s) + length ps * ?s \<le> length (buf_addr m1)"
    using Cons.prems(2) m1(2) by (simp add: same_frame_def)
  from Cons.IH [OF c(2) this, of "len + ucast n"] obtain m2 where
    m2: "build_sections st n ps (off + ?s) (len + ucast n) m1 = Done (uint (len + ucast n + of_nat (length ps) * ucast n), m2)"
    "same_frame m1 m2" "\<And>j k. j + k \<le> off + ?s \<Longrightarrow> peek m2 j k = peek m1 j k"
    "\<And>i. i < length ps \<Longrightarrow> peek m2 (off + ?s + i * ?s) 4 = Done (le32 (sec_hdr (ps ! i)))
        \<and> (c \<longrightarrow> peek m2 (off + ?s + i * ?s + 4) 2 = Done (compr_bytes (compr_hdr_param (ps ! i))))
        \<and> (\<forall>j k. j + k \<le> unat n \<longrightarrow> peek m2 (off + ?s + i * ?s + ?h + j) k = peek m1 (off + ?s + i * ?s + ?h + j) k)"
    by metis
  have h: "4 \<le> ?h" "c \<Longrightarrow> ?h = 6" by (simp_all add: section_hdr_bytes_def sizeof_section_hdr_def sizeof_compression_hdr_def)
  show ?case
  proof (intro exI conjI allI impI)
    show "build_sections st n (p # ps) off len m = Done (uint (len + of_nat (length (p # ps)) * ucast n), m2)"
      using m1(1) m2(1) assms(1) c(1) by (simp add: build_sections_Cons add.assoc algebra_simps del: build_sections.simps)
    show "same_frame m m2" using m1(2) m2(2) by (rule same_frame_trans)
    show "peek m2 j k = peek m j k" if "j + k \<le> off" for j k
      using that m1(5) [of j k] m2(3) [of j k] by simp
  next
    fix i assume "i < length (p # ps)"
    then consider "i = 0" | l where "i = Suc l" "l < length ps" by (cases i) auto
    note cs = this
    show "peek m2 (off + i * ?s) 4 = Done (le32 (sec_hdr ((p # ps) ! i)))"
      using cs by cases (use m1(3) m2(3) [of off 4] h m2(4) in \<open>auto simp: algebra_simps\<close>)
    show "peek m2 (off + i * ?s + 4) 2 = Done (compr_bytes (compr_hdr_param ((p # ps) ! i)))" if c
      using cs by cases (use that m1(4) m2(3) [of "off + 4" 2] h m2(4) in \<open>auto simp: algebra_simps\<close>)
    show "peek m2 (off + i * ?s + ?h + j) k = peek m (off + i * ?s + ?h + j) k" if "j + k \<le> unat n" for j k
      using cs
    proof cases
      case 1
      then show ?thesis using that m1(5) [of "off + ?h + j" k] m2(3) [of "off + ?h + j" k] by simp
    next
      case 2
      then show ?thesis using that m2(4) [of l] m1(5) [of "off + ?s + l * ?s + ?h + j" k] by (simp add: algebra_simps)
    qed
  qed
qed

section \<open>A symbol with equal sections\<close>

text \<open>The sections share the resource blocks evenly, \<open>n\<close> each; all fields are within the widths of the
  headers, and the packet is shorter than 32768 bytes.\<close>

definition equal_sections :: "up_symbol \<Rightarrow> int \<Rightarrow> bool" where
  "equal_sections q n \<longleftrightarrow> sections_ok q \<and> 0 < n \<and> prb_num q = uint (num_sections q) * n \<and> 0 \<le> prb_start q
     \<and> prb_start q + prb_num q \<le> 1023 \<and> \<not> isNb375 q \<and> compMeth q \<in> {XRAN_COMPMETHOD_NONE, XRAN_COMPMETHOD_BLKFLOAT}
     \<and> 0 < iqWidth q \<and> iqWidth q \<le> 16 \<and> (compMeth q = XRAN_COMPMETHOD_NONE \<or> iqWidth q < 16)
     \<and> uint (num_sections q) * (int (up_hdr_bytes q) + up_iq_bytes q) < 32000"

text \<open>The parameters of section \<open>i\<close>.\<close>

definition sec_params :: "dpdk_pkt \<Rightarrow> up_symbol \<Rightarrow> int \<Rightarrow> nat \<Rightarrow> xran_up_pkt_gen_params" where
  "sec_params d q n i =
     \<lparr>app_params = prepare_sf_slot_sym d (up_direction q) (up_frame_id q) (up_subframe_id q) (up_slot_id q) (symbol_no q),
      sec_hdr = rte_cpu_to_be_32 d (section_word (XRAN_BASE_SECT_ID_TO_MU_SECT_ID (ucast (section_id_start q) + of_nat i) (up_mu q))
        (word_of_int (XRAN_CONVERT_NUMPRBC n)) (word_of_int (prb_start q + int i * n))),
      compr_hdr_param = compr_params (compMeth q) (iqWidth q)\<rparr>"

lemma int16_small: "0 \<le> x \<Longrightarrow> x < 32768 \<Longrightarrow> int16 x = x"
  by (simp add: int16_def sint_sbintrunc' signed_take_bit_int_eq_self)

lemma equal_sections_bounds:
  assumes "equal_sections q n"
  shows "0 < uint (num_sections q)" "uint (num_sections q) \<le> 32" "0 < n" "n \<le> 1023"
    "uint (num_sections q) * n \<le> 1023" "nprb_per_section q = n" "iqWidth q \<noteq> 0"
proof -
  have u: "uint (num_sections q) = int (unat (num_sections q))" by simp
  have k0: "0 < num_sections q" "unat (num_sections q) \<le> 32" "0 < n"
    using assms unfolding equal_sections_def sections_ok_def XRAN_MAX_SECTIONS_PER_SLOT_def by blast+
  show k: "0 < uint (num_sections q)" "uint (num_sections q) \<le> 32" "0 < n"
    using k0(1,3) by (simp_all add: word_less_def) (use k0(2) u in linarith)
  show kn: "uint (num_sections q) * n \<le> 1023" using assms by (auto simp: equal_sections_def)
  have "1 * n \<le> uint (num_sections q) * n" using k by (intro mult_right_mono) auto
  then show n: "n \<le> 1023" using kn by simp
  have "num_sections q \<noteq> 0" using k0(1) by auto
  then show "nprb_per_section q = n"
    using assms k n int16_small [of n] by (simp add: nprb_per_section_def equal_sections_def signed_divide_int_def signed_modulo_int_def)
  show "iqWidth q \<noteq> 0" using assms by (auto simp: equal_sections_def)
qed

lemma up_sections_equal:
  assumes "equal_sections q n" "idx + r = unat (num_sections q)"
  shows "up_sections d q r idx (prb_start q + int idx * n) = map (sec_params d q n) [idx ..< unat (num_sections q)]"
  using assms(2)
proof (induction r arbitrary: idx)
  case 0
  then show ?case by simp
next
  case (Suc r)
  note b = equal_sections_bounds [OF assms(1)]
  have u: "uint (num_sections q) = int (unat (num_sections q))" by simp
  have "(int idx + 1) * n \<le> prb_num q"
  proof -
    have "(int idx + 1) * n \<le> uint (num_sections q) * n" using Suc.prems b(3) u by (intro mult_right_mono) linarith+
    then show ?thesis using assms(1) by (simp add: equal_sections_def)
  qed
  moreover have "up_sections d q r (Suc idx) (prb_start q + int idx * n + n) = map (sec_params d q n) [Suc idx ..< unat (num_sections q)]"
    using Suc.IH [of "Suc idx"] Suc.prems by (simp add: algebra_simps)
  moreover have "idx < unat (num_sections q)" using Suc.prems by auto
  ultimately show ?case
    using b(6,7) by (simp add: Let_def sec_params_def [of d q n idx] upt_conv_Cons not_less)
qed

text \<open>Bytes of samples and bytes from one section to the next.\<close>

definition iq_len :: "up_symbol \<Rightarrow> nat" where "iq_len q = nat (up_iq_bytes q)"
definition stride :: "up_symbol \<Rightarrow> nat" where "stride q = up_hdr_bytes q + iq_len q"

definition is_dynamic :: "up_symbol \<Rightarrow> bool" where
  "is_dynamic q \<longleftrightarrow> compMeth q \<noteq> XRAN_COMPMETHOD_NONE \<and> staticEn q = XRAN_COMP_HDR_TYPE_DYNAMIC"

lemma section_hdr_bytes_up [simp]: "section_hdr_bytes (is_dynamic q) = up_hdr_bytes q"
  by (simp add: section_hdr_bytes_def is_dynamic_def up_hdr_bytes_def)

lemma equal_sections_bytes:
  assumes "equal_sections q n"
  shows "up_iq_bytes q = (3 * uint (iqWidth q) + int (comp_parm_size (compMeth q))) * n" "0 < up_iq_bytes q"
    "int (iq_len q) = up_iq_bytes q" "0 < iq_len q" "unat (num_sections q) * stride q < 32000"
    "unat (num_sections q) * iq_len q < 32000" "0 < unat (num_sections q)"
proof -
  note b = equal_sections_bounds [OF assms]
  show iq: "up_iq_bytes q = (3 * uint (iqWidth q) + int (comp_parm_size (compMeth q))) * n"
    using assms b(6,7) by (simp add: up_iq_bytes_def equal_sections_def Let_def)
  have "0 < uint (iqWidth q)" using b(7) by (simp add: word_neq_0_conv word_less_def)
  then have "0 < 3 * uint (iqWidth q) + int (comp_parm_size (compMeth q))" by simp
  then show pos: "0 < up_iq_bytes q" using b(3) unfolding iq by (rule mult_pos_pos)
  then show l: "int (iq_len q) = up_iq_bytes q" "0 < iq_len q" by (simp_all add: iq_len_def)
  have "int (unat (num_sections q) * stride q) < 32000"
    using assms l(1) by (simp add: equal_sections_def stride_def)
  then show "unat (num_sections q) * stride q < 32000" by linarith
  moreover have "unat (num_sections q) * iq_len q \<le> unat (num_sections q) * stride q" by (simp add: stride_def)
  ultimately show "unat (num_sections q) * iq_len q < 32000" by linarith
  show "0 < unat (num_sections q)" using b(1) by (simp add: unat_gt_0 word_neq_0_conv word_less_def)
qed

lemma has_compr_sec_params:
  assumes "equal_sections q n"
  shows "has_compr_hdr (staticEn q) (sec_params d q n i) = is_dynamic q"
proof -
  have "take_bit 4 (compMeth q) = compMeth q"
    using assms by (auto simp: equal_sections_def XRAN_COMPMETHOD_NONE_def XRAN_COMPMETHOD_BLKFLOAT_def)
  then show ?thesis by (simp add: has_compr_hdr_def sec_params_def compr_params_def ud_comp_meth_def is_dynamic_def)
qed

lemma num_bytes_per_section:
  assumes "equal_sections q n"
  shows "unat (up_num_bytes q div of_nat (unat (num_sections q))) = iq_len q"
proof -
  note b = equal_sections_bytes [OF assms]
  have k: "unat (of_nat (unat (num_sections q)) :: u32) = unat (num_sections q)"
  proof -
    have "unat (num_sections q) \<le> 32" using assms by (simp add: equal_sections_def sections_ok_def XRAN_MAX_SECTIONS_PER_SLOT_def)
    then show ?thesis by (subst unat_of_nat) simp
  qed
  have w: "word_of_int (up_iq_bytes q) = (of_nat (iq_len q) :: u32)" by (simp flip: b(3))
  have "unat (up_num_bytes q) = unat (num_sections q) * iq_len q"
    unfolding up_num_bytes_def w of_nat_mult [symmetric] using b(6) by (subst unat_of_nat) simp
  then show ?thesis using k b(7) by (subst unat_div) (simp only:, simp)
qed

lemma up_pkt_size_equal:
  assumes "equal_sections q n" "start \<le> 700"
  shows "up_pkt_size start q = start + unat (num_sections q) * stride q"
proof -
  note b = equal_sections_bytes [OF assms(1)]
  have e: "int start + int (unat (num_sections q)) * (int (up_hdr_bytes q) + up_iq_bytes q) = int (start + unat (num_sections q) * stride q)"
    by (simp add: stride_def flip: b(3))
  show ?thesis
    unfolding up_pkt_size_def e using b(5) assms(2) by (subst int16_small; simp add: unat_of_nat flip: of_nat_add of_nat_mult)
qed

text \<open>Where the headers and the samples of section \<open>i\<close> start, counted from the first section.\<close>

definition built_sections :: "dpdk_pkt \<Rightarrow> up_symbol \<Rightarrow> int \<Rightarrow> nat \<Rightarrow> rte_mbuf \<Rightarrow> rte_mbuf \<Rightarrow> bool" where
  "built_sections d q n off m m' \<longleftrightarrow> (\<forall>i < unat (num_sections q).
      peek m' (off + i * stride q) 4 = Done (le32 (sec_hdr (sec_params d q n i)))
    \<and> (is_dynamic q \<longrightarrow> peek m' (off + i * stride q + 4) 2 = Done (compr_bytes (compr_params (compMeth q) (iqWidth q))))
    \<and> (\<forall>j k. j + k \<le> iq_len q \<longrightarrow>
          peek m' (off + i * stride q + up_hdr_bytes q + j) k = peek m (off + i * stride q + up_hdr_bytes q + j) k))"

definition up_app_hdr :: "dpdk_pkt \<Rightarrow> up_symbol \<Rightarrow> radio_app_common_hdr" where
  "up_app_hdr d q = prepare_sf_slot_sym d (up_direction q) (up_frame_id q) (up_subframe_id q) (up_slot_id q) (symbol_no q)"

lemma build_sections_equal:
  assumes e: "equal_sections q n" and "data_off m + off + unat (num_sections q) * stride q \<le> length (buf_addr m)"
  obtains r m' where "build_sections (staticEn q) (up_num_bytes q div of_nat (unat (num_sections q)))
      (map (sec_params d q n) [0 ..< unat (num_sections q)]) off 0 m = Done (r, m')" "0 < r" "same_frame m m'"
    "\<And>j k. j + k \<le> off \<Longrightarrow> peek m' j k = peek m j k" "built_sections d q n off m m'"
proof -
  note b = equal_sections_bytes [OF e]
  let ?n = "up_num_bytes q div of_nat (unat (num_sections q))"
  let ?ps = "map (sec_params d q n) [0 ..< unat (num_sections q)]"
  have n: "unat ?n = iq_len q" by (rule num_bytes_per_section [OF e])
  have "?n \<noteq> 0" using n b(4) by (metis unat_0 less_irrefl)
  moreover have "\<forall>p \<in> set ?ps. has_compr_hdr (staticEn q) p = is_dynamic q" by (simp add: has_compr_sec_params [OF e])
  moreover have "data_off m + off + length ?ps * (section_hdr_bytes (is_dynamic q) + unat ?n) \<le> length (buf_addr m)"
    using assms(2) n by (simp add: stride_def)
  ultimately obtain m' where m': "build_sections (staticEn q) ?n ?ps off 0 m = Done (uint (0 + of_nat (length ?ps) * ucast ?n :: u16), m')"
    "same_frame m m'" "\<And>j k. j + k \<le> off \<Longrightarrow> peek m' j k = peek m j k"
    "\<And>i. i < length ?ps \<Longrightarrow> peek m' (off + i * (section_hdr_bytes (is_dynamic q) + unat ?n)) 4 = Done (le32 (sec_hdr (?ps ! i)))
        \<and> (is_dynamic q \<longrightarrow> peek m' (off + i * (section_hdr_bytes (is_dynamic q) + unat ?n) + 4) 2 = Done (compr_bytes (compr_hdr_param (?ps ! i))))
        \<and> (\<forall>j k. j + k \<le> unat ?n \<longrightarrow> peek m' (off + i * (section_hdr_bytes (is_dynamic q) + unat ?n) + section_hdr_bytes (is_dynamic q) + j) k
              = peek m (off + i * (section_hdr_bytes (is_dynamic q) + unat ?n) + section_hdr_bytes (is_dynamic q) + j) k)"
    using build_sections_layout [of ?n ?ps "staticEn q" "is_dynamic q" m off 0] by metis
  show ?thesis
  proof (rule that [of "uint (0 + of_nat (length ?ps) * ucast ?n :: u16)" m'])
    have u: "(ucast ?n :: u16) = of_nat (iq_len q)" unfolding n [symmetric] by (simp only: of_nat_unat)
    have "unat (0 + of_nat (length ?ps) * ucast ?n :: u16) = unat (num_sections q) * iq_len q"
      unfolding u add_0 of_nat_mult [symmetric] using b(6) by (subst unat_of_nat) simp
    moreover have "uint x = int (unat x)" for x :: u16 by simp
    ultimately show "0 < uint (0 + of_nat (length ?ps) * ucast ?n :: u16)"
      using b(4,7) by (metis nat_0_less_mult_iff of_nat_0_less_iff)
    show "built_sections d q n off m m'"
      using m'(4) [unfolded section_hdr_bytes_up n] by (simp add: built_sections_def stride_def sec_params_def)
  qed (use m' in auto)
qed

text \<open>The packet of a symbol.  The bytes of the samples are those that were in the buffer.\<close>

lemma prepare_symbol_layout:
  assumes e: "equal_sections q n" and eth: "sizeof_rte_ether_hdr d = 14"
    and room: "data_off m + 26 + unat (num_sections q) * stride q \<le> length (buf_addr m)"
    and cid: "xran_compose_cid d (Some c) 0 0 (CC_ID q) (RU_Port_ID q) = Done cid"
  obtains r m' b where "prepare_symbol_ex d (Some c) q m = Done (r, m')" "0 < r"
    "data_off m' = data_off m" "length (buf_addr m') = length (buf_addr m)" "data_len m' = 26 + unat (num_sections q) * stride q"
    "peek m' 14 8 = Done b" "length b = 8" "take 2 (drop 4 b) = le16 cid" "drop 6 b = le16 (set_bits 0 8 (ucast (up_seq_id q)) 0x8000)"
    "peek m' 22 4 = Done (app_bytes (up_app_hdr d q))" "built_sections d q n 26 m m'"
proof -
  note b = equal_sections_bytes [OF e]
  let ?ps = "map (sec_params d q n) [0 ..< unat (num_sections q)]"
  define b where "b = [set_bits 4 4 XRAN_ECPRI_VER 0, ECPRI_IQ_DATA]
    @ le16 (rte_cpu_to_be_16 d (ucast (ucast (section_bytes (staticEn q) (up_num_bytes q) ?ps) + of_nat sizeof_app_hdr + of_nat XRAN_ECPRI_HDR_SZ :: u32)))
    @ le16 cid @ le16 (set_bits 0 8 (ucast (up_seq_id q)) 0x8000)"
  have lb: "length b = 8" by (simp add: b_def)
  have ps: "up_sections d q (unat (num_sections q)) 0 (prb_start q) = ?ps" using up_sections_equal [OF e, of 0] by simp
  have hd: "app_params (hd ?ps) = up_app_hdr d q" using b(7) by (simp add: hd_map sec_params_def up_app_hdr_def)
  have "data_off m + 14 + length b \<le> length (buf_addr m)" using room lb by simp
  from poke_Done [OF this] obtain m1 where m1: "poke 14 b m = Done m1" "same_frame m m1" "peek m1 14 8 = Done b"
    "\<And>j k. j + k \<le> 14 \<or> 22 \<le> j \<Longrightarrow> peek m1 j k = peek m j k" using lb by auto
  have "data_off m1 + 22 + length (app_bytes (up_app_hdr d q)) \<le> length (buf_addr m1)" using room m1(2) by (simp add: same_frame_def)
  from poke_Done [OF this] obtain m2 where m2: "poke 22 (app_bytes (up_app_hdr d q)) m1 = Done m2" "same_frame m1 m2"
    "peek m2 22 4 = Done (app_bytes (up_app_hdr d q))" "\<And>j k. j + k \<le> 22 \<or> 26 \<le> j \<Longrightarrow> peek m2 j k = peek m1 j k" by auto
  have "data_off m2 + 26 + unat (num_sections q) * stride q \<le> length (buf_addr m2)"
    using room m1(2) m2(2) by (simp add: same_frame_def)
  from build_sections_equal [OF e this, of d] obtain r m3 where
    m3: "build_sections (staticEn q) (up_num_bytes q div of_nat (unat (num_sections q))) ?ps 26 0 m2 = Done (r, m3)" "0 < r" "same_frame m2 m3"
    "\<And>j k. j + k \<le> 26 \<Longrightarrow> peek m3 j k = peek m2 j k" "built_sections d q n 26 m2 m3" by metis
  have ok: "sections_ok q" using e by (simp add: equal_sections_def)
  have prep: "xran_prepare_iq_symbol_portion d (Some c) (up_num_bytes q) ?ps (CC_ID q) (RU_Port_ID q) (up_seq_id q) (staticEn q) m = Done (r, m3)"
    unfolding xran_prepare_iq_symbol_portion_def xran_build_ecpri_hdr_ex_def build_application_layer_def hd eth Let_def cid
      obind.simps b_def [symmetric, simplified append_assoc]
    using m1(1) m2(1) m3(1) by (simp add: sizeof_ecpri_hdr_def sizeof_app_hdr_def flip: b_def)
  show ?thesis
  proof (rule that [of r "m3\<lparr>data_len := 26 + unat (num_sections q) * stride q\<rparr>" b])
    show "prepare_symbol_ex d (Some c) q m = Done (r, m3\<lparr>data_len := 26 + unat (num_sections q) * stride q\<rparr>)"
      using ok prep m3(2) by (simp add: prepare_symbol_ex_def ps up_pkt_size_equal [OF e] eth sizeof_ecpri_hdr_def sizeof_app_hdr_def)
    show "0 < r" "length b = 8" by (rule m3(2), rule lb)
    have pk: "peek (m3\<lparr>data_len := x\<rparr>) j k = peek m3 j k" for x j k by (simp add: peek_def)
    show "peek (m3\<lparr>data_len := 26 + unat (num_sections q) * stride q\<rparr>) 14 8 = Done b"
      using m3(4) [of 14 8] m2(4) [of 14 8] m1(3) by (simp add: pk)
    show "peek (m3\<lparr>data_len := 26 + unat (num_sections q) * stride q\<rparr>) 22 4 = Done (app_bytes (up_app_hdr d q))"
      using m3(4) [of 22 4] m2(3) by (simp add: pk)
    have "peek m2 (26 + i * stride q + up_hdr_bytes q + j) k = peek m (26 + i * stride q + up_hdr_bytes q + j) k" for i j k
      using m2(4) m1(4) by simp
    then show "built_sections d q n 26 m (m3\<lparr>data_len := 26 + unat (num_sections q) * stride q\<rparr>)"
      using m3(5) by (simp add: built_sections_def pk)
    show "take 2 (drop 4 b) = le16 cid" "drop 6 b = le16 (set_bits 0 8 (ucast (up_seq_id q)) 0x8000)"
      by (simp_all add: b_def le16_def)
  qed (use m1(2) m2(2) m3(3) in \<open>simp_all add: same_frame_def\<close>)
qed

end
