(* ===== verification/Xran_Rx.thy ===== *)
theory Xran_Rx
  imports Xran_Uplane Frame_Struct
begin

text \<open>
  Reception of the user plane: \<open>process_mbuf\<close> of \<open>lib/src/xran_common.c\<close>, with its checks, and the
  functions of \<open>lib/src/xran_rx_proc.c\<close> that enter a packet into the receive control of its symbol.
  Accesses behind the end of an array are \<open>Undefined\<close>; frames and ticks have the width of the code,
  and a value of type \<open>int\<close> is an integer.
\<close>

section \<open>Configuration and state\<close>

definition XRAN_N_FE_BUF_LEN :: nat where "XRAN_N_FE_BUF_LEN = 10"
definition XRAN_MAX_ANTENNA_NR :: nat where "XRAN_MAX_ANTENNA_NR = 16"
definition XRAN_MAX_ANT_ARRAY_ELM_NR :: nat where "XRAN_MAX_ANT_ARRAY_ELM_NR = 64"
definition XRAN_MAX_CSIRS_PORTS :: nat where "XRAN_MAX_CSIRS_PORTS = 32"
definition XRAN_MAX_RX_PKT_PER_SYM :: nat where "XRAN_MAX_RX_PKT_PER_SYM = 32"
definition SUBFRAMES_PER_SYSTEMFRAME :: nat where "SUBFRAMES_PER_SYSTEMFRAME = 10"
definition SUBFRAME_DURATION_US :: nat where "SUBFRAME_DURATION_US = 1000"
definition XRAN_FILTERINDEX_PRACH_012 :: u8 where "XRAN_FILTERINDEX_PRACH_012 = 1"
definition O_DU :: int where "O_DU = 0"
definition O_RU :: int where "O_RU = 1"

datatype xran_mbuf_mem_op_id = MBUF_KEEP | MBUF_FREE
datatype xran_ran_tech = XRAN_RAN_5GNR | XRAN_RAN_LTE
datatype xran_input_byte_order = XRAN_NE_BE_BYTE_ORDER | XRAN_CPU_LE_BYTE_ORDER

text \<open>A packet has a handle; a pointer into it is the handle and a place in the buffer.\<close>

type_synonym mbuf = nat

record xran_rx_packet_ctl =
  nRBStart :: "u16 list"
  nRBSize :: "u16 list"
  nSectid :: "u16 list"
  pData :: "(mbuf \<times> nat) option list"
  pCtrl :: "mbuf option list"
  nRxPkt :: nat

record xran_prb_elm =
  startSectId :: int
  elm_iqWidth :: int

record xran_prb_map =
  nPrbElm :: u32
  sFrontHaulRxPacketCtrl :: "xran_rx_packet_ctl list"
  prbMap :: "xran_prb_elm list"

record xran_prach_cp_config =
  filterIdx :: u8
  numPrbc :: u8
  prachEaxcOffset :: u16

record xran_device_per_mu_fields =
  eaxcOffset :: u8
  PrachCPConfig :: xran_prach_cp_config
  PrachCPConfigLTE :: xran_prach_cp_config
  sym_up_ul_ub :: int
  sym_up_ul_lb :: int
  ruRxSymUpMin :: int
  ruRxSymUpMax :: int

record xran_fh_per_mu_cfg =
  nDLRBs :: u16
  nULRBs :: u16
  prachEnable :: bool

record xran_rx_cfg =
  xran_port_id :: u8
  eAxc_id_cfg :: xran_eaxcid_config
  appmode :: int
  rru_workaround :: bool
  xran2phy_mem_ready :: bool
  active_CC :: u64
  ru_compMeth :: u8
  ru_iqWidth :: u8
  xranCompHdrType :: xran_comp_hdr_type
  xranTech :: xran_ran_tech
  byteOrder :: xran_input_byte_order
  neAxc :: u32
  neAxcUl :: u32
  nAntElmTRx :: u32
  numMUs :: u8
  mu_number :: "u8 list"
  fh_perMu :: "xran_fh_per_mu_cfg list"
  perMu :: "xran_device_per_mu_fields list"
  dropPacketsUp :: bool
  srsEnable :: bool
  srsEaxcOffset :: u8
  enableSrsCp :: bool
  csirsEnable :: bool
  csirsEaxcOffset :: int
  dssEnable :: bool
  dssPeriod :: u8
  technology :: "u8 list"
  prach_start_symbol :: "int list"

record xran_common_counters =
  Rx_on_time :: u64
  Rx_early :: u64
  Rx_late :: u64
  Total_msgs_rcvd :: u64
  rx_counter :: u64
  rx_pusch_packets :: "u64 list"
  rx_prach_packets :: "u64 list"
  rx_srs_packets :: u64
  rx_csirs_packets :: u64
  rx_err_drop :: u32
  rx_err_up :: u32
  rx_err_pusch :: u32
  rx_err_csirs :: u32
  rx_err_srs :: u32
  rx_err_prach :: u32

text \<open>The four arrays of resource block maps, and the index of a map: the numerology, the slot, the
  carrier and the antenna.\<close>

datatype rx_map = FrontHaulRx | PrachRx | SrsRx | CsirsTx

fun map_antennas :: "rx_map \<Rightarrow> nat" where
  "map_antennas SrsRx = XRAN_MAX_ANT_ARRAY_ELM_NR"
| "map_antennas CsirsTx = XRAN_MAX_CSIRS_PORTS"
| "map_antennas _ = XRAN_MAX_ANTENNA_NR"

type_synonym map_index = "u8 \<times> nat \<times> u8 \<times> u8"

record xran_rx =
  fh_counters :: xran_common_counters
  rb_maps :: "rx_map \<Rightarrow> map_index \<Rightarrow> xran_prb_map option"
  symbol_total_bytes :: "u8 \<times> u8 \<times> u8 \<times> u8 \<Rightarrow> int"
  freed :: "mbuf list"

text \<open>The timing: the first call of the timer, the symbol counters, and the frame of the last full
  second.\<close>

record xran_clock =
  first_call :: bool
  xran_lib_ota_sym_idx_mu :: "u32 list"
  xran_getSfnSecStart :: u16

definition count :: "(xran_common_counters \<Rightarrow> xran_common_counters) \<Rightarrow> xran_rx \<Rightarrow> xran_rx" where
  "count f s = s\<lparr>fh_counters := f (fh_counters s)\<rparr>"

definition count_drop :: "(xran_common_counters \<Rightarrow> xran_common_counters) \<Rightarrow> xran_rx \<Rightarrow> xran_rx" where
  "count_drop f = count (rx_err_drop_update (\<lambda>n. n + 1) \<circ> rx_err_up_update (\<lambda>n. n + 1) \<circ> f)"

definition at :: "'a list \<Rightarrow> nat \<Rightarrow> 'a outcome" where
  "at xs i = (if i < length xs then Done (xs ! i) else Undefined)"

definition prb_map_of :: "xran_rx_cfg \<Rightarrow> rx_map \<Rightarrow> map_index \<Rightarrow> xran_rx \<Rightarrow> xran_prb_map option outcome" where
  "prb_map_of c k i s =
     (case i of (mu, slot, cc, ant) \<Rightarrow>
        if unat mu < length (perMu c) \<and> slot < XRAN_N_FE_BUF_LEN \<and> unat cc < XRAN_MAX_SECTOR_NR \<and> unat ant < map_antennas k
        then Done (rb_maps s k i) else Undefined)"

definition set_prb_map :: "rx_map \<Rightarrow> map_index \<Rightarrow> xran_prb_map \<Rightarrow> xran_rx \<Rightarrow> xran_rx" where
  "set_prb_map k i m s = s\<lparr>rb_maps := (rb_maps s)(k := (rb_maps s k)(i := Some m))\<rparr>"

section \<open>Ticks\<close>

text \<open>\<open>SLOTNUM_PER_SUBFRAME\<close> divides by the length of a slot.\<close>

definition SLOTNUM_PER_SUBFRAME :: "u8 \<Rightarrow> nat outcome" where
  "SLOTNUM_PER_SUBFRAME mu =
     (if xran_fs_get_tti_interval mu = 0 then Undefined
      else Done (SUBFRAME_DURATION_US div unat (xran_fs_get_tti_interval mu)))"

definition packet_tti :: "u8 \<Rightarrow> u8 \<Rightarrow> u8 \<Rightarrow> u8 \<Rightarrow> nat outcome" where
  "packet_tti mu frame subframe slot =
     obind (SLOTNUM_PER_SUBFRAME mu) (\<lambda>n.
     Done (unat frame * (n * SUBFRAMES_PER_SYSTEMFRAME) + unat subframe * n + unat slot))"

definition XranGetTtiNum :: "u32 \<Rightarrow> u32 \<Rightarrow> u32" where "XranGetTtiNum symIdx n = symIdx div n"
definition XranGetSlotNum :: "u32 \<Rightarrow> u32 \<Rightarrow> u32" where "XranGetSlotNum tti n = tti mod n"
definition XranGetSubFrameNum :: "u32 \<Rightarrow> u32 \<Rightarrow> u32 \<Rightarrow> u32" where "XranGetSubFrameNum tti n k = (tti div n) mod k"
definition XranGetFrameNum :: "u32 \<Rightarrow> u16 \<Rightarrow> u32 \<Rightarrow> u32 \<Rightarrow> u32" where
  "XranGetFrameNum tti start k n = and (tti div (k * n) + ucast start) 0x3FF"

text \<open>The place of the clock within 256 frames: slot and symbol.  The number of slots in a subframe is not
  0 when it is defined.\<close>

definition ota_slot_and_symbol :: "xran_clock \<Rightarrow> u8 \<Rightarrow> (nat \<times> nat) outcome" where
  "ota_slot_and_symbol t mu =
     obind (at (xran_lib_ota_sym_idx_mu t) (unat mu)) (\<lambda>symIdx.
     obind (SLOTNUM_PER_SUBFRAME mu) (\<lambda>n.
     let tti = XranGetTtiNum symIdx (of_nat XRAN_NUM_OF_SYMBOL_PER_SLOT);
         slot = XranGetSlotNum tti (of_nat n); sf = XranGetSubFrameNum tti (of_nat n) (of_nat SUBFRAMES_PER_SYSTEMFRAME);
         frame = and (XranGetFrameNum tti (xran_getSfnSecStart t) (of_nat n) (of_nat SUBFRAMES_PER_SYSTEMFRAME)) 0xff
     in Done (unat frame * (n * SUBFRAMES_PER_SYSTEMFRAME) + unat sf * n + unat slot,
          unat symIdx mod XRAN_NUM_OF_SYMBOL_PER_SLOT)))"

definition MAX_SYM_IDX_FROM_PACKET :: "nat \<Rightarrow> nat" where
  "MAX_SYM_IDX_FROM_PACKET n = 256 * (n * SUBFRAMES_PER_SYSTEMFRAME) * XRAN_NUM_OF_SYMBOL_PER_SLOT"

text \<open>The deadlines for a packet, in symbols, and the time now, which may be moved by 256 frames.\<close>

definition rx_window :: "xran_rx_cfg \<Rightarrow> xran_device_per_mu_fields \<Rightarrow> nat \<Rightarrow> nat \<Rightarrow> nat \<Rightarrow> nat \<Rightarrow> nat \<Rightarrow> int \<times> int \<times> int" where
  "rx_window c f n tti symb otaTti otaSym =
     (let now = int (otaTti * XRAN_NUM_OF_SYMBOL_PER_SLOT + otaSym);
          due = int (tti * XRAN_NUM_OF_SYMBOL_PER_SLOT + symb); turn = int (MAX_SYM_IDX_FROM_PACKET n)
      in if appmode c = O_DU
         then (due + sym_up_ul_lb f, (if otaTti = 0 \<and> tti \<noteq> 0 then turn + int otaSym else now), due + sym_up_ul_ub f)
         else let more = (if tti = 0 \<and> otaTti \<noteq> 0 then turn else 0)
              in (due - ruRxSymUpMax f + more, now, due - ruRxSymUpMin f + more))"

definition xran_rx_timing_window_check ::
    "xran_rx_cfg \<Rightarrow> xran_clock \<Rightarrow> nat \<Rightarrow> u8 \<Rightarrow> u8 \<Rightarrow> xran_rx \<Rightarrow> (bool \<times> xran_rx) outcome" where
  "xran_rx_timing_window_check c t tti symb mu s =
     obind (ota_slot_and_symbol t mu) (\<lambda>(otaTti, otaSym).
     obind (SLOTNUM_PER_SUBFRAME mu) (\<lambda>n.
     obind (at (perMu c) (unat mu)) (\<lambda>f.
     case rx_window c f n tti (unat symb) otaTti otaSym of (lo, now, hi) \<Rightarrow>
       if (if appmode c = O_DU then hi < now else now < lo) then Done (False, count (Rx_late_update (\<lambda>k. k + 1)) s)
       else if (if appmode c = O_DU then now < lo else hi < now) then Done (False, count (Rx_early_update (\<lambda>k. k + 1)) s)
       else Done (True, count (Rx_on_time_update (\<lambda>k. k + 1)) s))))"

section \<open>Checks\<close>

text \<open>The bit test is converted to a 32-bit result.\<close>

definition xran_isactive_cc :: "xran_rx_cfg \<Rightarrow> u32 \<Rightarrow> u32" where
  "xran_isactive_cc c cc =
     (if cc < of_nat XRAN_MAX_SECTOR_NR then ucast (and (active_CC c) (push_bit (unat cc) 1)) else 0)"

definition XRAN_GET_MU_FROM_SECT_ID :: "u16 \<Rightarrow> u8" where
  "XRAN_GET_MU_FROM_SECT_ID sect = ucast (sect div of_nat XRAN_MAX_SECTIONS_PER_SLOT)"
definition XRAN_MU_SECT_ID_TO_BASE_SECT_ID :: "u16 \<Rightarrow> u16" where
  "XRAN_MU_SECT_ID_TO_BASE_SECT_ID sect = sect mod of_nat XRAN_MAX_SECTIONS_PER_SLOT"

text \<open>A numerology is accepted when it is among the first \<open>numMUs\<close> of the list; with \<open>numMUs = 0\<close>, the
  loop stops at once at an index that is not \<open>numMUs\<close>.\<close>

definition xran_validate_sectionId :: "xran_rx_cfg \<Rightarrow> u8 \<Rightarrow> xran_rx \<Rightarrow> (bool \<times> xran_rx) outcome" where
  "xran_validate_sectionId c mu s =
     (case mu_number c of [] \<Rightarrow> Undefined
      | m # ms \<Rightarrow>
          if mu = m then Done (True, s)
          else if numMUs c = 1 then Done (False, count_drop id s)
          else if numMUs c = 0 \<or> mu \<in> set (take (unat (numMUs c) - 1) ms) then Done (True, s)
          else if length ms < unat (numMUs c) - 1 then Undefined
          else Done (False, count_drop id s))"

text \<open>Sums of 16-bit values are taken as \<open>int\<close>.\<close>

definition xran_validate_numprbs :: "xran_rx_cfg \<Rightarrow> u8 \<Rightarrow> u16 \<Rightarrow> u16 \<Rightarrow> xran_rx \<Rightarrow> (bool \<times> xran_rx) outcome" where
  "xran_validate_numprbs c mu start num s =
     (if appmode c \<noteq> O_DU \<and> appmode c \<noteq> O_RU then Done (False, s)
      else obind (at (fh_perMu c) (unat mu)) (\<lambda>f.
        let top = (if appmode c = O_DU then nULRBs f else nDLRBs f)
        in if top \<le> start \<or> unat top < unat start + unat num then Done (False, count_drop id s) else Done (True, s)))"

definition xran_validate_numprbs_prach :: "xran_rx_cfg \<Rightarrow> u8 \<Rightarrow> u16 \<Rightarrow> u16 \<Rightarrow> xran_rx \<Rightarrow> (bool \<times> xran_rx) outcome" where
  "xran_validate_numprbs_prach c mu start num s =
     obind (at (perMu c) (unat mu)) (\<lambda>f.
     if unat (numPrbc (PrachCPConfig f)) < unat start + unat num
     then Done (False, count_drop (rx_err_prach_update (\<lambda>k. k + 1)) s) else Done (True, s))"

definition xran_validate_numprbs_prach_lte :: "xran_rx_cfg \<Rightarrow> u8 \<Rightarrow> u16 \<Rightarrow> u16 \<Rightarrow> xran_rx \<Rightarrow> (bool \<times> xran_rx) outcome" where
  "xran_validate_numprbs_prach_lte c mu start num s =
     obind (at (perMu c) (unat mu)) (\<lambda>f.
     if num \<noteq> ucast (numPrbc (PrachCPConfig f)) then Done (False, count_drop id s) else Done (True, s))"

text \<open>The check of the sequence is disabled: every packet is counted and accepted.\<close>

definition xran_validate_seq_id :: "xran_rx \<Rightarrow> bool \<times> xran_rx" where
  "xran_validate_seq_id s = (True, count (rx_counter_update (\<lambda>k. k + 1) \<circ> Total_msgs_rcvd_update (\<lambda>k. k + 1)) s)"

section \<open>Entering a packet into the control of its symbol\<close>

record rx_sym =
  rx_mbuf :: mbuf
  iq_data :: nat
  iq_bytes :: u16
  rx_CC_ID :: u8
  rx_Ant_ID :: u8
  rx_frame_id :: u8
  rx_subframe_id :: u8
  rx_slot_id :: u8
  rx_symb_id :: u8
  rx_num_prbu :: u16
  rx_start_prbu :: u16
  rx_sect_id :: u16
  rx_expect_comp :: bool
  rx_compMeth :: u8
  rx_iqWidth :: u8
  rx_mu :: u8

text \<open>The next free place of the control of a symbol takes the packet; a packet that was there before is
  freed.  Nothing is entered when the control is full.\<close>

definition enter_packet :: "rx_sym \<Rightarrow> bool \<Rightarrow> xran_rx_packet_ctl \<Rightarrow> (xran_rx_packet_ctl \<times> mbuf option) option" where
  "enter_packet p owner k =
     (let n = nRxPkt k
      in if XRAN_MAX_RX_PKT_PER_SYM \<le> n then None
         else Some (\<lparr>nRBStart = (nRBStart k)[n := rx_start_prbu p], nRBSize = (nRBSize k)[n := rx_num_prbu p],
                nSectid = (nSectid k)[n := rx_sect_id p], pData = (pData k)[n := Some (rx_mbuf p, iq_data p)],
                pCtrl = (pCtrl k)[n := if owner then Some (rx_mbuf p) else None], nRxPkt = n + 1\<rparr>, pCtrl k ! n))"

definition enter :: "rx_sym \<Rightarrow> bool \<Rightarrow> rx_map \<Rightarrow> map_index \<Rightarrow> nat \<Rightarrow> xran_prb_map \<Rightarrow> xran_rx \<Rightarrow> xran_rx option outcome" where
  "enter p owner k i symb m s =
     obind (at (sFrontHaulRxPacketCtrl m) symb) (\<lambda>ctl.
     case enter_packet p owner ctl of
       None \<Rightarrow> Done None
     | Some (ctl', old) \<Rightarrow>
         Done (Some (set_prb_map k i (m\<lparr>sFrontHaulRxPacketCtrl := (sFrontHaulRxPacketCtrl m)[symb := ctl']\<rparr>)
           (s\<lparr>freed := freed s @ (case old of None \<Rightarrow> [] | Some b \<Rightarrow> [b])\<rparr>))))"

type_synonym rx_result = "(int \<times> xran_mbuf_mem_op_id option \<times> xran_rx) outcome"

definition rejected :: "(xran_common_counters \<Rightarrow> xran_common_counters) \<Rightarrow> rx_sym \<Rightarrow> xran_rx \<Rightarrow> rx_result" where
  "rejected f p s = Done (uint (iq_bytes p), Some MBUF_FREE, count_drop f s)"

definition enter_or_reject ::
    "(xran_common_counters \<Rightarrow> xran_common_counters) \<Rightarrow> rx_sym \<Rightarrow> bool \<Rightarrow> rx_map \<Rightarrow> map_index \<Rightarrow> nat \<Rightarrow> xran_prb_map \<Rightarrow> xran_rx
     \<Rightarrow> rx_result" where
  "enter_or_reject f p owner k i symb m s =
     obind (enter p owner k i symb m s) (\<lambda>r.
     case r of None \<Rightarrow> rejected f p s | Some s' \<Rightarrow> Done (uint (iq_bytes p), Some MBUF_KEEP, s'))"

definition err_prach :: "xran_common_counters \<Rightarrow> xran_common_counters" where "err_prach = rx_err_prach_update (\<lambda>k. k + 1)"
definition err_srs :: "xran_common_counters \<Rightarrow> xran_common_counters" where "err_srs = rx_err_srs_update (\<lambda>k. k + 1)"
definition err_csirs :: "xran_common_counters \<Rightarrow> xran_common_counters" where "err_csirs = rx_err_csirs_update (\<lambda>k. k + 1)"
definition err_pusch :: "xran_common_counters \<Rightarrow> xran_common_counters" where "err_pusch = rx_err_pusch_update (\<lambda>k. k + 1)"

text \<open>The PRACH configuration of a slot: with spectrum sharing, the technology of the slot decides.\<close>

definition prach_config :: "xran_rx_cfg \<Rightarrow> u8 \<Rightarrow> nat \<Rightarrow> xran_prach_cp_config outcome" where
  "prach_config c mu tti =
     obind (at (perMu c) (unat mu)) (\<lambda>f.
     if dssEnable c then
       if dssPeriod c = 0 then Undefined
       else obind (at (technology c) (tti mod unat (dssPeriod c))) (\<lambda>x.
            Done (if x = 1 then PrachCPConfig f else PrachCPConfigLTE f))
     else Done (PrachCPConfig f))"

definition sym_tti :: "rx_sym \<Rightarrow> nat outcome" where
  "sym_tti p = packet_tti (rx_mu p) (rx_frame_id p) (rx_subframe_id p) (rx_slot_id p)"

definition xran_process_prach_sym :: "xran_rx_cfg \<Rightarrow> rx_sym \<Rightarrow> xran_rx \<Rightarrow> rx_result" where
  "xran_process_prach_sym c p s =
     (if \<not> xran2phy_mem_ready c then Done (0, None, s)
      else obind (sym_tti p) (\<lambda>tti. obind (prach_config c (rx_mu p) tti) (\<lambda>cfg.
        if unat (rx_Ant_ID p) < XRAN_MAX_ANTENNA_NR \<and> unat (rx_symb_id p) < XRAN_NUM_OF_SYMBOL_PER_SLOT then
          let det = (if rx_mu p > 0 \<and> filterIdx cfg = XRAN_FILTERINDEX_PRACH_012 then 2 ^ unat (rx_mu p) - 1 else 0);
              i = (rx_mu p, (tti + det) mod XRAN_N_FE_BUF_LEN, rx_CC_ID p, rx_Ant_ID p)
          in obind (prb_map_of c PrachRx i s) (\<lambda>r. case r of
               None \<Rightarrow> rejected err_prach p s
             | Some m \<Rightarrow>
                 if iq_bytes p = 0 then rejected err_prach p s
                 else obind (at (prach_start_symbol c) (unat (rx_CC_ID p))) (\<lambda>start.
                      enter_or_reject err_prach p True PrachRx i (unat (rx_symb_id p - word_of_int start)) m s))
        else rejected err_prach p s)))"

definition xran_process_srs_sym :: "xran_rx_cfg \<Rightarrow> rx_sym \<Rightarrow> xran_rx \<Rightarrow> rx_result" where
  "xran_process_srs_sym c p s =
     (if \<not> xran2phy_mem_ready c then Done (0, None, s)
      else obind (sym_tti p) (\<lambda>tti.
        if ucast (rx_Ant_ID p) < nAntElmTRx c \<and> unat (rx_symb_id p) < XRAN_NUM_OF_SYMBOL_PER_SLOT then
          let i = (rx_mu p, tti mod XRAN_N_FE_BUF_LEN, rx_CC_ID p, rx_Ant_ID p)
          in obind (prb_map_of c SrsRx i s) (\<lambda>r. case r of
               None \<Rightarrow> rejected err_srs p s
             | Some m \<Rightarrow>
                 if enableSrsCp c \<and> ucast (rx_sect_id p) \<ge> nPrbElm m
                    \<or> rx_expect_comp p \<and> rx_compMeth p \<noteq> XRAN_COMPMETHOD_NONE \<and> rx_iqWidth p \<noteq> ru_iqWidth c
                    \<or> iq_bytes p = 0 \<or> byteOrder c = XRAN_CPU_LE_BYTE_ORDER
                 then rejected err_srs p s
                 else enter_or_reject err_srs p True SrsRx i (unat (rx_symb_id p)) m s)
        else rejected err_srs p s))"

text \<open>The element of a section: the first one whose start is the identifier, and element 0 if there is
  none.  The code counts the elements in 16 bits, which reaches all of them: a map has at most 32
  (\<open>XRAN_MAX_SECTIONS_PER_SLOT\<close>).\<close>

fun find_elm :: "int \<Rightarrow> nat \<Rightarrow> xran_prb_elm list \<Rightarrow> nat option" where
  "find_elm sect i [] = None"
| "find_elm sect i (e # es) = (if sect = startSectId e then Some i else find_elm sect (Suc i) es)"

definition prb_elem_id :: "u16 \<Rightarrow> xran_prb_map \<Rightarrow> nat outcome" where
  "prb_elem_id sect m =
     (case find_elm (uint sect) 0 (take (unat (nPrbElm m)) (prbMap m)) of
        Some i \<Rightarrow> Done i
      | None \<Rightarrow> if length (prbMap m) < unat (nPrbElm m) then Undefined else Done 0)"

definition xran_process_csirs_sym :: "xran_rx_cfg \<Rightarrow> rx_sym \<Rightarrow> xran_rx \<Rightarrow> rx_result" where
  "xran_process_csirs_sym c p s =
     (if \<not> xran2phy_mem_ready c then Done (0, None, s)
      else obind (sym_tti p) (\<lambda>tti.
        if rx_CC_ID p = 0 \<and> unat (rx_Ant_ID p) < XRAN_MAX_CSIRS_PORTS \<and> unat (rx_symb_id p) < XRAN_NUM_OF_SYMBOL_PER_SLOT then
          let i = (rx_mu p, tti mod XRAN_N_FE_BUF_LEN, rx_CC_ID p, rx_Ant_ID p)
          in obind (prb_map_of c CsirsTx i s) (\<lambda>r. case r of
               None \<Rightarrow> rejected err_csirs p s
             | Some m \<Rightarrow>
                 obind (prb_elem_id (rx_sect_id p) m) (\<lambda>e.
                 if ucast (of_nat e :: u8) \<ge> nPrbElm m
                    \<or> rx_expect_comp p \<and> rx_compMeth p \<noteq> XRAN_COMPMETHOD_NONE \<and> rx_iqWidth p \<noteq> ru_iqWidth c
                    \<or> iq_bytes p = 0
                 then rejected err_csirs p s
                 else enter_or_reject err_csirs p True CsirsTx i (unat (rx_symb_id p)) m s))
        else rejected err_csirs p s))"

text \<open>Only the first section of a packet owns its buffer.  Samples in the byte order of the processor end
  the process.\<close>

definition xran_process_rx_sym :: "xran_rx_cfg \<Rightarrow> u16 \<Rightarrow> rx_sym \<Rightarrow> xran_rx \<Rightarrow> rx_result" where
  "xran_process_rx_sym c sectionIdx p s =
     obind (at (perMu c) (unat (rx_mu p))) (\<lambda>f.
     let ant = rx_Ant_ID p - eaxcOffset f
     in obind (sym_tti p) (\<lambda>tti.
        if ucast ant < (if appmode c = O_DU then neAxcUl c else neAxc c) \<and> unat (rx_symb_id p) < XRAN_NUM_OF_SYMBOL_PER_SLOT then
          let i = (rx_mu p, tti mod XRAN_N_FE_BUF_LEN, rx_CC_ID p, ant)
          in obind (prb_map_of c FrontHaulRx i s) (\<lambda>r. case r of
               None \<Rightarrow> rejected err_pusch p s
             | Some m \<Rightarrow>
                 obind (prb_elem_id (rx_sect_id p) m) (\<lambda>e.
                 if ucast (of_nat e :: u16) \<ge> nPrbElm m then rejected err_pusch p s
                 else obind (at (prbMap m) e) (\<lambda>elm.
                   if rx_expect_comp p \<and> rx_compMeth p \<noteq> XRAN_COMPMETHOD_NONE \<and> uint (rx_iqWidth p) \<noteq> elm_iqWidth elm
                   then rejected err_pusch p s
                   else if iq_bytes p = 0 then rejected err_pusch p s
                   else if byteOrder c = XRAN_CPU_LE_BYTE_ORDER then Exited
                   else enter_or_reject err_pusch p (sectionIdx = 0) FrontHaulRx i (unat (rx_symb_id p)) m s)))
        else rejected err_pusch p s))"

section \<open>The handler of a packet\<close>

definition drop_packet :: "xran_rx \<Rightarrow> xran_rx" where
  "drop_packet s = count_drop id s"

text \<open>The bytes of a symbol, by port, carrier, antenna and sequence number; the last dimension of the array
  is 255.\<close>

definition total_index :: "xran_rx_cfg \<Rightarrow> u8 \<Rightarrow> u8 \<Rightarrow> u8 \<Rightarrow> (u8 \<times> u8 \<times> u8 \<times> u8) outcome" where
  "total_index c cc ant seq =
     (if unat (xran_port_id c) < XRAN_PORTS_NUM \<and> unat cc < XRAN_MAX_SECTOR_NR \<and> unat ant < XRAN_MAX_ANTENNA_NR \<and> seq < 0xFF
      then Done (xran_port_id c, cc, ant, seq) else Undefined)"

definition set_total :: "u8 \<times> u8 \<times> u8 \<times> u8 \<Rightarrow> int \<Rightarrow> xran_rx \<Rightarrow> xran_rx" where
  "set_total i n s = s\<lparr>symbol_total_bytes := (symbol_total_bytes s)(i := n)\<rparr>"

definition op_of :: "xran_mbuf_mem_op_id option \<Rightarrow> xran_mbuf_mem_op_id" where
  "op_of r = (case r of None \<Rightarrow> MBUF_KEEP | Some x \<Rightarrow> x)"

definition bump :: "nat \<Rightarrow> u64 list \<Rightarrow> u64 list outcome" where
  "bump i xs = obind (at xs i) (\<lambda>x. Done (xs[i := x + 1]))"

definition bump_pusch :: "u8 \<Rightarrow> xran_rx \<Rightarrow> xran_rx outcome" where
  "bump_pusch ant s = obind (bump (unat ant) (rx_pusch_packets (fh_counters s))) (\<lambda>xs. Done (count (rx_pusch_packets_update (\<lambda>_. xs)) s))"

definition bump_prach :: "u8 \<Rightarrow> xran_rx \<Rightarrow> xran_rx outcome" where
  "bump_prach ant s = obind (bump (unat ant) (rx_prach_packets (fh_counters s))) (\<lambda>xs. Done (count (rx_prach_packets_update (\<lambda>_. xs)) s))"

text \<open>Packets of one section: the bytes are added, and the last packet of a symbol is processed.\<close>

definition rx_stream ::
    "xran_rx_cfg \<Rightarrow> (rx_sym \<Rightarrow> xran_rx \<Rightarrow> rx_result) \<Rightarrow> (xran_common_counters \<Rightarrow> xran_common_counters) \<Rightarrow> (xran_rx \<Rightarrow> xran_rx outcome)
     \<Rightarrow> rx_sym \<Rightarrow> int \<Rightarrow> u16 \<Rightarrow> xran_rx \<Rightarrow> (xran_mbuf_mem_op_id \<times> xran_rx) outcome" where
  "rx_stream c proc err packets p n seq s =
     obind (total_index c (rx_CC_ID p) (rx_Ant_ID p) (ucast (get_bits 0 8 seq))) (\<lambda>i.
     let s = set_total i (symbol_total_bytes s i + n) s
     in if get_bits 15 1 seq = 1 then
          if symbol_total_bytes s i \<noteq> 0 then
            obind (proc p s) (\<lambda>(res, op, s).
            let ok = (int16 res = symbol_total_bytes s i)
            in obind (packets (if ok then s else count_drop err s)) (\<lambda>s.
               Done (if ok then op_of op else MBUF_FREE, set_total i 0 s)))
          else Done (MBUF_FREE, s)
        else Done (MBUF_FREE, s))"

record rx_loop =
  lp_mbuf :: rte_mbuf
  lp_sym :: rx_sym
  lp_bytes :: int
  lp_idx :: u16
  lp_ret :: xran_mbuf_mem_op_id
  lp_state :: xran_rx

definition section_len :: "rx_sym \<Rightarrow> u16" where
  "section_len p = word_of_int ((uint (if rx_iqWidth p = 0 then 16 else rx_iqWidth p) * 3
     + (if rx_compMeth p \<noteq> XRAN_COMPMETHOD_NONE then 1 else 0)) * uint (rx_num_prbu p))"

text \<open>The resource blocks of a section; 0 stands for all that are left.\<close>

definition prbs_of :: "xran_rx_cfg \<Rightarrow> u8 \<Rightarrow> section_info \<Rightarrow> u16 outcome" where
  "prbs_of c mu i =
     (if num_prbu i = 0 then obind (at (fh_perMu c) (unat mu)) (\<lambda>f. Done (nULRBs f - start_prbu i)) else Done (num_prbu i))"

definition compr_of :: "u8 \<times> u8 \<Rightarrow> (u8 \<times> u8) option \<Rightarrow> u8 \<times> u8" where
  "compr_of old r = (case r of None \<Rightarrow> old | Some x \<Rightarrow> x)"

text \<open>The step to the section behind the current one; the flag says whether there is one.\<close>

definition next_section :: "dpdk_pkt \<Rightarrow> xran_rx_cfg \<Rightarrow> nat \<Rightarrow> rx_loop \<Rightarrow> (rx_loop \<times> bool) outcome" where
  "next_section d c len x =
     (let p = lp_sym x; m = (case rte_pktmbuf_adj d len (lp_mbuf x) of None \<Rightarrow> lp_mbuf x | Some m \<Rightarrow> m)
      in obind (xran_extract_iq_samples_dataheader d (rx_expect_comp p) (xranCompHdrType c) m) (\<lambda>r.
         case r of None \<Rightarrow> Done (x\<lparr>lp_state := drop_packet (lp_state x)\<rparr>, False)
         | Some (i, cm, m) \<Rightarrow>
             if data_len m = 0 then Done (x\<lparr>lp_mbuf := m, lp_state := drop_packet (lp_state x)\<rparr>, False)
             else obind (prbs_of c (rx_mu p) i) (\<lambda>num.
               obind (xran_validate_numprbs c (rx_mu p) (start_prbu i) num (lp_state x)) (\<lambda>(ok, s).
               let (meth, width) = compr_of (rx_compMeth p, rx_iqWidth p) cm;
                   p = p\<lparr>iq_data := data_off m, iq_bytes := of_nat (data_len m), rx_num_prbu := num, rx_start_prbu := start_prbu i,
                     rx_sect_id := XRAN_MU_SECT_ID_TO_BASE_SECT_ID (sect_id i), rx_compMeth := meth, rx_iqWidth := width\<rparr>;
                   x = x\<lparr>lp_mbuf := m, lp_sym := p, lp_bytes := int (data_len m), lp_state := s\<rparr>
               in if ok then obind (bump_pusch (rx_Ant_ID p) s) (\<lambda>s. Done (x\<lparr>lp_state := s\<rparr>, True))
                  else Done (x, False)))))"

text \<open>One section.  The length of the samples is unknown with modulation compression, and then the
  packet has no further section.\<close>

definition pusch_section :: "dpdk_pkt \<Rightarrow> xran_rx_cfg \<Rightarrow> rx_loop \<Rightarrow> (rx_loop \<times> bool) outcome" where
  "pusch_section d c x =
     (let p = lp_sym x; known = (rx_compMeth p \<noteq> XRAN_COMPMETHOD_MODULATION);
          p = (if known \<and> \<not> rx_expect_comp p \<and> rx_iqWidth p = 0 then p\<lparr>rx_iqWidth := ru_iqWidth c\<rparr> else p);
          len = section_len p
      in if known \<and> uint len > lp_bytes x then Done (x\<lparr>lp_sym := p, lp_state := count_drop err_pusch (lp_state x)\<rparr>, False)
         else obind (xran_process_rx_sym c (lp_idx x) p (lp_state x)) (\<lambda>(_, op, s).
           let x = x\<lparr>lp_sym := p, lp_ret := (if lp_idx x = 0 then op_of op else lp_ret x), lp_idx := lp_idx x + 1, lp_state := s\<rparr>
           in if known \<and> op_of op = MBUF_KEEP \<and> uint len < lp_bytes x then next_section d c (unat len) x
              else obind (bump_pusch (rx_Ant_ID p) s) (\<lambda>s. Done (x\<lparr>lp_state := s\<rparr>, False))))"

definition rx_pusch :: "dpdk_pkt \<Rightarrow> xran_rx_cfg \<Rightarrow> rx_sym \<Rightarrow> rte_mbuf \<Rightarrow> u16 \<Rightarrow> xran_rx \<Rightarrow> (xran_mbuf_mem_op_id \<times> rte_mbuf \<times> xran_rx) outcome" where
  "rx_pusch d c p m seq s =
     obind (xran_validate_numprbs c (rx_mu p) (rx_start_prbu p) (rx_num_prbu p) s) (\<lambda>(ok, s).
     if \<not> ok then Done (MBUF_FREE, m, s)
     else obind (total_index c (rx_CC_ID p) (rx_Ant_ID p) (ucast (get_bits 0 8 seq))) (\<lambda>i.
       let s = set_total i (symbol_total_bytes s i + int (data_len m)) s
       in if get_bits 15 1 seq = 1 then
            if symbol_total_bytes s i \<noteq> 0 then
              obind (run_loop (pusch_section d c)
                 \<lparr>lp_mbuf = m, lp_sym = p, lp_bytes = int (data_len m), lp_idx = 0, lp_ret = MBUF_FREE, lp_state = s\<rparr>) (\<lambda>x.
              Done (lp_ret x, lp_mbuf x, set_total i 0 (lp_state x)))
            else Done (MBUF_FREE, m, set_total i 0 s)
          else Done (MBUF_FREE, m, s)))"

definition is_csirs :: "xran_rx_cfg \<Rightarrow> u8 \<Rightarrow> bool" where
  "is_csirs c ant \<longleftrightarrow> appmode c = O_RU \<and> csirsEaxcOffset c \<le> uint ant
     \<and> uint ant < csirsEaxcOffset c + int XRAN_MAX_CSIRS_PORTS \<and> csirsEnable c"

definition is_srs :: "xran_rx_cfg \<Rightarrow> u8 \<Rightarrow> bool" where
  "is_srs c ant \<longleftrightarrow> srsEaxcOffset c \<le> ant
     \<and> uint ant < uint (srsEaxcOffset c) + uint (ucast (nAntElmTRx c) :: u8) \<and> srsEnable c"

definition is_prach :: "xran_rx_cfg \<Rightarrow> xran_prach_cp_config \<Rightarrow> xran_fh_per_mu_cfg \<Rightarrow> u8 \<Rightarrow> bool" where
  "is_prach c cfg f ant \<longleftrightarrow> uint (prachEaxcOffset cfg) \<le> uint ant
     \<and> uint ant < uint (prachEaxcOffset cfg) + uint (ucast (neAxc c) :: u8) \<and> prachEnable f"

definition rx_csirs :: "xran_rx_cfg \<Rightarrow> rx_sym \<Rightarrow> int \<Rightarrow> u16 \<Rightarrow> xran_rx \<Rightarrow> (xran_mbuf_mem_op_id \<times> xran_rx) outcome" where
  "rx_csirs c p n seq s =
     obind (xran_validate_numprbs c (rx_mu p) (rx_start_prbu p) (rx_num_prbu p) s) (\<lambda>(ok, s).
     if \<not> ok then Done (MBUF_FREE, s)
     else rx_stream c (xran_process_csirs_sym c) err_csirs (\<lambda>s. Done (count (rx_csirs_packets_update (\<lambda>k. k + 1)) s))
            (p\<lparr>rx_Ant_ID := rx_Ant_ID p - word_of_int (csirsEaxcOffset c)\<rparr>) n seq s)"

definition rx_srs :: "xran_rx_cfg \<Rightarrow> rx_sym \<Rightarrow> int \<Rightarrow> u16 \<Rightarrow> xran_rx \<Rightarrow> (xran_mbuf_mem_op_id \<times> xran_rx) outcome" where
  "rx_srs c p n seq s =
     obind (xran_validate_numprbs c (rx_mu p) (rx_start_prbu p) (rx_num_prbu p) s) (\<lambda>(ok, s).
     if \<not> ok then Done (MBUF_FREE, s)
     else rx_stream c (xran_process_srs_sym c) err_srs (\<lambda>s. Done (count (rx_srs_packets_update (\<lambda>k. k + 1)) s))
            (p\<lparr>rx_Ant_ID := rx_Ant_ID p - srsEaxcOffset c\<rparr>) n seq s)"

definition rx_prach :: "xran_rx_cfg \<Rightarrow> xran_prach_cp_config \<Rightarrow> rx_sym \<Rightarrow> int \<Rightarrow> u16 \<Rightarrow> xran_rx \<Rightarrow> (xran_mbuf_mem_op_id \<times> xran_rx) outcome" where
  "rx_prach c cfg p n seq s =
     obind (case xranTech c of
        XRAN_RAN_5GNR \<Rightarrow> xran_validate_numprbs_prach c (rx_mu p) (rx_start_prbu p) (rx_num_prbu p) s
      | XRAN_RAN_LTE \<Rightarrow> xran_validate_numprbs_prach_lte c (rx_mu p) (rx_start_prbu p) (rx_num_prbu p) s) (\<lambda>(ok, s).
     let p = p\<lparr>rx_Ant_ID := rx_Ant_ID p - ucast (prachEaxcOffset cfg)\<rparr>
     in if \<not> ok then Done (MBUF_FREE, s)
        else rx_stream c (xran_process_prach_sym c) err_prach (bump_prach (rx_Ant_ID p)) p n seq s)"

text \<open>The timing of the packet: sounding signals at the distributed unit are always on time.\<close>

definition rx_timing :: "xran_rx_cfg \<Rightarrow> xran_clock \<Rightarrow> nat \<Rightarrow> rx_sym \<Rightarrow> xran_rx \<Rightarrow> (bool \<times> xran_rx) outcome" where
  "rx_timing c t tti p s =
     (if appmode c = O_DU \<and> is_srs c (rx_Ant_ID p) then Done (True, count (Rx_on_time_update (\<lambda>k. k + 1)) s)
      else obind (xran_rx_timing_window_check c t tti (rx_symb_id p) (rx_mu p) s) (\<lambda>(ok, s). Done (ok \<or> \<not> dropPacketsUp c, s)))"

text \<open>The kind of a packet is the range its antenna is in.\<close>

definition rx_dispatch :: "dpdk_pkt \<Rightarrow> xran_rx_cfg \<Rightarrow> nat \<Rightarrow> rx_sym \<Rightarrow> rte_mbuf \<Rightarrow> u16 \<Rightarrow> xran_rx \<Rightarrow> (xran_mbuf_mem_op_id \<times> rte_mbuf \<times> xran_rx) outcome" where
  "rx_dispatch d c tti p m seq s =
     (let n = int (data_len m); with_mbuf = (\<lambda>(op, s). Done (op, m, s))
      in if is_csirs c (rx_Ant_ID p) then obind (rx_csirs c p n seq s) with_mbuf
         else if is_srs c (rx_Ant_ID p) then obind (rx_srs c p n seq s) with_mbuf
         else obind (prach_config c (rx_mu p) tti) (\<lambda>cfg. obind (at (fh_perMu c) (unat (rx_mu p))) (\<lambda>f.
              if is_prach c cfg f (rx_Ant_ID p) then obind (rx_prach c cfg p n seq s) with_mbuf
              else rx_pusch d c p m seq s)))"

text \<open>A packet that is too short is given back as it came; its bytes are not used any more.\<close>

definition process_mbuf ::
    "dpdk_pkt \<Rightarrow> xran_rx_cfg \<Rightarrow> xran_clock \<Rightarrow> mbuf \<Rightarrow> rte_mbuf \<Rightarrow> xran_rx \<Rightarrow> (xran_mbuf_mem_op_id \<times> rte_mbuf \<times> xran_rx) outcome" where
  "process_mbuf d c t h m s =
     (if \<not> first_call t \<or> \<not> xran2phy_mem_ready c then Done (MBUF_FREE, m, s)
      else let expect = (ru_compMeth c \<noteq> XRAN_COMPMETHOD_NONE)
      in obind (xran_extract_iq_samples d (Some (eAxc_id_cfg c)) expect (xranCompHdrType c) m) (\<lambda>r.
      case r of None \<Rightarrow> Done (MBUF_FREE, m, drop_packet s)
      | Some (hdr, i, cm, m) \<Rightarrow>
          if data_len m = 0 \<or> xran_isactive_cc c (ucast (rx_cc hdr)) = 0 then Done (MBUF_FREE, m, drop_packet s)
          else let mu = XRAN_GET_MU_FROM_SECT_ID (sect_id i) in
          obind (prbs_of c mu i) (\<lambda>num.
          obind (xran_validate_sectionId c mu s) (\<lambda>(ok, s).
          if \<not> ok then Done (MBUF_FREE, m, s)
          else obind (packet_tti mu (rx_frame hdr) (rx_subframe hdr) (rx_slot hdr)) (\<lambda>tti.
          let (meth, width) = compr_of (if xranCompHdrType c = XRAN_COMP_HDR_TYPE_STATIC then (ru_compMeth c, ru_iqWidth c) else (0, 0)) cm;
              p = \<lparr>rx_mbuf = h, iq_data = data_off m, iq_bytes = of_nat (data_len m), rx_CC_ID = rx_cc hdr, rx_Ant_ID = rx_ant hdr,
                 rx_frame_id = rx_frame hdr, rx_subframe_id = rx_subframe hdr, rx_slot_id = rx_slot hdr, rx_symb_id = rx_symb hdr,
                 rx_num_prbu = num, rx_start_prbu = start_prbu i, rx_sect_id = XRAN_MU_SECT_ID_TO_BASE_SECT_ID (sect_id i),
                 rx_expect_comp = expect, rx_compMeth = meth, rx_iqWidth = width, rx_mu = mu\<rparr>
          in obind (rx_timing c t tti p s) (\<lambda>(ok, s).
             if \<not> ok then Done (MBUF_FREE, m, s)
             else rx_dispatch d c tti p m (rx_seq hdr) (snd (xran_validate_seq_id s))))))))"

end
