(* ===== verification/Xran_Receive.thy ===== *)
theory Xran_Receive
  imports Xran_Roundtrip Xran_Rx
begin

text \<open>
  A symbol on its way from the sender to the tables of the receiver: the packet that
  \<open>prepare_symbol_ex\<close> builds is read by \<open>process_mbuf\<close>, which enters every section with its resource
  blocks and the place of its samples.
\<close>

section \<open>Reading the headers\<close>

lemma peek_adj: "peek (m\<lparr>data_off := data_off m + n, data_len := l\<rparr>) j k = peek m (n + j) k"
  by (simp add: peek_def add.assoc)

lemma peek_Done_room: "peek m off n = Done b \<Longrightarrow> data_off m + off + n \<le> length (buf_addr m)"
  by (simp add: peek_def split: if_split_asm)

text \<open>Bytes of the buffer, wherever the data starts.\<close>

definition raw :: "rte_mbuf \<Rightarrow> nat \<Rightarrow> nat \<Rightarrow> u8 list" where
  "raw m p k = take k (drop p (buf_addr m))"

lemma poke_raw:
  assumes "poke off bs m = Done m'" "p + k \<le> data_off m"
  shows "raw m' p k = raw m p k"
  using assms peek_overwrite_other [of "data_off m + off" bs "buf_addr m" p k]
  by (auto simp: poke_def raw_def split: if_split_asm)

lemma peek_raw: "peek m off n = Done b \<Longrightarrow> raw m (data_off m + off) n = b"
  by (auto simp: peek_def raw_def split: if_split_asm)

text \<open>A packet from which the first \<open>n\<close> bytes were read; only those may have changed.\<close>

definition behind :: "rte_mbuf \<Rightarrow> nat \<Rightarrow> rte_mbuf \<Rightarrow> bool" where
  "behind m n m' \<longleftrightarrow> data_off m' = data_off m + n \<and> data_len m' = data_len m - n \<and> length (buf_addr m') = length (buf_addr m)
     \<and> (\<forall>j k. peek m' j k = peek m (n + j) k) \<and> (\<forall>p k. p + k \<le> data_off m \<longrightarrow> raw m' p k = raw m p k)"

lemma behind_trans: "behind a n b \<Longrightarrow> behind b k c \<Longrightarrow> behind a (n + k) c"
  by (simp add: behind_def add.assoc)

lemma adj_behind:
  assumes "dpdk_pkt_ok d" "n \<le> data_len m"
  obtains m' where "rte_pktmbuf_adj d n m = Some m'" "behind m n m'"
  using assms by (auto simp: dpdk_pkt_ok_def behind_def peek_adj raw_def)

lemma poke_adj_behind:
  assumes "dpdk_pkt_ok d" "poke off bs m = Done m1" "off + length bs \<le> n" "n \<le> data_len m"
  obtains m' where "rte_pktmbuf_adj d n m1 = Some m'" "behind m n m'"
proof -
  note p = poke_facts [OF assms(2)]
  have "n \<le> data_len m1" using assms(4) p(2) by simp
  from adj_behind [OF assms(1) this] obtain m' where "rte_pktmbuf_adj d n m1 = Some m'" "behind m1 n m'" .
  then show ?thesis using p assms(3) poke_raw [OF assms(2)] by (intro that [of m']) (auto simp: behind_def)
qed

lemma extract_section_reads:
  assumes ok: "dpdk_pkt_ok d" and hdr: "peek m 0 4 = Done (le32 (rte_cpu_to_be_32 d w))"
    and dyn: "dyn \<longleftrightarrow> expect \<and> st \<noteq> XRAN_COMP_HDR_TYPE_STATIC" and cmp: "dyn \<Longrightarrow> peek m 4 2 = Done (compr_bytes h)"
    and len: "section_hdr_bytes dyn \<le> data_len m"
  obtains m' where "extract_section d expect st m
      = Done (Some (read_section w, if dyn then Some (get_bits 0 4 (ud_comp_hdr h), get_bits 4 4 (ud_comp_hdr h)) else None, m'))"
    "behind m (section_hdr_bytes dyn) m'"
proof -
  have w: "rte_cpu_to_be_32 d (of_le32 (le32 (rte_cpu_to_be_32 d w))) = w" using ok by (simp add: dpdk_pkt_ok_def)
  have "data_off m + 0 + length (le32 w) \<le> length (buf_addr m)" using peek_Done_room [OF hdr] by simp
  from poke_Done [OF this] obtain m1 where m1: "poke 0 (le32 w) m = Done m1" by metis
  have "4 \<le> data_len m" using len by (auto simp: section_hdr_bytes_def sizeof_section_hdr_def split: if_split_asm)
  then obtain m2 where m2: "rte_pktmbuf_adj d 4 m1 = Some m2" "behind m 4 m2"
    using poke_adj_behind [OF ok m1, of 4] by auto
  show ?thesis
  proof (cases dyn)
    case False
    then show ?thesis
      using m1 m2 hdr w dyn by (intro that [of m2]) (auto simp: extract_section_def sizeof_section_hdr_def section_hdr_bytes_def)
  next
    case True
    then have c: "peek m2 0 2 = Done (compr_bytes h)" using cmp m2(2) by (simp add: behind_def)
    have "2 \<le> data_len m2"
      using True len m2(2) by (simp add: behind_def section_hdr_bytes_def sizeof_section_hdr_def sizeof_compression_hdr_def)
    from adj_behind [OF ok this] obtain m3 where m3: "rte_pktmbuf_adj d 2 m2 = Some m3" "behind m2 2 m3" .
    have "behind m 6 m3" using behind_trans [OF m2(2) m3(2)] by simp
    then show ?thesis
      using True m1 m2 m3 hdr w dyn c
      by (intro that [of m3]) (auto simp: extract_section_def sizeof_section_hdr_def sizeof_compression_hdr_def section_hdr_bytes_def compr_bytes_def)
  qed
qed

lemma extract_iq_samples_reads:
  assumes ok: "dpdk_pkt_ok d" and b: "peek m 0 8 = Done b" and e: "xran_decompose_cid d conf (of_le16 (take 2 (drop 4 b))) = Done e"
    and a: "peek m 8 4 = Done (app_bytes h)"
    and hdr: "peek m 12 4 = Done (le32 (rte_cpu_to_be_32 d w))"
    and dyn: "dyn \<longleftrightarrow> expect \<and> st \<noteq> XRAN_COMP_HDR_TYPE_STATIC" and cmp: "dyn \<Longrightarrow> peek m 16 2 = Done (compr_bytes ch)"
    and len: "12 + section_hdr_bytes dyn \<le> data_len m"
  obtains m' where "xran_extract_iq_samples d conf expect st m = Done (Some
      (\<lparr>rx_cc = ccId e, rx_ant = ruPortId e, rx_frame = app_frame_id h,
        rx_subframe = ucast (get_bits 12 4 (rte_cpu_to_be_16 d (sf_slot_sym h))),
        rx_slot = ucast (get_bits 6 6 (rte_cpu_to_be_16 d (sf_slot_sym h))),
        rx_symb = ucast (get_bits 0 6 (rte_cpu_to_be_16 d (sf_slot_sym h))), rx_seq = of_le16 (drop 6 b)\<rparr>,
       read_section w, if dyn then Some (get_bits 0 4 (ud_comp_hdr ch), get_bits 4 4 (ud_comp_hdr ch)) else None, m'))"
    "behind m (12 + section_hdr_bytes dyn) m'"
proof -
  from adj_behind [OF ok, of 8 m] len obtain m1 where m1: "rte_pktmbuf_adj d 8 m = Some m1" "behind m 8 m1" by auto
  have a1: "peek m1 0 4 = Done (app_bytes h)" using a m1(2) by (simp add: behind_def)
  let ?v = "rte_cpu_to_be_16 d (sf_slot_sym h)"
  have "data_off m1 + 2 + length (le16 ?v) \<le> length (buf_addr m1)" using peek_Done_room [OF a1] by simp
  from poke_Done [OF this] obtain m2 where m2: "poke 2 (le16 ?v) m1 = Done m2" by metis
  have "4 \<le> data_len m1" using len m1(2) by (simp add: behind_def)
  with poke_adj_behind [OF ok m2, of 4] obtain m3 where m3: "rte_pktmbuf_adj d 4 m2 = Some m3" "behind m1 4 m3" by auto
  have m13: "behind m 12 m3" using behind_trans [OF m1(2) m3(2)] by simp
  have h3: "peek m3 0 4 = Done (le32 (rte_cpu_to_be_32 d w))" "dyn \<Longrightarrow> peek m3 4 2 = Done (compr_bytes ch)"
    "section_hdr_bytes dyn \<le> data_len m3"
    using m13 hdr cmp len by (simp_all add: behind_def)
  obtain m4 where m4: "extract_section d expect st m3
      = Done (Some (read_section w, if dyn then Some (get_bits 0 4 (ud_comp_hdr ch), get_bits 4 4 (ud_comp_hdr ch)) else None, m4))"
    "behind m3 (section_hdr_bytes dyn) m4"
    using extract_section_reads [OF ok h3(1) dyn h3(2) h3(3)] by metis
  have app: "app_bytes h ! Suc 0 = app_frame_id h" "of_le16 (drop 2 (app_bytes h)) = sf_slot_sym h"
    by (simp_all add: app_bytes_def)
  have u: "(ucast (ucast (x :: u16) :: u32) :: u8) = ucast x" for x
    by (rule bit_word_eqI) (auto simp: bit_ucast_iff dest: bit_imp_le_length)
  show ?thesis
    using behind_trans [OF m13 m4(2)] m1(1) m2 m3(1) m4(1) b e a1 app
    by (intro that [of m4]) (simp_all add: xran_extract_iq_samples_def sizeof_ecpri_hdr_def sizeof_app_hdr_def Let_def xran_slotid_convert_def u)
qed

section \<open>The fields of the headers\<close>

lemma app_fields_read:
  assumes "dpdk_pkt_ok d" "unat (up_subframe_id q) < 16" "unat (up_slot_id q) < 64" "unat (symbol_no q) < 64"
  shows "ucast (get_bits 12 4 (rte_cpu_to_be_16 d (sf_slot_sym (up_app_hdr d q)))) = up_subframe_id q"
    "ucast (get_bits 6 6 (rte_cpu_to_be_16 d (sf_slot_sym (up_app_hdr d q)))) = up_slot_id q"
    "ucast (get_bits 0 6 (rte_cpu_to_be_16 d (sf_slot_sym (up_app_hdr d q)))) = symbol_no q"
    "app_frame_id (up_app_hdr d q) = up_frame_id q"
proof -
  have u: "(ucast (ucast (ucast x :: u16) :: u32) :: u16) = ucast x" for x :: u8
    by (rule bit_word_eqI) (auto simp: bit_ucast_iff)
  show "ucast (get_bits 12 4 (rte_cpu_to_be_16 d (sf_slot_sym (up_app_hdr d q)))) = up_subframe_id q"
    "ucast (get_bits 6 6 (rte_cpu_to_be_16 d (sf_slot_sym (up_app_hdr d q)))) = up_slot_id q"
    "ucast (get_bits 0 6 (rte_cpu_to_be_16 d (sf_slot_sym (up_app_hdr d q)))) = symbol_no q"
    "app_frame_id (up_app_hdr d q) = up_frame_id q"
    using assms by (simp_all add: up_app_hdr_def prepare_sf_slot_sym_def dpdk_pkt_ok_def xran_slotid_convert_def u take_bit_ucast_small)
qed

lemma seq_fields_read:
  "get_bits 0 8 (set_bits 0 8 (ucast (x :: u8)) 0x8000 :: u16) = ucast x" "get_bits 15 1 (set_bits 0 8 v 0x8000 :: u16) = 1"
proof -
  show "get_bits 0 8 (set_bits 0 8 (ucast x) 0x8000 :: u16) = ucast x"
    by (rule bit_word_eqI) (auto simp: bit_take_bit_iff bit_ucast_iff dest: bit_imp_le_length)
  have "get_bits 15 1 (0x8000 :: u16) = 1" by (simp add: get_bits_def)
  then show "get_bits 15 1 (set_bits 0 8 v 0x8000 :: u16) = 1" by simp
qed

lemma section_fields_read:
  assumes "unat i < 4096" "unat n < 256" "unat st < 1024"
  shows "read_section (section_word i n st) = \<lparr>num_prbu = ucast n, start_prbu = ucast st, sym_inc = 0, rb = 0, sect_id = ucast i\<rparr>"
proof -
  have t: "take_bit k x = x" if "unat x < 2 ^ k" for k and x :: u32
    using that by (simp add: word_unat_eq_iff unsigned_take_bit_eq take_bit_nat_eq_self)
  show ?thesis using assms by (simp add: read_section_def section_word_def t)
qed

lemma compr_fields_read:
  assumes "equal_sections q n" "is_dynamic q"
  shows "get_bits 0 4 (ud_comp_hdr (compr_params (compMeth q) (iqWidth q))) = compMeth q"
    "get_bits 4 4 (ud_comp_hdr (compr_params (compMeth q) (iqWidth q))) = iqWidth q"
proof -
  have t: "take_bit 4 x = x" if "unat x < 16" for x :: u8
    using that by (simp add: word_unat_eq_iff unsigned_take_bit_eq take_bit_nat_eq_self)
  have m: "compMeth q = 1" "iqWidth q < 16"
    using assms by (auto simp: equal_sections_def is_dynamic_def XRAN_COMPMETHOD_NONE_def XRAN_COMPMETHOD_BLKFLOAT_def)
  then have "unat (iqWidth q) < 16" by (simp add: word_less_nat_alt)
  moreover have "\<not> 15 < iqWidth q" using m(2) by (simp add: word_less_nat_alt)
  ultimately show "get_bits 0 4 (ud_comp_hdr (compr_params (compMeth q) (iqWidth q))) = compMeth q"
    "get_bits 4 4 (ud_comp_hdr (compr_params (compMeth q) (iqWidth q))) = iqWidth q"
    using m by (simp_all add: compr_params_def XRAN_CONVERT_IQWIDTH_def t)
qed

section \<open>Entering the sections\<close>

lemma find_elm_less: "find_elm k i es = Some j \<Longrightarrow> j < i + length es"
  by (induction es arbitrary: i) (fastforce split: if_split_asm)+

lemma prb_elem_id_less:
  assumes "0 < unat (nPrbElm m)" "unat (nPrbElm m) \<le> length (prbMap m)"
  obtains e where "prb_elem_id sect m = Done e" "e < unat (nPrbElm m)"
proof (cases "find_elm (uint sect) 0 (take (unat (nPrbElm m)) (prbMap m))")
  case None
  then show ?thesis using assms by (intro that [of 0]) (auto simp: prb_elem_id_def)
next
  case (Some e)
  then have "e < unat (nPrbElm m)" using find_elm_less [OF Some] by simp
  then show ?thesis using Some by (intro that [of e]) (auto simp: prb_elem_id_def)
qed

text \<open>The arrays of the control of a symbol have 32 entries.\<close>

definition wf_ctl :: "xran_rx_packet_ctl \<Rightarrow> bool" where
  "wf_ctl k \<longleftrightarrow> length (nRBStart k) = XRAN_MAX_RX_PKT_PER_SYM \<and> length (nRBSize k) = XRAN_MAX_RX_PKT_PER_SYM
     \<and> length (nSectid k) = XRAN_MAX_RX_PKT_PER_SYM \<and> length (pData k) = XRAN_MAX_RX_PKT_PER_SYM
     \<and> length (pCtrl k) = XRAN_MAX_RX_PKT_PER_SYM"

text \<open>The entries of \<open>i\<close> sections, behind those that were there: section \<open>j\<close> with its resource blocks,
  its identifier and the place of its samples; the packet belongs to the first entry.\<close>

definition entered :: "up_symbol \<Rightarrow> int \<Rightarrow> mbuf \<Rightarrow> nat \<Rightarrow> nat \<Rightarrow> xran_rx_packet_ctl \<Rightarrow> xran_rx_packet_ctl \<Rightarrow> bool" where
  "entered q n h start i k k' \<longleftrightarrow> wf_ctl k' \<and> nRxPkt k' = nRxPkt k + i
     \<and> take (nRxPkt k + i) (nRBStart k') = take (nRxPkt k) (nRBStart k) @ map (\<lambda>j. word_of_int (prb_start q + int j * n)) [0 ..< i]
     \<and> take (nRxPkt k + i) (nRBSize k') = take (nRxPkt k) (nRBSize k) @ map (\<lambda>j. word_of_int n) [0 ..< i]
     \<and> take (nRxPkt k + i) (nSectid k') = take (nRxPkt k) (nSectid k) @ map (\<lambda>j. section_id_start q + of_nat j) [0 ..< i]
     \<and> take (nRxPkt k + i) (pData k') = take (nRxPkt k) (pData k) @ map (\<lambda>j. Some (h, start + j * stride q)) [0 ..< i]
     \<and> take (nRxPkt k + i) (pCtrl k') = take (nRxPkt k) (pCtrl k) @ map (\<lambda>j. if j = 0 then Some h else None) [0 ..< i]"

lemma take_Suc_update: "m < length xs \<Longrightarrow> take (Suc m) (xs[m := v]) = take m xs @ [v]"
  by (simp add: take_Suc_conv_app_nth)

lemma enter_packet_entered:
  assumes "entered q n h start i k k'" "nRxPkt k + i < XRAN_MAX_RX_PKT_PER_SYM" "owner \<longleftrightarrow> i = 0"
    and "rx_start_prbu p = word_of_int (prb_start q + int i * n)" "rx_num_prbu p = word_of_int n"
    and "rx_sect_id p = section_id_start q + of_nat i" "rx_mbuf p = h" "iq_data p = start + i * stride q"
  obtains k2 old where "enter_packet p owner k' = Some (k2, old)" "entered q n h start (Suc i) k k2"
  using assms
  by (intro that [of "fst (the (enter_packet p owner k'))" "snd (the (enter_packet p owner k'))"])
    (auto simp: enter_packet_def Let_def entered_def wf_ctl_def take_Suc_update)

text \<open>A map that is ready to take a symbol: it has elements, all with the width of the samples, and room for the
  sections.\<close>

definition map_ready :: "up_symbol \<Rightarrow> xran_prb_map \<Rightarrow> bool" where
  "map_ready q m \<longleftrightarrow> 0 < unat (nPrbElm m) \<and> unat (nPrbElm m) \<le> length (prbMap m) \<and> unat (nPrbElm m) < 65536
     \<and> (\<forall>e \<in> set (prbMap m). elm_iqWidth e = uint (iqWidth q))
     \<and> length (sFrontHaulRxPacketCtrl m) = XRAN_NUM_OF_SYMBOL_PER_SLOT"

lemma map_ready_update [simp]:
  "map_ready q (m\<lparr>sFrontHaulRxPacketCtrl := (sFrontHaulRxPacketCtrl m)[i := k]\<rparr>) = map_ready q m"
  by (simp add: map_ready_def)

lemma rb_maps_set_prb_map [simp]: "rb_maps (set_prb_map k i m s) = (rb_maps s)(k := (rb_maps s k)(i := Some m))"
  by (simp add: set_prb_map_def)

lemma process_rx_sym_enters:
  assumes c: "appmode c = O_DU" "byteOrder c = XRAN_NE_BE_BYTE_ORDER"
    and mu: "unat (rx_mu p) < length (perMu c)" and tti: "sym_tti p = Done tti"
    and ix: "ix = (rx_mu p, tti mod XRAN_N_FE_BUF_LEN, rx_CC_ID p, rx_Ant_ID p - eaxcOffset (perMu c ! unat (rx_mu p)))"
    and ant: "ucast (rx_Ant_ID p - eaxcOffset (perMu c ! unat (rx_mu p))) < neAxcUl c"
      "unat (rx_Ant_ID p - eaxcOffset (perMu c ! unat (rx_mu p))) < XRAN_MAX_ANTENNA_NR"
    and cc: "unat (rx_CC_ID p) < XRAN_MAX_SECTOR_NR" and sy: "unat (rx_symb_id p) < XRAN_NUM_OF_SYMBOL_PER_SLOT"
    and m: "rb_maps s FrontHaulRx ix = Some m" "map_ready q m"
    and w: "rx_expect_comp p \<Longrightarrow> rx_iqWidth p = iqWidth q" and n: "iq_bytes p \<noteq> 0"
    and e: "enter_packet p (idx = 0) (sFrontHaulRxPacketCtrl m ! unat (rx_symb_id p)) = Some (k, old)"
  obtains s' where "xran_process_rx_sym c idx p s = Done (uint (iq_bytes p), Some MBUF_KEEP, s')"
    "rb_maps s' = (rb_maps s)(FrontHaulRx := (rb_maps s FrontHaulRx)(ix := Some (m\<lparr>sFrontHaulRxPacketCtrl :=
        (sFrontHaulRxPacketCtrl m)[unat (rx_symb_id p) := k]\<rparr>)))"
    "fh_counters s' = fh_counters s" "symbol_total_bytes s' = symbol_total_bytes s"
proof -
  from m(2) obtain el where el: "prb_elem_id (rx_sect_id p) m = Done el" "el < unat (nPrbElm m)"
    by (auto simp: map_ready_def intro: prb_elem_id_less)
  have el2: "\<not> nPrbElm m \<le> ucast (of_nat el :: u16)"
  proof -
    have "unat (of_nat el :: u16) = el" using el(2) m(2) by (subst unat_of_nat) (simp add: map_ready_def)
    moreover from this have "unat (ucast (of_nat el :: u16) :: u32) = unat (of_nat el :: u16)"
      using el(2) m(2) by (simp add: unsigned_ucast_eq take_bit_nat_eq_self map_ready_def)
    ultimately show ?thesis using el(2) by (simp add: word_le_nat_alt)
  qed
  have el3: "el < length (prbMap m)" using el(2) m(2) by (simp add: map_ready_def)
  then have w': "elm_iqWidth (prbMap m ! el) = uint (iqWidth q)" using m(2) by (simp add: map_ready_def)
  have "prb_map_of c FrontHaulRx ix s = Done (Some m)"
    using mu ant(2) cc m(1) by (simp add: prb_map_of_def ix XRAN_N_FE_BUF_LEN_def)
  moreover have "length (sFrontHaulRxPacketCtrl m) = XRAN_NUM_OF_SYMBOL_PER_SLOT" using m(2) by (simp add: map_ready_def)
  ultimately show ?thesis
    using assms el(1) el2 el3 w'
    by (intro that [of "set_prb_map FrontHaulRx ix (m\<lparr>sFrontHaulRxPacketCtrl := (sFrontHaulRxPacketCtrl m)[unat (rx_symb_id p) := k]\<rparr>)
        (s\<lparr>freed := freed s @ (case old of None \<Rightarrow> [] | Some b \<Rightarrow> [b])\<rparr>)"];
        cases "rx_expect_comp p"; simp add: xran_process_rx_sym_def at_def Let_def enter_or_reject_def enter_def set_prb_map_def)
qed

section \<open>The sections of a packet\<close>

definition sec_word :: "up_symbol \<Rightarrow> int \<Rightarrow> nat \<Rightarrow> u32" where
  "sec_word q n i = section_word (XRAN_BASE_SECT_ID_TO_MU_SECT_ID (ucast (section_id_start q) + of_nat i) (up_mu q))
     (word_of_int (XRAN_CONVERT_NUMPRBC n)) (word_of_int (prb_start q + int i * n))"

lemma sec_hdr_word: "sec_hdr (sec_params d q n i) = rte_cpu_to_be_32 d (sec_word q n i)"
  by (simp add: sec_params_def sec_word_def)

text \<open>The carrier of the receiver has the numerology of the symbol, the identifiers of the sections are within
  those of a numerology, and the resource blocks within the carrier; more than 255 of them are
  announced as \<open>all\<close>.\<close>

definition fits_carrier :: "xran_rx_cfg \<Rightarrow> up_symbol \<Rightarrow> int \<Rightarrow> bool" where
  "fits_carrier c q n \<longleftrightarrow> unat (up_mu q) < 6 \<and> unat (up_mu q) < length (fh_perMu c)
     \<and> unat (section_id_start q) + unat (num_sections q) \<le> XRAN_MAX_SECTIONS_PER_SLOT
     \<and> prb_start q + prb_num q \<le> uint (nULRBs (fh_perMu c ! unat (up_mu q)))
     \<and> (n \<le> 255 \<or> unat (num_sections q) = 1 \<and> prb_start q + prb_num q = uint (nULRBs (fh_perMu c ! unat (up_mu q))))"

lemma section_range:
  assumes "equal_sections q n" "i < unat (num_sections q)"
  shows "0 \<le> prb_start q + int i * n" "prb_start q + int i * n + n \<le> prb_start q + prb_num q" "prb_start q + prb_num q \<le> 1023"
proof -
  note b = equal_sections_bounds [OF assms(1)]
  have u: "uint (num_sections q) = int (unat (num_sections q))" by simp
  have "(int i + 1) * n \<le> uint (num_sections q) * n" using u assms(2) b(3) by (intro mult_right_mono) linarith+
  then show "prb_start q + int i * n + n \<le> prb_start q + prb_num q"
    using assms(1) by (simp add: equal_sections_def algebra_simps)
  show "0 \<le> prb_start q + int i * n" "prb_start q + prb_num q \<le> 1023" using assms(1) b(3) by (simp_all add: equal_sections_def)
qed

lemma unat_word_of_int: "0 \<le> x \<Longrightarrow> x < 2 ^ LENGTH('a) \<Longrightarrow> unat (word_of_int x :: 'a::len word) = nat x"
  by (simp add: unsigned_of_int take_bit_int_eq_self)

lemma sect_id_parts:
  assumes "s < 32" "m < 6"
  shows "XRAN_GET_MU_FROM_SECT_ID (of_nat (s + 32 * m)) = of_nat m" "XRAN_MU_SECT_ID_TO_BASE_SECT_ID (of_nat (s + 32 * m)) = of_nat s"
proof -
  have k: "unat (of_nat (s + 32 * m) :: u16) = s + 32 * m" using assms by (subst unat_of_nat) simp
  have "unat (of_nat (s + 32 * m) div 32 :: u16) = m" using k assms by (simp add: unat_div del: of_nat_add of_nat_mult)
  then have "(of_nat (s + 32 * m) div 32 :: u16) = of_nat m" by (metis of_nat_unat ucast_id)
  moreover have "(ucast (of_nat m :: u16) :: u8) = of_nat m"
    using assms by (intro word_unat_eq_iff [THEN iffD2]) (simp add: unsigned_ucast_eq unat_of_nat take_bit_eq_mod)
  ultimately show "XRAN_GET_MU_FROM_SECT_ID (of_nat (s + 32 * m)) = of_nat m"
    by (simp add: XRAN_GET_MU_FROM_SECT_ID_def XRAN_MAX_SECTIONS_PER_SLOT_def del: of_nat_add of_nat_mult)
  have "unat (of_nat (s + 32 * m) mod 32 :: u16) = s" using k assms by (simp add: unat_mod del: of_nat_add of_nat_mult)
  then have "(of_nat (s + 32 * m) mod 32 :: u16) = of_nat s" by (metis of_nat_unat ucast_id)
  then show "XRAN_MU_SECT_ID_TO_BASE_SECT_ID (of_nat (s + 32 * m)) = of_nat s"
    by (simp add: XRAN_MU_SECT_ID_TO_BASE_SECT_ID_def XRAN_MAX_SECTIONS_PER_SLOT_def del: of_nat_add of_nat_mult)
qed

lemma section_info_read:
  assumes e: "equal_sections q n" and f: "fits_carrier c q n" and i: "i < unat (num_sections q)"
  shows "start_prbu (read_section (sec_word q n i)) = word_of_int (prb_start q + int i * n)"
    "XRAN_GET_MU_FROM_SECT_ID (sect_id (read_section (sec_word q n i))) = up_mu q"
    "XRAN_MU_SECT_ID_TO_BASE_SECT_ID (sect_id (read_section (sec_word q n i))) = section_id_start q + of_nat i"
    "num_prbu (read_section (sec_word q n i)) = word_of_int (XRAN_CONVERT_NUMPRBC n)"
proof -
  note r = section_range [OF e i] and b = equal_sections_bounds [OF e]
  define s m where "s = unat (section_id_start q) + i" and "m = unat (up_mu q)"
  have sm: "s < 32" "m < 6" using f i by (simp_all add: fits_carrier_def s_def m_def XRAN_MAX_SECTIONS_PER_SLOT_def)
  have id: "XRAN_BASE_SECT_ID_TO_MU_SECT_ID (ucast (section_id_start q) + of_nat i) (up_mu q) = of_nat (s + 32 * m)"
    by (simp add: XRAN_BASE_SECT_ID_TO_MU_SECT_ID_def XRAN_MAX_SECTIONS_PER_SLOT_def s_def m_def)
  let ?c = "XRAN_CONVERT_NUMPRBC n" and ?st = "prb_start q + int i * n"
  have c: "0 \<le> ?c" "?c < 256" using b(3) by (auto simp: XRAN_CONVERT_NUMPRBC_def)
  have st: "0 \<le> ?st" "?st < 1024" using r b(3) by auto
  have u32: "unat (of_nat (s + 32 * m) :: u32) = s + 32 * m" using sm by (subst unat_of_nat) simp
  have rd: "read_section (sec_word q n i) = \<lparr>num_prbu = ucast (word_of_int ?c :: u32), start_prbu = ucast (word_of_int ?st :: u32),
      sym_inc = 0, rb = 0, sect_id = ucast (of_nat (s + 32 * m) :: u32)\<rparr>"
    unfolding sec_word_def id using c st sm u32
    by (intro section_fields_read) (simp_all add: unat_word_of_int nat_less_iff del: of_int_add of_int_mult of_nat_add of_nat_mult)
  have uw: "(ucast (word_of_int x :: u32) :: u16) = word_of_int x" if "0 \<le> x" "x < 65536" for x
    using that by (intro word_uint_eq_iff [THEN iffD2]) (simp add: unsigned_ucast_eq unsigned_of_int take_bit_int_eq_self)
  have ui: "(ucast (of_nat (s + 32 * m) :: u32) :: u16) = of_nat (s + 32 * m)"
    using uw [of "int (s + 32 * m)"] sm by simp
  show "start_prbu (read_section (sec_word q n i)) = word_of_int ?st"
    "num_prbu (read_section (sec_word q n i)) = word_of_int ?c"
    using rd c st by (simp_all add: uw del: of_int_add of_int_mult)
  show "XRAN_GET_MU_FROM_SECT_ID (sect_id (read_section (sec_word q n i))) = up_mu q"
    "XRAN_MU_SECT_ID_TO_BASE_SECT_ID (sect_id (read_section (sec_word q n i))) = section_id_start q + of_nat i"
    using sect_id_parts [OF sm] rd ui by (simp_all add: s_def m_def)
qed

lemma prbs_of_section:
  assumes e: "equal_sections q n" and f: "fits_carrier c q n" and i: "i < unat (num_sections q)"
  shows "prbs_of c (up_mu q) (read_section (sec_word q n i)) = Done (word_of_int n)"
proof (cases "n \<le> 255")
  case True
  have "word_of_int n \<noteq> (0 :: u16)"
    using True equal_sections_bounds(3) [OF e] by (simp add: word_of_int_eq_0_iff zdvd_not_zless)
  then show ?thesis using True section_info_read(4) [OF e f i] by (simp add: prbs_of_def XRAN_CONVERT_NUMPRBC_def)
next
  case False
  then have k: "unat (num_sections q) = 1" "prb_start q + prb_num q = uint (nULRBs (fh_perMu c ! unat (up_mu q)))"
    "unat (up_mu q) < length (fh_perMu c)" using f by (simp_all add: fits_carrier_def)
  have "uint (num_sections q) = int (unat (num_sections q))" by simp
  then have "prb_num q = n" using e k(1) by (simp add: equal_sections_def)
  then have "nULRBs (fh_perMu c ! unat (up_mu q)) = word_of_int (prb_start q) + word_of_int n"
    using k(2) by (metis of_int_add word_of_int_uint)
  then show ?thesis
    using False k i section_info_read(1,4) [OF e f i] by (simp add: prbs_of_def XRAN_CONVERT_NUMPRBC_def at_def)
qed

lemma validate_section:
  assumes e: "equal_sections q n" and f: "fits_carrier c q n" and i: "i < unat (num_sections q)" and c: "appmode c = O_DU"
  shows "xran_validate_numprbs c (up_mu q) (word_of_int (prb_start q + int i * n)) (word_of_int n) s = Done (True, s)"
proof -
  note r = section_range [OF e i] and b = equal_sections_bounds [OF e]
  let ?st = "prb_start q + int i * n" let ?top = "nULRBs (fh_perMu c ! unat (up_mu q))"
  have t: "prb_start q + prb_num q \<le> uint ?top" "unat (up_mu q) < length (fh_perMu c)" using f by (simp_all add: fits_carrier_def)
  have w: "unat (word_of_int ?st :: u16) = nat ?st" "unat (word_of_int n :: u16) = nat n"
    using r b(3) by (simp_all add: unat_word_of_int del: of_int_add of_int_mult)
  have u: "uint ?top = int (unat ?top)" "int (nat ?st) = ?st" "int (nat n) = n" using r(1) b(3) by simp_all
  have "?st + n \<le> uint ?top" using r(2) t(1) by linarith
  then have "nat ?st + nat n \<le> unat ?top" using r(1) b(3) u by linarith
  then have "\<not> unat ?top < unat (word_of_int ?st :: u16) + unat (word_of_int n :: u16)" "\<not> ?top \<le> word_of_int ?st"
    using w b(3) by (simp_all add: word_le_nat_alt not_less del: of_int_add of_int_mult)
  then show ?thesis using c t(2) by (simp add: xran_validate_numprbs_def at_def del: of_int_add of_int_mult)
qed

section \<open>The loop over the sections\<close>

text \<open>What the loop starts from: the packet \<open>m0\<close> at the samples of its first section, and the parameters \<open>p0\<close>
  of the symbol; \<open>mp\<close> is the map it is for.\<close>

definition rx_symbol :: "dpdk_pkt \<Rightarrow> xran_rx_cfg \<Rightarrow> up_symbol \<Rightarrow> int \<Rightarrow> rte_mbuf \<Rightarrow> rx_sym \<Rightarrow> nat \<Rightarrow> map_index \<Rightarrow> xran_prb_map \<Rightarrow> bool" where
  "rx_symbol d c q n m0 p0 tti ix mp \<longleftrightarrow> dpdk_pkt_ok d \<and> equal_sections q n \<and> fits_carrier c q n
     \<and> appmode c = O_DU \<and> byteOrder c = XRAN_NE_BE_BYTE_ORDER \<and> ru_iqWidth c = iqWidth q \<and> xranCompHdrType c = staticEn q
     \<and> unat (up_mu q) < length (perMu c) \<and> rx_mu p0 = up_mu q \<and> sym_tti p0 = Done tti
     \<and> (rx_expect_comp p0 \<longleftrightarrow> compMeth q \<noteq> XRAN_COMPMETHOD_NONE)
     \<and> ix = (up_mu q, tti mod XRAN_N_FE_BUF_LEN, rx_CC_ID p0, rx_Ant_ID p0 - eaxcOffset (perMu c ! unat (up_mu q)))
     \<and> ucast (rx_Ant_ID p0 - eaxcOffset (perMu c ! unat (up_mu q))) < neAxcUl c
     \<and> unat (rx_Ant_ID p0 - eaxcOffset (perMu c ! unat (up_mu q))) < XRAN_MAX_ANTENNA_NR
     \<and> unat (rx_Ant_ID p0) < XRAN_MAX_ANTENNA_NR \<and> unat (rx_CC_ID p0) < XRAN_MAX_SECTOR_NR
     \<and> unat (rx_symb_id p0) < XRAN_NUM_OF_SYMBOL_PER_SLOT \<and> map_ready q mp
     \<and> wf_ctl (sFrontHaulRxPacketCtrl mp ! unat (rx_symb_id p0))
     \<and> nRxPkt (sFrontHaulRxPacketCtrl mp ! unat (rx_symb_id p0)) + unat (num_sections q) \<le> XRAN_MAX_RX_PKT_PER_SYM
     \<and> data_len m0 + up_hdr_bytes q = unat (num_sections q) * stride q
     \<and> (\<forall>i. Suc i < unat (num_sections q) \<longrightarrow> peek m0 (i * stride q + iq_len q) 4 = Done (le32 (sec_hdr (sec_params d q n (Suc i))))
          \<and> (is_dynamic q \<longrightarrow> peek m0 (i * stride q + iq_len q + 4) 2 = Done (compr_bytes (compr_params (compMeth q) (iqWidth q)))))"

text \<open>The state after \<open>i\<close> sections.\<close>

definition tables_at :: "up_symbol \<Rightarrow> int \<Rightarrow> rte_mbuf \<Rightarrow> rx_sym \<Rightarrow> map_index \<Rightarrow> xran_prb_map \<Rightarrow> xran_rx \<Rightarrow> nat \<Rightarrow> rx_loop \<Rightarrow> bool" where
  "tables_at q n m0 p0 ix mp s0 i x \<longleftrightarrow> (\<exists>k.
       rb_maps (lp_state x) = (rb_maps s0)(FrontHaulRx := (rb_maps s0 FrontHaulRx)(ix := Some
         (mp\<lparr>sFrontHaulRxPacketCtrl := (sFrontHaulRxPacketCtrl mp)[unat (rx_symb_id p0) := k]\<rparr>)))
     \<and> entered q n (rx_mbuf p0) (data_off m0) i (sFrontHaulRxPacketCtrl mp ! unat (rx_symb_id p0)) k)
     \<and> lp_ret x = (if i = 0 then MBUF_FREE else MBUF_KEEP) \<and> lp_idx x = of_nat i
     \<and> length (rx_pusch_packets (fh_counters (lp_state x))) = XRAN_MAX_ANTENNA_NR"

definition section_sym :: "up_symbol \<Rightarrow> int \<Rightarrow> rte_mbuf \<Rightarrow> nat \<Rightarrow> u8 \<Rightarrow> rx_sym \<Rightarrow> rx_sym" where
  "section_sym q n m0 i w p0 = p0\<lparr>iq_data := data_off m0 + i * stride q, iq_bytes := of_nat (data_len m0 - i * stride q),
     rx_num_prbu := word_of_int n, rx_start_prbu := word_of_int (prb_start q + int i * n),
     rx_sect_id := section_id_start q + of_nat i, rx_compMeth := compMeth q, rx_iqWidth := w\<rparr>"

definition packet_at :: "up_symbol \<Rightarrow> int \<Rightarrow> rte_mbuf \<Rightarrow> rx_sym \<Rightarrow> nat \<Rightarrow> rx_loop \<Rightarrow> bool" where
  "packet_at q n m0 p0 i x \<longleftrightarrow> behind m0 (i * stride q) (lp_mbuf x) \<and> lp_bytes x = int (data_len m0 - i * stride q)
     \<and> (\<forall>j < i. raw (lp_mbuf x) (data_off m0 + j * stride q) (iq_len q) = raw m0 (data_off m0 + j * stride q) (iq_len q))
     \<and> (\<exists>w. lp_sym x = section_sym q n m0 i w p0 \<and> (w = iqWidth q \<or> \<not> rx_expect_comp p0 \<and> w = 0))"

lemma section_sym_simps [simp]:
  "rx_mu (section_sym q n m0 i w p0) = rx_mu p0" "rx_CC_ID (section_sym q n m0 i w p0) = rx_CC_ID p0"
  "rx_Ant_ID (section_sym q n m0 i w p0) = rx_Ant_ID p0" "rx_symb_id (section_sym q n m0 i w p0) = rx_symb_id p0"
  "rx_expect_comp (section_sym q n m0 i w p0) = rx_expect_comp p0" "rx_iqWidth (section_sym q n m0 i w p0) = w"
  "rx_compMeth (section_sym q n m0 i w p0) = compMeth q" "sym_tti (section_sym q n m0 i w p0) = sym_tti p0"
  by (simp_all add: section_sym_def sym_tti_def)

lemma section_len_equal:
  assumes e: "equal_sections q n"
  shows "unat (section_len (section_sym q n m0 i (iqWidth q) p0)) = iq_len q"
proof -
  note b = equal_sections_bounds [OF e] and y = equal_sections_bytes [OF e]
  have "iq_len q \<le> unat (num_sections q) * iq_len q" using y(7) by simp
  then have l: "iq_len q < 32000" using y(6) by linarith
  have "uint (word_of_int n :: u16) = n" using b(3,4) by (simp add: unsigned_of_int take_bit_int_eq_self)
  moreover have "int (comp_parm_size (compMeth q)) = (if compMeth q \<noteq> XRAN_COMPMETHOD_NONE then 1 else 0)"
    using e by (auto simp: equal_sections_def comp_parm_size_def XRAN_COMPMETHOD_NONE_def XRAN_COMPMETHOD_BLKFLOAT_def)
  then have "int (iq_len q) = (uint (iqWidth q) * 3 + (if compMeth q \<noteq> XRAN_COMPMETHOD_NONE then 1 else 0)) * n"
    using y(1,3) by (simp add: mult.commute)
  ultimately have "section_len (section_sym q n m0 i (iqWidth q) p0) = word_of_int (int (iq_len q))"
    using b(7) by (simp add: section_len_def section_sym_def)
  then show ?thesis using l by (simp add: unat_of_nat)
qed

text \<open>The bytes that are left behind \<open>i\<close> sections.\<close>

lemma bytes_left:
  assumes "data_len m0 + up_hdr_bytes q = k * stride q" "i < k"
  shows "Suc i = k \<Longrightarrow> data_len m0 - i * stride q = iq_len q"
    "Suc i < k \<Longrightarrow> iq_len q + stride q \<le> data_len m0 - i * stride q"
    "iq_len q \<le> data_len m0 - i * stride q"
    "data_len m0 - i * stride q - (iq_len q + up_hdr_bytes q) = data_len m0 - Suc i * stride q"
proof -
  obtain r where r: "k = Suc i + r" using assms(2) by (metis less_iff_Suc_add add_Suc)
  have d: "data_len m0 = i * stride q + iq_len q + r * stride q" using assms(1) by (simp add: r stride_def algebra_simps)
  show "Suc i = k \<Longrightarrow> data_len m0 - i * stride q = iq_len q" "iq_len q \<le> data_len m0 - i * stride q"
    using r d by simp_all
  show "iq_len q + stride q \<le> data_len m0 - i * stride q" if "Suc i < k"
  proof -
    obtain t where "r = Suc t" using r \<open>Suc i < k\<close> by (cases r) auto
    then show ?thesis using d by simp
  qed
  show "data_len m0 - i * stride q - (iq_len q + up_hdr_bytes q) = data_len m0 - Suc i * stride q"
    by (simp add: stride_def)
qed

lemma rx_sym_of_section:
  assumes r: "rx_symbol d c q n m0 p0 tti ix mp" and t: "tables_at q n m0 p0 ix mp s0 i x" and i: "i < unat (num_sections q)"
  obtains s' where "xran_process_rx_sym c (lp_idx x) (section_sym q n m0 i (iqWidth q) p0) (lp_state x)
      = Done (uint (of_nat (data_len m0 - i * stride q) :: u16), Some MBUF_KEEP, s')"
    "\<And>x'. lp_state x' = s' \<Longrightarrow> lp_ret x' = MBUF_KEEP \<Longrightarrow> lp_idx x' = lp_idx x + 1 \<Longrightarrow> tables_at q n m0 p0 ix mp s0 (Suc i) x'"
proof -
  let ?sy = "unat (rx_symb_id p0)" let ?p = "section_sym q n m0 i (iqWidth q) p0"
  have e: "equal_sections q n" and room: "nRxPkt (sFrontHaulRxPacketCtrl mp ! ?sy) + unat (num_sections q) \<le> XRAN_MAX_RX_PKT_PER_SYM"
    and dl: "data_len m0 + up_hdr_bytes q = unat (num_sections q) * stride q" and mr: "map_ready q mp"
    and sy: "?sy < XRAN_NUM_OF_SYMBOL_PER_SLOT" using r by (simp_all add: rx_symbol_def)
  note y = equal_sections_bytes [OF e]
  obtain k where k: "rb_maps (lp_state x) = (rb_maps s0)(FrontHaulRx := (rb_maps s0 FrontHaulRx)(ix := Some
         (mp\<lparr>sFrontHaulRxPacketCtrl := (sFrontHaulRxPacketCtrl mp)[?sy := k]\<rparr>)))"
    "entered q n (rx_mbuf p0) (data_off m0) i (sFrontHaulRxPacketCtrl mp ! ?sy) k"
    using t by (auto simp: tables_at_def)
  let ?m = "mp\<lparr>sFrontHaulRxPacketCtrl := (sFrontHaulRxPacketCtrl mp)[?sy := k]\<rparr>"
  have k32: "unat (num_sections q) \<le> 32" using e by (simp add: equal_sections_def sections_ok_def XRAN_MAX_SECTIONS_PER_SLOT_def)
  have "((of_nat i :: u16) = 0) \<longleftrightarrow> i = 0"
    using i k32 by (cases "i = 0") (simp_all add: word_of_nat_eq_0_iff nat_dvd_not_less)
  moreover have "lp_idx x = of_nat i" using t by (simp add: tables_at_def)
  ultimately have own: "(lp_idx x = 0) \<longleftrightarrow> i = 0" by simp
  obtain k2 old where k2: "enter_packet ?p (lp_idx x = 0) k = Some (k2, old)"
    "entered q n (rx_mbuf p0) (data_off m0) (Suc i) (sFrontHaulRxPacketCtrl mp ! ?sy) k2"
    using enter_packet_entered [OF k(2) _ own, of ?p] room i by (auto simp: section_sym_def)
  have left: "0 < data_len m0 - i * stride q" "data_len m0 - i * stride q < 32000"
    using bytes_left(3) [OF dl i] y(4,5) dl by linarith+
  then have "(of_nat (data_len m0 - i * stride q) :: u16) \<noteq> 0" by (subst word_of_nat_eq_0_iff) (simp add: nat_dvd_not_less)
  then have nz: "iq_bytes ?p \<noteq> 0" by (simp add: section_sym_def)
  have len: "length (sFrontHaulRxPacketCtrl mp) = XRAN_NUM_OF_SYMBOL_PER_SLOT" using mr by (simp add: map_ready_def)
  obtain s' where s': "xran_process_rx_sym c (lp_idx x) ?p (lp_state x) = Done (uint (iq_bytes ?p), Some MBUF_KEEP, s')"
    "rb_maps s' = (rb_maps (lp_state x))(FrontHaulRx := (rb_maps (lp_state x) FrontHaulRx)(ix := Some (?m\<lparr>sFrontHaulRxPacketCtrl :=
        (sFrontHaulRxPacketCtrl ?m)[?sy := k2]\<rparr>)))" "fh_counters s' = fh_counters (lp_state x)"
  proof (rule process_rx_sym_enters [of c ?p tti ix "lp_state x" ?m q "lp_idx x" k2 old])
    show "enter_packet ?p (lp_idx x = 0) (sFrontHaulRxPacketCtrl ?m ! unat (rx_symb_id ?p)) = Some (k2, old)"
      using k2(1) len sy by (simp add: section_sym_def)
  qed (use r k(1) nz mr in \<open>simp_all add: rx_symbol_def\<close>)
  show ?thesis
  proof (rule that [of s'])
    show "xran_process_rx_sym c (lp_idx x) ?p (lp_state x) = Done (uint (of_nat (data_len m0 - i * stride q) :: u16), Some MBUF_KEEP, s')"
      using s'(1) by (simp add: section_sym_def)
    show "tables_at q n m0 p0 ix mp s0 (Suc i) x'" if "lp_state x' = s'" "lp_ret x' = MBUF_KEEP" "lp_idx x' = lp_idx x + 1" for x'
      using that s'(2,3) k(1) k2(2) t by (auto simp: tables_at_def)
  qed
qed

text \<open>After the last section only its tables and its packet matter.\<close>

definition packet_done :: "up_symbol \<Rightarrow> rte_mbuf \<Rightarrow> rx_loop \<Rightarrow> bool" where
  "packet_done q m0 x \<longleftrightarrow> (\<forall>j < unat (num_sections q).
     raw (lp_mbuf x) (data_off m0 + j * stride q) (iq_len q) = raw m0 (data_off m0 + j * stride q) (iq_len q))"

lemma behind_samples:
  assumes "behind m0 (i * stride q) m" "data_off m0 + i * stride q + iq_len q \<le> length (buf_addr m0)"
  shows "raw m (data_off m0 + i * stride q) (iq_len q) = raw m0 (data_off m0 + i * stride q) (iq_len q)"
proof -
  have "peek m 0 (iq_len q) = peek m0 (i * stride q) (iq_len q)" using assms(1) by (simp add: behind_def)
  moreover have "peek m0 (i * stride q) (iq_len q) = Done (raw m0 (data_off m0 + i * stride q) (iq_len q))"
    using assms(2) by (simp add: peek_def raw_def)
  ultimately show ?thesis using peek_raw [of m 0 "iq_len q"] assms(1) by (simp add: behind_def)
qed

lemma bump_pusch_Done:
  assumes "unat a < XRAN_MAX_ANTENNA_NR" "length (rx_pusch_packets (fh_counters s)) = XRAN_MAX_ANTENNA_NR"
  obtains s' where "bump_pusch a s = Done s'" "rb_maps s' = rb_maps s"
    "length (rx_pusch_packets (fh_counters s')) = XRAN_MAX_ANTENNA_NR" "symbol_total_bytes s' = symbol_total_bytes s"
  using assms by (auto simp: bump_pusch_def bump_def at_def count_def)

lemma tables_at_state:
  assumes "tables_at q n m0 p0 ix mp s0 i x" "rb_maps s' = rb_maps (lp_state x)"
    "length (rx_pusch_packets (fh_counters s')) = XRAN_MAX_ANTENNA_NR" "lp_state x' = s'" "lp_ret x' = lp_ret x" "lp_idx x' = lp_idx x"
  shows "tables_at q n m0 p0 ix mp s0 i x'"
  using assms by (auto simp: tables_at_def)

text \<open>From the samples of section \<open>i\<close> to those of the next one.\<close>

lemma next_section_reads:
  assumes r: "rx_symbol d c q n m0 p0 tti ix mp" and t: "tables_at q n m0 p0 ix mp s0 (Suc i) x"
    and pk: "behind m0 (i * stride q) (lp_mbuf x)" "lp_sym x = section_sym q n m0 i (iqWidth q) p0"
      "\<forall>j < i. raw (lp_mbuf x) (data_off m0 + j * stride q) (iq_len q) = raw m0 (data_off m0 + j * stride q) (iq_len q)"
    and i: "Suc i < unat (num_sections q)" and room: "data_off m0 + data_len m0 \<le> length (buf_addr m0)"
  obtains x' where "next_section d c (iq_len q) x = Done (x', True)" "tables_at q n m0 p0 ix mp s0 (Suc i) x'"
    "packet_at q n m0 p0 (Suc i) x'"
proof -
  have ok: "dpdk_pkt_ok d" and e: "equal_sections q n" and f: "fits_carrier c q n" and ca: "appmode c = O_DU"
    and st: "xranCompHdrType c = staticEn q" and ex: "rx_expect_comp p0 \<longleftrightarrow> compMeth q \<noteq> XRAN_COMPMETHOD_NONE"
    and mu: "rx_mu p0 = up_mu q" and an: "unat (rx_Ant_ID p0) < XRAN_MAX_ANTENNA_NR"
    and dl: "data_len m0 + up_hdr_bytes q = unat (num_sections q) * stride q"
    and hd: "peek m0 (i * stride q + iq_len q) 4 = Done (le32 (sec_hdr (sec_params d q n (Suc i))))"
      "is_dynamic q \<longrightarrow> peek m0 (i * stride q + iq_len q + 4) 2 = Done (compr_bytes (compr_params (compMeth q) (iqWidth q)))"
    using r i by (auto simp: rx_symbol_def)
  have i': "i < unat (num_sections q)" using i by simp
  note left = bytes_left [OF dl i'] and b = equal_sections_bounds [OF e] and y = equal_sections_bytes [OF e]
  have dyn: "is_dynamic q \<longleftrightarrow> rx_expect_comp p0 \<and> staticEn q \<noteq> XRAN_COMP_HDR_TYPE_STATIC"
    using ex by (cases "staticEn q") (auto simp: is_dynamic_def)
  have dm: "data_len (lp_mbuf x) = data_len m0 - i * stride q" using pk(1) by (simp add: behind_def)
  obtain m1 where m1: "rte_pktmbuf_adj d (iq_len q) (lp_mbuf x) = Some m1" "behind (lp_mbuf x) (iq_len q) m1"
    using adj_behind [OF ok, of "iq_len q" "lp_mbuf x"] left(3) dm by auto
  have b1: "buf_addr m1 = buf_addr (lp_mbuf x)" using m1(1) ok by (auto simp: dpdk_pkt_ok_def split: if_split_asm)
  have m01: "behind m0 (i * stride q + iq_len q) m1" using behind_trans [OF pk(1) m1(2)] .
  then have h1: "peek m1 0 4 = Done (le32 (rte_cpu_to_be_32 d (sec_word q n (Suc i))))"
    "is_dynamic q \<Longrightarrow> peek m1 4 2 = Done (compr_bytes (compr_params (compMeth q) (iqWidth q)))"
    using hd by (simp_all add: behind_def sec_hdr_word)
  have "stride q \<le> data_len m1" using left(2) i m01 by (simp add: behind_def)
  then have l1: "section_hdr_bytes (is_dynamic q) \<le> data_len m1" "iq_len q \<le> data_len m1 - up_hdr_bytes q"
    by (simp_all add: stride_def)
  let ?h = "compr_params (compMeth q) (iqWidth q)"
  obtain m2 where x2: "extract_section d (rx_expect_comp p0) (staticEn q) m1 = Done (Some (read_section (sec_word q n (Suc i)),
      if is_dynamic q then Some (get_bits 0 4 (ud_comp_hdr ?h), get_bits 4 4 (ud_comp_hdr ?h)) else None, m2))"
    "behind m1 (section_hdr_bytes (is_dynamic q)) m2"
    by (rule extract_section_reads [OF ok h1(1) dyn h1(2) l1(1)])
  have "(if is_dynamic q then Some (get_bits 0 4 (ud_comp_hdr ?h), get_bits 4 4 (ud_comp_hdr ?h)) else None)
      = (if is_dynamic q then Some (compMeth q, iqWidth q) else None)"
    using compr_fields_read [OF e] by simp
  with x2 have m2: "extract_section d (rx_expect_comp p0) (staticEn q) m1 = Done (Some (read_section (sec_word q n (Suc i)),
      if is_dynamic q then Some (compMeth q, iqWidth q) else None, m2))" "behind m1 (up_hdr_bytes q) m2"
    by (simp_all only: section_hdr_bytes_up)
  have m02: "behind m0 (Suc i * stride q) m2"
    using behind_trans [OF m01 m2(2)] by (simp add: stride_def algebra_simps)
  then have dm2: "data_len m2 = data_len m0 - Suc i * stride q" "data_off m2 = data_off m0 + Suc i * stride q" by (simp_all add: behind_def)
  have "0 < data_len m2" using l1(2) y(4) m2(2) by (simp add: behind_def)
  then have nz: "data_len m2 \<noteq> 0" by simp
  note info = section_info_read [OF e f i] and prbs = prbs_of_section [OF e f i] and valid = validate_section [OF e f i ca]
  have len: "length (rx_pusch_packets (fh_counters (lp_state x))) = XRAN_MAX_ANTENNA_NR" using t by (simp add: tables_at_def)
  obtain s' where s': "bump_pusch (rx_Ant_ID p0) (lp_state x) = Done s'" "rb_maps s' = rb_maps (lp_state x)"
    "length (rx_pusch_packets (fh_counters s')) = XRAN_MAX_ANTENNA_NR"
    using bump_pusch_Done [OF an len] by metis
  have cmp: "compr_of (compMeth q, iqWidth q) (if is_dynamic q then Some (compMeth q, iqWidth q) else None) = (compMeth q, iqWidth q)"
    by (simp add: compr_of_def)
  define x' where "x' = x\<lparr>lp_mbuf := m2, lp_sym := section_sym q n m0 (Suc i) (iqWidth q) p0, lp_bytes := int (data_len m2), lp_state := s'\<rparr>"
  have "next_section d c (iq_len q) x = Done (x', True)"
    using m1(1) m2(1) nz prbs valid [of "lp_state x"] s'(1) st mu pk(2) info cmp dm2 
    by (simp add: next_section_def xran_extract_iq_samples_dataheader_def x'_def section_sym_def Let_def del: of_int_add of_int_mult of_nat_Suc mult_Suc)
  moreover have "tables_at q n m0 p0 ix mp s0 (Suc i) x'" using tables_at_state [OF t s'(2,3), of x'] by (simp add: x'_def)
  moreover have "packet_at q n m0 p0 (Suc i) x'"
  proof -
    have "raw m2 (data_off m0 + j * stride q) (iq_len q) = raw m0 (data_off m0 + j * stride q) (iq_len q)" if "j < Suc i" for j
    proof -
      have "j * stride q \<le> i * stride q" using that by (intro mult_right_mono) auto
      then have "data_off m0 + j * stride q + iq_len q \<le> data_off m1" using m01 by (simp add: behind_def)
      then have "raw m2 (data_off m0 + j * stride q) (iq_len q) = raw (lp_mbuf x) (data_off m0 + j * stride q) (iq_len q)"
        using m2(2) b1 by (simp add: behind_def raw_def)
      moreover have "data_off m0 + i * stride q + iq_len q \<le> length (buf_addr m0)" using left(3) y(4) room by linarith
      ultimately show ?thesis using pk(3) behind_samples [OF pk(1)] that by (cases "j = i") auto
    qed
    then show ?thesis using m02 dm2 by (auto simp: packet_at_def x'_def)
  qed
  ultimately show ?thesis by (rule that)
qed

lemma section_step:
  assumes r: "rx_symbol d c q n m0 p0 tti ix mp" and t: "tables_at q n m0 p0 ix mp s0 i x" and pk: "packet_at q n m0 p0 i x"
    and i: "i < unat (num_sections q)" and room: "data_off m0 + data_len m0 \<le> length (buf_addr m0)"
  obtains x' where "pusch_section d c x = Done (x', Suc i < unat (num_sections q))" "tables_at q n m0 p0 ix mp s0 (Suc i) x'"
    "Suc i < unat (num_sections q) \<Longrightarrow> packet_at q n m0 p0 (Suc i) x'" "Suc i = unat (num_sections q) \<Longrightarrow> packet_done q m0 x'"
proof -
  let ?p = "section_sym q n m0 i (iqWidth q) p0"
  have e: "equal_sections q n" and w: "ru_iqWidth c = iqWidth q" and dl: "data_len m0 + up_hdr_bytes q = unat (num_sections q) * stride q"
    and an: "unat (rx_Ant_ID p0) < XRAN_MAX_ANTENNA_NR" using r by (simp_all add: rx_symbol_def)
  note left = bytes_left [OF dl i] and y = equal_sections_bytes [OF e]
  have known: "compMeth q \<noteq> XRAN_COMPMETHOD_MODULATION"
    using e by (auto simp: equal_sections_def XRAN_COMPMETHOD_NONE_def XRAN_COMPMETHOD_BLKFLOAT_def XRAN_COMPMETHOD_MODULATION_def)
  obtain w' where w': "lp_sym x = section_sym q n m0 i w' p0" "w' = iqWidth q \<or> \<not> rx_expect_comp p0 \<and> w' = 0"
    using pk by (auto simp: packet_at_def)
  have sym: "(if compMeth q \<noteq> XRAN_COMPMETHOD_MODULATION \<and> \<not> rx_expect_comp (lp_sym x) \<and> rx_iqWidth (lp_sym x) = 0
      then (lp_sym x)\<lparr>rx_iqWidth := ru_iqWidth c\<rparr> else lp_sym x) = ?p"
    using w'(2) known w equal_sections_bounds(7) [OF e] by (auto simp: w'(1) section_sym_def)
  have len: "unat (section_len ?p) = iq_len q" by (rule section_len_equal [OF e])
  have "uint (section_len ?p) = int (unat (section_len ?p))" by simp
  with len have len: "uint (section_len ?p) = int (iq_len q)" "unat (section_len ?p) = iq_len q" by (simp_all only:)
  have bytes: "lp_bytes x = int (data_len m0 - i * stride q)" using pk by (simp add: packet_at_def)
  obtain s' where s': "xran_process_rx_sym c (lp_idx x) ?p (lp_state x) = Done (uint (of_nat (data_len m0 - i * stride q) :: u16), Some MBUF_KEEP, s')"
    "\<And>x'. lp_state x' = s' \<Longrightarrow> lp_ret x' = MBUF_KEEP \<Longrightarrow> lp_idx x' = lp_idx x + 1 \<Longrightarrow> tables_at q n m0 p0 ix mp s0 (Suc i) x'"
    using rx_sym_of_section [OF r t i] by metis
  define x1 where "x1 = x\<lparr>lp_sym := ?p, lp_ret := (if lp_idx x = 0 then MBUF_KEEP else lp_ret x), lp_idx := lp_idx x + 1, lp_state := s'\<rparr>"
  have i16: "(of_nat i :: u16) = 0 \<longleftrightarrow> i = 0"
    using i e by (cases "i = 0") (simp_all add: word_of_nat_eq_0_iff nat_dvd_not_less equal_sections_def sections_ok_def XRAN_MAX_SECTIONS_PER_SLOT_def)
  have "lp_idx x = of_nat i" "lp_ret x = (if i = 0 then MBUF_FREE else MBUF_KEEP)" using t by (simp_all add: tables_at_def)
  then have "lp_ret x1 = MBUF_KEEP" using i16 by (cases "i = 0") (simp_all add: x1_def)
  then have t1: "tables_at q n m0 p0 ix mp s0 (Suc i) x1" by (intro s'(2)) (simp_all add: x1_def)
  have body: "pusch_section d c x = (if uint (section_len ?p) < lp_bytes x then next_section d c (iq_len q) x1
      else obind (bump_pusch (rx_Ant_ID p0) s') (\<lambda>s. Done (x1\<lparr>lp_state := s\<rparr>, False)))"
  proof -
    have "rx_compMeth (lp_sym x) = compMeth q" by (simp add: w'(1))
    moreover have "\<not> uint (section_len ?p) > lp_bytes x" using left(3) bytes len(1) by linarith
    ultimately show ?thesis
      using known s'(1) len(2) sym by (simp add: pusch_section_def x1_def op_of_def Let_def)
  qed
  have off: "behind m0 (i * stride q) (lp_mbuf x1)" "lp_sym x1 = ?p"
    "\<forall>j < i. raw (lp_mbuf x1) (data_off m0 + j * stride q) (iq_len q) = raw m0 (data_off m0 + j * stride q) (iq_len q)"
    using pk by (simp_all add: x1_def packet_at_def)
  show ?thesis
  proof (cases "Suc i < unat (num_sections q)")
    case True
    have "0 < stride q" using y(4) by (simp add: stride_def)
    then have "uint (section_len ?p) < lp_bytes x" unfolding bytes len(1) using left(2) True by linarith
    moreover obtain x' where "next_section d c (iq_len q) x1 = Done (x', True)" "tables_at q n m0 p0 ix mp s0 (Suc i) x'"
      "packet_at q n m0 p0 (Suc i) x'"
      using next_section_reads [OF r t1 off True room] by metis
    ultimately show ?thesis using True body by (intro that [of x']) simp_all
  next
    case False
    then have last: "Suc i = unat (num_sections q)" using i by simp
    then have "\<not> uint (section_len ?p) < lp_bytes x" using left(1) bytes len(1) by simp
    moreover have "length (rx_pusch_packets (fh_counters s')) = XRAN_MAX_ANTENNA_NR" using t1 by (simp add: tables_at_def x1_def)
    then obtain s2 where s2: "bump_pusch (rx_Ant_ID p0) s' = Done s2" "rb_maps s2 = rb_maps s'"
      "length (rx_pusch_packets (fh_counters s2)) = XRAN_MAX_ANTENNA_NR"
      using bump_pusch_Done [OF an] by metis
    moreover have "data_off m0 + i * stride q + iq_len q \<le> length (buf_addr m0)" using left(3) y(4) room by linarith
    then have "packet_done q m0 (x1\<lparr>lp_state := s2\<rparr>)"
      using off(3) behind_samples [OF off(1)] by (auto simp: packet_done_def less_Suc_eq simp flip: last)
    ultimately show ?thesis
      using False body last tables_at_state [OF t1, of s2 "x1\<lparr>lp_state := s2\<rparr>"] by (intro that [of "x1\<lparr>lp_state := s2\<rparr>"]) (simp_all add: x1_def)
  qed
qed

lemma section_loop:
  assumes r: "rx_symbol d c q n m0 p0 tti ix mp" and room: "data_off m0 + data_len m0 \<le> length (buf_addr m0)"
  shows "tables_at q n m0 p0 ix mp s0 i x \<Longrightarrow> packet_at q n m0 p0 i x \<Longrightarrow> i < unat (num_sections q)
    \<Longrightarrow> \<exists>x'. run_loop (pusch_section d c) x = Done x' \<and> tables_at q n m0 p0 ix mp s0 (unat (num_sections q)) x' \<and> packet_done q m0 x'"
proof (induction "unat (num_sections q) - i" arbitrary: i x)
  case 0
  then show ?case by simp
next
  case (Suc l)
  obtain x' where x': "pusch_section d c x = Done (x', Suc i < unat (num_sections q))" "tables_at q n m0 p0 ix mp s0 (Suc i) x'"
    "Suc i < unat (num_sections q) \<Longrightarrow> packet_at q n m0 p0 (Suc i) x'" "Suc i = unat (num_sections q) \<Longrightarrow> packet_done q m0 x'"
    using section_step [OF r Suc.prems room] by metis
  show ?case
  proof (cases "Suc i < unat (num_sections q)")
    case True
    then have "\<exists>x''. run_loop (pusch_section d c) x' = Done x'' \<and> tables_at q n m0 p0 ix mp s0 (unat (num_sections q)) x'' \<and> packet_done q m0 x''"
      using Suc.hyps(1) [of "Suc i" x'] Suc.hyps(2) x' by simp
    then show ?thesis using True x'(1) by (subst run_loop_unfold) simp
  next
    case False
    then have "Suc i = unat (num_sections q)" using Suc.prems(3) by simp
    then show ?thesis using False x' by (subst run_loop_unfold) simp
  qed
qed

section \<open>From the sender to the tables\<close>

definition with_ctl :: "map_index \<Rightarrow> xran_prb_map \<Rightarrow> nat \<Rightarrow> xran_rx_packet_ctl \<Rightarrow> xran_rx \<Rightarrow> rx_map \<Rightarrow> map_index \<Rightarrow> xran_prb_map option" where
  "with_ctl ix mp symb k s = (rb_maps s)(FrontHaulRx := (rb_maps s FrontHaulRx)(ix := Some
     (mp\<lparr>sFrontHaulRxPacketCtrl := (sFrontHaulRxPacketCtrl mp)[symb := k]\<rparr>)))"

lemma rx_pusch_enters:
  assumes r: "rx_symbol d c q n m0 p tti ix mp" and room: "data_off m0 + data_len m0 \<le> length (buf_addr m0)"
    and p: "section_sym q n m0 0 w p = p" "w = iqWidth q \<or> \<not> rx_expect_comp p \<and> w = 0"
    and m: "rb_maps s FrontHaulRx ix = Some mp" and cnt: "length (rx_pusch_packets (fh_counters s)) = XRAN_MAX_ANTENNA_NR"
    and seq: "get_bits 0 8 seq = ucast sq" "sq < 0xFF" "get_bits 15 1 seq = 1" and port: "unat (xran_port_id c) < XRAN_PORTS_NUM"
    and tot: "0 \<le> symbol_total_bytes s (xran_port_id c, rx_CC_ID p, rx_Ant_ID p, sq)"
  obtains m' s' k where "rx_pusch d c p m0 seq s = Done (MBUF_KEEP, m', s')"
    "rb_maps s' = with_ctl ix mp (unat (rx_symb_id p)) k s"
    "entered q n (rx_mbuf p) (data_off m0) (unat (num_sections q)) (sFrontHaulRxPacketCtrl mp ! unat (rx_symb_id p)) k"
    "\<forall>j < unat (num_sections q). raw m' (data_off m0 + j * stride q) (iq_len q) = raw m0 (data_off m0 + j * stride q) (iq_len q)"
proof -
  have e: "equal_sections q n" and f: "fits_carrier c q n" and ca: "appmode c = O_DU" and mu: "rx_mu p = up_mu q"
    and an: "unat (rx_Ant_ID p) < XRAN_MAX_ANTENNA_NR" "unat (rx_CC_ID p) < XRAN_MAX_SECTOR_NR"
    and dl: "data_len m0 + up_hdr_bytes q = unat (num_sections q) * stride q"
    and sy: "unat (rx_symb_id p) < XRAN_NUM_OF_SYMBOL_PER_SLOT" and mr: "map_ready q mp"
    and wf: "wf_ctl (sFrontHaulRxPacketCtrl mp ! unat (rx_symb_id p))" using r by (simp_all add: rx_symbol_def)
  note y = equal_sections_bytes [OF e]
  have start: "rx_start_prbu p = word_of_int (prb_start q + int 0 * n)" "rx_num_prbu p = word_of_int n"
    using arg_cong [OF p(1), of rx_start_prbu] arg_cong [OF p(1), of rx_num_prbu] by (simp_all add: section_sym_def)
  have valid: "xran_validate_numprbs c (rx_mu p) (rx_start_prbu p) (rx_num_prbu p) s = Done (True, s)"
    unfolding start mu by (rule validate_section [OF e f y(7) ca])
  let ?i = "(xran_port_id c, rx_CC_ID p, rx_Ant_ID p, sq)"
  have ti: "total_index c (rx_CC_ID p) (rx_Ant_ID p) (ucast (get_bits 0 8 seq)) = Done ?i"
    using seq(1,2) port an by (simp add: total_index_def)
  have pos: "0 < data_len m0" using bytes_left(3) [OF dl y(7)] y(4) by simp
  let ?s = "set_total ?i (symbol_total_bytes s ?i + int (data_len m0)) s"
  let ?x = "\<lparr>lp_mbuf = m0, lp_sym = p, lp_bytes = int (data_len m0), lp_idx = 0, lp_ret = MBUF_FREE, lp_state = ?s\<rparr>"
  let ?k = "sFrontHaulRxPacketCtrl mp ! unat (rx_symb_id p)"
  have "entered q n (rx_mbuf p) (data_off m0) 0 ?k ?k" using wf by (simp add: entered_def)
  moreover have "mp\<lparr>sFrontHaulRxPacketCtrl := (sFrontHaulRxPacketCtrl mp)[unat (rx_symb_id p) := ?k]\<rparr> = mp" by simp
  ultimately have t: "tables_at q n m0 p ix mp s 0 ?x"
    using m cnt by (auto simp: tables_at_def set_total_def intro!: exI [of _ ?k] ext)
  have "\<exists>w. p = section_sym q n m0 0 w p \<and> (w = iqWidth q \<or> \<not> rx_expect_comp p \<and> w = 0)"
    using p(2) by (intro exI [of _ w]) (simp add: p(1))
  then have "packet_at q n m0 p 0 ?x" by (simp add: packet_at_def behind_def)
  then obtain x where x: "run_loop (pusch_section d c) ?x = Done x" "tables_at q n m0 p ix mp s (unat (num_sections q)) x" "packet_done q m0 x"
    using section_loop [OF r room t _ y(7)] by auto
  obtain k where k: "rb_maps (lp_state x) = with_ctl ix mp (unat (rx_symb_id p)) k s" "entered q n (rx_mbuf p) (data_off m0) (unat (num_sections q)) ?k k"
    using x(2) by (auto simp: tables_at_def with_ctl_def)
  have ret: "lp_ret x = MBUF_KEEP" using x(2) y(7) by (simp add: tables_at_def)
  have nz: "symbol_total_bytes ?s ?i \<noteq> 0" using tot pos by (simp add: set_total_def)
  show ?thesis
  proof (rule that [of "lp_mbuf x" "set_total ?i 0 (lp_state x)" k])
    show "rx_pusch d c p m0 seq s = Done (MBUF_KEEP, lp_mbuf x, set_total ?i 0 (lp_state x))"
      using valid ti nz x(1) ret seq(3) by (simp add: rx_pusch_def Let_def)
  qed (use k x(3) in \<open>simp_all add: packet_done_def set_total_def\<close>)
qed

text \<open>The checks of the timing change counters only.\<close>

lemma timing_window_state:
  assumes "xran_rx_timing_window_check c t tti symb mu s = Done (w, s1)"
  shows "rb_maps s1 = rb_maps s" "symbol_total_bytes s1 = symbol_total_bytes s"
    "rx_pusch_packets (fh_counters s1) = rx_pusch_packets (fh_counters s)" "freed s1 = freed s"
proof -
  obtain f where "s1 = count f s" "rx_pusch_packets (f (fh_counters s)) = rx_pusch_packets (fh_counters s)"
    using assms unfolding xran_rx_timing_window_check_def obind_Done_iff case_prod_beta
    by (elim exE conjE) (auto split: if_split_asm intro: that)
  then show "rb_maps s1 = rb_maps s" "symbol_total_bytes s1 = symbol_total_bytes s"
    "rx_pusch_packets (fh_counters s1) = rx_pusch_packets (fh_counters s)" "freed s1 = freed s"
    by (simp_all add: count_def)
qed

text \<open>A distributed unit whose configuration matches the symbol, which finds the packet in time or does not
  drop late ones, and for which the antenna carries neither PRACH nor sounding signals.\<close>

definition receiver_ready :: "xran_rx_cfg \<Rightarrow> xran_clock \<Rightarrow> up_symbol \<Rightarrow> int \<Rightarrow> nat \<Rightarrow> xran_rx \<Rightarrow> bool" where
  "receiver_ready c t q n tti s \<longleftrightarrow> first_call t \<and> xran2phy_mem_ready c \<and> appmode c = O_DU \<and> byteOrder c = XRAN_NE_BE_BYTE_ORDER
     \<and> ru_compMeth c = compMeth q \<and> ru_iqWidth c = iqWidth q \<and> xranCompHdrType c = staticEn q \<and> fits_carrier c q n
     \<and> xran_isactive_cc c (ucast (CC_ID q)) \<noteq> 0 \<and> unat (CC_ID q) < XRAN_MAX_SECTOR_NR
     \<and> mu_number c \<noteq> [] \<and> hd (mu_number c) = up_mu q \<and> unat (up_mu q) < length (perMu c)
     \<and> packet_tti (up_mu q) (up_frame_id q) (up_subframe_id q) (up_slot_id q) = Done tti
     \<and> \<not> is_srs c (RU_Port_ID q)
     \<and> (\<exists>cfg. prach_config c (up_mu q) tti = Done cfg \<and> \<not> is_prach c cfg (fh_perMu c ! unat (up_mu q)) (RU_Port_ID q))
     \<and> (\<exists>w s1. xran_rx_timing_window_check c t tti (symbol_no q) (up_mu q) s = Done (w, s1) \<and> (w \<or> \<not> dropPacketsUp c))
     \<and> ucast (RU_Port_ID q - eaxcOffset (perMu c ! unat (up_mu q))) < neAxcUl c
     \<and> unat (RU_Port_ID q - eaxcOffset (perMu c ! unat (up_mu q))) < XRAN_MAX_ANTENNA_NR \<and> unat (RU_Port_ID q) < XRAN_MAX_ANTENNA_NR
     \<and> unat (up_subframe_id q) < 16 \<and> unat (up_slot_id q) < 64 \<and> unat (symbol_no q) < XRAN_NUM_OF_SYMBOL_PER_SLOT
     \<and> unat (xran_port_id c) < XRAN_PORTS_NUM \<and> up_seq_id q < 0xFF
     \<and> 0 \<le> symbol_total_bytes s (xran_port_id c, CC_ID q, RU_Port_ID q, up_seq_id q)
     \<and> length (rx_pusch_packets (fh_counters s)) = XRAN_MAX_ANTENNA_NR"

text \<open>The map of a symbol, and the room in it.\<close>

definition symbol_index :: "xran_rx_cfg \<Rightarrow> up_symbol \<Rightarrow> nat \<Rightarrow> map_index" where
  "symbol_index c q tti = (up_mu q, tti mod XRAN_N_FE_BUF_LEN, CC_ID q, RU_Port_ID q - eaxcOffset (perMu c ! unat (up_mu q)))"

definition room_for :: "up_symbol \<Rightarrow> xran_prb_map \<Rightarrow> bool" where
  "room_for q mp \<longleftrightarrow> map_ready q mp \<and> wf_ctl (sFrontHaulRxPacketCtrl mp ! unat (symbol_no q))
     \<and> nRxPkt (sFrontHaulRxPacketCtrl mp ! unat (symbol_no q)) + unat (num_sections q) \<le> XRAN_MAX_RX_PKT_PER_SYM"

text \<open>The parameters with which the symbol is processed.\<close>

definition symbol_params :: "xran_rx_cfg \<Rightarrow> up_symbol \<Rightarrow> int \<Rightarrow> mbuf \<Rightarrow> rte_mbuf \<Rightarrow> rx_sym" where
  "symbol_params c q n h m = \<lparr>rx_mbuf = h, iq_data = data_off m, iq_bytes = of_nat (data_len m), rx_CC_ID = CC_ID q,
     rx_Ant_ID = RU_Port_ID q, rx_frame_id = up_frame_id q, rx_subframe_id = up_subframe_id q, rx_slot_id = up_slot_id q,
     rx_symb_id = symbol_no q, rx_num_prbu = word_of_int n, rx_start_prbu = word_of_int (prb_start q),
     rx_sect_id = section_id_start q, rx_expect_comp = (ru_compMeth c \<noteq> XRAN_COMPMETHOD_NONE), rx_compMeth = compMeth q,
     rx_iqWidth = (if is_dynamic q \<or> staticEn q = XRAN_COMP_HDR_TYPE_STATIC then iqWidth q else 0), rx_mu = up_mu q\<rparr>"

lemma process_mbuf_parses:
  assumes r: "receiver_ready c t q n tti s" and e: "equal_sections q n" and nz: "data_len m0 \<noteq> 0"
    and x: "xran_extract_iq_samples d (Some (eAxc_id_cfg c)) (ru_compMeth c \<noteq> XRAN_COMPMETHOD_NONE) (xranCompHdrType c) m
      = Done (Some (\<lparr>rx_cc = CC_ID q, rx_ant = RU_Port_ID q, rx_frame = up_frame_id q, rx_subframe = up_subframe_id q,
          rx_slot = up_slot_id q, rx_symb = symbol_no q, rx_seq = sq\<rparr>, read_section (sec_word q n 0),
          if is_dynamic q then Some (compMeth q, iqWidth q) else None, m0))"
  obtains s1 where "process_mbuf d c t h m s = rx_pusch d c (symbol_params c q n h m0) m0 sq s1"
    "rb_maps s1 = rb_maps s" "symbol_total_bytes s1 = symbol_total_bytes s"
    "rx_pusch_packets (fh_counters s1) = rx_pusch_packets (fh_counters s)"
proof -
  have f: "fits_carrier c q n" and k: "0 < unat (num_sections q)" using r equal_sections_bytes(7) [OF e] by (simp_all add: receiver_ready_def)
  note info = section_info_read [OF e f k] and prbs = prbs_of_section [OF e f k]
  obtain w s1 where w: "xran_rx_timing_window_check c t tti (symbol_no q) (up_mu q) s = Done (w, s1)" "w \<or> \<not> dropPacketsUp c"
    using r by (auto simp: receiver_ready_def)
  note ts = timing_window_state [OF w(1)]
  obtain cfg where cfg: "prach_config c (up_mu q) tti = Done cfg" "\<not> is_prach c cfg (fh_perMu c ! unat (up_mu q)) (RU_Port_ID q)"
    using r by (auto simp: receiver_ready_def)
  have sec: "xran_validate_sectionId c (up_mu q) s = Done (True, s)"
    using r by (cases "mu_number c") (simp_all add: receiver_ready_def xran_validate_sectionId_def)
  have meth: "compr_of (if xranCompHdrType c = XRAN_COMP_HDR_TYPE_STATIC then (ru_compMeth c, ru_iqWidth c) else (0, 0))
      (if is_dynamic q then Some (compMeth q, iqWidth q) else None) = (rx_compMeth (symbol_params c q n h m0), rx_iqWidth (symbol_params c q n h m0))"
    using r by (auto simp: receiver_ready_def compr_of_def is_dynamic_def symbol_params_def XRAN_COMPMETHOD_NONE_def
      intro: xran_comp_hdr_type.exhaust)
  have cs: "\<not> is_csirs c (RU_Port_ID q)" using r by (simp add: receiver_ready_def is_csirs_def O_DU_def O_RU_def)
  have ct: "rb_maps (snd (xran_validate_seq_id s1)) = rb_maps s" "symbol_total_bytes (snd (xran_validate_seq_id s1)) = symbol_total_bytes s"
    "rx_pusch_packets (fh_counters (snd (xran_validate_seq_id s1))) = rx_pusch_packets (fh_counters s)"
    using ts by (simp_all add: xran_validate_seq_id_def count_def)
  have ti: "rx_timing c t tti (symbol_params c q n h m0) s = Done (True, s1)"
    using r w by (auto simp: receiver_ready_def rx_timing_def symbol_params_def)
  have di: "rx_dispatch d c tti (symbol_params c q n h m0) m0 sq s2 = rx_pusch d c (symbol_params c q n h m0) m0 sq s2" for s2
    using r cfg cs f by (simp add: rx_dispatch_def symbol_params_def receiver_ready_def at_def fits_carrier_def)
  show ?thesis
  proof (rule that [of "snd (xran_validate_seq_id s1)"])
    have "\<lparr>rx_mbuf = h, iq_data = data_off m0, iq_bytes = of_nat (data_len m0), rx_CC_ID = CC_ID q, rx_Ant_ID = RU_Port_ID q,
        rx_frame_id = up_frame_id q, rx_subframe_id = up_subframe_id q, rx_slot_id = up_slot_id q, rx_symb_id = symbol_no q,
        rx_num_prbu = word_of_int n, rx_start_prbu = word_of_int (prb_start q), rx_sect_id = section_id_start q,
        rx_expect_comp = (ru_compMeth c \<noteq> XRAN_COMPMETHOD_NONE), rx_compMeth = rx_compMeth (symbol_params c q n h m0),
        rx_iqWidth = rx_iqWidth (symbol_params c q n h m0), rx_mu = up_mu q\<rparr> = symbol_params c q n h m0"
      by (simp add: symbol_params_def)
    then show "process_mbuf d c t h m s = rx_pusch d c (symbol_params c q n h m0) m0 sq (snd (xran_validate_seq_id s1))"
      using r x nz prbs info sec meth ti di by (simp add: process_mbuf_def receiver_ready_def Let_def)
  qed (use ct in simp_all)
qed

end
