(* ===== verification/Xran_Delivery.thy ===== *)
theory Xran_Delivery
  imports Xran_Receive
begin

text \<open>
  The packet that \<open>prepare_symbol_ex\<close> builds, parsed by \<open>process_mbuf\<close>: the two ends of the fronthaul
  put together.
\<close>

text \<open>The packet after its transport header and its first section header were read.\<close>

definition at_samples :: "dpdk_pkt \<Rightarrow> up_symbol \<Rightarrow> int \<Rightarrow> rte_mbuf \<Rightarrow> rte_mbuf \<Rightarrow> bool" where
  "at_samples d q n m m0 \<longleftrightarrow> data_off m0 = data_off m + 26 + up_hdr_bytes q
     \<and> data_len m0 + up_hdr_bytes q = unat (num_sections q) * stride q \<and> data_off m0 + data_len m0 \<le> length (buf_addr m0)
     \<and> (\<forall>i. Suc i < unat (num_sections q) \<longrightarrow> peek m0 (i * stride q + iq_len q) 4 = Done (le32 (sec_hdr (sec_params d q n (Suc i))))
          \<and> (is_dynamic q \<longrightarrow> peek m0 (i * stride q + iq_len q + 4) 2 = Done (compr_bytes (compr_params (compMeth q) (iqWidth q)))))
     \<and> (\<forall>j < unat (num_sections q). raw m0 (data_off m0 + j * stride q) (iq_len q) = raw m (data_off m0 + j * stride q) (iq_len q))"

lemma hdr_le_sections:
  assumes "equal_sections q n"
  shows "up_hdr_bytes q \<le> unat (num_sections q) * stride q"
proof -
  have "up_hdr_bytes q \<le> 1 * stride q" by (simp add: stride_def)
  also have "\<dots> \<le> unat (num_sections q) * stride q"
    using equal_sections_bytes(7) [OF assms] by (intro mult_right_mono) auto
  finally show ?thesis .
qed

lemma at_samples_built:
  assumes e: "equal_sections q n" and b: "built_sections d q n 26 m m1" and room: "data_off m + 26 + unat (num_sections q) * stride q \<le> length (buf_addr m)"
    and l: "length (buf_addr m1) = length (buf_addr m)" "data_off m1 = data_off m" "data_len m1 = 26 + unat (num_sections q) * stride q"
    and bh: "behind m1 (26 + up_hdr_bytes q) m0"
  shows "at_samples d q n m m0"
proof -
  let ?k = "unat (num_sections q)"
  have pk: "peek m0 j x = peek m1 (26 + up_hdr_bytes q + j) x" for j x using bh by (simp add: behind_def)
  have off: "data_off m0 = data_off m + 26 + up_hdr_bytes q" using bh l by (simp add: behind_def)
  have dl: "data_len m0 + up_hdr_bytes q = ?k * stride q" using bh l hdr_le_sections [OF e] by (simp add: behind_def)
  have hdr: "peek m0 (i * stride q + iq_len q) 4 = Done (le32 (sec_hdr (sec_params d q n (Suc i))))
      \<and> (is_dynamic q \<longrightarrow> peek m0 (i * stride q + iq_len q + 4) 2 = Done (compr_bytes (compr_params (compMeth q) (iqWidth q))))"
    if "Suc i < ?k" for i
    using b [unfolded built_sections_def, rule_format, OF that] by (simp add: pk stride_def algebra_simps)
  have iq: "raw m0 (data_off m0 + j * stride q) (iq_len q) = raw m (data_off m0 + j * stride q) (iq_len q)" if j: "j < ?k" for j
  proof -
    have "Suc j * stride q \<le> ?k * stride q" using j by (intro mult_right_mono) auto
    then have "data_off m + (26 + j * stride q + up_hdr_bytes q) + iq_len q \<le> length (buf_addr m)"
      using room by (simp add: stride_def)
    then have "peek m (26 + j * stride q + up_hdr_bytes q) (iq_len q) = Done (raw m (data_off m + (26 + j * stride q + up_hdr_bytes q)) (iq_len q))"
      by (simp add: peek_def raw_def)
    moreover have "peek m1 (26 + j * stride q + up_hdr_bytes q) (iq_len q) = peek m (26 + j * stride q + up_hdr_bytes q) (iq_len q)"
      using b [unfolded built_sections_def, rule_format, OF j] by (metis add.right_neutral add_0 order_refl)
    moreover have "peek m0 (j * stride q) (iq_len q) = peek m1 (26 + j * stride q + up_hdr_bytes q) (iq_len q)"
      by (simp add: pk ac_simps)
    ultimately show ?thesis using peek_raw [of m0 "j * stride q" "iq_len q"] by (simp add: off ac_simps)
  qed
  have "data_off m0 + data_len m0 \<le> length (buf_addr m0)" using off dl bh l room by (simp add: behind_def)
  with off dl hdr iq show ?thesis by (simp add: at_samples_def)
qed

lemma packet_parsed:
  assumes ok: "dpdk_pkt_ok d" and e: "equal_sections q n" and eth: "sizeof_rte_ether_hdr d = 14"
    and room: "data_off m + 26 + unat (num_sections q) * stride q \<le> length (buf_addr m)"
    and cid: "eaxc_ok c w1 w2 w3 w4" "unat (CC_ID q) < 2 ^ w3" "unat (RU_Port_ID q) < 2 ^ w4"
    and t: "unat (up_subframe_id q) < 16" "unat (up_slot_id q) < 64" "unat (symbol_no q) < 64"
    and ex: "is_dynamic q \<longleftrightarrow> expect \<and> staticEn q \<noteq> XRAN_COMP_HDR_TYPE_STATIC"
  obtains r m1 m2 m0 where "prepare_symbol_ex d (Some c) q m = Done (r, m1)" "0 < r" "rte_pktmbuf_adj d 14 m1 = Some m2"
    "data_len m2 = 12 + unat (num_sections q) * stride q" "xran_extract_iq_samples d (Some c) expect (staticEn q) m2 = Done (Some
       (\<lparr>rx_cc = CC_ID q, rx_ant = RU_Port_ID q, rx_frame = up_frame_id q, rx_subframe = up_subframe_id q, rx_slot = up_slot_id q,
         rx_symb = symbol_no q, rx_seq = set_bits 0 8 (ucast (up_seq_id q)) 0x8000\<rparr>,
        read_section (sec_word q n 0), if is_dynamic q then Some (compMeth q, iqWidth q) else None, m0))"
    "at_samples d q n m m0"
proof -
  obtain w where w: "xran_compose_cid d (Some c) 0 0 (CC_ID q) (RU_Port_ID q) = Done w"
    "xran_decompose_cid d (Some c) w = Done \<lparr>cuPortId = 0, bandSectorId = 0, ccId = CC_ID q, ruPortId = RU_Port_ID q\<rparr>"
    using cid_round_trip [OF ok cid(1) _ _ cid(2,3), of 0 0] by auto
  obtain r m1 b where m1: "prepare_symbol_ex d (Some c) q m = Done (r, m1)" "0 < r"
    "data_off m1 = data_off m" "length (buf_addr m1) = length (buf_addr m)" "data_len m1 = 26 + unat (num_sections q) * stride q"
    "peek m1 14 8 = Done b" "length b = 8" "take 2 (drop 4 b) = le16 w" "drop 6 b = le16 (set_bits 0 8 (ucast (up_seq_id q)) 0x8000)"
    "peek m1 22 4 = Done (app_bytes (up_app_hdr d q))" "built_sections d q n 26 m m1"
    by (rule prepare_symbol_layout [OF e eth room w(1)])
  obtain m2 where m2: "rte_pktmbuf_adj d 14 m1 = Some m2" "behind m1 14 m2" using adj_behind [OF ok, of 14 m1] m1(5) by auto
  have k: "0 < unat (num_sections q)" by (rule equal_sections_bytes(7) [OF e])
  have pk: "peek m2 0 8 = Done b" "peek m2 8 4 = Done (app_bytes (up_app_hdr d q))"
    "peek m2 12 4 = Done (le32 (rte_cpu_to_be_32 d (sec_word q n 0)))"
    "is_dynamic q \<Longrightarrow> peek m2 16 2 = Done (compr_bytes (compr_params (compMeth q) (iqWidth q)))"
    using m1(6,10,11) m2(2) k by (auto simp: behind_def built_sections_def simp flip: sec_hdr_word)
  have l: "12 + section_hdr_bytes (is_dynamic q) \<le> data_len m2" using m1(5) m2(2) hdr_le_sections [OF e] by (simp add: behind_def)
  have dc: "xran_decompose_cid d (Some c) (of_le16 (take 2 (drop 4 b))) = Done \<lparr>cuPortId = 0, bandSectorId = 0, ccId = CC_ID q, ruPortId = RU_Port_ID q\<rparr>"
    using w(2) by (simp add: m1(8))
  let ?h = "compr_params (compMeth q) (iqWidth q)"
  have "(if is_dynamic q then Some (get_bits 0 4 (ud_comp_hdr ?h), get_bits 4 4 (ud_comp_hdr ?h)) else None)
      = (if is_dynamic q then Some (compMeth q, iqWidth q) else None)"
    using compr_fields_read [OF e] by simp
  with extract_iq_samples_reads [OF ok pk(1) dc pk(2,3) ex pk(4) l] obtain m0 where
    m0: "xran_extract_iq_samples d (Some c) expect (staticEn q) m2 = Done (Some
       (\<lparr>rx_cc = CC_ID q, rx_ant = RU_Port_ID q, rx_frame = up_frame_id q, rx_subframe = up_subframe_id q, rx_slot = up_slot_id q,
         rx_symb = symbol_no q, rx_seq = set_bits 0 8 (ucast (up_seq_id q)) 0x8000\<rparr>,
        read_section (sec_word q n 0), if is_dynamic q then Some (compMeth q, iqWidth q) else None, m0))"
      "behind m2 (12 + up_hdr_bytes q) m0"
    by (simp add: app_fields_read [OF ok t] m1(9) del: peek_raw) blast
  have "behind m1 (26 + up_hdr_bytes q) m0" using behind_trans [OF m2(2) m0(2)] by simp
  then show ?thesis
    using at_samples_built [OF e m1(11) room m1(4,3,5)] m1(1,2,5) m2 m0(1) by (intro that) (simp_all add: behind_def)
qed

lemma symbol_params_simps:
  "rx_mu (symbol_params c q n h m0) = up_mu q" "rx_CC_ID (symbol_params c q n h m0) = CC_ID q"
  "rx_Ant_ID (symbol_params c q n h m0) = RU_Port_ID q" "rx_symb_id (symbol_params c q n h m0) = symbol_no q"
  "rx_expect_comp (symbol_params c q n h m0) = (ru_compMeth c \<noteq> XRAN_COMPMETHOD_NONE)" "rx_mbuf (symbol_params c q n h m0) = h"
  "sym_tti (symbol_params c q n h m0) = packet_tti (up_mu q) (up_frame_id q) (up_subframe_id q) (up_slot_id q)"
  by (simp_all add: symbol_params_def sym_tti_def)

lemma rx_symbol_of_params:
  assumes ok: "dpdk_pkt_ok d" and e: "equal_sections q n" and r: "receiver_ready c t q n tti s" and room: "room_for q mp"
    and a: "at_samples d q n m m0"
  shows "rx_symbol d c q n m0 (symbol_params c q n h m0) tti (symbol_index c q tti) mp"
    "section_sym q n m0 0 (rx_iqWidth (symbol_params c q n h m0)) (symbol_params c q n h m0) = symbol_params c q n h m0"
    "rx_iqWidth (symbol_params c q n h m0) = iqWidth q \<or> \<not> rx_expect_comp (symbol_params c q n h m0) \<and> rx_iqWidth (symbol_params c q n h m0) = 0"
proof -
  show "section_sym q n m0 0 (rx_iqWidth (symbol_params c q n h m0)) (symbol_params c q n h m0) = symbol_params c q n h m0"
    by (simp add: section_sym_def symbol_params_def)
  show "rx_iqWidth (symbol_params c q n h m0) = iqWidth q \<or> \<not> rx_expect_comp (symbol_params c q n h m0) \<and> rx_iqWidth (symbol_params c q n h m0) = 0"
    using r by (cases "staticEn q") (auto simp: receiver_ready_def symbol_params_def is_dynamic_def)
  show "rx_symbol d c q n m0 (symbol_params c q n h m0) tti (symbol_index c q tti) mp"
    unfolding rx_symbol_def symbol_params_simps symbol_index_def using ok e r room a by (simp add: receiver_ready_def room_for_def at_samples_def)
qed

lemma symbol_parsed:
  assumes ok: "dpdk_pkt_ok d" and eth: "sizeof_rte_ether_hdr d = 14" and e: "equal_sections q n"
    and room: "data_off m + 26 + unat (num_sections q) * stride q \<le> length (buf_addr m)"
    and cid: "eaxc_ok (eAxc_id_cfg c) w1 w2 w3 w4" "unat (CC_ID q) < 2 ^ w3" "unat (RU_Port_ID q) < 2 ^ w4"
    and r: "receiver_ready c t q n tti s" and mp: "rb_maps s FrontHaulRx (symbol_index c q tti) = Some mp" "room_for q mp"
  shows "\<exists>n1 m1 m2 m3 s' k. prepare_symbol_ex d (Some (eAxc_id_cfg c)) q m = Done (n1, m1) \<and> 0 < n1 \<and> rte_pktmbuf_adj d 14 m1 = Some m2
    \<and> data_len m2 = 12 + unat (num_sections q) * stride q \<and> process_mbuf d c t h m2 s = Done (MBUF_KEEP, m3, s')
    \<and> rb_maps s' = with_ctl (symbol_index c q tti) mp (unat (symbol_no q)) k s
    \<and> entered q n h (data_off m + 26 + up_hdr_bytes q) (unat (num_sections q)) (sFrontHaulRxPacketCtrl mp ! unat (symbol_no q)) k
    \<and> (\<forall>j < unat (num_sections q). raw m3 (data_off m + 26 + up_hdr_bytes q + j * stride q) (iq_len q)
          = raw m (data_off m + 26 + up_hdr_bytes q + j * stride q) (iq_len q))"
proof -
  have c: "ru_compMeth c = compMeth q" "xranCompHdrType c = staticEn q" "unat (up_subframe_id q) < 16" "unat (up_slot_id q) < 64"
    "unat (symbol_no q) < 64" "unat (xran_port_id c) < XRAN_PORTS_NUM" "up_seq_id q < 0xFF"
    using r by (simp_all add: receiver_ready_def XRAN_NUM_OF_SYMBOL_PER_SLOT_def)
  have ex: "is_dynamic q \<longleftrightarrow> ru_compMeth c \<noteq> XRAN_COMPMETHOD_NONE \<and> staticEn q \<noteq> XRAN_COMP_HDR_TYPE_STATIC"
    using c by (cases "staticEn q") (simp_all add: is_dynamic_def)
  obtain n1 m1 m2 m0 where m0: "prepare_symbol_ex d (Some (eAxc_id_cfg c)) q m = Done (n1, m1)" "0 < n1" "rte_pktmbuf_adj d 14 m1 = Some m2"
    "data_len m2 = 12 + unat (num_sections q) * stride q" "xran_extract_iq_samples d (Some (eAxc_id_cfg c)) (ru_compMeth c \<noteq> XRAN_COMPMETHOD_NONE) (staticEn q) m2 = Done (Some
       (\<lparr>rx_cc = CC_ID q, rx_ant = RU_Port_ID q, rx_frame = up_frame_id q, rx_subframe = up_subframe_id q, rx_slot = up_slot_id q,
         rx_symb = symbol_no q, rx_seq = set_bits 0 8 (ucast (up_seq_id q)) 0x8000\<rparr>,
        read_section (sec_word q n 0), if is_dynamic q then Some (compMeth q, iqWidth q) else None, m0))"
    "at_samples d q n m m0"
    by (rule packet_parsed [OF ok e eth room cid c(3-5) ex])
  have iq: "data_len m0 + up_hdr_bytes q = unat (num_sections q) * stride q" "data_off m0 + data_len m0 \<le> length (buf_addr m0)"
    "data_off m0 = data_off m + 26 + up_hdr_bytes q"
    "\<forall>j < unat (num_sections q). raw m0 (data_off m0 + j * stride q) (iq_len q) = raw m (data_off m0 + j * stride q) (iq_len q)"
    using m0(6) [unfolded at_samples_def] by blast+
  have "iq_len q \<le> data_len m0" "0 < iq_len q"
    using bytes_left(3) [OF iq(1) equal_sections_bytes(7) [OF e]] equal_sections_bytes(4) [OF e] by simp_all
  then have nz: "data_len m0 \<noteq> 0" by simp
  obtain s1 where s1: "process_mbuf d c t h m2 s = rx_pusch d c (symbol_params c q n h m0) m0 (set_bits 0 8 (ucast (up_seq_id q)) 0x8000) s1"
    "rb_maps s1 = rb_maps s" "symbol_total_bytes s1 = symbol_total_bytes s" "rx_pusch_packets (fh_counters s1) = rx_pusch_packets (fh_counters s)"
    by (rule process_mbuf_parses [OF r e nz m0(5) [folded c(2)]])
  note rx = rx_symbol_of_params [OF ok e r mp(2) m0(6), of h]
  have st: "rb_maps s1 FrontHaulRx (symbol_index c q tti) = Some mp" "length (rx_pusch_packets (fh_counters s1)) = XRAN_MAX_ANTENNA_NR"
    "0 \<le> symbol_total_bytes s1 (xran_port_id c, rx_CC_ID (symbol_params c q n h m0), rx_Ant_ID (symbol_params c q n h m0), up_seq_id q)"
    using mp(1) s1 r by (simp_all add: receiver_ready_def symbol_params_simps)
  obtain m3 s' k where k: "rx_pusch d c (symbol_params c q n h m0) m0 (set_bits 0 8 (ucast (up_seq_id q)) 0x8000) s1 = Done (MBUF_KEEP, m3, s')"
    "rb_maps s' = with_ctl (symbol_index c q tti) mp (unat (symbol_no q)) k s1"
    "entered q n h (data_off m0) (unat (num_sections q)) (sFrontHaulRxPacketCtrl mp ! unat (symbol_no q)) k"
    "\<forall>j < unat (num_sections q). raw m3 (data_off m0 + j * stride q) (iq_len q) = raw m0 (data_off m0 + j * stride q) (iq_len q)"
    by (rule rx_pusch_enters [OF rx(1) iq(2) rx(2,3) st(1,2) seq_fields_read(1) c(7) seq_fields_read(2) c(6) st(3), unfolded symbol_params_simps])
  have "with_ctl (symbol_index c q tti) mp (unat (symbol_no q)) k s1 = with_ctl (symbol_index c q tti) mp (unat (symbol_no q)) k s"
    by (simp add: with_ctl_def s1(2))
  then show ?thesis using m0(1-4) s1(1) k iq by (intro exI conjI) auto
qed

text \<open>C38: what \<open>prepare_symbol_ex\<close> sends arrives.  When the sections of a symbol have the same number of
  resource blocks, its packet fits in the buffer and the receiver has the configuration of the symbol and
  room in the tables, the packet without its Ethernet header is parsed by \<open>process_mbuf\<close> and kept: one entry
  is made for each section, in order, with the resource blocks and the identifier that the sender had and
  the place of its samples; those samples are the bytes that were in
  the buffer, and no other table changes.\<close>

theorem symbol_reaches_its_tables:
  assumes ok: "dpdk_pkt_ok d" and eth: "sizeof_rte_ether_hdr d = 14" and e: "equal_sections q n"
    and room: "data_off m + 26 + unat (num_sections q) * stride q \<le> length (buf_addr m)"
    and cid: "eaxc_ok (eAxc_id_cfg c) w1 w2 w3 w4" "unat (CC_ID q) < 2 ^ w3" "unat (RU_Port_ID q) < 2 ^ w4"
    and r: "receiver_ready c t q n tti s" and mp: "rb_maps s FrontHaulRx (symbol_index c q tti) = Some mp" "room_for q mp"
  shows "\<exists>n1 m1 m2 m3 s' k. prepare_symbol_ex d (Some (eAxc_id_cfg c)) q m = Done (n1, m1) \<and> 0 < n1 \<and> rte_pktmbuf_adj d 14 m1 = Some m2
    \<and> data_len m2 = 12 + unat (num_sections q) * stride q \<and> process_mbuf d c t h m2 s = Done (MBUF_KEEP, m3, s')
    \<and> rb_maps s' = with_ctl (symbol_index c q tti) mp (unat (symbol_no q)) k s
    \<and> entered q n h (data_off m + 26 + up_hdr_bytes q) (unat (num_sections q)) (sFrontHaulRxPacketCtrl mp ! unat (symbol_no q)) k
    \<and> (\<forall>j < unat (num_sections q). raw m3 (data_off m + 26 + up_hdr_bytes q + j * stride q) (iq_len q)
          = raw m (data_off m + 26 + up_hdr_bytes q + j * stride q) (iq_len q))"
  using assms by (rule symbol_parsed)

text \<open>A carrier of 106 resource blocks with numerology 1, a packet buffer of 600 bytes, and a symbol with two
  sections of four resource blocks, compressed to 9 bits.\<close>

definition demo_dpdk_pkt :: dpdk_pkt where
  "demo_dpdk_pkt = \<lparr>rte_cpu_to_be_16 = swap16, rte_cpu_to_be_32 = swap32, rte_cpu_to_be_64 = swap64,
     rte_pktmbuf_append = (\<lambda>n m. if data_off m + data_len m + n \<le> length (buf_addr m) then Some (m\<lparr>data_len := data_len m + n\<rparr>) else None),
     rte_pktmbuf_adj = (\<lambda>n m. if n \<le> data_len m then Some (m\<lparr>data_off := data_off m + n, data_len := data_len m - n\<rparr>) else None),
     rte_pktmbuf_trim = (\<lambda>n m. if n \<le> data_len m then Some (m\<lparr>data_len := data_len m - n\<rparr>) else None),
     sizeof_rte_ether_hdr = 14\<rparr>"

definition demo_symbol :: up_symbol where
  "demo_symbol = \<lparr>up_direction = 0, section_id_start = 3, compMeth = 1, iqWidth = 9, up_frame_id = 7, up_subframe_id = 4,
     up_slot_id = 1, symbol_no = 5, prb_start = 10, prb_num = 8, CC_ID = 1, RU_Port_ID = 2, up_seq_id = 17,
     staticEn = XRAN_COMP_HDR_TYPE_DYNAMIC, num_sections = 2, up_mu = 1, isNb375 = False\<rparr>"

definition demo_rx_per_mu :: xran_device_per_mu_fields where
  "demo_rx_per_mu = \<lparr>eaxcOffset = 0, PrachCPConfig = \<lparr>filterIdx = 1, numPrbc = 12, prachEaxcOffset = 4\<rparr>,
     PrachCPConfigLTE = \<lparr>filterIdx = 1, numPrbc = 12, prachEaxcOffset = 4\<rparr>, sym_up_ul_ub = 8, sym_up_ul_lb = 2,
     ruRxSymUpMin = 2, ruRxSymUpMax = 8\<rparr>"

definition demo_rx_cfg :: xran_rx_cfg where
  "demo_rx_cfg = \<lparr>xran_port_id = 0, eAxc_id_cfg = \<lparr>mask_cuPortId = 0xF000, mask_bandSectorId = 0x0F00, mask_ccId = 0x00F0,
       mask_ruPortId = 0x000F, bit_cuPortId = 12, bit_bandSectorId = 8, bit_ccId = 4, bit_ruPortId = 0\<rparr>,
     appmode = O_DU, rru_workaround = False, xran2phy_mem_ready = True, active_CC = 3, ru_compMeth = 1, ru_iqWidth = 9,
     xranCompHdrType = XRAN_COMP_HDR_TYPE_DYNAMIC, xranTech = XRAN_RAN_5GNR, byteOrder = XRAN_NE_BE_BYTE_ORDER,
     neAxc = 4, neAxcUl = 4, nAntElmTRx = 0, numMUs = 1, mu_number = [1],
     fh_perMu = [\<lparr>nDLRBs = 106, nULRBs = 106, prachEnable = True\<rparr>, \<lparr>nDLRBs = 106, nULRBs = 106, prachEnable = True\<rparr>],
     perMu = [demo_rx_per_mu, demo_rx_per_mu], dropPacketsUp = True, srsEnable = False, srsEaxcOffset = 8, enableSrsCp = False,
     csirsEnable = False, csirsEaxcOffset = 0, dssEnable = False, dssPeriod = 0, technology = [], prach_start_symbol = []\<rparr>"

definition demo_clock :: xran_clock where
  "demo_clock = \<lparr>first_call = True, xran_lib_ota_sym_idx_mu = [0, 2095], xran_getSfnSecStart = 0\<rparr>"

definition demo_prb_map :: xran_prb_map where
  "demo_prb_map = \<lparr>nPrbElm = 1, sFrontHaulRxPacketCtrl = replicate 14
       \<lparr>nRBStart = replicate 32 0, nRBSize = replicate 32 0, nSectid = replicate 32 0, pData = replicate 32 None,
        pCtrl = replicate 32 None, nRxPkt = 0\<rparr>,
     prbMap = [\<lparr>startSectId = 3, elm_iqWidth = 9\<rparr>]\<rparr>"

definition demo_counters :: xran_common_counters where
  "demo_counters = \<lparr>Rx_on_time = 0, Rx_early = 0, Rx_late = 0, Total_msgs_rcvd = 0, rx_counter = 0, rx_pusch_packets = replicate 16 0,
     rx_prach_packets = replicate 16 0, rx_srs_packets = 0, rx_csirs_packets = 0, rx_err_drop = 0, rx_err_up = 0, rx_err_pusch = 0,
     rx_err_csirs = 0, rx_err_srs = 0, rx_err_prach = 0\<rparr>"

definition demo_xran_rx :: xran_rx where
  "demo_xran_rx = \<lparr>fh_counters = demo_counters, rb_maps = (\<lambda>_ _. Some demo_prb_map), symbol_total_bytes = (\<lambda>_. 0), freed = []\<rparr>"

lemma demo_dpdk_pkt_ok [simp]: "dpdk_pkt_ok demo_dpdk_pkt" "sizeof_rte_ether_hdr demo_dpdk_pkt = 14"
  by (simp_all add: dpdk_pkt_ok_def demo_dpdk_pkt_def)

lemma demo_symbol_facts [simp]:
  "equal_sections demo_symbol 4" "unat (num_sections demo_symbol) = 2" "stride demo_symbol = 118" "iq_len demo_symbol = 112"
  "up_hdr_bytes demo_symbol = 6" "symbol_no demo_symbol = 5"
  by (simp_all add: demo_symbol_def equal_sections_def sections_ok_def stride_def iq_len_def up_hdr_bytes_def up_iq_bytes_def
      nprb_per_section_def int16_def signed_divide_int_def signed_modulo_int_def comp_parm_size_def XRAN_COMPMETHOD_NONE_def
      XRAN_COMPMETHOD_BLKFLOAT_def XRAN_MAX_SECTIONS_PER_SLOT_def sizeof_section_hdr_def sizeof_compression_hdr_def)

lemma demo_eaxc_ok: "eaxc_ok (eAxc_id_cfg demo_rx_cfg) 4 4 4 4"
  by (simp add: demo_rx_cfg_def eaxc_ok_def cid_field_def mask_eq_decr_exp)

lemma demo_packet_tti: "packet_tti (up_mu demo_symbol) (up_frame_id demo_symbol) (up_subframe_id demo_symbol) (up_slot_id demo_symbol) = Done 149"
  by (simp add: demo_symbol_def packet_tti_def SLOTNUM_PER_SUBFRAME_def xran_fs_get_tti_interval_def nTtiInterval_def
      XRAN_MAX_NUM_MU_def SUBFRAME_DURATION_US_def SUBFRAMES_PER_SYSTEMFRAME_def)

lemma demo_room_for: "room_for demo_symbol demo_prb_map"
  by (simp add: room_for_def map_ready_def wf_ctl_def demo_prb_map_def XRAN_MAX_RX_PKT_PER_SYM_def XRAN_NUM_OF_SYMBOL_PER_SLOT_def
      demo_symbol_def)

lemma demo_timing: "xran_rx_timing_window_check demo_rx_cfg demo_clock 149 (symbol_no demo_symbol) (up_mu demo_symbol) demo_xran_rx
    = Done (True, count (Rx_on_time_update (\<lambda>k. k + 1)) demo_xran_rx)"
  by (simp add: xran_rx_timing_window_check_def ota_slot_and_symbol_def demo_rx_cfg_def demo_clock_def demo_symbol_def at_def
      SLOTNUM_PER_SUBFRAME_def xran_fs_get_tti_interval_def nTtiInterval_def XRAN_MAX_NUM_MU_def SUBFRAME_DURATION_US_def
      SUBFRAMES_PER_SYSTEMFRAME_def XranGetTtiNum_def XranGetSlotNum_def XranGetSubFrameNum_def XranGetFrameNum_def
      XRAN_NUM_OF_SYMBOL_PER_SLOT_def rx_window_def demo_rx_per_mu_def Let_def)

lemma demo_receiver_ready: "receiver_ready demo_rx_cfg demo_clock demo_symbol 4 149 demo_xran_rx"
proof -
  have prach: "\<exists>cfg. prach_config demo_rx_cfg (up_mu demo_symbol) 149 = Done cfg
      \<and> \<not> is_prach demo_rx_cfg cfg (fh_perMu demo_rx_cfg ! unat (up_mu demo_symbol)) (RU_Port_ID demo_symbol)"
    by (simp add: prach_config_def is_prach_def at_def demo_rx_cfg_def demo_symbol_def demo_rx_per_mu_def)
  have time: "\<exists>w s1. xran_rx_timing_window_check demo_rx_cfg demo_clock 149 (symbol_no demo_symbol) (up_mu demo_symbol) demo_xran_rx = Done (w, s1)
      \<and> (w \<or> \<not> dropPacketsUp demo_rx_cfg)"
    using demo_timing by blast
  show ?thesis
    unfolding receiver_ready_def
    by (intro conjI prach time demo_packet_tti; simp add: demo_rx_cfg_def demo_symbol_def demo_clock_def demo_xran_rx_def
      demo_counters_def demo_rx_per_mu_def fits_carrier_def is_srs_def xran_isactive_cc_def XRAN_MAX_SECTOR_NR_def
      XRAN_MAX_SECTIONS_PER_SLOT_def XRAN_MAX_ANTENNA_NR_def XRAN_NUM_OF_SYMBOL_PER_SLOT_def XRAN_PORTS_NUM_def)
qed

lemma demo_inputs:
  "data_off \<lparr>buf_addr = replicate 600 0xAB, data_off = 0, data_len = 0\<rparr> + 26 + unat (num_sections demo_symbol) * stride demo_symbol
     \<le> length (buf_addr \<lparr>buf_addr = replicate 600 0xAB, data_off = 0, data_len = 0\<rparr>)"
  "unat (CC_ID demo_symbol) < 2 ^ 4" "unat (RU_Port_ID demo_symbol) < 2 ^ 4"
  "rb_maps demo_xran_rx FrontHaulRx (symbol_index demo_rx_cfg demo_symbol 149) = Some demo_prb_map"
  by (simp, simp_all add: demo_symbol_def demo_xran_rx_def)

lemma demo_received:
  obtains m2 m3 s' where "data_len m2 = 248" "process_mbuf demo_dpdk_pkt demo_rx_cfg demo_clock 1 m2 demo_xran_rx = Done (MBUF_KEEP, m3, s')"
  using symbol_parsed [OF demo_dpdk_pkt_ok demo_symbol_facts(1) demo_inputs(1) demo_eaxc_ok demo_inputs(2,3) demo_receiver_ready
    demo_inputs(4) demo_room_for, of 1] by auto

theorem symbol_reaches_its_tables_witness:
  "\<exists>n1 m1 m2 m3 s' k. prepare_symbol_ex demo_dpdk_pkt (Some (eAxc_id_cfg demo_rx_cfg)) demo_symbol \<lparr>buf_addr = replicate 600 0xAB, data_off = 0, data_len = 0\<rparr> = Done (n1, m1)
    \<and> rte_pktmbuf_adj demo_dpdk_pkt 14 m1 = Some m2 \<and> process_mbuf demo_dpdk_pkt demo_rx_cfg demo_clock 1 m2 demo_xran_rx = Done (MBUF_KEEP, m3, s')
    \<and> rb_maps s' = with_ctl (1, 9, 1, 2) demo_prb_map 5 k demo_xran_rx
    \<and> take 2 (nRBStart k) = [10, 14] \<and> take 2 (nSectid k) = [3, 4] \<and> take 2 (pData k) = [Some (1, 32), Some (1, 150)] \<and> take 2 (pCtrl k) = [Some 1, None]
    \<and> raw m3 32 112 = replicate 112 0xAB \<and> raw m3 150 112 = replicate 112 0xAB"
proof -
  have ix: "symbol_index demo_rx_cfg demo_symbol 149 = (1, 9, 1, 2)"
    by (simp add: symbol_index_def demo_rx_cfg_def demo_symbol_def demo_rx_per_mu_def XRAN_N_FE_BUF_LEN_def)
  let ?m = "\<lparr>buf_addr = replicate 600 0xAB, data_off = 0, data_len = 0\<rparr>"
  have ctl: "nRxPkt (sFrontHaulRxPacketCtrl demo_prb_map ! 5) = 0" by (simp add: demo_prb_map_def)
  have q: "prb_start demo_symbol = 10" "section_id_start demo_symbol = 3" by (simp_all add: demo_symbol_def)
  obtain n1 m1 m2 m3 s' k where k: "prepare_symbol_ex demo_dpdk_pkt (Some (eAxc_id_cfg demo_rx_cfg)) demo_symbol ?m = Done (n1, m1)"
    "rte_pktmbuf_adj demo_dpdk_pkt 14 m1 = Some m2" "process_mbuf demo_dpdk_pkt demo_rx_cfg demo_clock 1 m2 demo_xran_rx = Done (MBUF_KEEP, m3, s')"
    "rb_maps s' = with_ctl (1, 9, 1, 2) demo_prb_map 5 k demo_xran_rx"
    "entered demo_symbol 4 1 32 2 (sFrontHaulRxPacketCtrl demo_prb_map ! 5) k"
    "\<forall>j < 2. raw m3 (32 + j * 118) 112 = raw ?m (32 + j * 118) 112"
    using symbol_reaches_its_tables [OF demo_dpdk_pkt_ok demo_symbol_facts(1) demo_inputs(1) demo_eaxc_ok demo_inputs(2,3) demo_receiver_ready demo_inputs(4) demo_room_for, of 1, unfolded ix]
    by (auto simp only: demo_symbol_facts rte_mbuf.select_convs) auto
  show ?thesis
    using k(1-4) k(5) k(6) [rule_format, of 0] k(6) [rule_format, of 1]
    by (intro exI conjI) (auto simp: entered_def ctl q raw_def upt_rec min_def numeral_2_eq_2)
qed

end
