(* ===== verification/Xran_Buffers.thy ===== *)
theory Xran_Buffers
  imports Xran_Delivery
begin

text \<open>
  What holds of \<open>process_mbuf\<close> for every packet: it does not run forever, and every packet buffer keeps
  exactly one owner.
\<close>

section \<open>The handler ends\<close>

named_theorems returns

lemma at_returns [returns]: "at xs i \<noteq> Diverges" by (simp add: at_def)
lemma peek_returns [returns]: "peek m i n \<noteq> Diverges" by (simp add: peek_def)
lemma poke_returns [returns]: "poke i b m \<noteq> Diverges" by (simp add: poke_def)
lemma ticks_return [returns]: "SLOTNUM_PER_SUBFRAME mu \<noteq> Diverges" by (simp add: SLOTNUM_PER_SUBFRAME_def)
lemma cid_returns [returns]: "xran_decompose_cid d conf cid \<noteq> Diverges" by (simp add: xran_decompose_cid_def Let_def split: option.split)
lemma total_index_returns [returns]: "total_index c cc ant seq \<noteq> Diverges" by (simp add: total_index_def)
lemma prb_map_returns [returns]: "prb_map_of c k i s \<noteq> Diverges" by (cases i) (simp add: prb_map_of_def)

lemma packet_tti_returns [returns]: "packet_tti mu f sf sl \<noteq> Diverges"
  by (simp add: packet_tti_def obind_Diverges_iff returns)

lemma sym_tti_returns [returns]: "sym_tti p \<noteq> Diverges" by (simp add: sym_tti_def returns)

lemma timing_returns [returns]: "xran_rx_timing_window_check c t tti symb mu s \<noteq> Diverges"
  by (auto simp: xran_rx_timing_window_check_def ota_slot_and_symbol_def obind_Diverges_iff returns Let_def split: prod.splits)

lemma rx_timing_returns [returns]: "rx_timing c t tti p s \<noteq> Diverges"
  by (auto simp: rx_timing_def obind_Diverges_iff returns split: prod.splits)

lemma checks_return [returns]:
  "xran_validate_sectionId c mu s \<noteq> Diverges" "xran_validate_numprbs c mu st num s \<noteq> Diverges"
  "xran_validate_numprbs_prach c mu st num s \<noteq> Diverges" "xran_validate_numprbs_prach_lte c mu st num s \<noteq> Diverges"
  by (auto simp: xran_validate_sectionId_def xran_validate_numprbs_def xran_validate_numprbs_prach_def
      xran_validate_numprbs_prach_lte_def obind_Diverges_iff returns Let_def split: list.split)

lemma enter_returns [returns]: "enter p owner k i symb m s \<noteq> Diverges" "enter_or_reject f p owner k i symb m s \<noteq> Diverges"
  by (auto simp: enter_or_reject_def enter_def rejected_def obind_Diverges_iff returns split: option.splits prod.splits)

lemma prach_config_returns [returns]: "prach_config c mu tti \<noteq> Diverges"
  by (auto simp: prach_config_def obind_Diverges_iff returns)

lemma prb_elem_id_returns [returns]: "prb_elem_id sect m \<noteq> Diverges"
  by (auto simp: prb_elem_id_def split: option.split)

lemma process_sym_returns [returns]:
  "xran_process_prach_sym c p s \<noteq> Diverges" "xran_process_srs_sym c p s \<noteq> Diverges"
  "xran_process_csirs_sym c p s \<noteq> Diverges" "xran_process_rx_sym c k p s \<noteq> Diverges"
  by (auto simp: xran_process_prach_sym_def xran_process_srs_sym_def xran_process_csirs_sym_def xran_process_rx_sym_def rejected_def
      obind_Diverges_iff returns Let_def split: option.splits)

lemma bump_returns [returns]: "bump_pusch a s \<noteq> Diverges" "bump_prach a s \<noteq> Diverges"
  by (auto simp: bump_pusch_def bump_prach_def bump_def obind_Diverges_iff returns)

lemma extract_section_returns [returns]: "extract_section d expect st m \<noteq> Diverges"
  by (auto simp: extract_section_def obind_Diverges_iff returns Let_def split: option.splits)

lemma extract_returns [returns]: "xran_extract_iq_samples d conf expect st m \<noteq> Diverges"
  by (auto simp: xran_extract_iq_samples_def obind_Diverges_iff returns Let_def split: option.splits)

lemma prbs_of_returns [returns]: "prbs_of c mu i \<noteq> Diverges"
  by (auto simp: prbs_of_def obind_Diverges_iff returns)

text \<open>Every section takes at least its header from the packet.\<close>

lemma extract_section_shrinks:
  assumes "dpdk_pkt_ok d" "extract_section d expect st m = Done (Some (i, c, m'))"
  shows "data_len m' < data_len m"
proof -
  have "data_len a = data_len m" if "poke 0 w m = Done a" for w a using poke_facts(2) [OF that] .
  moreover have "n \<le> data_len a \<and> data_len b = data_len a - n" if "rte_pktmbuf_adj d n a = Some b" for n a b
    using assms(1) that by (auto simp: dpdk_pkt_ok_def split: if_split_asm)
  ultimately show ?thesis
    using assms(2) unfolding extract_section_def Let_def obind_Done_iff
    by (elim exE conjE) (fastforce simp: sizeof_section_hdr_def sizeof_compression_hdr_def obind_Done_iff split: option.splits if_split_asm)
qed

lemma next_section_shrinks:
  assumes d: "dpdk_pkt_ok d" and x: "next_section d c len x = Done (x', True)"
  shows "data_len (lp_mbuf x') < data_len (lp_mbuf x)"
proof -
  let ?m = "case rte_pktmbuf_adj d len (lp_mbuf x) of None \<Rightarrow> lp_mbuf x | Some m \<Rightarrow> m"
  have "data_len ?m \<le> data_len (lp_mbuf x)" using d by (auto simp: dpdk_pkt_ok_def split: option.split if_split_asm)
  moreover obtain i cm where "extract_section d (rx_expect_comp (lp_sym x)) (xranCompHdrType c) ?m = Done (Some (i, cm, lp_mbuf x'))"
    using x unfolding next_section_def Let_def xran_extract_iq_samples_dataheader_def obind_Done_iff case_prod_beta
    by (elim exE conjE) (auto simp: obind_Done_iff split: option.splits if_split_asm prod.splits)
  ultimately show ?thesis using extract_section_shrinks [OF d] by fastforce
qed

lemma next_section_returns [returns]: "next_section d c len x \<noteq> Diverges"
  by (auto simp: next_section_def xran_extract_iq_samples_dataheader_def obind_Diverges_iff returns Let_def split: option.splits prod.splits)

lemma pusch_section_returns: "pusch_section d c x \<noteq> Diverges"
  by (auto simp: pusch_section_def obind_Diverges_iff returns Let_def split: prod.splits)

lemma pusch_section_shrinks:
  assumes d: "dpdk_pkt_ok d" and x: "pusch_section d c x = Done (x', True)"
  shows "data_len (lp_mbuf x') < data_len (lp_mbuf x)"
  using x next_section_shrinks [OF d] unfolding pusch_section_def Let_def obind_Done_iff case_prod_beta
  by (fastforce split: if_split_asm simp: obind_Done_iff)

lemma rx_pusch_returns [returns]: "dpdk_pkt_ok d \<Longrightarrow> rx_pusch d c p m seq s \<noteq> Diverges"
  using run_loop_ends [of "pusch_section d c" "\<lambda>x. data_len (lp_mbuf x)", OF pusch_section_returns pusch_section_shrinks]
  by (auto simp: rx_pusch_def obind_Diverges_iff returns Let_def split: prod.splits)

lemma rx_stream_returns:
  assumes "\<And>s. proc p s \<noteq> Diverges" "\<And>s. packets s \<noteq> Diverges"
  shows "rx_stream c proc err packets p n seq s \<noteq> Diverges"
  using assms by (auto simp: rx_stream_def obind_Diverges_iff returns Let_def split: prod.splits)

lemma rx_other_returns [returns]:
  "rx_csirs c p n seq s \<noteq> Diverges" "rx_srs c p n seq s \<noteq> Diverges" "rx_prach c cfg p n seq s \<noteq> Diverges"
  by (auto simp: rx_csirs_def rx_srs_def rx_prach_def obind_Diverges_iff returns rx_stream_returns Let_def
      split: prod.splits xran_ran_tech.splits)

text \<open>C40: \<open>process_mbuf\<close> never runs forever.  Whatever a packet, the configuration and the tables hold, the
  call ends: it returns, exits, or comes to an access that C leaves undefined.  Every section that is found
  in the packet makes the rest shorter by its header at least, also when the length of the samples was
  wrong.\<close>

theorem process_mbuf_ends:
  assumes "dpdk_pkt_ok d"
  shows "process_mbuf d c t h m s \<noteq> Diverges"
  using assms
  by (auto simp: process_mbuf_def rx_dispatch_def obind_Diverges_iff returns Let_def split: prod.splits option.splits)

text \<open>A packet that comes to the loop over the sections, which keeps it.\<close>

theorem process_mbuf_ends_witness:
  "\<exists>m op m3 s'. data_len m = 248 \<and> process_mbuf demo_dpdk_pkt demo_rx_cfg demo_clock 1 m demo_xran_rx \<noteq> Diverges
    \<and> process_mbuf demo_dpdk_pkt demo_rx_cfg demo_clock 1 m demo_xran_rx = Done (MBUF_KEEP, m3, s')"
proof -
  obtain m2 m3 s' where "data_len m2 = 248" "process_mbuf demo_dpdk_pkt demo_rx_cfg demo_clock 1 m2 demo_xran_rx = Done (MBUF_KEEP, m3, s')"
    by (rule demo_received)
  then show ?thesis using process_mbuf_ends [OF demo_dpdk_pkt_ok(1), of demo_rx_cfg demo_clock 1 m2 demo_xran_rx] by blast
qed

section \<open>Who owns a packet buffer\<close>

text \<open>A place of a control, and the buffer it owns.  The buffers that are freed on the way are in \<open>freed\<close>.\<close>

type_synonym ctl_place = "rx_map \<times> map_index \<times> nat \<times> nat"

fun owner_at :: "xran_rx \<Rightarrow> ctl_place \<Rightarrow> mbuf option" where
  "owner_at s (k, i, symb, n) =
     (case rb_maps s k i of None \<Rightarrow> None
      | Some m \<Rightarrow> if symb < length (sFrontHaulRxPacketCtrl m) \<and> n < length (pCtrl (sFrontHaulRxPacketCtrl m ! symb))
                  then pCtrl (sFrontHaulRxPacketCtrl m ! symb) ! n else None)"

definition maps_ok :: "xran_rx \<Rightarrow> bool" where
  "maps_ok s \<longleftrightarrow> (\<forall>k i m. rb_maps s k i = Some m \<longrightarrow> (\<forall>ctl \<in> set (sFrontHaulRxPacketCtrl m). length (pCtrl ctl) = XRAN_MAX_RX_PKT_PER_SYM))"

definition one_owner :: "xran_rx \<Rightarrow> bool" where
  "one_owner s \<longleftrightarrow> (\<forall>p q b. owner_at s p = Some b \<and> owner_at s q = Some b \<longrightarrow> p = q)
     \<and> distinct (freed s) \<and> set (freed s) \<inter> ran (owner_at s) = {}"

definition buffers :: "xran_rx \<Rightarrow> mbuf set" where
  "buffers s = ran (owner_at s) \<union> set (freed s)"

text \<open>From \<open>s\<close> to \<open>s'\<close> the library has taken the buffers \<open>bs\<close> over.\<close>

definition takes :: "xran_rx \<Rightarrow> mbuf set \<Rightarrow> xran_rx \<Rightarrow> bool" where
  "takes s bs s' \<longleftrightarrow> maps_ok s' \<and> one_owner s' \<and> buffers s' = buffers s \<union> bs"

definition same_tables :: "xran_rx \<Rightarrow> xran_rx \<Rightarrow> bool" where
  "same_tables s s' \<longleftrightarrow> rb_maps s' = rb_maps s \<and> freed s' = freed s"

lemma owner_at_cong: "rb_maps s' = rb_maps s \<Longrightarrow> owner_at s' p = owner_at s p"
  by (cases p) simp

lemma same_tables_takes:
  assumes "same_tables s s'"
  shows "takes s0 bs s' \<longleftrightarrow> takes s0 bs s"
proof -
  have "owner_at s' = owner_at s" using assms by (auto simp: same_tables_def intro: owner_at_cong)
  then show ?thesis using assms by (simp add: takes_def maps_ok_def one_owner_def buffers_def same_tables_def)
qed

lemma same_tables_buffers:
  assumes "same_tables s s'"
  shows "buffers s' = buffers s"
proof -
  have "owner_at s' = owner_at s" using assms by (auto simp: same_tables_def intro: owner_at_cong)
  then show ?thesis using assms by (simp add: buffers_def same_tables_def)
qed

lemma same_tables_trans: "same_tables a b \<Longrightarrow> same_tables b c \<Longrightarrow> same_tables a c"
  by (simp add: same_tables_def)

lemma same_tables_simps [simp]:
  "same_tables s s" "same_tables s (count f s)" "same_tables s (count_drop f s)" "same_tables s (drop_packet s)" "same_tables s (set_total i n s)"
  by (simp_all add: same_tables_def count_def count_drop_def drop_packet_def set_total_def)

lemma enter_Some:
  assumes "enter p ow k i symb m s = Done (Some s')"
  obtains c old where "symb < length (sFrontHaulRxPacketCtrl m)" "enter_packet p ow (sFrontHaulRxPacketCtrl m ! symb) = Some (c, old)"
    "s' = set_prb_map k i (m\<lparr>sFrontHaulRxPacketCtrl := (sFrontHaulRxPacketCtrl m)[symb := c]\<rparr>)
        (s\<lparr>freed := freed s @ (case old of None \<Rightarrow> [] | Some b \<Rightarrow> [b])\<rparr>)"
  using assms by (auto simp: enter_def at_def split: if_split_asm option.splits prod.splits)

text \<open>A slot of a control is overwritten: its old buffer is freed.\<close>

lemma enter_owner:
  assumes ok: "maps_ok s" and m: "rb_maps s k i = Some m" and e: "enter p ow k i symb m s = Done (Some s')"
  obtains n where "owner_at s' = (owner_at s)((k, i, symb, n) := if ow then Some (rx_mbuf p) else None)" "maps_ok s'"
    "freed s' = freed s @ (case owner_at s (k, i, symb, n) of None \<Rightarrow> [] | Some b \<Rightarrow> [b])"
proof -
  let ?ctl = "sFrontHaulRxPacketCtrl m ! symb"
  obtain c old where c: "symb < length (sFrontHaulRxPacketCtrl m)" "enter_packet p ow ?ctl = Some (c, old)"
    "s' = set_prb_map k i (m\<lparr>sFrontHaulRxPacketCtrl := (sFrontHaulRxPacketCtrl m)[symb := c]\<rparr>)
        (s\<lparr>freed := freed s @ (case old of None \<Rightarrow> [] | Some b \<Rightarrow> [b])\<rparr>)"
    by (rule enter_Some [OF e])
  let ?n = "nRxPkt ?ctl"
  have len: "length (pCtrl ?ctl) = XRAN_MAX_RX_PKT_PER_SYM" using ok m nth_mem [OF c(1)] unfolding maps_ok_def by blast
  have n: "?n < length (pCtrl ?ctl)" "pCtrl c = (pCtrl ?ctl)[?n := if ow then Some (rx_mbuf p) else None]" "old = pCtrl ?ctl ! ?n"
    using c(2) len by (auto simp: enter_packet_def Let_def split: if_split_asm)
  show ?thesis
  proof (rule that [of ?n])
    show "owner_at s' = (owner_at s)((k, i, symb, ?n) := if ow then Some (rx_mbuf p) else None)"
    proof
      fix a
      show "owner_at s' a = ((owner_at s)((k, i, symb, ?n) := if ow then Some (rx_mbuf p) else None)) a"
        using n c m by (cases a) (auto simp: set_prb_map_def nth_list_update)
    qed
    show "maps_ok s'"
      using ok m c(1) len n(2) unfolding maps_ok_def c(3) set_prb_map_def
      by (auto split: if_split_asm dest!: set_update_subset_insert [THEN subsetD])
    show "freed s' = freed s @ (case owner_at s (k, i, symb, ?n) of None \<Rightarrow> [] | Some b \<Rightarrow> [b])"
      using n c m by (simp add: set_prb_map_def)
  qed
qed

declare owner_at.simps [simp del]

text \<open>A place \<open>a\<close> of a table is overwritten with a new buffer or with none, and what it had goes to \<open>fs\<close>.\<close>

lemma overwrite_place:
  fixes f :: "'p \<rightharpoonup> 'b"
  assumes "\<forall>p q b. f p = Some b \<and> f q = Some b \<longrightarrow> p = q" "distinct fs" "set fs \<inter> ran f = {}" "\<forall>h. v = Some h \<longrightarrow> h \<notin> ran f \<union> set fs"
  shows "\<forall>p q b. (f(a := v)) p = Some b \<and> (f(a := v)) q = Some b \<longrightarrow> p = q"
    "distinct (fs @ (case f a of None \<Rightarrow> [] | Some b \<Rightarrow> [b]))" "set (fs @ (case f a of None \<Rightarrow> [] | Some b \<Rightarrow> [b])) \<inter> ran (f(a := v)) = {}"
    "ran (f(a := v)) \<union> set (fs @ (case f a of None \<Rightarrow> [] | Some b \<Rightarrow> [b])) = ran f \<union> set fs \<union> set_option v"
proof -
  have inj: "p = q" if "f p = Some b" "f q = Some b" for p q b using assms(1) that by blast
  have fs: "f p = Some b \<Longrightarrow> b \<notin> set fs" for p b using assms(3) by (auto simp: ran_def)
  have v: "v = Some h \<Longrightarrow> f p \<noteq> Some h" "v = Some h \<Longrightarrow> h \<notin> set fs" for p h using assms(4) by (auto simp: ran_def)
  show "\<forall>p q b. (f(a := v)) p = Some b \<and> (f(a := v)) q = Some b \<longrightarrow> p = q" using inj v by (auto split: if_split_asm)
  show "distinct (fs @ (case f a of None \<Rightarrow> [] | Some b \<Rightarrow> [b]))" using assms(2) fs by (auto split: option.split)
  show "set (fs @ (case f a of None \<Rightarrow> [] | Some b \<Rightarrow> [b])) \<inter> ran (f(a := v)) = {}"
  proof (cases "f a")
    case None
    then show ?thesis using fs v by (auto simp: ran_def split: if_split_asm)
  next
    case (Some b)
    then have "f q \<noteq> Some b" if "q \<noteq> a" for q using inj that by blast
    moreover have "v \<noteq> Some b" using v(1) Some by blast
    ultimately show ?thesis using fs v(2) Some by (auto simp: ran_def split: if_split_asm)
  qed
  show "ran (f(a := v)) \<union> set (fs @ (case f a of None \<Rightarrow> [] | Some b \<Rightarrow> [b])) = ran f \<union> set fs \<union> set_option v"
  proof (rule set_eqI)
    fix x
    have "(\<exists>p. (f(a := v)) p = Some x) \<or> f a = Some x \<longleftrightarrow> (\<exists>p. f p = Some x) \<or> v = Some x"
    proof
      assume "(\<exists>p. f p = Some x) \<or> v = Some x"
      then obtain p where "f p = Some x \<or> p = a \<and> v = Some x" by blast
      then have "p = a \<and> f a = Some x \<or> (f(a := v)) p = Some x \<or> (f(a := v)) a = Some x" by auto
      then show "(\<exists>p. (f(a := v)) p = Some x) \<or> f a = Some x" by blast
    qed (auto split: if_split_asm)
    then show "x \<in> ran (f(a := v)) \<union> set (fs @ (case f a of None \<Rightarrow> [] | Some b \<Rightarrow> [b])) \<longleftrightarrow> x \<in> ran f \<union> set fs \<union> set_option v"
      unfolding ran_def Un_iff mem_Collect_eq set_append by (cases "f a") (auto simp del: fun_upd_apply)
  qed
qed

lemma enter_takes:
  assumes t: "takes s0 bs s" and m: "rb_maps s k i = Some m" and e: "enter p ow k i symb m s = Done (Some s')"
    and h: "ow \<Longrightarrow> rx_mbuf p \<notin> buffers s"
  shows "takes s0 (bs \<union> (if ow then {rx_mbuf p} else {})) s'"
proof -
  have ok: "maps_ok s" and b: "buffers s = buffers s0 \<union> bs" using t by (simp_all add: takes_def)
  have one: "\<forall>p q b. owner_at s p = Some b \<and> owner_at s q = Some b \<longrightarrow> p = q" "distinct (freed s)" "set (freed s) \<inter> ran (owner_at s) = {}"
    using t unfolding takes_def one_owner_def by blast+
  have new: "\<forall>b. (if ow then Some (rx_mbuf p) else None) = Some b \<longrightarrow> b \<notin> ran (owner_at s) \<union> set (freed s)"
    using h by (simp add: buffers_def)
  obtain n where n: "owner_at s' = (owner_at s)((k, i, symb, n) := if ow then Some (rx_mbuf p) else None)" "maps_ok s'"
    "freed s' = freed s @ (case owner_at s (k, i, symb, n) of None \<Rightarrow> [] | Some b \<Rightarrow> [b])"
    using enter_owner [OF ok m e] by metis
  note o = overwrite_place [OF one new, where a = "(k, i, symb, n)"]
  have "one_owner s'" unfolding one_owner_def n(1,3) by (intro conjI) (rule o(1), rule o(2), rule o(3))
  moreover have "buffers s' = buffers s \<union> (if ow then {rx_mbuf p} else {})" using o(4) unfolding buffers_def n(1,3) by simp
  ultimately show ?thesis using n(2) b by (auto simp: takes_def)
qed

lemma prb_map_of_Done: "prb_map_of c k i s = Done r \<Longrightarrow> r = rb_maps s k i"
  by (cases i) (auto simp: prb_map_of_def split: if_split_asm)

text \<open>What a step of the handler does with the buffer \<open>h\<close> whose packet it processes: with the answer
  \<open>MBUF_KEEP\<close> it has taken the buffer over, when it was to, and otherwise not.\<close>

definition accounts :: "mbuf \<Rightarrow> bool \<Rightarrow> xran_rx \<Rightarrow> xran_mbuf_mem_op_id \<Rightarrow> xran_rx \<Rightarrow> bool" where
  "accounts h ow s op s' \<longleftrightarrow> (\<forall>s0 bs. takes s0 bs s \<longrightarrow> (ow \<longrightarrow> h \<notin> buffers s) \<longrightarrow> takes s0 (bs \<union> (if ow \<and> op = MBUF_KEEP then {h} else {})) s')"

lemma accounts_idle: "same_tables s s' \<Longrightarrow> op = MBUF_FREE \<or> \<not> ow \<Longrightarrow> accounts h ow s op s'"
  by (auto simp: accounts_def same_tables_takes)

text \<open>The answer may be \<open>MBUF_FREE\<close> although the buffer was taken over, unless \<open>A\<close>.\<close>

definition answered_with :: "bool \<Rightarrow> mbuf \<Rightarrow> xran_rx \<Rightarrow> xran_mbuf_mem_op_id \<Rightarrow> xran_rx \<Rightarrow> bool" where
  "answered_with A h s op s' \<longleftrightarrow> (\<exists>op0. accounts h True s op0 s' \<and> (op = op0 \<or> \<not> A \<and> op = MBUF_FREE))"

lemma accounts_answers: "accounts h True s op s' \<Longrightarrow> answered_with A h s op s'"
  by (auto simp: answered_with_def)

lemma accounts_tables: "accounts h ow s op s' \<Longrightarrow> same_tables s0 s \<Longrightarrow> same_tables s' s'' \<Longrightarrow> accounts h ow s0 op s''"
  by (simp add: accounts_def same_tables_takes same_tables_buffers)

lemma answers_idle: "same_tables s s' \<Longrightarrow> answered_with A h s MBUF_FREE s'"
  by (simp add: accounts_answers accounts_idle)

lemma answers_tables: "answered_with A h s op s' \<Longrightarrow> same_tables s0 s \<Longrightarrow> answered_with A h s0 op s'"
  unfolding answered_with_def using accounts_tables same_tables_simps(1) by blast

text \<open>The answers of the functions of \<open>xran_rx_proc.c\<close>, by their structure.\<close>

definition settles :: "rx_sym \<Rightarrow> xran_rx \<Rightarrow> bool \<Rightarrow> rx_result \<Rightarrow> bool" where
  "settles p s ow x \<longleftrightarrow> (\<forall>r op s'. x = Done (r, op, s') \<longrightarrow> accounts (rx_mbuf p) ow s (op_of op) s'
     \<and> r = uint (iq_bytes p) \<and> symbol_total_bytes s' = symbol_total_bytes s)"

lemma total_count_drop [simp]: "symbol_total_bytes (count_drop f s) = symbol_total_bytes s"
  by (simp add: count_drop_def count_def)

lemma settles_rejected: "settles p s ow (rejected f p s)"
  by (auto simp: settles_def rejected_def op_of_def intro: accounts_idle)

lemma settles_enter:
  assumes m: "rb_maps s k i = Some m"
  shows "settles p s ow (enter_or_reject f p ow k i symb m s)"
  unfolding settles_def
proof (intro allI impI)
  fix r op s'
  assume "enter_or_reject f p ow k i symb m s = Done (r, op, s')"
  then obtain e where e: "enter p ow k i symb m s = Done e"
    "(case e of None \<Rightarrow> rejected f p s | Some s' \<Rightarrow> Done (uint (iq_bytes p), Some MBUF_KEEP, s')) = Done (r, op, s')"
    by (auto simp: enter_or_reject_def obind_Done_iff)
  have b: "symbol_total_bytes s2 = symbol_total_bytes s" if "e = Some s2" for s2
    using e(1) that by (auto simp: set_prb_map_def elim: enter_Some)
  show "accounts (rx_mbuf p) ow s (op_of op) s' \<and> r = uint (iq_bytes p) \<and> symbol_total_bytes s' = symbol_total_bytes s"
  proof (cases e)
    case None
    then show ?thesis using e(2) settles_rejected by (simp add: settles_def)
  next
    case (Some s2)
    then have "op_of op = MBUF_KEEP" "enter p ow k i symb m s = Done (Some s')" "r = uint (iq_bytes p)" "s' = s2" using e by (auto simp: op_of_def)
    then show ?thesis using enter_takes [OF _ m] b [OF Some] by (simp add: accounts_def)
  qed
qed

lemma settles_map:
  assumes "settles p s ow a" "\<And>m. rb_maps s k i = Some m \<Longrightarrow> settles p s ow (f m)"
  shows "settles p s ow (obind (prb_map_of c k i s) (\<lambda>r. case r of None \<Rightarrow> a | Some m \<Rightarrow> f m))"
  using assms by (cases "prb_map_of c k i s") (auto simp: settles_def dest!: prb_map_of_Done split: option.split)

lemma settles_obind: "(\<And>a. settles p s ow (f a)) \<Longrightarrow> settles p s ow (obind x f)"
  by (cases x) (simp_all add: settles_def)

lemma settles_if: "settles p s ow a \<Longrightarrow> settles p s ow b \<Longrightarrow> settles p s ow (if c then a else b)"
  by simp

lemma settles_Exited: "settles p s ow Exited"
  by (simp add: settles_def)

lemmas settles_rules = settles_rejected settles_enter settles_map settles_obind settles_if settles_Exited

lemma process_sym_settles:
  "xran2phy_mem_ready c \<Longrightarrow> settles p s True (xran_process_prach_sym c p s)"
  "xran2phy_mem_ready c \<Longrightarrow> settles p s True (xran_process_srs_sym c p s)"
  "xran2phy_mem_ready c \<Longrightarrow> settles p s True (xran_process_csirs_sym c p s)"
  "settles p s (idx = 0) (xran_process_rx_sym c idx p s)"
  unfolding xran_process_prach_sym_def xran_process_srs_sym_def xran_process_csirs_sym_def xran_process_rx_sym_def Let_def
  by (simp_all only: not_not if_False simp_thms) (rule settles_rules | assumption)+

lemma accounts_then: "accounts h ow s op s' \<Longrightarrow> same_tables s' s'' \<Longrightarrow> accounts h ow s op s''"
  by (rule accounts_tables [OF _ same_tables_simps(1)])

lemma bump_tables: "bump_pusch a s = Done s' \<Longrightarrow> same_tables s s'" "bump_prach a s = Done s' \<Longrightarrow> same_tables s s'"
  by (auto simp: bump_pusch_def bump_prach_def obind_Done_iff)

text \<open>A packet of one stream.  When it is alone in its symbol, its size is the one that was counted.\<close>

lemma rx_stream_accounts:
  assumes r: "rx_stream c proc err packets p n seq s = Done (op, s')" and st: "\<And>s. settles p s True (proc p s)"
    and pk: "\<And>s s'. packets s = Done s' \<Longrightarrow> same_tables s s'"
    and alone: "A \<Longrightarrow> symbol_total_bytes s = (\<lambda>_. 0)" and n: "A \<Longrightarrow> int16 (uint (iq_bytes p)) = n"
  shows "answered_with A (rx_mbuf p) s op s'"
proof -
  obtain i where i: "(let s = set_total i (symbol_total_bytes s i + n) s
     in if get_bits 15 1 seq = 1 then
          if symbol_total_bytes s i \<noteq> 0 then
            obind (proc p s) (\<lambda>(res, op, s).
            let ok = (int16 res = symbol_total_bytes s i)
            in obind (packets (if ok then s else count_drop err s)) (\<lambda>s.
               Done (if ok then op_of op else MBUF_FREE, set_total i 0 s)))
          else Done (MBUF_FREE, s)
        else Done (MBUF_FREE, s)) = Done (op, s')"
    using r by (auto simp: rx_stream_def obind_Done_iff)
  let ?s = "set_total i (symbol_total_bytes s i + n) s"
  show ?thesis
  proof (cases "get_bits 15 1 seq = 1 \<and> symbol_total_bytes ?s i \<noteq> 0")
    case False
    then have "op = MBUF_FREE \<and> s' = ?s" using i unfolding Let_def by (auto split: if_split_asm)
    then show ?thesis by (auto intro: answers_idle)
  next
    case True
    with i obtain res op1 s1 where x: "proc p ?s = Done (res, op1, s1)" by (auto simp: Let_def obind_Done_iff)
    then have a: "accounts (rx_mbuf p) True ?s (op_of op1) s1" "res = uint (iq_bytes p)" "symbol_total_bytes s1 = symbol_total_bytes ?s"
      using st [of ?s] by (auto simp: settles_def)
    define ok where "ok \<longleftrightarrow> int16 res = symbol_total_bytes s1 i"
    obtain s2 where s2: "packets (if ok then s1 else count_drop err s1) = Done s2" "op = (if ok then op_of op1 else MBUF_FREE)" "s' = set_total i 0 s2"
      using i True x unfolding Let_def ok_def by (auto simp: obind_Done_iff split: if_split_asm)
    have "same_tables s1 (if ok then s1 else count_drop err s1)" by simp
    then have "same_tables s1 s'" using same_tables_trans [OF same_tables_trans [OF _ pk [OF s2(1)]]] s2(3) by simp
    moreover have "same_tables s ?s" by simp
    ultimately have "accounts (rx_mbuf p) True s (op_of op1) s'" using accounts_tables [OF a(1)] by blast
    moreover have "A \<Longrightarrow> ok" using a(2,3) alone n by (simp add: ok_def set_total_def)
    ultimately show ?thesis using s2(2) by (auto simp: answered_with_def)
  qed
qed

text \<open>A packet with several sections: only the first one takes the buffer over.\<close>

lemma next_section_tables:
  assumes "next_section d c len x = Done (x', go)"
  shows "same_tables (lp_state x) (lp_state x')" "lp_ret x' = lp_ret x" "lp_idx x' = lp_idx x" "rx_mbuf (lp_sym x') = rx_mbuf (lp_sym x)"
proof -
  have v: "rb_maps s' = rb_maps s \<and> freed s' = freed s" if "xran_validate_numprbs c mu st num s = Done (b, s')" for mu st num b s s'
    using that by (auto simp: xran_validate_numprbs_def obind_Done_iff Let_def count_drop_def count_def split: if_split_asm)
  have b: "rb_maps s' = rb_maps s \<and> freed s' = freed s" if "bump_pusch a s = Done s'" for a s s'
    using bump_tables(1) [OF that] by (simp add: same_tables_def)
  have "holds (\<lambda>(x', go). same_tables (lp_state x) (lp_state x') \<and> lp_ret x' = lp_ret x \<and> lp_idx x' = lp_idx x
      \<and> rx_mbuf (lp_sym x') = rx_mbuf (lp_sym x)) (next_section d c len x)"
    unfolding next_section_def Let_def
    by (auto intro!: holds_obind split: option.split prod.split if_split simp: same_tables_def drop_packet_def count_drop_def count_def
      dest!: v b)
  from holdsD [OF this assms] show "lp_ret x' = lp_ret x" "lp_idx x' = lp_idx x" "rx_mbuf (lp_sym x') = rx_mbuf (lp_sym x)"
    "same_tables (lp_state x) (lp_state x')" by simp_all
qed

lemma pusch_section_cases:
  assumes "pusch_section d c x = Done (x', go)"
  obtains p where "x' = x\<lparr>lp_sym := p, lp_state := count_drop err_pusch (lp_state x)\<rparr>" "\<not> go"
  | p r op s1 x1 where "rx_mbuf p = rx_mbuf (lp_sym x)" "xran_process_rx_sym c (lp_idx x) p (lp_state x) = Done (r, op, s1)"
    "x1 = x\<lparr>lp_sym := p, lp_ret := (if lp_idx x = 0 then op_of op else lp_ret x), lp_idx := lp_idx x + 1, lp_state := s1\<rparr>"
    "op_of op = MBUF_KEEP \<and> (\<exists>n. next_section d c n x1 = Done (x', go)) \<or> (\<exists>a s. bump_pusch a s1 = Done s \<and> x' = x1\<lparr>lp_state := s\<rparr>) \<and> \<not> go"
proof -
  define known where "known \<longleftrightarrow> rx_compMeth (lp_sym x) \<noteq> XRAN_COMPMETHOD_MODULATION"
  define p where "p = (if known \<and> \<not> rx_expect_comp (lp_sym x) \<and> rx_iqWidth (lp_sym x) = 0 then (lp_sym x)\<lparr>rx_iqWidth := ru_iqWidth c\<rparr> else lp_sym x)"
  have h: "rx_mbuf p = rx_mbuf (lp_sym x)" by (simp add: p_def)
  note u = assms [unfolded pusch_section_def Let_def, folded known_def, folded p_def]
  show ?thesis
  proof (cases "known \<and> uint (section_len p) > lp_bytes x")
    case True
    with u show ?thesis by (intro that(1) [of p]) (simp_all cong: if_cong)
  next
    case False
    with u obtain r op s1 where s1: "xran_process_rx_sym c (lp_idx x) p (lp_state x) = Done (r, op, s1)"
      by (auto simp: obind_Done_iff)
    show ?thesis
      by (rule that(2) [OF h s1 refl]) (use u False s1 in \<open>auto simp: obind_Done_iff split: if_split_asm\<close>)
  qed
qed

definition pusch_inv :: "xran_rx \<Rightarrow> mbuf \<Rightarrow> rx_loop \<Rightarrow> bool" where
  "pusch_inv s h x \<longleftrightarrow> takes s (if lp_ret x = MBUF_KEEP then {h} else {}) (lp_state x) \<and> rx_mbuf (lp_sym x) = h
     \<and> (lp_idx x = 0 \<longleftrightarrow> lp_ret x = MBUF_FREE) \<and> unat (lp_idx x) + data_len (lp_mbuf x) < 65536"

lemma pusch_section_keeps:
  assumes d: "dpdk_pkt_ok d" and h: "h \<notin> buffers s" and inv: "pusch_inv s h x" and x: "pusch_section d c x = Done (x', go)"
  shows "if go then pusch_inv s h x' else takes s (if lp_ret x' = MBUF_KEEP then {h} else {}) (lp_state x')"
proof -
  have t: "takes s (if lp_ret x = MBUF_KEEP then {h} else {}) (lp_state x)" and hp: "rx_mbuf (lp_sym x) = h"
    and own: "lp_idx x = 0 \<longleftrightarrow> lp_ret x = MBUF_FREE" and bd: "unat (lp_idx x) + data_len (lp_mbuf x) < 65536"
    using inv by (simp_all add: pusch_inv_def)
  from x show ?thesis
  proof (cases rule: pusch_section_cases)
    case (1 p)
    then show ?thesis using t same_tables_takes [of "lp_state x" "lp_state x'"] by simp
  next
    case (2 p r op s1 x1)
    have a: "accounts h (lp_idx x = 0) (lp_state x) (op_of op) s1"
      using process_sym_settles(4) [of p "lp_state x" "lp_idx x" c] 2(1,2) hp by (auto simp: settles_def)
    have nh: "lp_idx x = 0 \<longrightarrow> h \<notin> buffers (lp_state x)" using t own h by (auto simp: takes_def)
    have t1: "takes s (if lp_ret x1 = MBUF_KEEP then {h} else {}) (lp_state x1)"
    proof (cases "lp_idx x = 0")
      case True
      then show ?thesis using a t own nh 2(3) unfolding accounts_def by force
    next
      case False
      then show ?thesis using a t own nh 2(3) unfolding accounts_def by (cases "lp_ret x") force+
    qed
    from 2(4) show ?thesis
    proof
      assume "(\<exists>a s. bump_pusch a s1 = Done s \<and> x' = x1\<lparr>lp_state := s\<rparr>) \<and> \<not> go"
      then obtain a s2 where "bump_pusch a s1 = Done s2" "x' = x1\<lparr>lp_state := s2\<rparr>" "\<not> go" by blast
      then show ?thesis using t1 same_tables_takes [OF bump_tables(1)] 2(3) by simp
    next
      assume "op_of op = MBUF_KEEP \<and> (\<exists>n. next_section d c n x1 = Done (x', go))"
      then obtain n where n: "op_of op = MBUF_KEEP" "next_section d c n x1 = Done (x', go)" by blast
      note nt = next_section_tables [OF n(2)]
      have t2: "takes s (if lp_ret x' = MBUF_KEEP then {h} else {}) (lp_state x')" using t1 same_tables_takes [OF nt(1)] nt(2) by simp
      have "pusch_inv s h x'" if go
      proof -
        have l: "data_len (lp_mbuf x') < data_len (lp_mbuf x)" using next_section_shrinks [OF d] n(2) that 2(3) by fastforce
        have i: "unat (lp_idx x') = unat (lp_idx x) + 1" using bd l nt(3) 2(3) by (simp add: unat_word_ariths)
        then have "lp_idx x' \<noteq> 0" by auto
        moreover have "lp_ret x' = MBUF_KEEP" using nt(2) 2(3) own n(1) by (cases "lp_ret x") auto
        ultimately show ?thesis using t2 nt(4) 2(1,3) hp l i bd by (simp add: pusch_inv_def)
      qed
      then show ?thesis using t2 by simp
    qed
  qed
qed

lemma accountsI: "(maps_ok s \<Longrightarrow> one_owner s \<Longrightarrow> (ow \<Longrightarrow> h \<notin> buffers s) \<Longrightarrow> takes s (if ow \<and> op = MBUF_KEEP then {h} else {}) s') \<Longrightarrow> accounts h ow s op s'"
  by (auto simp: accounts_def takes_def)

lemma validate_numprbs_tables:
  assumes "xran_validate_numprbs c mu st num s = Done (b, s')"
  shows "same_tables s s'" "symbol_total_bytes s' = symbol_total_bytes s"
  using assms by (auto simp: xran_validate_numprbs_def obind_Done_iff Let_def split: if_split_asm)

lemma rx_pusch_accounts:
  assumes d: "dpdk_pkt_ok d" and r: "rx_pusch d c p m seq s = Done (op, m', s')" and len: "data_len m < 65536"
  shows "accounts (rx_mbuf p) True s op s'"
proof -
  have "holds (\<lambda>(op, m', s'). accounts (rx_mbuf p) True s op s') (rx_pusch d c p m seq s)"
    unfolding rx_pusch_def
  proof (rule holds_obind, clarify)
    fix ok s1
    assume "xran_validate_numprbs c (rx_mu p) (rx_start_prbu p) (rx_num_prbu p) s = Done (ok, s1)"
    then have t1: "same_tables s s1" by (rule validate_numprbs_tables)
    let ?x = "\<lambda>i. \<lparr>lp_mbuf = m, lp_sym = p, lp_bytes = int (data_len m), lp_idx = 0, lp_ret = MBUF_FREE,
        lp_state = set_total i (symbol_total_bytes s1 i + int (data_len m)) s1\<rparr>"
    have loop: "accounts (rx_mbuf p) True s1 (lp_ret x) (lp_state x)" if x: "run_loop (pusch_section d c) (?x i) = Done x" for i x
    proof (rule accountsI)
      assume k: "maps_ok s1" "one_owner s1" "True \<Longrightarrow> rx_mbuf p \<notin> buffers s1"
      have "takes s1 {} s1" using k(1,2) by (simp add: takes_def)
      then have inv: "pusch_inv s1 (rx_mbuf p) (?x i)" using len same_tables_takes [OF same_tables_simps(5)] by (simp add: pusch_inv_def)
      have nh: "rx_mbuf p \<notin> buffers s1" using k(3) by blast
      have "takes s1 (if lp_ret x = MBUF_KEEP then {rx_mbuf p} else {}) (lp_state x)"
        by (rule run_loop_invariant [OF x, where Q = "\<lambda>x. takes s1 (if lp_ret x = MBUF_KEEP then {rx_mbuf p} else {}) (lp_state x)",
              OF inv pusch_section_keeps [OF d nh]])
      then show "takes s1 (if True \<and> lp_ret x = MBUF_KEEP then {rx_mbuf p} else {}) (lp_state x)" by simp
    qed
    have idle: "accounts (rx_mbuf p) True s MBUF_FREE (set_total i n (set_total j l s1))" "accounts (rx_mbuf p) True s MBUF_FREE (set_total j l s1)"
      "accounts (rx_mbuf p) True s MBUF_FREE s1" for i n j l
      using t1 by (auto intro!: accounts_idle simp: same_tables_def set_total_def)
    show "holds (\<lambda>(op, m', s'). accounts (rx_mbuf p) True s op s')
        (if \<not> ok then Done (MBUF_FREE, m, s1)
         else obind (total_index c (rx_CC_ID p) (rx_Ant_ID p) (ucast (get_bits 0 8 seq))) (\<lambda>i.
           let s = set_total i (symbol_total_bytes s1 i + int (data_len m)) s1
           in if get_bits 15 1 seq = 1 then
                if symbol_total_bytes s i \<noteq> 0 then
                  obind (run_loop (pusch_section d c)
                     \<lparr>lp_mbuf = m, lp_sym = p, lp_bytes = int (data_len m), lp_idx = 0, lp_ret = MBUF_FREE, lp_state = s\<rparr>) (\<lambda>x.
                  Done (lp_ret x, lp_mbuf x, set_total i 0 (lp_state x)))
                else Done (MBUF_FREE, m, set_total i 0 s)
              else Done (MBUF_FREE, m, s)))"
      unfolding Let_def
    proof (intro holds_if holds_obind)
      fix i x
      assume "run_loop (pusch_section d c) (?x i) = Done x"
      from accounts_tables [OF loop [OF this] t1 same_tables_simps(5)]
      show "holds (\<lambda>(op, m', s'). accounts (rx_mbuf p) True s op s') (Done (lp_ret x, lp_mbuf x, set_total i 0 (lp_state x)))" by simp
    qed (simp_all only: holds_simps prod.case idle)
  qed
  from holdsD [OF this r] show ?thesis by simp
qed

lemma int16_of_nat: "n < 32768 \<Longrightarrow> int16 (uint (of_nat n :: u16)) = int n"
  using int16_small [of "int n"] by (simp add: unsigned_of_nat take_bit_nat_eq_self del: of_nat_numeral)

lemma rx_dispatch_accounts:
  assumes d: "dpdk_pkt_ok d" and r: "rx_dispatch d c tti p m seq s = Done (op, m', s')" and mem: "xran2phy_mem_ready c"
    and alone: "A \<Longrightarrow> symbol_total_bytes s = (\<lambda>_. 0) \<and> data_len m < 32768" and len: "data_len m < 65536"
    and p: "iq_bytes p = of_nat (data_len m)"
  shows "answered_with A (rx_mbuf p) s op s'"
proof -
  let ?n = "int (data_len m)"
  have n: "A \<Longrightarrow> int16 (uint (of_nat (data_len m) :: u16)) = ?n" using int16_of_nat alone by blast
  have checked: "holds (\<lambda>(op, s'). answered_with A (rx_mbuf p) s op s') (if \<not> ok then Done (MBUF_FREE, s1) else rx_stream c proc err packets q ?n seq s1)"
    if v: "same_tables s s1 \<and> symbol_total_bytes s1 = symbol_total_bytes s" and st: "\<And>s. settles q s True (proc q s)"
      and pk: "\<And>s s'. packets s = Done s' \<Longrightarrow> same_tables s s'" and q: "rx_mbuf q = rx_mbuf p" "iq_bytes q = iq_bytes p"
    for ok proc err packets q s1
  proof (cases ok)
    case True
    have "answered_with A (rx_mbuf p) s op s'" if "rx_stream c proc err packets q ?n seq s1 = Done (op, s')" for op s'
      using answers_tables [OF rx_stream_accounts [OF that st pk, of A]] v q alone n p by simp
    then show ?thesis using True by (auto simp: holds_def)
  qed (use v in \<open>simp add: answers_idle\<close>)
  have prach: "same_tables s s' \<and> symbol_total_bytes s' = symbol_total_bytes s"
    if "(case xranTech c of XRAN_RAN_5GNR \<Rightarrow> xran_validate_numprbs_prach c mu st num s | XRAN_RAN_LTE \<Rightarrow> xran_validate_numprbs_prach_lte c mu st num s) = Done (b, s')"
    for mu st num b s'
    using that by (cases "xranTech c") (auto simp: xran_validate_numprbs_prach_def xran_validate_numprbs_prach_lte_def obind_Done_iff
      split: if_split_asm)
  have other: "holds (\<lambda>(op, s'). answered_with A (rx_mbuf p) s op s') (rx_csirs c p ?n seq s)"
    "holds (\<lambda>(op, s'). answered_with A (rx_mbuf p) s op s') (rx_srs c p ?n seq s)"
    "holds (\<lambda>(op, s'). answered_with A (rx_mbuf p) s op s') (rx_prach c cfg p ?n seq s)" for cfg
    unfolding rx_csirs_def rx_srs_def rx_prach_def Let_def
    by (rule holds_obind, clarify, rule checked; auto intro: process_sym_settles mem bump_tables dest: validate_numprbs_tables prach)+
  have "holds (\<lambda>(op, m', s'). answered_with A (rx_mbuf p) s op s') (rx_dispatch d c tti p m seq s)"
    unfolding rx_dispatch_def Let_def
    by (intro holds_if holds_obind) (use other accounts_answers [OF rx_pusch_accounts [OF d]] len in \<open>auto simp: holds_def split: prod.splits\<close>)
  from holdsD [OF this r] show ?thesis by simp
qed

lemma extract_iq_samples_shrinks:
  assumes d: "dpdk_pkt_ok d" and x: "xran_extract_iq_samples d conf expect st m = Done (Some (hdr, i, c, m'))"
  shows "data_len m' < data_len m"
proof -
  have poke: "data_len b = data_len a" if "poke n w a = Done b" for n w a b using poke_facts(2) [OF that] .
  have adj: "data_len b \<le> data_len a" if "rte_pktmbuf_adj d n a = Some b" for n a b
    using d that by (auto simp: dpdk_pkt_ok_def split: if_split_asm)
  have "holds (\<lambda>r. case r of None \<Rightarrow> True | Some (hdr, i, c, m') \<Rightarrow> data_len m' < data_len m) (xran_extract_iq_samples d conf expect st m)"
    unfolding xran_extract_iq_samples_def Let_def
    by (auto intro!: holds_obind split: option.split prod.split dest!: poke adj extract_section_shrinks [OF d])
  from holdsD [OF this x] show ?thesis by simp
qed

lemma process_mbuf_accounts:
  assumes d: "dpdk_pkt_ok d" and alone: "A \<Longrightarrow> symbol_total_bytes s = (\<lambda>_. 0) \<and> data_len m < 32768" and len: "data_len m < 65536"
  shows "holds (\<lambda>(op, m', s'). answered_with A h s op s') (process_mbuf d c t h m s)"
proof -
  have idle: "answered_with A h s MBUF_FREE s'" if "same_tables s s'" for s' using that by (simp add: answers_idle)
  have sec: "s1 = s" if "xran_validate_sectionId c mu s = Done (True, s1)" for mu s1
    using that by (auto simp: xran_validate_sectionId_def Let_def split: list.splits if_split_asm)
  have sec2: "same_tables s s1" if "xran_validate_sectionId c mu s = Done (False, s1)" for mu s1
    using that by (auto simp: xran_validate_sectionId_def Let_def split: list.splits if_split_asm)
  have time: "same_tables s s1 \<and> symbol_total_bytes s1 = symbol_total_bytes s" if "rx_timing c t tti p s = Done (b, s1)" for tti p b s1
    using that timing_window_state unfolding rx_timing_def
    by (fastforce simp: obind_Done_iff same_tables_def count_def split: if_split_asm)
  have seq: "same_tables s (snd (xran_validate_seq_id s))" "symbol_total_bytes (snd (xran_validate_seq_id s)) = symbol_total_bytes s" for s
    by (simp_all add: xran_validate_seq_id_def count_def same_tables_def)
  have disp: "holds (\<lambda>(op, m', s'). answered_with A h s op s') (rx_dispatch d c tti p m0 sq (snd (xran_validate_seq_id s1)))"
    if "rx_timing c t tti p s = Done (b, s1)" "xran_extract_iq_samples d conf expect st m = Done (Some (hdr, i, cm, m0))" 
      "xran2phy_mem_ready c" "iq_bytes p = of_nat (data_len m0)" "rx_mbuf p = h" for tti p b s1 conf expect st hdr i cm m0 sq
  proof -
    have "data_len m0 < 65536" "A \<Longrightarrow> data_len m0 < 32768" using extract_iq_samples_shrinks [OF d that(2)] len alone by force+
    moreover have t: "same_tables s (snd (xran_validate_seq_id s1))" using same_tables_trans seq(1) time [OF that(1)] by blast
    ultimately have "answered_with A h s op s'"
      if "rx_dispatch d c tti p m0 sq (snd (xran_validate_seq_id s1)) = Done (op, m', s')" for op m' s'
      using answers_tables [OF rx_dispatch_accounts [OF d that, of A] t] \<open>xran2phy_mem_ready c\<close> \<open>iq_bytes p = _\<close> \<open>rx_mbuf p = h\<close>
        alone seq(2) [of s1] time [OF \<open>rx_timing c t tti p s = _\<close>] by simp
    then show ?thesis by (auto simp: holds_def)
  qed
  show ?thesis
    unfolding process_mbuf_def Let_def
    by (auto intro!: holds_obind idle split: option.split prod.split dest!: sec sec2) (rule disp conjunct1 [OF time], (assumption | simp)+)+
qed

text \<open>C39: every packet buffer has one owner.  Whatever \<open>process_mbuf\<close> is called with, afterwards every buffer
  that a table owned is still in one place of one table or was freed once; none is lost, and no other than
  the one of the packet was added.  With the answer \<open>MBUF_KEEP\<close> the buffer of the packet was taken
  over.  With \<open>MBUF_FREE\<close>, where the caller frees it, it was not taken over if the packet is alone in its
  symbol (the byte counts are 0) and shorter than 32768 bytes.\<close>

theorem buffers_have_one_owner:
  assumes "dpdk_pkt_ok d" "data_len m < 65536"
    and "maps_ok s" "one_owner s" "h \<notin> buffers s" and r: "process_mbuf d c t h m s = Done (op, m', s')"
  shows "one_owner s' \<and> maps_ok s' \<and> buffers s \<subseteq> buffers s' \<and> buffers s' \<subseteq> insert h (buffers s)
    \<and> (op = MBUF_KEEP \<longrightarrow> h \<in> buffers s')
    \<and> (symbol_total_bytes s = (\<lambda>_. 0) \<and> data_len m < 32768 \<and> op = MBUF_FREE \<longrightarrow> h \<notin> buffers s')"
proof -
  let ?A = "symbol_total_bytes s = (\<lambda>_. 0) \<and> data_len m < 32768"
  have "answered_with ?A h s op s'" using holdsD [OF process_mbuf_accounts [OF assms(1) _ assms(2)] r] by simp
  then obtain op0 where op0: "accounts h True s op0 s'" "op = op0 \<or> \<not> ?A \<and> op = MBUF_FREE" by (auto simp: answered_with_def)
  have "takes s {} s" using assms(3,4) by (simp add: takes_def)
  then have "takes s ({} \<union> (if True \<and> op0 = MBUF_KEEP then {h} else {})) s'" using op0(1) assms(5) unfolding accounts_def by blast
  then show ?thesis using op0(2) assms(5) by (auto simp: takes_def)
qed

lemma demo_owner: "owner_at demo_xran_rx p = None"
proof (cases p)
  case (fields k i symb n)
  show ?thesis unfolding fields owner_at.simps by (auto simp: demo_xran_rx_def demo_prb_map_def)
qed

lemma demo_tables: "maps_ok demo_xran_rx" "one_owner demo_xran_rx" "buffers demo_xran_rx = {}" "symbol_total_bytes demo_xran_rx = (\<lambda>_. 0)"
  by (auto simp: maps_ok_def one_owner_def buffers_def demo_owner ran_def)
    (auto simp: demo_xran_rx_def demo_prb_map_def XRAN_MAX_RX_PKT_PER_SYM_def)

theorem buffers_have_one_owner_witness:
  "\<exists>m2 m3 s'. process_mbuf demo_dpdk_pkt demo_rx_cfg demo_clock 1 m2 demo_xran_rx = Done (MBUF_KEEP, m3, s')
    \<and> one_owner s' \<and> buffers s' = {1}"
proof -
  obtain m2 m3 s' where m2: "data_len m2 = 248" "process_mbuf demo_dpdk_pkt demo_rx_cfg demo_clock 1 m2 demo_xran_rx = Done (MBUF_KEEP, m3, s')"
    by (rule demo_received)
  moreover have "1 \<notin> buffers demo_xran_rx" by (simp add: demo_tables)
  ultimately have "one_owner s' \<and> buffers s' \<subseteq> {1} \<and> 1 \<in> buffers s'"
    using buffers_have_one_owner [OF demo_dpdk_pkt_ok(1) _ demo_tables(1,2) _ m2(2)] by (simp add: demo_tables)
  then show ?thesis using m2(2) by blast
qed

end
