(* ===== verification/Xran_Cplane.thy ===== *)
theory Xran_Cplane
  imports Xran_Rx
begin

text \<open>
  Packets of the control plane: the radio application header, the sections of types 0, 1 and 3, and
  their extensions, as \<open>lib/src/xran_cp_api.c\<close> puts them behind the end of a packet buffer
  (\<open>lib/api/xran_pkt_cp.h\<close>, \<open>lib/api/xran_cp_api.h\<close>).  The parameter check \<open>XRAN_STRICT_PARM_CHECK\<close> is
  on.
\<close>

section \<open>Parameters\<close>

definition XRAN_CP_SECTIONTYPE_0 :: u8 where "XRAN_CP_SECTIONTYPE_0 = 0"
definition XRAN_CP_SECTIONTYPE_1 :: u8 where "XRAN_CP_SECTIONTYPE_1 = 1"
definition XRAN_CP_SECTIONTYPE_3 :: u8 where "XRAN_CP_SECTIONTYPE_3 = 3"
definition XRAN_CP_SECTIONTYPE_MAX :: u8 where "XRAN_CP_SECTIONTYPE_MAX = 8"
definition XRAN_DIR_UL :: u8 where "XRAN_DIR_UL = 0"
definition XRAN_DIR_DL :: u8 where "XRAN_DIR_DL = 1"
definition XRAN_SLOTID_MAX :: u8 where "XRAN_SLOTID_MAX = 16"
definition XRAN_SYMBOLNUMBER_MAX :: u8 where "XRAN_SYMBOLNUMBER_MAX = 14"
definition XRAN_PAYLOAD_VER :: u8 where "XRAN_PAYLOAD_VER = 1"
definition XRAN_MAX_NUM_EXTENSIONS :: nat where "XRAN_MAX_NUM_EXTENSIONS = 10"
definition XRAN_SECTIONEXT_ALIGN :: nat where "XRAN_SECTIONEXT_ALIGN = 4"
definition XRAN_MAX_MODCOMP_ADDPARMS :: nat where "XRAN_MAX_MODCOMP_ADDPARMS = 6"
definition XRAN_MAX_NUMPORTC_EXT10 :: nat where "XRAN_MAX_NUMPORTC_EXT10 = 64"
definition XRAN_MAX_SET_BFWS :: nat where "XRAN_MAX_SET_BFWS = 64"

text \<open>A field of the structure that is a flag or a bit field is a word of at least its width.\<close>

record xran_section_desc =
  section_id :: u16
  iq_buffer_offset :: u16
  iq_buffer_len :: u16

record xran_section_info =
  sec_desc :: "xran_section_desc list"
  freqOffset :: u32
  startPrbc :: u16
  numPrbc :: u16
  sect_type :: u8
  startSymId :: u8
  numSymbol :: u8
  beamId :: u16
  sect_no :: u16
  reMask :: u16
  symInc :: u8
  rbInd :: u8
  ext_flag :: u8
  prbElemBegin :: bool
  prbElemEnd :: bool
  sect_compMeth :: u8
  sect_iqWidth :: u8

record xran_cp_header_params =
  filterIndex :: u8
  frameId :: u8
  subframeId :: u8
  slotId :: u8
  hdr_startSymId :: u8
  fftSize :: u8
  scs :: u8
  hdr_iqWidth :: u8
  hdr_compMeth :: u8
  timeOffset :: u16
  cpLength :: u16

record xran_sectionext1_info =
  bfwIQ_sz :: int

record xran_sectionext2_info =
  bfAzPtWidth :: u8
  bfAzPt :: u8
  bfZePtWidth :: u8
  bfZePt :: u8
  bfAz3ddWidth :: u8
  bfAz3dd :: u8
  bfZe3ddWidth :: u8
  bfZe3dd :: u8
  bfAzSI :: u8
  bfZeSI :: u8

record xran_sectionext3_info =
  codebookIdx :: u8
  layerId :: u8
  numLayers :: u8
  txScheme :: u8
  crsReMask :: u16
  crsShift :: u8
  crsSymNum :: u8
  numAntPort :: u16
  beamIdAP1 :: u16
  beamIdAP2 :: u16
  beamIdAP3 :: u16

record xran_sectionext4_info =
  csf :: u8
  modCompScaler :: u16

record modcomp_set =
  mc_csf :: u16
  mcScaleReMask :: u16
  mcScaleOffset :: u16

record xran_sectionext5_info =
  num_sets :: u8
  mc :: "modcomp_set list"

record xran_sectionext6_info =
  rbgSize :: u8
  symbolMask :: u16
  rbgMask :: u32

record xran_sectionext9_info =
  technology_id :: u8
  ext9_reserved :: u8

record xran_sectionext10_info =
  numPortc :: u8
  beamGrpType :: u8
  beamIDs :: "u16 list"

record xran_sectionext11_info =
  RAD :: u8
  disableBFWs :: u8
  numBundPrb :: u8
  numSetBFWs :: u8
  ext11_bfwCompMeth :: u8
  ext11_bfwIqWidth :: u8
  totalBfwIQLen :: int

text \<open>The data of an extension; its constructor is the type that stands beside the pointer.  A type without
  a case is \<open>Ext_other\<close>.\<close>

datatype xran_section_ext =
    Ext1 xran_sectionext1_info | Ext2 xran_sectionext2_info | Ext3 xran_sectionext3_info | Ext4 xran_sectionext4_info
  | Ext5 xran_sectionext5_info | Ext6 xran_sectionext6_info | Ext9 xran_sectionext9_info | Ext10 xran_sectionext10_info
  | Ext11 xran_sectionext11_info | Ext_other

record xran_section_gen_info =
  sect_info :: xran_section_info
  exData :: "xran_section_ext option list"
  exDataSize :: nat

record xran_cp_gen_params =
  cp_dir :: u8
  sectionType :: u8
  numSections :: u16
  cp_hdr :: xran_cp_header_params
  sections :: "xran_section_gen_info list"

section \<open>Bytes behind the end of a packet\<close>

definition put :: "dpdk_pkt \<Rightarrow> u8 list \<Rightarrow> rte_mbuf \<Rightarrow> rte_mbuf option outcome" where
  "put d bs m =
     (case rte_pktmbuf_append d (length bs) m of None \<Rightarrow> Done None
      | Some m' \<Rightarrow> obind (poke (data_len m) bs m') (\<lambda>m'. Done (Some m')))"

definition put_or :: "dpdk_pkt \<Rightarrow> u8 list \<Rightarrow> rte_mbuf \<Rightarrow> (int \<times> rte_mbuf) outcome" where
  "put_or d bs m =
     obind (put d bs m) (\<lambda>r. case r of None \<Rightarrow> Done (XRAN_STATUS_RESOURCE, m) | Some m' \<Rightarrow> Done (int (length bs), m'))"

section \<open>Sections\<close>

definition first_4byte :: "xran_section_info \<Rightarrow> u32" where
  "first_4byte i = or (or (or (push_bit 20 (ucast (reMask i))) (push_bit 16 (ucast (numSymbol i)))) (push_bit 15 (ucast (ext_flag i))))
     (ucast (beamId i))"

definition second_4byte :: "xran_section_info \<Rightarrow> u8 \<Rightarrow> u32" where
  "second_4byte i mu = or (or (or (or (push_bit 20 (XRAN_BASE_SECT_ID_TO_MU_SECT_ID (ucast (sect_no i)) mu)) (push_bit 19 (ucast (rbInd i))))
     (push_bit 18 (ucast (symInc i)))) (push_bit 8 (ucast (startPrbc i)))) (word_of_int (XRAN_CONVERT_NUMPRBC (uint (numPrbc i))))"

definition two_words :: "u32 \<Rightarrow> u32 \<Rightarrow> u64" where
  "two_words lo hi = or (ucast lo) (push_bit 32 (ucast hi))"

definition xran_prepare_section0 :: "dpdk_pkt \<Rightarrow> u8 \<Rightarrow> xran_section_info \<Rightarrow> int + u8 list" where
  "xran_prepare_section0 d mu i =
     (if numSymbol i > XRAN_SYMBOLNUMBER_MAX then Inl XRAN_STATUS_INVALID_PARAM
      else let hi = set_bits 0 8 (word_of_int (XRAN_CONVERT_NUMPRBC (uint (numPrbc i)))) (set_bits 8 10 (ucast (startPrbc i))
             (set_bits 18 1 (ucast (symInc i)) (set_bits 19 1 (ucast (rbInd i))
             (set_bits 20 12 (XRAN_BASE_SECT_ID_TO_MU_SECT_ID (ucast (sect_no i)) mu) 0))));
             lo = set_bits 0 16 0 (set_bits 16 4 (ucast (numSymbol i)) (set_bits 20 12 (ucast (reMask i)) 0))
      in Inr (le64 (rte_cpu_to_be_64 d (two_words lo hi))))"

definition xran_prepare_section1 :: "dpdk_pkt \<Rightarrow> u8 \<Rightarrow> xran_section_info \<Rightarrow> int + u8 list" where
  "xran_prepare_section1 d mu i =
     (if numSymbol i > XRAN_SYMBOLNUMBER_MAX then Inl XRAN_STATUS_INVALID_PARAM
      else Inr (le64 (rte_cpu_to_be_64 d (two_words (first_4byte i) (second_4byte i mu)))))"

definition xran_prepare_section3 :: "dpdk_pkt \<Rightarrow> u8 \<Rightarrow> xran_section_info \<Rightarrow> int + u8 list" where
  "xran_prepare_section3 d mu i =
     (if numSymbol i > XRAN_SYMBOLNUMBER_MAX then Inl XRAN_STATUS_INVALID_PARAM
      else Inr (le64 (rte_cpu_to_be_64 d (two_words (first_4byte i) (second_4byte i mu)))
             @ le32 (set_bits 24 8 0 (set_bits 0 24 (drop_bit 8 (rte_cpu_to_be_32 d (freqOffset i))) 0))))"

definition xran_prepare_section :: "dpdk_pkt \<Rightarrow> u8 \<Rightarrow> u8 \<Rightarrow> xran_section_info \<Rightarrow> int + u8 list" where
  "xran_prepare_section d ty mu i =
     (if ty = XRAN_CP_SECTIONTYPE_0 then xran_prepare_section0 d mu i
      else if ty = XRAN_CP_SECTIONTYPE_1 then xran_prepare_section1 d mu i
      else if ty = XRAN_CP_SECTIONTYPE_3 then xran_prepare_section3 d mu i
      else Inl XRAN_STATUS_INVALID_PARAM)"

definition section_size :: "u8 \<Rightarrow> nat" where
  "section_size ty = (if ty = XRAN_CP_SECTIONTYPE_3 then 12 else 8)"

section \<open>Headers\<close>

text \<open>The type of the section follows the number of sections; the word in front of them is converted.\<close>

definition cmn_hdr_word :: "xran_cp_gen_params \<Rightarrow> u32" where
  "cmn_hdr_word p = (let h = cp_hdr p in
     or (or (or (or (or (or (push_bit 31 (ucast (cp_dir p))) (push_bit 28 (ucast XRAN_PAYLOAD_VER))) (push_bit 24 (ucast (filterIndex h))))
       (push_bit 16 (ucast (frameId h)))) (push_bit 12 (ucast (subframeId h)))) (push_bit 6 (xran_slotid_convert (ucast (slotId h)) 0)))
       (ucast (hdr_startSymId h)))"

definition xran_prepare_radioapp_common_header :: "dpdk_pkt \<Rightarrow> xran_cp_gen_params \<Rightarrow> int + u8 list" where
  "xran_prepare_radioapp_common_header d p =
     (if cp_dir p \<noteq> XRAN_DIR_DL \<and> cp_dir p \<noteq> XRAN_DIR_UL then Inl XRAN_STATUS_INVALID_PARAM
      else if slotId (cp_hdr p) > XRAN_SLOTID_MAX then Inl XRAN_STATUS_INVALID_PARAM
      else if hdr_startSymId (cp_hdr p) > XRAN_SYMBOLNUMBER_MAX then Inl XRAN_STATUS_INVALID_PARAM
      else Inr (le32 (rte_cpu_to_be_32 d (cmn_hdr_word p)) @ [ucast (numSections p), sectionType p]))"

definition nibbles :: "u8 \<Rightarrow> u8 \<Rightarrow> u8" where
  "nibbles lo hi = set_bits 4 4 hi (set_bits 0 4 lo 0)"

definition xran_prepare_section0_hdr :: "dpdk_pkt \<Rightarrow> xran_cp_header_params \<Rightarrow> u8 list" where
  "xran_prepare_section0_hdr d h =
     le16 (rte_cpu_to_be_16 d (timeOffset h)) @ [nibbles (scs h) (fftSize h)] @ le16 (rte_cpu_to_be_16 d (cpLength h)) @ [0]"

definition xran_prepare_section1_hdr :: "xran_cp_header_params \<Rightarrow> u8 list" where
  "xran_prepare_section1_hdr h = [nibbles (hdr_compMeth h) (hdr_iqWidth h), 0]"

definition xran_prepare_section3_hdr :: "dpdk_pkt \<Rightarrow> xran_cp_header_params \<Rightarrow> u8 list" where
  "xran_prepare_section3_hdr d h =
     le16 (rte_cpu_to_be_16 d (timeOffset h)) @ [nibbles (scs h) (fftSize h)] @ le16 (rte_cpu_to_be_16 d (cpLength h))
       @ [nibbles (hdr_compMeth h) (hdr_iqWidth h)]"

definition section_hdr_of :: "dpdk_pkt \<Rightarrow> xran_cp_gen_params \<Rightarrow> u8 list option" where
  "section_hdr_of d p =
     (if sectionType p = XRAN_CP_SECTIONTYPE_0 then Some (xran_prepare_section0_hdr d (cp_hdr p))
      else if sectionType p = XRAN_CP_SECTIONTYPE_1 then Some (xran_prepare_section1_hdr (cp_hdr p))
      else if sectionType p = XRAN_CP_SECTIONTYPE_3 then Some (xran_prepare_section3_hdr d (cp_hdr p))
      else None)"

text \<open>The room is taken before the parameters are checked.\<close>

definition xran_append_radioapp_header :: "dpdk_pkt \<Rightarrow> xran_cp_gen_params \<Rightarrow> rte_mbuf \<Rightarrow> (int \<times> rte_mbuf) outcome" where
  "xran_append_radioapp_header d p m =
     (if sectionType p \<ge> XRAN_CP_SECTIONTYPE_MAX then Done (XRAN_STATUS_INVALID_PARAM, m)
      else case section_hdr_of d p of None \<Rightarrow> Done (XRAN_STATUS_INVALID_PARAM, m)
      | Some sh \<Rightarrow>
          let n = 6 + length sh
          in case rte_pktmbuf_append d n m of None \<Rightarrow> Done (XRAN_STATUS_RESOURCE, m)
             | Some m' \<Rightarrow>
                 case xran_prepare_radioapp_common_header d p of Inl e \<Rightarrow> Done (e, m')
                 | Inr bs \<Rightarrow> obind (poke (data_len m) (bs @ sh) m') (\<lambda>m'. Done (int n, m')))"

section \<open>Section extensions\<close>

text \<open>The first word of an extension: its type, whether another one follows, and its length in words of
  four bytes.\<close>

definition ext_word :: "u32 \<Rightarrow> u32 \<Rightarrow> nat \<Rightarrow> u32 \<Rightarrow> u32" where
  "ext_word ty ef len x = set_bits 31 1 ef (set_bits 24 7 ty (set_bits 16 8 (of_nat len) x))"

definition padding :: "nat \<Rightarrow> nat" where
  "padding n = (let p = n mod XRAN_SECTIONEXT_ALIGN in if p = 0 then 0 else XRAN_SECTIONEXT_ALIGN - p)"

text \<open>The weights of the extensions 1 and 11 are in the buffer already.  The length that \<open>append\<close> takes has
  16 bits.\<close>

definition xran_append_sectionext_1 :: "dpdk_pkt \<Rightarrow> xran_sectionext1_info \<Rightarrow> rte_mbuf \<Rightarrow> (int \<times> rte_mbuf) outcome" where
  "xran_append_sectionext_1 d e m =
     (if bfwIQ_sz e = 0 then Done (0, m)
      else case rte_pktmbuf_append d (unat (word_of_int (bfwIQ_sz e) :: u16)) m of None \<Rightarrow> Done (XRAN_STATUS_RESOURCE, m)
      | Some m' \<Rightarrow> Done (bfwIQ_sz e, m'))"

definition bitmask :: "u8 list" where "bitmask = [0x00, 0x03, 0x07, 0x0f, 0x1f, 0x3f, 0x7f, 0xff]"

text \<open>The attributes one behind the other, and the number of bits that are left of 32.\<close>

fun ext2_val :: "(u8 \<times> u8) list \<Rightarrow> u32 \<Rightarrow> nat \<Rightarrow> (u32 \<times> nat) outcome" where
  "ext2_val [] val shift = Done (val, shift)"
| "ext2_val ((w, v) # xs) val shift =
     (if w = 0 then ext2_val xs val (shift + 8)
      else obind (at bitmask (unat w)) (\<lambda>k.
           ext2_val xs (push_bit (unat w + 1) val + ucast (and v k)) (shift + 8 - (unat w + 1))))"

definition ext2_attributes :: "xran_sectionext2_info \<Rightarrow> (u8 \<times> u8) list" where
  "ext2_attributes e = [(bfAzPtWidth e, bfAzPt e), (bfZePtWidth e, bfZePt e), (bfAz3ddWidth e, bfAz3dd e), (bfZe3ddWidth e, bfZe3dd e)]"

definition ext2_widths :: "xran_sectionext2_info \<Rightarrow> u32 \<Rightarrow> u32" where
  "ext2_widths e x = set_bits 0 3 (ucast (bfZe3ddWidth e)) (set_bits 3 3 (ucast (bfAz3ddWidth e)) (set_bits 6 2 0
     (set_bits 8 3 (ucast (bfZePtWidth e)) (set_bits 11 3 (ucast (bfAzPtWidth e)) (set_bits 14 2 0 x)))))"

text \<open>The length and the byte order of the first word are set after the second part was appended.\<close>

definition ext2_second :: "dpdk_pkt \<Rightarrow> xran_sectionext2_info \<Rightarrow> u32 \<Rightarrow> nat \<Rightarrow> u32 \<Rightarrow> u32 \<times> nat \<Rightarrow> rte_mbuf \<Rightarrow> (int \<times> rte_mbuf) outcome" where
  "ext2_second d e ef beg w vs m =
     (let val = (if fst vs = 0 then 0 else rte_cpu_to_be_32 d (push_bit (snd vs) (fst vs)));
          val_size = 4 - snd vs div 8;
          pad = padding (4 + (val_size + 1));
          parm_size = val_size + 1 + pad
      in case rte_pktmbuf_append d parm_size m of None \<Rightarrow> Done (XRAN_STATUS_RESOURCE, m)
         | Some m \<Rightarrow>
             obind (poke (beg + 4) (take val_size (le32 val) @ [push_bit 3 (bfAzSI e) + bfZeSI e] @ replicate pad 0) m) (\<lambda>m.
             obind (poke beg (le32 (rte_cpu_to_be_32 d (ext_word 2 ef ((4 + parm_size) div XRAN_SECTIONEXT_ALIGN) w))) m) (\<lambda>m.
             Done (int (4 + parm_size), m))))"

definition xran_prepare_sectionext_2 :: "dpdk_pkt \<Rightarrow> xran_sectionext2_info \<Rightarrow> u32 \<Rightarrow> rte_mbuf \<Rightarrow> (int \<times> rte_mbuf) outcome" where
  "xran_prepare_sectionext_2 d e ef m =
     (let beg = data_len m
      in case rte_pktmbuf_append d 4 m of None \<Rightarrow> Done (XRAN_STATUS_RESOURCE, m)
         | Some m \<Rightarrow>
             obind (peek m beg 4) (\<lambda>b.
             let len = unat (get_bits 16 8 (of_le32 b)); w = ext2_widths e (of_le32 b)
             in obind (poke beg (le32 (ext_word 2 ef len w)) m) (\<lambda>m.
                obind (ext2_val (ext2_attributes e) 0 0) (\<lambda>vs. ext2_second d e ef beg w vs m))))"

definition XRAN_LAYERID_0 :: u8 where "XRAN_LAYERID_0 = 0"
definition XRAN_LAYERID_TXD :: u8 where "XRAN_LAYERID_TXD = 0xf"

definition ext3_word :: "xran_sectionext3_info \<Rightarrow> u32 \<Rightarrow> u32 \<Rightarrow> u32" where
  "ext3_word e ef len =
     or (or (or (or (or (push_bit 31 ef) (push_bit 24 3)) (push_bit 16 len)) (push_bit 8 (ucast (codebookIdx e))))
       (push_bit 4 (ucast (layerId e)))) (ucast (numLayers e))"

definition ext3_crs :: "xran_sectionext3_info \<Rightarrow> u32" where
  "ext3_crs e = or (or (or (push_bit 28 (ucast (txScheme e))) (push_bit 16 (ucast (crsReMask e)))) (push_bit 15 (ucast (crsShift e))))
     (push_bit 8 (ucast (crsSymNum e)))"

text \<open>With two ports the last four of the sixteen bytes are taken back.\<close>

definition xran_prepare_sectionext_3 :: "dpdk_pkt \<Rightarrow> xran_sectionext3_info \<Rightarrow> u32 \<Rightarrow> rte_mbuf \<Rightarrow> (int \<times> rte_mbuf) outcome" where
  "xran_prepare_sectionext_3 d e ef m =
     (if layerId e = XRAN_LAYERID_0 \<or> layerId e = XRAN_LAYERID_TXD then
        let two = numAntPort e = 2;
            third = (if two then 0 else or (push_bit 16 (ucast (beamIdAP2 e))) (ucast (beamIdAP3 e)));
            bs = le64 (rte_cpu_to_be_64 d (two_words (ext3_crs e) (ext3_word e ef (if two then 3 else 4))))
              @ le64 (rte_cpu_to_be_64 d (two_words third (ucast (beamIdAP1 e))))
        in obind (put_or d bs m) (\<lambda>(r, m).
           if r < 0 then Done (r, m)
           else if two then Done (r - 4, case rte_pktmbuf_trim d 4 m of None \<Rightarrow> m | Some m \<Rightarrow> m) else Done (r, m))
      else put_or d (le32 (rte_cpu_to_be_32 d (ext3_word e ef 1))) m)"

definition xran_prepare_sectionext_4 :: "dpdk_pkt \<Rightarrow> xran_sectionext4_info \<Rightarrow> u32 \<Rightarrow> rte_mbuf \<Rightarrow> (int \<times> rte_mbuf) outcome" where
  "xran_prepare_sectionext_4 d e ef m =
     put_or d (le32 (rte_cpu_to_be_32 d (ext_word 4 ef 1
       (set_bits 15 1 (if csf e = 0 then 0 else 1) (set_bits 0 15 (ucast (modCompScaler e)) 0))))) m"

definition xran_prepare_sectionext_9 :: "dpdk_pkt \<Rightarrow> xran_sectionext9_info \<Rightarrow> u32 \<Rightarrow> rte_mbuf \<Rightarrow> (int \<times> rte_mbuf) outcome" where
  "xran_prepare_sectionext_9 d e ef m =
     put_or d (le32 (rte_cpu_to_be_32 d (of_le32
       [ext9_reserved e, technology_id e, 1, set_bits 7 1 (ucast ef) (set_bits 0 7 9 0)]))) m"

text \<open>Two sets of the extension 5 make up seven bytes and a reserved one; what is appended is reckoned with
  seven.\<close>

definition ext5_first :: "modcomp_set \<Rightarrow> u64" where
  "ext5_first a = set_bits 24 12 0 (set_bits 52 12 (ucast (mcScaleReMask a)) (set_bits 51 1 (ucast (mc_csf a))
     (set_bits 36 15 (ucast (mcScaleOffset a)) 0)))"

definition ext5_second :: "modcomp_set \<Rightarrow> u64 \<Rightarrow> u64" where
  "ext5_second b x = set_bits 0 8 0 (set_bits 24 12 (ucast (mcScaleReMask b)) (set_bits 23 1 (ucast (mc_csf b))
     (set_bits 8 15 (ucast (mcScaleOffset b)) x)))"

fun ext5_sets :: "dpdk_pkt \<Rightarrow> modcomp_set list \<Rightarrow> u8 list" where
  "ext5_sets d [] = []"
| "ext5_sets d [a] = take 4 (le64 (rte_cpu_to_be_64 d (ext5_first a)))"
| "ext5_sets d (a # b # xs) = le64 (rte_cpu_to_be_64 d (ext5_second b (ext5_first a))) @ ext5_sets d xs"

definition xran_prepare_sectionext_5 :: "dpdk_pkt \<Rightarrow> xran_sectionext5_info \<Rightarrow> u32 \<Rightarrow> rte_mbuf \<Rightarrow> (int \<times> rte_mbuf) outcome" where
  "xran_prepare_sectionext_5 d e ef m =
     (let n = unat (num_sets e)
      in if n > XRAN_MAX_MODCOMP_ADDPARMS then Done (0, m)
         else let len = 2 + 8 * n div 2 - n div 2;
                  pad = padding len;
                  h = set_bits 15 1 (ucast ef) (set_bits 8 7 5 (set_bits 0 8 (of_nat ((len + pad) div XRAN_SECTIONEXT_ALIGN)) 0)) :: u16
              in case rte_pktmbuf_append d (len + pad) m of None \<Rightarrow> Done (XRAN_STATUS_RESOURCE, m)
                 | Some m' \<Rightarrow>
                     obind (poke (data_len m) (le16 (rte_cpu_to_be_16 d h) @ ext5_sets d (take n (mc e)) @ replicate pad 0) m') (\<lambda>m'.
                     Done (int (len + pad), m')))"

definition ext6_word :: "xran_sectionext6_info \<Rightarrow> u32 \<Rightarrow> u64" where
  "ext6_word e ef = set_bits 48 8 2 (set_bits 0 14 (ucast (symbolMask e)) (set_bits 16 28 (ucast (rbgMask e))
     (set_bits 44 3 (ucast (rbgSize e)) (set_bits 63 1 (ucast ef) (set_bits 56 7 6 0)))))"

definition xran_prepare_sectionext_6 :: "dpdk_pkt \<Rightarrow> xran_sectionext6_info \<Rightarrow> u32 \<Rightarrow> rte_mbuf \<Rightarrow> (int \<times> rte_mbuf) outcome" where
  "xran_prepare_sectionext_6 d e ef m = put_or d (le64 (rte_cpu_to_be_64 d (ext6_word e ef))) m"

definition XRAN_BEAMGT_COMMON :: u8 where "XRAN_BEAMGT_COMMON = 0"
definition XRAN_BEAMGT_MATRIXIND :: u8 where "XRAN_BEAMGT_MATRIXIND = 1"
definition XRAN_BEAMGT_VECTORLIST :: u8 where "XRAN_BEAMGT_VECTORLIST = 2"

definition ext10_word :: "xran_sectionext10_info \<Rightarrow> u32 \<Rightarrow> nat \<Rightarrow> u32" where
  "ext10_word e ef len = or (or (or (or 10 (push_bit 7 ef)) (push_bit 8 (of_nat len))) (push_bit 16 (ucast (numPortc e))))
     (push_bit 22 (ucast (beamGrpType e)))"

text \<open>The beam IDs start in the last of the four bytes, which the first word overwrites at the end.  Without
  a list of beams the size of that word is added twice.\<close>

definition xran_prepare_sectionext_10 :: "dpdk_pkt \<Rightarrow> xran_sectionext10_info \<Rightarrow> u32 \<Rightarrow> rte_mbuf \<Rightarrow> (int \<times> rte_mbuf) outcome" where
  "xran_prepare_sectionext_10 d e ef m =
     (if beamGrpType e \<noteq> XRAN_BEAMGT_COMMON \<and> beamGrpType e \<noteq> XRAN_BEAMGT_MATRIXIND \<and> beamGrpType e \<noteq> XRAN_BEAMGT_VECTORLIST
      then Done (XRAN_STATUS_INVALID_PARAM, m)
      else if unat (numPortc e) > XRAN_MAX_NUMPORTC_EXT10 then Done (XRAN_STATUS_INVALID_PARAM, m)
      else let beg = data_len m; n = unat (numPortc e)
           in case rte_pktmbuf_append d 4 m of None \<Rightarrow> Done (XRAN_STATUS_RESOURCE, m)
              | Some m \<Rightarrow>
                  obind (peek m beg 4) (\<lambda>b.
                  obind (poke beg [set_bits 7 1 (ucast ef) (set_bits 0 7 10 0), b ! 1, set_bits 6 2 (beamGrpType e) (set_bits 0 6 (numPortc e) 0), 0] m) (\<lambda>m.
                  if beamGrpType e = XRAN_BEAMGT_VECTORLIST then
                    let pad = padding (3 + 2 * n); len = 3 + 2 * n + pad
                    in case rte_pktmbuf_append d (len - 4) m of None \<Rightarrow> Done (XRAN_STATUS_RESOURCE, m)
                       | Some m \<Rightarrow>
                           obind (poke (beg + 3) (concat (map (\<lambda>i. le16 (rte_cpu_to_be_16 d i)) (take n (beamIDs e))) @ replicate pad 0) m) (\<lambda>m.
                           obind (poke beg (le32 (ext10_word e ef (len div XRAN_SECTIONEXT_ALIGN))) m) (\<lambda>m.
                           Done (int len, m)))
                  else obind (poke beg (le32 (ext10_word e ef (8 div XRAN_SECTIONEXT_ALIGN))) m) (\<lambda>m. Done (8, m)))))"

definition XRAN_CONVERT_BFWIQWIDTH :: "u8 \<Rightarrow> u8" where "XRAN_CONVERT_BFWIQWIDTH x = (if x > 15 then 0 else x)"

definition xran_prepare_sectionext_11 :: "dpdk_pkt \<Rightarrow> xran_sectionext11_info \<Rightarrow> u32 \<Rightarrow> rte_mbuf \<Rightarrow> (int \<times> rte_mbuf) outcome" where
  "xran_prepare_sectionext_11 d e ef m =
     (if numSetBFWs e = 0 \<or> unat (numSetBFWs e) > XRAN_MAX_SET_BFWS then Done (XRAN_STATUS_INVALID_PARAM, m)
      else let len = 6 + totalBfwIQLen e
           in case rte_pktmbuf_append d (unat (word_of_int len :: u16)) m of None \<Rightarrow> Done (XRAN_STATUS_RESOURCE, m)
              | Some m' \<Rightarrow>
                  let w1 = or (or (or (or (push_bit 31 ef) (push_bit 24 11)) (push_bit 8 (word_of_int (len sdiv int XRAN_SECTIONEXT_ALIGN))))
                        (push_bit 7 (ucast (disableBFWs e)))) (push_bit 6 (ucast (RAD e)));
                      w2 = or (or (push_bit 12 (ucast (XRAN_CONVERT_BFWIQWIDTH (ext11_bfwIqWidth e)))) (push_bit 8 (ucast (ext11_bfwCompMeth e))))
                        (ucast (numBundPrb e)) :: u16
                  in obind (poke (data_len m) (le32 (rte_cpu_to_be_32 d w1) @ le16 w2) m') (\<lambda>m'. Done (len, m')))"

definition prepare_ext :: "dpdk_pkt \<Rightarrow> xran_section_ext \<Rightarrow> u32 \<Rightarrow> rte_mbuf \<Rightarrow> (int \<times> rte_mbuf) outcome" where
  "prepare_ext d e ef m =
     (case e of Ext1 x \<Rightarrow> xran_append_sectionext_1 d x m | Ext2 x \<Rightarrow> xran_prepare_sectionext_2 d x ef m
      | Ext3 x \<Rightarrow> xran_prepare_sectionext_3 d x ef m | Ext4 x \<Rightarrow> xran_prepare_sectionext_4 d x ef m
      | Ext5 x \<Rightarrow> xran_prepare_sectionext_5 d x ef m | Ext6 x \<Rightarrow> xran_prepare_sectionext_6 d x ef m
      | Ext9 x \<Rightarrow> xran_prepare_sectionext_9 d x ef m | Ext10 x \<Rightarrow> xran_prepare_sectionext_10 d x ef m
      | Ext11 x \<Rightarrow> xran_prepare_sectionext_11 d x ef m | Ext_other \<Rightarrow> Done (0, m))"

text \<open>The extensions from the one with the index \<open>i\<close> on; data that are missing are skipped, no room ends
  the loop without an error, and another error is added to the size.\<close>

fun append_exts :: "dpdk_pkt \<Rightarrow> nat \<Rightarrow> nat \<Rightarrow> xran_section_ext option list \<Rightarrow> int \<Rightarrow> rte_mbuf \<Rightarrow> (int \<times> rte_mbuf) outcome" where
  "append_exts d n i [] len m = Done (len, m)"
| "append_exts d n i (None # es) len m = append_exts d n (Suc i) es len m"
| "append_exts d n i (Some e # es) len m =
     obind (prepare_ext d e (if n = i + 1 then 0 else 1) m) (\<lambda>(r, m).
     if r = XRAN_STATUS_RESOURCE then Done (len, m) else append_exts d n (Suc i) es (len + r) m)"

definition xran_append_section_extensions :: "dpdk_pkt \<Rightarrow> xran_section_gen_info \<Rightarrow> rte_mbuf \<Rightarrow> (int \<times> rte_mbuf) outcome" where
  "xran_append_section_extensions d g m =
     (if exDataSize g > XRAN_MAX_NUM_EXTENSIONS then Done (XRAN_STATUS_INVALID_PARAM, m)
      else append_exts d (exDataSize g) 0 (take (exDataSize g) (exData g)) 0 m)"

section \<open>Packets\<close>

text \<open>\<open>n\<close> sections from the one with the index \<open>i\<close> on.\<close>

fun append_sections ::
    "dpdk_pkt \<Rightarrow> u8 \<Rightarrow> u8 \<Rightarrow> xran_section_gen_info list \<Rightarrow> nat \<Rightarrow> nat \<Rightarrow> int \<Rightarrow> rte_mbuf \<Rightarrow> (int \<times> rte_mbuf) outcome" where
  "append_sections d ty mu gs 0 i len m = Done (len, m)"
| "append_sections d ty mu gs (Suc n) i len m =
     (case rte_pktmbuf_append d (section_size ty) m of None \<Rightarrow> Done (XRAN_STATUS_RESOURCE, m)
      | Some m' \<Rightarrow>
          obind (at gs i) (\<lambda>g.
          case xran_prepare_section d ty mu (sect_info g) of Inl r \<Rightarrow> Done (r, m')
          | Inr bs \<Rightarrow>
              obind (poke (data_len m) bs m') (\<lambda>m'.
              if ext_flag (sect_info g) = 0 then append_sections d ty mu gs n (Suc i) (len + int (section_size ty)) m'
              else obind (xran_append_section_extensions d g m') (\<lambda>(r, m').
                   if r < 0 then Done (r, m')
                   else append_sections d ty mu gs n (Suc i) (len + int (section_size ty) + r) m'))))"

definition xran_append_control_section ::
    "dpdk_pkt \<Rightarrow> xran_cp_gen_params \<Rightarrow> u16 \<Rightarrow> u8 \<Rightarrow> rte_mbuf \<Rightarrow> (int \<times> rte_mbuf) outcome" where
  "xran_append_control_section d p start mu m =
     (if sectionType p = XRAN_CP_SECTIONTYPE_0 \<or> sectionType p = XRAN_CP_SECTIONTYPE_1 \<or> sectionType p = XRAN_CP_SECTIONTYPE_3
      then append_sections d (sectionType p) mu (sections p) (unat (numSections p)) (unat start) 0 m
      else Done (XRAN_STATUS_INVALID_PARAM, m))"

text \<open>The result of the transport header is not checked; without room for it the place of the length is not
  known.\<close>

definition xran_prepare_ctrl_pkt ::
    "dpdk_pkt \<Rightarrow> xran_eaxcid_config option \<Rightarrow> xran_cp_gen_params \<Rightarrow> u8 \<Rightarrow> u8 \<Rightarrow> u8 \<Rightarrow> u16 \<Rightarrow> u8 \<Rightarrow> rte_mbuf \<Rightarrow> (int \<times> rte_mbuf) outcome" where
  "xran_prepare_ctrl_pkt d conf p cc ant seq start mu m =
     obind (xran_build_ecpri_hdr d conf cc ant seq m) (\<lambda>(e, beg, m).
     obind (xran_append_radioapp_header d p m) (\<lambda>(r, m).
     if r < 0 then Done (r, m)
     else obind (xran_append_control_section d p start mu m) (\<lambda>(s, m).
          if s < 0 then Done (s, m)
          else if e < 0 then Undefined
          else obind (poke (beg + 2) (le16 (rte_cpu_to_be_16 d (word_of_int (e + r + s)))) m) (\<lambda>m.
               Done (XRAN_STATUS_SUCCESS, m)))))"

end
