(* ===== verification/Xran_Cp_Wire.thy ===== *)
theory Xran_Cp_Wire
  imports Xran_Cplane Xran_Roundtrip
begin

text \<open>
  What a control-plane packet looks like on the wire, field by field from the most significant bit, and
  that the functions of \<open>Xran_Cplane\<close> put exactly these bytes behind the data of a packet.
\<close>

section \<open>The layout\<close>

fun bit_fields :: "(nat \<times> 'a::len word) list \<Rightarrow> 'a word" where
  "bit_fields [] = 0"
| "bit_fields ((w, v) # fs) = or (push_bit (sum_list (map fst fs)) (take_bit w v)) (bit_fields fs)"

definition be16 :: "u16 \<Rightarrow> u8 list" where "be16 x = rev (le16 x)"
definition be32 :: "u32 \<Rightarrow> u8 list" where "be32 x = rev (le32 x)"

definition mu_sect_id :: "u16 \<Rightarrow> u8 \<Rightarrow> nat" where "mu_sect_id i mu = unat i + XRAN_MAX_SECTIONS_PER_SLOT * unat mu"

definition place_word :: "u8 \<Rightarrow> xran_section_info \<Rightarrow> u32" where
  "place_word mu i = bit_fields [(12, of_nat (mu_sect_id (sect_no i) mu)), (1, ucast (rbInd i)), (1, ucast (symInc i)), (10, ucast (startPrbc i)),
     (8, if numPrbc i > 255 then 0 else ucast (numPrbc i))]"

definition beam_word :: "xran_section_info \<Rightarrow> u32" where
  "beam_word i = bit_fields [(12, ucast (reMask i)), (4, ucast (numSymbol i)), (1, ucast (ext_flag i)), (15, ucast (beamId i))]"

definition section_wire :: "u8 \<Rightarrow> u8 \<Rightarrow> xran_section_info \<Rightarrow> u8 list" where
  "section_wire ty mu i = be32 (place_word mu i)
     @ be32 (if ty = XRAN_CP_SECTIONTYPE_0 then bit_fields [(12, ucast (reMask i)), (4, ucast (numSymbol i)), (16, 0)] else beam_word i)
     @ (if ty = XRAN_CP_SECTIONTYPE_3 then take 3 (drop 1 (be32 (freqOffset i))) @ [0] else [])"

definition section_ok :: "u8 \<Rightarrow> xran_section_info \<Rightarrow> bool" where
  "section_ok mu i \<longleftrightarrow> mu_sect_id (sect_no i) mu < 4096 \<and> unat (rbInd i) < 2 \<and> unat (symInc i) < 2 \<and> unat (startPrbc i) < 1024
     \<and> unat (reMask i) < 4096 \<and> unat (numSymbol i) \<le> 14 \<and> unat (ext_flag i) < 2 \<and> unat (beamId i) < 32768"

definition hdr_ok :: "xran_cp_gen_params \<Rightarrow> bool" where
  "hdr_ok p \<longleftrightarrow> (let h = cp_hdr p in unat (cp_dir p) < 2 \<and> unat (filterIndex h) < 16 \<and> unat (subframeId h) < 16 \<and> unat (slotId h) \<le> 16
     \<and> unat (hdr_startSymId h) \<le> 14 \<and> unat (numSections p) < 256)"

definition app_wire :: "xran_cp_gen_params \<Rightarrow> u8 list" where
  "app_wire p = (let h = cp_hdr p in
     be32 (bit_fields [(1, ucast (cp_dir p)), (3, 1), (4, ucast (filterIndex h)), (8, ucast (frameId h)), (4, ucast (subframeId h)),
       (6, ucast (slotId h)), (6, ucast (hdr_startSymId h))]) @ [ucast (numSections p), sectionType p])"

definition frame_structure :: "xran_cp_header_params \<Rightarrow> u8" where
  "frame_structure h = bit_fields [(4, fftSize h), (4, scs h)]"

definition ud_compr :: "xran_cp_header_params \<Rightarrow> u8" where
  "ud_compr h = bit_fields [(4, hdr_iqWidth h), (4, hdr_compMeth h)]"

definition section_hdr_wire :: "u8 \<Rightarrow> xran_cp_header_params \<Rightarrow> u8 list" where
  "section_hdr_wire ty h = (if ty = XRAN_CP_SECTIONTYPE_1 then [ud_compr h, 0]
     else be16 (timeOffset h) @ [frame_structure h] @ be16 (cpLength h) @ [if ty = XRAN_CP_SECTIONTYPE_3 then ud_compr h else 0])"

section \<open>Bytes that were appended\<close>

definition room :: "rte_mbuf \<Rightarrow> nat \<Rightarrow> bool" where
  "room m n \<longleftrightarrow> data_off m + data_len m + n \<le> length (buf_addr m)"

definition up_to_end :: "rte_mbuf \<Rightarrow> u8 list" where
  "up_to_end m = take (data_off m + data_len m) (buf_addr m)"

text \<open>The bytes \<open>bs\<close> stand behind the data of before, which did not change.\<close>

definition grown :: "rte_mbuf \<Rightarrow> u8 list \<Rightarrow> rte_mbuf \<Rightarrow> bool" where
  "grown m bs m' \<longleftrightarrow> data_off m' = data_off m \<and> data_len m' = data_len m + length bs \<and> length (buf_addr m') = length (buf_addr m)
     \<and> room m (length bs) \<and> up_to_end m' = up_to_end m @ bs"

definition writes :: "(rte_mbuf \<Rightarrow> (int \<times> rte_mbuf) outcome) \<Rightarrow> rte_mbuf \<Rightarrow> u8 list \<Rightarrow> bool" where
  "writes f m bs \<longleftrightarrow> (\<exists>m'. f m = Done (int (length bs), m') \<and> grown m bs m')"

lemma grown_trans: "grown a xs b \<Longrightarrow> grown b ys c \<Longrightarrow> grown a (xs @ ys) c"
  by (auto simp: grown_def room_def)

lemma grown_room: "grown a xs b \<Longrightarrow> room b n \<longleftrightarrow> room a (length xs + n)"
  by (auto simp: grown_def room_def)

lemma grown_len: "grown a xs b \<Longrightarrow> data_len b = data_len a + length xs"
  by (simp add: grown_def)

lemma append_room:
  "dpdk_pkt_ok d \<Longrightarrow> rte_pktmbuf_append d n m = (if room m n then Some (m\<lparr>data_len := data_len m + n\<rparr>) else None)"
  by (simp add: dpdk_pkt_ok_def room_def)

lemma grown_append:
  assumes "room m n"
  obtains bs where "length bs = n" "grown m bs (m\<lparr>data_len := data_len m + n\<rparr>)"
proof
  show "length (take n (drop (data_off m + data_len m) (buf_addr m))) = n" using assms by (simp add: room_def)
  show "grown m (take n (drop (data_off m + data_len m) (buf_addr m))) (m\<lparr>data_len := data_len m + n\<rparr>)"
    using assms by (simp add: grown_def room_def up_to_end_def take_add flip: add.assoc)
qed

lemma up_to_end_overwrite:
  assumes "grown m xs m1" "j + length ys \<le> length xs"
  shows "take (data_off m + (data_len m + length xs)) (overwrite (data_off m + (data_len m + j)) ys (buf_addr m1))
    = up_to_end m @ overwrite j ys xs"
proof -
  let ?n = "data_off m + data_len m"
  have n: "length (up_to_end m) = ?n" "take (?n + length xs) (buf_addr m1) = up_to_end m @ xs" "?n + length xs \<le> length (buf_addr m1)"
    using assms(1) by (auto simp: grown_def up_to_end_def room_def add.assoc)
  then have b: "buf_addr m1 = (up_to_end m @ xs) @ drop (?n + length xs) (buf_addr m1)" by (metis append_take_drop_id)
  have "take (?n + length xs) (overwrite (?n + j) ys (buf_addr m1)) = up_to_end m @ overwrite j ys xs"
    using n assms(2) by (subst b) (simp add: overwrite_def)
  then show ?thesis by (simp add: add.assoc)
qed

lemma poke_grown:
  assumes "grown m xs m1" "j + length ys \<le> length xs"
  obtains m2 where "poke (data_len m + j) ys m1 = Done m2" "grown m (overwrite j ys xs) m2"
proof -
  let ?m2 = "m1\<lparr>buf_addr := overwrite (data_off m1 + (data_len m + j)) ys (buf_addr m1)\<rparr>"
  have "data_off m1 + (data_len m + j) + length ys \<le> length (buf_addr m1)" using assms by (simp add: grown_def room_def)
  then have "poke (data_len m + j) ys m1 = Done ?m2" by (simp add: poke_def add.assoc)
  moreover have "grown m (overwrite j ys xs) ?m2"
    using assms up_to_end_overwrite [OF assms] by (auto simp: grown_def room_def up_to_end_def)
  ultimately show ?thesis by (rule that)
qed

lemma poke_new:
  assumes "room m (length bs)"
  obtains m' where "poke (data_len m) bs (m\<lparr>data_len := data_len m + length bs\<rparr>) = Done m'" "grown m bs m'"
proof -
  from grown_append [OF assms] obtain xs where x: "length xs = length bs" "grown m xs (m\<lparr>data_len := data_len m + length bs\<rparr>)" .
  from x poke_grown [OF x(2), of 0 bs] show ?thesis by (auto simp: overwrite_def intro: that)
qed

lemma peek_grown:
  assumes "grown m xs m1"
  shows "peek m1 (data_len m) (length xs) = Done xs"
proof -
  let ?n = "data_off m + data_len m"
  have l: "length (up_to_end m) = ?n" using assms by (auto simp: grown_def up_to_end_def room_def)
  have "drop ?n (take (?n + length xs) (buf_addr m1)) = xs"
    using assms l unfolding grown_def by (metis add.assoc append_eq_conv_conj up_to_end_def)
  then show ?thesis using assms by (simp add: grown_def room_def peek_def drop_take)
qed

lemma put_writes: "dpdk_pkt_ok d \<Longrightarrow> room m (length bs) \<Longrightarrow> writes (put_or d bs) m bs"
  unfolding writes_def by (rule poke_new [of m bs]) (auto simp: put_or_def put_def append_room)

section \<open>Sections\<close>

lemma flag_mod: "unat (x :: u8) < 2 \<Longrightarrow> (ucast x :: 'a::len word) mod 2 = ucast x"
  using take_bit_ucast_small [of x 1, where 'b = 'a] by simp

lemma second_4byte_word:
  assumes "section_ok mu i"
  shows "second_4byte i mu = place_word mu i"
proof -
  have n: "word_of_int (XRAN_CONVERT_NUMPRBC (uint (numPrbc i))) = (if numPrbc i > 255 then 0 else ucast (numPrbc i) :: u32)"
    by (auto simp: XRAN_CONVERT_NUMPRBC_def word_less_def)
  have id: "(XRAN_BASE_SECT_ID_TO_MU_SECT_ID (ucast (sect_no i)) mu :: u32) = of_nat (mu_sect_id (sect_no i) mu)"
    by (simp add: XRAN_BASE_SECT_ID_TO_MU_SECT_ID_def mu_sect_id_def XRAN_MAX_SECTIONS_PER_SLOT_def)
  have p: "take_bit 8 (if numPrbc i > 255 then 0 else ucast (numPrbc i) :: u32) = (if numPrbc i > 255 then 0 else ucast (numPrbc i))"
    by (simp add: take_bit_ucast_small word_less_nat_alt)
  have t: "take_bit 12 (of_nat (mu_sect_id (sect_no i) mu) :: u32) = of_nat (mu_sect_id (sect_no i) mu)"
    "(ucast (rbInd i) :: u32) mod 2 = ucast (rbInd i)" "(ucast (symInc i) :: u32) mod 2 = ucast (symInc i)"
    "take_bit 10 (ucast (startPrbc i) :: u32) = ucast (startPrbc i)"
    using assms by (auto simp: section_ok_def take_bit_of_nat take_bit_nat_eq_self intro!: take_bit_ucast_small flag_mod)
  show ?thesis by (simp add: second_4byte_def place_word_def n id p t or.assoc del: take_bit_Suc)
qed

lemma first_4byte_word:
  assumes "section_ok mu i"
  shows "first_4byte i = beam_word i"
proof -
  have t: "take_bit 12 (ucast (reMask i) :: u32) = ucast (reMask i)" "take_bit 4 (ucast (numSymbol i) :: u32) = ucast (numSymbol i)"
    "(ucast (ext_flag i) :: u32) mod 2 = ucast (ext_flag i)" "take_bit 15 (ucast (beamId i) :: u32) = ucast (beamId i)"
    using assms by (auto simp: section_ok_def intro!: take_bit_ucast_small flag_mod)
  show ?thesis by (simp add: first_4byte_def beam_word_def t or.assoc)
qed

lemma swapped_words: "le64 (swap64 (two_words lo hi)) = be32 hi @ be32 lo"
proof -
  have "(ucast (two_words lo hi) :: u32) = lo" "(ucast (drop_bit 32 (two_words lo hi)) :: u32) = hi"
    by (rule bit_word_eqI; auto simp: two_words_def bit_or_iff bit_push_bit_iff bit_ucast_iff bit_drop_bit_eq dest: bit_imp_le_length)+
  then have "le64 (two_words lo hi) = le32 lo @ le32 hi" by (simp add: le64_def)
  then show ?thesis by (simp add: le64_swap64 be32_def)
qed

lemma length_be [simp]: "length (be16 x) = 2" "length (be32 y) = 4"
  by (simp_all add: be16_def be32_def)

lemma le16_swap16: "le16 (swap16 x) = be16 x"
  by (simp add: le16_def be16_def) (intro conjI; rule bit_word_eqI; auto simp: swap16_def bit_or_iff bit_push_bit_iff bit_ucast_iff bit_drop_bit_eq dest: bit_imp_le_length)

lemma length_section_wire [simp]: "length (section_wire ty mu i) = section_size ty"
  by (simp add: section_wire_def section_size_def)

lemma freq_wire: "le32 (set_bits 24 8 0 (set_bits 0 24 (drop_bit 8 (swap32 x)) 0)) = take 3 (drop 1 (be32 x)) @ [0]"
proof -
  have "drop_bit 8 (swap32 x) = of_le32 (take 3 (drop 1 (be32 x)) @ [0])"
    by (rule bit_word_eqI)
      (auto simp: swap32_def be32_def le32_def of_le32_def bit_or_iff bit_push_bit_iff bit_ucast_iff bit_drop_bit_eq)
  moreover have "set_bits 24 8 0 (set_bits 0 24 (drop_bit 8 (swap32 x)) 0) = drop_bit 8 (swap32 x)"
    by (rule bit_word_eqI)
      (auto simp: set_bits_def bit_or_iff bit_push_bit_iff bit_and_iff bit_not_iff bit_mask_iff bit_take_bit_iff bit_drop_bit_eq dest: bit_imp_le_length)
  moreover have "length (take 3 (drop 1 (be32 x)) @ [0]) = 4" by simp
  ultimately show ?thesis by (simp only: le32_of_le32)
qed

lemma set_bits_or:
  fixes x :: "'a::len word"
  assumes "get_bits p w x = 0"
  shows "set_bits p w v x = or x (push_bit p (take_bit w v))"
proof (rule bit_word_eqI)
  fix n
  assume "n < LENGTH('a)"
  have "\<not> bit x n" if "p \<le> n" "n - p < w"
  proof -
    have "\<not> bit (get_bits p w x) (n - p)" by (simp add: assms)
    then show ?thesis using that by (simp add: get_bits_def bit_take_bit_iff bit_drop_bit_eq)
  qed
  then show "bit (set_bits p w v x) n = bit (or x (push_bit p (take_bit w v))) n"
    by (auto simp: set_bits_def bit_or_iff bit_and_iff bit_not_iff bit_push_bit_iff bit_mask_iff bit_take_bit_iff dest: bit_imp_le_length)
qed

lemma get_bits_or [simp]: "get_bits p w (or x y) = or (get_bits p w x) (get_bits p w y)"
  by (simp add: get_bits_def take_bit_or drop_bit_or)

lemma get_bits_pushed [simp]:
  fixes v :: "'a::len word"
  shows "p + w \<le> q \<or> q + u \<le> p \<Longrightarrow> get_bits p w (push_bit q (take_bit u v)) = 0"
    "u \<le> p \<Longrightarrow> get_bits p w (take_bit u v) = 0"
  by (rule bit_word_eqI; auto simp: get_bits_def bit_take_bit_iff bit_drop_bit_eq bit_push_bit_iff)+

lemma get_bits_flag [simp]:
  fixes v :: "'a::len word"
  shows "p + w \<le> q \<or> q + 1 \<le> p \<Longrightarrow> get_bits p w (push_bit q (v mod 2)) = 0"
  using get_bits_pushed(1) [of p w q 1 v] by simp

lemma section0_words:
  "set_bits 0 16 0 (set_bits 16 4 (ucast (numSymbol i)) (set_bits 20 12 (ucast (reMask i)) 0))
     = (bit_fields [(12, ucast (reMask i)), (4, ucast (numSymbol i)), (16, 0)] :: u32)"
  "set_bits 0 8 (word_of_int (XRAN_CONVERT_NUMPRBC (uint (numPrbc i)))) (set_bits 8 10 (ucast (startPrbc i))
     (set_bits 18 (Suc 0) (ucast (symInc i)) (set_bits 19 (Suc 0) (ucast (rbInd i))
     (set_bits 20 12 (XRAN_BASE_SECT_ID_TO_MU_SECT_ID (ucast (sect_no i)) mu) 0)))) = place_word mu i"
proof -
  have n: "word_of_int (XRAN_CONVERT_NUMPRBC (uint (numPrbc i))) = (if numPrbc i > 255 then 0 else ucast (numPrbc i) :: u32)"
    by (auto simp: XRAN_CONVERT_NUMPRBC_def word_less_def)
  have id: "(XRAN_BASE_SECT_ID_TO_MU_SECT_ID (ucast (sect_no i)) mu :: u32) = of_nat (mu_sect_id (sect_no i) mu)"
    by (simp add: XRAN_BASE_SECT_ID_TO_MU_SECT_ID_def mu_sect_id_def XRAN_MAX_SECTIONS_PER_SLOT_def)
  show "set_bits 0 16 0 (set_bits 16 4 (ucast (numSymbol i)) (set_bits 20 12 (ucast (reMask i)) 0))
     = (bit_fields [(12, ucast (reMask i)), (4, ucast (numSymbol i)), (16, 0)] :: u32)"
    by (simp add: set_bits_or or.commute)
  show "set_bits 0 8 (word_of_int (XRAN_CONVERT_NUMPRBC (uint (numPrbc i)))) (set_bits 8 10 (ucast (startPrbc i))
     (set_bits 18 (Suc 0) (ucast (symInc i)) (set_bits 19 (Suc 0) (ucast (rbInd i))
     (set_bits 20 12 (XRAN_BASE_SECT_ID_TO_MU_SECT_ID (ucast (sect_no i)) mu) 0)))) = place_word mu i"
    by (simp add: set_bits_or n id place_word_def or.commute or.left_commute or.assoc)
qed

lemma section_prepared:
  assumes "dpdk_pkt_ok d" "section_ok mu i" "ty = XRAN_CP_SECTIONTYPE_0 \<or> ty = XRAN_CP_SECTIONTYPE_1 \<or> ty = XRAN_CP_SECTIONTYPE_3"
  shows "xran_prepare_section d ty mu i = Inr (section_wire ty mu i)"
proof -
  have n: "\<not> numSymbol i > XRAN_SYMBOLNUMBER_MAX" using assms(2) by (simp add: section_ok_def XRAN_SYMBOLNUMBER_MAX_def word_less_nat_alt)
  have d: "rte_cpu_to_be_64 d = swap64" "rte_cpu_to_be_32 d = swap32" using assms(1) by (simp_all add: dpdk_pkt_ok_def)
  show ?thesis using assms(3) n
    by (auto simp: xran_prepare_section_def xran_prepare_section0_def xran_prepare_section1_def xran_prepare_section3_def section_wire_def d
      XRAN_CP_SECTIONTYPE_0_def XRAN_CP_SECTIONTYPE_1_def XRAN_CP_SECTIONTYPE_3_def swapped_words freq_wire
      first_4byte_word [OF assms(2)] second_4byte_word [OF assms(2)] section0_words)
qed

section \<open>Extensions\<close>

definition be64 :: "u64 \<Rightarrow> u8 list" where "be64 x = rev (le64 x)"

definition attr_fields :: "(u8 \<times> u8) list \<Rightarrow> (nat \<times> u32) list" where
  "attr_fields xs = map (\<lambda>(w, v). (unat w + 1, ucast v)) (filter (\<lambda>(w, v). w \<noteq> 0) xs)"

definition attr_bits :: "(u8 \<times> u8) list \<Rightarrow> nat" where
  "attr_bits xs = sum_list (map fst (attr_fields xs))"

text \<open>The attributes fill up the octets of their bits from the left.\<close>

definition ext2_wire :: "u32 \<Rightarrow> xran_sectionext2_info \<Rightarrow> u8 list" where
  "ext2_wire ef e =
     (let n = attr_bits (ext2_attributes e);
          octets = take ((n + 7) div 8) (be32 (push_bit (32 - n) (bit_fields (attr_fields (ext2_attributes e)))))
            @ [bit_fields [(5, bfAzSI e), (3, bfZeSI e)]];
          pad = padding (length octets)
      in be32 (bit_fields [(1, ef), (7, 2), (8, of_nat (1 + (length octets + pad) div 4)), (2, 0), (3, ucast (bfAzPtWidth e)), (3, ucast (bfZePtWidth e)),
           (2, 0), (3, ucast (bfAz3ddWidth e)), (3, ucast (bfZe3ddWidth e))]) @ octets @ replicate pad 0)"

definition ext3_wire :: "u32 \<Rightarrow> xran_sectionext3_info \<Rightarrow> u8 list" where
  "ext3_wire ef e =
     (let first = layerId e = XRAN_LAYERID_0 \<or> layerId e = XRAN_LAYERID_TXD; two = numAntPort e = 2
      in be32 (bit_fields [(1, ef), (7, 3), (8, if first then if two then 3 else 4 else 1), (8, ucast (codebookIdx e)), (4, ucast (layerId e)),
           (4, ucast (numLayers e))])
         @ (if first then
              be32 (bit_fields [(4, ucast (txScheme e)), (12, ucast (crsReMask e)), (1, ucast (crsShift e)), (3, 0), (4, ucast (crsSymNum e)), (8, 0)])
              @ [0, 0] @ be16 (beamIdAP1 e) @ (if two then [] else be16 (beamIdAP2 e) @ be16 (beamIdAP3 e))
            else []))"

definition ext4_wire :: "u32 \<Rightarrow> xran_sectionext4_info \<Rightarrow> u8 list" where
  "ext4_wire ef e = be32 (bit_fields [(1, ef), (7, 4), (8, 1), (1, if csf e = 0 then 0 else 1), (15, ucast (modCompScaler e))])"

definition ext6_wire :: "u32 \<Rightarrow> xran_sectionext6_info \<Rightarrow> u8 list" where
  "ext6_wire ef e = be64 (bit_fields [(1, ucast ef), (7, 6), (8, 2), (1, 0), (3, ucast (rbgSize e)), (28, ucast (rbgMask e)), (2, 0),
     (14, ucast (symbolMask e))])"

definition ext9_wire :: "u32 \<Rightarrow> xran_sectionext9_info \<Rightarrow> u8 list" where
  "ext9_wire ef e = [bit_fields [(1, ucast ef), (7, 9)], 1, technology_id e, ext9_reserved e]"

text \<open>The extensions that have a layout here: those whose bytes the library writes one for one.\<close>

fun ext_ok :: "xran_section_ext \<Rightarrow> bool" where
  "ext_ok (Ext2 e) \<longleftrightarrow> (\<forall>w\<in>set (map fst (ext2_attributes e)). unat w < 8) \<and> unat (bfAzSI e) < 32 \<and> unat (bfZeSI e) < 8"
| "ext_ok (Ext3 e) \<longleftrightarrow> unat (layerId e) < 16 \<and> unat (numLayers e) < 16 \<and> unat (txScheme e) < 16 \<and> unat (crsReMask e) < 4096
     \<and> unat (crsShift e) < 2 \<and> unat (crsSymNum e) < 16"
| "ext_ok (Ext4 e) \<longleftrightarrow> True"
| "ext_ok (Ext6 e) \<longleftrightarrow> True"
| "ext_ok (Ext9 e) \<longleftrightarrow> True"
| "ext_ok _ \<longleftrightarrow> False"

fun ext_wire :: "u32 \<Rightarrow> xran_section_ext \<Rightarrow> u8 list" where
  "ext_wire ef (Ext2 e) = ext2_wire ef e"
| "ext_wire ef (Ext3 e) = ext3_wire ef e"
| "ext_wire ef (Ext4 e) = ext4_wire ef e"
| "ext_wire ef (Ext6 e) = ext6_wire ef e"
| "ext_wire ef (Ext9 e) = ext9_wire ef e"
| "ext_wire ef _ = []"

lemma length_be64 [simp]: "length (be64 x) = 8"
  by (simp add: be64_def)

lemma get_bits_numeral: "get_bits p w (numeral k) = take_bit w (drop_bit p (numeral k :: 'a::len word))"
  by (simp add: get_bits_def)

lemma ext4_writes:
  assumes "dpdk_pkt_ok d" "room m 4"
  shows "writes (xran_prepare_sectionext_4 d e ef) m (ext4_wire ef e)"
proof -
  have "ext_word 4 ef 1 (set_bits 15 1 (if csf e = 0 then 0 else 1) (set_bits 0 15 (ucast (modCompScaler e)) 0))
    = bit_fields [(1, ef), (7, 4), (8, 1), (1, if csf e = 0 then 0 else 1), (15, ucast (modCompScaler e))]"
    by (simp add: ext_word_def set_bits_or get_bits_numeral or.assoc or.commute or.left_commute)
  then have "writes (put_or d (le32 (rte_cpu_to_be_32 d (ext_word 4 ef 1 (set_bits 15 1 (if csf e = 0 then 0 else 1)
      (set_bits 0 15 (ucast (modCompScaler e)) 0)))))) m (ext4_wire ef e)"
    using assms put_writes [OF assms(1), of m "ext4_wire ef e"] by (simp add: ext4_wire_def be32_def dpdk_pkt_ok_def le32_swap32)
  then show ?thesis by (simp add: writes_def xran_prepare_sectionext_4_def)
qed

lemma ext6_writes:
  assumes "dpdk_pkt_ok d" "room m 8"
  shows "writes (xran_prepare_sectionext_6 d e ef) m (ext6_wire ef e)"
proof -
  have "ext6_word e ef = bit_fields [(1, ucast ef), (7, 6), (8, 2), (1, 0), (3, ucast (rbgSize e)), (28, ucast (rbgMask e)), (2, 0), (14, ucast (symbolMask e))]"
    by (simp add: ext6_word_def set_bits_or get_bits_numeral or.assoc or.commute or.left_commute)
  then have "writes (put_or d (le64 (rte_cpu_to_be_64 d (ext6_word e ef)))) m (ext6_wire ef e)"
    using assms put_writes [OF assms(1), of m "ext6_wire ef e"] by (simp add: ext6_wire_def be64_def dpdk_pkt_ok_def le64_swap64)
  then show ?thesis by (simp add: writes_def xran_prepare_sectionext_6_def)
qed

lemma ext9_writes:
  assumes "dpdk_pkt_ok d" "room m 4"
  shows "writes (xran_prepare_sectionext_9 d e ef) m (ext9_wire ef e)"
proof -
  have "set_bits 7 1 (ucast ef) (set_bits 0 7 9 0) = (bit_fields [(1, ucast ef), (7, 9)] :: u8)" by (simp add: set_bits_or get_bits_numeral or.commute)
  moreover have "length (ext9_wire ef e) = 4" by (simp add: ext9_wire_def)
  then have "room m (length (ext9_wire ef e))" using assms(2) by simp
  ultimately have "writes (put_or d (le32 (rte_cpu_to_be_32 d (of_le32 [ext9_reserved e, technology_id e, 1, set_bits 7 1 (ucast ef) (set_bits 0 7 9 0)])))) m (ext9_wire ef e)"
    using assms(1) put_writes [OF assms(1), of m "ext9_wire ef e"] by (simp add: ext9_wire_def dpdk_pkt_ok_def le32_swap32 le32_of_le32)
  then show ?thesis by (simp add: writes_def xran_prepare_sectionext_9_def)
qed

lemma trim_grown:
  assumes "dpdk_pkt_ok d" "grown m (xs @ ys) m1" "n = length ys"
  obtains m2 where "rte_pktmbuf_trim d n m1 = Some m2" "grown m xs m2"
proof (rule that)
  show "rte_pktmbuf_trim d n m1 = Some (m1\<lparr>data_len := data_len m1 - n\<rparr>)" using assms by (simp add: dpdk_pkt_ok_def grown_def)
  have l: "length (up_to_end m) = data_off m + data_len m" using assms(2) by (auto simp: grown_def up_to_end_def room_def)
  have "take (length (up_to_end m) + length xs) (up_to_end m1) = up_to_end m @ xs" using assms(2) by (auto simp: grown_def)
  then have "take (data_off m + data_len m + length xs) (buf_addr m1) = up_to_end m @ xs"
    using assms(2) by (simp add: l grown_def up_to_end_def [of m1])
  then show "grown m xs (m1\<lparr>data_len := data_len m1 - n\<rparr>)"
    using assms(2,3) by (auto simp: grown_def up_to_end_def room_def add.assoc)
qed

lemma be32_pair: "be32 (or (push_bit 16 (ucast (x :: u16))) (ucast (y :: u16))) = be16 x @ be16 y"
proof -
  let ?w = "or (push_bit 16 (ucast x)) (ucast y) :: u32"
  have "(ucast ?w :: u8) = ucast y" "(ucast (drop_bit 8 ?w) :: u8) = ucast (drop_bit 8 y)"
    "(ucast (drop_bit 16 ?w) :: u8) = ucast x" "(ucast (drop_bit 24 ?w) :: u8) = ucast (drop_bit 8 x)"
    by (rule bit_word_eqI; simp add: bit_simps; auto dest: bit_imp_le_length)+
  then show ?thesis by (simp add: be32_def be16_def le32_def le16_def)
qed

lemma be32_low: "be32 (ucast (x :: u16)) = [0, 0] @ be16 x"
  using be32_pair [of 0 x] by (simp add: be16_def le16_def)

lemma ext3_words:
  assumes "ext_ok (Ext3 e)"
  shows "unat len < 256 \<Longrightarrow> ext3_word e ef len = bit_fields [(1, ef), (7, 3), (8, len), (8, ucast (codebookIdx e)), (4, ucast (layerId e)), (4, ucast (numLayers e))]"
    "ext3_crs e = bit_fields [(4, ucast (txScheme e)), (12, ucast (crsReMask e)), (1, ucast (crsShift e)), (3, 0), (4, ucast (crsSymNum e)), (8, 0)]"
proof -
  have t: "take_bit 4 (ucast (layerId e) :: u32) = ucast (layerId e)" "take_bit 4 (ucast (numLayers e) :: u32) = ucast (numLayers e)"
    "take_bit 4 (ucast (txScheme e) :: u32) = ucast (txScheme e)" "take_bit 12 (ucast (crsReMask e) :: u32) = ucast (crsReMask e)"
    "(ucast (crsShift e) :: u32) mod 2 = ucast (crsShift e)" "take_bit 4 (ucast (crsSymNum e) :: u32) = ucast (crsSymNum e)"
    "take_bit 8 (ucast (codebookIdx e) :: u32) = ucast (codebookIdx e)"
    using assms unsigned_less [of "codebookIdx e"] by (auto intro!: take_bit_ucast_small flag_mod)
  show "ext3_crs e = bit_fields [(4, ucast (txScheme e)), (12, ucast (crsReMask e)), (1, ucast (crsShift e)), (3, 0), (4, ucast (crsSymNum e)), (8, 0)]"
    by (simp add: ext3_crs_def t or.assoc)
  assume "unat len < 256"
  then have l: "take_bit 8 len = len" using take_bit_ucast_small [of len 8, where 'b = 32] by simp
  have e: "push_bit 31 (ef mod 2) = push_bit 31 ef"
    by (rule bit_word_eqI) (auto simp: bit_push_bit_iff mod_2_eq_odd bit_0)
  show "ext3_word e ef len = bit_fields [(1, ef), (7, 3), (8, len), (8, ucast (codebookIdx e)), (4, ucast (layerId e)), (4, ucast (numLayers e))]"
    by (simp add: ext3_word_def t l e or.assoc)
qed

lemma ext3_writes:
  assumes "dpdk_pkt_ok d" "ext_ok (Ext3 e)" "room m (length (ext3_wire ef e) + 4)"
  shows "writes (xran_prepare_sectionext_3 d e ef) m (ext3_wire ef e)"
proof -
  let ?w = "\<lambda>n. bit_fields [(1, ef), (7, 3), (8, n), (8, ucast (codebookIdx e)), (4, ucast (layerId e)), (4, ucast (numLayers e))] :: u32"
  have d: "rte_cpu_to_be_64 d = swap64" "rte_cpu_to_be_32 d = swap32" using assms(1) by (simp_all add: dpdk_pkt_ok_def)
  note w = ext3_words(1) [OF assms(2)] ext3_words(2) [OF assms(2)]
  show ?thesis
  proof (cases "layerId e = XRAN_LAYERID_0 \<or> layerId e = XRAN_LAYERID_TXD")
    case True
    let ?bs = "le64 (rte_cpu_to_be_64 d (two_words (ext3_crs e) (ext3_word e ef (if numAntPort e = 2 then 3 else 4))))
        @ le64 (rte_cpu_to_be_64 d (two_words (if numAntPort e = 2 then 0 else or (push_bit 16 (ucast (beamIdAP2 e))) (ucast (beamIdAP3 e))) (ucast (beamIdAP1 e))))"
    have b: "?bs = ext3_wire ef e @ (if numAntPort e = 2 then be32 0 else [])"
      using True by (auto simp: d swapped_words w ext3_wire_def Let_def be32_low be32_pair simp del: bit_fields.simps)
    have "room m (length ?bs)" using assms(3) True by (auto simp: ext3_wire_def Let_def room_def)
    from put_writes [OF assms(1) this] obtain m1 where m1: "put_or d ?bs m = Done (int (length ?bs), m1)" "grown m ?bs m1"
      by (auto simp: writes_def)
    show ?thesis
    proof (cases "numAntPort e = 2")
      case two: True
      have "grown m (ext3_wire ef e @ be32 0) m1" using m1(2) two unfolding b by simp
      from trim_grown [OF assms(1) this, of 4] obtain m2 where m2: "rte_pktmbuf_trim d 4 m1 = Some m2" "grown m (ext3_wire ef e) m2" by auto
      have "length (ext3_wire ef e) = 12" using True two by (simp add: ext3_wire_def Let_def)
      then show ?thesis using True two m1(1) m2 by (simp add: writes_def xran_prepare_sectionext_3_def Let_def)
    next
      case False
      then have "?bs = ext3_wire ef e" using b by simp
      then show ?thesis using True False m1 by (simp add: writes_def xran_prepare_sectionext_3_def Let_def)
    qed
  next
    case False
    have "le32 (rte_cpu_to_be_32 d (ext3_word e ef 1)) = ext3_wire ef e"
      using False w(1) [of 1] by (auto simp: ext3_wire_def Let_def d le32_swap32 be32_def)
    moreover have "room m (length (ext3_wire ef e))" using assms(3) by (simp add: room_def)
    ultimately show ?thesis using False put_writes [OF assms(1), of m "ext3_wire ef e"]
      by (simp add: writes_def xran_prepare_sectionext_3_def)
  qed
qed

lemma bit_set_bits:
  "bit (set_bits p w v x :: 'a::len word) n \<longleftrightarrow> n < LENGTH('a) \<and> (if p \<le> n \<and> n < p + w then bit v (n - p) else bit x n)"
  by (auto simp: set_bits_def bit_or_iff bit_and_iff bit_not_iff bit_push_bit_iff bit_mask_iff bit_take_bit_iff dest: bit_imp_le_length)

lemma ext2_word_fixed: "ext_word 2 ef len (ext2_widths e x) = ext_word 2 ef len (ext2_widths e 0)"
proof (rule bit_word_eqI)
  fix n
  assume "n < LENGTH(32)"
  then have "n < 3 \<or> 3 \<le> n \<and> n < 6 \<or> 6 \<le> n \<and> n < 8 \<or> 8 \<le> n \<and> n < 11 \<or> 11 \<le> n \<and> n < 14 \<or> 14 \<le> n \<and> n < 16 \<or> 16 \<le> n \<and> n < 24
      \<or> 24 \<le> n \<and> n < 31 \<or> n = 31" by simp linarith
  then show "bit (ext_word 2 ef len (ext2_widths e x)) n = bit (ext_word 2 ef len (ext2_widths e 0)) n"
    by (elim disjE) (simp_all add: ext_word_def ext2_widths_def bit_set_bits)
qed

lemma ext2_word:
  "ext_word 2 ef len (ext2_widths e x) = bit_fields [(1, ef), (7, 2), (8, of_nat len), (2, 0), (3, ucast (bfAzPtWidth e)), (3, ucast (bfZePtWidth e)),
     (2, 0), (3, ucast (bfAz3ddWidth e)), (3, ucast (bfZe3ddWidth e))]"
  unfolding ext2_word_fixed [of _ _ _ x]
  by (simp add: ext_word_def ext2_widths_def set_bits_or get_bits_numeral or.assoc or.commute or.left_commute)

lemma at_bitmask:
  assumes "w \<noteq> (0 :: u8)" "unat w < 8"
  shows "at bitmask (unat w) = Done (mask (unat w + 1))"
proof -
  have "unat w \<noteq> 0" using assms(1) by (simp add: unat_eq_0)
  then have "unat w \<in> {1, 2, 3, 4, 5, 6, 7}" using assms(2) by auto
  then show ?thesis by (auto simp: at_def bitmask_def mask_eq_exp_minus_1)
qed

lemma attr_step:
  fixes val :: u32 and v :: u8
  shows "push_bit k val + ucast (and v (mask k)) = or (push_bit k val) (take_bit k (ucast v))"
proof -
  have "ucast (and v (mask k)) = (take_bit k (ucast v) :: u32)"
    by (rule bit_word_eqI) (auto simp: bit_ucast_iff bit_and_iff bit_mask_iff bit_take_bit_iff dest: bit_imp_le_length)
  moreover have "and (push_bit k val) (take_bit k (ucast v)) = 0"
    by (rule bit_word_eqI) (auto simp: bit_and_iff bit_push_bit_iff bit_take_bit_iff)
  ultimately show ?thesis by (simp add: disjunctive_add_eq_or)
qed

lemma ext2_val_fields:
  assumes "\<forall>x\<in>set xs. unat (fst x) < 8"
  shows "ext2_val xs val sh = Done (or (push_bit (attr_bits xs) val) (bit_fields (attr_fields xs)), sh + 8 * length xs - attr_bits xs)
    \<and> attr_bits xs \<le> 8 * length xs"
  using assms
proof (induction xs arbitrary: val sh)
  case Nil
  then show ?case by (simp add: attr_bits_def attr_fields_def)
next
  case (Cons x xs)
  obtain w v where x: "x = (w, v)" by (cases x)
  have IH: "ext2_val xs val sh = Done (or (push_bit (attr_bits xs) val) (bit_fields (attr_fields xs)), sh + 8 * length xs - attr_bits xs)"
    "attr_bits xs \<le> 8 * length xs" for val sh using Cons by simp_all
  show ?case
  proof (cases "w = 0")
    case True
    then show ?thesis using IH by (simp add: x attr_bits_def attr_fields_def)
  next
    case False
    define k where "k = Suc (unat w)"
    have w: "unat w < 8" "k \<le> 8" using Cons.prems by (simp_all add: x k_def)
    have b: "at bitmask (unat w) = Done (mask k)" using at_bitmask [OF False w(1)] by (simp add: k_def)
    have a: "attr_bits (x # xs) = k + attr_bits xs"
      "bit_fields (attr_fields (x # xs)) = or (push_bit (attr_bits xs) (take_bit k (ucast v))) (bit_fields (attr_fields xs))"
      using False by (simp_all add: x attr_bits_def attr_fields_def k_def)
    have "ext2_val (x # xs) val sh = ext2_val xs (or (push_bit k val) (take_bit k (ucast v))) (sh + 8 - k)"
      using False by (simp add: x b k_def [symmetric] attr_step del: push_bit_Suc)
    then show ?thesis using w(2) IH(2) by (simp add: IH(1) a push_bit_or or.assoc add.commute)
  qed
qed

definition ext2_octets :: "xran_sectionext2_info \<Rightarrow> u8 list" where
  "ext2_octets e = (let n = attr_bits (ext2_attributes e)
     in take ((n + 7) div 8) (be32 (push_bit (32 - n) (bit_fields (attr_fields (ext2_attributes e))))) @ [bit_fields [(5, bfAzSI e), (3, bfZeSI e)]])"

definition ext2_head :: "u32 \<Rightarrow> xran_sectionext2_info \<Rightarrow> nat \<Rightarrow> u32" where
  "ext2_head ef e len = bit_fields [(1, ef), (7, 2), (8, of_nat len), (2, 0), (3, ucast (bfAzPtWidth e)), (3, ucast (bfZePtWidth e)),
     (2, 0), (3, ucast (bfAz3ddWidth e)), (3, ucast (bfZe3ddWidth e))]"

lemma ext2_wire_split:
  "ext2_wire ef e = (let pad = padding (length (ext2_octets e))
     in be32 (ext2_head ef e (1 + (length (ext2_octets e) + pad) div 4)) @ ext2_octets e @ replicate pad 0)"
  by (simp add: ext2_wire_def ext2_octets_def ext2_head_def Let_def)

lemma si_fields:
  fixes a b :: u8
  assumes "unat a < 32" "unat b < 8"
  shows "push_bit 3 a + b = bit_fields [(5, a), (3, b)]"
proof -
  have t: "take_bit 5 a = a" "take_bit 3 b = b"
    using take_bit_ucast_small [of a 5, where 'b = 8] take_bit_ucast_small [of b 3, where 'b = 8] assms by simp_all
  have "and (push_bit 3 a) (take_bit 3 b) = 0" by (rule bit_word_eqI) (auto simp: bit_and_iff bit_push_bit_iff bit_take_bit_iff)
  then show ?thesis by (simp add: t disjunctive_add_eq_or)
qed

lemma ext2_writes:
  assumes "dpdk_pkt_ok d" "ext_ok (Ext2 e)" "room m (length (ext2_wire ef e))"
  shows "writes (xran_prepare_sectionext_2 d e ef) m (ext2_wire ef e)"
proof -
  define n where "n = attr_bits (ext2_attributes e)"
  define v where "v = (bit_fields (attr_fields (ext2_attributes e)) :: u32)"
  define k where "k = (n + 7) div 8"
  define pad where "pad = padding (k + 1)"
  have w: "\<forall>x\<in>set (ext2_attributes e). unat (fst x) < 8" using assms(2) by simp
  have v: "ext2_val (ext2_attributes e) 0 0 = Done (v, 32 - n)" and n: "n \<le> 32"
    using ext2_val_fields [OF w, of 0 0] by (simp_all add: n_def v_def ext2_attributes_def)
  have k: "4 - (32 - n) div 8 = k" "k \<le> 4" using n by (simp_all add: k_def)
  have si: "push_bit 3 (bfAzSI e) + bfZeSI e = bit_fields [(5, bfAzSI e), (3, bfZeSI e)]"
    using assms(2) by (intro si_fields) simp_all
  have oct: "ext2_octets e = take k (be32 (push_bit (32 - n) v)) @ [bit_fields [(5, bfAzSI e), (3, bfZeSI e)]]"
    by (simp add: ext2_octets_def n_def v_def k_def Let_def)
  have len: "length (ext2_octets e) = k + 1" using k(2) by (simp add: oct)
  have d: "rte_cpu_to_be_32 d = swap32" using assms(1) by (simp add: dpdk_pkt_ok_def)
  have wire: "ext2_wire ef e = be32 (ext2_head ef e (1 + (k + 1 + pad) div 4)) @ ext2_octets e @ replicate pad 0"
    by (simp add: ext2_wire_split len pad_def Let_def)
  have r: "room m (4 + (k + 1 + pad))" using assms(3) by (simp add: wire len)
  then have "room m 4" by (simp add: room_def)
  from grown_append [OF this] obtain b where b: "length b = 4" "grown m b (m\<lparr>data_len := data_len m + 4\<rparr>)" .
  let ?m1 = "m\<lparr>data_len := data_len m + 4\<rparr>"
  have pk: "peek ?m1 (data_len m) 4 = Done b" using peek_grown [OF b(2)] by (simp add: b(1))
  define h0 where "h0 = le32 (ext_word 2 ef (unat (get_bits 16 8 (of_le32 b))) (ext2_widths e (of_le32 b)))"
  have "0 + length h0 \<le> length b" by (simp add: h0_def b(1))
  from poke_grown [OF b(2) this] obtain m2 where m2: "poke (data_len m) h0 ?m1 = Done m2" "grown m h0 m2"
    using b(1) by (auto simp: overwrite_def h0_def)
  have r2: "room m2 (k + 1 + pad)" using r grown_room [OF m2(2)] by (simp add: h0_def)
  from grown_append [OF this] obtain b2 where b2: "length b2 = k + 1 + pad" "grown m2 b2 (m2\<lparr>data_len := data_len m2 + (k + 1 + pad)\<rparr>)" .
  let ?m3 = "m2\<lparr>data_len := data_len m2 + (k + 1 + pad)\<rparr>" and ?body = "ext2_octets e @ replicate pad 0"
  have l: "length h0 = 4" "length ?body = k + 1 + pad" by (simp_all add: h0_def len)
  have "grown m (h0 @ b2) ?m3" by (rule grown_trans [OF m2(2) b2(2)])
  from poke_grown [OF this, of 4 ?body] obtain m4 where m4: "poke (data_len m + 4) ?body ?m3 = Done m4" "grown m (h0 @ ?body) m4"
    using l b2(1) by (auto simp: overwrite_def)
  from poke_grown [OF m4(2), of 0 "be32 (ext2_head ef e (1 + (k + 1 + pad) div 4))"]
  obtain m5 where m5: "poke (data_len m) (be32 (ext2_head ef e (1 + (k + 1 + pad) div 4))) m4 = Done m5" "grown m (ext2_wire ef e) m5"
    using l by (auto simp: overwrite_def wire)
  have parm: "padding (4 + (k + 1)) = pad"
    unfolding padding_def pad_def XRAN_SECTIONEXT_ALIGN_def mod_add_self1 by (rule refl)
  have words: "(4 + (k + 1 + pad)) div XRAN_SECTIONEXT_ALIGN = 1 + (k + 1 + pad) div 4" by (simp add: XRAN_SECTIONEXT_ALIGN_def)
  have val: "le32 (if v = 0 then 0 else rte_cpu_to_be_32 d (push_bit (32 - n) v)) = be32 (push_bit (32 - n) v)"
    by (cases "v = 0") (simp_all add: d le32_swap32 be32_def, simp add: le32_def)
  have bytes: "take k (le32 (if v = 0 then 0 else rte_cpu_to_be_32 d (push_bit (32 - n) v))) @ [push_bit 3 (bfAzSI e) + bfZeSI e] @ replicate pad 0
      = ext2_octets e @ replicate pad 0"
    unfolding oct val si by simp
  have head: "le32 (rte_cpu_to_be_32 d (ext_word 2 ef ((4 + (k + 1 + pad)) div XRAN_SECTIONEXT_ALIGN) (ext2_widths e (of_le32 b))))
      = be32 (ext2_head ef e (1 + (k + 1 + pad) div 4))"
    unfolding words d ext2_word ext2_head_def le32_swap32 be32_def ..
  have "ext2_second d e ef (data_len m) (ext2_widths e (of_le32 b)) (v, 32 - n) m2 = Done (int (4 + (k + 1 + pad)), m5)"
    by (simp only: ext2_second_def Let_def fst_conv snd_conv k(1) parm bytes head append_room [OF assms(1)] r2 if_True option.case m4(1) m5(1) obind.simps)
  moreover have "xran_prepare_sectionext_2 d e ef m = ext2_second d e ef (data_len m) (ext2_widths e (of_le32 b)) (v, 32 - n) m2"
    using \<open>room m 4\<close> pk m2(1) v by (simp add: xran_prepare_sectionext_2_def Let_def append_room [OF assms(1)] h0_def)
  moreover have "length (ext2_wire ef e) = 4 + (k + 1 + pad)" by (simp add: wire len)
  ultimately show ?thesis using m5(2) by (simp add: writes_def)
qed

lemma room_mono: "room m n \<Longrightarrow> k \<le> n \<Longrightarrow> room m k"
  by (simp add: room_def)

lemma ext_writes:
  assumes "dpdk_pkt_ok d" "ext_ok e" "room m (length (ext_wire ef e) + 4)"
  shows "writes (prepare_ext d e ef) m (ext_wire ef e)"
proof (cases e)
  case (Ext2 x)
  then show ?thesis using assms ext2_writes [of d x m ef] room_mono [OF assms(3)] by (simp add: prepare_ext_def writes_def)
next
  case (Ext3 x)
  then show ?thesis using assms ext3_writes [of d x m ef] by (simp add: prepare_ext_def writes_def)
next
  case (Ext4 x)
  then show ?thesis using assms ext4_writes [of d m x ef] room_mono [OF assms(3), of 4] by (simp add: prepare_ext_def writes_def)
next
  case (Ext6 x)
  then show ?thesis using assms ext6_writes [of d m x ef] room_mono [OF assms(3), of 8] by (simp add: prepare_ext_def writes_def ext6_wire_def)
next
  case (Ext9 x)
  then show ?thesis using assms ext9_writes [of d m x ef] room_mono [OF assms(3), of 4] by (simp add: prepare_ext_def writes_def)
qed (use assms(2) in simp_all)

text \<open>Only the last of the extensions does not announce another one.\<close>

fun exts_wire :: "xran_section_ext list \<Rightarrow> u8 list" where
  "exts_wire [] = []"
| "exts_wire (e # es) = ext_wire (if es = [] then 0 else 1) e @ exts_wire es"

lemma exts_written:
  assumes "dpdk_pkt_ok d"
  shows "list_all ext_ok es \<Longrightarrow> n = i + length es \<Longrightarrow> room m (length (exts_wire es) + 4)
    \<Longrightarrow> \<exists>m'. append_exts d n i (map Some es) len m = Done (len + int (length (exts_wire es)), m') \<and> grown m (exts_wire es) m'"
proof (induction es arbitrary: i len m)
  case Nil
  then show ?case by (auto simp: grown_def intro: room_mono)
next
  case (Cons e es)
  let ?f = "if n = i + 1 then 0 else 1 :: u32" and ?w = "ext_wire (if es = [] then 0 else 1) e"
  have f: "?f = (if es = [] then 0 else 1)" using Cons.prems(2) by auto
  have "room m (length ?w + 4)" using Cons.prems(3) by (auto intro: room_mono)
  with ext_writes [OF assms, of e m "if es = [] then 0 else 1"] Cons.prems(1)
  have "writes (prepare_ext d e ?f) m ?w" unfolding f by simp
  then obtain m1 where m1: "prepare_ext d e ?f m = Done (int (length ?w), m1)" "grown m ?w m1" unfolding writes_def by blast
  have r: "room m1 (length (exts_wire es) + 4)" using Cons.prems(3) grown_room [OF m1(2)] by (simp add: add.assoc)
  have nr: "int (length ?w) \<noteq> XRAN_STATUS_RESOURCE" by (simp add: XRAN_STATUS_RESOURCE_def)
  have "list_all ext_ok es" "n = Suc i + length es" using Cons.prems by auto
  from Cons.IH [OF this r, of "len + int (length ?w)"] obtain m2 where m2:
    "append_exts d n (Suc i) (map Some es) (len + int (length ?w)) m1 = Done (len + int (length ?w) + int (length (exts_wire es)), m2)"
    "grown m1 (exts_wire es) m2" by auto
  show ?case using m1(1) m2(1) nr grown_trans [OF m1(2) m2(2)] by (simp del: One_nat_def)
qed

definition gen_exts :: "xran_section_gen_info \<Rightarrow> xran_section_ext list" where
  "gen_exts g = map the (take (exDataSize g) (exData g))"

definition gen_ok :: "u8 \<Rightarrow> xran_section_gen_info \<Rightarrow> bool" where
  "gen_ok mu g \<longleftrightarrow> section_ok mu (sect_info g) \<and> (ext_flag (sect_info g) \<noteq> 0 \<longrightarrow>
     exDataSize g \<le> XRAN_MAX_NUM_EXTENSIONS \<and> exDataSize g \<le> length (exData g) \<and> None \<notin> set (take (exDataSize g) (exData g))
     \<and> list_all ext_ok (gen_exts g))"

definition gen_wire :: "u8 \<Rightarrow> u8 \<Rightarrow> xran_section_gen_info \<Rightarrow> u8 list" where
  "gen_wire ty mu g = section_wire ty mu (sect_info g) @ (if ext_flag (sect_info g) = 0 then [] else exts_wire (gen_exts g))"

lemma extensions_written:
  assumes "dpdk_pkt_ok d" "gen_ok mu g" "ext_flag (sect_info g) \<noteq> 0" "room m (length (exts_wire (gen_exts g)) + 4)"
  shows "writes (xran_append_section_extensions d g) m (exts_wire (gen_exts g))"
proof -
  have g: "exDataSize g \<le> XRAN_MAX_NUM_EXTENSIONS" "list_all ext_ok (gen_exts g)" "length (gen_exts g) = exDataSize g"
    using assms(2,3) by (auto simp: gen_ok_def gen_exts_def)
  have "take (exDataSize g) (exData g) = map Some (gen_exts g)"
    using assms(2,3) by (auto simp: gen_ok_def gen_exts_def map_idI comp_def intro!: map_idI [symmetric]) (metis option.collapse)
  then show ?thesis
    using exts_written [OF assms(1) g(2) _ assms(4), of "exDataSize g" 0 0] g by (simp add: writes_def xran_append_section_extensions_def)
qed

definition sections_wire :: "u8 \<Rightarrow> u8 \<Rightarrow> xran_section_gen_info list \<Rightarrow> u8 list" where
  "sections_wire ty mu gs = concat (map (gen_wire ty mu) gs)"

abbreviation known_type :: "u8 \<Rightarrow> bool" where
  "known_type ty \<equiv> ty = XRAN_CP_SECTIONTYPE_0 \<or> ty = XRAN_CP_SECTIONTYPE_1 \<or> ty = XRAN_CP_SECTIONTYPE_3"

lemma section_written:
  assumes "dpdk_pkt_ok d" "known_type ty" "gen_ok mu g" "at gs i = Done g" "room m (length (gen_wire ty mu g) + 4)"
  obtains m' where "append_sections d ty mu gs (Suc n) i len m = append_sections d ty mu gs n (Suc i) (len + int (length (gen_wire ty mu g))) m'"
    "grown m (gen_wire ty mu g) m'"
proof -
  let ?s = "section_wire ty mu (sect_info g)"
  have s: "section_ok mu (sect_info g)" using assms(3) by (simp add: gen_ok_def)
  have r: "room m (length ?s)" using assms(5) by (auto simp: gen_wire_def intro: room_mono)
  then obtain m1 where m1: "poke (data_len m) ?s (m\<lparr>data_len := data_len m + section_size ty\<rparr>) = Done m1" "grown m ?s m1"
    using poke_new [of m ?s] by auto
  show ?thesis
  proof (cases "ext_flag (sect_info g) = 0")
    case True
    then show ?thesis using r m1 assms(4) that [of m1]
      by (simp add: append_room [OF assms(1)] section_prepared [OF assms(1) s assms(2)] gen_wire_def)
  next
    case False
    have "room m1 (length (exts_wire (gen_exts g)) + 4)" using assms(5) False grown_room [OF m1(2)] by (simp add: gen_wire_def add.assoc)
    from extensions_written [OF assms(1,3) False this] obtain m2 where m2:
      "xran_append_section_extensions d g m1 = Done (int (length (exts_wire (gen_exts g))), m2)" "grown m1 (exts_wire (gen_exts g)) m2"
      by (auto simp: writes_def)
    show ?thesis using r m1 m2(1) assms(4) False grown_trans [OF m1(2) m2(2)] that [of m2]
      by (simp add: append_room [OF assms(1)] section_prepared [OF assms(1) s assms(2)] gen_wire_def add.assoc)
  qed
qed

lemma sections_written:
  assumes "dpdk_pkt_ok d" "known_type ty"
  shows "i + n \<le> length gs \<Longrightarrow> list_all (gen_ok mu) (take n (drop i gs)) \<Longrightarrow> room m (length (sections_wire ty mu (take n (drop i gs))) + 4)
    \<Longrightarrow> \<exists>m'. append_sections d ty mu gs n i len m = Done (len + int (length (sections_wire ty mu (take n (drop i gs)))), m')
          \<and> grown m (sections_wire ty mu (take n (drop i gs))) m'"
proof (induction n arbitrary: i len m)
  case 0
  then show ?case by (auto simp: sections_wire_def grown_def intro: room_mono)
next
  case (Suc n)
  let ?g = "gs ! i" and ?rest = "sections_wire ty mu (take n (drop (Suc i) gs))"
  have i: "i < length gs" using Suc.prems(1) by simp
  have t: "take (Suc n) (drop i gs) = ?g # take n (drop (Suc i) gs)" using i by (simp add: Cons_nth_drop_Suc [symmetric])
  have w: "sections_wire ty mu (take (Suc n) (drop i gs)) = gen_wire ty mu ?g @ ?rest" by (simp only: t sections_wire_def list.map concat.simps)
  have g: "gen_ok mu ?g" "at gs i = Done ?g" using Suc.prems(2) i by (simp_all add: t at_def)
  have "room m (length (gen_wire ty mu ?g) + 4)" using Suc.prems(3) by (auto simp only: w length_append intro: room_mono)
  from section_written [OF assms g this, of n len] obtain m1 where m1:
    "append_sections d ty mu gs (Suc n) i len m = append_sections d ty mu gs n (Suc i) (len + int (length (gen_wire ty mu ?g))) m1"
    "grown m (gen_wire ty mu ?g) m1" .
  have "room m1 (length ?rest + 4)" using Suc.prems(3) grown_room [OF m1(2)] by (simp only: w length_append add.assoc)
  from Suc.IH [OF _ _ this, of "len + int (length (gen_wire ty mu ?g))"] Suc.prems(1,2) obtain m2 where m2:
    "append_sections d ty mu gs n (Suc i) (len + int (length (gen_wire ty mu ?g))) m1 = Done (len + int (length (gen_wire ty mu ?g)) + int (length ?rest), m2)"
    "grown m1 ?rest m2" by (auto simp: t)
  show ?case using m1(1) m2(1) grown_trans [OF m1(2) m2(2)] by (simp only: w length_append of_nat_add add.assoc) blast
qed

section \<open>Packets\<close>

lemma cmn_hdr_fields:
  assumes "hdr_ok p"
  shows "cmn_hdr_word p = bit_fields [(1, ucast (cp_dir p)), (3, 1), (4, ucast (filterIndex (cp_hdr p))), (8, ucast (frameId (cp_hdr p))),
    (4, ucast (subframeId (cp_hdr p))), (6, ucast (slotId (cp_hdr p))), (6, ucast (hdr_startSymId (cp_hdr p)))]"
proof -
  have t: "(ucast (cp_dir p) :: u32) mod 2 = ucast (cp_dir p)" "take_bit 4 (ucast (filterIndex (cp_hdr p)) :: u32) = ucast (filterIndex (cp_hdr p))"
    "take_bit 8 (ucast (frameId (cp_hdr p)) :: u32) = ucast (frameId (cp_hdr p))"
    "take_bit 4 (ucast (subframeId (cp_hdr p)) :: u32) = ucast (subframeId (cp_hdr p))"
    "take_bit 6 (ucast (slotId (cp_hdr p)) :: u32) = ucast (slotId (cp_hdr p))"
    "take_bit 6 (ucast (hdr_startSymId (cp_hdr p)) :: u32) = ucast (hdr_startSymId (cp_hdr p))"
    using assms unsigned_less [of "frameId (cp_hdr p)"] by (auto simp: hdr_ok_def Let_def intro!: take_bit_ucast_small flag_mod)
  have u: "(ucast (ucast (slotId (cp_hdr p)) :: u16) :: u32) = ucast (slotId (cp_hdr p))"
    by (rule bit_word_eqI) (auto simp: bit_ucast_iff dest: bit_imp_le_length)
  show ?thesis by (simp add: cmn_hdr_word_def Let_def t u XRAN_PAYLOAD_VER_def xran_slotid_convert_def or.assoc)
qed

lemma nibbles_fields: "nibbles lo hi = bit_fields [(4, hi), (4, lo)]"
  by (simp add: nibbles_def set_bits_or or.commute)

lemma header_written:
  assumes "dpdk_pkt_ok d" "hdr_ok p" "known_type (sectionType p)"
    and "room m (length (app_wire p @ section_hdr_wire (sectionType p) (cp_hdr p)))"
  shows "writes (xran_append_radioapp_header d p) m (app_wire p @ section_hdr_wire (sectionType p) (cp_hdr p))"
proof -
  let ?h = "cp_hdr p" and ?w = "app_wire p @ section_hdr_wire (sectionType p) (cp_hdr p)"
  have d: "rte_cpu_to_be_16 d = swap16" "rte_cpu_to_be_32 d = swap32" using assms(1) by (simp_all add: dpdk_pkt_ok_def)
  have c: "\<not> (cp_dir p \<noteq> XRAN_DIR_DL \<and> cp_dir p \<noteq> XRAN_DIR_UL)" "\<not> slotId ?h > XRAN_SLOTID_MAX" "\<not> hdr_startSymId ?h > XRAN_SYMBOLNUMBER_MAX"
    using assms(2) by (auto simp: hdr_ok_def Let_def XRAN_DIR_DL_def XRAN_DIR_UL_def XRAN_SLOTID_MAX_def XRAN_SYMBOLNUMBER_MAX_def word_less_nat_alt word_unat_eq_iff)
  have app: "xran_prepare_radioapp_common_header d p = Inr (app_wire p)"
    using c by (simp add: xran_prepare_radioapp_common_header_def app_wire_def Let_def d le32_swap32 be32_def cmn_hdr_fields [OF assms(2)] del: bit_fields.simps)
  have sh: "section_hdr_of d p = Some (section_hdr_wire (sectionType p) ?h)" "sectionType p < XRAN_CP_SECTIONTYPE_MAX"
    using assms(3) by (auto simp: section_hdr_of_def section_hdr_wire_def xran_prepare_section0_hdr_def xran_prepare_section1_hdr_def xran_prepare_section3_hdr_def
      d le16_swap16 nibbles_fields frame_structure_def ud_compr_def XRAN_CP_SECTIONTYPE_0_def XRAN_CP_SECTIONTYPE_1_def XRAN_CP_SECTIONTYPE_3_def
      XRAN_CP_SECTIONTYPE_MAX_def simp del: bit_fields.simps)
  have l: "length (app_wire p) = 6" by (simp add: app_wire_def Let_def)
  from poke_new [OF assms(4)] obtain m' where m': "poke (data_len m) ?w (m\<lparr>data_len := data_len m + length ?w\<rparr>) = Done m'" "grown m ?w m'" .
  then show ?thesis using assms(4) sh by (simp add: writes_def xran_append_radioapp_header_def l app append_room [OF assms(1)] Let_def not_le [symmetric])
qed

text \<open>A packet: the transport header with the number of bytes behind its common part, and the application
  layer.\<close>

definition cid_be :: "xran_eaxcid_config \<Rightarrow> u8 \<Rightarrow> u8 \<Rightarrow> u16" where
  "cid_be c cc ant = or (or (or (and (push_bit (unat (bit_cuPortId c)) 0) (mask_cuPortId c)) (and (push_bit (unat (bit_bandSectorId c)) 0) (mask_bandSectorId c)))
     (and (push_bit (unat (bit_ccId c)) (ucast cc)) (mask_ccId c))) (and (push_bit (unat (bit_ruPortId c)) (ucast ant)) (mask_ruPortId c))"

definition ctrl_body :: "xran_cp_gen_params \<Rightarrow> nat \<Rightarrow> u8 \<Rightarrow> u8 list" where
  "ctrl_body p start mu = app_wire p @ section_hdr_wire (sectionType p) (cp_hdr p)
     @ sections_wire (sectionType p) mu (take (unat (numSections p)) (drop start (sections p)))"

definition ctrl_wire :: "xran_eaxcid_config \<Rightarrow> xran_cp_gen_params \<Rightarrow> u8 \<Rightarrow> u8 \<Rightarrow> u8 \<Rightarrow> nat \<Rightarrow> u8 \<Rightarrow> u8 list" where
  "ctrl_wire c p cc ant seq start mu =
     [bit_fields [(4, XRAN_ECPRI_VER), (4, 0)], ECPRI_RT_CONTROL_DATA] @ be16 (of_nat (4 + length (ctrl_body p start mu)))
     @ be16 (cid_be c cc ant) @ [seq, bit_fields [(1, 1), (7, 0)]] @ ctrl_body p start mu"

definition ctrl_ok :: "xran_cp_gen_params \<Rightarrow> nat \<Rightarrow> u8 \<Rightarrow> bool" where
  "ctrl_ok p start mu \<longleftrightarrow> hdr_ok p \<and> known_type (sectionType p) \<and> start + unat (numSections p) \<le> length (sections p)
     \<and> list_all (gen_ok mu) (take (unat (numSections p)) (drop start (sections p)))"

lemma transport_written:
  assumes "dpdk_pkt_ok d" "room m 8"
  obtains m' where "xran_build_ecpri_hdr d (Some c) cc ant seq m = Done (4, data_len m, m')"
    "grown m ([bit_fields [(4, XRAN_ECPRI_VER), (4, 0)], ECPRI_RT_CONTROL_DATA, 0, 0] @ be16 (cid_be c cc ant) @ [seq, bit_fields [(1, 1), (7, 0)]]) m'"
proof -
  have cid: "xran_compose_cid d (Some c) 0 0 cc ant = Done (swap16 (cid_be c cc ant))"
    using assms(1) by (simp add: xran_compose_cid_def Let_def cid_be_def dpdk_pkt_ok_def ucast_or ucast_cid_part)
  let ?w = "[bit_fields [(4, XRAN_ECPRI_VER), (4, 0)], ECPRI_RT_CONTROL_DATA, 0, 0] @ be16 (cid_be c cc ant) @ [seq, bit_fields [(1, 1), (7, 0)]]"
  let ?b = "le32 (or (push_bit 4 (ucast XRAN_ECPRI_VER)) (push_bit 8 (ucast ECPRI_RT_CONTROL_DATA))) @ le16 (swap16 (cid_be c cc ant))
      @ le16 (or (ucast seq) (push_bit 15 1))"
  have seq: "le16 (or (ucast seq) (push_bit 15 1)) = [seq, bit_fields [(1, 1), (7, 0)]]"
  proof -
    have "(ucast (or (ucast seq) (push_bit 15 1) :: u16) :: u8) = seq"
      by (rule bit_word_eqI) (simp only: bit_or_iff bit_ucast_iff bit_push_bit_iff, auto dest: bit_imp_le_length)
    moreover have "drop_bit 8 (or (ucast seq) (push_bit 15 1) :: u16) = drop_bit 8 (push_bit 15 1)"
      by (rule bit_word_eqI) (auto simp: bit_or_iff bit_drop_bit_eq bit_ucast_iff dest: bit_imp_le_length)
    ultimately show ?thesis by (simp add: le16_def)
  qed
  have b: "?b = ?w" unfolding seq le16_swap16 by (simp add: le32_def XRAN_ECPRI_VER_def ECPRI_RT_CONTROL_DATA_def)
  have "length ?w = 8" by simp
  with assms(2) have "room m (length ?w)" by simp
  from poke_new [OF this] obtain m' where m': "poke (data_len m) ?w (m\<lparr>data_len := data_len m + length ?w\<rparr>) = Done m'" "grown m ?w m'" .
  then have "xran_build_ecpri_hdr d (Some c) cc ant seq m = Done (4, data_len m, m')"
    using assms(2) b by (simp add: xran_build_ecpri_hdr_def Let_def append_room [OF assms(1)] cid sizeof_ecpri_hdr_def XRAN_ECPRI_HDR_SZ_def sizeof_ecpri_cmn_hdr_def)
  then show ?thesis using m'(2) by (rule that)
qed

lemma ctrl_written:
  assumes ok: "dpdk_pkt_ok d" and p: "ctrl_ok p (unat start) mu" and room: "room m (length (ctrl_wire c p cc ant seq (unat start) mu) + 4)"
  shows "\<exists>m'. xran_prepare_ctrl_pkt d (Some c) p cc ant seq start mu m = Done (XRAN_STATUS_SUCCESS, m')
    \<and> grown m (ctrl_wire c p cc ant seq (unat start) mu) m'"
proof -
  let ?t = "[bit_fields [(4, XRAN_ECPRI_VER), (4, 0)], ECPRI_RT_CONTROL_DATA, 0, 0] @ be16 (cid_be c cc ant) @ [seq, bit_fields [(1, 1), (7, 0)]] :: u8 list"
  let ?h = "app_wire p @ section_hdr_wire (sectionType p) (cp_hdr p)"
  let ?s = "sections_wire (sectionType p) mu (take (unat (numSections p)) (drop (unat start) (sections p)))"
  have l: "length (ctrl_wire c p cc ant seq (unat start) mu) = 8 + (length ?h + length ?s)" by (simp add: ctrl_wire_def ctrl_body_def)
  have "room m 8" using room by (rule room_mono) (simp add: l)
  from transport_written [OF ok this] obtain m1 where m1: "xran_build_ecpri_hdr d (Some c) cc ant seq m = Done (4, data_len m, m1)" "grown m ?t m1" .
  have t: "length ?t = 8" by simp
  have "room m1 (length ?h)" unfolding grown_room [OF m1(2)] using room by (rule room_mono) (simp add: l)
  with header_written [OF ok, of p m1] p obtain m2 where m2: "xran_append_radioapp_header d p m1 = Done (int (length ?h), m2)" "grown m1 ?h m2"
    unfolding ctrl_ok_def writes_def by blast
  have r2: "room m2 (length ?s + 4)" unfolding grown_room [OF m2(2)] grown_room [OF m1(2)] using room by (rule room_mono) (simp add: l)
  have k: "known_type (sectionType p)" "unat start + unat (numSections p) \<le> length (sections p)"
    "list_all (gen_ok mu) (take (unat (numSections p)) (drop (unat start) (sections p)))" using p by (simp_all add: ctrl_ok_def)
  from sections_written [OF ok k r2, of 0] obtain m3 where m3:
    "append_sections d (sectionType p) mu (sections p) (unat (numSections p)) (unat start) 0 m2 = Done (int (length ?s), m3)" "grown m2 ?s m3" by auto
  have g: "grown m (?t @ ?h @ ?s) m3" by (rule grown_trans [OF m1(2) grown_trans [OF m2(2) m3(2)]])
  let ?n = "be16 (of_nat (4 + length (ctrl_body p (unat start) mu)))"
  have "2 + length ?n \<le> length (?t @ ?h @ ?s)" by simp
  from poke_grown [OF g this] obtain m4 where m4: "poke (data_len m + 2) ?n m3 = Done m4" "grown m (overwrite 2 ?n (?t @ ?h @ ?s)) m4" .
  have "overwrite 2 ?n (?t @ ?h @ ?s) = ctrl_wire c p cc ant seq (unat start) mu"
    by (simp add: overwrite_def ctrl_wire_def ctrl_body_def del: bit_fields.simps)
  moreover have "le16 (rte_cpu_to_be_16 d (word_of_int (4 + int (length ?h) + int (length ?s)))) = ?n"
    using ok by (simp add: dpdk_pkt_ok_def le16_swap16 ctrl_body_def add.assoc)
  ultimately show ?thesis using m1(1) m2(1) m3(1) m4 k(1)
    by (simp add: xran_prepare_ctrl_pkt_def xran_append_control_section_def)
qed

end
