(* ===== verification/Xran_Cp_Ext.thy ===== *)
theory Xran_Cp_Ext
  imports Xran_Cplane
begin

text \<open>
  Reading the extensions of a control-plane section: \<open>xran_parse_section_extension\<close> of
  \<open>lib/src/xran_cp_api.c\<close> and its parsers.  An extension is read at a place of the packet, whatever the
  length of the packet is; words in network byte order are turned in place.
\<close>

section \<open>What is read\<close>

text \<open>A value that the packet does not have is \<open>None\<close>; the weights stay in the packet, and a pointer to them is
  a place in its buffer.\<close>

record ext1_recv =
  r1_bfwNumber :: u16
  r1_bfwCompMeth :: u8
  r1_bfwIqWidth :: u8
  r1_bfwCompParam :: "u8 option"
  r1_p_bfwIQ :: nat
  r1_bfwIQ_sz :: int

record ext2_recv =
  r2_attributes :: "(u8 \<times> u8 option) list"
  r2_bfAzSI :: u8
  r2_bfZeSI :: u8

record ext3_first =
  r3_txScheme :: u8
  r3_crsReMask :: u16
  r3_crsShift :: u8
  r3_crsSymNum :: u8
  r3_beamIdAP1 :: u16
  r3_beamIdAP23 :: "(u16 \<times> u16) option"
  r3_numAntPort :: u16

record ext3_recv =
  r3_codebookIdx :: u8
  r3_layerId :: u8
  r3_numLayers :: u8
  r3_first :: "ext3_first option"

record ext5_recv =
  r5_num_sets :: "nat option"
  r5_mc :: "modcomp_set list"

record ext11_bundle =
  bd_exponent :: "u8 option"
  bd_beamId :: u16
  bd_BFWSize :: nat

record ext11_recv =
  r11_RAD :: u8
  r11_disableBFWs :: u8
  r11_numBundPrb :: u8
  r11_bfwCompMeth :: u8
  r11_bfwIqWidth :: u8
  r11_bundInfo :: "ext11_bundle list"

datatype xran_ext_recv = Rx_none | Rx1 ext1_recv | Rx2 ext2_recv | Rx3 "ext3_recv option" | Rx4 xran_sectionext4_info | Rx5 ext5_recv
  | Rx6 xran_sectionext6_info | Rx9 xran_sectionext9_info | Rx10 xran_sectionext10_info | Rx11 ext11_recv

type_synonym 'a parsed = "(nat \<times> 'a \<times> rte_mbuf) outcome"

text \<open>What the parsers use of the device: the number of weights, and whether the pointer of a bundle, which
  nothing sets, happens not to be null.\<close>

record cp_dev =
  totalBfWeights :: u8
  stray_pBFWs :: "nat \<Rightarrow> bool"

definition XRAN_BFWCOMPMETHOD_NONE :: u8 where "XRAN_BFWCOMPMETHOD_NONE = 0"
definition XRAN_BFWCOMPMETHOD_BLKFLOAT :: u8 where "XRAN_BFWCOMPMETHOD_BLKFLOAT = 1"
definition XRAN_BFWCOMPMETHOD_BLKSCALE :: u8 where "XRAN_BFWCOMPMETHOD_BLKSCALE = 2"
definition XRAN_BFWCOMPMETHOD_ULAW :: u8 where "XRAN_BFWCOMPMETHOD_ULAW = 3"
definition XRAN_BFWCOMPMETHOD_BEAMSPACE :: u8 where "XRAN_BFWCOMPMETHOD_BEAMSPACE = 4"

definition bits_to_bytes :: "nat \<Rightarrow> nat" where
  "bits_to_bytes n = n div 8 + (if n mod 8 \<noteq> 0 then 1 else 0)"

definition iq_width_of :: "u8 \<Rightarrow> u8" where
  "iq_width_of w = (if w = 0 then 16 else w)"

definition bfw_bytes :: "cp_dev \<Rightarrow> u8 \<Rightarrow> nat" where
  "bfw_bytes v w = bits_to_bytes (unat (totalBfWeights v) * unat w * 2)"

text \<open>A word at a place, in the byte order of the machine; it is written back.\<close>

definition turn32 :: "dpdk_pkt \<Rightarrow> nat \<Rightarrow> rte_mbuf \<Rightarrow> (u32 \<times> rte_mbuf) outcome" where
  "turn32 d off m = obind (peek m off 4) (\<lambda>b. let w = rte_cpu_to_be_32 d (of_le32 b) in obind (poke off (le32 w) m) (\<lambda>m. Done (w, m)))"

definition turn64 :: "dpdk_pkt \<Rightarrow> nat \<Rightarrow> rte_mbuf \<Rightarrow> (u64 \<times> rte_mbuf) outcome" where
  "turn64 d off m = obind (peek m off 8) (\<lambda>b. let w = rte_cpu_to_be_64 d (of_le64 b) in obind (poke off (le64 w) m) (\<lambda>m. Done (w, m)))"

section \<open>Parsers\<close>

text \<open>With beam-space compression the mask, which nothing has set, is copied over the packet.\<close>

definition xran_parse_section_ext1 :: "cp_dev \<Rightarrow> nat \<Rightarrow> rte_mbuf \<Rightarrow> ext1_recv parsed" where
  "xran_parse_section_ext1 v off m =
     obind (peek m off 3) (\<lambda>b.
     let meth = get_bits 0 4 (b ! 2); w = iq_width_of (get_bits 4 4 (b ! 2))
     in obind (if meth = XRAN_BFWCOMPMETHOD_BLKFLOAT then obind (peek m (off + 3) 1) (\<lambda>c. Done (1, Some (and (c ! 0) 0x0f)))
               else if meth = XRAN_BFWCOMPMETHOD_BLKSCALE \<or> meth = XRAN_BFWCOMPMETHOD_ULAW then obind (peek m (off + 3) 1) (\<lambda>c. Done (1, Some (c ! 0)))
               else if meth = XRAN_BFWCOMPMETHOD_BEAMSPACE then (if totalBfWeights v = 0 then Done (0, None) else Undefined)
               else Done (0, None)) (\<lambda>(parm, p).
        Done (unat (b ! 1) * XRAN_SECTIONEXT_ALIGN,
          \<lparr>r1_bfwNumber = ucast (totalBfWeights v), r1_bfwCompMeth = meth, r1_bfwIqWidth = w, r1_bfwCompParam = p,
           r1_p_bfwIQ = data_off m + off + 3, r1_bfwIQ_sz = int16 (int (parm + bfw_bytes v w))\<rparr>, m)))"

text \<open>The attributes from the last to the first.\<close>

fun ext2_split :: "u8 list \<Rightarrow> u32 \<Rightarrow> (u8 \<times> u8 option) list outcome" where
  "ext2_split [] val = Done []"
| "ext2_split (w # ws) val =
     (if w = 0 then obind (ext2_split ws val) (\<lambda>as. Done (as @ [(w, None)]))
      else obind (at bitmask (unat w)) (\<lambda>k.
           obind (ext2_split ws (drop_bit (unat w + 1) val)) (\<lambda>as. Done (as @ [(w, Some (ucast (and val (ucast k))))]))))"

definition width_bits :: "u8 \<Rightarrow> nat" where
  "width_bits w = (if w = 0 then 0 else unat w + 1)"

definition xran_parse_section_ext2 :: "dpdk_pkt \<Rightarrow> nat \<Rightarrow> rte_mbuf \<Rightarrow> ext2_recv parsed" where
  "xran_parse_section_ext2 d off m =
     obind (turn32 d off m) (\<lambda>(h, m).
     let ws = [ucast (get_bits 11 3 h), ucast (get_bits 8 3 h), ucast (get_bits 3 3 h), ucast (get_bits 0 3 h)];
         n = sum_list (map width_bits ws)
     in obind (if n = 0 then ext2_split (rev ws) 0
               else obind (peek m (off + 4) 4) (\<lambda>b. ext2_split (rev ws) (drop_bit (32 - n) (rte_cpu_to_be_32 d (of_le32 b))))) (\<lambda>as.
        obind (peek m (off + 4 + bits_to_bytes n) 1) (\<lambda>c.
        Done (unat (get_bits 16 8 h) * XRAN_SECTIONEXT_ALIGN,
          \<lparr>r2_attributes = as, r2_bfAzSI = and (drop_bit 3 (c ! 0)) 0x07, r2_bfZeSI = and (c ! 0) 0x07\<rparr>, m))))"

definition read_beam :: "dpdk_pkt \<Rightarrow> nat \<Rightarrow> rte_mbuf \<Rightarrow> u16 outcome" where
  "read_beam d off m = obind (peek m off 2) (\<lambda>b. Done (rte_cpu_to_be_16 d (of_le16 b)))"

definition parse_ext3_first :: "dpdk_pkt \<Rightarrow> bool \<Rightarrow> nat \<Rightarrow> rte_mbuf \<Rightarrow> ext3_recv option parsed" where
  "parse_ext3_first d four off m =
     obind (turn64 d off m) (\<lambda>(h, m).
     obind (read_beam d (off + 10) m) (\<lambda>b1.
     obind (if four then obind (read_beam d (off + 12) m) (\<lambda>b2. obind (read_beam d (off + 14) m) (\<lambda>b3. Done (Some (b2, b3)))) else Done None) (\<lambda>b23.
     Done (unat (get_bits 48 8 h) * XRAN_SECTIONEXT_ALIGN,
       Some \<lparr>r3_codebookIdx = ucast (get_bits 40 8 h), r3_layerId = ucast (get_bits 36 4 h), r3_numLayers = ucast (get_bits 32 4 h),
         r3_first = Some \<lparr>r3_txScheme = ucast (get_bits 28 4 h), r3_crsReMask = ucast (get_bits 16 12 h), r3_crsShift = ucast (get_bits 15 1 h),
           r3_crsSymNum = ucast (get_bits 8 4 h), r3_beamIdAP1 = b1, r3_beamIdAP23 = b23, r3_numAntPort = if four then 4 else 2\<rparr>\<rparr>, m))))"

definition xran_parse_section_ext3 :: "dpdk_pkt \<Rightarrow> nat \<Rightarrow> rte_mbuf \<Rightarrow> ext3_recv option parsed" where
  "xran_parse_section_ext3 d off m =
     obind (peek m (off + 1) 1) (\<lambda>b.
     if b ! 0 = 1 then
       obind (turn32 d off m) (\<lambda>(h, m).
       Done (unat (get_bits 16 8 h) * XRAN_SECTIONEXT_ALIGN,
         Some \<lparr>r3_codebookIdx = ucast (get_bits 8 8 h), r3_layerId = ucast (get_bits 4 4 h), r3_numLayers = ucast (get_bits 0 4 h), r3_first = None\<rparr>, m))
     else if b ! 0 = 3 \<or> b ! 0 = 4 then parse_ext3_first d (b ! 0 = 4) off m
     else Done (0, None, m))"

definition xran_parse_section_ext4 :: "dpdk_pkt \<Rightarrow> nat \<Rightarrow> rte_mbuf \<Rightarrow> xran_sectionext4_info parsed" where
  "xran_parse_section_ext4 d off m =
     obind (turn32 d off m) (\<lambda>(h, m).
     Done (unat (get_bits 16 8 h) * XRAN_SECTIONEXT_ALIGN, \<lparr>csf = ucast (get_bits 15 1 h), modCompScaler = ucast (get_bits 0 15 h)\<rparr>, m))"

text \<open>Two sets at a time, of which the second may not be there.  A length of 0 makes the number of sets wrap to a
  negative one, so that none is read.\<close>

fun ext5_pairs :: "dpdk_pkt \<Rightarrow> nat \<Rightarrow> nat \<Rightarrow> rte_mbuf \<Rightarrow> modcomp_set list outcome" where
  "ext5_pairs d 0 off m = Done []"
| "ext5_pairs d (Suc n) off m =
     obind (peek m off 8) (\<lambda>b.
     let w = rte_cpu_to_be_64 d (of_le64 b);
         s1 = \<lparr>mc_csf = ucast (get_bits 51 1 w), mcScaleReMask = ucast (get_bits 52 12 w), mcScaleOffset = ucast (get_bits 36 15 w)\<rparr>;
         s2 = \<lparr>mc_csf = ucast (get_bits 23 1 w), mcScaleReMask = ucast (get_bits 24 12 w), mcScaleOffset = ucast (get_bits 8 15 w)\<rparr>
     in obind (ext5_pairs d n (off + 8) m) (\<lambda>xs. Done (s1 # s2 # xs)))"

definition xran_parse_section_ext5 :: "dpdk_pkt \<Rightarrow> nat \<Rightarrow> rte_mbuf \<Rightarrow> ext5_recv parsed" where
  "xran_parse_section_ext5 d off m =
     obind (peek m off 2) (\<lambda>b.
     let h = rte_cpu_to_be_16 d (of_le16 b); len = unat (get_bits 0 8 h) * XRAN_SECTIONEXT_ALIGN;
         n = min ((len - 2) * 2 div 7) XRAN_MAX_MODCOMP_ADDPARMS
     in obind (poke off (le16 h) m) (\<lambda>m.
        obind (ext5_pairs d ((n + 1) div 2) (off + 2) m) (\<lambda>xs.
        Done (len, \<lparr>r5_num_sets = (if xs = [] then None
            else Some (if mc_csf (last xs) = 0 \<and> mcScaleReMask (last xs) = 0 then length xs - 1 else length xs)), r5_mc = xs\<rparr>, m))))"

definition xran_parse_section_ext6 :: "dpdk_pkt \<Rightarrow> nat \<Rightarrow> rte_mbuf \<Rightarrow> xran_sectionext6_info parsed" where
  "xran_parse_section_ext6 d off m =
     obind (turn64 d off m) (\<lambda>(h, m).
     Done (unat (get_bits 48 8 h) * XRAN_SECTIONEXT_ALIGN,
       \<lparr>rbgSize = ucast (get_bits 44 3 h), symbolMask = ucast (get_bits 0 14 h), rbgMask = ucast (get_bits 16 28 h)\<rparr>, m))"

text \<open>The technology that the pattern of the slots demands is looked up and only reported; a period of 0 is a
  division by zero.\<close>

definition xran_parse_section_ext9 :: "dpdk_pkt \<Rightarrow> u32 \<Rightarrow> u8 \<Rightarrow> u8 list \<Rightarrow> nat \<Rightarrow> rte_mbuf \<Rightarrow> xran_sectionext9_info parsed" where
  "xran_parse_section_ext9 d tti period tech off m =
     obind (turn32 d off m) (\<lambda>(h, m).
     if period = 0 then Undefined
     else obind (at tech (unat tti mod unat period)) (\<lambda>_.
          Done (unat (get_bits 16 8 h) * XRAN_SECTIONEXT_ALIGN, \<lparr>technology_id = ucast (get_bits 8 8 h), ext9_reserved = ucast (get_bits 0 8 h)\<rparr>, m)))"

fun read_beams :: "dpdk_pkt \<Rightarrow> nat \<Rightarrow> nat \<Rightarrow> rte_mbuf \<Rightarrow> u16 list outcome" where
  "read_beams d 0 off m = Done []"
| "read_beams d (Suc n) off m = obind (read_beam d off m) (\<lambda>b. obind (read_beams d n (off + 2) m) (\<lambda>bs. Done (b # bs)))"

definition xran_parse_section_ext10 :: "dpdk_pkt \<Rightarrow> nat \<Rightarrow> rte_mbuf \<Rightarrow> xran_sectionext10_info parsed" where
  "xran_parse_section_ext10 d off m =
     obind (peek m off 3) (\<lambda>b.
     let n = get_bits 0 6 (b ! 2); ty = get_bits 6 2 (b ! 2)
     in obind (if ty = XRAN_BEAMGT_VECTORLIST then read_beams d (unat n) (off + 3) m else Done []) (\<lambda>bs.
        Done (unat (b ! 1) * XRAN_SECTIONEXT_ALIGN, \<lparr>numPortc = n, beamGrpType = ty, beamIDs = bs\<rparr>, m)))"

text \<open>Bundles while there are more than four bytes left; there is room for 64.\<close>

function ext11_bundles :: "dpdk_pkt \<Rightarrow> cp_dev \<Rightarrow> u8 \<Rightarrow> u8 \<Rightarrow> nat \<Rightarrow> nat \<Rightarrow> nat \<Rightarrow> nat \<Rightarrow> rte_mbuf \<Rightarrow> ext11_bundle list outcome" where
  "ext11_bundles d v meth w k len lim off m =
     (if \<not> len + 4 < lim then Done []
      else if k \<ge> XRAN_MAX_SET_BFWS then Undefined
      else let parm = (if meth = XRAN_BFWCOMPMETHOD_BLKFLOAT then 1 else 0); iq = bfw_bytes v w
           in obind (if parm = 1 then obind (peek m (off + len) 1) (\<lambda>c. Done (Some (and (c ! 0) 0x0f))) else Done None) (\<lambda>e.
              obind (read_beam d (off + len + parm) m) (\<lambda>b.
              if stray_pBFWs v k then Undefined
              else obind (ext11_bundles d v meth w (Suc k) (len + parm + 2 + iq) lim off m) (\<lambda>bs.
                   Done (\<lparr>bd_exponent = e, bd_beamId = b, bd_BFWSize = iq\<rparr> # bs)))))"
  by auto
termination by (relation "measure (\<lambda>(d, v, meth, w, k, len, lim, off, m). lim - len)") auto

definition xran_parse_section_ext11 :: "dpdk_pkt \<Rightarrow> cp_dev \<Rightarrow> nat \<Rightarrow> rte_mbuf \<Rightarrow> ext11_recv parsed" where
  "xran_parse_section_ext11 d v off m =
     obind (turn32 d off m) (\<lambda>(h, m).
     obind (peek m (off + 4) 2) (\<lambda>b.
     let len = unat (get_bits 8 16 h) * XRAN_SECTIONEXT_ALIGN; meth = get_bits 0 4 (b ! 1); w = iq_width_of (get_bits 4 4 (b ! 1))
     in obind (ext11_bundles d v meth w 0 6 len off m) (\<lambda>bs.
        Done (len, \<lparr>r11_RAD = ucast (get_bits 6 1 h), r11_disableBFWs = ucast (get_bits 7 1 h), r11_numBundPrb = b ! 0,
          r11_bfwCompMeth = meth, r11_bfwIqWidth = w, r11_bundInfo = bs\<rparr>, m))))"

section \<open>The extensions of a section\<close>

definition parsed_as :: "('a \<Rightarrow> xran_ext_recv) \<Rightarrow> 'a parsed \<Rightarrow> xran_ext_recv parsed" where
  "parsed_as f r = obind r (\<lambda>(n, x, m). Done (n, f x, m))"

definition parse_ext :: "dpdk_pkt \<Rightarrow> cp_dev \<Rightarrow> u32 \<Rightarrow> u8 \<Rightarrow> u8 list \<Rightarrow> u8 \<Rightarrow> nat \<Rightarrow> rte_mbuf \<Rightarrow> xran_ext_recv parsed" where
  "parse_ext d v tti period tech ty off m =
     (if ty = 1 then parsed_as Rx1 (xran_parse_section_ext1 v off m)
      else if ty = 2 then parsed_as Rx2 (xran_parse_section_ext2 d off m)
      else if ty = 3 then parsed_as Rx3 (xran_parse_section_ext3 d off m)
      else if ty = 4 then parsed_as Rx4 (xran_parse_section_ext4 d off m)
      else if ty = 5 then parsed_as Rx5 (xran_parse_section_ext5 d off m)
      else if ty = 6 then parsed_as Rx6 (xran_parse_section_ext6 d off m)
      else if ty = 9 then parsed_as Rx9 (xran_parse_section_ext9 d tti period tech off m)
      else if ty = 10 then parsed_as Rx10 (xran_parse_section_ext10 d off m)
      else if ty = 11 then parsed_as Rx11 (xran_parse_section_ext11 d v off m)
      else Done (0, Rx_none, m))"

text \<open>At most \<open>n\<close> more extensions; the result are their types, sizes and contents, the bytes they take, and
  how many of them are of type 1.\<close>

fun parse_exts :: "dpdk_pkt \<Rightarrow> cp_dev \<Rightarrow> u32 \<Rightarrow> u8 \<Rightarrow> u8 list \<Rightarrow> nat \<Rightarrow> nat \<Rightarrow> rte_mbuf
    \<Rightarrow> ((u8 \<times> nat \<times> xran_ext_recv) list \<times> nat \<times> rte_mbuf) outcome" where
  "parse_exts d v tti period tech 0 off m = Done ([], 0, m)"
| "parse_exts d v tti period tech (Suc n) off m =
     obind (peek m off 1) (\<lambda>b.
     let more = and (b ! 0) 0x80 \<noteq> 0; ty = and (b ! 0) 0x7f
     in obind (parse_ext d v tti period tech ty off m) (\<lambda>(len, x, m).
        if more then obind (parse_exts d v tti period tech n (off + len) m) (\<lambda>(xs, k, m). Done ((ty, len, x) # xs, len + k, m))
        else Done ([(ty, len, x)], len, m)))"

end
