(* ===== verification/Xran_Sectiondb.thy ===== *)
theory Xran_Sectiondb
  imports Xran_Cplane
begin

text \<open>
  The section database of \<open>lib/src/xran_cp_api.c\<close>: for every port, numerology, context, direction, carrier
  and antenna a list of up to 32 sections that the control plane announced.  Memory comes from
  \<open>xran_zmalloc\<close>, whose \<open>k\<close>-th call succeeds when \<open>zm k\<close> does.
\<close>

section \<open>State\<close>

definition XRAN_MAX_SECTIONDB_CTX :: nat where "XRAN_MAX_SECTIONDB_CTX = 4"
definition XRAN_DIR_MAX :: nat where "XRAN_DIR_MAX = 2"
definition XRAN_COMPONENT_CARRIERS_MAX :: nat where "XRAN_COMPONENT_CARRIERS_MAX = XRAN_MAX_SECTOR_NR"
definition XRAN_MAX_NUM_SECTIONS :: nat where "XRAN_MAX_NUM_SECTIONS = 32"
definition XRAN_MAX_SECTIONDB_ANT :: nat where "XRAN_MAX_SECTIONDB_ANT = XRAN_MAX_ANTENNA_NR * 2 + XRAN_MAX_ANT_ARRAY_ELM_NR"
definition XRAN_STATUS_FAIL :: int where "XRAN_STATUS_FAIL = -1"
definition XRAN_STATUS_FATAL :: int where "XRAN_STATUS_FATAL = -5"

record xran_sectioninfo_db =
  cur_index :: u32
  db_list :: "xran_section_info list"

type_synonym db_elm = "nat \<times> nat \<times> nat \<times> nat"
type_synonym section_db = "db_elm \<Rightarrow> xran_sectioninfo_db option"

text \<open>The databases by port and numerology, and the number of calls of the allocator.\<close>

record p_sectiondb =
  sec_dbs :: "nat \<times> nat \<Rightarrow> section_db option"
  zmallocs :: nat

record db_cfg =
  db_port :: nat
  db_mus :: "nat list"
  db_nCC :: int
  db_neAxc :: int
  db_nAntElmTRx :: int
  ssbMu :: nat

definition zero_desc :: xran_section_desc where
  "zero_desc = \<lparr>section_id = 0, iq_buffer_offset = 0, iq_buffer_len = 0\<rparr>"

definition zero_section :: xran_section_info where
  "zero_section = \<lparr>sec_desc = replicate XRAN_NUM_OF_SYMBOL_PER_SLOT zero_desc, freqOffset = 0, startPrbc = 0, numPrbc = 0, sect_type = 0,
     startSymId = 0, numSymbol = 0, beamId = 0, sect_no = 0, reMask = 0, symInc = 0, rbInd = 0, ext_flag = 0, prbElemBegin = False,
     prbElemEnd = False, sect_compMeth = 0, sect_iqWidth = 0\<rparr>"

definition zero_db :: xran_sectioninfo_db where
  "zero_db = \<lparr>cur_index = 0, db_list = replicate XRAN_MAX_NUM_SECTIONS zero_section\<rparr>"

section \<open>Allocation\<close>

text \<open>The elements in the order of the loops; the numbers of carriers and antennas are signed.\<close>

definition db_elms :: "int \<Rightarrow> int \<Rightarrow> db_elm list" where
  "db_elms nCC nAnt = concat (map (\<lambda>ctx. concat (map (\<lambda>dir. concat (map (\<lambda>cc. map (\<lambda>ant. (ctx, dir, cc, ant))
     [0..<min (nat nAnt) XRAN_MAX_SECTIONDB_ANT]) [0..<min (nat nCC) XRAN_COMPONENT_CARRIERS_MAX])) [0..<XRAN_DIR_MAX])) [0..<XRAN_MAX_SECTIONDB_CTX])"

fun alloc_elms :: "(nat \<Rightarrow> bool) \<Rightarrow> db_elm list \<Rightarrow> nat \<Rightarrow> section_db \<Rightarrow> int \<times> nat \<times> section_db" where
  "alloc_elms zm [] k db = (XRAN_STATUS_SUCCESS, k, db)"
| "alloc_elms zm (p # ps) k db =
     (if zm k then alloc_elms zm ps (Suc k) (db(p := Some zero_db)) else (XRAN_STATUS_RESOURCE, Suc k, db))"

definition xran_alloc_sectioninfo_db :: "(nat \<Rightarrow> bool) \<Rightarrow> int \<Rightarrow> int \<Rightarrow> nat \<Rightarrow> section_db \<Rightarrow> int \<times> nat \<times> section_db" where
  "xran_alloc_sectioninfo_db zm nCC nAnt k db = alloc_elms zm (db_elms nCC nAnt) k db"

text \<open>A new database stays in its place when the allocation of its elements fails.\<close>

definition alloc_section_db :: "(nat \<Rightarrow> bool) \<Rightarrow> nat \<times> nat \<Rightarrow> int \<Rightarrow> int \<Rightarrow> p_sectiondb \<Rightarrow> int \<times> p_sectiondb" where
  "alloc_section_db zm pm nCC nAnt s =
     (if \<not> zm (zmallocs s) then (XRAN_STATUS_RESOURCE, s\<lparr>zmallocs := Suc (zmallocs s)\<rparr>)
      else case xran_alloc_sectioninfo_db zm nCC nAnt (Suc (zmallocs s)) (\<lambda>_. None) of (r, k, db) \<Rightarrow>
        (if r = XRAN_STATUS_SUCCESS then XRAN_STATUS_SUCCESS else XRAN_STATUS_FAIL, s\<lparr>sec_dbs := (sec_dbs s)(pm := Some db), zmallocs := k\<rparr>))"

fun init_mus :: "(nat \<Rightarrow> bool) \<Rightarrow> db_cfg \<Rightarrow> nat list \<Rightarrow> p_sectiondb \<Rightarrow> int \<times> p_sectiondb" where
  "init_mus zm c [] s = (XRAN_STATUS_SUCCESS, s)"
| "init_mus zm c (mu # mus) s =
     (if sec_dbs s (db_port c, mu) \<noteq> None then init_mus zm c mus s
      else case alloc_section_db zm (db_port c, mu) (db_nCC c) (db_neAxc c * 4 + db_nAntElmTRx c) s of (r, s) \<Rightarrow>
        if r = XRAN_STATUS_SUCCESS then init_mus zm c mus s else (r, s))"

definition xran_cp_init_sectiondb :: "(nat \<Rightarrow> bool) \<Rightarrow> db_cfg option \<Rightarrow> p_sectiondb \<Rightarrow> int \<times> p_sectiondb" where
  "xran_cp_init_sectiondb zm h s = (case h of None \<Rightarrow> (XRAN_STATUS_FAIL, s) | Some c \<Rightarrow> init_mus zm c (db_mus c) s)"

definition xran_cp_init_vMu_sectiondb :: "(nat \<Rightarrow> bool) \<Rightarrow> db_cfg option \<Rightarrow> nat \<Rightarrow> int \<Rightarrow> p_sectiondb \<Rightarrow> int \<times> p_sectiondb" where
  "xran_cp_init_vMu_sectiondb zm h vMu nAnt s =
     (case h of None \<Rightarrow> (XRAN_STATUS_FAIL, s)
      | Some c \<Rightarrow> if sec_dbs s (db_port c, vMu) = None then alloc_section_db zm (db_port c, vMu) (db_nCC c) nAnt s
                 else (XRAN_STATUS_FATAL, s))"

text \<open>The elements are freed with their database.\<close>

definition drop_db :: "nat \<times> nat \<Rightarrow> p_sectiondb \<Rightarrow> p_sectiondb" where
  "drop_db pm s = s\<lparr>sec_dbs := (sec_dbs s)(pm := None)\<rparr>"

definition xran_cp_free_sectiondb :: "db_cfg option \<Rightarrow> p_sectiondb \<Rightarrow> int \<times> p_sectiondb" where
  "xran_cp_free_sectiondb h s =
     (case h of None \<Rightarrow> (XRAN_STATUS_FAIL, s)
      | Some c \<Rightarrow>
          let s = foldl (\<lambda>s mu. drop_db (db_port c, mu) s) s (db_mus c)
          in (XRAN_STATUS_SUCCESS, if ssbMu c = 4 \<and> db_mus c = [3] then drop_db (db_port c, 4) s else s))"

section \<open>Access\<close>

text \<open>A port without a handle, and indices that are out of range, have no element; the numerology is not
  checked.\<close>

type_synonym db_key = "nat option \<times> u8 \<times> u8 \<times> u8 \<times> u8 \<times> u8"

fun key_place :: "db_key \<Rightarrow> (nat \<times> nat) \<times> db_elm" where
  "key_place (h, dir, cc, ru, ctx, mu) = ((the h, unat mu), (unat ctx, unat dir, unat cc, unat ru))"

fun xran_get_section_db :: "p_sectiondb \<Rightarrow> db_key \<Rightarrow> xran_sectioninfo_db option outcome" where
  "xran_get_section_db s (h, dir, cc, ru, ctx, mu) =
     (case h of None \<Rightarrow> Done None
      | Some port \<Rightarrow>
          if port \<ge> XRAN_PORTS_NUM then Done None
          else if unat mu \<ge> XRAN_MAX_NUM_MU then Undefined
          else case sec_dbs s (port, unat mu) of None \<Rightarrow> Done None
               | Some db \<Rightarrow>
                   if unat ctx \<ge> XRAN_MAX_SECTIONDB_CTX \<or> unat dir \<ge> XRAN_DIR_MAX \<or> unat cc \<ge> XRAN_COMPONENT_CARRIERS_MAX
                     \<or> unat ru \<ge> XRAN_MAX_SECTIONDB_ANT then Done None
                   else Done (db (unat ctx, unat dir, unat cc, unat ru)))"

definition set_elm :: "db_key \<Rightarrow> xran_sectioninfo_db \<Rightarrow> p_sectiondb \<Rightarrow> p_sectiondb" where
  "set_elm key x s = (case key_place key of (pm, e) \<Rightarrow>
     s\<lparr>sec_dbs := (sec_dbs s)(pm := map_option (\<lambda>db. db(e := Some x)) (sec_dbs s pm))\<rparr>)"

definition xran_get_section_info :: "xran_sectioninfo_db option \<Rightarrow> u16 \<Rightarrow> xran_section_info option outcome" where
  "xran_get_section_info p i =
     (case p of None \<Rightarrow> Done None
      | Some x \<Rightarrow> if unat i \<ge> XRAN_MAX_NUM_SECTIONS then Done None else obind (at (db_list x) (unat i)) (\<lambda>e. Done (Some e)))"

definition put_section :: "nat \<Rightarrow> xran_section_info \<Rightarrow> xran_sectioninfo_db \<Rightarrow> xran_sectioninfo_db" where
  "put_section i e x = x\<lparr>db_list := (db_list x)[i := e]\<rparr>"

definition xran_cp_add_section_info :: "db_key \<Rightarrow> xran_section_info \<Rightarrow> p_sectiondb \<Rightarrow> (int \<times> p_sectiondb) outcome" where
  "xran_cp_add_section_info key info s =
     obind (xran_get_section_db s key) (\<lambda>p.
     case p of None \<Rightarrow> Done (XRAN_STATUS_INVALID_PARAM, s)
     | Some x \<Rightarrow>
         if unat (cur_index x) \<ge> XRAN_MAX_NUM_SECTIONS then Done (XRAN_STATUS_RESOURCE, s)
         else obind (xran_get_section_info p (ucast (cur_index x))) (\<lambda>e.
              case e of None \<Rightarrow> Done (XRAN_STATUS_INVALID_PARAM, s)
              | Some _ \<Rightarrow> Done (XRAN_STATUS_SUCCESS,
                  set_elm key ((put_section (unat (cur_index x)) info x)\<lparr>cur_index := cur_index x + 1\<rparr>) s)))"

text \<open>The entries from the last one to the first.\<close>

fun check_entries :: "xran_sectioninfo_db \<Rightarrow> u32 \<Rightarrow> nat \<Rightarrow> nat option outcome" where
  "check_entries x prb_id 0 = Done None"
| "check_entries x prb_id (Suc i) =
     obind (xran_get_section_info (Some x) (of_nat i)) (\<lambda>e.
     case e of Some e \<Rightarrow> if ucast (startPrbc e) * 100 + ucast (sect_no e) = prb_id then Done (Some i) else check_entries x prb_id i
     | None \<Rightarrow> check_entries x prb_id i)"

text \<open>A pointer to an entry is its index.\<close>

definition xran_cp_check_db_entry :: "db_key \<Rightarrow> u32 \<Rightarrow> p_sectiondb \<Rightarrow> nat option outcome" where
  "xran_cp_check_db_entry key prb_id s =
     obind (xran_get_section_db s key) (\<lambda>p.
     case p of None \<Rightarrow> Done None | Some x \<Rightarrow> check_entries x prb_id (unat (cur_index x)))"

definition xran_cp_get_section_info_ptr :: "db_key \<Rightarrow> p_sectiondb \<Rightarrow> (nat option \<times> p_sectiondb) outcome" where
  "xran_cp_get_section_info_ptr key s =
     obind (xran_get_section_db s key) (\<lambda>p.
     case p of None \<Rightarrow> Done (None, s)
     | Some x \<Rightarrow>
         if unat (cur_index x) \<ge> XRAN_MAX_NUM_SECTIONS then Done (None, s)
         else obind (xran_get_section_info p (ucast (cur_index x))) (\<lambda>e.
              case e of None \<Rightarrow> Done (None, s)
              | Some _ \<Rightarrow> Done (Some (unat (cur_index x)), set_elm key (x\<lparr>cur_index := cur_index x + 1\<rparr>) s)))"

text \<open>An index behind the last entry is reported and used all the same.\<close>

definition xran_cp_find_section_info :: "db_key \<Rightarrow> u16 \<Rightarrow> p_sectiondb \<Rightarrow> xran_section_info option outcome" where
  "xran_cp_find_section_info key sid s =
     obind (xran_get_section_db s key) (\<lambda>p.
     case p of None \<Rightarrow> Done None | Some x \<Rightarrow> xran_get_section_info (Some x) sid)"

definition xran_cp_reset_section_info :: "db_key \<Rightarrow> p_sectiondb \<Rightarrow> (int \<times> p_sectiondb) outcome" where
  "xran_cp_reset_section_info key s =
     obind (xran_get_section_db s key) (\<lambda>p.
     case p of None \<Rightarrow> Done (XRAN_STATUS_INVALID_PARAM, s)
     | Some x \<Rightarrow> Done (XRAN_STATUS_SUCCESS, set_elm key (x\<lparr>cur_index := 0\<rparr>) s))"

section \<open>A list per antenna\<close>

definition db_wf :: "p_sectiondb \<Rightarrow> bool" where
  "db_wf s \<longleftrightarrow> (\<forall>pm db e x. sec_dbs s pm = Some db \<longrightarrow> db e = Some x \<longrightarrow>
     length (db_list x) = XRAN_MAX_NUM_SECTIONS \<and> unat (cur_index x) \<le> XRAN_MAX_NUM_SECTIONS)"

definition stored :: "p_sectiondb \<Rightarrow> db_key \<Rightarrow> xran_section_info list option" where
  "stored s key = (case xran_get_section_db s key of Done (Some x) \<Rightarrow> Some (take (unat (cur_index x)) (db_list x)) | _ \<Rightarrow> None)"

definition key_ok :: "db_key \<Rightarrow> bool" where
  "key_ok key \<longleftrightarrow> (case key of (h, dir, cc, ru, ctx, mu) \<Rightarrow> unat mu < XRAN_MAX_NUM_MU)"

lemma get_db_cases:
  assumes "key_ok key"
  obtains "xran_get_section_db s key = Done None" "stored s key = None"
  | x db where "xran_get_section_db s key = Done (Some x)" "stored s key = Some (take (unat (cur_index x)) (db_list x))"
      "sec_dbs s (fst (key_place key)) = Some db" "db (snd (key_place key)) = Some x"
proof -
  obtain h dir cc ru ctx mu where k: "key = (h, dir, cc, ru, ctx, mu)" by (cases key)
  have mu: "\<not> XRAN_MAX_NUM_MU \<le> unat mu" using assms by (simp add: key_ok_def k)
  show ?thesis
  proof (cases "xran_get_section_db s key")
    case (Done r)
    then show ?thesis
    proof (cases r)
      case None
      then show ?thesis using that(1) Done by (simp add: stored_def)
    next
      case (Some x)
      then have "\<exists>db. sec_dbs s (fst (key_place key)) = Some db \<and> db (snd (key_place key)) = Some x"
        using Done mu by (auto simp: k split: option.split_asm if_split_asm)
      then show ?thesis using that(2) Done Some by (auto simp: stored_def)
    qed
  qed (use mu in \<open>auto simp: k split: option.split_asm if_split_asm\<close>)
qed

lemma key_place_inj:
  "key_place (Some p, dir, cc, ru, ctx, mu) = key_place (Some p', dir', cc', ru', ctx', mu')
    \<longleftrightarrow> p = p' \<and> dir = dir' \<and> cc = cc' \<and> ru = ru' \<and> ctx = ctx' \<and> mu = mu'"
  by (auto simp: word_unat_eq_iff)

lemma get_db_set_elm:
  assumes "xran_get_section_db s key = Done (Some x)"
  shows "xran_get_section_db (set_elm key y s) key' = (if key' = key then Done (Some y) else xran_get_section_db s key')"
proof -
  obtain h dir cc ru ctx mu where k: "key = (h, dir, cc, ru, ctx, mu)" by (cases key)
  obtain h' dir' cc' ru' ctx' mu' where k': "key' = (h', dir', cc', ru', ctx', mu')" by (cases key')
  show ?thesis
  proof (cases h')
    case None
    then show ?thesis using assms by (auto simp: k k')
  next
    case (Some p')
    show ?thesis using assms
      by (auto simp: k k' Some set_elm_def word_unat_eq_iff split: option.split_asm if_split_asm option.split if_split)
  qed
qed

lemma stored_set_elm:
  assumes "xran_get_section_db s key = Done (Some x)"
  shows "stored (set_elm key y s) = (stored s)(key \<mapsto> take (unat (cur_index y)) (db_list y))"
  by (rule ext) (simp add: stored_def get_db_set_elm [OF assms])

lemma db_wf_set_elm:
  assumes "db_wf s" "length (db_list y) = XRAN_MAX_NUM_SECTIONS" "unat (cur_index y) \<le> XRAN_MAX_NUM_SECTIONS"
  shows "db_wf (set_elm key y s)"
  using assms by (auto simp: db_wf_def set_elm_def split: prod.split if_split_asm)

text \<open>What the database promises: for every key that has one, a list that takes up to 32 sections, is
  emptied by a reset, and is searched from its end.\<close>

type_synonym section_log = "db_key \<Rightarrow> xran_section_info list option"

datatype section_op = Add_section db_key xran_section_info | Reset_sections db_key | Check_section db_key u32

datatype section_answer = Status int | Entry "nat option"

fun op_key :: "section_op \<Rightarrow> db_key" where
  "op_key (Add_section k e) = k"
| "op_key (Reset_sections k) = k"
| "op_key (Check_section k i) = k"

definition has_prb_id :: "u32 \<Rightarrow> xran_section_info \<Rightarrow> bool" where
  "has_prb_id i e \<longleftrightarrow> ucast (startPrbc e) * 100 + ucast (sect_no e) = i"

definition newest :: "(xran_section_info \<Rightarrow> bool) \<Rightarrow> xran_section_info list \<Rightarrow> nat option" where
  "newest P xs = (let is = filter (\<lambda>i. P (xs ! i)) [0..<length xs] in if is = [] then None else Some (last is))"

fun log_op :: "section_op \<Rightarrow> section_log \<Rightarrow> section_answer \<times> section_log" where
  "log_op (Add_section k e) L =
     (case L k of None \<Rightarrow> (Status XRAN_STATUS_INVALID_PARAM, L)
      | Some xs \<Rightarrow> if length xs < XRAN_MAX_NUM_SECTIONS then (Status XRAN_STATUS_SUCCESS, L(k \<mapsto> xs @ [e])) else (Status XRAN_STATUS_RESOURCE, L))"
| "log_op (Reset_sections k) L =
     (case L k of None \<Rightarrow> (Status XRAN_STATUS_INVALID_PARAM, L) | Some xs \<Rightarrow> (Status XRAN_STATUS_SUCCESS, L(k \<mapsto> [])))"
| "log_op (Check_section k i) L = (Entry (case L k of None \<Rightarrow> None | Some xs \<Rightarrow> newest (has_prb_id i) xs), L)"

fun db_op :: "section_op \<Rightarrow> p_sectiondb \<Rightarrow> (section_answer \<times> p_sectiondb) outcome" where
  "db_op (Add_section k e) s = obind (xran_cp_add_section_info k e s) (\<lambda>(r, s). Done (Status r, s))"
| "db_op (Reset_sections k) s = obind (xran_cp_reset_section_info k s) (\<lambda>(r, s). Done (Status r, s))"
| "db_op (Check_section k i) s = obind (xran_cp_check_db_entry k i s) (\<lambda>r. Done (Entry r, s))"

fun run_ops :: "('o \<Rightarrow> 's \<Rightarrow> ('a \<times> 's) outcome) \<Rightarrow> 'o list \<Rightarrow> 's \<Rightarrow> ('a list \<times> 's) outcome" where
  "run_ops f [] s = Done ([], s)"
| "run_ops f (x # xs) s = obind (f x s) (\<lambda>(a, s). obind (run_ops f xs s) (\<lambda>(as, s). Done (a # as, s)))"

lemma wf_elm:
  assumes "db_wf s" "sec_dbs s pm = Some db" "db e = Some x"
  shows "length (db_list x) = XRAN_MAX_NUM_SECTIONS" "unat (cur_index x) \<le> XRAN_MAX_NUM_SECTIONS"
  using assms unfolding db_wf_def by blast+

lemma next_index: "unat (i :: u32) < 32 \<Longrightarrow> unat (i + 1) = Suc (unat i) \<and> unat (ucast i :: u16) = unat i"
  by (simp add: unat_word_ariths(1) unsigned_ucast_eq take_bit_nat_eq_self)

lemma add_section_logged:
  assumes "db_wf s" "key_ok k"
  shows "\<exists>s'. db_op (Add_section k e) s = Done (fst (log_op (Add_section k e) (stored s)), s')
    \<and> stored s' = snd (log_op (Add_section k e) (stored s)) \<and> db_wf s'"
  using assms(2)
proof (cases rule: get_db_cases [where s = s])
  case 1
  then show ?thesis using assms(1) by (simp add: xran_cp_add_section_info_def)
next
  case (2 x db)
  note w = wf_elm [OF assms(1) 2(3,4)]
  show ?thesis
  proof (cases "unat (cur_index x) < XRAN_MAX_NUM_SECTIONS")
    case True
    let ?y = "(put_section (unat (cur_index x)) e x)\<lparr>cur_index := cur_index x + 1\<rparr>"
    have i: "unat (cur_index x + 1) = Suc (unat (cur_index x))" "unat (ucast (cur_index x) :: u16) = unat (cur_index x)"
      using next_index [of "cur_index x"] True by (simp_all add: XRAN_MAX_NUM_SECTIONS_def)
    have "take (Suc (unat (cur_index x))) ((db_list x)[unat (cur_index x) := e]) = take (unat (cur_index x)) (db_list x) @ [e]"
      using True w(1) by (simp add: take_Suc_conv_app_nth)
    then show ?thesis
      using True 2 w i db_wf_set_elm [OF assms(1), of ?y k]
      by (auto simp: xran_cp_add_section_info_def xran_get_section_info_def at_def put_section_def stored_set_elm)
  next
    case False
    then show ?thesis using 2 w assms(1) by (simp add: xran_cp_add_section_info_def)
  qed
qed

lemma reset_logged:
  assumes "db_wf s" "key_ok k"
  shows "\<exists>s'. db_op (Reset_sections k) s = Done (fst (log_op (Reset_sections k) (stored s)), s')
    \<and> stored s' = snd (log_op (Reset_sections k) (stored s)) \<and> db_wf s'"
  using assms(2)
proof (cases rule: get_db_cases [where s = s])
  case 1
  then show ?thesis using assms(1) by (simp add: xran_cp_reset_section_info_def)
next
  case (2 x db)
  note w = wf_elm [OF assms(1) 2(3,4)]
  then show ?thesis using 2 db_wf_set_elm [OF assms(1), of "x\<lparr>cur_index := 0\<rparr>" k]
    by (simp add: xran_cp_reset_section_info_def stored_set_elm)
qed

lemma newest_snoc: "newest P (xs @ [x]) = (if P x then Some (length xs) else newest P xs)"
proof -
  have "filter (\<lambda>i. P ((xs @ [x]) ! i)) [0..<length xs] = filter (\<lambda>i. P (xs ! i)) [0..<length xs]"
    by (rule filter_cong) (auto simp: nth_append)
  then show ?thesis by (simp add: newest_def)
qed

lemma check_entries_newest:
  assumes "length (db_list x) = XRAN_MAX_NUM_SECTIONS"
  shows "n \<le> XRAN_MAX_NUM_SECTIONS \<Longrightarrow> check_entries x i n = Done (newest (has_prb_id i) (take n (db_list x)))"
proof (induction n)
  case 0
  then show ?case by (simp add: newest_def)
next
  case (Suc n)
  then have n: "n < XRAN_MAX_NUM_SECTIONS" by simp
  then have u: "unat (of_nat n :: u16) = n" by (simp add: unat_of_nat XRAN_MAX_NUM_SECTIONS_def)
  show ?case using n Suc.IH assms
    by (simp add: take_Suc_conv_app_nth newest_snoc xran_get_section_info_def u at_def has_prb_id_def [symmetric])
qed

lemma check_logged:
  assumes "db_wf s" "key_ok k"
  shows "db_op (Check_section k i) s = Done (fst (log_op (Check_section k i) (stored s)), s)"
  using assms(2)
proof (cases rule: get_db_cases [where s = s])
  case 1
  then show ?thesis by (simp add: xran_cp_check_db_entry_def)
next
  case (2 x db)
  then show ?thesis using wf_elm [OF assms(1) 2(3,4)] by (simp add: xran_cp_check_db_entry_def check_entries_newest)
qed

lemma op_logged:
  assumes "db_wf s" "key_ok (op_key x)"
  shows "\<exists>s'. db_op x s = Done (fst (log_op x (stored s)), s') \<and> stored s' = snd (log_op x (stored s)) \<and> db_wf s'"
proof (cases x)
  case (Add_section k e)
  then show ?thesis using add_section_logged [OF assms(1), of k e] assms(2) by simp
next
  case (Reset_sections k)
  then show ?thesis using reset_logged [OF assms(1), of k] assms(2) by simp
next
  case (Check_section k i)
  then show ?thesis using check_logged [OF assms(1), of k i] assms by simp
qed

lemma run_logged:
  "db_wf s \<Longrightarrow> list_all (key_ok \<circ> op_key) ops \<Longrightarrow>
   \<exists>as s'. run_ops db_op ops s = Done (as, s') \<and> run_ops (\<lambda>x L. Done (log_op x L)) ops (stored s) = Done (as, stored s') \<and> db_wf s'"
proof (induction ops arbitrary: s)
  case (Cons x ops)
  from Cons.prems op_logged [of s x] obtain s1 where s1: "db_op x s = Done (fst (log_op x (stored s)), s1)"
    "stored s1 = snd (log_op x (stored s))" "db_wf s1" by auto
  from Cons.IH [OF s1(3)] Cons.prems obtain as s2 where
    "run_ops db_op ops s1 = Done (as, s2)" "run_ops (\<lambda>x L. Done (log_op x L)) ops (stored s1) = Done (as, stored s2)" "db_wf s2" by auto
  then show ?case using s1 by (auto simp: case_prod_beta)
qed simp

section \<open>The fresh database\<close>

definition fresh_db :: "db_cfg \<Rightarrow> section_db" where
  "fresh_db c e = (if e \<in> set (db_elms (db_nCC c) (db_neAxc c * 4 + db_nAntElmTRx c)) then Some zero_db else None)"

lemma alloc_elms_all:
  "alloc_elms zm ps k db = (XRAN_STATUS_SUCCESS, k', db') \<Longrightarrow> db' e = (if e \<in> set ps then Some zero_db else db e)"
  by (induction ps arbitrary: k db) (auto simp: XRAN_STATUS_SUCCESS_def XRAN_STATUS_RESOURCE_def split: if_split_asm)

lemma alloc_db_fresh:
  assumes "alloc_section_db zm pm (db_nCC c) (db_neAxc c * 4 + db_nAntElmTRx c) s = (XRAN_STATUS_SUCCESS, s')"
  shows "sec_dbs s' = (sec_dbs s)(pm \<mapsto> fresh_db c)"
proof -
  from assms obtain k db where "xran_alloc_sectioninfo_db zm (db_nCC c) (db_neAxc c * 4 + db_nAntElmTRx c) (Suc (zmallocs s)) (\<lambda>_. None) = (XRAN_STATUS_SUCCESS, k, db)"
    "s' = s\<lparr>sec_dbs := (sec_dbs s)(pm := Some db), zmallocs := k\<rparr>"
    by (auto simp: alloc_section_db_def XRAN_STATUS_SUCCESS_def XRAN_STATUS_RESOURCE_def XRAN_STATUS_FAIL_def split: if_split_asm prod.split_asm)
  moreover from this(1) have "db = fresh_db c" by (intro ext) (simp add: xran_alloc_sectioninfo_db_def alloc_elms_all fresh_db_def)
  ultimately show ?thesis by simp
qed

lemma init_mus_fresh:
  assumes "init_mus zm c mus s = (XRAN_STATUS_SUCCESS, s')" "\<And>pm. sec_dbs s pm \<noteq> None \<Longrightarrow> sec_dbs s pm = Some (fresh_db c)"
  shows "sec_dbs s' pm = (if sec_dbs s pm \<noteq> None \<or> fst pm = db_port c \<and> snd pm \<in> set mus then Some (fresh_db c) else None)"
  using assms
proof (induction mus arbitrary: s)
  case Nil
  then show ?case by auto
next
  case (Cons mu mus)
  show ?case
  proof (cases "sec_dbs s (db_port c, mu) = None")
    case True
    then obtain s1 where s1: "alloc_section_db zm (db_port c, mu) (db_nCC c) (db_neAxc c * 4 + db_nAntElmTRx c) s = (XRAN_STATUS_SUCCESS, s1)"
      "init_mus zm c mus s1 = (XRAN_STATUS_SUCCESS, s')" using Cons.prems(1) by (auto split: prod.split_asm if_split_asm)
    note f = alloc_db_fresh [OF s1(1)]
    have "sec_dbs s' pm = (if sec_dbs s1 pm \<noteq> None \<or> fst pm = db_port c \<and> snd pm \<in> set mus then Some (fresh_db c) else None)"
      using Cons.prems(2) by (intro Cons.IH [OF s1(2)]) (auto simp: f split: if_split_asm)
    then show ?thesis by (cases pm) (auto simp: f)
  next
    case False
    then have "init_mus zm c mus s = (XRAN_STATUS_SUCCESS, s')" using Cons.prems(1) by simp
    from Cons.IH [OF this Cons.prems(2)] show ?thesis using False by (cases pm) auto
  qed
qed

text \<open>The keys of the carriers, antennas and numerologies that are configured.\<close>

fun configured :: "db_cfg \<Rightarrow> db_key \<Rightarrow> bool" where
  "configured c (h, dir, cc, ru, ctx, mu) \<longleftrightarrow> h = Some (db_port c) \<and> db_port c < XRAN_PORTS_NUM \<and> unat mu \<in> set (db_mus c)
     \<and> unat ctx < XRAN_MAX_SECTIONDB_CTX \<and> unat dir < XRAN_DIR_MAX \<and> int (unat cc) < db_nCC c \<and> unat cc < XRAN_COMPONENT_CARRIERS_MAX
     \<and> int (unat ru) < db_neAxc c * 4 + db_nAntElmTRx c \<and> unat ru < XRAN_MAX_SECTIONDB_ANT"

definition empty_log :: "db_cfg \<Rightarrow> section_log" where
  "empty_log c key = (if key_ok key \<and> configured c key then Some [] else None)"

lemma db_elms_iff:
  "(ctx, dir, cc, ant) \<in> set (db_elms n k) \<longleftrightarrow> ctx < XRAN_MAX_SECTIONDB_CTX \<and> dir < XRAN_DIR_MAX
     \<and> int cc < n \<and> cc < XRAN_COMPONENT_CARRIERS_MAX \<and> int ant < k \<and> ant < XRAN_MAX_SECTIONDB_ANT"
  by (simp add: db_elms_def image_iff) (auto simp: Bex_def)

lemma stored_fresh:
  assumes "\<And>pm. sec_dbs s pm = (if fst pm = db_port c \<and> snd pm \<in> set (db_mus c) then Some (fresh_db c) else None)"
  shows "stored s = empty_log c"
proof (rule ext)
  fix key :: db_key
  obtain h dir cc ru ctx mu where k: "key = (h, dir, cc, ru, ctx, mu)" by (cases key)
  show "stored s key = empty_log c key"
    by (cases h) (auto simp: k stored_def empty_log_def key_ok_def assms fresh_db_def db_elms_iff zero_db_def not_less split: outcome.split option.split)
qed

lemma initialised:
  assumes "xran_cp_init_sectiondb zm (Some c) s0 = (XRAN_STATUS_SUCCESS, s)" "sec_dbs s0 = (\<lambda>_. None)"
  shows "stored s = empty_log c" "db_wf s"
proof -
  have f: "sec_dbs s pm = (if fst pm = db_port c \<and> snd pm \<in> set (db_mus c) then Some (fresh_db c) else None)" for pm
    using init_mus_fresh [of zm c "db_mus c" s0 s pm] assms by (simp add: xran_cp_init_sectiondb_def)
  then show "stored s = empty_log c" by (rule stored_fresh)
  show "db_wf s" by (auto simp: db_wf_def f fresh_db_def zero_db_def split: if_split_asm)
qed

text \<open>C20: the database of sections is a bounded list per antenna.  After a successful initialisation, any
  sequence of additions, resets and searches is answered as by lists, one for each carrier, antenna, direction,
  context and numerology that is configured: 32 sections are taken and the next one is refused with
  \<open>XRAN_STATUS_RESOURCE\<close>, a search finds the newest section with the identifier, a key without a list is refused
  with \<open>XRAN_STATUS_INVALID_PARAM\<close>, and no operation changes the list of another key.\<close>

theorem sections_are_logged:
  assumes "xran_cp_init_sectiondb zm (Some c) s0 = (XRAN_STATUS_SUCCESS, s)" "sec_dbs s0 = (\<lambda>_. None)"
    and "list_all (key_ok \<circ> op_key) ops"
  shows "\<exists>as s'. run_ops db_op ops s = Done (as, s') \<and> run_ops (\<lambda>x L. Done (log_op x L)) ops (empty_log c) = Done (as, stored s')"
  using run_logged [OF initialised(2) [OF assms(1,2)] assms(3)] by (auto simp: initialised(1) [OF assms(1,2)])

definition demo_db_cfg :: db_cfg where
  "demo_db_cfg = \<lparr>db_port = 0, db_mus = [1], db_nCC = 2, db_neAxc = 4, db_nAntElmTRx = 0, ssbMu = 1\<rparr>"

definition demo_key :: db_key where
  "demo_key = (Some 0, 1, 1, 3, 2, 1)"

definition demo_entry :: "u16 \<Rightarrow> xran_section_info" where
  "demo_entry p = zero_section\<lparr>startPrbc := p, sect_no := 7\<rparr>"

lemma alloc_elms_enough: "\<exists>k' db'. alloc_elms (\<lambda>_. True) ps k db = (XRAN_STATUS_SUCCESS, k', db')"
  by (induction ps arbitrary: k db) auto

lemma demo_initialised:
  obtains s where "xran_cp_init_sectiondb (\<lambda>_. True) (Some demo_db_cfg) \<lparr>sec_dbs = (\<lambda>_. None), zmallocs = 0\<rparr> = (XRAN_STATUS_SUCCESS, s)"
proof -
  obtain k db where "alloc_elms (\<lambda>_. True) (db_elms 2 16) 1 (\<lambda>_. None) = (XRAN_STATUS_SUCCESS, k, db)" using alloc_elms_enough by blast
  then show ?thesis using that
    by (simp add: xran_cp_init_sectiondb_def demo_db_cfg_def alloc_section_db_def xran_alloc_sectioninfo_db_def)
qed

theorem sections_are_logged_witness:
  "\<exists>s as s'. xran_cp_init_sectiondb (\<lambda>_. True) (Some demo_db_cfg) \<lparr>sec_dbs = (\<lambda>_. None), zmallocs = 0\<rparr> = (XRAN_STATUS_SUCCESS, s)
    \<and> run_ops db_op [Add_section demo_key (demo_entry 5), Add_section demo_key (demo_entry 9), Check_section demo_key 507,
        Add_section (Some 0, 1, 2, 3, 2, 1) (demo_entry 5), Reset_sections demo_key, Check_section demo_key 507] s = Done (as, s')
    \<and> as = [Status XRAN_STATUS_SUCCESS, Status XRAN_STATUS_SUCCESS, Entry (Some 0), Status XRAN_STATUS_INVALID_PARAM,
        Status XRAN_STATUS_SUCCESS, Entry None]"
proof -
  obtain s where s: "xran_cp_init_sectiondb (\<lambda>_. True) (Some demo_db_cfg) \<lparr>sec_dbs = (\<lambda>_. None), zmallocs = 0\<rparr> = (XRAN_STATUS_SUCCESS, s)"
    by (rule demo_initialised)
  have L: "empty_log demo_db_cfg demo_key = Some []" "empty_log demo_db_cfg (Some 0, 1, 2, 3, 2, 1) = None"
    by (simp_all add: empty_log_def key_ok_def demo_key_def demo_db_cfg_def XRAN_MAX_NUM_MU_def XRAN_PORTS_NUM_def XRAN_MAX_SECTIONDB_CTX_def
      XRAN_DIR_MAX_def XRAN_COMPONENT_CARRIERS_MAX_def XRAN_MAX_SECTOR_NR_def XRAN_MAX_SECTIONDB_ANT_def XRAN_MAX_ANTENNA_NR_def XRAN_MAX_ANT_ARRAY_ELM_NR_def)
  have k: "demo_key \<noteq> (Some 0, 1, 2, 3, 2, 1)" "key_ok demo_key" "key_ok (Some 0, 1, 2, 3, 2, 1)"
    by (simp_all add: demo_key_def key_ok_def XRAN_MAX_NUM_MU_def)
  have n: "newest (has_prb_id 507) [demo_entry 5, demo_entry 9] = Some 0" "newest (has_prb_id 507) [] = None"
    by (simp_all add: newest_def has_prb_id_def demo_entry_def upt_rec)
  show ?thesis
    using sections_are_logged [OF s _, of "[Add_section demo_key (demo_entry 5), Add_section demo_key (demo_entry 9), Check_section demo_key 507,
        Add_section (Some 0, 1, 2, 3, 2, 1) (demo_entry 5), Reset_sections demo_key, Check_section demo_key 507]"] s k
    by (auto simp: L n XRAN_MAX_NUM_SECTIONS_def)
qed

end
