(* ===== verification/Xran_Cp_Parse.thy ===== *)
theory Xran_Cp_Parse
  imports Xran_Cp_Ext Xran_Sectiondb
begin

text \<open>
  A radio unit reads a packet of the control plane: \<open>xran_parse_cp_pkt\<close> of \<open>lib/src/xran_cp_api.c\<close> and
  \<open>process_cplane\<close> of \<open>lib/src/xran_cp_proc.c\<close>.  The sections are entered into what was received, into the
  section database, and into the resource block maps of the antenna.
\<close>

section \<open>State\<close>

definition XRAN_MAX_DSS_PERIODICITY :: nat where "XRAN_MAX_DSS_PERIODICITY = 15"
definition XRAN_FILTERINDEX_STANDARD :: u8 where "XRAN_FILTERINDEX_STANDARD = 0"
definition XRAN_FILTERINDEX_NPUSCH_375 :: u8 where "XRAN_FILTERINDEX_NPUSCH_375 = 10"
definition XRAN_FILTERINDEX_NPUSCH_15 :: u8 where "XRAN_FILTERINDEX_NPUSCH_15 = 11"

record xran_section_recv_info =
  recv_info :: xran_section_info
  numExts :: nat
  recv_exts :: "(u8 \<times> u16 \<times> xran_ext_recv) list"

record xran_cp_recv_params =
  rp_dir :: u8
  rp_sectionType :: u8
  rp_numSections :: u16
  rp_numSetBFW :: u8
  rp_ext1count :: u8
  rp_tti :: u32
  rp_dssPeriod :: u8
  rp_technology :: "u8 list"
  rp_hdr :: xran_cp_header_params
  rp_sections :: "xran_section_recv_info list"

text \<open>The maps of an antenna, and their elements; the packet with the weights stays with its element.\<close>

record cp_prb_elm =
  p_ext_start :: "mbuf option"
  p_ext_section :: nat
  elm_sec_desc :: "xran_section_desc list"
  elm_nRBStart :: u16
  elm_nRBSize :: u16

record cp_prb_map =
  cp_nPrbElm :: u32
  cp_prbMap :: "cp_prb_elm list"

text \<open>The tables by numerology, slot, carrier and antenna.  An entry has a list of buffers or not, and the
  first buffer has a map or not.\<close>

datatype cp_table = FHCpRxPrbMap | FHCpTxPrbMap | FrontHaulTxPrbMap | FHSrsRxPrbMap

fun table_antennas :: "cp_table \<Rightarrow> nat" where
  "table_antennas FHSrsRxPrbMap = XRAN_MAX_ANT_ARRAY_ELM_NR"
| "table_antennas _ = XRAN_MAX_ANTENNA_NR"

record cp_ru_cfg =
  ru_cfg :: xran_rx_cfg
  numSetBFWs_arr :: "u8 list list"
  cp_tables :: "cp_table \<Rightarrow> nat \<times> nat \<times> nat \<times> nat \<Rightarrow> nat option option"
  ru_dev :: cp_dev

record cp_ru =
  ru_rx :: xran_rx
  rx_invalid_ext1_packets :: u64
  rx_err_cp :: u32
  ru_dbs :: p_sectiondb
  sectiondb_elm :: "(nat \<times> nat) \<times> db_elm \<Rightarrow> u8"
  cp_maps :: "nat \<Rightarrow> cp_prb_map"
  recvCpInfo :: xran_cp_recv_params
  parse_recv :: xran_recv_packet_info

text \<open>The local variables of the loop over the sections: the packet, the maps, the element, the numerology,
  whether the packet is kept, and the result.\<close>

record cp_pass =
  lp_pkt :: rte_mbuf
  lp_ru :: cp_ru
  cur_map :: "nat option"
  cur_desc :: "nat option"
  cur_idx :: u8
  cur_mu :: u8
  cp_keep :: bool
  cp_ret :: int

definition set_rec :: "(xran_cp_recv_params \<Rightarrow> xran_cp_recv_params) \<Rightarrow> cp_pass \<Rightarrow> cp_pass" where
  "set_rec f x = x\<lparr>lp_ru := lp_ru x\<lparr>recvCpInfo := f (recvCpInfo (lp_ru x))\<rparr>\<rparr>"

abbreviation rec_of :: "cp_pass \<Rightarrow> xran_cp_recv_params" where "rec_of x \<equiv> recvCpInfo (lp_ru x)"

definition set_slot :: "nat \<Rightarrow> (xran_section_recv_info \<Rightarrow> xran_section_recv_info) \<Rightarrow> xran_cp_recv_params \<Rightarrow> xran_cp_recv_params" where
  "set_slot i f r = r\<lparr>rp_sections := (rp_sections r)[i := f (rp_sections r ! i)]\<rparr>"

definition set_map :: "nat \<Rightarrow> (cp_prb_elm list \<Rightarrow> cp_prb_elm list) \<Rightarrow> cp_ru \<Rightarrow> cp_ru" where
  "set_map p f s = s\<lparr>cp_maps := (cp_maps s)(p := cp_maps s p\<lparr>cp_prbMap := f (cp_prbMap (cp_maps s p))\<rparr>)\<rparr>"

section \<open>Reading a section\<close>

definition read_common :: "u8 \<Rightarrow> u64 \<Rightarrow> xran_section_info \<Rightarrow> xran_section_info" where
  "read_common ty w e = e\<lparr>sect_type := take_bit 4 ty, sect_no := XRAN_MU_SECT_ID_TO_BASE_SECT_ID (ucast (get_bits 52 12 w)),
     rbInd := ucast (get_bits 51 1 w), symInc := ucast (get_bits 50 1 w), startPrbc := ucast (get_bits 40 10 w),
     numPrbc := ucast (get_bits 32 8 w), numSymbol := ucast (get_bits 16 4 w), reMask := ucast (get_bits 20 12 w)\<rparr>"

definition read_cp_section :: "u8 \<Rightarrow> u64 \<Rightarrow> xran_section_info \<Rightarrow> xran_section_info" where
  "read_cp_section ty w e =
     (if ty = XRAN_CP_SECTIONTYPE_0 then read_common ty w e
      else (read_common ty w e)\<lparr>beamId := ucast (get_bits 0 15 w), ext_flag := ucast (get_bits 15 1 w)\<rparr>)"

text \<open>The offset of the frequency has 24 bits and a sign.  Bits that are reserved make the packet invalid, but
  it is read on.\<close>

definition read_freq :: "dpdk_pkt \<Rightarrow> u32 \<Rightarrow> xran_section_info \<Rightarrow> xran_section_info" where
  "read_freq d v e = e\<lparr>freqOffset := signed_drop_bit 8 (rte_cpu_to_be_32 d (get_bits 0 24 v))\<rparr>"

text \<open>The first eight bytes of a section are turned in the packet; then the packet moves on.  A packet that ends
  within the section counts the sections before it.\<close>

definition take_section :: "dpdk_pkt \<Rightarrow> u8 \<Rightarrow> nat \<Rightarrow> cp_pass \<Rightarrow> (u64 \<times> cp_pass \<times> bool) outcome" where
  "take_section d ty i x =
     obind (turn64 d 0 (lp_pkt x)) (\<lambda>(w, m).
     obind (at (rp_sections (rec_of x)) i) (\<lambda>_.
     obind (if ty = XRAN_CP_SECTIONTYPE_3 then obind (peek m 8 4) (\<lambda>b. Done (Some (of_le32 b))) else Done None) (\<lambda>v.
     let x = set_rec (set_slot i (recv_info_update (\<lambda>e. case v of None \<Rightarrow> read_cp_section ty w e
            | Some v \<Rightarrow> read_freq d v (read_cp_section ty w e)))) x;
         x = (case v of Some v \<Rightarrow> if get_bits 24 8 v \<noteq> 0 then x\<lparr>cp_ret := XRAN_STATUS_INVALID_PACKET\<rparr> else x | None \<Rightarrow> x)
     in case rte_pktmbuf_adj d (section_size ty) m of
          None \<Rightarrow> Done (w, set_rec (rp_numSections_update (\<lambda>_. of_nat i)) (x\<lparr>lp_pkt := m, cp_ret := XRAN_STATUS_INVALID_PACKET\<rparr>), False)
        | Some m \<Rightarrow> Done (w, x\<lparr>lp_pkt := m\<rparr>, True))))"

text \<open>The extensions overwrite the first ones of the slot.  The packet moves on by their size, of which 16 bits
  are used.\<close>

definition take_exts :: "dpdk_pkt \<Rightarrow> cp_ru_cfg \<Rightarrow> nat \<Rightarrow> cp_pass \<Rightarrow> (cp_pass \<times> bool) outcome" where
  "take_exts d c i x =
     (let r = rec_of x
      in obind (parse_exts d (ru_dev c) (rp_tti r) (rp_dssPeriod r) (rp_technology r) XRAN_MAX_NUM_EXTENSIONS 0 (lp_pkt x)) (\<lambda>(xs, len, m).
         let ys = map (\<lambda>(ty, n, e). (ty, of_nat n, e)) xs;
             x = set_rec (rp_ext1count_update (\<lambda>k. k + of_nat (length (filter (\<lambda>(ty, _). ty = 1) xs)))
                   \<circ> set_slot i (\<lambda>s. s\<lparr>numExts := length xs, recv_exts := ys @ drop (length ys) (recv_exts s)\<rparr>)) x
         in if len = 0 then Done (x\<lparr>lp_pkt := m\<rparr>, True)
            else case rte_pktmbuf_adj d (len mod 65536) m of
                   None \<Rightarrow> Done (x\<lparr>lp_pkt := m, cp_ret := XRAN_STATUS_INVALID_PACKET\<rparr>, False)
                 | Some m \<Rightarrow> Done (x\<lparr>lp_pkt := m\<rparr>, True)))"

section \<open>The tables of an antenna\<close>

definition table_map :: "cp_ru_cfg \<Rightarrow> cp_table \<Rightarrow> u8 \<Rightarrow> nat \<Rightarrow> u8 \<Rightarrow> nat \<Rightarrow> nat option option outcome" where
  "table_map c t mu tti cc ant =
     (if unat mu < length (perMu (ru_cfg c)) \<and> unat cc < XRAN_MAX_SECTOR_NR \<and> ant < table_antennas t
      then Done (cp_tables c t (unat mu, tti mod XRAN_N_FE_BUF_LEN, unat cc, ant)) else Undefined)"

text \<open>A map that is not there leaves the one of before.\<close>

definition antenna_maps :: "cp_ru_cfg \<Rightarrow> u8 \<Rightarrow> nat \<Rightarrow> u8 \<Rightarrow> nat \<Rightarrow> cp_pass \<Rightarrow> cp_pass outcome" where
  "antenna_maps c dir tti cc ant x =
     obind (table_map c (if dir = XRAN_DIR_DL then FHCpRxPrbMap else FHCpTxPrbMap) (cur_mu x) tti cc ant) (\<lambda>p.
     obind (table_map c FrontHaulTxPrbMap (cur_mu x) tti cc ant) (\<lambda>q.
     Done (x\<lparr>cur_map := (case p of None \<Rightarrow> cur_map x | Some r \<Rightarrow> r), cur_desc := (case q of None \<Rightarrow> cur_desc x | Some r \<Rightarrow> r)\<rparr>)))"

definition srs_maps :: "cp_ru_cfg \<Rightarrow> nat \<Rightarrow> u8 \<Rightarrow> nat \<Rightarrow> cp_pass \<Rightarrow> cp_pass outcome" where
  "srs_maps c tti cc ant x =
     obind (table_map c FHSrsRxPrbMap (cur_mu x) tti cc ant) (\<lambda>q. Done (x\<lparr>cur_desc := (case q of None \<Rightarrow> cur_desc x | Some r \<Rightarrow> r)\<rparr>))"

text \<open>A packet takes the next element; when all have been taken, the database of the antenna is emptied and the
  first element is taken again.\<close>

definition next_element :: "db_key \<Rightarrow> cp_pass \<Rightarrow> cp_pass outcome" where
  "next_element key x =
     (case key_place key of (pm, ctx, dir, cc, ru) \<Rightarrow>
        if ctx \<ge> XRAN_MAX_SECTIONDB_CTX \<or> dir \<ge> XRAN_DIR_MAX \<or> cc \<ge> XRAN_COMPONENT_CARRIERS_MAX \<or> ru \<ge> XRAN_MAX_SECTIONDB_ANT then Undefined
        else let k = (pm, ctx, dir, cc, ru); n = sectiondb_elm (lp_ru x) k
             in obind (case cur_desc x of None \<Rightarrow> Done (n, lp_ru x)
                  | Some p \<Rightarrow> if cp_nPrbElm (cp_maps (lp_ru x) p) \<le> ucast n
                             then obind (xran_cp_reset_section_info key (ru_dbs (lp_ru x))) (\<lambda>(_, dbs). Done (0, lp_ru x\<lparr>ru_dbs := dbs\<rparr>))
                             else Done (n, lp_ru x)) (\<lambda>(n, s).
                Done (x\<lparr>cur_idx := n, lp_ru := s\<lparr>sectiondb_elm := (sectiondb_elm s)(k := n + 1)\<rparr>\<rparr>)))"

text \<open>The element keeps the packet with the weights; the one it had is freed.\<close>

definition keep_weights :: "cp_ru_cfg \<Rightarrow> mbuf \<Rightarrow> cp_pass \<Rightarrow> cp_pass outcome" where
  "keep_weights c h x =
     obind (at (numSetBFWs_arr c) (unat (cur_mu x))) (\<lambda>a.
     obind (at a (unat (cur_idx x))) (\<lambda>n.
     let x = set_rec (rp_numSetBFW_update (\<lambda>_. n)) x
     in case cur_map x of None \<Rightarrow> Done x
        | Some p \<Rightarrow>
            obind (at (cp_prbMap (cp_maps (lp_ru x) p)) (unat (cur_idx x))) (\<lambda>e.
            let e' = e\<lparr>p_ext_start := Some h, p_ext_section := data_off (lp_pkt x)\<rparr>;
                s = set_map p (\<lambda>es. es[unat (cur_idx x) := e']) (lp_ru x);
                s = s\<lparr>ru_rx := ru_rx s\<lparr>freed := freed (ru_rx s) @ (case p_ext_start e of None \<Rightarrow> [] | Some b \<Rightarrow> [b])\<rparr>\<rparr>
            in Done (x\<lparr>lp_ru := s, cp_keep := True\<rparr>))))"

text \<open>What is announced to the user plane; the start symbol has four bits here.\<close>

definition announced :: "bool \<Rightarrow> bool \<Rightarrow> xran_cp_header_params \<Rightarrow> xran_section_info \<Rightarrow> xran_section_info \<Rightarrow> xran_section_info" where
  "announced first end h r e = e\<lparr>prbElemBegin := first, prbElemEnd := end, ext_flag := ext_flag r, sect_type := sect_type r,
     startSymId := take_bit 4 (hdr_startSymId h), sect_iqWidth := hdr_iqWidth h, sect_compMeth := hdr_compMeth h, sect_no := sect_no r,
     rbInd := 0, numSymbol := numSymbol r, reMask := reMask r, beamId := beamId r, symInc := 0\<rparr>"

definition described :: "xran_section_desc list \<Rightarrow> xran_section_info \<Rightarrow> xran_section_info" where
  "described ds e = e\<lparr>sec_desc := map2 (\<lambda>o' a. o'\<lparr>iq_buffer_offset := iq_buffer_offset a, iq_buffer_len := iq_buffer_len a\<rparr>) (sec_desc e) ds\<rparr>"

text \<open>The element of the map gives the places of the samples, and for SRS the resource blocks; it takes the
  identifier of the section, in nine bits.\<close>

definition with_element :: "bool \<Rightarrow> cp_pass \<Rightarrow> xran_section_info \<Rightarrow> (xran_section_info \<times> cp_ru) outcome" where
  "with_element srs x e =
     (case cur_desc x of None \<Rightarrow> Done (e, lp_ru x)
      | Some p \<Rightarrow>
          obind (at (cp_prbMap (cp_maps (lp_ru x) p)) (unat (cur_idx x))) (\<lambda>b.
          let e = (if srs then e\<lparr>startPrbc := take_bit 10 (elm_nRBStart b), numPrbc := take_bit 10 (elm_nRBSize b)\<rparr> else e);
              b' = b\<lparr>elm_sec_desc := map (section_id_update (\<lambda>_. take_bit 9 (sect_no e))) (elm_sec_desc b)\<rparr>
          in Done (described (elm_sec_desc b) e, set_map p (\<lambda>es. es[unat (cur_idx x) := b']) (lp_ru x))))"

definition log_section :: "bool \<Rightarrow> db_key \<Rightarrow> nat \<Rightarrow> cp_pass \<Rightarrow> cp_pass outcome" where
  "log_section srs key i x =
     obind (xran_cp_get_section_info_ptr key (ru_dbs (lp_ru x))) (\<lambda>(p, dbs).
     let x = x\<lparr>lp_ru := lp_ru x\<lparr>ru_dbs := dbs\<rparr>\<rparr>; r = rec_of x
     in case p of None \<Rightarrow> Done x
        | Some k \<Rightarrow>
            obind (xran_get_section_db dbs key) (\<lambda>y. case y of None \<Rightarrow> Undefined
            | Some y \<Rightarrow>
                obind (at (db_list y) k) (\<lambda>e.
                obind (at (rp_sections r) i) (\<lambda>slot.
                let info = recv_info slot;
                    e = announced (i = 0) (int i = int (unat (rp_numSections r)) - 1) (rp_hdr r) info e;
                    e = (if srs then e else e\<lparr>startPrbc := startPrbc info, numPrbc := numPrbc info\<rparr>)
                in obind (with_element srs x e) (\<lambda>(e, s).
                   Done (x\<lparr>lp_ru := s\<lparr>ru_dbs := set_elm key (put_section k e y) dbs\<rparr>\<rparr>))))))"

definition pusch_entry :: "cp_ru_cfg \<Rightarrow> mbuf \<Rightarrow> xran_eaxc_info \<Rightarrow> u8 \<Rightarrow> nat \<Rightarrow> nat \<Rightarrow> nat \<Rightarrow> cp_pass \<Rightarrow> cp_pass outcome" where
  "pusch_entry c h e dir tti off i x =
     (let key = (Some (unat (xran_port_id (ru_cfg c))), dir, ccId e, ruPortId e, of_nat (tti mod XRAN_MAX_SECTIONDB_CTX), cur_mu x)
      in obind (antenna_maps c dir tti (ccId e) (unat (ruPortId e) - off) x) (\<lambda>x.
         obind (if i = 0 then obind (next_element key x) (keep_weights c h) else Done x) (log_section False key i)))"

definition srs_entry :: "cp_ru_cfg \<Rightarrow> xran_eaxc_info \<Rightarrow> u8 \<Rightarrow> nat \<Rightarrow> nat \<Rightarrow> cp_pass \<Rightarrow> cp_pass outcome" where
  "srs_entry c e dir tti i x =
     (let key = (Some (unat (xran_port_id (ru_cfg c))), dir, ccId e, ruPortId e, of_nat (tti mod XRAN_MAX_SECTIONDB_CTX), cur_mu x)
      in obind (srs_maps c tti (ccId e) ((unat (ruPortId e) - unat (srsEaxcOffset (ru_cfg c))) mod 64) x) (\<lambda>x.
         obind (if i = 0 then next_element key x else Done x) (log_section True key i)))"

section \<open>Sections of the types 0, 1 and 3\<close>

definition of_antenna :: "cp_ru_cfg \<Rightarrow> u8 \<Rightarrow> u8 \<Rightarrow> bool" where
  "of_antenna c off ru \<longleftrightarrow> off \<le> ru \<and> uint ru < uint off + uint (ucast (neAxc (ru_cfg c)) :: u8)"

definition technology_of :: "cp_ru_cfg \<Rightarrow> cp_pass \<Rightarrow> cp_pass outcome" where
  "technology_of c x =
     (let n = unat (dssPeriod (ru_cfg c))
      in if n > length (technology (ru_cfg c)) \<or> n > length (rp_technology (rec_of x)) then Undefined
         else Done (set_rec (\<lambda>r. r\<lparr>rp_dssPeriod := dssPeriod (ru_cfg c),
                rp_technology := take n (technology (ru_cfg c)) @ drop n (rp_technology r)\<rparr>) x))"

definition section0_step :: "dpdk_pkt \<Rightarrow> nat \<Rightarrow> cp_pass \<Rightarrow> (cp_pass \<times> bool) outcome" where
  "section0_step d i x = obind (take_section d XRAN_CP_SECTIONTYPE_0 i x) (\<lambda>(_, r). Done r)"

text \<open>Only the antennas of the channels with data have extensions; of another antenna the next section is
  read where the extensions are.\<close>

definition section1_step :: "dpdk_pkt \<Rightarrow> cp_ru_cfg \<Rightarrow> mbuf \<Rightarrow> xran_eaxc_info \<Rightarrow> nat \<Rightarrow> nat \<Rightarrow> cp_pass \<Rightarrow> (cp_pass \<times> bool) outcome" where
  "section1_step d c h e tti i x =
     obind (take_section d XRAN_CP_SECTIONTYPE_1 i x) (\<lambda>(w, x, more).
     if \<not> more then Done (x, False)
     else obind (at (perMu (ru_cfg c)) (unat (cur_mu x))) (\<lambda>f.
       let off = eaxcOffset f; dir = rp_dir (rec_of x)
       in if of_antenna c off (ruPortId e) then
            obind (pusch_entry c h e dir tti (unat off) i x) (\<lambda>x.
            if ext_flag (recv_info (rp_sections (rec_of x) ! i)) \<noteq> 0 then obind (technology_of c x) (take_exts d c i) else Done (x, True))
          else if is_srs (ru_cfg c) (ruPortId e) \<and> dir = XRAN_DIR_UL then obind (srs_entry c e dir tti i x) (\<lambda>x. Done (x, True))
          else Done (x, True)))"

definition has_data :: "u8 \<Rightarrow> bool" where
  "has_data flt \<longleftrightarrow> flt = XRAN_FILTERINDEX_STANDARD \<or> flt = XRAN_FILTERINDEX_NPUSCH_15 \<or> flt = XRAN_FILTERINDEX_NPUSCH_375"

text \<open>The numerology is the one of the section identifier; the slot is always the first one.\<close>

definition section3_entry :: "cp_ru_cfg \<Rightarrow> mbuf \<Rightarrow> xran_eaxc_info \<Rightarrow> u8 \<Rightarrow> nat \<Rightarrow> cp_pass \<Rightarrow> (cp_pass \<times> bool) outcome" where
  "section3_entry c h e mu i x =
     (let x = x\<lparr>cur_mu := mu\<rparr>
      in obind (xran_validate_sectionId (ru_cfg c) mu (ru_rx (lp_ru x))) (\<lambda>(ok, s).
         let x = x\<lparr>lp_ru := lp_ru x\<lparr>ru_rx := s\<rparr>\<rparr>
         in if \<not> ok then Done (x, False)
            else obind (at (perMu (ru_cfg c)) (unat mu)) (\<lambda>f.
              let off = eaxcOffset f; dir = rp_dir (rec_of x)
              in if of_antenna c off (ruPortId e) then obind (pusch_entry c h e dir 0 (unat off) i x) (\<lambda>x. Done (x, True))
                 else if is_srs (ru_cfg c) (ruPortId e) then obind (srs_entry c e dir 0 i x) (\<lambda>x. Done (x, True))
                 else Done (x, True))))"

definition section3_step :: "dpdk_pkt \<Rightarrow> cp_ru_cfg \<Rightarrow> mbuf \<Rightarrow> xran_eaxc_info \<Rightarrow> nat \<Rightarrow> cp_pass \<Rightarrow> (cp_pass \<times> bool) outcome" where
  "section3_step d c h e i x =
     obind (take_section d XRAN_CP_SECTIONTYPE_3 i x) (\<lambda>(w, x, more).
     if \<not> more then Done (x, False)
     else obind (if has_data (filterIndex (rp_hdr (rec_of x)))
                 then section3_entry c h e (XRAN_GET_MU_FROM_SECT_ID (ucast (get_bits 52 12 w))) i x else Done (x, True)) (\<lambda>(x, more).
       if more \<and> ext_flag (recv_info (rp_sections (rec_of x) ! i)) \<noteq> 0 then take_exts d c i x else Done (x, more)))"

fun cp_loop :: "(nat \<Rightarrow> 'x \<Rightarrow> ('x \<times> bool) outcome) \<Rightarrow> nat \<Rightarrow> nat \<Rightarrow> 'x \<Rightarrow> 'x outcome" where
  "cp_loop f 0 i x = Done x"
| "cp_loop f (Suc n) i x = obind (f i x) (\<lambda>(x, more). if more then cp_loop f n (Suc i) x else Done x)"

section \<open>Packets\<close>

text \<open>The application header, turned in the packet.\<close>

definition read_app_hdr :: "u32 \<Rightarrow> u8 list \<Rightarrow> xran_cp_recv_params \<Rightarrow> xran_cp_recv_params" where
  "read_app_hdr w b r = r\<lparr>rp_dir := ucast (get_bits 31 1 w),
     rp_hdr := rp_hdr r\<lparr>filterIndex := ucast (get_bits 24 4 w), frameId := ucast (get_bits 16 8 w), subframeId := ucast (get_bits 12 4 w),
       slotId := ucast (get_bits 6 6 w), hdr_startSymId := ucast (get_bits 0 6 w)\<rparr>,
     rp_sectionType := b ! 1, rp_numSections := ucast (b ! 0), rp_ext1count := 0\<rparr>"

text \<open>The rest of the header of the sections.  For type 0 the fields get into one another's places.\<close>

definition read_section_hdr :: "dpdk_pkt \<Rightarrow> u8 \<Rightarrow> u8 list \<Rightarrow> xran_cp_header_params \<Rightarrow> xran_cp_header_params" where
  "read_section_hdr d ty b h =
     (if ty = XRAN_CP_SECTIONTYPE_1 then h\<lparr>hdr_iqWidth := get_bits 4 4 (b ! 0), hdr_compMeth := get_bits 0 4 (b ! 0)\<rparr>
      else let t = rte_cpu_to_be_16 d (of_le16 (take 2 b)); uScs = get_bits 0 4 (b ! 2); fft = get_bits 4 4 (b ! 2);
               cp = rte_cpu_to_be_16 d (of_le16 (take 2 (drop 3 b)))
           in if ty = XRAN_CP_SECTIONTYPE_0 then h\<lparr>fftSize := ucast t, scs := fft, timeOffset := ucast uScs, cpLength := cp\<rparr>
              else h\<lparr>timeOffset := t, scs := uScs, fftSize := fft, cpLength := cp, hdr_iqWidth := get_bits 4 4 (b ! 5), hdr_compMeth := get_bits 0 4 (b ! 5)\<rparr>)"

definition section_hdr_size :: "u8 \<Rightarrow> nat" where
  "section_hdr_size ty = (if ty = XRAN_CP_SECTIONTYPE_1 then 8 else 12)"

text \<open>Weights whose number is not the one that is configured are only counted.\<close>

definition count_invalid_ext1 :: "cp_pass \<Rightarrow> cp_pass outcome" where
  "count_invalid_ext1 x =
     (let r = rec_of x
      in obind (at (rp_sections r) 0) (\<lambda>s.
         obind (if ext_flag (recv_info s) = 0 then Done False else obind (at (recv_exts s) 0) (\<lambda>(ty, _). Done (ty = 1))) (\<lambda>b.
         Done (if b \<and> rp_numSections r \<noteq> ucast (rp_numSetBFW r) \<and> rp_ext1count r \<noteq> rp_numSetBFW r
               then x\<lparr>lp_ru := lp_ru x\<lparr>rx_invalid_ext1_packets := rx_invalid_ext1_packets (lp_ru x) + 1\<rparr>\<rparr> else x))))"

definition parse_sections :: "dpdk_pkt \<Rightarrow> cp_ru_cfg \<Rightarrow> mbuf \<Rightarrow> xran_eaxc_info \<Rightarrow> nat \<Rightarrow> u8 \<Rightarrow> cp_pass \<Rightarrow> cp_pass outcome" where
  "parse_sections d c h e tti ty x =
     (if ty \<noteq> XRAN_CP_SECTIONTYPE_0 \<and> ty \<noteq> XRAN_CP_SECTIONTYPE_1 \<and> ty \<noteq> XRAN_CP_SECTIONTYPE_3 then Done (x\<lparr>cp_ret := XRAN_STATUS_INVALID_PARAM\<rparr>)
      else obind (peek (lp_pkt x) 6 (section_hdr_size ty - 6)) (\<lambda>b.
        let x = set_rec (rp_hdr_update (read_section_hdr d ty b)) x; n = unat (rp_numSections (rec_of x))
        in case rte_pktmbuf_adj d (section_hdr_size ty) (lp_pkt x) of None \<Rightarrow> Done (x\<lparr>cp_ret := XRAN_STATUS_INVALID_PACKET\<rparr>)
           | Some m \<Rightarrow>
               let x = x\<lparr>lp_pkt := m\<rparr>
               in if ty = XRAN_CP_SECTIONTYPE_0 then cp_loop (section0_step d) n 0 x
                  else if ty = XRAN_CP_SECTIONTYPE_1 then obind (cp_loop (section1_step d c h e tti) n 0 x) count_invalid_ext1
                  else cp_loop (section3_step d c h e) n 0 x))"

text \<open>An eCPRI header that is not valid does not end the parsing: the antenna is then the one of the packet
  before.  The slot is not computed for sections of type 3.\<close>

definition xran_parse_cp_pkt :: "dpdk_pkt \<Rightarrow> cp_ru_cfg option \<Rightarrow> mbuf \<Rightarrow> rte_mbuf \<Rightarrow> cp_ru \<Rightarrow> (int \<times> bool \<times> rte_mbuf \<times> cp_ru) outcome" where
  "xran_parse_cp_pkt d conf h m s =
     (case conf of None \<Rightarrow> Done (XRAN_STATUS_INVALID_PARAM, False, m, s)
      | Some c \<Rightarrow>
          obind (xran_parse_ecpri_hdr d (Some (eAxc_id_cfg (ru_cfg c))) m) (\<lambda>(r, info).
          let s = (case info of None \<Rightarrow> s | Some i \<Rightarrow> s\<lparr>parse_recv := i\<rparr>); e = eaxc (parse_recv s)
          in case rte_pktmbuf_adj d sizeof_ecpri_hdr m of None \<Rightarrow> Done (XRAN_STATUS_INVALID_PACKET, False, m, s)
             | Some m \<Rightarrow>
                 obind (turn32 d 0 m) (\<lambda>(w, m).
                 obind (peek m 4 2) (\<lambda>b.
                 let r = (if get_bits 28 3 w \<noteq> ucast XRAN_PAYLOAD_VER then XRAN_STATUS_INVALID_PACKET else r);
                     ri = read_app_hdr w b (recvCpInfo s); hd = rp_hdr ri
                 in obind (at (mu_number (ru_cfg c)) 0) (\<lambda>mu.
                    obind (if b ! 1 = XRAN_CP_SECTIONTYPE_3 then Done (0, ri)
                           else obind (packet_tti mu (frameId hd) (subframeId hd) (slotId hd)) (\<lambda>t. Done (t, ri\<lparr>rp_tti := of_nat t\<rparr>))) (\<lambda>(tti, ri).
                    obind (parse_sections d c h e tti (b ! 1) \<lparr>lp_pkt = m, lp_ru = s\<lparr>recvCpInfo := ri\<rparr>, cur_map = None, cur_desc = None,
                        cur_idx = 0, cur_mu = mu, cp_keep = False, cp_ret = r\<rparr>) (\<lambda>x.
                    Done (cp_ret x, cp_keep x, lp_pkt x, lp_ru x))))))))"

text \<open>Packets are parsed while the device runs and only with the debugging stop; errors are counted.\<close>

definition process_cplane :: "dpdk_pkt \<Rightarrow> cp_ru_cfg option \<Rightarrow> bool \<Rightarrow> bool \<Rightarrow> mbuf \<Rightarrow> rte_mbuf \<Rightarrow> cp_ru
    \<Rightarrow> (xran_mbuf_mem_op_id \<times> rte_mbuf \<times> cp_ru) outcome" where
  "process_cplane d conf running debugStop h m s =
     (if conf = None \<or> \<not> running then Done (MBUF_FREE, m, s)
      else obind (if debugStop then xran_parse_cp_pkt d conf h m s else Done (XRAN_STATUS_SUCCESS, False, m, s)) (\<lambda>(r, keep, m, s).
        let s = (if r = XRAN_STATUS_SUCCESS then s
                 else s\<lparr>rx_err_cp := rx_err_cp s + 1, ru_rx := count (rx_err_drop_update (\<lambda>k. k + 1)) (ru_rx s)\<rparr>)
        in Done (if keep then MBUF_KEEP else MBUF_FREE, m, s)))"

end
