(* ===== verification/Xran_Cp_Roundtrip.thy ===== *)
theory Xran_Cp_Roundtrip
  imports Xran_Cp_Wire Xran_Cp_Parse
begin

text \<open>
  What a radio unit reads from a packet with the layout of \<open>Xran_Cp_Wire\<close>: the extensions, the sections and
  the headers that were put in.
\<close>

section \<open>The rest of a packet\<close>

text \<open>From the offset on, the data of the packet are \<open>w\<close>.\<close>

definition holds_at :: "rte_mbuf \<Rightarrow> nat \<Rightarrow> u8 list \<Rightarrow> bool" where
  "holds_at m off w \<longleftrightarrow> data_len m = off + length w \<and> data_off m + off + length w \<le> length (buf_addr m)
     \<and> take (length w) (drop (data_off m + off) (buf_addr m)) = w"

lemma holds_at_behind: "holds_at m off (xs @ ys) \<Longrightarrow> holds_at m (off + length xs) ys"
proof -
  assume h: "holds_at m off (xs @ ys)"
  then have w: "take (length xs + length ys) (drop (data_off m + off) (buf_addr m)) = xs @ ys" by (simp add: holds_at_def)
  then have "drop (length xs) (take (length xs + length ys) (drop (data_off m + off) (buf_addr m))) = ys" by simp
  then have "take (length ys) (drop (data_off m + (off + length xs)) (buf_addr m)) = ys"
    by (simp add: drop_take add.commute add.left_commute)
  then show ?thesis using h by (simp add: holds_at_def)
qed

lemma holds_at_behind': "holds_at m off w \<Longrightarrow> j \<le> length w \<Longrightarrow> holds_at m (off + j) (drop j w)"
  using holds_at_behind [of m off "take j w" "drop j w"] by simp

lemma peek_held:
  assumes "holds_at m off w" "j + n \<le> length w"
  shows "peek m (off + j) n = Done (take n (drop j w))"
proof -
  have "take n (drop j (take (length w) (drop (data_off m + off) (buf_addr m)))) = take n (drop (data_off m + (off + j)) (buf_addr m))"
    using assms(2) by (simp add: drop_take min_absorb1 add.commute add.left_commute)
  then show ?thesis using assms by (simp add: holds_at_def peek_def add.assoc)
qed

lemma peek_first: "holds_at m off w \<Longrightarrow> n \<le> length w \<Longrightarrow> peek m off n = Done (take n w)"
  using peek_held [of m off w 0 n] by simp

lemma poke_held:
  assumes "holds_at m off w" "j + length bs \<le> length w"
  obtains m' where "poke (off + j) bs m = Done m'" "holds_at m' off (overwrite j bs w)"
proof -
  let ?n = "data_off m + off"
  let ?m' = "m\<lparr>buf_addr := overwrite (data_off m + (off + j)) bs (buf_addr m)\<rparr>"
  have b: "?n + length w \<le> length (buf_addr m)" "take (length w) (drop ?n (buf_addr m)) = w" using assms(1) by (simp_all add: holds_at_def)
  have bb: "buf_addr m = (take ?n (buf_addr m) @ w) @ drop (?n + length w) (buf_addr m)"
    using b(2) by (metis append.assoc append_take_drop_id drop_drop add.commute)
  have "take (length w) (drop ?n (overwrite (?n + j) bs (buf_addr m))) = overwrite j bs w"
    using assms(2) b(1) by (subst bb) (simp add: overwrite_def min_absorb1)
  then have "holds_at ?m' off (overwrite j bs w)" using assms b by (simp add: holds_at_def overwrite_def add.assoc)
  moreover have "poke (off + j) bs m = Done ?m'" using assms b by (simp add: poke_def add.assoc)
  ultimately show ?thesis by (rule that [rotated])
qed

lemma adj_held:
  assumes "dpdk_pkt_ok d" "holds_at m n w"
  obtains m' where "rte_pktmbuf_adj d n m = Some m'" "holds_at m' 0 w"
proof (rule that)
  show "rte_pktmbuf_adj d n m = Some (m\<lparr>data_off := data_off m + n, data_len := data_len m - n\<rparr>)"
    using assms by (simp add: dpdk_pkt_ok_def holds_at_def)
  show "holds_at (m\<lparr>data_off := data_off m + n, data_len := data_len m - n\<rparr>) 0 w"
    using assms(2) by (simp add: holds_at_def)
qed

section \<open>Words\<close>

lemma of_be32: "swap32 (of_le32 (be32 x @ ys)) = x"
proof -
  have "of_le32 (be32 x @ ys) = of_le32 (be32 x)" by (simp add: of_le32_def nth_append)
  moreover have "le32 (swap32 (of_le32 (be32 x))) = le32 x" by (simp add: le32_swap32 be32_def le32_of_le32)
  then have "of_le32 (le32 (swap32 (of_le32 (be32 x)))) = of_le32 (le32 x)" by (rule arg_cong)
  ultimately show ?thesis by simp
qed

lemma of_be16: "swap16 (of_le16 (be16 x @ ys)) = x"
  by (rule bit_word_eqI)
    (auto simp: swap16_def of_le16_def be16_def le16_def nth_append bit_or_iff bit_push_bit_iff bit_ucast_iff bit_drop_bit_eq)

lemma of_be64: "swap64 (of_le64 (be32 hi @ be32 lo)) = two_words lo hi"
proof -
  have "le64 (swap64 (of_le64 (be32 hi @ be32 lo))) = le64 (two_words lo hi)"
  proof -
    have "le64 (swap64 (two_words lo hi)) = be32 hi @ be32 lo" by (rule swapped_words)
    then have "rev (le64 (two_words lo hi)) = be32 hi @ be32 lo" by (simp add: le64_swap64)
    moreover have "le64 (swap64 (of_le64 (be32 hi @ be32 lo))) = rev (be32 hi @ be32 lo)"
      by (simp add: le64_swap64 le64_of_le64)
    ultimately show ?thesis by (metis rev_rev_ident)
  qed
  then have "of_le64 (le64 (swap64 (of_le64 (be32 hi @ be32 lo)))) = of_le64 (le64 (two_words lo hi))" by (rule arg_cong)
  then show ?thesis by simp
qed

lemma turn32_held:
  assumes "dpdk_pkt_ok d" "holds_at m off (be32 x @ w)"
  obtains m' where "turn32 d off m = Done (x, m')" "holds_at m' (off + 4) w"
proof -
  have "peek m off 4 = Done (be32 x)" using peek_first [OF assms(2), of 4] by simp
  moreover have "swap32 (of_le32 (be32 x)) = x" using of_be32 [of x "[]"] by simp
  moreover from poke_held [OF assms(2), of 0 "le32 x"] obtain m' where
    "poke off (le32 x) m = Done m'" "holds_at m' off (le32 x @ w)" by (auto simp: overwrite_def)
  moreover from this(2) have "holds_at m' (off + 4) w" using holds_at_behind [of m' off "le32 x" w] by simp
  ultimately show ?thesis using assms(1) that by (simp add: turn32_def dpdk_pkt_ok_def)
qed

lemma turn64_held:
  assumes "dpdk_pkt_ok d" "holds_at m off (be32 hi @ be32 lo @ w)"
  obtains m' where "turn64 d off m = Done (two_words lo hi, m')" "holds_at m' (off + 8) w"
proof -
  let ?v = "two_words lo hi"
  have "peek m off 8 = Done (be32 hi @ be32 lo)" using peek_first [OF assms(2), of 8] by simp
  moreover from poke_held [OF assms(2), of 0 "le64 ?v"] obtain m' where
    "poke off (le64 ?v) m = Done m'" "holds_at m' off (le64 ?v @ w)" by (auto simp: overwrite_def)
  moreover from this(2) have "holds_at m' (off + 8) w" using holds_at_behind [of m' off "le64 ?v" w] by simp
  ultimately show ?thesis using assms(1) that by (simp add: turn64_def dpdk_pkt_ok_def of_be64)
qed

lemma get_bits_same [simp]:
  fixes v :: "'a::len word"
  shows "p + w \<le> LENGTH('a) \<Longrightarrow> get_bits p w (push_bit p (take_bit w v)) = take_bit w v"
    "get_bits 0 w (take_bit w v) = take_bit w v"
  by (rule bit_word_eqI; auto simp: get_bits_def bit_simps)+

lemma get_bits_flag_same [simp]:
  fixes v :: "'a::len word"
  shows "p < LENGTH('a) \<Longrightarrow> get_bits p 1 (push_bit p (v mod 2)) = v mod 2"
    "p < LENGTH('a) \<Longrightarrow> get_bits p (Suc 0) (push_bit p (v mod 2)) = v mod 2"
  using get_bits_same(1) [of p 1 v] by simp_all

lemma get_bits_two_words:
  "p + w \<le> 32 \<Longrightarrow> get_bits p w (two_words lo hi) = ucast (get_bits p w lo)"
  "32 \<le> p \<Longrightarrow> p + w \<le> 64 \<Longrightarrow> get_bits p w (two_words lo hi) = ucast (get_bits (p - 32) w hi)"
  by (rule bit_word_eqI; auto simp: get_bits_def two_words_def bit_simps dest: bit_imp_le_length)+

section \<open>Extensions\<close>

text \<open>What is read for an extension.  The index of the azimuth loses its upper two bits.\<close>

fun ext_type :: "xran_section_ext \<Rightarrow> u8" where
  "ext_type (Ext1 e) = 1"
| "ext_type (Ext2 e) = 2"
| "ext_type (Ext3 e) = 3"
| "ext_type (Ext4 e) = 4"
| "ext_type (Ext5 e) = 5"
| "ext_type (Ext6 e) = 6"
| "ext_type (Ext9 e) = 9"
| "ext_type (Ext10 e) = 10"
| "ext_type (Ext11 e) = 11"
| "ext_type Ext_other = 0"

definition attr_read :: "u8 \<times> u8 \<Rightarrow> u8 \<times> u8 option" where
  "attr_read x = (fst x, if fst x = 0 then None else Some (take_bit (unat (fst x) + 1) (snd x)))"

definition first_layer :: "xran_sectionext3_info \<Rightarrow> bool" where
  "first_layer e \<longleftrightarrow> layerId e = XRAN_LAYERID_0 \<or> layerId e = XRAN_LAYERID_TXD"

fun recv_of :: "xran_section_ext \<Rightarrow> xran_ext_recv" where
  "recv_of (Ext2 e) = Rx2 \<lparr>r2_attributes = map attr_read (ext2_attributes e), r2_bfAzSI = take_bit 3 (bfAzSI e), r2_bfZeSI = bfZeSI e\<rparr>"
| "recv_of (Ext3 e) = Rx3 (Some \<lparr>r3_codebookIdx = codebookIdx e, r3_layerId = layerId e, r3_numLayers = numLayers e,
     r3_first = (if first_layer e then Some \<lparr>r3_txScheme = txScheme e, r3_crsReMask = crsReMask e, r3_crsShift = crsShift e, r3_crsSymNum = crsSymNum e,
         r3_beamIdAP1 = beamIdAP1 e, r3_beamIdAP23 = (if numAntPort e = 2 then None else Some (beamIdAP2 e, beamIdAP3 e)),
         r3_numAntPort = (if numAntPort e = 2 then 2 else 4)\<rparr> else None)\<rparr>)"
| "recv_of (Ext4 e) = Rx4 \<lparr>csf = (if csf e = 0 then 0 else 1), modCompScaler = take_bit 15 (modCompScaler e)\<rparr>"
| "recv_of (Ext6 e) = Rx6 \<lparr>rbgSize = take_bit 3 (rbgSize e), symbolMask = take_bit 14 (symbolMask e), rbgMask = take_bit 28 (rbgMask e)\<rparr>"
| "recv_of (Ext9 e) = Rx9 e"
| "recv_of _ = Rx_none"

lemma ucast_take_bit [simp]:
  "k \<le> LENGTH('b) \<Longrightarrow> (ucast (take_bit k (ucast x :: 'b::len word)) :: 'a::len word) = take_bit k x"
  by (rule bit_word_eqI) (auto simp: bit_simps)

lemma ext4_read:
  assumes "dpdk_pkt_ok d" "holds_at m off (ext4_wire ef e @ w)"
  shows "\<exists>m'. xran_parse_section_ext4 d off m
      = Done (4, \<lparr>csf = (if csf e = 0 then 0 else 1), modCompScaler = take_bit 15 (modCompScaler e)\<rparr>, m') \<and> holds_at m' (off + 4) w"
proof -
  from turn32_held [OF assms(1) assms(2) [unfolded ext4_wire_def]] obtain m' where
    "turn32 d off m = Done (bit_fields [(1, ef), (7, 4), (8, 1), (1, if csf e = 0 then 0 else 1), (15, ucast (modCompScaler e))], m')"
    "holds_at m' (off + 4) w" .
  then show ?thesis by (auto simp: xran_parse_section_ext4_def get_bits_numeral XRAN_SECTIONEXT_ALIGN_def)
qed

lemma be64_words: "be64 x = be32 (ucast (drop_bit 32 x)) @ be32 (ucast x)"
  by (simp add: be64_def be32_def le64_def)

lemma two_words_split: "two_words (ucast x) (ucast (drop_bit 32 x)) = x"
  by (rule bit_word_eqI) (auto simp: two_words_def bit_simps)

lemma turn64_held':
  assumes "dpdk_pkt_ok d" "holds_at m off (be64 x @ w)"
  obtains m' where "turn64 d off m = Done (x, m')" "holds_at m' (off + 8) w"
  using turn64_held [OF assms(1), of m off "ucast (drop_bit 32 x)" "ucast x" w] assms(2)
  by (auto simp: be64_words two_words_split)

lemma ext6_read:
  assumes "dpdk_pkt_ok d" "holds_at m off (ext6_wire ef e @ w)"
  shows "\<exists>m'. xran_parse_section_ext6 d off m
      = Done (8, \<lparr>rbgSize = take_bit 3 (rbgSize e), symbolMask = take_bit 14 (symbolMask e), rbgMask = take_bit 28 (rbgMask e)\<rparr>, m')
    \<and> holds_at m' (off + 8) w"
proof -
  from turn64_held' [OF assms(1) assms(2) [unfolded ext6_wire_def]] obtain m' where
    "turn64 d off m = Done (bit_fields [(1, ucast ef), (7, 6), (8, 2), (1, 0), (3, ucast (rbgSize e)), (28, ucast (rbgMask e)), (2, 0), (14, ucast (symbolMask e))], m')"
    "holds_at m' (off + 8) w" .
  then show ?thesis by (auto simp: xran_parse_section_ext6_def get_bits_numeral XRAN_SECTIONEXT_ALIGN_def)
qed

lemma le32_bytes: "le32 x = [ucast (get_bits 0 8 x), ucast (get_bits 8 8 x), ucast (get_bits 16 8 x), ucast (get_bits 24 8 x)]"
proof -
  have "(ucast (take_bit 8 y) :: u8) = ucast y" for y :: u32 by (rule bit_word_eqI) (auto simp: bit_simps)
  then show ?thesis by (simp add: le32_def get_bits_def)
qed

lemma even_ucast [simp]: "even (ucast v :: 'b::len word) \<longleftrightarrow> even (v :: 'a::len word)"
  using bit_ucast_iff [of v 0, where 'a = 'b] by (simp add: bit_0)

lemma get_bits_top: "get_bits 24 8 (push_bit 31 (v mod 2) :: u32) = push_bit 7 (v mod 2)"
proof -
  have "get_bits 24 8 (push_bit 31 (take_bit 1 v)) = push_bit 7 (take_bit 1 v)"
    by (rule bit_word_eqI) (auto simp: get_bits_def bit_simps)
  then show ?thesis by simp
qed

lemma ucast_flag [simp]: "(ucast (v mod 2 :: 'a::len word) :: 'b::len word) = ucast v mod 2"
proof -
  have "(ucast (take_bit 1 v) :: 'b word) = take_bit 1 (ucast v)" by (rule bit_word_eqI) (auto simp: bit_simps)
  then show ?thesis by simp
qed

lemma ucast_push_flag: "(ucast (push_bit 7 (v mod 2) :: u32) :: u8) = push_bit 7 (ucast v mod 2)"
proof -
  have "(ucast (push_bit 7 (take_bit 1 v) :: u32) :: u8) = push_bit 7 (take_bit 1 (ucast v))" by (rule bit_word_eqI) (auto simp: bit_simps)
  then show ?thesis by simp
qed

lemma ucast_or_word: "ucast (or x y :: 'a::len word) = or (ucast x) (ucast y)"
  by (rule bit_word_eqI) (auto simp: bit_simps)

lemma take_bit_u8 [simp]: "take_bit 8 (x :: u8) = x"
  by (rule take_bit_length_eq [where 'a = 8, simplified])

lemma ext9_head: "ext9_wire ef e = be32 (bit_fields [(1, ef), (7, 9), (8, 1), (8, ucast (technology_id e)), (8, ucast (ext9_reserved e))])"
  by (simp add: ext9_wire_def be32_def le32_bytes get_bits_numeral get_bits_top ucast_push_flag ucast_or_word)

lemma ext9_read:
  assumes "dpdk_pkt_ok d" "holds_at m off (ext9_wire ef e @ w)" "period \<noteq> 0" "unat tti mod unat period < length tech"
  shows "\<exists>m'. xran_parse_section_ext9 d tti period tech off m = Done (4, e, m') \<and> holds_at m' (off + 4) w"
proof -
  from turn32_held [OF assms(1) assms(2) [unfolded ext9_head]] obtain m' where
    "turn32 d off m = Done (bit_fields [(1, ef), (7, 9), (8, 1), (8, ucast (technology_id e)), (8, ucast (ext9_reserved e))], m')"
    "holds_at m' (off + 4) w" .
  then show ?thesis using assms(3,4)
    by (auto simp: xran_parse_section_ext9_def get_bits_numeral XRAN_SECTIONEXT_ALIGN_def at_def)
qed

lemma take_bit_small: "unat (x :: 'a::len word) < 2 ^ k \<Longrightarrow> take_bit k x = x"
  using take_bit_ucast_small [of x k, where 'b = 'a] by simp

lemma peek_second: "holds_at m off (be32 x @ w) \<Longrightarrow> peek m (off + 1) 1 = Done [ucast (get_bits 16 8 x)]"
  using peek_held [of m off "be32 x @ w" 1 1] by (simp add: be32_def le32_bytes)

lemma read_beam_held:
  assumes "dpdk_pkt_ok d" "holds_at m off (be16 x @ w)"
  shows "read_beam d off m = Done x"
  using peek_first [OF assms(2), of 2] assms(1) of_be16 [of x "[]"] by (simp add: read_beam_def dpdk_pkt_ok_def)

definition ext3_layers :: "xran_sectionext3_info \<Rightarrow> ext3_first" where
  "ext3_layers e = \<lparr>r3_txScheme = txScheme e, r3_crsReMask = crsReMask e, r3_crsShift = crsShift e, r3_crsSymNum = crsSymNum e,
     r3_beamIdAP1 = beamIdAP1 e, r3_beamIdAP23 = (if numAntPort e = 2 then None else Some (beamIdAP2 e, beamIdAP3 e)),
     r3_numAntPort = (if numAntPort e = 2 then 2 else 4)\<rparr>"

lemma ext3_small:
  assumes "ext_ok (Ext3 e)"
  shows "take_bit 4 (layerId e) = layerId e" "take_bit 4 (numLayers e) = numLayers e" "take_bit 4 (txScheme e) = txScheme e"
    "take_bit 12 (crsReMask e) = crsReMask e" "crsShift e mod 2 = crsShift e" "take_bit 4 (crsSymNum e) = crsSymNum e"
  using assms take_bit_small [of "crsShift e" 1] by (simp_all add: take_bit_small)

definition ext3_hi :: "u32 \<Rightarrow> xran_sectionext3_info \<Rightarrow> u32 \<Rightarrow> u32" where
  "ext3_hi ef e n = bit_fields [(1, ef), (7, 3), (8, n), (8, ucast (codebookIdx e)), (4, ucast (layerId e)), (4, ucast (numLayers e))]"

definition ext3_lo :: "xran_sectionext3_info \<Rightarrow> u32" where
  "ext3_lo e = bit_fields [(4, ucast (txScheme e)), (12, ucast (crsReMask e)), (1, ucast (crsShift e)), (3, 0), (4, ucast (crsSymNum e)), (8, 0)]"

lemma ext3_bits:
  assumes "ext_ok (Ext3 e)"
  shows "n \<in> {1, 3, 4} \<Longrightarrow> get_bits 16 8 (ext3_hi ef e n) = n" "ucast (get_bits 8 8 (ext3_hi ef e n)) = codebookIdx e"
    "ucast (get_bits 4 4 (ext3_hi ef e n)) = layerId e" "ucast (get_bits 0 4 (ext3_hi ef e n)) = numLayers e"
    "ucast (get_bits 28 4 (ext3_lo e)) = txScheme e" "ucast (get_bits 16 12 (ext3_lo e)) = crsReMask e"
    "ucast (get_bits 15 1 (ext3_lo e)) = crsShift e" "ucast (get_bits 8 4 (ext3_lo e)) = crsSymNum e"
  by (auto simp: ext3_hi_def ext3_lo_def ext3_small [OF assms] get_bits_numeral)

lemma ext3_wire_words:
  "ext3_wire ef e = be32 (ext3_hi ef e (if first_layer e then if numAntPort e = 2 then 3 else 4 else 1))
     @ (if first_layer e then be32 (ext3_lo e) @ [0, 0] @ be16 (beamIdAP1 e) @ (if numAntPort e = 2 then [] else be16 (beamIdAP2 e) @ be16 (beamIdAP3 e)) else [])"
  by (simp add: ext3_wire_def ext3_hi_def ext3_lo_def first_layer_def Let_def)

lemma ucast_via_u64 [simp]: "(ucast (ucast (x :: u32) :: u64) :: 'a::len word) = ucast x"
  by (rule bit_word_eqI) (auto simp: bit_simps dest: bit_imp_le_length)

lemma ext3_first_read:
  assumes d: "dpdk_pkt_ok d" and e: "ext_ok (Ext3 e)"
    and h: "holds_at m off (be32 (ext3_hi ef e (if numAntPort e = 2 then 3 else 4)) @ be32 (ext3_lo e) @ [0, 0] @ be16 (beamIdAP1 e)
      @ (if numAntPort e = 2 then [] else be16 (beamIdAP2 e) @ be16 (beamIdAP3 e)) @ w)"
  shows "\<exists>m'. parse_ext3_first d (numAntPort e \<noteq> 2) off m
      = Done (if numAntPort e = 2 then 12 else 16, Some \<lparr>r3_codebookIdx = codebookIdx e, r3_layerId = layerId e, r3_numLayers = numLayers e,
          r3_first = Some (ext3_layers e)\<rparr>, m') \<and> holds_at m' (off + (if numAntPort e = 2 then 12 else 16)) w"
proof -
  let ?n = "if numAntPort e = 2 then 3 else 4 :: u32"
  from turn64_held [OF d h] obtain m1 where m1: "turn64 d off m = Done (two_words (ext3_lo e) (ext3_hi ef e ?n), m1)"
    "holds_at m1 (off + 8) ([0, 0] @ be16 (beamIdAP1 e) @ (if numAntPort e = 2 then [] else be16 (beamIdAP2 e) @ be16 (beamIdAP3 e)) @ w)" .
  have h1: "holds_at m1 (off + 10) (be16 (beamIdAP1 e) @ (if numAntPort e = 2 then [] else be16 (beamIdAP2 e) @ be16 (beamIdAP3 e)) @ w)"
    using holds_at_behind [OF m1(2)] by (simp add: add.commute [of off])
  have h2: "holds_at m1 (off + 12) ((if numAntPort e = 2 then [] else be16 (beamIdAP2 e) @ be16 (beamIdAP3 e)) @ w)"
    using holds_at_behind [OF h1] by (simp add: add.commute [of off])
  note b = ext3_bits(1) [OF e, of ?n ef] ext3_bits(2-4) [OF e, where n = ?n and ef = ef] ext3_bits(5-8) [OF e]
  show ?thesis
  proof (cases "numAntPort e = 2")
    case True
    then show ?thesis using m1(1) h2 read_beam_held [OF d h1] b
      by (auto simp: parse_ext3_first_def get_bits_two_words XRAN_SECTIONEXT_ALIGN_def ext3_layers_def)
  next
    case False
    then have h2': "holds_at m1 (off + 12) (be16 (beamIdAP2 e) @ be16 (beamIdAP3 e) @ w)" using h2 by simp
    have h3: "holds_at m1 (off + 14) (be16 (beamIdAP3 e) @ w)" using holds_at_behind [OF h2'] by (simp add: add.commute [of off])
    have "holds_at m1 (off + 16) w" using holds_at_behind [OF h3] by (simp add: add.commute [of off])
    then show ?thesis using False m1(1) read_beam_held [OF d h1] read_beam_held [OF d h2'] read_beam_held [OF d h3] b
      by (auto simp: parse_ext3_first_def get_bits_two_words XRAN_SECTIONEXT_ALIGN_def ext3_layers_def)
  qed
qed

lemma ext3_read:
  assumes "dpdk_pkt_ok d" "ext_ok (Ext3 e)" "holds_at m off (ext3_wire ef e @ w)"
  shows "\<exists>m'. parsed_as Rx3 (xran_parse_section_ext3 d off m) = Done (length (ext3_wire ef e), recv_of (Ext3 e), m')
    \<and> holds_at m' (off + length (ext3_wire ef e)) w"
proof -
  let ?n = "if first_layer e then if numAntPort e = 2 then 3 else 4 else 1 :: u32"
  have "holds_at m off (be32 (ext3_hi ef e ?n) @ drop 4 (ext3_wire ef e) @ w)" using assms(3) by (simp add: ext3_wire_words)
  from peek_second [OF this] have p: "peek m (off + 1) 1 = Done [ucast ?n]" using ext3_bits(1) [OF assms(2), of ?n ef] by auto
  show ?thesis
  proof (cases "first_layer e")
    case True
    from ext3_first_read [OF assms(1,2), of m off ef w] assms(3) True obtain m' where
      "parse_ext3_first d (numAntPort e \<noteq> 2) off m = Done (if numAntPort e = 2 then 12 else 16, Some \<lparr>r3_codebookIdx = codebookIdx e,
         r3_layerId = layerId e, r3_numLayers = numLayers e, r3_first = Some (ext3_layers e)\<rparr>, m')"
      "holds_at m' (off + (if numAntPort e = 2 then 12 else 16)) w" by (auto simp: ext3_wire_words)
    then show ?thesis using True p by (auto simp: xran_parse_section_ext3_def parsed_as_def ext3_wire_words ext3_layers_def)
  next
    case False
    with assms(3) have "holds_at m off (be32 (ext3_hi ef e 1) @ w)" by (simp add: ext3_wire_words)
    from turn32_held [OF assms(1) this] obtain m' where "turn32 d off m = Done (ext3_hi ef e 1, m')" "holds_at m' (off + 4) w" .
    then show ?thesis using False p ext3_bits(1) [OF assms(2), of 1 ef] ext3_bits(2-4) [OF assms(2), where n = 1 and ef = ef]
      by (auto simp: xran_parse_section_ext3_def parsed_as_def ext3_wire_words XRAN_SECTIONEXT_ALIGN_def)
  qed
qed

lemma bit_be32:
  assumes "length bs = 4" "i < 32"
  shows "bit (swap32 (of_le32 bs)) i \<longleftrightarrow> bit (bs ! (3 - i div 8)) (i mod 8)"
proof -
  obtain a b c e where bs: "bs = [a, b, c, e]" using assms(1) by (auto simp: length_Suc_conv numeral_eq_Suc)
  have s: "swap32 (of_le32 bs) = of_le32 [e, c, b, a]" by (simp add: swap32_def le32_of_le32 bs)
  define q r where "q = i div 8" and "r = i mod 8"
  have q: "i = 8 * q + r" "r < 8" "q < 4" using assms(2) by (simp_all add: q_def r_def)
  have n: "\<not> bit x (m + r)" if "8 \<le> m" for x :: u8 and m using bit_imp_le_length [of x "m + r"] that by auto
  have m8: "(16 + r) mod 8 = r" "(24 + r) mod 8 = r" using q(2) by presburger+
  from q(3) consider "q = 0" | "q = 1" | "q = 2" | "q = 3" by linarith
  then show ?thesis
    using q(2) n unfolding s q_def [symmetric] r_def [symmetric] q(1)
    by cases (simp_all add: of_le32_def bs bit_simps not_le m8)
qed

lemma high_bytes:
  assumes "length bs = 4" "take k bs = take k (be32 x)" "n \<le> 8 * k" "n \<le> 32"
  shows "drop_bit (32 - n) (swap32 (of_le32 bs)) = drop_bit (32 - n) x"
proof (rule bit_word_eqI)
  fix i
  assume "i < LENGTH(32)"
  show "bit (drop_bit (32 - n) (swap32 (of_le32 bs))) i = bit (drop_bit (32 - n) x) i"
  proof (cases "32 - n + i < 32")
    case True
    let ?i = "32 - n + i"
    have "3 - ?i div 8 < k" using True assms(3,4) by linarith
    then have "bs ! (3 - ?i div 8) = be32 x ! (3 - ?i div 8)" using assms(2) by (metis nth_take)
    then have "bit (swap32 (of_le32 bs)) ?i = bit (swap32 (of_le32 (be32 x))) ?i"
      using True assms(1) by (simp only: bit_be32 length_be)
    then show ?thesis using of_be32 [of x "[]"] by (simp add: bit_drop_bit_eq)
  next
    case False
    then show ?thesis using bit_imp_le_length [of x "32 - n + i"] bit_imp_le_length [of "swap32 (of_le32 bs)" "32 - n + i"]
      by (auto simp: bit_drop_bit_eq)
  qed
qed

lemma bit_fields_snoc: "bit_fields (fs @ [(k, v)]) = or (push_bit k (bit_fields fs)) (take_bit k v)"
proof (induction fs)
  case (Cons f fs)
  then show ?case by (cases f) (simp add: push_bit_or or.assoc add.commute)
qed simp

lemma bit_fields_bound: "sum_list (map fst fs) \<le> n \<Longrightarrow> take_bit n (bit_fields fs) = bit_fields fs"
proof (induction fs)
  case (Cons f fs)
  obtain w v where f: "f = (w, v)" by (cases f)
  have "take_bit n (push_bit (sum_list (map fst fs)) (take_bit w v)) = push_bit (sum_list (map fst fs)) (take_bit w v)"
    using Cons.prems by (intro bit_word_eqI) (auto simp: f bit_simps)
  then show ?case using Cons by (simp add: f take_bit_or)
qed simp

lemma attr_bits_widths: "attr_bits xs = sum_list (map width_bits (map fst xs))"
  by (induction xs) (auto simp: attr_bits_def attr_fields_def width_bits_def)

lemma attr_bits_append: "attr_bits (xs @ ys) = attr_bits xs + attr_bits ys"
  by (simp add: attr_bits_widths)

lemma ext2_split_fields:
  assumes "\<forall>x\<in>set xs. unat (fst x) < 8" "attr_bits xs \<le> 32"
  shows "ext2_split (rev (map fst xs)) (bit_fields (attr_fields xs)) = Done (map attr_read xs)"
  using assms
proof (induction xs rule: rev_induct)
  case (snoc x xs)
  obtain w v where x: "x = (w, v)" by (cases x)
  show ?case
  proof (cases "w = 0")
    case True
    then show ?thesis using snoc by (simp add: x attr_fields_def attr_read_def attr_bits_append)
  next
    case False
    define k where "k = Suc (unat w)"
    let ?X = "bit_fields (attr_fields xs) :: u32"
    have k: "k \<le> 8" "attr_bits xs + k \<le> 32" "at bitmask (unat w) = Done (mask k)"
      using snoc.prems False at_bitmask [of w] by (auto simp: x k_def attr_bits_append) (simp add: attr_bits_def attr_fields_def)
    have a: "attr_read (w, v) = (w, Some (take_bit k v))" using False by (simp add: attr_read_def k_def)
    have f: "bit_fields (attr_fields (xs @ [(w, v)])) = or (push_bit k ?X) (take_bit k (ucast v))"
      using False bit_fields_snoc [of "attr_fields xs" k "ucast v"] by (simp add: attr_fields_def k_def)
    have "take_bit (32 - k) ?X = ?X" by (rule bit_fields_bound) (use k(2) in \<open>simp add: attr_bits_def\<close>)
    moreover have "drop_bit k (or (push_bit k ?X) (take_bit k (ucast v))) = take_bit (32 - k) ?X"
      by (rule bit_word_eqI) (auto simp: bit_simps)
    ultimately have "drop_bit k (bit_fields (attr_fields (xs @ [(w, v)]))) = ?X" unfolding f by simp
    moreover have "(ucast (and (bit_fields (attr_fields (xs @ [(w, v)])) :: u32) (ucast (mask k :: u8))) :: u8) = take_bit k v"
      using k(1) unfolding f by (intro bit_word_eqI) (auto simp: bit_simps)
    moreover have "ext2_split (rev (map fst xs)) ?X = Done (map attr_read xs)"
      using snoc by (simp add: attr_bits_append)
    ultimately show ?thesis using False k(3) by (simp add: x a k_def [symmetric])
  qed
qed (simp add: attr_fields_def)

lemma ext2_head_bits:
  assumes "ext_ok (Ext2 e)" "n < 256"
  shows "unat (get_bits 16 8 (ext2_head ef e n)) = n"
    "[ucast (get_bits 11 3 (ext2_head ef e n)), ucast (get_bits 8 3 (ext2_head ef e n)), ucast (get_bits 3 3 (ext2_head ef e n)),
      ucast (get_bits 0 3 (ext2_head ef e n))] = map fst (ext2_attributes e)"
proof -
  have w: "take_bit 3 (bfAzPtWidth e) = bfAzPtWidth e" "take_bit 3 (bfZePtWidth e) = bfZePtWidth e"
    "take_bit 3 (bfAz3ddWidth e) = bfAz3ddWidth e" "take_bit 3 (bfZe3ddWidth e) = bfZe3ddWidth e"
    using assms(1) by (auto simp: ext2_attributes_def take_bit_small)
  have "get_bits 16 8 (ext2_head ef e n) = take_bit 8 (of_nat n)" by (simp add: ext2_head_def get_bits_numeral)
  moreover have "unat (take_bit 8 (of_nat n) :: u32) = n"
    using assms(2) by (simp add: unsigned_take_bit_eq unat_of_nat take_bit_nat_eq_self)
  ultimately show "unat (get_bits 16 8 (ext2_head ef e n)) = n" by simp
  show "[ucast (get_bits 11 3 (ext2_head ef e n)), ucast (get_bits 8 3 (ext2_head ef e n)), ucast (get_bits 3 3 (ext2_head ef e n)),
      ucast (get_bits 0 3 (ext2_head ef e n))] = map fst (ext2_attributes e)"
    by (simp add: ext2_head_def get_bits_numeral ext2_attributes_def w)
qed

lemma ext2_value_read:
  assumes "\<forall>x\<in>set xs. unat (fst x) < 8" "attr_bits xs \<le> 32" "0 < attr_bits xs" "length bs = 4"
    and "take k bs = take k (be32 (push_bit (32 - attr_bits xs) (bit_fields (attr_fields xs))))" "attr_bits xs \<le> 8 * k"
  shows "ext2_split (rev (map fst xs)) (drop_bit (32 - attr_bits xs) (swap32 (of_le32 bs))) = Done (map attr_read xs)"
proof -
  let ?V = "bit_fields (attr_fields xs) :: u32" and ?n = "attr_bits xs"
  have "drop_bit (32 - ?n) (push_bit (32 - ?n) ?V) = take_bit ?n ?V" using assms(2) by (intro bit_word_eqI) (auto simp: bit_simps)
  also have "\<dots> = ?V" by (rule bit_fields_bound) (simp add: attr_bits_def)
  finally show ?thesis using high_bytes [OF assms(4,5,6,2)] ext2_split_fields [OF assms(1,2)] by simp
qed

lemma si_read:
  fixes a b :: u8
  shows "and (drop_bit 3 (bit_fields [(5, a), (3, b)])) 7 = take_bit 3 a" "unat b < 8 \<Longrightarrow> and (bit_fields [(5, a), (3, b)]) 7 = b"
proof -
  have m: "(7 :: u8) = mask 3" by (simp add: mask_eq_exp_minus_1)
  have "and (drop_bit 3 (bit_fields [(5, a), (3, b)])) (mask 3) = take_bit 3 a" by (rule bit_word_eqI) (auto simp: bit_simps)
  then show "and (drop_bit 3 (bit_fields [(5, a), (3, b)])) 7 = take_bit 3 a" by (simp only: m)
  have "and (bit_fields [(5, a), (3, b)]) (mask 3) = take_bit 3 b" by (rule bit_word_eqI) (auto simp: bit_simps)
  then show "unat b < 8 \<Longrightarrow> and (bit_fields [(5, a), (3, b)]) 7 = b" by (simp only: m) (simp add: take_bit_small)
qed

lemma ext2_padded:
  assumes "k \<le> 4"
  shows "4 + (k + 1 + padding (k + 1)) = 4 * (1 + (k + 1 + padding (k + 1)) div 4)" "0 < k \<Longrightarrow> 4 \<le> k + 1 + padding (k + 1)"
    "1 + (k + 1 + padding (k + 1)) div 4 < 256"
proof -
  from assms consider "k = 0" | "k = 1" | "k = 2" | "k = 3" | "k = 4" by linarith
  then have "4 + (k + 1 + padding (k + 1)) = 4 * (1 + (k + 1 + padding (k + 1)) div 4) \<and> (0 < k \<longrightarrow> 4 \<le> k + 1 + padding (k + 1))
      \<and> 1 + (k + 1 + padding (k + 1)) div 4 < 256"
    by cases (simp_all add: padding_def XRAN_SECTIONEXT_ALIGN_def)
  then show "4 + (k + 1 + padding (k + 1)) = 4 * (1 + (k + 1 + padding (k + 1)) div 4)" "0 < k \<Longrightarrow> 4 \<le> k + 1 + padding (k + 1)"
    "1 + (k + 1 + padding (k + 1)) div 4 < 256" by blast+
qed

lemma bits_to_bytes_up: "bits_to_bytes n = (n + 7) div 8"
proof -
  define q r where "q = n div 8" and "r = n mod 8"
  have n: "n = 8 * q + r" "r < 8" by (simp_all add: q_def r_def)
  have "(8 * q + r + 7) div 8 = q + (if r \<noteq> 0 then 1 else 0)" using n(2) by (intro div_nat_eqI) auto
  then show ?thesis by (simp add: bits_to_bytes_def q_def [symmetric] r_def [symmetric]) (simp add: n(1))
qed

lemma ext2_read:
  assumes "dpdk_pkt_ok d" "ext_ok (Ext2 e)" "holds_at m off (ext2_wire ef e @ w)"
  shows "\<exists>m'. parsed_as Rx2 (xran_parse_section_ext2 d off m) = Done (length (ext2_wire ef e), recv_of (Ext2 e), m')
    \<and> holds_at m' (off + length (ext2_wire ef e)) w"
proof -
  let ?xs = "ext2_attributes e"
  define n k where "n = attr_bits ?xs" and "k = (n + 7) div 8"
  define tl where "tl = ext2_octets e @ replicate (padding (k + 1)) 0"
  have ws: "\<forall>x\<in>set ?xs. unat (fst x) < 8" using assms(2) by simp
  have n: "n \<le> 32" using ext2_val_fields [OF ws, of 0 0] by (simp add: n_def ext2_attributes_def)
  then have k: "k \<le> 4" "n \<le> 8 * k" "bits_to_bytes n = k" "0 < n \<Longrightarrow> 0 < k" by (auto simp: k_def bits_to_bytes_up)
  have oct: "ext2_octets e = take k (be32 (push_bit (32 - n) (bit_fields (attr_fields ?xs)))) @ [bit_fields [(5, bfAzSI e), (3, bfZeSI e)]]"
    by (simp add: ext2_octets_def n_def k_def Let_def)
  then have lt: "length (ext2_octets e) = k + 1" "length tl = k + 1 + padding (k + 1)" using k(1) by (simp_all add: tl_def)
  let ?h = "ext2_head ef e (1 + (k + 1 + padding (k + 1)) div 4)"
  have wire: "ext2_wire ef e = be32 ?h @ tl" by (simp add: ext2_wire_split lt(1) tl_def Let_def)
  note h = ext2_head_bits [OF assms(2) ext2_padded(3) [OF k(1)], of ef]
  have "holds_at m off (be32 ?h @ tl @ w)" using assms(3) by (simp add: wire)
  from turn32_held [OF assms(1) this] obtain m1 where m1: "turn32 d off m = Done (?h, m1)" "holds_at m1 (off + 4) (tl @ w)" .
  have main: "(if n = 0 then ext2_split (rev (map fst ?xs)) 0
      else obind (peek m1 (off + 4) 4) (\<lambda>b. ext2_split (rev (map fst ?xs)) (drop_bit (32 - n) (rte_cpu_to_be_32 d (of_le32 b))))) = Done (map attr_read ?xs)"
  proof (cases "n = 0")
    case True
    then have "bit_fields (attr_fields ?xs) = (0 :: u32)" using bit_fields_bound [of "attr_fields ?xs :: (nat \<times> u32) list" 0] by (simp add: n_def attr_bits_def)
    then show ?thesis using True ext2_split_fields [OF ws] n by (simp add: n_def)
  next
    case False
    then have t4: "4 \<le> length tl" using ext2_padded(2) [OF k(1)] k(4) lt(2) by simp
    then have pk: "peek m1 (off + 4) 4 = Done (take 4 tl)" using peek_first [OF m1(2), of 4] by simp
    have "take k (take 4 tl) = take k (be32 (push_bit (32 - n) (bit_fields (attr_fields ?xs))))" using k(1) by (simp add: tl_def oct min_absorb1)
    from ext2_value_read [OF ws _ _ _ this [unfolded n_def], folded n_def] show ?thesis
      using False pk n k(2) t4 assms(1) by (simp add: dpdk_pkt_ok_def)
  qed
  have "tl ! k = bit_fields [(5, bfAzSI e), (3, bfZeSI e)]" using k(1) by (simp add: tl_def oct nth_append)
  then have pk: "peek m1 (off + 4 + k) 1 = Done [bit_fields [(5, bfAzSI e), (3, bfZeSI e)]]"
    using peek_held [OF m1(2), of k 1] lt(2) by (simp add: take_Suc_conv_app_nth nth_append drop_Suc nth_drop take_Suc hd_drop_conv_nth)
  have sm: "sum_list (map width_bits (map fst ?xs)) = n" by (simp add: n_def attr_bits_widths)
  have len: "length (ext2_wire ef e) = (1 + (k + 1 + padding (k + 1)) div 4) * 4" using ext2_padded(1) [OF k(1)] by (simp add: wire lt(2))
  have "unat (bfZeSI e) < 8" using assms(2) by simp
  note si = si_read(1) [of "bfAzSI e" "bfZeSI e"] si_read(2) [OF this, of "bfAzSI e"]
  have "xran_parse_section_ext2 d off m = Done (length (ext2_wire ef e),
      \<lparr>r2_attributes = map attr_read ?xs, r2_bfAzSI = take_bit 3 (bfAzSI e), r2_bfZeSI = bfZeSI e\<rparr>, m1)"
    by (simp only: xran_parse_section_ext2_def Let_def m1(1) obind.simps case_prod_conv h sm main k(3) pk nth_Cons_0 si len XRAN_SECTIONEXT_ALIGN_def)
  moreover have "holds_at m1 (off + length (ext2_wire ef e)) w" using holds_at_behind [OF m1(2)] by (simp add: wire add.assoc)
  ultimately show ?thesis by (simp only: parsed_as_def obind.simps case_prod_conv recv_of.simps) blast
qed

lemma ext_head_byte:
  fixes ef :: u32
  assumes "sum_list (map fst fs) = 24"
  shows "be32 (bit_fields ((1, ef) # (7, ty) # fs)) = bit_fields [(1, ucast ef), (7, ucast ty)] # tl (be32 (bit_fields ((1, ef) # (7, ty) # fs)))"
proof -
  have "get_bits 24 8 (bit_fields fs :: u32) = 0"
  proof -
    have "get_bits 24 8 (take_bit 24 (bit_fields fs :: u32)) = 0" by (rule bit_word_eqI) (auto simp: get_bits_def bit_simps)
    then show ?thesis using bit_fields_bound [of fs 24] assms by simp
  qed
  moreover have "get_bits 24 8 (push_bit 24 (take_bit 7 ty) :: u32) = take_bit 7 ty" by (rule bit_word_eqI) (auto simp: get_bits_def bit_simps)
  moreover have "(ucast (take_bit 7 ty) :: u8) = take_bit 7 (ucast ty)" by (rule bit_word_eqI) (auto simp: bit_simps)
  ultimately show ?thesis using assms
    by (simp add: be32_def le32_bytes get_bits_top ucast_push_flag ucast_or_word)
qed

lemma high_word_bits: "get_bits 24 8 (ucast (drop_bit 32 (x :: u64)) :: u32) = ucast (get_bits 56 8 x)"
  by (rule bit_word_eqI) (auto simp: get_bits_def bit_simps)

lemma ext_first_byte:
  assumes "ext_ok e"
  obtains bs where "ext_wire ef e = bit_fields [(1, ucast ef), (7, ext_type e)] # bs"
proof (cases e)
  case (Ext2 x)
  have "ext_wire ef e = be32 (bit_fields ((1, ef) # (7, 2) # [(8, of_nat (1 + (length (ext2_octets x) + padding (length (ext2_octets x))) div 4)),
      (2, 0), (3, ucast (bfAzPtWidth x)), (3, ucast (bfZePtWidth x)), (2, 0), (3, ucast (bfAz3ddWidth x)), (3, ucast (bfZe3ddWidth x))]))
      @ ext2_octets x @ replicate (padding (length (ext2_octets x))) 0"
    by (simp only: Ext2 ext_wire.simps ext2_wire_split ext2_head_def Let_def)
  then show ?thesis using that ext_head_byte [of "[(8, of_nat (1 + (length (ext2_octets x) + padding (length (ext2_octets x))) div 4)),
      (2, 0), (3, ucast (bfAzPtWidth x)), (3, ucast (bfZePtWidth x)), (2, 0), (3, ucast (bfAz3ddWidth x)), (3, ucast (bfZe3ddWidth x))]" ef 2]
    by (simp add: Ext2 del: bit_fields.simps) (metis append_Cons)
next
  case (Ext3 x)
  let ?n = "if first_layer x then if numAntPort x = 2 then 3 else 4 else 1 :: u32"
  have "ext3_hi ef x ?n = bit_fields ((1, ef) # (7, 3) # [(8, ?n), (8, ucast (codebookIdx x)), (4, ucast (layerId x)), (4, ucast (numLayers x))])"
    by (simp only: ext3_hi_def)
  then show ?thesis using that ext_head_byte [of "[(8, ?n), (8, ucast (codebookIdx x)), (4, ucast (layerId x)), (4, ucast (numLayers x))]" ef 3]
    by (simp add: Ext3 ext3_wire_words del: bit_fields.simps) (metis append_Cons)
next
  case (Ext4 x)
  then show ?thesis using that ext_head_byte [of "[(8, 1), (1, if csf x = 0 then 0 else 1), (15, ucast (modCompScaler x))]" ef 4]
    by (simp add: ext4_wire_def del: bit_fields.simps)
next
  case (Ext6 x)
  let ?f = "bit_fields [(1, ucast ef), (7, 6), (8, 2), (1, 0), (3, ucast (rbgSize x)), (28, ucast (rbgMask x)), (2, 0), (14, ucast (symbolMask x))] :: u64"
  note high_word_bits [of ?f]
  moreover have "get_bits 56 8 (push_bit 63 (ucast ef mod 2) :: u64) = push_bit 7 (ucast ef mod 2)"
  proof -
    have "get_bits 56 8 (push_bit 63 (take_bit 1 (ucast ef)) :: u64) = push_bit 7 (take_bit 1 (ucast ef))"
      by (rule bit_word_eqI) (auto simp: get_bits_def bit_simps)
    then show ?thesis by simp
  qed
  moreover have "(ucast (ucast (push_bit 7 (ucast ef mod 2) :: u64) :: u32) :: u8) = push_bit 7 (ucast ef mod 2)"
  proof -
    have "(ucast (ucast (push_bit 7 (take_bit 1 (ucast ef)) :: u64) :: u32) :: u8) = push_bit 7 (take_bit 1 (ucast ef))"
      by (rule bit_word_eqI) (auto simp: bit_simps)
    then show ?thesis by simp
  qed
  ultimately show ?thesis using that by (simp add: Ext6 ext6_wire_def be64_words be32_def le32_bytes get_bits_numeral ucast_or_word)
next
  case (Ext9 x)
  then show ?thesis using that by (simp add: ext9_wire_def)
qed (use assms in simp_all)

definition ext9_ok :: "u32 \<Rightarrow> u8 \<Rightarrow> u8 list \<Rightarrow> xran_section_ext \<Rightarrow> bool" where
  "ext9_ok tti period tech e \<longleftrightarrow> (case e of Ext9 x \<Rightarrow> period \<noteq> 0 \<and> unat tti mod unat period < length tech | _ \<Rightarrow> True)"

lemma length_ext9: "length (ext9_wire ef x) = 4"
  by (simp add: ext9_wire_def)

lemma ext_parsed:
  assumes "dpdk_pkt_ok d" "ext_ok e" "ext9_ok tti period tech e" "holds_at m off (ext_wire ef e @ w)"
  shows "\<exists>m'. parse_ext d v tti period tech (ext_type e) off m = Done (length (ext_wire ef e), recv_of e, m')
    \<and> holds_at m' (off + length (ext_wire ef e)) w"
proof (cases e)
  case (Ext2 x)
  then show ?thesis using ext2_read [OF assms(1), of x m off ef w] assms(2,4) by (simp add: parse_ext_def)
next
  case (Ext3 x)
  then show ?thesis using ext3_read [OF assms(1), of x m off ef w] assms(2,4) by (simp add: parse_ext_def)
next
  case (Ext4 x)
  then show ?thesis using ext4_read [OF assms(1), of m off ef x w] assms(4)
    by (auto simp: parse_ext_def parsed_as_def) (simp_all add: ext4_wire_def)
next
  case (Ext6 x)
  then show ?thesis using ext6_read [OF assms(1), of m off ef x w] assms(4)
    by (auto simp: parse_ext_def parsed_as_def) (simp_all add: ext6_wire_def)
next
  case (Ext9 x)
  then show ?thesis using ext9_read [OF assms(1), of m off ef x w period tti tech] assms(3,4)
    by (auto simp: parse_ext_def parsed_as_def ext9_ok_def length_ext9)
qed (use assms(2) in simp_all)

lemma length_ext_wire: "ext_ok e \<Longrightarrow> length (ext_wire ef e) = length (ext_wire 0 e)"
  by (cases e) (simp_all add: ext2_wire_split ext3_wire_words ext4_wire_def ext6_wire_def ext9_wire_def Let_def)

definition recv_ext :: "xran_section_ext \<Rightarrow> u8 \<times> nat \<times> xran_ext_recv" where
  "recv_ext e = (ext_type e, length (ext_wire 0 e), recv_of e)"

lemma ext_flag_read:
  assumes "ext_ok e"
  shows "and (bit_fields [(1, 0), (7, ext_type e)]) 0x80 = 0" "and (bit_fields [(1, 1), (7, ext_type e)]) 0x80 \<noteq> 0"
    "and (bit_fields [(1, 0), (7, ext_type e)]) 0x7f = ext_type e" "and (bit_fields [(1, 1), (7, ext_type e)]) 0x7f = ext_type e"
  using assms by (cases e; simp)+

lemma exts_parsed:
  assumes "dpdk_pkt_ok d"
  shows "es \<noteq> [] \<Longrightarrow> list_all ext_ok es \<Longrightarrow> list_all (ext9_ok tti period tech) es \<Longrightarrow> length es \<le> n \<Longrightarrow> holds_at m off (exts_wire es @ w)
    \<Longrightarrow> \<exists>m'. parse_exts d v tti period tech n off m = Done (map recv_ext es, length (exts_wire es), m')
          \<and> holds_at m' (off + length (exts_wire es)) w"
proof (induction es arbitrary: n off m)
  case (Cons e es)
  let ?ef = "if es = [] then 0 else 1 :: u32"
  from Cons.prems(4) obtain k where n: "n = Suc k" by (cases n) auto
  have ok: "ext_ok e" "ext9_ok tti period tech e" using Cons.prems by auto
  have h: "holds_at m off (ext_wire ?ef e @ exts_wire es @ w)" using Cons.prems(5) by simp
  from ext_first_byte [OF ok(1), of ?ef] obtain bs where bs: "ext_wire ?ef e = bit_fields [(1, ucast ?ef), (7, ext_type e)] # bs" .
  then have pk: "peek m off 1 = Done [bit_fields [(1, ucast ?ef), (7, ext_type e)]]"
    using peek_first [OF h, of 1] by (simp del: bit_fields.simps)
  from ext_parsed [OF assms ok h] obtain m1 where m1:
    "parse_ext d v tti period tech (ext_type e) off m = Done (length (ext_wire 0 e), recv_of e, m1)" "holds_at m1 (off + length (ext_wire 0 e)) (exts_wire es @ w)"
    unfolding length_ext_wire [OF ok(1), of ?ef] by blast
  note f = ext_flag_read [OF ok(1)]
  show ?case
  proof (cases "es = []")
    case True
    then show ?thesis using pk m1 f by (simp add: n recv_ext_def del: bit_fields.simps)
  next
    case False
    from Cons.IH [OF False _ _ _ m1(2), of k] Cons.prems obtain m2 where
      "parse_exts d v tti period tech k (off + length (ext_wire 0 e)) m1 = Done (map recv_ext es, length (exts_wire es), m2)"
      "holds_at m2 (off + length (ext_wire 0 e) + length (exts_wire es)) w" by (auto simp: n)
    then show ?thesis using False pk m1 f length_ext_wire [OF ok(1), of 1] by (simp add: n recv_ext_def add.assoc del: bit_fields.simps)
  qed
qed simp

section \<open>Sections\<close>

definition received :: "u8 \<Rightarrow> xran_section_info \<Rightarrow> xran_section_info \<Rightarrow> xran_section_info" where
  "received ty e r = r\<lparr>sect_type := ty, sect_no := sect_no e, rbInd := rbInd e, symInc := symInc e, startPrbc := startPrbc e,
     numPrbc := (if numPrbc e > 255 then 0 else numPrbc e), numSymbol := numSymbol e, reMask := reMask e, beamId := beamId e,
     ext_flag := ext_flag e\<rparr>"

lemma base_sect_id:
  assumes "mu_sect_id i mu < 4096" "unat i < XRAN_MAX_SECTIONS_PER_SLOT"
  shows "XRAN_MU_SECT_ID_TO_BASE_SECT_ID (ucast (take_bit 12 (of_nat (mu_sect_id i mu) :: u32))) = i"
proof -
  have "unat (ucast (take_bit 12 (of_nat (mu_sect_id i mu) :: u32)) :: u16) = mu_sect_id i mu"
    using assms(1) by (simp add: unsigned_ucast_eq unsigned_take_bit_eq unat_of_nat take_bit_nat_eq_self)
  moreover have "mu_sect_id i mu mod XRAN_MAX_SECTIONS_PER_SLOT = unat i"
    using assms(2) by (simp add: mu_sect_id_def)
  ultimately show ?thesis
    by (simp add: XRAN_MU_SECT_ID_TO_BASE_SECT_ID_def word_unat_eq_iff unat_mod XRAN_MAX_SECTIONS_PER_SLOT_def)
qed

lemma flag_small: "unat (x :: u8) < 2 \<Longrightarrow> x mod 2 = x"
  using take_bit_small [of x 1] by simp

lemma section_read:
  assumes "section_ok mu e" "unat (sect_no e) < XRAN_MAX_SECTIONS_PER_SLOT" "ty \<noteq> XRAN_CP_SECTIONTYPE_0" "unat ty < 16"
  shows "read_cp_section ty (two_words (beam_word e) (place_word mu e)) r = received ty e r"
proof -
  have s: "take_bit 10 (startPrbc e) = startPrbc e" "take_bit 4 (numSymbol e) = numSymbol e" "take_bit 12 (reMask e) = reMask e"
    "take_bit 15 (beamId e) = beamId e" "rbInd e mod 2 = rbInd e" "symInc e mod 2 = symInc e" "ext_flag e mod 2 = ext_flag e" "take_bit 4 ty = ty"
    using assms by (auto simp: section_ok_def intro!: take_bit_small flag_small)
  have n: "ucast (take_bit 8 (if numPrbc e > 255 then 0 else ucast (numPrbc e) :: u32)) = (if numPrbc e > 255 then 0 else numPrbc e)"
    using take_bit_small [of "numPrbc e" 8] by (simp add: word_less_nat_alt)
  have i: "XRAN_MU_SECT_ID_TO_BASE_SECT_ID (ucast (take_bit 12 (of_nat (mu_sect_id (sect_no e) mu) :: u32))) = sect_no e"
    using assms(1,2) by (intro base_sect_id) (simp_all add: section_ok_def)
  have u: "(ucast (ucast (x :: u32) :: u64) :: u16) = ucast x" for x by simp
  have p: "get_bits 20 12 (place_word mu e) = take_bit 12 (of_nat (mu_sect_id (sect_no e) mu))" "get_bits 19 1 (place_word mu e) = ucast (rbInd e) mod 2"
    "get_bits 18 1 (place_word mu e) = ucast (symInc e) mod 2" "get_bits 8 10 (place_word mu e) = take_bit 10 (ucast (startPrbc e))"
    "get_bits 0 8 (place_word mu e) = take_bit 8 (if numPrbc e > 255 then 0 else ucast (numPrbc e))"
    unfolding place_word_def by (simp_all split del: if_split)
  have b: "get_bits 16 4 (beam_word e) = take_bit 4 (ucast (numSymbol e))" "get_bits 20 12 (beam_word e) = take_bit 12 (ucast (reMask e))"
    "get_bits 0 15 (beam_word e) = take_bit 15 (ucast (beamId e))" "get_bits 15 1 (beam_word e) = ucast (ext_flag e) mod 2"
    unfolding beam_word_def by simp_all
  show ?thesis using assms(3) p b
    by (simp add: read_cp_section_def read_common_def received_def get_bits_two_words i n s)
qed

lemma section1_taken:
  assumes "dpdk_pkt_ok d" "section_ok mu e" "unat (sect_no e) < XRAN_MAX_SECTIONS_PER_SLOT"
    and "holds_at (lp_pkt x) 0 (section_wire XRAN_CP_SECTIONTYPE_1 mu e @ w)" "i < length (rp_sections (rec_of x))"
  obtains v m' where "take_section d XRAN_CP_SECTIONTYPE_1 i x
      = Done (v, (set_rec (set_slot i (recv_info_update (received XRAN_CP_SECTIONTYPE_1 e))) x)\<lparr>lp_pkt := m'\<rparr>, True)" "holds_at m' 0 w"
proof -
  have ty: "XRAN_CP_SECTIONTYPE_1 \<noteq> XRAN_CP_SECTIONTYPE_0" "unat XRAN_CP_SECTIONTYPE_1 < 16" "XRAN_CP_SECTIONTYPE_1 \<noteq> XRAN_CP_SECTIONTYPE_3"
    by (simp_all add: XRAN_CP_SECTIONTYPE_1_def XRAN_CP_SECTIONTYPE_0_def XRAN_CP_SECTIONTYPE_3_def)
  let ?v = "two_words (beam_word e) (place_word mu e)"
  have "holds_at (lp_pkt x) 0 (be32 (place_word mu e) @ be32 (beam_word e) @ w)" using assms(4) ty by (simp add: section_wire_def)
  from turn64_held [OF assms(1) this] obtain m1 where m1: "turn64 d 0 (lp_pkt x) = Done (?v, m1)" "holds_at m1 (0 + 8) w" .
  from adj_held [OF assms(1), of m1 8 w] m1(2) obtain m2 where m2: "rte_pktmbuf_adj d 8 m1 = Some m2" "holds_at m2 0 w" by auto
  have r: "(\<lambda>r. read_cp_section XRAN_CP_SECTIONTYPE_1 ?v r) = received XRAN_CP_SECTIONTYPE_1 e"
    by (rule ext) (rule section_read [OF assms(2,3) ty(1,2)])
  have z: "section_size XRAN_CP_SECTIONTYPE_1 = 8" using ty by (simp add: section_size_def)
  have "take_section d XRAN_CP_SECTIONTYPE_1 i x
      = Done (?v, (set_rec (set_slot i (recv_info_update (received XRAN_CP_SECTIONTYPE_1 e))) x)\<lparr>lp_pkt := m2\<rparr>, True)"
    using m1(1) m2(1) assms(5) ty(3) r by (simp add: take_section_def at_def z set_rec_def)
  then show ?thesis using m2(2) by (rule that)
qed

definition read_exts :: "xran_section_ext list \<Rightarrow> xran_section_recv_info \<Rightarrow> xran_section_recv_info" where
  "read_exts es s = s\<lparr>numExts := length es,
     recv_exts := map (\<lambda>e. (ext_type e, of_nat (length (ext_wire 0 e)), recv_of e)) es @ drop (length es) (recv_exts s)\<rparr>"

lemma ext_wire_some:
  assumes "ext_ok e"
  shows "ext_wire ef e \<noteq> []"
  by (rule ext_first_byte [OF assms, of ef]) simp

lemma exts_wire_some: "list_all ext_ok es \<Longrightarrow> es \<noteq> [] \<Longrightarrow> exts_wire es \<noteq> []"
  by (cases es) (auto dest: ext_wire_some)

lemma exts_taken:
  assumes "dpdk_pkt_ok d" "list_all ext_ok es" "list_all (ext9_ok (rp_tti (rec_of x)) (rp_dssPeriod (rec_of x)) (rp_technology (rec_of x))) es"
    and "es \<noteq> []" "length es \<le> XRAN_MAX_NUM_EXTENSIONS" "holds_at (lp_pkt x) 0 (exts_wire es @ w)" "length (exts_wire es) < 65536"
  obtains m' where "take_exts d c i x = Done ((set_rec (set_slot i (read_exts es)) x)\<lparr>lp_pkt := m'\<rparr>, True)" "holds_at m' 0 w"
proof -
  let ?n = "length (exts_wire es)"
  from exts_parsed [OF assms(1,4,2,3,5,6)] obtain m1 where m1:
    "parse_exts d (ru_dev c) (rp_tti (rec_of x)) (rp_dssPeriod (rec_of x)) (rp_technology (rec_of x)) XRAN_MAX_NUM_EXTENSIONS 0 (lp_pkt x)
      = Done (map recv_ext es, ?n, m1)" "holds_at m1 (0 + ?n) w" by blast
  from adj_held [OF assms(1), of m1 ?n w] m1(2) obtain m2 where m2: "rte_pktmbuf_adj d ?n m1 = Some m2" "holds_at m2 0 w" by auto
  have "exts_wire es \<noteq> []" using assms(2,4) by (rule exts_wire_some)
  then have z: "?n \<noteq> 0" "?n mod 65536 = ?n" using assms(7) by simp_all
  have "ext_type e \<noteq> 1" if "ext_ok e" for e using that by (cases e) simp_all
  then have f: "filter (\<lambda>(ty, _). ty = 1) (map recv_ext es) = []"
    using assms(2) by (auto simp: filter_empty_conv recv_ext_def list_all_iff)
  have u: "rp_ext1count_update (\<lambda>k. k + of_nat (length [])) r = r" for r by simp
  have y: "map (\<lambda>(ty, n, e). (ty, of_nat n, e)) (map recv_ext es) = map (\<lambda>e. (ext_type e, of_nat (length (ext_wire 0 e)), recv_of e)) es"
    by (simp add: recv_ext_def)
  have o: "rp_ext1count_update (\<lambda>k. k + of_nat (length [])) \<circ> f = f" for f :: "xran_cp_recv_params \<Rightarrow> xran_cp_recv_params"
    by (rule ext) (simp only: comp_apply u)
  have s: "read_exts es s = s\<lparr>numExts := length (map recv_ext es), recv_exts := map (\<lambda>e. (ext_type e, of_nat (length (ext_wire 0 e)), recv_of e)) es
      @ drop (length (map (\<lambda>e. (ext_type e, of_nat (length (ext_wire 0 e)) :: u16, recv_of e)) es)) (recv_exts s)\<rparr>" for s
    by (simp only: read_exts_def length_map)
  have "take_exts d c i x = Done ((set_rec (set_slot i (read_exts es)) x)\<lparr>lp_pkt := m2\<rparr>, True)"
    unfolding take_exts_def Let_def m1(1) obind.simps prod.case f y o z(2) m2(1) option.case
    using z(1) by (simp only: if_False s [abs_def, symmetric])
  then show ?thesis using m2(2) by (rule that)
qed

section \<open>An antenna\<close>

text \<open>The antenna that the packet is for: its key, and the two maps that its table entries have, the first one
  for the weights and the second one for the samples.\<close>

definition antenna_ready :: "cp_ru_cfg \<Rightarrow> u8 \<Rightarrow> nat \<Rightarrow> u8 \<Rightarrow> nat \<Rightarrow> u8 \<Rightarrow> nat \<Rightarrow> nat \<Rightarrow> bool" where
  "antenna_ready c dir tti cc ant mu p q \<longleftrightarrow> unat mu < length (perMu (ru_cfg c)) \<and> unat cc < XRAN_MAX_SECTOR_NR \<and> ant < XRAN_MAX_ANTENNA_NR
     \<and> cp_tables c (if dir = XRAN_DIR_DL then FHCpRxPrbMap else FHCpTxPrbMap) (unat mu, tti mod XRAN_N_FE_BUF_LEN, unat cc, ant) = Some (Some p)
     \<and> cp_tables c FrontHaulTxPrbMap (unat mu, tti mod XRAN_N_FE_BUF_LEN, unat cc, ant) = Some (Some q)"

definition maps_fit :: "cp_ru_cfg \<Rightarrow> u8 \<Rightarrow> nat \<Rightarrow> nat \<Rightarrow> (nat \<Rightarrow> cp_prb_map) \<Rightarrow> bool" where
  "maps_fit c mu p q M \<longleftrightarrow> 0 < unat (cp_nPrbElm (M q)) \<and> unat (cp_nPrbElm (M q)) \<le> length (cp_prbMap (M q))
     \<and> unat (cp_nPrbElm (M q)) \<le> length (cp_prbMap (M p)) \<and> unat mu < length (numSetBFWs_arr c)
     \<and> unat (cp_nPrbElm (M q)) \<le> length (numSetBFWs_arr c ! unat mu)"

text \<open>What the entries into the maps and the database do not touch.\<close>

definition same_pass :: "cp_pass \<Rightarrow> cp_pass \<Rightarrow> bool" where
  "same_pass x y \<longleftrightarrow> lp_pkt y = lp_pkt x \<and> cp_ret y = cp_ret x \<and> cur_mu y = cur_mu x \<and> (\<exists>k. rec_of y = (rec_of x)\<lparr>rp_numSetBFW := k\<rparr>)
     \<and> (\<forall>p. cp_nPrbElm (cp_maps (lp_ru y) p) = cp_nPrbElm (cp_maps (lp_ru x) p)
          \<and> length (cp_prbMap (cp_maps (lp_ru y) p)) = length (cp_prbMap (cp_maps (lp_ru x) p)))"

lemma same_pass_trans: "same_pass x y \<Longrightarrow> same_pass y z \<Longrightarrow> same_pass x z"
  by (auto simp: same_pass_def)

lemma same_pass_refl: "same_pass x x"
proof -
  have "\<exists>k. r = r\<lparr>rp_numSetBFW := k\<rparr>" for r :: xran_cp_recv_params by (rule exI [of _ "rp_numSetBFW r"]) simp
  then show ?thesis by (simp add: same_pass_def)
qed

lemma same_pass_fit: "same_pass x y \<Longrightarrow> maps_fit c mu p q (cp_maps (lp_ru y)) = maps_fit c mu p q (cp_maps (lp_ru x))"
  by (simp add: same_pass_def maps_fit_def)

lemma antenna_maps_found:
  assumes "antenna_ready c dir tti cc ant (cur_mu x) p q"
  shows "antenna_maps c dir tti cc ant x = Done (x\<lparr>cur_map := Some p, cur_desc := Some q\<rparr>)"
  using assms by (auto simp: antenna_maps_def table_map_def antenna_ready_def)

definition in_range :: "db_key \<Rightarrow> bool" where
  "in_range key \<longleftrightarrow> key_ok key \<and> (case key_place key of (pm, ctx, dir, cc, ru) \<Rightarrow> ctx < XRAN_MAX_SECTIONDB_CTX \<and> dir < XRAN_DIR_MAX
     \<and> cc < XRAN_COMPONENT_CARRIERS_MAX \<and> ru < XRAN_MAX_SECTIONDB_ANT)"

text \<open>Whether the element is the first one again.\<close>

definition starts_over :: "db_key \<Rightarrow> nat \<Rightarrow> cp_ru \<Rightarrow> bool" where
  "starts_over key q s \<longleftrightarrow> cp_nPrbElm (cp_maps s q) \<le> ucast (sectiondb_elm s (key_place key))"

lemma unat_ucast_byte: "unat (ucast (n :: u8) :: u32) = unat n"
proof -
  have "unat n < 2 ^ 32" using unsigned_less [of n, where ?'a = nat] by simp
  then show ?thesis by (simp add: unsigned_ucast_eq take_bit_nat_eq_self)
qed

lemma next_element_taken:
  assumes "in_range key" "cur_desc x = Some q" "db_wf (ru_dbs (lp_ru x))" "stored (ru_dbs (lp_ru x)) key = Some L"
    and "0 < unat (cp_nPrbElm (cp_maps (lp_ru x) q))"
  obtains y where "next_element key x = Done y" "same_pass x y" "cur_map y = cur_map x" "cur_desc y = Some q" "db_wf (ru_dbs (lp_ru y))"
    "unat (cur_idx y) < unat (cp_nPrbElm (cp_maps (lp_ru x) q))"
    "stored (ru_dbs (lp_ru y)) key = Some (if starts_over key q (lp_ru x) then [] else L)"
proof -
  obtain pm ctx dir cc ru where k: "key_place key = (pm, ctx, dir, cc, ru)" by (metis prod.exhaust)
  have r: "\<not> (ctx \<ge> XRAN_MAX_SECTIONDB_CTX \<or> dir \<ge> XRAN_DIR_MAX \<or> cc \<ge> XRAN_COMPONENT_CARRIERS_MAX \<or> ru \<ge> XRAN_MAX_SECTIONDB_ANT)" "key_ok key"
    using assms(1) by (auto simp: in_range_def k)
  let ?n = "sectiondb_elm (lp_ru x) (key_place key)"
  show ?thesis
  proof (cases "starts_over key q (lp_ru x)")
    case True
    from reset_logged [OF assms(3) r(2)] assms(4) obtain dbs where dbs:
      "xran_cp_reset_section_info key (ru_dbs (lp_ru x)) = Done (XRAN_STATUS_SUCCESS, dbs)" "stored dbs key = Some []" "db_wf dbs"
      by (auto simp: obind_Done_iff case_prod_beta)
    let ?y = "x\<lparr>cur_idx := 0, lp_ru := lp_ru x\<lparr>ru_dbs := dbs, sectiondb_elm := (sectiondb_elm (lp_ru x))(key_place key := 0 + 1)\<rparr>\<rparr>"
    have "next_element key x = Done ?y"
      using True r(1) dbs(1) assms(2) by (simp add: next_element_def k starts_over_def)
    moreover have "same_pass x ?y" using same_pass_refl [of x] by (simp add: same_pass_def)
    ultimately show ?thesis using True assms dbs by (intro that [of ?y]) simp_all
  next
    case False
    let ?y = "x\<lparr>cur_idx := ?n, lp_ru := lp_ru x\<lparr>sectiondb_elm := (sectiondb_elm (lp_ru x))(key_place key := ?n + 1)\<rparr>\<rparr>"
    have "next_element key x = Done ?y"
      using False r(1) assms(2) by (simp add: next_element_def k starts_over_def Let_def)
    moreover have "same_pass x ?y" using same_pass_refl [of x] by (simp add: same_pass_def)
    moreover have "unat ?n < unat (cp_nPrbElm (cp_maps (lp_ru x) q))"
      using False by (simp add: starts_over_def not_le word_less_nat_alt unat_ucast_byte)
    ultimately show ?thesis using False assms by (intro that [of ?y]) simp_all
  qed
qed

lemma weights_kept:
  assumes "cur_map x = Some p" "cur_desc x = Some q" "maps_fit c (cur_mu x) p q (cp_maps (lp_ru x))"
    and "unat (cur_idx x) < unat (cp_nPrbElm (cp_maps (lp_ru x) q))"
  obtains y where "keep_weights c h x = Done y" "same_pass x y" "cur_map y = Some p" "cur_desc y = Some q" "cur_idx y = cur_idx x"
    "ru_dbs (lp_ru y) = ru_dbs (lp_ru x)"
proof -
  have l: "unat (cur_mu x) < length (numSetBFWs_arr c)" "unat (cur_idx x) < length (numSetBFWs_arr c ! unat (cur_mu x))"
    "unat (cur_idx x) < length (cp_prbMap (cp_maps (lp_ru x) p))" using assms(3,4) by (simp_all add: maps_fit_def)
  then obtain y where "keep_weights c h x = Done y" by (auto simp: keep_weights_def at_def Let_def set_rec_def assms(1))
  moreover from this have "same_pass x y \<and> cur_map y = Some p \<and> cur_desc y = Some q \<and> cur_idx y = cur_idx x \<and> ru_dbs (lp_ru y) = ru_dbs (lp_ru x)"
    using assms(1,2) l by (auto simp: keep_weights_def at_def Let_def set_rec_def same_pass_def set_map_def)
  ultimately show ?thesis using that by blast
qed

text \<open>An entry of the database without what it has from before: the offset of the frequency, and the places of
  the samples that the map gives.\<close>

definition plain_entry :: "xran_section_info \<Rightarrow> xran_section_info" where
  "plain_entry r = r\<lparr>sec_desc := [], freqOffset := 0\<rparr>"

definition entry_for :: "xran_cp_header_params \<Rightarrow> bool \<Rightarrow> bool \<Rightarrow> xran_section_info \<Rightarrow> xran_section_info" where
  "entry_for h first end info = plain_entry ((announced first end h info zero_section)\<lparr>startPrbc := startPrbc info, numPrbc := numPrbc info\<rparr>)"

lemma section_entered:
  assumes "key_ok key" "db_wf (ru_dbs (lp_ru x))" "stored (ru_dbs (lp_ru x)) key = Some L" "length L < XRAN_MAX_NUM_SECTIONS"
    and "cur_desc x = Some q" "unat (cur_idx x) < length (cp_prbMap (cp_maps (lp_ru x) q))" "i < length (rp_sections (rec_of x))"
  obtains y r where "log_section False key i x = Done y" "same_pass x y" "cur_map y = cur_map x" "cur_desc y = Some q" "cur_idx y = cur_idx x"
    "rec_of y = rec_of x" "db_wf (ru_dbs (lp_ru y))" "stored (ru_dbs (lp_ru y)) key = Some (L @ [r])"
    "plain_entry r = entry_for (rp_hdr (rec_of x)) (i = 0) (int i = int (unat (rp_numSections (rec_of x))) - 1) (recv_info (rp_sections (rec_of x) ! i))"
  using assms(1)
proof (cases rule: get_db_cases [where s = "ru_dbs (lp_ru x)"])
  case 1
  then show ?thesis using assms(3) by simp
next
  case (2 z db)
  note w = wf_elm [OF assms(2) 2(3,4)]
  let ?k = "unat (cur_index z)" and ?info = "recv_info (rp_sections (rec_of x) ! i)"
  let ?z = "z\<lparr>cur_index := cur_index z + 1\<rparr>" and ?dbs = "ru_dbs (lp_ru x)"
  have k: "?k < XRAN_MAX_NUM_SECTIONS" "L = take ?k (db_list z)" using assms(3,4) 2(2) w by auto
  have i: "unat (cur_index z + 1) = Suc ?k" "unat (ucast (cur_index z) :: u16) = ?k"
    using next_index [of "cur_index z"] k by (simp_all add: XRAN_MAX_NUM_SECTIONS_def)
  have ptr: "xran_cp_get_section_info_ptr key ?dbs = Done (Some ?k, set_elm key ?z ?dbs)"
    using 2(1) k w i by (simp add: xran_cp_get_section_info_ptr_def xran_get_section_info_def at_def)
  define e where "e = (announced (i = 0) (int i = int (unat (rp_numSections (rec_of x))) - 1) (rp_hdr (rec_of x)) ?info (db_list z ! ?k))
      \<lparr>startPrbc := startPrbc ?info, numPrbc := numPrbc ?info\<rparr>"
  let ?b = "cp_prbMap (cp_maps (lp_ru x) q) ! unat (cur_idx x)"
  let ?r = "described (elm_sec_desc ?b) e"
  let ?s = "set_map q (\<lambda>es. es[unat (cur_idx x) := ?b\<lparr>elm_sec_desc := map (section_id_update (\<lambda>_. take_bit 9 (sect_no e))) (elm_sec_desc ?b)\<rparr>])
      (lp_ru x\<lparr>ru_dbs := set_elm key ?z ?dbs\<rparr>)"
  let ?y = "x\<lparr>lp_ru := ?s\<lparr>ru_dbs := set_elm key (put_section ?k ?r ?z) (set_elm key ?z ?dbs)\<rparr>\<rparr>"
  have g: "xran_get_section_db (set_elm key ?z ?dbs) key = Done (Some ?z)" by (simp add: get_db_set_elm [OF 2(1)])
  have "log_section False key i x = Done ?y"
    using assms(5,6,7) k w
    by (simp add: log_section_def ptr g with_element_def at_def Let_def e_def)
  moreover have "same_pass x ?y" using same_pass_refl [of x] by (simp add: same_pass_def set_map_def)
  moreover have "db_wf (ru_dbs (lp_ru ?y))"
    using db_wf_set_elm [OF db_wf_set_elm [OF assms(2), of ?z key], of "put_section ?k ?r ?z" key] w k i by (simp add: put_section_def)
  moreover have "stored (ru_dbs (lp_ru ?y)) key = Some (L @ [?r])"
    using k w i by (simp add: stored_set_elm [OF g] put_section_def take_Suc_conv_app_nth)
  moreover have "plain_entry ?r = entry_for (rp_hdr (rec_of x)) (i = 0) (int i = int (unat (rp_numSections (rec_of x))) - 1) ?info"
    by (simp add: plain_entry_def entry_for_def described_def e_def announced_def zero_section_def)
  ultimately show ?thesis using assms(5) by (intro that [of ?y ?r]) (simp_all add: set_map_def)
qed

section \<open>The sections of a packet\<close>

text \<open>What the radio unit has after the sections before \<open>i\<close>: the sections and their extensions where they are
  received, and an entry for each in the list of the antenna.\<close>

definition section_received :: "xran_section_gen_info \<Rightarrow> xran_section_recv_info \<Rightarrow> bool" where
  "section_received g s \<longleftrightarrow> (\<exists>r. recv_info s = received XRAN_CP_SECTIONTYPE_1 (sect_info g) r)
     \<and> (ext_flag (sect_info g) \<noteq> 0 \<longrightarrow> numExts s = length (gen_exts g)
          \<and> take (length (gen_exts g)) (recv_exts s) = map (\<lambda>e. (ext_type e, of_nat (length (ext_wire 0 e)), recv_of e)) (gen_exts g))"

definition entries_for :: "xran_cp_header_params \<Rightarrow> xran_section_gen_info list \<Rightarrow> xran_section_info list" where
  "entries_for h gs = map (\<lambda>j. entry_for h (j = 0) (Suc j = length gs) (received XRAN_CP_SECTIONTYPE_1 (sect_info (gs ! j)) zero_section)) [0..<length gs]"

text \<open>What stays as it is from section to section.\<close>

definition head_same :: "xran_cp_recv_params \<Rightarrow> xran_cp_recv_params \<Rightarrow> bool" where
  "head_same r r' \<longleftrightarrow> rp_dir r' = rp_dir r \<and> rp_sectionType r' = rp_sectionType r \<and> rp_numSections r' = rp_numSections r \<and> rp_ext1count r' = rp_ext1count r
     \<and> rp_tti r' = rp_tti r \<and> rp_hdr r' = rp_hdr r \<and> length (rp_sections r') = length (rp_sections r) \<and> length (rp_technology r') = length (rp_technology r)"

definition keeps :: "cp_pass \<Rightarrow> cp_pass \<Rightarrow> bool" where
  "keeps x y \<longleftrightarrow> cp_ret y = cp_ret x \<and> cur_mu y = cur_mu x \<and> head_same (rec_of x) (rec_of y)
     \<and> (\<forall>p. cp_nPrbElm (cp_maps (lp_ru y) p) = cp_nPrbElm (cp_maps (lp_ru x) p)
          \<and> length (cp_prbMap (cp_maps (lp_ru y) p)) = length (cp_prbMap (cp_maps (lp_ru x) p)))"

lemma keeps_trans: "keeps x y \<Longrightarrow> keeps y z \<Longrightarrow> keeps x z"
  by (simp add: keeps_def head_same_def)

lemma keeps_refl [simp]: "keeps x x"
  by (simp add: keeps_def head_same_def)

lemma same_pass_keeps: "same_pass x y \<Longrightarrow> keeps x y"
  by (auto simp: keeps_def same_pass_def head_same_def)

lemma keeps_fit: "keeps x y \<Longrightarrow> maps_fit c mu p q (cp_maps (lp_ru y)) = maps_fit c mu p q (cp_maps (lp_ru x))"
  by (simp add: keeps_def maps_fit_def)

lemma set_slot_simps [simp]:
  "rp_dir (set_slot i f r) = rp_dir r" "rp_sectionType (set_slot i f r) = rp_sectionType r" "rp_numSections (set_slot i f r) = rp_numSections r"
  "rp_ext1count (set_slot i f r) = rp_ext1count r" "rp_tti (set_slot i f r) = rp_tti r" "rp_hdr (set_slot i f r) = rp_hdr r"
  "rp_dssPeriod (set_slot i f r) = rp_dssPeriod r" "rp_technology (set_slot i f r) = rp_technology r"
  "rp_sections (set_slot i f r) = (rp_sections r)[i := f (rp_sections r ! i)]"
  by (simp_all add: set_slot_def)

lemma set_rec_simps [simp]:
  "rec_of (set_rec f x) = f (rec_of x)" "lp_pkt (set_rec f x) = lp_pkt x" "cp_ret (set_rec f x) = cp_ret x" "cur_mu (set_rec f x) = cur_mu x"
  "cur_map (set_rec f x) = cur_map x" "cur_desc (set_rec f x) = cur_desc x" "cur_idx (set_rec f x) = cur_idx x"
  "ru_dbs (lp_ru (set_rec f x)) = ru_dbs (lp_ru x)" "cp_maps (lp_ru (set_rec f x)) = cp_maps (lp_ru x)"
  "sectiondb_elm (lp_ru (set_rec f x)) = sectiondb_elm (lp_ru x)"
  by (simp_all add: set_rec_def)

lemma section_antenna:
  assumes c: "antenna_ready c dir tti (ccId e) (unat (ruPortId e) - off) (cur_mu x) p q" "maps_fit c (cur_mu x) p q (cp_maps (lp_ru x))"
    and k: "key = (Some (unat (xran_port_id (ru_cfg c))), dir, ccId e, ruPortId e, of_nat (tti mod XRAN_MAX_SECTIONDB_CTX), cur_mu x)" "in_range key"
    and x: "db_wf (ru_dbs (lp_ru x))" "stored (ru_dbs (lp_ru x)) key = Some L" "length L < XRAN_MAX_NUM_SECTIONS" "i < length (rp_sections (rec_of x))"
    and i: "i \<noteq> 0 \<Longrightarrow> unat (cur_idx x) < unat (cp_nPrbElm (cp_maps (lp_ru x) q))"
  obtains y r where "pusch_entry c h e dir tti off i x = Done y" "same_pass x y" "db_wf (ru_dbs (lp_ru y))"
    "unat (cur_idx y) < unat (cp_nPrbElm (cp_maps (lp_ru y) q))"
    "stored (ru_dbs (lp_ru y)) key = Some ((if i = 0 \<and> starts_over key q (lp_ru x) then [] else L) @ [r])"
    "plain_entry r = entry_for (rp_hdr (rec_of x)) (i = 0) (int i = int (unat (rp_numSections (rec_of x))) - 1) (recv_info (rp_sections (rec_of x) ! i))"
proof -
  let ?x = "x\<lparr>cur_map := Some p, cur_desc := Some q\<rparr>" and ?L = "if i = 0 \<and> starts_over key q (lp_ru x) then [] else L"
  have sx: "same_pass x ?x" using same_pass_refl [of x] by (simp add: same_pass_def)
  obtain y where y: "(if i = 0 then obind (next_element key ?x) (keep_weights c h) else Done ?x) = Done y" "same_pass ?x y" "cur_map y = Some p"
    "cur_desc y = Some q" "unat (cur_idx y) < unat (cp_nPrbElm (cp_maps (lp_ru x) q))" "db_wf (ru_dbs (lp_ru y))"
    "stored (ru_dbs (lp_ru y)) key = Some ?L"
  proof (cases "i = 0")
    case True
    from next_element_taken [of key ?x q L] k(2) x(1,2) c(2) obtain z where z: "next_element key ?x = Done z" "same_pass ?x z" "cur_map z = Some p"
      "cur_desc z = Some q" "db_wf (ru_dbs (lp_ru z))" "unat (cur_idx z) < unat (cp_nPrbElm (cp_maps (lp_ru x) q))"
      "stored (ru_dbs (lp_ru z)) key = Some (if starts_over key q (lp_ru x) then [] else L)" by (auto simp: maps_fit_def)
    have m: "cur_mu z = cur_mu x" "cp_nPrbElm (cp_maps (lp_ru z) q) = cp_nPrbElm (cp_maps (lp_ru x) q)" using z(2) by (simp_all add: same_pass_def)
    from weights_kept [OF z(3,4), of c h] c(2) same_pass_fit [OF z(2), of c "cur_mu x" p q] z(6) m obtain y where
      "keep_weights c h z = Done y" "same_pass z y" "cur_map y = Some p" "cur_desc y = Some q" "cur_idx y = cur_idx z" "ru_dbs (lp_ru y) = ru_dbs (lp_ru z)"
      by auto
    then show ?thesis using True z same_pass_trans [OF z(2)] by (intro that [of y]) auto
  next
    case False
    then show ?thesis using x i same_pass_refl [of ?x] by (intro that [of ?x]) auto
  qed
  have m: "cp_nPrbElm (cp_maps (lp_ru y) q) = cp_nPrbElm (cp_maps (lp_ru x) q)"
    "length (cp_prbMap (cp_maps (lp_ru y) q)) = length (cp_prbMap (cp_maps (lp_ru x) q))" using y(2) by (simp_all add: same_pass_def)
  have r: "rp_hdr (rec_of y) = rp_hdr (rec_of x)" "rp_numSections (rec_of y) = rp_numSections (rec_of x)" "rp_sections (rec_of y) = rp_sections (rec_of x)"
    using y(2) by (auto simp: same_pass_def)
  have "key_ok key" using k(2) by (simp add: in_range_def)
  moreover have "unat (cur_idx y) < length (cp_prbMap (cp_maps (lp_ru y) q))" using c(2) y(5) m by (simp add: maps_fit_def)
  moreover have "length ?L < XRAN_MAX_NUM_SECTIONS" using x(3) by auto
  ultimately obtain z w where z: "log_section False key i y = Done z" "same_pass y z" "cur_map z = cur_map y" "cur_desc z = Some q" "cur_idx z = cur_idx y"
    "db_wf (ru_dbs (lp_ru z))" "stored (ru_dbs (lp_ru z)) key = Some (?L @ [w])"
    "plain_entry w = entry_for (rp_hdr (rec_of y)) (i = 0) (int i = int (unat (rp_numSections (rec_of y))) - 1) (recv_info (rp_sections (rec_of y) ! i))"
    using section_entered [of key y ?L q i] y(4,6,7) x(4) r(3) by metis
  have "pusch_entry c h e dir tti off i x = Done z"
    using y(1) z(1) by (simp add: pusch_entry_def antenna_maps_found [OF c(1)] k(1) [symmetric])
  moreover have "cp_nPrbElm (cp_maps (lp_ru z) q) = cp_nPrbElm (cp_maps (lp_ru x) q)" using z(2) m by (simp add: same_pass_def)
  ultimately show ?thesis using z y(5) r same_pass_trans [OF same_pass_trans [OF sx y(2)] z(2)] by (intro that [of z w]) simp_all
qed

text \<open>The configuration serves the antenna.\<close>

definition ru_ready :: "cp_ru_cfg \<Rightarrow> xran_eaxc_info \<Rightarrow> u8 \<Rightarrow> nat \<Rightarrow> u8 \<Rightarrow> nat \<Rightarrow> nat \<Rightarrow> bool" where
  "ru_ready c e dir tti mu p q \<longleftrightarrow> unat mu < length (perMu (ru_cfg c)) \<and> of_antenna c (eaxcOffset (perMu (ru_cfg c) ! unat mu)) (ruPortId e)
     \<and> antenna_ready c dir tti (ccId e) (unat (ruPortId e) - unat (eaxcOffset (perMu (ru_cfg c) ! unat mu))) mu p q
     \<and> unat (dssPeriod (ru_cfg c)) \<le> length (technology (ru_cfg c))"

definition ru_key :: "cp_ru_cfg \<Rightarrow> xran_eaxc_info \<Rightarrow> u8 \<Rightarrow> nat \<Rightarrow> u8 \<Rightarrow> db_key" where
  "ru_key c e dir tti mu = (Some (unat (xran_port_id (ru_cfg c))), dir, ccId e, ruPortId e, of_nat (tti mod XRAN_MAX_SECTIONDB_CTX), mu)"

text \<open>A section that can be sent and read.\<close>

definition readable :: "cp_ru_cfg \<Rightarrow> u8 \<Rightarrow> xran_section_gen_info \<Rightarrow> bool" where
  "readable c mu g \<longleftrightarrow> gen_ok mu g \<and> unat (sect_no (sect_info g)) < XRAN_MAX_SECTIONS_PER_SLOT
     \<and> (ext_flag (sect_info g) \<noteq> 0 \<longrightarrow> gen_exts g \<noteq> [] \<and> (\<forall>x. Ext9 x \<in> set (gen_exts g) \<longrightarrow> dssPeriod (ru_cfg c) \<noteq> 0))"

lemma ext_wire_bound: "ext_ok e \<Longrightarrow> length (ext_wire ef e) \<le> 16"
proof (cases e)
  case (Ext2 x)
  have "length (ext2_octets x) \<le> 5" by (simp add: ext2_octets_def Let_def)
  moreover have "padding n \<le> 3" for n by (simp add: padding_def XRAN_SECTIONEXT_ALIGN_def Let_def) linarith
  from this [of "length (ext2_octets x)"] have "padding (length (ext2_octets x)) \<le> 3" .
  ultimately show ?thesis by (simp add: Ext2 ext2_wire_split Let_def)
qed (simp_all add: ext3_wire_def ext4_wire_def ext6_wire_def ext9_wire_def Let_def)

lemma exts_wire_bound: "list_all ext_ok es \<Longrightarrow> length (exts_wire es) \<le> 16 * length es"
proof (induction es)
  case (Cons e es)
  then show ?case using ext_wire_bound [of e "if es = [] then 0 else 1"] by simp
qed simp

lemma received_fields:
  "ext_flag (received ty e r) = ext_flag e" "announced a b h (received ty e r) z = announced a b h (received ty e r') z"
  "startPrbc (received ty e r) = startPrbc e" "numPrbc (received ty e r) = numPrbc (received ty e r')"
  by (simp_all add: received_def announced_def)

lemma entry_for_received: "entry_for h a b (received ty e r) = entry_for h a b (received ty e r')"
  by (simp add: entry_for_def received_fields(3) received_fields(2) [of a b h ty e r zero_section r'] received_fields(4) [of ty e r r'])

lemma technology_taken:
  assumes "unat (dssPeriod (ru_cfg c)) \<le> length (technology (ru_cfg c))" "unat (dssPeriod (ru_cfg c)) \<le> length (rp_technology (rec_of x))"
  obtains y where "technology_of c x = Done y" "keeps x y" "lp_pkt y = lp_pkt x" "rp_sections (rec_of y) = rp_sections (rec_of x)" "cur_idx y = cur_idx x"
    "ru_dbs (lp_ru y) = ru_dbs (lp_ru x)" "rp_dssPeriod (rec_of y) = dssPeriod (ru_cfg c)" "length (rp_technology (rec_of y)) = length (rp_technology (rec_of x))"
proof -
  let ?n = "unat (dssPeriod (ru_cfg c))"
  let ?y = "set_rec (\<lambda>r. r\<lparr>rp_dssPeriod := dssPeriod (ru_cfg c), rp_technology := take ?n (technology (ru_cfg c)) @ drop ?n (rp_technology r)\<rparr>) x"
  have "technology_of c x = Done ?y" using assms by (simp add: technology_of_def Let_def not_less [symmetric])
  moreover have "keeps x ?y" using assms by (simp add: keeps_def head_same_def)
  ultimately show ?thesis using assms by (intro that [of ?y]) simp_all
qed

lemma ext9_served:
  assumes "\<forall>x. Ext9 x \<in> set es \<longrightarrow> period \<noteq> 0" "unat period \<le> length tech"
  shows "list_all (ext9_ok tti period tech) es"
proof (unfold list_all_iff, rule ballI)
  fix e assume e: "e \<in> set es"
  have "ext9_ok tti period tech (Ext9 x)" if "Ext9 x \<in> set es" for x
  proof -
    have "period \<noteq> 0" using assms(1) that by blast
    then have "unat tti mod unat period < unat period" by (simp add: unat_eq_0 [symmetric])
    then show ?thesis using assms(2) \<open>period \<noteq> 0\<close> by (simp add: ext9_ok_def)
  qed
  then show "ext9_ok tti period tech e" using e by (cases e) (simp_all add: ext9_ok_def)
qed

text \<open>What the radio unit has after the first \<open>i\<close> sections.  The list of the antenna is emptied first when its
  elements start over.\<close>

definition sections_done :: "db_key \<Rightarrow> nat \<Rightarrow> bool \<Rightarrow> xran_section_gen_info list \<Rightarrow> xran_section_info list \<Rightarrow> nat \<Rightarrow> cp_pass \<Rightarrow> bool" where
  "sections_done key q new gs L i x \<longleftrightarrow> db_wf (ru_dbs (lp_ru x)) \<and> (\<forall>j<i. section_received (gs ! j) (rp_sections (rec_of x) ! j))
     \<and> (i = 0 \<longrightarrow> new = starts_over key q (lp_ru x)) \<and> (i \<noteq> 0 \<longrightarrow> unat (cur_idx x) < unat (cp_nPrbElm (cp_maps (lp_ru x) q)))
     \<and> (\<exists>es. stored (ru_dbs (lp_ru x)) key = Some ((if i \<noteq> 0 \<and> new then [] else L) @ es) \<and> map plain_entry es = take i (entries_for (rp_hdr (rec_of x)) gs))"

lemma length_entries [simp]: "length (entries_for h gs) = length gs"
  by (simp add: entries_for_def)

lemma nth_entries: "i < length gs \<Longrightarrow> entries_for h gs ! i = entry_for h (i = 0) (Suc i = length gs) (received XRAN_CP_SECTIONTYPE_1 (sect_info (gs ! i)) zero_section)"
  by (simp add: entries_for_def)

lemma extensions_taken:
  assumes ok: "dpdk_pkt_ok d" and g: "readable c mu g" and c: "unat (dssPeriod (ru_cfg c)) \<le> length (technology (ru_cfg c))" "XRAN_MAX_DSS_PERIODICITY \<le> length (rp_technology (rec_of x))"
    "unat (dssPeriod (ru_cfg c)) \<le> XRAN_MAX_DSS_PERIODICITY"
    and x: "holds_at (lp_pkt x) 0 ((if ext_flag (sect_info g) = 0 then [] else exts_wire (gen_exts g)) @ w)" "i < length (rp_sections (rec_of x))"
    "recv_info (rp_sections (rec_of x) ! i) = received XRAN_CP_SECTIONTYPE_1 (sect_info g) r"
  obtains y where "(if ext_flag (recv_info (rp_sections (rec_of x) ! i)) \<noteq> 0 then obind (technology_of c x) (take_exts d c i) else Done (x, True)) = Done (y, True)"
    "keeps x y" "holds_at (lp_pkt y) 0 w" "section_received g (rp_sections (rec_of y) ! i)" "\<forall>j<i. rp_sections (rec_of y) ! j = rp_sections (rec_of x) ! j"
    "cur_idx y = cur_idx x" "ru_dbs (lp_ru y) = ru_dbs (lp_ru x)"
proof (cases "ext_flag (sect_info g) = 0")
  case True
  then show ?thesis using x by (intro that [of x]) (auto simp: received_fields section_received_def)
next
  case False
  have p: "unat (dssPeriod (ru_cfg c)) \<le> length (rp_technology (rec_of x))" using c by simp
  obtain z where z: "technology_of c x = Done z" "keeps x z" "lp_pkt z = lp_pkt x" "rp_sections (rec_of z) = rp_sections (rec_of x)" "cur_idx z = cur_idx x"
    "ru_dbs (lp_ru z) = ru_dbs (lp_ru x)" "rp_dssPeriod (rec_of z) = dssPeriod (ru_cfg c)" "length (rp_technology (rec_of z)) = length (rp_technology (rec_of x))"
    by (rule technology_taken [OF c(1) p])
  have g': "list_all ext_ok (gen_exts g)" "length (gen_exts g) \<le> XRAN_MAX_NUM_EXTENSIONS" "gen_exts g \<noteq> []"
    "\<forall>x. Ext9 x \<in> set (gen_exts g) \<longrightarrow> dssPeriod (ru_cfg c) \<noteq> 0" using g False by (auto simp: readable_def gen_ok_def gen_exts_def)
  have "list_all (ext9_ok (rp_tti (rec_of z)) (rp_dssPeriod (rec_of z)) (rp_technology (rec_of z))) (gen_exts g)"
    using g'(4) p unfolding z(7) by (intro ext9_served) (simp_all add: z(8))
  moreover have "holds_at (lp_pkt z) 0 (exts_wire (gen_exts g) @ w)" using x(1) False by (simp add: z(3))
  moreover have "length (exts_wire (gen_exts g)) < 65536" using exts_wire_bound [OF g'(1)] g'(2) by (simp add: XRAN_MAX_NUM_EXTENSIONS_def)
  ultimately obtain m where m: "take_exts d c i z = Done ((set_rec (set_slot i (read_exts (gen_exts g))) z)\<lparr>lp_pkt := m\<rparr>, True)" "holds_at m 0 w"
    using exts_taken [OF ok g'(1) _ g'(3,2)] by blast
  let ?y = "(set_rec (set_slot i (read_exts (gen_exts g))) z)\<lparr>lp_pkt := m\<rparr>"
  have "section_received g (read_exts (gen_exts g) (rp_sections (rec_of x) ! i))"
    using x(3) by (auto simp: section_received_def read_exts_def)
  moreover have "keeps z ?y" by (simp add: keeps_def head_same_def set_rec_def)
  ultimately show ?thesis using z m x(2,3) False keeps_trans [OF z(2)] by (intro that [of ?y]) (simp_all add: received_fields set_rec_def)
qed

lemma section1_stepped:
  assumes ok: "dpdk_pkt_ok d" and g: "readable c mu (gs ! i)" "i < length gs" and ready: "ru_ready c e dir tti mu p q" "in_range (ru_key c e dir tti mu)"
    "unat (dssPeriod (ru_cfg c)) \<le> XRAN_MAX_DSS_PERIODICITY"
    and x: "cur_mu x = mu" "rp_dir (rec_of x) = dir" "unat (rp_numSections (rec_of x)) = length gs" "length gs \<le> length (rp_sections (rec_of x))"
      "XRAN_MAX_DSS_PERIODICITY \<le> length (rp_technology (rec_of x))" "maps_fit c mu p q (cp_maps (lp_ru x))"
    and h: "holds_at (lp_pkt x) 0 (gen_wire XRAN_CP_SECTIONTYPE_1 mu (gs ! i) @ w)"
    and inv: "sections_done (ru_key c e dir tti mu) q new gs L i x" and room: "length L + length gs \<le> XRAN_MAX_NUM_SECTIONS"
  obtains y where "section1_step d c b e tti i x = Done (y, True)" "keeps x y" "holds_at (lp_pkt y) 0 w" "sections_done (ru_key c e dir tti mu) q new gs L (Suc i) y"
proof -
  let ?g = "gs ! i" and ?key = "ru_key c e dir tti mu" and ?off = "eaxcOffset (perMu (ru_cfg c) ! unat mu)"
  let ?r = "received XRAN_CP_SECTIONTYPE_1 (sect_info (gs ! i))"
  from inv obtain es where es: "stored (ru_dbs (lp_ru x)) ?key = Some ((if i \<noteq> 0 \<and> new then [] else L) @ es)" "map plain_entry es = take i (entries_for (rp_hdr (rec_of x)) gs)"
    and inv': "db_wf (ru_dbs (lp_ru x))" "\<forall>j<i. section_received (gs ! j) (rp_sections (rec_of x) ! j)" "i = 0 \<longrightarrow> new = starts_over ?key q (lp_ru x)"
      "i \<noteq> 0 \<longrightarrow> unat (cur_idx x) < unat (cp_nPrbElm (cp_maps (lp_ru x) q))" unfolding sections_done_def by blast
  have le: "length es = i" using arg_cong [OF es(2), of length] g(2) by simp
  have il: "i < length (rp_sections (rec_of x))" using g(2) x(4) by simp
  have s: "section_ok mu (sect_info ?g)" "unat (sect_no (sect_info ?g)) < XRAN_MAX_SECTIONS_PER_SLOT" using g(1) by (simp_all add: readable_def gen_ok_def)
  let ?w = "(if ext_flag (sect_info ?g) = 0 then [] else exts_wire (gen_exts ?g)) @ w"
  have "holds_at (lp_pkt x) 0 (section_wire XRAN_CP_SECTIONTYPE_1 mu (sect_info ?g) @ ?w)" using h by (simp add: gen_wire_def)
  from section1_taken [OF ok s this il] obtain v m where m:
    "take_section d XRAN_CP_SECTIONTYPE_1 i x = Done (v, (set_rec (set_slot i (recv_info_update ?r)) x)\<lparr>lp_pkt := m\<rparr>, True)" "holds_at m 0 ?w" .
  define x1 where "x1 = (set_rec (set_slot i (recv_info_update ?r)) x)\<lparr>lp_pkt := m\<rparr>"
  have k1: "keeps x x1" by (simp add: x1_def keeps_def head_same_def set_rec_def)
  have x1: "cur_mu x1 = mu" "rp_dir (rec_of x1) = dir" "rp_numSections (rec_of x1) = rp_numSections (rec_of x)" "rp_hdr (rec_of x1) = rp_hdr (rec_of x)"
    "rp_sections (rec_of x1) = (rp_sections (rec_of x))[i := recv_info_update ?r (rp_sections (rec_of x) ! i)]"
    "rp_technology (rec_of x1) = rp_technology (rec_of x)" "cp_maps (lp_ru x1) = cp_maps (lp_ru x)" "ru_dbs (lp_ru x1) = ru_dbs (lp_ru x)" "cur_idx x1 = cur_idx x"
    "sectiondb_elm (lp_ru x1) = sectiondb_elm (lp_ru x)" "lp_pkt x1 = m"
    using x(1,2) by (simp_all add: x1_def set_rec_def)
  have so: "starts_over ?key q (lp_ru x1) = starts_over ?key q (lp_ru x)" by (simp add: starts_over_def x1)
  have a: "antenna_ready c dir tti (ccId e) (unat (ruPortId e) - unat ?off) (cur_mu x1) p q" "maps_fit c (cur_mu x1) p q (cp_maps (lp_ru x1))"
    "?key = (Some (unat (xran_port_id (ru_cfg c))), dir, ccId e, ruPortId e, of_nat (tti mod XRAN_MAX_SECTIONDB_CTX), cur_mu x1)"
    using ready(1) x(6) by (simp_all add: ru_ready_def x1 ru_key_def)
  have st: "db_wf (ru_dbs (lp_ru x1))" "stored (ru_dbs (lp_ru x1)) ?key = Some ((if i \<noteq> 0 \<and> new then [] else L) @ es)"
    "length ((if i \<noteq> 0 \<and> new then [] else L) @ es) < XRAN_MAX_NUM_SECTIONS" "i < length (rp_sections (rec_of x1))"
    "i \<noteq> 0 \<Longrightarrow> unat (cur_idx x1) < unat (cp_nPrbElm (cp_maps (lp_ru x1) q))"
    using inv'(1,4) es(1) le g(2) room il by (auto simp: x1)
  obtain y z where y: "pusch_entry c b e dir tti (unat ?off) i x1 = Done y" "same_pass x1 y" "db_wf (ru_dbs (lp_ru y))"
    "unat (cur_idx y) < unat (cp_nPrbElm (cp_maps (lp_ru y) q))"
    "stored (ru_dbs (lp_ru y)) ?key = Some ((if i = 0 \<and> starts_over ?key q (lp_ru x1) then [] else (if i \<noteq> 0 \<and> new then [] else L) @ es) @ [z])"
    "plain_entry z = entry_for (rp_hdr (rec_of x1)) (i = 0) (int i = int (unat (rp_numSections (rec_of x1))) - 1) (recv_info (rp_sections (rec_of x1) ! i))"
    by (rule section_antenna [OF a(1,2,3) ready(2) st, of b])
  have ry: "rp_sections (rec_of y) = rp_sections (rec_of x1)" "rp_technology (rec_of y) = rp_technology (rec_of x)" "rp_hdr (rec_of y) = rp_hdr (rec_of x)"
    "lp_pkt y = m" using y(2) by (auto simp: same_pass_def x1)
  have ri: "recv_info (rp_sections (rec_of y) ! i) = ?r (recv_info (rp_sections (rec_of x) ! i))" using il by (simp add: ry x1)
  have "unat (dssPeriod (ru_cfg c)) \<le> length (technology (ru_cfg c))" using ready(1) by (simp add: ru_ready_def)
  from extensions_taken [OF ok g(1) this _ ready(3) _ _ ri, of w] x(5) m(2) il obtain z' where
    z': "(if ext_flag (recv_info (rp_sections (rec_of y) ! i)) \<noteq> 0 then obind (technology_of c y) (take_exts d c i) else Done (y, True)) = Done (z', True)"
    "keeps y z'" "holds_at (lp_pkt z') 0 w" "section_received ?g (rp_sections (rec_of z') ! i)" "\<forall>j<i. rp_sections (rec_of z') ! j = rp_sections (rec_of y) ! j"
    "cur_idx z' = cur_idx y" "ru_dbs (lp_ru z') = ru_dbs (lp_ru y)" by (auto simp: ry x1)
  have p: "at (perMu (ru_cfg c)) (unat mu) = Done (perMu (ru_cfg c) ! unat mu)" "of_antenna c ?off (ruPortId e)"
    using ready(1) by (simp_all add: ru_ready_def at_def)
  have step: "section1_step d c b e tti i x = Done (z', True)"
    using m(1) y(1) z'(1) p x(1,2)
    by (simp add: section1_step_def x1_def [symmetric] Let_def x1(1,2) split del: if_split)
  have kz: "keeps x z'" by (rule keeps_trans [OF k1 keeps_trans [OF same_pass_keeps [OF y(2)] z'(2)]])
  have "plain_entry z = entries_for (rp_hdr (rec_of x)) gs ! i"
  proof -
    have "(int i = int (unat (rp_numSections (rec_of x))) - 1) = (Suc i = length gs)" unfolding x(3) by auto
    then show ?thesis using y(6) g(2) ri entry_for_received [of _ _ _ _ "sect_info ?g" "recv_info (rp_sections (rec_of x) ! i)" zero_section]
      by (simp add: nth_entries x1 ry)
  qed
  then have "map plain_entry (es @ [z]) = take (Suc i) (entries_for (rp_hdr (rec_of z')) gs)"
    using es(2) g(2) kz by (simp add: take_Suc_conv_app_nth keeps_def head_same_def)
  moreover have "stored (ru_dbs (lp_ru z')) ?key = Some ((if Suc i \<noteq> 0 \<and> new then [] else L) @ es @ [z])"
    using y(5) inv'(3) le so by (cases "i = 0") (auto simp: z'(7))
  moreover have "\<forall>j<Suc i. section_received (gs ! j) (rp_sections (rec_of z') ! j)"
    using z'(4,5) inv'(2) by (auto simp: less_Suc_eq ry x1)
  moreover have "unat (cur_idx z') < unat (cp_nPrbElm (cp_maps (lp_ru z') q))" using y(4) z'(2,6) by (simp add: keeps_def)
  ultimately have "sections_done ?key q new gs L (Suc i) z'" using y(3) unfolding sections_done_def z'(7) by blast
  then show ?thesis using step kz z'(3) by (intro that [of z'])
qed

lemma sections_parsed:
  assumes ok: "dpdk_pkt_ok d" and ready: "ru_ready c e dir tti mu p q" "in_range (ru_key c e dir tti mu)" "unat (dssPeriod (ru_cfg c)) \<le> XRAN_MAX_DSS_PERIODICITY"
    and gs: "list_all (readable c mu) gs" and room: "length L + length gs \<le> XRAN_MAX_NUM_SECTIONS"
  shows "i + n = length gs \<Longrightarrow> cur_mu x = mu \<Longrightarrow> rp_dir (rec_of x) = dir \<Longrightarrow> unat (rp_numSections (rec_of x)) = length gs
    \<Longrightarrow> length gs \<le> length (rp_sections (rec_of x)) \<Longrightarrow> XRAN_MAX_DSS_PERIODICITY \<le> length (rp_technology (rec_of x)) \<Longrightarrow> maps_fit c mu p q (cp_maps (lp_ru x))
    \<Longrightarrow> holds_at (lp_pkt x) 0 (sections_wire XRAN_CP_SECTIONTYPE_1 mu (drop i gs) @ w) \<Longrightarrow> sections_done (ru_key c e dir tti mu) q new gs L i x
    \<Longrightarrow> \<exists>y. cp_loop (section1_step d c b e tti) n i x = Done y \<and> keeps x y \<and> holds_at (lp_pkt y) 0 w
          \<and> sections_done (ru_key c e dir tti mu) q new gs L (length gs) y"
proof (induction n arbitrary: i x)
  case 0
  then show ?case by (simp add: sections_wire_def)
next
  case (Suc n)
  have i: "i < length gs" using Suc.prems(1) by simp
  have "readable c mu (gs ! i)" using gs i by (simp add: list_all_length)
  moreover have "holds_at (lp_pkt x) 0 (gen_wire XRAN_CP_SECTIONTYPE_1 mu (gs ! i) @ sections_wire XRAN_CP_SECTIONTYPE_1 mu (drop (Suc i) gs) @ w)"
    using Suc.prems(8) i by (simp add: sections_wire_def Cons_nth_drop_Suc [symmetric])
  ultimately obtain y where y: "section1_step d c b e tti i x = Done (y, True)" "keeps x y"
    "holds_at (lp_pkt y) 0 (sections_wire XRAN_CP_SECTIONTYPE_1 mu (drop (Suc i) gs) @ w)" "sections_done (ru_key c e dir tti mu) q new gs L (Suc i) y"
    using section1_stepped [OF ok _ i ready Suc.prems(2-7) _ Suc.prems(9) room, of "sections_wire XRAN_CP_SECTIONTYPE_1 mu (drop (Suc i) gs) @ w" b] by metis
  have "\<exists>z. cp_loop (section1_step d c b e tti) n (Suc i) y = Done z \<and> keeps y z \<and> holds_at (lp_pkt z) 0 w
      \<and> sections_done (ru_key c e dir tti mu) q new gs L (length gs) z"
    using Suc.prems y(2) by (intro Suc.IH y(3,4)) (simp_all add: keeps_def head_same_def maps_fit_def)
  then show ?case using y(1,2) keeps_trans by fastforce
qed

section \<open>Packets\<close>

text \<open>The header that is read: of the width and the method of the compression four bits each.\<close>

definition header_read :: "xran_cp_gen_params \<Rightarrow> xran_cp_header_params \<Rightarrow> xran_cp_header_params" where
  "header_read p h = h\<lparr>filterIndex := filterIndex (cp_hdr p), frameId := frameId (cp_hdr p), subframeId := subframeId (cp_hdr p),
     slotId := slotId (cp_hdr p), hdr_startSymId := hdr_startSymId (cp_hdr p), hdr_iqWidth := take_bit 4 (hdr_iqWidth (cp_hdr p)),
     hdr_compMeth := take_bit 4 (hdr_compMeth (cp_hdr p))\<rparr>"

definition app_word :: "xran_cp_gen_params \<Rightarrow> u32" where
  "app_word p = (let h = cp_hdr p in bit_fields [(1, ucast (cp_dir p)), (3, 1), (4, ucast (filterIndex h)), (8, ucast (frameId h)), (4, ucast (subframeId h)),
     (6, ucast (slotId h)), (6, ucast (hdr_startSymId h))])"

lemma app_wire_word: "app_wire p = be32 (app_word p) @ [ucast (numSections p), sectionType p]"
  by (simp add: app_wire_def app_word_def Let_def)

lemma app_word_bits:
  assumes "hdr_ok p"
  shows "get_bits 28 3 (app_word p) = ucast XRAN_PAYLOAD_VER" "ucast (get_bits 31 1 (app_word p)) = cp_dir p" "ucast (get_bits 24 4 (app_word p)) = filterIndex (cp_hdr p)"
    "ucast (get_bits 16 8 (app_word p)) = frameId (cp_hdr p)" "ucast (get_bits 12 4 (app_word p)) = subframeId (cp_hdr p)"
    "ucast (get_bits 6 6 (app_word p)) = slotId (cp_hdr p)" "ucast (get_bits 0 6 (app_word p)) = hdr_startSymId (cp_hdr p)"
proof -
  let ?h = "cp_hdr p"
  have s: "take_bit 4 (filterIndex ?h) = filterIndex ?h" "take_bit 4 (subframeId ?h) = subframeId ?h" "take_bit 6 (slotId ?h) = slotId ?h"
    "take_bit 6 (hdr_startSymId ?h) = hdr_startSymId ?h" "cp_dir p mod 2 = cp_dir p"
    using assms by (auto simp: hdr_ok_def Let_def intro!: take_bit_small flag_small)
  show "get_bits 28 3 (app_word p) = ucast XRAN_PAYLOAD_VER" by (simp add: app_word_def Let_def get_bits_numeral XRAN_PAYLOAD_VER_def)
  show "ucast (get_bits 31 1 (app_word p)) = cp_dir p" "ucast (get_bits 24 4 (app_word p)) = filterIndex ?h"
    "ucast (get_bits 16 8 (app_word p)) = frameId ?h" "ucast (get_bits 12 4 (app_word p)) = subframeId ?h"
    "ucast (get_bits 6 6 (app_word p)) = slotId ?h" "ucast (get_bits 0 6 (app_word p)) = hdr_startSymId ?h"
    by (simp_all add: app_word_def Let_def s get_bits_numeral)
qed

lemma ud_compr_bits: "get_bits 4 4 (ud_compr h) = take_bit 4 (hdr_iqWidth h)" "get_bits 0 4 (ud_compr h) = take_bit 4 (hdr_compMeth h)"
  by (simp_all add: ud_compr_def)

lemma cid_be_read:
  assumes "dpdk_pkt_ok d" "eaxc_ok c w1 w2 w3 w4" "unat cc < 2 ^ w3" "unat ant < 2 ^ w4"
  shows "xran_decompose_cid d (Some c) (of_le16 (be16 (cid_be c cc ant))) = Done \<lparr>cuPortId = 0, bandSectorId = 0, ccId = cc, ruPortId = ant\<rparr>"
proof -
  have "xran_compose_cid d (Some c) 0 0 cc ant = Done (swap16 (cid_be c cc ant))"
    using assms(1) by (simp add: xran_compose_cid_def Let_def cid_be_def dpdk_pkt_ok_def Xran_Roundtrip.ucast_or ucast_cid_part)
  then have "xran_decompose_cid d (Some c) (swap16 (cid_be c cc ant)) = Done \<lparr>cuPortId = 0, bandSectorId = 0, ccId = cc, ruPortId = ant\<rparr>"
    using cid_round_trip [OF assms(1,2) _ _ assms(3,4), of 0 0] by simp
  moreover have "of_le16 (be16 (cid_be c cc ant)) = swap16 (cid_be c cc ant)"
    using of_be16 [of "cid_be c cc ant" "[]"] by (metis append_Nil2 swap16_swap16)
  ultimately show ?thesis by simp
qed

lemma transport_read:
  assumes "dpdk_pkt_ok d" "eaxc_ok c w1 w2 w3 w4" "unat cc < 2 ^ w3" "unat ant < 2 ^ w4" "holds_at m 0 (ctrl_wire c p cc ant seq start mu)"
  obtains i where "xran_parse_ecpri_hdr d (Some c) m = Done (XRAN_STATUS_SUCCESS, Some i)" "eaxc i = \<lparr>cuPortId = 0, bandSectorId = 0, ccId = cc, ruPortId = ant\<rparr>"
    "pkt_seq_id i = seq"
proof -
  define b where "b = [bit_fields [(4, XRAN_ECPRI_VER), (4, 0)], ECPRI_RT_CONTROL_DATA] @ be16 (of_nat (4 + length (ctrl_body p start mu)))
     @ be16 (cid_be c cc ant) @ [seq, bit_fields [(1, 1), (7, 0)]]"
  have "holds_at m 0 (b @ ctrl_body p start mu)" using assms(5) by (simp add: ctrl_wire_def b_def del: bit_fields.simps)
  moreover have "length b = 8" by (simp add: b_def)
  ultimately have pk: "peek m 0 sizeof_ecpri_hdr = Done b" using peek_first [of m 0 "b @ ctrl_body p start mu" 8] by (simp add: sizeof_ecpri_hdr_def)
  have v: "get_bits 4 4 (b ! 0) = XRAN_ECPRI_VER" "get_bits 1 3 (b ! 0) = 0" by (simp_all add: b_def XRAN_ECPRI_VER_def get_bits_def)
  have t: "take 2 (drop 4 b) = be16 (cid_be c cc ant)" "b ! 6 = seq" by (simp_all add: b_def be16_def le16_def)
  let ?i = "\<lparr>ecpri_version = XRAN_ECPRI_VER, ecpri_mesg_type = b ! 1, payload_len = rte_cpu_to_be_16 d (of_le16 (take 2 (drop 2 b))),
    eaxc = \<lparr>cuPortId = 0, bandSectorId = 0, ccId = cc, ruPortId = ant\<rparr>, pkt_seq_id = b ! 6, subseq_id = get_bits 0 7 (b ! 7), ebit = get_bits 7 1 (b ! 7)\<rparr>"
  have "xran_parse_ecpri_hdr d (Some c) m = Done (XRAN_STATUS_SUCCESS, Some ?i)"
    using v by (simp add: xran_parse_ecpri_hdr_def pk t(1) cid_be_read [OF assms(1-4)] Let_def)
  then show ?thesis by (rule that) (simp_all add: t(2))
qed

text \<open>The radio unit is ready for the message: it serves the antenna, has the maps, and a list with room.\<close>

record cp_target =
  tg_cc :: u8
  tg_ant :: u8
  tg_tti :: nat
  tg_mu :: u8
  tg_map :: nat
  tg_desc :: nat

definition tg_eaxc :: "cp_target \<Rightarrow> xran_eaxc_info" where
  "tg_eaxc t = \<lparr>cuPortId = 0, bandSectorId = 0, ccId = tg_cc t, ruPortId = tg_ant t\<rparr>"

definition tg_key :: "cp_ru_cfg \<Rightarrow> cp_target \<Rightarrow> u8 \<Rightarrow> db_key" where
  "tg_key c t dir = ru_key c (tg_eaxc t) dir (tg_tti t) (tg_mu t)"

definition radio_ready :: "cp_ru_cfg \<Rightarrow> cp_ru \<Rightarrow> cp_target \<Rightarrow> u8 \<Rightarrow> xran_section_info list \<Rightarrow> nat \<Rightarrow> bool" where
  "radio_ready c s t dir L n \<longleftrightarrow> at (mu_number (ru_cfg c)) 0 = Done (tg_mu t) \<and> ru_ready c (tg_eaxc t) dir (tg_tti t) (tg_mu t) (tg_map t) (tg_desc t)
     \<and> in_range (tg_key c t dir) \<and> unat (dssPeriod (ru_cfg c)) \<le> XRAN_MAX_DSS_PERIODICITY \<and> maps_fit c (tg_mu t) (tg_map t) (tg_desc t) (cp_maps s)
     \<and> db_wf (ru_dbs s) \<and> stored (ru_dbs s) (tg_key c t dir) = Some L \<and> 0 < n \<and> length L + n \<le> XRAN_MAX_NUM_SECTIONS
     \<and> n \<le> length (rp_sections (recvCpInfo s)) \<and> XRAN_MAX_DSS_PERIODICITY \<le> length (rp_technology (recvCpInfo s))"

text \<open>What it has afterwards.\<close>

definition message_received :: "cp_ru_cfg \<Rightarrow> cp_ru \<Rightarrow> cp_target \<Rightarrow> xran_cp_gen_params \<Rightarrow> xran_section_gen_info list \<Rightarrow> xran_section_info list \<Rightarrow> cp_ru \<Rightarrow> bool" where
  "message_received c s t p gs L s' \<longleftrightarrow> (let r = recvCpInfo s'
     in rp_dir r = cp_dir p \<and> rp_sectionType r = sectionType p \<and> unat (rp_numSections r) = length gs \<and> rp_hdr r = header_read p (rp_hdr (recvCpInfo s))
        \<and> (\<forall>j<length gs. section_received (gs ! j) (rp_sections r ! j))
        \<and> (\<exists>es. stored (ru_dbs s') (tg_key c t (cp_dir p)) = Some ((if starts_over (tg_key c t (cp_dir p)) (tg_desc t) s then [] else L) @ es)
             \<and> map plain_entry es = entries_for (rp_hdr r) gs))"

lemma ext1_not_counted:
  assumes "section_received g (rp_sections (rec_of x) ! 0)" "0 < length (rp_sections (rec_of x))" "readable c mu g"
  shows "count_invalid_ext1 x = Done x"
proof (cases "ext_flag (sect_info g) = 0")
  case True
  then show ?thesis using assms(1,2) by (auto simp: count_invalid_ext1_def at_def Let_def section_received_def received_fields)
next
  case False
  let ?xs = "recv_exts (rp_sections (rec_of x) ! 0)"
  have g: "list_all ext_ok (gen_exts g)" "gen_exts g \<noteq> []" using assms(3) False by (simp_all add: readable_def gen_ok_def)
  have f: "ext_flag (recv_info (rp_sections (rec_of x) ! 0)) \<noteq> 0"
    "take (length (gen_exts g)) ?xs = map (\<lambda>e. (ext_type e, of_nat (length (ext_wire 0 e)), recv_of e)) (gen_exts g)"
    using assms(1) False by (auto simp: section_received_def received_fields)
  obtain e es where e: "gen_exts g = e # es" using g(2) by (cases "gen_exts g") auto
  obtain y ys where y: "?xs = y # ys" using f(2) e by (cases ?xs) auto
  then have "y = (ext_type e, of_nat (length (ext_wire 0 e)), recv_of e)" using f(2) e by simp
  moreover have "ext_type e \<noteq> 1" using g(1) e by (cases e) simp_all
  ultimately show ?thesis using assms(2) f(1) y by (simp add: count_invalid_ext1_def at_def Let_def)
qed

lemma sections_read:
  assumes ok: "dpdk_pkt_ok d" and c: "radio_ready c s t dir L (length gs)" and gs: "list_all (readable c (tg_mu t)) gs"
    and x: "cur_mu x = tg_mu t" "rp_dir (rec_of x) = dir" "unat (rp_numSections (rec_of x)) = length gs" "rp_sections (rec_of x) = rp_sections (recvCpInfo s)"
      "rp_technology (rec_of x) = rp_technology (recvCpInfo s)" "cp_maps (lp_ru x) = cp_maps s" "ru_dbs (lp_ru x) = ru_dbs s" "sectiondb_elm (lp_ru x) = sectiondb_elm s"
    and h: "holds_at (lp_pkt x) 6 ([ud_compr u, 0] @ sections_wire XRAN_CP_SECTIONTYPE_1 (tg_mu t) gs)"
  obtains y where "parse_sections d c b (tg_eaxc t) (tg_tti t) XRAN_CP_SECTIONTYPE_1 x = Done y" "cp_ret y = cp_ret x" "holds_at (lp_pkt y) 0 []"
    "head_same (rp_hdr_update (\<lambda>h. h\<lparr>hdr_iqWidth := take_bit 4 (hdr_iqWidth u), hdr_compMeth := take_bit 4 (hdr_compMeth u)\<rparr>) (rec_of x)) (rec_of y)"
    "sections_done (tg_key c t dir) (tg_desc t) (starts_over (tg_key c t dir) (tg_desc t) s) gs L (length gs) y"
proof -
  let ?key = "tg_key c t dir" and ?h = "\<lambda>h. h\<lparr>hdr_iqWidth := take_bit 4 (hdr_iqWidth u), hdr_compMeth := take_bit 4 (hdr_compMeth u)\<rparr>"
  have ty: "XRAN_CP_SECTIONTYPE_1 \<noteq> XRAN_CP_SECTIONTYPE_0" by (simp add: XRAN_CP_SECTIONTYPE_1_def XRAN_CP_SECTIONTYPE_0_def)
  have pk: "peek (lp_pkt x) 6 2 = Done [ud_compr u, 0]" using peek_first [OF h, of 2] by simp
  have hd: "read_section_hdr d XRAN_CP_SECTIONTYPE_1 [ud_compr u, 0] = ?h" using ud_compr_bits by (intro ext) (simp add: read_section_hdr_def)
  from holds_at_behind [OF h] have "holds_at (lp_pkt x) 8 (sections_wire XRAN_CP_SECTIONTYPE_1 (tg_mu t) gs)" by simp
  from adj_held [OF ok this] obtain m where m: "rte_pktmbuf_adj d 8 (lp_pkt x) = Some m" "holds_at m 0 (sections_wire XRAN_CP_SECTIONTYPE_1 (tg_mu t) gs)" .
  let ?x = "(set_rec (rp_hdr_update ?h) x)\<lparr>lp_pkt := m\<rparr>"
  have c': "ru_ready c (tg_eaxc t) dir (tg_tti t) (tg_mu t) (tg_map t) (tg_desc t)" "in_range ?key" "unat (dssPeriod (ru_cfg c)) \<le> XRAN_MAX_DSS_PERIODICITY"
    "maps_fit c (tg_mu t) (tg_map t) (tg_desc t) (cp_maps s)" "db_wf (ru_dbs s)" "stored (ru_dbs s) ?key = Some L" "length L + length gs \<le> XRAN_MAX_NUM_SECTIONS"
    "length gs \<le> length (rp_sections (recvCpInfo s))" "XRAN_MAX_DSS_PERIODICITY \<le> length (rp_technology (recvCpInfo s))" "0 < length gs"
    using c by (simp_all add: radio_ready_def)
  have i: "sections_done ?key (tg_desc t) (starts_over ?key (tg_desc t) s) gs L 0 ?x"
    using c'(5,6) x by (simp add: sections_done_def starts_over_def set_rec_def)
  have "holds_at (lp_pkt ?x) 0 (sections_wire XRAN_CP_SECTIONTYPE_1 (tg_mu t) (drop 0 gs) @ [])" using m(2) by simp
  then obtain y where y: "cp_loop (section1_step d c b (tg_eaxc t) (tg_tti t)) (length gs) 0 ?x = Done y" "keeps ?x y" "holds_at (lp_pkt y) 0 []"
    "sections_done ?key (tg_desc t) (starts_over ?key (tg_desc t) s) gs L (length gs) y"
    using sections_parsed [OF ok c'(1) c'(2) [unfolded tg_key_def] c'(3) gs c'(7), of 0 "length gs" ?x "[]" "starts_over ?key (tg_desc t) s" b] c' x i
    by (auto simp: tg_key_def set_rec_def)
  have "section_received (gs ! 0) (rp_sections (rec_of y) ! 0)" using y(4) c'(10) unfolding sections_done_def by blast
  moreover have "length (rp_sections (rec_of y)) = length (rp_sections (recvCpInfo s))" using y(2) x(4) by (simp add: keeps_def head_same_def set_rec_def)
  then have "0 < length (rp_sections (rec_of y))" using c'(8,10) by linarith
  moreover have "readable c (tg_mu t) (gs ! 0)" using gs c'(10) by (simp add: list_all_length)
  ultimately have "count_invalid_ext1 y = Done y" by (rule ext1_not_counted)
  moreover have "unat (rp_numSections (rec_of ?x)) = length gs" using x(3) by (simp add: set_rec_def)
  ultimately have "parse_sections d c b (tg_eaxc t) (tg_tti t) XRAN_CP_SECTIONTYPE_1 x = Done y"
    using y(1) m(1) ty by (simp add: parse_sections_def section_hdr_size_def pk hd Let_def)
  moreover have "cp_ret y = cp_ret x" "head_same (rp_hdr_update ?h (rec_of x)) (rec_of y)" using y(2) by (simp_all add: keeps_def set_rec_def)
  ultimately show ?thesis using y(3,4) by (intro that [of y]) simp_all
qed

lemma message_parsed:
  assumes ok: "dpdk_pkt_ok d" and cid: "eaxc_ok (eAxc_id_cfg (ru_cfg c)) w1 w2 w3 w4" "unat (tg_cc t) < 2 ^ w3" "unat (tg_ant t) < 2 ^ w4"
    and p: "hdr_ok p" "sectionType p = XRAN_CP_SECTIONTYPE_1" "unat (numSections p) = length gs"
    and tti: "packet_tti (tg_mu t) (frameId (cp_hdr p)) (subframeId (cp_hdr p)) (slotId (cp_hdr p)) = Done (tg_tti t)"
    and c: "radio_ready c s t (cp_dir p) L (length gs)" and gs: "list_all (readable c (tg_mu t)) gs" "gs = take (unat (numSections p)) (drop start (sections p))"
    and h: "holds_at m 0 (ctrl_wire (eAxc_id_cfg (ru_cfg c)) p (tg_cc t) (tg_ant t) seq start (tg_mu t))"
  shows "\<exists>keep m' s'. xran_parse_cp_pkt d (Some c) b m s = Done (XRAN_STATUS_SUCCESS, keep, m', s') \<and> data_len m' = 0 \<and> message_received c s t p gs L s'"
proof -
  from transport_read [OF ok cid h] obtain i where i: "xran_parse_ecpri_hdr d (Some (eAxc_id_cfg (ru_cfg c))) m = Done (XRAN_STATUS_SUCCESS, Some i)"
    "eaxc i = tg_eaxc t" by (auto simp: tg_eaxc_def)
  let ?u = "cp_hdr p"
  let ?w = "[ud_compr ?u, 0] @ sections_wire XRAN_CP_SECTIONTYPE_1 (tg_mu t) gs"
  let ?t = "[bit_fields [(4, XRAN_ECPRI_VER), (4, 0)], ECPRI_RT_CONTROL_DATA] @ be16 (of_nat (4 + length (ctrl_body p start (tg_mu t))))
     @ be16 (cid_be (eAxc_id_cfg (ru_cfg c)) (tg_cc t) (tg_ant t)) @ [seq, bit_fields [(1, 1), (7, 0)]]"
  have "ctrl_wire (eAxc_id_cfg (ru_cfg c)) p (tg_cc t) (tg_ant t) seq start (tg_mu t) = ?t @ be32 (app_word p) @ [ucast (numSections p), sectionType p] @ ?w"
    using p(2) by (simp add: ctrl_wire_def ctrl_body_def app_wire_word section_hdr_wire_def gs(2) [symmetric] del: bit_fields.simps)
  then have "holds_at m 0 (?t @ be32 (app_word p) @ [ucast (numSections p), sectionType p] @ ?w)" using h by (simp only:)
  moreover have "length ?t = 8" by simp
  ultimately have "holds_at m 8 (be32 (app_word p) @ [ucast (numSections p), sectionType p] @ ?w)"
    using holds_at_behind [of m 0 ?t] by (simp only: add_0)
  from adj_held [OF ok this] obtain m1 where m1: "rte_pktmbuf_adj d sizeof_ecpri_hdr m = Some m1"
    "holds_at m1 0 (be32 (app_word p) @ [ucast (numSections p), sectionType p] @ ?w)" by (auto simp: sizeof_ecpri_hdr_def)
  from turn32_held [OF ok m1(2)] obtain m2 where m2: "turn32 d 0 m1 = Done (app_word p, m2)" "holds_at m2 (0 + 4) ([ucast (numSections p), sectionType p] @ ?w)" .
  have pk: "peek m2 4 2 = Done [ucast (numSections p), sectionType p]" using peek_first [OF m2(2), of 2] by simp
  have h6: "holds_at m2 6 ?w" using holds_at_behind [OF m2(2)] by simp
  note a = app_word_bits [OF p(1)] app_word_bits(2) [OF p(1), unfolded One_nat_def]
  define ri where "ri = (read_app_hdr (app_word p) [ucast (numSections p), sectionType p] (recvCpInfo s))\<lparr>rp_tti := of_nat (tg_tti t)\<rparr>"
  define x where "x = \<lparr>lp_pkt = m2, lp_ru = s\<lparr>parse_recv := i, recvCpInfo := ri\<rparr>, cur_map = None, cur_desc = None, cur_idx = 0, cur_mu = tg_mu t, cp_keep = False,
    cp_ret = XRAN_STATUS_SUCCESS\<rparr>"
  have n: "unat (ucast (ucast (numSections p) :: u8) :: u16) = length gs" 
    using p(1,3) take_bit_small [of "numSections p" 8] by (simp add: unsigned_ucast_eq take_bit_nat_eq_self hdr_ok_def Let_def)
  have ri: "rp_dir ri = cp_dir p" "unat (rp_numSections ri) = length gs" "rp_sections ri = rp_sections (recvCpInfo s)" "rp_technology ri = rp_technology (recvCpInfo s)"
    "rp_sectionType ri = sectionType p"
    using n by (simp_all add: ri_def read_app_hdr_def a)
  have x: "cur_mu x = tg_mu t" "rp_dir (rec_of x) = cp_dir p" "unat (rp_numSections (rec_of x)) = length gs" "rp_sections (rec_of x) = rp_sections (recvCpInfo s)"
    "rp_technology (rec_of x) = rp_technology (recvCpInfo s)" "cp_maps (lp_ru x) = cp_maps s" "ru_dbs (lp_ru x) = ru_dbs s" "sectiondb_elm (lp_ru x) = sectiondb_elm s"
    "holds_at (lp_pkt x) 6 ?w" using ri h6 by (simp_all add: x_def)
  from sections_read [OF ok c gs(1) x, of b] obtain y where y: "parse_sections d c b (tg_eaxc t) (tg_tti t) XRAN_CP_SECTIONTYPE_1 x = Done y" "cp_ret y = cp_ret x"
    "holds_at (lp_pkt y) 0 []" "head_same (rp_hdr_update (\<lambda>h. h\<lparr>hdr_iqWidth := take_bit 4 (hdr_iqWidth ?u), hdr_compMeth := take_bit 4 (hdr_compMeth ?u)\<rparr>) (rec_of x)) (rec_of y)"
    "sections_done (tg_key c t (cp_dir p)) (tg_desc t) (starts_over (tg_key c t (cp_dir p)) (tg_desc t) s) gs L (length gs) y" .
  have rh: "rp_hdr (rec_of y) = header_read p (rp_hdr (recvCpInfo s))"
    using y(4) by (simp add: head_same_def header_read_def x_def ri_def read_app_hdr_def a)
  have "message_received c s t p gs L (lp_ru y)"
  proof -
    have "\<exists>es. stored (ru_dbs (lp_ru y)) (tg_key c t (cp_dir p)) = Some ((if starts_over (tg_key c t (cp_dir p)) (tg_desc t) s then [] else L) @ es)
        \<and> map plain_entry es = entries_for (rp_hdr (rec_of y)) gs" and "\<forall>j<length gs. section_received (gs ! j) (rp_sections (rec_of y) ! j)"
      using y(5) c by (auto simp: sections_done_def radio_ready_def)
    moreover have "rp_dir (rec_of y) = cp_dir p" "rp_sectionType (rec_of y) = sectionType p" "unat (rp_numSections (rec_of y)) = length gs"
      using y(4) ri by (simp_all add: head_same_def x_def)
    ultimately show ?thesis using rh unfolding message_received_def Let_def by blast
  qed
  moreover have t3: "sectionType p \<noteq> XRAN_CP_SECTIONTYPE_3" using p(2) by (simp add: XRAN_CP_SECTIONTYPE_1_def XRAN_CP_SECTIONTYPE_3_def)
  moreover have mu: "at (mu_number (ru_cfg c)) 0 = Done (tg_mu t)" using c by (simp add: radio_ready_def)
  moreover have "data_len (lp_pkt y) = 0" using y(3) by (simp add: holds_at_def)
  moreover have "xran_parse_cp_pkt d (Some c) b m s = Done (XRAN_STATUS_SUCCESS, cp_keep y, lp_pkt y, lp_ru y)"
  proof -
    let ?b = "[ucast (numSections p), sectionType p]"
    let ?ri = "read_app_hdr (app_word p) ?b (recvCpInfo s)"
    have f: "frameId (rp_hdr ?ri) = frameId ?u" "subframeId (rp_hdr ?ri) = subframeId ?u" "slotId (rp_hdr ?ri) = slotId ?u" "?b ! 1 = XRAN_CP_SECTIONTYPE_1"
      by (simp_all add: read_app_hdr_def a p(2))
    have t: "(if ?b ! 1 = XRAN_CP_SECTIONTYPE_3 then Done (0, ?ri)
        else obind (packet_tti (tg_mu t) (frameId (rp_hdr ?ri)) (subframeId (rp_hdr ?ri)) (slotId (rp_hdr ?ri))) (\<lambda>t. Done (t, ?ri\<lparr>rp_tti := of_nat t\<rparr>)))
        = Done (tg_tti t, ri)" using t3 p(2) unfolding f tti by (simp add: ri_def)
    have x': "\<lparr>lp_pkt = m2, lp_ru = (s\<lparr>parse_recv := i\<rparr>)\<lparr>recvCpInfo := ri\<rparr>, cur_map = None, cur_desc = None, cur_idx = 0, cur_mu = tg_mu t, cp_keep = False,
      cp_ret = XRAN_STATUS_SUCCESS\<rparr> = x" by (simp add: x_def)
    have u: "recvCpInfo (s\<lparr>parse_recv := i\<rparr>) = recvCpInfo s" "parse_recv (s\<lparr>parse_recv := i\<rparr>) = i" by simp_all
    have r: "cp_ret y = XRAN_STATUS_SUCCESS" using y(2) by (simp add: x_def)
    show ?thesis
      unfolding xran_parse_cp_pkt_def Let_def option.case i(1) obind.simps case_prod_conv m1(1) m2(1) pk mu u t i(2)
      by (simp only: a(1) refl not_True_eq_False if_False x' f(4) y(1) obind.simps r)
  qed
  ultimately show ?thesis by blast
qed

lemma grown_held:
  assumes "grown m w m1" "data_len m = 0"
  shows "holds_at m1 0 w"
proof -
  have g: "data_off m1 = data_off m" "data_len m1 = length w" "data_off m + length w \<le> length (buf_addr m1)"
    "take (data_off m + length w) (buf_addr m1) = take (data_off m) (buf_addr m) @ w" "data_off m \<le> length (buf_addr m)"
    using assms by (auto simp: grown_def room_def up_to_end_def)
  have "take (length w) (drop (data_off m) (buf_addr m1)) = drop (data_off m) (take (data_off m + length w) (buf_addr m1))" by (simp add: drop_take)
  also have "\<dots> = w" using g(5) by (simp add: g(4))
  finally show ?thesis using g by (simp add: holds_at_def)
qed
end
