(* ===== verification/Xran_Cp_Delivery.thy ===== *)
theory Xran_Cp_Delivery
  imports Xran_Cp_Roundtrip Xran_Delivery
begin

text \<open>
  The packets of the control plane on the wire, and what a receiver reads from them.
\<close>

section \<open>The layout of a packet\<close>

text \<open>C17: a control-plane packet is what the layout says.  When the fields fit their widths and the buffer has
  room, \<open>xran_prepare_ctrl_pkt\<close> succeeds for the section types 0, 1 and 3 and puts, behind the data of before
  that do not change, the transport header with its length, the application header, and for each section its
  eight or twelve bytes and its extensions 2, 3, 4, 6 and 9, field by field from the most significant bit, with
  the flag for another extension set in all but the last one.\<close>

theorem control_packet_has_its_layout:
  assumes "dpdk_pkt_ok d" "ctrl_ok p (unat start) mu" "room m (length (ctrl_wire c p cc ant seq (unat start) mu) + 4)"
  shows "\<exists>m'. xran_prepare_ctrl_pkt d (Some c) p cc ant seq start mu m = Done (XRAN_STATUS_SUCCESS, m')
    \<and> grown m (ctrl_wire c p cc ant seq (unat start) mu) m'"
  using assms by (rule ctrl_written)

text \<open>A downlink message of two sections of 50 resource blocks, the first one with two extensions.\<close>

definition demo_section :: xran_section_info where
  "demo_section = \<lparr>sec_desc = [], freqOffset = 0, startPrbc = 3, numPrbc = 50, sect_type = 1, startSymId = 0, numSymbol = 14, beamId = 7,
     sect_no = 5, reMask = 0xFFF, symInc = 0, rbInd = 0, ext_flag = 1, prbElemBegin = False, prbElemEnd = False, sect_compMeth = 1,
     sect_iqWidth = 9\<rparr>"

definition demo_exts :: "xran_section_ext list" where
  "demo_exts = [Ext4 \<lparr>csf = 1, modCompScaler = 0x1234\<rparr>, Ext6 \<lparr>rbgSize = 2, symbolMask = 0x3FFF, rbgMask = 0xABCDEF\<rparr>]"

definition demo_ctrl :: xran_cp_gen_params where
  "demo_ctrl = \<lparr>cp_dir = 1, sectionType = 1, numSections = 2,
     cp_hdr = \<lparr>filterIndex = 0, frameId = 0x21, subframeId = 4, slotId = 1, hdr_startSymId = 2, fftSize = 0, scs = 0, hdr_iqWidth = 9,
       hdr_compMeth = 1, timeOffset = 0, cpLength = 0\<rparr>,
     sections = [\<lparr>sect_info = demo_section, exData = map Some demo_exts, exDataSize = 2\<rparr>,
       \<lparr>sect_info = demo_section\<lparr>startPrbc := 53, sect_no := 6, ext_flag := 0\<rparr>, exData = [], exDataSize = 0\<rparr>]\<rparr>"

lemma demo_ctrl_ok: "ctrl_ok demo_ctrl 0 1"
  by (simp add: ctrl_ok_def hdr_ok_def gen_ok_def section_ok_def gen_exts_def demo_ctrl_def demo_section_def demo_exts_def mu_sect_id_def
      XRAN_MAX_SECTIONS_PER_SLOT_def XRAN_MAX_NUM_EXTENSIONS_def XRAN_CP_SECTIONTYPE_1_def take_Cons')

lemma demo_exts_wire: "exts_wire demo_exts = [0x84, 1, 0x92, 0x34, 0x06, 2, 0x20, 0xAB, 0xCD, 0xEF, 0x3F, 0xFF]"
  by (simp add: demo_exts_def ext4_wire_def ext6_wire_def be32_def be64_def le64_def le32_def)

definition demo_ctrl_bytes :: "u8 list" where
  "demo_ctrl_bytes =
     [0x10, 2, 0, 0x28, 0, 0x12, 0x11, 0x80, 0x90, 0x21, 0x40, 0x42, 2, 1, 0x91, 0, 2, 0x50, 3, 0x32, 0xFF, 0xFE,
      0x80, 7, 0x84, 1, 0x92, 0x34, 6, 2, 0x20, 0xAB, 0xCD, 0xEF, 0x3F, 0xFF, 2, 0x60, 0x35, 0x32, 0xFF, 0xFE, 0, 7]"

lemma demo_ctrl_wire: "ctrl_wire (eAxc_id_cfg demo_rx_cfg) demo_ctrl 1 2 17 0 1 = demo_ctrl_bytes"
proof -
  have e: "map the (take 2 (map Some demo_exts)) = demo_exts" by (simp add: demo_exts_def)
  show ?thesis
    by (simp add: ctrl_wire_def ctrl_body_def demo_ctrl_def demo_section_def demo_rx_cfg_def cid_be_def app_wire_def Let_def
      section_hdr_wire_def ud_compr_def sections_wire_def gen_wire_def gen_exts_def section_wire_def place_word_def beam_word_def
      mu_sect_id_def XRAN_MAX_SECTIONS_PER_SLOT_def XRAN_CP_SECTIONTYPE_1_def XRAN_CP_SECTIONTYPE_0_def XRAN_CP_SECTIONTYPE_3_def
      take_Cons' e demo_exts_wire be16_def be32_def le16_def le32_def XRAN_ECPRI_VER_def ECPRI_RT_CONTROL_DATA_def demo_ctrl_bytes_def)
qed

theorem control_packet_has_its_layout_witness:
  "\<exists>m'. xran_prepare_ctrl_pkt demo_dpdk_pkt (Some (eAxc_id_cfg demo_rx_cfg)) demo_ctrl 1 2 17 0 1 \<lparr>buf_addr = replicate 100 0xEE, data_off = 10, data_len = 4\<rparr>
      = Done (XRAN_STATUS_SUCCESS, m')
    \<and> data_off m' = 10 \<and> data_len m' = 4 + length demo_ctrl_bytes
    \<and> take (14 + length demo_ctrl_bytes) (buf_addr m') = replicate 14 0xEE @ demo_ctrl_bytes"
proof -
  let ?m = "\<lparr>buf_addr = replicate 100 0xEE, data_off = 10, data_len = 4\<rparr>"
  have "length demo_ctrl_bytes = 44" by (simp add: demo_ctrl_bytes_def)
  then show ?thesis
    using control_packet_has_its_layout [of demo_dpdk_pkt demo_ctrl 0 1 ?m "eAxc_id_cfg demo_rx_cfg" 1 2 17] demo_ctrl_ok
    by (auto simp: demo_ctrl_wire room_def grown_def up_to_end_def)
qed


section \<open>The way to the radio unit\<close>










lemma demo_gen_exts: "map gen_exts (sections demo_ctrl) = [demo_exts, []]"
proof -
  have "map the (take 2 (map Some demo_exts)) = demo_exts" by (simp add: demo_exts_def)
  then show ?thesis by (simp add: demo_ctrl_def gen_exts_def)
qed


end
