(* ===== verification/Spec2Isabelle.thy ===== *)
theory Spec2Isabelle
  imports Wls_Addr Wls_Sema Fapi_Config Fapi_Mem Fapi_Delivery Fapi_Lifecycle Fapi_Split Fapi_Rounds Fapi_Tx_Data Fapi_Reports
    Xran_Buffers Xran_Cp_Delivery
begin

text \<open>
  A verification of the O-DU PHY interfaces: the shared-memory library between the processes
  (\<open>wls_lib\<close>), the layer that translates the FAPI between the MAC and the PHY (\<open>fapi_5g\<close>), and the
  library of the open fronthaul (\<open>fhi_lib/lib\<close>).

  \<^bold>\<open>Parts and how they interact.\<close>  The MAC, the FAPI layer and the PHY are processes that share memory.
  \<open>wls_lib\<close> gives each pair of them two message queues and a ring of wake-ups (\<open>WLS_Put\<close>, \<open>WLS_Get\<close>,
  \<open>WLS_Wait\<close>), an area for buffers, and a pool of free blocks.  The FAPI layer takes lists of
  messages of the MAC from its queue, splits them by carrier, checks their order, translates each
  message into one or more messages of the PHY, and sends those in a list with their payload blocks;
  in the other direction it translates indications of the PHY and keeps the state of each PHY
  instance.  The fronthaul library turns slots of the PHY into packets for the radio unit and enters
  the packets it receives into the tables from which the PHY reads.

  \<^bold>\<open>How the code is modelled.\<close>  Structures are records, enumerations datatypes, machine integers words of
  their width.  A value of type \<open>int\<close> that no input can make large is an integer.  Functions on shared
  state take the state and return it.  In the theories of \<open>wls_lib\<close>, \<open>None\<close> is a memory fault; from
  \<open>Outcomes\<close> on a call ends in one of the outcomes \<open>Undefined\<close> (undefined behaviour, in particular an
  access behind the end of an array), \<open>Exited\<close> (the process is ended), \<open>Diverges\<close> (no return) and
  \<open>Done\<close>.  Loops that may not end are \<open>run_loop\<close>, whose value is then \<open>Diverges\<close>.  Two loops use fuel:
  the alignment loop of \<open>wls_initialize\<close> has 64 rounds, after which its 64-bit value is 0, and the walk
  on the links of a list in \<open>Fapi_Split\<close> has one round per element.  Code outside the repository is a
  parameter: DPDK and POSIX (\<open>wls_env\<close>, \<open>dpdk_pkt\<close>), the headers of the PHY (\<open>fapi_api\<close>, and \<open>p7_api\<close> for the
  constants and fields of its slot messages), the second half of the shared-memory library that only the
  FAPI layer calls (\<open>fapi_cfg\<close>), and what a block holds that is handed out again (\<open>p7_env\<close>).

  \<^bold>\<open>The theories.\<close>
  \<^item> \<open>Prelude\<close>, \<open>Outcomes\<close>: vocabulary, ring arithmetic, outcomes and loops.  \<open>Bounded_Fifo\<close>, \<open>Block_Pool\<close>:
    the two interfaces on which clients rely, as locales; they are interpreted on the rings of
    \<open>Wls_Queue\<close>, on the pool of \<open>Wls_Addr\<close> and on the partition of \<open>Fapi_Mem\<close>.
  \<^item> \<open>Wls_Queue\<close> (\<open>syslib.c\<close>): both ring buffers.  Any run of operations answers as a bounded list and
    stays in its storage (C1); the pointer ring loses and reorders nothing (C2).
  \<^item> \<open>Wls_State\<close>, \<open>Wls_Lib\<close> (\<open>wls.h\<close>, \<open>wls_lib_dpdk.c\<close>): clients, contexts, and the message calls;
    \<open>Wls_Link\<close>: their effect on the queues as lists.  \<open>Wls_Delivery\<close>: a link as a transition system of
    the calls of both sides.  Messages arrive exactly once and in order while the peer keeps up (C3,
    C4); a put to a full peer reorders (C5).  \<open>Wls_Session\<close>: opening and closing (C6), and two faults
    with more than two clients (C7, C8).  \<open>Wls_Addr\<close>: allocation and address translation (C9, C10; of
    DPDK only what it says of the pages that it converts is assumed) and the pool of free blocks (C11).  \<open>Wls_Sema\<close>: the counting of wake-ups (C12, C13).
  \<^item> \<open>Frame_Struct\<close> (\<open>xran_frame_struct.c\<close>): slot arithmetic (C14), the TDD pattern (C16),
    resource blocks and channel numbers (C19).
  \<^item> \<open>Fapi_Config\<close> (\<open>nr5g_fapi_proc_config_req.c\<close>): the translation of a configuration, the loop over
    whose TLVs may not end (C22).  What a translation that ends makes of the configuration is stated
    against a table of the tags of its own, field by field (C21, C23).
  \<^item> \<open>Fapi_Mem\<close> (\<open>nr5g_fapi_wls.c\<close>): the partition of the memory and its blocks (C26, C27, C28).  The client
    of C26 frees any address any number of times and writes anywhere but into available blocks.
  \<^item> \<open>Fapi_Msg\<close>: messages and lists; \<open>Fapi_Send\<close> (\<open>nr5g_fapi_fapi2phy_wls.c\<close>): sending to the PHY and the
    ring of blocks that wait to be freed.  \<open>Fapi_Delivery\<close>: lists arrive in order (C29), blocks are freed
    four lists later (C30), a row can be overrun (C31).
  \<^item> \<open>Fapi_Instance\<close> (\<open>nr5g_fapi_framework.h\<close>), \<open>Fapi_Queues\<close> (\<open>nr5g_fapi_fapi2phy_api.c\<close>,
    \<open>nr5g_fapi_fapi2mac_api.c\<close>, \<open>nr5g_fapi_fapi2mac_wls.c\<close>), \<open>Fapi_P5\<close> (the directories \<open>p5\<close>), \<open>Fapi_Dispatch\<close>
    (\<open>framework/workers\<close>): the state of the layer, its queues, the control messages and the handlers of
    the threads.  \<open>Fapi_Lifecycle\<close>: any sequence of calls of the threads, slot messages included, follows
    an automaton of the states (C32), failed shutdowns are repeated and reported every fourth time (C33),
    and what lists a running instance accepts (C35).  \<open>Fapi_Split\<close>: the splitting of lists on their links equals its
    description on lists (C37).
  \<^item> \<open>Fapi_P7_Types\<close>: the slot messages of the FAPI and of the PHY; \<open>Fapi_P7_Struct\<close>: the blocks in which
    the messages of the PHY are built.  \<open>Fapi_P7_Rbg\<close>: the bit maps of resource block groups, which
    are read as their reference says (C15).  \<open>Fapi_P7_Ul\<close>, \<open>Fapi_P7_Dl\<close>: the translation of the requests
    UL_TTI, DL_TTI, UL_DCI and TX_DATA (the directory \<open>api/fapi2phy/p7\<close>); \<open>Fapi_P7_Ind\<close>: that of the CRC, RX_DATA,
    UCI, SRS and RACH indications (\<open>api/fapi2mac/p7\<close>); \<open>Fapi_P7\<close>: the requests and indications themselves,
    with the checks and the lists, put together as \<open>slot_messages\<close> for the handlers; \<open>Fapi_P7_States\<close>: none of
    them changes the state of an instance.
    \<open>Fapi_Tx_Data\<close>: TX_DATA.request puts the code words of a PDU together (C36).
    \<open>Fapi_Slots\<close>: an uplink request leaves a record of its PDUs, and the indications of the PHY that
    follow are given the handles of exactly the PDUs they answer (C18); \<open>Fapi_Reports\<close>: the same for the
    reports on PUCCH and SRS, with the values they report (C34).  \<open>Fapi_Slot_Safety\<close> and \<open>Fapi_Rounds\<close>: the
    translations, the handlers and the rounds of the threads keep every record at its place, so that in
    every reachable state the search for a record is a direct access (C25).  What the handlers need of
    the slot messages is the locale \<open>slot_messages_keep\<close>, over \<open>instance_invariant\<close> of \<open>Fapi_Lifecycle\<close>.
  \<^item> \<open>Xran_Packet\<close> (\<open>xran_transport.c\<close>, \<open>xran_pkt.h\<close>): packet buffers, bit fields, the eCPRI header.
    \<open>Xran_Uplane\<close> (\<open>xran_up_api.c\<close>, \<open>xran_common.c\<close>): building and reading the packets of a symbol.
    \<open>Xran_Roundtrip\<close>: what is built is what is read.  \<open>Xran_Rx\<close> (\<open>process_mbuf\<close> and \<open>xran_rx_proc.c\<close>):
    the checks on a received packet and its entry into the control of its symbol.  \<open>Xran_Receive\<close> and
    \<open>Xran_Delivery\<close>: the sections of a sent symbol reach the tables of the receiver (C38).
    \<open>Xran_Buffers\<close>: packet buffers have one owner (C39), and \<open>process_mbuf\<close> runs forever for no packet (C40).
  \<^item> \<open>Xran_Cplane\<close> (\<open>xran_cp_api.c\<close>, \<open>xran_pkt_cp.h\<close>): the messages of the control plane, their sections and
    extensions.  \<open>Xran_Cp_Wire\<close>: their layout on the wire, and that exactly this is written (C17, in
    \<open>Xran_Cp_Delivery\<close>).  \<open>Xran_Sectiondb\<close>: the database of the sections that were announced, which is a
    bounded list per antenna (C20).  \<open>Xran_Cp_Ext\<close>, \<open>Xran_Cp_Parse\<close>: a radio unit reads a message, with
    its database and the maps of its antennas.  \<open>Xran_Cp_Roundtrip\<close>, \<open>Xran_Cp_Delivery\<close>: what is written is what
    is read, from the extensions to the message as a whole (C24), but for two bits of an index that
    extension 2 loses.

  \<^bold>\<open>Not modelled.\<close>  Threads are sequences of calls: a mutex is a no-op and two calls never overlap.  The
  handlers of the FAPI layer take the functions for slot messages as the parameter \<open>fapi_p7\<close>, so that what is
  stated of the handlers holds for any of them.  Of the fronthaul library, the scheduling of control-plane messages
  (\<open>xran_cp_proc.c\<close>), the transmission of slots (\<open>xran_tx_proc.c\<close>), timers and delay measurement, the
  configuration of devices and the vectorised compression are left out, as are the sample
  applications, configuration files, logging, and the input and output of packets by DPDK.
\<close>

end
